(* ===== verification/Errors.thy ===== *)
theory Errors
  imports Main "HOL-Library.Word"
begin

text \<open>
  The error types of the protocol core (\<^verbatim>\<open>src/crates/bitchat-core/src/errors.rs\<close>) in the
  \<^verbatim>\<open>std\<close> configuration, and the machine integers every other theory uses.

  A Rust value of type \<^verbatim>\<open>Result<T>\<close> is a value of \<open>'a result\<close>: \<open>Inr\<close> is \<^verbatim>\<open>Ok\<close>,
  \<open>Inl (Err e)\<close> is \<^verbatim>\<open>Err(e)\<close>. A panic (an index or a slice out of range, an
  \<^verbatim>\<open>expect\<close> that fails, a range whose ends are swapped) is the separate value
  \<open>Inl Panic\<close>, so that no theorem can mistake a crash for an error the caller handles.
  An error that wraps a type of a third-party crate (\<^verbatim>\<open>bincode\<close>, \<^verbatim>\<open>snow\<close>), an I/O error
  or the transition error of the connection state machine carries the text it is
  displayed with.
\<close>

section \<open>Machine integers and strings\<close>

type_synonym u8 = "8 word"
type_synonym u16 = "16 word"
type_synonym u32 = "32 word"
type_synonym u64 = "64 word"
type_synonym bytes = "u8 list"

text \<open>
  \<^verbatim>\<open>usize\<close> values (lengths, offsets, counts) are \<open>nat\<close>: they are lengths of in-memory
  buffers and sums of a few of them, which stay far below \<open>2 ^ 64\<close>. A cast that can lose
  bits (\<^verbatim>\<open>len() as u16\<close>) is written out where the code has it.
  A Rust \<^verbatim>\<open>String\<close> is the list of its UTF-8 bytes; literals and messages for display are
  HOL strings.
\<close>

type_synonym rust_string = bytes

section \<open>The error enumerations\<close>

datatype cryptographic_error =
    SignatureVerificationFailed
  | EncryptionFailed
  | DecryptionFailed
  | KeyDerivationFailed
  | InvalidKeyFormat
  | RandomGenerationFailed

datatype transport_error =
    ConnectionFailed string string
  | NetworkIo string
  | TransportUnavailable string
  | SendBufferFull nat
  | ReceiveFailed string
  | ProtocolMismatch string string
  | Timeout u64
  | InvalidConfiguration string
  | Shutdown string
  | PeerNotFound string
  | AuthenticationFailed string

text \<open>The \<^verbatim>\<open>peer_id\<close> of a session error is the display form of the peer, kept here as the
  peer's bytes.\<close>

datatype session_error =
    SessionNotFound bytes
  | HandshakeFailed bytes string
  | SessionTimeout bytes u64
  | InvalidState bytes string string
  | SessionEncryptionFailed bytes
  | SessionDecryptionFailed bytes
  | KeyRotationFailed bytes string
  | SessionAlreadyExists bytes
  | MaxSessionsReached nat nat

datatype fragmentation_error =
    FragmentTooLarge nat nat
  | SequenceError u16 u16
  | DuplicateFragment u16
  | MissingFragments nat
  | FragmentTimeout u64
  | BufferOverflow nat
  | InvalidHeader string
  | NotSupported u8

datatype packet_error =
    PayloadTooSmall nat nat
  | PayloadTooLarge nat nat
  | UnknownMessageType u8
  | InvalidRecipientId
  | InvalidSenderId
  | MalformedHeader
  | ChecksumFailed
  | FragmentSequenceError
  | PacketDuplicateFragment
  | Generic string

datatype bitchat_error =
    Serialization string
  | Crypto cryptographic_error
  | InvalidPacket packet_error
  | Noise string
  | Transport transport_error
  | Session session_error
  | Fragmentation fragmentation_error
  | StateTransition string
  | Signature
  | Channel string
  | Configuration string
  | RateLimited string
  | InvalidTlvType u8
  | TlvValueTooLarge nat
  | InvalidUtf8
  | InvalidKeyLength nat
  | InvalidDataLength nat
  | InsufficientData nat
  | MissingRequiredTlv u8

section \<open>Results\<close>

datatype fault = Err bitchat_error | Panic

type_synonym 'a result = "fault + 'a"

text \<open>\<^verbatim>\<open>BitchatError::invalid_packet\<close> and the other constructors of errors the models return.\<close>

definition invalid_packet :: "string \<Rightarrow> fault" where
  "invalid_packet message = Err (InvalidPacket (Generic message))"

definition serialization_error :: fault where
  "serialization_error = Err (InvalidPacket (Generic ''Serialization failed''))"

definition serialization_error_with_message :: "string \<Rightarrow> fault" where
  "serialization_error_with_message message =
     Err (InvalidPacket (Generic (''Serialization error: '' @ message)))"

definition signature_error :: fault where
  "signature_error = Err Signature"

end
