(* ===== verification/Prelude.thy ===== *)
theory Prelude
  imports Errors "HOL-Library.AList" "HOL-Library.List_Lexorder" "HOL-Library.Sublist"
    "HOL-Library.Product_Lexorder"
begin

text \<open>
  What the components share: the error monad and checked slicing, the big-endian and UTF-8
  encodings of the Rust standard library, saturating arithmetic, association lists for the
  hash and tree maps, and three interfaces as locales: \<open>byte_enum\<close> (an enumeration with a
  one-byte representation), \<open>wire_codec\<close> with \<open>canonical_codec\<close> (a serialiser and its parser)
  and \<open>invariant_system\<close> (a state machine and a predicate every step keeps).
\<close>

unbundle bit_operations_syntax

named_theorems codec_simps \<open>equations that evaluate a parser on the output of its serialiser\<close>
named_theorems frame_simps \<open>fields an operation leaves alone\<close>

section \<open>The error monad\<close>

definition rbind :: "'e + 'a \<Rightarrow> ('a \<Rightarrow> 'e + 'b) \<Rightarrow> 'e + 'b" where
  "rbind m f = (case m of Inl e \<Rightarrow> Inl e | Inr x \<Rightarrow> f x)"

lemma rbind_simps [simp]: "rbind (Inl e) f = Inl e" "rbind (Inr x) f = f x"
  by (simp_all add: rbind_def)

lemma rbind_if [simp]:
  "rbind (if b then m else n) f = (if b then rbind m f else rbind n f)"
  by simp

lemma rbind_eq_Inr: "rbind m f = Inr y \<longleftrightarrow> (\<exists>x. m = Inr x \<and> f x = Inr y)"
  by (cases m) auto

lemma rbind_eq_Inl: "rbind m f = Inl e \<longleftrightarrow> m = Inl e \<or> (\<exists>x. m = Inr x \<and> f x = Inl e)"
  by (cases m) auto

lemma rbind_assoc: "rbind (rbind m f) g = rbind m (\<lambda>x. rbind (f x) g)"
  by (cases m) auto

lemma rbind_InrE:
  assumes "rbind m f = Inr y"
  obtains x where "m = Inr x" "f x = Inr y"
  using assms by (auto simp: rbind_eq_Inr)

lemma rbind_cong [fundef_cong]:
  "m = m' \<Longrightarrow> (\<And>x. m' = Inr x \<Longrightarrow> f x = f' x) \<Longrightarrow> rbind m f = rbind m' f'"
  by (cases m') auto

definition is_ok :: "'e + 'a \<Rightarrow> bool" where
  "is_ok r = (case r of Inl _ \<Rightarrow> False | Inr _ \<Rightarrow> True)"

lemma is_ok_simps [simp]: "is_ok (Inr x)" "\<not> is_ok (Inl e)"
  by (simp_all add: is_ok_def)

lemma is_ok_iff: "is_ok r \<longleftrightarrow> (\<exists>x. r = Inr x)"
  by (cases r) auto

text \<open>A loop that runs a fallible body for each element and collects the results; the first fault
  ends it.\<close>

fun traverse :: "('a \<Rightarrow> 'e + 'b) \<Rightarrow> 'a list \<Rightarrow> 'e + 'b list" where
  "traverse f [] = Inr []"
| "traverse f (x # xs) = rbind (f x) (\<lambda>y. rbind (traverse f xs) (\<lambda>ys. Inr (y # ys)))"

lemma traverse_ok: "(\<And>x. x \<in> set xs \<Longrightarrow> f x = Inr (g x)) \<Longrightarrow> traverse f xs = Inr (map g xs)"
  by (induction xs) auto

section \<open>Checked indexing and slicing\<close>

text \<open>\<^verbatim>\<open>xs[i]\<close> and \<^verbatim>\<open>&xs[a..b]\<close>: out of range is a panic.\<close>

definition index_at :: "'a list \<Rightarrow> nat \<Rightarrow> 'a result" where
  "index_at xs i = (if i < length xs then Inr (xs ! i) else Inl Panic)"

definition slice :: "'a list \<Rightarrow> nat \<Rightarrow> nat \<Rightarrow> 'a list result" where
  "slice xs a b = (if a \<le> b \<and> b \<le> length xs then Inr (take (b - a) (drop a xs)) else Inl Panic)"

lemma index_at_append [codec_simps]: "i = length pre \<Longrightarrow> index_at (pre @ x # post) i = Inr x"
  by (simp add: index_at_def)

lemma slice_append [codec_simps]:
  "a = length pre \<Longrightarrow> b = a + length mid \<Longrightarrow> slice (pre @ mid @ post) a b = Inr mid"
  by (simp add: slice_def)

lemma slice_in_range:
  "a \<le> b \<Longrightarrow> b \<le> length xs \<Longrightarrow> slice xs a b = Inr (take (b - a) (drop a xs))"
  by (simp add: slice_def)

lemma slice_InrD: "slice xs a b = Inr ys \<Longrightarrow> length ys = b - a \<and> a \<le> b \<and> b \<le> length xs"
  by (auto simp: slice_def split: if_splits)

lemma slice_Suc_0: "1 \<le> length xs \<Longrightarrow> slice xs 0 1 = Inr [hd xs]"
  by (cases xs) (simp_all add: slice_def)

lemma take_Suc_drop: "i < length xs \<Longrightarrow> drop i xs = xs ! i # drop (Suc i) xs"
  by (rule Cons_nth_drop_Suc [symmetric])

section \<open>Integers\<close>

text \<open>\<^verbatim>\<open>u64::saturating_sub\<close>, \<^verbatim>\<open>u64::saturating_mul\<close> and \<^verbatim>\<open>usize::div_ceil\<close> (whose divisor is
  checked by the caller: Rust panics on zero).\<close>

definition sat_sub :: "'a::len word \<Rightarrow> 'a word \<Rightarrow> 'a word" where
  "sat_sub a b = (if a < b then 0 else a - b)"

definition sat_mul :: "'a::len word \<Rightarrow> 'a word \<Rightarrow> 'a word" where
  "sat_mul a b = (if unat a * unat b < 2 ^ LENGTH('a) then a * b else - 1)"

definition div_ceil :: "nat \<Rightarrow> nat \<Rightarrow> nat" where
  "div_ceil a b = (if a mod b = 0 then a div b else a div b + 1)"

lemma unat_sat_sub: "unat (sat_sub a b) = unat a - unat b"
  by (simp add: sat_sub_def unat_sub_if_size word_less_nat_alt)

lemma sat_sub_le: "sat_sub a b \<le> a"
  by (simp add: word_le_nat_alt unat_sat_sub)

lemma sat_sub_zero_iff: "sat_sub a b = 0 \<longleftrightarrow> a \<le> b"
  by (simp add: unat_eq_zero [symmetric] unat_sat_sub word_le_nat_alt)

lemma div_ceil_bounds:
  assumes "0 < b"
  shows "a \<le> div_ceil a b * b" and "div_ceil a b * b < a + b"
proof -
  have split: "a div b * b + a mod b = a" and rem: "a mod b < b"
    using assms by simp_all
  have eq: "div_ceil a b * b = (if a mod b = 0 then a div b * b else a div b * b + b)"
    by (simp add: div_ceil_def)
  show "a \<le> div_ceil a b * b"
    unfolding eq using split rem by (simp only: split: if_split) linarith
  show "div_ceil a b * b < a + b"
    unfolding eq using split rem assms by (simp only: split: if_split) linarith
qed

lemma div_ceil_le_iff: "0 < b \<Longrightarrow> div_ceil a b \<le> n \<longleftrightarrow> a \<le> n * b"
proof
  assume b: "0 < b" and "div_ceil a b \<le> n"
  then have "div_ceil a b * b \<le> n * b" by simp
  with div_ceil_bounds(1) [OF b, of a] show "a \<le> n * b" by linarith
next
  assume b: "0 < b" and "a \<le> n * b"
  with div_ceil_bounds(2) [OF b, of a] have "div_ceil a b * b < Suc n * b" by simp
  then have "div_ceil a b < Suc n" by (rule mult_less_cancel2 [THEN iffD1, THEN conjunct2])
  then show "div_ceil a b \<le> n" by simp
qed

lemma div_ceil_pos: "0 < b \<Longrightarrow> 0 < a \<Longrightarrow> 0 < div_ceil a b"
  using div_ceil_bounds(1) [of b a] by (cases "div_ceil a b") auto

lemma unat_u8_bound: "unat (x :: u8) < 256"
  using unsigned_less [of x] by simp

lemma unat_u16_bound: "unat (x :: u16) < 65536"
  using unsigned_less [of x] by simp

lemma unat_u32_bound: "unat (x :: u32) < 4294967296"
  using unsigned_less [of x] by simp

section \<open>Big-endian bytes\<close>

text \<open>\<^verbatim>\<open>to_be_bytes\<close> and \<^verbatim>\<open>from_be_bytes\<close> of the unsigned integers, over the number they denote.\<close>

fun nat_to_be :: "nat \<Rightarrow> nat \<Rightarrow> bytes" where
  "nat_to_be 0 k = []"
| "nat_to_be (Suc n) k = nat_to_be n (k div 256) @ [word_of_nat (k mod 256)]"

definition nat_of_be :: "bytes \<Rightarrow> nat" where
  "nat_of_be bs = foldl (\<lambda>acc b. acc * 256 + unat b) 0 bs"

lemma length_nat_to_be [simp]: "length (nat_to_be n k) = n"
  by (induction n arbitrary: k) auto

lemma nat_of_be_snoc [simp]: "nat_of_be (bs @ [b]) = nat_of_be bs * 256 + unat b"
  by (simp add: nat_of_be_def)

lemma nat_of_be_Nil [simp]: "nat_of_be [] = 0"
  by (simp add: nat_of_be_def)

lemma nat_of_be_bound: "nat_of_be bs < 256 ^ length bs"
proof (induction bs rule: rev_induct)
  case (snoc b bs)
  have "unat b < 256" by (rule unat_u8_bound)
  with snoc have "nat_of_be bs * 256 + unat b < (nat_of_be bs + 1) * 256" by simp
  also have "\<dots> \<le> 256 ^ length bs * 256" using snoc by (intro mult_right_mono) auto
  finally show ?case by simp
qed simp

lemma unat_byte [simp]: "unat (word_of_nat (k mod 256) :: u8) = k mod 256"
  by (simp add: unat_of_nat)

lemma nat_of_be_to_be: "nat_of_be (nat_to_be n k) = k mod 256 ^ n"
proof (induction n arbitrary: k)
  case (Suc n)
  have "nat_of_be (nat_to_be (Suc n) k) = k div 256 mod 256 ^ n * 256 + k mod 256"
    by (simp add: Suc)
  also have "\<dots> = k mod (256 * 256 ^ n)"
    by (simp add: mod_mult2_eq mult.commute)
  finally show ?case by simp
qed simp

lemma nat_to_be_of_be: "nat_to_be (length bs) (nat_of_be bs) = bs"
proof (induction bs rule: rev_induct)
  case (snoc b bs)
  have "unat b < 256" by (rule unat_u8_bound)
  with snoc show ?case by simp
qed simp

definition u16_to_be :: "u16 \<Rightarrow> bytes" where "u16_to_be w = nat_to_be 2 (unat w)"
definition u32_to_be :: "u32 \<Rightarrow> bytes" where "u32_to_be w = nat_to_be 4 (unat w)"
definition u64_to_be :: "u64 \<Rightarrow> bytes" where "u64_to_be w = nat_to_be 8 (unat w)"
definition u16_from_be :: "bytes \<Rightarrow> u16" where "u16_from_be bs = word_of_nat (nat_of_be bs)"
definition u32_from_be :: "bytes \<Rightarrow> u32" where "u32_from_be bs = word_of_nat (nat_of_be bs)"
definition u64_from_be :: "bytes \<Rightarrow> u64" where "u64_from_be bs = word_of_nat (nat_of_be bs)"

lemma length_to_be [simp]:
  "length (u16_to_be x) = 2" "length (u32_to_be y) = 4" "length (u64_to_be z) = 8"
  by (simp_all add: u16_to_be_def u32_to_be_def u64_to_be_def)

lemma nat_to_be_unat:
  "LENGTH('a::len) = 8 * n \<Longrightarrow> word_of_nat (nat_of_be (nat_to_be n (unat (w :: 'a word)))) = w"
proof -
  assume n: "LENGTH('a) = 8 * n"
  have "(256::nat) ^ n = 2 ^ LENGTH('a)" by (simp add: n power_mult)
  then have "unat w mod 256 ^ n = unat w" using unsigned_less [of w] by simp
  then show ?thesis by (simp add: nat_of_be_to_be)
qed

lemma from_be_to_be [simp]:
  "u16_from_be (u16_to_be x) = x" "u32_from_be (u32_to_be y) = y" "u64_from_be (u64_to_be z) = z"
  by (simp_all add: u16_from_be_def u16_to_be_def u32_from_be_def u32_to_be_def
        u64_from_be_def u64_to_be_def nat_to_be_unat)

lemma nat_to_be_word_of_nat:
  assumes "length bs = n" and "LENGTH('a::len) = 8 * n"
  shows "nat_to_be n (unat (word_of_nat (nat_of_be bs) :: 'a word)) = bs"
proof -
  have "(256::nat) ^ n = 2 ^ LENGTH('a)" by (simp add: assms(2) power_mult)
  then have "unat (word_of_nat (nat_of_be bs) :: 'a word) = nat_of_be bs"
    using nat_of_be_bound [of bs] assms(1) by (simp add: unat_of_nat)
  then show ?thesis using nat_to_be_of_be [of bs] assms(1) by simp
qed

lemma to_be_from_be:
  "length bs = 2 \<Longrightarrow> u16_to_be (u16_from_be bs) = bs"
  "length bs = 4 \<Longrightarrow> u32_to_be (u32_from_be bs) = bs"
  "length bs = 8 \<Longrightarrow> u64_to_be (u64_from_be bs) = bs"
  by (simp_all add: u16_from_be_def u16_to_be_def u32_from_be_def u32_to_be_def
        u64_from_be_def u64_to_be_def nat_to_be_word_of_nat)

text \<open>Lengths written as one byte or as two.\<close>

lemma unat_u8_of_nat [simp]: "n < 256 \<Longrightarrow> unat (word_of_nat n :: u8) = n"
  by (simp add: unat_of_nat)

lemma unat_u16_of_nat [simp]: "n < 65536 \<Longrightarrow> unat (word_of_nat n :: u16) = n"
  by (simp add: unat_of_nat)

lemma unat_u32_of_nat [simp]: "n < 4294967296 \<Longrightarrow> unat (word_of_nat n :: u32) = n"
  by (simp add: unat_of_nat)

section \<open>Flag bytes\<close>

text \<open>A flag is set in \<open>f\<close> when \<open>f AND m \<noteq> 0\<close>; \<open>f OR m\<close> sets it and leaves the others alone.\<close>

lemma flag_or_same [simp]: "(f OR m) AND m = (m :: 'a::len word)"
  by (rule bit_word_eqI) (auto simp: bit_simps)

lemma flag_or_other: "m AND k = 0 \<Longrightarrow> (f OR m) AND k = f AND (k :: 'a::len word)"
  by (simp add: bit.conj_disj_distrib2)

lemma flag_clear: "f AND m = 0 \<Longrightarrow> (f OR m) AND NOT m = (f :: 'a::len word)"
proof -
  assume "f AND m = 0"
  then have "\<not> bit (f AND m) n" for n by simp
  then show ?thesis by (intro bit_word_eqI) (auto simp: bit_simps)
qed

section \<open>UTF-8\<close>

text \<open>
  The decoder behind \<^verbatim>\<open>String::from_utf8\<close> and \<^verbatim>\<open>str::chars\<close>: the scalar values of a well-formed
  byte sequence, \<open>None\<close> for an ill-formed one (overlong forms, surrogates and values above
  \<^verbatim>\<open>10FFFF\<close> are ill-formed).
\<close>

definition utf8_cont :: "u8 \<Rightarrow> bool" where
  "utf8_cont b = (0x80 \<le> b \<and> b \<le> 0xBF)"

definition utf8_second :: "u8 \<Rightarrow> u8 \<Rightarrow> bool" where
  "utf8_second b0 b1 =
     (if b0 = 0xE0 then 0xA0 \<le> b1 \<and> b1 \<le> 0xBF
      else if b0 = 0xED then 0x80 \<le> b1 \<and> b1 \<le> 0x9F
      else if b0 = 0xF0 then 0x90 \<le> b1 \<and> b1 \<le> 0xBF
      else if b0 = 0xF4 then 0x80 \<le> b1 \<and> b1 \<le> 0x8F
      else utf8_cont b1)"

fun utf8_decode :: "bytes \<Rightarrow> nat list option" where
  "utf8_decode [] = Some []"
| "utf8_decode (b0 # r) =
     (if b0 \<le> 0x7F then map_option ((#) (unat b0)) (utf8_decode r)
      else if 0xC2 \<le> b0 \<and> b0 \<le> 0xDF then
        (case r of
           b1 # r1 \<Rightarrow>
             if utf8_cont b1
             then map_option ((#) (unat (b0 AND 0x1F) * 64 + unat (b1 AND 0x3F))) (utf8_decode r1)
             else None
         | _ \<Rightarrow> None)
      else if 0xE0 \<le> b0 \<and> b0 \<le> 0xEF then
        (case r of
           b1 # b2 # r2 \<Rightarrow>
             if utf8_second b0 b1 \<and> utf8_cont b2
             then map_option ((#) (unat (b0 AND 0x0F) * 4096 + unat (b1 AND 0x3F) * 64
                                   + unat (b2 AND 0x3F))) (utf8_decode r2)
             else None
         | _ \<Rightarrow> None)
      else if 0xF0 \<le> b0 \<and> b0 \<le> 0xF4 then
        (case r of
           b1 # b2 # b3 # r3 \<Rightarrow>
             if utf8_second b0 b1 \<and> utf8_cont b2 \<and> utf8_cont b3
             then map_option ((#) (unat (b0 AND 0x07) * 262144 + unat (b1 AND 0x3F) * 4096
                                   + unat (b2 AND 0x3F) * 64 + unat (b3 AND 0x3F))) (utf8_decode r3)
             else None
         | _ \<Rightarrow> None)
      else None)"

text \<open>\<^verbatim>\<open>String::from_utf8_lossy\<close>: every maximal ill-formed prefix of a sequence becomes U+FFFD. The first
  function is the number of bytes of the sequence at the head and whether it is well formed.\<close>

fun utf8_head :: "bytes \<Rightarrow> bool \<times> nat" where
  "utf8_head [] = (True, 0)"
| "utf8_head (b0 # r) =
     (if b0 \<le> 0x7F then (True, 1)
      else if 0xC2 \<le> b0 \<and> b0 \<le> 0xDF then
        (case r of b1 # _ \<Rightarrow> if utf8_cont b1 then (True, 2) else (False, 1) | [] \<Rightarrow> (False, 1))
      else if 0xE0 \<le> b0 \<and> b0 \<le> 0xEF then
        (case r of
           b1 # r1 \<Rightarrow>
             if utf8_second b0 b1
             then (case r1 of b2 # _ \<Rightarrow> if utf8_cont b2 then (True, 3) else (False, 2) | [] \<Rightarrow> (False, 2))
             else (False, 1)
         | [] \<Rightarrow> (False, 1))
      else if 0xF0 \<le> b0 \<and> b0 \<le> 0xF4 then
        (case r of
           b1 # r1 \<Rightarrow>
             if utf8_second b0 b1
             then (case r1 of
                     b2 # r2 \<Rightarrow>
                       if utf8_cont b2
                       then (case r2 of b3 # _ \<Rightarrow> if utf8_cont b3 then (True, 4) else (False, 3)
                             | [] \<Rightarrow> (False, 3))
                       else (False, 2)
                   | [] \<Rightarrow> (False, 2))
             else (False, 1)
         | [] \<Rightarrow> (False, 1))
      else (False, 1))"

lemma utf8_head_pos: "bs \<noteq> [] \<Longrightarrow> 0 < snd (utf8_head bs)"
  by (cases bs) (simp_all split: list.split)

function utf8_lossy :: "bytes \<Rightarrow> bytes" where
  "utf8_lossy bs =
     (if bs = [] then []
      else case utf8_head bs of (ok, n) \<Rightarrow>
        (if ok then take n bs else [0xEF, 0xBF, 0xBD]) @ utf8_lossy (drop n bs))"
  by pat_completeness auto
termination
proof (relation "measure length")
  fix bs ok n assume "bs \<noteq> []" "(ok, n) = utf8_head bs"
  with utf8_head_pos [of bs] have "0 < n" by (metis snd_conv)
  with \<open>bs \<noteq> []\<close> show "(drop n bs, bs) \<in> measure length" by simp
qed simp

declare utf8_lossy.simps [simp del]

definition utf8_valid :: "bytes \<Rightarrow> bool" where
  "utf8_valid bs = (utf8_decode bs \<noteq> None)"

definition chars_of :: "rust_string \<Rightarrow> nat list" where
  "chars_of s = (case utf8_decode s of Some cs \<Rightarrow> cs | None \<Rightarrow> [])"

text \<open>A text of the program as the bytes of its characters.\<close>

definition text_of :: "string \<Rightarrow> rust_string" where
  "text_of s = map of_char s"

lemma utf8_decode_ascii: "list_all (\<lambda>b. b \<le> 0x7F) bs \<Longrightarrow> utf8_decode bs = Some (map unat bs)"
  by (induction bs) auto

lemma utf8_valid_ascii: "list_all (\<lambda>b. b \<le> 0x7F) bs \<Longrightarrow> utf8_valid bs"
  by (simp add: utf8_valid_def utf8_decode_ascii)

lemma utf8_valid_Nil [simp]: "utf8_valid []"
  by (simp add: utf8_valid_def)

section \<open>Maps as association lists\<close>

text \<open>
  A \<^verbatim>\<open>HashMap\<close> or \<^verbatim>\<open>BTreeMap\<close> is an association list with distinct keys. The order of the list is
  the order a loop over the map visits it; nothing that is proved depends on it.
\<close>

abbreviation keys_of :: "('k \<times> 'v) list \<Rightarrow> 'k list" where
  "keys_of m \<equiv> map fst m"

abbreviation map_put :: "'k \<Rightarrow> 'v \<Rightarrow> ('k \<times> 'v) list \<Rightarrow> ('k \<times> 'v) list" where
  "map_put \<equiv> AList.update"

abbreviation map_del :: "'k \<Rightarrow> ('k \<times> 'v) list \<Rightarrow> ('k \<times> 'v) list" where
  "map_del \<equiv> AList.delete"

definition has_key :: "('k \<times> 'v) list \<Rightarrow> 'k \<Rightarrow> bool" where
  "has_key m k = (map_of m k \<noteq> None)"

declare map_of_eq_Some_iff [simp del] Some_eq_map_of_iff [simp del]

lemma has_key_iff: "has_key m k \<longleftrightarrow> k \<in> set (keys_of m)"
  by (simp add: has_key_def map_of_eq_None_iff)

lemma map_of_put [simp]: "map_of (map_put k v m) = (map_of m)(k \<mapsto> v)"
  by (rule update_conv')

lemma map_of_del [simp]: "map_of (map_del k m) = (map_of m)(k := None)"
  by (rule delete_conv')

lemma distinct_put [simp]: "distinct (keys_of m) \<Longrightarrow> distinct (keys_of (map_put k v m))"
  by (rule distinct_update)

lemma distinct_del [simp]: "distinct (keys_of m) \<Longrightarrow> distinct (keys_of (map_del k m))"
  by (rule distinct_delete)

lemma keys_put: "set (keys_of (map_put k v m)) = insert k (set (keys_of m))"
  by (simp add: dom_update)

lemma keys_del: "set (keys_of (map_del k m)) = set (keys_of m) - {k}"
  by (simp add: delete_keys)

lemma length_put:
  "length (map_put k v m) = (if has_key m k then length m else Suc (length m))"
proof -
  have "length (keys_of (map_put k v m)) =
      (if k \<in> set (keys_of m) then length (keys_of m) else Suc (length (keys_of m)))"
    by (simp only: update_keys) simp
  then show ?thesis by (simp only: length_map has_key_iff)
qed

lemma length_del:
  assumes "distinct (keys_of m)"
  shows "length (map_del k m) = (if has_key m k then length m - 1 else length m)"
proof -
  have "length (keys_of (map_del k m)) =
      (if k \<in> set (keys_of m) then length (keys_of m) - 1 else length (keys_of m))"
    by (simp only: delete_keys distinct_remove1_removeAll [OF assms, symmetric] length_remove1)
  then show ?thesis by (simp only: length_map has_key_iff)
qed

lemma map_of_filter_distinct:
  "distinct (keys_of m) \<Longrightarrow>
   map_of (filter P m) k = (case map_of m k of None \<Rightarrow> None | Some v \<Rightarrow> if P (k, v) then Some v else None)"
proof (induction m)
  case (Cons p m)
  obtain k' v' where p: "p = (k', v')" by (cases p)
  with Cons have IH: "map_of (filter P m) k =
      (case map_of m k of None \<Rightarrow> None | Some v \<Rightarrow> if P (k, v) then Some v else None)"
    and new: "k' \<notin> fst ` set m"
    by auto
  then have "k = k' \<Longrightarrow> map_of m k = None" by (simp add: map_of_eq_None_iff)
  with IH p show ?case by auto
qed simp

lemma map_of_filterD:
  "distinct (keys_of m) \<Longrightarrow> map_of (filter P m) k = Some v \<Longrightarrow> map_of m k = Some v \<and> P (k, v)"
  by (simp add: map_of_filter_distinct split: option.splits if_splits)

lemma map_le_filter: "distinct (keys_of m) \<Longrightarrow> map_of (filter P m) \<subseteq>\<^sub>m map_of m"
  unfolding map_le_def using map_of_filterD by fastforce

lemma distinct_filter_keys: "distinct (keys_of m) \<Longrightarrow> distinct (keys_of (filter P m))"
  by (simp add: distinct_map_filter)

lemma map_of_fold_del: "map_of (fold map_del ks m) k = (if k \<in> set ks then None else map_of m k)"
  by (induction ks arbitrary: m) auto

lemma distinct_fold_del: "distinct (keys_of m) \<Longrightarrow> distinct (keys_of (fold map_del ks m))"
  by (induction ks arbitrary: m) auto

section \<open>Interfaces\<close>

subsection \<open>Enumerations with a one-byte representation\<close>

locale byte_enum =
  fixes as_u8 :: "'a \<Rightarrow> u8"
    and from_u8 :: "u8 \<Rightarrow> 'a result"
    and member :: "'a \<Rightarrow> bool"
  assumes from_as: "member t \<Longrightarrow> from_u8 (as_u8 t) = Inr t"
    and as_from: "from_u8 b = Inr t \<Longrightarrow> member t \<and> as_u8 t = b"
begin

lemma as_u8_inject: "member s \<Longrightarrow> member t \<Longrightarrow> as_u8 s = as_u8 t \<Longrightarrow> s = t"
  by (metis from_as sum.inject(2))

lemma from_u8_ok_iff: "is_ok (from_u8 b) \<longleftrightarrow> (\<exists>t. member t \<and> as_u8 t = b)"
  using as_from from_as by (auto simp: is_ok_iff)

lemma from_u8_inject: "from_u8 b = Inr t \<Longrightarrow> from_u8 c = Inr t \<Longrightarrow> b = c"
  using as_from by blast

end

subsection \<open>Serialisers and parsers\<close>

locale wire_codec =
  fixes enc :: "'a \<Rightarrow> bytes result"
    and dec :: "bytes \<Rightarrow> 'a result"
    and valid :: "'a \<Rightarrow> bool"
  assumes enc_ok: "valid x \<Longrightarrow> is_ok (enc x)"
    and dec_enc: "valid x \<Longrightarrow> enc x = Inr b \<Longrightarrow> dec b = Inr x"
begin

lemma roundtrip: "valid x \<Longrightarrow> rbind (enc x) dec = Inr x"
proof -
  assume x: "valid x"
  then obtain b where b: "enc x = Inr b" using enc_ok [of x] by (auto simp: is_ok_iff)
  with dec_enc [OF x b] show ?thesis by simp
qed

lemma enc_inject: "valid x \<Longrightarrow> valid y \<Longrightarrow> enc x = enc y \<Longrightarrow> x = y"
  by (metis roundtrip sum.inject(2))

end

text \<open>A canonical codec accepts nothing but the output of its serialiser, so that two
  different byte strings never parse to the same value. The law is restricted to the inputs
  with \<open>framed b\<close> (for the packet format: those that announce version 1).\<close>

locale canonical_codec = wire_codec +
  fixes framed :: "bytes \<Rightarrow> bool"
  assumes enc_framed: "valid x \<Longrightarrow> enc x = Inr b \<Longrightarrow> framed b"
    and dec_canonical: "framed b \<Longrightarrow> dec b = Inr x \<Longrightarrow> valid x \<and> enc x = Inr b"
begin

lemma dec_inject: "framed b \<Longrightarrow> framed c \<Longrightarrow> dec b = Inr x \<Longrightarrow> dec c = Inr x \<Longrightarrow> b = c"
  by (metis dec_canonical sum.inject(2))

lemma dec_ok_iff: "framed b \<Longrightarrow> dec b = Inr x \<longleftrightarrow> valid x \<and> enc x = Inr b"
  using dec_canonical dec_enc by blast

end

subsection \<open>State machines\<close>

inductive reachable :: "('s \<Rightarrow> bool) \<Rightarrow> ('s \<Rightarrow> 's \<Rightarrow> bool) \<Rightarrow> 's \<Rightarrow> bool"
  for start :: "'s \<Rightarrow> bool" and step :: "'s \<Rightarrow> 's \<Rightarrow> bool" where
  reach_start: "start s \<Longrightarrow> reachable start step s"
| reach_step: "reachable start step s \<Longrightarrow> step s t \<Longrightarrow> reachable start step t"

locale invariant_system =
  fixes start :: "'s \<Rightarrow> bool"
    and step :: "'s \<Rightarrow> 's \<Rightarrow> bool"
    and invar :: "'s \<Rightarrow> bool"
  assumes invar_start: "start s \<Longrightarrow> invar s"
    and invar_step: "invar s \<Longrightarrow> step s t \<Longrightarrow> invar t"
begin

lemma invar_reachable: "reachable start step s \<Longrightarrow> invar s"
  by (induction rule: reachable.induct) (auto intro: invar_start invar_step)

lemma invar_steps: "step\<^sup>*\<^sup>* s t \<Longrightarrow> invar s \<Longrightarrow> invar t"
  by (induction rule: rtranclp_induct) (auto intro: invar_step)

end

text \<open>The entries and the values of a \<^verbatim>\<open>BTreeMap\<close> in the order of iteration.\<close>

definition btree_entries :: "('k::linorder \<times> 'v) list \<Rightarrow> ('k \<times> 'v) list" where
  "btree_entries m = sort_key fst m"

definition btree_values :: "('k::linorder \<times> 'v) list \<Rightarrow> 'v list" where
  "btree_values m = map snd (btree_entries m)"

section \<open>Sorting by a comparison\<close>

datatype rust_ordering = OrdLess | OrdEqual | OrdGreater

text \<open>\<^verbatim>\<open>sort_by\<close> is a stable sort by a comparison.\<close>

fun insert_by :: "('a \<Rightarrow> 'a \<Rightarrow> rust_ordering) \<Rightarrow> 'a \<Rightarrow> 'a list \<Rightarrow> 'a list" where
  "insert_by cmp x [] = [x]"
| "insert_by cmp x (y # ys) = (if cmp x y = OrdGreater then y # insert_by cmp x ys else x # y # ys)"

definition sort_by :: "('a \<Rightarrow> 'a \<Rightarrow> rust_ordering) \<Rightarrow> 'a list \<Rightarrow> 'a list" where
  "sort_by cmp xs = foldr (insert_by cmp) xs []"

lemma insert_by_insort:
  "(\<And>a b. cmp a b = OrdGreater \<longleftrightarrow> key b < (key a :: 'k::linorder)) \<Longrightarrow> insert_by cmp x ys = insort_key key x ys"
  by (induction ys) (auto simp: not_le)

lemma sort_by_sort_key:
  assumes "\<And>a b. cmp a b = OrdGreater \<longleftrightarrow> key b < (key a :: 'k::linorder)"
  shows "sort_by cmp xs = sort_key key xs"
  unfolding sort_by_def sort_key_def
  by (induction xs) (simp_all add: insert_by_insort [of cmp key, OF assms])

end
