(* ===== verification/Core_Types.thy ===== *)
theory Core_Types
  imports Prelude
begin

text \<open>
  The newtypes of \<^verbatim>\<open>src/crates/bitchat-core/src/types.rs\<close>: \<^verbatim>\<open>PeerId\<close>, \<^verbatim>\<open>Fingerprint\<close>, \<^verbatim>\<open>Timestamp\<close>
  and \<^verbatim>\<open>Ttl\<close>.

  A fixed-size array \<^verbatim>\<open>[u8; N]\<close> is a byte list whose length is the type invariant
  (\<open>peer_id_wf\<close>, \<open>fingerprint_wf\<close>); the constructors below establish it. Arrays are ordered
  lexicographically, as the derived \<^verbatim>\<open>Ord\<close> orders them. A \<^verbatim>\<open>Timestamp\<close> is its \<^verbatim>\<open>u64\<close>; the wall clock
  is an argument of every operation that reads it. A \<^verbatim>\<open>Duration\<close> is a number of milliseconds.
  Additions wrap around, as they do in a release build.
  \<^verbatim>\<open>hex::decode\<close> belongs to a third-party crate and is the argument \<open>hex_decode\<close>.
\<close>

section \<open>Peer identifiers\<close>

type_synonym peer_id = bytes

definition peer_id_wf :: "peer_id \<Rightarrow> bool" where
  "peer_id_wf p = (length p = 8)"

text \<open>\<^verbatim>\<open>copy_from_slice\<close> into a zeroed array of \<open>n\<close> bytes: at most \<open>n\<close> bytes, zeros after them.\<close>

definition pad_array :: "nat \<Rightarrow> bytes \<Rightarrow> bytes" where
  "pad_array n bs = take n bs @ replicate (n - length bs) 0"

definition peer_id_from_bytes :: "bytes \<Rightarrow> peer_id" where
  "peer_id_from_bytes bs = pad_array 8 bs"

definition peer_id_from_noise_key :: "bytes \<Rightarrow> peer_id" where
  "peer_id_from_noise_key noise_key = take 8 noise_key"

definition BROADCAST :: peer_id where
  "BROADCAST = replicate 8 0xFF"

definition strip_0x :: "string \<Rightarrow> string" where
  "strip_0x s = (if take 2 s = ''0x'' then drop 2 s else s)"

definition peer_id_from_str :: "(string \<Rightarrow> bytes option) \<Rightarrow> string \<Rightarrow> peer_id result" where
  "peer_id_from_str hex_decode s =
     (case hex_decode (strip_0x s) of
        None \<Rightarrow> Inl (invalid_packet ''Invalid hex in PeerId'')
      | Some bs \<Rightarrow>
          if length bs \<noteq> 8 then
            if 8 < length bs then Inr (take 8 bs)
            else Inr (bs @ replicate (8 - length bs) 0)
          else Inr bs)"

section \<open>Fingerprints\<close>

type_synonym fingerprint = bytes

definition fingerprint_wf :: "fingerprint \<Rightarrow> bool" where
  "fingerprint_wf f = (length f = 32)"

definition fingerprint_to_peer_id :: "fingerprint \<Rightarrow> peer_id" where
  "fingerprint_to_peer_id f = peer_id_from_bytes f"

definition fingerprint_from_str :: "(string \<Rightarrow> bytes option) \<Rightarrow> string \<Rightarrow> fingerprint result" where
  "fingerprint_from_str hex_decode s =
     (case hex_decode (strip_0x s) of
        None \<Rightarrow> Inl (invalid_packet ''Invalid hex in Fingerprint'')
      | Some bs \<Rightarrow>
          if length bs \<noteq> 32
          then Inl (invalid_packet ''Fingerprint must be exactly 32 bytes'')
          else Inr bs)"

section \<open>Timestamps and durations\<close>

type_synonym timestamp = u64
type_synonym duration = nat

definition from_secs :: "nat \<Rightarrow> duration" where
  "from_secs s = s * 1000"

definition timestamp_add :: "timestamp \<Rightarrow> u64 \<Rightarrow> timestamp" where
  "timestamp_add t other = t + other"

definition timestamp_sub :: "timestamp \<Rightarrow> timestamp \<Rightarrow> u64" where
  "timestamp_sub t other = sat_sub t other"

definition timestamp_sub_duration :: "timestamp \<Rightarrow> duration \<Rightarrow> timestamp" where
  "timestamp_sub_duration t d = sat_sub t (word_of_nat d)"

definition add_seconds :: "timestamp \<Rightarrow> u64 \<Rightarrow> timestamp" where
  "add_seconds t seconds = t + seconds * 1000"

definition duration_since :: "timestamp \<Rightarrow> timestamp \<Rightarrow> duration" where
  "duration_since t other = unat (sat_sub t other)"

section \<open>Time to live\<close>

type_synonym ttl = u8

definition TTL_DEFAULT :: ttl where "TTL_DEFAULT = 7"
definition TTL_MAX :: ttl where "TTL_MAX = 7"

definition ttl_decrement :: "ttl \<Rightarrow> ttl option" where
  "ttl_decrement t = (if 0 < t then Some (t - 1) else None)"

text \<open>A packet that every relay passes on after decrementing its TTL: the hops it makes.\<close>

fun ttl_hops :: "nat \<Rightarrow> ttl \<Rightarrow> ttl option" where
  "ttl_hops 0 t = Some t"
| "ttl_hops (Suc n) t = (case ttl_decrement t of None \<Rightarrow> None | Some t' \<Rightarrow> ttl_hops n t')"

section \<open>Lemmas\<close>

lemma length_pad_array [simp]: "length (pad_array n bs) = n"
  by (simp add: pad_array_def)

lemma peer_id_from_bytes_wf [simp]: "peer_id_wf (peer_id_from_bytes bs)"
  by (simp add: peer_id_wf_def peer_id_from_bytes_def)

lemma BROADCAST_wf [simp]: "peer_id_wf BROADCAST"
  by (simp add: peer_id_wf_def BROADCAST_def)

lemma peer_id_from_noise_key_wf: "length key = 32 \<Longrightarrow> peer_id_wf (peer_id_from_noise_key key)"
  by (simp add: peer_id_wf_def peer_id_from_noise_key_def)

lemma peer_id_from_bytes_id: "peer_id_wf p \<Longrightarrow> peer_id_from_bytes p = p"
  by (simp add: peer_id_wf_def peer_id_from_bytes_def pad_array_def)

lemma unat_ttl_decrement: "ttl_decrement t = Some t' \<Longrightarrow> unat t = Suc (unat t')"
  by (auto simp: ttl_decrement_def unat_minus_one word_gt_0 unat_gt_0 split: if_splits)

lemma ttl_decrement_None: "ttl_decrement t = None \<longleftrightarrow> unat t = 0"
  by (auto simp: ttl_decrement_def word_gt_0 unat_eq_zero split: if_splits)

lemma ttl_hops_iff: "ttl_hops n t \<noteq> None \<longleftrightarrow> n \<le> unat t"
proof (induction n arbitrary: t)
  case (Suc n)
  show ?case
  proof (cases "ttl_decrement t")
    case None
    then have "unat t = 0" by (simp add: ttl_decrement_None)
    with None show ?thesis by simp
  next
    case (Some t')
    with Suc [of t'] unat_ttl_decrement [OF Some] show ?thesis by simp
  qed
qed simp

lemma peer_id_from_str_eq:
  "peer_id_from_str hex_decode s =
     (case hex_decode (strip_0x s) of
        None \<Rightarrow> Inl (invalid_packet ''Invalid hex in PeerId'')
      | Some bs \<Rightarrow> Inr (peer_id_from_bytes bs))"
  by (auto simp: peer_id_from_str_def peer_id_from_bytes_def pad_array_def split: option.split)

lemma unat_timestamp_sub: "unat (timestamp_sub a b) = unat a - unat b"
  by (simp add: timestamp_sub_def unat_sat_sub)

end
