(* ===== verification/Crypto.thy ===== *)
theory Crypto
  imports Core_Types
begin

text \<open>
  The wrappers of \<^verbatim>\<open>src/crates/bitchat-core/src/protocol/crypto.rs\<close> around Ed25519 and SHA-256.

  The primitives are third-party crates: \<^verbatim>\<open>ed25519_dalek\<close> is a value of the record \<open>ed25519\<close> that
  every definition takes as an argument, SHA-256 is an argument \<open>sha256\<close>. What the code relies
  on is the predicate \<open>ed25519_correct\<close> (a signature made with a key verifies under that key,
  keys and signatures have their fixed sizes) and \<open>sha256_size\<close>.
\<close>

record ('sk, 'vk) ed25519 =
  sk_from_bytes :: "bytes \<Rightarrow> 'sk"
  sk_to_bytes :: "'sk \<Rightarrow> bytes"
  sk_verifying_key :: "'sk \<Rightarrow> 'vk"
  sk_sign :: "'sk \<Rightarrow> bytes \<Rightarrow> bytes"
  vk_to_bytes :: "'vk \<Rightarrow> bytes"
  vk_from_bytes :: "bytes \<Rightarrow> 'vk option"
  vk_verify :: "'vk \<Rightarrow> bytes \<Rightarrow> bytes \<Rightarrow> bool"

definition ed25519_correct :: "('sk, 'vk) ed25519 \<Rightarrow> bool" where
  "ed25519_correct ed \<longleftrightarrow>
     (\<forall>vk. vk_from_bytes ed (vk_to_bytes ed vk) = Some vk \<and> length (vk_to_bytes ed vk) = 32) \<and>
     (\<forall>sk m. vk_verify ed (sk_verifying_key ed sk) m (sk_sign ed sk m) \<and>
        length (sk_sign ed sk m) = 64)"

definition sha256_size :: "(bytes \<Rightarrow> bytes) \<Rightarrow> bool" where
  "sha256_size sha256 \<longleftrightarrow> (\<forall>m. length (sha256 m) = 32)"

section \<open>Identity key pairs\<close>

record ('sk, 'vk) identity_key_pair =
  signing_key :: 'sk
  verifying_key :: 'vk

text \<open>\<^verbatim>\<open>generate_with_rng\<close> is \<open>identity_from_bytes\<close> at the 32 bytes the generator fills.\<close>

definition identity_from_bytes ::
    "('sk, 'vk) ed25519 \<Rightarrow> bytes \<Rightarrow> ('sk, 'vk) identity_key_pair result" where
  "identity_from_bytes ed private_key =
     (let sk = sk_from_bytes ed private_key
      in Inr \<lparr>signing_key = sk, verifying_key = sk_verifying_key ed sk\<rparr>)"

definition public_key_bytes :: "('sk, 'vk) ed25519 \<Rightarrow> ('sk, 'vk) identity_key_pair \<Rightarrow> bytes" where
  "public_key_bytes ed kp = vk_to_bytes ed (verifying_key kp)"

definition private_key_bytes :: "('sk, 'vk) ed25519 \<Rightarrow> ('sk, 'vk) identity_key_pair \<Rightarrow> bytes" where
  "private_key_bytes ed kp = sk_to_bytes ed (signing_key kp)"

definition identity_sign ::
    "('sk, 'vk) ed25519 \<Rightarrow> ('sk, 'vk) identity_key_pair \<Rightarrow> bytes \<Rightarrow> bytes" where
  "identity_sign ed kp data = sk_sign ed (signing_key kp) data"

definition identity_verify :: "('sk, 'vk) ed25519 \<Rightarrow> bytes \<Rightarrow> bytes \<Rightarrow> bytes \<Rightarrow> unit result" where
  "identity_verify ed public_key data sig =
     (case vk_from_bytes ed public_key of
        None \<Rightarrow> Inl signature_error
      | Some vk \<Rightarrow> if vk_verify ed vk data sig then Inr () else Inl signature_error)"

section \<open>Fingerprints\<close>

definition generate_fingerprint :: "(bytes \<Rightarrow> bytes) \<Rightarrow> bytes \<Rightarrow> fingerprint" where
  "generate_fingerprint sha256 public_key = sha256 public_key"

section \<open>Lemmas\<close>

text \<open>A key pair whose halves belong together, which is what \<open>identity_from_bytes\<close> builds.\<close>

definition key_pair_ok :: "('sk, 'vk) ed25519 \<Rightarrow> ('sk, 'vk) identity_key_pair \<Rightarrow> bool" where
  "key_pair_ok ed kp = (verifying_key kp = sk_verifying_key ed (signing_key kp))"

lemma identity_from_bytes_ok: "identity_from_bytes ed b = Inr kp \<Longrightarrow> key_pair_ok ed kp"
  by (auto simp: identity_from_bytes_def key_pair_ok_def Let_def)

lemma identity_verify_sign:
  assumes "ed25519_correct ed" and "key_pair_ok ed kp"
  shows "identity_verify ed (public_key_bytes ed kp) m (identity_sign ed kp m) = Inr ()"
  using assms
  by (simp add: ed25519_correct_def key_pair_ok_def identity_verify_def public_key_bytes_def
        identity_sign_def)

lemma identity_sizes:
  assumes "ed25519_correct ed"
  shows "length (public_key_bytes ed kp) = 32" and "length (identity_sign ed kp m) = 64"
  using assms by (simp_all add: ed25519_correct_def public_key_bytes_def identity_sign_def)

text \<open>A toy signature scheme that satisfies the hypotheses, for the witnesses: the key is one byte
  and every signature is that byte repeated.\<close>

definition toy_ed25519 :: "(u8, u8) ed25519" where
  "toy_ed25519 =
     \<lparr>sk_from_bytes = (\<lambda>bs. case bs of [] \<Rightarrow> 0 | b # _ \<Rightarrow> b),
      sk_to_bytes = (\<lambda>k. replicate 32 k),
      sk_verifying_key = (\<lambda>k. k),
      sk_sign = (\<lambda>k m. replicate 64 k),
      vk_to_bytes = (\<lambda>k. replicate 32 k),
      vk_from_bytes = (\<lambda>bs. case bs of [] \<Rightarrow> None | b # _ \<Rightarrow> Some b),
      vk_verify = (\<lambda>k m s. s = replicate 64 k)\<rparr>"

definition toy_sha256 :: "bytes \<Rightarrow> bytes" where
  "toy_sha256 m = pad_array 32 m"

lemma toy_ed25519_correct: "ed25519_correct toy_ed25519"
  by (simp add: ed25519_correct_def toy_ed25519_def numeral_eq_Suc)

lemma toy_sha256_size: "sha256_size toy_sha256"
  by (simp add: sha256_size_def toy_sha256_def)

text \<open>A toy serialisation of byte strings, for the witnesses: every byte follows a 1, a 0 ends the string.\<close>

definition toy_field :: "bytes \<Rightarrow> bytes" where
  "toy_field bs = concat (map (\<lambda>b. [1, b]) bs) @ [0]"

fun toy_parse :: "bytes \<Rightarrow> bytes \<times> bytes" where
  "toy_parse (x # y # zs) = (if x = 1 then apfst (Cons y) (toy_parse zs) else ([], y # zs))"
| "toy_parse _ = ([], [])"

lemma toy_parse_field: "ys \<noteq> [] \<Longrightarrow> toy_parse (toy_field bs @ ys) = (bs, ys)"
  by (induction bs) (auto simp: toy_field_def neq_Nil_conv)

end
