(* ===== verification/Packet.thy ===== *)
theory Packet
  imports Crypto
begin

text \<open>
  The packet format of \<^verbatim>\<open>src/crates/bitchat-core/src/protocol/packet.rs\<close>: message types, the flag
  byte, the header with its two versions, the packet, its validation and its signature.
\<close>

section \<open>Constants\<close>

definition PROTOCOL_VERSION_1 :: u8 where "PROTOCOL_VERSION_1 = 1"
definition PROTOCOL_VERSION_2 :: u8 where "PROTOCOL_VERSION_2 = 2"
definition CURRENT_PROTOCOL_VERSION :: u8 where "CURRENT_PROTOCOL_VERSION = PROTOCOL_VERSION_1"
definition HEADER_SIZE_V1 :: nat where "HEADER_SIZE_V1 = 13"
definition HEADER_SIZE_V2 :: nat where "HEADER_SIZE_V2 = 15"
definition MAX_PAYLOAD_SIZE_V1 :: nat where "MAX_PAYLOAD_SIZE_V1 = 255"
definition MAX_PAYLOAD_SIZE_V2 :: nat where "MAX_PAYLOAD_SIZE_V2 = 4294967295"

lemmas packet_consts = PROTOCOL_VERSION_1_def PROTOCOL_VERSION_2_def CURRENT_PROTOCOL_VERSION_def
  HEADER_SIZE_V1_def HEADER_SIZE_V2_def MAX_PAYLOAD_SIZE_V1_def MAX_PAYLOAD_SIZE_V2_def

lemma versions_distinct [simp]:
  "PROTOCOL_VERSION_1 \<noteq> PROTOCOL_VERSION_2" "PROTOCOL_VERSION_2 \<noteq> PROTOCOL_VERSION_1"
  by (simp_all add: packet_consts)

section \<open>Message types\<close>

datatype message_type =
    Announce | Message | Leave | NoiseHandshake | NoiseEncrypted
  | Fragment | RequestSync | FileTransfer | VersionHello | VersionAck

fun message_type_as_u8 :: "message_type \<Rightarrow> u8" where
  "message_type_as_u8 Announce = 0x01"
| "message_type_as_u8 Message = 0x02"
| "message_type_as_u8 Leave = 0x03"
| "message_type_as_u8 NoiseHandshake = 0x10"
| "message_type_as_u8 NoiseEncrypted = 0x11"
| "message_type_as_u8 Fragment = 0x20"
| "message_type_as_u8 RequestSync = 0x21"
| "message_type_as_u8 FileTransfer = 0x22"
| "message_type_as_u8 VersionHello = 0x30"
| "message_type_as_u8 VersionAck = 0x31"

definition message_type_from_u8 :: "u8 \<Rightarrow> message_type result" where
  "message_type_from_u8 value =
     (if value = 0x01 then Inr Announce
      else if value = 0x02 then Inr Message
      else if value = 0x03 then Inr Leave
      else if value = 0x10 then Inr NoiseHandshake
      else if value = 0x11 then Inr NoiseEncrypted
      else if value = 0x20 then Inr Fragment
      else if value = 0x21 then Inr RequestSync
      else if value = 0x22 then Inr FileTransfer
      else if value = 0x30 then Inr VersionHello
      else if value = 0x31 then Inr VersionAck
      else Inl (invalid_packet ''Unknown message type''))"

section \<open>Flags\<close>

type_synonym packet_flags = u8

definition PF_NONE :: packet_flags where "PF_NONE = 0x00"
definition PF_HAS_RECIPIENT :: packet_flags where "PF_HAS_RECIPIENT = 0x01"
definition PF_HAS_SIGNATURE :: packet_flags where "PF_HAS_SIGNATURE = 0x02"
definition PF_IS_COMPRESSED :: packet_flags where "PF_IS_COMPRESSED = 0x04"
definition PF_HAS_ROUTE :: packet_flags where "PF_HAS_ROUTE = 0x08"

lemmas packet_flag_consts = PF_NONE_def PF_HAS_RECIPIENT_def PF_HAS_SIGNATURE_def
  PF_IS_COMPRESSED_def PF_HAS_ROUTE_def

definition has_recipient :: "packet_flags \<Rightarrow> bool" where
  "has_recipient f = (f AND PF_HAS_RECIPIENT \<noteq> 0)"

definition has_signature :: "packet_flags \<Rightarrow> bool" where
  "has_signature f = (f AND PF_HAS_SIGNATURE \<noteq> 0)"

definition is_compressed :: "packet_flags \<Rightarrow> bool" where
  "is_compressed f = (f AND PF_IS_COMPRESSED \<noteq> 0)"

definition has_route :: "packet_flags \<Rightarrow> bool" where
  "has_route f = (f AND PF_HAS_ROUTE \<noteq> 0)"

definition flags_with_recipient :: "packet_flags \<Rightarrow> packet_flags" where
  "flags_with_recipient f = f OR PF_HAS_RECIPIENT"

definition flags_with_signature :: "packet_flags \<Rightarrow> packet_flags" where
  "flags_with_signature f = f OR PF_HAS_SIGNATURE"

definition flags_with_compression :: "packet_flags \<Rightarrow> packet_flags" where
  "flags_with_compression f = f OR PF_IS_COMPRESSED"

definition flags_with_route :: "packet_flags \<Rightarrow> packet_flags" where
  "flags_with_route f = f OR PF_HAS_ROUTE"

section \<open>Header\<close>

record packet_header =
  version :: u8
  message_type :: message_type
  h_ttl :: ttl
  h_timestamp :: timestamp
  h_flags :: packet_flags
  payload_length :: u32

definition header_new ::
    "message_type \<Rightarrow> ttl \<Rightarrow> timestamp \<Rightarrow> packet_flags \<Rightarrow> u32 \<Rightarrow> packet_header" where
  "header_new mt t ts fl len =
     \<lparr>version = CURRENT_PROTOCOL_VERSION, message_type = mt, h_ttl = t, h_timestamp = ts,
      h_flags = fl, payload_length = len\<rparr>"

definition header_size :: "packet_header \<Rightarrow> nat" where
  "header_size h =
     (if version h = PROTOCOL_VERSION_1 then HEADER_SIZE_V1
      else if version h = PROTOCOL_VERSION_2 then HEADER_SIZE_V2
      else HEADER_SIZE_V1)"

definition max_payload_size :: "packet_header \<Rightarrow> nat" where
  "max_payload_size h =
     (if version h = PROTOCOL_VERSION_1 then MAX_PAYLOAD_SIZE_V1
      else if version h = PROTOCOL_VERSION_2 then MAX_PAYLOAD_SIZE_V2
      else MAX_PAYLOAD_SIZE_V1)"

definition header_validate :: "packet_header \<Rightarrow> unit result" where
  "header_validate h =
     (if version h \<noteq> PROTOCOL_VERSION_1 \<and> version h \<noteq> PROTOCOL_VERSION_2
      then Inl (invalid_packet ''Unsupported protocol version'')
      else if max_payload_size h < unat (payload_length h)
      then Inl (invalid_packet ''Payload too large'')
      else if version h = PROTOCOL_VERSION_1 \<and> 255 < payload_length h
      then Inl (invalid_packet ''Payload too large for v1'')
      else Inr ())"

definition header_to_bytes :: "packet_header \<Rightarrow> bytes result" where
  "header_to_bytes h =
     rbind (header_validate h) (\<lambda>_.
       let fixed = [version h, message_type_as_u8 (message_type h), h_ttl h]
                   @ u64_to_be (h_timestamp h) @ [h_flags h]
       in if version h = PROTOCOL_VERSION_1 then
            if 255 < payload_length h
            then Inl (invalid_packet ''Payload too large for v1 (max 255 bytes)'')
            else Inr (fixed @ [ucast (payload_length h)])
          else if version h = PROTOCOL_VERSION_2 then
            Inr (fixed @ u32_to_be (payload_length h))
          else Inl (invalid_packet ''Unsupported protocol version''))"

definition header_from_bytes :: "bytes \<Rightarrow> packet_header result" where
  "header_from_bytes bs =
     (if bs = [] then Inl (invalid_packet ''Empty packet'')
      else rbind (index_at bs 0) (\<lambda>ver.
        rbind (if ver = PROTOCOL_VERSION_1 then Inr HEADER_SIZE_V1
               else if ver = PROTOCOL_VERSION_2 then Inr HEADER_SIZE_V2
               else Inl (invalid_packet ''Unsupported protocol version'')) (\<lambda>expected_size.
        if length bs < expected_size then Inl (invalid_packet ''Packet too short'')
        else
          rbind (index_at bs 1) (\<lambda>ty.
          rbind (message_type_from_u8 ty) (\<lambda>mt.
          rbind (index_at bs 2) (\<lambda>t.
          rbind (slice bs 3 11) (\<lambda>ts.
          rbind (index_at bs 11) (\<lambda>fl.
          rbind (if ver = PROTOCOL_VERSION_1 then rbind (index_at bs 12) (\<lambda>b. Inr (ucast b))
                 else if ver = PROTOCOL_VERSION_2 then
                   rbind (slice bs 12 16) (\<lambda>lb. Inr (u32_from_be lb))
                 else Inl (invalid_packet ''Unsupported protocol version'')) (\<lambda>len.
          let h = \<lparr>version = ver, message_type = mt, h_ttl = t, h_timestamp = u64_from_be ts,
                   h_flags = fl, payload_length = len\<rparr>
          in rbind (header_validate h) (\<lambda>_. Inr h))))))))))"

section \<open>Packets\<close>

record bitchat_packet =
  header :: packet_header
  sender_id :: peer_id
  recipient_id :: "peer_id option"
  route :: "bytes option"
  payload :: bytes
  signature :: "bytes option"

text \<open>\<open>now\<close> is the clock reading of \<^verbatim>\<open>Timestamp::now()\<close>.\<close>

definition packet_new_simple :: "timestamp \<Rightarrow> message_type \<Rightarrow> peer_id \<Rightarrow> bytes \<Rightarrow> bitchat_packet" where
  "packet_new_simple now mt sender pl =
     \<lparr>header = header_new mt TTL_DEFAULT now PF_NONE (word_of_nat (length pl)),
      sender_id = sender, recipient_id = None, route = None, payload = pl, signature = None\<rparr>"

definition with_recipient :: "peer_id \<Rightarrow> bitchat_packet \<Rightarrow> bitchat_packet" where
  "with_recipient rid p =
     p\<lparr>recipient_id := Some rid,
       header := (header p)\<lparr>h_flags := flags_with_recipient (h_flags (header p))\<rparr>\<rparr>"

definition with_signature :: "bytes \<Rightarrow> bitchat_packet \<Rightarrow> bitchat_packet" where
  "with_signature sig p =
     p\<lparr>signature := Some sig,
       header := (header p)\<lparr>h_flags := flags_with_signature (h_flags (header p))\<rparr>\<rparr>"

definition with_ttl :: "ttl \<Rightarrow> bitchat_packet \<Rightarrow> bitchat_packet" where
  "with_ttl t p = p\<lparr>header := (header p)\<lparr>h_ttl := t\<rparr>\<rparr>"

definition is_broadcast :: "bitchat_packet \<Rightarrow> bool" where
  "is_broadcast p = (recipient_id p = None \<or> recipient_id p = Some BROADCAST)"

definition is_private :: "bitchat_packet \<Rightarrow> bool" where
  "is_private p = (\<not> is_broadcast p)"

definition packet_validate :: "bitchat_packet \<Rightarrow> unit result" where
  "packet_validate p =
     rbind (header_validate (header p)) (\<lambda>_.
       let fl = h_flags (header p)
       in if length (payload p) \<noteq> unat (payload_length (header p))
          then Inl (invalid_packet ''Payload length mismatch'')
          else if has_recipient fl \<and> recipient_id p = None
          then Inl (invalid_packet ''Recipient flag set but no recipient'')
          else if \<not> has_recipient fl \<and> recipient_id p \<noteq> None
          then Inl (invalid_packet ''Recipient present but flag not set'')
          else if has_signature fl \<and> signature p = None
          then Inl (invalid_packet ''Signature flag set but no signature'')
          else if \<not> has_signature fl \<and> signature p \<noteq> None
          then Inl (invalid_packet ''Signature present but flag not set'')
          else Inr ())"

definition packet_new ::
    "message_type \<Rightarrow> peer_id \<Rightarrow> peer_id option \<Rightarrow> timestamp \<Rightarrow> bytes \<Rightarrow> packet_flags
     \<Rightarrow> bitchat_packet result" where
  "packet_new mt sender rid ts pl fl =
     (let final_flags = (if rid \<noteq> None then flags_with_recipient fl else fl)
      in Inr \<lparr>header = header_new mt TTL_DEFAULT ts final_flags (word_of_nat (length pl)),
              sender_id = sender, recipient_id = rid, route = None, payload = pl,
              signature = None\<rparr>)"

section \<open>Signatures\<close>

definition signing_context :: bytes where
  "signing_context = map (\<lambda>c. of_char c) ''bitchat-packet-v1''"

text \<open>The bytes fed to the hasher, in order.\<close>

definition signing_preimage :: "bitchat_packet \<Rightarrow> bytes" where
  "signing_preimage p =
     signing_context @ [version (header p)] @ [message_type_as_u8 (message_type (header p))]
     @ u64_to_be (h_timestamp (header p)) @ sender_id p
     @ (case recipient_id p of Some rid \<Rightarrow> rid | None \<Rightarrow> []) @ payload p"

definition canonical_bytes_for_signing :: "(bytes \<Rightarrow> bytes) \<Rightarrow> bitchat_packet \<Rightarrow> bytes result" where
  "canonical_bytes_for_signing sha256 p = Inr (sha256 (signing_preimage p))"

definition packet_sign ::
    "(bytes \<Rightarrow> bytes) \<Rightarrow> ('sk, 'vk) ed25519 \<Rightarrow> ('sk, 'vk) identity_key_pair \<Rightarrow> bitchat_packet
     \<Rightarrow> bitchat_packet result" where
  "packet_sign sha256 ed kp p =
     rbind (canonical_bytes_for_signing sha256 p) (\<lambda>cb.
       Inr (p\<lparr>signature := Some (identity_sign ed kp cb),
              header := (header p)\<lparr>h_flags := flags_with_signature (h_flags (header p))\<rparr>\<rparr>))"

definition verify_signature ::
    "(bytes \<Rightarrow> bytes) \<Rightarrow> ('sk, 'vk) ed25519 \<Rightarrow> bytes \<Rightarrow> bitchat_packet \<Rightarrow> unit result" where
  "verify_signature sha256 ed public_key p =
     (case signature p of
        None \<Rightarrow> Inl (invalid_packet ''No signature present for verification'')
      | Some sig \<Rightarrow>
          rbind (canonical_bytes_for_signing sha256 p) (\<lambda>cb.
          rbind (identity_verify ed public_key cb sig) (\<lambda>_. Inr ())))"

section \<open>Lemmas\<close>

interpretation mt: byte_enum message_type_as_u8 message_type_from_u8 "\<lambda>_. True"
proof
  show "message_type_from_u8 (message_type_as_u8 t) = Inr t" for t
    by (cases t) (simp_all add: message_type_from_u8_def)
next
  show "True \<and> message_type_as_u8 t = b" if "message_type_from_u8 b = Inr t" for b t
    using that by (auto simp: message_type_from_u8_def split: if_splits)
qed

lemma message_type_from_as [codec_simps]: "message_type_from_u8 (message_type_as_u8 t) = Inr t"
  by (rule mt.from_as) simp

subsection \<open>Flags\<close>

lemmas packet_flag_defs = has_recipient_def has_signature_def is_compressed_def has_route_def
  flags_with_recipient_def flags_with_signature_def flags_with_compression_def
  flags_with_route_def packet_flag_consts

lemma flag_tests_set [simp]:
  "has_recipient (flags_with_recipient f)" "has_signature (flags_with_signature f)"
  "is_compressed (flags_with_compression f)" "has_route (flags_with_route f)"
  by (simp_all add: packet_flag_defs)

lemma flag_tests_frame [simp]:
  "has_signature (flags_with_recipient f) = has_signature f"
  "is_compressed (flags_with_recipient f) = is_compressed f"
  "has_route (flags_with_recipient f) = has_route f"
  "has_recipient (flags_with_signature f) = has_recipient f"
  "is_compressed (flags_with_signature f) = is_compressed f"
  "has_route (flags_with_signature f) = has_route f"
  "has_recipient (flags_with_compression f) = has_recipient f"
  "has_signature (flags_with_compression f) = has_signature f"
  "has_route (flags_with_compression f) = has_route f"
  "has_recipient (flags_with_route f) = has_recipient f"
  "has_signature (flags_with_route f) = has_signature f"
  "is_compressed (flags_with_route f) = is_compressed f"
  by (simp_all add: packet_flag_defs flag_or_other)

lemma flag_tests_none [simp]:
  "\<not> has_recipient PF_NONE" "\<not> has_signature PF_NONE" "\<not> is_compressed PF_NONE" "\<not> has_route PF_NONE"
  by (simp_all add: packet_flag_defs)

subsection \<open>Headers\<close>

lemma header_validate_ok:
  "header_validate h = Inr () \<longleftrightarrow>
     (version h = PROTOCOL_VERSION_1 \<and> unat (payload_length h) \<le> 255) \<or> version h = PROTOCOL_VERSION_2"
proof -
  have "unat (payload_length h) \<le> 4294967295"
    using unat_u32_bound [of "payload_length h"] by simp
  moreover have "255 < payload_length h \<longleftrightarrow> 255 < unat (payload_length h)"
    by (simp add: word_less_nat_alt)
  ultimately show ?thesis
    by (auto simp: header_validate_def max_payload_size_def packet_consts split: if_splits)
qed

lemma header_to_bytes_v1:
  assumes "version h = PROTOCOL_VERSION_1" and "unat (payload_length h) \<le> 255"
  shows "header_to_bytes h =
    Inr ([version h, message_type_as_u8 (message_type h), h_ttl h] @ u64_to_be (h_timestamp h)
         @ [h_flags h, ucast (payload_length h)])"
proof -
  have "header_validate h = Inr ()" using assms by (simp add: header_validate_ok)
  moreover have "\<not> 255 < payload_length h" using assms(2) by (simp add: word_less_nat_alt)
  ultimately show ?thesis using assms(1) by (simp add: header_to_bytes_def)
qed

lemma header_to_bytes_v2:
  assumes "version h = PROTOCOL_VERSION_2"
  shows "header_to_bytes h =
    Inr ([version h, message_type_as_u8 (message_type h), h_ttl h] @ u64_to_be (h_timestamp h)
         @ [h_flags h] @ u32_to_be (payload_length h))"
proof -
  have "header_validate h = Inr ()" using assms by (simp add: header_validate_ok)
  then show ?thesis using assms by (simp add: header_to_bytes_def packet_consts)
qed

lemma header_to_bytes_InrD:
  "header_to_bytes h = Inr b \<Longrightarrow>
     header_validate h = Inr () \<and> length b = (if version h = PROTOCOL_VERSION_1 then 13 else 16)"
  by (auto simp: header_to_bytes_def rbind_eq_Inr Let_def split: if_splits)

lemma ucast_u32_u8: "unat x \<le> 255 \<Longrightarrow> ucast (ucast (x :: u32) :: u8) = x"
  by (rule word_unat_eq_iff [THEN iffD2]) (simp add: unsigned_ucast_eq unsigned_take_bit_eq take_bit_nat_eq_self)

lemma header_from_to_bytes [codec_simps]:
  assumes "header_to_bytes h = Inr b"
  shows "header_from_bytes (b @ rest) = Inr h"
proof -
  have valid: "header_validate h = Inr ()" using header_to_bytes_InrD [OF assms] by simp
  consider (v1) "version h = PROTOCOL_VERSION_1" "unat (payload_length h) \<le> 255"
    | (v2) "version h = PROTOCOL_VERSION_2"
    using valid by (auto simp: header_validate_ok)
  then show ?thesis
  proof cases
    case v1
    with assms have b: "b = [version h, message_type_as_u8 (message_type h), h_ttl h]
        @ u64_to_be (h_timestamp h) @ [h_flags h, ucast (payload_length h)]"
      by (simp add: header_to_bytes_v1)
    show ?thesis
      using v1 valid unfolding b header_from_bytes_def
      by (cases h) (simp add: index_at_def slice_def nth_append packet_consts codec_simps
            ucast_u32_u8 Let_def)
  next
    case v2
    with assms have b: "b = [version h, message_type_as_u8 (message_type h), h_ttl h]
        @ u64_to_be (h_timestamp h) @ [h_flags h] @ u32_to_be (payload_length h)"
      by (simp add: header_to_bytes_v2)
    show ?thesis
      using v2 valid unfolding b header_from_bytes_def
      by (cases h) (simp add: index_at_def slice_def nth_append packet_consts codec_simps Let_def)
  qed
qed

lemma header_validate_v1I [simp]:
  "version h = PROTOCOL_VERSION_1 \<Longrightarrow> unat (payload_length h) \<le> 255 \<Longrightarrow> header_validate h = Inr ()"
  by (simp add: header_validate_ok)

lemma header_from_bytes_v1:
  assumes "bs ! 0 = PROTOCOL_VERSION_1" and "13 \<le> length bs"
  shows "header_from_bytes bs =
    rbind (message_type_from_u8 (bs ! 1)) (\<lambda>mt.
      Inr \<lparr>version = PROTOCOL_VERSION_1, message_type = mt, h_ttl = bs ! 2,
           h_timestamp = u64_from_be (take 8 (drop 3 bs)), h_flags = bs ! 11,
           payload_length = ucast (bs ! 12)\<rparr>)"
proof -
  have len: "unat (ucast (bs ! 12) :: u32) \<le> 255"
    using unat_u8_bound [of "bs ! 12"]
    by (simp add: unsigned_ucast_eq unsigned_take_bit_eq take_bit_nat_eq_self)
  have ne: "bs \<noteq> []" using assms(2) by auto
  show ?thesis
    using assms ne len
    by (simp add: header_from_bytes_def index_at_def slice_def HEADER_SIZE_V1_def Let_def)
qed

lemma take_as_nths: "n \<le> length xs \<Longrightarrow> take n xs = map ((!) xs) [0..<n]"
  by (rule nth_equalityI) simp_all

lemma list_split_13:
  assumes "13 \<le> length bs"
  shows "take 13 bs = [bs ! 0, bs ! 1, bs ! 2] @ take 8 (drop 3 bs) @ [bs ! 11, bs ! 12]"
proof -
  have "take 8 (drop 3 bs) = map ((!) (drop 3 bs)) [0..<8]"
    using assms by (intro take_as_nths) simp
  then have "take 8 (drop 3 bs) = [bs!3, bs!4, bs!5, bs!6, bs!7, bs!8, bs!9, bs!10]"
    using assms by (simp add: upt_rec)
  with take_as_nths [OF assms] show ?thesis by (simp add: upt_rec numeral_eq_Suc)
qed

lemma header_from_bytes_version:
  "header_from_bytes bs = Inr h \<Longrightarrow> bs ! 0 = version h \<and>
     (if version h = PROTOCOL_VERSION_1 then 13 \<le> length bs else 15 \<le> length bs)"
  by (auto simp: header_from_bytes_def rbind_eq_Inr index_at_def Let_def HEADER_SIZE_V1_def
        HEADER_SIZE_V2_def split: if_splits)

lemma header_from_bytes_canonical:
  assumes "header_from_bytes bs = Inr h" and "version h = PROTOCOL_VERSION_1"
  shows "13 \<le> length bs" and "header_to_bytes h = Inr (take 13 bs)"
proof -
  have v: "bs ! 0 = PROTOCOL_VERSION_1" and len: "13 \<le> length bs"
    using header_from_bytes_version [OF assms(1)] assms(2) by auto
  show "13 \<le> length bs" by (rule len)
  have l8: "length (take 8 (drop 3 bs)) = 8" using len by simp
  from assms(1) obtain mt where mt: "message_type_from_u8 (bs ! 1) = Inr mt"
    and h: "h = \<lparr>version = PROTOCOL_VERSION_1, message_type = mt, h_ttl = bs ! 2,
           h_timestamp = u64_from_be (take 8 (drop 3 bs)), h_flags = bs ! 11,
           payload_length = ucast (bs ! 12)\<rparr>"
    by (auto simp: header_from_bytes_v1 [OF v len] rbind_eq_Inr)
  have ty: "message_type_as_u8 mt = bs ! 1" using mt.as_from [OF mt] by simp
  have byte: "unat (ucast (bs ! 12) :: u32) \<le> 255" "ucast (ucast (bs ! 12) :: u32) = bs ! 12"
    using unat_u8_bound [of "bs ! 12"]
    by (simp_all add: unsigned_ucast_eq unsigned_take_bit_eq take_bit_nat_eq_self word_unat_eq_iff)
  show "header_to_bytes h = Inr (take 13 bs)"
    unfolding list_split_13 [OF len] h
    by (subst header_to_bytes_v1) (simp_all add: byte ty v to_be_from_be(3) [OF l8])
qed

subsection \<open>Signatures\<close>

lemma signing_preimage_frame [simp]:
  "signing_preimage (p\<lparr>signature := s\<rparr>) = signing_preimage p"
  "signing_preimage (p\<lparr>header := (header p)\<lparr>h_flags := f\<rparr>\<rparr>) = signing_preimage p"
  "signing_preimage (with_ttl t p) = signing_preimage p"
  by (simp_all add: signing_preimage_def with_ttl_def)

lemma packet_sign_eq:
  "packet_sign sha256 ed kp p =
     Inr (p\<lparr>signature := Some (identity_sign ed kp (sha256 (signing_preimage p))),
            header := (header p)\<lparr>h_flags := flags_with_signature (h_flags (header p))\<rparr>\<rparr>)"
  by (simp add: packet_sign_def canonical_bytes_for_signing_def)

lemma verify_signature_eq:
  "verify_signature sha256 ed key p =
     (case signature p of
        None \<Rightarrow> Inl (invalid_packet ''No signature present for verification'')
      | Some sig \<Rightarrow> identity_verify ed key (sha256 (signing_preimage p)) sig)"
  by (auto simp: verify_signature_def canonical_bytes_for_signing_def rbind_def
      split: option.split sum.split)

subsection \<open>Panics\<close>

lemma header_validate_no_panic [simp]: "header_validate h \<noteq> Inl Panic"
  by (simp add: header_validate_def invalid_packet_def)

lemma message_type_no_panic [simp]: "message_type_from_u8 b \<noteq> Inl Panic"
  by (simp add: message_type_from_u8_def invalid_packet_def)

lemma header_from_bytes_v2:
  assumes "bs ! 0 = PROTOCOL_VERSION_2" and "15 \<le> length bs"
  shows "header_from_bytes bs =
    rbind (message_type_from_u8 (bs ! 1)) (\<lambda>mt.
      if length bs = 15 then Inl Panic
      else Inr \<lparr>version = PROTOCOL_VERSION_2, message_type = mt, h_ttl = bs ! 2,
           h_timestamp = u64_from_be (take 8 (drop 3 bs)), h_flags = bs ! 11,
           payload_length = u32_from_be (take 4 (drop 12 bs))\<rparr>)"
proof -
  have ne: "bs \<noteq> []" using assms(2) by auto
  show ?thesis
  proof (cases "length bs = 15")
    case True
    with assms ne show ?thesis
      by (simp add: header_from_bytes_def index_at_def slice_def HEADER_SIZE_V2_def)
  next
    case False
    with assms(2) have "16 \<le> length bs" by simp
    with assms ne False show ?thesis
      by (simp add: header_from_bytes_def index_at_def slice_def HEADER_SIZE_V2_def Let_def
            header_validate_ok [THEN iffD2])
  qed
qed

section \<open>Properties\<close>

text \<open>A header that serialises parses back to itself, whatever bytes follow it, in both protocol
  versions.\<close>

theorem header_roundtrip:
  "header_to_bytes h = Inr b \<Longrightarrow> header_from_bytes (b @ rest) = Inr h"
  by (rule header_from_to_bytes)

definition example_header :: packet_header where
  "example_header = header_new Message TTL_DEFAULT 1234567890000 PF_HAS_RECIPIENT 100"

lemma example_header_bytes:
  "header_to_bytes example_header =
     Inr ([1, 2, 7] @ u64_to_be 1234567890000 @ [1, 100])"
  by (subst header_to_bytes_v1)
    (simp_all add: example_header_def header_new_def packet_consts TTL_DEFAULT_def packet_flag_consts)

theorem header_roundtrip_witness:
  "header_from_bytes (([1, 2, 7] @ u64_to_be 1234567890000 @ [1, 100]) @ [9, 9]) = Inr example_header"
  by (rule header_roundtrip [OF example_header_bytes])

text \<open>Parsing a header panics exactly on inputs of 15 bytes that carry version 2 and a known
  message type: the length check asks for \<^verbatim>\<open>HEADER_SIZE_V2 = 15\<close> bytes and the parser then reads
  the slice \<^verbatim>\<open>12..16\<close>. Every other input is either parsed or refused with an error.\<close>

theorem header_from_bytes_panics_iff:
  "header_from_bytes bs = Inl Panic \<longleftrightarrow>
     length bs = 15 \<and> bs ! 0 = PROTOCOL_VERSION_2 \<and> is_ok (message_type_from_u8 (bs ! 1))"
proof -
  consider (none) "bs = []" | (v1) "bs \<noteq> []" "bs ! 0 = PROTOCOL_VERSION_1"
    | (v2) "bs \<noteq> []" "bs ! 0 = PROTOCOL_VERSION_2"
    | (other) "bs \<noteq> []" "bs ! 0 \<noteq> PROTOCOL_VERSION_1" "bs ! 0 \<noteq> PROTOCOL_VERSION_2"
    by blast
  then show ?thesis
  proof cases
    case v1
    show ?thesis
    proof (cases "13 \<le> length bs")
      case True
      with v1 show ?thesis by (simp add: header_from_bytes_v1 rbind_eq_Inl)
    next
      case False
      with v1 show ?thesis
        by (simp add: header_from_bytes_def index_at_def HEADER_SIZE_V1_def invalid_packet_def)
    qed
  next
    case v2
    show ?thesis
    proof (cases "15 \<le> length bs")
      case True
      with v2 show ?thesis by (auto simp: header_from_bytes_v2 rbind_eq_Inl is_ok_iff)
    next
      case False
      with v2 show ?thesis
        by (simp add: header_from_bytes_def index_at_def HEADER_SIZE_V2_def invalid_packet_def)
    qed
  qed (auto simp: header_from_bytes_def index_at_def invalid_packet_def)
qed

text \<open>C3: A packet signed with an identity key verifies under the public half of that key, also after
  relays have changed its TTL, and signing never fails.\<close>

theorem sign_then_verify:
  assumes "ed25519_correct ed" and "key_pair_ok ed kp"
  shows "\<exists>q. packet_sign sha256 ed kp p = Inr q \<and>
    (\<forall>t. verify_signature sha256 ed (public_key_bytes ed kp) (with_ttl t q) = Inr ()) \<and>
    payload q = payload p \<and> sender_id q = sender_id p \<and> recipient_id q = recipient_id p"
  using identity_verify_sign [OF assms]
  by (simp add: packet_sign_eq verify_signature_eq signing_preimage_def with_ttl_def)

definition example_packet :: bitchat_packet where
  "example_packet = packet_new_simple 1234567890000 Message [1, 2, 3, 4, 5, 6, 7, 8] [72, 105]"

definition example_key :: "(u8, u8) identity_key_pair" where
  "example_key = \<lparr>signing_key = 5, verifying_key = 5\<rparr>"

lemma example_key_ok: "key_pair_ok toy_ed25519 example_key"
  by (simp add: key_pair_ok_def example_key_def toy_ed25519_def)

theorem sign_then_verify_witness:
  "\<exists>q. packet_sign toy_sha256 toy_ed25519 example_key example_packet = Inr q \<and>
    (\<forall>t. verify_signature toy_sha256 toy_ed25519 (public_key_bytes toy_ed25519 example_key)
       (with_ttl t q) = Inr ()) \<and>
    payload q = payload example_packet \<and> sender_id q = sender_id example_packet \<and>
    recipient_id q = recipient_id example_packet"
  by (rule sign_then_verify [OF toy_ed25519_correct example_key_ok])

text \<open>The signed bytes do not say whether a recipient is present. A signed packet to a recipient
  \<open>r\<close> verifies, under the same key and with the same signature, as a broadcast packet whose payload is
  \<open>r\<close> followed by the original payload, for every hash function and signature scheme.\<close>

theorem signature_recipient_ambiguity:
  assumes "recipient_id p = Some r"
  shows "verify_signature sha256 ed key (p\<lparr>recipient_id := None, payload := r @ payload p\<rparr>) =
    verify_signature sha256 ed key p"
proof -
  have "signing_preimage (p\<lparr>recipient_id := None, payload := r @ payload p\<rparr>) = signing_preimage p"
    by (simp add: signing_preimage_def assms)
  then show ?thesis by (cases "signature p") (simp_all add: verify_signature_eq)
qed

theorem signature_recipient_ambiguity_witness:
  "verify_signature toy_sha256 toy_ed25519 (replicate 32 5)
     ((with_recipient [8, 7, 6, 5, 4, 3, 2, 1] example_packet)
        \<lparr>recipient_id := None, payload := [8, 7, 6, 5, 4, 3, 2, 1] @ payload example_packet\<rparr>) =
   verify_signature toy_sha256 toy_ed25519 (replicate 32 5)
     (with_recipient [8, 7, 6, 5, 4, 3, 2, 1] example_packet)"
  using signature_recipient_ambiguity
    [of "with_recipient [8, 7, 6, 5, 4, 3, 2, 1] example_packet" "[8, 7, 6, 5, 4, 3, 2, 1]"
        toy_sha256 toy_ed25519 "replicate 32 5"]
  by (simp add: with_recipient_def)

end
