(* ===== verification/Wire.thy ===== *)
theory Wire
  imports Packet
begin

text \<open>
  The binary wire format of \<^verbatim>\<open>src/crates/bitchat-core/src/protocol/wire.rs\<close>: \<^verbatim>\<open>WireFormat\<close>,
  \<^verbatim>\<open>Compression\<close> and \<^verbatim>\<open>Padding\<close>.

  In a build with the \<^verbatim>\<open>std\<close> feature compression is zlib from the \<^verbatim>\<open>flate2\<close> crate: the arguments
  \<open>compress\<close> and \<open>decompress\<close>. The bodies of the other builds are \<open>compress_fallback\<close> and
  \<open>decompress_fallback\<close>.
\<close>

definition PADDING_BLOCK_SIZES :: "nat list" where "PADDING_BLOCK_SIZES = [256, 512, 1024, 2048]"
definition COMPRESSION_THRESHOLD :: nat where "COMPRESSION_THRESHOLD = 256"
definition SIGNATURE_SIZE :: nat where "SIGNATURE_SIZE = 64"
definition PEER_ID_SIZE :: nat where "PEER_ID_SIZE = 8"

lemmas wire_consts = PADDING_BLOCK_SIZES_def COMPRESSION_THRESHOLD_def SIGNATURE_SIZE_def
  PEER_ID_SIZE_def

section \<open>Encoding\<close>

definition encode_recipient :: "bitchat_packet \<Rightarrow> bytes result" where
  "encode_recipient p =
     (if has_recipient (h_flags (header p)) then
        (case recipient_id p of
           Some rid \<Rightarrow> Inr rid
         | None \<Rightarrow> Inl (invalid_packet ''Recipient flag set but no recipient''))
      else Inr [])"

definition encode_route :: "bitchat_packet \<Rightarrow> bytes result" where
  "encode_route p =
     (if has_route (h_flags (header p)) then
        (case route p of
           Some rt \<Rightarrow>
             if 65535 < length rt then Inl (invalid_packet ''Route too large'')
             else Inr (u16_to_be (word_of_nat (length rt)) @ rt)
         | None \<Rightarrow> Inl (invalid_packet ''Route flag set but no route''))
      else Inr [])"

definition encode_signature :: "bitchat_packet \<Rightarrow> bytes result" where
  "encode_signature p =
     (if has_signature (h_flags (header p)) then
        (case signature p of
           Some sig \<Rightarrow> Inr sig
         | None \<Rightarrow> Inl (invalid_packet ''Signature flag set but no signature''))
      else Inr [])"

definition wire_encode :: "bitchat_packet \<Rightarrow> bytes result" where
  "wire_encode p =
     rbind (packet_validate p) (\<lambda>_.
     rbind (header_to_bytes (header p)) (\<lambda>header_bytes.
     rbind (encode_recipient p) (\<lambda>recipient_bytes.
     rbind (encode_route p) (\<lambda>route_bytes.
     rbind (encode_signature p) (\<lambda>signature_bytes.
       Inr (header_bytes @ sender_id p @ recipient_bytes @ route_bytes @ payload p
            @ signature_bytes))))))"

section \<open>Decoding\<close>

text \<open>Each parser takes the input and the offset and returns what it read and the new offset.\<close>

definition parse_array :: "string \<Rightarrow> nat \<Rightarrow> bytes \<Rightarrow> nat \<Rightarrow> (bytes \<times> nat) result" where
  "parse_array short n bs offset =
     (if length bs < offset + n then Inl (invalid_packet short)
      else rbind (slice bs offset (offset + n)) (\<lambda>b. Inr (b, offset + n)))"

definition parse_recipient :: "packet_flags \<Rightarrow> bytes \<Rightarrow> nat \<Rightarrow> (peer_id option \<times> nat) result" where
  "parse_recipient fl bs offset =
     (if has_recipient fl then
        rbind (parse_array ''Packet too short for recipient ID'' PEER_ID_SIZE bs offset) (\<lambda>(b, off).
          Inr (Some b, off))
      else Inr (None, offset))"

definition parse_route :: "packet_flags \<Rightarrow> bytes \<Rightarrow> nat \<Rightarrow> (bytes option \<times> nat) result" where
  "parse_route fl bs offset =
     (if has_route fl then
        rbind (parse_array ''Packet too short for route length'' 2 bs offset) (\<lambda>(lb, off).
          rbind (parse_array ''Packet too short for route data'' (unat (u16_from_be lb)) bs off)
            (\<lambda>(b, off'). Inr (Some b, off')))
      else Inr (None, offset))"

definition parse_signature :: "packet_flags \<Rightarrow> bytes \<Rightarrow> nat \<Rightarrow> (bytes option \<times> nat) result" where
  "parse_signature fl bs offset =
     (if has_signature fl then
        rbind (parse_array ''Packet too short for signature'' SIGNATURE_SIZE bs offset) (\<lambda>(b, off).
          Inr (Some b, off))
      else Inr (None, offset))"

text \<open>Everything between the header and the end of the packet, in order.\<close>

definition decode_body :: "packet_header \<Rightarrow> bytes \<Rightarrow> nat \<Rightarrow> (bitchat_packet \<times> nat) result" where
  "decode_body h bs offset =
     rbind (parse_array ''Packet too short for sender ID'' PEER_ID_SIZE bs offset) (\<lambda>(sender, o1).
     rbind (parse_recipient (h_flags h) bs o1) (\<lambda>(rid, o2).
     rbind (parse_route (h_flags h) bs o2) (\<lambda>(rt, o3).
     rbind (parse_array ''Packet too short for payload'' (unat (payload_length h)) bs o3)
       (\<lambda>(pl, o4).
     rbind (parse_signature (h_flags h) bs o4) (\<lambda>(sig, o5).
       Inr (\<lparr>header = h, sender_id = sender, recipient_id = rid, route = rt, payload = pl,
             signature = sig\<rparr>, o5))))))"

definition wire_decode :: "bytes \<Rightarrow> bitchat_packet result" where
  "wire_decode bs =
     (if bs = [] then Inl (invalid_packet ''Empty packet'')
      else rbind (header_from_bytes bs) (\<lambda>h.
        if length bs < header_size h then Inl (invalid_packet ''Packet too short for header'')
        else rbind (decode_body h bs (header_size h)) (\<lambda>(p, offset).
          if offset \<noteq> length bs then Inl (invalid_packet ''Packet has trailing data'')
          else rbind (packet_validate p) (\<lambda>_. Inr p))))"

section \<open>Compression\<close>

definition compress_fallback :: "bytes \<Rightarrow> bytes result" where
  "compress_fallback data = Inr ([0x78, 0x9C] @ data)"

definition decompress_fallback :: "bytes \<Rightarrow> bytes result" where
  "decompress_fallback data =
     (if length data < 2 then Inl (invalid_packet ''Invalid compressed data'')
      else rbind (index_at data 0) (\<lambda>b0. rbind (index_at data 1) (\<lambda>b1.
        if b0 \<noteq> 0x78 \<or> b1 \<noteq> 0x9C then Inl (invalid_packet ''Invalid compressed data'')
        else Inr (drop 2 data))))"

definition should_compress :: "bytes \<Rightarrow> bool" where
  "should_compress data = (COMPRESSION_THRESHOLD \<le> length data)"

section \<open>Padding\<close>

fun first_block :: "nat list \<Rightarrow> nat \<Rightarrow> nat option" where
  "first_block [] len = None"
| "first_block (b # bs) len = (if len \<le> b then Some b else first_block bs len)"

definition optimal_block_size :: "nat \<Rightarrow> nat" where
  "optimal_block_size len =
     (case first_block PADDING_BLOCK_SIZES len of
        Some b \<Rightarrow> b
      | None \<Rightarrow> div_ceil len 2048 * 2048)"

definition padding_pad :: "bytes \<Rightarrow> bytes" where
  "padding_pad data =
     (let original_length = length data;
          target_size = optimal_block_size original_length;
          padding_length = target_size - original_length
      in if 0 < padding_length
         then data @ replicate padding_length (word_of_nat padding_length)
         else data)"

definition padding_unpad :: "bytes \<Rightarrow> bytes result" where
  "padding_unpad data =
     (if data = [] then Inl (invalid_packet ''Cannot unpad empty data'')
      else rbind (index_at data (length data - 1)) (\<lambda>lastb.
        let padding_length = unat lastb
        in if padding_length = 0 \<or> length data < padding_length then Inr data
           else
             let start_index = length data - padding_length
             in if list_all (\<lambda>b. b = word_of_nat padding_length) (drop start_index data)
                then Inr (take start_index data)
                else Inr data))"

section \<open>Options\<close>

definition update_payload_length :: "bitchat_packet \<Rightarrow> bitchat_packet" where
  "update_payload_length p =
     p\<lparr>header := (header p)\<lparr>payload_length := word_of_nat (length (payload p))\<rparr>\<rparr>"

definition compress_packet ::
    "(bytes \<Rightarrow> bytes result) \<Rightarrow> bool \<Rightarrow> bitchat_packet \<Rightarrow> bitchat_packet result" where
  "compress_packet compress enabled p =
     (if enabled \<and> should_compress (payload p) then
        rbind (compress (payload p)) (\<lambda>c.
          Inr (update_payload_length
            (p\<lparr>payload := c,
               header := (header p)\<lparr>h_flags := flags_with_compression (h_flags (header p))\<rparr>\<rparr>)))
      else Inr p)"

definition encode_with_options ::
    "(bytes \<Rightarrow> bytes result) \<Rightarrow> bitchat_packet \<Rightarrow> bool \<Rightarrow> bool \<Rightarrow> bytes result" where
  "encode_with_options compress p enabled pad =
     rbind (compress_packet compress enabled p) (\<lambda>q.
     rbind (wire_encode q) (\<lambda>bs.
       Inr (if pad then padding_pad bs else bs)))"

definition decode_with_options ::
    "(bytes \<Rightarrow> bytes result) \<Rightarrow> bytes \<Rightarrow> bitchat_packet result" where
  "decode_with_options decompress bs =
     rbind (padding_unpad bs) (\<lambda>unpadded.
     rbind (wire_decode unpadded) (\<lambda>p.
       if is_compressed (h_flags (header p)) then
         rbind (decompress (payload p)) (\<lambda>d.
           Inr (update_payload_length
             (p\<lparr>payload := d,
                header := (header p)\<lparr>h_flags := h_flags (header p) AND NOT PF_IS_COMPRESSED\<rparr>\<rparr>)))
       else Inr p))"

section \<open>Well-formed packets\<close>

text \<open>The sizes the Rust types fix, and no route without its flag.\<close>

definition packet_wf :: "bitchat_packet \<Rightarrow> bool" where
  "packet_wf p \<longleftrightarrow>
     length (sender_id p) = 8 \<and>
     (\<forall>r. recipient_id p = Some r \<longrightarrow> length r = 8) \<and>
     (\<forall>s. signature p = Some s \<longrightarrow> length s = 64) \<and>
     (\<not> has_route (h_flags (header p)) \<longrightarrow> route p = None)"

section \<open>Lemmas\<close>

lemma packet_validate_ok:
  "packet_validate p = Inr () \<longleftrightarrow>
     header_validate (header p) = Inr () \<and>
     length (payload p) = unat (payload_length (header p)) \<and>
     (has_recipient (h_flags (header p)) \<longleftrightarrow> recipient_id p \<noteq> None) \<and>
     (has_signature (h_flags (header p)) \<longleftrightarrow> signature p \<noteq> None)"
  by (auto simp: packet_validate_def rbind_eq_Inr Let_def split: if_splits)

lemma wire_encode_InrD:
  assumes "wire_encode p = Inr b"
  obtains hb rb rt sb where "packet_validate p = Inr ()" "header_to_bytes (header p) = Inr hb"
    "encode_recipient p = Inr rb" "encode_route p = Inr rt" "encode_signature p = Inr sb"
    "b = hb @ sender_id p @ rb @ rt @ payload p @ sb"
  using assms by (auto simp: wire_encode_def rbind_eq_Inr)

lemma parse_array_append [codec_simps]:
  "offset = length pre \<Longrightarrow> n = length mid \<Longrightarrow>
   parse_array short n (pre @ mid @ post) offset = Inr (mid, offset + n)"
  by (simp add: parse_array_def slice_append)

lemma parse_recipient_append:
  assumes "encode_recipient p = Inr rb" and "has_recipient (h_flags (header p)) \<longleftrightarrow> recipient_id p \<noteq> None"
    and "packet_wf p" and "offset = length pre"
  shows "parse_recipient (h_flags (header p)) (pre @ rb @ post) offset =
    Inr (recipient_id p, offset + length rb)"
  using assms
  by (auto simp: encode_recipient_def parse_recipient_def packet_wf_def parse_array_append
        PEER_ID_SIZE_def split: option.splits if_splits)

lemma parse_signature_append:
  assumes "encode_signature p = Inr sb" and "has_signature (h_flags (header p)) \<longleftrightarrow> signature p \<noteq> None"
    and "packet_wf p" and "offset = length pre"
  shows "parse_signature (h_flags (header p)) (pre @ sb @ post) offset =
    Inr (signature p, offset + length sb)"
  using assms
  by (auto simp: encode_signature_def parse_signature_def packet_wf_def parse_array_append
        SIGNATURE_SIZE_def split: option.splits if_splits)

lemma parse_route_append:
  assumes "encode_route p = Inr rt" and "packet_wf p" and "offset = length pre"
  shows "parse_route (h_flags (header p)) (pre @ rt @ post) offset =
    Inr (route p, offset + length rt)"
proof (cases "has_route (h_flags (header p))")
  case False
  with assms show ?thesis by (simp add: parse_route_def encode_route_def packet_wf_def)
next
  case True
  with assms(1) obtain r where r: "route p = Some r" "length r \<le> 65535"
    and rt: "rt = u16_to_be (word_of_nat (length r)) @ r"
    by (auto simp: encode_route_def split: option.splits if_splits)
  have "parse_array s 2 (pre @ rt @ post) offset = Inr (u16_to_be (word_of_nat (length r)), offset + 2)" for s
    using assms(3) by (simp add: rt parse_array_append)
  moreover have "parse_array s (length r) ((pre @ u16_to_be (word_of_nat (length r))) @ r @ post) (offset + 2)
      = Inr (r, offset + 2 + length r)" for s
    using assms(3) by (intro parse_array_append) simp_all
  ultimately show ?thesis
    using True r by (simp add: parse_route_def rt)
qed

lemma decode_body_append:
  assumes "packet_validate p = Inr ()" and "encode_recipient p = Inr rb" and "encode_route p = Inr rt"
    and "encode_signature p = Inr sb" and "packet_wf p"
  shows "decode_body (header p) (pre @ sender_id p @ rb @ rt @ payload p @ sb @ post) (length pre) =
    Inr (p, length pre + 8 + length rb + length rt + length (payload p) + length sb)"
proof -
  have fl: "has_recipient (h_flags (header p)) \<longleftrightarrow> recipient_id p \<noteq> None"
    "has_signature (h_flags (header p)) \<longleftrightarrow> signature p \<noteq> None"
    and len: "unat (payload_length (header p)) = length (payload p)"
    using assms(1) by (simp_all add: packet_validate_ok)
  have s8: "length (sender_id p) = 8" using assms(5) by (simp add: packet_wf_def)
  let ?bs = "pre @ sender_id p @ rb @ rt @ payload p @ sb @ post"
  have 1: "parse_array e 8 ?bs (length pre) = Inr (sender_id p, length pre + 8)" for e
    by (rule parse_array_append) (simp_all add: s8)
  have 2: "parse_recipient (h_flags (header p)) ?bs (length pre + 8) =
      Inr (recipient_id p, length pre + 8 + length rb)"
    using parse_recipient_append [OF assms(2) fl(1) assms(5), of "length pre + 8" "pre @ sender_id p"] s8 by simp
  have 3: "parse_route (h_flags (header p)) ?bs (length pre + 8 + length rb) =
      Inr (route p, length pre + 8 + length rb + length rt)"
    using parse_route_append [OF assms(3) assms(5), of "length pre + 8 + length rb" "pre @ sender_id p @ rb"]
      s8 by simp
  have 4: "parse_array e (length (payload p)) ?bs (length pre + 8 + length rb + length rt) =
      Inr (payload p, length pre + 8 + length rb + length rt + length (payload p))" for e
    using parse_array_append [of "length pre + 8 + length rb + length rt" "pre @ sender_id p @ rb @ rt"
      "length (payload p)" "payload p" e "sb @ post"] s8 by simp
  have 5: "parse_signature (h_flags (header p)) ?bs
        (length pre + 8 + length rb + length rt + length (payload p)) =
      Inr (signature p, length pre + 8 + length rb + length rt + length (payload p) + length sb)"
    using parse_signature_append [OF assms(4) fl(2) assms(5),
      of "length pre + 8 + length rb + length rt + length (payload p)"
        "pre @ sender_id p @ rb @ rt @ payload p"] s8
    by simp
  show ?thesis
    by (simp add: decode_body_def PEER_ID_SIZE_def 1 2 3 4 5 len)
qed

lemma wire_roundtrip_v1_lemma:
  assumes "wire_encode p = Inr b" and "packet_wf p" and "version (header p) = PROTOCOL_VERSION_1"
  shows "wire_decode b = Inr p"
proof -
  from assms(1) obtain hb rb rt sb where v: "packet_validate p = Inr ()"
    and hb: "header_to_bytes (header p) = Inr hb" and rb: "encode_recipient p = Inr rb"
    and rt: "encode_route p = Inr rt" and sb: "encode_signature p = Inr sb"
    and b: "b = hb @ sender_id p @ rb @ rt @ payload p @ sb"
    by (rule wire_encode_InrD)
  have hlen: "length hb = 13" using header_to_bytes_InrD [OF hb] assms(3) by simp
  have size: "header_size (header p) = 13" using assms(3) by (simp add: header_size_def packet_consts)
  have hdr: "header_from_bytes b = Inr (header p)" unfolding b by (rule header_from_to_bytes [OF hb])
  have body: "decode_body (header p) b 13 = Inr (p, length b)"
    using decode_body_append [OF v rb rt sb assms(2), of hb "[]"] hlen assms(2)
    by (simp add: b packet_wf_def add.assoc)
  have "b \<noteq> []" "13 \<le> length b" using hlen by (auto simp: b)
  then show ?thesis by (simp add: wire_decode_def hdr size body v)
qed

lemma wire_v2_trailing:
  assumes "wire_encode p = Inr b" and "packet_wf p" and "version (header p) = PROTOCOL_VERSION_2"
    and "\<not> has_route (h_flags (header p))"
  shows "wire_decode b = Inl (invalid_packet ''Packet has trailing data'')"
  proof -
  from assms(1) obtain hb rb rt sb where v: "packet_validate p = Inr ()"
    and hb: "header_to_bytes (header p) = Inr hb" and rb: "encode_recipient p = Inr rb"
    and rt: "encode_route p = Inr rt" and sb: "encode_signature p = Inr sb"
    and b: "b = hb @ sender_id p @ rb @ rt @ payload p @ sb"
    by (rule wire_encode_InrD)
  have hlen: "length hb = 16" using header_to_bytes_InrD [OF hb] assms(3) by simp
  have s8: "length (sender_id p) = 8" using assms(2) by (simp add: packet_wf_def)
  have rt0: "rt = []" using rt assms(4) by (simp add: encode_route_def)
  have total: "length b = 24 + length rb + length (payload p) + length sb"
    by (simp add: b hlen s8 rt0)
  have size: "header_size (header p) = 15" using assms(3) by (simp add: header_size_def packet_consts)
  have hdr: "header_from_bytes b = Inr (header p)" unfolding b by (rule header_from_to_bytes [OF hb])
  obtain q where body: "decode_body (header p) b 15 = Inr (q, length b - 1)"
    using total v rb sb assms(2,4)
    by (auto simp: decode_body_def parse_array_def slice_def parse_recipient_def parse_route_def
          parse_signature_def encode_recipient_def encode_signature_def packet_validate_ok packet_wf_def
          wire_consts split: if_splits option.splits)
  show ?thesis using total by (auto simp: wire_decode_def hdr size body)
qed

subsection \<open>What a successful parse says about the input\<close>

lemma parse_array_InrD:
  assumes "parse_array e n bs offset = Inr (x, offset')"
  shows "drop offset bs = x @ drop offset' bs" and "length x = n" and "offset' \<le> length bs"
proof -
  from assms have le: "offset + n \<le> length bs" and x: "x = take n (drop offset bs)"
    and o': "offset' = offset + n"
    by (auto simp: parse_array_def slice_def split: if_splits)
  show "drop offset bs = x @ drop offset' bs"
    by (simp add: x o' drop_drop [symmetric] add.commute del: drop_drop)
  show "length x = n" "offset' \<le> length bs" using le by (simp_all add: x o')
qed

lemma parse_recipient_InrD:
  assumes "parse_recipient fl bs offset = Inr (r, offset')"
  obtains rb where "drop offset bs = rb @ drop offset' bs"
    and "if has_recipient fl then r = Some rb \<and> length rb = 8 else r = None \<and> rb = []"
  using assms
  by (auto simp: parse_recipient_def rbind_eq_Inr PEER_ID_SIZE_def dest: parse_array_InrD
      split: if_splits)

lemma parse_signature_InrD:
  assumes "parse_signature fl bs offset = Inr (r, offset')"
  obtains sb where "drop offset bs = sb @ drop offset' bs"
    and "if has_signature fl then r = Some sb \<and> length sb = 64 else r = None \<and> sb = []"
  using assms
  by (auto simp: parse_signature_def rbind_eq_Inr SIGNATURE_SIZE_def dest: parse_array_InrD
      split: if_splits)

lemma parse_route_InrD:
  assumes "parse_route fl bs offset = Inr (r, offset')"
  obtains rt where "drop offset bs = rt @ drop offset' bs"
    and "if has_route fl
         then \<exists>x. r = Some x \<and> length x \<le> 65535 \<and> rt = u16_to_be (word_of_nat (length x)) @ x
         else r = None \<and> rt = []"
proof (cases "has_route fl")
  case False
  with assms show thesis by (intro that [of "[]"]) (auto simp: parse_route_def)
next
  case True
  with assms obtain lb off x where lb: "parse_array ''Packet too short for route length'' 2 bs offset = Inr (lb, off)"
    and x: "parse_array ''Packet too short for route data'' (unat (u16_from_be lb)) bs off = Inr (x, offset')"
    and r: "r = Some x"
    by (auto simp: parse_route_def rbind_eq_Inr)
  have len: "length x = unat (u16_from_be lb)" by (rule parse_array_InrD(2) [OF x])
  have "u16_to_be (word_of_nat (length x)) = lb"
    unfolding len using parse_array_InrD(2) [OF lb] by (simp add: to_be_from_be)
  moreover have "length x \<le> 65535" using unat_u16_bound [of "u16_from_be lb"] by (simp add: len)
  moreover have "drop offset bs = (lb @ x) @ drop offset' bs"
    using parse_array_InrD(1) [OF lb] parse_array_InrD(1) [OF x] by simp
  ultimately show thesis using True r by (intro that [of "lb @ x"]) auto
qed

lemma wire_decode_canonical_lemma:
  assumes "wire_decode bs = Inr p" and "version (header p) = PROTOCOL_VERSION_1"
  shows "packet_wf p" and "wire_encode p = Inr bs"
proof -
  from assms(1) obtain h off where hdr: "header_from_bytes bs = Inr h"
    and body: "decode_body h bs (header_size h) = Inr (p, off)"
    and off: "off = length bs" and v: "packet_validate p = Inr ()"
    by (auto simp: wire_decode_def rbind_eq_Inr split: if_splits)
  from body obtain sender o1 rid o2 rt o3 pl o4 sig where
      1: "parse_array ''Packet too short for sender ID'' PEER_ID_SIZE bs (header_size h) = Inr (sender, o1)"
    and 2: "parse_recipient (h_flags h) bs o1 = Inr (rid, o2)"
    and 3: "parse_route (h_flags h) bs o2 = Inr (rt, o3)"
    and 4: "parse_array ''Packet too short for payload'' (unat (payload_length h)) bs o3 = Inr (pl, o4)"
    and 5: "parse_signature (h_flags h) bs o4 = Inr (sig, off)"
    and p: "p = \<lparr>header = h, sender_id = sender, recipient_id = rid, route = rt, payload = pl,
                 signature = sig\<rparr>"
    by (auto simp: decode_body_def rbind_eq_Inr)
  have ver: "version h = PROTOCOL_VERSION_1" using assms(2) by (simp add: p)
  have size: "header_size h = 13" using ver by (simp add: header_size_def packet_consts)
  note hc = header_from_bytes_canonical [OF hdr ver]
  obtain rb where rb: "drop o1 bs = rb @ drop o2 bs"
    "if has_recipient (h_flags h) then rid = Some rb \<and> length rb = 8 else rid = None \<and> rb = []"
    using 2 by (rule parse_recipient_InrD)
  obtain rtb where rtb: "drop o2 bs = rtb @ drop o3 bs"
    "if has_route (h_flags h)
     then \<exists>x. rt = Some x \<and> length x \<le> 65535 \<and> rtb = u16_to_be (word_of_nat (length x)) @ x
     else rt = None \<and> rtb = []"
    using 3 by (rule parse_route_InrD)
  obtain sb where sb: "drop o4 bs = sb @ drop off bs"
    "if has_signature (h_flags h) then sig = Some sb \<and> length sb = 64 else sig = None \<and> sb = []"
    using 5 by (rule parse_signature_InrD)
  have "bs = take 13 bs @ drop 13 bs" by simp
  also have "drop 13 bs = sender @ rb @ rtb @ pl @ sb"
    using parse_array_InrD(1) [OF 1] rb(1) rtb(1) parse_array_InrD(1) [OF 4] sb(1) off by (simp add: size)
  finally have bs: "bs = take 13 bs @ sender @ rb @ rtb @ pl @ sb" .
  show "packet_wf p"
    using parse_array_InrD(2) [OF 1] rb(2) rtb(2) sb(2)
    by (auto simp: packet_wf_def p PEER_ID_SIZE_def split: if_splits)
  have "encode_recipient p = Inr rb" "encode_route p = Inr rtb" "encode_signature p = Inr sb"
    using rb(2) rtb(2) sb(2)
    by (auto simp: p encode_recipient_def encode_route_def encode_signature_def split: if_splits)
  then show "wire_encode p = Inr bs"
    using hc(2) v bs by (simp add: wire_encode_def p)
qed

text \<open>The version 1 format as a canonical codec: the frame of a version 1 packet is its first byte.\<close>

definition framed_v1 :: "bytes \<Rightarrow> bool" where
  "framed_v1 b = (b \<noteq> [] \<and> hd b = PROTOCOL_VERSION_1)"

definition valid_v1 :: "bitchat_packet \<Rightarrow> bool" where
  "valid_v1 p = (packet_wf p \<and> version (header p) = PROTOCOL_VERSION_1 \<and> is_ok (wire_encode p))"

interpretation wire_v1: canonical_codec wire_encode wire_decode valid_v1 framed_v1
proof
  show "is_ok (wire_encode p)" if "valid_v1 p" for p
    using that by (simp add: valid_v1_def)
  show "wire_decode b = Inr p" if "valid_v1 p" "wire_encode p = Inr b" for p b
    using that by (simp add: valid_v1_def wire_roundtrip_v1_lemma)
  show "framed_v1 b" if "valid_v1 p" "wire_encode p = Inr b" for p b
    using that by (auto simp: valid_v1_def framed_v1_def header_to_bytes_def Let_def rbind_eq_Inr
        wire_encode_def split: if_splits)
  show "valid_v1 p \<and> wire_encode p = Inr b" if "framed_v1 b" "wire_decode b = Inr p" for b p
  proof -
    from that have "version (header p) = PROTOCOL_VERSION_1"
      by (auto simp: framed_v1_def wire_decode_def decode_body_def rbind_eq_Inr hd_conv_nth
          dest!: header_from_bytes_version split: if_splits)
    with that(2) show ?thesis
      using wire_decode_canonical_lemma [of b p] by (simp add: valid_v1_def)
  qed
qed

section \<open>Padding lemmas\<close>

definition padding_gap :: "nat \<Rightarrow> nat" where
  "padding_gap n = optimal_block_size n - n"

lemma optimal_block_size_ge: "n \<le> optimal_block_size n"
  using div_ceil_bounds(1) [of 2048 n]
  by (auto simp: optimal_block_size_def PADDING_BLOCK_SIZES_def)

lemma optimal_block_size_bound: "optimal_block_size n < n + 2048"
  using div_ceil_bounds(2) [of 2048 n]
  by (auto simp: optimal_block_size_def PADDING_BLOCK_SIZES_def)

lemma length_padding_pad: "length (padding_pad d) = optimal_block_size (length d)"
  using optimal_block_size_ge [of "length d"] by (simp add: padding_pad_def Let_def)

lemma padding_pad_gap:
  "0 < padding_gap (length d) \<Longrightarrow>
   padding_pad d = d @ replicate (padding_gap (length d)) (word_of_nat (padding_gap (length d)))"
  by (simp add: padding_pad_def padding_gap_def Let_def)

lemma padding_unpad_last:
  assumes "0 < n"
  shows "padding_unpad (d @ replicate n b) =
    (let k = unat b in
     if k = 0 \<or> length d + n < k then Inr (d @ replicate n b)
     else if list_all (\<lambda>c. c = b) (drop (length d + n - k) (d @ replicate n b))
     then Inr (take (length d + n - k) (d @ replicate n b)) else Inr (d @ replicate n b))"
proof -
  from assms obtain m where n: "n = Suc m" by (cases n) auto
  have "(d @ replicate n b) ! (length d + n - 1) = b"
    by (simp add: nth_append n nth_replicate del: replicate_Suc)
  then show ?thesis using assms
    by (simp add: padding_unpad_def index_at_def Let_def)
qed

lemma padding_unpad_snoc_1: "padding_unpad (d @ [1]) = Inr d"
  using padding_unpad_last [of 1 d 1] by (simp add: Let_def)

lemma unpad_pad_lemma:
  assumes "0 < padding_gap (length d)"
  shows "padding_unpad (padding_pad d) = Inr d \<longleftrightarrow> padding_gap (length d) < 256"
proof -
  let ?n = "padding_gap (length d)"
  have eq: "padding_unpad (padding_pad d) = padding_unpad (d @ replicate ?n (word_of_nat ?n))"
    using assms by (simp add: padding_pad_gap)
  show ?thesis
  proof
    assume "?n < 256"
    then show "padding_unpad (padding_pad d) = Inr d"
      using assms by (simp add: eq padding_unpad_last Let_def list_all_iff)
  next
    assume ok: "padding_unpad (padding_pad d) = Inr d"
    have "unat (word_of_nat ?n :: u8) < 256" by (rule unat_u8_bound)
    with ok assms show "?n < 256"
      unfolding eq padding_unpad_last [OF assms] Let_def
      by (auto dest!: arg_cong [where f = length] split: if_splits)
  qed
qed

section \<open>Properties\<close>

text \<open>C1: Every well-formed version 1 packet the encoder accepts decodes to exactly that packet.\<close>

theorem wire_roundtrip_v1:
  assumes "packet_wf p" and "version (header p) = PROTOCOL_VERSION_1" and "wire_encode p = Inr b"
  shows "wire_decode b = Inr p"
  using assms by (intro wire_v1.dec_enc) (simp_all add: valid_v1_def)

lemma example_packet_encodes:
  "wire_encode example_packet =
     Inr ([1, 2, 7] @ u64_to_be 1234567890000 @ [0, 2] @ [1, 2, 3, 4, 5, 6, 7, 8] @ [72, 105])"
  by (simp add: wire_encode_def example_packet_def packet_new_simple_def packet_validate_ok [THEN iffD2]
      header_validate_ok header_to_bytes_v1 encode_recipient_def encode_route_def
      encode_signature_def header_new_def packet_consts packet_flag_defs packet_flag_consts
      TTL_DEFAULT_def)

lemma example_packet_wf: "packet_wf example_packet" "version (header example_packet) = PROTOCOL_VERSION_1"
  by (simp_all add: example_packet_def packet_new_simple_def packet_wf_def header_new_def
      CURRENT_PROTOCOL_VERSION_def)

theorem wire_roundtrip_v1_witness:
  "wire_decode ([1, 2, 7] @ u64_to_be 1234567890000 @ [0, 2] @ [1, 2, 3, 4, 5, 6, 7, 8] @ [72, 105])
     = Inr example_packet"
  by (rule wire_roundtrip_v1 [OF example_packet_wf example_packet_encodes])

text \<open>C2: The version 1 format is not malleable: an input that starts with version 1 is accepted only
  if it is the encoding of the packet it decodes to, so two different inputs never decode to the
  same packet.\<close>

theorem wire_v1_canonical:
  assumes "hd b = PROTOCOL_VERSION_1" and "wire_decode b = Inr p"
  shows "wire_encode p = Inr b \<and> packet_wf p"
proof -
  have "framed_v1 b" using assms by (auto simp: framed_v1_def wire_decode_def)
  with assms(2) show ?thesis using wire_v1.dec_canonical [of b p] by (simp add: valid_v1_def)
qed

theorem wire_v1_canonical_witness:
  "wire_encode example_packet =
     Inr ([1, 2, 7] @ u64_to_be 1234567890000 @ [0, 2] @ [1, 2, 3, 4, 5, 6, 7, 8] @ [72, 105]) \<and>
   packet_wf example_packet"
  by (rule wire_v1_canonical)
    (simp_all add: wire_v1.dec_enc [OF _ example_packet_encodes, simplified] valid_v1_def
      example_packet_wf example_packet_encodes PROTOCOL_VERSION_1_def)

text \<open>C4: No version 2 packet without a route survives the wire: the encoder writes a header of 16
  bytes, the decoder skips \<^verbatim>\<open>HEADER_SIZE_V2 = 15\<close> of them, and every such encoding is refused with
  ``Packet has trailing data''.\<close>

theorem wire_v2_undecodable:
  assumes "packet_wf p" and "version (header p) = PROTOCOL_VERSION_2"
    and "\<not> has_route (h_flags (header p))" and "wire_encode p = Inr b"
  shows "wire_decode b = Inl (invalid_packet ''Packet has trailing data'')"
  using assms by (intro wire_v2_trailing)

definition example_packet_v2 :: bitchat_packet where
  "example_packet_v2 =
     example_packet\<lparr>header := (header example_packet)\<lparr>version := PROTOCOL_VERSION_2\<rparr>\<rparr>"

lemma example_packet_v2_encodes:
  "wire_encode example_packet_v2 =
     Inr ([2, 2, 7] @ u64_to_be 1234567890000 @ [0] @ u32_to_be 2 @ [1, 2, 3, 4, 5, 6, 7, 8]
          @ [72, 105])"
  by (simp add: wire_encode_def example_packet_v2_def example_packet_def packet_new_simple_def
      packet_validate_ok [THEN iffD2] header_validate_ok header_to_bytes_v2 encode_recipient_def encode_route_def
      encode_signature_def header_new_def packet_consts packet_flag_defs packet_flag_consts
      TTL_DEFAULT_def)

theorem wire_v2_undecodable_witness:
  "wire_decode ([2, 2, 7] @ u64_to_be 1234567890000 @ [0] @ u32_to_be 2 @ [1, 2, 3, 4, 5, 6, 7, 8]
      @ [72, 105])
   = Inl (invalid_packet ''Packet has trailing data'')"
  by (rule wire_v2_undecodable [OF _ _ _ example_packet_v2_encodes])
    (simp_all add: example_packet_v2_def example_packet_def packet_new_simple_def packet_wf_def
      header_new_def packet_flag_defs packet_flag_consts)

text \<open>Padding is removed again exactly when it is shorter than 256 bytes. The block sizes leave
  gaps of up to 1023 bytes below 2048 and up to 2047 above it, and the length byte is the gap cast to
  \<^verbatim>\<open>u8\<close>: for every larger gap, unpadding returns something else than the data.\<close>

theorem unpad_pad_iff:
  assumes "length d < optimal_block_size (length d)"
  shows "padding_unpad (padding_pad d) = Inr d \<longleftrightarrow> optimal_block_size (length d) - length d < 256"
  using unpad_pad_lemma [of d] assms by (simp add: padding_gap_def)

theorem unpad_pad_iff_witness:
  "padding_unpad (padding_pad [1, 2, 3]) = Inr [1, 2, 3] \<and>
   padding_unpad (padding_pad (replicate 600 7)) \<noteq> Inr (replicate 600 7)"
  using unpad_pad_iff [of "[1, 2, 3]"] unpad_pad_iff [of "replicate 600 7"]
  by (simp add: optimal_block_size_def PADDING_BLOCK_SIZES_def)

section \<open>Compression and padding options\<close>

lemma compression_flag_clear:
  "\<not> is_compressed f \<Longrightarrow> flags_with_compression f AND NOT PF_IS_COMPRESSED = f"
  by (simp add: flags_with_compression_def is_compressed_def flag_clear)

text \<open>Decoding with options undoes encoding with options when padding is on and the gap to the
  block size is between 1 and 255 bytes: the packet comes back with its original payload, payload
  length and flags, whether it was compressed or not. Of the compressor only this is used: what it
  produced decompresses to its input.\<close>

theorem options_roundtrip:
  assumes zlib: "\<forall>d c. compress d = Inr c \<longrightarrow> decompress c = Inr d"
    and wf: "packet_wf p" "version (header p) = PROTOCOL_VERSION_1"
      "\<not> is_compressed (h_flags (header p))"
      "payload_length (header p) = word_of_nat (length (payload p))"
    and q: "compress_packet compress enabled p = Inr q" and raw: "wire_encode q = Inr raw"
    and gap: "length raw < optimal_block_size (length raw)"
      "optimal_block_size (length raw) - length raw < 256"
  shows "rbind (encode_with_options compress p enabled True) (decode_with_options decompress) = Inr p"
proof -
  have "packet_wf q" "version (header q) = PROTOCOL_VERSION_1"
    using q wf by (auto simp: compress_packet_def update_payload_length_def packet_wf_def rbind_eq_Inr
        split: if_splits)
  then have dec: "wire_decode raw = Inr q" using raw by (simp add: wire_roundtrip_v1_lemma)
  have unpad: "padding_unpad (padding_pad raw) = Inr raw"
    using unpad_pad_lemma [of raw] gap by (simp add: padding_gap_def)
  have "rbind (encode_with_options compress p enabled True) (decode_with_options decompress) =
    decode_with_options decompress (padding_pad raw)"
    by (simp add: encode_with_options_def q raw)
  also have "\<dots> = Inr p"
  proof (cases "enabled \<and> should_compress (payload p)")
    case False
    with q have "q = p" by (auto simp: compress_packet_def)
    with wf(3) show ?thesis by (simp add: decode_with_options_def unpad dec)
  next
    case True
    with q obtain c where c: "compress (payload p) = Inr c"
      and qd: "q = update_payload_length (p\<lparr>payload := c,
        header := (header p)\<lparr>h_flags := flags_with_compression (h_flags (header p))\<rparr>\<rparr>)"
      by (auto simp: compress_packet_def rbind_eq_Inr)
    from zlib c have "decompress c = Inr (payload p)" by blast
    then show ?thesis
      using wf(3,4)
      by (simp add: decode_with_options_def unpad dec qd update_payload_length_def
          compression_flag_clear)
  qed
  finally show ?thesis .
qed

text \<open>A compressor for one message, as an instance of the hypothesis: a run of 300 bytes becomes one.\<close>

definition toy_compress :: "bytes \<Rightarrow> bytes result" where
  "toy_compress d = (if d = replicate 300 7 then Inr [7] else Inl serialization_error)"

definition toy_decompress :: "bytes \<Rightarrow> bytes result" where
  "toy_decompress c = Inr (replicate 300 7)"

definition example_long_packet :: bitchat_packet where
  "example_long_packet =
     packet_new_simple 1234567890000 Message [1, 2, 3, 4, 5, 6, 7, 8] (replicate 300 7)"

definition example_compressed :: bitchat_packet where
  "example_compressed = example_long_packet\<lparr>payload := [7], header := (header example_long_packet)
     \<lparr>h_flags := PF_IS_COMPRESSED, payload_length := 1\<rparr>\<rparr>"

lemma example_compressed_eq:
  "compress_packet toy_compress True example_long_packet = Inr example_compressed"
  by (simp add: compress_packet_def toy_compress_def should_compress_def COMPRESSION_THRESHOLD_def
      example_compressed_def example_long_packet_def packet_new_simple_def header_new_def
      update_payload_length_def flags_with_compression_def packet_flag_consts)

lemma example_compressed_encodes:
  "wire_encode example_compressed =
     Inr ([1, 2, 7] @ u64_to_be 1234567890000 @ [4, 1] @ [1, 2, 3, 4, 5, 6, 7, 8] @ [7])"
  by (simp add: wire_encode_def example_compressed_def example_long_packet_def packet_new_simple_def
      packet_validate_ok [THEN iffD2] header_validate_ok header_to_bytes_v1 encode_recipient_def
      encode_route_def encode_signature_def header_new_def packet_consts packet_flag_defs
      packet_flag_consts TTL_DEFAULT_def)

theorem options_roundtrip_witness:
  "rbind (encode_with_options toy_compress example_long_packet True True)
     (decode_with_options toy_decompress) = Inr example_long_packet"
  by (rule options_roundtrip [OF _ _ _ _ _ example_compressed_eq example_compressed_encodes])
    (simp_all add: toy_compress_def toy_decompress_def example_long_packet_def packet_new_simple_def
      packet_wf_def header_new_def CURRENT_PROTOCOL_VERSION_def packet_flag_defs
      optimal_block_size_def PADDING_BLOCK_SIZES_def)

text \<open>Decoding always removes padding, also from packets that were sent without it: an unpadded
  packet whose encoding ends in the byte 1 loses that byte and does not decode to itself, whatever the
  decompressor does.\<close>

theorem unpadded_packet_lost:
  assumes wf: "packet_wf p" "version (header p) = PROTOCOL_VERSION_1"
      "\<not> is_compressed (h_flags (header p))"
    and raw: "encode_with_options compress p False False = Inr raw" and one: "last raw = 1"
  shows "decode_with_options decompress raw \<noteq> Inr p"
proof
  assume dec: "decode_with_options decompress raw = Inr p"
  from raw have enc: "wire_encode p = Inr raw"
    by (simp add: encode_with_options_def compress_packet_def rbind_eq_Inr)
  then obtain hb rb rt sb where hb: "header_to_bytes (header p) = Inr hb"
    and raw': "raw = hb @ sender_id p @ rb @ rt @ payload p @ sb"
    by (rule wire_encode_InrD)
  define rest where "rest = sender_id p @ rb @ rt @ payload p @ sb"
  have split: "raw = hb @ rest" and rest: "rest \<noteq> []"
    using raw' wf(1) by (auto simp: rest_def packet_wf_def)
  have "butlast raw @ [1] = raw" using one rest split append_butlast_last_id [of raw] by simp
  then have "padding_unpad raw = Inr (butlast raw)" by (metis padding_unpad_snoc_1)
  with dec obtain q where q: "wire_decode (butlast raw) = Inr q"
    and qp: "if is_compressed (h_flags (header q)) then True else q = p"
    by (auto simp: decode_with_options_def rbind_eq_Inr split: if_splits)
  have "header_from_bytes (butlast raw) = Inr (header p)"
    using header_from_to_bytes [OF hb, of "butlast rest"] rest by (simp add: split butlast_append)
  with q have hq: "header q = header p"
    by (auto simp: wire_decode_def decode_body_def rbind_eq_Inr split: if_splits)
  with qp wf(3) have "q = p" by simp
  with wire_decode_canonical_lemma(2) [OF q] wf(2) enc have "raw = butlast raw" by simp
  then have "length raw = length raw - 1" by (metis length_butlast)
  with rest split show False by (cases rest) simp_all
qed

definition example_packet_one :: bitchat_packet where
  "example_packet_one = packet_new_simple 1234567890000 Message [1, 2, 3, 4, 5, 6, 7, 8] [72, 1]"

lemma example_packet_one_encodes:
  "encode_with_options compress_fallback example_packet_one False False =
     Inr ([1, 2, 7] @ u64_to_be 1234567890000 @ [0, 2] @ [1, 2, 3, 4, 5, 6, 7, 8] @ [72, 1])"
  by (simp add: encode_with_options_def compress_packet_def wire_encode_def example_packet_one_def
      packet_new_simple_def packet_validate_ok [THEN iffD2] header_validate_ok header_to_bytes_v1
      encode_recipient_def encode_route_def encode_signature_def header_new_def packet_consts
      packet_flag_defs packet_flag_consts TTL_DEFAULT_def)

theorem unpadded_packet_lost_witness:
  "decode_with_options decompress_fallback
     ([1, 2, 7] @ u64_to_be 1234567890000 @ [0, 2] @ [1, 2, 3, 4, 5, 6, 7, 8] @ [72, 1])
   \<noteq> Inr example_packet_one"
  by (rule unpadded_packet_lost [OF _ _ _ example_packet_one_encodes])
    (simp_all add: example_packet_one_def packet_new_simple_def packet_wf_def header_new_def
      CURRENT_PROTOCOL_VERSION_def packet_flag_defs)

end
