(* ===== verification/Tlv.thy ===== *)
theory Tlv
  imports Packet
begin

text \<open>
  Type-length-value entries and lists of them:
  \<^verbatim>\<open>src/crates/bitchat-core/src/protocol/tlv.rs\<close>. A \<^verbatim>\<open>TlvCodec\<close> is the list of its entries.
\<close>

section \<open>Entries\<close>

datatype tlv_type = Nickname | NoisePublicKey | SigningPublicKey | DirectNeighbors

fun tlv_type_as_u8 :: "tlv_type \<Rightarrow> u8" where
  "tlv_type_as_u8 Nickname = 0x01"
| "tlv_type_as_u8 NoisePublicKey = 0x02"
| "tlv_type_as_u8 SigningPublicKey = 0x03"
| "tlv_type_as_u8 DirectNeighbors = 0x04"

definition tlv_type_from_u8 :: "u8 \<Rightarrow> tlv_type result" where
  "tlv_type_from_u8 v =
     (if v = 0x01 then Inr Nickname
      else if v = 0x02 then Inr NoisePublicKey
      else if v = 0x03 then Inr SigningPublicKey
      else if v = 0x04 then Inr DirectNeighbors
      else Inl (Err (InvalidTlvType v)))"

record tlv_entry =
  te_type :: tlv_type
  te_value :: bytes

definition tlv_entry_new :: "tlv_type \<Rightarrow> bytes \<Rightarrow> tlv_entry" where
  "tlv_entry_new t v = \<lparr>te_type = t, te_value = v\<rparr>"

definition tlv_nickname :: "rust_string \<Rightarrow> tlv_entry result" where
  "tlv_nickname nickname =
     (if 255 < length nickname then Inl (Err (TlvValueTooLarge (length nickname)))
      else Inr (tlv_entry_new Nickname nickname))"

definition tlv_noise_public_key :: "bytes \<Rightarrow> tlv_entry" where
  "tlv_noise_public_key key = tlv_entry_new NoisePublicKey key"

definition tlv_signing_public_key :: "bytes \<Rightarrow> tlv_entry" where
  "tlv_signing_public_key key = tlv_entry_new SigningPublicKey key"

definition tlv_direct_neighbors :: "bytes list \<Rightarrow> tlv_entry" where
  "tlv_direct_neighbors neighbors = tlv_entry_new DirectNeighbors (concat neighbors)"

definition as_nickname :: "tlv_entry \<Rightarrow> rust_string result" where
  "as_nickname e =
     (if te_type e \<noteq> Nickname then Inl (Err (InvalidTlvType (tlv_type_as_u8 (te_type e))))
      else if utf8_valid (te_value e) then Inr (te_value e)
      else Inl (Err InvalidUtf8))"

definition as_key :: "tlv_entry \<Rightarrow> bytes result" where
  "as_key e =
     (if length (te_value e) \<noteq> 32 then Inl (Err (InvalidKeyLength (length (te_value e))))
      else Inr (te_value e))"

text \<open>\<^verbatim>\<open>chunks_exact(32)\<close>: full chunks only, a shorter remainder is left out.\<close>

function chunks_exact :: "nat \<Rightarrow> bytes \<Rightarrow> bytes list" where
  "chunks_exact n bs =
     (if 0 < n \<and> n \<le> length bs then take n bs # chunks_exact n (drop n bs) else [])"
  by pat_completeness auto
termination by (relation "measure (\<lambda>(n, bs). length bs)") auto

declare chunks_exact.simps [simp del]

definition as_neighbors :: "tlv_entry \<Rightarrow> bytes list result" where
  "as_neighbors e =
     (if te_type e \<noteq> DirectNeighbors then Inl (Err (InvalidTlvType (tlv_type_as_u8 (te_type e))))
      else if length (te_value e) mod 32 \<noteq> 0 then Inl (Err (InvalidDataLength (length (te_value e))))
      else Inr (chunks_exact 32 (te_value e)))"

definition entry_encode :: "tlv_entry \<Rightarrow> bytes" where
  "entry_encode e =
     [tlv_type_as_u8 (te_type e)] @ u16_to_be (word_of_nat (length (te_value e))) @ te_value e"

definition entry_decode :: "bytes \<Rightarrow> (tlv_entry \<times> nat) result" where
  "entry_decode data =
     (if length data < 3 then Inl (Err (InsufficientData (length data)))
      else
        rbind (index_at data 0) (\<lambda>b0.
        rbind (tlv_type_from_u8 b0) (\<lambda>t.
        rbind (slice data 1 3) (\<lambda>lb.
          let len = unat (u16_from_be lb); total = 3 + len
          in if length data < total then Inl (Err (InsufficientData (length data)))
             else rbind (slice data 3 (3 + len)) (\<lambda>v. Inr (tlv_entry_new t v, total))))))"

section \<open>The codec\<close>

type_synonym tlv_codec = "tlv_entry list"

definition add_entry :: "tlv_codec \<Rightarrow> tlv_entry \<Rightarrow> tlv_codec" where
  "add_entry codec e = codec @ [e]"

definition find_entry :: "tlv_codec \<Rightarrow> tlv_type \<Rightarrow> tlv_entry option" where
  "find_entry codec t = find (\<lambda>e. te_type e = t) codec"

definition codec_encode :: "tlv_codec \<Rightarrow> bytes" where
  "codec_encode codec = concat (map entry_encode codec)"

lemma entry_decode_consumes:
  "entry_decode data = Inr (e, n) \<Longrightarrow> 3 \<le> n \<and> n \<le> length data"
  by (auto simp: entry_decode_def rbind_eq_Inr Let_def split: if_splits)

text \<open>The \<^verbatim>\<open>while\<close> loop of \<^verbatim>\<open>TlvCodec::decode\<close>: it ends because each entry takes at least 3 bytes.\<close>

function codec_decode_from :: "bytes \<Rightarrow> nat \<Rightarrow> tlv_codec \<Rightarrow> tlv_codec result" where
  "codec_decode_from data offset codec =
     (if offset < length data then
        rbind (entry_decode (drop offset data)) (\<lambda>(e, consumed).
          codec_decode_from data (offset + consumed) (add_entry codec e))
      else Inr codec)"
  by pat_completeness auto
termination
  by (relation "measure (\<lambda>(data, offset, codec). length data - offset)")
    (auto dest: entry_decode_consumes)

declare codec_decode_from.simps [simp del]

definition codec_decode :: "bytes \<Rightarrow> tlv_codec result" where
  "codec_decode data = codec_decode_from data 0 []"

fun validate_required :: "tlv_codec \<Rightarrow> tlv_type list \<Rightarrow> unit result" where
  "validate_required codec [] = Inr ()"
| "validate_required codec (t # ts) =
     (if find_entry codec t = None then Inl (Err (MissingRequiredTlv (tlv_type_as_u8 t)))
      else validate_required codec ts)"

section \<open>Lemmas\<close>

interpretation tlv: byte_enum tlv_type_as_u8 tlv_type_from_u8 "\<lambda>_. True"
proof
  show "tlv_type_from_u8 (tlv_type_as_u8 t) = Inr t" for t
    by (cases t) (simp_all add: tlv_type_from_u8_def)
  show "True \<and> tlv_type_as_u8 t = b" if "tlv_type_from_u8 b = Inr t" for b t
    using that by (auto simp: tlv_type_from_u8_def split: if_splits)
qed

definition entry_valid :: "tlv_entry \<Rightarrow> bool" where
  "entry_valid e = (length (te_value e) < 65536)"

lemma tlv_entry_eta [simp]: "tlv_entry_new (te_type e) (te_value e) = e"
  by (simp add: tlv_entry_new_def)

lemma entry_decode_encode_gen:
  "entry_decode (entry_encode e @ rest) =
     Inr (tlv_entry_new (te_type e) (take (length (te_value e) mod 65536) (te_value e @ rest)),
       3 + length (te_value e) mod 65536)"
proof -
  let ?lb = "u16_to_be (word_of_nat (length (te_value e)))"
  let ?n = "length (te_value e) mod 65536"
  have "slice (entry_encode e @ rest) 1 3 = Inr ?lb"
    using slice_append [of 1 "[tlv_type_as_u8 (te_type e)]" 3 ?lb "te_value e @ rest"]
    by (simp add: entry_encode_def)
  moreover have "?n \<le> length (te_value e)" by simp
  moreover have "unat (u16_from_be ?lb) = ?n" by (simp add: unat_of_nat)
  moreover have "slice (entry_encode e @ rest) 3 (3 + ?n) = Inr (take ?n (te_value e @ rest))"
    by (simp add: slice_def entry_encode_def numeral_3_eq_3)
  ultimately show ?thesis
    using tlv.from_as [of "te_type e"]
    by (simp add: entry_decode_def index_at_def Let_def entry_encode_def)
qed

lemma entry_decode_encode [codec_simps]:
  "entry_valid e \<Longrightarrow> entry_decode (entry_encode e @ rest) = Inr (e, length (entry_encode e))"
  by (simp add: entry_decode_encode_gen entry_valid_def) (simp add: entry_encode_def)

lemma entry_decode_canonical:
  assumes "entry_decode data = Inr (e, n)"
  shows "entry_valid e" and "data = entry_encode e @ drop n data"
proof -
  from assms obtain t lb where len: "3 \<le> length data" and t: "tlv_type_from_u8 (data ! 0) = Inr t"
    and lb: "slice data 1 3 = Inr lb" and n: "n = 3 + unat (u16_from_be lb)" "n \<le> length data"
    and e: "e = tlv_entry_new t (take (n - 3) (drop 3 data))"
    by (auto simp: entry_decode_def rbind_eq_Inr Let_def index_at_def slice_def split: if_splits)
  have vlen: "length (te_value e) = unat (u16_from_be lb)"
    using n by (simp add: e tlv_entry_new_def)
  then show "entry_valid e" using unat_u16_bound by (simp add: entry_valid_def)
  have "u16_to_be (word_of_nat (length (te_value e))) = lb"
    using slice_InrD [OF lb] by (simp add: vlen to_be_from_be)
  moreover have "lb = take 2 (drop 1 data)" using lb len by (simp add: slice_def)
  moreover have "tlv_type_as_u8 (te_type e) = data ! 0"
    using tlv.as_from [OF t] by (simp add: e tlv_entry_new_def)
  ultimately have enc: "entry_encode e = [data ! 0] @ take 2 (drop 1 data) @ take (n - 3) (drop 3 data)"
    by (simp add: entry_encode_def) (simp add: e tlv_entry_new_def)
  have "data = take 1 data @ drop 1 data" by simp
  also have "take 1 data = [data ! 0]" using len by (cases data) simp_all
  also have "drop 1 data = take 2 (drop 1 data) @ drop 3 data"
    using append_take_drop_id [of 2 "drop 1 data"] by simp
  also have "drop 3 data = take (n - 3) (drop 3 data) @ drop n data"
    using append_take_drop_id [of "n - 3" "drop 3 data"] n(1) by (simp add: add.commute)
  finally show "data = entry_encode e @ drop n data" by (simp add: enc)
qed

lemma codec_decode_from_append:
  assumes "list_all entry_valid es"
  shows "codec_decode_from (pre @ codec_encode es) (length pre) codec = Inr (codec @ es)"
  using assms
proof (induction es arbitrary: pre codec)
  case Nil
  then show ?case by (simp add: codec_decode_from.simps codec_encode_def)
next
  case (Cons e es)
  have "entry_encode e \<noteq> []" by (simp add: entry_encode_def)
  moreover have "entry_decode (codec_encode (e # es)) = Inr (e, length (entry_encode e))"
    using Cons.prems entry_decode_encode [of e "codec_encode es"] by (simp add: codec_encode_def)
  moreover have "codec_decode_from (pre @ codec_encode (e # es)) (length pre + length (entry_encode e))
      (add_entry codec e) = Inr (codec @ e # es)"
    using Cons.IH [of "pre @ entry_encode e" "add_entry codec e"] Cons.prems
    by (simp add: codec_encode_def add_entry_def)
  ultimately show ?case
    by (subst codec_decode_from.simps) (simp add: codec_encode_def)
qed

lemma codec_decode_from_canonical:
  "codec_decode_from data offset codec = Inr codec' \<Longrightarrow> offset \<le> length data \<Longrightarrow>
   \<exists>es. codec' = codec @ es \<and> list_all entry_valid es \<and> drop offset data = codec_encode es"
proof (induction data offset codec rule: codec_decode_from.induct)
  case (1 data offset codec)
  show ?case
  proof (cases "offset < length data")
    case False
    with 1(2,3) show ?thesis by (simp add: codec_decode_from.simps codec_encode_def)
  next
    case True
    with 1(2) obtain e n where en: "entry_decode (drop offset data) = Inr (e, n)"
      and rec: "codec_decode_from data (offset + n) (add_entry codec e) = Inr codec'"
      by (subst (asm) codec_decode_from.simps) (auto simp: rbind_eq_Inr)
    note canon = entry_decode_canonical [OF en]
    have "offset + n \<le> length data" using entry_decode_consumes [OF en] True by auto
    with "1.IH" [OF True en refl rec] obtain es where "codec' = add_entry codec e @ es"
      "list_all entry_valid es" "drop (offset + n) data = codec_encode es"
      by blast
    with canon show ?thesis
      by (intro exI [of _ "e # es"]) (simp add: add_entry_def codec_encode_def add.commute)
  qed
qed

interpretation tlv_codec: canonical_codec "\<lambda>es. Inr (codec_encode es)" codec_decode
  "list_all entry_valid" "\<lambda>_. True"
proof
  show "codec_decode b = Inr es" if "list_all entry_valid es" "Inr (codec_encode es) = Inr b" for es b
    using that codec_decode_from_append [of es "[]" "[]"] by (simp add: codec_decode_def)
  show "list_all entry_valid es \<and> Inr (codec_encode es) = Inr b"
    if "True" "codec_decode b = Inr es" for b es
    using that codec_decode_from_canonical [of b 0 "[]" es] by (auto simp: codec_decode_def)
qed simp_all

lemma concat_chunks_exact: "n dvd length bs \<Longrightarrow> 0 < n \<Longrightarrow> concat (chunks_exact n bs) = bs"
proof (induction n bs rule: chunks_exact.induct)
  case (1 n bs)
  show ?case
  proof (cases "n \<le> length bs")
    case True
    with 1 have "concat (chunks_exact n (drop n bs)) = drop n bs" by (simp add: dvd_diff_nat)
    with True 1(3) show ?thesis by (subst chunks_exact.simps) simp
  next
    case False
    with 1(2,3) have "length bs = 0" using dvd_imp_le [of n "length bs"] by linarith
    with False show ?thesis by (subst chunks_exact.simps) simp
  qed
qed

lemma chunks_exact_concat:
  "0 < n \<Longrightarrow> list_all (\<lambda>x. length x = n) xs \<Longrightarrow> chunks_exact n (concat xs) = xs"
  by (induction xs) (auto simp: chunks_exact.simps)

lemma length_concat_const: "list_all (\<lambda>x. length x = n) xs \<Longrightarrow> length (concat xs) = n * length xs"
  by (induction xs) auto

section \<open>Properties\<close>

text \<open>Parsing a list of TLV entries is the exact inverse of printing it: a list of entries with
  values shorter than 65536 bytes is parsed back from its encoding, and every input that parses is
  the encoding of the list it parses to.\<close>

theorem tlv_codec_inverse:
  "codec_decode b = Inr es \<longleftrightarrow> list_all (\<lambda>e. length (te_value e) < 65536) es \<and> codec_encode es = b"
  using tlv_codec.dec_ok_iff [of b es] by (simp add: list_all_iff entry_valid_def)

text \<open>A TLV entry survives its encoding exactly when its value is shorter than 65536 bytes: the
  length field is the value's length cast to \<^verbatim>\<open>u16\<close>, and a longer value is cut without an error.\<close>

theorem tlv_entry_roundtrip_iff:
  "entry_decode (entry_encode e) = Inr (e, length (entry_encode e)) \<longleftrightarrow> length (te_value e) < 65536"
proof -
  have "length (te_value e) mod 65536 = length (te_value e) \<longleftrightarrow> length (te_value e) < 65536"
    by (metis mod_less mod_less_divisor zero_less_numeral)
  then show ?thesis
    using entry_decode_encode_gen [of e "[]"] by (auto simp: entry_encode_def)
qed

end
