(* ===== verification/Announce.thy ===== *)
theory Announce
  imports Tlv Wire
begin

text \<open>
  Peer discovery: announce payloads, announce packets and the peers learnt from them
  (\<^verbatim>\<open>src/crates/bitchat-core/src/protocol/announce.rs\<close>).
\<close>

section \<open>Payloads\<close>

record announce_payload =
  ap_nickname :: rust_string
  ap_noise_public_key :: bytes
  ap_signing_public_key :: bytes
  ap_direct_neighbors :: "bytes list option"

definition announce_payload_new ::
    "rust_string \<Rightarrow> bytes \<Rightarrow> bytes \<Rightarrow> bytes list option \<Rightarrow> announce_payload result" where
  "announce_payload_new nickname noise_key sign_key neighbors =
     (if 255 < length nickname then Inl (Err (TlvValueTooLarge (length nickname)))
      else Inr \<lparr>ap_nickname = nickname, ap_noise_public_key = noise_key,
                ap_signing_public_key = sign_key, ap_direct_neighbors = neighbors\<rparr>)"

definition announce_encode :: "announce_payload \<Rightarrow> bytes result" where
  "announce_encode a =
     rbind (tlv_nickname (ap_nickname a)) (\<lambda>nick.
       let c1 = add_entry [] nick;
           c2 = add_entry c1 (tlv_noise_public_key (ap_noise_public_key a));
           c3 = add_entry c2 (tlv_signing_public_key (ap_signing_public_key a));
           c4 = (case ap_direct_neighbors a of
                   Some neighbors \<Rightarrow> add_entry c3 (tlv_direct_neighbors neighbors)
                 | None \<Rightarrow> c3)
       in Inr (codec_encode c4))"

definition ok_or :: "'a option \<Rightarrow> fault \<Rightarrow> 'a result" where
  "ok_or x e = (case x of Some v \<Rightarrow> Inr v | None \<Rightarrow> Inl e)"

definition announce_decode :: "bytes \<Rightarrow> announce_payload result" where
  "announce_decode data =
     rbind (codec_decode data) (\<lambda>codec.
     rbind (validate_required codec [Nickname, NoisePublicKey, SigningPublicKey]) (\<lambda>_.
     rbind (ok_or (find_entry codec Nickname) (Err (MissingRequiredTlv (tlv_type_as_u8 Nickname))))
       (\<lambda>nickname_entry.
     rbind (as_nickname nickname_entry) (\<lambda>nickname.
     rbind (ok_or (find_entry codec NoisePublicKey)
              (Err (MissingRequiredTlv (tlv_type_as_u8 NoisePublicKey)))) (\<lambda>noise_key_entry.
     rbind (as_key noise_key_entry) (\<lambda>noise_key.
     rbind (ok_or (find_entry codec SigningPublicKey)
              (Err (MissingRequiredTlv (tlv_type_as_u8 SigningPublicKey)))) (\<lambda>signing_key_entry.
     rbind (as_key signing_key_entry) (\<lambda>sign_key.
     rbind (case find_entry codec DirectNeighbors of
              None \<Rightarrow> Inr None
            | Some e \<Rightarrow> rbind (as_neighbors e) (\<lambda>ns. Inr (Some ns))) (\<lambda>neighbors.
       Inr \<lparr>ap_nickname = nickname, ap_noise_public_key = noise_key,
            ap_signing_public_key = sign_key, ap_direct_neighbors = neighbors\<rparr>)))))))))"

section \<open>Packets\<close>

definition create_announce ::
    "(bytes \<Rightarrow> bytes) \<Rightarrow> ('sk, 'vk) ed25519 \<Rightarrow> peer_id \<Rightarrow> rust_string \<Rightarrow> bytes
     \<Rightarrow> ('sk, 'vk) identity_key_pair \<Rightarrow> bytes list option \<Rightarrow> timestamp \<Rightarrow> bitchat_packet result" where
  "create_announce sha256 ed sender nickname noise_key kp neighbors ts =
     rbind (announce_payload_new nickname noise_key (public_key_bytes ed kp) neighbors) (\<lambda>pl.
     rbind (announce_encode pl) (\<lambda>encoded.
     rbind (packet_new Announce sender None ts encoded PF_NONE) (\<lambda>packet.
       packet_sign sha256 ed kp packet)))"

text \<open>\<^verbatim>\<open>{:?}\<close> of a message type.\<close>

fun message_type_debug :: "message_type \<Rightarrow> string" where
  "message_type_debug Announce = ''Announce''"
| "message_type_debug Message = ''Message''"
| "message_type_debug Leave = ''Leave''"
| "message_type_debug NoiseHandshake = ''NoiseHandshake''"
| "message_type_debug NoiseEncrypted = ''NoiseEncrypted''"
| "message_type_debug Fragment = ''Fragment''"
| "message_type_debug RequestSync = ''RequestSync''"
| "message_type_debug FileTransfer = ''FileTransfer''"
| "message_type_debug VersionHello = ''VersionHello''"
| "message_type_debug VersionAck = ''VersionAck''"

definition parse_announce :: "bitchat_packet \<Rightarrow> announce_payload result" where
  "parse_announce p =
     (if message_type (header p) \<noteq> Announce
      then Inl (invalid_packet
             (''Expected announce packet, got '' @ message_type_debug (message_type (header p))))
      else announce_decode (payload p))"

definition verify_and_parse_announce ::
    "(bytes \<Rightarrow> bytes) \<Rightarrow> ('sk, 'vk) ed25519 \<Rightarrow> bitchat_packet \<Rightarrow> announce_payload result" where
  "verify_and_parse_announce sha256 ed p =
     rbind (parse_announce p) (\<lambda>pl.
     rbind (verify_signature sha256 ed (ap_signing_public_key pl) p) (\<lambda>_. Inr pl))"

section \<open>Discovered peers\<close>

record discovered_peer =
  dp_peer_id :: peer_id
  dp_nickname :: rust_string
  dp_noise_public_key :: bytes
  dp_signing_public_key :: bytes
  dp_direct_neighbors :: "bytes list option"
  dp_last_seen :: timestamp

definition from_announce_packet ::
    "(bytes \<Rightarrow> bytes) \<Rightarrow> ('sk, 'vk) ed25519 \<Rightarrow> bitchat_packet \<Rightarrow> timestamp
     \<Rightarrow> discovered_peer result" where
  "from_announce_packet sha256 ed p ts =
     rbind (verify_and_parse_announce sha256 ed p) (\<lambda>pl.
       let pid = peer_id_from_noise_key (ap_noise_public_key pl)
       in if sender_id p \<noteq> pid
          then Inl (invalid_packet ''Sender ID does not match Noise public key'')
          else Inr \<lparr>dp_peer_id = pid, dp_nickname = ap_nickname pl,
                    dp_noise_public_key = ap_noise_public_key pl,
                    dp_signing_public_key = ap_signing_public_key pl,
                    dp_direct_neighbors = ap_direct_neighbors pl, dp_last_seen = ts\<rparr>)"

definition is_recent :: "discovered_peer \<Rightarrow> timestamp \<Rightarrow> u64 \<Rightarrow> bool" where
  "is_recent d current_time max_age_ms = (sat_sub current_time (dp_last_seen d) \<le> max_age_ms)"

section \<open>Lemmas\<close>

text \<open>The sizes the Rust types fix (a nickname is UTF-8, keys have 32 bytes), a nickname that
  \<^verbatim>\<open>AnnouncePayload::new\<close> accepts and a neighbour list whose entry fits a TLV length field.\<close>

definition announce_wf :: "announce_payload \<Rightarrow> bool" where
  "announce_wf a \<longleftrightarrow>
     utf8_valid (ap_nickname a) \<and> length (ap_nickname a) \<le> 255 \<and>
     length (ap_noise_public_key a) = 32 \<and> length (ap_signing_public_key a) = 32 \<and>
     (case ap_direct_neighbors a of
        None \<Rightarrow> True
      | Some ns \<Rightarrow> list_all (\<lambda>k. length k = 32) ns \<and> length ns < 2048)"

definition announce_entries :: "announce_payload \<Rightarrow> tlv_codec" where
  "announce_entries a =
     [tlv_entry_new Nickname (ap_nickname a), tlv_entry_new NoisePublicKey (ap_noise_public_key a),
      tlv_entry_new SigningPublicKey (ap_signing_public_key a)] @
     (case ap_direct_neighbors a of
        None \<Rightarrow> [] | Some ns \<Rightarrow> [tlv_entry_new DirectNeighbors (concat ns)])"

definition announce_size :: "announce_payload \<Rightarrow> nat" where
  "announce_size a =
     73 + length (ap_nickname a) +
     (case ap_direct_neighbors a of None \<Rightarrow> 0 | Some ns \<Rightarrow> 3 + 32 * length ns)"

lemma announce_encode_eq:
  "length (ap_nickname a) \<le> 255 \<Longrightarrow> announce_encode a = Inr (codec_encode (announce_entries a))"
  by (auto simp: announce_encode_def announce_entries_def tlv_nickname_def add_entry_def Let_def
      tlv_noise_public_key_def tlv_signing_public_key_def tlv_direct_neighbors_def split: option.split)

lemma length_announce_encode:
  "announce_wf a \<Longrightarrow> length (codec_encode (announce_entries a)) = announce_size a"
  by (auto simp: announce_wf_def announce_entries_def announce_size_def codec_encode_def
      entry_encode_def tlv_entry_new_def length_concat_const split: option.splits)

lemma announce_entries_valid: "announce_wf a \<Longrightarrow> list_all entry_valid (announce_entries a)"
  by (auto simp: announce_wf_def announce_entries_def entry_valid_def tlv_entry_new_def
      length_concat_const split: option.splits)

lemma announce_decode_encode:
  assumes "announce_wf a" and "announce_encode a = Inr b"
  shows "announce_decode b = Inr a"
proof -
  have "codec_decode b = Inr (announce_entries a)"
    using assms announce_entries_valid [OF assms(1)]
    by (intro tlv_codec.dec_enc) (auto simp: announce_encode_eq announce_wf_def)
  moreover have "find_entry (announce_entries a) Nickname = Some (tlv_entry_new Nickname (ap_nickname a))"
    "find_entry (announce_entries a) NoisePublicKey =
       Some (tlv_entry_new NoisePublicKey (ap_noise_public_key a))"
    "find_entry (announce_entries a) SigningPublicKey =
       Some (tlv_entry_new SigningPublicKey (ap_signing_public_key a))"
    "find_entry (announce_entries a) DirectNeighbors =
       map_option (\<lambda>ns. tlv_entry_new DirectNeighbors (concat ns)) (ap_direct_neighbors a)"
    by (simp_all add: find_entry_def announce_entries_def tlv_entry_new_def split: option.split)
  ultimately show ?thesis
    using assms(1)
    by (auto simp: announce_decode_def ok_or_def announce_wf_def as_nickname_def as_key_def
        as_neighbors_def tlv_entry_new_def length_concat_const chunks_exact_concat split: option.splits)
qed

interpretation announce_codec: wire_codec announce_encode announce_decode announce_wf
  by unfold_locales (auto simp: announce_encode_eq announce_wf_def announce_decode_encode)

lemma header_to_bytes_ok_iff: "is_ok (header_to_bytes h) \<longleftrightarrow> header_validate h = Inr ()"
  by (auto simp: header_to_bytes_def is_ok_iff rbind_eq_Inr Let_def header_validate_ok
      packet_consts word_less_nat_alt split: if_splits)

lemma create_announce_eq:
  assumes "length nickname \<le> 255"
  shows "create_announce sha256 ed sender nickname noise_key kp neighbors ts =
    rbind (announce_encode \<lparr>ap_nickname = nickname, ap_noise_public_key = noise_key,
        ap_signing_public_key = public_key_bytes ed kp, ap_direct_neighbors = neighbors\<rparr>) (\<lambda>encoded.
      packet_sign sha256 ed kp
        \<lparr>header = header_new Announce TTL_DEFAULT ts PF_NONE (word_of_nat (length encoded)),
         sender_id = sender, recipient_id = None, route = None, payload = encoded, signature = None\<rparr>)"
  using assms by (simp add: create_announce_def announce_payload_new_def packet_new_def)

lemma announce_accepted_lemma:
  assumes "ed25519_correct ed" and "key_pair_ok ed kp"
    and "utf8_valid nickname" and "length nickname \<le> 255" and "length noise_key = 32"
    and "list_all (\<lambda>k. length k = 32) ns" and "length ns < 2048"
  shows "rbind (create_announce sha256 ed (peer_id_from_noise_key noise_key) nickname noise_key kp
      (Some ns) ts) (\<lambda>p. from_announce_packet sha256 ed p now) =
    Inr \<lparr>dp_peer_id = take 8 noise_key, dp_nickname = nickname, dp_noise_public_key = noise_key,
      dp_signing_public_key = public_key_bytes ed kp, dp_direct_neighbors = Some ns,
      dp_last_seen = now\<rparr>"
proof -
  let ?a = "\<lparr>ap_nickname = nickname, ap_noise_public_key = noise_key,
    ap_signing_public_key = public_key_bytes ed kp, ap_direct_neighbors = Some ns\<rparr>"
  have wf: "announce_wf ?a" using assms by (simp add: announce_wf_def identity_sizes)
  then obtain b where b: "announce_encode ?a = Inr b"
    using announce_codec.enc_ok by (auto simp: is_ok_iff)
  have dec: "announce_decode b = Inr ?a" by (rule announce_codec.dec_enc [OF wf b])
  show ?thesis
    using identity_verify_sign [OF assms(1,2)]
    by (simp add: create_announce_eq assms(4) b packet_sign_eq from_announce_packet_def
        verify_and_parse_announce_def parse_announce_def header_new_def dec verify_signature_eq
        signing_preimage_def peer_id_from_noise_key_def)
qed

section \<open>Properties\<close>

text \<open>An announce payload with a nickname of at most 255 bytes of UTF-8, two 32-byte keys and at
  most 2047 neighbours is encoded without an error and decodes to itself.\<close>

theorem announce_roundtrip:
  assumes "announce_wf a"
  shows "rbind (announce_encode a) announce_decode = Inr a"
  by (rule announce_codec.roundtrip [OF assms])

definition example_announce :: announce_payload where
  "example_announce = \<lparr>ap_nickname = [97, 108], ap_noise_public_key = replicate 32 3,
     ap_signing_public_key = replicate 32 5, ap_direct_neighbors = Some [replicate 32 9]\<rparr>"

lemma example_announce_wf: "announce_wf example_announce"
  by (simp add: announce_wf_def example_announce_def utf8_valid_ascii)

theorem announce_roundtrip_witness:
  "rbind (announce_encode example_announce) announce_decode = Inr example_announce"
  by (rule announce_roundtrip [OF example_announce_wf])

text \<open>C8: A peer is only added from a signed announce packet whose signature verifies under the signing
  key it announces and whose sender is the first 8 bytes of the Noise key it announces.\<close>

theorem discovered_peer_sound:
  assumes "from_announce_packet sha256 ed p ts = Inr d"
  shows "message_type (header p) = Announce \<and>
    dp_peer_id d = sender_id p \<and> sender_id p = take 8 (dp_noise_public_key d) \<and>
    length (dp_noise_public_key d) = 32 \<and> length (dp_signing_public_key d) = 32 \<and>
    verify_signature sha256 ed (dp_signing_public_key d) p = Inr () \<and> dp_last_seen d = ts"
  using assms
  by (auto simp: from_announce_packet_def verify_and_parse_announce_def parse_announce_def
      announce_decode_def rbind_eq_Inr Let_def peer_id_from_noise_key_def as_key_def
      split: if_splits)

text \<open>Every announcement made with some identity key is accepted by every receiver and yields the
  announced nickname, keys and neighbours. Nothing ties the identity key to the Noise key: this holds
  for any 32-byte \<open>noise_key\<close> together with the peer identifier derived from it.\<close>

theorem announce_accepted:
  assumes "ed25519_correct ed" and "key_pair_ok ed kp"
    and "utf8_valid nickname" and "length nickname \<le> 255" and "length noise_key = 32"
    and "list_all (\<lambda>k. length k = 32) ns" and "length ns < 2048"
  shows "rbind (create_announce sha256 ed (peer_id_from_noise_key noise_key) nickname noise_key kp
      (Some ns) ts) (\<lambda>p. from_announce_packet sha256 ed p now) =
    Inr \<lparr>dp_peer_id = take 8 noise_key, dp_nickname = nickname, dp_noise_public_key = noise_key,
      dp_signing_public_key = public_key_bytes ed kp, dp_direct_neighbors = Some ns,
      dp_last_seen = now\<rparr>"
  using assms by (rule announce_accepted_lemma)

theorem announce_accepted_witness:
  "rbind (create_announce toy_sha256 toy_ed25519 (peer_id_from_noise_key (replicate 32 3)) [97, 108]
      (replicate 32 3) example_key (Some [replicate 32 9]) 1000)
      (\<lambda>p. from_announce_packet toy_sha256 toy_ed25519 p 2000) =
    Inr \<lparr>dp_peer_id = take 8 (replicate 32 3), dp_nickname = [97, 108],
      dp_noise_public_key = replicate 32 3,
      dp_signing_public_key = public_key_bytes toy_ed25519 example_key,
      dp_direct_neighbors = Some [replicate 32 9], dp_last_seen = 2000\<rparr>"
  by (rule announce_accepted [OF toy_ed25519_correct example_key_ok])
    (simp_all add: utf8_valid_ascii)

definition example_announce_packet :: bitchat_packet where
  "example_announce_packet =
     (case create_announce toy_sha256 toy_ed25519 (replicate 8 3) [97, 108] (replicate 32 3)
        example_key (Some [replicate 32 9]) 1000 of Inr p \<Rightarrow> p | Inl _ \<Rightarrow> example_packet)"

text \<open>An announce packet can be sent in the version 1 format exactly when the encoded payload has
  at most 255 bytes: 73 bytes, the nickname and, if neighbours are given, 3 bytes and 32 for each of
  them. With six neighbours or more, every announcement that \<^verbatim>\<open>create_announce\<close> builds is refused by
  the wire format.\<close>

theorem announce_fits_iff:
  assumes "create_announce sha256 ed sender nickname noise_key kp neighbors ts = Inr p"
    and "announce_wf \<lparr>ap_nickname = nickname, ap_noise_public_key = noise_key,
      ap_signing_public_key = public_key_bytes ed kp, ap_direct_neighbors = neighbors\<rparr>"
  shows "is_ok (wire_encode p) \<longleftrightarrow>
    73 + length nickname + (case neighbors of None \<Rightarrow> 0 | Some ns \<Rightarrow> 3 + 32 * length ns) \<le> 255"
proof -
  let ?a = "\<lparr>ap_nickname = nickname, ap_noise_public_key = noise_key,
    ap_signing_public_key = public_key_bytes ed kp, ap_direct_neighbors = neighbors\<rparr>"
  let ?b = "codec_encode (announce_entries ?a)"
  have nick: "length nickname \<le> 255" using assms(2) by (simp add: announce_wf_def)
  have len: "length ?b = announce_size ?a" by (rule length_announce_encode [OF assms(2)])
  have small: "announce_size ?a < 70000"
    using assms(2) by (auto simp: announce_size_def announce_wf_def split: option.splits)
  have p: "header p = header_new Announce TTL_DEFAULT ts PF_HAS_SIGNATURE (word_of_nat (announce_size ?a))"
    "payload p = ?b" "recipient_id p = None" "signature p \<noteq> None"
    using assms(1) len nick
    by (auto simp: create_announce_eq announce_encode_eq packet_sign_eq header_new_def
        flags_with_signature_def packet_flag_consts)
  have "is_ok (wire_encode p) \<longleftrightarrow> packet_validate p = Inr () \<and> is_ok (header_to_bytes (header p))"
    using p by (auto simp: wire_encode_def is_ok_iff rbind_eq_Inr encode_recipient_def encode_route_def
        encode_signature_def header_new_def packet_flag_defs)
  also have "\<dots> \<longleftrightarrow> header_validate (header p) = Inr () \<and> length ?b = unat (payload_length (header p))"
    using p by (auto simp: packet_validate_ok header_to_bytes_ok_iff header_new_def packet_flag_defs)
  also have "\<dots> \<longleftrightarrow> announce_size ?a \<le> 255"
    using small by (auto simp: p len header_validate_ok header_new_def packet_consts word_le_nat_alt)
  finally show ?thesis by (simp add: announce_size_def)
qed

lemma example_announce_packet_ok:
  "create_announce toy_sha256 toy_ed25519 (replicate 8 3) [97, 108] (replicate 32 3)
     example_key (Some [replicate 32 9]) 1000 = Inr example_announce_packet"
proof -
  have "is_ok (create_announce toy_sha256 toy_ed25519 s [97, 108] k example_key ns 1000)" for s k ns
    by (simp add: create_announce_eq announce_encode_eq packet_sign_eq)
  then obtain p where "create_announce toy_sha256 toy_ed25519 (replicate 8 3) [97, 108]
      (replicate 32 3) example_key (Some [replicate 32 9]) 1000 = Inr p"
    unfolding is_ok_iff by blast
  then show ?thesis by (simp only: example_announce_packet_def sum.case)
qed

theorem announce_fits_iff_witness: "is_ok (wire_encode example_announce_packet)"
  using announce_fits_iff [OF example_announce_packet_ok]
  by (simp add: announce_wf_def utf8_valid_ascii identity_sizes [OF toy_ed25519_correct])

lemma example_announce_discovered:
  "is_ok (from_announce_packet toy_sha256 toy_ed25519 example_announce_packet 2000)"
proof -
  have "peer_id_from_noise_key (replicate 32 3) = replicate 8 3"
    by (simp add: peer_id_from_noise_key_def)
  then have ok: "create_announce toy_sha256 toy_ed25519 (peer_id_from_noise_key (replicate 32 3))
      [97, 108] (replicate 32 3) example_key (Some [replicate 32 9]) 1000 = Inr example_announce_packet"
    using example_announce_packet_ok by (simp only:)
  have "is_ok (rbind (create_announce toy_sha256 toy_ed25519 (peer_id_from_noise_key (replicate 32 3))
      [97, 108] (replicate 32 3) example_key (Some [replicate 32 9]) 1000)
      (\<lambda>p. from_announce_packet toy_sha256 toy_ed25519 p 2000))"
    by (subst announce_accepted_lemma [OF toy_ed25519_correct example_key_ok])
      (simp_all add: utf8_valid_ascii)
  then show ?thesis unfolding ok by (simp only: rbind_simps)
qed

theorem discovered_peer_sound_witness:
  "\<exists>d :: discovered_peer. message_type (header example_announce_packet) = Announce \<and>
    dp_peer_id d = sender_id example_announce_packet \<and>
    sender_id example_announce_packet = take 8 (dp_noise_public_key d) \<and>
    length (dp_noise_public_key d) = 32 \<and> length (dp_signing_public_key d) = 32 \<and>
    verify_signature toy_sha256 toy_ed25519 (dp_signing_public_key d) example_announce_packet = Inr () \<and>
    dp_last_seen d = 2000"
proof -
  obtain d where "from_announce_packet toy_sha256 toy_ed25519 example_announce_packet 2000 = Inr d"
    using example_announce_discovered unfolding is_ok_iff by blast
  from discovered_peer_sound [OF this] show ?thesis by (rule exI)
qed

end
