(* ===== verification/Parsing.thy ===== *)
theory Parsing
  imports Prelude
begin

text \<open>
  Sequential parsers over a byte buffer and an offset, the shape of the hand-written parsers of the
  protocol: a step reads at the offset and returns a value and the next offset. Three predicates
  carry the proofs about them: \<open>reads P x v\<close> (\<open>P\<close> reads \<open>v\<close> from the bytes \<open>x\<close> wherever they stand),
  \<open>yields P R\<close> (what \<open>P\<close> accepts is related by \<open>R\<close> to the bytes it has read) and \<open>no_panic P\<close>.
\<close>

type_synonym 'a parser = "bytes \<Rightarrow> nat \<Rightarrow> ('a \<times> nat) result"

definition pbind :: "'a parser \<Rightarrow> ('a \<Rightarrow> 'b parser) \<Rightarrow> 'b parser" where
  "pbind P Q = (\<lambda>bs offset. rbind (P bs offset) (\<lambda>(a, offset'). Q a bs offset'))"

definition preturn :: "'a \<Rightarrow> 'a parser" where
  "preturn a = (\<lambda>bs offset. Inr (a, offset))"

text \<open>\<^verbatim>\<open>bytes[offset]; offset += 1\<close>, with no check before it.\<close>

definition take_byte :: "u8 parser" where
  "take_byte = (\<lambda>bs offset. rbind (index_at bs offset) (\<lambda>b. Inr (b, offset + 1)))"

text \<open>\<^verbatim>\<open>bytes[offset..offset + n]; offset += n\<close>, with no check before it.\<close>

definition take_slice :: "nat \<Rightarrow> bytes parser" where
  "take_slice n = (\<lambda>bs offset. rbind (slice bs offset (offset + n)) (\<lambda>b. Inr (b, offset + n)))"

text \<open>The check \<^verbatim>\<open>if bytes.len() < offset + n { return Err(e) }\<close> followed by a read of \<open>n\<close> bytes.\<close>

definition take_bytes :: "fault \<Rightarrow> nat \<Rightarrow> bytes parser" where
  "take_bytes e n = (\<lambda>bs offset.
     if length bs < offset + n then Inl e else take_slice n bs offset)"

definition checked_byte :: "fault \<Rightarrow> u8 parser" where
  "checked_byte e = (\<lambda>bs offset. if length bs < offset + 1 then Inl e else take_byte bs offset)"

text \<open>\<open>n\<close> bytes that must be UTF-8.\<close>

definition take_text :: "fault \<Rightarrow> fault \<Rightarrow> nat \<Rightarrow> rust_string parser" where
  "take_text short bad n =
     pbind (take_bytes short n) (\<lambda>b bs offset. if utf8_valid b then Inr (b, offset) else Inl bad)"

text \<open>A string behind a length byte.\<close>

definition take_short_text :: "fault \<Rightarrow> fault \<Rightarrow> rust_string parser" where
  "take_short_text short bad = pbind (checked_byte short) (\<lambda>n. take_text short bad (unat n))"

text \<open>A field that is there when its flag is.\<close>

definition take_optional :: "bool \<Rightarrow> 'a parser \<Rightarrow> 'a option parser" where
  "take_optional present P =
     (if present then pbind P (\<lambda>a. preturn (Some a)) else preturn None)"

fun take_many :: "nat \<Rightarrow> 'a parser \<Rightarrow> 'a list parser" where
  "take_many 0 P = preturn []"
| "take_many (Suc n) P = pbind P (\<lambda>a. pbind (take_many n P) (\<lambda>as. preturn (a # as)))"

section \<open>Reading what was written\<close>

definition reads :: "'a parser \<Rightarrow> bytes \<Rightarrow> 'a \<Rightarrow> bool" where
  "reads P x v \<longleftrightarrow> (\<forall>pre post. P (pre @ x @ post) (length pre) = Inr (v, length pre + length x))"

lemma readsD: "reads P x v \<Longrightarrow> P (pre @ x @ post) (length pre) = Inr (v, length pre + length x)"
  by (simp add: reads_def)

lemma reads_pbind:
  assumes "reads P x a" and "reads (Q a) y b"
  shows "reads (pbind P Q) (x @ y) b"
  unfolding reads_def
proof (intro allI)
  fix pre post
  have "Q a (pre @ x @ y @ post) (length pre + length x) = Inr (b, length pre + length x + length y)"
    using readsD [OF assms(2), of "pre @ x" post] by simp
  then show "pbind P Q (pre @ (x @ y) @ post) (length pre) = Inr (b, length pre + length (x @ y))"
    using readsD [OF assms(1), of pre "y @ post"] by (simp add: pbind_def add.assoc)
qed

lemma reads_preturn: "reads (preturn a) [] a"
  by (simp add: reads_def preturn_def)

lemma reads_pmap: "reads P x a \<Longrightarrow> reads (pbind P (\<lambda>a. preturn (f a))) x (f a)"
  by (simp add: reads_def pbind_def preturn_def)

lemma reads_take_byte: "reads take_byte [b] b"
  by (simp add: reads_def take_byte_def index_at_def)

lemma reads_checked_byte: "reads (checked_byte e) [b] b"
  using reads_take_byte [of b] by (simp add: reads_def checked_byte_def)

lemma reads_take_slice: "n = length x \<Longrightarrow> reads (take_slice n) x x"
  by (simp add: reads_def take_slice_def slice_append)

lemma reads_take_bytes: "n = length x \<Longrightarrow> reads (take_bytes e n) x x"
  using reads_take_slice [of n x] by (simp add: reads_def take_bytes_def)

lemma reads_take_text: "n = length x \<Longrightarrow> utf8_valid x \<Longrightarrow> reads (take_text short bad n) x x"
  using reads_pbind [OF reads_take_bytes [of n x short],
      of "\<lambda>b bs offset. if utf8_valid b then Inr (b, offset) else Inl bad" "[]" x]
  by (simp add: take_text_def reads_def)

definition short_text :: "rust_string \<Rightarrow> bytes" where
  "short_text s = word_of_nat (length s) # s"

lemma reads_take_short_text:
  "utf8_valid s \<Longrightarrow> length s \<le> 255 \<Longrightarrow> reads (take_short_text short bad) (short_text s) s"
  unfolding take_short_text_def short_text_def
  using reads_pbind [OF reads_checked_byte,
      of "\<lambda>n. take_text short bad (unat n)" "word_of_nat (length s)" s s short]
  by (simp add: reads_take_text)

lemma reads_take_optional:
  assumes "present \<Longrightarrow> \<exists>a. v = Some a \<and> reads P x a" and "\<not> present \<Longrightarrow> v = None \<and> x = []"
  shows "reads (take_optional present P) x v"
proof (cases present)
  case True
  with assms(1) obtain a where "v = Some a" "reads P x a" by blast
  with True show ?thesis by (simp add: take_optional_def reads_pmap)
next
  case False
  with assms(2) show ?thesis by (simp add: take_optional_def reads_preturn)
qed

lemma reads_take_many:
  assumes "n = length vs" and "\<And>v. v \<in> set vs \<Longrightarrow> reads P (enc v) v"
  shows "reads (take_many n P) (concat (map enc vs)) vs"
  using assms
proof (induction vs arbitrary: n)
  case Nil
  then show ?case by (simp add: reads_preturn)
next
  case (Cons v vs)
  have "reads (pbind (take_many (length vs) P) (\<lambda>as. preturn (v # as))) (concat (map enc vs)) (v # vs)"
    using Cons by (intro reads_pmap) simp
  with Cons.prems reads_pbind [of P "enc v" v] show ?case by simp
qed

section \<open>What an accepted input says\<close>

definition yields :: "'a parser \<Rightarrow> ('a \<Rightarrow> bytes \<Rightarrow> bool) \<Rightarrow> bool" where
  "yields P R \<longleftrightarrow>
     (\<forall>bs offset v offset'. P bs offset = Inr (v, offset') \<longrightarrow>
        (\<exists>x. drop offset bs = x @ drop offset' bs \<and> R v x))"

lemma yieldsD:
  assumes "yields P R" and "P bs offset = Inr (v, offset')"
  obtains x where "drop offset bs = x @ drop offset' bs" "R v x"
  using assms unfolding yields_def by blast

lemma yields_pbind:
  assumes "yields P R" and "\<And>a. yields (Q a) (S a)"
  shows "yields (pbind P Q) (\<lambda>b z. \<exists>a x y. z = x @ y \<and> R a x \<and> S a b y)"
  unfolding yields_def
proof (intro allI impI)
  fix bs offset v offset'
  assume "pbind P Q bs offset = Inr (v, offset')"
  then obtain a mid where P: "P bs offset = Inr (a, mid)" and Q: "Q a bs mid = Inr (v, offset')"
    by (auto simp: pbind_def rbind_eq_Inr)
  obtain x where x: "drop offset bs = x @ drop mid bs" "R a x" using yieldsD [OF assms(1) P] .
  obtain y where y: "drop mid bs = y @ drop offset' bs" "S a v y" using yieldsD [OF assms(2) Q] .
  have "drop offset bs = (x @ y) @ drop offset' bs" using x(1) y(1) by simp
  with x(2) y(2) show "\<exists>z. drop offset bs = z @ drop offset' bs \<and>
      (\<exists>a x y. z = x @ y \<and> R a x \<and> S a v y)"
    by blast
qed

lemma yields_mono: "yields P R \<Longrightarrow> (\<And>v x. R v x \<Longrightarrow> S v x) \<Longrightarrow> yields P S"
  unfolding yields_def by blast

lemma yields_preturn: "yields (preturn a) (\<lambda>v x. v = a \<and> x = [])"
  by (auto simp: yields_def preturn_def)

lemma yields_take_byte: "yields take_byte (\<lambda>v x. x = [v])"
  by (auto simp: yields_def take_byte_def rbind_eq_Inr index_at_def Cons_nth_drop_Suc split: if_splits)

lemma yields_checked_byte: "yields (checked_byte e) (\<lambda>v x. x = [v])"
  using yields_take_byte by (auto simp: yields_def checked_byte_def split: if_splits)

lemma yields_take_slice: "yields (take_slice n) (\<lambda>v x. x = v \<and> length v = n)"
  unfolding yields_def
proof (intro allI impI)
  fix bs offset v offset'
  assume "take_slice n bs offset = Inr (v, offset')"
  then have le: "offset + n \<le> length bs" and v: "v = take n (drop offset bs)"
    and o': "offset' = offset + n"
    by (auto simp: take_slice_def slice_def split: if_splits)
  have "drop offset bs = v @ drop offset' bs"
    using append_take_drop_id [of n "drop offset bs"] by (simp add: v o' add.commute)
  moreover have "length v = n" using le by (simp add: v)
  ultimately show "\<exists>x. drop offset bs = x @ drop offset' bs \<and> x = v \<and> length v = n" by simp
qed

lemma yields_take_bytes: "yields (take_bytes e n) (\<lambda>v x. x = v \<and> length v = n)"
  using yields_take_slice [of n] by (auto simp: yields_def take_bytes_def split: if_splits)

lemma yields_take_text: "yields (take_text short bad n) (\<lambda>v x. x = v \<and> length v = n \<and> utf8_valid v)"
proof -
  have "yields (\<lambda>bs offset. if utf8_valid b then Inr (b, offset) else Inl bad)
      (\<lambda>v x. v = b \<and> x = [] \<and> utf8_valid b)" for b
    by (auto simp: yields_def split: if_splits)
  from yields_pbind [OF yields_take_bytes this] show ?thesis
    unfolding take_text_def by (rule yields_mono) auto
qed

lemma yields_take_short_text:
  "yields (take_short_text short bad) (\<lambda>v x. x = short_text v \<and> length v \<le> 255 \<and> utf8_valid v)"
  unfolding take_short_text_def
proof (rule yields_mono [OF yields_pbind [OF yields_checked_byte yields_take_text]], elim exE conjE)
  fix v x and n :: u8 and xa y
  assume "x = xa @ y" "xa = [n]" "y = v" "length v = unat n" "utf8_valid v"
  with unat_u8_bound [of n] show "x = short_text v \<and> length v \<le> 255 \<and> utf8_valid v"
    by (simp add: short_text_def)
qed

lemma yields_take_optional:
  assumes "yields P R"
  shows "yields (take_optional present P)
    (\<lambda>v x. if present then \<exists>a. v = Some a \<and> R a x else v = None \<and> x = [])"
proof (cases present)
  case True
  have "yields (pbind P (\<lambda>a. preturn (Some a))) (\<lambda>v x. \<exists>a. v = Some a \<and> R a x)"
    by (rule yields_mono [OF yields_pbind [OF assms yields_preturn]]) auto
  with True show ?thesis by (simp add: take_optional_def)
next
  case False
  then show ?thesis using yields_preturn [of None] by (simp add: take_optional_def)
qed

lemma yields_take_many:
  assumes "yields P (\<lambda>v x. x = enc v \<and> ok v)"
  shows "yields (take_many n P) (\<lambda>vs x. x = concat (map enc vs) \<and> length vs = n \<and> list_all ok vs)"
proof (induction n)
  case 0
  then show ?case by (auto intro: yields_mono [OF yields_preturn])
next
  case (Suc n)
  have "yields (pbind (take_many n P) (\<lambda>as. preturn (a # as)))
      (\<lambda>vs x. \<exists>as. vs = a # as \<and> x = concat (map enc as) \<and> length as = n \<and> list_all ok as)" for a
    by (rule yields_mono [OF yields_pbind [OF Suc yields_preturn]]) auto
  then show ?case
    unfolding take_many.simps by (rule yields_mono [OF yields_pbind [OF assms]]) auto
qed

section \<open>Absence of panics\<close>

definition no_panic :: "'a parser \<Rightarrow> bool" where
  "no_panic P \<longleftrightarrow> (\<forall>bs offset. P bs offset \<noteq> Inl Panic)"

lemma no_panicD: "no_panic P \<Longrightarrow> P bs offset \<noteq> Inl Panic"
  by (simp add: no_panic_def)

lemma no_panic_pbind: "no_panic P \<Longrightarrow> (\<And>a. no_panic (Q a)) \<Longrightarrow> no_panic (pbind P Q)"
  by (auto simp: no_panic_def pbind_def rbind_eq_Inl)

lemma no_panic_preturn: "no_panic (preturn a)"
  by (simp add: no_panic_def preturn_def)

lemma no_panic_checked_byte: "e \<noteq> Panic \<Longrightarrow> no_panic (checked_byte e)"
  by (auto simp: no_panic_def checked_byte_def take_byte_def index_at_def rbind_eq_Inl)

lemma no_panic_take_bytes: "e \<noteq> Panic \<Longrightarrow> no_panic (take_bytes e n)"
  by (auto simp: no_panic_def take_bytes_def take_slice_def slice_def rbind_eq_Inl)

lemma no_panic_take_text: "short \<noteq> Panic \<Longrightarrow> bad \<noteq> Panic \<Longrightarrow> no_panic (take_text short bad n)"
  unfolding take_text_def by (rule no_panic_pbind [OF no_panic_take_bytes]) (auto simp: no_panic_def)

lemma no_panic_take_short_text:
  "short \<noteq> Panic \<Longrightarrow> bad \<noteq> Panic \<Longrightarrow> no_panic (take_short_text short bad)"
  unfolding take_short_text_def
  by (rule no_panic_pbind [OF no_panic_checked_byte]) (auto intro: no_panic_take_text)

lemma no_panic_take_optional: "no_panic P \<Longrightarrow> no_panic (take_optional present P)"
  by (simp add: take_optional_def no_panic_preturn no_panic_pbind)

lemma no_panic_take_many: "no_panic P \<Longrightarrow> no_panic (take_many n P)"
  by (induction n) (auto intro: no_panic_pbind no_panic_preturn)

lemmas no_panic_intros = no_panic_pbind no_panic_preturn no_panic_checked_byte no_panic_take_bytes
  no_panic_take_text no_panic_take_short_text no_panic_take_optional no_panic_take_many

end
