(* ===== verification/App_Message.thy ===== *)
theory App_Message
  imports Core_Types Parsing
begin

text \<open>
  Application messages and Noise payloads:
  \<^verbatim>\<open>src/crates/bitchat-core/src/protocol/message.rs\<close>. The feature \<^verbatim>\<open>experimental\<close> is the
  argument \<open>experimental\<close> of the definitions whose body depends on it.
\<close>

section \<open>Noise payload types\<close>

datatype noise_payload_type =
    PrivateMessage | ReadReceipt | Delivered | VerifyChallenge | VerifyResponse
  | FileOffer | FileAccept | FileChunk | FileComplete
  | GroupCreate | GroupInvite | GroupJoin | GroupLeave | GroupMessage | GroupUpdate | GroupKick
  | DeviceAnnouncement | SessionSyncRequest | SessionSyncResponse | DeviceHeartbeat
  | NoiseVersionHello | NoiseVersionAck | CapabilityRejection

fun noise_payload_type_as_u8 :: "noise_payload_type \<Rightarrow> u8" where
  "noise_payload_type_as_u8 PrivateMessage = 0x01"
| "noise_payload_type_as_u8 ReadReceipt = 0x02"
| "noise_payload_type_as_u8 Delivered = 0x03"
| "noise_payload_type_as_u8 VerifyChallenge = 0x10"
| "noise_payload_type_as_u8 VerifyResponse = 0x11"
| "noise_payload_type_as_u8 FileOffer = 0x20"
| "noise_payload_type_as_u8 FileAccept = 0x21"
| "noise_payload_type_as_u8 FileChunk = 0x22"
| "noise_payload_type_as_u8 FileComplete = 0x23"
| "noise_payload_type_as_u8 GroupCreate = 0x30"
| "noise_payload_type_as_u8 GroupInvite = 0x31"
| "noise_payload_type_as_u8 GroupJoin = 0x32"
| "noise_payload_type_as_u8 GroupLeave = 0x33"
| "noise_payload_type_as_u8 GroupMessage = 0x34"
| "noise_payload_type_as_u8 GroupUpdate = 0x35"
| "noise_payload_type_as_u8 GroupKick = 0x36"
| "noise_payload_type_as_u8 DeviceAnnouncement = 0x40"
| "noise_payload_type_as_u8 SessionSyncRequest = 0x41"
| "noise_payload_type_as_u8 SessionSyncResponse = 0x42"
| "noise_payload_type_as_u8 DeviceHeartbeat = 0x43"
| "noise_payload_type_as_u8 NoiseVersionHello = 0x50"
| "noise_payload_type_as_u8 NoiseVersionAck = 0x51"
| "noise_payload_type_as_u8 CapabilityRejection = 0x52"

definition noise_payload_type_from_u8 :: "bool \<Rightarrow> u8 \<Rightarrow> noise_payload_type result" where
  "noise_payload_type_from_u8 experimental value =
     (if value = 0x01 then Inr PrivateMessage
      else if value = 0x02 then Inr ReadReceipt
      else if value = 0x03 then Inr Delivered
      else if value = 0x10 then Inr VerifyChallenge
      else if value = 0x11 then Inr VerifyResponse
      else if experimental \<and> value = 0x20 then Inr FileOffer
      else if experimental \<and> value = 0x21 then Inr FileAccept
      else if experimental \<and> value = 0x22 then Inr FileChunk
      else if experimental \<and> value = 0x23 then Inr FileComplete
      else if experimental \<and> value = 0x30 then Inr GroupCreate
      else if experimental \<and> value = 0x31 then Inr GroupInvite
      else if experimental \<and> value = 0x32 then Inr GroupJoin
      else if experimental \<and> value = 0x33 then Inr GroupLeave
      else if experimental \<and> value = 0x34 then Inr GroupMessage
      else if experimental \<and> value = 0x35 then Inr GroupUpdate
      else if experimental \<and> value = 0x36 then Inr GroupKick
      else if experimental \<and> value = 0x40 then Inr DeviceAnnouncement
      else if experimental \<and> value = 0x41 then Inr SessionSyncRequest
      else if experimental \<and> value = 0x42 then Inr SessionSyncResponse
      else if experimental \<and> value = 0x43 then Inr DeviceHeartbeat
      else if experimental \<and> value = 0x50 then Inr NoiseVersionHello
      else if experimental \<and> value = 0x51 then Inr NoiseVersionAck
      else if experimental \<and> value = 0x52 then Inr CapabilityRejection
      else Inl (invalid_packet ''Unknown noise payload type''))"

definition is_supported :: "bool \<Rightarrow> u8 \<Rightarrow> bool" where
  "is_supported experimental value =
     (if (0x01 \<le> value \<and> value \<le> 0x03) \<or> (0x10 \<le> value \<and> value \<le> 0x11) then True
      else if (0x20 \<le> value \<and> value \<le> 0x23) \<or> (0x30 \<le> value \<and> value \<le> 0x36) \<or>
              (0x40 \<le> value \<and> value \<le> 0x43) \<or> (0x50 \<le> value \<and> value \<le> 0x52) then experimental
      else False)"

section \<open>Flags\<close>

type_synonym message_flags = u8

definition MF_NONE :: message_flags where "MF_NONE = 0x00"
definition MF_IS_RELAY :: message_flags where "MF_IS_RELAY = 0x01"
definition MF_IS_PRIVATE :: message_flags where "MF_IS_PRIVATE = 0x02"
definition MF_HAS_ORIGINAL_SENDER :: message_flags where "MF_HAS_ORIGINAL_SENDER = 0x04"
definition MF_HAS_RECIPIENT_NICKNAME :: message_flags where "MF_HAS_RECIPIENT_NICKNAME = 0x08"
definition MF_HAS_SENDER_PEER_ID :: message_flags where "MF_HAS_SENDER_PEER_ID = 0x10"
definition MF_HAS_MENTIONS :: message_flags where "MF_HAS_MENTIONS = 0x20"

definition is_relay :: "message_flags \<Rightarrow> bool" where
  "is_relay f = (f AND MF_IS_RELAY \<noteq> 0)"

definition has_original_sender :: "message_flags \<Rightarrow> bool" where
  "has_original_sender f = (f AND MF_HAS_ORIGINAL_SENDER \<noteq> 0)"

definition has_recipient_nickname :: "message_flags \<Rightarrow> bool" where
  "has_recipient_nickname f = (f AND MF_HAS_RECIPIENT_NICKNAME \<noteq> 0)"

definition has_sender_peer_id :: "message_flags \<Rightarrow> bool" where
  "has_sender_peer_id f = (f AND MF_HAS_SENDER_PEER_ID \<noteq> 0)"

definition has_mentions :: "message_flags \<Rightarrow> bool" where
  "has_mentions f = (f AND MF_HAS_MENTIONS \<noteq> 0)"

section \<open>Messages\<close>

record bitchat_message =
  m_flags :: message_flags
  m_timestamp :: timestamp
  m_id :: rust_string
  m_sender :: rust_string
  m_content :: rust_string
  m_original_sender :: "rust_string option"
  m_recipient_nickname :: "rust_string option"
  m_sender_peer_id :: "peer_id option"
  m_mentions :: "rust_string list option"

definition message_new :: "timestamp \<Rightarrow> rust_string \<Rightarrow> rust_string \<Rightarrow> rust_string \<Rightarrow> bitchat_message" where
  "message_new now i sender content =
     \<lparr>m_flags = MF_NONE, m_timestamp = now, m_id = i, m_sender = sender, m_content = content,
      m_original_sender = None, m_recipient_nickname = None, m_sender_peer_id = None,
      m_mentions = None\<rparr>"

definition message_with_relay :: "rust_string \<Rightarrow> bitchat_message \<Rightarrow> bitchat_message" where
  "message_with_relay s m =
     m\<lparr>m_flags := (m_flags m OR MF_IS_RELAY) OR MF_HAS_ORIGINAL_SENDER, m_original_sender := Some s\<rparr>"

definition message_with_recipient_nickname :: "rust_string \<Rightarrow> bitchat_message \<Rightarrow> bitchat_message" where
  "message_with_recipient_nickname s m =
     m\<lparr>m_flags := m_flags m OR MF_HAS_RECIPIENT_NICKNAME, m_recipient_nickname := Some s\<rparr>"

definition message_with_sender_peer_id :: "peer_id \<Rightarrow> bitchat_message \<Rightarrow> bitchat_message" where
  "message_with_sender_peer_id p m =
     m\<lparr>m_flags := m_flags m OR MF_HAS_SENDER_PEER_ID, m_sender_peer_id := Some p\<rparr>"

definition message_with_mentions :: "rust_string list \<Rightarrow> bitchat_message \<Rightarrow> bitchat_message" where
  "message_with_mentions ms m =
     (if ms \<noteq> [] then m\<lparr>m_flags := m_flags m OR MF_HAS_MENTIONS, m_mentions := Some ms\<rparr> else m)"

definition longer_than :: "nat \<Rightarrow> rust_string option \<Rightarrow> bool" where
  "longer_than n s = (case s of None \<Rightarrow> False | Some x \<Rightarrow> n < length x)"

definition message_validate :: "bitchat_message \<Rightarrow> unit result" where
  "message_validate m =
     (if has_original_sender (m_flags m) \<and> m_original_sender m = None
      then Inl (invalid_packet ''Original sender flag set but no original sender'')
      else if has_recipient_nickname (m_flags m) \<and> m_recipient_nickname m = None
      then Inl (invalid_packet ''Recipient nickname flag set but no recipient nickname'')
      else if has_sender_peer_id (m_flags m) \<and> m_sender_peer_id m = None
      then Inl (invalid_packet ''Sender peer ID flag set but no sender peer ID'')
      else if has_mentions (m_flags m) \<and> (m_mentions m = None \<or> m_mentions m = Some [])
      then Inl (invalid_packet ''Mentions flag set but no mentions'')
      else if 255 < length (m_id m) then Inl (invalid_packet ''Message ID too long'')
      else if 255 < length (m_sender m) then Inl (invalid_packet ''Sender nickname too long'')
      else if 65535 < length (m_content m) then Inl (invalid_packet ''Message content too long'')
      else if longer_than 255 (m_original_sender m)
      then Inl (invalid_packet ''Original sender nickname too long'')
      else if longer_than 255 (m_recipient_nickname m)
      then Inl (invalid_packet ''Recipient nickname too long'')
      else Inr ())"

definition opt_bytes :: "bool \<Rightarrow> ('a \<Rightarrow> bytes) \<Rightarrow> 'a option \<Rightarrow> bytes" where
  "opt_bytes present enc v = (if present then (case v of Some x \<Rightarrow> enc x | None \<Rightarrow> []) else [])"

text \<open>A string behind its length byte is \<open>short_text\<close>; the cast \<^verbatim>\<open>as u8\<close> is its \<open>word_of_nat\<close>.\<close>

definition message_bytes :: "bitchat_message \<Rightarrow> bytes" where
  "message_bytes m =
     [m_flags m] @ u64_to_be (m_timestamp m) @ short_text (m_id m) @ short_text (m_sender m)
     @ u16_to_be (word_of_nat (length (m_content m))) @ m_content m
     @ opt_bytes (has_original_sender (m_flags m)) short_text (m_original_sender m)
     @ opt_bytes (has_recipient_nickname (m_flags m)) short_text (m_recipient_nickname m)
     @ opt_bytes (has_sender_peer_id (m_flags m)) (\<lambda>p. p) (m_sender_peer_id m)
     @ opt_bytes (has_mentions (m_flags m))
         (\<lambda>ms. word_of_nat (length ms) # concat (map short_text ms)) (m_mentions m)"

definition message_to_binary :: "bitchat_message \<Rightarrow> bytes result" where
  "message_to_binary m = rbind (message_validate m) (\<lambda>_. Inr (message_bytes m))"

definition take_mentions :: "rust_string list parser" where
  "take_mentions =
     pbind (checked_byte (invalid_packet ''Message too short for mentions count'')) (\<lambda>n.
       take_many (unat n) (take_short_text (invalid_packet ''Message too short for mention'')
         (invalid_packet ''Invalid mention encoding'')))"

text \<open>The parser after the length check, step by step in the order of the source.\<close>

definition message_parser :: "bitchat_message parser" where
  "message_parser =
     pbind take_byte (\<lambda>fl.
     pbind (take_slice 8) (\<lambda>ts.
     pbind take_byte (\<lambda>id_length.
     pbind (take_text (invalid_packet ''Message too short for ID'')
             (invalid_packet ''Invalid ID encoding'') (unat id_length)) (\<lambda>i.
     pbind (take_short_text (invalid_packet ''Message too short for sender'')
             (invalid_packet ''Invalid sender encoding'')) (\<lambda>sender.
     pbind (take_bytes (invalid_packet ''Message too short for content length'') 2) (\<lambda>lb.
     pbind (take_text (invalid_packet ''Message too short for content'')
             (invalid_packet ''Invalid content encoding'') (unat (u16_from_be lb))) (\<lambda>content.
     pbind (take_optional (has_original_sender fl)
             (take_short_text (invalid_packet ''Message too short for original sender'')
               (invalid_packet ''Invalid original sender encoding''))) (\<lambda>orig.
     pbind (take_optional (has_recipient_nickname fl)
             (take_short_text (invalid_packet ''Message too short for recipient nickname'')
               (invalid_packet ''Invalid recipient nickname encoding''))) (\<lambda>rcpt.
     pbind (take_optional (has_sender_peer_id fl)
             (take_bytes (invalid_packet ''Message too short for sender peer ID'') 8)) (\<lambda>pid.
     pbind (take_optional (has_mentions fl) take_mentions) (\<lambda>ms.
       preturn \<lparr>m_flags = fl, m_timestamp = u64_from_be ts, m_id = i, m_sender = sender,
         m_content = content, m_original_sender = orig, m_recipient_nickname = rcpt,
         m_sender_peer_id = pid, m_mentions = ms\<rparr>)))))))))))"

definition message_from_binary :: "bytes \<Rightarrow> bitchat_message result" where
  "message_from_binary bs =
     (if length bs < 11 then Inl (invalid_packet ''Message too short'')
      else rbind (message_parser bs 0) (\<lambda>(m, _).
           rbind (message_validate m) (\<lambda>_. Inr m)))"

section \<open>Noise payloads\<close>

record noise_payload =
  payload_type :: noise_payload_type
  np_data :: bytes

definition noise_payload_to_binary :: "noise_payload \<Rightarrow> bytes" where
  "noise_payload_to_binary p = [noise_payload_type_as_u8 (payload_type p)] @ np_data p"

definition noise_payload_from_binary :: "bool \<Rightarrow> bytes \<Rightarrow> noise_payload result" where
  "noise_payload_from_binary experimental bs =
     (if bs = [] then Inl (invalid_packet ''Empty noise payload'')
      else rbind (index_at bs 0) (\<lambda>b0.
           rbind (noise_payload_type_from_u8 experimental b0) (\<lambda>t.
             Inr \<lparr>payload_type = t, np_data = drop 1 bs\<rparr>)))"

section \<open>Lemmas\<close>

definition core_payload_type :: "noise_payload_type \<Rightarrow> bool" where
  "core_payload_type t = (t \<in> {PrivateMessage, ReadReceipt, Delivered, VerifyChallenge, VerifyResponse})"

interpretation npt: byte_enum noise_payload_type_as_u8 "noise_payload_type_from_u8 experimental"
  "\<lambda>t. experimental \<or> core_payload_type t" for experimental
proof
  show "noise_payload_type_from_u8 experimental (noise_payload_type_as_u8 t) = Inr t"
    if "experimental \<or> core_payload_type t" for t
    using that by (cases t) (simp_all add: noise_payload_type_from_u8_def core_payload_type_def)
  show "(experimental \<or> core_payload_type t) \<and> noise_payload_type_as_u8 t = b"
    if "noise_payload_type_from_u8 experimental b = Inr t" for b t
    using that by (auto simp: noise_payload_type_from_u8_def core_payload_type_def split: if_splits)
qed

lemma invalid_packet_not_panic [simp]: "invalid_packet s \<noteq> Panic"
  by (simp add: invalid_packet_def)

text \<open>The types (strings are UTF-8, peer identifiers have 8 bytes), and what \<^verbatim>\<open>validate\<close> does not
  check: no optional field without its flag, at most 255 mentions of at most 255 bytes.\<close>

definition message_wf :: "bitchat_message \<Rightarrow> bool" where
  "message_wf m \<longleftrightarrow>
     utf8_valid (m_id m) \<and> utf8_valid (m_sender m) \<and> utf8_valid (m_content m) \<and>
     (if has_original_sender (m_flags m) then \<exists>s. m_original_sender m = Some s \<and> utf8_valid s \<and> length s \<le> 255
      else m_original_sender m = None) \<and>
     (if has_recipient_nickname (m_flags m)
      then \<exists>s. m_recipient_nickname m = Some s \<and> utf8_valid s \<and> length s \<le> 255
      else m_recipient_nickname m = None) \<and>
     (if has_sender_peer_id (m_flags m) then \<exists>p. m_sender_peer_id m = Some p \<and> length p = 8
      else m_sender_peer_id m = None) \<and>
     (if has_mentions (m_flags m)
      then \<exists>ms. m_mentions m = Some ms \<and> length ms \<le> 255 \<and>
        list_all (\<lambda>s. utf8_valid s \<and> length s \<le> 255) ms
      else m_mentions m = None)"

lemma message_validate_ok:
  "message_validate m = Inr () \<longleftrightarrow>
     (has_original_sender (m_flags m) \<longrightarrow> m_original_sender m \<noteq> None) \<and>
     (has_recipient_nickname (m_flags m) \<longrightarrow> m_recipient_nickname m \<noteq> None) \<and>
     (has_sender_peer_id (m_flags m) \<longrightarrow> m_sender_peer_id m \<noteq> None) \<and>
     (has_mentions (m_flags m) \<longrightarrow> m_mentions m \<noteq> None \<and> m_mentions m \<noteq> Some []) \<and>
     length (m_id m) \<le> 255 \<and> length (m_sender m) \<le> 255 \<and> length (m_content m) \<le> 65535 \<and>
     \<not> longer_than 255 (m_original_sender m) \<and> \<not> longer_than 255 (m_recipient_nickname m)"
  by (auto simp: message_validate_def split: if_splits)

lemma message_validate_no_panic: "message_validate m \<noteq> Inl Panic"
  by (simp add: message_validate_def invalid_packet_def)

lemma reads_optional_field:
  assumes "if present then \<exists>x. v = Some x \<and> reads P (enc x) x else v = None"
  shows "reads (take_optional present P) (opt_bytes present enc v) v"
  using assms by (intro reads_take_optional) (auto simp: opt_bytes_def)

lemma reads_take_mentions:
  assumes "length ms \<le> 255" and "list_all (\<lambda>s. utf8_valid s \<and> length s \<le> 255) ms"
  shows "reads take_mentions (word_of_nat (length ms) # concat (map short_text ms)) ms"
proof -
  have "reads (take_many (unat (word_of_nat (length ms) :: u8)) (take_short_text e f))
      (concat (map short_text ms)) ms" for e f
    using assms by (intro reads_take_many) (auto simp: list_all_iff reads_take_short_text)
  then have "reads take_mentions ([word_of_nat (length ms)] @ concat (map short_text ms)) ms"
    unfolding take_mentions_def by (rule reads_pbind [OF reads_checked_byte])
  then show ?thesis by simp
qed

lemma reads_message_parser:
  assumes "message_wf m" and "length (m_id m) \<le> 255" and "length (m_sender m) \<le> 255"
    and "length (m_content m) \<le> 65535"
  shows "reads message_parser (message_bytes m) m"
proof -
  have orig: "reads (take_optional (has_original_sender (m_flags m)) (take_short_text e f))
      (opt_bytes (has_original_sender (m_flags m)) short_text (m_original_sender m))
      (m_original_sender m)" for e f
    using assms by (intro reads_optional_field)
      (auto simp: message_wf_def reads_take_short_text)
  have rcpt: "reads (take_optional (has_recipient_nickname (m_flags m)) (take_short_text e f))
      (opt_bytes (has_recipient_nickname (m_flags m)) short_text (m_recipient_nickname m))
      (m_recipient_nickname m)" for e f
    using assms by (intro reads_optional_field)
      (auto simp: message_wf_def reads_take_short_text)
  have pid: "reads (take_optional (has_sender_peer_id (m_flags m)) (take_bytes e 8))
      (opt_bytes (has_sender_peer_id (m_flags m)) (\<lambda>p. p) (m_sender_peer_id m))
      (m_sender_peer_id m)" for e
    using assms by (intro reads_optional_field) (auto simp: message_wf_def reads_take_bytes)
  have ms: "reads (take_optional (has_mentions (m_flags m)) take_mentions)
      (opt_bytes (has_mentions (m_flags m))
         (\<lambda>ms. word_of_nat (length ms) # concat (map short_text ms)) (m_mentions m))
      (m_mentions m)"
    using assms by (intro reads_optional_field) (auto simp: message_wf_def reads_take_mentions)
  have len: "length (m_id m) \<le> 255" "length (m_sender m) \<le> 255" "length (m_content m) \<le> 65535"
    and utf: "utf8_valid (m_id m)" "utf8_valid (m_sender m)" "utf8_valid (m_content m)"
    using assms by (simp_all add: message_wf_def)
  have len': "length (m_id m) < 256" "length (m_content m) < 65536" using len by simp_all
  let ?tail = "opt_bytes (has_original_sender (m_flags m)) short_text (m_original_sender m)
     @ opt_bytes (has_recipient_nickname (m_flags m)) short_text (m_recipient_nickname m)
     @ opt_bytes (has_sender_peer_id (m_flags m)) (\<lambda>p. p) (m_sender_peer_id m)
     @ opt_bytes (has_mentions (m_flags m))
         (\<lambda>ms. word_of_nat (length ms) # concat (map short_text ms)) (m_mentions m)"
  have "reads message_parser ([m_flags m] @ u64_to_be (m_timestamp m) @ [word_of_nat (length (m_id m))]
     @ m_id m @ short_text (m_sender m) @ u16_to_be (word_of_nat (length (m_content m)))
     @ m_content m @ ?tail) \<lparr>m_flags = m_flags m, m_timestamp = u64_from_be (u64_to_be (m_timestamp m)),
       m_id = m_id m, m_sender = m_sender m, m_content = m_content m,
       m_original_sender = m_original_sender m, m_recipient_nickname = m_recipient_nickname m,
       m_sender_peer_id = m_sender_peer_id m, m_mentions = m_mentions m\<rparr>"
    unfolding message_parser_def
    by (rule reads_pbind, rule reads_take_byte, rule reads_pbind, rule reads_take_slice, simp,
        rule reads_pbind, rule reads_take_byte, rule reads_pbind, rule reads_take_text,
        simp add: len', rule utf, rule reads_pbind, rule reads_take_short_text, rule utf, rule len,
        rule reads_pbind, rule reads_take_bytes, simp, rule reads_pbind, rule reads_take_text,
        simp add: len', rule utf, rule reads_pbind, rule orig, rule reads_pbind, rule rcpt,
        rule reads_pbind, rule pid, rule reads_pmap, rule ms)
  moreover have "\<lparr>m_flags = m_flags m, m_timestamp = u64_from_be (u64_to_be (m_timestamp m)),
       m_id = m_id m, m_sender = m_sender m, m_content = m_content m,
       m_original_sender = m_original_sender m, m_recipient_nickname = m_recipient_nickname m,
       m_sender_peer_id = m_sender_peer_id m, m_mentions = m_mentions m\<rparr> = m"
    by simp
  ultimately show ?thesis
    by (simp only: message_bytes_def short_text_def append_Cons append_Nil append_assoc)
qed

lemma length_message_bytes: "13 \<le> length (message_bytes m)"
  by (simp add: message_bytes_def short_text_def)

lemma message_from_to_binary:
  assumes "message_wf m" and "message_to_binary m = Inr b"
  shows "message_from_binary (b @ rest) = Inr m"
proof -
  from assms(2) have v: "message_validate m = Inr ()" and b: "b = message_bytes m"
    by (auto simp: message_to_binary_def rbind_eq_Inr)
  show ?thesis
    using readsD [OF reads_message_parser [OF assms(1)], of "[]" rest] length_message_bytes [of m]
      message_validate_ok [THEN iffD1, OF v]
    by (simp add: message_from_binary_def b v)
qed

interpretation message_codec: wire_codec message_to_binary message_from_binary
  "\<lambda>m. message_wf m \<and> message_validate m = Inr ()"
  using message_from_to_binary [where rest = "[]"]
  by unfold_locales (auto simp: message_to_binary_def)

lemma yields_optional_text:
  "yields (take_optional present (take_short_text e f))
    (\<lambda>v x. x = opt_bytes present short_text v \<and>
      (if present then \<exists>s. v = Some s \<and> utf8_valid s \<and> length s \<le> 255 else v = None))"
  by (rule yields_mono [OF yields_take_optional [OF yields_take_short_text]])
    (auto simp: opt_bytes_def)

lemma yields_optional_peer:
  "yields (take_optional present (take_bytes e 8))
    (\<lambda>v x. x = opt_bytes present (\<lambda>p. p) v \<and>
      (if present then \<exists>p. v = Some p \<and> length p = 8 else v = None))"
  by (rule yields_mono [OF yields_take_optional [OF yields_take_bytes]]) (auto simp: opt_bytes_def)

lemma yields_take_mentions:
  "yields take_mentions (\<lambda>ms x. x = word_of_nat (length ms) # concat (map short_text ms) \<and>
     length ms \<le> 255 \<and> list_all (\<lambda>s. utf8_valid s \<and> length s \<le> 255) ms)"
proof -
  have many: "yields (take_many n (take_short_text e f)) (\<lambda>vs x. x = concat (map short_text vs) \<and>
      length vs = n \<and> list_all (\<lambda>s. utf8_valid s \<and> length s \<le> 255) vs)" for n e f
    by (rule yields_take_many, rule yields_mono [OF yields_take_short_text]) auto
  show ?thesis
    unfolding take_mentions_def
  proof (rule yields_mono [OF yields_pbind [OF yields_checked_byte many]], elim exE conjE)
    fix ms x and n :: u8 and xa y
    assume "x = xa @ y" "xa = [n]" "y = concat (map short_text ms)" "length ms = unat n"
      "list_all (\<lambda>s. utf8_valid s \<and> length s \<le> 255) ms"
    with unat_u8_bound [of n] show "x = word_of_nat (length ms) # concat (map short_text ms) \<and>
        length ms \<le> 255 \<and> list_all (\<lambda>s. utf8_valid s \<and> length s \<le> 255) ms"
      by simp
  qed
qed

lemma yields_optional_mentions:
  "yields (take_optional present take_mentions)
    (\<lambda>v x. x = opt_bytes present (\<lambda>ms. word_of_nat (length ms) # concat (map short_text ms)) v \<and>
      (if present then \<exists>ms. v = Some ms \<and> length ms \<le> 255 \<and>
         list_all (\<lambda>s. utf8_valid s \<and> length s \<le> 255) ms
       else v = None))"
  by (rule yields_mono [OF yields_take_optional [OF yields_take_mentions]]) (auto simp: opt_bytes_def)

lemma yields_message_parser:
  "yields message_parser (\<lambda>m x. x = message_bytes m \<and> message_wf m)"
  unfolding message_parser_def
  apply (rule yields_mono)
   apply (rule yields_pbind yields_take_byte yields_take_slice yields_take_text
      yields_take_short_text yields_take_bytes yields_optional_text yields_optional_peer
      yields_optional_mentions yields_preturn)+
  apply (elim exE conjE)
  subgoal for m x
    by (simp add: message_bytes_def message_wf_def short_text_def to_be_from_be)
  done

lemma message_parser_no_panic:
  assumes "11 \<le> length bs"
  shows "message_parser bs 0 \<noteq> Inl Panic"
proof -
  have byte: "pbind take_byte Q bs i = Q (bs ! i) bs (i + 1)" if "i < 11"
    for Q :: "u8 \<Rightarrow> bitchat_message parser" and i
    using that assms by (simp add: pbind_def take_byte_def index_at_def)
  have slice8: "pbind (take_slice 8) Q bs 1 = Q (take 8 (drop 1 bs)) bs 9"
    for Q :: "bytes \<Rightarrow> bitchat_message parser"
    using assms by (simp add: pbind_def take_slice_def slice_def)
  show ?thesis
    unfolding message_parser_def take_mentions_def
    by (simp only: byte slice8 zero_less_numeral add_0, simp add: byte)
      (intro no_panicD no_panic_intros invalid_packet_not_panic)
qed

interpretation noise_payload: canonical_codec "\<lambda>p. Inr (noise_payload_to_binary p)"
  "noise_payload_from_binary experimental" "\<lambda>p. experimental \<or> core_payload_type (payload_type p)"
  "\<lambda>_. True" for experimental
proof
  show "noise_payload_from_binary experimental b = Inr p"
    if "experimental \<or> core_payload_type (payload_type p)" "Inr (noise_payload_to_binary p) = Inr b" for p b
    using that npt.from_as [of experimental "payload_type p"]
    by (auto simp: noise_payload_to_binary_def noise_payload_from_binary_def index_at_def)
  show "(experimental \<or> core_payload_type (payload_type p)) \<and> Inr (noise_payload_to_binary p) = Inr b"
    if "True" "noise_payload_from_binary experimental b = Inr p" for p b
    using that npt.as_from [of experimental "b ! 0"]
    by (cases b) (auto simp: noise_payload_to_binary_def noise_payload_from_binary_def index_at_def
        rbind_eq_Inr split: if_splits)
qed simp_all

section \<open>Properties\<close>

text \<open>C9: A message within the limits of the format is parsed back from its binary form. Whatever
  follows the message in the buffer is ignored.\<close>

theorem message_roundtrip:
  assumes "message_wf m" and "message_to_binary m = Inr b"
  shows "message_from_binary (b @ rest) = Inr m"
  using assms by (rule message_from_to_binary)

definition example_message :: bitchat_message where
  "example_message =
     message_with_mentions [[98, 111, 98]] (message_with_sender_peer_id [1, 2, 3, 4, 5, 6, 7, 8]
       (message_new 1234567890000 [109, 49] [97, 108] [104, 105]))"

lemmas message_example_defs = message_new_def message_with_sender_peer_id_def message_with_mentions_def
  MF_NONE_def MF_IS_RELAY_def MF_HAS_ORIGINAL_SENDER_def MF_HAS_RECIPIENT_NICKNAME_def
  MF_HAS_SENDER_PEER_ID_def MF_HAS_MENTIONS_def has_original_sender_def has_recipient_nickname_def
  has_sender_peer_id_def has_mentions_def

lemma example_message_wf: "message_wf example_message"
  by (simp add: message_wf_def example_message_def message_example_defs utf8_valid_ascii)

definition example_message_bytes :: bytes where
  "example_message_bytes =
     [0x30] @ u64_to_be 1234567890000 @ [2, 109, 49, 2, 97, 108] @ u16_to_be 2 @ [104, 105]
     @ [1, 2, 3, 4, 5, 6, 7, 8] @ [1, 3, 98, 111, 98]"

lemma example_message_binary: "message_to_binary example_message = Inr example_message_bytes"
  by (simp add: message_to_binary_def message_validate_def message_bytes_def opt_bytes_def
      short_text_def longer_than_def example_message_def example_message_bytes_def
      message_example_defs)

theorem message_roundtrip_witness:
  "message_from_binary (example_message_bytes @ [9, 9]) = Inr example_message"
  by (rule message_roundtrip [OF example_message_wf example_message_binary])

text \<open>Every input the message parser accepts starts with the binary form of the message it returns,
  and that message is valid and within the limits of the format.\<close>

theorem message_parse_sound:
  assumes "message_from_binary bs = Inr m"
  shows "\<exists>b rest. bs = b @ rest \<and> message_to_binary m = Inr b \<and> message_wf m"
proof -
  from assms obtain off where p: "message_parser bs 0 = Inr (m, off)"
    and v: "message_validate m = Inr ()"
    by (auto simp: message_from_binary_def rbind_eq_Inr split: if_splits)
  obtain x where "bs = x @ drop off bs" "x = message_bytes m" "message_wf m"
    using yieldsD [OF yields_message_parser p] by auto
  with v show ?thesis by (auto simp: message_to_binary_def)
qed

theorem message_parse_sound_witness:
  "\<exists>b rest. example_message_bytes @ [9, 9] = b @ rest \<and>
     message_to_binary example_message = Inr b \<and> message_wf example_message"
  by (rule message_parse_sound)
    (rule message_from_to_binary [OF example_message_wf example_message_binary])

text \<open>The message parser never panics: every input is parsed or refused with an error.\<close>

theorem message_from_binary_no_panic: "message_from_binary bs \<noteq> Inl Panic"
  using message_parser_no_panic [of bs] message_validate_no_panic
  by (auto simp: message_from_binary_def rbind_eq_Inl)

text \<open>The number of mentions is written as one byte without a check. A message with 256 mentions,
  or any multiple of 256, passes \<^verbatim>\<open>validate\<close> and is serialised, and the result is refused by the
  parser.\<close>

theorem message_mentions_truncated:
  assumes "message_wf (m\<lparr>m_mentions := Some []\<rparr>)" and "m_mentions m = Some ms" and "ms \<noteq> []"
    and "256 dvd length ms" and "has_mentions (m_flags m)" and "message_validate m = Inr ()"
  shows "\<exists>b. message_to_binary m = Inr b \<and>
    message_from_binary b = Inl (invalid_packet ''Mentions flag set but no mentions'')"
proof -
  let ?n = "m\<lparr>m_mentions := Some []\<rparr>"
  have "(word_of_nat (length ms) :: u8) = 0"
    using assms(4) by (simp add: word_of_nat_eq_0_iff)
  then have b: "message_bytes m = message_bytes ?n @ concat (map short_text ms)"
    using assms(2,5) by (simp add: message_bytes_def opt_bytes_def)
  have "message_validate ?n = Inl (invalid_packet ''Mentions flag set but no mentions'')"
    using assms(5,6) by (auto simp: message_validate_def split: if_splits)
  moreover have "message_parser (message_bytes m) 0 = Inr (?n, length (message_bytes ?n))"
    using readsD [OF reads_message_parser [OF assms(1)], of "[]" "concat (map short_text ms)"] assms(6)
    by (simp add: b message_validate_ok)
  ultimately show ?thesis
    using assms(6) length_message_bytes [of m]
    by (simp add: message_to_binary_def message_from_binary_def)
qed

definition example_many_mentions :: bitchat_message where
  "example_many_mentions =
     message_with_mentions (replicate 256 [97]) (message_new 1234567890000 [109, 49] [97, 108] [104, 105])"

theorem message_mentions_truncated_witness:
  "\<exists>b. message_to_binary example_many_mentions = Inr b \<and>
    message_from_binary b = Inl (invalid_packet ''Mentions flag set but no mentions'')"
  by (rule message_mentions_truncated [of _ "replicate 256 [97]"])
    (simp_all add: example_many_mentions_def message_wf_def message_validate_def longer_than_def
      message_example_defs utf8_valid_ascii)

text \<open>\<^verbatim>\<open>is_supported\<close> holds of a byte exactly when it parses as a Noise payload type, with and
  without the experimental types.\<close>

theorem is_supported_iff:
  "is_supported experimental b \<longleftrightarrow> is_ok (noise_payload_type_from_u8 experimental b)"
proof -
  have ranges: "(1 \<le> n \<and> n \<le> 3) = (n = 1 \<or> n = 2 \<or> n = 3)" "(16 \<le> n \<and> n \<le> 17) = (n = 16 \<or> n = 17)"
    "(32 \<le> n \<and> n \<le> 35) = (n = 32 \<or> n = 33 \<or> n = 34 \<or> n = 35)"
    "(48 \<le> n \<and> n \<le> 54) = (n = 48 \<or> n = 49 \<or> n = 50 \<or> n = 51 \<or> n = 52 \<or> n = 53 \<or> n = 54)"
    "(64 \<le> n \<and> n \<le> 67) = (n = 64 \<or> n = 65 \<or> n = 66 \<or> n = 67)"
    "(80 \<le> n \<and> n \<le> 82) = (n = 80 \<or> n = 81 \<or> n = 82)" for n :: nat
    by presburger+
  have words: "(0x01 \<le> b \<and> b \<le> 0x03) = (b = 1 \<or> b = 2 \<or> b = 3)"
    "(0x10 \<le> b \<and> b \<le> 0x11) = (b = 16 \<or> b = 17)"
    "(0x20 \<le> b \<and> b \<le> 0x23) = (b = 32 \<or> b = 33 \<or> b = 34 \<or> b = 35)"
    "(0x30 \<le> b \<and> b \<le> 0x36) = (b = 48 \<or> b = 49 \<or> b = 50 \<or> b = 51 \<or> b = 52 \<or> b = 53 \<or> b = 54)"
    "(0x40 \<le> b \<and> b \<le> 0x43) = (b = 64 \<or> b = 65 \<or> b = 66 \<or> b = 67)"
    "(0x50 \<le> b \<and> b \<le> 0x52) = (b = 80 \<or> b = 81 \<or> b = 82)"
    using ranges [of "unat b"] by (simp_all add: word_le_nat_alt word_unat_eq_iff)
  show ?thesis
  proof
    assume "is_supported experimental b"
    then consider "0x01 \<le> b \<and> b \<le> 0x03 \<or> 0x10 \<le> b \<and> b \<le> 0x11"
      | "experimental" "0x20 \<le> b \<and> b \<le> 0x23 \<or> 0x30 \<le> b \<and> b \<le> 0x36 \<or>
          0x40 \<le> b \<and> b \<le> 0x43 \<or> 0x50 \<le> b \<and> b \<le> 0x52"
      by (simp only: is_supported_def split: if_split_asm)
    then show "is_ok (noise_payload_type_from_u8 experimental b)"
      unfolding words by cases (elim disjE; simp add: noise_payload_type_from_u8_def)+
  next
    assume "is_ok (noise_payload_type_from_u8 experimental b)"
    then obtain t where "experimental \<or> core_payload_type t" "noise_payload_type_as_u8 t = b"
      by (auto simp: npt.from_u8_ok_iff)
    then show "is_supported experimental b"
      by (cases t) (auto simp: is_supported_def core_payload_type_def)
  qed
qed

end
