(* ===== verification/Fragmentation.thy ===== *)
theory Fragmentation
  imports Core_Types
begin

text \<open>
  Fragmentation and reassembly of messages:
  \<^verbatim>\<open>src/crates/bitchat-core/src/protocol/fragmentation.rs\<close>.

  The random fragment identifier of \<^verbatim>\<open>OsRng\<close> is an argument, and so are the clock readings:
  \<open>now i\<close> is the reading for the \<open>i\<close>-th fragment. \<open>add_fragment\<close> returns the new state together
  with its result, because the code also changes the state on the path that ends in an error.
\<close>

definition DEFAULT_FRAGMENT_SIZE :: nat where "DEFAULT_FRAGMENT_SIZE = 469"
definition BLE_MAX_FRAGMENT_SIZE :: nat where "BLE_MAX_FRAGMENT_SIZE = 244"
definition DEFAULT_MAX_FRAGMENT_SIZE :: nat where "DEFAULT_MAX_FRAGMENT_SIZE = 1024"
definition MAX_FRAGMENTS_PER_MESSAGE :: u16 where "MAX_FRAGMENTS_PER_MESSAGE = 256"
definition MAX_FRAGMENT_ASSEMBLIES :: nat where "MAX_FRAGMENT_ASSEMBLIES = 128"
definition FRAGMENT_TIMEOUT_MS :: u64 where "FRAGMENT_TIMEOUT_MS = 30000"

lemmas fragment_consts = DEFAULT_FRAGMENT_SIZE_def BLE_MAX_FRAGMENT_SIZE_def
  DEFAULT_MAX_FRAGMENT_SIZE_def MAX_FRAGMENTS_PER_MESSAGE_def MAX_FRAGMENT_ASSEMBLIES_def
  FRAGMENT_TIMEOUT_MS_def

section \<open>Headers\<close>

record fragment_header =
  fragment_id :: u64
  fragment_index :: u16
  total_fragments :: u16
  original_type :: u8

definition is_last_fragment :: "fragment_header \<Rightarrow> bool" where
  "is_last_fragment h = (fragment_index h + 1 = total_fragments h)"

definition fragment_header_validate :: "fragment_header \<Rightarrow> unit result" where
  "fragment_header_validate h =
     (if total_fragments h = 0 then Inl (invalid_packet ''Total fragments cannot be zero'')
      else if total_fragments h \<le> fragment_index h
      then Inl (invalid_packet ''Fragment index out of bounds'')
      else if MAX_FRAGMENTS_PER_MESSAGE < total_fragments h
      then Inl (invalid_packet ''Too many fragments'')
      else Inr ())"

definition fragment_header_to_bytes :: "fragment_header \<Rightarrow> bytes" where
  "fragment_header_to_bytes h =
     u64_to_be (fragment_id h) @ u16_to_be (fragment_index h) @ u16_to_be (total_fragments h)
     @ [original_type h]"

definition fragment_header_from_bytes :: "bytes \<Rightarrow> fragment_header result" where
  "fragment_header_from_bytes bs =
     (if length bs < 13 then Inl (invalid_packet ''Fragment header too short'')
      else
        rbind (slice bs 0 8) (\<lambda>idb.
        rbind (slice bs 8 10) (\<lambda>ixb.
        rbind (slice bs 10 12) (\<lambda>tb.
        rbind (index_at bs 12) (\<lambda>ty.
          let h = \<lparr>fragment_id = u64_from_be idb, fragment_index = u16_from_be ixb,
                   total_fragments = u16_from_be tb, original_type = ty\<rparr>
          in rbind (fragment_header_validate h) (\<lambda>_. Inr h))))))"

section \<open>Fragments\<close>

record fragment =
  fr_header :: fragment_header
  fr_data :: bytes
  fr_timestamp :: timestamp

definition fragment_new :: "timestamp \<Rightarrow> fragment_header \<Rightarrow> bytes \<Rightarrow> fragment" where
  "fragment_new now h d = \<lparr>fr_header = h, fr_data = d, fr_timestamp = now\<rparr>"

definition to_wire_format :: "fragment \<Rightarrow> bytes" where
  "to_wire_format f = fragment_header_to_bytes (fr_header f) @ fr_data f"

definition from_wire_format :: "timestamp \<Rightarrow> bytes \<Rightarrow> fragment result" where
  "from_wire_format now bs =
     (if length bs < 13 then Inl (invalid_packet ''Fragment too short'')
      else rbind (slice bs 0 13) (\<lambda>hb.
           rbind (fragment_header_from_bytes hb) (\<lambda>h.
             Inr (fragment_new now h (drop 13 bs)))))"

section \<open>Fragmenting\<close>

definition needs_fragmentation :: "nat \<Rightarrow> nat \<Rightarrow> bool" where
  "needs_fragmentation max_fragment_size message_size = (max_fragment_size < message_size)"

text \<open>The body of the loop, for fragment \<open>i\<close>.\<close>

definition make_fragment ::
    "u64 \<Rightarrow> (nat \<Rightarrow> timestamp) \<Rightarrow> nat \<Rightarrow> nat \<Rightarrow> bytes \<Rightarrow> u8 \<Rightarrow> nat \<Rightarrow> fragment result" where
  "make_fragment fid now data_size total_count data ty i =
     (let start = i * data_size; stop = min (start + data_size) (length data)
      in rbind (slice data start stop) (\<lambda>d.
           Inr (fragment_new (now i)
             \<lparr>fragment_id = fid, fragment_index = word_of_nat i, total_fragments = word_of_nat total_count,
              original_type = ty\<rparr> d)))"

text \<open>\<^verbatim>\<open>div_ceil\<close> panics on a zero divisor, which is the data size when the maximal fragment size does
  not exceed the 13 bytes of a header.\<close>

definition fragment_message ::
    "nat \<Rightarrow> u64 \<Rightarrow> (nat \<Rightarrow> timestamp) \<Rightarrow> bytes \<Rightarrow> u8 \<Rightarrow> fragment list result" where
  "fragment_message max_fragment_size fid now data ty =
     (if data = [] then Inl (invalid_packet ''Cannot fragment empty message'')
      else let fragment_data_size = max_fragment_size - 13
      in if fragment_data_size = 0 then Inl Panic
         else let total_count = div_ceil (length data) fragment_data_size
         in if unat MAX_FRAGMENTS_PER_MESSAGE < total_count
            then Inl (invalid_packet ''Message too large to fragment'')
            else traverse (make_fragment fid now fragment_data_size total_count data ty) [0..<total_count])"

section \<open>Incomplete messages\<close>

record incomplete_message =
  im_total_fragments :: u16
  im_original_type :: u8
  im_fragments :: "(u16 \<times> bytes) list"
  im_first_fragment_time :: timestamp
  im_sender :: peer_id

definition incomplete_new :: "timestamp \<Rightarrow> fragment_header \<Rightarrow> peer_id \<Rightarrow> incomplete_message" where
  "incomplete_new now h sender =
     \<lparr>im_total_fragments = total_fragments h, im_original_type = original_type h,
      im_fragments = [], im_first_fragment_time = now, im_sender = sender\<rparr>"

definition is_complete :: "incomplete_message \<Rightarrow> bool" where
  "is_complete m = (length (im_fragments m) = unat (im_total_fragments m))"

definition incomplete_add_fragment :: "incomplete_message \<Rightarrow> fragment \<Rightarrow> incomplete_message" where
  "incomplete_add_fragment m f =
     (let index = fragment_index (fr_header f)
      in if has_key (im_fragments m) index then m
         else m\<lparr>im_fragments := map_put index (fr_data f) (im_fragments m)\<rparr>)"

definition fragment_expired :: "incomplete_message \<Rightarrow> timestamp \<Rightarrow> bool" where
  "fragment_expired m current_time =
     (FRAGMENT_TIMEOUT_MS < sat_sub current_time (im_first_fragment_time m))"

definition reassemble :: "incomplete_message \<Rightarrow> bytes result" where
  "reassemble m =
     (if \<not> is_complete m then Inl (invalid_packet ''Message is incomplete'')
      else rbind (traverse (\<lambda>i. case map_of (im_fragments m) (word_of_nat i) of
                    Some d \<Rightarrow> Inr d
                  | None \<Rightarrow> Inl (invalid_packet ''Missing fragment''))
             [0..<unat (im_total_fragments m)]) (\<lambda>ds. Inr (concat ds)))"

section \<open>The reassembler\<close>

type_synonym assembly_key = "peer_id \<times> u64"

record reassembler =
  incomplete_messages :: "(assembly_key \<times> incomplete_message) list"
  lru_order :: "assembly_key list"

definition reassembler_new :: reassembler where
  "reassembler_new = \<lparr>incomplete_messages = [], lru_order = []\<rparr>"

fun evict ::
    "(assembly_key \<times> incomplete_message) list \<Rightarrow> assembly_key list
     \<Rightarrow> (assembly_key \<times> incomplete_message) list \<times> assembly_key list" where
  "evict incomplete [] = (incomplete, [])"
| "evict incomplete (oldest # rest) =
     (if MAX_FRAGMENT_ASSEMBLIES \<le> length incomplete then evict (map_del oldest incomplete) rest
      else (incomplete, oldest # rest))"

definition enforce_assembly_limit :: "reassembler \<Rightarrow> reassembler" where
  "enforce_assembly_limit r =
     (case evict (incomplete_messages r) (lru_order r) of
        (inc, lru) \<Rightarrow> \<lparr>incomplete_messages = inc, lru_order = lru\<rparr>)"

text \<open>The state after the entry for \<open>key\<close> has been found or created and moved to the end of the LRU
  list, and that entry.\<close>

definition open_assembly ::
    "timestamp \<Rightarrow> reassembler \<Rightarrow> fragment_header \<Rightarrow> peer_id \<Rightarrow> reassembler \<times> incomplete_message" where
  "open_assembly now r h sender =
     (let key = (sender, fragment_id h);
          r1 = (if has_key (incomplete_messages r) key then r else enforce_assembly_limit r);
          m = (case map_of (incomplete_messages r1) key of
                 Some m \<Rightarrow> m | None \<Rightarrow> incomplete_new now h sender);
          r2 = (if has_key (incomplete_messages r1) key then r1
                else r1\<lparr>incomplete_messages := map_put key m (incomplete_messages r1),
                        lru_order := lru_order r1 @ [key]\<rparr>)
      in (r2\<lparr>lru_order := remove1 key (lru_order r2) @ [key]\<rparr>, m))"

definition add_fragment ::
    "timestamp \<Rightarrow> reassembler \<Rightarrow> fragment \<Rightarrow> peer_id \<Rightarrow> reassembler \<times> (bytes \<times> u8) option result" where
  "add_fragment now r f sender =
     (case fragment_header_validate (fr_header f) of
        Inl e \<Rightarrow> (r, Inl e)
      | Inr _ \<Rightarrow>
          let h = fr_header f; key = (sender, fragment_id h)
          in if total_fragments h = 1 then (r, Inr (Some (fr_data f, original_type h)))
             else case open_assembly now r h sender of (r', m) \<Rightarrow>
               if im_total_fragments m \<noteq> total_fragments h \<or> im_original_type m \<noteq> original_type h
               then (r', Inl (invalid_packet ''Fragment header mismatch''))
               else let m' = incomplete_add_fragment m f;
                        r'' = r'\<lparr>incomplete_messages := map_put key m' (incomplete_messages r')\<rparr>
               in if is_complete m'
                  then (case reassemble m' of
                          Inl e \<Rightarrow> (r'', Inl e)
                        | Inr data \<Rightarrow>
                            (r''\<lparr>incomplete_messages := map_del key (incomplete_messages r'')\<rparr>,
                             Inr (Some (data, im_original_type m'))))
                  else (r'', Inr None))"

definition reassembler_cleanup_expired :: "timestamp \<Rightarrow> reassembler \<Rightarrow> reassembler" where
  "reassembler_cleanup_expired now r =
     r\<lparr>incomplete_messages := filter (\<lambda>(_, m). \<not> fragment_expired m now) (incomplete_messages r)\<rparr>"

definition incomplete_count :: "reassembler \<Rightarrow> nat" where
  "incomplete_count r = length (incomplete_messages r)"

definition reassembler_clear :: "reassembler \<Rightarrow> reassembler" where
  "reassembler_clear r = r\<lparr>incomplete_messages := [], lru_order := []\<rparr>"

text \<open>A node that receives the fragments of \<open>evs\<close> one after the other: the final state and the result
  of each call.\<close>

fun receive_fragments ::
    "reassembler \<Rightarrow> (timestamp \<times> peer_id \<times> fragment) list
     \<Rightarrow> reassembler \<times> (bytes \<times> u8) option result list" where
  "receive_fragments r [] = (r, [])"
| "receive_fragments r ((now, sender, f) # evs) =
     (case add_fragment now r f sender of (r', res) \<Rightarrow>
        (case receive_fragments r' evs of (r'', rs) \<Rightarrow> (r'', res # rs)))"

section \<open>Lemmas on the wire format\<close>

lemma fragment_header_validate_ok:
  "fragment_header_validate h = Inr () \<longleftrightarrow>
     unat (fragment_index h) < unat (total_fragments h) \<and> unat (total_fragments h) \<le> 256"
  by (auto simp: fragment_header_validate_def MAX_FRAGMENTS_PER_MESSAGE_def word_le_nat_alt
      word_less_nat_alt not_le unat_eq_zero [symmetric] simp del: unat_eq_zero split: if_splits)

lemma length_fragment_header_to_bytes [simp]: "length (fragment_header_to_bytes h) = 13"
  by (simp add: fragment_header_to_bytes_def)

lemma fragment_header_from_to_bytes:
  assumes "fragment_header_validate h = Inr ()"
  shows "fragment_header_from_bytes (fragment_header_to_bytes h) = Inr h"
proof -
  let ?a = "u64_to_be (fragment_id h)" and ?b = "u16_to_be (fragment_index h)"
    and ?c = "u16_to_be (total_fragments h)" and ?bs = "fragment_header_to_bytes h"
  have 1: "slice ?bs 0 8 = Inr ?a"
    using slice_append [of 0 "[]" 8 ?a "?b @ ?c @ [original_type h]"]
    by (simp add: fragment_header_to_bytes_def)
  have 2: "slice ?bs 8 10 = Inr ?b"
    using slice_append [of 8 ?a 10 ?b "?c @ [original_type h]"] by (simp add: fragment_header_to_bytes_def)
  have 3: "slice ?bs 10 12 = Inr ?c"
    using slice_append [of 10 "?a @ ?b" 12 ?c "[original_type h]"] by (simp add: fragment_header_to_bytes_def)
  have 4: "index_at ?bs 12 = Inr (original_type h)"
    using index_at_append [of 12 "?a @ ?b @ ?c" "original_type h" "[]"]
    by (simp add: fragment_header_to_bytes_def)
  have eta: "\<lparr>fragment_id = fragment_id h, fragment_index = fragment_index h,
      total_fragments = total_fragments h, original_type = original_type h\<rparr> = h"
    by simp
  show ?thesis using assms by (simp add: fragment_header_from_bytes_def 1 2 3 4 Let_def eta)
qed

lemma fragment_header_from_bytes_InrD:
  assumes "fragment_header_from_bytes bs = Inr h" and "length bs = 13"
  shows "fragment_header_validate h = Inr ()" and "fragment_header_to_bytes h = bs"
proof -
  from assms show "fragment_header_validate h = Inr ()"
    by (auto simp: fragment_header_from_bytes_def rbind_eq_Inr Let_def split: if_splits)
  from assms have h: "h = \<lparr>fragment_id = u64_from_be (take 8 bs),
      fragment_index = u16_from_be (take 2 (drop 8 bs)),
      total_fragments = u16_from_be (take 2 (drop 10 bs)), original_type = bs ! 12\<rparr>"
    by (auto simp: fragment_header_from_bytes_def rbind_eq_Inr Let_def slice_def index_at_def)
  have "bs = take 8 bs @ take 2 (drop 8 bs) @ take 2 (drop 10 bs) @ drop 12 bs"
    using append_take_drop_id [of 8 bs] append_take_drop_id [of 2 "drop 8 bs"]
      append_take_drop_id [of 2 "drop 10 bs"] by simp
  moreover have "drop 12 bs = [bs ! 12]"
    using assms(2) Cons_nth_drop_Suc [of 12 bs] by simp
  ultimately show "fragment_header_to_bytes h = bs"
    using assms(2) by (simp add: h fragment_header_to_bytes_def to_be_from_be)
qed

text \<open>The wire format carries the header and the data of a fragment; its timestamp is the time of
  reception.\<close>

definition fragment_dec :: "bytes \<Rightarrow> (fragment_header \<times> bytes) result" where
  "fragment_dec bs = rbind (from_wire_format 0 bs) (\<lambda>f. Inr (fr_header f, fr_data f))"

definition fragment_enc :: "fragment_header \<times> bytes \<Rightarrow> bytes result" where
  "fragment_enc p = Inr (to_wire_format (fragment_new 0 (fst p) (snd p)))"

interpretation fragment_wire: canonical_codec fragment_enc fragment_dec
  "\<lambda>p. fragment_header_validate (fst p) = Inr ()" "\<lambda>_. True"
proof
  show "is_ok (fragment_enc p)" for p by (simp add: fragment_enc_def)
  show "fragment_dec b = Inr p"
    if "fragment_header_validate (fst p) = Inr ()" "fragment_enc p = Inr b" for p b
    using that
    by (auto simp: fragment_enc_def fragment_dec_def from_wire_format_def to_wire_format_def
        fragment_new_def slice_def fragment_header_from_to_bytes)
  show "fragment_header_validate (fst p) = Inr () \<and> fragment_enc p = Inr b"
    if "True" and dec: "fragment_dec b = Inr p" for b p
  proof -
    from dec have len: "13 \<le> length b" and h: "fragment_header_from_bytes (take 13 b) = Inr (fst p)"
      and d: "snd p = drop 13 b"
      by (auto simp: fragment_dec_def from_wire_format_def fragment_new_def slice_def rbind_eq_Inr
          split: if_splits)
    have "length (take 13 b) = 13" using len by simp
    from fragment_header_from_bytes_InrD [OF h this] d show ?thesis
      by (simp add: fragment_enc_def to_wire_format_def fragment_new_def)
  qed
qed simp_all

section \<open>Lemmas on fragmenting\<close>

definition chunk :: "nat \<Rightarrow> bytes \<Rightarrow> nat \<Rightarrow> bytes" where
  "chunk n data i = take n (drop (i * n) data)"

lemma concat_chunks: "concat (map (chunk n data) [0..<k]) = take (k * n) data"
proof (induction k)
  case (Suc k)
  then show ?case by (simp add: chunk_def take_add [symmetric] add.commute)
qed simp

definition fragment_of :: "u64 \<Rightarrow> (nat \<Rightarrow> timestamp) \<Rightarrow> nat \<Rightarrow> nat \<Rightarrow> bytes \<Rightarrow> u8 \<Rightarrow> nat \<Rightarrow> fragment" where
  "fragment_of fid now n total_count data ty i =
     fragment_new (now i) \<lparr>fragment_id = fid, fragment_index = word_of_nat i,
       total_fragments = word_of_nat total_count, original_type = ty\<rparr> (chunk n data i)"

lemma make_fragment_ok:
  assumes "0 < n" and "i < div_ceil (length data) n"
  shows "make_fragment fid now n total_count data ty i = Inr (fragment_of fid now n total_count data ty i)"
proof -
  have "Suc i * n \<le> div_ceil (length data) n * n" using assms(2) by (intro mult_right_mono) auto
  with div_ceil_bounds(2) [OF assms(1), of "length data"] have "i * n < length data" by simp
  then have "slice data (i * n) (min (i * n + n) (length data)) = Inr (chunk n data i)"
    by (auto simp: slice_def chunk_def min_def)
  then show ?thesis by (simp add: make_fragment_def fragment_of_def Let_def)
qed

lemma fragment_message_eq:
  assumes "data \<noteq> []" and "13 < max_size" and "length data \<le> 256 * (max_size - 13)"
  shows "fragment_message max_size fid now data ty =
    Inr (map (fragment_of fid now (max_size - 13) (div_ceil (length data) (max_size - 13)) data ty)
      [0..<div_ceil (length data) (max_size - 13)])"
proof -
  have "div_ceil (length data) (max_size - 13) \<le> 256"
    using assms(2,3) by (simp add: div_ceil_le_iff mult.commute)
  moreover have "traverse (make_fragment fid now (max_size - 13) t data ty)
      [0..<div_ceil (length data) (max_size - 13)] =
    Inr (map (fragment_of fid now (max_size - 13) t data ty) [0..<div_ceil (length data) (max_size - 13)])" for t
    using assms(2) by (intro traverse_ok make_fragment_ok) auto
  ultimately show ?thesis
    using assms(1,2) by (simp add: fragment_message_def Let_def MAX_FRAGMENTS_PER_MESSAGE_def)
qed

lemma fragment_message_InrD:
  assumes "fragment_message max_size fid now data ty = Inr frags"
  shows "data \<noteq> []" and "13 < max_size" and "length data \<le> 256 * (max_size - 13)"
proof -
  from assms show "data \<noteq> []" "13 < max_size"
    by (auto simp: fragment_message_def Let_def split: if_splits)
  from assms have "div_ceil (length data) (max_size - 13) \<le> 256" and "0 < max_size - 13"
    by (auto simp: fragment_message_def Let_def MAX_FRAGMENTS_PER_MESSAGE_def split: if_splits)
  then show "length data \<le> 256 * (max_size - 13)" by (simp add: div_ceil_le_iff mult.commute)
qed

section \<open>Lemmas on reassembly\<close>

definition incomplete_wf :: "incomplete_message \<Rightarrow> bool" where
  "incomplete_wf m \<longleftrightarrow>
     distinct (keys_of (im_fragments m)) \<and>
     dom (map_of (im_fragments m)) \<subseteq> {..<im_total_fragments m} \<and>
     2 \<le> unat (im_total_fragments m) \<and> unat (im_total_fragments m) \<le> 256"

text \<open>Indices are pairwise different and below the total, so a message with as many fragments as the
  total has them all.\<close>

lemma complete_keys:
  assumes "incomplete_wf m" and "is_complete m" and "i < unat (im_total_fragments m)"
  shows "map_of (im_fragments m) (word_of_nat i) \<noteq> None"
proof -
  let ?ks = "keys_of (im_fragments m)" and ?n = "unat (im_total_fragments m)"
  have "card (unat ` set ?ks) = card (set ?ks)"
    by (rule card_image) (simp add: inj_on_def word_unat_eq_iff)
  also have "\<dots> = ?n"
    using assms(1,2) distinct_card [of ?ks] by (simp add: incomplete_wf_def is_complete_def)
  finally have "card (unat ` set ?ks) = ?n" .
  moreover have sub: "set ?ks \<subseteq> {..<im_total_fragments m}"
    using assms(1) by (simp only: incomplete_wf_def dom_map_of_conv_image_fst set_map)
  then have "unat ` set ?ks \<subseteq> {..<?n}" by (blast intro: unat_mono)
  ultimately have "unat ` set ?ks = {..<?n}" by (intro card_subset_eq) simp_all
  with assms(3) have "i \<in> unat ` set ?ks" by simp
  then obtain k where "k \<in> set ?ks" "i = unat k" by (rule imageE)
  then show ?thesis by (simp add: map_of_eq_None_iff)
qed

lemma reassemble_ok:
  assumes "incomplete_wf m" and "is_complete m"
  shows "reassemble m =
    Inr (concat (map (\<lambda>i. the (map_of (im_fragments m) (word_of_nat i)))
      [0..<unat (im_total_fragments m)]))"
proof -
  have "traverse (\<lambda>i. case map_of (im_fragments m) (word_of_nat i) of
        Some d \<Rightarrow> Inr d | None \<Rightarrow> Inl (invalid_packet ''Missing fragment''))
      [0..<unat (im_total_fragments m)] =
    Inr (map (\<lambda>i. the (map_of (im_fragments m) (word_of_nat i))) [0..<unat (im_total_fragments m)])"
    using complete_keys [OF assms] by (intro traverse_ok) (auto split: option.split)
  with assms(2) show ?thesis by (simp add: reassemble_def)
qed

text \<open>The invariant of the reassembler: at most 128 assemblies, each known to the LRU list and none of
  them complete.\<close>

definition reassembler_inv :: "reassembler \<Rightarrow> bool" where
  "reassembler_inv r \<longleftrightarrow>
     distinct (keys_of (incomplete_messages r)) \<and>
     dom (map_of (incomplete_messages r)) \<subseteq> set (lru_order r) \<and>
     length (incomplete_messages r) \<le> MAX_FRAGMENT_ASSEMBLIES \<and>
     (\<forall>k m. map_of (incomplete_messages r) k = Some m \<longrightarrow> incomplete_wf m \<and> \<not> is_complete m)"

lemma reassembler_invD:
  assumes "reassembler_inv r"
  shows "distinct (keys_of (incomplete_messages r))"
    and "dom (map_of (incomplete_messages r)) \<subseteq> set (lru_order r)"
    and "length (incomplete_messages r) \<le> MAX_FRAGMENT_ASSEMBLIES"
    and "map_of (incomplete_messages r) k = Some m \<Longrightarrow> incomplete_wf m"
    and "map_of (incomplete_messages r) k = Some m \<Longrightarrow> \<not> is_complete m"
  using assms unfolding reassembler_inv_def by blast+

lemma evict_spec:
  "evict inc lru = (inc', lru') \<Longrightarrow> distinct (keys_of inc) \<Longrightarrow> dom (map_of inc) \<subseteq> set lru \<Longrightarrow>
   distinct (keys_of inc') \<and> map_of inc' \<subseteq>\<^sub>m map_of inc \<and> dom (map_of inc') \<subseteq> set lru' \<and>
   length inc' < MAX_FRAGMENT_ASSEMBLIES"
proof (induction inc lru rule: evict.induct)
  case (1 inc)
  then have "inc = []" by (simp add: dom_map_of_conv_image_fst)
  with 1 show ?case by (simp add: MAX_FRAGMENT_ASSEMBLIES_def)
next
  case (2 inc oldest rest)
  show ?case
  proof (cases "MAX_FRAGMENT_ASSEMBLIES \<le> length inc")
    case True
    have "dom (map_of (map_del oldest inc)) \<subseteq> set rest" using 2(4) by auto
    moreover from True 2(2) have "evict (map_del oldest inc) rest = (inc', lru')" by simp
    ultimately have "distinct (keys_of inc') \<and> map_of inc' \<subseteq>\<^sub>m map_of (map_del oldest inc) \<and>
        dom (map_of inc') \<subseteq> set lru' \<and> length inc' < MAX_FRAGMENT_ASSEMBLIES"
      using 2(1) [OF True] distinct_del [OF 2(3), of oldest] by blast
    moreover have "map_of (map_del oldest inc) \<subseteq>\<^sub>m map_of inc" by (simp add: map_le_def)
    ultimately show ?thesis using map_le_trans by blast
  next
    case False
    with 2 show ?thesis by auto
  qed
qed

lemma evict_below: "length inc < MAX_FRAGMENT_ASSEMBLIES \<Longrightarrow> evict inc lru = (inc, lru)"
  by (cases lru) auto

lemma enforce_assembly_limit_inv:
  assumes "reassembler_inv r"
  shows "reassembler_inv (enforce_assembly_limit r)"
    and "length (incomplete_messages (enforce_assembly_limit r)) < MAX_FRAGMENT_ASSEMBLIES"
    and "map_of (incomplete_messages (enforce_assembly_limit r)) \<subseteq>\<^sub>m map_of (incomplete_messages r)"
proof -
  obtain inc lru where e: "evict (incomplete_messages r) (lru_order r) = (inc, lru)" by force
  note spec = evict_spec [OF e reassembler_invD(1,2) [OF assms]]
  show "length (incomplete_messages (enforce_assembly_limit r)) < MAX_FRAGMENT_ASSEMBLIES"
    "map_of (incomplete_messages (enforce_assembly_limit r)) \<subseteq>\<^sub>m map_of (incomplete_messages r)"
    using spec by (simp_all add: enforce_assembly_limit_def e)
  have "map_of (incomplete_messages r) k = Some m" if "map_of inc k = Some m" for k m
    using spec that by (metis domI map_le_def)
  then have "\<forall>k m. map_of inc k = Some m \<longrightarrow> incomplete_wf m \<and> \<not> is_complete m"
    using reassembler_invD(4,5) [OF assms] by blast
  then show "reassembler_inv (enforce_assembly_limit r)"
    using spec unfolding reassembler_inv_def by (simp add: enforce_assembly_limit_def e)
qed

lemma remove1_snoc_set: "set (remove1 k xs @ [k]) = insert k (set xs)"
  by (induction xs) auto

text \<open>Inserting or replacing an entry that is well-formed keeps the invariant when there is room.\<close>

lemma reassembler_inv_put:
  assumes "reassembler_inv r" and "incomplete_wf m" and "\<not> is_complete m"
    and "has_key (incomplete_messages r) key \<or> length (incomplete_messages r) < MAX_FRAGMENT_ASSEMBLIES"
    and "insert key (set (lru_order r)) \<subseteq> set lru"
  shows "reassembler_inv \<lparr>incomplete_messages = map_put key m (incomplete_messages r), lru_order = lru\<rparr>"
  using assms by (auto simp: reassembler_inv_def length_put)

lemma reassembler_inv_del:
  assumes "reassembler_inv r"
  shows "reassembler_inv (r\<lparr>incomplete_messages := map_del key (incomplete_messages r)\<rparr>)"
proof -
  have "length (map_del key (incomplete_messages r)) \<le> length (incomplete_messages r)"
    by (rule length_delete_le)
  with assms show ?thesis by (auto simp: reassembler_inv_def)
qed

lemma reassembler_inv_lru:
  "reassembler_inv r \<Longrightarrow> set (lru_order r) \<subseteq> set lru \<Longrightarrow> reassembler_inv (r\<lparr>lru_order := lru\<rparr>)"
  unfolding reassembler_inv_def by auto

lemma open_assembly_hit:
  "map_of (incomplete_messages r) (sender, fragment_id h) = Some m \<Longrightarrow>
   open_assembly now r h sender =
     (r\<lparr>lru_order := remove1 (sender, fragment_id h) (lru_order r) @ [(sender, fragment_id h)]\<rparr>, m)"
  by (simp add: open_assembly_def Let_def has_key_def)

lemma open_assembly_miss:
  assumes "reassembler_inv r" and "map_of (incomplete_messages r) (sender, fragment_id h) = None"
  shows "open_assembly now r h sender =
    (\<lparr>incomplete_messages = map_put (sender, fragment_id h) (incomplete_new now h sender)
        (incomplete_messages (enforce_assembly_limit r)),
      lru_order = remove1 (sender, fragment_id h) (lru_order (enforce_assembly_limit r) @
        [(sender, fragment_id h)]) @ [(sender, fragment_id h)]\<rparr>, incomplete_new now h sender)"
proof -
  have "map_of (incomplete_messages (enforce_assembly_limit r)) (sender, fragment_id h) = None"
    using assms(2) map_le_implies_dom_le [OF enforce_assembly_limit_inv(3) [OF assms(1)]] by blast
  with assms(2) show ?thesis by (simp add: open_assembly_def Let_def has_key_def)
qed

text \<open>What is known after an assembly has been opened: the entry \<open>m\<close> is in the map, and it is the old
  one or a new one made from the header.\<close>

lemma open_assembly_spec:
  assumes inv: "reassembler_inv r" and h: "2 \<le> unat (total_fragments h)" "unat (total_fragments h) \<le> 256"
    and o: "open_assembly now r h sender = (r', m)"
  shows "reassembler_inv r' \<and> map_of (incomplete_messages r') (sender, fragment_id h) = Some m \<and>
    m = (case map_of (incomplete_messages r) (sender, fragment_id h) of
      Some m \<Rightarrow> m | None \<Rightarrow> incomplete_new now h sender)"
proof (cases "map_of (incomplete_messages r) (sender, fragment_id h)")
  case (Some m')
  with o have "r' = r\<lparr>lru_order := remove1 (sender, fragment_id h) (lru_order r) @ [(sender, fragment_id h)]\<rparr>"
    "m = m'"
    by (simp_all add: open_assembly_hit)
  moreover have "reassembler_inv (r\<lparr>lru_order :=
      remove1 (sender, fragment_id h) (lru_order r) @ [(sender, fragment_id h)]\<rparr>)"
    by (rule reassembler_inv_lru [OF inv]) (simp only: remove1_snoc_set subset_insertI)
  ultimately show ?thesis using Some by simp
next
  case None
  note lim = enforce_assembly_limit_inv [OF inv]
  have new: "incomplete_wf (incomplete_new now h sender)" "\<not> is_complete (incomplete_new now h sender)"
    using h by (auto simp: incomplete_wf_def incomplete_new_def is_complete_def)
  have "reassembler_inv \<lparr>incomplete_messages = map_put (sender, fragment_id h) (incomplete_new now h sender)
        (incomplete_messages (enforce_assembly_limit r)),
      lru_order = remove1 (sender, fragment_id h) (lru_order (enforce_assembly_limit r) @
        [(sender, fragment_id h)]) @ [(sender, fragment_id h)]\<rparr>"
    using lim(1,2) new
    by (intro reassembler_inv_put) (simp_all only: remove1_snoc_set, auto)
  with None o show ?thesis by (auto simp: open_assembly_miss [OF inv None])
qed

lemma incomplete_add_fragment_wf:
  assumes "incomplete_wf m" and "fragment_header_validate (fr_header f) = Inr ()"
    and "im_total_fragments m = total_fragments (fr_header f)"
  shows "incomplete_wf (incomplete_add_fragment m f)"
  using assms
  by (auto simp: incomplete_wf_def incomplete_add_fragment_def Let_def fragment_header_validate_ok
      word_less_nat_alt)

lemma validated_header:
  assumes "fragment_header_validate h = Inr ()" and "total_fragments h \<noteq> 1"
  shows "2 \<le> unat (total_fragments h)" and "unat (total_fragments h) \<le> 256"
proof -
  have "unat (total_fragments h) \<noteq> 1" using assms(2) by (metis unat_1 word_unat_eq_iff)
  with assms(1) show "2 \<le> unat (total_fragments h)" "unat (total_fragments h) \<le> 256"
    by (auto simp: fragment_header_validate_ok)
qed

text \<open>The three ways a fragment of a longer message can go: its header contradicts the assembly, it is
  stored, or it completes the message.\<close>

lemma add_fragment_cases:
  assumes inv: "reassembler_inv r" and v: "fragment_header_validate (fr_header f) = Inr ()"
    and n: "total_fragments (fr_header f) \<noteq> 1"
    and o: "open_assembly now r (fr_header f) sender = (r', m)"
  shows "add_fragment now r f sender =
    (let key = (sender, fragment_id (fr_header f)); m' = incomplete_add_fragment m f in
     if im_total_fragments m \<noteq> total_fragments (fr_header f) \<or>
        im_original_type m \<noteq> original_type (fr_header f)
     then (r', Inl (invalid_packet ''Fragment header mismatch''))
     else if is_complete m'
     then (r'\<lparr>incomplete_messages := map_del key (incomplete_messages r')\<rparr>,
       Inr (Some (concat (map (\<lambda>i. the (map_of (im_fragments m') (word_of_nat i)))
         [0..<unat (im_total_fragments m')]), im_original_type m')))
     else (r'\<lparr>incomplete_messages := map_put key m' (incomplete_messages r')\<rparr>, Inr None))"
proof -
  have "incomplete_wf m"
    using open_assembly_spec [OF inv validated_header [OF v n] o] reassembler_invD(4) by blast
  then show ?thesis
    using n reassemble_ok [OF incomplete_add_fragment_wf, OF _ v]
    by (auto simp: add_fragment_def v o Let_def delete_update_same)
qed

lemma add_fragment_inv:
  assumes inv: "reassembler_inv r"
  shows "reassembler_inv (fst (add_fragment now r f sender))"
proof (cases "fragment_header_validate (fr_header f) = Inr () \<and> total_fragments (fr_header f) \<noteq> 1")
  case False
  with inv show ?thesis by (auto simp: add_fragment_def Let_def split: sum.split)
next
  case True
  obtain r' m where o: "open_assembly now r (fr_header f) sender = (r', m)" by force
  from open_assembly_spec [OF inv validated_header [OF conjunct1 [OF True] conjunct2 [OF True]] o]
  have inv': "reassembler_inv r'" and m: "map_of (incomplete_messages r') (sender, fragment_id (fr_header f)) = Some m"
    by simp_all
  then have key: "(sender, fragment_id (fr_header f)) \<in> set (lru_order r')"
    using reassembler_invD(2) by blast
  have "reassembler_inv (r'\<lparr>incomplete_messages := map_put (sender, fragment_id (fr_header f))
      (incomplete_add_fragment m f) (incomplete_messages r')\<rparr>)"
    if "im_total_fragments m = total_fragments (fr_header f)" "\<not> is_complete (incomplete_add_fragment m f)"
    using reassembler_inv_put [OF inv' incomplete_add_fragment_wf [OF reassembler_invD(4) [OF inv' m] _ that(1)]
        that(2), of "(sender, fragment_id (fr_header f))" "lru_order r'"] True m key
    by (cases r') (auto simp: has_key_def)
  with True inv' show ?thesis
    by (simp add: add_fragment_cases [OF inv _ _ o] Let_def reassembler_inv_del)
qed

lemma cleanup_expired_inv:
  assumes "reassembler_inv r"
  shows "reassembler_inv (reassembler_cleanup_expired now r)"
proof -
  let ?P = "\<lambda>(_, m). \<not> fragment_expired m now"
  note inv = reassembler_invD [OF assms]
  have sub: "map_of (incomplete_messages r) k = Some m"
    if "map_of (filter ?P (incomplete_messages r)) k = Some m" for k m
    using map_of_filterD [OF inv(1) that] by simp
  have dom: "dom (map_of (filter ?P (incomplete_messages r))) \<subseteq> set (lru_order r)"
    by (rule subset_trans [OF map_le_implies_dom_le [OF map_le_filter [OF inv(1)]] inv(2)])
  have len: "length (filter ?P (incomplete_messages r)) \<le> MAX_FRAGMENT_ASSEMBLIES"
    by (rule order_trans [OF length_filter_le inv(3)])
  have wf: "\<forall>k m. map_of (filter ?P (incomplete_messages r)) k = Some m \<longrightarrow>
      incomplete_wf m \<and> \<not> is_complete m"
    using sub inv(4,5) by blast
  have "reassembler_inv \<lparr>incomplete_messages = filter ?P (incomplete_messages r), lru_order = lru_order r\<rparr>"
    unfolding reassembler_inv_def reassembler.simps
    by (intro conjI distinct_filter_keys inv(1) dom len wf)
  then show ?thesis by (cases r) (simp add: reassembler_cleanup_expired_def)
qed

lemma clear_inv: "reassembler_inv (reassembler_clear r)"
  by (simp add: reassembler_inv_def reassembler_clear_def)

inductive reassembler_step :: "reassembler \<Rightarrow> reassembler \<Rightarrow> bool" where
  receive: "reassembler_step r (fst (add_fragment now r f sender))"
| cleanup: "reassembler_step r (reassembler_cleanup_expired now r)"
| clear: "reassembler_step r (reassembler_clear r)"

interpretation reassembly: invariant_system "\<lambda>r. r = reassembler_new" reassembler_step reassembler_inv
proof
  show "reassembler_inv r" if "r = reassembler_new" for r
    using that by (simp add: reassembler_inv_def reassembler_new_def)
  show "reassembler_inv t" if "reassembler_inv r" "reassembler_step r t" for r t
    using that(2,1)
    by cases (simp_all add: add_fragment_inv cleanup_expired_inv clear_inv)
qed

section \<open>Reassembly of one message\<close>

text \<open>The assembly for \<open>key\<close> holds exactly the fragments \<open>I\<close> of a message of \<open>n\<close> fragments whose
  contents are \<open>ch 0, ch 1, \<dots>\<close>.\<close>

definition has_chunks :: "incomplete_message \<Rightarrow> nat \<Rightarrow> u8 \<Rightarrow> (nat \<Rightarrow> bytes) \<Rightarrow> nat set \<Rightarrow> bool" where
  "has_chunks m n ty ch I \<longleftrightarrow>
     unat (im_total_fragments m) = n \<and> im_original_type m = ty \<and>
     (\<forall>i < n. map_of (im_fragments m) (word_of_nat i) = (if i \<in> I then Some (ch i) else None))"

definition holds_chunks ::
    "reassembler \<Rightarrow> assembly_key \<Rightarrow> nat \<Rightarrow> u8 \<Rightarrow> (nat \<Rightarrow> bytes) \<Rightarrow> nat set \<Rightarrow> bool" where
  "holds_chunks r key n ty ch I \<longleftrightarrow>
     (case map_of (incomplete_messages r) key of
        None \<Rightarrow> I = {}
      | Some m \<Rightarrow> I \<noteq> {} \<and> has_chunks m n ty ch I)"

definition chunk_fragment :: "fragment \<Rightarrow> u64 \<Rightarrow> nat \<Rightarrow> u8 \<Rightarrow> (nat \<Rightarrow> bytes) \<Rightarrow> nat \<Rightarrow> bool" where
  "chunk_fragment f fid n ty ch i \<longleftrightarrow>
     fr_header f = \<lparr>fragment_id = fid, fragment_index = word_of_nat i,
       total_fragments = word_of_nat n, original_type = ty\<rparr> \<and> fr_data f = ch i \<and> i < n"

lemma complete_iff:
  assumes "incomplete_wf m"
  shows "is_complete m \<longleftrightarrow>
    (\<forall>i < unat (im_total_fragments m). map_of (im_fragments m) (word_of_nat i) \<noteq> None)"
proof
  show "\<forall>i < unat (im_total_fragments m). map_of (im_fragments m) (word_of_nat i) \<noteq> None" if "is_complete m"
    using complete_keys [OF assms that] by blast
next
  let ?ks = "keys_of (im_fragments m)" and ?n = "unat (im_total_fragments m)"
  assume all: "\<forall>i < ?n. map_of (im_fragments m) (word_of_nat i) \<noteq> None"
  have sub: "set ?ks \<subseteq> {..<im_total_fragments m}"
    using assms by (simp only: incomplete_wf_def dom_map_of_conv_image_fst set_map)
  have "i \<in> unat ` set ?ks" if "i < ?n" for i
  proof -
    have "word_of_nat i \<in> set ?ks" using all that by (simp add: map_of_eq_None_iff)
    moreover have "unat (word_of_nat i :: u16) = i"
      using that unat_u16_bound [of "im_total_fragments m"] by simp
    ultimately show ?thesis by (metis imageI)
  qed
  moreover have "unat ` set ?ks \<subseteq> {..<?n}" using sub by (blast intro: unat_mono)
  ultimately have "unat ` set ?ks = {..<?n}" by blast
  moreover have "card (unat ` set ?ks) = card (set ?ks)"
    by (rule card_image) (simp add: inj_on_def word_unat_eq_iff)
  ultimately have "card (set ?ks) = ?n" by simp
  then show "is_complete m"
    using assms distinct_card [of ?ks] by (simp add: incomplete_wf_def is_complete_def)
qed

lemma has_chunks_add:
  assumes "has_chunks m n ty ch I" and "chunk_fragment f fid n ty ch i" and "n \<le> 256"
  shows "has_chunks (incomplete_add_fragment m f) n ty ch (insert i I)"
proof -
  from assms(2) have f: "fragment_index (fr_header f) = word_of_nat i" "fr_data f = ch i" "i < n"
    by (simp_all add: chunk_fragment_def)
  have un: "unat (word_of_nat j :: u16) = j" if "j < n" for j
    using that assms(3) by simp
  have inj: "(word_of_nat j :: u16) = word_of_nat i \<longleftrightarrow> j = i" if "j < n" for j
    using un [OF that] un [OF f(3)] by metis
  have old: "map_of (im_fragments m) (word_of_nat j) = (if j \<in> I then Some (ch j) else None)" if "j < n" for j
    using assms(1) that by (simp add: has_chunks_def)
  have "map_of (im_fragments (incomplete_add_fragment m f)) (word_of_nat j) =
      (if j \<in> insert i I then Some (ch j) else None)" if "j < n" for j
  proof (cases "i \<in> I")
    case True
    then show ?thesis using old [OF f(3)] old [OF that]
      by (auto simp: incomplete_add_fragment_def Let_def has_key_def f(1))
  next
    case False
    then show ?thesis using old [OF f(3)] old [OF that] inj [OF that]
      by (simp add: incomplete_add_fragment_def Let_def has_key_def f(1,2))
  qed
  with assms(1) show ?thesis
    by (simp add: has_chunks_def incomplete_add_fragment_def Let_def)
qed

lemma has_chunks_complete:
  assumes "has_chunks m n ty ch I" and "incomplete_wf m" and "I \<subseteq> {..<n}"
  shows "is_complete m \<longleftrightarrow> I = {..<n}"
    and "I = {..<n} \<Longrightarrow> concat (map (\<lambda>i. the (map_of (im_fragments m) (word_of_nat i)))
      [0..<unat (im_total_fragments m)]) = concat (map ch [0..<n])"
proof -
  show "is_complete m \<longleftrightarrow> I = {..<n}"
    using assms by (auto simp: complete_iff has_chunks_def split: if_splits)
  show "concat (map (\<lambda>i. the (map_of (im_fragments m) (word_of_nat i)))
      [0..<unat (im_total_fragments m)]) = concat (map ch [0..<n])" if "I = {..<n}"
    using assms(1) that by (auto simp: has_chunks_def intro!: arg_cong [where f = concat])
qed

lemma add_own_fragment:
  assumes inv: "reassembler_inv r" and n: "2 \<le> n" "n \<le> 256" and I: "I \<subseteq> {..<n}"
    and holds: "holds_chunks r (sender, fid) n ty ch I" and f: "chunk_fragment f fid n ty ch i"
  shows "if insert i I = {..<n}
    then snd (add_fragment now r f sender) = Inr (Some (concat (map ch [0..<n]), ty))
    else snd (add_fragment now r f sender) = Inr None \<and>
      holds_chunks (fst (add_fragment now r f sender)) (sender, fid) n ty ch (insert i I)"
proof -
  have hd: "fragment_id (fr_header f) = fid" "total_fragments (fr_header f) = word_of_nat n"
    "original_type (fr_header f) = ty" and i: "i < n"
    using f by (simp_all add: chunk_fragment_def)
  have un: "unat (word_of_nat n :: u16) = n" using n by simp
  have v: "fragment_header_validate (fr_header f) = Inr ()"
    using f n i by (simp add: fragment_header_validate_ok chunk_fragment_def)
  have n1: "total_fragments (fr_header f) \<noteq> 1"
    using un n hd by (auto dest: arg_cong [where f = unat])
  obtain r' m where o: "open_assembly now r (fr_header f) sender = (r', m)" by force
  note spec = open_assembly_spec [OF inv validated_header [OF v n1] o]
  have m: "has_chunks m n ty ch I"
  proof (cases "map_of (incomplete_messages r) (sender, fid)")
    case None
    with spec holds hd have "m = incomplete_new now (fr_header f) sender" "I = {}"
      by (simp_all add: holds_chunks_def)
    then show ?thesis using hd un by (simp add: has_chunks_def incomplete_new_def)
  next
    case (Some m0)
    with spec holds hd show ?thesis by (simp add: holds_chunks_def)
  qed
  then have match: "im_total_fragments m = total_fragments (fr_header f)" "im_original_type m = ty"
    using hd un by (simp_all add: has_chunks_def word_unat_eq_iff)
  let ?m' = "incomplete_add_fragment m f"
  have m': "has_chunks ?m' n ty ch (insert i I)" by (rule has_chunks_add [OF m f n(2)])
  have wf': "incomplete_wf ?m'"
    using spec reassembler_invD(4) by (intro incomplete_add_fragment_wf v match(1)) blast
  have sub: "insert i I \<subseteq> {..<n}" using I i by simp
  note compl = has_chunks_complete [OF m' wf' sub]
  have ty: "im_original_type ?m' = ty" using m' by (simp add: has_chunks_def)
  show ?thesis
  proof (cases "insert i I = {..<n}")
    case True
    with compl match hd ty show ?thesis by (simp add: add_fragment_cases [OF inv v n1 o] Let_def)
  next
    case False
    with compl(1) match hd m' show ?thesis
      by (simp add: add_fragment_cases [OF inv v n1 o] Let_def holds_chunks_def)
  qed
qed

lemma add_other_fragment:
  assumes inv: "reassembler_inv r" and room: "length (incomplete_messages r) < MAX_FRAGMENT_ASSEMBLIES"
    and other: "(sender, fragment_id (fr_header f)) \<noteq> key"
  shows "map_of (incomplete_messages (fst (add_fragment now r f sender))) key =
    map_of (incomplete_messages r) key"
proof (cases "fragment_header_validate (fr_header f) = Inr () \<and> total_fragments (fr_header f) \<noteq> 1")
  case False
  then show ?thesis by (auto simp: add_fragment_def Let_def split: sum.split)
next
  case True
  have lim: "incomplete_messages (enforce_assembly_limit r) = incomplete_messages r"
    using room by (simp add: enforce_assembly_limit_def evict_below)
  obtain r' m where o: "open_assembly now r (fr_header f) sender = (r', m)" by force
  have "map_of (incomplete_messages r') key = map_of (incomplete_messages r) key"
    using o other open_assembly_hit open_assembly_miss [OF inv] lim
    by (cases "map_of (incomplete_messages r) (sender, fragment_id (fr_header f))") force+
  with True other show ?thesis by (simp add: add_fragment_cases [OF inv _ _ o] Let_def)
qed

lemma evict_length: "length (fst (evict inc lru)) \<le> length inc"
proof (induction inc lru rule: evict.induct)
  case (2 inc oldest rest)
  have "length (map_del oldest inc) \<le> length inc" by (rule length_delete_le)
  with 2 show ?case by (auto intro: order_trans)
qed simp

lemma enforce_assembly_limit_length:
  "length (incomplete_messages (enforce_assembly_limit r)) \<le> length (incomplete_messages r)"
  using evict_length [of "incomplete_messages r" "lru_order r"]
  by (simp add: enforce_assembly_limit_def case_prod_beta)

lemma open_assembly_length:
  assumes "reassembler_inv r" and "open_assembly now r h sender = (r', m)"
  shows "length (incomplete_messages r') \<le> Suc (length (incomplete_messages r))"
proof (cases "map_of (incomplete_messages r) (sender, fragment_id h)")
  case None
  from assms(2) have "incomplete_messages r' = map_put (sender, fragment_id h)
      (incomplete_new now h sender) (incomplete_messages (enforce_assembly_limit r))"
    by (auto simp: open_assembly_miss [OF assms(1) None])
  then show ?thesis using enforce_assembly_limit_length [of r] by (simp add: length_put)
next
  case (Some m')
  with assms(2) show ?thesis by (auto simp: open_assembly_hit)
qed

lemma add_fragment_length:
  assumes inv: "reassembler_inv r"
  shows "length (incomplete_messages (fst (add_fragment now r f sender))) \<le>
    Suc (length (incomplete_messages r))"
proof (cases "fragment_header_validate (fr_header f) = Inr () \<and> total_fragments (fr_header f) \<noteq> 1")
  case False
  then show ?thesis by (auto simp: add_fragment_def Let_def split: sum.split)
next
  case True
  obtain r' m where o: "open_assembly now r (fr_header f) sender = (r', m)" by force
  have "has_key (incomplete_messages r') (sender, fragment_id (fr_header f))"
    using open_assembly_spec [OF inv validated_header [OF conjunct1 [OF True] conjunct2 [OF True]] o]
    by (simp add: has_key_def)
  then show ?thesis
    using open_assembly_length [OF inv o] True
      order_trans [OF length_delete_le open_assembly_length [OF inv o]]
    by (simp add: add_fragment_cases [OF inv _ _ o] Let_def length_put)
qed

text \<open>The indices of the fragments for \<open>key\<close> among the events of a run.\<close>

definition own_indices :: "assembly_key \<Rightarrow> (timestamp \<times> peer_id \<times> fragment) list \<Rightarrow> nat set" where
  "own_indices key evs =
     {i. \<exists>t s g. (t, s, g) \<in> set evs \<and> (s, fragment_id (fr_header g)) = key \<and>
        unat (fragment_index (fr_header g)) = i}"

lemma own_indices_Nil [simp]: "own_indices key [] = {}"
  by (simp add: own_indices_def)

lemma own_indices_Cons:
  "own_indices key ((t, s, g) # evs) =
     (if (s, fragment_id (fr_header g)) = key
      then insert (unat (fragment_index (fr_header g))) (own_indices key evs)
      else own_indices key evs)"
  unfolding own_indices_def by (cases key) (auto split: if_splits)

lemma own_indices_bound:
  assumes "\<And>t s g. (t, s, g) \<in> set evs \<Longrightarrow> (s, fragment_id (fr_header g)) = key \<Longrightarrow>
      unat (fragment_index (fr_header g)) < n"
  shows "own_indices key evs \<subseteq> {..<n}"
  unfolding own_indices_def using assms by blast

lemma receive_prefix:
  assumes "reassembler_inv r" and "2 \<le> n" and "n \<le> 256" and "I \<subseteq> {..<n}"
    and "holds_chunks r (sender, fid) n ty ch I"
    and "\<And>t s g. (t, s, g) \<in> set pre \<Longrightarrow> (s, fragment_id (fr_header g)) = (sender, fid) \<Longrightarrow>
      chunk_fragment g fid n ty ch (unat (fragment_index (fr_header g)))"
    and "I \<union> own_indices (sender, fid) pre \<noteq> {..<n}"
    and "length (incomplete_messages r) + length pre \<le> MAX_FRAGMENT_ASSEMBLIES"
  shows "reassembler_inv (fst (receive_fragments r pre)) \<and>
    holds_chunks (fst (receive_fragments r pre)) (sender, fid) n ty ch (I \<union> own_indices (sender, fid) pre)"
  using assms
proof (induction pre arbitrary: r I)
  case Nil
  then show ?case by simp
next
  case (Cons ev evs)
  obtain now s g where ev: "ev = (now, s, g)" by (cases ev)
  define r' where "r' = fst (add_fragment now r g s)"
  have run: "fst (receive_fragments r (ev # evs)) = fst (receive_fragments r' evs)"
    by (simp add: ev r'_def case_prod_beta)
  have inv': "reassembler_inv r'" unfolding r'_def by (rule add_fragment_inv [OF Cons.prems(1)])
  have len': "length (incomplete_messages r') + length evs \<le> MAX_FRAGMENT_ASSEMBLIES"
    using add_fragment_length [OF Cons.prems(1), of now g s] Cons.prems(8) by (simp add: r'_def)
  show ?case
  proof (cases "(s, fragment_id (fr_header g)) = (sender, fid)")
    case True
    let ?i = "unat (fragment_index (fr_header g))"
    have own: "own_indices (sender, fid) (ev # evs) = insert ?i (own_indices (sender, fid) evs)"
      using True by (simp add: ev own_indices_Cons)
    have g: "chunk_fragment g fid n ty ch ?i" using Cons.prems(6) [of now s g] True by (simp add: ev)
    then have i: "?i < n" by (simp add: chunk_fragment_def)
    have evs: "own_indices (sender, fid) evs \<subseteq> {..<n}"
      using Cons.prems(6) by (intro own_indices_bound) (auto simp: chunk_fragment_def)
    have "insert ?i I \<noteq> {..<n}"
      using Cons.prems(4,7) i evs unfolding own by blast
    with add_own_fragment [OF Cons.prems(1-5) g, of now] True
    have "holds_chunks r' (sender, fid) n ty ch (insert ?i I)" by (simp add: r'_def)
    moreover have "insert ?i I \<subseteq> {..<n}" using Cons.prems(4) i by simp
    moreover have "insert ?i I \<union> own_indices (sender, fid) evs \<noteq> {..<n}"
      using Cons.prems(7) unfolding own by simp
    ultimately have "reassembler_inv (fst (receive_fragments r' evs)) \<and>
      holds_chunks (fst (receive_fragments r' evs)) (sender, fid) n ty ch
        (insert ?i I \<union> own_indices (sender, fid) evs)"
      using Cons.prems(6) by (intro Cons.IH inv' Cons.prems(2,3) len') auto
    then show ?thesis unfolding run own by simp
  next
    case False
    then have own: "own_indices (sender, fid) (ev # evs) = own_indices (sender, fid) evs"
      by (simp only: ev own_indices_Cons if_False)
    have "map_of (incomplete_messages r') (sender, fid) = map_of (incomplete_messages r) (sender, fid)"
      unfolding r'_def using Cons.prems(8) by (intro add_other_fragment [OF Cons.prems(1) _ False]) simp
    then have "holds_chunks r' (sender, fid) n ty ch I" using Cons.prems(5) by (simp add: holds_chunks_def)
    then show ?thesis
      unfolding run own using Cons.prems(4,6,7) own
      by (intro Cons.IH inv' Cons.prems(2,3) len') auto
  qed
qed

lemma receive_fragments_snoc:
  "receive_fragments r (pre @ [(now, s, f)]) =
     (fst (add_fragment now (fst (receive_fragments r pre)) f s),
      snd (receive_fragments r pre) @ [snd (add_fragment now (fst (receive_fragments r pre)) f s)])"
proof (induction pre arbitrary: r)
  case (Cons ev pre)
  then show ?case by (cases ev) (simp add: case_prod_beta)
qed (simp add: case_prod_beta)

abbreviation content :: "fragment \<Rightarrow> fragment_header \<times> bytes" where
  "content f \<equiv> (fr_header f, fr_data f)"

lemma chunk_fragment_of:
  assumes "content f = content (fragment_of fid now k n data ty i)" and "i < n" and "n \<le> 256"
  shows "chunk_fragment f fid n ty (chunk k data) i"
  using assms by (simp add: chunk_fragment_def fragment_of_def fragment_new_def)

lemma chunk_fragment_index:
  "chunk_fragment f fid n ty ch i \<Longrightarrow> n \<le> 256 \<Longrightarrow> unat (fragment_index (fr_header f)) = i"
  by (simp add: chunk_fragment_def)

definition fragments_from :: "peer_id \<Rightarrow> u64 \<Rightarrow> (timestamp \<times> peer_id \<times> fragment) list \<Rightarrow> fragment list" where
  "fragments_from sender fid evs =
     map (\<lambda>(t, s, g). g) (filter (\<lambda>(t, s, g). s = sender \<and> fragment_id (fr_header g) = fid) evs)"

lemma set_fragments_from:
  "set (fragments_from sender fid evs) = {g. \<exists>t. (t, sender, g) \<in> set evs \<and> fragment_id (fr_header g) = fid}"
  by (force simp: fragments_from_def)

lemma reassembly_lemma:
  assumes frag: "fragment_message max_size fid nows data ty = Inr frags"
    and inv: "reassembler_inv r" and none: "map_of (incomplete_messages r) (sender, fid) = None"
    and room: "length (incomplete_messages r) + length pre \<le> MAX_FRAGMENT_ASSEMBLIES"
    and last: "content f \<in> content ` set frags"
    and own: "content ` {g. \<exists>t. (t, sender, g) \<in> set pre \<and> fragment_id (fr_header g) = fid} =
      content ` set frags - {content f}"
  shows "snd (add_fragment now (fst (receive_fragments r pre)) f sender) = Inr (Some (data, ty))"
proof -
  let ?k = "max_size - 13" and ?n = "div_ceil (length data) (max_size - 13)"
  note d = fragment_message_InrD [OF frag]
  have frags: "frags = map (fragment_of fid nows ?k ?n data ty) [0..<?n]"
    using frag by (simp add: fragment_message_eq [OF d])
  have n: "?n \<le> 256" using d by (simp add: div_ceil_le_iff mult.commute)
  have data: "concat (map (chunk ?k data) [0..<?n]) = data"
    using div_ceil_bounds(1) [of ?k "length data"] d(2) by (simp add: concat_chunks)
  from last obtain j where j: "j < ?n" and "content f = content (fragment_of fid nows ?k ?n data ty j)"
    unfolding frags by auto
  then have fj: "chunk_fragment f fid ?n ty (chunk ?k data) j" by (intro chunk_fragment_of n)
  have pre: "\<exists>i < ?n. i \<noteq> j \<and> chunk_fragment g fid ?n ty (chunk ?k data) i"
    if g: "(t, sender, g) \<in> set pre" "fragment_id (fr_header g) = fid" for t g
  proof -
    have "content g \<in> content ` set frags - {content f}" unfolding own [symmetric] using g by blast
    then obtain i where i: "i < ?n" "content g = content (fragment_of fid nows ?k ?n data ty i)"
      and ne: "content g \<noteq> content f"
      by (auto simp: frags)
    have "chunk_fragment g fid ?n ty (chunk ?k data) i" by (rule chunk_fragment_of [OF i(2,1) n])
    moreover have "i \<noteq> j" using ne fj calculation by (auto simp: chunk_fragment_def)
    ultimately show ?thesis using i(1) by blast
  qed
  have idx: "own_indices (sender, fid) pre = {..<?n} - {j}"
  proof (rule set_eqI)
    fix i
    have "i \<in> own_indices (sender, fid) pre" if i: "i < ?n" "i \<noteq> j"
    proof -
      let ?g = "fragment_of fid nows ?k ?n data ty i"
      have ci: "chunk_fragment ?g fid ?n ty (chunk ?k data) i" by (rule chunk_fragment_of [OF refl i(1) n])
      have "content ?g \<noteq> content f"
        using chunk_fragment_index [OF ci n] chunk_fragment_index [OF fj n] i(2) by auto
      then have "content ?g \<in> content ` set frags - {content f}" using i(1) by (auto simp: frags)
      then obtain g t where g: "content ?g = content g" "(t, sender, g) \<in> set pre"
          "fragment_id (fr_header g) = fid"
        unfolding own [symmetric] by blast
      then have "unat (fragment_index (fr_header g)) = i" using chunk_fragment_index [OF ci n] by simp
      with g(2,3) show ?thesis by (auto simp: own_indices_def)
    qed
    moreover have "i < ?n \<and> i \<noteq> j" if own_i: "i \<in> own_indices (sender, fid) pre"
    proof -
      from own_i obtain t g where "(t, sender, g) \<in> set pre" "fragment_id (fr_header g) = fid"
        and i: "unat (fragment_index (fr_header g)) = i"
        by (auto simp: own_indices_def)
      from pre [OF this(1,2)] i show ?thesis using chunk_fragment_index [OF _ n] by blast
    qed
    ultimately show "i \<in> own_indices (sender, fid) pre \<longleftrightarrow> i \<in> {..<?n} - {j}" by auto
  qed
  show ?thesis
  proof (cases "?n = 1")
    case True
    have "fragment_header_validate (fr_header f) = Inr ()" "total_fragments (fr_header f) = 1"
      using fj True by (simp_all add: chunk_fragment_def fragment_header_validate_ok)
    then show ?thesis
      using fj True data by (simp add: add_fragment_def Let_def chunk_fragment_def)
  next
    case False
    with j have n2: "2 \<le> ?n" by simp
    have "holds_chunks r (sender, fid) ?n ty (chunk ?k data) {}" using none by (simp add: holds_chunks_def)
    moreover have "chunk_fragment g fid ?n ty (chunk ?k data) (unat (fragment_index (fr_header g)))"
      if "(t, s, g) \<in> set pre" "(s, fragment_id (fr_header g)) = (sender, fid)" for t s g
      using pre [of t g] that chunk_fragment_index [OF _ n] by auto
    moreover have "{} \<union> own_indices (sender, fid) pre \<noteq> {..<?n}" using j by (auto simp: idx)
    ultimately have "reassembler_inv (fst (receive_fragments r pre)) \<and>
        holds_chunks (fst (receive_fragments r pre)) (sender, fid) ?n ty (chunk ?k data)
          ({} \<union> own_indices (sender, fid) pre)"
      by (intro receive_prefix inv n n2 room) auto
    then have inv': "reassembler_inv (fst (receive_fragments r pre))"
      and holds: "holds_chunks (fst (receive_fragments r pre)) (sender, fid) ?n ty (chunk ?k data)
          ({..<?n} - {j})"
      by (simp_all add: idx)
    have "insert j ({..<?n} - {j}) = {..<?n}" using j by auto
    with add_own_fragment [OF inv' n2 n _ holds fj, of now] show ?thesis by (simp add: data)
  qed
qed

section \<open>Properties\<close>

text \<open>C5: Reassembly is correct in any order, with duplicates and with other traffic in between. Let a
  message be cut into fragments and let a node receive, among fragments of other messages, every one of
  them but one, each any number of times. Then the arrival of the missing fragment returns the message
  and its type, provided the node did not already have an assembly for that sender and identifier and
  there was room for the assemblies opened meanwhile.\<close>

theorem reassembly_correct:
  assumes "fragment_message max_size fid nows data ty = Inr frags"
    and "reassembler_inv r" and "map_of (incomplete_messages r) (sender, fid) = None"
    and "length (incomplete_messages r) + length pre \<le> MAX_FRAGMENT_ASSEMBLIES"
    and "(fr_header f, fr_data f) \<in> (\<lambda>g. (fr_header g, fr_data g)) ` set frags"
    and "(\<lambda>g. (fr_header g, fr_data g)) ` set (fragments_from sender fid pre) =
      (\<lambda>g. (fr_header g, fr_data g)) ` set frags - {(fr_header f, fr_data f)}"
  shows "last (snd (receive_fragments r (pre @ [(now, sender, f)]))) = Inr (Some (data, ty))"
  using reassembly_lemma [OF assms [unfolded set_fragments_from]] by (simp add: receive_fragments_snoc)

definition example_fragment :: "u64 \<Rightarrow> nat \<Rightarrow> bytes \<Rightarrow> fragment" where
  "example_fragment fid i d = fragment_new 0 \<lparr>fragment_id = fid, fragment_index = word_of_nat i,
     total_fragments = 3, original_type = 2\<rparr> d"

lemma example_fragments:
  "fragment_message 15 77 (\<lambda>_. 0) [10, 11, 12, 13, 14] 2 =
     Inr [example_fragment 77 0 [10, 11], example_fragment 77 1 [12, 13], example_fragment 77 2 [14]]"
  by (simp add: fragment_message_def Let_def div_ceil_def MAX_FRAGMENTS_PER_MESSAGE_def
      make_fragment_def slice_def example_fragment_def upt_rec)

lemma reassembler_new_inv: "reassembler_inv reassembler_new"
  by (rule reassembly.invar_start) simp

theorem reassembly_correct_witness:
  "last (snd (receive_fragments reassembler_new
     ([(1, [1], example_fragment 77 2 [14]), (2, [2], example_fragment 77 0 [99]),
       (3, [1], example_fragment 77 0 [10, 11]), (4, [1], example_fragment 77 2 [14])] @
      [(5, [1], example_fragment 77 1 [12, 13])]))) = Inr (Some ([10, 11, 12, 13, 14], 2))"
  by (rule reassembly_correct [OF example_fragments reassembler_new_inv])
    (auto simp: reassembler_new_def MAX_FRAGMENT_ASSEMBLIES_def example_fragment_def fragment_new_def
      fragments_from_def)

text \<open>C6: Fragmenting a message never loses or reorders data. It succeeds exactly for a non-empty
  message of at most 256 times the data size per fragment (the maximal fragment size less 13 bytes of
  header), and then the fragments carry valid headers numbered from 0, fit the maximal size on the
  wire, and their data concatenates to the message.\<close>

theorem fragment_message_correct:
  "(is_ok (fragment_message max_size fid now data ty) \<longleftrightarrow>
      data \<noteq> [] \<and> 13 < max_size \<and> length data \<le> 256 * (max_size - 13)) \<and>
   (case fragment_message max_size fid now data ty of
      Inl _ \<Rightarrow> True
    | Inr frags \<Rightarrow>
        concat (map fr_data frags) = data \<and>
        map (\<lambda>f. unat (fragment_index (fr_header f))) frags = [0..<length frags] \<and>
        list_all (\<lambda>f. fragment_header_validate (fr_header f) = Inr () \<and>
          fragment_id (fr_header f) = fid \<and> original_type (fr_header f) = ty \<and>
          unat (total_fragments (fr_header f)) = length frags \<and>
          length (to_wire_format f) \<le> max_size) frags)"
proof (cases "is_ok (fragment_message max_size fid now data ty)")
  case False
  then have "\<not> (data \<noteq> [] \<and> 13 < max_size \<and> length data \<le> 256 * (max_size - 13))"
    using fragment_message_eq [of data max_size fid now ty] by auto
  with False show ?thesis by (auto simp: is_ok_def split: sum.splits)
next
  case True
  then obtain frags where frag: "fragment_message max_size fid now data ty = Inr frags"
    by (auto simp: is_ok_iff)
  note d = fragment_message_InrD [OF frag]
  let ?k = "max_size - 13" and ?n = "div_ceil (length data) (max_size - 13)"
  have frags: "frags = map (fragment_of fid now ?k ?n data ty) [0..<?n]"
    using frag by (simp add: fragment_message_eq [OF d])
  have n: "?n \<le> 256" using d by (simp add: div_ceil_le_iff mult.commute)
  have "concat (map fr_data frags) = concat (map (chunk ?k data) [0..<?n])"
    by (simp add: frags fragment_of_def fragment_new_def comp_def)
  also have "\<dots> = data"
    using div_ceil_bounds(1) [of ?k "length data"] d(2) by (simp add: concat_chunks)
  finally have 1: "concat (map fr_data frags) = data" .
  have 2: "map (\<lambda>f. unat (fragment_index (fr_header f))) frags = [0..<length frags]"
    using n by (auto simp: frags fragment_of_def fragment_new_def comp_def intro!: map_idI)
  have 3: "list_all (\<lambda>f. fragment_header_validate (fr_header f) = Inr () \<and>
          fragment_id (fr_header f) = fid \<and> original_type (fr_header f) = ty \<and>
          unat (total_fragments (fr_header f)) = length frags \<and>
          length (to_wire_format f) \<le> max_size) frags"
    using n d(2) by (auto simp: frags list_all_iff fragment_of_def fragment_new_def
        fragment_header_validate_ok to_wire_format_def chunk_def)
  show ?thesis using d 1 2 3 by (simp add: frag)
qed

text \<open>Parsing a fragment is the exact inverse of printing it: an input parses exactly when it is
  the wire form of a fragment with a valid header, and the timestamp is the time of reception.\<close>

theorem fragment_wire_inverse:
  "from_wire_format now b = Inr f \<longleftrightarrow>
     fragment_header_validate (fr_header f) = Inr () \<and> to_wire_format f = b \<and> fr_timestamp f = now"
proof -
  have stamp: "from_wire_format now b = Inr f \<longleftrightarrow> fragment_dec b = Inr (content f) \<and> fr_timestamp f = now"
    by (cases f) (auto simp: fragment_dec_def from_wire_format_def fragment_new_def rbind_eq_Inr
        split: if_splits)
  have "to_wire_format (fragment_new 0 (fr_header f) (fr_data f)) = to_wire_format f"
    by (simp add: to_wire_format_def fragment_new_def)
  then show ?thesis
    unfolding stamp using fragment_wire.dec_ok_iff [of b "content f"] by (auto simp: fragment_enc_def)
qed

text \<open>C7: In every state the reassembler can reach it holds at most 128 incomplete messages, each of
  them with distinct fragment indices below its total, and none of them complete.\<close>

theorem reassembler_bounded:
  assumes "reachable (\<lambda>r. r = reassembler_new) reassembler_step r"
  shows "incomplete_count r \<le> 128 \<and> reassembler_inv r"
  using reassembly.invar_reachable [OF assms]
  by (simp add: incomplete_count_def reassembler_inv_def MAX_FRAGMENT_ASSEMBLIES_def)

theorem reassembler_bounded_witness:
  "incomplete_count (fst (add_fragment 1 reassembler_new (example_fragment 77 0 [10, 11]) [1])) \<le> 128 \<and>
   reassembler_inv (fst (add_fragment 1 reassembler_new (example_fragment 77 0 [10, 11]) [1]))"
  by (rule reassembler_bounded) (rule reach_step, rule reach_start, rule refl, rule receive)

text \<open>A node never fails on a complete message. In a reachable state the only errors of
  \<^verbatim>\<open>add_fragment\<close> are those of the header check and a header that contradicts the open assembly; the
  errors ``Message is incomplete'' and ``Missing fragment'' and panics do not occur.\<close>

theorem add_fragment_errors:
  assumes "reassembler_inv r" and "snd (add_fragment now r f sender) = Inl e"
  shows "fragment_header_validate (fr_header f) = Inl e \<or>
    e = invalid_packet ''Fragment header mismatch'' \<and>
    (\<exists>m. map_of (incomplete_messages r) (sender, fragment_id (fr_header f)) = Some m \<and>
      (im_total_fragments m \<noteq> total_fragments (fr_header f) \<or>
       im_original_type m \<noteq> original_type (fr_header f)))"
proof (cases "fragment_header_validate (fr_header f)")
  case (Inl e')
  with assms(2) show ?thesis by (simp add: add_fragment_def)
next
  case (Inr u)
  then have v: "fragment_header_validate (fr_header f) = Inr ()" by simp
  have n1: "total_fragments (fr_header f) \<noteq> 1" using assms(2) v by (auto simp: add_fragment_def)
  obtain r' m where o: "open_assembly now r (fr_header f) sender = (r', m)" by force
  note spec = open_assembly_spec [OF assms(1) validated_header [OF v n1] o]
  from assms(2) have mm: "e = invalid_packet ''Fragment header mismatch''"
    "im_total_fragments m \<noteq> total_fragments (fr_header f) \<or> im_original_type m \<noteq> original_type (fr_header f)"
    by (auto simp: add_fragment_cases [OF assms(1) v n1 o] Let_def split: if_splits)
  have "map_of (incomplete_messages r) (sender, fragment_id (fr_header f)) = Some m"
    using spec mm(2) by (auto simp: incomplete_new_def split: option.splits)
  with mm show ?thesis by blast
qed

theorem add_fragment_errors_witness:
  "fragment_header_validate (fr_header ((example_fragment 77 3 [10]))) =
     Inl (invalid_packet ''Fragment index out of bounds'')"
proof -
  have "snd (add_fragment 1 reassembler_new (example_fragment 77 3 [10]) [1]) =
      Inl (invalid_packet ''Fragment index out of bounds'')"
    by (simp add: add_fragment_def fragment_header_validate_def example_fragment_def fragment_new_def)
  from add_fragment_errors [OF reassembler_new_inv this] show ?thesis
    by (simp add: reassembler_new_def)
qed

text \<open>Completing a message removes its assembly but not its key from the LRU list, so the list keeps
  one entry for every message of more than one fragment a node has ever received until 128 assemblies
  are open at once.\<close>

theorem completed_key_stays_in_lru:
  assumes "reassembler_inv r" and "total_fragments (fr_header f) \<noteq> 1"
    and "snd (add_fragment now r f sender) = Inr (Some (d, ty))"
  shows "map_of (incomplete_messages (fst (add_fragment now r f sender)))
      (sender, fragment_id (fr_header f)) = None \<and>
    (sender, fragment_id (fr_header f)) \<in> set (lru_order (fst (add_fragment now r f sender))) \<and>
    length (lru_order (fst (add_fragment now r f sender))) = length (lru_order r)"
proof -
  have v: "fragment_header_validate (fr_header f) = Inr ()"
    using assms(3) by (auto simp: add_fragment_def split: sum.splits)
  obtain r' m where o: "open_assembly now r (fr_header f) sender = (r', m)" by force
  note two = validated_header [OF v assms(2)]
  note spec = open_assembly_spec [OF assms(1) two o]
  note cases = add_fragment_cases [OF assms(1) v assms(2) o]
  from assms(3) have compl: "is_complete (incomplete_add_fragment m f)"
    and total: "im_total_fragments m = total_fragments (fr_header f)"
    and fst': "incomplete_messages (fst (add_fragment now r f sender)) =
      map_del (sender, fragment_id (fr_header f)) (incomplete_messages r')"
      "lru_order (fst (add_fragment now r f sender)) = lru_order r'"
    by (auto simp: cases Let_def split: if_splits)
  have "m \<noteq> incomplete_new now (fr_header f) sender"
    using compl two total
    by (auto simp: incomplete_new_def is_complete_def incomplete_add_fragment_def Let_def has_key_def)
  with spec have hit: "map_of (incomplete_messages r) (sender, fragment_id (fr_header f)) = Some m"
    by (auto split: option.splits)
  then have "(sender, fragment_id (fr_header f)) \<in> set (lru_order r)"
    using reassembler_invD(2) [OF assms(1)] by blast
  moreover have "lru_order r' = remove1 (sender, fragment_id (fr_header f)) (lru_order r)
      @ [(sender, fragment_id (fr_header f))]"
    using o by (auto simp: open_assembly_hit [OF hit])
  moreover have "0 < length (lru_order r)" using calculation(1) by (rule length_pos_if_in_set)
  ultimately show ?thesis by (simp add: fst' length_remove1)
qed

definition example_pair :: "nat \<Rightarrow> fragment" where
  "example_pair i = fragment_new 0 \<lparr>fragment_id = 5, fragment_index = word_of_nat i,
     total_fragments = 2, original_type = 2\<rparr> [word_of_nat i]"

definition example_half_received :: reassembler where
  "example_half_received = fst (add_fragment 1 reassembler_new (example_pair 0) [1])"

lemma example_half_received_eq:
  "example_half_received =
     \<lparr>incomplete_messages = [(([1], 5), \<lparr>im_total_fragments = 2, im_original_type = 2,
        im_fragments = [(0, [0])], im_first_fragment_time = 1, im_sender = [1]\<rparr>)],
      lru_order = [([1], 5)]\<rparr>"
  by (simp add: example_half_received_def add_fragment_def fragment_header_validate_def
      MAX_FRAGMENTS_PER_MESSAGE_def example_pair_def fragment_new_def open_assembly_def Let_def
      reassembler_new_def has_key_def enforce_assembly_limit_def incomplete_new_def
      incomplete_add_fragment_def is_complete_def)

theorem completed_key_stays_in_lru_witness:
  "([1], 5) \<in> set (lru_order (fst (add_fragment 2 example_half_received (example_pair 1) [1])))"
proof -
  have inv: "reassembler_inv example_half_received"
    unfolding example_half_received_def by (rule add_fragment_inv [OF reassembler_new_inv])
  have "snd (add_fragment 2 example_half_received (example_pair 1) [1]) = Inr (Some ([0, 1], 2))"
    by (simp add: example_half_received_eq add_fragment_def fragment_header_validate_def
        MAX_FRAGMENTS_PER_MESSAGE_def example_pair_def fragment_new_def open_assembly_def Let_def
        has_key_def incomplete_add_fragment_def is_complete_def reassemble_def upt_rec word_le_nat_alt)
  from completed_key_stays_in_lru [OF inv _ this] show ?thesis
    by (simp add: example_pair_def fragment_new_def)
qed

end
