(* ===== verification/Noise_Session.thy ===== *)
theory Noise_Session
  imports Crypto
begin

text \<open>
  Noise sessions (\<^verbatim>\<open>src/crates/bitchat-core/src/protocol/session.rs\<close>), the wrappers of
  \<^verbatim>\<open>crypto.rs\<close> they call, and the session manager of the runtime
  (\<^verbatim>\<open>src/crates/bitchat-runtime/src/managers/session.rs\<close>).

  The Noise protocol itself is the third-party crate \<^verbatim>\<open>snow\<close>: the record \<open>snow\<close> of its operations
  on handshake states and transport states, an argument of every definition that calls it. An
  operation that mutates such a state returns the new state with its result; the last argument of
  the message operations is the length of the output buffer.

  Every operation of a session returns the new session together with its result, because the code
  changes the session also on some paths that end in an error. Clock readings are arguments.
\<close>

record ('h, 't) snow =
  build_initiator :: "bytes \<Rightarrow> 'h result"
  build_responder :: "bytes \<Rightarrow> 'h result"
  hs_write_message :: "'h \<Rightarrow> bytes \<Rightarrow> nat \<Rightarrow> 'h \<times> bytes result"
  hs_read_message :: "'h \<Rightarrow> bytes \<Rightarrow> nat \<Rightarrow> 'h \<times> bytes result"
  hs_is_finished :: "'h \<Rightarrow> bool"
  hs_remote_static :: "'h \<Rightarrow> bytes option"
  hs_into_transport :: "'h \<Rightarrow> 't result"
  tr_write_message :: "'t \<Rightarrow> bytes \<Rightarrow> nat \<Rightarrow> 't \<times> bytes result"
  tr_read_message :: "'t \<Rightarrow> bytes \<Rightarrow> nat \<Rightarrow> 't \<times> bytes result"

section \<open>Handshake and transport wrappers\<close>

record noise_key_pair =
  nk_private_key :: bytes
  nk_public_key :: bytes

definition noise_initiator :: "('h, 't) snow \<Rightarrow> noise_key_pair \<Rightarrow> 'h result" where
  "noise_initiator sn key = build_initiator sn (nk_private_key key)"

definition noise_responder :: "('h, 't) snow \<Rightarrow> noise_key_pair \<Rightarrow> 'h result" where
  "noise_responder sn key = build_responder sn (nk_private_key key)"

definition noise_write :: "('h, 't) snow \<Rightarrow> 'h \<Rightarrow> bytes \<Rightarrow> 'h \<times> bytes result" where
  "noise_write sn h pl = hs_write_message sn h pl 65536"

definition noise_read :: "('h, 't) snow \<Rightarrow> 'h \<Rightarrow> bytes \<Rightarrow> 'h \<times> bytes result" where
  "noise_read sn h input = hs_read_message sn h input 65536"

definition transport_encrypt :: "('h, 't) snow \<Rightarrow> 't \<Rightarrow> bytes \<Rightarrow> 't \<times> bytes result" where
  "transport_encrypt sn t plaintext = tr_write_message sn t plaintext (length plaintext + 16)"

definition transport_decrypt :: "('h, 't) snow \<Rightarrow> 't \<Rightarrow> bytes \<Rightarrow> 't \<times> bytes result" where
  "transport_decrypt sn t ciphertext = tr_read_message sn t ciphertext (length ciphertext)"

section \<open>Sessions\<close>

datatype session_state = Handshaking | Established | Rekeying | Failed

fun session_state_debug :: "session_state \<Rightarrow> string" where
  "session_state_debug Handshaking = ''Handshaking''"
| "session_state_debug Established = ''Established''"
| "session_state_debug Rekeying = ''Rekeying''"
| "session_state_debug Failed = ''Failed''"

record ('h, 't) noise_session =
  s_peer_id :: peer_id
  s_peer_fingerprint :: "fingerprint option"
  s_state :: session_state
  s_handshake :: "'h option"
  s_transport :: "'t option"
  s_created_at :: timestamp
  s_last_activity :: timestamp
  s_message_count :: u64
  s_rekey_threshold :: u64
  s_rekey_interval_secs :: u64
  s_last_rekey :: timestamp

definition session_with_handshake :: "peer_id \<Rightarrow> timestamp \<Rightarrow> 'h \<Rightarrow> ('h, 't) noise_session" where
  "session_with_handshake pid now h =
     \<lparr>s_peer_id = pid, s_peer_fingerprint = None, s_state = Handshaking, s_handshake = Some h,
      s_transport = None, s_created_at = now, s_last_activity = now, s_message_count = 0,
      s_rekey_threshold = 1000000000, s_rekey_interval_secs = 86400, s_last_rekey = now\<rparr>"

definition new_outbound ::
    "('h, 't) snow \<Rightarrow> timestamp \<Rightarrow> peer_id \<Rightarrow> noise_key_pair \<Rightarrow> ('h, 't) noise_session result" where
  "new_outbound sn now pid key =
     rbind (noise_initiator sn key) (\<lambda>h. Inr (session_with_handshake pid now h))"

definition new_inbound ::
    "('h, 't) snow \<Rightarrow> timestamp \<Rightarrow> peer_id \<Rightarrow> noise_key_pair \<Rightarrow> ('h, 't) noise_session result" where
  "new_inbound sn now pid key =
     rbind (noise_responder sn key) (\<lambda>h. Inr (session_with_handshake pid now h))"

definition invalid_state :: "('h, 't) noise_session \<Rightarrow> string \<Rightarrow> string \<Rightarrow> fault" where
  "invalid_state s expected actual = Err (Session (InvalidState (s_peer_id s) expected actual))"

definition is_established :: "('h, 't) noise_session \<Rightarrow> bool" where
  "is_established s = (s_state s = Established)"

text \<open>The end of both handshake operations: a finished handshake is turned into a transport, and the
  activity is recorded. \<open>h\<close> is the handshake after the message.\<close>

definition finish_handshake ::
    "(bytes \<Rightarrow> bytes) \<Rightarrow> ('h, 't) snow \<Rightarrow> timestamp \<Rightarrow> ('h, 't) noise_session \<Rightarrow> 'h
     \<Rightarrow> ('h, 't) noise_session \<times> unit result" where
  "finish_handshake sha256 sn now s h =
     (if hs_is_finished sn h then
        let s1 = (case hs_remote_static sn h of
                    Some key \<Rightarrow> s\<lparr>s_peer_fingerprint := Some (generate_fingerprint sha256 key)\<rparr>
                  | None \<Rightarrow> s);
            s2 = s1\<lparr>s_handshake := None\<rparr>
        in (case hs_into_transport sn h of
              Inl e \<Rightarrow> (s2, Inl e)
            | Inr t \<Rightarrow> (s2\<lparr>s_transport := Some t, s_state := Established, s_last_activity := now\<rparr>, Inr ()))
      else (s\<lparr>s_last_activity := now\<rparr>, Inr ()))"

definition process_handshake_message ::
    "(bytes \<Rightarrow> bytes) \<Rightarrow> ('h, 't) snow \<Rightarrow> timestamp \<Rightarrow> ('h, 't) noise_session \<Rightarrow> bytes
     \<Rightarrow> ('h, 't) noise_session \<times> bytes option result" where
  "process_handshake_message sha256 sn now s input =
     (if s_state s \<noteq> Handshaking then (s, Inl (invalid_packet ''Not in handshaking state''))
      else (case s_handshake s of
        None \<Rightarrow> (s, Inl (invalid_state s ''Handshaking'' ''No handshake state''))
      | Some h0 \<Rightarrow>
          (case noise_read sn h0 input of (h, res) \<Rightarrow>
             let s' = s\<lparr>s_handshake := Some h\<rparr>
             in (case res of
                   Inl e \<Rightarrow> (s', Inl e)
                 | Inr output \<Rightarrow>
                     (case finish_handshake sha256 sn now s' h of
                        (s'', Inl e) \<Rightarrow> (s'', Inl e)
                      | (s'', Inr _) \<Rightarrow> (s'', Inr (if output = [] then None else Some output)))))))"

definition create_handshake_message ::
    "(bytes \<Rightarrow> bytes) \<Rightarrow> ('h, 't) snow \<Rightarrow> timestamp \<Rightarrow> ('h, 't) noise_session \<Rightarrow> bytes
     \<Rightarrow> ('h, 't) noise_session \<times> bytes result" where
  "create_handshake_message sha256 sn now s pl =
     (if s_state s \<noteq> Handshaking then (s, Inl (invalid_packet ''Not in handshaking state''))
      else (case s_handshake s of
        None \<Rightarrow> (s, Inl (invalid_state s ''Handshaking'' ''No handshake state''))
      | Some h0 \<Rightarrow>
          (case noise_write sn h0 pl of (h, res) \<Rightarrow>
             let s' = s\<lparr>s_handshake := Some h\<rparr>
             in (case res of
                   Inl e \<Rightarrow> (s', Inl e)
                 | Inr output \<Rightarrow>
                     (case finish_handshake sha256 sn now s' h of
                        (s'', Inl e) \<Rightarrow> (s'', Inl e)
                      | (s'', Inr _) \<Rightarrow> (s'', Inr output))))))"

text \<open>Encryption and decryption: the message is counted and the activity recorded whether or not the
  transport reports an error.\<close>

definition session_encrypt ::
    "('h, 't) snow \<Rightarrow> timestamp \<Rightarrow> ('h, 't) noise_session \<Rightarrow> bytes
     \<Rightarrow> ('h, 't) noise_session \<times> bytes result" where
  "session_encrypt sn now s plaintext =
     (if s_state s \<noteq> Established then (s, Inl (invalid_packet ''Session not established''))
      else (case s_transport s of
        None \<Rightarrow> (s, Inl (invalid_state s ''Established'' ''No transport state''))
      | Some t \<Rightarrow>
          (case transport_encrypt sn t plaintext of (t', res) \<Rightarrow>
             (s\<lparr>s_transport := Some t', s_message_count := s_message_count s + 1,
                s_last_activity := now\<rparr>, res))))"

definition session_decrypt ::
    "('h, 't) snow \<Rightarrow> timestamp \<Rightarrow> ('h, 't) noise_session \<Rightarrow> bytes
     \<Rightarrow> ('h, 't) noise_session \<times> bytes result" where
  "session_decrypt sn now s ciphertext =
     (if s_state s \<noteq> Established then (s, Inl (invalid_packet ''Session not established''))
      else (case s_transport s of
        None \<Rightarrow> (s, Inl (invalid_state s ''Established'' ''No transport state''))
      | Some t \<Rightarrow>
          (case transport_decrypt sn t ciphertext of (t', res) \<Rightarrow>
             (s\<lparr>s_transport := Some t', s_message_count := s_message_count s + 1,
                s_last_activity := now\<rparr>, res))))"

definition needs_rekey :: "timestamp \<Rightarrow> ('h, 't) noise_session \<Rightarrow> bool" where
  "needs_rekey now s =
     (if s_state s \<noteq> Established then False
      else
        let rekey_message_threshold = (s_rekey_threshold s * 90) div 100
        in if rekey_message_threshold \<le> s_message_count s then True
           else
             let time_since_activity = sat_sub now (s_last_activity s);
                 session_timeout_ms = s_rekey_interval_secs s * 1000
             in session_timeout_ms \<le> time_since_activity)"

text \<open>\<open>now0\<close> is read for \<^verbatim>\<open>last_rekey\<close>, \<open>now1\<close> for the activity.\<close>

definition start_rekey ::
    "('h, 't) snow \<Rightarrow> timestamp \<Rightarrow> timestamp \<Rightarrow> ('h, 't) noise_session \<Rightarrow> noise_key_pair
     \<Rightarrow> ('h, 't) noise_session \<times> unit result" where
  "start_rekey sn now0 now1 s key =
     (if s_state s \<noteq> Established
      then (s, Inl (invalid_state s ''Established'' (session_state_debug (s_state s))))
      else
        let s1 = s\<lparr>s_state := Rekeying\<rparr>
        in (case noise_initiator sn key of
              Inl e \<Rightarrow> (s1, Inl e)
            | Inr h \<Rightarrow>
                (s1\<lparr>s_handshake := Some h, s_transport := None, s_message_count := 0,
                    s_last_rekey := now0, s_last_activity := now1\<rparr>, Inr ())))"

definition complete_rekey ::
    "('h, 't) snow \<Rightarrow> timestamp \<Rightarrow> ('h, 't) noise_session \<Rightarrow> ('h, 't) noise_session \<times> unit result" where
  "complete_rekey sn now s =
     (if s_state s \<noteq> Rekeying
      then (s, Inl (invalid_state s ''Rekeying'' (session_state_debug (s_state s))))
      else (case s_handshake s of
        None \<Rightarrow> (s, Inl (invalid_state s ''Rekeying with handshake'' ''No handshake state''))
      | Some h \<Rightarrow>
          if \<not> hs_is_finished sn h
          then (s, Inl (invalid_state s ''Completed handshake'' ''Handshake not finished''))
          else (case hs_into_transport sn h of
                  Inl e \<Rightarrow> (s\<lparr>s_handshake := None\<rparr>, Inl e)
                | Inr t \<Rightarrow>
                    (s\<lparr>s_handshake := None, s_transport := Some t, s_state := Established,
                       s_last_activity := now\<rparr>, Inr ()))))"

definition set_rekey_threshold :: "u64 \<Rightarrow> ('h, 't) noise_session \<Rightarrow> ('h, 't) noise_session" where
  "set_rekey_threshold n s = s\<lparr>s_rekey_threshold := n\<rparr>"

definition set_rekey_interval_secs :: "u64 \<Rightarrow> ('h, 't) noise_session \<Rightarrow> ('h, 't) noise_session" where
  "set_rekey_interval_secs n s = s\<lparr>s_rekey_interval_secs := n\<rparr>"

definition mark_failed :: "('h, 't) noise_session \<Rightarrow> ('h, 't) noise_session" where
  "mark_failed s = s\<lparr>s_state := Failed, s_handshake := None, s_transport := None\<rparr>"

definition time_since_activity :: "timestamp \<Rightarrow> ('h, 't) noise_session \<Rightarrow> duration" where
  "time_since_activity now s = unat (sat_sub now (s_last_activity s))"

section \<open>The session manager\<close>

record session_timeouts =
  handshake_timeout :: duration
  idle_timeout :: duration

definition default_session_timeouts :: session_timeouts where
  "default_session_timeouts = \<lparr>handshake_timeout = from_secs 30, idle_timeout = from_secs 300\<rparr>"

record ('h, 't) session_manager =
  sm_local_key :: noise_key_pair
  sm_sessions :: "(peer_id \<times> ('h, 't) noise_session) list"
  sm_timeouts :: session_timeouts

definition session_manager_new :: "noise_key_pair \<Rightarrow> session_timeouts \<Rightarrow> ('h, 't) session_manager" where
  "session_manager_new key tmo = \<lparr>sm_local_key = key, sm_sessions = [], sm_timeouts = tmo\<rparr>"

text \<open>The reference the code returns is the entry for the peer in the new state.\<close>

definition get_or_create_outbound ::
    "('h, 't) snow \<Rightarrow> timestamp \<Rightarrow> ('h, 't) session_manager \<Rightarrow> peer_id
     \<Rightarrow> ('h, 't) session_manager \<times> ('h, 't) noise_session result" where
  "get_or_create_outbound sn now mgr pid =
     (case map_of (sm_sessions mgr) pid of
        Some s \<Rightarrow> (mgr, Inr s)
      | None \<Rightarrow>
          (case new_outbound sn now pid (sm_local_key mgr) of
             Inl e \<Rightarrow> (mgr, Inl e)
           | Inr s \<Rightarrow> (mgr\<lparr>sm_sessions := map_put pid s (sm_sessions mgr)\<rparr>, Inr s)))"

definition create_inbound ::
    "('h, 't) snow \<Rightarrow> timestamp \<Rightarrow> ('h, 't) session_manager \<Rightarrow> peer_id
     \<Rightarrow> ('h, 't) session_manager \<times> ('h, 't) noise_session result" where
  "create_inbound sn now mgr pid =
     (case new_inbound sn now pid (sm_local_key mgr) of
        Inl e \<Rightarrow> (mgr, Inl e)
      | Inr s \<Rightarrow> (mgr\<lparr>sm_sessions := map_put pid s (sm_sessions mgr)\<rparr>, Inr s))"

definition get_session :: "('h, 't) session_manager \<Rightarrow> peer_id \<Rightarrow> ('h, 't) noise_session option" where
  "get_session mgr pid = map_of (sm_sessions mgr) pid"

definition remove_session ::
    "('h, 't) session_manager \<Rightarrow> peer_id \<Rightarrow> ('h, 't) session_manager \<times> ('h, 't) noise_session option" where
  "remove_session mgr pid =
     (mgr\<lparr>sm_sessions := map_del pid (sm_sessions mgr)\<rparr>, map_of (sm_sessions mgr) pid)"

fun count_states :: "('h, 't) noise_session list \<Rightarrow> nat \<times> nat \<times> nat" where
  "count_states [] = (0, 0, 0)"
| "count_states (s # ss) =
     (case count_states ss of (handshaking, established, failed) \<Rightarrow>
        (case s_state s of
           Handshaking \<Rightarrow> (Suc handshaking, established, failed)
         | Established \<Rightarrow> (handshaking, Suc established, failed)
         | Rekeying \<Rightarrow> (Suc handshaking, established, failed)
         | Failed \<Rightarrow> (handshaking, established, Suc failed)))"

definition session_counts :: "('h, 't) session_manager \<Rightarrow> nat \<times> nat \<times> nat" where
  "session_counts mgr = count_states (map snd (sm_sessions mgr))"

definition session_timeout :: "session_timeouts \<Rightarrow> session_state \<Rightarrow> duration" where
  "session_timeout tmo st =
     (case st of
        Handshaking \<Rightarrow> handshake_timeout tmo
      | Established \<Rightarrow> idle_timeout tmo
      | Rekeying \<Rightarrow> idle_timeout tmo
      | Failed \<Rightarrow> from_secs 1)"

text \<open>The clock is read for every session: \<open>now pid\<close> is the reading for the session of \<open>pid\<close>.\<close>

definition session_expired ::
    "(peer_id \<Rightarrow> timestamp) \<Rightarrow> session_timeouts \<Rightarrow> peer_id \<times> ('h, 't) noise_session \<Rightarrow> bool" where
  "session_expired now tmo p =
     (session_timeout tmo (s_state (snd p)) < time_since_activity (now (fst p)) (snd p))"

definition sessions_cleanup_expired ::
    "(peer_id \<Rightarrow> timestamp) \<Rightarrow> ('h, 't) session_manager \<Rightarrow> ('h, 't) session_manager" where
  "sessions_cleanup_expired now mgr =
     mgr\<lparr>sm_sessions :=
       fold map_del (map fst (filter (session_expired now (sm_timeouts mgr)) (sm_sessions mgr)))
         (sm_sessions mgr)\<rparr>"

section \<open>The session state machine\<close>

definition session_start :: "('h, 't) snow \<Rightarrow> ('h, 't) noise_session \<Rightarrow> bool" where
  "session_start sn s \<longleftrightarrow>
     (\<exists>now pid key. new_outbound sn now pid key = Inr s \<or> new_inbound sn now pid key = Inr s)"

inductive session_step ::
    "(bytes \<Rightarrow> bytes) \<Rightarrow> ('h, 't) snow \<Rightarrow> ('h, 't) noise_session \<Rightarrow> ('h, 't) noise_session \<Rightarrow> bool"
  for sha256 :: "bytes \<Rightarrow> bytes" and sn :: "('h, 't) snow" where
  step_process: "session_step sha256 sn s (fst (process_handshake_message sha256 sn now s input))"
| step_create: "session_step sha256 sn s (fst (create_handshake_message sha256 sn now s pl))"
| step_encrypt: "session_step sha256 sn s (fst (session_encrypt sn now s m))"
| step_decrypt: "session_step sha256 sn s (fst (session_decrypt sn now s c))"
| step_start_rekey: "session_step sha256 sn s (fst (start_rekey sn now0 now1 s key))"
| step_complete_rekey: "session_step sha256 sn s (fst (complete_rekey sn now s))"
| step_threshold: "session_step sha256 sn s (set_rekey_threshold n s)"
| step_interval: "session_step sha256 sn s (set_rekey_interval_secs n s)"
| step_fail: "session_step sha256 sn s (mark_failed s)"

definition session_inv :: "('h, 't) noise_session \<Rightarrow> bool" where
  "session_inv s \<longleftrightarrow>
     (s_state s = Established \<longrightarrow> s_transport s \<noteq> None \<and> s_handshake s = None) \<and>
     (s_state s = Handshaking \<longrightarrow> s_transport s = None) \<and>
     (s_state s = Failed \<longrightarrow> s_transport s = None \<and> s_handshake s = None)"

text \<open>A session that is being rekeyed, with a handshake that has not finished, or that has failed.\<close>

definition rekey_stuck :: "('h, 't) snow \<Rightarrow> ('h, 't) noise_session \<Rightarrow> bool" where
  "rekey_stuck sn s \<longleftrightarrow>
     s_state s \<in> {Rekeying, Failed} \<and> (\<forall>h. s_handshake s = Some h \<longrightarrow> \<not> hs_is_finished sn h)"

lemmas session_ops = process_handshake_message_def create_handshake_message_def finish_handshake_def
  session_encrypt_def session_decrypt_def start_rekey_def complete_rekey_def set_rekey_threshold_def
  set_rekey_interval_secs_def mark_failed_def

lemma finish_handshake_inv:
  "s_state s = Handshaking \<Longrightarrow> s_transport s = None \<Longrightarrow>
   session_inv (fst (finish_handshake sha256 sn now s h))"
  by (auto simp: finish_handshake_def session_inv_def Let_def split: option.split sum.split)

lemma handshake_step_inv:
  assumes "session_inv s"
  shows "session_inv (fst (process_handshake_message sha256 sn now s input))"
    and "session_inv (fst (create_handshake_message sha256 sn now s pl))"
proof -
  have fin: "session_inv (fst (finish_handshake sha256 sn now (s\<lparr>s_handshake := Some h\<rparr>) h))"
    if "s_state s = Handshaking" for h
    using assms that by (intro finish_handshake_inv) (simp_all add: session_inv_def)
  have same: "session_inv (s\<lparr>s_handshake := Some h\<rparr>)" if "s_state s = Handshaking" for h
    using assms that by (simp add: session_inv_def)
  show "session_inv (fst (process_handshake_message sha256 sn now s input))"
    using assms fin same
    by (auto simp: process_handshake_message_def Let_def split: option.split sum.split prod.split)
      (metis fst_conv)+
  show "session_inv (fst (create_handshake_message sha256 sn now s pl))"
    using assms fin same
    by (auto simp: create_handshake_message_def Let_def split: option.split sum.split prod.split)
      (metis fst_conv)+
qed

lemma other_steps_inv:
  assumes "session_inv s"
  shows "session_inv (fst (session_encrypt sn now s m))" "session_inv (fst (session_decrypt sn now s c))"
    "session_inv (fst (start_rekey sn now0 now1 s key))" "session_inv (fst (complete_rekey sn now s))"
    "session_inv (set_rekey_threshold n s)" "session_inv (set_rekey_interval_secs n s)"
    "session_inv (mark_failed s)"
  using assms
  by (auto simp: session_inv_def session_ops Let_def split: option.split sum.split prod.split)

interpretation session: invariant_system "session_start sn" "session_step sha256 sn" session_inv
  for sha256 sn
proof
  show "session_inv s" if "session_start sn s" for s
    using that by (auto simp: session_start_def new_outbound_def new_inbound_def rbind_eq_Inr
        session_with_handshake_def session_inv_def)
  show "session_inv t" if "session_inv s" "session_step sha256 sn s t" for s t
    using that(2,1) by cases (auto intro: handshake_step_inv other_steps_inv)
qed

interpretation rekey: invariant_system "rekey_stuck sn" "session_step sha256 sn" "rekey_stuck sn"
  for sha256 sn
proof
  show "rekey_stuck sn t" if "rekey_stuck sn s" "session_step sha256 sn s t" for s t
    using that(2,1)
    by cases (auto simp: rekey_stuck_def session_ops split: option.split)
qed

section \<open>Messages over a pair of sessions\<close>

text \<open>A transport \<open>a\<close> linked to a transport \<open>b\<close>: what \<open>a\<close> encrypts next, \<open>b\<close> decrypts next. This is what
  the code relies on after a completed handshake.\<close>

definition noise_channel :: "('h, 't) snow \<Rightarrow> ('t \<Rightarrow> 't \<Rightarrow> bool) \<Rightarrow> bool" where
  "noise_channel sn linked \<longleftrightarrow>
     (\<forall>a b m a' c. linked a b \<and> tr_write_message sn a m (length m + 16) = (a', Inr c) \<longrightarrow>
        (\<exists>b'. tr_read_message sn b c (length c) = (b', Inr m) \<and> linked a' b'))"

fun send_all ::
    "('h, 't) snow \<Rightarrow> timestamp \<Rightarrow> ('h, 't) noise_session \<Rightarrow> bytes list
     \<Rightarrow> ('h, 't) noise_session \<times> bytes result list" where
  "send_all sn now s [] = (s, [])"
| "send_all sn now s (m # ms) =
     (case session_encrypt sn now s m of (s', r) \<Rightarrow>
        (case send_all sn now s' ms of (s'', rs) \<Rightarrow> (s'', r # rs)))"

fun receive_all ::
    "('h, 't) snow \<Rightarrow> timestamp \<Rightarrow> ('h, 't) noise_session \<Rightarrow> bytes list
     \<Rightarrow> ('h, 't) noise_session \<times> bytes result list" where
  "receive_all sn now s [] = (s, [])"
| "receive_all sn now s (c # cs) =
     (case session_decrypt sn now s c of (s', r) \<Rightarrow>
        (case receive_all sn now s' cs of (s'', rs) \<Rightarrow> (s'', r # rs)))"

definition sessions_linked ::
    "('t \<Rightarrow> 't \<Rightarrow> bool) \<Rightarrow> ('h, 't) noise_session \<Rightarrow> ('h, 't) noise_session \<Rightarrow> bool" where
  "sessions_linked linked s r \<longleftrightarrow>
     s_state s = Established \<and> s_state r = Established \<and>
     (\<exists>a b. s_transport s = Some a \<and> s_transport r = Some b \<and> linked a b)"

lemma channel_step:
  assumes "noise_channel sn linked" and "sessions_linked linked s r"
    and "session_encrypt sn now s m = (s', Inr c)"
  shows "\<exists>r'. session_decrypt sn now' r c = (r', Inr m) \<and> sessions_linked linked s' r'"
proof -
  from assms(2) obtain a b where s: "s_state s = Established" "s_transport s = Some a"
    and r: "s_state r = Established" "s_transport r = Some b" and ab: "linked a b"
    by (auto simp: sessions_linked_def)
  from assms(3) s obtain a' where w: "tr_write_message sn a m (length m + 16) = (a', Inr c)"
    and s': "s_state s' = Established" "s_transport s' = Some a'"
    by (auto simp: session_encrypt_def transport_encrypt_def split: prod.splits)
  from assms(1) ab w obtain b' where "tr_read_message sn b c (length c) = (b', Inr m)" "linked a' b'"
    unfolding noise_channel_def by blast
  with r s' show ?thesis
    by (auto simp: session_decrypt_def transport_decrypt_def sessions_linked_def)
qed

lemma channel_all:
  assumes "noise_channel sn linked"
  shows "sessions_linked linked s r \<Longrightarrow> send_all sn now s ms = (s', map Inr cs) \<Longrightarrow>
    \<exists>r'. receive_all sn now' r cs = (r', map Inr ms) \<and> sessions_linked linked s' r'"
proof (induction ms arbitrary: s r cs)
  case (Cons m ms)
  obtain s1 res where enc: "session_encrypt sn now s m = (s1, res)" by force
  with Cons.prems(2) obtain c cs' where cs: "cs = c # cs'" "res = Inr c"
    and rest: "send_all sn now s1 ms = (s', map Inr cs')"
    by (cases cs) (auto split: prod.splits)
  obtain r1 where dec: "session_decrypt sn now' r c = (r1, Inr m)" and link: "sessions_linked linked s1 r1"
    using channel_step [OF assms Cons.prems(1)] enc cs(2) by blast
  from Cons.IH [OF link rest] dec show ?case by (auto simp: cs(1))
qed simp

lemma stuck_not_established:
  assumes "rekey_stuck sn s"
  shows "\<not> is_established s" and "snd (complete_rekey sn now s) \<noteq> Inr ()"
    and "snd (session_encrypt sn now s m) = Inl (invalid_packet ''Session not established'')"
  using assms
  by (auto simp: rekey_stuck_def is_established_def complete_rekey_def session_encrypt_def
      split: option.splits)

lemma start_rekey_stuck:
  assumes "\<forall>k h. build_initiator sn k = Inr h \<longrightarrow> \<not> hs_is_finished sn h" and "session_inv s"
    and "s_state s = Established"
  shows "rekey_stuck sn (fst (start_rekey sn now0 now1 s key))"
  using assms
  by (auto simp: start_rekey_def rekey_stuck_def session_inv_def noise_initiator_def Let_def
      split: sum.split)

section \<open>Lemmas on the manager\<close>

lemma map_of_cleanup:
  assumes "distinct (keys_of (sm_sessions mgr))"
  shows "map_of (sm_sessions (sessions_cleanup_expired now mgr)) pid =
    (case map_of (sm_sessions mgr) pid of
       None \<Rightarrow> None
     | Some s \<Rightarrow> if session_expired now (sm_timeouts mgr) (pid, s) then None else Some s)"
proof -
  let ?exp = "map fst (filter (session_expired now (sm_timeouts mgr)) (sm_sessions mgr))"
  have "pid \<in> set ?exp \<longleftrightarrow>
      (\<exists>s. map_of (sm_sessions mgr) pid = Some s \<and> session_expired now (sm_timeouts mgr) (pid, s))"
    using assms by (force simp: map_of_eq_Some_iff)
  then show ?thesis by (auto simp: sessions_cleanup_expired_def map_of_fold_del split: option.split)
qed

section \<open>Properties\<close>

text \<open>C10: Messages encrypted by one end of an established session pair and delivered in order are
  decrypted by the other end to exactly the messages sent, and the pair stays linked.\<close>

theorem session_channel_correct:
  assumes "noise_channel sn linked" and "sessions_linked linked s r"
    and "send_all sn now s ms = (s', map Inr cs)"
  shows "snd (receive_all sn now' r cs) = map Inr ms \<and>
    sessions_linked linked s' (fst (receive_all sn now' r cs))"
  using channel_all [OF assms, of now'] by auto

text \<open>A stand-in for the transport: the state counts the messages and the ciphertext is the plaintext
  behind the low byte of the counter.\<close>

definition toy_snow :: "(nat, nat) snow" where
  "toy_snow =
     \<lparr>build_initiator = (\<lambda>_. Inr 0), build_responder = (\<lambda>_. Inr 0),
      hs_write_message = (\<lambda>h m n. (Suc h, Inr m)), hs_read_message = (\<lambda>h m n. (Suc h, Inr m)),
      hs_is_finished = (\<lambda>h. 3 \<le> h), hs_remote_static = (\<lambda>h. None), hs_into_transport = (\<lambda>h. Inr 0),
      tr_write_message = (\<lambda>t m n. (Suc t, Inr (word_of_nat t # m))),
      tr_read_message = (\<lambda>t c n. case c of [] \<Rightarrow> (t, Inl serialization_error)
         | b # m \<Rightarrow> if b = word_of_nat t then (Suc t, Inr m) else (t, Inl serialization_error))\<rparr>"

lemma toy_snow_channel: "noise_channel toy_snow (=)"
  by (auto simp: noise_channel_def toy_snow_def)

definition example_session :: "peer_id \<Rightarrow> (nat, nat) noise_session" where
  "example_session pid =
     (session_with_handshake pid 0 0)\<lparr>s_state := Established, s_handshake := None, s_transport := Some 0\<rparr>"

lemma example_sessions_linked: "sessions_linked (=) (example_session p) (example_session q)"
  by (simp add: sessions_linked_def example_session_def session_with_handshake_def)

lemma example_send:
  "\<exists>s'. send_all toy_snow 5 (example_session [1]) [[72], [105, 33]] = (s', map Inr [[0, 72], [1, 105, 33]])"
  by (simp add: example_session_def session_with_handshake_def session_encrypt_def transport_encrypt_def
      toy_snow_def)

theorem session_channel_correct_witness:
  "snd (receive_all toy_snow 7 (example_session [2]) [[0, 72], [1, 105, 33]]) = map Inr [[72], [105, 33]]"
proof -
  obtain s' where "send_all toy_snow 5 (example_session [1]) [[72], [105, 33]] =
      (s', map Inr [[0, 72], [1, 105, 33]])"
    using example_send by blast
  from session_channel_correct [OF toy_snow_channel example_sessions_linked this, of 7 "[2]"]
  show ?thesis by simp
qed

text \<open>C11: In every session that can arise, an established session has a transport and no handshake: a
  message is handed to the transport exactly in the established state, and in every other state
  encryption is refused. The error ``No transport state'' does not occur.\<close>

theorem encrypt_only_when_established:
  assumes "reachable (session_start sn) (session_step sha256 sn) s"
  shows "if is_established s
    then \<exists>t. s_transport s = Some t \<and> s_handshake s = None \<and>
      snd (session_encrypt sn now s m) = snd (transport_encrypt sn t m)
    else snd (session_encrypt sn now s m) = Inl (invalid_packet ''Session not established'')"
  using session.invar_reachable [OF assms]
  by (auto simp: session_inv_def is_established_def session_encrypt_def split: prod.split)

lemma example_outbound:
  "session_start toy_snow (session_with_handshake [1] 0 0)"
  by (auto simp: session_start_def new_outbound_def noise_initiator_def toy_snow_def)

lemma example_outbound_reachable:
  "reachable (session_start toy_snow) (session_step toy_sha256 toy_snow) (session_with_handshake [1] 0 0)"
  by (rule reach_start) (rule example_outbound)

theorem encrypt_only_when_established_witness:
  "snd (session_encrypt toy_snow 5 (session_with_handshake [1] 0 0) [72]) =
     Inl (invalid_packet ''Session not established'')"
  using encrypt_only_when_established [OF example_outbound_reachable, of 5 "[72]"]
  by (simp add: is_established_def session_with_handshake_def)

text \<open>A rekey never completes. \<^verbatim>\<open>start_rekey\<close> puts the session into the state \<^verbatim>\<open>Rekeying\<close>, but the
  operations that advance a handshake require \<^verbatim>\<open>Handshaking\<close>: as long as a fresh handshake is not
  already finished, no sequence of operations makes the session established again, \<^verbatim>\<open>complete_rekey\<close>
  always fails and encryption is refused for good.\<close>

theorem rekey_never_completes:
  assumes "\<forall>k h. build_initiator sn k = Inr h \<longrightarrow> \<not> hs_is_finished sn h"
    and "session_inv s" and "s_state s = Established"
    and "(session_step sha256 sn)\<^sup>*\<^sup>* (fst (start_rekey sn now0 now1 s key)) s'"
  shows "\<not> is_established s' \<and> snd (complete_rekey sn now s') \<noteq> Inr () \<and>
    snd (session_encrypt sn now s' m) = Inl (invalid_packet ''Session not established'')"
  using stuck_not_established [OF rekey.invar_steps [OF assms(4) start_rekey_stuck [OF assms(1-3)]]]
  by simp

definition example_rekeyed :: "(nat, nat) noise_session" where
  "example_rekeyed = fst (create_handshake_message toy_sha256 toy_snow 9
     (fst (start_rekey toy_snow 8 8 (example_session [1])
        \<lparr>nk_private_key = [], nk_public_key = []\<rparr>)) [])"

theorem rekey_never_completes_witness:
  "\<not> is_established example_rekeyed \<and> snd (complete_rekey toy_snow 10 example_rekeyed) \<noteq> Inr () \<and>
   snd (session_encrypt toy_snow 10 example_rekeyed [72]) =
     Inl (invalid_packet ''Session not established'')"
  by (rule rekey_never_completes [of _ "example_session [1]" toy_sha256])
    (auto simp: toy_snow_def example_session_def session_with_handshake_def session_inv_def
      example_rekeyed_def intro: session_step.intros)

text \<open>The time-based rekey cannot happen under the default settings. The rekey interval of 24 hours
  is measured from the last activity and not from the last rekey, and the session manager removes
  sessions that have been idle for more than 5 minutes: no session that survives the clean-up and has
  sent fewer than 900 million messages needs a rekey at that moment.\<close>

theorem time_rekey_unreachable:
  assumes "distinct (keys_of (sm_sessions mgr))" and "sm_timeouts mgr = default_session_timeouts"
    and "get_session (sessions_cleanup_expired now mgr) pid = Some s"
    and "s_rekey_threshold s = 1000000000" and "s_rekey_interval_secs s = 86400"
    and "s_message_count s < 900000000"
  shows "\<not> needs_rekey (now pid) s"
proof
  assume need: "needs_rekey (now pid) s"
  from assms(3) have alive: "\<not> session_expired now default_session_timeouts (pid, s)"
    using map_of_cleanup [OF assms(1)] assms(2) by (auto simp: get_session_def split: option.splits if_splits)
  have est: "s_state s = Established" using need by (simp add: needs_rekey_def split: if_splits)
  have "(1000000000 * 90 :: u64) div 100 = 900000000" by simp
  with need est assms(4-6) have "86400000 \<le> sat_sub (now pid) (s_last_activity s)"
    by (auto simp: needs_rekey_def Let_def not_le split: if_splits)
  then have "86400000 \<le> time_since_activity (now pid) s"
    by (simp add: time_since_activity_def word_le_nat_alt)
  with alive est show False
    by (simp add: session_expired_def session_timeout_def default_session_timeouts_def from_secs_def)
qed

definition example_manager :: "(nat, nat) session_manager" where
  "example_manager = \<lparr>sm_local_key = \<lparr>nk_private_key = [], nk_public_key = []\<rparr>,
     sm_sessions = [([1], example_session [1])], sm_timeouts = default_session_timeouts\<rparr>"

theorem time_rekey_unreachable_witness: "\<not> needs_rekey 60000 (example_session [1])"
  by (rule time_rekey_unreachable [of example_manager "\<lambda>_. 60000" "[1]"])
    (simp_all add: example_manager_def get_session_def map_of_cleanup session_expired_def
      session_timeout_def default_session_timeouts_def from_secs_def time_since_activity_def
      sat_sub_def example_session_def session_with_handshake_def sessions_cleanup_expired_def)

end
