(* ===== verification/Connection.thy ===== *)
theory Connection
  imports Core_Types
begin

text \<open>
  The connection state machine of a peer
  (\<^verbatim>\<open>src/crates/bitchat-core/src/protocol/connection_state.rs\<close>) and the manager that keeps one
  per peer (\<^verbatim>\<open>src/crates/bitchat-runtime/src/managers/connection.rs\<close>).

  A transition reads the clock several times: \<open>now i\<close> is its \<open>i\<close>-th reading, in the order of
  evaluation. Where the code stores the debug text of an event (in the audit trail and in the
  error) the model keeps the event. Of the effects of \<^verbatim>\<open>channel/communication.rs\<close> the state machine
  emits two.
\<close>

datatype transport_type = Ble | Nostr

record session_params =
  sp_protocol_version :: u32
  sp_encryption_key :: bytes
  sp_timeout_seconds :: u64

record disconnected_state =
  dc_peer_id :: peer_id
  dc_last_seen :: "timestamp option"
  dc_failed_attempts :: u32

record discovering_state =
  ds_peer_id :: peer_id
  ds_discovery_started :: timestamp
  ds_discovered_transports :: "transport_type list"
  ds_discovery_timeout :: "timestamp option"

record connecting_state =
  cg_peer_id :: peer_id
  cg_transport :: transport_type
  cg_connection_started :: timestamp
  cg_connection_timeout :: timestamp
  cg_session_params :: "session_params option"

record connected_state =
  cd_peer_id :: peer_id
  cd_transport :: transport_type
  cd_connected_since :: timestamp
  cd_session_id :: rust_string
  cd_last_activity :: timestamp
  cd_message_count :: u64

record failed_state =
  fd_peer_id :: peer_id
  fd_transport :: "transport_type option"
  fd_failed_at :: timestamp
  fd_error_reason :: string
  fd_retry_after :: "timestamp option"

datatype connection_state =
    Disconnected disconnected_state
  | Discovering discovering_state
  | Connecting connecting_state
  | Connected connected_state
  | ConnFailed failed_state

datatype connection_event =
    StartDiscovery "u64 option"
  | PeerDiscovered transport_type "8 word option"
  | InitiateConnection transport_type session_params
  | ConnectionEstablished rust_string
  | ConnectionFailedEvent string
  | ConnectionLost string
  | ActivityDetected
  | TimeoutEvent
  | Disconnect
  | Retry

datatype connection_effect =
    StartTransportDiscovery transport_type
  | EffectInitiateConnection peer_id transport_type

record audit_entry =
  ae_timestamp :: timestamp
  ae_peer_id :: peer_id
  ae_from_state :: string
  ae_to_state :: string
  ae_event :: connection_event
  ae_effects_count :: nat

record state_transition =
  st_new_state :: connection_state
  st_effects :: "connection_effect list"
  st_audit_entry :: audit_entry

datatype state_transition_error =
    InvalidTransition string connection_event
  | StateCorruption peer_id string

section \<open>The state machine\<close>

definition new_disconnected :: "peer_id \<Rightarrow> connection_state" where
  "new_disconnected pid =
     Disconnected \<lparr>dc_peer_id = pid, dc_last_seen = None, dc_failed_attempts = 0\<rparr>"

fun conn_peer_id :: "connection_state \<Rightarrow> peer_id" where
  "conn_peer_id (Disconnected s) = dc_peer_id s"
| "conn_peer_id (Discovering s) = ds_peer_id s"
| "conn_peer_id (Connecting s) = cg_peer_id s"
| "conn_peer_id (Connected s) = cd_peer_id s"
| "conn_peer_id (ConnFailed s) = fd_peer_id s"

fun state_name :: "connection_state \<Rightarrow> string" where
  "state_name (Disconnected s) = ''Disconnected''"
| "state_name (Discovering s) = ''Discovering''"
| "state_name (Connecting s) = ''Connecting''"
| "state_name (Connected s) = ''Connected''"
| "state_name (ConnFailed s) = ''Failed''"

definition failed_with ::
    "peer_id \<Rightarrow> transport_type option \<Rightarrow> timestamp \<Rightarrow> string \<Rightarrow> timestamp \<Rightarrow> connection_state" where
  "failed_with pid tr failed_at reason retry_after =
     ConnFailed \<lparr>fd_peer_id = pid, fd_transport = tr, fd_failed_at = failed_at,
       fd_error_reason = reason, fd_retry_after = Some retry_after\<rparr>"

text \<open>The match of \<^verbatim>\<open>transition\<close>: the new state, the effects and the number of clock readings made, or
  \<open>None\<close> for the arm of the invalid transitions. The arms are tried in the order of the source.\<close>

fun next_state ::
    "(nat \<Rightarrow> timestamp) \<Rightarrow> connection_state \<Rightarrow> connection_event
     \<Rightarrow> (connection_state \<times> connection_effect list \<times> nat) option" where
  "next_state now (Disconnected s) (StartDiscovery (Some secs)) =
     Some (Discovering \<lparr>ds_peer_id = dc_peer_id s, ds_discovery_started = now 1,
             ds_discovered_transports = [], ds_discovery_timeout = Some (timestamp_add (now 0) secs)\<rparr>,
           [StartTransportDiscovery Ble, StartTransportDiscovery Nostr], 2)"
| "next_state now (Disconnected s) (StartDiscovery None) =
     Some (Discovering \<lparr>ds_peer_id = dc_peer_id s, ds_discovery_started = now 0,
             ds_discovered_transports = [], ds_discovery_timeout = None\<rparr>,
           [StartTransportDiscovery Ble, StartTransportDiscovery Nostr], 1)"
| "next_state now (Discovering s) (PeerDiscovered tr signal_strength) =
     Some (Discovering (if tr \<in> set (ds_discovered_transports s) then s
             else s\<lparr>ds_discovered_transports := ds_discovered_transports s @ [tr]\<rparr>), [], 0)"
| "next_state now (Discovering s) (InitiateConnection tr params) =
     Some (Connecting \<lparr>cg_peer_id = ds_peer_id s, cg_transport = tr, cg_connection_started = now 1,
             cg_connection_timeout = timestamp_add (now 0) (sp_timeout_seconds params),
             cg_session_params = Some params\<rparr>,
           [EffectInitiateConnection (ds_peer_id s) tr], 2)"
| "next_state now (Discovering s) TimeoutEvent =
     Some (failed_with (ds_peer_id s) None (now 0) ''Discovery timeout'' (timestamp_add (now 1) 60), [], 2)"
| "next_state now (Connecting s) (ConnectionEstablished session_id) =
     Some (Connected \<lparr>cd_peer_id = cg_peer_id s, cd_transport = cg_transport s,
             cd_connected_since = now 0, cd_session_id = session_id, cd_last_activity = now 1,
             cd_message_count = 0\<rparr>, [], 2)"
| "next_state now (Connecting s) (ConnectionFailedEvent reason) =
     Some (failed_with (cg_peer_id s) (Some (cg_transport s)) (now 0) reason (timestamp_add (now 1) 30),
           [], 2)"
| "next_state now (Connecting s) TimeoutEvent =
     Some (failed_with (cg_peer_id s) None (now 0) ''Connection timeout'' (timestamp_add (now 1) 60), [], 2)"
| "next_state now (Connected s) ActivityDetected =
     Some (Connected (s\<lparr>cd_last_activity := now 0, cd_message_count := cd_message_count s + 1\<rparr>), [], 1)"
| "next_state now (Connected s) (ConnectionLost reason) =
     Some (failed_with (cd_peer_id s) (Some (cd_transport s)) (now 0) reason (timestamp_add (now 1) 10),
           [], 2)"
| "next_state now (ConnFailed s) Retry =
     Some (Disconnected \<lparr>dc_peer_id = fd_peer_id s, dc_last_seen = None, dc_failed_attempts = 0\<rparr>, [], 0)"
| "next_state now s Disconnect =
     Some (Disconnected \<lparr>dc_peer_id = conn_peer_id s, dc_last_seen = Some (now 0),
             dc_failed_attempts = 0\<rparr>, [], 1)"
| "next_state now s ev = None"

definition transition ::
    "(nat \<Rightarrow> timestamp) \<Rightarrow> connection_state \<Rightarrow> connection_event
     \<Rightarrow> state_transition_error + state_transition" where
  "transition now s ev =
     (case next_state now s ev of
        None \<Rightarrow> Inl (InvalidTransition (state_name s) ev)
      | Some (t, effects, readings) \<Rightarrow>
          Inr \<lparr>st_new_state = t, st_effects = effects,
               st_audit_entry = \<lparr>ae_timestamp = now readings, ae_peer_id = conn_peer_id s,
                 ae_from_state = state_name s, ae_to_state = state_name t, ae_event = ev,
                 ae_effects_count = length effects\<rparr>\<rparr>)"

fun can_send_messages :: "connection_state \<Rightarrow> bool" where
  "can_send_messages (Connected s) = True"
| "can_send_messages s = False"

fun has_timeout :: "connection_state \<Rightarrow> timestamp option" where
  "has_timeout (Discovering s) = ds_discovery_timeout s"
| "has_timeout (Connecting s) = Some (cg_connection_timeout s)"
| "has_timeout s = None"

fun quality_score :: "timestamp \<Rightarrow> connection_state \<Rightarrow> u8" where
  "quality_score now (Connected s) =
     (let age = timestamp_sub now (cd_last_activity s)
      in if age < 10 then 100 else if age < 60 then 80 else 60)"
| "quality_score now (Connecting s) = 30"
| "quality_score now (Discovering s) = 20"
| "quality_score now (ConnFailed s) = 0"
| "quality_score now (Disconnected s) = 0"

section \<open>The connection manager\<close>

record connection_stats =
  peers_initialized :: u64
  peers_removed :: u64
  state_transitions :: u64
  peers_cleaned_up :: u64

record connection_manager =
  cm_connections :: "(peer_id \<times> connection_state) list"
  cm_audit_trail :: "audit_entry list"
  cm_stats :: connection_stats

definition connection_manager_new :: connection_manager where
  "connection_manager_new =
     \<lparr>cm_connections = [], cm_audit_trail = [],
      cm_stats = \<lparr>peers_initialized = 0, peers_removed = 0, state_transitions = 0,
                  peers_cleaned_up = 0\<rparr>\<rparr>"

definition get_connection :: "connection_manager \<Rightarrow> peer_id \<Rightarrow> connection_state option" where
  "get_connection cm pid = map_of (cm_connections cm) pid"

fun uses_transport :: "transport_type \<Rightarrow> connection_state \<Rightarrow> bool" where
  "uses_transport tr (Connecting s) = (cg_transport s = tr)"
| "uses_transport tr (Connected s) = (cd_transport s = tr)"
| "uses_transport tr (ConnFailed s) = (fd_transport s = Some tr)"
| "uses_transport tr s = False"

definition get_connections_by_transport ::
    "connection_manager \<Rightarrow> transport_type \<Rightarrow> (peer_id \<times> connection_state) list" where
  "get_connections_by_transport cm tr = filter (\<lambda>(_, s). uses_transport tr s) (cm_connections cm)"

definition initialize_peer :: "connection_manager \<Rightarrow> peer_id \<Rightarrow> connection_manager" where
  "initialize_peer cm pid =
     (if has_key (cm_connections cm) pid then cm
      else cm\<lparr>cm_connections := map_put pid (new_disconnected pid) (cm_connections cm),
              cm_stats := (cm_stats cm)\<lparr>peers_initialized := peers_initialized (cm_stats cm) + 1\<rparr>\<rparr>)"

text \<open>\<open>None\<close> in the second component would be the panic of \<^verbatim>\<open>expect\<close>.\<close>

definition process_connection_event ::
    "(nat \<Rightarrow> timestamp) \<Rightarrow> connection_manager \<Rightarrow> peer_id \<Rightarrow> connection_event
     \<Rightarrow> connection_manager \<times> (state_transition_error + state_transition) option" where
  "process_connection_event now cm pid ev =
     (let cm1 = initialize_peer cm pid
      in (case map_of (cm_connections cm1) pid of
            None \<Rightarrow> (cm1, None)
          | Some current_state \<Rightarrow>
              let cm2 = cm1\<lparr>cm_connections := map_del pid (cm_connections cm1)\<rparr>
              in (case transition now current_state ev of
                    Inl e \<Rightarrow> (cm2, Some (Inl e))
                  | Inr tr \<Rightarrow>
                      let trail = cm_audit_trail cm2 @ [st_audit_entry tr]
                      in (cm2\<lparr>cm_connections := map_put pid (st_new_state tr) (cm_connections cm2),
                              cm_audit_trail := (if 1000 < length trail then tl trail else trail),
                              cm_stats := (cm_stats cm2)
                                \<lparr>state_transitions := state_transitions (cm_stats cm2) + 1\<rparr>\<rparr>,
                          Some (Inr tr)))))"

definition remove_peer :: "connection_manager \<Rightarrow> peer_id \<Rightarrow> connection_manager \<times> connection_state option" where
  "remove_peer cm pid =
     (let removed = map_of (cm_connections cm) pid;
          cm1 = cm\<lparr>cm_connections := map_del pid (cm_connections cm)\<rparr>
      in (if removed \<noteq> None
          then cm1\<lparr>cm_stats := (cm_stats cm1)\<lparr>peers_removed := peers_removed (cm_stats cm1) + 1\<rparr>\<rparr>
          else cm1, removed))"

record state_distribution =
  sd_disconnected :: nat
  sd_discovering :: nat
  sd_connecting :: nat
  sd_connected :: nat
  sd_failed :: nat

fun count_connections :: "connection_state list \<Rightarrow> state_distribution" where
  "count_connections [] =
     \<lparr>sd_disconnected = 0, sd_discovering = 0, sd_connecting = 0, sd_connected = 0, sd_failed = 0\<rparr>"
| "count_connections (s # ss) =
     (let d = count_connections ss
      in (case s of
            Disconnected _ \<Rightarrow> d\<lparr>sd_disconnected := sd_disconnected d + 1\<rparr>
          | Discovering _ \<Rightarrow> d\<lparr>sd_discovering := sd_discovering d + 1\<rparr>
          | Connecting _ \<Rightarrow> d\<lparr>sd_connecting := sd_connecting d + 1\<rparr>
          | Connected _ \<Rightarrow> d\<lparr>sd_connected := sd_connected d + 1\<rparr>
          | ConnFailed _ \<Rightarrow> d\<lparr>sd_failed := sd_failed d + 1\<rparr>))"

definition get_state_counts :: "connection_manager \<Rightarrow> state_distribution" where
  "get_state_counts cm = count_connections (map snd (cm_connections cm))"

definition distribution_total :: "state_distribution \<Rightarrow> nat" where
  "distribution_total d =
     sd_disconnected d + sd_discovering d + sd_connecting d + sd_connected d + sd_failed d"

definition timed_out :: "timestamp \<Rightarrow> connection_state \<Rightarrow> bool" where
  "timed_out now s = (case has_timeout s of None \<Rightarrow> False | Some t \<Rightarrow> t \<le> now)"

definition get_timed_out_peers :: "timestamp \<Rightarrow> connection_manager \<Rightarrow> (peer_id \<times> connection_event) list" where
  "get_timed_out_peers now cm =
     map (\<lambda>(pid, _). (pid, TimeoutEvent)) (filter (\<lambda>(_, s). timed_out now s) (cm_connections cm))"

definition get_message_ready_peers :: "connection_manager \<Rightarrow> peer_id list" where
  "get_message_ready_peers cm =
     map fst (filter (\<lambda>(_, s). can_send_messages s) (cm_connections cm))"

definition get_recent_audit_entries :: "connection_manager \<Rightarrow> nat \<Rightarrow> audit_entry list" where
  "get_recent_audit_entries cm limit =
     (let start = (if limit < length (cm_audit_trail cm) then length (cm_audit_trail cm) - limit else 0)
      in drop start (cm_audit_trail cm))"

fun stale_peer :: "u64 \<Rightarrow> connection_state \<Rightarrow> bool" where
  "stale_peer cutoff (Disconnected s) =
     (case dc_last_seen s of Some t \<Rightarrow> t < cutoff | None \<Rightarrow> False)"
| "stale_peer cutoff (ConnFailed s) = (fd_failed_at s < cutoff)"
| "stale_peer cutoff s = False"

definition clean_peer :: "peer_id \<Rightarrow> connection_manager \<Rightarrow> connection_manager" where
  "clean_peer pid cm =
     (let cm1 = fst (remove_peer cm pid)
      in cm1\<lparr>cm_stats := (cm_stats cm1)\<lparr>peers_cleaned_up := peers_cleaned_up (cm_stats cm1) + 1\<rparr>\<rparr>)"

definition cleanup_old_peers :: "timestamp \<Rightarrow> u64 \<Rightarrow> connection_manager \<Rightarrow> connection_manager" where
  "cleanup_old_peers now max_age_seconds cm =
     (let cutoff = sat_sub now (max_age_seconds * 1000)
      in fold clean_peer (map fst (filter (\<lambda>(_, s). stale_peer cutoff s) (cm_connections cm))) cm)"

section \<open>Lemmas on the state machine\<close>

lemma transition_InrD:
  "transition now s ev = Inr tr \<Longrightarrow>
   \<exists>n. next_state now s ev = Some (st_new_state tr, st_effects tr, n) \<and>
     st_audit_entry tr = \<lparr>ae_timestamp = now n, ae_peer_id = conn_peer_id s,
       ae_from_state = state_name s, ae_to_state = state_name (st_new_state tr), ae_event = ev,
       ae_effects_count = length (st_effects tr)\<rparr>"
  by (auto simp: transition_def split: option.splits prod.splits)

lemma next_state_peer_id: "next_state now s ev = Some (t, effs, n) \<Longrightarrow> conn_peer_id t = conn_peer_id s"
  by (induction now s ev rule: next_state.induct) (auto simp: failed_with_def)

definition attempts_zero :: "connection_state \<Rightarrow> bool" where
  "attempts_zero s = (case s of Disconnected d \<Rightarrow> dc_failed_attempts d = 0 | _ \<Rightarrow> True)"

lemma next_state_attempts: "next_state now s ev = Some (t, effs, n) \<Longrightarrow> attempts_zero t"
  by (induction now s ev rule: next_state.induct) (auto simp: failed_with_def attempts_zero_def)

text \<open>A run of events; each event has its own clock readings. \<open>None\<close> once an event is refused.\<close>

fun run_events :: "connection_state \<Rightarrow> ((nat \<Rightarrow> timestamp) \<times> connection_event) list \<Rightarrow> connection_state option" where
  "run_events s [] = Some s"
| "run_events s ((now, ev) # evs) =
     (case transition now s ev of Inl _ \<Rightarrow> None | Inr tr \<Rightarrow> run_events (st_new_state tr) evs)"

lemma run_events_snoc:
  "run_events s (evs @ [(now, ev)]) =
     (case run_events s evs of
        None \<Rightarrow> None
      | Some t \<Rightarrow> (case transition now t ev of Inl _ \<Rightarrow> None | Inr tr \<Rightarrow> Some (st_new_state tr)))"
  by (induction s evs rule: run_events.induct) (auto split: sum.splits)

text \<open>What the events of a run tell about the state it ends in.\<close>

definition history :: "connection_state \<Rightarrow> connection_event list \<Rightarrow> bool" where
  "history s evs =
     (case s of
        Discovering d \<Rightarrow> (\<exists>tmo. subseq [StartDiscovery tmo] evs)
      | Connecting c \<Rightarrow> (\<exists>tmo p. subseq [StartDiscovery tmo, InitiateConnection (cg_transport c) p] evs)
      | Connected c \<Rightarrow> (\<exists>tmo p. subseq [StartDiscovery tmo, InitiateConnection (cd_transport c) p,
          ConnectionEstablished (cd_session_id c)] evs)
      | _ \<Rightarrow> True)"

lemma subseq_snoc_same: "subseq xs ys \<Longrightarrow> subseq (xs @ [e]) (ys @ [e])"
  by (rule list_emb_append_mono) simp_all

lemma subseq_snoc: "subseq xs ys \<Longrightarrow> subseq xs (ys @ [e])"
  by (rule subseq_rev_drop_many)

lemma subseq_last: "subseq [e] (xs @ [e])"
  using subseq_snoc_same [of "[]" xs e] by simp

lemma history_step:
  assumes "next_state now s ev = Some (t, effs, n)" and "history s evs"
  shows "history t (evs @ [ev])"
  using assms
proof (induction now s ev rule: next_state.induct)
  case (1 now s secs)
  then show ?case using subseq_last by (force simp: history_def)
next
  case (2 now s)
  then show ?case using subseq_last by (force simp: history_def)
next
  case (3 now s tr sig)
  then obtain tmo where "subseq [StartDiscovery tmo] evs" by (auto simp: history_def)
  from subseq_snoc [OF this] 3(1) show ?case by (force simp: history_def)
next
  case (9 now s)
  then obtain tmo p where "subseq [StartDiscovery tmo, InitiateConnection (cd_transport s) p,
      ConnectionEstablished (cd_session_id s)] evs"
    by (auto simp: history_def)
  from subseq_snoc [OF this] 9(1) show ?case by (force simp: history_def)
next
  case (4 now s tr params)
  then obtain tmo where "subseq [StartDiscovery tmo] evs" by (auto simp: history_def)
  from subseq_snoc_same [OF this, of "InitiateConnection tr params"]
  have "subseq [StartDiscovery tmo, InitiateConnection tr params] (evs @ [InitiateConnection tr params])"
    by simp
  with 4(1) show ?case by (force simp: history_def)
next
  case (6 now s sid)
  then obtain tmo p where "subseq [StartDiscovery tmo, InitiateConnection (cg_transport s) p] evs"
    by (auto simp: history_def)
  from subseq_snoc_same [OF this, of "ConnectionEstablished sid"]
  have "subseq [StartDiscovery tmo, InitiateConnection (cg_transport s) p, ConnectionEstablished sid]
      (evs @ [ConnectionEstablished sid])"
    by simp
  with 6(1) show ?case by (force simp: history_def)
qed (auto simp: history_def failed_with_def)

lemma history_run: "run_events (new_disconnected pid) evs = Some s \<Longrightarrow> history s (map snd evs)"
proof (induction evs arbitrary: s rule: rev_induct)
  case Nil
  then show ?case by (auto simp: history_def new_disconnected_def)
next
  case (snoc x evs)
  obtain now ev where x: "x = (now, ev)" by (cases x)
  from snoc.prems obtain t tr where t: "run_events (new_disconnected pid) evs = Some t"
    and tr: "transition now t ev = Inr tr" and s: "s = st_new_state tr"
    by (auto simp: x run_events_snoc split: option.splits sum.splits)
  from transition_InrD [OF tr] history_step [OF _ snoc.IH [OF t]] show ?case by (auto simp: x s)
qed

section \<open>Lemmas on the manager\<close>

lemma initialize_peer_lookup:
  "map_of (cm_connections (initialize_peer cm pid)) q =
     (if q = pid \<and> map_of (cm_connections cm) pid = None then Some (new_disconnected pid)
      else map_of (cm_connections cm) q)"
  by (auto simp: initialize_peer_def has_key_def)

definition connection_inv :: "connection_manager \<Rightarrow> bool" where
  "connection_inv cm \<longleftrightarrow>
     distinct (keys_of (cm_connections cm)) \<and>
     (\<forall>pid s. map_of (cm_connections cm) pid = Some s \<longrightarrow> conn_peer_id s = pid \<and> attempts_zero s) \<and>
     length (cm_audit_trail cm) \<le> 1000"

text \<open>The state a peer is in when an event arrives: a peer that is not known yet is disconnected.\<close>

definition state_before :: "connection_manager \<Rightarrow> peer_id \<Rightarrow> connection_state" where
  "state_before cm pid =
     (case get_connection cm pid of None \<Rightarrow> new_disconnected pid | Some s \<Rightarrow> s)"

lemma process_lookup:
  "map_of (cm_connections (fst (process_connection_event now cm pid ev))) q =
     (if q = pid
      then (case transition now (state_before cm pid) ev of Inl _ \<Rightarrow> None | Inr tr \<Rightarrow> Some (st_new_state tr))
      else map_of (cm_connections cm) q)"
  "snd (process_connection_event now cm pid ev) = Some (transition now (state_before cm pid) ev)"
  by (auto simp: process_connection_event_def Let_def initialize_peer_lookup state_before_def
      get_connection_def split: option.splits sum.splits)

lemma process_distinct:
  "distinct (keys_of (cm_connections cm)) \<Longrightarrow>
   distinct (keys_of (cm_connections (fst (process_connection_event now cm pid ev))))"
  by (auto simp: process_connection_event_def Let_def initialize_peer_def split: option.split sum.split)

lemma process_trail:
  "length (cm_audit_trail cm) \<le> 1000 \<Longrightarrow>
   length (cm_audit_trail (fst (process_connection_event now cm pid ev))) \<le> 1000"
  by (auto simp: process_connection_event_def Let_def initialize_peer_def split: option.split sum.split)

lemma process_inv:
  assumes "connection_inv cm"
  shows "connection_inv (fst (process_connection_event now cm pid ev))"
proof -
  have before: "conn_peer_id (state_before cm pid) = pid"
    using assms by (auto simp: connection_inv_def state_before_def get_connection_def new_disconnected_def
        split: option.split)
  have "conn_peer_id s = q \<and> attempts_zero s"
    if "map_of (cm_connections (fst (process_connection_event now cm pid ev))) q = Some s" for q s
  proof (cases "q = pid")
    case True
    with that obtain tr where "transition now (state_before cm pid) ev = Inr tr" "s = st_new_state tr"
      by (auto simp: process_lookup split: sum.splits)
    with True before show ?thesis
      using transition_InrD next_state_peer_id next_state_attempts by metis
  next
    case False
    with that assms show ?thesis by (auto simp: process_lookup connection_inv_def)
  qed
  then show ?thesis
    using assms process_distinct [of cm] process_trail [of cm]
    unfolding connection_inv_def by blast
qed

lemma connection_inv_del:
  "connection_inv cm \<Longrightarrow> connection_inv (cm\<lparr>cm_connections := map_del pid (cm_connections cm), cm_stats := st\<rparr>)"
  "connection_inv cm \<Longrightarrow> connection_inv (cm\<lparr>cm_connections := map_del pid (cm_connections cm)\<rparr>)"
  unfolding connection_inv_def by simp_all

lemma connection_inv_stats: "connection_inv (cm\<lparr>cm_stats := st\<rparr>) = connection_inv cm"
  by (simp add: connection_inv_def)

lemma remove_peer_inv: "connection_inv cm \<Longrightarrow> connection_inv (fst (remove_peer cm pid))"
  by (simp add: remove_peer_def Let_def connection_inv_stats connection_inv_del)

lemma clean_peers_inv: "connection_inv cm \<Longrightarrow> connection_inv (fold clean_peer pids cm)"
  by (induction pids arbitrary: cm)
    (auto simp: clean_peer_def Let_def connection_inv_stats remove_peer_inv)

lemma clean_peers_lookup:
  "map_of (cm_connections (fold clean_peer pids cm)) q =
     (if q \<in> set pids then None else map_of (cm_connections cm) q)"
  by (induction pids arbitrary: cm) (auto simp: clean_peer_def remove_peer_def Let_def)

lemma initialize_peer_inv: "connection_inv cm \<Longrightarrow> connection_inv (initialize_peer cm pid)"
  unfolding connection_inv_def
  by (auto simp: initialize_peer_def has_key_def new_disconnected_def attempts_zero_def)

inductive connection_step :: "connection_manager \<Rightarrow> connection_manager \<Rightarrow> bool" where
  conn_init: "connection_step cm (initialize_peer cm pid)"
| conn_event: "connection_step cm (fst (process_connection_event now cm pid ev))"
| conn_remove: "connection_step cm (fst (remove_peer cm pid))"
| conn_cleanup: "connection_step cm (cleanup_old_peers t age cm)"

interpretation connections: invariant_system "\<lambda>cm. cm = connection_manager_new" connection_step connection_inv
proof
  show "connection_inv cm" if "cm = connection_manager_new" for cm
    using that by (simp add: connection_inv_def connection_manager_new_def)
  show "connection_inv cm'" if "connection_inv cm" "connection_step cm cm'" for cm cm'
    using that(2,1)
    by cases (simp_all add: initialize_peer_inv process_inv remove_peer_inv cleanup_old_peers_def Let_def
        clean_peers_inv)
qed

section \<open>Properties\<close>

text \<open>C12: A connection is only ever reached by discovery, then an attempt on some transport, then the
  establishment of a session, in this order: a run from the disconnected state that ends connected
  contains these events, and the connection has the transport of the attempt and the session identifier
  of the establishment.\<close>

theorem connected_by_protocol:
  assumes "run_events (new_disconnected pid) evs = Some (Connected c)"
  shows "\<exists>tmo p. subseq [StartDiscovery tmo, InitiateConnection (cd_transport c) p,
    ConnectionEstablished (cd_session_id c)] (map snd evs)"
  using history_run [OF assms] by (simp add: history_def)

definition example_params :: session_params where
  "example_params = \<lparr>sp_protocol_version = 1, sp_encryption_key = [], sp_timeout_seconds = 30\<rparr>"

definition example_run :: "((nat \<Rightarrow> timestamp) \<times> connection_event) list" where
  "example_run = [(\<lambda>_. 100, StartDiscovery None), (\<lambda>_. 150, PeerDiscovered Ble None),
     (\<lambda>_. 200, InitiateConnection Ble example_params), (\<lambda>_. 220, ConnectionEstablished [115])]"

definition example_connected :: connected_state where
  "example_connected = \<lparr>cd_peer_id = [1], cd_transport = Ble, cd_connected_since = 220,
     cd_session_id = [115], cd_last_activity = 220, cd_message_count = 0\<rparr>"

lemma example_run_connected: "run_events (new_disconnected [1]) example_run = Some (Connected example_connected)"
  by (simp add: example_run_def example_connected_def new_disconnected_def transition_def)

theorem connected_by_protocol_witness:
  "\<exists>tmo p. subseq [StartDiscovery tmo, InitiateConnection Ble p, ConnectionEstablished [115]]
     (map snd example_run)"
  using connected_by_protocol [OF example_run_connected] by (simp add: example_connected_def)

text \<open>From every state a peer can be disconnected and connected again: the four events of a
  reconnection are accepted whatever the state is.\<close>

theorem always_reconnectable:
  "run_events s [(n0, Disconnect), (n1, StartDiscovery tmo), (n2, InitiateConnection tr p),
     (n3, ConnectionEstablished sid)] =
   Some (Connected \<lparr>cd_peer_id = conn_peer_id s, cd_transport = tr, cd_connected_since = n3 0,
     cd_session_id = sid, cd_last_activity = n3 1, cd_message_count = 0\<rparr>)"
  by (cases s; cases tmo) (simp_all add: transition_def)

text \<open>What the manager does with an event. It never panics, it returns the transition of the state
  the peer was in, it leaves the other peers alone, and it stores the new state. When the event is not
  valid in the state of the peer, the manager forgets the peer: the state taken out of the map is not put
  back.\<close>

theorem process_event_spec:
  "snd (process_connection_event now cm pid ev) = Some (transition now (state_before cm pid) ev) \<and>
   get_connection (fst (process_connection_event now cm pid ev)) q =
     (if q = pid
      then (case transition now (state_before cm pid) ev of
              Inl _ \<Rightarrow> None
            | Inr tr \<Rightarrow> Some (st_new_state tr))
      else get_connection cm q)"
  by (simp add: process_lookup get_connection_def)

text \<open>In every state the manager can reach, each peer is stored under its own identifier, the audit
  trail has at most 1000 entries, and the counter of failed attempts is zero: it is never incremented.\<close>

theorem connection_manager_invariant:
  assumes "reachable (\<lambda>cm. cm = connection_manager_new) connection_step cm"
    and "get_connection cm pid = Some s"
  shows "conn_peer_id s = pid \<and> length (cm_audit_trail cm) \<le> 1000 \<and>
    (case s of Disconnected d \<Rightarrow> dc_failed_attempts d = 0 | _ \<Rightarrow> True)"
  using connections.invar_reachable [OF assms(1)] assms(2)
  unfolding connection_inv_def get_connection_def attempts_zero_def by blast

theorem connection_manager_invariant_witness:
  "conn_peer_id (new_disconnected [7]) = [7] \<and>
   length (cm_audit_trail (initialize_peer connection_manager_new [7])) \<le> 1000 \<and>
   (case new_disconnected [7] of Disconnected d \<Rightarrow> dc_failed_attempts d = 0 | _ \<Rightarrow> True)"
proof (rule connection_manager_invariant)
  show "reachable (\<lambda>cm. cm = connection_manager_new) connection_step (initialize_peer connection_manager_new [7])"
    by (rule reach_step, rule reach_start, rule refl, rule conn_init)
  show "get_connection (initialize_peer connection_manager_new [7]) [7] = Some (new_disconnected [7])"
    by (simp add: get_connection_def initialize_peer_lookup connection_manager_new_def)
qed

text \<open>Timeouts given in seconds are added to a clock in milliseconds: a connection attempt with a
  timeout of \<open>n\<close> seconds that starts at time \<open>t\<close> is reported as timed out from \<open>t + n\<close> milliseconds on.\<close>

theorem connection_timeout_is_milliseconds:
  assumes "transition now (Discovering s) (InitiateConnection tr p) = Inr st"
  shows "timed_out t (st_new_state st) \<longleftrightarrow> now 0 + sp_timeout_seconds p \<le> t"
  using assms by (auto simp: transition_def timed_out_def timestamp_add_def)

definition example_discovering :: discovering_state where
  "example_discovering = \<lparr>ds_peer_id = [1], ds_discovery_started = 0, ds_discovered_transports = [Ble],
     ds_discovery_timeout = None\<rparr>"

theorem connection_timeout_is_milliseconds_witness:
  "case transition (\<lambda>_. 1000) (Discovering example_discovering) (InitiateConnection Ble example_params) of
     Inl _ \<Rightarrow> False | Inr st \<Rightarrow> timed_out 1030 (st_new_state st)"
proof -
  obtain st where st: "transition (\<lambda>_. 1000) (Discovering example_discovering)
      (InitiateConnection Ble example_params) = Inr st"
    by (simp add: transition_def)
  from connection_timeout_is_milliseconds [OF st, of 1030] st show ?thesis
    by (simp add: example_params_def)
qed

end
