(* ===== verification/Deduplication.thy ===== *)
theory Deduplication
  imports Crypto
begin

text \<open>
  Duplicate detection with rotating Bloom filters
  (\<^verbatim>\<open>src/crates/bitchat-core/src/protocol/deduplication.rs\<close>): packet identifiers, the filter as the
  bit array it is in the code, and the manager with its two filters.

  SHA-256 is an argument. The size of a filter is computed by the code in floating point from the
  expected number of packets and the false positive rate, both fixed for the life of a manager; the
  argument \<open>sizing\<close> is that computation (\<^verbatim>\<open>optimal_bit_size\<close> and \<^verbatim>\<open>optimal_hash_functions\<close>) and
  gives the number of bits and of hash functions. The test \<^verbatim>\<open>fill_ratio() > 0.7\<close> is written as a
  comparison of integers, which agrees with the double-precision one for every filter of less than
  \<open>2 ^ 48\<close> bits. \<^verbatim>\<open>usize\<close> has 64 bits. Each reading of the clock is an argument, in the order of the
  readings.
\<close>

section \<open>Packet identifiers\<close>

definition DEFAULT_HASH_FUNCTIONS :: nat where "DEFAULT_HASH_FUNCTIONS = 3"
definition DEFAULT_BLOOM_SIZE :: nat where "DEFAULT_BLOOM_SIZE = 65536"
definition BLOOM_TTL_MS :: u64 where "BLOOM_TTL_MS = 300000"

type_synonym packet_id = bytes

definition packet_id_new :: "(bytes \<Rightarrow> bytes) \<Rightarrow> peer_id \<Rightarrow> u64 \<Rightarrow> bytes \<Rightarrow> packet_id" where
  "packet_id_new sha256 sender ts content_hash = sha256 (sender @ u64_to_be ts @ content_hash)"

definition from_packet_data :: "(bytes \<Rightarrow> bytes) \<Rightarrow> peer_id \<Rightarrow> u64 \<Rightarrow> bytes \<Rightarrow> packet_id" where
  "from_packet_data sha256 sender ts packet_data =
     packet_id_new sha256 sender ts (sha256 packet_data)"

definition hash_with_seed :: "(bytes \<Rightarrow> bytes) \<Rightarrow> packet_id \<Rightarrow> u32 \<Rightarrow> u64" where
  "hash_with_seed sha256 pid seed = u64_from_be (take 8 (sha256 (u32_to_be seed @ pid)))"

section \<open>The Bloom filter\<close>

record bloom_filter =
  bf_bits :: bytes
  bf_hash_functions :: nat
  bf_bit_size :: nat
  bf_created_at :: timestamp

definition bloom_new :: "timestamp \<Rightarrow> nat \<Rightarrow> nat \<Rightarrow> bloom_filter" where
  "bloom_new now bit_size hash_functions =
     \<lparr>bf_bits = replicate (div_ceil bit_size 8) 0, bf_hash_functions = hash_functions,
      bf_bit_size = bit_size, bf_created_at = now\<rparr>"

definition bloom_default :: "timestamp \<Rightarrow> bloom_filter" where
  "bloom_default now = bloom_new now DEFAULT_BLOOM_SIZE DEFAULT_HASH_FUNCTIONS"

definition for_mesh_routing ::
    "(nat \<Rightarrow> 'r \<Rightarrow> nat \<times> nat) \<Rightarrow> timestamp \<Rightarrow> nat \<Rightarrow> 'r \<Rightarrow> bloom_filter" where
  "for_mesh_routing sizing now expected rate =
     (case sizing expected rate of (bit_size, hash_functions) \<Rightarrow>
        bloom_new now bit_size hash_functions)"

definition set_bit_at :: "bloom_filter \<Rightarrow> nat \<Rightarrow> bloom_filter result" where
  "set_bit_at f i =
     (if i < bf_bit_size f then
        rbind (index_at (bf_bits f) (i div 8)) (\<lambda>b.
          Inr (f\<lparr>bf_bits := (bf_bits f)[i div 8 := b OR push_bit (i mod 8) 1]\<rparr>))
      else Inr f)"

definition get_bit_at :: "bloom_filter \<Rightarrow> nat \<Rightarrow> bool result" where
  "get_bit_at f i =
     (if i < bf_bit_size f then
        rbind (index_at (bf_bits f) (i div 8)) (\<lambda>b. Inr (b AND push_bit (i mod 8) 1 \<noteq> 0))
      else Inr False)"

text \<open>\<^verbatim>\<open>(hash as usize) % self.bit_size\<close>, which panics for a filter of no bits.\<close>

definition bit_index :: "(bytes \<Rightarrow> bytes) \<Rightarrow> nat \<Rightarrow> packet_id \<Rightarrow> nat \<Rightarrow> nat result" where
  "bit_index sha256 bit_size pid i =
     (if bit_size = 0 then Inl Panic
      else Inr (unat (hash_with_seed sha256 pid (word_of_nat i)) mod bit_size))"

fun add_loop ::
    "(bytes \<Rightarrow> bytes) \<Rightarrow> packet_id \<Rightarrow> nat list \<Rightarrow> bloom_filter \<Rightarrow> bloom_filter result" where
  "add_loop sha256 pid [] f = Inr f"
| "add_loop sha256 pid (i # is) f =
     rbind (bit_index sha256 (bf_bit_size f) pid i) (\<lambda>j.
     rbind (set_bit_at f j) (\<lambda>f'. add_loop sha256 pid is f'))"

fun contains_loop :: "(bytes \<Rightarrow> bytes) \<Rightarrow> packet_id \<Rightarrow> nat list \<Rightarrow> bloom_filter \<Rightarrow> bool result" where
  "contains_loop sha256 pid [] f = Inr True"
| "contains_loop sha256 pid (i # is) f =
     rbind (bit_index sha256 (bf_bit_size f) pid i) (\<lambda>j.
     rbind (get_bit_at f j) (\<lambda>b.
       if \<not> b then Inr False else contains_loop sha256 pid is f))"

definition bloom_add :: "(bytes \<Rightarrow> bytes) \<Rightarrow> bloom_filter \<Rightarrow> packet_id \<Rightarrow> bloom_filter result" where
  "bloom_add sha256 f pid = add_loop sha256 pid [0..<bf_hash_functions f] f"

definition bloom_contains :: "(bytes \<Rightarrow> bytes) \<Rightarrow> bloom_filter \<Rightarrow> packet_id \<Rightarrow> bool result" where
  "bloom_contains sha256 f pid = contains_loop sha256 pid [0..<bf_hash_functions f] f"

definition bloom_is_expired :: "timestamp \<Rightarrow> bloom_filter \<Rightarrow> bool" where
  "bloom_is_expired now f = (BLOOM_TTL_MS < sat_sub now (bf_created_at f))"

definition bloom_clear :: "timestamp \<Rightarrow> bloom_filter \<Rightarrow> bloom_filter" where
  "bloom_clear now f =
     f\<lparr>bf_bits := replicate (length (bf_bits f)) 0, bf_created_at := now\<rparr>"

definition bloom_memory_usage :: "bloom_filter \<Rightarrow> nat" where
  "bloom_memory_usage f = length (bf_bits f)"

definition count_ones :: "u8 \<Rightarrow> nat" where
  "count_ones b = length (filter (bit b) [0..<8])"

definition set_bits :: "bloom_filter \<Rightarrow> nat" where
  "set_bits f = sum_list (map count_ones (bf_bits f))"

definition fill_ratio_high :: "bloom_filter \<Rightarrow> bool" where
  "fill_ratio_high f = (7 * bf_bit_size f < 10 * set_bits f)"

section \<open>The manager\<close>

record deduplication_stats =
  packets_processed :: u64
  duplicates_detected :: u64
  false_positives :: u64
  filter_rotations :: u64

definition stats_default :: deduplication_stats where
  "stats_default = \<lparr>packets_processed = 0, duplicates_detected = 0, false_positives = 0,
     filter_rotations = 0\<rparr>"

record 'r deduplication_manager =
  primary_filter :: bloom_filter
  secondary_filter :: "bloom_filter option"
  expected_packets_per_period :: nat
  false_positive_rate :: 'r
  dd_stats :: deduplication_stats

definition dedup_new ::
    "(nat \<Rightarrow> 'r \<Rightarrow> nat \<times> nat) \<Rightarrow> timestamp \<Rightarrow> nat \<Rightarrow> 'r \<Rightarrow> 'r deduplication_manager" where
  "dedup_new sizing now expected rate =
     \<lparr>primary_filter = for_mesh_routing sizing now expected rate, secondary_filter = None,
      expected_packets_per_period = expected, false_positive_rate = rate,
      dd_stats = stats_default\<rparr>"

definition should_rotate_filters :: "timestamp \<Rightarrow> 'r deduplication_manager \<Rightarrow> bool" where
  "should_rotate_filters now m =
     (if bloom_is_expired now (primary_filter m) then True
      else if fill_ratio_high (primary_filter m) then True
      else False)"

definition rotate_filters ::
    "(nat \<Rightarrow> 'r \<Rightarrow> nat \<times> nat) \<Rightarrow> timestamp \<Rightarrow> 'r deduplication_manager \<Rightarrow> 'r deduplication_manager" where
  "rotate_filters sizing now m =
     m\<lparr>dd_stats := (dd_stats m)\<lparr>filter_rotations := filter_rotations (dd_stats m) + 1\<rparr>,
       primary_filter :=
         for_mesh_routing sizing now (expected_packets_per_period m) (false_positive_rate m),
       secondary_filter := Some (primary_filter m)\<rparr>"

definition in_secondary :: "(bytes \<Rightarrow> bytes) \<Rightarrow> 'r deduplication_manager \<Rightarrow> packet_id \<Rightarrow> bool result" where
  "in_secondary sha256 m pid =
     (case secondary_filter m of None \<Rightarrow> Inr False | Some f \<Rightarrow> bloom_contains sha256 f pid)"

definition rotate_if_needed ::
    "(nat \<Rightarrow> 'r \<Rightarrow> nat \<times> nat) \<Rightarrow> timestamp \<Rightarrow> timestamp \<Rightarrow> 'r deduplication_manager
     \<Rightarrow> 'r deduplication_manager" where
  "rotate_if_needed sizing now0 now1 m =
     (if should_rotate_filters now0 m then rotate_filters sizing now1 m else m)"

definition check_and_add ::
    "(bytes \<Rightarrow> bytes) \<Rightarrow> (nat \<Rightarrow> 'r \<Rightarrow> nat \<times> nat) \<Rightarrow> timestamp \<Rightarrow> timestamp
     \<Rightarrow> 'r deduplication_manager \<Rightarrow> packet_id \<Rightarrow> (bool \<times> 'r deduplication_manager) result" where
  "check_and_add sha256 sizing now0 now1 m pid =
     (let m1 = m\<lparr>dd_stats := (dd_stats m)\<lparr>packets_processed := packets_processed (dd_stats m) + 1\<rparr>\<rparr>
      in rbind (bloom_contains sha256 (primary_filter m1) pid) (\<lambda>in_primary.
         rbind (if in_primary then Inr True else in_secondary sha256 m1 pid) (\<lambda>is_duplicate.
         let m2 = (if is_duplicate
                   then m1\<lparr>dd_stats := (dd_stats m1)
                          \<lparr>duplicates_detected := duplicates_detected (dd_stats m1) + 1\<rparr>\<rparr>
                   else m1)
         in rbind (bloom_add sha256 (primary_filter m2) pid) (\<lambda>f.
            Inr (is_duplicate, rotate_if_needed sizing now0 now1 (m2\<lparr>primary_filter := f\<rparr>))))))"

definition dedup_is_duplicate ::
    "(bytes \<Rightarrow> bytes) \<Rightarrow> 'r deduplication_manager \<Rightarrow> packet_id \<Rightarrow> bool result" where
  "dedup_is_duplicate sha256 m pid =
     rbind (bloom_contains sha256 (primary_filter m) pid) (\<lambda>in_primary.
     rbind (in_secondary sha256 m pid) (\<lambda>in_sec. Inr (in_primary \<or> in_sec)))"

definition drop_expired_secondary ::
    "timestamp \<Rightarrow> 'r deduplication_manager \<Rightarrow> 'r deduplication_manager" where
  "drop_expired_secondary now m =
     (case secondary_filter m of
        Some f \<Rightarrow> if bloom_is_expired now f then m\<lparr>secondary_filter := None\<rparr> else m
      | None \<Rightarrow> m)"

definition maintain ::
    "(nat \<Rightarrow> 'r \<Rightarrow> nat \<times> nat) \<Rightarrow> timestamp \<Rightarrow> timestamp \<Rightarrow> timestamp \<Rightarrow> 'r deduplication_manager
     \<Rightarrow> 'r deduplication_manager" where
  "maintain sizing now0 now1 now2 m =
     rotate_if_needed sizing now1 now2 (drop_expired_secondary now0 m)"

definition dedup_memory_usage :: "'r deduplication_manager \<Rightarrow> nat" where
  "dedup_memory_usage m =
     bloom_memory_usage (primary_filter m) +
     (case secondary_filter m of None \<Rightarrow> 0 | Some f \<Rightarrow> bloom_memory_usage f)"

definition dedup_clear :: "timestamp \<Rightarrow> 'r deduplication_manager \<Rightarrow> 'r deduplication_manager" where
  "dedup_clear now m =
     m\<lparr>primary_filter := bloom_clear now (primary_filter m), secondary_filter := None,
       dd_stats := stats_default\<rparr>"

section \<open>The filter as a set of bits\<close>

definition bits_of :: "bloom_filter \<Rightarrow> nat set" where
  "bits_of f = {i. i < 8 * length (bf_bits f) \<and> bit (bf_bits f ! (i div 8)) (i mod 8)}"

definition bloom_wf :: "bloom_filter \<Rightarrow> bool" where
  "bloom_wf f \<longleftrightarrow> 0 < bf_bit_size f \<and> length (bf_bits f) = div_ceil (bf_bit_size f) 8 \<and>
     bits_of f \<subseteq> {..<bf_bit_size f}"

text \<open>The bits of an identifier in a filter of \<open>n\<close> bits with \<open>k\<close> hash functions.\<close>

definition indices :: "(bytes \<Rightarrow> bytes) \<Rightarrow> nat \<Rightarrow> nat \<Rightarrow> packet_id \<Rightarrow> nat set" where
  "indices sha256 n k pid =
     (\<lambda>i. unat (hash_with_seed sha256 pid (word_of_nat i)) mod n) ` {0..<k}"

lemma bit_index_ok: "0 < n \<Longrightarrow>
    bit_index sha256 n pid i = Inr (unat (hash_with_seed sha256 pid (word_of_nat i)) mod n)"
  by (simp add: bit_index_def)

lemma byte_in_range: "bloom_wf f \<Longrightarrow> i < bf_bit_size f \<Longrightarrow> i div 8 < length (bf_bits f)"
  using div_ceil_bounds(1) [of 8 "bf_bit_size f"] by (simp add: bloom_wf_def less_mult_imp_div_less)

lemma and_mask_bit: "(b :: u8) AND push_bit n 1 \<noteq> 0 \<longleftrightarrow> bit b n"
proof -
  have "b AND push_bit n 1 = (if bit b n then push_bit n 1 else 0)"
    by (rule bit_word_eqI) (auto simp: bit_simps)
  moreover have "bit b n \<Longrightarrow> (push_bit n 1 :: u8) \<noteq> 0"
    using bit_imp_le_length [of b n] by (simp add: push_bit_eq_mult)
  ultimately show ?thesis by simp
qed

lemma get_bit_at_ok:
  assumes "bloom_wf f" "i < bf_bit_size f"
  shows "get_bit_at f i = Inr (i \<in> bits_of f)"
proof -
  have "i < 8 * length (bf_bits f)"
    using byte_in_range [OF assms] by (simp add: div_less_iff_less_mult mult.commute)
  with byte_in_range [OF assms] assms(2) show ?thesis
    by (simp add: get_bit_at_def index_at_def bits_of_def and_mask_bit del: push_bit_of_1)
qed

lemma bits_of_set:
  assumes "i div 8 < length (bf_bits f)"
  shows "bits_of (f\<lparr>bf_bits := (bf_bits f)[i div 8 := bf_bits f ! (i div 8) OR push_bit (i mod 8) 1]\<rparr>) =
    insert i (bits_of f)"
proof -
  have "i < 8 * length (bf_bits f)"
    using assms by (simp add: div_less_iff_less_mult mult.commute)
  moreover have "j = i" if "i div 8 = j div 8" "i mod 8 = j mod 8" for j
    using that by (metis div_mult_mod_eq)
  ultimately show ?thesis
    using assms by (auto simp: bits_of_def nth_list_update bit_simps)
qed

lemma set_bit_at_ok:
  assumes "bloom_wf f" "i < bf_bit_size f"
  obtains bs where "set_bit_at f i = Inr (f\<lparr>bf_bits := bs\<rparr>)" "bloom_wf (f\<lparr>bf_bits := bs\<rparr>)"
    "bits_of (f\<lparr>bf_bits := bs\<rparr>) = insert i (bits_of f)"
proof -
  let ?bs = "(bf_bits f)[i div 8 := bf_bits f ! (i div 8) OR push_bit (i mod 8) 1]"
  have b: "i div 8 < length (bf_bits f)" by (rule byte_in_range [OF assms])
  have "set_bit_at f i = Inr (f\<lparr>bf_bits := ?bs\<rparr>)"
    using b assms(2) by (simp add: set_bit_at_def index_at_def)
  moreover have "bits_of (f\<lparr>bf_bits := ?bs\<rparr>) = insert i (bits_of f)" by (rule bits_of_set [OF b])
  moreover from this have "bloom_wf (f\<lparr>bf_bits := ?bs\<rparr>)"
    using assms by (simp add: bloom_wf_def)
  ultimately show thesis using that by blast
qed

lemma add_loop_ok:
  "bloom_wf f \<Longrightarrow> \<exists>bs. add_loop sha256 pid is f = Inr (f\<lparr>bf_bits := bs\<rparr>) \<and>
     bloom_wf (f\<lparr>bf_bits := bs\<rparr>) \<and>
     bits_of (f\<lparr>bf_bits := bs\<rparr>) = bits_of f \<union>
       (\<lambda>i. unat (hash_with_seed sha256 pid (word_of_nat i)) mod bf_bit_size f) ` set is"
proof (induction "is" arbitrary: f)
  case Nil
  then show ?case by (auto intro!: exI [of _ "bf_bits f"])
next
  case (Cons i "is")
  let ?j = "unat (hash_with_seed sha256 pid (word_of_nat i)) mod bf_bit_size f"
  have n: "0 < bf_bit_size f" using Cons.prems by (simp add: bloom_wf_def)
  then have "?j < bf_bit_size f" by simp
  from set_bit_at_ok [OF Cons.prems this] obtain bs where bs: "set_bit_at f ?j = Inr (f\<lparr>bf_bits := bs\<rparr>)"
    "bloom_wf (f\<lparr>bf_bits := bs\<rparr>)" "bits_of (f\<lparr>bf_bits := bs\<rparr>) = insert ?j (bits_of f)" .
  from Cons.IH [OF bs(2)] show ?case
    using bs n by (auto simp: bit_index_ok)
qed

lemma bloom_add_ok:
  assumes "bloom_wf f"
  obtains bs where "bloom_add sha256 f pid = Inr (f\<lparr>bf_bits := bs\<rparr>)" "bloom_wf (f\<lparr>bf_bits := bs\<rparr>)"
    "bits_of (f\<lparr>bf_bits := bs\<rparr>) =
       bits_of f \<union> indices sha256 (bf_bit_size f) (bf_hash_functions f) pid"
  using add_loop_ok [OF assms, of sha256 pid "[0..<bf_hash_functions f]"]
  by (auto simp: bloom_add_def indices_def)

lemma contains_loop_ok:
  "bloom_wf f \<Longrightarrow> contains_loop sha256 pid is f =
     Inr (\<forall>i\<in>set is. unat (hash_with_seed sha256 pid (word_of_nat i)) mod bf_bit_size f \<in> bits_of f)"
proof (induction "is")
  case (Cons i "is")
  then show ?case by (auto simp: bloom_wf_def bit_index_ok get_bit_at_ok)
qed simp

lemma bloom_contains_ok:
  "bloom_wf f \<Longrightarrow> bloom_contains sha256 f pid =
     Inr (indices sha256 (bf_bit_size f) (bf_hash_functions f) pid \<subseteq> bits_of f)"
  by (auto simp: bloom_contains_def contains_loop_ok indices_def)

lemma bits_of_zero: "bits_of (f\<lparr>bf_bits := replicate n 0\<rparr>) = {}"
  by (auto simp: bits_of_def div_less_iff_less_mult mult.commute)

lemma bloom_new_ok:
  assumes "0 < n"
  shows "bloom_wf (bloom_new now n k)" and "bits_of (bloom_new now n k) = {}"
proof -
  show *: "bits_of (bloom_new now n k) = {}"
    by (auto simp: bits_of_def bloom_new_def div_less_iff_less_mult mult.commute)
  show "bloom_wf (bloom_new now n k)"
    using assms * by (simp add: bloom_wf_def) (simp add: bloom_new_def)
qed

text \<open>\<^verbatim>\<open>count_ones\<close> summed over the bytes counts the bits of the set.\<close>

lemma count_ones_card: "count_ones b = card {i. i < 8 \<and> bit b i}"
proof -
  have "{i. i < 8 \<and> bit b i} = set (filter (bit b) [0..<8])" by auto
  then show ?thesis by (simp only: count_ones_def distinct_card distinct_filter distinct_upt)
qed

lemma set_bits_card: "set_bits f = card (bits_of f)"
proof -
  have "sum_list (map count_ones bs) = card {i. i < 8 * length bs \<and> bit (bs ! (i div 8)) (i mod 8)}"
    for bs :: bytes
  proof (induction bs)
    case (Cons b bs)
    let ?S = "\<lambda>bs. {i. i < 8 * length bs \<and> bit (bs ! (i div 8)) (i mod 8)}"
    have "?S (b # bs) = {i. i < 8 \<and> bit b i} \<union> (+) 8 ` ?S bs"
    proof (intro set_eqI iffI)
      fix i assume i: "i \<in> ?S (b # bs)"
      show "i \<in> {i. i < 8 \<and> bit b i} \<union> (+) 8 ` ?S bs"
      proof (cases "i < 8")
        case False
        then obtain j where "i = 8 + j" by (metis le_add_diff_inverse not_less)
        moreover have "(8 + j) div 8 = Suc (j div 8)" by simp
        ultimately show ?thesis using i by (auto simp del: div_add_self1)
      qed (use i in auto)
    next
      fix i assume "i \<in> {i. i < 8 \<and> bit b i} \<union> (+) 8 ` ?S bs"
      moreover have "(8 + j) div 8 = Suc (j div 8)" for j :: nat by simp
      ultimately show "i \<in> ?S (b # bs)" by auto
    qed
    moreover have "finite (?S bs)" by (rule finite_subset [of _ "{..<8 * length bs}"]) auto
    moreover have "{i. i < 8 \<and> bit b i} \<inter> (+) 8 ` ?S bs = {}" by auto
    ultimately show ?case
      by (simp add: Cons.IH count_ones_card [of b] card_Un_disjoint card_image)
  qed simp
  then show ?thesis by (simp add: set_bits_def bits_of_def)
qed

section \<open>The window of remembered packets\<close>

text \<open>The contract of the manager: it remembers the identifiers of the current period and of the
  previous one. An identifier counts as known to a period when its bits are all among the bits of
  the identifiers of that period, in particular when it is one of them.\<close>

record window =
  w_recent :: "packet_id set"
  w_since :: timestamp
  w_old :: "(packet_id set \<times> timestamp) option"

definition all_indices :: "(bytes \<Rightarrow> bytes) \<Rightarrow> nat \<times> nat \<Rightarrow> packet_id set \<Rightarrow> nat set" where
  "all_indices sha256 nk S = (\<Union>pid\<in>S. indices sha256 (fst nk) (snd nk) pid)"

definition covered :: "(bytes \<Rightarrow> bytes) \<Rightarrow> nat \<times> nat \<Rightarrow> packet_id set \<Rightarrow> packet_id \<Rightarrow> bool" where
  "covered sha256 nk S pid \<longleftrightarrow> indices sha256 (fst nk) (snd nk) pid \<subseteq> all_indices sha256 nk S"

definition window_known :: "(bytes \<Rightarrow> bytes) \<Rightarrow> nat \<times> nat \<Rightarrow> window \<Rightarrow> packet_id \<Rightarrow> bool" where
  "window_known sha256 nk w pid \<longleftrightarrow>
     covered sha256 nk (w_recent w) pid \<or>
     (case w_old w of None \<Rightarrow> False | Some (S, t) \<Rightarrow> covered sha256 nk S pid)"

definition window_rotate :: "timestamp \<Rightarrow> window \<Rightarrow> window" where
  "window_rotate now w =
     \<lparr>w_recent = {}, w_since = now, w_old = Some (w_recent w, w_since w)\<rparr>"

definition window_due ::
    "(bytes \<Rightarrow> bytes) \<Rightarrow> nat \<times> nat \<Rightarrow> timestamp \<Rightarrow> window \<Rightarrow> bool" where
  "window_due sha256 nk now w \<longleftrightarrow>
     BLOOM_TTL_MS < sat_sub now (w_since w) \<or>
     7 * fst nk < 10 * card (all_indices sha256 nk (w_recent w))"

definition window_tick ::
    "(bytes \<Rightarrow> bytes) \<Rightarrow> nat \<times> nat \<Rightarrow> timestamp \<Rightarrow> timestamp \<Rightarrow> window \<Rightarrow> window" where
  "window_tick sha256 nk now0 now1 w =
     (if window_due sha256 nk now0 w then window_rotate now1 w else w)"

definition window_forget :: "timestamp \<Rightarrow> window \<Rightarrow> window" where
  "window_forget now w =
     (case w_old w of
        Some (S, t) \<Rightarrow> if BLOOM_TTL_MS < sat_sub now t then w\<lparr>w_old := None\<rparr> else w
      | None \<Rightarrow> w)"

text \<open>The operations of the manager as one sequence, and the same sequence on the window.\<close>

datatype dedup_op =
    Check packet_id timestamp timestamp
  | Maintain timestamp timestamp timestamp
  | Rotate timestamp
  | Clear timestamp

fun dedup_run ::
    "(bytes \<Rightarrow> bytes) \<Rightarrow> (nat \<Rightarrow> 'r \<Rightarrow> nat \<times> nat) \<Rightarrow> dedup_op list \<Rightarrow> 'r deduplication_manager
     \<Rightarrow> (bool list \<times> 'r deduplication_manager) result" where
  "dedup_run sha256 sizing [] m = Inr ([], m)"
| "dedup_run sha256 sizing (Check pid t0 t1 # ops) m =
     rbind (check_and_add sha256 sizing t0 t1 m pid) (\<lambda>(b, m').
     rbind (dedup_run sha256 sizing ops m') (\<lambda>(bs, m''). Inr (b # bs, m'')))"
| "dedup_run sha256 sizing (Maintain t0 t1 t2 # ops) m =
     dedup_run sha256 sizing ops (maintain sizing t0 t1 t2 m)"
| "dedup_run sha256 sizing (Rotate t # ops) m =
     dedup_run sha256 sizing ops (rotate_filters sizing t m)"
| "dedup_run sha256 sizing (Clear t # ops) m = dedup_run sha256 sizing ops (dedup_clear t m)"

fun window_run ::
    "(bytes \<Rightarrow> bytes) \<Rightarrow> nat \<times> nat \<Rightarrow> dedup_op list \<Rightarrow> window \<Rightarrow> bool list \<times> window" where
  "window_run sha256 nk [] w = ([], w)"
| "window_run sha256 nk (Check pid t0 t1 # ops) w =
     (case window_run sha256 nk ops
             (window_tick sha256 nk t0 t1 (w\<lparr>w_recent := insert pid (w_recent w)\<rparr>)) of
        (bs, w') \<Rightarrow> (window_known sha256 nk w pid # bs, w'))"
| "window_run sha256 nk (Maintain t0 t1 t2 # ops) w =
     window_run sha256 nk ops (window_tick sha256 nk t1 t2 (window_forget t0 w))"
| "window_run sha256 nk (Rotate t # ops) w = window_run sha256 nk ops (window_rotate t w)"
| "window_run sha256 nk (Clear t # ops) w =
     window_run sha256 nk ops \<lparr>w_recent = {}, w_since = t, w_old = None\<rparr>"

text \<open>A filter that stands for a set of identifiers, and a manager that stands for a window.\<close>

definition filter_rel ::
    "(bytes \<Rightarrow> bytes) \<Rightarrow> nat \<times> nat \<Rightarrow> packet_id set \<Rightarrow> timestamp \<Rightarrow> bloom_filter \<Rightarrow> bool" where
  "filter_rel sha256 nk S t f \<longleftrightarrow>
     bloom_wf f \<and> bf_bit_size f = fst nk \<and> bf_hash_functions f = snd nk \<and>
     bf_created_at f = t \<and> bits_of f = all_indices sha256 nk S"

definition dedup_rel ::
    "(bytes \<Rightarrow> bytes) \<Rightarrow> (nat \<Rightarrow> 'r \<Rightarrow> nat \<times> nat) \<Rightarrow> nat \<times> nat \<Rightarrow> window \<Rightarrow> 'r deduplication_manager
     \<Rightarrow> bool" where
  "dedup_rel sha256 sizing nk w m \<longleftrightarrow>
     0 < fst nk \<and> sizing (expected_packets_per_period m) (false_positive_rate m) = nk \<and>
     filter_rel sha256 nk (w_recent w) (w_since w) (primary_filter m) \<and>
     (case w_old w of
        None \<Rightarrow> secondary_filter m = None
      | Some (S, t) \<Rightarrow> \<exists>f. secondary_filter m = Some f \<and> filter_rel sha256 nk S t f)"

lemma covered_member: "pid \<in> S \<Longrightarrow> covered sha256 nk S pid"
  by (auto simp: covered_def all_indices_def)

lemma filter_rel_contains:
  "filter_rel sha256 nk S t f \<Longrightarrow> bloom_contains sha256 f pid = Inr (covered sha256 nk S pid)"
  by (simp add: filter_rel_def bloom_contains_ok covered_def)

lemma filter_rel_add:
  assumes "filter_rel sha256 nk S t f"
  obtains f' where "bloom_add sha256 f pid = Inr f'" "filter_rel sha256 nk (insert pid S) t f'"
proof -
  from assms have "bloom_wf f" by (simp add: filter_rel_def)
  from bloom_add_ok [OF this] obtain bs where "bloom_add sha256 f pid = Inr (f\<lparr>bf_bits := bs\<rparr>)"
    "bloom_wf (f\<lparr>bf_bits := bs\<rparr>)"
    "bits_of (f\<lparr>bf_bits := bs\<rparr>) =
       bits_of f \<union> indices sha256 (bf_bit_size f) (bf_hash_functions f) pid" .
  with assms show thesis
    by (intro that) (auto simp: filter_rel_def all_indices_def)
qed

lemma filter_rel_new:
  "0 < fst nk \<Longrightarrow> filter_rel sha256 nk {} now (bloom_new now (fst nk) (snd nk))"
  by (auto simp: filter_rel_def bloom_new_ok all_indices_def) (simp_all add: bloom_new_def)

lemma filter_rel_clear:
  assumes "filter_rel sha256 nk S t f"
  shows "filter_rel sha256 nk {} now (bloom_clear now f)"
proof -
  have "bits_of (bloom_clear now f) = {}"
    by (auto simp: bits_of_def bloom_clear_def div_less_iff_less_mult mult.commute)
  with assms show ?thesis
    by (auto simp: filter_rel_def bloom_wf_def all_indices_def) (simp_all add: bloom_clear_def)
qed

lemma should_rotate_iff:
  assumes "dedup_rel sha256 sizing nk w m"
  shows "should_rotate_filters now m = window_due sha256 nk now w"
  using assms
  by (simp add: dedup_rel_def filter_rel_def should_rotate_filters_def window_due_def
      bloom_is_expired_def fill_ratio_high_def set_bits_card)

lemma rotate_rel:
  assumes "dedup_rel sha256 sizing nk w m"
  shows "dedup_rel sha256 sizing nk (window_rotate now w) (rotate_filters sizing now m)"
  using assms filter_rel_new [of nk sha256 now]
  by (auto simp: dedup_rel_def window_rotate_def rotate_filters_def for_mesh_routing_def
      split: prod.split)

lemma tick_rel:
  assumes "dedup_rel sha256 sizing nk w m"
  shows "dedup_rel sha256 sizing nk (window_tick sha256 nk t0 t1 w) (rotate_if_needed sizing t0 t1 m)"
  using assms rotate_rel [OF assms] should_rotate_iff [OF assms]
  by (simp add: window_tick_def rotate_if_needed_def)

lemma forget_rel:
  assumes "dedup_rel sha256 sizing nk w m"
  shows "dedup_rel sha256 sizing nk (window_forget now w) (drop_expired_secondary now m)"
  using assms
  by (auto simp: dedup_rel_def window_forget_def drop_expired_secondary_def filter_rel_def
      bloom_is_expired_def split: option.splits prod.splits)

lemma known_rel:
  assumes "dedup_rel sha256 sizing nk w m"
  shows "dedup_is_duplicate sha256 m pid = Inr (window_known sha256 nk w pid)"
  using assms
  by (auto simp: dedup_rel_def dedup_is_duplicate_def in_secondary_def window_known_def
      filter_rel_contains split: option.splits)

lemma check_rel:
  assumes "dedup_rel sha256 sizing nk w m"
  obtains m' where
    "check_and_add sha256 sizing t0 t1 m pid = Inr (window_known sha256 nk w pid, m')"
    "dedup_rel sha256 sizing nk
       (window_tick sha256 nk t0 t1 (w\<lparr>w_recent := insert pid (w_recent w)\<rparr>)) m'"
    "filter_rotations (dd_stats m') = filter_rotations (dd_stats m) +
       (if window_due sha256 nk t0 (w\<lparr>w_recent := insert pid (w_recent w)\<rparr>) then 1 else 0)"
proof -
  let ?w = "w\<lparr>w_recent := insert pid (w_recent w)\<rparr>"
  have rel: "filter_rel sha256 nk (w_recent w) (w_since w) (primary_filter m)"
    using assms by (simp add: dedup_rel_def)
  from filter_rel_add [OF rel] obtain f where f: "bloom_add sha256 (primary_filter m) pid = Inr f"
    "filter_rel sha256 nk (insert pid (w_recent w)) (w_since w) f" .
  from known_rel [OF assms, of pid]
  have known: "(if covered sha256 nk (w_recent w) pid then Inr True else in_secondary sha256 m pid) =
      Inr (window_known sha256 nk w pid)"
    by (auto simp: dedup_is_duplicate_def filter_rel_contains [OF rel] rbind_eq_Inr window_known_def)
  define m2 where "m2 st = m\<lparr>dd_stats := st, primary_filter := f\<rparr>" for st
  have m2: "dedup_rel sha256 sizing nk ?w (m2 st)" for st
    using assms f(2) by (auto simp: dedup_rel_def m2_def split: option.splits)
  have rot: "filter_rotations (dd_stats (rotate_if_needed sizing t0 t1 (m2 st))) =
      filter_rotations st + (if window_due sha256 nk t0 ?w then 1 else 0)" for st
    by (simp add: rotate_if_needed_def should_rotate_iff [OF m2] rotate_filters_def)
      (simp add: m2_def)
  define st where "st = (dd_stats m)\<lparr>packets_processed := packets_processed (dd_stats m) + 1,
    duplicates_detected := duplicates_detected (dd_stats m) +
      (if window_known sha256 nk w pid then 1 else 0)\<rparr>"
  have "check_and_add sha256 sizing t0 t1 m pid =
      Inr (window_known sha256 nk w pid, rotate_if_needed sizing t0 t1 (m2 st))"
    using known f(1)
    by (auto simp: check_and_add_def Let_def filter_rel_contains [OF rel] in_secondary_def m2_def
        st_def)
  moreover have "filter_rotations st = filter_rotations (dd_stats m)" by (simp add: st_def)
  ultimately show thesis using that [OF _ tick_rel [OF m2]] rot by metis
qed

lemma new_rel:
  assumes "0 < fst (sizing n r)"
  shows "dedup_rel sha256 sizing (sizing n r) \<lparr>w_recent = {}, w_since = now, w_old = None\<rparr>
    (dedup_new sizing now n r)"
  using filter_rel_new [OF assms, of sha256 now] assms
  by (auto simp: dedup_rel_def dedup_new_def for_mesh_routing_def split: prod.split)

lemma maintain_rel:
  "dedup_rel sha256 sizing nk w m \<Longrightarrow> dedup_rel sha256 sizing nk
     (window_tick sha256 nk t1 t2 (window_forget t0 w)) (maintain sizing t0 t1 t2 m)"
  by (simp add: maintain_def tick_rel forget_rel)

lemma clear_rel:
  "dedup_rel sha256 sizing nk w m \<Longrightarrow>
   dedup_rel sha256 sizing nk \<lparr>w_recent = {}, w_since = t, w_old = None\<rparr> (dedup_clear t m)"
  by (auto simp: dedup_rel_def dedup_clear_def intro: filter_rel_clear)

lemma run_rel:
  "dedup_rel sha256 sizing nk w m \<Longrightarrow>
   \<exists>m'. dedup_run sha256 sizing ops m = Inr (fst (window_run sha256 nk ops w), m') \<and>
     dedup_rel sha256 sizing nk (snd (window_run sha256 nk ops w)) m'"
proof (induction ops arbitrary: w m)
  case (Cons op ops)
  show ?case
  proof (cases op)
    case (Check pid t0 t1)
    from check_rel [OF Cons.prems] obtain m1 where
      "check_and_add sha256 sizing t0 t1 m pid = Inr (window_known sha256 nk w pid, m1)"
      "dedup_rel sha256 sizing nk
         (window_tick sha256 nk t0 t1 (w\<lparr>w_recent := insert pid (w_recent w)\<rparr>)) m1" .
    with Cons.IH [OF this(2)] Check show ?thesis by (auto split: prod.split)
  next
    case (Maintain t0 t1 t2)
    with Cons.IH [OF maintain_rel [OF Cons.prems]] show ?thesis by simp
  next
    case (Rotate t)
    with Cons.IH [OF rotate_rel [OF Cons.prems]] show ?thesis by simp
  next
    case (Clear t)
    with Cons.IH [OF clear_rel [OF Cons.prems]] show ?thesis by simp
  qed
qed simp

section \<open>What the filters remember\<close>

fun keeps_memory :: "dedup_op \<Rightarrow> bool" where
  "keeps_memory (Check pid t0 t1) = True"
| "keeps_memory (Rotate t) = True"
| "keeps_memory _ = False"

text \<open>\<open>pid\<close> was added when \<open>r0\<close> rotations had been made: it is in the primary filter as long as there
  are no more, and in the secondary one after one more.\<close>

definition remembered :: "packet_id \<Rightarrow> nat \<Rightarrow> window \<Rightarrow> nat \<Rightarrow> bool" where
  "remembered pid r0 w r \<longleftrightarrow> r0 \<le> r \<and> (r = r0 \<longrightarrow> pid \<in> w_recent w) \<and>
     (r = Suc r0 \<longrightarrow> (\<exists>S t. w_old w = Some (S, t) \<and> pid \<in> S))"

lemma remembered_known:
  "remembered pid r0 w r \<Longrightarrow> r \<le> Suc r0 \<Longrightarrow> window_known sha256 nk w pid"
  by (auto simp: remembered_def window_known_def covered_member le_Suc_eq)

lemma remembered_rotate: "remembered pid r0 w r \<Longrightarrow> remembered pid r0 (window_rotate t w) (Suc r)"
  by (auto simp: remembered_def window_rotate_def)

lemma remembered_insert:
  "remembered pid r0 w r \<Longrightarrow> remembered pid r0 (w\<lparr>w_recent := insert p (w_recent w)\<rparr>) r"
  by (auto simp: remembered_def)

lemma unat_Suc: "Suc (unat (x :: u64)) < 2 ^ 64 \<Longrightarrow> unat (x + 1) = Suc (unat x)"
  by (simp add: unat_word_ariths)

lemma remembered_run:
  "dedup_rel sha256 sizing nk w m \<Longrightarrow> list_all keeps_memory ops \<Longrightarrow>
   remembered pid r0 w (unat (filter_rotations (dd_stats m))) \<Longrightarrow>
   unat (filter_rotations (dd_stats m)) + length ops < 2 ^ 64 \<Longrightarrow>
   dedup_run sha256 sizing ops m = Inr (bs, m') \<Longrightarrow>
   \<exists>w'. dedup_rel sha256 sizing nk w' m' \<and>
     remembered pid r0 w' (unat (filter_rotations (dd_stats m')))"
proof (induction ops arbitrary: w m bs)
  case (Cons op ops)
  let ?r = "filter_rotations (dd_stats m)"
  have r: "unat (?r + 1) = Suc (unat ?r)" using Cons.prems(4) by (intro unat_Suc) simp
  show ?case
  proof (cases op)
    case (Check p t0 t1)
    let ?w = "w\<lparr>w_recent := insert p (w_recent w)\<rparr>"
    from check_rel [OF Cons.prems(1)] obtain m1 where
      c: "check_and_add sha256 sizing t0 t1 m p = Inr (window_known sha256 nk w p, m1)"
      and rel: "dedup_rel sha256 sizing nk (window_tick sha256 nk t0 t1 ?w) m1"
      and rot: "filter_rotations (dd_stats m1) = ?r + (if window_due sha256 nk t0 ?w then 1 else 0)" .
    have "remembered pid r0 (window_tick sha256 nk t0 t1 ?w) (unat (filter_rotations (dd_stats m1)))"
      using remembered_insert [OF Cons.prems(3), of p] rot r
      by (simp add: window_tick_def remembered_rotate)
    with Cons.IH [OF rel] Cons.prems Check c rot r show ?thesis
      by (auto simp: rbind_eq_Inr split: if_splits)
  next
    case (Rotate t)
    have "filter_rotations (dd_stats (rotate_filters sizing t m)) = ?r + 1"
      by (simp add: rotate_filters_def)
    with Cons.IH [OF rotate_rel [OF Cons.prems(1)], of t bs] Cons.prems Rotate r
      remembered_rotate [OF Cons.prems(3), of t] show ?thesis by simp
  qed (use Cons.prems in auto)
qed auto

lemma covered_empty: "0 < snd nk \<Longrightarrow> \<not> covered sha256 nk {} pid"
  by (auto simp: covered_def all_indices_def indices_def)

lemma expired_window:
  assumes "0 < snd nk" and "BLOOM_TTL_MS < sat_sub t0 (w_since w)" and "t0 \<le> t2"
  shows "\<not> window_known sha256 nk (window_tick sha256 nk t3 t4 (window_forget t2
    (window_tick sha256 nk t0 t1 w))) p"
proof -
  have "unat (sat_sub t0 (w_since w)) \<le> unat (sat_sub t2 (w_since w))"
    using assms(3) by (simp add: unat_sat_sub word_le_nat_alt diff_le_mono)
  with assms(2) have "BLOOM_TTL_MS < sat_sub t2 (w_since w)" by (simp add: word_less_nat_alt)
  with assms(2) have "window_forget t2 (window_tick sha256 nk t0 t1 w) =
      \<lparr>w_recent = {}, w_since = t1, w_old = None\<rparr>"
    by (simp add: window_tick_def window_due_def window_rotate_def window_forget_def)
  then show ?thesis
    using assms(1) by (simp add: window_tick_def window_rotate_def window_known_def covered_empty)
qed

section \<open>Properties\<close>

text \<open>C17: Every sequence of operations on a new manager succeeds and answers exactly as the window of
  the current and the previous period does: a packet is reported as a duplicate if and only if its
  bits are covered by the packets of one of these periods. The filters rotate when the current
  period is older than five minutes or more than seventy percent of its bits are set.\<close>

theorem dedup_refines_window:
  assumes "0 < fst (sizing n r)"
  shows "\<exists>m. dedup_run sha256 sizing ops (dedup_new sizing now n r) =
      Inr (fst (window_run sha256 (sizing n r) ops \<lparr>w_recent = {}, w_since = now, w_old = None\<rparr>), m) \<and>
    (\<forall>pid. dedup_is_duplicate sha256 m pid = Inr (window_known sha256 (sizing n r)
      (snd (window_run sha256 (sizing n r) ops \<lparr>w_recent = {}, w_since = now, w_old = None\<rparr>)) pid))"
  using run_rel [OF new_rel [of sizing n r, OF assms]] known_rel by blast

definition toy_sizing :: "nat \<Rightarrow> unit \<Rightarrow> nat \<times> nat" where
  "toy_sizing n r = (64, 2)"

lemma toy_sizing_pos: "0 < fst (toy_sizing n r)" "0 < snd (toy_sizing n r)"
  by (simp_all add: toy_sizing_def)

lemma toy_check:
  "\<exists>d m1. check_and_add toy_sha256 toy_sizing t0 t1 (dedup_new toy_sizing 5 9 ()) pid = Inr (d, m1) \<and>
     (sat_sub t0 5 \<le> 300000 \<longrightarrow> filter_rotations (dd_stats m1) = 0)"
proof -
  let ?w = "\<lparr>w_recent = {pid}, w_since = 5, w_old = None\<rparr>"
  have "card (indices toy_sha256 64 2 pid) \<le> 2"
    unfolding indices_def using card_image_le [of "{0..<2 :: nat}"] by fastforce
  then have "sat_sub t0 5 \<le> 300000 \<Longrightarrow> \<not> window_due toy_sha256 (toy_sizing 9 ()) t0 ?w"
    by (simp add: window_due_def toy_sizing_def all_indices_def BLOOM_TTL_MS_def not_less)
  moreover have "filter_rotations (dd_stats (dedup_new toy_sizing 5 9 ())) = 0"
    by (simp add: dedup_new_def stats_default_def)
  moreover from check_rel [OF new_rel [of toy_sizing 9 "()" toy_sha256 5, OF toy_sizing_pos(1)]]
  obtain d m1 where "check_and_add toy_sha256 toy_sizing t0 t1 (dedup_new toy_sizing 5 9 ()) pid =
      Inr (d, m1)"
    "filter_rotations (dd_stats m1) = filter_rotations (dd_stats (dedup_new toy_sizing 5 9 ())) +
       (if window_due toy_sha256 (toy_sizing 9 ()) t0 ?w then 1 else 0)"
    by (metis (no_types, lifting) window.select_convs(1) window.update_convs(1))
  ultimately show ?thesis by auto
qed

theorem dedup_refines_window_witness:
  "\<exists>m. dedup_run toy_sha256 toy_sizing [Check [1] 10 10, Check [1] 11 11] (dedup_new toy_sizing 5 9 ()) =
     Inr ([False, True], m)"
proof -
  have "fst (window_run toy_sha256 (toy_sizing 9 ()) [Check [1] 10 10, Check [1] 11 11]
      \<lparr>w_recent = {}, w_since = 5, w_old = None\<rparr>) = [False, True]"
    by (simp add: toy_sizing_def window_known_def covered_empty window_tick_def window_rotate_def
        covered_member)
  moreover obtain m where "dedup_run toy_sha256 toy_sizing [Check [1] 10 10, Check [1] 11 11]
      (dedup_new toy_sizing 5 9 ()) = Inr (fst (window_run toy_sha256 (toy_sizing 9 ())
        [Check [1] 10 10, Check [1] 11 11] \<lparr>w_recent = {}, w_since = 5, w_old = None\<rparr>), m)"
    using dedup_refines_window [of toy_sizing 9 "()", OF toy_sizing_pos(1)] by blast
  ultimately show ?thesis by metis
qed

text \<open>A packet is never missed: once it has been checked, it is recognised as a duplicate as long
  as the filters rotate at most once, through any number of further checks and forced rotations
  (counting a rotation made by its own check).\<close>

theorem dedup_no_false_negative:
  assumes "0 < fst (sizing n r)"
    and "dedup_run sha256 sizing before (dedup_new sizing now n r) = Inr (as, m)"
    and "check_and_add sha256 sizing t0 t1 m pid = Inr (d, m1)"
    and "list_all keeps_memory ops" and "dedup_run sha256 sizing ops m1 = Inr (bs, m2)"
    and "unat (filter_rotations (dd_stats m)) + length ops + 1 < 2 ^ 64"
    and "unat (filter_rotations (dd_stats m2)) \<le> unat (filter_rotations (dd_stats m)) + 1"
  shows "dedup_is_duplicate sha256 m2 pid = Inr True"
proof -
  from run_rel [OF new_rel [of sizing n r, OF assms(1)], of sha256 before now] assms(2)
  obtain w where w: "dedup_rel sha256 sizing (sizing n r) w m" by auto
  let ?w = "w\<lparr>w_recent := insert pid (w_recent w)\<rparr>"
  let ?r = "filter_rotations (dd_stats m)"
  from check_rel [OF w, of t0 t1 pid] obtain m' where
    c: "check_and_add sha256 sizing t0 t1 m pid = Inr (window_known sha256 (sizing n r) w pid, m')"
    and rel': "dedup_rel sha256 sizing (sizing n r) (window_tick sha256 (sizing n r) t0 t1 ?w) m'"
    and rot': "filter_rotations (dd_stats m') =
      ?r + (if window_due sha256 (sizing n r) t0 ?w then 1 else 0)" .
  from c assms(3) have "m' = m1" by simp
  note rel = rel' [unfolded this] and rot = rot' [unfolded this]
  have r: "unat (?r + 1) = Suc (unat ?r)" using assms(6) by (intro unat_Suc) simp
  have "remembered pid (unat ?r) ?w (unat ?r)" by (simp add: remembered_def)
  with rot r have "remembered pid (unat ?r) (window_tick sha256 (sizing n r) t0 t1 ?w)
      (unat (filter_rotations (dd_stats m1)))"
    by (simp add: window_tick_def remembered_rotate)
  moreover have "unat (filter_rotations (dd_stats m1)) + length ops < 2 ^ 64"
    using assms(6) r unfolding rot by (simp split: if_splits)
  ultimately obtain w' where w': "dedup_rel sha256 sizing (sizing n r) w' m2"
    and rem: "remembered pid (unat ?r) w' (unat (filter_rotations (dd_stats m2)))"
    using remembered_run [OF rel assms(4) _ _ assms(5)] by blast
  have "window_known sha256 (sizing n r) w' pid"
    by (rule remembered_known [OF rem]) (use assms(7) in simp)
  with known_rel [OF w'] show ?thesis by simp
qed

theorem dedup_no_false_negative_witness:
  "\<exists>as m d m1 bs m2.
     dedup_run toy_sha256 toy_sizing [] (dedup_new toy_sizing 5 9 ()) = Inr (as, m) \<and>
     check_and_add toy_sha256 toy_sizing 10 10 m [1] = Inr (d, m1) \<and>
     dedup_run toy_sha256 toy_sizing [Rotate 11] m1 = Inr (bs, m2) \<and>
     dedup_is_duplicate toy_sha256 m2 [1] = Inr True"
proof -
  define m :: "unit deduplication_manager" where "m = dedup_new toy_sizing 5 9 ()"
  have e: "dedup_run toy_sha256 toy_sizing [] (dedup_new toy_sizing 5 9 ()) = Inr ([], m)"
    by (simp add: m_def)
  obtain d m1 where c: "check_and_add toy_sha256 toy_sizing 10 10 m [1] = Inr (d, m1)"
    and rot: "filter_rotations (dd_stats m1) = 0"
    using toy_check [of 10 10 "[1]"] by (auto simp: m_def sat_sub_def)
  have "dedup_is_duplicate toy_sha256 (rotate_filters toy_sizing 11 m1) [1] = Inr True"
    by (rule dedup_no_false_negative [OF _ e c, of "[Rotate 11]"])
      (simp_all add: toy_sizing_def rotate_filters_def rot m_def dedup_new_def stats_default_def)
  with e c show ?thesis by auto
qed

text \<open>A rotation caused by expiry is undone by the next maintenance: the filter that becomes the
  secondary one is already expired, so \<^verbatim>\<open>maintain\<close> drops it, and the packet that was just checked (like
  every other) is unknown again.\<close>

theorem dedup_expired_rotation_forgets:
  assumes "0 < fst (sizing n r)" and "0 < snd (sizing n r)"
    and "dedup_run sha256 sizing ops (dedup_new sizing now n r) = Inr (as, m)"
    and "bloom_is_expired t0 (primary_filter m)" and "t0 \<le> t2"
    and "check_and_add sha256 sizing t0 t1 m pid = Inr (d, m1)"
  shows "dedup_is_duplicate sha256 (maintain sizing t2 t3 t4 m1) p = Inr False"
proof -
  from run_rel [OF new_rel [of sizing n r, OF assms(1)], of sha256 ops now] assms(3)
  obtain w where w: "dedup_rel sha256 sizing (sizing n r) w m" by auto
  let ?w = "w\<lparr>w_recent := insert pid (w_recent w)\<rparr>"
  from check_rel [OF w, of t0 t1 pid] assms(6)
  have rel: "dedup_rel sha256 sizing (sizing n r) (window_tick sha256 (sizing n r) t0 t1 ?w) m1" by auto
  have "BLOOM_TTL_MS < sat_sub t0 (w_since ?w)"
    using assms(4) w by (simp add: bloom_is_expired_def dedup_rel_def filter_rel_def)
  from expired_window [OF assms(2) this assms(5)] known_rel [OF maintain_rel [OF rel]]
  show ?thesis by simp
qed

theorem dedup_expired_rotation_forgets_witness:
  "\<exists>d m1. check_and_add toy_sha256 toy_sizing 400000 400000 (dedup_new toy_sizing 5 9 ()) [1] =
       Inr (d, m1) \<and>
     dedup_is_duplicate toy_sha256 (maintain toy_sizing 400001 400001 400001 m1) [1] = Inr False"
proof -
  have e: "dedup_run toy_sha256 toy_sizing [] (dedup_new toy_sizing 5 9 ()) =
    Inr ([], dedup_new toy_sizing 5 9 ())" by simp
  obtain d m1 where c: "check_and_add toy_sha256 toy_sizing 400000 400000
      (dedup_new toy_sizing 5 9 ()) [1] = Inr (d, m1)"
    using toy_check [of 400000 400000 "[1]"] by blast
  have x: "bloom_is_expired 400000 (primary_filter (dedup_new toy_sizing 5 9 ()))"
    by (simp add: bloom_is_expired_def dedup_new_def for_mesh_routing_def toy_sizing_def
        bloom_new_def BLOOM_TTL_MS_def sat_sub_def)
  have "dedup_is_duplicate toy_sha256 (maintain toy_sizing 400001 400001 400001 m1) [1] = Inr False"
    by (rule dedup_expired_rotation_forgets [OF _ _ e x _ c]) (simp_all add: toy_sizing_def)
  with c show ?thesis by blast
qed

end
