(* ===== verification/Rate_Limiter.thy ===== *)
theory Rate_Limiter
  imports Core_Types
begin

text \<open>
  The rate limiter of the runtime (\<^verbatim>\<open>src/crates/bitchat-runtime/src/rate_limiter.rs\<close>): sliding windows
  of events, globally and per peer, with the limits of \<^verbatim>\<open>RateLimitConfig\<close>
  (\<^verbatim>\<open>src/crates/bitchat-core/src/config.rs\<close>).

  An \<^verbatim>\<open>Instant\<close> is a number of nanoseconds and \<^verbatim>\<open>duration_since\<close> saturates at zero, as the difference
  of natural numbers does. An operation reads the clock several times: \<open>now i\<close> is the reading at its
  \<open>i\<close>-th place in the order of evaluation (the reading of a new entry, place 3, is only used
  when the peer has no entry). The texts of the errors leave out the numbers the code formats into
  them.
\<close>

section \<open>Sliding windows\<close>

type_synonym instant = nat

definition secs :: "u64 \<Rightarrow> nat" where
  "secs s = unat s * 1000000000"

record event_window =
  ew_events :: "instant list"
  ew_window_duration_secs :: u64

definition event_window_new :: "u64 \<Rightarrow> event_window" where
  "event_window_new s = \<lparr>ew_events = [], ew_window_duration_secs = s\<rparr>"

definition cleanup_old_events :: "instant \<Rightarrow> event_window \<Rightarrow> event_window" where
  "cleanup_old_events now w =
     w\<lparr>ew_events := dropWhile (\<lambda>t. secs (ew_window_duration_secs w) < now - t) (ew_events w)\<rparr>"

definition add_event :: "instant \<Rightarrow> instant \<Rightarrow> event_window \<Rightarrow> u32 \<times> event_window" where
  "add_event now0 now1 w =
     (let w' = cleanup_old_events now1 (w\<lparr>ew_events := ew_events w @ [now0]\<rparr>)
      in (word_of_nat (length (ew_events w')), w'))"

definition get_count :: "instant \<Rightarrow> event_window \<Rightarrow> u32 \<times> event_window" where
  "get_count now w =
     (let w' = cleanup_old_events now w in (word_of_nat (length (ew_events w')), w'))"

section \<open>The limiter\<close>

record rate_limit_config =
  messages_per_peer_per_window :: u32
  connections_per_peer_per_window :: u32
  global_messages_per_window :: u32
  global_connections_per_window :: u32
  window_duration_secs :: u64
  max_tracked_peers :: nat

definition rate_limit_default :: rate_limit_config where
  "rate_limit_default =
     \<lparr>messages_per_peer_per_window = 50, connections_per_peer_per_window = 5,
      global_messages_per_window = 1000, global_connections_per_window = 100,
      window_duration_secs = 60, max_tracked_peers = 1000\<rparr>"

definition rate_limit_permissive :: rate_limit_config where
  "rate_limit_permissive =
     \<lparr>messages_per_peer_per_window = 1000, connections_per_peer_per_window = 100,
      global_messages_per_window = 10000, global_connections_per_window = 1000,
      window_duration_secs = 60, max_tracked_peers = 1000\<rparr>"

definition rate_limit_strict :: rate_limit_config where
  "rate_limit_strict =
     \<lparr>messages_per_peer_per_window = 10, connections_per_peer_per_window = 2,
      global_messages_per_window = 200, global_connections_per_window = 20,
      window_duration_secs = 60, max_tracked_peers = 500\<rparr>"

record peer_limits =
  pl_message_window :: event_window
  pl_connection_window :: event_window
  pl_last_access :: instant

definition peer_limits_new :: "instant \<Rightarrow> rate_limit_config \<Rightarrow> peer_limits" where
  "peer_limits_new now cfg =
     \<lparr>pl_message_window = event_window_new (window_duration_secs cfg),
      pl_connection_window = event_window_new (window_duration_secs cfg), pl_last_access = now\<rparr>"

definition update_access_time :: "instant \<Rightarrow> peer_limits \<Rightarrow> peer_limits" where
  "update_access_time now l = l\<lparr>pl_last_access := now\<rparr>"

record rate_limiter =
  rl_config :: rate_limit_config
  rl_peer_limits :: "(peer_id \<times> peer_limits) list"
  rl_global_message_window :: event_window
  rl_global_connection_window :: event_window

definition rate_limiter_new :: "rate_limit_config \<Rightarrow> rate_limiter" where
  "rate_limiter_new cfg =
     \<lparr>rl_config = cfg, rl_peer_limits = [],
      rl_global_message_window = event_window_new (window_duration_secs cfg),
      rl_global_connection_window = event_window_new (window_duration_secs cfg)\<rparr>"

definition active_peers ::
    "instant \<Rightarrow> rate_limit_config \<Rightarrow> (peer_id \<times> peer_limits) list \<Rightarrow> (peer_id \<times> peer_limits) list" where
  "active_peers now cfg ps =
     filter (\<lambda>(p, l). now - pl_last_access l < secs (window_duration_secs cfg * 2)) ps"

definition limiter_cleanup_old_peers :: "instant \<Rightarrow> rate_limiter \<Rightarrow> rate_limiter" where
  "limiter_cleanup_old_peers now rl =
     (let ps = active_peers now (rl_config rl) (rl_peer_limits rl);
          max = max_tracked_peers (rl_config rl)
      in if max < length ps then
           (let by_access = sort_key snd (map (\<lambda>(p, l). (p, pl_last_access l)) ps);
                evicted = map fst (take (length ps - max) by_access)
            in rl\<lparr>rl_peer_limits := fold map_del evicted ps\<rparr>)
         else rl\<lparr>rl_peer_limits := ps\<rparr>)"

definition entry_or_new :: "instant \<Rightarrow> rate_limiter \<Rightarrow> peer_id \<Rightarrow> peer_limits" where
  "entry_or_new now rl pid =
     (case map_of (rl_peer_limits rl) pid of
        Some l \<Rightarrow> l
      | None \<Rightarrow> peer_limits_new now (rl_config rl))"

definition check_message_allowed ::
    "(nat \<Rightarrow> instant) \<Rightarrow> rate_limiter \<Rightarrow> peer_id \<Rightarrow> rate_limiter \<times> unit result" where
  "check_message_allowed now rl pid =
     (case add_event (now 0) (now 1) (rl_global_message_window rl) of (global_count, gw) \<Rightarrow>
        let rl1 = rl\<lparr>rl_global_message_window := gw\<rparr>
        in if global_messages_per_window (rl_config rl1) < global_count then
             (rl1, Inl (Err (RateLimited ''Global message rate limit exceeded'')))
           else
             (let rl2 = limiter_cleanup_old_peers (now 2) rl1;
                  l = update_access_time (now 4) (entry_or_new (now 3) rl2 pid)
              in case add_event (now 5) (now 6) (pl_message_window l) of (peer_count, pw) \<Rightarrow>
                   let rl3 = rl2\<lparr>rl_peer_limits :=
                               map_put pid (l\<lparr>pl_message_window := pw\<rparr>) (rl_peer_limits rl2)\<rparr>
                   in if messages_per_peer_per_window (rl_config rl3) < peer_count then
                        (rl3, Inl (Err (RateLimited ''Peer message rate limit exceeded'')))
                      else (rl3, Inr ())))"

definition check_connection_allowed ::
    "(nat \<Rightarrow> instant) \<Rightarrow> rate_limiter \<Rightarrow> peer_id \<Rightarrow> rate_limiter \<times> unit result" where
  "check_connection_allowed now rl pid =
     (case add_event (now 0) (now 1) (rl_global_connection_window rl) of (global_count, gw) \<Rightarrow>
        let rl1 = rl\<lparr>rl_global_connection_window := gw\<rparr>
        in if global_connections_per_window (rl_config rl1) < global_count then
             (rl1, Inl (Err (RateLimited ''Global connection rate limit exceeded'')))
           else
             (let rl2 = limiter_cleanup_old_peers (now 2) rl1;
                  l = update_access_time (now 4) (entry_or_new (now 3) rl2 pid)
              in case add_event (now 5) (now 6) (pl_connection_window l) of (peer_count, pw) \<Rightarrow>
                   let rl3 = rl2\<lparr>rl_peer_limits :=
                               map_put pid (l\<lparr>pl_connection_window := pw\<rparr>) (rl_peer_limits rl2)\<rparr>
                   in if connections_per_peer_per_window (rl_config rl3) < peer_count then
                        (rl3, Inl (Err (RateLimited ''Peer connection rate limit exceeded'')))
                      else (rl3, Inr ())))"

record rate_limit_stats =
  global_messages_in_window :: u32
  global_connections_in_window :: u32
  tracked_peers :: nat
  rs_config :: rate_limit_config

definition get_stats :: "(nat \<Rightarrow> instant) \<Rightarrow> rate_limiter \<Rightarrow> rate_limiter \<times> rate_limit_stats" where
  "get_stats now rl =
     (let rl1 = limiter_cleanup_old_peers (now 0) rl
      in case get_count (now 1) (rl_global_message_window rl1) of (gm, mw) \<Rightarrow>
         case get_count (now 2) (rl_global_connection_window rl1) of (gc, cw) \<Rightarrow>
           let rl2 = rl1\<lparr>rl_global_message_window := mw, rl_global_connection_window := cw\<rparr>
           in (rl2, \<lparr>global_messages_in_window = gm, global_connections_in_window = gc,
                     tracked_peers = length (rl_peer_limits rl2), rs_config = rl_config rl2\<rparr>))"

section \<open>Lemmas on windows\<close>

lemma length_filter_mono:
  "(\<And>x. x \<in> set xs \<Longrightarrow> P x \<Longrightarrow> Q x) \<Longrightarrow> length (filter P xs) \<le> length (filter Q xs)"
  by (induction xs) auto

section \<open>Runs\<close>

datatype limiter_op =
    CheckMessage peer_id "nat \<Rightarrow> instant"
  | CheckConnection peer_id "nat \<Rightarrow> instant"
  | GetStats "nat \<Rightarrow> instant"

fun limiter_step :: "limiter_op \<Rightarrow> rate_limiter \<Rightarrow> rate_limiter \<times> bool" where
  "limiter_step (CheckMessage pid now) rl =
     (case check_message_allowed now rl pid of (rl', r) \<Rightarrow> (rl', is_ok r))"
| "limiter_step (CheckConnection pid now) rl =
     (case check_connection_allowed now rl pid of (rl', r) \<Rightarrow> (rl', is_ok r))"
| "limiter_step (GetStats now) rl = (fst (get_stats now rl), True)"

fun op_clock :: "limiter_op \<Rightarrow> nat \<Rightarrow> instant" where
  "op_clock (CheckMessage pid now) = now"
| "op_clock (CheckConnection pid now) = now"
| "op_clock (GetStats now) = now"

fun op_peers :: "limiter_op \<Rightarrow> peer_id list" where
  "op_peers (CheckMessage pid now) = [pid]"
| "op_peers (CheckConnection pid now) = [pid]"
| "op_peers (GetStats now) = []"

fun is_message :: "limiter_op \<Rightarrow> bool" where
  "is_message (CheckMessage pid now) = True"
| "is_message _ = False"

fun is_connection :: "limiter_op \<Rightarrow> bool" where
  "is_connection (CheckConnection pid now) = True"
| "is_connection _ = False"

text \<open>The outcomes of a run, and that its clock readings never go back.\<close>

fun run_state :: "('op \<Rightarrow> 's \<Rightarrow> 's \<times> bool) \<Rightarrow> 's \<Rightarrow> 'op list \<Rightarrow> 's" where
  "run_state step s [] = s"
| "run_state step s (op # ops) = run_state step (fst (step op s)) ops"

fun outcomes :: "('op \<Rightarrow> 's \<Rightarrow> 's \<times> bool) \<Rightarrow> 's \<Rightarrow> 'op list \<Rightarrow> ('op \<times> bool) list" where
  "outcomes step s [] = []"
| "outcomes step s (op # ops) = (op, snd (step op s)) # outcomes step (fst (step op s)) ops"

definition readings :: "('op \<Rightarrow> nat \<Rightarrow> instant) \<Rightarrow> 'op \<Rightarrow> instant list" where
  "readings clock op = map (clock op) [0..<7]"

fun clock_after :: "('op \<Rightarrow> nat \<Rightarrow> instant) \<Rightarrow> instant \<Rightarrow> 'op list \<Rightarrow> instant" where
  "clock_after clock c [] = c"
| "clock_after clock c (op # ops) = clock_after clock (clock op 6) ops"

fun clocks_ok :: "('op \<Rightarrow> nat \<Rightarrow> instant) \<Rightarrow> instant \<Rightarrow> 'op list \<Rightarrow> bool" where
  "clocks_ok clock c [] = True"
| "clocks_ok clock c (op # ops) =
     (sorted (c # readings clock op) \<and> clocks_ok clock (clock op 6) ops)"

text \<open>The operations that \<open>P\<close> selects, that were allowed and that lie within the interval from \<open>a\<close> to
  \<open>a + W\<close>.\<close>

definition allowed_within ::
    "('op \<Rightarrow> nat \<Rightarrow> instant) \<Rightarrow> ('op \<Rightarrow> bool) \<Rightarrow> instant \<Rightarrow> nat \<Rightarrow> ('op \<times> bool) list \<Rightarrow> nat" where
  "allowed_within clock P a W tr =
     length (filter (\<lambda>(op, ok). ok \<and> P op \<and> a \<le> clock op 0 \<and> clock op 6 \<le> a + W) tr)"

lemma run_state_snoc: "run_state step s (ops @ [op]) = fst (step op (run_state step s ops))"
  by (induction ops arbitrary: s) auto

lemma outcomes_snoc:
  "outcomes step s (ops @ [op]) = outcomes step s ops @ [(op, snd (step op (run_state step s ops)))]"
  by (induction ops arbitrary: s) auto

lemma clock_after_snoc [simp]: "clock_after clock c (ops @ [op]) = clock op 6"
  by (induction ops arbitrary: c) auto

lemma clocks_ok_snoc: "clocks_ok clock c (ops @ [op]) \<longleftrightarrow>
    clocks_ok clock c ops \<and> sorted (clock_after clock c ops # readings clock op)"
  by (induction ops arbitrary: c) auto

lemma sorted_readings:
  assumes "sorted (c # readings clock op)"
  shows "c \<le> clock op 0" "i \<le> j \<Longrightarrow> j < 7 \<Longrightarrow> clock op i \<le> clock op j"
proof -
  from assms have s: "sorted (map (clock op) [0..<7])" and "\<forall>x\<in>set (map (clock op) [0..<7]). c \<le> x"
    by (simp_all add: readings_def)
  then show "c \<le> clock op 0" by simp
  show "clock op i \<le> clock op j" if "i \<le> j" "j < 7"
    using sorted_nth_mono [OF s, of i j] that by simp
qed

text \<open>A limiter of any kind: it keeps a history of events, adds at most one per operation, and allows a
  counted operation only when the events of the last window, its own included, are within the
  limit. Then no window sees more allowed operations than the limit.\<close>

locale window_limiter =
  fixes step :: "'op \<Rightarrow> 's \<Rightarrow> 's \<times> bool"
    and clock :: "'op \<Rightarrow> nat \<Rightarrow> instant"
    and counts :: "'op \<Rightarrow> bool"
    and okay :: "'op \<Rightarrow> bool"
    and inv :: "instant \<Rightarrow> instant list \<Rightarrow> 's \<Rightarrow> bool"
    and W :: nat and limit :: nat
  assumes inv_step: "inv c hist s \<Longrightarrow> okay op \<Longrightarrow> sorted (c # readings clock op) \<Longrightarrow>
      Suc (length hist) < 2 ^ 32 \<Longrightarrow>
      \<exists>new. length new \<le> 1 \<and> inv (clock op 6) (hist @ new) (fst (step op s)) \<and>
        (counts op \<and> snd (step op s) \<longrightarrow>
           (\<exists>t. new = [t] \<and> clock op 0 \<le> t) \<and>
           length (filter (\<lambda>t. clock op 6 - t \<le> W) (hist @ new)) \<le> limit)"
begin

definition from_time :: "instant \<Rightarrow> ('op \<times> bool) list \<Rightarrow> nat" where
  "from_time a tr = length (filter (\<lambda>(op, ok). ok \<and> counts op \<and> a \<le> clock op 0) tr)"

lemma within_le_from: "allowed_within clock counts a W tr \<le> from_time a tr"
  unfolding allowed_within_def from_time_def by (induction tr) auto

lemma run_inv:
  "inv c [] s \<Longrightarrow> list_all okay ops \<Longrightarrow> clocks_ok clock c ops \<Longrightarrow> length ops < 2 ^ 32 \<Longrightarrow>
   \<exists>hist. inv (clock_after clock c ops) hist (run_state step s ops) \<and> length hist \<le> length ops \<and>
     (\<forall>a. from_time a (outcomes step s ops) \<le> length (filter ((\<le>) a) hist)) \<and>
     (\<forall>a. allowed_within clock counts a W (outcomes step s ops) \<le> limit)"
proof (induction ops rule: rev_induct)
  case Nil
  then show ?case by (auto simp: from_time_def allowed_within_def)
next
  case (snoc op ops)
  let ?s = "run_state step s ops" and ?tr = "outcomes step s ops"
  from snoc obtain hist where hist: "inv (clock_after clock c ops) hist ?s"
      "length hist \<le> length ops" "\<And>a. from_time a ?tr \<le> length (filter ((\<le>) a) hist)"
      "\<And>a. allowed_within clock counts a W ?tr \<le> limit"
    by (auto simp: clocks_ok_snoc)
  from snoc.prems hist(2) have small: "Suc (length hist) < 2 ^ 32" by simp
  from snoc.prems have "okay op" "sorted (clock_after clock c ops # readings clock op)"
    by (auto simp: clocks_ok_snoc)
  from inv_step [OF hist(1) this small] obtain new where new: "length new \<le> 1"
      "inv (clock op 6) (hist @ new) (fst (step op ?s))"
    and acc: "counts op \<and> snd (step op ?s) \<Longrightarrow> (\<exists>t. new = [t] \<and> clock op 0 \<le> t) \<and>
           length (filter (\<lambda>t. clock op 6 - t \<le> W) (hist @ new)) \<le> limit" by blast
  let ?tr' = "?tr @ [(op, snd (step op ?s))]"
  have count: "from_time a ?tr' \<le> length (filter ((\<le>) a) (hist @ new))" for a
  proof (cases "counts op \<and> snd (step op ?s)")
    case True
    with acc obtain t where "new = [t]" "clock op 0 \<le> t" by blast
    with hist(3) [of a] show ?thesis by (simp add: from_time_def)
  next
    case False
    with hist(3) [of a] show ?thesis by (auto simp: from_time_def)
  qed
  have "allowed_within clock counts a W ?tr' \<le> limit" for a
  proof (cases "snd (step op ?s) \<and> counts op \<and> a \<le> clock op 0 \<and> clock op 6 \<le> a + W")
    case True
    have "allowed_within clock counts a W ?tr' \<le> length (filter ((\<le>) a) (hist @ new))"
      using within_le_from count order_trans by blast
    also have "\<dots> \<le> length (filter (\<lambda>t. clock op 6 - t \<le> W) (hist @ new))"
      using True by (intro length_filter_mono) auto
    also have "\<dots> \<le> limit" using acc True by blast
    finally show ?thesis .
  next
    case False
    then have "allowed_within clock counts a W ?tr' = allowed_within clock counts a W ?tr"
      by (auto simp: allowed_within_def)
    with hist(4) show ?thesis by simp
  qed
  with new count hist(2) show ?case
    by (intro exI [of _ "hist @ new"]) (auto simp: run_state_snoc outcomes_snoc)
qed

lemma allowed_bounded:
  "inv c [] s \<Longrightarrow> list_all okay ops \<Longrightarrow> clocks_ok clock c ops \<Longrightarrow> length ops < 2 ^ 32 \<Longrightarrow>
   allowed_within clock counts a W (outcomes step s ops) \<le> limit"
  using run_inv by blast

end

section \<open>The windows of the limiter\<close>

text \<open>A window that keeps of the history \<open>hist\<close> everything that is still in the window at time \<open>c\<close>.\<close>

definition window_ok :: "u64 \<Rightarrow> instant \<Rightarrow> instant list \<Rightarrow> event_window \<Rightarrow> bool" where
  "window_ok ws c hist w \<longleftrightarrow> ew_window_duration_secs w = ws \<and>
     (\<exists>old. hist = old @ ew_events w \<and> (\<forall>t\<in>set old. secs ws < c - t))"

lemma window_ok_new: "window_ok ws c [] (event_window_new ws)"
  by (simp add: window_ok_def event_window_new_def)

lemma window_ok_mono: "window_ok ws c hist w \<Longrightarrow> c \<le> c' \<Longrightarrow> window_ok ws c' hist w"
proof -
  assume "window_ok ws c hist w" "c \<le> c'"
  then obtain old where "ew_window_duration_secs w = ws" "hist = old @ ew_events w"
    "\<forall>t\<in>set old. secs ws < c' - t" unfolding window_ok_def by fastforce
  then show ?thesis unfolding window_ok_def by blast
qed

lemma window_ok_old: "\<forall>t\<in>set hist. secs ws < c - t \<Longrightarrow> window_ok ws c hist (event_window_new ws)"
  by (simp add: window_ok_def event_window_new_def)

lemma window_ok_cleanup:
  assumes "window_ok ws c hist w" and "c \<le> now"
  shows "window_ok ws now hist (cleanup_old_events now w)"
proof -
  from window_ok_mono [OF assms] obtain old where old: "ew_window_duration_secs w = ws"
    "hist = old @ ew_events w" "\<forall>t\<in>set old. secs ws < now - t" by (auto simp: window_ok_def)
  let ?P = "\<lambda>t. secs ws < now - t"
  have "hist = (old @ takeWhile ?P (ew_events w)) @ dropWhile ?P (ew_events w)"
    by (simp add: old(2))
  moreover have "\<forall>t\<in>set (old @ takeWhile ?P (ew_events w)). ?P t"
    using old(3) by (auto dest: set_takeWhileD)
  ultimately show ?thesis
    using old(1) unfolding window_ok_def cleanup_old_events_def by fastforce
qed

lemma window_ok_add:
  assumes "window_ok ws c hist w" and "c \<le> now0" and "now0 \<le> now1"
  shows "window_ok ws now1 (hist @ [now0]) (snd (add_event now0 now1 w))"
proof -
  from assms(1) have "window_ok ws c (hist @ [now0]) (w\<lparr>ew_events := ew_events w @ [now0]\<rparr>)"
    by (auto simp: window_ok_def)
  from window_ok_cleanup [OF this, of now1] assms(2,3) show ?thesis
    by (simp add: add_event_def Let_def)
qed

lemma window_ok_count:
  assumes "window_ok ws c hist w"
  shows "length (filter (\<lambda>t. c - t \<le> secs ws) hist) \<le> length (ew_events w)"
proof -
  from assms obtain old where old: "hist = old @ ew_events w" "\<forall>t\<in>set old. secs ws < c - t"
    by (auto simp: window_ok_def)
  then have "filter (\<lambda>t. c - t \<le> secs ws) old = []" by (simp add: filter_empty_conv not_le)
  with old(1) show ?thesis by simp
qed

lemma add_event_within:
  assumes "window_ok ws c hist w" and "c \<le> now0" and "now0 \<le> now1" and "Suc (length hist) < 2 ^ 32"
    and "\<not> limit < fst (add_event now0 now1 w)" and "now1 \<le> now2"
  shows "length (filter (\<lambda>t. now2 - t \<le> secs ws) (hist @ [now0])) \<le> unat limit"
proof -
  let ?w = "snd (add_event now0 now1 w)"
  have ok: "window_ok ws now1 (hist @ [now0]) ?w" by (rule window_ok_add [OF assms(1,2,3)])
  then have "length (ew_events ?w) \<le> Suc (length hist)" by (auto simp: window_ok_def dest: arg_cong [of _ _ length])
  with assms(4) have "unat (word_of_nat (length (ew_events ?w)) :: u32) = length (ew_events ?w)"
    by (simp add: unat_of_nat)
  then have "length (ew_events ?w) \<le> unat limit"
    using assms(5) by (simp add: add_event_def Let_def not_less word_le_nat_alt)
  moreover have "length (filter (\<lambda>t. now2 - t \<le> secs ws) (hist @ [now0])) \<le>
      length (filter (\<lambda>t. now1 - t \<le> secs ws) (hist @ [now0]))"
    using assms(6) by (intro length_filter_mono) linarith
  ultimately show ?thesis using window_ok_count [OF ok] by simp
qed

lemma window_ok_get_count:
  "window_ok ws c hist w \<Longrightarrow> c \<le> now \<Longrightarrow> window_ok ws now hist (snd (get_count now w))"
  by (simp add: get_count_def Let_def window_ok_cleanup)

section \<open>What an operation does to the state\<close>

definition touched_peer :: "(nat \<Rightarrow> instant) \<Rightarrow> rate_limiter \<Rightarrow> peer_id \<Rightarrow> peer_limits" where
  "touched_peer now rl pid =
     update_access_time (now 4) (entry_or_new (now 3) (limiter_cleanup_old_peers (now 2) rl) pid)"

lemma check_message_cases:
  fixes now rl pid
  defines "gw \<equiv> add_event (now 0) (now 1) (rl_global_message_window rl)"
  defines "rl1 \<equiv> rl\<lparr>rl_global_message_window := snd gw\<rparr>"
  defines "l \<equiv> touched_peer now rl1 pid"
  defines "pw \<equiv> add_event (now 5) (now 6) (pl_message_window l)"
  shows "(global_messages_per_window (rl_config rl) < fst gw \<and>
      limiter_step (CheckMessage pid now) rl = (rl1, False)) \<or>
    (\<not> global_messages_per_window (rl_config rl) < fst gw \<and>
      limiter_step (CheckMessage pid now) rl =
        ((limiter_cleanup_old_peers (now 2) rl1)\<lparr>rl_peer_limits :=
           map_put pid (l\<lparr>pl_message_window := snd pw\<rparr>)
             (rl_peer_limits (limiter_cleanup_old_peers (now 2) rl1))\<rparr>,
         \<not> messages_per_peer_per_window (rl_config rl) < fst pw))"
  by (simp add: check_message_allowed_def assms touched_peer_def Let_def limiter_cleanup_old_peers_def
      split: prod.split)

lemma check_connection_cases:
  fixes now rl pid
  defines "gw \<equiv> add_event (now 0) (now 1) (rl_global_connection_window rl)"
  defines "rl1 \<equiv> rl\<lparr>rl_global_connection_window := snd gw\<rparr>"
  defines "l \<equiv> touched_peer now rl1 pid"
  defines "pw \<equiv> add_event (now 5) (now 6) (pl_connection_window l)"
  shows "(global_connections_per_window (rl_config rl) < fst gw \<and>
      limiter_step (CheckConnection pid now) rl = (rl1, False)) \<or>
    (\<not> global_connections_per_window (rl_config rl) < fst gw \<and>
      limiter_step (CheckConnection pid now) rl =
        ((limiter_cleanup_old_peers (now 2) rl1)\<lparr>rl_peer_limits :=
           map_put pid (l\<lparr>pl_connection_window := snd pw\<rparr>)
             (rl_peer_limits (limiter_cleanup_old_peers (now 2) rl1))\<rparr>,
         \<not> connections_per_peer_per_window (rl_config rl) < fst pw))"
  by (simp add: check_connection_allowed_def assms touched_peer_def Let_def
      limiter_cleanup_old_peers_def split: prod.split)

lemma cleanup_peers_keeps [simp]:
  "rl_config (limiter_cleanup_old_peers now rl) = rl_config rl"
  "rl_global_message_window (limiter_cleanup_old_peers now rl) = rl_global_message_window rl"
  "rl_global_connection_window (limiter_cleanup_old_peers now rl) = rl_global_connection_window rl"
  by (simp_all add: limiter_cleanup_old_peers_def Let_def)

lemma get_stats_windows:
  "rl_config (fst (get_stats now rl)) = rl_config rl"
  "rl_global_message_window (fst (get_stats now rl)) =
     snd (get_count (now 1) (rl_global_message_window rl))"
  "rl_global_connection_window (fst (get_stats now rl)) =
     snd (get_count (now 2) (rl_global_connection_window rl))"
  "rl_peer_limits (fst (get_stats now rl)) = rl_peer_limits (limiter_cleanup_old_peers (now 0) rl)"
  by (simp_all add: get_stats_def Let_def split: prod.split)

section \<open>The global limits\<close>

definition message_inv :: "rate_limit_config \<Rightarrow> instant \<Rightarrow> instant list \<Rightarrow> rate_limiter \<Rightarrow> bool" where
  "message_inv cfg c hist rl \<longleftrightarrow> rl_config rl = cfg \<and>
     window_ok (window_duration_secs cfg) c hist (rl_global_message_window rl)"

definition connection_inv :: "rate_limit_config \<Rightarrow> instant \<Rightarrow> instant list \<Rightarrow> rate_limiter \<Rightarrow> bool" where
  "connection_inv cfg c hist rl \<longleftrightarrow> rl_config rl = cfg \<and>
     window_ok (window_duration_secs cfg) c hist (rl_global_connection_window rl)"

lemma message_inv_new: "message_inv cfg c [] (rate_limiter_new cfg)"
  by (simp add: message_inv_def rate_limiter_new_def window_ok_new)

lemma connection_inv_new: "connection_inv cfg c [] (rate_limiter_new cfg)"
  by (simp add: connection_inv_def rate_limiter_new_def window_ok_new)

interpretation global_messages: window_limiter limiter_step op_clock is_message "\<lambda>op. True"
  "message_inv cfg" "secs (window_duration_secs cfg)" "unat (global_messages_per_window cfg)"
  for cfg
proof
  fix c hist rl op
  let ?W = "window_duration_secs cfg"
  assume inv: "message_inv cfg c hist rl" and srt: "sorted (c # readings op_clock op)"
    and len: "Suc (length hist) < 2 ^ 32"
  note le = sorted_readings [OF srt]
  have wok: "window_ok ?W c hist (rl_global_message_window rl)" and cfg: "rl_config rl = cfg"
    using inv by (auto simp: message_inv_def)
  show "\<exists>new. length new \<le> 1 \<and> message_inv cfg (op_clock op 6) (hist @ new) (fst (limiter_step op rl)) \<and>
    (is_message op \<and> snd (limiter_step op rl) \<longrightarrow> (\<exists>t. new = [t] \<and> op_clock op 0 \<le> t) \<and>
      length (filter (\<lambda>t. op_clock op 6 - t \<le> secs ?W) (hist @ new)) \<le>
        unat (global_messages_per_window cfg))"
  proof (cases op)
    case (CheckMessage pid now)
    then have t: "c \<le> now 0" "now 0 \<le> now 1" "now 1 \<le> now 6" using le(1) le(2) [of 0 1] le(2) [of 1 6] by auto
    have ok: "window_ok ?W (now 6) (hist @ [now 0])
        (snd (add_event (now 0) (now 1) (rl_global_message_window rl)))"
      using window_ok_mono [OF window_ok_add [OF wok t(1,2)] t(3)] .
    show ?thesis
      using check_message_cases [of rl now pid] ok add_event_within [OF wok t(1,2) len _ t(3)] cfg
      by (intro exI [of _ "[now 0]"]) (auto simp: CheckMessage message_inv_def simp del: limiter_step.simps)
  next
    case (CheckConnection pid now)
    then have "c \<le> now 6" using le(1) le(2) [of 0 6] by auto
    with window_ok_mono [OF wok] check_connection_cases [of rl now pid] cfg show ?thesis
      by (intro exI [of _ "[]"]) (auto simp: CheckConnection message_inv_def simp del: limiter_step.simps)
  next
    case (GetStats now)
    then have t: "c \<le> now 1" "now 1 \<le> now 6" using le(1) le(2) [of 0 1] le(2) [of 1 6] by auto
    from window_ok_mono [OF window_ok_get_count [OF wok t(1)] t(2)] cfg show ?thesis
      by (intro exI [of _ "[]"]) (simp add: GetStats message_inv_def get_stats_windows)
  qed
qed

interpretation global_connections: window_limiter limiter_step op_clock is_connection "\<lambda>op. True"
  "connection_inv cfg" "secs (window_duration_secs cfg)" "unat (global_connections_per_window cfg)"
  for cfg
proof
  fix c hist rl op
  let ?W = "window_duration_secs cfg"
  assume inv: "connection_inv cfg c hist rl" and srt: "sorted (c # readings op_clock op)"
    and len: "Suc (length hist) < 2 ^ 32"
  note le = sorted_readings [OF srt]
  have wok: "window_ok ?W c hist (rl_global_connection_window rl)" and cfg: "rl_config rl = cfg"
    using inv by (auto simp: connection_inv_def)
  show "\<exists>new. length new \<le> 1 \<and> connection_inv cfg (op_clock op 6) (hist @ new) (fst (limiter_step op rl)) \<and>
    (is_connection op \<and> snd (limiter_step op rl) \<longrightarrow> (\<exists>t. new = [t] \<and> op_clock op 0 \<le> t) \<and>
      length (filter (\<lambda>t. op_clock op 6 - t \<le> secs ?W) (hist @ new)) \<le>
        unat (global_connections_per_window cfg))"
  proof (cases op)
    case (CheckConnection pid now)
    then have t: "c \<le> now 0" "now 0 \<le> now 1" "now 1 \<le> now 6" using le(1) le(2) [of 0 1] le(2) [of 1 6] by auto
    have ok: "window_ok ?W (now 6) (hist @ [now 0])
        (snd (add_event (now 0) (now 1) (rl_global_connection_window rl)))"
      using window_ok_mono [OF window_ok_add [OF wok t(1,2)] t(3)] .
    show ?thesis
      using check_connection_cases [of rl now pid] ok add_event_within [OF wok t(1,2) len _ t(3)] cfg
      by (intro exI [of _ "[now 0]"]) (auto simp: CheckConnection connection_inv_def simp del: limiter_step.simps)
  next
    case (CheckMessage pid now)
    then have "c \<le> now 6" using le(1) le(2) [of 0 6] by auto
    with window_ok_mono [OF wok] check_message_cases [of rl now pid] cfg show ?thesis
      by (intro exI [of _ "[]"]) (auto simp: CheckMessage connection_inv_def simp del: limiter_step.simps)
  next
    case (GetStats now)
    then have t: "c \<le> now 2" "now 2 \<le> now 6" using le(1) le(2) [of 0 2] le(2) [of 2 6] by auto
    from window_ok_mono [OF window_ok_get_count [OF wok t(1)] t(2)] cfg show ?thesis
      by (intro exI [of _ "[]"]) (simp add: GetStats connection_inv_def get_stats_windows)
  qed
qed

section \<open>The limits of a peer\<close>

text \<open>The entry of a peer: its window keeps the recent events, and it was accessed less than a window
  before each of them, so it is not removed as inactive while one of them is in the window. The peers
  of the run are the set \<open>P\<close>, which fits into the table, so that no entry is evicted.\<close>

definition entry_ok ::
    "rate_limit_config \<Rightarrow> (peer_limits \<Rightarrow> event_window) \<Rightarrow> instant \<Rightarrow> instant list \<Rightarrow> peer_limits \<Rightarrow> bool" where
  "entry_ok cfg sel c hist l \<longleftrightarrow>
     window_ok (window_duration_secs cfg) c hist (sel l) \<and> pl_last_access l \<le> c \<and>
     (\<forall>t\<in>set hist. t < pl_last_access l + secs (window_duration_secs cfg))"

definition peer_inv ::
    "rate_limit_config \<Rightarrow> (peer_limits \<Rightarrow> event_window) \<Rightarrow> peer_id set \<Rightarrow> peer_id \<Rightarrow> instant \<Rightarrow> instant list
     \<Rightarrow> rate_limiter \<Rightarrow> bool" where
  "peer_inv cfg sel P pid c hist rl \<longleftrightarrow>
     rl_config rl = cfg \<and> distinct (keys_of (rl_peer_limits rl)) \<and> set (keys_of (rl_peer_limits rl)) \<subseteq> P \<and>
     (case map_of (rl_peer_limits rl) pid of
        None \<Rightarrow> \<forall>t\<in>set hist. secs (window_duration_secs cfg) < c - t
      | Some l \<Rightarrow> entry_ok cfg sel c hist l)"

definition peers_fit :: "rate_limit_config \<Rightarrow> peer_id set \<Rightarrow> bool" where
  "peers_fit cfg P \<longleftrightarrow> finite P \<and> card P \<le> max_tracked_peers cfg \<and>
     unat (window_duration_secs cfg) * 2 < 2 ^ 64"

definition short_op :: "rate_limit_config \<Rightarrow> peer_id set \<Rightarrow> limiter_op \<Rightarrow> bool" where
  "short_op cfg P op \<longleftrightarrow> set (op_peers op) \<subseteq> P \<and>
     op_clock op 6 < op_clock op 0 + secs (window_duration_secs cfg)"

lemma secs_double: "unat w * 2 < 2 ^ 64 \<Longrightarrow> secs (w * 2) = 2 * secs w"
  by (simp add: secs_def unat_word_ariths)

lemma length_le_card:
  "distinct (keys_of m) \<Longrightarrow> set (keys_of m) \<subseteq> P \<Longrightarrow> finite P \<Longrightarrow> length m \<le> card P"
  by (metis card_mono distinct_card length_map)

lemma cleanup_fits:
  assumes "peers_fit cfg P" "rl_config rl = cfg" "distinct (keys_of (rl_peer_limits rl))"
    "set (keys_of (rl_peer_limits rl)) \<subseteq> P"
  shows "rl_peer_limits (limiter_cleanup_old_peers now rl) = active_peers now cfg (rl_peer_limits rl)"
proof -
  have "length (active_peers now cfg (rl_peer_limits rl)) \<le> length (rl_peer_limits rl)"
    by (simp add: active_peers_def)
  also have "\<dots> \<le> max_tracked_peers cfg"
    using length_le_card [OF assms(3,4)] assms(1) by (simp add: peers_fit_def)
  finally show ?thesis using assms(2) by (simp add: limiter_cleanup_old_peers_def Let_def)
qed

lemma peer_inv_cleanup:
  assumes inv: "peer_inv cfg sel P pid c hist rl" and fit: "peers_fit cfg P" and c: "c \<le> now"
  shows "peer_inv cfg sel P pid now hist (limiter_cleanup_old_peers now rl)"
proof -
  let ?W = "secs (window_duration_secs cfg)" and ?ps = "rl_peer_limits rl"
  have cfg: "rl_config rl = cfg" and d: "distinct (keys_of ?ps)" and P: "set (keys_of ?ps) \<subseteq> P"
    using inv by (auto simp: peer_inv_def)
  have W2: "secs (window_duration_secs cfg * 2) = 2 * ?W"
    using fit by (simp add: peers_fit_def secs_double)
  have "set (keys_of (active_peers now cfg ?ps)) \<subseteq> P" using P by (auto simp: active_peers_def)
  moreover have "distinct (keys_of (active_peers now cfg ?ps))"
    using distinct_filter_keys [OF d] by (simp add: active_peers_def)
  moreover have "case map_of (active_peers now cfg ?ps) pid of
      None \<Rightarrow> \<forall>t\<in>set hist. ?W < now - t | Some l \<Rightarrow> entry_ok cfg sel now hist l"
  proof (cases "map_of ?ps pid")
    case None
    with inv c have "\<forall>t\<in>set hist. ?W < now - t" by (fastforce simp: peer_inv_def)
    with None show ?thesis by (simp add: active_peers_def map_of_filter_distinct [OF d])
  next
    case (Some l)
    with inv have l: "entry_ok cfg sel c hist l" by (simp add: peer_inv_def)
    then have "entry_ok cfg sel now hist l"
      using c by (auto simp: entry_ok_def intro: window_ok_mono)
    moreover have "\<forall>t\<in>set hist. ?W < now - t" if "\<not> now - pl_last_access l < 2 * ?W"
    proof
      fix t assume "t \<in> set hist"
      with l have "t < pl_last_access l + ?W" "pl_last_access l \<le> c" by (auto simp: entry_ok_def)
      with that c show "?W < now - t" by linarith
    qed
    ultimately show ?thesis
      by (simp add: active_peers_def map_of_filter_distinct [OF d] Some W2)
  qed
  ultimately show ?thesis
    by (simp add: peer_inv_def cfg cleanup_fits [OF fit cfg d P])
qed

lemma peer_inv_mono:
  "peer_inv cfg sel P pid c hist rl \<Longrightarrow> c \<le> c' \<Longrightarrow> peer_inv cfg sel P pid c' hist rl"
  by (fastforce simp: peer_inv_def entry_ok_def intro: window_ok_mono split: option.splits)

lemma peer_inv_cong:
  "rl_config rl' = rl_config rl \<Longrightarrow> rl_peer_limits rl' = rl_peer_limits rl \<Longrightarrow>
   peer_inv cfg sel P pid c hist rl' = peer_inv cfg sel P pid c hist rl"
  by (simp add: peer_inv_def)

lemma peer_inv_put:
  assumes "peer_inv cfg sel P pid c hist rl" and "q \<in> P" and "c \<le> c'"
    and "q = pid \<Longrightarrow> entry_ok cfg sel c' hist' l" and "q \<noteq> pid \<Longrightarrow> hist' = hist"
  shows "peer_inv cfg sel P pid c' hist' (rl\<lparr>rl_peer_limits := map_put q l (rl_peer_limits rl)\<rparr>)"
proof -
  have "set (keys_of (map_put q l (rl_peer_limits rl))) \<subseteq> P"
    using assms(1,2) keys_put [of q l "rl_peer_limits rl"] by (simp add: peer_inv_def)
  with assms(1) peer_inv_mono [OF assms(1,3)] assms(4,5) show ?thesis
    by (cases "q = pid") (simp_all add: peer_inv_def)
qed

text \<open>The touched entry: its window keeps the history, and the access time is the fourth reading.\<close>

lemma touched_entry_ok:
  assumes inv: "peer_inv cfg sel P pid c hist rl" and fit: "peers_fit cfg P"
    and t: "c \<le> now 2" "now 2 \<le> now 4"
    and sel: "\<And>n. sel (peer_limits_new n cfg) = event_window_new (window_duration_secs cfg)"
      "\<And>l n. sel (update_access_time n l) = sel l"
  shows "entry_ok cfg sel (now 4) hist (touched_peer now rl pid)"
proof -
  let ?rl = "limiter_cleanup_old_peers (now 2) rl" and ?W = "window_duration_secs cfg"
  have inv2: "peer_inv cfg sel P pid (now 2) hist ?rl" by (rule peer_inv_cleanup [OF inv fit t(1)])
  then have cfg: "rl_config rl = cfg" by (simp add: peer_inv_def)
  show ?thesis
  proof (cases "map_of (rl_peer_limits ?rl) pid")
    case None
    with inv2 have "\<forall>x\<in>set hist. secs ?W < now 2 - x" by (simp add: peer_inv_def)
    with t(2) have "\<forall>x\<in>set hist. secs ?W < now 4 - x" by fastforce
    moreover from this have "\<forall>x\<in>set hist. x < now 4 + secs ?W" by fastforce
    ultimately show ?thesis
      by (simp add: entry_ok_def touched_peer_def entry_or_new_def None sel cfg window_ok_old)
        (simp add: update_access_time_def)
  next
    case (Some l)
    with inv2 have l: "entry_ok cfg sel (now 2) hist l" by (simp add: peer_inv_def)
    then have "\<forall>x\<in>set hist. x < now 4 + secs ?W" using t(2) by (fastforce simp: entry_ok_def)
    moreover have "window_ok ?W (now 4) hist (sel l)"
      using l t(2) by (auto simp: entry_ok_def intro: window_ok_mono)
    ultimately show ?thesis
      by (simp add: entry_ok_def touched_peer_def entry_or_new_def Some sel)
        (simp add: update_access_time_def)
  qed
qed

lemma entry_ok_add:
  assumes "entry_ok cfg sel c hist l" "c \<le> now0" "now0 \<le> now1"
    and "now0 < pl_last_access l + secs (window_duration_secs cfg)"
    and "sel l' = snd (add_event now0 now1 (sel l))" "pl_last_access l' = pl_last_access l"
  shows "entry_ok cfg sel now1 (hist @ [now0]) l'"
  using assms window_ok_add [of "window_duration_secs cfg" c hist "sel l" now0 now1]
  by (auto simp: entry_ok_def)

lemma peer_inv_new: "peer_inv cfg sel P pid c [] (rate_limiter_new cfg)"
  by (simp add: peer_inv_def rate_limiter_new_def)

lemma touched_last_access: "pl_last_access (touched_peer now rl pid) = now 4"
  by (simp add: touched_peer_def update_access_time_def)

lemma entry_ok_mono:
  "entry_ok cfg sel c hist l \<Longrightarrow> c \<le> c' \<Longrightarrow> sel l' = sel l \<Longrightarrow> pl_last_access l' = pl_last_access l \<Longrightarrow>
   entry_ok cfg sel c' hist l'"
  by (auto simp: entry_ok_def intro: window_ok_mono)


definition limited_inv ::
    "rate_limit_config \<Rightarrow> (peer_limits \<Rightarrow> event_window) \<Rightarrow> peer_id set \<Rightarrow> peer_id \<Rightarrow> instant \<Rightarrow> instant list
     \<Rightarrow> rate_limiter \<Rightarrow> bool" where
  "limited_inv cfg sel P pid c hist rl \<longleftrightarrow> peers_fit cfg P \<and> peer_inv cfg sel P pid c hist rl"

text \<open>The two windows a peer has, as selectors of its entry.\<close>

definition peer_window :: "(peer_limits \<Rightarrow> event_window) \<Rightarrow> bool" where
  "peer_window sel \<longleftrightarrow>
     (\<forall>n cfg. sel (peer_limits_new n cfg) = event_window_new (window_duration_secs cfg)) \<and>
     (\<forall>n l. sel (update_access_time n l) = sel l)"

lemma peer_windows [simp]: "peer_window pl_message_window" "peer_window pl_connection_window"
  by (simp_all add: peer_window_def peer_limits_new_def update_access_time_def)

lemma limited_entry_ok:
  assumes "limited_inv cfg sel P pid c hist rl" "peer_window sel" "c \<le> now 2" "now 2 \<le> now 4"
  shows "entry_ok cfg sel (now 4) hist (touched_peer now rl pid)"
proof (rule touched_entry_ok)
  show "peer_inv cfg sel P pid c hist rl" "peers_fit cfg P"
    using assms(1) by (simp_all add: limited_inv_def)
  show "sel (peer_limits_new n cfg) = event_window_new (window_duration_secs cfg)"
    "sel (update_access_time n l) = sel l" for n l
    using assms(2) by (simp_all add: peer_window_def)
qed (fact assms)+

lemma limited_window_ok:
  assumes "limited_inv cfg sel P pid c hist rl" "peer_window sel" "c \<le> now 2" "now 2 \<le> now 4"
  shows "window_ok (window_duration_secs cfg) (now 4) hist (sel (touched_peer now rl pid))"
  using limited_entry_ok [OF assms] by (simp add: entry_ok_def)

lemma peer_step_uncounted:
  assumes "limited_inv cfg sel P pid c hist rl" "peer_window sel" "q \<in> P"
    and "c \<le> now 2" "now 2 \<le> now 4" "now 4 \<le> c'"
    and "sel l = sel (touched_peer now rl q)" "pl_last_access l = now 4"
  shows "limited_inv cfg sel P pid c' hist ((limiter_cleanup_old_peers (now 2) rl)
    \<lparr>rl_peer_limits := map_put q l (rl_peer_limits (limiter_cleanup_old_peers (now 2) rl))\<rparr>)"
proof -
  have fit: "peers_fit cfg P" and inv: "peer_inv cfg sel P pid c hist rl"
    using assms(1) by (auto simp: limited_inv_def)
  have "entry_ok cfg sel c' hist l" if "q = pid"
    by (rule entry_ok_mono [OF limited_entry_ok [OF assms(1,2,4,5)] assms(6)])
      (use assms(7,8) that in \<open>simp_all add: touched_last_access\<close>)
  with peer_inv_put [OF peer_inv_cleanup [OF inv fit assms(4)] assms(3)] fit assms(5,6)
  show ?thesis by (simp add: limited_inv_def)
qed

lemma peer_step_counted:
  assumes "limited_inv cfg sel P pid c hist rl" "peer_window sel" "pid \<in> P"
    and "c \<le> now 2" "now 2 \<le> now 4" "now 4 \<le> now 5" "now 5 \<le> now 6"
    and "now 5 < now 4 + secs (window_duration_secs cfg)"
    and "sel l = snd (add_event (now 5) (now 6) (sel (touched_peer now rl pid)))"
    and "pl_last_access l = now 4"
  shows "limited_inv cfg sel P pid (now 6) (hist @ [now 5]) ((limiter_cleanup_old_peers (now 2) rl)
      \<lparr>rl_peer_limits := map_put pid l (rl_peer_limits (limiter_cleanup_old_peers (now 2) rl))\<rparr>)"
proof -
  have fit: "peers_fit cfg P" and inv: "peer_inv cfg sel P pid c hist rl"
    using assms(1) by (auto simp: limited_inv_def)
  note ok = limited_entry_ok [OF assms(1,2,4,5)]
  have "entry_ok cfg sel (now 6) (hist @ [now 5]) l"
    using assms(6-10) by (intro entry_ok_add [OF ok]) (auto simp: touched_last_access)
  with peer_inv_put [OF peer_inv_cleanup [OF inv fit assms(4)] assms(3)] fit assms(5-7)
  show "limited_inv cfg sel P pid (now 6) (hist @ [now 5]) ((limiter_cleanup_old_peers (now 2) rl)
      \<lparr>rl_peer_limits := map_put pid l (rl_peer_limits (limiter_cleanup_old_peers (now 2) rl))\<rparr>)"
    by (simp add: limited_inv_def)
qed

lemma limited_inv_cong:
  "limited_inv cfg sel P pid c hist rl \<Longrightarrow> c \<le> c' \<Longrightarrow> rl_config rl' = rl_config rl \<Longrightarrow>
   rl_peer_limits rl' = rl_peer_limits rl \<Longrightarrow> limited_inv cfg sel P pid c' hist rl'"
  unfolding limited_inv_def using peer_inv_cong peer_inv_mono by blast

lemma limited_inv_stats:
  "limited_inv cfg sel P pid c hist rl \<Longrightarrow> c \<le> now 0 \<Longrightarrow> now 0 \<le> c' \<Longrightarrow>
   limited_inv cfg sel P pid c' hist (fst (get_stats now rl))"
  unfolding limited_inv_def
  by (metis peer_inv_cleanup peer_inv_cong peer_inv_mono get_stats_windows(1,4) cleanup_peers_keeps(1))

lemma peer_step_other:
  assumes "limited_inv cfg sel P pid c hist rl" "q \<noteq> pid" "q \<in> P"
    and "c \<le> now 2" "now 2 \<le> now 4" "now 4 \<le> c'"
  shows "limited_inv cfg sel P pid c' hist ((limiter_cleanup_old_peers (now 2) rl)
    \<lparr>rl_peer_limits := map_put q l (rl_peer_limits (limiter_cleanup_old_peers (now 2) rl))\<rparr>)"
proof -
  have fit: "peers_fit cfg P" and inv: "peer_inv cfg sel P pid c hist rl"
    using assms(1) by (auto simp: limited_inv_def)
  from peer_inv_put [OF peer_inv_cleanup [OF inv fit assms(4)] assms(3)] fit assms(2,5,6)
  show ?thesis by (simp add: limited_inv_def)
qed

fun message_from :: "peer_id \<Rightarrow> limiter_op \<Rightarrow> bool" where
  "message_from pid (CheckMessage q now) = (q = pid)"
| "message_from pid _ = False"

fun connection_from :: "peer_id \<Rightarrow> limiter_op \<Rightarrow> bool" where
  "connection_from pid (CheckConnection q now) = (q = pid)"
| "connection_from pid _ = False"

text \<open>A check that counts for the window \<open>sel\<close> (of messages or of connections) as far as the entry of
  \<open>pid\<close> is concerned: rejected globally, or made by \<open>pid\<close>, or made by another peer.\<close>

lemma counted_check:
  assumes inv: "limited_inv cfg sel P pid c hist rl" and sel: "peer_window sel" and q: "q \<in> P"
    and t: "c \<le> now 2" "now 2 \<le> now 4" "now 4 \<le> now 5" "now 5 \<le> now 6" "now 0 \<le> now 5"
      "now 5 < now 4 + secs (window_duration_secs cfg)"
    and len: "Suc (length hist) < 2 ^ 32"
    and l: "sel l = snd (add_event (now 5) (now 6) (sel (touched_peer now rl q)))"
      "pl_last_access l = now 4"
    and res: "res = (rl, False) \<or> res = ((limiter_cleanup_old_peers (now 2) rl)\<lparr>rl_peer_limits :=
        map_put q l (rl_peer_limits (limiter_cleanup_old_peers (now 2) rl))\<rparr>,
      \<not> limit < fst (add_event (now 5) (now 6) (sel (touched_peer now rl q))))"
  shows "\<exists>new. length new \<le> 1 \<and> limited_inv cfg sel P pid (now 6) (hist @ new) (fst res) \<and>
    (q = pid \<and> snd res \<longrightarrow> (\<exists>t. new = [t] \<and> now 0 \<le> t) \<and>
      length (filter (\<lambda>t. now 6 - t \<le> secs (window_duration_secs cfg)) (hist @ new)) \<le> unat limit)"
  (is "\<exists>new. ?P new")
  using res
proof
  assume "res = (rl, False)"
  with limited_inv_cong [OF inv, of "now 6" rl] t have "?P []" by simp
  then show ?thesis ..
next
  assume res: "res = ((limiter_cleanup_old_peers (now 2) rl)\<lparr>rl_peer_limits :=
      map_put q l (rl_peer_limits (limiter_cleanup_old_peers (now 2) rl))\<rparr>,
    \<not> limit < fst (add_event (now 5) (now 6) (sel (touched_peer now rl q))))"
  show ?thesis
  proof (cases "q = pid")
    case True
    have "limited_inv cfg sel P pid (now 6) (hist @ [now 5]) (fst res)"
      unfolding res fst_conv unfolding True
      by (rule peer_step_counted [OF inv sel _ t(1-4,6)]) (use q l True in simp_all)
    moreover have "length (filter (\<lambda>t. now 6 - t \<le> secs (window_duration_secs cfg)) (hist @ [now 5])) \<le>
        unat limit" if "snd res"
      using that unfolding res snd_conv unfolding True
      by (intro add_event_within [OF limited_window_ok [OF inv sel t(1,2)] t(3,4) len _ order_refl])
    ultimately have "?P [now 5]" using t(5) by (auto simp del: filter.simps filter_append)
    then show ?thesis ..
  next
    case False
    have "now 4 \<le> now 6" using t by simp
    from peer_step_other [OF inv False q t(1,2) this, of l] False have "?P []" by (simp add: res)
    then show ?thesis ..
  qed
qed

lemma op_times:
  assumes srt: "sorted (c # readings op_clock op)" and short: "short_op cfg P op"
  shows "c \<le> op_clock op 2" "op_clock op 2 \<le> op_clock op 4" "op_clock op 4 \<le> op_clock op 5"
    "op_clock op 5 \<le> op_clock op 6" "op_clock op 0 \<le> op_clock op 5"
    "op_clock op 5 < op_clock op 4 + secs (window_duration_secs cfg)"
    "op_clock op 4 \<le> op_clock op 6" "c \<le> op_clock op 6" "c \<le> op_clock op 0" "op_clock op 0 \<le> op_clock op 6"
proof -
  note le = sorted_readings [OF srt]
  show "c \<le> op_clock op 2" "op_clock op 2 \<le> op_clock op 4" "op_clock op 4 \<le> op_clock op 5"
    "op_clock op 5 \<le> op_clock op 6" "op_clock op 0 \<le> op_clock op 5"
    "op_clock op 5 < op_clock op 4 + secs (window_duration_secs cfg)"
    "op_clock op 4 \<le> op_clock op 6" "c \<le> op_clock op 6" "c \<le> op_clock op 0" "op_clock op 0 \<le> op_clock op 6"
    using le(1) le(2) [of 0 2] le(2) [of 2 4] le(2) [of 4 5] le(2) [of 5 6] le(2) [of 0 4] short
    by (auto simp: short_op_def)
qed

interpretation peer_messages: window_limiter limiter_step op_clock "message_from pid" "short_op cfg P"
  "limited_inv cfg pl_message_window P pid" "secs (window_duration_secs cfg)"
  "unat (messages_per_peer_per_window cfg)"
  for cfg P pid
proof
  fix c hist rl op
  let ?W = "window_duration_secs cfg" and ?inv = "limited_inv cfg pl_message_window P pid"
  assume inv: "?inv c hist rl" and short: "short_op cfg P op"
    and srt: "sorted (c # readings op_clock op)" and len: "Suc (length hist) < 2 ^ 32"
  have cfg: "rl_config rl = cfg" using inv by (simp add: limited_inv_def peer_inv_def)
  show "\<exists>new. length new \<le> 1 \<and> ?inv (op_clock op 6) (hist @ new) (fst (limiter_step op rl)) \<and>
    (message_from pid op \<and> snd (limiter_step op rl) \<longrightarrow> (\<exists>t. new = [t] \<and> op_clock op 0 \<le> t) \<and>
      length (filter (\<lambda>t. op_clock op 6 - t \<le> secs ?W) (hist @ new)) \<le>
        unat (messages_per_peer_per_window cfg))"
  proof (cases op)
    case (CheckMessage q now)
    note t = op_times [OF srt short, unfolded CheckMessage op_clock.simps]
    let ?rl = "rl\<lparr>rl_global_message_window :=
      snd (add_event (now 0) (now 1) (rl_global_message_window rl))\<rparr>"
    have inv1: "?inv c hist ?rl" by (rule limited_inv_cong [OF inv]) auto
    have "q \<in> P" using short CheckMessage by (simp add: short_op_def)
    from counted_check [OF inv1 peer_windows(1) this t(1-6) len,
        of "(touched_peer now ?rl q)\<lparr>pl_message_window := snd (add_event (now 5) (now 6)
              (pl_message_window (touched_peer now ?rl q)))\<rparr>"
          "limiter_step op rl" "messages_per_peer_per_window cfg"]
    show ?thesis using check_message_cases [of rl now q]
      unfolding CheckMessage op_clock.simps message_from.simps cfg
      by (auto simp: touched_last_access simp del: limiter_step.simps)
  next
    case (CheckConnection q now)
    note t = op_times [OF srt short, unfolded CheckConnection op_clock.simps]
    let ?rl = "rl\<lparr>rl_global_connection_window :=
      snd (add_event (now 0) (now 1) (rl_global_connection_window rl))\<rparr>"
    have inv1: "?inv c hist ?rl" by (rule limited_inv_cong [OF inv]) auto
    have "q \<in> P" using short CheckConnection by (simp add: short_op_def)
    from peer_step_uncounted [OF inv1 peer_windows(1) this t(1,2,7)] limited_inv_cong [OF inv1 t(8)]
      check_connection_cases [of rl now q]
    show ?thesis
      by (intro exI [of _ "[]"])
        (auto simp: CheckConnection touched_last_access simp del: limiter_step.simps)
  next
    case (GetStats now)
    note t = op_times [OF srt short, unfolded GetStats op_clock.simps]
    show ?thesis using limited_inv_stats [of _ _ _ _ _ _ _ now, OF inv t(9,10)]
      by (intro exI [of _ "[]"]) (simp add: GetStats)
  qed
qed

interpretation peer_connections: window_limiter limiter_step op_clock "connection_from pid" "short_op cfg P"
  "limited_inv cfg pl_connection_window P pid" "secs (window_duration_secs cfg)"
  "unat (connections_per_peer_per_window cfg)"
  for cfg P pid
proof
  fix c hist rl op
  let ?W = "window_duration_secs cfg" and ?inv = "limited_inv cfg pl_connection_window P pid"
  assume inv: "?inv c hist rl" and short: "short_op cfg P op"
    and srt: "sorted (c # readings op_clock op)" and len: "Suc (length hist) < 2 ^ 32"
  have cfg: "rl_config rl = cfg" using inv by (simp add: limited_inv_def peer_inv_def)
  show "\<exists>new. length new \<le> 1 \<and> ?inv (op_clock op 6) (hist @ new) (fst (limiter_step op rl)) \<and>
    (connection_from pid op \<and> snd (limiter_step op rl) \<longrightarrow> (\<exists>t. new = [t] \<and> op_clock op 0 \<le> t) \<and>
      length (filter (\<lambda>t. op_clock op 6 - t \<le> secs ?W) (hist @ new)) \<le>
        unat (connections_per_peer_per_window cfg))"
  proof (cases op)
    case (CheckConnection q now)
    note t = op_times [OF srt short, unfolded CheckConnection op_clock.simps]
    let ?rl = "rl\<lparr>rl_global_connection_window :=
      snd (add_event (now 0) (now 1) (rl_global_connection_window rl))\<rparr>"
    have inv1: "?inv c hist ?rl" by (rule limited_inv_cong [OF inv]) auto
    have "q \<in> P" using short CheckConnection by (simp add: short_op_def)
    from counted_check [OF inv1 peer_windows(2) this t(1-6) len,
        of "(touched_peer now ?rl q)\<lparr>pl_connection_window := snd (add_event (now 5) (now 6)
              (pl_connection_window (touched_peer now ?rl q)))\<rparr>"
          "limiter_step op rl" "connections_per_peer_per_window cfg"]
    show ?thesis using check_connection_cases [of rl now q]
      unfolding CheckConnection op_clock.simps connection_from.simps cfg
      by (auto simp: touched_last_access simp del: limiter_step.simps)
  next
    case (CheckMessage q now)
    note t = op_times [OF srt short, unfolded CheckMessage op_clock.simps]
    let ?rl = "rl\<lparr>rl_global_message_window :=
      snd (add_event (now 0) (now 1) (rl_global_message_window rl))\<rparr>"
    have inv1: "?inv c hist ?rl" by (rule limited_inv_cong [OF inv]) auto
    have "q \<in> P" using short CheckMessage by (simp add: short_op_def)
    from peer_step_uncounted [OF inv1 peer_windows(2) this t(1,2,7)] limited_inv_cong [OF inv1 t(8)]
      check_message_cases [of rl now q]
    show ?thesis
      by (intro exI [of _ "[]"])
        (auto simp: CheckMessage touched_last_access simp del: limiter_step.simps)
  next
    case (GetStats now)
    note t = op_times [OF srt short, unfolded GetStats op_clock.simps]
    show ?thesis using limited_inv_stats [of _ _ _ _ _ _ _ now, OF inv t(9,10)]
      by (intro exI [of _ "[]"]) (simp add: GetStats)
  qed
qed

section \<open>Properties\<close>

lemma limited_inv_new:
  "peers_fit cfg P \<Longrightarrow> limited_inv cfg sel P pid c [] (rate_limiter_new cfg)"
  by (simp add: limited_inv_def peer_inv_new)

text \<open>However the operations of the limiter are mixed, the messages it allows within any interval
  as long as the window are at most \<^verbatim>\<open>global_messages_per_window\<close>, and the connections at most
  \<^verbatim>\<open>global_connections_per_window\<close>.\<close>

theorem rate_limit_global:
  assumes "clocks_ok op_clock c ops" and "length ops < 2 ^ 32"
  shows "allowed_within op_clock is_message a (secs (window_duration_secs cfg))
      (outcomes limiter_step (rate_limiter_new cfg) ops) \<le> unat (global_messages_per_window cfg) \<and>
    allowed_within op_clock is_connection a (secs (window_duration_secs cfg))
      (outcomes limiter_step (rate_limiter_new cfg) ops) \<le> unat (global_connections_per_window cfg)"
  using global_messages.allowed_bounded [OF message_inv_new _ assms]
    global_connections.allowed_bounded [OF connection_inv_new _ assms]
  by (simp add: list.pred_True)

definition tiny_config :: rate_limit_config where
  "tiny_config = rate_limit_default\<lparr>global_messages_per_window := 2, messages_per_peer_per_window := 1\<rparr>"

text \<open>Three messages of two peers at times 10, 20 and 30.\<close>

definition tiny_ops :: "limiter_op list" where
  "tiny_ops = [CheckMessage [1] (\<lambda>_. 10), CheckMessage [2] (\<lambda>_. 20), CheckMessage [1] (\<lambda>_. 30)]"

lemma tiny_clocks: "clocks_ok op_clock 0 tiny_ops" and tiny_length: "length tiny_ops < 2 ^ 32"
  by (simp_all add: tiny_ops_def readings_def upt_rec)

theorem rate_limit_global_witness:
  "clocks_ok op_clock 0 tiny_ops \<and> length tiny_ops < 2 ^ 32 \<and>
   allowed_within op_clock is_message 0 (secs 60)
     (outcomes limiter_step (rate_limiter_new tiny_config) tiny_ops) \<le> 2"
  using rate_limit_global [OF tiny_clocks tiny_length, of 0 tiny_config] tiny_clocks tiny_length
  by (simp add: tiny_config_def rate_limit_default_def)

text \<open>As long as the peers fit into the table and every check takes less than a window, the messages
  and connections of one peer that are allowed within any interval as long as the window are at most
  the limits per peer. In particular a peer is not forgotten while its events count.\<close>

theorem rate_limit_per_peer:
  assumes "peers_fit cfg P" and "list_all (short_op cfg P) ops" and "clocks_ok op_clock c ops"
    and "length ops < 2 ^ 32"
  shows "allowed_within op_clock (message_from pid) a (secs (window_duration_secs cfg))
      (outcomes limiter_step (rate_limiter_new cfg) ops) \<le> unat (messages_per_peer_per_window cfg) \<and>
    allowed_within op_clock (connection_from pid) a (secs (window_duration_secs cfg))
      (outcomes limiter_step (rate_limiter_new cfg) ops) \<le> unat (connections_per_peer_per_window cfg)"
  using peer_messages.allowed_bounded [OF limited_inv_new [OF assms(1)] assms(2-4)]
    peer_connections.allowed_bounded [OF limited_inv_new [OF assms(1)] assms(2-4)]
  by simp

lemma tiny_fit: "peers_fit tiny_config {[1], [2]}"
  by (simp add: peers_fit_def tiny_config_def rate_limit_default_def)

lemma tiny_short: "list_all (short_op tiny_config {[1], [2]}) tiny_ops"
  by (simp add: short_op_def tiny_ops_def tiny_config_def rate_limit_default_def secs_def)

theorem rate_limit_per_peer_witness:
  "peers_fit tiny_config {[1], [2]} \<and> list_all (short_op tiny_config {[1], [2]}) tiny_ops \<and>
   allowed_within op_clock (message_from [1]) 0 (secs 60)
     (outcomes limiter_step (rate_limiter_new tiny_config) tiny_ops) \<le> 1"
  using rate_limit_per_peer [OF tiny_fit tiny_short tiny_clocks tiny_length, of "[1]" 0]
    tiny_fit tiny_short
  by (simp add: tiny_config_def rate_limit_default_def)

end
