(* ===== verification/Acknowledgments.thy ===== *)
theory Acknowledgments
  imports App_Message
begin

text \<open>
  Delivery acknowledgments, read receipts and the manager that avoids sending them twice
  (\<^verbatim>\<open>src/crates/bitchat-core/src/protocol/acknowledgments.rs\<close>). The binary form is the one of the
  \<^verbatim>\<open>bincode\<close> crate and is not modelled. A message identifier is the 32 bytes of its content hash.

  A \<^verbatim>\<open>HashSet\<close> is a list without duplicates. The order in which the code iterates over it is not
  specified: \<open>order\<close> is the list of its elements in that order.
\<close>

type_synonym message_id = bytes

datatype receipt_type = ReceiptDelivered | ReceiptRead

record delivery_ack =
  da_message_id :: message_id
  da_to_peer_id :: peer_id
  da_timestamp :: timestamp
  da_recipient_nickname :: "rust_string option"

definition delivery_ack_new ::
    "timestamp \<Rightarrow> message_id \<Rightarrow> peer_id \<Rightarrow> rust_string option \<Rightarrow> delivery_ack" where
  "delivery_ack_new now mid to nickname =
     \<lparr>da_message_id = mid, da_to_peer_id = to, da_timestamp = now, da_recipient_nickname = nickname\<rparr>"

definition delivery_ack_validate :: "delivery_ack \<Rightarrow> unit result" where
  "delivery_ack_validate ack =
     (case da_recipient_nickname ack of
        Some nickname \<Rightarrow>
          if 64 < length nickname
          then Inl (invalid_packet ''Recipient nickname too long in delivery ack'') else Inr ()
      | None \<Rightarrow> Inr ())"

record read_receipt =
  rr_message_id :: message_id
  rr_reader_peer_id :: peer_id
  rr_to_peer_id :: peer_id
  rr_timestamp :: timestamp
  rr_reader_nickname :: "rust_string option"

definition read_receipt_new ::
    "timestamp \<Rightarrow> message_id \<Rightarrow> peer_id \<Rightarrow> peer_id \<Rightarrow> rust_string option \<Rightarrow> read_receipt" where
  "read_receipt_new now mid reader to nickname =
     \<lparr>rr_message_id = mid, rr_reader_peer_id = reader, rr_to_peer_id = to, rr_timestamp = now,
      rr_reader_nickname = nickname\<rparr>"

definition read_receipt_validate :: "read_receipt \<Rightarrow> unit result" where
  "read_receipt_validate r =
     (case rr_reader_nickname r of
        Some nickname \<Rightarrow>
          if 64 < length nickname
          then Inl (invalid_packet ''Reader nickname too long in read receipt'') else Inr ()
      | None \<Rightarrow> Inr ())"

definition ack_payload_type :: "delivery_ack \<Rightarrow> noise_payload_type" where
  "ack_payload_type ack = Delivered"

definition receipt_payload_type :: "read_receipt \<Rightarrow> noise_payload_type" where
  "receipt_payload_type r = ReadReceipt"

section \<open>The receipt manager\<close>

record receipt_manager =
  sent_delivery_acks :: "message_id list"
  sent_read_receipts :: "message_id list"
  send_read_receipts_enabled :: bool
  send_delivery_acks_enabled :: bool

definition receipt_manager_new :: receipt_manager where
  "receipt_manager_new =
     \<lparr>sent_delivery_acks = [], sent_read_receipts = [], send_read_receipts_enabled = True,
      send_delivery_acks_enabled = True\<rparr>"

definition should_send_delivery_ack :: "receipt_manager \<Rightarrow> message_id \<Rightarrow> bool" where
  "should_send_delivery_ack m mid =
     (send_delivery_acks_enabled m \<and> mid \<notin> set (sent_delivery_acks m))"

definition should_send_read_receipt :: "receipt_manager \<Rightarrow> message_id \<Rightarrow> bool" where
  "should_send_read_receipt m mid =
     (send_read_receipts_enabled m \<and> mid \<notin> set (sent_read_receipts m))"

definition mark_delivery_ack_sent :: "message_id \<Rightarrow> receipt_manager \<Rightarrow> receipt_manager" where
  "mark_delivery_ack_sent mid m = m\<lparr>sent_delivery_acks := List.insert mid (sent_delivery_acks m)\<rparr>"

definition mark_read_receipt_sent :: "message_id \<Rightarrow> receipt_manager \<Rightarrow> receipt_manager" where
  "mark_read_receipt_sent mid m = m\<lparr>sent_read_receipts := List.insert mid (sent_read_receipts m)\<rparr>"

definition set_read_receipts_enabled :: "bool \<Rightarrow> receipt_manager \<Rightarrow> receipt_manager" where
  "set_read_receipts_enabled b m = m\<lparr>send_read_receipts_enabled := b\<rparr>"

definition set_delivery_acks_enabled :: "bool \<Rightarrow> receipt_manager \<Rightarrow> receipt_manager" where
  "set_delivery_acks_enabled b m = m\<lparr>send_delivery_acks_enabled := b\<rparr>"

text \<open>Removing the first \<open>excess\<close> elements in the order of the iteration.\<close>

definition trim_set :: "(message_id list \<Rightarrow> message_id list) \<Rightarrow> nat \<Rightarrow> message_id list \<Rightarrow> message_id list" where
  "trim_set order max_entries s =
     (if max_entries < length s then
        (let to_remove = take (length s - max_entries) (order s)
         in filter (\<lambda>x. x \<notin> set to_remove) s)
      else s)"

definition cleanup_old_receipts ::
    "(message_id list \<Rightarrow> message_id list) \<Rightarrow> nat \<Rightarrow> receipt_manager \<Rightarrow> receipt_manager" where
  "cleanup_old_receipts order max_entries m =
     m\<lparr>sent_delivery_acks := trim_set order max_entries (sent_delivery_acks m),
       sent_read_receipts := trim_set order max_entries (sent_read_receipts m)\<rparr>"

record receipt_stats =
  delivery_acks_sent_count :: nat
  read_receipts_sent_count :: nat
  rs_read_receipts_enabled :: bool
  rs_delivery_acks_enabled :: bool

definition receipt_get_stats :: "receipt_manager \<Rightarrow> receipt_stats" where
  "receipt_get_stats m =
     \<lparr>delivery_acks_sent_count = length (sent_delivery_acks m),
      read_receipts_sent_count = length (sent_read_receipts m),
      rs_read_receipts_enabled = send_read_receipts_enabled m,
      rs_delivery_acks_enabled = send_delivery_acks_enabled m\<rparr>"

section \<open>Delivery status with receipts\<close>

datatype enhanced_delivery_status =
    EdsSending
  | EdsSent
  | EdsDelivered peer_id timestamp "rust_string option"
  | EdsRead peer_id timestamp "rust_string option"
  | EdsFailed rust_string

definition from_delivery_ack :: "delivery_ack \<Rightarrow> enhanced_delivery_status" where
  "from_delivery_ack ack =
     EdsDelivered (da_to_peer_id ack) (da_timestamp ack) (da_recipient_nickname ack)"

definition from_read_receipt :: "read_receipt \<Rightarrow> enhanced_delivery_status" where
  "from_read_receipt r = EdsRead (rr_reader_peer_id r) (rr_timestamp r) (rr_reader_nickname r)"

fun is_delivered :: "enhanced_delivery_status \<Rightarrow> bool" where
  "is_delivered (EdsDelivered _ _ _) = True"
| "is_delivered (EdsRead _ _ _) = True"
| "is_delivered _ = False"

fun is_read :: "enhanced_delivery_status \<Rightarrow> bool" where
  "is_read (EdsRead _ _ _) = True"
| "is_read _ = False"

fun eds_is_failed :: "enhanced_delivery_status \<Rightarrow> bool" where
  "eds_is_failed (EdsFailed _) = True"
| "eds_is_failed _ = False"

definition is_successful :: "enhanced_delivery_status \<Rightarrow> bool" where
  "is_successful s = is_delivered s"

section \<open>Lemmas\<close>

text \<open>\<open>order\<close> lists the elements of a set.\<close>

definition iteration_order :: "('a list \<Rightarrow> 'a list) \<Rightarrow> bool" where
  "iteration_order order \<longleftrightarrow> (\<forall>s. distinct s \<longrightarrow> distinct (order s) \<and> set (order s) = set s)"

lemma trim_set_subset: "set (trim_set order n s) \<subseteq> set s"
  by (auto simp: trim_set_def Let_def)

lemma trim_set_distinct: "distinct s \<Longrightarrow> distinct (trim_set order n s)"
  by (simp add: trim_set_def Let_def)

lemma trim_set_length:
  assumes "iteration_order order" and "distinct s"
  shows "length (trim_set order n s) = min n (length s)"
proof (cases "n < length s")
  case True
  let ?r = "take (length s - n) (order s)"
  have o: "distinct (order s)" "set (order s) = set s"
    using assms by (simp_all add: iteration_order_def)
  then have len: "length (order s) = length s" using assms(2) by (metis distinct_card)
  have "length (filter (\<lambda>x. x \<notin> set ?r) s) = card (set s - set ?r)"
    using assms(2) by (metis (no_types) distinct_card distinct_filter set_diff_eq set_filter)
  also have "\<dots> = card (set s) - card (set ?r)"
    using o by (intro card_Diff_subset) (auto dest: in_set_takeD)
  also have "\<dots> = n"
    using True assms(2) o len by (simp add: distinct_card)
  finally show ?thesis using True by (simp add: trim_set_def Let_def)
qed (simp add: trim_set_def)

lemma delivery_ack_sent_once: "\<not> should_send_delivery_ack (mark_delivery_ack_sent mid m) mid"
  by (simp add: should_send_delivery_ack_def mark_delivery_ack_sent_def)

lemma read_receipt_sent_once: "\<not> should_send_read_receipt (mark_read_receipt_sent mid m) mid"
  by (simp add: should_send_read_receipt_def mark_read_receipt_sent_def)

end
