(* ===== verification/Delivery.thy ===== *)
theory Delivery
  imports Acknowledgments
begin

text \<open>
  Reliable delivery: tracked messages with retries, the tracker of
  \<^verbatim>\<open>src/crates/bitchat-core/src/protocol/delivery.rs\<close> with its clean-up, the extended tracker that
  also keeps receipts, and the tracker of the runtime
  (\<^verbatim>\<open>src/crates/bitchat-runtime/src/managers/delivery.rs\<close>).

  The exponential back-off is computed in floating point: \<open>backoff\<close> is the expression
  \<^verbatim>\<open>(base_delay * multiplier.powi(exponent)) as u64\<close>, a function of the initial delay, the
  multiplier (of any type \<open>'f\<close>) and the number of attempts. A UUID is a value of any type \<open>'u\<close>. The
  time source of a tracker is the argument \<open>now\<close> of each operation, one reading per operation. A
  \<^verbatim>\<open>HashMap\<close> is an association list with distinct keys. Floating-point statistics are left out.
\<close>

section \<open>Tracked messages\<close>

datatype delivery_status = DsPending | DsSent | DsConfirmed | DsFailed | DsCancelled

record 'f delivery_config =
  max_retries :: u32
  initial_retry_delay :: duration
  max_retry_delay :: duration
  backoff_multiplier :: 'f
  confirmation_timeout :: duration

record delivery_attempt =
  attempt_number :: u32
  at_timestamp :: timestamp
  at_next_retry_delay :: duration

record 'u tracked_message =
  tm_message_id :: 'u
  tm_recipient :: peer_id
  tm_status :: delivery_status
  tm_payload :: bytes
  tm_attempts :: "delivery_attempt list"
  tm_created_at :: timestamp
  tm_confirmed_at :: "timestamp option"
  tm_max_retries :: u32

definition tracked_new ::
    "timestamp \<Rightarrow> 'u \<Rightarrow> peer_id \<Rightarrow> bytes \<Rightarrow> u32 \<Rightarrow> 'u tracked_message" where
  "tracked_new now mid recipient payload retries =
     \<lparr>tm_message_id = mid, tm_recipient = recipient, tm_status = DsPending, tm_payload = payload,
      tm_attempts = [], tm_created_at = now, tm_confirmed_at = None, tm_max_retries = retries\<rparr>"

definition attempt_count :: "'u tracked_message \<Rightarrow> u32" where
  "attempt_count m = word_of_nat (length (tm_attempts m))"

definition can_retry :: "'u tracked_message \<Rightarrow> bool" where
  "can_retry m = (attempt_count m < tm_max_retries m \<and> tm_status m \<in> {DsPending, DsSent})"

definition message_mark_sent :: "timestamp \<Rightarrow> duration \<Rightarrow> 'u tracked_message \<Rightarrow> 'u tracked_message" where
  "message_mark_sent now delay m =
     m\<lparr>tm_attempts := tm_attempts m @
         [\<lparr>attempt_number = attempt_count m + 1, at_timestamp = now, at_next_retry_delay = delay\<rparr>],
       tm_status := DsSent\<rparr>"

definition message_mark_confirmed :: "timestamp \<Rightarrow> 'u tracked_message \<Rightarrow> 'u tracked_message" where
  "message_mark_confirmed now m = m\<lparr>tm_status := DsConfirmed, tm_confirmed_at := Some now\<rparr>"

definition message_mark_failed :: "'u tracked_message \<Rightarrow> 'u tracked_message" where
  "message_mark_failed m = m\<lparr>tm_status := DsFailed\<rparr>"

definition message_mark_cancelled :: "'u tracked_message \<Rightarrow> 'u tracked_message" where
  "message_mark_cancelled m = m\<lparr>tm_status := DsCancelled\<rparr>"

definition next_retry_delay ::
    "(duration \<Rightarrow> 'f \<Rightarrow> u32 \<Rightarrow> u64) \<Rightarrow> 'f delivery_config \<Rightarrow> 'u tracked_message \<Rightarrow> duration" where
  "next_retry_delay backoff cfg m =
     (let delay = unat (backoff (initial_retry_delay cfg) (backoff_multiplier cfg) (attempt_count m))
      in if max_retry_delay cfg < delay then max_retry_delay cfg else delay)"

definition is_timed_out :: "timestamp \<Rightarrow> 'f delivery_config \<Rightarrow> 'u tracked_message \<Rightarrow> bool" where
  "is_timed_out now cfg m = (confirmation_timeout cfg < unat (sat_sub now (tm_created_at m)))"

definition is_ready_for_retry :: "timestamp \<Rightarrow> 'u tracked_message \<Rightarrow> bool" where
  "is_ready_for_retry now m =
     (if \<not> can_retry m \<or> tm_attempts m = [] then False
      else let last_attempt = tm_attempts m ! (length (tm_attempts m) - 1)
           in at_next_retry_delay last_attempt \<le> unat (sat_sub now (at_timestamp last_attempt)))"

section \<open>The tracker\<close>

record ('u, 'f) delivery_tracker =
  dt_config :: "'f delivery_config"
  dt_messages :: "('u \<times> 'u tracked_message) list"

definition tracker_with_config :: "'f delivery_config \<Rightarrow> ('u, 'f) delivery_tracker" where
  "tracker_with_config cfg = \<lparr>dt_config = cfg, dt_messages = []\<rparr>"

definition track_message ::
    "timestamp \<Rightarrow> 'u \<Rightarrow> peer_id \<Rightarrow> bytes \<Rightarrow> ('u, 'f) delivery_tracker \<Rightarrow> ('u, 'f) delivery_tracker" where
  "track_message now mid recipient payload t =
     t\<lparr>dt_messages := map_put mid (tracked_new now mid recipient payload (max_retries (dt_config t)))
         (dt_messages t)\<rparr>"

text \<open>\<^verbatim>\<open>get_mut\<close> followed by a change of the message.\<close>

definition update_message ::
    "('u tracked_message \<Rightarrow> 'u tracked_message) \<Rightarrow> 'u \<Rightarrow> ('u, 'f) delivery_tracker
     \<Rightarrow> bool \<times> ('u, 'f) delivery_tracker" where
  "update_message f mid t =
     (case map_of (dt_messages t) mid of
        Some m \<Rightarrow> (True, t\<lparr>dt_messages := map_put mid (f m) (dt_messages t)\<rparr>)
      | None \<Rightarrow> (False, t))"

definition tracker_mark_sent ::
    "(duration \<Rightarrow> 'f \<Rightarrow> u32 \<Rightarrow> u64) \<Rightarrow> timestamp \<Rightarrow> 'u \<Rightarrow> ('u, 'f) delivery_tracker
     \<Rightarrow> bool \<times> ('u, 'f) delivery_tracker" where
  "tracker_mark_sent backoff now mid t =
     update_message (\<lambda>m. message_mark_sent now (next_retry_delay backoff (dt_config t) m) m) mid t"

definition confirm_delivery ::
    "timestamp \<Rightarrow> 'u \<Rightarrow> ('u, 'f) delivery_tracker \<Rightarrow> bool \<times> ('u, 'f) delivery_tracker" where
  "confirm_delivery now mid t = update_message (message_mark_confirmed now) mid t"

definition tracker_mark_failed ::
    "'u \<Rightarrow> ('u, 'f) delivery_tracker \<Rightarrow> bool \<times> ('u, 'f) delivery_tracker" where
  "tracker_mark_failed mid t = update_message message_mark_failed mid t"

definition cancel_tracking ::
    "'u \<Rightarrow> ('u, 'f) delivery_tracker \<Rightarrow> 'u tracked_message option \<times> ('u, 'f) delivery_tracker" where
  "cancel_tracking mid t =
     (case map_of (dt_messages t) mid of
        Some m \<Rightarrow> (Some (message_mark_cancelled m), t\<lparr>dt_messages := map_del mid (dt_messages t)\<rparr>)
      | None \<Rightarrow> (None, t))"

definition get_ready_for_retry :: "timestamp \<Rightarrow> ('u, 'f) delivery_tracker \<Rightarrow> 'u tracked_message list" where
  "get_ready_for_retry now t = filter (is_ready_for_retry now) (map snd (dt_messages t))"

definition get_timed_out :: "timestamp \<Rightarrow> ('u, 'f) delivery_tracker \<Rightarrow> 'u tracked_message list" where
  "get_timed_out now t = filter (is_timed_out now (dt_config t)) (map snd (dt_messages t))"

text \<open>The loop of \<^verbatim>\<open>cleanup\<close> over the messages: the completed and the expired ones, the identifiers to
  remove and those to mark as failed. The time source is read for each message.\<close>

fun cleanup_scan ::
    "(nat \<Rightarrow> timestamp) \<Rightarrow> 'f delivery_config \<Rightarrow> nat \<Rightarrow> ('u \<times> 'u tracked_message) list
     \<Rightarrow> 'u tracked_message list \<times> 'u tracked_message list \<times> 'u list \<times> 'u list" where
  "cleanup_scan now cfg i [] = ([], [], [], [])"
| "cleanup_scan now cfg i ((mid, m) # ms) =
     (case cleanup_scan now cfg (i + 1) ms of (completed, expired, to_remove, to_mark_failed) \<Rightarrow>
        if tm_status m \<in> {DsConfirmed, DsFailed, DsCancelled} then
          (m # completed, expired, mid # to_remove, to_mark_failed)
        else if is_timed_out (now i) cfg m then
          (completed, m # expired, mid # to_remove, to_mark_failed)
        else if \<not> can_retry m then (completed, expired, to_remove, mid # to_mark_failed)
        else (completed, expired, to_remove, to_mark_failed))"

fun mark_exhausted ::
    "'u list \<Rightarrow> ('u \<times> 'u tracked_message) list
     \<Rightarrow> 'u tracked_message list \<times> 'u list \<times> ('u \<times> 'u tracked_message) list" where
  "mark_exhausted [] ms = ([], [], ms)"
| "mark_exhausted (mid # ids) ms =
     (case map_of ms mid of
        Some m \<Rightarrow>
          (case mark_exhausted ids (map_put mid (message_mark_failed m) ms) of
             (completed, removed, ms') \<Rightarrow> (message_mark_failed m # completed, mid # removed, ms'))
      | None \<Rightarrow> mark_exhausted ids ms)"

definition tracker_cleanup ::
    "(nat \<Rightarrow> timestamp) \<Rightarrow> ('u, 'f) delivery_tracker
     \<Rightarrow> ('u tracked_message list \<times> 'u tracked_message list) \<times> ('u, 'f) delivery_tracker" where
  "tracker_cleanup now t =
     (case cleanup_scan now (dt_config t) 0 (dt_messages t) of
        (completed, expired, to_remove, to_mark_failed) \<Rightarrow>
          case mark_exhausted to_mark_failed (dt_messages t) of (failed, removed, ms) \<Rightarrow>
            ((completed @ failed, expired),
             t\<lparr>dt_messages := fold map_del (to_remove @ removed) ms\<rparr>))"

definition cleanup_by_age ::
    "timestamp \<Rightarrow> duration \<Rightarrow> ('u, 'f) delivery_tracker \<Rightarrow> nat \<times> ('u, 'f) delivery_tracker" where
  "cleanup_by_age now max_age t =
     (let to_remove = map fst (filter (\<lambda>(mid, m). max_age < unat (sat_sub now (tm_created_at m)))
            (dt_messages t))
      in (length to_remove, t\<lparr>dt_messages := fold map_del to_remove (dt_messages t)\<rparr>))"

definition cleanup_by_count ::
    "nat \<Rightarrow> ('u, 'f) delivery_tracker \<Rightarrow> nat \<times> ('u, 'f) delivery_tracker" where
  "cleanup_by_count max_count t =
     (if length (dt_messages t) \<le> max_count then (0, t)
      else
        (let by_age = sort_key snd (map (\<lambda>(mid, m). (mid, tm_created_at m)) (dt_messages t));
             removed = map fst (take (length (dt_messages t) - max_count) by_age)
         in (length removed, t\<lparr>dt_messages := fold map_del removed (dt_messages t)\<rparr>)))"

record delivery_stats =
  ds_total :: u32
  ds_pending :: u32
  ds_sent :: u32
  ds_confirmed :: u32
  ds_failed :: u32
  ds_cancelled :: u32
  ds_total_attempts :: u32

definition delivery_stats_default :: delivery_stats where
  "delivery_stats_default = \<lparr>ds_total = 0, ds_pending = 0, ds_sent = 0, ds_confirmed = 0,
     ds_failed = 0, ds_cancelled = 0, ds_total_attempts = 0\<rparr>"

definition count_message :: "'u tracked_message \<Rightarrow> delivery_stats \<Rightarrow> delivery_stats" where
  "count_message m s =
     (let s1 = s\<lparr>ds_total := ds_total s + 1\<rparr>;
          s2 = (case tm_status m of
                  DsPending \<Rightarrow> s1\<lparr>ds_pending := ds_pending s1 + 1\<rparr>
                | DsSent \<Rightarrow> s1\<lparr>ds_sent := ds_sent s1 + 1\<rparr>
                | DsConfirmed \<Rightarrow> s1\<lparr>ds_confirmed := ds_confirmed s1 + 1\<rparr>
                | DsFailed \<Rightarrow> s1\<lparr>ds_failed := ds_failed s1 + 1\<rparr>
                | DsCancelled \<Rightarrow> s1\<lparr>ds_cancelled := ds_cancelled s1 + 1\<rparr>)
      in s2\<lparr>ds_total_attempts := ds_total_attempts s2 + attempt_count m\<rparr>)"

definition tracker_get_stats :: "('u, 'f) delivery_tracker \<Rightarrow> delivery_stats" where
  "tracker_get_stats t = fold count_message (map snd (dt_messages t)) delivery_stats_default"

definition set_config :: "'f delivery_config \<Rightarrow> ('u, 'f) delivery_tracker \<Rightarrow> ('u, 'f) delivery_tracker" where
  "set_config cfg t = t\<lparr>dt_config := cfg\<rparr>"

section \<open>The tracker with receipts\<close>

record ('u, 'f) enhanced_tracker =
  et_tracker :: "('u, 'f) delivery_tracker"
  et_receipts :: receipt_manager
  et_statuses :: "('u \<times> enhanced_delivery_status) list"
  et_mapping :: "('u \<times> message_id) list"

definition enhanced_with_config :: "'f delivery_config \<Rightarrow> ('u, 'f) enhanced_tracker" where
  "enhanced_with_config cfg =
     \<lparr>et_tracker = tracker_with_config cfg, et_receipts = receipt_manager_new, et_statuses = [],
      et_mapping = []\<rparr>"

definition track_message_with_id ::
    "timestamp \<Rightarrow> 'u \<Rightarrow> message_id \<Rightarrow> peer_id \<Rightarrow> bytes \<Rightarrow> ('u, 'f) enhanced_tracker
     \<Rightarrow> ('u, 'f) enhanced_tracker" where
  "track_message_with_id now uuid mid recipient payload e =
     e\<lparr>et_tracker := track_message now uuid recipient payload (et_tracker e),
       et_mapping := map_put uuid mid (et_mapping e),
       et_statuses := map_put uuid EdsSending (et_statuses e)\<rparr>"

definition uuid_of :: "('u, 'f) enhanced_tracker \<Rightarrow> message_id \<Rightarrow> 'u option" where
  "uuid_of e mid = map_option fst (find (\<lambda>(u, i). i = mid) (et_mapping e))"

definition process_delivery_ack ::
    "timestamp \<Rightarrow> delivery_ack \<Rightarrow> ('u, 'f) enhanced_tracker \<Rightarrow> bool \<times> ('u, 'f) enhanced_tracker" where
  "process_delivery_ack now ack e =
     (case uuid_of e (da_message_id ack) of
        Some uuid \<Rightarrow>
          (case confirm_delivery now uuid (et_tracker e) of (success, t) \<Rightarrow>
             (success,
              if success
              then e\<lparr>et_tracker := t, et_statuses := map_put uuid (from_delivery_ack ack) (et_statuses e)\<rparr>
              else e\<lparr>et_tracker := t\<rparr>))
      | None \<Rightarrow> (False, e))"

definition process_read_receipt ::
    "read_receipt \<Rightarrow> ('u, 'f) enhanced_tracker \<Rightarrow> bool \<times> ('u, 'f) enhanced_tracker" where
  "process_read_receipt r e =
     (case uuid_of e (rr_message_id r) of
        Some uuid \<Rightarrow> (True, e\<lparr>et_statuses := map_put uuid (from_read_receipt r) (et_statuses e)\<rparr>)
      | None \<Rightarrow> (False, e))"

definition configure_receipts :: "bool \<Rightarrow> bool \<Rightarrow> ('u, 'f) enhanced_tracker \<Rightarrow> ('u, 'f) enhanced_tracker" where
  "configure_receipts acks receipts e =
     e\<lparr>et_receipts := set_read_receipts_enabled receipts (set_delivery_acks_enabled acks (et_receipts e))\<rparr>"

definition enhanced_mark_ack_sent :: "message_id \<Rightarrow> ('u, 'f) enhanced_tracker \<Rightarrow> ('u, 'f) enhanced_tracker" where
  "enhanced_mark_ack_sent mid e = e\<lparr>et_receipts := mark_delivery_ack_sent mid (et_receipts e)\<rparr>"

definition enhanced_mark_receipt_sent ::
    "message_id \<Rightarrow> ('u, 'f) enhanced_tracker \<Rightarrow> ('u, 'f) enhanced_tracker" where
  "enhanced_mark_receipt_sent mid e = e\<lparr>et_receipts := mark_read_receipt_sent mid (et_receipts e)\<rparr>"

definition forget_message :: "'u tracked_message \<Rightarrow> ('u, 'f) enhanced_tracker \<Rightarrow> ('u, 'f) enhanced_tracker" where
  "forget_message m e =
     e\<lparr>et_statuses := map_del (tm_message_id m) (et_statuses e),
       et_mapping := map_del (tm_message_id m) (et_mapping e)\<rparr>"

definition enhanced_cleanup ::
    "(message_id list \<Rightarrow> message_id list) \<Rightarrow> (nat \<Rightarrow> timestamp) \<Rightarrow> ('u, 'f) enhanced_tracker
     \<Rightarrow> ('u tracked_message list \<times> 'u tracked_message list) \<times> ('u, 'f) enhanced_tracker" where
  "enhanced_cleanup order now e =
     (case tracker_cleanup now (et_tracker e) of ((completed, expired), t) \<Rightarrow>
        let e1 = fold forget_message completed (e\<lparr>et_tracker := t\<rparr>);
            e2 = fold forget_message expired e1
        in ((completed, expired), e2\<lparr>et_receipts := cleanup_old_receipts order 1000 (et_receipts e2)\<rparr>))"

record enhanced_stats =
  es_basic :: delivery_stats
  es_receipts :: receipt_stats
  es_delivered_count :: nat
  es_read_count :: nat
  es_tracked_messages_count :: nat

definition get_enhanced_stats :: "('u, 'f) enhanced_tracker \<Rightarrow> enhanced_stats" where
  "get_enhanced_stats e =
     \<lparr>es_basic = tracker_get_stats (et_tracker e), es_receipts = receipt_get_stats (et_receipts e),
      es_delivered_count = length (filter is_delivered (map snd (et_statuses e))),
      es_read_count = length (filter is_read (map snd (et_statuses e))),
      es_tracked_messages_count = length (et_statuses e)\<rparr>"

section \<open>The tracker of the runtime\<close>

text \<open>It has the fields of the core tracker and its own versions of the operations.\<close>

definition runtime_mark_confirmed ::
    "timestamp \<Rightarrow> 'u \<Rightarrow> ('u, 'f) delivery_tracker \<Rightarrow> bool \<times> ('u, 'f) delivery_tracker" where
  "runtime_mark_confirmed now mid t = update_message (message_mark_confirmed now) mid t"

definition runtime_mark_cancelled ::
    "'u \<Rightarrow> ('u, 'f) delivery_tracker \<Rightarrow> bool \<times> ('u, 'f) delivery_tracker" where
  "runtime_mark_cancelled mid t = update_message message_mark_cancelled mid t"

definition get_retry_ready_messages :: "('u, 'f) delivery_tracker \<Rightarrow> 'u tracked_message list" where
  "get_retry_ready_messages t = filter can_retry (map snd (dt_messages t))"

definition get_messages_for_peer :: "peer_id \<Rightarrow> ('u, 'f) delivery_tracker \<Rightarrow> 'u tracked_message list" where
  "get_messages_for_peer pid t = filter (\<lambda>m. tm_recipient m = pid) (map snd (dt_messages t))"

definition cleanup_completed :: "('u, 'f) delivery_tracker \<Rightarrow> ('u, 'f) delivery_tracker" where
  "cleanup_completed t =
     t\<lparr>dt_messages := filter (\<lambda>(mid, m). tm_status m \<notin> {DsConfirmed, DsFailed, DsCancelled})
         (dt_messages t)\<rparr>"

definition remove_message ::
    "'u \<Rightarrow> ('u, 'f) delivery_tracker \<Rightarrow> 'u tracked_message option \<times> ('u, 'f) delivery_tracker" where
  "remove_message mid t =
     (map_of (dt_messages t) mid, t\<lparr>dt_messages := map_del mid (dt_messages t)\<rparr>)"

record delivery_statistics =
  dst_total_messages :: u64
  dst_pending :: u64
  dst_sent :: u64
  dst_confirmed :: u64
  dst_failed :: u64
  dst_cancelled :: u64
  dst_total_attempts :: u64

definition statistics_count :: "'u tracked_message \<Rightarrow> delivery_statistics \<Rightarrow> delivery_statistics" where
  "statistics_count m s =
     (let s1 = (case tm_status m of
                  DsPending \<Rightarrow> s\<lparr>dst_pending := dst_pending s + 1\<rparr>
                | DsSent \<Rightarrow> s\<lparr>dst_sent := dst_sent s + 1\<rparr>
                | DsConfirmed \<Rightarrow> s\<lparr>dst_confirmed := dst_confirmed s + 1\<rparr>
                | DsFailed \<Rightarrow> s\<lparr>dst_failed := dst_failed s + 1\<rparr>
                | DsCancelled \<Rightarrow> s\<lparr>dst_cancelled := dst_cancelled s + 1\<rparr>)
      in s1\<lparr>dst_total_attempts := dst_total_attempts s1 + word_of_nat (unat (attempt_count m))\<rparr>)"

definition get_statistics :: "('u, 'f) delivery_tracker \<Rightarrow> delivery_statistics" where
  "get_statistics t =
     (fold statistics_count (map snd (dt_messages t))
        \<lparr>dst_total_messages = 0, dst_pending = 0, dst_sent = 0, dst_confirmed = 0, dst_failed = 0,
         dst_cancelled = 0, dst_total_attempts = 0\<rparr>)
     \<lparr>dst_total_messages := word_of_nat (length (dt_messages t))\<rparr>"

definition tracked_count :: "('u, 'f) delivery_tracker \<Rightarrow> nat" where
  "tracked_count t = length (dt_messages t)"

section \<open>The clean-up as a partition\<close>

definition finished :: "'u tracked_message \<Rightarrow> bool" where
  "finished m \<longleftrightarrow> tm_status m \<in> {DsConfirmed, DsFailed, DsCancelled}"

text \<open>What becomes of the \<open>i\<close>-th message.\<close>

datatype cleanup_fate = Completed | Expired | Exhausted | Kept

definition fate :: "(nat \<Rightarrow> timestamp) \<Rightarrow> 'f delivery_config \<Rightarrow> nat \<Rightarrow> 'u tracked_message \<Rightarrow> cleanup_fate" where
  "fate now cfg i m =
     (if finished m then Completed
      else if is_timed_out (now i) cfg m then Expired
      else if attempt_count m < tm_max_retries m then Kept
      else Exhausted)"

fun fates :: "(nat \<Rightarrow> timestamp) \<Rightarrow> 'f delivery_config \<Rightarrow> nat \<Rightarrow> ('u \<times> 'u tracked_message) list
    \<Rightarrow> (cleanup_fate \<times> 'u \<times> 'u tracked_message) list" where
  "fates now cfg i [] = []"
| "fates now cfg i ((mid, m) # ms) = (fate now cfg i m, mid, m) # fates now cfg (i + 1) ms"

definition with_fate :: "cleanup_fate \<Rightarrow> (cleanup_fate \<times> 'b) list \<Rightarrow> 'b list" where
  "with_fate f xs = map snd (filter (\<lambda>x. fst x = f) xs)"

lemma unfinished: "\<not> finished m \<Longrightarrow> tm_status m \<in> {DsPending, DsSent}"
  by (cases "tm_status m") (auto simp: finished_def)

lemma cleanup_scan_eq:
  "cleanup_scan now cfg i ms =
     (map snd (with_fate Completed (fates now cfg i ms)), map snd (with_fate Expired (fates now cfg i ms)),
      map fst (map snd (filter (\<lambda>x. fst x \<in> {Completed, Expired}) (fates now cfg i ms))),
      map fst (with_fate Exhausted (fates now cfg i ms)))"
proof (induction ms arbitrary: i)
  case (Cons x ms)
  then show ?case
    using unfinished [of "snd x"]
    by (cases x) (auto simp: fate_def finished_def can_retry_def with_fate_def)
qed (simp add: with_fate_def)

lemma snd_fates [simp]: "map snd (fates now cfg i ms) = ms"
  by (induction ms arbitrary: i) auto

lemma with_fate_subset: "set (with_fate f (fates now cfg i ms)) \<subseteq> set ms"
proof -
  have "set (with_fate f (fates now cfg i ms)) \<subseteq> set (map snd (fates now cfg i ms))"
    by (auto simp: with_fate_def simp del: snd_fates)
  then show ?thesis by simp
qed

lemma distinct_with_fate: "distinct (keys_of ms) \<Longrightarrow> distinct (keys_of (with_fate f (fates now cfg i ms)))"
proof -
  assume d: "distinct (keys_of ms)"
  have "distinct (map (fst \<circ> snd) (fates now cfg i ms))" using d by (simp flip: map_map)
  then show ?thesis by (simp add: with_fate_def distinct_map_filter)
qed

lemma mark_exhausted_eq:
  "distinct (keys_of es) \<Longrightarrow> (\<forall>(mid, m)\<in>set es. map_of ms mid = Some m) \<Longrightarrow>
   \<exists>ms'. mark_exhausted (keys_of es) ms = (map (message_mark_failed \<circ> snd) es, keys_of es, ms') \<and>
     (distinct (keys_of ms) \<longrightarrow> distinct (keys_of ms')) \<and>
     (\<forall>k. k \<notin> set (keys_of es) \<longrightarrow> map_of ms' k = map_of ms k)"
proof (induction es arbitrary: ms)
  case (Cons e es)
  obtain mid m where e: "e = (mid, m)" by force
  let ?ms = "map_put mid (message_mark_failed m) ms"
  have "\<forall>(k, v)\<in>set es. map_of ?ms k = Some v"
    using Cons.prems e by (force simp: image_iff)
  from Cons.IH [OF _ this] Cons.prems(1) obtain ms' where
    "mark_exhausted (keys_of es) ?ms = (map (message_mark_failed \<circ> snd) es, keys_of es, ms')"
    "distinct (keys_of ?ms) \<longrightarrow> distinct (keys_of ms')"
    "\<forall>k. k \<notin> set (keys_of es) \<longrightarrow> map_of ms' k = map_of ?ms k" by auto
  with Cons.prems e show ?case by (auto simp: distinct_put)
qed simp

lemma map_of_kept:
  "distinct (map (fst \<circ> snd) F) \<Longrightarrow>
   map_of (with_fate Kept F) k = (if \<exists>f v. (f, k, v) \<in> set F \<and> f \<noteq> Kept then None else map_of (map snd F) k)"
proof (induction F)
  case (Cons x F)
  obtain f mid m where x: "x = (f, mid, m)" by (cases x) auto
  have new: "(g, mid, v) \<notin> set F" for g v using Cons.prems x by force
  then have "map_of (with_fate Kept F) mid = None"
    by (auto simp: map_of_eq_None_iff with_fate_def)
  with new Cons x show ?case by (cases "k = mid") (auto simp: with_fate_def)
qed (simp add: with_fate_def)

lemma fates_of_key:
  assumes "distinct (keys_of ms)"
  shows "map_of (with_fate Kept (fates now cfg i ms)) k =
    (if k \<in> set (map fst (map snd (filter (\<lambda>x. fst x \<in> {Completed, Expired}) (fates now cfg i ms)))) \<or>
        k \<in> set (keys_of (with_fate Exhausted (fates now cfg i ms)))
     then None else map_of ms k)"
proof -
  let ?F = "fates now cfg i ms"
  have "distinct (map (fst \<circ> snd) ?F)" using assms by (simp flip: map_map)
  moreover have "(\<exists>f v. (f, k, v) \<in> set ?F \<and> f \<noteq> Kept) \<longleftrightarrow>
      k \<in> set (map fst (map snd (filter (\<lambda>x. fst x \<in> {Completed, Expired}) ?F))) \<or>
      k \<in> set (keys_of (with_fate Exhausted ?F))"
    by (auto simp: with_fate_def image_iff) (metis cleanup_fate.exhaust)+
  ultimately show ?thesis by (simp only: map_of_kept snd_fates)
qed

section \<open>Invariants\<close>

text \<open>Every message is stored under its own identifier.\<close>

definition tracker_ok :: "('u, 'f) delivery_tracker \<Rightarrow> bool" where
  "tracker_ok t \<longleftrightarrow> distinct (keys_of (dt_messages t)) \<and>
     (\<forall>mid m. map_of (dt_messages t) mid = Some m \<longrightarrow> tm_message_id m = mid)"

lemma cleanup_eq:
  fixes now :: "nat \<Rightarrow> timestamp" and t :: "('u, 'f) delivery_tracker"
  assumes "distinct (keys_of (dt_messages t))"
  defines "F \<equiv> fates now (dt_config t) 0 (dt_messages t)"
  obtains t' where "tracker_cleanup now t =
      ((map snd (with_fate Completed F) @ map (message_mark_failed \<circ> snd) (with_fate Exhausted F),
        map snd (with_fate Expired F)), t')"
    "dt_config t' = dt_config t" "distinct (keys_of (dt_messages t'))"
    "map_of (dt_messages t') = map_of (with_fate Kept F)"
proof -
  let ?ms = "dt_messages t"
  let ?E = "with_fate Exhausted F"
  let ?gone = "map fst (map snd (filter (\<lambda>x. fst x \<in> {Completed, Expired}) F))"
  have d: "distinct (keys_of ?E)" unfolding F_def by (rule distinct_with_fate [OF assms(1)])
  have "\<forall>(mid, m)\<in>set ?E. map_of ?ms mid = Some m"
    using with_fate_subset [of Exhausted now "dt_config t" 0 ?ms] assms(1)
    by (auto simp: F_def map_of_eq_Some_iff)
  from mark_exhausted_eq [OF d this] obtain ms' where
    m: "mark_exhausted (keys_of ?E) ?ms = (map (message_mark_failed \<circ> snd) ?E, keys_of ?E, ms')"
    and dm: "distinct (keys_of ms')" and ms': "\<And>k. k \<notin> set (keys_of ?E) \<Longrightarrow> map_of ms' k = map_of ?ms k"
    using assms(1) by blast
  let ?t = "t\<lparr>dt_messages := fold map_del (?gone @ keys_of ?E) ms'\<rparr>"
  have "tracker_cleanup now t =
      ((map snd (with_fate Completed F) @ map (message_mark_failed \<circ> snd) ?E,
        map snd (with_fate Expired F)), ?t)"
    by (simp only: tracker_cleanup_def cleanup_scan_eq F_def [symmetric] m prod.case)
  moreover have "map_of (dt_messages ?t) k = map_of (with_fate Kept F) k" for k
    using ms' [of k] fates_of_key [OF assms(1), of now "dt_config t" 0 k]
    by (auto simp: map_of_fold_del F_def [symmetric] simp del: fold_append map_map)
  moreover have "distinct (keys_of (dt_messages ?t))"
    using distinct_fold_del [OF dm] by (simp del: fold_append)
  ultimately show thesis by (intro that [of ?t]) (auto simp del: fold_append)
qed

lemma tracker_ok_with_config: "tracker_ok (tracker_with_config cfg)"
  by (simp add: tracker_ok_def tracker_with_config_def)

lemma tracker_ok_track: "tracker_ok t \<Longrightarrow> tracker_ok (track_message now mid r p t)"
  by (auto simp: tracker_ok_def track_message_def tracked_new_def)

lemma tracker_ok_update:
  assumes "tracker_ok t" and "\<And>m. tm_message_id (f m) = tm_message_id m"
  shows "tracker_ok (snd (update_message f mid t))"
  using assms by (auto simp: tracker_ok_def update_message_def split: option.split)

lemma dom_update_message:
  "dom (map_of (dt_messages (snd (update_message f mid t)))) = dom (map_of (dt_messages t))"
  by (auto simp: update_message_def split: option.split)

lemma marks_keep_id [simp]:
  "tm_message_id (message_mark_sent now d m) = tm_message_id m"
  "tm_message_id (message_mark_confirmed now m) = tm_message_id m"
  "tm_message_id (message_mark_failed m) = tm_message_id m"
  "tm_message_id (message_mark_cancelled m) = tm_message_id m"
  by (simp_all add: message_mark_sent_def message_mark_confirmed_def message_mark_failed_def
      message_mark_cancelled_def)

text \<open>The extended tracker keeps its three tables on the same messages.\<close>

definition enhanced_ok :: "('u, 'f) enhanced_tracker \<Rightarrow> bool" where
  "enhanced_ok e \<longleftrightarrow> tracker_ok (et_tracker e) \<and>
     distinct (keys_of (et_statuses e)) \<and> distinct (keys_of (et_mapping e)) \<and>
     dom (map_of (et_statuses e)) = dom (map_of (dt_messages (et_tracker e))) \<and>
     dom (map_of (et_mapping e)) = dom (map_of (dt_messages (et_tracker e)))"

lemma uuid_of_member:
  assumes "uuid_of e mid = Some u"
  shows "u \<in> dom (map_of (et_mapping e))"
proof -
  from assms obtain i where "(u, i) \<in> set (et_mapping e)"
    by (auto simp: uuid_of_def find_Some_iff) (metis nth_mem)
  then show ?thesis using weak_map_of_SomeI by fast
qed

lemma enhanced_ok_track:
  "enhanced_ok e \<Longrightarrow> enhanced_ok (track_message_with_id now u mid r p e)"
  using tracker_ok_track [of "et_tracker e" now u r p]
  by (simp add: enhanced_ok_def track_message_with_id_def) (simp add: track_message_def)

lemma enhanced_ok_receipt: "enhanced_ok e \<Longrightarrow> enhanced_ok (snd (process_read_receipt r e))"
  using uuid_of_member [of e "rr_message_id r"]
  by (auto simp: enhanced_ok_def process_read_receipt_def insert_absorb split: option.split)

lemma enhanced_ok_update:
  assumes "enhanced_ok e" and "\<And>m. tm_message_id (f m) = tm_message_id m"
  shows "enhanced_ok (e\<lparr>et_tracker := snd (update_message f u (et_tracker e))\<rparr>)"
  using assms tracker_ok_update [of "et_tracker e" f u]
  by (simp add: enhanced_ok_def dom_update_message)

lemma enhanced_ok_ack:
  assumes "enhanced_ok e"
  shows "enhanced_ok (snd (process_delivery_ack now ack e))"
proof (cases "uuid_of e (da_message_id ack)")
  case (Some u)
  have "u \<in> dom (map_of (et_statuses e))"
    using uuid_of_member [OF Some] assms by (simp add: enhanced_ok_def)
  then show ?thesis
    using enhanced_ok_update [OF assms, of "message_mark_confirmed now" u] Some
    by (auto simp: enhanced_ok_def process_delivery_ack_def confirm_delivery_def insert_absorb
        split: prod.split)
qed (use assms in \<open>simp add: process_delivery_ack_def\<close>)

lemma fold_forget:
  "fold forget_message ms e =
     e\<lparr>et_statuses := fold map_del (map tm_message_id ms) (et_statuses e),
       et_mapping := fold map_del (map tm_message_id ms) (et_mapping e)\<rparr>"
  by (induction ms arbitrary: e) (simp_all add: forget_message_def)

lemma dom_fold_del: "dom (map_of (fold map_del ks m)) = dom (map_of m) - set ks"
  by (auto simp: map_of_fold_del split: if_splits)

lemma fate_keys:
  assumes "tracker_ok t"
  shows "map (tm_message_id \<circ> snd) (with_fate f (fates now cfg i (dt_messages t))) =
    keys_of (with_fate f (fates now cfg i (dt_messages t)))"
proof (rule map_cong [OF refl])
  fix x assume "x \<in> set (with_fate f (fates now cfg i (dt_messages t)))"
  with with_fate_subset have "x \<in> set (dt_messages t)" by blast
  with assms show "(tm_message_id \<circ> snd) x = fst x"
    by (cases x) (auto simp: tracker_ok_def map_of_eq_Some_iff)
qed

lemma kept_dom:
  assumes "distinct (keys_of ms)"
  shows "dom (map_of (with_fate Kept (fates now cfg i ms))) = dom (map_of ms) -
    (set (keys_of (with_fate Completed (fates now cfg i ms))) \<union>
     set (keys_of (with_fate Exhausted (fates now cfg i ms))) \<union>
     set (keys_of (with_fate Expired (fates now cfg i ms))))"
proof -
  let ?F = "fates now cfg i ms"
  have "set (map fst (map snd (filter (\<lambda>x. fst x \<in> {Completed, Expired}) ?F))) =
      set (keys_of (with_fate Completed ?F)) \<union> set (keys_of (with_fate Expired ?F))"
    by (auto simp: with_fate_def image_iff)
  then show ?thesis
    by (auto simp: fates_of_key [OF assms] simp del: set_map split: if_splits)
qed

lemma kept_id:
  assumes "tracker_ok t" and "map_of (with_fate Kept (fates now cfg i (dt_messages t))) mid = Some m"
  shows "tm_message_id m = mid"
proof -
  have d: "distinct (keys_of (dt_messages t))" using assms(1) by (simp add: tracker_ok_def)
  from assms(2) have "map_of (dt_messages t) mid = Some m"
    unfolding fates_of_key [OF d] by (metis option.distinct(1))
  with assms(1) show ?thesis by (simp add: tracker_ok_def)
qed

lemma enhanced_ok_cleanup:
  assumes "enhanced_ok e"
  shows "enhanced_ok (snd (enhanced_cleanup order now e))"
proof -
  let ?t = "et_tracker e"
  let ?F = "fates now (dt_config ?t) 0 (dt_messages ?t)"
  let ?C = "with_fate Completed ?F" and ?X = "with_fate Exhausted ?F" and ?E = "with_fate Expired ?F"
  have ok: "tracker_ok ?t" and d: "distinct (keys_of (dt_messages ?t))"
    using assms by (auto simp: enhanced_ok_def tracker_ok_def)
  from cleanup_eq [OF d, of now] obtain t' where t': "tracker_cleanup now ?t =
      ((map snd ?C @ map (message_mark_failed \<circ> snd) ?X, map snd ?E), t')"
    "distinct (keys_of (dt_messages t'))" "map_of (dt_messages t') = map_of (with_fate Kept ?F)" .
  have "tracker_ok t'"
    unfolding tracker_ok_def t'(3) using t'(2) kept_id [OF ok] by blast
  moreover have ids: "set (map tm_message_id (map snd ?C @ map (message_mark_failed \<circ> snd) ?X)) =
      set (keys_of ?C) \<union> set (keys_of ?X)"
    "set (map tm_message_id (map snd ?E)) = set (keys_of ?E)"
    by (simp_all only: map_append set_append map_map comp_assoc
        fate_keys [OF ok, symmetric]) (simp_all add: comp_def)
  ultimately show ?thesis
    using assms kept_dom [OF d, of now "dt_config ?t" 0]
    unfolding enhanced_ok_def enhanced_cleanup_def t'(1) prod.case Let_def snd_conv fold_forget
    by (simp add: dom_fold_del distinct_fold_del ids t'(3) Diff_eq Int_assoc Un_assoc
        del: map_append set_map map_map)
qed

text \<open>The operations of the extended tracker and those of the core tracker reached through it.\<close>

inductive enhanced_step :: "(duration \<Rightarrow> 'f \<Rightarrow> u32 \<Rightarrow> u64) \<Rightarrow> (message_id list \<Rightarrow> message_id list)
    \<Rightarrow> ('u, 'f) enhanced_tracker \<Rightarrow> ('u, 'f) enhanced_tracker \<Rightarrow> bool"
  for backoff order where
  step_track: "enhanced_step backoff order e (track_message_with_id now u mid r p e)"
| step_sent: "enhanced_step backoff order e
    (e\<lparr>et_tracker := snd (tracker_mark_sent backoff now u (et_tracker e))\<rparr>)"
| step_failed: "enhanced_step backoff order e
    (e\<lparr>et_tracker := snd (tracker_mark_failed u (et_tracker e))\<rparr>)"
| step_ack: "enhanced_step backoff order e (snd (process_delivery_ack now ack e))"
| step_read: "enhanced_step backoff order e (snd (process_read_receipt rr e))"
| step_configure: "enhanced_step backoff order e (configure_receipts acks receipts e)"
| step_ack_sent: "enhanced_step backoff order e (enhanced_mark_ack_sent mid e)"
| step_receipt_sent: "enhanced_step backoff order e (enhanced_mark_receipt_sent mid e)"
| step_cleanup: "enhanced_step backoff order e (snd (enhanced_cleanup order nows e))"

definition enhanced_start :: "('u, 'f) enhanced_tracker \<Rightarrow> bool" where
  "enhanced_start e \<longleftrightarrow> (\<exists>cfg. e = enhanced_with_config cfg)"

interpretation enhanced: invariant_system enhanced_start "enhanced_step backoff order" enhanced_ok
  for backoff order
proof
  show "enhanced_ok s" if "enhanced_start s" for s :: "('a, 'b) enhanced_tracker"
    using that by (auto simp: enhanced_start_def enhanced_ok_def enhanced_with_config_def
        tracker_with_config_def tracker_ok_def)
  show "enhanced_ok t" if "enhanced_ok s" "enhanced_step backoff order s t"
    for s t :: "('a, 'b) enhanced_tracker"
    using that(2,1)
  proof cases
    case (step_sent now u)
    with that(1) show ?thesis by (auto simp: tracker_mark_sent_def intro: enhanced_ok_update)
  next
    case (step_failed u)
    with that(1) show ?thesis by (auto simp: tracker_mark_failed_def intro: enhanced_ok_update)
  qed (auto simp: enhanced_ok_track enhanced_ok_ack enhanced_ok_receipt enhanced_ok_cleanup,
       auto simp: enhanced_ok_def configure_receipts_def enhanced_mark_ack_sent_def
         enhanced_mark_receipt_sent_def)
qed

section \<open>Retries\<close>

text \<open>A sender that retries a message whenever it is asked to at a time the message is ready.\<close>

definition retry_once ::
    "(duration \<Rightarrow> 'f \<Rightarrow> u32 \<Rightarrow> u64) \<Rightarrow> 'f delivery_config \<Rightarrow> 'u tracked_message \<Rightarrow> timestamp
     \<Rightarrow> 'u tracked_message" where
  "retry_once backoff cfg m now =
     (if is_ready_for_retry now m then message_mark_sent now (next_retry_delay backoff cfg m) m else m)"

definition send_with_retries ::
    "(duration \<Rightarrow> 'f \<Rightarrow> u32 \<Rightarrow> u64) \<Rightarrow> 'f delivery_config \<Rightarrow> 'u tracked_message \<Rightarrow> timestamp list
     \<Rightarrow> 'u tracked_message" where
  "send_with_retries backoff cfg m ts =
     (case ts of
        [] \<Rightarrow> m
      | now # ts \<Rightarrow> foldl (retry_once backoff cfg)
          (message_mark_sent now (next_retry_delay backoff cfg m) m) ts)"

definition attempts_ok :: "duration \<Rightarrow> nat \<Rightarrow> 'u tracked_message \<Rightarrow> bool" where
  "attempts_ok cap n m \<longleftrightarrow>
     length (tm_attempts m) \<le> max 1 n \<and> unat (tm_max_retries m) = n \<and>
     (\<forall>i < length (tm_attempts m). at_next_retry_delay (tm_attempts m ! i) \<le> cap \<and>
        unat (attempt_number (tm_attempts m ! i)) = Suc i) \<and>
     (\<forall>i. Suc i < length (tm_attempts m) \<longrightarrow>
        at_next_retry_delay (tm_attempts m ! i) \<le>
          unat (at_timestamp (tm_attempts m ! Suc i)) - unat (at_timestamp (tm_attempts m ! i)))"

lemma next_retry_delay_le: "next_retry_delay backoff cfg m \<le> max_retry_delay cfg"
  by (simp add: next_retry_delay_def Let_def)

lemma unat_attempt_count:
  "length (tm_attempts m) < 2 ^ 32 \<Longrightarrow> unat (attempt_count m) = length (tm_attempts m)"
  by (simp add: attempt_count_def unat_of_nat)

lemma attempts_ok_first:
  assumes "tm_attempts m = []"
  shows "attempts_ok (max_retry_delay cfg) (unat (tm_max_retries m))
    (message_mark_sent now (next_retry_delay backoff cfg m) m)"
  using assms by (simp add: attempts_ok_def message_mark_sent_def attempt_count_def next_retry_delay_le)

lemma attempts_ok_retry:
  assumes "attempts_ok (max_retry_delay cfg) n m"
  shows "attempts_ok (max_retry_delay cfg) n (retry_once backoff cfg m now)"
proof (cases "is_ready_for_retry now m")
  case True
  let ?as = "tm_attempts m" and ?d = "next_retry_delay backoff cfg m"
  let ?new = "\<lparr>attempt_number = attempt_count m + 1, at_timestamp = now, at_next_retry_delay = ?d\<rparr>"
  from True have ne: "?as \<noteq> []" and lt: "attempt_count m < tm_max_retries m"
    and wait: "at_next_retry_delay (?as ! (length ?as - 1)) \<le>
      unat now - unat (at_timestamp (?as ! (length ?as - 1)))"
    by (auto simp: is_ready_for_retry_def can_retry_def Let_def unat_sat_sub split: if_splits)
  have n: "unat (tm_max_retries m) = n" "length ?as \<le> max 1 n"
    using assms by (auto simp: attempts_ok_def)
  have n32: "n < 2 ^ 32" using n(1) unat_u32_bound [of "tm_max_retries m"] by simp
  then have cnt: "unat (attempt_count m) = length ?as"
    using n(2) by (intro unat_attempt_count) (simp add: max_def split: if_splits)
  have len: "Suc (length ?as) \<le> n" using lt cnt n(1) by (simp add: word_less_nat_alt)
  then have num: "unat (attempt_count m + 1) = Suc (length ?as)"
    using cnt n32 by (simp add: unat_word_ariths)
  have "at_next_retry_delay ((?as @ [?new]) ! i) \<le>
      unat (at_timestamp ((?as @ [?new]) ! Suc i)) - unat (at_timestamp ((?as @ [?new]) ! i))"
    if "Suc i < length (?as @ [?new])" for i
  proof (cases "Suc i < length ?as")
    case True
    with assms show ?thesis by (simp add: attempts_ok_def nth_append)
  next
    case False
    with that have "i = length ?as - 1" "Suc i = length ?as" by auto
    with wait show ?thesis by (simp add: nth_append)
  qed
  moreover have "at_next_retry_delay ((?as @ [?new]) ! i) \<le> max_retry_delay cfg \<and>
      unat (attempt_number ((?as @ [?new]) ! i)) = Suc i" if "i < length (?as @ [?new])" for i
    using that assms num
    by (cases "i = length ?as") (auto simp: attempts_ok_def nth_append next_retry_delay_le)
  moreover have "tm_attempts (retry_once backoff cfg m now) = ?as @ [?new]"
    "tm_max_retries (retry_once backoff cfg m now) = tm_max_retries m"
    using True by (simp_all add: retry_once_def message_mark_sent_def)
  ultimately show ?thesis using len n(1) unfolding attempts_ok_def by simp
qed (use assms in \<open>simp add: retry_once_def\<close>)

lemma attempts_ok_retries:
  "attempts_ok (max_retry_delay cfg) n m \<Longrightarrow>
   attempts_ok (max_retry_delay cfg) n (foldl (retry_once backoff cfg) m ts)"
  by (induction ts arbitrary: m) (auto intro: attempts_ok_retry)

section \<open>Properties\<close>

text \<open>A clean-up sorts every tracked message into exactly one of four classes: finished messages are
  returned as completed, unfinished ones older than the confirmation timeout as expired, unfinished
  ones that used up their retries are marked as failed and returned as completed, and the others
  stay tracked, unchanged.\<close>

theorem delivery_cleanup_partition:
  assumes "tracker_ok t" and "tracker_cleanup now t = ((completed, expired), t')"
  defines "F \<equiv> fates now (dt_config t) 0 (dt_messages t)"
  shows "completed = map snd (with_fate Completed F) @
      map (message_mark_failed \<circ> snd) (with_fate Exhausted F) \<and>
    expired = map snd (with_fate Expired F) \<and>
    map_of (dt_messages t') = map_of (with_fate Kept F) \<and> tracker_ok t'"
proof -
  have d: "distinct (keys_of (dt_messages t))" using assms(1) by (simp add: tracker_ok_def)
  from cleanup_eq [OF d, of now] assms(2)
  have "completed = map snd (with_fate Completed F) @
      map (message_mark_failed \<circ> snd) (with_fate Exhausted F) \<and>
    expired = map snd (with_fate Expired F) \<and>
    map_of (dt_messages t') = map_of (with_fate Kept F) \<and> distinct (keys_of (dt_messages t'))"
    by (auto simp: F_def)
  then show ?thesis using kept_id [OF assms(1)] by (auto simp: tracker_ok_def F_def)
qed

definition toy_backoff :: "duration \<Rightarrow> unit \<Rightarrow> u32 \<Rightarrow> u64" where
  "toy_backoff d u n = word_of_nat d * 2 ^ unat n"

definition toy_delivery_config :: "unit delivery_config" where
  "toy_delivery_config = \<lparr>max_retries = 2, initial_retry_delay = 500, max_retry_delay = 30000,
     backoff_multiplier = (), confirmation_timeout = 60000\<rparr>"

definition toy_tracker :: "(nat, unit) delivery_tracker" where
  "toy_tracker =
     snd (confirm_delivery 20 2 (track_message 10 2 [2] [] (track_message 0 1 [1] []
       (tracker_with_config toy_delivery_config))))"

lemma toy_tracker_ok: "tracker_ok toy_tracker"
  unfolding toy_tracker_def confirm_delivery_def
  by (intro tracker_ok_update tracker_ok_track tracker_ok_with_config) simp

lemma toy_cleanup: "tracker_cleanup (\<lambda>_. 100) toy_tracker =
    (([message_mark_confirmed 20 (tracked_new 10 2 [2] [] 2)], []),
     toy_tracker\<lparr>dt_messages := [(1, tracked_new 0 1 [1] [] 2)]\<rparr>)"
  by (simp add: toy_tracker_def tracker_with_config_def track_message_def confirm_delivery_def
      update_message_def tracker_cleanup_def tracked_new_def message_mark_confirmed_def
      is_timed_out_def can_retry_def attempt_count_def toy_delivery_config_def sat_sub_def)

theorem delivery_cleanup_partition_witness:
  "tracker_ok toy_tracker \<and>
   tracker_ok (toy_tracker\<lparr>dt_messages := [(1, tracked_new 0 1 [1] [] 2)]\<rparr>)"
  using delivery_cleanup_partition [OF toy_tracker_ok toy_cleanup] toy_tracker_ok by blast

text \<open>In every reachable state of the extended tracker the table of delivery states, the table of
  content identifiers and the tracked messages have the same keys, and every message is stored under
  its own identifier: a clean-up leaves nothing behind.\<close>

theorem enhanced_tracker_in_sync:
  assumes "reachable enhanced_start (enhanced_step backoff order) e"
  shows "dom (map_of (et_statuses e)) = dom (map_of (dt_messages (et_tracker e))) \<and>
    dom (map_of (et_mapping e)) = dom (map_of (dt_messages (et_tracker e))) \<and>
    (\<forall>u m. map_of (dt_messages (et_tracker e)) u = Some m \<longrightarrow> tm_message_id m = u)"
  using enhanced.invar_reachable [OF assms] by (simp add: enhanced_ok_def tracker_ok_def)

definition toy_enhanced :: "(nat, unit) enhanced_tracker" where
  "toy_enhanced = track_message_with_id 0 1 [7] [9] [] (enhanced_with_config toy_delivery_config)"

lemma toy_enhanced_reachable: "reachable enhanced_start (enhanced_step toy_backoff id) toy_enhanced"
proof -
  have "reachable enhanced_start (enhanced_step toy_backoff id)
      (enhanced_with_config toy_delivery_config :: (nat, unit) enhanced_tracker)"
    by (rule reach_start) (auto simp: enhanced_start_def)
  then show ?thesis unfolding toy_enhanced_def by (rule reach_step) (rule step_track)
qed

theorem enhanced_tracker_in_sync_witness:
  "reachable enhanced_start (enhanced_step toy_backoff id) toy_enhanced \<and>
   dom (map_of (et_statuses toy_enhanced)) = dom (map_of (dt_messages (et_tracker toy_enhanced)))"
  using enhanced_tracker_in_sync [OF toy_enhanced_reachable] toy_enhanced_reachable by blast

text \<open>C18: A message that is sent once and then retried only when it is ready is sent at most
  \<^verbatim>\<open>max_retries\<close> times (once if that is zero); its attempts are numbered from one, no delay exceeds
  \<^verbatim>\<open>max_retry_delay\<close>, and each attempt waits for the delay of the one before.\<close>

theorem retries_bounded:
  assumes "attempts = tm_attempts (send_with_retries backoff cfg
    (tracked_new created mid recipient payload (max_retries cfg)) ts)"
  shows "length attempts \<le> max 1 (unat (max_retries cfg)) \<and>
    (\<forall>i < length attempts. at_next_retry_delay (attempts ! i) \<le> max_retry_delay cfg \<and>
       unat (attempt_number (attempts ! i)) = Suc i) \<and>
    (\<forall>i. Suc i < length attempts \<longrightarrow> at_next_retry_delay (attempts ! i) \<le>
       unat (at_timestamp (attempts ! Suc i)) - unat (at_timestamp (attempts ! i)))"
proof (cases ts)
  case Nil
  then show ?thesis using assms by (simp add: send_with_retries_def tracked_new_def)
next
  case (Cons now ts')
  let ?m = "tracked_new created mid recipient payload (max_retries cfg)"
  have "attempts_ok (max_retry_delay cfg) (unat (tm_max_retries ?m)) (send_with_retries backoff cfg ?m ts)"
    unfolding Cons send_with_retries_def list.case
    by (intro attempts_ok_retries attempts_ok_first) (simp add: tracked_new_def)
  then show ?thesis using assms by (simp add: attempts_ok_def tracked_new_def)
qed

theorem retries_bounded_witness:
  "length (tm_attempts (send_with_retries toy_backoff toy_delivery_config
     (tracked_new 0 (1::nat) [9] [] (max_retries toy_delivery_config)) [0, 400, 500, 5000, 9000])) \<le> 2"
  using retries_bounded [OF refl, of toy_backoff toy_delivery_config 0 "1::nat" "[9]" "[]"
      "[0, 400, 500, 5000, 9000]"]
  by (simp add: toy_delivery_config_def)

text \<open>A delivery acknowledgment that arrives after the read receipt of the same message takes the read
  status away, and the recipient it records is the peer the acknowledgment was addressed to, the
  sender of the message.\<close>

theorem late_ack_downgrades_read:
  assumes "enhanced_ok e" and "uuid_of e (rr_message_id r) = Some u"
    and "da_message_id ack = rr_message_id r"
  shows "map_of (et_statuses (snd (process_read_receipt r e))) u = Some (from_read_receipt r) \<and>
    map_of (et_statuses (snd (process_delivery_ack now ack (snd (process_read_receipt r e))))) u =
      Some (EdsDelivered (da_to_peer_id ack) (da_timestamp ack) (da_recipient_nickname ack))"
proof -
  let ?e = "snd (process_read_receipt r e)"
  have e: "?e = e\<lparr>et_statuses := map_put u (from_read_receipt r) (et_statuses e)\<rparr>"
    using assms(2) by (simp add: process_read_receipt_def)
  have "u \<in> dom (map_of (dt_messages (et_tracker ?e)))"
    using uuid_of_member [OF assms(2)] assms(1) by (simp add: e enhanced_ok_def)
  then obtain m where "map_of (dt_messages (et_tracker ?e)) u = Some m" by blast
  moreover have "uuid_of ?e (da_message_id ack) = Some u"
    using assms(2,3) by (simp add: e uuid_of_def)
  ultimately have "map_of (et_statuses (snd (process_delivery_ack now ack ?e))) u =
      Some (from_delivery_ack ack)"
    by (simp add: process_delivery_ack_def confirm_delivery_def update_message_def)
  then show ?thesis by (simp add: e from_delivery_ack_def)
qed

theorem late_ack_downgrades_read_witness:
  "map_of (et_statuses (snd (process_delivery_ack 6 (delivery_ack_new 3 [7] [1] None)
     (snd (process_read_receipt (read_receipt_new 4 [7] [9] [1] None) toy_enhanced))))) 1 =
   Some (EdsDelivered [1] 3 None)"
proof -
  have "enhanced_ok toy_enhanced" by (rule enhanced.invar_reachable [OF toy_enhanced_reachable])
  moreover have "uuid_of toy_enhanced [7] = Some 1"
    by (simp add: toy_enhanced_def track_message_with_id_def uuid_of_def enhanced_with_config_def)
  ultimately show ?thesis
    using late_ack_downgrades_read [of toy_enhanced "read_receipt_new 4 [7] [9] [1] None" 1
        "delivery_ack_new 3 [7] [1] None" 6]
    by (simp add: read_receipt_new_def delivery_ack_new_def)
qed

end
