(* ===== verification/Message_Store.thy ===== *)
theory Message_Store
  imports Acknowledgments Crypto
begin

text \<open>
  The content-addressed message store
  (\<^verbatim>\<open>src/crates/bitchat-core/src/protocol/message_store.rs\<close>): messages identified by the hash of their
  content, an index by conversation, an index by time, and the limits of \<^verbatim>\<open>MessageStoreConfig\<close>.

  SHA-256 and \<^verbatim>\<open>bincode::serialized_size\<close> are arguments. The clock is the argument \<open>now\<close> in
  milliseconds. The test \<^verbatim>\<open>whitespace_ratio > 0.9\<close> is a comparison of integers, which agrees with
  the single-precision one for contents of at most \<open>2 ^ 19\<close> characters (the largest
  \<^verbatim>\<open>max_content_length\<close> of the configurations). \<^verbatim>\<open>is_whitespace\<close> and \<^verbatim>\<open>is_control\<close> are the Unicode properties
  White\_Space and Cc. Error texts leave out the numbers formatted into them. Counters of type
  \<^verbatim>\<open>usize\<close> are natural numbers.
\<close>

section \<open>Messages\<close>

record content_message =
  cm_id :: message_id
  cm_sender :: peer_id
  cm_recipient :: "peer_id option"
  cm_content :: rust_string
  cm_timestamp :: u64
  cm_sequence :: u64

datatype conversation_id = Direct peer_id peer_id | BroadcastConversation

definition conversation_new :: "peer_id \<Rightarrow> peer_id \<Rightarrow> conversation_id" where
  "conversation_new p q = (if p < q then Direct p q else Direct q p)"

fun involves_peer :: "conversation_id \<Rightarrow> peer_id \<Rightarrow> bool" where
  "involves_peer (Direct p q) pid = (p = pid \<or> q = pid)"
| "involves_peer BroadcastConversation pid = True"

definition compute_id ::
    "(bytes \<Rightarrow> bytes) \<Rightarrow> peer_id \<Rightarrow> peer_id option \<Rightarrow> rust_string \<Rightarrow> u64 \<Rightarrow> u64 \<Rightarrow> message_id" where
  "compute_id sha256 sender recipient content ts sequence =
     sha256 (sender @ (case recipient of Some p \<Rightarrow> p | None \<Rightarrow> replicate 8 0) @ content @
       u64_to_be ts @ u64_to_be sequence)"

definition content_message_new ::
    "(bytes \<Rightarrow> bytes) \<Rightarrow> timestamp \<Rightarrow> peer_id \<Rightarrow> peer_id option \<Rightarrow> rust_string \<Rightarrow> u64 \<Rightarrow> content_message" where
  "content_message_new sha256 now sender recipient content sequence =
     \<lparr>cm_id = compute_id sha256 sender recipient content now sequence, cm_sender = sender,
      cm_recipient = recipient, cm_content = content, cm_timestamp = now, cm_sequence = sequence\<rparr>"

definition normalize_timestamp :: "u64 \<Rightarrow> u64" where
  "normalize_timestamp ts = (if ts < 1000000000000 then sat_mul ts 1000 else ts)"

definition from_metadata ::
    "(bytes \<Rightarrow> bytes) \<Rightarrow> peer_id \<Rightarrow> peer_id option \<Rightarrow> rust_string \<Rightarrow> u64 \<Rightarrow> u64 \<Rightarrow> message_id option
     \<Rightarrow> content_message result" where
  "from_metadata sha256 sender recipient content sequence ts message_id =
     (let nts = normalize_timestamp ts;
          computed = compute_id sha256 sender recipient content nts sequence;
          message = (\<lambda>i. \<lparr>cm_id = i, cm_sender = sender, cm_recipient = recipient,
            cm_content = content, cm_timestamp = nts, cm_sequence = sequence\<rparr>)
      in case message_id of
           Some provided \<Rightarrow>
             if provided \<noteq> computed
             then Inl (invalid_packet ''Provided message ID does not match computed content hash'')
             else Inr (message provided)
         | None \<Rightarrow> Inr (message computed))"

definition verify_integrity :: "(bytes \<Rightarrow> bytes) \<Rightarrow> content_message \<Rightarrow> bool" where
  "verify_integrity sha256 m =
     (compute_id sha256 (cm_sender m) (cm_recipient m) (cm_content m) (cm_timestamp m) (cm_sequence m) =
      cm_id m)"

definition conversation_of :: "content_message \<Rightarrow> conversation_id" where
  "conversation_of m =
     (case cm_recipient m of
        Some recipient \<Rightarrow>
          if cm_sender m < recipient then conversation_new (cm_sender m) recipient
          else conversation_new recipient (cm_sender m)
      | None \<Rightarrow> BroadcastConversation)"

section \<open>The store\<close>

record message_store_config =
  max_message_size :: nat
  max_messages_per_conversation :: nat
  max_total_messages :: nat
  max_content_length :: nat
  max_message_age_secs :: u64
  strict_content_validation :: bool

definition message_store_config_default :: message_store_config where
  "message_store_config_default =
     \<lparr>max_message_size = 65536, max_messages_per_conversation = 10000, max_total_messages = 100000,
      max_content_length = 32768, max_message_age_secs = 86400 * 30,
      strict_content_validation = True\<rparr>"

definition message_store_config_low_memory :: message_store_config where
  "message_store_config_low_memory =
     \<lparr>max_message_size = 4096, max_messages_per_conversation = 1000, max_total_messages = 10000,
      max_content_length = 2048, max_message_age_secs = 86400 * 7, strict_content_validation = True\<rparr>"

definition message_store_config_high_capacity :: message_store_config where
  "message_store_config_high_capacity =
     \<lparr>max_message_size = 1048576, max_messages_per_conversation = 100000,
      max_total_messages = 1000000, max_content_length = 524288,
      max_message_age_secs = 86400 * 365, strict_content_validation = False\<rparr>"

definition message_store_config_testing :: message_store_config where
  "message_store_config_testing =
     \<lparr>max_message_size = 1024, max_messages_per_conversation = 100, max_total_messages = 1000,
      max_content_length = 512, max_message_age_secs = 3600, strict_content_validation = True\<rparr>"

record message_store =
  ms_messages :: "(message_id \<times> content_message) list"
  ms_conversations :: "(conversation_id \<times> message_id list) list"
  ms_time_index :: "(u64 \<times> message_id list) list"
  ms_config :: message_store_config
  ms_total_messages :: nat
  ms_unique_conversations :: nat
  ms_deduplication_saves :: nat
  ms_integrity_failures :: nat

definition store_with_config :: "message_store_config \<Rightarrow> message_store" where
  "store_with_config cfg =
     \<lparr>ms_messages = [], ms_conversations = [], ms_time_index = [], ms_config = cfg,
      ms_total_messages = 0, ms_unique_conversations = 0, ms_deduplication_saves = 0,
      ms_integrity_failures = 0\<rparr>"

subsection \<open>Validation\<close>

definition is_whitespace :: "nat \<Rightarrow> bool" where
  "is_whitespace c =
     ((9 \<le> c \<and> c \<le> 13) \<or> c = 0x20 \<or> c = 0x85 \<or> c = 0xA0 \<or> c = 0x1680 \<or>
      (0x2000 \<le> c \<and> c \<le> 0x200A) \<or> c = 0x2028 \<or> c = 0x2029 \<or> c = 0x202F \<or> c = 0x205F \<or> c = 0x3000)"

definition is_control :: "nat \<Rightarrow> bool" where
  "is_control c = (c \<le> 0x1F \<or> (0x7F \<le> c \<and> c \<le> 0x9F))"

definition mostly_whitespace :: "nat list \<Rightarrow> bool" where
  "mostly_whitespace cs =
     (0 < length cs \<and> 9 * length cs < 10 * length (filter is_whitespace cs))"

definition validate_content_safety :: "rust_string \<Rightarrow> unit result" where
  "validate_content_safety content =
     (let cs = chars_of content
      in if 0 \<in> set cs then Inl (invalid_packet ''Message content contains null bytes'')
         else if mostly_whitespace cs then Inl (invalid_packet ''Message content is mostly whitespace'')
         else if list_ex (\<lambda>c. is_control c \<and> c \<notin> {10, 13, 9}) cs
              then Inl (invalid_packet ''Message content contains invalid control characters'')
         else Inr ())"

definition validate_message_input ::
    "(content_message \<Rightarrow> nat option) \<Rightarrow> message_store_config \<Rightarrow> content_message \<Rightarrow> unit result" where
  "validate_message_input serialized_size cfg m =
     (if max_content_length cfg < length (chars_of (cm_content m))
      then Inl (invalid_packet ''Message content exceeds maximum length'')
      else case serialized_size m of
             None \<Rightarrow> Inl serialization_error
           | Some sz \<Rightarrow>
               if max_message_size cfg < sz
               then Inl (invalid_packet ''Message size exceeds maximum'')
               else if strict_content_validation cfg then validate_content_safety (cm_content m)
               else Inr ())"

subsection \<open>The indices\<close>

text \<open>An index maps a key to the identifiers of the messages that have it. \<^verbatim>\<open>entry(k).or_default().push(id)\<close>
  and the removal that drops an entry left empty.\<close>

definition index_get :: "('k \<times> 'i list) list \<Rightarrow> 'k \<Rightarrow> 'i list" where
  "index_get idx k = (case map_of idx k of Some ids \<Rightarrow> ids | None \<Rightarrow> [])"

definition index_push :: "'k \<Rightarrow> 'i \<Rightarrow> ('k \<times> 'i list) list \<Rightarrow> ('k \<times> 'i list) list" where
  "index_push k i idx = map_put k (index_get idx k @ [i]) idx"

definition index_drop :: "'k \<Rightarrow> 'i \<Rightarrow> ('k \<times> 'i list) list \<Rightarrow> ('k \<times> 'i list) list" where
  "index_drop k i idx =
     (case map_of idx k of
        Some ids \<Rightarrow>
          let ids' = filter (\<lambda>j. j \<noteq> i) ids
          in if ids' = [] then map_del k idx else map_put k ids' idx
      | None \<Rightarrow> idx)"

definition remove_message_completely :: "message_id \<Rightarrow> message_store \<Rightarrow> message_store" where
  "remove_message_completely mid st =
     (case map_of (ms_messages st) mid of
        Some m \<Rightarrow>
          let c = conversation_of m;
              convs = index_drop c mid (ms_conversations st);
              unique = (case map_of (ms_conversations st) c of
                          Some ids \<Rightarrow> if filter (\<lambda>j. j \<noteq> mid) ids = []
                                      then ms_unique_conversations st - 1
                                      else ms_unique_conversations st
                        | None \<Rightarrow> ms_unique_conversations st)
          in st\<lparr>ms_messages := map_del mid (ms_messages st), ms_conversations := convs,
                ms_unique_conversations := unique,
                ms_time_index := index_drop (cm_timestamp m) mid (ms_time_index st),
                ms_total_messages := ms_total_messages st - 1\<rparr>
      | None \<Rightarrow> st)"

definition store_cleanup_old_messages :: "timestamp \<Rightarrow> message_store \<Rightarrow> nat \<times> message_store" where
  "store_cleanup_old_messages now st =
     (let cutoff = sat_sub (now div 1000) (max_message_age_secs (ms_config st));
          to_remove = map fst (filter (\<lambda>(i, m). cm_timestamp m < cutoff) (ms_messages st))
      in (length to_remove, fold remove_message_completely to_remove st))"

definition enforce_capacity_limits ::
    "timestamp \<Rightarrow> content_message \<Rightarrow> message_store \<Rightarrow> message_store \<times> unit result" where
  "enforce_capacity_limits now m st =
     (let full = max_total_messages (ms_config st) \<le> ms_total_messages st;
          (removed, st1) = (if full then store_cleanup_old_messages now st else (0, st))
      in if full \<and> removed = 0 \<and> max_total_messages (ms_config st1) \<le> ms_total_messages st1
         then (st1, Inl (invalid_packet ''Message store at maximum capacity''))
         else case map_of (ms_conversations st1) (conversation_of m) of
                Some ids \<Rightarrow>
                  if max_messages_per_conversation (ms_config st1) \<le> length ids
                  then (st1, Inl (invalid_packet ''Conversation has reached maximum''))
                  else (st1, Inr ())
              | None \<Rightarrow> (st1, Inr ()))"

definition insert_message :: "content_message \<Rightarrow> message_store \<Rightarrow> message_store" where
  "insert_message m st =
     st\<lparr>ms_messages := map_put (cm_id m) m (ms_messages st),
       ms_unique_conversations :=
         (if has_key (ms_conversations st) (conversation_of m) then ms_unique_conversations st
          else ms_unique_conversations st + 1),
       ms_conversations := index_push (conversation_of m) (cm_id m) (ms_conversations st),
       ms_time_index := index_push (cm_timestamp m) (cm_id m) (ms_time_index st),
       ms_total_messages := ms_total_messages st + 1\<rparr>"

definition store_message ::
    "(bytes \<Rightarrow> bytes) \<Rightarrow> (content_message \<Rightarrow> nat option) \<Rightarrow> timestamp \<Rightarrow> content_message \<Rightarrow> message_store
     \<Rightarrow> message_store \<times> bool result" where
  "store_message sha256 serialized_size now m st =
     (case validate_message_input serialized_size (ms_config st) m of
        Inl e \<Rightarrow> (st, Inl e)
      | Inr _ \<Rightarrow>
          if \<not> verify_integrity sha256 m then
            (st\<lparr>ms_integrity_failures := ms_integrity_failures st + 1\<rparr>,
             Inl (invalid_packet ''Message integrity verification failed''))
          else if has_key (ms_messages st) (cm_id m) then
            (st\<lparr>ms_deduplication_saves := ms_deduplication_saves st + 1\<rparr>, Inr False)
          else
            (case enforce_capacity_limits now m st of
               (st1, Inl e) \<Rightarrow> (st1, Inl e)
             | (st1, Inr _) \<Rightarrow> (insert_message m st1, Inr True)))"

subsection \<open>Queries\<close>

definition get_message :: "message_store \<Rightarrow> message_id \<Rightarrow> content_message option" where
  "get_message st mid = map_of (ms_messages st) mid"

definition messages_of_ids :: "message_store \<Rightarrow> message_id list \<Rightarrow> content_message list" where
  "messages_of_ids st ids = List.map_filter (map_of (ms_messages st)) ids"

definition by_time :: "content_message \<Rightarrow> u64 \<times> u64" where
  "by_time m = (cm_timestamp m, cm_sequence m)"

definition get_conversation_messages :: "message_store \<Rightarrow> conversation_id \<Rightarrow> content_message list" where
  "get_conversation_messages st c =
     (case map_of (ms_conversations st) c of
        None \<Rightarrow> []
      | Some ids \<Rightarrow> sort_key by_time (messages_of_ids st ids))"

text \<open>\<^verbatim>\<open>BTreeMap::range\<close> panics when the start lies after the end.\<close>

definition get_messages_in_range :: "message_store \<Rightarrow> u64 \<Rightarrow> u64 \<Rightarrow> content_message list result" where
  "get_messages_in_range st a b =
     (if b < a then Inl Panic
      else
        (let entries = sort_key fst (filter (\<lambda>(t, ids). a \<le> t \<and> t \<le> b) (ms_time_index st))
         in Inr (sort_key by_time (messages_of_ids st (concat (map snd entries))))))"

definition get_peer_conversations :: "message_store \<Rightarrow> peer_id \<Rightarrow> conversation_id list" where
  "get_peer_conversations st pid =
     filter (\<lambda>c. involves_peer c pid) (keys_of (ms_conversations st))"

definition message_count :: "message_store \<Rightarrow> nat" where
  "message_count st = length (ms_messages st)"

definition contains_message :: "message_store \<Rightarrow> message_id \<Rightarrow> bool" where
  "contains_message st mid = has_key (ms_messages st) mid"

definition conversation_message_count :: "message_store \<Rightarrow> conversation_id \<Rightarrow> nat" where
  "conversation_message_count st c =
     (case map_of (ms_conversations st) c of Some ids \<Rightarrow> length ids | None \<Rightarrow> 0)"

section \<open>Lemmas on the indices\<close>

text \<open>An index that lists, under every key, exactly the messages with that key.\<close>

definition index_ok ::
    "('m \<Rightarrow> 'k) \<Rightarrow> ('i \<times> 'm) list \<Rightarrow> ('k \<times> 'i list) list \<Rightarrow> bool" where
  "index_ok key msgs idx \<longleftrightarrow>
     distinct (keys_of idx) \<and> (\<forall>k ids. map_of idx k = Some ids \<longrightarrow> ids \<noteq> []) \<and>
     (\<forall>k. distinct (index_get idx k) \<and>
        set (index_get idx k) = {i. \<exists>m. map_of msgs i = Some m \<and> key m = k})"

lemma index_ok_Nil: "index_ok key [] []"
  by (simp add: index_ok_def index_get_def)

lemma index_get_put: "index_get (map_put k ids idx) k' = (if k' = k then ids else index_get idx k')"
  by (simp add: index_get_def)

lemma index_ok_push:
  assumes "index_ok key msgs idx" and "map_of msgs i = None"
  shows "index_ok key (map_put i m msgs) (index_push (key m) i idx)"
proof -
  have "i \<notin> set (index_get idx k)" for k using assms by (auto simp: index_ok_def)
  with assms show ?thesis
    by (auto simp: index_ok_def index_push_def index_get_put split: if_splits)
qed

lemma index_get_drop:
  "index_get (index_drop k i idx) k' =
     (if k' = k then filter (\<lambda>j. j \<noteq> i) (index_get idx k) else index_get idx k')"
  by (auto simp: index_get_def index_drop_def Let_def split: option.split)

lemma index_ok_drop:
  assumes "index_ok key msgs idx" and "map_of msgs i = Some m"
  shows "index_ok key (map_del i msgs) (index_drop (key m) i idx)"
proof -
  have "distinct (keys_of (index_drop (key m) i idx))"
    using assms by (auto simp: index_ok_def index_drop_def Let_def split: option.split)
  moreover have "map_of (index_drop (key m) i idx) k = Some ids \<Longrightarrow> ids \<noteq> []" for k ids
    using assms by (auto simp: index_ok_def index_drop_def Let_def split: option.splits if_splits)
  moreover have "distinct (index_get (index_drop (key m) i idx) k) \<and>
      set (index_get (index_drop (key m) i idx) k) =
        {j. \<exists>m'. map_of (map_del i msgs) j = Some m' \<and> key m' = k}" for k
    using assms by (auto simp: index_ok_def index_get_drop)
  ultimately show ?thesis unfolding index_ok_def by blast
qed

lemma index_member:
  assumes "distinct (keys_of idx)"
  shows "(\<exists>ids. (k, ids) \<in> set idx \<and> i \<in> set ids) \<longleftrightarrow> i \<in> set (index_get idx k)"
proof (cases "map_of idx k")
  case None
  then have "(k, ids) \<notin> set idx" for ids by (force simp: map_of_eq_None_iff)
  with None show ?thesis by (simp add: index_get_def)
next
  case (Some ids)
  with assms have "(k, ids') \<in> set idx \<longleftrightarrow> ids' = ids" for ids' by (auto simp: dest: map_of_SomeD)
  with Some show ?thesis by (simp add: index_get_def)
qed

lemma index_entry:
  assumes "index_ok key msgs idx" and "map_of msgs i = Some m"
  obtains ids where "map_of idx (key m) = Some ids" "i \<in> set ids"
proof -
  have "i \<in> set (index_get idx (key m))" using assms by (auto simp: index_ok_def)
  then show thesis by (cases "map_of idx (key m)") (auto simp: index_get_def intro: that)
qed

section \<open>The invariant of the store\<close>

definition store_ok :: "(bytes \<Rightarrow> bytes) \<Rightarrow> message_store \<Rightarrow> bool" where
  "store_ok sha256 st \<longleftrightarrow>
     distinct (keys_of (ms_messages st)) \<and>
     (\<forall>i m. map_of (ms_messages st) i = Some m \<longrightarrow> cm_id m = i \<and> verify_integrity sha256 m) \<and>
     index_ok conversation_of (ms_messages st) (ms_conversations st) \<and>
     index_ok cm_timestamp (ms_messages st) (ms_time_index st) \<and>
     ms_total_messages st = length (ms_messages st) \<and>
     ms_unique_conversations st = length (ms_conversations st) \<and>
     ms_total_messages st \<le> max_total_messages (ms_config st) \<and>
     (\<forall>c. length (index_get (ms_conversations st) c) \<le> max 1 (max_messages_per_conversation (ms_config st)))"

lemma store_ok_new: "store_ok sha256 (store_with_config cfg)"
  by (simp add: store_ok_def store_with_config_def index_ok_Nil index_get_def)

lemma store_ok_remove:
  assumes "store_ok sha256 st"
  shows "store_ok sha256 (remove_message_completely mid st)"
proof (cases "map_of (ms_messages st) mid")
  case (Some m)
  let ?c = "conversation_of m"
  have conv: "index_ok conversation_of (ms_messages st) (ms_conversations st)"
    and time: "index_ok cm_timestamp (ms_messages st) (ms_time_index st)"
    using assms by (auto simp: store_ok_def)
  from index_entry [OF conv Some] obtain ids where ids: "map_of (ms_conversations st) ?c = Some ids" .
  have "distinct (keys_of (ms_conversations st))" using conv by (simp add: index_ok_def)
  then have "length (index_drop ?c mid (ms_conversations st)) =
      (if filter (\<lambda>j. j \<noteq> mid) ids = [] then length (ms_conversations st) - 1
       else length (ms_conversations st))"
    using ids by (simp add: index_drop_def Let_def length_del length_put has_key_def)
  moreover have "length (map_del mid (ms_messages st)) = length (ms_messages st) - 1"
    using assms Some by (simp add: store_ok_def length_del has_key_def)
  moreover have "length (index_get (index_drop ?c mid (ms_conversations st)) c) \<le>
      length (index_get (ms_conversations st) c)" for c
    by (simp add: index_get_drop)
  then have "length (index_get (index_drop ?c mid (ms_conversations st)) c) \<le>
      max 1 (max_messages_per_conversation (ms_config st))" for c
    using assms by (meson order_trans store_ok_def)
  ultimately show ?thesis
    using assms Some ids index_ok_drop [OF conv Some] index_ok_drop [OF time Some]
    by (auto simp: store_ok_def remove_message_completely_def Let_def)
qed (use assms in \<open>simp add: remove_message_completely_def\<close>)

lemma remove_config [simp]: "ms_config (remove_message_completely mid st) = ms_config st"
  by (simp add: remove_message_completely_def Let_def split: option.split)

lemma store_ok_removes:
  "store_ok sha256 st \<Longrightarrow> store_ok sha256 (fold remove_message_completely ids st)"
  by (induction ids arbitrary: st) (auto intro: store_ok_remove)

lemma removes_messages:
  "map_of (ms_messages (fold remove_message_completely ids st)) i =
     (if i \<in> set ids then None else map_of (ms_messages st) i)"
proof (induction ids arbitrary: st)
  case (Cons j ids)
  have "map_of (ms_messages (remove_message_completely j st)) = (map_of (ms_messages st))(j := None)"
    by (auto simp: remove_message_completely_def Let_def split: option.split)
  with Cons show ?case by simp
qed simp

lemma removes_config [simp]: "ms_config (fold remove_message_completely ids st) = ms_config st"
  by (induction ids arbitrary: st) auto

lemma removes_total:
  assumes "store_ok sha256 st" and "ids \<noteq> []" and "set ids \<subseteq> dom (map_of (ms_messages st))"
  shows "ms_total_messages (fold remove_message_completely ids st) < ms_total_messages st"
proof -
  let ?st = "fold remove_message_completely ids st"
  have ok: "store_ok sha256 ?st" by (rule store_ok_removes [OF assms(1)])
  have "dom (map_of (ms_messages ?st)) = dom (map_of (ms_messages st)) - set ids"
    by (auto simp: removes_messages split: if_splits)
  also have "\<dots> \<subset> dom (map_of (ms_messages st))" using assms(2,3) by (cases ids) auto
  finally have "card (dom (map_of (ms_messages ?st))) < card (dom (map_of (ms_messages st)))"
    by (intro psubset_card_mono) (simp_all add: finite_dom_map_of)
  moreover have "card (dom (map_of (ms_messages s))) = ms_total_messages s" if "store_ok sha256 s" for s
    using that by (simp add: store_ok_def dom_map_of_conv_image_fst distinct_card flip: set_map)
  ultimately show ?thesis using ok assms(1) by simp
qed

lemma cleanup_old_spec:
  assumes "store_ok sha256 st" and "store_cleanup_old_messages now st = (n, st')"
  shows "store_ok sha256 st'" and "ms_config st' = ms_config st"
    and "map_of (ms_messages st') i = (case map_of (ms_messages st) i of
       Some m \<Rightarrow> if cm_timestamp m < sat_sub (now div 1000) (max_message_age_secs (ms_config st))
                 then None else Some m
     | None \<Rightarrow> None)"
    and "0 < n \<Longrightarrow> ms_total_messages st' < ms_total_messages st"
    and "n = 0 \<Longrightarrow> st' = st"
proof -
  let ?old = "\<lambda>m. cm_timestamp m < sat_sub (now div 1000) (max_message_age_secs (ms_config st))"
  let ?ids = "map fst (filter (\<lambda>(i, m). ?old m) (ms_messages st))"
  have n: "n = length ?ids" and st': "st' = fold remove_message_completely ?ids st"
    using assms(2) by (simp_all add: store_cleanup_old_messages_def Let_def)
  have d: "distinct (keys_of (ms_messages st))" using assms(1) by (simp add: store_ok_def)
  show "store_ok sha256 st'" "ms_config st' = ms_config st"
    by (simp_all add: st' store_ok_removes [OF assms(1)])
  have "i \<in> set ?ids \<longleftrightarrow> (\<exists>m. map_of (ms_messages st) i = Some m \<and> ?old m)"
    using d by (force simp: map_of_eq_Some_iff)
  then show "map_of (ms_messages st') i = (case map_of (ms_messages st) i of
       Some m \<Rightarrow> if ?old m then None else Some m | None \<Rightarrow> None)"
    by (auto simp: st' removes_messages split: option.split)
  have "set ?ids \<subseteq> dom (map_of (ms_messages st))"
    by (auto simp: dom_map_of_conv_image_fst)
  then show "0 < n \<Longrightarrow> ms_total_messages st' < ms_total_messages st"
    unfolding n st' by (intro removes_total [OF assms(1)]) auto
  show "n = 0 \<Longrightarrow> st' = st" unfolding n st' by simp
qed

lemma enforce_spec:
  assumes "store_ok sha256 st" and "enforce_capacity_limits now m st = (st1, r)"
  shows "store_ok sha256 st1" and "ms_config st1 = ms_config st"
    and "map_of (ms_messages st1) \<subseteq>\<^sub>m map_of (ms_messages st)"
    and "r = Inr () \<Longrightarrow> ms_total_messages st1 < max_total_messages (ms_config st) \<and>
      length (index_get (ms_conversations st1) (conversation_of m)) <
        max 1 (max_messages_per_conversation (ms_config st))"
proof -
  let ?full = "max_total_messages (ms_config st) \<le> ms_total_messages st"
  obtain n st' where c: "(if ?full then store_cleanup_old_messages now st else (0, st)) = (n, st')"
    by force
  have "st1 = st'"
    using assms(2) c
    by (auto simp: enforce_capacity_limits_def Let_def split: if_splits option.splits)
  moreover have ok: "store_ok sha256 st'" and cfg: "ms_config st' = ms_config st"
    and le: "map_of (ms_messages st') \<subseteq>\<^sub>m map_of (ms_messages st)"
    using c assms(1) cleanup_old_spec(1-3) [OF assms(1)]
    by (auto simp: map_le_def split: if_splits option.splits)
  ultimately show "store_ok sha256 st1" "ms_config st1 = ms_config st"
    "map_of (ms_messages st1) \<subseteq>\<^sub>m map_of (ms_messages st)" by simp_all
  have "ms_total_messages st' < max_total_messages (ms_config st)" if "r = Inr ()"
  proof (cases ?full)
    case True
    with that c assms(2) have "\<not> (n = 0 \<and> max_total_messages (ms_config st') \<le> ms_total_messages st')"
      by (auto simp: enforce_capacity_limits_def)
    with True c cleanup_old_spec(4,5) [OF assms(1)] assms(1) cfg show ?thesis
      by (cases "n = 0") (fastforce simp: store_ok_def)+
  next
    case False
    with c show ?thesis by simp
  qed
  then show "r = Inr () \<Longrightarrow> ms_total_messages st1 < max_total_messages (ms_config st) \<and>
      length (index_get (ms_conversations st1) (conversation_of m)) <
        max 1 (max_messages_per_conversation (ms_config st))"
    using assms(2) c cfg \<open>st1 = st'\<close>
    by (auto simp: enforce_capacity_limits_def index_get_def split: if_splits option.splits)
qed

lemma insert_ok:
  assumes "store_ok sha256 st" and "map_of (ms_messages st) (cm_id m) = None"
    and "verify_integrity sha256 m" and "ms_total_messages st < max_total_messages (ms_config st)"
    and "length (index_get (ms_conversations st) (conversation_of m)) <
      max 1 (max_messages_per_conversation (ms_config st))"
  shows "store_ok sha256 (insert_message m st)"
proof -
  have conv: "index_ok conversation_of (ms_messages st) (ms_conversations st)"
    and time: "index_ok cm_timestamp (ms_messages st) (ms_time_index st)"
    using assms(1) by (auto simp: store_ok_def)
  have "length (index_get (index_push (conversation_of m) (cm_id m) (ms_conversations st)) c) \<le>
      max 1 (max_messages_per_conversation (ms_config st))" for c
    using assms(1,5) by (auto simp: index_push_def index_get_put store_ok_def)
  then show ?thesis
    using assms index_ok_push [OF conv assms(2), of m] index_ok_push [OF time assms(2), of m]
    by (auto simp: store_ok_def insert_message_def length_put has_key_def index_push_def)
qed

lemma store_message_ok:
  assumes "store_ok sha256 st"
  shows "store_ok sha256 (fst (store_message sha256 sz now m st))"
proof -
  obtain st1 r where e: "enforce_capacity_limits now m st = (st1, r)" by force
  note enf = enforce_spec [OF assms e]
  have "store_ok sha256 (insert_message m st1)"
    if "r = Inr ()" "verify_integrity sha256 m" "\<not> has_key (ms_messages st) (cm_id m)"
  proof (rule insert_ok [OF enf(1)])
    show "map_of (ms_messages st1) (cm_id m) = None"
      using that(3) enf(3) by (auto simp: has_key_def map_le_def) (metis domI option.exhaust)
  qed (use enf(2,4) that in auto)
  moreover have "store_ok sha256 (st\<lparr>ms_integrity_failures := a\<rparr>)"
    "store_ok sha256 (st\<lparr>ms_deduplication_saves := a\<rparr>)" for a
    using assms by (simp_all add: store_ok_def)
  ultimately show ?thesis
    using assms enf(1)
    by (auto simp: store_message_def e split: sum.split unit.split)
qed

section \<open>Reachable stores\<close>

definition store_start :: "message_store \<Rightarrow> bool" where
  "store_start st \<longleftrightarrow> (\<exists>cfg. st = store_with_config cfg)"

inductive store_step :: "(bytes \<Rightarrow> bytes) \<Rightarrow> (content_message \<Rightarrow> nat option) \<Rightarrow> message_store \<Rightarrow> message_store \<Rightarrow> bool"
  for sha256 sz where
  step_store: "store_step sha256 sz st (fst (store_message sha256 sz now m st))"

interpretation store: invariant_system store_start "store_step sha256 sz" "store_ok sha256"
  for sha256 sz
proof
  show "store_ok sha256 s" if "store_start s" for s
    using that by (auto simp: store_start_def store_ok_new)
  show "store_ok sha256 t" if "store_ok sha256 s" "store_step sha256 sz s t" for s t
    using that(2,1) by cases (simp add: store_message_ok)
qed

section \<open>Lemmas on queries\<close>

lemma messages_of_ids_set:
  "set (messages_of_ids st ids) = {m. \<exists>i\<in>set ids. map_of (ms_messages st) i = Some m}"
  by (auto simp: messages_of_ids_def List.map_filter_def image_iff) force

lemma stored_id: "store_ok sha256 st \<Longrightarrow> map_of (ms_messages st) i = Some m \<Longrightarrow> cm_id m = i"
  by (simp add: store_ok_def)

lemma messages_of_ids_distinct:
  assumes "store_ok sha256 st" and "distinct ids"
  shows "distinct (messages_of_ids st ids)"
  using assms(2)
proof (induction ids)
  case (Cons i ids)
  have "m \<notin> set (messages_of_ids st ids)" if "map_of (ms_messages st) i = Some m" for m
  proof
    assume "m \<in> set (messages_of_ids st ids)"
    then obtain j where "j \<in> set ids" "map_of (ms_messages st) j = Some m"
      by (auto simp: messages_of_ids_set)
    with stored_id [OF assms(1) that] stored_id [OF assms(1)] Cons.prems show False by auto
  qed
  with Cons show ?case by (auto simp: messages_of_ids_def map_filter_simps split: option.split)
qed (simp add: messages_of_ids_def map_filter_simps)

lemma distinct_concat_index:
  assumes "index_ok key msgs idx" and "distinct (keys_of es)" and "set es \<subseteq> set idx"
  shows "distinct (concat (map snd es))"
proof -
  have get: "snd e = index_get idx (fst e)" if "e \<in> set es" for e
  proof -
    have "(fst e, snd e) \<in> set idx" using that assms(3) by auto
    then have "map_of idx (fst e) = Some (snd e)" using assms(1) by (simp add: index_ok_def)
    then show ?thesis by (simp add: index_get_def)
  qed
  have "distinct ks \<Longrightarrow> distinct (concat (map (index_get idx) ks))" for ks
    using assms(1) by (induction ks) (auto simp: index_ok_def)
  from this [OF assms(2)] show ?thesis using get by (simp cong: map_cong)
qed

lemma conversation_query:
  assumes "store_ok sha256 st"
  shows "distinct (get_conversation_messages st c) \<and>
    sorted (map by_time (get_conversation_messages st c)) \<and>
    set (get_conversation_messages st c) =
      {m. get_message st (cm_id m) = Some m \<and> conversation_of m = c}"
proof -
  let ?ids = "index_get (ms_conversations st) c"
  have eq: "get_conversation_messages st c = sort_key by_time (messages_of_ids st ?ids)"
    by (auto simp: get_conversation_messages_def index_get_def messages_of_ids_def map_filter_simps
        split: option.split)
  have ids: "distinct ?ids" "set ?ids = {i. \<exists>m. map_of (ms_messages st) i = Some m \<and> conversation_of m = c}"
    using assms by (auto simp: store_ok_def index_ok_def)
  have "set (messages_of_ids st ?ids) = {m. get_message st (cm_id m) = Some m \<and> conversation_of m = c}"
    unfolding messages_of_ids_set ids(2) using stored_id [OF assms] by (force simp: get_message_def)
  then show ?thesis using messages_of_ids_distinct [OF assms ids(1)] by (simp add: eq)
qed

lemma range_query:
  fixes a b :: u64
  assumes "store_ok sha256 st"
  defines "ids \<equiv> concat (map snd (sort_key fst (filter (\<lambda>(t, ids). a \<le> t \<and> t \<le> b) (ms_time_index st))))"
  shows "distinct (messages_of_ids st ids) \<and> set (messages_of_ids st ids) =
    {m. get_message st (cm_id m) = Some m \<and> a \<le> cm_timestamp m \<and> cm_timestamp m \<le> b}"
proof -
  let ?es = "sort_key fst (filter (\<lambda>(t, ids). a \<le> t \<and> t \<le> b) (ms_time_index st))"
  have idx: "index_ok cm_timestamp (ms_messages st) (ms_time_index st)"
    using assms(1) by (simp add: store_ok_def)
  have d: "distinct (keys_of (ms_time_index st))" using idx by (simp add: index_ok_def)
  have "distinct (keys_of ?es)"
    using distinct_filter_keys [OF d, of "\<lambda>(t, ids). a \<le> t \<and> t \<le> b"] by (simp add: distinct_map)
  then have "distinct ids" unfolding ids_def by (intro distinct_concat_index [OF idx]) auto
  moreover have "i \<in> set ids \<longleftrightarrow>
      (\<exists>m. map_of (ms_messages st) i = Some m \<and> a \<le> cm_timestamp m \<and> cm_timestamp m \<le> b)" for i
  proof -
    have "i \<in> set ids \<longleftrightarrow> (\<exists>t. a \<le> t \<and> t \<le> b \<and> i \<in> set (index_get (ms_time_index st) t))"
      by (auto simp: ids_def index_member [OF d, symmetric])
    then show ?thesis using idx by (auto simp: index_ok_def)
  qed
  then have "set (messages_of_ids st ids) =
      {m. get_message st (cm_id m) = Some m \<and> a \<le> cm_timestamp m \<and> cm_timestamp m \<le> b}"
    unfolding messages_of_ids_set using stored_id [OF assms(1)] by (force simp: get_message_def)
  ultimately show ?thesis using messages_of_ids_distinct [OF assms(1)] by simp
qed

section \<open>Properties\<close>

text \<open>C13: In every reachable store, whatever was stored or refused, every message lies under its own
  content hash; the two indices list exactly the stored messages, without empty entries; the counters
  are the sizes of the tables; and the capacity limits hold (a conversation limit of zero still admits
  one message).\<close>

theorem message_store_invariant:
  assumes "reachable store_start (store_step sha256 sz) st"
  shows "(\<forall>i m. get_message st i = Some m \<longrightarrow> cm_id m = i \<and> verify_integrity sha256 m) \<and>
    index_ok conversation_of (ms_messages st) (ms_conversations st) \<and>
    index_ok cm_timestamp (ms_messages st) (ms_time_index st) \<and>
    ms_total_messages st = message_count st \<and>
    ms_unique_conversations st = length (ms_conversations st) \<and>
    message_count st \<le> max_total_messages (ms_config st) \<and>
    (\<forall>c. conversation_message_count st c \<le> max 1 (max_messages_per_conversation (ms_config st)))"
proof -
  have "store_ok sha256 st" by (rule store.invar_reachable [OF assms])
  then show ?thesis
    by (auto simp: store_ok_def get_message_def message_count_def conversation_message_count_def
        index_get_def split: option.splits)
qed

text \<open>A stand-in for the size of the serialised message, and a store with one message.\<close>

definition toy_size :: "content_message \<Rightarrow> nat option" where
  "toy_size m = Some (length (cm_content m) + 64)"

definition toy_message :: content_message where
  "toy_message = content_message_new toy_sha256 1700000000000 (replicate 8 1) None [104, 105] 1"

definition toy_store :: message_store where
  "toy_store = fst (store_message toy_sha256 toy_size 0 toy_message
     (store_with_config (message_store_config_testing\<lparr>max_total_messages := 1\<rparr>)))"

lemma toy_store_reachable: "reachable store_start (store_step toy_sha256 toy_size) toy_store"
proof -
  have "reachable store_start (store_step toy_sha256 toy_size)
      (store_with_config (message_store_config_testing\<lparr>max_total_messages := 1\<rparr>))"
    by (rule reach_start) (auto simp: store_start_def)
  then show ?thesis unfolding toy_store_def by (rule reach_step) (rule step_store)
qed

theorem message_store_invariant_witness:
  "reachable store_start (store_step toy_sha256 toy_size) toy_store \<and>
   ms_total_messages toy_store = message_count toy_store"
  using message_store_invariant [OF toy_store_reachable] toy_store_reachable by blast

text \<open>C14: In every reachable store the messages of a conversation are returned without duplicates, in the
  order of time and sequence number, and they are exactly the stored messages of that conversation;
  likewise the messages of a range of times, where a range whose start lies after its end panics.\<close>

theorem message_store_queries:
  assumes "reachable store_start (store_step sha256 sz) st"
  shows "distinct (get_conversation_messages st c) \<and>
    sorted (map by_time (get_conversation_messages st c)) \<and>
    set (get_conversation_messages st c) =
      {m. get_message st (cm_id m) = Some m \<and> conversation_of m = c} \<and>
    (if b < a then get_messages_in_range st a b = Inl Panic
     else \<exists>ms. get_messages_in_range st a b = Inr ms \<and> distinct ms \<and> sorted (map by_time ms) \<and>
       set ms = {m. get_message st (cm_id m) = Some m \<and> a \<le> cm_timestamp m \<and> cm_timestamp m \<le> b})"
proof -
  have ok: "store_ok sha256 st" by (rule store.invar_reachable [OF assms])
  note conv = conversation_query [OF ok, of c] and range = range_query [OF ok, of a b]
  show ?thesis
    using conv range by (auto simp: get_messages_in_range_def)
qed

theorem message_store_queries_witness:
  "reachable store_start (store_step toy_sha256 toy_size) toy_store \<and>
   get_messages_in_range toy_store 2 1 = Inl Panic \<and>
   distinct (get_conversation_messages toy_store BroadcastConversation)"
  using message_store_queries [OF toy_store_reachable, of BroadcastConversation 1 2] toy_store_reachable
  by simp

text \<open>Storing is idempotent and lookup returns what was stored: a new message that is accepted can be
  looked up under its identifier, an accepted message never replaces another, and storing it again
  reports a duplicate and keeps all messages.\<close>

theorem store_then_lookup:
  assumes "reachable store_start (store_step sha256 sz) st"
    and "store_message sha256 sz now m st = (st', Inr True)"
  shows "get_message st (cm_id m) = None \<and> get_message st' (cm_id m) = Some m \<and>
    (\<forall>i m'. i \<noteq> cm_id m \<and> get_message st' i = Some m' \<longrightarrow> get_message st i = Some m') \<and>
    (\<exists>st''. store_message sha256 sz now' m st' = (st'', Inr False) \<and>
       ms_messages st'' = ms_messages st')"
proof -
  have ok: "store_ok sha256 st" by (rule store.invar_reachable [OF assms(1)])
  obtain st1 r where e: "enforce_capacity_limits now m st = (st1, r)" by force
  note enf = enforce_spec [OF ok e]
  from assms(2) e have v: "validate_message_input sz (ms_config st) m = Inr ()"
    "verify_integrity sha256 m" "map_of (ms_messages st) (cm_id m) = None" "st' = insert_message m st1"
    by (auto simp: store_message_def has_key_def split: sum.splits unit.splits if_splits)
  have "ms_config st' = ms_config st" using enf(2) v(4) by (simp add: insert_message_def)
  moreover have "map_of (ms_messages st') = (map_of (ms_messages st1))(cm_id m \<mapsto> m)"
    using v(4) by (simp add: insert_message_def)
  moreover have "map_of (ms_messages st1) i = Some m' \<Longrightarrow> map_of (ms_messages st) i = Some m'" for i m'
    using enf(3) by (metis domI map_le_def)
  ultimately show ?thesis
    using v(1-3) by (auto simp: get_message_def store_message_def has_key_def)
qed

lemma toy_message_ok:
  "verify_integrity toy_sha256 toy_message" "conversation_of toy_message = BroadcastConversation"
  "cm_timestamp toy_message = 1700000000000"
  "validate_message_input toy_size (message_store_config_testing\<lparr>max_total_messages := 1\<rparr>) toy_message =
     Inr ()"
proof -
  have "chars_of (cm_content toy_message) = [104, 105]"
    by (simp add: toy_message_def content_message_new_def chars_of_def utf8_decode_ascii)
  then show "validate_message_input toy_size (message_store_config_testing\<lparr>max_total_messages := 1\<rparr>)
      toy_message = Inr ()"
    by (simp add: validate_message_input_def message_store_config_testing_def toy_size_def
        validate_content_safety_def mostly_whitespace_def is_whitespace_def is_control_def)
      (simp add: toy_message_def content_message_new_def)
qed (simp_all add: toy_message_def content_message_new_def verify_integrity_def conversation_of_def)

lemma toy_store_step:
  "store_message toy_sha256 toy_size 0 toy_message
     (store_with_config (message_store_config_testing\<lparr>max_total_messages := 1\<rparr>)) = (toy_store, Inr True)"
  using toy_message_ok
  by (simp add: toy_store_def store_message_def store_with_config_def has_key_def
      enforce_capacity_limits_def)

theorem store_then_lookup_witness:
  "get_message toy_store (cm_id toy_message) = Some toy_message"
proof -
  have "reachable store_start (store_step toy_sha256 toy_size)
      (store_with_config (message_store_config_testing\<lparr>max_total_messages := 1\<rparr>))"
    by (rule reach_start) (auto simp: store_start_def)
  from store_then_lookup [OF this toy_store_step] show ?thesis by blast
qed

text \<open>The age limit does not work: timestamps are milliseconds, but the clean-up compares them with a
  time in seconds. In a full store whose messages are from after the first thousandth of the time
  since the epoch (that is, any realistic ones), nothing is ever removed, however old, and every
  further message is refused.\<close>

theorem full_store_stays_full:
  assumes "reachable store_start (store_step sha256 sz) st"
    and "message_count st = max_total_messages (ms_config st)"
    and "\<forall>i m. get_message st i = Some m \<longrightarrow> now div 1000 \<le> cm_timestamp m"
    and "get_message st (cm_id m) = None" and "verify_integrity sha256 m"
    and "validate_message_input sz (ms_config st) m = Inr ()"
  shows "store_message sha256 sz now m st =
    (st, Inl (invalid_packet ''Message store at maximum capacity''))"
proof -
  have ok: "store_ok sha256 st" by (rule store.invar_reachable [OF assms(1)])
  let ?cutoff = "sat_sub (now div 1000) (max_message_age_secs (ms_config st))"
  have "\<not> cm_timestamp m < ?cutoff" if "(i, m) \<in> set (ms_messages st)" for i m
  proof -
    have "get_message st i = Some m"
      using that ok by (simp add: get_message_def store_ok_def)
    with assms(3) sat_sub_le [of "now div 1000"] show ?thesis by (meson leD order_trans less_le_trans)
  qed
  then have "filter (\<lambda>(i, m). cm_timestamp m < ?cutoff) (ms_messages st) = []"
    by (auto simp: filter_empty_conv)
  then have "store_cleanup_old_messages now st = (0, st)"
    by (simp add: store_cleanup_old_messages_def)
  moreover have "ms_total_messages st = max_total_messages (ms_config st)"
    using ok assms(2) by (simp add: store_ok_def message_count_def)
  ultimately show ?thesis
    using assms(4-6)
    by (simp add: store_message_def enforce_capacity_limits_def has_key_def get_message_def)
qed

theorem full_store_stays_full_witness:
  "\<exists>m. get_message toy_store (cm_id m) = None \<and>
     store_message toy_sha256 toy_size 1700000000000 m toy_store =
       (toy_store, Inl (invalid_packet ''Message store at maximum capacity''))"
proof -
  let ?m = "toy_message\<lparr>cm_id := compute_id toy_sha256 (replicate 8 2) None [104, 105] 1700000000000 1,
    cm_sender := replicate 8 2\<rparr>"
  have msgs: "ms_messages toy_store = [(cm_id toy_message, toy_message)]"
    and cfg: "ms_config toy_store = message_store_config_testing\<lparr>max_total_messages := 1\<rparr>"
    using toy_message_ok
    by (simp_all add: toy_store_def store_message_def store_with_config_def has_key_def
        enforce_capacity_limits_def insert_message_def)
  have new: "cm_id ?m \<noteq> cm_id toy_message"
    by (simp add: toy_message_def content_message_new_def compute_id_def toy_sha256_def pad_array_def
        numeral_eq_Suc)
  have content: "cm_content ?m = cm_content toy_message" by simp
  have "validate_message_input toy_size (ms_config toy_store) ?m = Inr ()"
    using toy_message_ok(4) unfolding cfg validate_message_input_def toy_size_def content .
  moreover have "verify_integrity toy_sha256 ?m"
    by (simp add: verify_integrity_def toy_message_def content_message_new_def)
  moreover have "get_message toy_store i = Some m' \<longrightarrow> (1700000000000 :: u64) div 1000 \<le> cm_timestamp m'"
    for i m' by (auto simp: get_message_def msgs toy_message_ok(3))
  moreover have "message_count toy_store = max_total_messages (ms_config toy_store)"
    by (simp add: message_count_def msgs cfg)
  moreover have none: "get_message toy_store (cm_id ?m) = None"
    using new by (simp add: get_message_def msgs)
  ultimately have "store_message toy_sha256 toy_size 1700000000000 ?m toy_store =
      (toy_store, Inl (invalid_packet ''Message store at maximum capacity''))"
    by (intro full_store_stays_full [OF toy_store_reachable]) auto
  with none show ?thesis by blast
qed

end
