(* ===== verification/Channel_Messages.thy ===== *)
theory Channel_Messages
  imports Packet Connection Acknowledgments
begin

text \<open>
  The messages the tasks of the runtime exchange
  (\<^verbatim>\<open>src/crates/bitchat-core/src/channel/communication.rs\<close>): commands of the user interface, events of the
  transports, effects for the transports and application events for the user interface.
  Floating-point fields (rates and averages) are left out. Texts for display are HOL strings, message
  contents Rust strings.
\<close>

datatype connection_status = CsDisconnected | CsDiscovering | CsConnecting | CsConnected | CsError

datatype transport_status = TsActive | TsPaused | TsDisabled | TsUnavailable

datatype message_delivery_status = MdsPending | MdsDelivered | MdsFailed | MdsRetrying | MdsTimedOut

datatype peer_session_state = PssNone | PssEstablishing | PssEstablished | PssFailed | PssRekeying

datatype encryption_status = EncNone | EncNoiseProtocol | EncFailed | EncNegotiating

datatype command =
    SendMessage peer_id rust_string
  | ConnectToPeer peer_id
  | CmdStartDiscovery
  | CmdStopDiscovery
  | DisconnectFromPeer peer_id
  | CmdShutdown
  | CmdPauseTransport transport_type
  | CmdResumeTransport transport_type
  | GetSystemStatus
  | QueryMessageStatus message_id
  | QueryPeerSession peer_id
  | QueryDeliveryStatus peer_id
  | QueryInternalState

datatype transport_event =
    EvPeerDiscovered peer_id transport_type "8 word option"
  | EvMessageReceived peer_id rust_string transport_type "message_id option" "peer_id option"
      "u64 option" "u64 option"
  | EvBitchatPacketReceived peer_id bitchat_packet transport_type
  | EvConnectionEstablished peer_id transport_type
  | EvConnectionLost peer_id transport_type string
  | EvTransportError transport_type string
  | EvHealthCheckCompleted transport_type bool "u64 option" u64
  | EvMetricsUpdated transport_type "u64 option" u64
  | EvFailoverOccurred transport_type transport_type string u64

datatype effect =
    SendPacket peer_id bytes transport_type
  | SendBitchatPacket peer_id bitchat_packet transport_type
  | BroadcastBitchatPacket bitchat_packet transport_type
  | EffInitiateConnection peer_id transport_type
  | StartListening transport_type
  | StopListening transport_type
  | WriteToStorage string bytes
  | ScheduleRetry duration command
  | EffStartTransportDiscovery transport_type
  | EffStopTransportDiscovery transport_type
  | EffPauseTransport transport_type
  | EffResumeTransport transport_type
  | RequestTransportHealthCheck transport_type duration
  | UpdateTransportMetrics transport_type "u64 option"
  | SwitchPrimaryTransport transport_type transport_type string

datatype app_event =
    AppMessageReceived peer_id rust_string u64
  | AppMessageSent peer_id rust_string u64
  | PeerStatusChanged peer_id connection_status "transport_type option"
  | DiscoveryStateChanged bool "transport_type option"
  | ConversationUpdated peer_id nat u64
  | SystemBusy string
  | SystemError string
  | SystemStatusReport nat nat u64 u64 "(transport_type \<times> transport_status) list" "nat option"
  | MessageStatusReport message_id message_delivery_status "u64 option" "u64 option" u32 "string option"
  | PeerSessionReport peer_id peer_session_state "u64 option" "u64 option" u64 u64 encryption_status
  | DeliveryStatusReport peer_id "message_id list" u64 u64
  | InternalStateReport peer_id nat nat nat "(peer_id \<times> connection_status) list" "nat option" u64

end
