(* ===== verification/Core_Logic.thy ===== *)
theory Core_Logic
  imports Channel_Messages Noise_Session Message_Store Delivery Rate_Limiter
begin

text \<open>
  The task that owns the application state and serialises all commands and events
  (\<^verbatim>\<open>src/crates/bitchat-runtime/src/logic/\<close>: \<^verbatim>\<open>state.rs\<close>, \<^verbatim>\<open>handlers.rs\<close>, \<^verbatim>\<open>task.rs\<close>). It composes the session
  manager, the delivery tracker, the message store, the connection state machine and the rate
  limiter.

  The cryptographic library, SHA-256, the size of a serialised message and the name of a session
  (\<^verbatim>\<open>session-<peer>-<transport>\<close>, with the peer in hexadecimal) are collected in \<open>env\<close>.
  The clock readings of one command or event are a \<open>core_clock\<close>: those of a connection transition,
  those of the time source and those of the rate limiter, each in the order of evaluation. The two
  outgoing channels are the lists of what was sent and whether the receiver is still there. Logging
  is left out. The texts of system errors leave out what the code formats into them.
\<close>

section \<open>State\<close>

record ('h, 't) core_env =
  env_snow :: "('h, 't) snow"
  env_sha256 :: "bytes \<Rightarrow> bytes"
  env_size :: "content_message \<Rightarrow> nat option"
  env_session_name :: "peer_id \<Rightarrow> transport_type \<Rightarrow> rust_string"

record core_clock =
  ck_transition :: "nat \<Rightarrow> timestamp"
  ck_now :: "nat \<Rightarrow> timestamp"
  ck_instant :: "nat \<Rightarrow> instant"

record core_stats =
  commands_processed :: u64
  events_processed :: u64
  effects_generated :: u64
  app_events_generated :: u64
  cst_state_transitions :: u64
  messages_sent :: u64
  messages_received :: u64

definition core_stats_default :: core_stats where
  "core_stats_default = \<lparr>commands_processed = 0, events_processed = 0, effects_generated = 0,
     app_events_generated = 0, cst_state_transitions = 0, messages_sent = 0, messages_received = 0\<rparr>"

record ('h, 't, 'u, 'f) core_state =
  cs_peer_id :: peer_id
  cs_session_manager :: "('h, 't) session_manager"
  cs_delivery_tracker :: "('u, 'f) delivery_tracker"
  cs_message_store :: message_store
  cs_connections :: "(peer_id \<times> connection_state) list"
  cs_audit_trail :: "audit_entry list"
  cs_message_sequence :: u64
  cs_start_time :: timestamp
  cs_stats :: core_stats

text \<open>The generated key pair and the reading of the clock are arguments.\<close>

definition core_state_new ::
    "noise_key_pair \<Rightarrow> timestamp \<Rightarrow> peer_id \<Rightarrow> session_timeouts \<Rightarrow> 'f delivery_config
     \<Rightarrow> ('h, 't, 'u, 'f) core_state" where
  "core_state_new key now pid tmo dcfg =
     \<lparr>cs_peer_id = pid, cs_session_manager = session_manager_new key tmo,
      cs_delivery_tracker = tracker_with_config dcfg,
      cs_message_store = store_with_config message_store_config_default, cs_connections = [],
      cs_audit_trail = [], cs_message_sequence = 0, cs_start_time = now,
      cs_stats = core_stats_default\<rparr>"

type_synonym outputs = "effect list \<times> app_event list"

section \<open>Handlers\<close>

definition apply_state_transition ::
    "state_transition \<Rightarrow> ('h, 't, 'u, 'f) core_state \<Rightarrow> ('h, 't, 'u, 'f) core_state" where
  "apply_state_transition tr st =
     st\<lparr>cs_connections := map_put (conn_peer_id (st_new_state tr)) (st_new_state tr) (cs_connections st),
       cs_audit_trail := cs_audit_trail st @ [st_audit_entry tr],
       cs_stats := (cs_stats st)\<lparr>cst_state_transitions := cst_state_transitions (cs_stats st) + 1\<rparr>\<rparr>"

definition take_connection ::
    "peer_id \<Rightarrow> ('h, 't, 'u, 'f) core_state \<Rightarrow> ('h, 't, 'u, 'f) core_state" where
  "take_connection pid st = st\<lparr>cs_connections := map_del pid (cs_connections st)\<rparr>"

definition put_connection ::
    "peer_id \<Rightarrow> connection_state \<Rightarrow> ('h, 't, 'u, 'f) core_state \<Rightarrow> ('h, 't, 'u, 'f) core_state" where
  "put_connection pid c st = st\<lparr>cs_connections := map_put pid c (cs_connections st)\<rparr>"

text \<open>The block four handlers share: an existing connection makes the transition or, when the event is
  invalid, is replaced by a new disconnected one.\<close>

definition transition_or_reset ::
    "(nat \<Rightarrow> timestamp) \<Rightarrow> peer_id \<Rightarrow> connection_event \<Rightarrow> ('h, 't, 'u, 'f) core_state
     \<Rightarrow> ('h, 't, 'u, 'f) core_state" where
  "transition_or_reset now pid ev st =
     (case map_of (cs_connections st) pid of
        Some c \<Rightarrow>
          (case transition now c ev of
             Inr tr \<Rightarrow> apply_state_transition tr (take_connection pid st)
           | Inl e \<Rightarrow> put_connection pid (new_disconnected pid) (take_connection pid st))
      | None \<Rightarrow> st)"

definition connection_or_new :: "peer_id \<Rightarrow> ('h, 't, 'u, 'f) core_state \<Rightarrow> connection_state" where
  "connection_or_new pid st =
     (case map_of (cs_connections st) pid of Some c \<Rightarrow> c | None \<Rightarrow> new_disconnected pid)"

definition connected_transport :: "connection_state option \<Rightarrow> transport_type" where
  "connected_transport c = (case c of Some (Connected s) \<Rightarrow> cd_transport s | _ \<Rightarrow> Ble)"

text \<open>The encryption of an outgoing message, with the session manager it leaves behind; \<open>Inl\<close> is the
  text of the system error.\<close>

definition encrypt_for ::
    "('h, 't) snow \<Rightarrow> timestamp \<Rightarrow> peer_id \<Rightarrow> bytes \<Rightarrow> ('h, 't) session_manager
     \<Rightarrow> ('h, 't) session_manager \<times> (string + bytes)" where
  "encrypt_for sn now pid plaintext mgr =
     (case map_of (sm_sessions mgr) pid of
        Some s \<Rightarrow>
          if s_state s = Established then
            (case session_encrypt sn now s plaintext of (s', r) \<Rightarrow>
               (mgr\<lparr>sm_sessions := map_put pid s' (sm_sessions mgr)\<rparr>,
                case r of Inr c \<Rightarrow> Inr c | Inl e \<Rightarrow> Inl ''Encryption failed''))
          else (mgr, Inl ''Session with peer not established'')
      | None \<Rightarrow> (mgr, Inl ''No session with peer''))"

definition handle_send_message ::
    "('h, 't) core_env \<Rightarrow> core_clock \<Rightarrow> peer_id \<Rightarrow> rust_string \<Rightarrow> ('h, 't, 'u, 'f) core_state
     \<Rightarrow> ('h, 't, 'u, 'f) core_state \<times> outputs result" where
  "handle_send_message env ck recipient content st =
     (case map_of (cs_connections st) recipient of
        None \<Rightarrow> (st, Inr ([], [SystemError ''Peer not found'']))
      | Some conn \<Rightarrow>
          if \<not> can_send_messages conn then
            (st, Inr ([], [SystemError ''Cannot send to peer - not connected'']))
          else
            (let st1 = st\<lparr>cs_message_sequence := cs_message_sequence st + 1\<rparr>;
                 message = content_message_new (env_sha256 env) (ck_now ck 0) (cs_peer_id st1)
                   (Some recipient) content (cs_message_sequence st1)
             in case store_message (env_sha256 env) (env_size env) (ck_now ck 1) message
                       (cs_message_store st1) of
                  (store, Inl e) \<Rightarrow> (st1\<lparr>cs_message_store := store\<rparr>, Inl e)
                | (store, Inr _) \<Rightarrow>
                    (let st2 = st1\<lparr>cs_message_store := store, cs_stats := (cs_stats st1)
                                 \<lparr>messages_sent := messages_sent (cs_stats st1) + 1\<rparr>\<rparr>
                     in case encrypt_for (env_snow env) (ck_now ck 2) recipient content
                               (cs_session_manager st2) of
                          (mgr, Inl err) \<Rightarrow>
                            (st2\<lparr>cs_session_manager := mgr\<rparr>, Inr ([], [SystemError err]))
                        | (mgr, Inr packet_data) \<Rightarrow>
                            (st2\<lparr>cs_session_manager := mgr\<rparr>,
                             Inr ([SendPacket recipient packet_data
                                     (connected_transport (map_of (cs_connections st2) recipient))],
                                  [AppMessageSent recipient content (cm_timestamp message)])))))"

definition handle_connect_to_peer ::
    "core_clock \<Rightarrow> peer_id \<Rightarrow> ('h, 't, 'u, 'f) core_state
     \<Rightarrow> ('h, 't, 'u, 'f) core_state \<times> outputs result" where
  "handle_connect_to_peer ck pid st =
     (let c = connection_or_new pid st; st1 = take_connection pid st
      in case transition (ck_transition ck) c (StartDiscovery (Some 60)) of
           Inr tr \<Rightarrow> (apply_state_transition tr st1, Inr ([], []))
         | Inl e \<Rightarrow> (st1, Inr ([], [SystemError ''Failed to connect to peer''])))"

definition handle_start_discovery :: "outputs result" where
  "handle_start_discovery =
     Inr ([EffStartTransportDiscovery Ble, EffStartTransportDiscovery Nostr],
          [DiscoveryStateChanged True None])"

definition handle_stop_discovery :: "outputs result" where
  "handle_stop_discovery =
     Inr ([EffStopTransportDiscovery Ble, EffStopTransportDiscovery Nostr],
          [DiscoveryStateChanged False None])"

definition handle_disconnect_from_peer ::
    "core_clock \<Rightarrow> peer_id \<Rightarrow> ('h, 't, 'u, 'f) core_state
     \<Rightarrow> ('h, 't, 'u, 'f) core_state \<times> outputs result" where
  "handle_disconnect_from_peer ck pid st =
     ((case map_of (cs_connections st) pid of
         Some c \<Rightarrow>
           (case transition (ck_transition ck) c Disconnect of
              Inr tr \<Rightarrow> apply_state_transition tr (take_connection pid st)
            | Inl e \<Rightarrow> take_connection pid st)
       | None \<Rightarrow> take_connection pid st),
      Inr ([], [PeerStatusChanged pid CsDisconnected None]))"

definition handle_shutdown :: "outputs result" where
  "handle_shutdown = Inr ([StopListening Ble, StopListening Nostr], [])"

definition handle_peer_discovered ::
    "core_clock \<Rightarrow> peer_id \<Rightarrow> transport_type \<Rightarrow> 8 word option \<Rightarrow> ('h, 't, 'u, 'f) core_state
     \<Rightarrow> ('h, 't, 'u, 'f) core_state \<times> outputs result" where
  "handle_peer_discovered ck pid tr signal st =
     (let c = connection_or_new pid st; st1 = take_connection pid st
      in ((case transition (ck_transition ck) c (PeerDiscovered tr signal) of
             Inr t \<Rightarrow> apply_state_transition t st1
           | Inl e \<Rightarrow> put_connection pid (new_disconnected pid) st1),
          Inr ([], [PeerStatusChanged pid CsDiscovering (Some tr)])))"

text \<open>Both message handlers end the same way.\<close>

definition receive_message ::
    "('h, 't) core_env \<Rightarrow> timestamp \<Rightarrow> peer_id \<Rightarrow> peer_id option \<Rightarrow> rust_string \<Rightarrow> u64 \<Rightarrow> u64
     \<Rightarrow> message_id option \<Rightarrow> ('h, 't, 'u, 'f) core_state \<Rightarrow> ('h, 't, 'u, 'f) core_state \<times> outputs result" where
  "receive_message env now from recipient content sequence ts mid st =
     (case from_metadata (env_sha256 env) from recipient content sequence ts mid of
        Inl e \<Rightarrow> (st, Inl e)
      | Inr message \<Rightarrow>
          (case store_message (env_sha256 env) (env_size env) now message (cs_message_store st) of
             (store, Inl e) \<Rightarrow> (st\<lparr>cs_message_store := store\<rparr>, Inl e)
           | (store, Inr _) \<Rightarrow>
               (st\<lparr>cs_message_store := store, cs_stats := (cs_stats st)
                    \<lparr>messages_received := messages_received (cs_stats st) + 1\<rparr>\<rparr>,
                Inr ([], [AppMessageReceived from content (cm_timestamp message)]))))"

definition handle_message_received ::
    "('h, 't) core_env \<Rightarrow> core_clock \<Rightarrow> peer_id \<Rightarrow> rust_string \<Rightarrow> transport_type \<Rightarrow> message_id option
     \<Rightarrow> peer_id option \<Rightarrow> u64 option \<Rightarrow> u64 option \<Rightarrow> ('h, 't, 'u, 'f) core_state
     \<Rightarrow> ('h, 't, 'u, 'f) core_state \<times> outputs result" where
  "handle_message_received env ck from content tr mid recipient ts sequence st =
     (let st1 = transition_or_reset (ck_transition ck) from ActivityDetected st;
          resolved_ts = (case ts of Some t \<Rightarrow> t | None \<Rightarrow> ck_now ck 0);
          resolved_recipient = (case recipient of Some p \<Rightarrow> p | None \<Rightarrow> cs_peer_id st1);
          (resolved_sequence, st2) =
            (case sequence of
               Some s \<Rightarrow> (s, st1)
             | None \<Rightarrow> (cs_message_sequence st1 + 1,
                        st1\<lparr>cs_message_sequence := cs_message_sequence st1 + 1\<rparr>))
      in receive_message env (ck_now ck 1) from (Some resolved_recipient) content resolved_sequence
           resolved_ts mid st2)"

definition handle_bitchat_packet_received ::
    "('h, 't) core_env \<Rightarrow> core_clock \<Rightarrow> peer_id \<Rightarrow> bitchat_packet \<Rightarrow> transport_type
     \<Rightarrow> ('h, 't, 'u, 'f) core_state \<Rightarrow> ('h, 't, 'u, 'f) core_state \<times> outputs result" where
  "handle_bitchat_packet_received env ck from pkt tr st =
     (let st1 = transition_or_reset (ck_transition ck) from ActivityDetected st;
          content = utf8_lossy (payload pkt);
          st2 = st1\<lparr>cs_message_sequence := cs_message_sequence st1 + 1\<rparr>;
          recipient = (case recipient_id pkt of Some p \<Rightarrow> Some p | None \<Rightarrow> Some (cs_peer_id st2))
      in receive_message env (ck_now ck 1) (sender_id pkt) recipient content (cs_message_sequence st2)
           (h_timestamp (header pkt)) None st2)"

definition handle_connection_established ::
    "(peer_id \<Rightarrow> transport_type \<Rightarrow> rust_string) \<Rightarrow> core_clock \<Rightarrow> peer_id \<Rightarrow> transport_type
     \<Rightarrow> ('h, 't, 'u, 'f) core_state \<Rightarrow> ('h, 't, 'u, 'f) core_state \<times> outputs result" where
  "handle_connection_established session_name ck pid tr st =
     (transition_or_reset (ck_transition ck) pid (ConnectionEstablished (session_name pid tr)) st,
      Inr ([], [PeerStatusChanged pid CsConnected (Some tr)]))"

definition handle_connection_lost ::
    "core_clock \<Rightarrow> peer_id \<Rightarrow> transport_type \<Rightarrow> string \<Rightarrow> ('h, 't, 'u, 'f) core_state
     \<Rightarrow> ('h, 't, 'u, 'f) core_state \<times> outputs result" where
  "handle_connection_lost ck pid tr reason st =
     (transition_or_reset (ck_transition ck) pid (ConnectionLost reason) st,
      Inr ([], [PeerStatusChanged pid CsError (Some tr)]))"

definition handle_transport_error :: "transport_type \<Rightarrow> string \<Rightarrow> outputs result" where
  "handle_transport_error tr error = Inr ([], [SystemError error])"

end
