(* ===== verification/Core_Task.thy ===== *)
theory Core_Task
  imports Core_Logic
begin

text \<open>
  The main loop of the core logic (\<^verbatim>\<open>src/crates/bitchat-runtime/src/logic/task.rs\<close>): dispatch of commands
  and events, the rate limiter in front of the event handlers, the queries and the sending of effects
  and application events.

  A channel to another task is the list of the messages sent on it, oldest first, and a flag that tells
  whether the receiver is alive. The choice \<^verbatim>\<open>tokio::select!\<close> makes between its two branches is the order
  of the inputs of the loop. The configuration is the one with the standard library. A command that
  waits for room in the bounded channel of application events delays the loop and is not represented.
\<close>

section \<open>The task\<close>

record ('h, 't, 'u, 'f) core_task =
  ct_state :: "('h, 't, 'u, 'f) core_state"
  ct_rate_limiter :: rate_limiter
  ct_effects :: "effect list"
  ct_effects_open :: bool
  ct_app_events :: "app_event list"
  ct_app_events_open :: bool
  ct_start_time :: timestamp
  ct_running :: bool

definition core_task_new ::
    "noise_key_pair \<Rightarrow> timestamp \<Rightarrow> timestamp \<Rightarrow> peer_id \<Rightarrow> session_timeouts \<Rightarrow> 'f delivery_config
     \<Rightarrow> rate_limit_config \<Rightarrow> ('h, 't, 'u, 'f) core_task" where
  "core_task_new key now0 now1 pid tmo dcfg rcfg =
     \<lparr>ct_state = core_state_new key now0 pid tmo dcfg, ct_rate_limiter = rate_limiter_new rcfg,
      ct_effects = [], ct_effects_open = True, ct_app_events = [], ct_app_events_open = True,
      ct_start_time = now1, ct_running = True\<rparr>"

definition task_stop :: "('h, 't, 'u, 'f) core_task \<Rightarrow> ('h, 't, 'u, 'f) core_task" where
  "task_stop t = t\<lparr>ct_running := False\<rparr>"

definition update_stats ::
    "(core_stats \<Rightarrow> core_stats) \<Rightarrow> ('h, 't, 'u, 'f) core_task \<Rightarrow> ('h, 't, 'u, 'f) core_task" where
  "update_stats f t = t\<lparr>ct_state := (ct_state t)\<lparr>cs_stats := f (cs_stats (ct_state t))\<rparr>\<rparr>"

section \<open>Outgoing channels\<close>

fun handled_locally :: "effect \<Rightarrow> bool" where
  "handled_locally (WriteToStorage k v) = True"
| "handled_locally (ScheduleRetry d c) = True"
| "handled_locally e = False"

definition send_effect ::
    "('h, 't, 'u, 'f) core_task \<Rightarrow> effect \<Rightarrow> ('h, 't, 'u, 'f) core_task \<times> unit result" where
  "send_effect t e =
     (if handled_locally e then (t, Inr ())
      else if \<not> ct_effects_open t then
        (t, Inl (Err (Transport (Shutdown ''Effect channel closed''))))
      else
        (update_stats (\<lambda>s. s\<lparr>effects_generated := effects_generated s + 1\<rparr>)
           (t\<lparr>ct_effects := ct_effects t @ [e]\<rparr>), Inr ()))"

definition send_app_event ::
    "('h, 't, 'u, 'f) core_task \<Rightarrow> app_event \<Rightarrow> ('h, 't, 'u, 'f) core_task \<times> unit result" where
  "send_app_event t e =
     (if \<not> ct_app_events_open t then (t, Inl (Err (Transport (SendBufferFull 0))))
      else
        (update_stats (\<lambda>s. s\<lparr>app_events_generated := app_events_generated s + 1\<rparr>)
           (t\<lparr>ct_app_events := ct_app_events t @ [e]\<rparr>), Inr ()))"

text \<open>The loops that send the results of a handler: the first failure ends them.\<close>

fun send_each :: "('t \<Rightarrow> 'a \<Rightarrow> 't \<times> unit result) \<Rightarrow> 't \<Rightarrow> 'a list \<Rightarrow> 't \<times> unit result" where
  "send_each send t [] = (t, Inr ())"
| "send_each send t (x # xs) =
     (case send t x of
        (t1, Inl e) \<Rightarrow> (t1, Inl e)
      | (t1, Inr _) \<Rightarrow> send_each send t1 xs)"

definition send_outputs ::
    "('h, 't, 'u, 'f) core_task \<Rightarrow> outputs result \<Rightarrow> ('h, 't, 'u, 'f) core_task \<times> unit result" where
  "send_outputs t r =
     (case r of
        Inl e \<Rightarrow> (t, Inl e)
      | Inr (effects, app_events) \<Rightarrow>
          (case send_each send_effect t effects of
             (t1, Inl e) \<Rightarrow> (t1, Inl e)
           | (t1, Inr _) \<Rightarrow> send_each send_app_event t1 app_events))"

section \<open>Queries\<close>

definition handle_get_system_status ::
    "timestamp \<Rightarrow> ('h, 't, 'u, 'f) core_task \<Rightarrow> outputs result" where
  "handle_get_system_status now t =
     (let conns = map snd (cs_connections (ct_state t)); st = cs_stats (ct_state t)
      in Inr ([], [SystemStatusReport (length conns) (length (filter can_send_messages conns))
           (messages_sent st + messages_received st) (sat_sub now (ct_start_time t) div 1000)
           [(Ble, TsActive), (Nostr, TsActive)] None]))"

definition handle_query_message_status :: "message_id \<Rightarrow> outputs result" where
  "handle_query_message_status mid = Inr ([], [MessageStatusReport mid MdsPending None None 0 None])"

definition handle_query_peer_session ::
    "peer_id \<Rightarrow> ('h, 't, 'u, 'f) core_task \<Rightarrow> outputs result" where
  "handle_query_peer_session pid t =
     (let session_state =
            (if get_session (cs_session_manager (ct_state t)) pid \<noteq> None then PssEstablished else PssNone);
          encryption_status =
            (if session_state = PssEstablished then EncNoiseProtocol
             else if session_state = PssEstablishing then EncNegotiating else EncNone)
      in Inr ([], [PeerSessionReport pid session_state None None 0 0 encryption_status]))"

definition handle_query_delivery_status :: "peer_id \<Rightarrow> outputs result" where
  "handle_query_delivery_status pid = Inr ([], [DeliveryStatusReport pid [] 0 0])"

definition handle_query_internal_state ::
    "timestamp \<Rightarrow> ('h, 't, 'u, 'f) core_task \<Rightarrow> outputs result" where
  "handle_query_internal_state now t =
     (let (_, active_sessions, _) = session_counts (cs_session_manager (ct_state t));
          connection_states =
            map (\<lambda>(p, c). (p, if can_send_messages c then CsConnected else CsDisconnected))
              (cs_connections (ct_state t))
      in Inr ([], [InternalStateReport (cs_peer_id (ct_state t)) active_sessions 0 0 connection_states
           None (sat_sub now (ct_start_time t))]))"

section \<open>Commands and events\<close>

text \<open>A handler works on the core state; its result is sent when it succeeds.\<close>

definition run_handler ::
    "(('h, 't, 'u, 'f) core_state \<Rightarrow> ('h, 't, 'u, 'f) core_state \<times> outputs result)
     \<Rightarrow> ('h, 't, 'u, 'f) core_task \<Rightarrow> ('h, 't, 'u, 'f) core_task \<times> unit result" where
  "run_handler h t =
     (case h (ct_state t) of (st, r) \<Rightarrow> send_outputs (t\<lparr>ct_state := st\<rparr>) r)"

fun dispatch_command ::
    "('h, 't) core_env \<Rightarrow> core_clock \<Rightarrow> command \<Rightarrow> ('h, 't, 'u, 'f) core_task
     \<Rightarrow> ('h, 't, 'u, 'f) core_task \<times> unit result" where
  "dispatch_command env ck (SendMessage recipient content) t =
     run_handler (handle_send_message env ck recipient content) t"
| "dispatch_command env ck (ConnectToPeer pid) t = run_handler (handle_connect_to_peer ck pid) t"
| "dispatch_command env ck CmdStartDiscovery t = send_outputs t handle_start_discovery"
| "dispatch_command env ck CmdStopDiscovery t = send_outputs t handle_stop_discovery"
| "dispatch_command env ck (DisconnectFromPeer pid) t =
     run_handler (handle_disconnect_from_peer ck pid) t"
| "dispatch_command env ck (CmdPauseTransport tr) t = send_outputs t (Inr ([EffPauseTransport tr], []))"
| "dispatch_command env ck (CmdResumeTransport tr) t = send_outputs t (Inr ([EffResumeTransport tr], []))"
| "dispatch_command env ck GetSystemStatus t = send_outputs t (handle_get_system_status (ck_now ck 0) t)"
| "dispatch_command env ck (QueryMessageStatus mid) t = send_outputs t (handle_query_message_status mid)"
| "dispatch_command env ck (QueryPeerSession pid) t = send_outputs t (handle_query_peer_session pid t)"
| "dispatch_command env ck (QueryDeliveryStatus pid) t =
     send_outputs t (handle_query_delivery_status pid)"
| "dispatch_command env ck QueryInternalState t =
     send_outputs t (handle_query_internal_state (ck_now ck 0) t)"
| "dispatch_command env ck CmdShutdown t = send_outputs (t\<lparr>ct_running := False\<rparr>) handle_shutdown"

definition process_command ::
    "('h, 't) core_env \<Rightarrow> core_clock \<Rightarrow> command \<Rightarrow> ('h, 't, 'u, 'f) core_task
     \<Rightarrow> ('h, 't, 'u, 'f) core_task \<times> unit result" where
  "process_command env ck c t =
     dispatch_command env ck c
       (update_stats (\<lambda>s. s\<lparr>commands_processed := commands_processed s + 1\<rparr>) t)"

text \<open>The check of the limiter before a handler; a refusal ends the processing of the event.\<close>

definition rate_limited ::
    "(rate_limiter \<Rightarrow> rate_limiter \<times> unit result)
     \<Rightarrow> (('h, 't, 'u, 'f) core_state \<Rightarrow> ('h, 't, 'u, 'f) core_state \<times> outputs result)
     \<Rightarrow> ('h, 't, 'u, 'f) core_task \<Rightarrow> ('h, 't, 'u, 'f) core_task \<times> unit result" where
  "rate_limited check h t =
     (case check (ct_rate_limiter t) of
        (rl, Inl e) \<Rightarrow> (t\<lparr>ct_rate_limiter := rl\<rparr>, Inl e)
      | (rl, Inr _) \<Rightarrow> run_handler h (t\<lparr>ct_rate_limiter := rl\<rparr>))"

fun dispatch_event ::
    "('h, 't) core_env \<Rightarrow> core_clock \<Rightarrow> transport_event \<Rightarrow> ('h, 't, 'u, 'f) core_task
     \<Rightarrow> ('h, 't, 'u, 'f) core_task \<times> unit result" where
  "dispatch_event env ck (EvPeerDiscovered pid tr signal) t =
     run_handler (handle_peer_discovered ck pid tr signal) t"
| "dispatch_event env ck (EvMessageReceived from content tr mid recipient ts sequence) t =
     rate_limited (\<lambda>rl. check_message_allowed (ck_instant ck) rl from)
       (handle_message_received env ck from content tr mid recipient ts sequence) t"
| "dispatch_event env ck (EvBitchatPacketReceived from pkt tr) t =
     rate_limited (\<lambda>rl. check_message_allowed (ck_instant ck) rl from)
       (handle_bitchat_packet_received env ck from pkt tr) t"
| "dispatch_event env ck (EvConnectionEstablished pid tr) t =
     rate_limited (\<lambda>rl. check_connection_allowed (ck_instant ck) rl pid)
       (handle_connection_established (env_session_name env) ck pid tr) t"
| "dispatch_event env ck (EvConnectionLost pid tr reason) t =
     run_handler (handle_connection_lost ck pid tr reason) t"
| "dispatch_event env ck (EvTransportError tr error) t = send_outputs t (handle_transport_error tr error)"
| "dispatch_event env ck (EvHealthCheckCompleted tr success latency ts) t = send_outputs t (Inr ([], []))"
| "dispatch_event env ck (EvMetricsUpdated tr latency ts) t = send_outputs t (Inr ([], []))"
| "dispatch_event env ck (EvFailoverOccurred tr1 tr2 reason ts) t = send_outputs t (Inr ([], []))"

definition process_event ::
    "('h, 't) core_env \<Rightarrow> core_clock \<Rightarrow> transport_event \<Rightarrow> ('h, 't, 'u, 'f) core_task
     \<Rightarrow> ('h, 't, 'u, 'f) core_task \<times> unit result" where
  "process_event env ck e t =
     dispatch_event env ck e (update_stats (\<lambda>s. s\<lparr>events_processed := events_processed s + 1\<rparr>) t)"

section \<open>The loop\<close>

datatype loop_input =
    InCommand core_clock "command option"
  | InEvent core_clock "transport_event option"

text \<open>What the loop does with the result of a command or an event: \<open>True\<close> tells that it goes on. A panic
  ends the task.\<close>

fun after_processing ::
    "('h, 't, 'u, 'f) core_task \<times> unit result \<Rightarrow> ('h, 't, 'u, 'f) core_task \<times> bool" where
  "after_processing (t, Inl (Err (Channel m))) = (t\<lparr>ct_running := False\<rparr>, False)"
| "after_processing (t, Inl (Err (Configuration m))) = (t\<lparr>ct_running := False\<rparr>, False)"
| "after_processing (t, Inl Panic) = (t, False)"
| "after_processing (t, r) = (t, True)"

fun loop_step ::
    "('h, 't) core_env \<Rightarrow> loop_input \<Rightarrow> ('h, 't, 'u, 'f) core_task \<Rightarrow> ('h, 't, 'u, 'f) core_task \<times> bool" where
  "loop_step env (InCommand ck (Some c)) t = after_processing (process_command env ck c t)"
| "loop_step env (InCommand ck None) t = (t, False)"
| "loop_step env (InEvent ck (Some e)) t = after_processing (process_event env ck e t)"
| "loop_step env (InEvent ck None) t = (t, True)"

text \<open>The loop on the inputs it receives, with those it has not taken when it ends.\<close>

fun core_run ::
    "('h, 't) core_env \<Rightarrow> loop_input list \<Rightarrow> ('h, 't, 'u, 'f) core_task
     \<Rightarrow> ('h, 't, 'u, 'f) core_task \<times> loop_input list" where
  "core_run env [] t = (t, [])"
| "core_run env (i # is) t =
     (if \<not> ct_running t then (t, i # is)
      else case loop_step env i t of
             (t1, go_on) \<Rightarrow> if go_on then core_run env is t1 else (t1, is))"

section \<open>Invariant of the core state\<close>

fun unconnected :: "connection_state \<Rightarrow> bool" where
  "unconnected (Disconnected s) = True"
| "unconnected (Discovering s) = True"
| "unconnected c = False"

definition connections_ok :: "(peer_id \<times> connection_state) list \<Rightarrow> bool" where
  "connections_ok cs \<longleftrightarrow> distinct (keys_of cs) \<and>
     (\<forall>p c. map_of cs p = Some c \<longrightarrow> conn_peer_id c = p \<and> unconnected c)"

definition core_inv :: "(bytes \<Rightarrow> bytes) \<Rightarrow> ('h, 't, 'u, 'f) core_state \<Rightarrow> bool" where
  "core_inv sha256 st \<longleftrightarrow> connections_ok (cs_connections st) \<and> sm_sessions (cs_session_manager st) = [] \<and>
     store_ok sha256 (cs_message_store st) \<and>
     cst_state_transitions (cs_stats st) = word_of_nat (length (cs_audit_trail st)) \<and>
     messages_sent (cs_stats st) = 0"

text \<open>The events the handlers fire.\<close>

fun core_event :: "connection_event \<Rightarrow> bool" where
  "core_event (InitiateConnection tr params) = False"
| "core_event (ConnectionFailedEvent reason) = False"
| "core_event TimeoutEvent = False"
| "core_event Retry = False"
| "core_event ev = True"

lemma next_state_unconnected:
  "next_state now s ev = Some (t, effs, n) \<Longrightarrow> unconnected s \<Longrightarrow> core_event ev \<Longrightarrow> unconnected t"
  by (induction now s ev rule: next_state.induct) auto

lemma unconnected_cannot_send [simp]: "unconnected c \<Longrightarrow> \<not> can_send_messages c"
  by (cases c) auto

lemma new_disconnected_ok [simp]:
  "conn_peer_id (new_disconnected pid) = pid" "unconnected (new_disconnected pid)"
  by (simp_all add: new_disconnected_def)

lemma connections_ok_unconnected: "connections_ok cs \<Longrightarrow> (p, c) \<in> set cs \<Longrightarrow> unconnected c"
  by (metis connections_ok_def map_of_is_SomeI)

lemma connections_ok_put:
  "connections_ok cs \<Longrightarrow> conn_peer_id c = p \<Longrightarrow> unconnected c \<Longrightarrow> connections_ok (map_put p c cs)"
  by (simp add: connections_ok_def)

lemma connections_ok_del: "connections_ok cs \<Longrightarrow> connections_ok (map_del p cs)"
  by (simp add: connections_ok_def)

lemma core_inv_take [simp]: "core_inv sha256 st \<Longrightarrow> core_inv sha256 (take_connection pid st)"
  by (simp add: core_inv_def take_connection_def connections_ok_del)

lemma core_inv_put [simp]: "core_inv sha256 st \<Longrightarrow> core_inv sha256 (put_connection pid (new_disconnected pid) st)"
  by (simp add: core_inv_def put_connection_def connections_ok_put)

lemma core_inv_transition:
  assumes "core_inv sha256 st" and "transition now c ev = Inr tr" and "unconnected c" and "core_event ev"
  shows "core_inv sha256 (apply_state_transition tr st)"
proof -
  from assms(2) obtain n where "next_state now c ev = Some (st_new_state tr, st_effects tr, n)"
    by (meson transition_InrD)
  with assms(3,4) have "unconnected (st_new_state tr)" by (metis next_state_unconnected)
  with assms(1) show ?thesis
    by (simp add: core_inv_def apply_state_transition_def connections_ok_put)
qed

lemma core_inv_connection:
  "core_inv sha256 st \<Longrightarrow> map_of (cs_connections st) pid = Some c \<Longrightarrow> unconnected c"
  by (simp add: core_inv_def connections_ok_def)

lemma connection_or_new_ok: "core_inv sha256 st \<Longrightarrow> unconnected (connection_or_new pid st)"
  by (auto simp: connection_or_new_def intro: core_inv_connection split: option.split)

lemma core_inv_transition_or_reset:
  "core_inv sha256 st \<Longrightarrow> core_event ev \<Longrightarrow> core_inv sha256 (transition_or_reset now pid ev st)"
  by (auto simp: transition_or_reset_def intro: core_inv_transition core_inv_connection
      split: option.split sum.split)

section \<open>What the handlers promise\<close>

fun control_effect :: "effect \<Rightarrow> bool" where
  "control_effect (StopListening tr) = True"
| "control_effect (EffStartTransportDiscovery tr) = True"
| "control_effect (EffStopTransportDiscovery tr) = True"
| "control_effect (EffPauseTransport tr) = True"
| "control_effect (EffResumeTransport tr) = True"
| "control_effect e = False"

fun reports_sent :: "app_event \<Rightarrow> bool" where
  "reports_sent (AppMessageSent p c ts) = True"
| "reports_sent e = False"

fun reports_received :: "app_event \<Rightarrow> bool" where
  "reports_received (AppMessageReceived p c ts) = True"
| "reports_received e = False"

fun recoverable :: "fault \<Rightarrow> bool" where
  "recoverable (Err (Channel m)) = False"
| "recoverable (Err (Configuration m)) = False"
| "recoverable Panic = False"
| "recoverable e = True"

text \<open>\<open>n\<close> bounds the received messages that are reported.\<close>

definition outputs_ok :: "nat \<Rightarrow> outputs result \<Rightarrow> bool" where
  "outputs_ok n r \<longleftrightarrow>
     (case r of
        Inl e \<Rightarrow> recoverable e
      | Inr (effs, evs) \<Rightarrow> list_all control_effect effs \<and> \<not> list_ex reports_sent evs \<and>
          length (filter reports_received evs) \<le> n)"

definition handler_ok ::
    "(bytes \<Rightarrow> bytes) \<Rightarrow> nat \<Rightarrow> (('h, 't, 'u, 'f) core_state \<Rightarrow> ('h, 't, 'u, 'f) core_state \<times> outputs result) \<Rightarrow> bool" where
  "handler_ok sha256 n h \<longleftrightarrow>
     (\<forall>st. core_inv sha256 st \<longrightarrow> core_inv sha256 (fst (h st)) \<and> outputs_ok n (snd (h st)))"

lemma send_message_ok: "handler_ok sha256 0 (handle_send_message env ck pid content)"
  by (auto simp: handler_ok_def handle_send_message_def outputs_ok_def
      dest: core_inv_connection split: option.split)

lemma connect_ok: "handler_ok sha256 0 (handle_connect_to_peer ck pid)"
  by (auto simp: handler_ok_def handle_connect_to_peer_def outputs_ok_def Let_def
      intro: core_inv_transition connection_or_new_ok split: sum.split)

lemma disconnect_ok: "handler_ok sha256 0 (handle_disconnect_from_peer ck pid)"
  by (auto simp: handler_ok_def handle_disconnect_from_peer_def outputs_ok_def
      intro: core_inv_transition core_inv_connection split: sum.split option.split)

lemma discovered_ok: "handler_ok sha256 0 (handle_peer_discovered ck pid tr signal)"
  by (auto simp: handler_ok_def handle_peer_discovered_def outputs_ok_def Let_def
      intro: core_inv_transition connection_or_new_ok split: sum.split)

lemma established_ok: "handler_ok sha256 0 (handle_connection_established sn ck pid tr)"
  by (auto simp: handler_ok_def handle_connection_established_def outputs_ok_def
      intro: core_inv_transition_or_reset)

lemma lost_ok: "handler_ok sha256 0 (handle_connection_lost ck pid tr reason)"
  by (auto simp: handler_ok_def handle_connection_lost_def outputs_ok_def
      intro: core_inv_transition_or_reset)

lemma store_message_recoverable:
  "store_message sha256 sz now m st = (st', Inl e) \<Longrightarrow> recoverable e"
  by (auto simp: store_message_def validate_message_input_def validate_content_safety_def
      enforce_capacity_limits_def invalid_packet_def serialization_error_def Let_def
      split: sum.splits if_splits option.splits prod.splits)

lemma receive_message_ok:
  assumes "core_inv (env_sha256 env) st"
  shows "core_inv (env_sha256 env) (fst (receive_message env now from rc content seq ts mid st))"
    and "outputs_ok 1 (snd (receive_message env now from rc content seq ts mid st))"
proof -
  have "recoverable e" if "from_metadata sha256 from rc content seq ts mid = Inl e" for sha256 e
    using that by (auto simp: from_metadata_def invalid_packet_def Let_def split: option.splits if_splits)
  then show "outputs_ok 1 (snd (receive_message env now from rc content seq ts mid st))"
    by (auto simp: receive_message_def outputs_ok_def dest: store_message_recoverable
        split: sum.split prod.split)
  show "core_inv (env_sha256 env) (fst (receive_message env now from rc content seq ts mid st))"
    using assms by (auto simp: receive_message_def core_inv_def split: sum.split prod.split)
      (metis fst_conv store_message_ok)+
qed

lemma core_inv_sequence [simp]: "core_inv sha256 (st\<lparr>cs_message_sequence := n\<rparr>) = core_inv sha256 st"
  by (simp add: core_inv_def)

lemma message_received_ok:
  "handler_ok (env_sha256 env) 1 (handle_message_received env ck from content tr mid rc ts seq)"
  by (auto simp: handler_ok_def handle_message_received_def Let_def
      intro!: receive_message_ok core_inv_transition_or_reset simp del: One_nat_def split: option.split)

lemma packet_received_ok:
  "handler_ok (env_sha256 env) 1 (handle_bitchat_packet_received env ck from pkt tr)"
  by (auto simp: handler_ok_def handle_bitchat_packet_received_def Let_def
      intro!: receive_message_ok core_inv_transition_or_reset simp del: One_nat_def split: option.split)


section \<open>Invariant of the task\<close>

definition task_inv :: "(bytes \<Rightarrow> bytes) \<Rightarrow> ('h, 't, 'u, 'f) core_task \<Rightarrow> bool" where
  "task_inv sha256 t \<longleftrightarrow> core_inv sha256 (ct_state t) \<and> list_all control_effect (ct_effects t) \<and>
     \<not> list_ex reports_sent (ct_app_events t)"

definition received_count :: "('h, 't, 'u, 'f) core_task \<Rightarrow> nat" where
  "received_count t = length (filter reports_received (ct_app_events t))"

text \<open>What one step of the task may do: keep the invariant, fail in a way the loop survives, report at
  most \<open>n\<close> received messages, and leave the limiter and the flag of the loop alone.\<close>

definition step_ok ::
    "(bytes \<Rightarrow> bytes) \<Rightarrow> nat \<Rightarrow> ('h, 't, 'u, 'f) core_task \<Rightarrow> ('h, 't, 'u, 'f) core_task \<times> unit result \<Rightarrow> bool" where
  "step_ok sha256 n t p \<longleftrightarrow> (task_inv sha256 t \<longrightarrow>
     task_inv sha256 (fst p) \<and> (\<forall>e. snd p = Inl e \<longrightarrow> recoverable e) \<and>
     received_count t \<le> received_count (fst p) \<and> received_count (fst p) \<le> received_count t + n \<and>
     ct_rate_limiter (fst p) = ct_rate_limiter t \<and> ct_running (fst p) = ct_running t)"

lemma step_ok_trans:
  "step_ok sha256 m t (t1, q) \<Longrightarrow> step_ok sha256 n t1 p \<Longrightarrow> step_ok sha256 (m + n) t p"
  by (auto simp: step_ok_def)

lemma step_ok_mono: "step_ok sha256 m t p \<Longrightarrow> m \<le> n \<Longrightarrow> step_ok sha256 n t p"
  by (auto simp: step_ok_def)

lemma update_stats_simps [simp]:
  "ct_rate_limiter (update_stats f t) = ct_rate_limiter t" "ct_running (update_stats f t) = ct_running t"
  "received_count (update_stats f t) = received_count t"
  "ct_effects (update_stats f t) = ct_effects t" "ct_app_events (update_stats f t) = ct_app_events t"
  by (simp_all add: update_stats_def received_count_def)

definition counts_only :: "(core_stats \<Rightarrow> core_stats) \<Rightarrow> bool" where
  "counts_only f \<longleftrightarrow>
     (\<forall>s. cst_state_transitions (f s) = cst_state_transitions s \<and> messages_sent (f s) = messages_sent s)"

lemma task_inv_update_stats:
  "counts_only f \<Longrightarrow> task_inv sha256 (update_stats f t) = task_inv sha256 t"
  by (simp add: task_inv_def core_inv_def update_stats_def counts_only_def)

lemma send_effect_ok: "control_effect e \<Longrightarrow> step_ok sha256 0 t (send_effect t e)"
  by (auto simp: step_ok_def send_effect_def task_inv_update_stats counts_only_def received_count_def)
    (simp add: task_inv_def)

lemma send_app_event_ok:
  "\<not> reports_sent e \<Longrightarrow> step_ok sha256 (if reports_received e then 1 else 0) t (send_app_event t e)"
  by (auto simp: step_ok_def send_app_event_def task_inv_update_stats counts_only_def received_count_def)
    (simp_all add: task_inv_def)

lemma send_each_ok:
  assumes "\<And>t x. x \<in> set xs \<Longrightarrow> step_ok sha256 (if P x then 1 else 0) t (send t x)"
  shows "step_ok sha256 (length (filter P xs)) t (send_each send t xs)"
  using assms
proof (induction xs arbitrary: t)
  case Nil
  then show ?case by (simp add: step_ok_def)
next
  case (Cons x xs)
  obtain t1 r where s: "send t x = (t1, r)" by force
  with Cons.prems [of x t] have first: "step_ok sha256 (if P x then 1 else 0) t (t1, r)" by simp
  have "step_ok sha256 (length (filter P xs)) t1 (send_each send t1 xs)"
    using Cons by simp
  from step_ok_trans [OF first this] step_ok_mono [OF first, of "length (filter P (x # xs))"] s
  show ?case by (cases r) (auto split: if_splits)
qed

lemma send_outputs_ok:
  assumes "outputs_ok n r"
  shows "step_ok sha256 n t (send_outputs t r)"
proof (cases r)
  case (Inl e)
  with assms show ?thesis by (simp add: send_outputs_def outputs_ok_def step_ok_def)
next
  case (Inr out)
  then obtain effs evs where r: "r = Inr (effs, evs)" by (cases out) simp
  obtain t1 q where s: "send_each send_effect t effs = (t1, q)" by force
  have "step_ok sha256 (length (filter (\<lambda>_. False) effs)) t (send_each send_effect t effs)"
    using assms r by (intro send_each_ok) (auto simp: outputs_ok_def list_all_iff intro: send_effect_ok)
  then have first: "step_ok sha256 0 t (t1, q)" by (simp add: s)
  have "step_ok sha256 (length (filter reports_received evs)) t1 (send_each send_app_event t1 evs)"
    using assms r by (intro send_each_ok send_app_event_ok) (auto simp: outputs_ok_def list_ex_iff)
  from step_ok_trans [OF first this] step_ok_mono [OF first, of n] r s assms
  show ?thesis
    by (cases q) (auto simp: send_outputs_def outputs_ok_def intro: step_ok_mono)
qed

lemma run_handler_ok:
  assumes "handler_ok sha256 n h"
  shows "step_ok sha256 n t (run_handler h t)"
proof (cases "task_inv sha256 t")
  case True
  obtain st r where h: "h (ct_state t) = (st, r)" by force
  from True assms have "core_inv sha256 (fst (h (ct_state t))) \<and> outputs_ok n (snd (h (ct_state t)))"
    unfolding task_inv_def handler_ok_def by blast
  with True h have *: "task_inv sha256 (t\<lparr>ct_state := st\<rparr>)" "outputs_ok n r"
    by (simp_all add: task_inv_def)
  from send_outputs_ok [OF *(2), of sha256 "t\<lparr>ct_state := st\<rparr>"] *(1) show ?thesis
    by (simp add: run_handler_def h step_ok_def received_count_def)
qed (simp add: step_ok_def)

lemmas handlers_ok = send_message_ok connect_ok disconnect_ok discovered_ok established_ok lost_ok
  message_received_ok packet_received_ok

lemma plain_outputs_ok:
  "outputs_ok 0 handle_start_discovery" "outputs_ok 0 handle_stop_discovery"
  "outputs_ok 0 handle_shutdown" "outputs_ok 0 (handle_transport_error tr error)"
  "outputs_ok 0 (handle_get_system_status now t)" "outputs_ok 0 (handle_query_message_status mid)"
  "outputs_ok 0 (handle_query_peer_session pid t)" "outputs_ok 0 (handle_query_delivery_status pid)"
  "outputs_ok 0 (handle_query_internal_state now t)" "outputs_ok 0 (Inr ([], []))"
  "outputs_ok 0 (Inr ([EffPauseTransport tr], []))" "outputs_ok 0 (Inr ([EffResumeTransport tr], []))"
  by (simp_all add: outputs_ok_def handle_start_discovery_def handle_stop_discovery_def
      handle_shutdown_def handle_transport_error_def handle_get_system_status_def Let_def
      handle_query_message_status_def handle_query_peer_session_def handle_query_delivery_status_def
      handle_query_internal_state_def split: prod.split)

section \<open>Commands and events keep the invariant\<close>

lemma process_command_ok:
  fixes t :: "('h, 't, 'u, 'f) core_task"
  assumes "c \<noteq> CmdShutdown"
  shows "step_ok sha256 0 t (process_command env ck c t)"
proof -
  let ?t = "update_stats (\<lambda>s. s\<lparr>commands_processed := commands_processed s + 1\<rparr>) t"
  have "step_ok sha256 0 ?t (dispatch_command env ck c ?t)"
    using assms
    by (cases c) (simp_all add: run_handler_ok handlers_ok send_outputs_ok plain_outputs_ok)
  then show ?thesis
    by (simp add: process_command_def step_ok_def task_inv_update_stats counts_only_def)
qed

lemma shutdown_ok:
  assumes "task_inv sha256 t" and "process_command env ck CmdShutdown t = (t', r)"
  shows "task_inv sha256 t'" and "\<not> ct_running t'" and "received_count t' = received_count t"
    and "ct_rate_limiter t' = ct_rate_limiter t" and "r = Inl e \<Longrightarrow> recoverable e"
proof -
  let ?t = "(update_stats (\<lambda>s. s\<lparr>commands_processed := commands_processed s + 1\<rparr>) t)\<lparr>ct_running := False\<rparr>"
  have "task_inv sha256 ?t"
    using assms(1) task_inv_update_stats [of "\<lambda>s. s\<lparr>commands_processed := commands_processed s + 1\<rparr>" sha256 t]
    by (simp add: task_inv_def counts_only_def)
  moreover have "received_count ?t = received_count t" by (simp add: received_count_def)
  ultimately show "task_inv sha256 t'" "\<not> ct_running t'" "received_count t' = received_count t"
    "ct_rate_limiter t' = ct_rate_limiter t" "r = Inl e \<Longrightarrow> recoverable e"
    using send_outputs_ok [OF plain_outputs_ok(3), of sha256 ?t] assms(2)
    by (auto simp: process_command_def step_ok_def)
qed

text \<open>The operation of the limiter an event causes.\<close>

fun event_op :: "core_clock \<Rightarrow> transport_event \<Rightarrow> limiter_op option" where
  "event_op ck (EvMessageReceived from content tr mid recipient ts sequence) =
     Some (CheckMessage from (ck_instant ck))"
| "event_op ck (EvBitchatPacketReceived from pkt tr) = Some (CheckMessage from (ck_instant ck))"
| "event_op ck (EvConnectionEstablished pid tr) = Some (CheckConnection pid (ck_instant ck))"
| "event_op ck e = None"

definition limiter_after :: "limiter_op option \<Rightarrow> rate_limiter \<Rightarrow> rate_limiter \<times> bool" where
  "limiter_after op rl = (case op of None \<Rightarrow> (rl, False) | Some op \<Rightarrow> limiter_step op rl)"

definition message_allowed :: "limiter_op option \<Rightarrow> rate_limiter \<Rightarrow> bool" where
  "message_allowed op rl = (case op of None \<Rightarrow> False | Some op \<Rightarrow> is_message op \<and> snd (limiter_step op rl))"

definition event_ok ::
    "(bytes \<Rightarrow> bytes) \<Rightarrow> limiter_op option \<Rightarrow> ('h, 't, 'u, 'f) core_task \<Rightarrow> ('h, 't, 'u, 'f) core_task \<times> unit result \<Rightarrow> bool" where
  "event_ok sha256 op t p \<longleftrightarrow> (task_inv sha256 t \<longrightarrow>
     task_inv sha256 (fst p) \<and> (\<forall>e. snd p = Inl e \<longrightarrow> recoverable e) \<and>
     received_count t \<le> received_count (fst p) \<and>
     received_count (fst p) \<le> received_count t +
       of_bool (message_allowed op (ct_rate_limiter t)) \<and>
     ct_rate_limiter (fst p) = fst (limiter_after op (ct_rate_limiter t)) \<and>
     ct_running (fst p) = ct_running t)"

lemma step_event_ok: "step_ok sha256 0 t p \<Longrightarrow> event_ok sha256 None t p"
  by (simp add: step_ok_def event_ok_def limiter_after_def message_allowed_def)

lemma check_recoverable:
  "check_message_allowed now rl pid = (rl', Inl e) \<Longrightarrow> recoverable e"
  "check_connection_allowed now rl pid = (rl', Inl e) \<Longrightarrow> recoverable e"
  by (auto simp: check_message_allowed_def check_connection_allowed_def Let_def
      split: prod.splits if_splits)

lemma rate_limited_message_ok:
  assumes "handler_ok sha256 1 h"
  shows "event_ok sha256 (Some (CheckMessage pid now)) t
    (rate_limited (\<lambda>rl. check_message_allowed now rl pid) h t)"
proof -
  obtain rl r where c: "check_message_allowed now (ct_rate_limiter t) pid = (rl, r)" by force
  have "task_inv sha256 (t\<lparr>ct_rate_limiter := rl\<rparr>) = task_inv sha256 t"
    "received_count (t\<lparr>ct_rate_limiter := rl\<rparr>) = received_count t"
    by (simp_all add: task_inv_def received_count_def)
  with run_handler_ok [OF assms, of "t\<lparr>ct_rate_limiter := rl\<rparr>"] c check_recoverable(1) show ?thesis
    by (cases r) (auto simp: event_ok_def rate_limited_def limiter_after_def message_allowed_def step_ok_def)
qed

lemma rate_limited_connection_ok:
  assumes "handler_ok sha256 0 h"
  shows "event_ok sha256 (Some (CheckConnection pid now)) t
    (rate_limited (\<lambda>rl. check_connection_allowed now rl pid) h t)"
proof -
  obtain rl r where c: "check_connection_allowed now (ct_rate_limiter t) pid = (rl, r)" by force
  have "task_inv sha256 (t\<lparr>ct_rate_limiter := rl\<rparr>) = task_inv sha256 t"
    "received_count (t\<lparr>ct_rate_limiter := rl\<rparr>) = received_count t"
    by (simp_all add: task_inv_def received_count_def)
  with run_handler_ok [OF assms, of "t\<lparr>ct_rate_limiter := rl\<rparr>"] c check_recoverable(2) show ?thesis
    by (cases r) (auto simp: event_ok_def rate_limited_def limiter_after_def message_allowed_def step_ok_def)
qed

lemma process_event_ok:
  fixes t :: "('h, 't, 'u, 'f) core_task"
  shows "event_ok (env_sha256 env) (event_op ck e) t (process_event env ck e t)"
proof -
  let ?t = "update_stats (\<lambda>s. s\<lparr>events_processed := events_processed s + 1\<rparr>) t"
  have "event_ok (env_sha256 env) (event_op ck e) ?t (dispatch_event env ck e ?t)"
    by (cases e) (simp_all add: rate_limited_message_ok rate_limited_connection_ok step_event_ok
        run_handler_ok handlers_ok send_outputs_ok plain_outputs_ok del: One_nat_def)
  then show ?thesis
    by (simp add: process_event_def event_ok_def task_inv_update_stats counts_only_def)
qed


section \<open>The loop\<close>

lemma after_processing_ok:
  "(\<And>e. r = Inl e \<Longrightarrow> recoverable e) \<Longrightarrow> after_processing (t, r) = (t, True)"
  by (cases "(t, r)" rule: after_processing.cases) auto

text \<open>An iteration on the state of the loop: the task and whether the loop is still running. The
  outcome tells whether a received message was reported.\<close>

definition core_iter ::
    "('h, 't) core_env \<Rightarrow> loop_input \<Rightarrow> ('h, 't, 'u, 'f) core_task \<times> bool
     \<Rightarrow> (('h, 't, 'u, 'f) core_task \<times> bool) \<times> bool" where
  "core_iter env i s =
     (case s of (t, alive) \<Rightarrow>
        if alive \<and> ct_running t
        then (loop_step env i t, received_count t < received_count (fst (loop_step env i t)))
        else (s, False))"

lemma core_iter_simps:
  "alive \<and> ct_running t \<Longrightarrow> core_iter env i (t, alive) =
     (loop_step env i t, received_count t < received_count (fst (loop_step env i t)))"
  "\<not> (alive \<and> ct_running t) \<Longrightarrow> core_iter env i (t, alive) = ((t, alive), False)"
  by (auto simp: core_iter_def)

lemma core_iter_stopped:
  "\<not> (alive \<and> ct_running t) \<Longrightarrow> run_state (core_iter env) (t, alive) is = (t, alive)"
  by (induction "is") (simp_all add: core_iter_simps)

lemma core_run_iter: "fst (core_run env is t) = fst (run_state (core_iter env) (t, True) is)"
proof (induction "is" arbitrary: t)
  case Nil
  then show ?case by simp
next
  case (Cons i "is")
  obtain t1 b where "loop_step env i t = (t1, b)" by force
  with Cons.IH show ?case
    by (cases "ct_running t"; cases b) (simp_all add: core_iter_simps core_iter_stopped)
qed

definition input_op :: "loop_input \<Rightarrow> limiter_op option" where
  "input_op i = (case i of InEvent ck (Some e) \<Rightarrow> event_op ck e | _ \<Rightarrow> None)"

fun input_clock :: "loop_input \<Rightarrow> nat \<Rightarrow> instant" where
  "input_clock (InCommand ck c) = ck_instant ck"
| "input_clock (InEvent ck e) = ck_instant ck"

text \<open>The inputs that end the loop.\<close>

fun stops :: "loop_input \<Rightarrow> bool" where
  "stops (InCommand ck None) = True"
| "stops (InCommand ck (Some CmdShutdown)) = True"
| "stops i = False"

lemma loop_step_ok:
  assumes "task_inv (env_sha256 env) t" and "loop_step env i t = (t', b)"
  shows "task_inv (env_sha256 env) t' \<and> received_count t \<le> received_count t' \<and>
    received_count t' \<le> received_count t + of_bool (message_allowed (input_op i) (ct_rate_limiter t)) \<and>
    ct_rate_limiter t' = fst (limiter_after (input_op i) (ct_rate_limiter t)) \<and>
    (ct_running t \<longrightarrow> (b \<and> ct_running t' \<longleftrightarrow> \<not> stops i))"
proof (cases i)
  case (InEvent ck e)
  show ?thesis
  proof (cases e)
    case None
    with InEvent assms show ?thesis by (simp add: input_op_def limiter_after_def)
  next
    case (Some ev)
    obtain t1 r where p: "process_event env ck ev t = (t1, r)" by force
    from process_event_ok [of env ck ev t] assms(1) p have ok: "event_ok (env_sha256 env) (event_op ck ev) t (t1, r)"
      by simp
    then have "after_processing (t1, r) = (t1, True)"
      using assms(1) by (intro after_processing_ok) (auto simp: event_ok_def)
    with InEvent Some assms p ok show ?thesis by (auto simp: input_op_def event_ok_def)
  qed
next
  case (InCommand ck c)
  show ?thesis
  proof (cases c)
    case None
    with InCommand assms show ?thesis by (simp add: input_op_def limiter_after_def)
  next
    case (Some cmd)
    obtain t1 r where p: "process_command env ck cmd t = (t1, r)" by force
    have none: "input_op i = None" using InCommand by (simp add: input_op_def)
    show ?thesis
    proof (cases "cmd = CmdShutdown")
      case True
      note sd = shutdown_ok [OF assms(1) p [unfolded True]]
      from sd(5) have "after_processing (t1, r) = (t1, True)" by (rule after_processing_ok)
      with sd InCommand Some True assms p none show ?thesis by (simp add: limiter_after_def)
    next
      case False
      from process_command_ok [OF False, of "env_sha256 env" t env ck] p
      have ok: "step_ok (env_sha256 env) 0 t (t1, r)" by simp
      then have "after_processing (t1, r) = (t1, True)"
        using assms(1) by (intro after_processing_ok) (auto simp: step_ok_def)
      with InCommand Some False assms p none ok show ?thesis
        by (cases cmd) (auto simp: limiter_after_def step_ok_def)
    qed
  qed
qed


lemma input_clock_op: "input_op i = Some op \<Longrightarrow> op_clock op = input_clock i"
  by (auto simp: input_op_def elim!: event_op.elims split: loop_input.splits option.splits)

lemma message_inv_mono: "message_inv cfg c hist rl \<Longrightarrow> c \<le> c' \<Longrightarrow> message_inv cfg c' hist rl"
  by (auto simp: message_inv_def intro: window_ok_mono)

text \<open>The loop as a whole obeys the contract of a window limiter.\<close>

interpretation core_messages: window_limiter "core_iter env" input_clock "\<lambda>i. True" "\<lambda>i. True"
    "\<lambda>c hist s. task_inv (env_sha256 env) (fst s) \<and> message_inv cfg c hist (ct_rate_limiter (fst s))"
    "secs (window_duration_secs cfg)" "unat (global_messages_per_window cfg)"
  for env :: "('h, 't) core_env" and cfg
proof
  fix c hist i and s :: "('h, 't, 'u, 'f) core_task \<times> bool"
  assume inv: "task_inv (env_sha256 env) (fst s) \<and> message_inv cfg c hist (ct_rate_limiter (fst s))"
    and clk: "sorted (c # readings input_clock i)" and len: "Suc (length hist) < 2 ^ 32"
  let ?goal = "\<exists>new. length new \<le> 1 \<and>
      (task_inv (env_sha256 env) (fst (fst (core_iter env i s))) \<and>
       message_inv cfg (input_clock i 6) (hist @ new) (ct_rate_limiter (fst (fst (core_iter env i s))))) \<and>
      (True \<and> snd (core_iter env i s) \<longrightarrow> (\<exists>t. new = [t] \<and> input_clock i 0 \<le> t) \<and>
       length (filter (\<lambda>t. input_clock i 6 - t \<le> secs (window_duration_secs cfg)) (hist @ new)) \<le>
         unat (global_messages_per_window cfg))"
  obtain t alive where s: "s = (t, alive)" by force
  obtain t' b where step: "loop_step env i t = (t', b)" by force
  have "c \<le> input_clock i 6"
    using sorted_readings(1) [OF clk] sorted_readings(2) [OF clk, of 0 6] by simp
  then have later: "message_inv cfg (input_clock i 6) hist rl" if "message_inv cfg c hist rl" for rl
    using that by (rule message_inv_mono [rotated])
  show ?goal
  proof (cases "alive \<and> ct_running t")
    case False
    with inv later s show ?thesis by (intro exI [of _ "[]"]) (auto simp: core_iter_simps)
  next
    case True
    from inv s have t: "task_inv (env_sha256 env) t" by simp
    note ls = loop_step_ok [OF t step] and it = core_iter_simps(1) [OF True, of env i]
    show ?thesis
    proof (cases "input_op i")
      case None
      with ls it s inv later step show ?thesis
        by (intro exI [of _ "[]"]) (auto simp: limiter_after_def message_allowed_def)
    next
      case (Some op)
      then have "sorted (c # readings op_clock op)" and clk0: "op_clock op = input_clock i"
        using clk by (simp_all add: readings_def input_clock_op)
      moreover have "message_inv cfg c hist (ct_rate_limiter t)" using inv s by simp
      ultimately obtain new where "length new \<le> 1"
        "message_inv cfg (op_clock op 6) (hist @ new) (fst (limiter_step op (ct_rate_limiter t)))"
        "is_message op \<and> snd (limiter_step op (ct_rate_limiter t)) \<longrightarrow>
           (\<exists>t. new = [t] \<and> op_clock op 0 \<le> t) \<and>
           length (filter (\<lambda>t. op_clock op 6 - t \<le> secs (window_duration_secs cfg)) (hist @ new)) \<le>
             unat (global_messages_per_window cfg)"
        using global_messages.inv_step [OF _ TrueI _ len] by blast
      with ls it s step Some clk0 show ?thesis
        by (intro exI [of _ new]) (auto simp: limiter_after_def message_allowed_def of_bool_def split: if_splits)
    qed
  qed
qed


section \<open>Properties\<close>

lemma received_outcomes:
  "task_inv (env_sha256 env) t \<Longrightarrow>
   received_count (fst (run_state (core_iter env) (t, alive) is)) =
     received_count t + length (filter snd (outcomes (core_iter env) (t, alive) is))"
proof (induction "is" arbitrary: t alive)
  case (Cons i "is")
  obtain t' b where step: "loop_step env i t = (t', b)" by force
  note ok = loop_step_ok [OF Cons.prems step]
  show ?case
  proof (cases "alive \<and> ct_running t")
    case True
    with ok step Cons.IH [of t' b] show ?thesis
      by (auto simp: core_iter_simps of_bool_def split: if_splits)
  next
    case False
    with Cons show ?thesis by (simp add: core_iter_simps)
  qed
qed simp

lemma task_inv_new: "task_inv sha256 (core_task_new key now0 now1 pid tmo dcfg rcfg)"
  by (simp add: task_inv_def core_inv_def core_task_new_def core_state_new_def core_stats_default_def
      connections_ok_def store_ok_new session_manager_new_def)

lemma new_task_simps [simp]:
  "ct_running (core_task_new key now0 now1 pid tmo dcfg rcfg)"
  "ct_rate_limiter (core_task_new key now0 now1 pid tmo dcfg rcfg) = rate_limiter_new rcfg"
  "received_count (core_task_new key now0 now1 pid tmo dcfg rcfg) = 0"
  by (simp_all add: core_task_new_def received_count_def)

lemma core_run_inv: "task_inv (env_sha256 env) t \<Longrightarrow> task_inv (env_sha256 env) (fst (core_run env is t))"
proof (induction "is" arbitrary: t)
  case (Cons i "is")
  obtain t1 b where "loop_step env i t = (t1, b)" by force
  with Cons loop_step_ok [of env t i t1 b] show ?case by auto
qed simp

text \<open>From its start, and whatever commands and events it receives, the core task keeps the connections
  of its peers under their own identifiers and never connected, its message store consistent, its
  table of sessions empty, and one entry of the audit trail for every state transition it counts.\<close>

theorem core_state_invariant:
  "let st = ct_state (fst (core_run env is (core_task_new key now0 now1 pid tmo dcfg rcfg)))
   in connections_ok (cs_connections st) \<and> store_ok (env_sha256 env) (cs_message_store st) \<and>
      sm_sessions (cs_session_manager st) = [] \<and>
      cst_state_transitions (cs_stats st) = word_of_nat (length (cs_audit_trail st))"
  using core_run_inv [OF task_inv_new, of env "is"] unfolding task_inv_def core_inv_def Let_def by blast

text \<open>C15: No run of the core task ever sends a packet or starts a connection: no handler fires the event
  that begins a connection and none creates a session, so every \<^verbatim>\<open>SendMessage\<close> is answered with an error,
  no message is ever reported or counted as sent, and no connection can send. None of the three effects
  that carry a packet is ever emitted, nor one that opens, closes or reconfigures a connection: the task
  only ever asks its transports to stop listening, to start or stop the discovery, to pause or to
  resume.\<close>

theorem core_never_sends:
  fixes env :: "('h, 't) core_env" and dcfg :: "'f delivery_config"
  shows "let t = fst (core_run env is
        (core_task_new key now0 now1 pid tmo dcfg rcfg :: ('h, 't, 'u, 'f) core_task))
   in SendPacket p data tr \<notin> set (ct_effects t) \<and> SendBitchatPacket p pkt tr \<notin> set (ct_effects t) \<and>
      BroadcastBitchatPacket pkt tr \<notin> set (ct_effects t) \<and> EffInitiateConnection p tr \<notin> set (ct_effects t) \<and>
      list_all control_effect (ct_effects t) \<and>
      AppMessageSent p content ts \<notin> set (ct_app_events t) \<and>
      list_all (\<lambda>c. \<not> can_send_messages c) (map snd (cs_connections (ct_state t))) \<and>
      messages_sent (cs_stats (ct_state t)) = 0"
proof -
  let ?t = "fst (core_run env is
    (core_task_new key now0 now1 pid tmo dcfg rcfg :: ('h, 't, 'u, 'f) core_task))"
  have "task_inv (env_sha256 env) ?t" by (rule core_run_inv [OF task_inv_new])
  then have *: "core_inv (env_sha256 env) (ct_state ?t)" "list_all control_effect (ct_effects ?t)"
    "\<not> list_ex reports_sent (ct_app_events ?t)" by (simp_all add: task_inv_def)
  have "\<not> can_send_messages c" if "(q, c) \<in> set (cs_connections (ct_state ?t))" for q c
    using that *(1) by (auto simp: core_inv_def dest: connections_ok_unconnected)
  with * show ?thesis
    unfolding Let_def by (auto simp: core_inv_def list_all_iff list_ex_iff)
qed


text \<open>The limiter protects the user interface: within any interval as long as the window, at most
  \<^verbatim>\<open>global_messages_per_window\<close> iterations of the core loop report a received message, however commands
  and events are mixed; and an iteration reports at most one, so that these are all the messages the
  user interface is given.\<close>

theorem received_rate_bounded:
  fixes env :: "('h, 't) core_env" and dcfg :: "'f delivery_config"
    and t :: "('h, 't, 'u, 'f) core_task"
  assumes "t = core_task_new key now0 now1 pid tmo dcfg rcfg"
    and "clocks_ok input_clock c is" and "length is < 2 ^ 32"
  shows "allowed_within input_clock (\<lambda>i. True) a (secs (window_duration_secs rcfg))
      (outcomes (core_iter env) (t, True) is) \<le> unat (global_messages_per_window rcfg) \<and>
    received_count (fst (core_run env is t)) = length (filter snd (outcomes (core_iter env) (t, True) is))"
proof
  show "allowed_within input_clock (\<lambda>i. True) a (secs (window_duration_secs rcfg))
      (outcomes (core_iter env) (t, True) is) \<le> unat (global_messages_per_window rcfg)"
    by (rule core_messages.allowed_bounded [OF _ _ assms(2,3)])
      (simp_all add: assms(1) task_inv_new message_inv_new list.pred_True)
qed (simp add: assms(1) core_run_iter received_outcomes task_inv_new)

lemma receive_message_stores:
  assumes "receive_message env now from rc content seq ts mid st = (st', Inr (effs, evs))"
  shows "\<exists>rc ts seq. effs = [] \<and> evs = [AppMessageReceived from content ts] \<and>
    contains_message (cs_message_store st') (compute_id (env_sha256 env) from rc content ts seq)"
proof -
  from assms obtain m store b where m: "from_metadata (env_sha256 env) from rc content seq ts mid = Inr m"
      "store_message (env_sha256 env) (env_size env) now m (cs_message_store st) = (store, Inr b)"
      "cs_message_store st' = store" "effs = []" "evs = [AppMessageReceived from content (cm_timestamp m)]"
    by (auto simp: receive_message_def split: sum.splits prod.splits)
  from m(1) have "cm_sender m = from" "cm_content m = content"
    by (auto simp: from_metadata_def Let_def split: option.splits if_splits)
  moreover from m(2) have "verify_integrity (env_sha256 env) m \<and> contains_message store (cm_id m)"
    by (auto simp: store_message_def contains_message_def has_key_def insert_message_def
        split: sum.splits if_splits prod.splits)
  ultimately show ?thesis using m(3-5) unfolding verify_integrity_def by metis
qed

text \<open>The same for a handler.\<close>

definition stores_what_it_reports ::
    "('h, 't) core_env \<Rightarrow> (('h, 't, 'u, 'f) core_state \<Rightarrow> ('h, 't, 'u, 'f) core_state \<times> outputs result) \<Rightarrow> bool" where
  "stores_what_it_reports env h \<longleftrightarrow> (\<forall>st st' effs evs. h st = (st', Inr (effs, evs)) \<longrightarrow>
     (\<exists>from content rc ts seq. effs = [] \<and> evs = [AppMessageReceived from content ts] \<and>
       contains_message (cs_message_store st') (compute_id (env_sha256 env) from rc content ts seq)))"

lemma message_handlers_store:
  "stores_what_it_reports env (handle_message_received env ck from content tr mid rc ts seq)"
  "stores_what_it_reports env (handle_bitchat_packet_received env ck from pkt tr)"
  by (auto simp: stores_what_it_reports_def handle_message_received_def
      handle_bitchat_packet_received_def Let_def split: prod.splits option.splits
      dest!: receive_message_stores) blast+


lemma send_outputs_reports:
  assumes "send_outputs t (Inr ([], [ev])) = (t', r)" and "received_count t < received_count t'"
  shows "ct_app_events t' = ct_app_events t @ [ev] \<and> cs_message_store (ct_state t') = cs_message_store (ct_state t)"
  using assms by (auto simp: send_outputs_def send_app_event_def update_stats_def split: if_splits)

lemma rate_limited_stores:
  assumes "stores_what_it_reports env h" and "rate_limited check h t = (t', r)"
    and "received_count t < received_count t'"
  shows "\<exists>from content rc ts seq. ct_app_events t' = ct_app_events t @ [AppMessageReceived from content ts] \<and>
    contains_message (cs_message_store (ct_state t')) (compute_id (env_sha256 env) from rc content ts seq)"
proof -
  obtain rl q where c: "check (ct_rate_limiter t) = (rl, q)" by force
  obtain st o' where h: "h (ct_state t) = (st, o')" by force
  from assms(2,3) c h have s: "send_outputs (t\<lparr>ct_rate_limiter := rl, ct_state := st\<rparr>) o' = (t', r)"
    by (auto simp: rate_limited_def run_handler_def received_count_def split: sum.splits)
  show ?thesis
  proof (cases o')
    case (Inl e)
    with s assms(3) show ?thesis by (auto simp: send_outputs_def received_count_def)
  next
    case (Inr out)
    then obtain effs evs where "o' = Inr (effs, evs)" by (cases out) simp
    with assms(1) h s send_outputs_reports [of "t\<lparr>ct_rate_limiter := rl, ct_state := st\<rparr>" _ t' r] assms(3)
    show ?thesis by (fastforce simp: stores_what_it_reports_def received_count_def)
  qed
qed

text \<open>C16: Every received message the core task reports is in the message store when it is reported: the
  store has a message under the content hash of the reported sender, content and time.\<close>

theorem reported_message_is_stored:
  assumes "t = fst (core_run env is (core_task_new key now0 now1 pid tmo dcfg rcfg))"
    and "process_event env ck e t = (t', r)" and "received_count t < received_count t'"
  shows "\<exists>from content rc ts seq. ct_app_events t' = ct_app_events t @ [AppMessageReceived from content ts] \<and>
    contains_message (cs_message_store (ct_state t')) (compute_id (env_sha256 env) from rc content ts seq)"
proof -
  let ?t = "update_stats (\<lambda>s. s\<lparr>events_processed := events_processed s + 1\<rparr>) t"
  have "task_inv (env_sha256 env) t" using core_run_inv [OF task_inv_new] assms(1) by blast
  with process_event_ok [of env ck e t] assms(2,3) have "message_allowed (event_op ck e) (ct_rate_limiter t)"
    by (auto simp: event_ok_def of_bool_def split: if_splits)
  then obtain check h where "dispatch_event env ck e ?t = rate_limited check h ?t" "stores_what_it_reports env h"
    using message_handlers_store [of env ck] by (cases e) (auto simp: message_allowed_def, blast+)
  with assms(2,3) rate_limited_stores [of env h check ?t t' r] show ?thesis
    by (simp add: process_event_def)
qed

text \<open>A task with a limit of one message per window, and two messages of two peers.\<close>

definition toy_env :: "(nat, nat) core_env" where
  "toy_env = \<lparr>env_snow = toy_snow, env_sha256 = toy_sha256, env_size = toy_size,
     env_session_name = (\<lambda>p tr. p)\<rparr>"

definition toy_clock :: core_clock where
  "toy_clock = \<lparr>ck_transition = (\<lambda>_. 1700000000000), ck_now = (\<lambda>_. 1700000000000), ck_instant = (\<lambda>_. 10)\<rparr>"

definition toy_task :: "(nat, nat, nat, unit) core_task" where
  "toy_task = core_task_new \<lparr>nk_private_key = [], nk_public_key = []\<rparr> 0 0 (replicate 8 1)
     \<lparr>handshake_timeout = 0, idle_timeout = 0\<rparr> toy_delivery_config tiny_config"

definition toy_event :: "peer_id \<Rightarrow> transport_event" where
  "toy_event p = EvMessageReceived p [104, 105] Ble None None (Some 1700000000000) (Some 1)"

definition toy_inputs :: "loop_input list" where
  "toy_inputs = [InEvent toy_clock (Some (toy_event (replicate 8 2))),
     InEvent toy_clock (Some (toy_event (replicate 8 3)))]"


lemma toy_inputs_ok: "clocks_ok input_clock 0 toy_inputs" "length toy_inputs < 2 ^ 32"
  by (simp_all add: toy_inputs_def toy_clock_def readings_def upt_rec)

theorem received_rate_bounded_witness:
  "clocks_ok input_clock 0 toy_inputs \<and> length toy_inputs < 2 ^ 32 \<and>
   allowed_within input_clock (\<lambda>i. True) 0 (secs 60) (outcomes (core_iter toy_env) (toy_task, True) toy_inputs) \<le> 2"
  using received_rate_bounded [OF toy_task_def toy_inputs_ok, of 0] toy_inputs_ok
  by (simp add: tiny_config_def rate_limit_default_def)

lemma toy_allowed: "is_ok (snd (check_message_allowed (\<lambda>_. 10) (rate_limiter_new tiny_config) pid))"
  by (simp add: check_message_allowed_def add_event_def cleanup_old_events_def rate_limiter_new_def Let_def
      event_window_new_def tiny_config_def rate_limit_default_def limiter_cleanup_old_peers_def
      active_peers_def entry_or_new_def update_access_time_def peer_limits_new_def)

lemma toy_received:
  assumes "cs_connections st = []" and "cs_message_store st = store_with_config message_store_config_default"
  shows "\<exists>st'. handle_message_received toy_env toy_clock (replicate 8 2) [104, 105] Ble None None
     (Some 1700000000000) (Some 1) st =
   (st', Inr ([], [AppMessageReceived (replicate 8 2) [104, 105] 1700000000000]))"
  using assms
  by (simp add: handle_message_received_def transition_or_reset_def receive_message_def toy_env_def
      from_metadata_def Let_def store_message_def normalize_timestamp_def verify_integrity_def
      validate_message_input_def store_with_config_def message_store_config_default_def
      validate_content_safety_def chars_of_def utf8_decode_ascii toy_size_def mostly_whitespace_def
      is_whitespace_def is_control_def has_key_def enforce_capacity_limits_def)

definition toy_task_after :: "(nat, nat, nat, unit) core_task" where
  "toy_task_after = fst (process_event toy_env toy_clock (toy_event (replicate 8 2)) toy_task)"

lemma toy_reports: "received_count toy_task < received_count toy_task_after"
proof -
  let ?t = "update_stats (\<lambda>s. s\<lparr>events_processed := events_processed s + 1\<rparr>) toy_task"
  from toy_allowed [of "replicate 8 2"] obtain rl where
    "check_message_allowed (\<lambda>_. 10) (rate_limiter_new tiny_config) (replicate 8 2) = (rl, Inr ())"
    by (metis (full_types) is_ok_iff old.unit.exhaust prod.collapse)
  moreover from toy_received [of "ct_state ?t"] obtain st where
    "handle_message_received toy_env toy_clock (replicate 8 2) [104, 105] Ble None None
       (Some 1700000000000) (Some 1) (ct_state ?t) =
     (st, Inr ([], [AppMessageReceived (replicate 8 2) [104, 105] 1700000000000]))"
    by (auto simp: update_stats_def toy_task_def core_task_new_def core_state_new_def)
  moreover have "ct_rate_limiter ?t = rate_limiter_new tiny_config" "ct_app_events_open ?t"
    by (simp_all add: toy_task_def update_stats_def core_task_new_def)
  moreover have "ck_instant toy_clock = (\<lambda>_. 10)" by (simp add: toy_clock_def)
  ultimately show ?thesis
    by (simp add: toy_task_after_def process_event_def toy_event_def rate_limited_def run_handler_def
        send_outputs_def send_app_event_def received_count_def)
qed

theorem reported_message_is_stored_witness:
  "received_count toy_task < received_count toy_task_after \<and> (\<exists>from content rc ts seq.
     ct_app_events toy_task_after = ct_app_events toy_task @ [AppMessageReceived from content ts] \<and>
     contains_message (cs_message_store (ct_state toy_task_after)) (compute_id toy_sha256 from rc content ts seq))"
proof -
  obtain r where r: "process_event toy_env toy_clock (toy_event (replicate 8 2)) toy_task = (toy_task_after, r)"
    unfolding toy_task_after_def by (metis prod.collapse)
  have "toy_task = fst (core_run toy_env [] toy_task)" by simp
  from reported_message_is_stored [OF this [unfolded toy_task_def] r [unfolded toy_task_def]
      toy_reports [unfolded toy_task_def]] toy_reports
  show ?thesis by (simp add: toy_task_def [symmetric]) (simp add: toy_env_def)
qed

end
