(* ===== verification/File_Transfer.thy ===== *)
theory File_Transfer
  imports App_Message Message_Store
begin

text \<open>
  The file transfer protocol (\<^verbatim>\<open>src/crates/bitchat-core/src/protocol/file_transfer.rs\<close>): offers, chunks,
  the session of one transfer and the manager of all sessions.

  A transfer identifier is its text. SHA-256 is an argument, and so are the clock readings and the
  identifiers drawn from the \<^verbatim>\<open>uuid\<close> crate. The floating-point progress is left out.
\<close>

section \<open>Messages\<close>

definition MAX_CHUNK_SIZE :: nat where "MAX_CHUNK_SIZE = 16 * 1024"
definition MAX_FILE_SIZE :: nat where "MAX_FILE_SIZE = 100 * 1024 * 1024"
definition TRANSFER_TIMEOUT_SECONDS :: u64 where "TRANSFER_TIMEOUT_SECONDS = 30 * 60"

type_synonym file_transfer_id = rust_string
type_synonym file_hash = bytes

record file_metadata =
  fm_filename :: rust_string
  fm_size :: u64
  fm_mime_type :: "rust_string option"
  fm_hash :: file_hash
  fm_created_at :: timestamp

definition hash_verify :: "(bytes \<Rightarrow> bytes) \<Rightarrow> file_hash \<Rightarrow> bytes \<Rightarrow> bool" where
  "hash_verify sha256 h data = (sha256 data = h)"

definition file_metadata_new ::
    "(bytes \<Rightarrow> bytes) \<Rightarrow> timestamp \<Rightarrow> rust_string \<Rightarrow> u64 \<Rightarrow> rust_string option \<Rightarrow> bytes \<Rightarrow> file_metadata" where
  "file_metadata_new sha256 now filename sz mime data =
     \<lparr>fm_filename = filename, fm_size = sz, fm_mime_type = mime, fm_hash = sha256 data,
      fm_created_at = now\<rparr>"

definition file_metadata_validate :: "file_metadata \<Rightarrow> unit result" where
  "file_metadata_validate m =
     (if fm_filename m = [] then Inl (invalid_packet ''Filename cannot be empty'')
      else if fm_size m = 0 then Inl (invalid_packet ''File size cannot be zero'')
      else if word_of_nat MAX_FILE_SIZE < fm_size m
           then Inl (invalid_packet ''File size exceeds maximum allowed'')
      else Inr ())"

record file_offer =
  fo_transfer_id :: file_transfer_id
  fo_metadata :: file_metadata
  fo_description :: "rust_string option"
  fo_expires_at :: timestamp

definition file_offer_new ::
    "timestamp \<Rightarrow> file_transfer_id \<Rightarrow> file_metadata \<Rightarrow> rust_string option \<Rightarrow> file_offer result" where
  "file_offer_new now uuid m description =
     (case file_metadata_validate m of
        Inl e \<Rightarrow> Inl e
      | Inr _ \<Rightarrow> Inr \<lparr>fo_transfer_id = uuid, fo_metadata = m, fo_description = description,
          fo_expires_at = timestamp_add now (TRANSFER_TIMEOUT_SECONDS * 1000)\<rparr>)"

definition offer_is_expired :: "timestamp \<Rightarrow> file_offer \<Rightarrow> bool" where
  "offer_is_expired now offer = (fo_expires_at offer < now)"

definition offer_total_chunks :: "file_offer \<Rightarrow> u32" where
  "offer_total_chunks offer = word_of_nat (div_ceil (unat (fm_size (fo_metadata offer))) MAX_CHUNK_SIZE)"

record file_accept =
  fa_transfer_id :: file_transfer_id
  fa_accepted :: bool
  fa_reason :: "rust_string option"

definition accept_new :: "file_transfer_id \<Rightarrow> file_accept" where
  "accept_new i = \<lparr>fa_transfer_id = i, fa_accepted = True, fa_reason = None\<rparr>"

definition reject_new :: "file_transfer_id \<Rightarrow> rust_string option \<Rightarrow> file_accept" where
  "reject_new i reason = \<lparr>fa_transfer_id = i, fa_accepted = False, fa_reason = reason\<rparr>"

record file_chunk =
  fc_transfer_id :: file_transfer_id
  fc_chunk_index :: u32
  fc_total_chunks :: u32
  fc_data :: bytes
  fc_chunk_hash :: file_hash

definition file_chunk_new ::
    "(bytes \<Rightarrow> bytes) \<Rightarrow> file_transfer_id \<Rightarrow> u32 \<Rightarrow> u32 \<Rightarrow> bytes \<Rightarrow> file_chunk result" where
  "file_chunk_new sha256 i chunk_index total_chunks data =
     (if data = [] then Inl (invalid_packet ''Chunk data cannot be empty'')
      else if MAX_CHUNK_SIZE < length data then Inl (invalid_packet ''Chunk size exceeds maximum'')
      else if total_chunks \<le> chunk_index then Inl (invalid_packet ''Chunk index out of range'')
      else Inr \<lparr>fc_transfer_id = i, fc_chunk_index = chunk_index, fc_total_chunks = total_chunks,
                fc_data = data, fc_chunk_hash = sha256 data\<rparr>)"

definition chunk_verify :: "(bytes \<Rightarrow> bytes) \<Rightarrow> file_chunk \<Rightarrow> bool" where
  "chunk_verify sha256 c = hash_verify sha256 (fc_chunk_hash c) (fc_data c)"

record file_complete =
  fe_transfer_id :: file_transfer_id
  fe_success :: bool
  fe_error :: "rust_string option"
  fe_final_hash :: "file_hash option"

definition complete_success :: "file_transfer_id \<Rightarrow> file_hash \<Rightarrow> file_complete" where
  "complete_success i h =
     \<lparr>fe_transfer_id = i, fe_success = True, fe_error = None, fe_final_hash = Some h\<rparr>"

definition complete_failure :: "file_transfer_id \<Rightarrow> rust_string \<Rightarrow> file_complete" where
  "complete_failure i e =
     \<lparr>fe_transfer_id = i, fe_success = False, fe_error = Some e, fe_final_hash = None\<rparr>"

datatype file_transfer_message =
    FtOffer file_offer
  | FtAccept file_accept
  | FtChunk file_chunk
  | FtComplete file_complete

fun transfer_id :: "file_transfer_message \<Rightarrow> file_transfer_id" where
  "transfer_id (FtOffer m) = fo_transfer_id m"
| "transfer_id (FtAccept m) = fa_transfer_id m"
| "transfer_id (FtChunk m) = fc_transfer_id m"
| "transfer_id (FtComplete m) = fe_transfer_id m"

fun file_payload_type :: "file_transfer_message \<Rightarrow> noise_payload_type" where
  "file_payload_type (FtOffer m) = FileOffer"
| "file_payload_type (FtAccept m) = FileAccept"
| "file_payload_type (FtChunk m) = FileChunk"
| "file_payload_type (FtComplete m) = FileComplete"

section \<open>Sessions\<close>

datatype transfer_status = Offered | InProgress | TsCompleted | TsFailed | TsCancelled | TsExpired

record file_session =
  fs_transfer_id :: file_transfer_id
  fs_sender :: peer_id
  fs_recipient :: peer_id
  fs_metadata :: file_metadata
  fs_status :: transfer_status
  fs_chunks_received :: "bool list"
  fs_total_chunks :: u32
  fs_started_at :: timestamp
  fs_last_activity :: timestamp
  fs_error :: "rust_string option"

definition from_offer :: "timestamp \<Rightarrow> file_offer \<Rightarrow> peer_id \<Rightarrow> peer_id \<Rightarrow> file_session" where
  "from_offer now offer sender recipient =
     \<lparr>fs_transfer_id = fo_transfer_id offer, fs_sender = sender, fs_recipient = recipient,
      fs_metadata = fo_metadata offer, fs_status = Offered,
      fs_chunks_received = replicate (unat (offer_total_chunks offer)) False,
      fs_total_chunks = offer_total_chunks offer, fs_started_at = now, fs_last_activity = now,
      fs_error = None\<rparr>"

definition session_accept :: "timestamp \<Rightarrow> file_session \<Rightarrow> file_session" where
  "session_accept now s = s\<lparr>fs_status := InProgress, fs_last_activity := now\<rparr>"

definition session_fail :: "timestamp \<Rightarrow> rust_string \<Rightarrow> file_session \<Rightarrow> file_session" where
  "session_fail now e s = s\<lparr>fs_status := TsFailed, fs_error := Some e, fs_last_activity := now\<rparr>"

definition receive_chunk ::
    "(bytes \<Rightarrow> bytes) \<Rightarrow> timestamp \<Rightarrow> file_chunk \<Rightarrow> file_session \<Rightarrow> file_session \<times> unit result" where
  "receive_chunk sha256 now c s =
     (if fc_transfer_id c \<noteq> fs_transfer_id s then (s, Inl (invalid_packet ''Transfer ID mismatch''))
      else if fs_total_chunks s \<le> fc_chunk_index c then
        (s, Inl (invalid_packet ''Chunk index out of range''))
      else if \<not> chunk_verify sha256 c then (s, Inl (invalid_packet ''Chunk verification failed''))
      else if length (fs_chunks_received s) \<le> unat (fc_chunk_index c) then (s, Inl Panic)
      else
        (let s1 = s\<lparr>fs_chunks_received := (fs_chunks_received s)[unat (fc_chunk_index c) := True],
                    fs_last_activity := now\<rparr>
         in (if list_all (\<lambda>r. r) (fs_chunks_received s1) then s1\<lparr>fs_status := TsCompleted\<rparr> else s1, Inr ())))"

definition session_is_expired :: "timestamp \<Rightarrow> file_session \<Rightarrow> bool" where
  "session_is_expired now s =
     (TRANSFER_TIMEOUT_SECONDS * 1000 < timestamp_sub now (fs_last_activity s))"

definition missing_chunks :: "file_session \<Rightarrow> u32 list" where
  "missing_chunks s =
     map (\<lambda>(i, r). word_of_nat i) (filter (\<lambda>(i, r). \<not> r) (enumerate 0 (fs_chunks_received s)))"

definition session_complete ::
    "timestamp \<Rightarrow> file_hash \<Rightarrow> file_session \<Rightarrow> file_session \<times> unit result" where
  "session_complete now final_hash s =
     (if fs_status s \<noteq> InProgress then (s, Inl (invalid_packet ''Transfer not in progress''))
      else if \<not> list_all (\<lambda>r. r) (fs_chunks_received s) then
        (s, Inl (invalid_packet ''Not all chunks received''))
      else (s\<lparr>fs_status := TsCompleted, fs_last_activity := now\<rparr>, Inr ()))"

section \<open>The manager\<close>

type_synonym file_manager = "(file_transfer_id \<times> file_session) list"

definition file_manager_new :: file_manager where
  "file_manager_new = []"

definition start_transfer ::
    "timestamp \<Rightarrow> file_offer \<Rightarrow> peer_id \<Rightarrow> peer_id \<Rightarrow> file_manager \<Rightarrow> file_manager \<times> file_session result" where
  "start_transfer now offer sender recipient mgr =
     (if has_key mgr (fo_transfer_id offer) then
        (mgr, Inl (invalid_packet ''Transfer ID already exists''))
      else
        (let s = from_offer now offer sender recipient
         in (map_put (fs_transfer_id s) s mgr, Inr s)))"

definition receive_offer ::
    "timestamp \<Rightarrow> timestamp \<Rightarrow> file_offer \<Rightarrow> peer_id \<Rightarrow> peer_id \<Rightarrow> file_manager
     \<Rightarrow> file_manager \<times> file_session result" where
  "receive_offer now0 now1 offer sender recipient mgr =
     (if offer_is_expired now0 offer then (mgr, Inl (invalid_packet ''File offer has expired''))
      else start_transfer now1 offer sender recipient mgr)"

text \<open>\<^verbatim>\<open>get_mut\<close> and the operation on the session.\<close>

definition on_session ::
    "file_transfer_id \<Rightarrow> (file_session \<Rightarrow> file_session \<times> unit result) \<Rightarrow> file_manager
     \<Rightarrow> file_manager \<times> unit result" where
  "on_session i f mgr =
     (case map_of mgr i of
        None \<Rightarrow> (mgr, Inl (invalid_packet ''Transfer not found''))
      | Some s \<Rightarrow> (case f s of (s', r) \<Rightarrow> (map_put i s' mgr, r)))"

definition process_accept :: "timestamp \<Rightarrow> file_accept \<Rightarrow> file_manager \<Rightarrow> file_manager \<times> unit result" where
  "process_accept now a mgr =
     on_session (fa_transfer_id a)
       (\<lambda>s. if fa_accepted a then (session_accept now s, Inr ())
            else (session_fail now (case fa_reason a of Some r \<Rightarrow> r | None \<Rightarrow> text_of ''Rejected'') s,
                  Inr ())) mgr"

definition process_chunk ::
    "(bytes \<Rightarrow> bytes) \<Rightarrow> timestamp \<Rightarrow> file_chunk \<Rightarrow> file_manager \<Rightarrow> file_manager \<times> unit result" where
  "process_chunk sha256 now c mgr = on_session (fc_transfer_id c) (receive_chunk sha256 now c) mgr"

definition process_complete :: "timestamp \<Rightarrow> file_complete \<Rightarrow> file_manager \<Rightarrow> file_manager \<times> unit result" where
  "process_complete now m mgr =
     on_session (fe_transfer_id m)
       (\<lambda>s. if fe_success m then
              (case fe_final_hash m of
                 Some h \<Rightarrow> session_complete now h s
               | None \<Rightarrow> (session_fail now (text_of ''No final hash provided'') s, Inr ()))
            else (session_fail now (case fe_error m of Some e \<Rightarrow> e | None \<Rightarrow> text_of ''Transfer failed'') s,
                  Inr ())) mgr"

text \<open>The clock is read for every session: \<open>now i\<close> is the reading for the session of \<open>i\<close>.\<close>

definition cleanup_sessions :: "(file_transfer_id \<Rightarrow> timestamp) \<Rightarrow> file_manager \<Rightarrow> file_manager" where
  "cleanup_sessions now mgr =
     filter (\<lambda>(i, s). \<not> session_is_expired (now i) s \<and> fs_status s \<noteq> TsCompleted \<and>
       fs_status s \<noteq> TsFailed \<and> fs_status s \<noteq> TsCancelled) mgr"

definition cancel_transfer :: "timestamp \<Rightarrow> file_transfer_id \<Rightarrow> file_manager \<Rightarrow> file_manager \<times> unit result" where
  "cancel_transfer now i mgr =
     on_session i (\<lambda>s. (s\<lparr>fs_status := TsCancelled, fs_last_activity := now\<rparr>, Inr ())) mgr"


section \<open>Lemmas on sessions\<close>

definition session_ok :: "file_transfer_id \<Rightarrow> file_session \<Rightarrow> bool" where
  "session_ok i s \<longleftrightarrow> fs_transfer_id s = i \<and> length (fs_chunks_received s) = unat (fs_total_chunks s) \<and>
     (fs_status s = TsCompleted \<longrightarrow> list_all (\<lambda>r. r) (fs_chunks_received s))"

lemma from_offer_ok [simp]: "session_ok (fo_transfer_id offer) (from_offer now offer p q)"
  by (simp add: session_ok_def from_offer_def)

text \<open>The chunks a session takes.\<close>

definition takes_chunk :: "(bytes \<Rightarrow> bytes) \<Rightarrow> file_session \<Rightarrow> file_chunk \<Rightarrow> bool" where
  "takes_chunk sha256 s c \<longleftrightarrow>
     fc_transfer_id c = fs_transfer_id s \<and> fc_chunk_index c < fs_total_chunks s \<and> chunk_verify sha256 c"

definition mark_chunk :: "timestamp \<Rightarrow> nat \<Rightarrow> file_session \<Rightarrow> file_session" where
  "mark_chunk now j s =
     (let s1 = s\<lparr>fs_chunks_received := (fs_chunks_received s)[j := True], fs_last_activity := now\<rparr>
      in if list_all (\<lambda>r. r) (fs_chunks_received s1) then s1\<lparr>fs_status := TsCompleted\<rparr> else s1)"

lemma receive_chunk_takes:
  assumes "session_ok i s" and "takes_chunk sha256 s c"
  shows "receive_chunk sha256 now c s = (mark_chunk now (unat (fc_chunk_index c)) s, Inr ())"
proof -
  have "unat (fc_chunk_index c) < length (fs_chunks_received s)" "\<not> fs_total_chunks s \<le> fc_chunk_index c"
    using assms by (simp_all add: session_ok_def takes_chunk_def word_less_nat_alt not_le)
  with assms(2) show ?thesis by (simp add: receive_chunk_def takes_chunk_def mark_chunk_def Let_def)
qed

lemma receive_chunk_refuses:
  assumes "\<not> takes_chunk sha256 s c"
  obtains m where "receive_chunk sha256 now c s = (s, Inl (invalid_packet m))"
  using assms by (cases "fc_transfer_id c = fs_transfer_id s"; cases "fs_total_chunks s \<le> fc_chunk_index c")
    (auto simp: receive_chunk_def takes_chunk_def)

lemma mark_chunk_simps [simp]:
  "fs_transfer_id (mark_chunk now j s) = fs_transfer_id s"
  "fs_total_chunks (mark_chunk now j s) = fs_total_chunks s"
  "fs_chunks_received (mark_chunk now j s) = (fs_chunks_received s)[j := True]"
  "fs_status (mark_chunk now j s) =
     (if list_all (\<lambda>r. r) ((fs_chunks_received s)[j := True]) then TsCompleted else fs_status s)"
  by (simp_all add: mark_chunk_def Let_def)

lemma nth_update_True: "j < length bs \<Longrightarrow> bs[k := True] ! j \<longleftrightarrow> bs ! j \<or> j = k"
  by (cases "k < length bs") (auto simp: nth_list_update)

lemma all_update: "list_all (\<lambda>r. r) bs \<Longrightarrow> list_all (\<lambda>r. r) (bs[j := True])"
  by (auto simp: list_all_length nth_update_True)

lemma mark_chunk_ok: "session_ok i s \<Longrightarrow> session_ok i (mark_chunk now j s)"
  by (auto simp: session_ok_def all_update)

lemma receive_chunk_ok:
  assumes "session_ok i s"
  shows "session_ok i (fst (receive_chunk sha256 now c s))" and "snd (receive_chunk sha256 now c s) \<noteq> Inl Panic"
proof -
  have "session_ok i (fst (receive_chunk sha256 now c s)) \<and> snd (receive_chunk sha256 now c s) \<noteq> Inl Panic"
  proof (cases "takes_chunk sha256 s c")
    case True
    from receive_chunk_takes [OF assms this] mark_chunk_ok [OF assms] show ?thesis by simp
  next
    case False
    then obtain m where "receive_chunk sha256 now c s = (s, Inl (invalid_packet m))"
      by (rule receive_chunk_refuses)
    with assms show ?thesis by (simp add: invalid_packet_def)
  qed
  then show "session_ok i (fst (receive_chunk sha256 now c s))"
    and "snd (receive_chunk sha256 now c s) \<noteq> Inl Panic" by simp_all
qed

section \<open>Receiving many chunks\<close>

definition receive_chunks ::
    "(bytes \<Rightarrow> bytes) \<Rightarrow> timestamp \<Rightarrow> file_chunk list \<Rightarrow> file_session \<Rightarrow> file_session" where
  "receive_chunks sha256 now cs s = fold (\<lambda>c s. fst (receive_chunk sha256 now c s)) cs s"

definition arrived :: "(bytes \<Rightarrow> bytes) \<Rightarrow> file_session \<Rightarrow> file_chunk list \<Rightarrow> nat \<Rightarrow> bool" where
  "arrived sha256 s cs j \<longleftrightarrow> (\<exists>c\<in>set cs. takes_chunk sha256 s c \<and> unat (fc_chunk_index c) = j)"

lemma receive_chunks_spec:
  assumes "session_ok i s"
  shows "session_ok i (receive_chunks sha256 now cs s) \<and>
    fs_transfer_id (receive_chunks sha256 now cs s) = fs_transfer_id s \<and>
    fs_total_chunks (receive_chunks sha256 now cs s) = fs_total_chunks s \<and>
    (\<forall>j<length (fs_chunks_received s). fs_chunks_received (receive_chunks sha256 now cs s) ! j \<longleftrightarrow>
       fs_chunks_received s ! j \<or> arrived sha256 s cs j) \<and>
    fs_status (receive_chunks sha256 now cs s) =
      (if list_ex (takes_chunk sha256 s) cs \<and> list_all (\<lambda>r. r) (fs_chunks_received (receive_chunks sha256 now cs s))
       then TsCompleted else fs_status s)"
proof (induction cs rule: rev_induct)
  case Nil
  with assms show ?case by (simp add: receive_chunks_def arrived_def)
next
  case (snoc c cs)
  let ?s = "receive_chunks sha256 now cs s"
  have step: "receive_chunks sha256 now (cs @ [c]) s = fst (receive_chunk sha256 now c ?s)"
    by (simp add: receive_chunks_def)
  from snoc have IH: "session_ok i ?s" "fs_transfer_id ?s = fs_transfer_id s"
    "fs_total_chunks ?s = fs_total_chunks s" by simp_all
  then have same: "takes_chunk sha256 ?s c = takes_chunk sha256 s c" by (simp add: takes_chunk_def)
  from assms IH have len: "length (fs_chunks_received ?s) = length (fs_chunks_received s)"
    by (simp add: session_ok_def)
  show ?case
  proof (cases "takes_chunk sha256 s c")
    case True
    with receive_chunk_takes [OF IH(1), of sha256 c now] same step have
      eq: "receive_chunks sha256 now (cs @ [c]) s = mark_chunk now (unat (fc_chunk_index c)) ?s" by simp
    have "fs_chunks_received ?s ! j \<or> j = unat (fc_chunk_index c) \<longleftrightarrow>
        fs_chunks_received s ! j \<or> arrived sha256 s (cs @ [c]) j"
      if "j < length (fs_chunks_received s)" for j
      using that True snoc.IH by (auto simp: arrived_def)
    moreover have "fs_status ?s = (if list_all (\<lambda>r. r) (fs_chunks_received ?s) then fs_status ?s else fs_status s)"
      using snoc.IH by simp
    ultimately show ?thesis
      using True IH len mark_chunk_ok [OF IH(1)] all_update [of "fs_chunks_received ?s"]
      unfolding eq by (simp add: nth_update_True) metis
  next
    case False
    then obtain m where "receive_chunk sha256 now c ?s = (?s, Inl (invalid_packet m))"
      using same receive_chunk_refuses [of sha256 ?s c] by metis
    with step have "receive_chunks sha256 now (cs @ [c]) s = ?s" by simp
    with False snoc.IH show ?thesis by (auto simp: arrived_def)
  qed
qed


lemma unset_indices:
  "map (\<lambda>(i, r). f i) (filter (\<lambda>(i, r). \<not> r) (enumerate 0 bs)) =
   map f (filter (\<lambda>j. \<not> bs ! j) [0..<length bs])"
proof (induction bs rule: rev_induct)
  case (snoc b bs)
  have "filter (\<lambda>j. \<not> (bs @ [b]) ! j) [0..<length bs] = filter (\<lambda>j. \<not> bs ! j) [0..<length bs]"
    by (rule filter_cong) (auto simp: nth_append)
  with snoc show ?case by (simp add: enumerate_append_eq)
qed simp

section \<open>Reachable managers\<close>

definition file_manager_ok :: "file_manager \<Rightarrow> bool" where
  "file_manager_ok mgr \<longleftrightarrow> distinct (keys_of mgr) \<and> (\<forall>i s. map_of mgr i = Some s \<longrightarrow> session_ok i s)"

inductive file_step :: "(bytes \<Rightarrow> bytes) \<Rightarrow> file_manager \<Rightarrow> file_manager \<Rightarrow> bool" for sha256 where
  step_start: "file_step sha256 mgr (fst (start_transfer now offer p q mgr))"
| step_offer: "file_step sha256 mgr (fst (receive_offer now0 now1 offer p q mgr))"
| step_accept: "file_step sha256 mgr (fst (process_accept now a mgr))"
| step_chunk: "file_step sha256 mgr (fst (process_chunk sha256 now c mgr))"
| step_complete: "file_step sha256 mgr (fst (process_complete now m mgr))"
| step_cleanup: "file_step sha256 mgr (cleanup_sessions clock mgr)"
| step_cancel: "file_step sha256 mgr (fst (cancel_transfer now i mgr))"

lemma on_session_ok:
  assumes "file_manager_ok mgr" and "\<And>s. session_ok i s \<Longrightarrow> session_ok i (fst (f s))"
  shows "file_manager_ok (fst (on_session i f mgr))"
  using assms by (auto simp: file_manager_ok_def on_session_def split: option.split prod.split)
    (metis fst_conv)

lemma start_transfer_ok: "file_manager_ok mgr \<Longrightarrow> file_manager_ok (fst (start_transfer now offer p q mgr))"
  by (auto simp: file_manager_ok_def start_transfer_def Let_def)
    (simp_all add: from_offer_def session_ok_def split: if_splits)

lemma session_changes_ok:
  "session_ok i s \<Longrightarrow> session_ok i (session_accept now s)"
  "session_ok i s \<Longrightarrow> session_ok i (session_fail now e s)"
  "session_ok i s \<Longrightarrow> session_ok i (fst (session_complete now h s))"
  "session_ok i s \<Longrightarrow> session_ok i (s\<lparr>fs_status := TsCancelled, fs_last_activity := now\<rparr>)"
  by (simp_all add: session_ok_def session_accept_def session_fail_def session_complete_def)

interpretation file_transfer: invariant_system "\<lambda>mgr. mgr = file_manager_new" "file_step sha256" file_manager_ok
  for sha256
proof
  show "file_manager_ok t" if "file_manager_ok s" "file_step sha256 s t" for s t
    using that(2,1)
  proof cases
    case (step_offer now0 now1 offer p q)
    with that(1) show ?thesis by (simp add: receive_offer_def start_transfer_ok)
  next
    case (step_accept now a)
    with that(1) show ?thesis
      by (simp add: process_accept_def) (intro on_session_ok; simp add: session_changes_ok)
  next
    case (step_chunk now c)
    with that(1) show ?thesis
      by (simp add: process_chunk_def) (intro on_session_ok receive_chunk_ok)
  next
    case (step_complete now m)
    with that(1) show ?thesis
      by (simp add: process_complete_def)
        (intro on_session_ok; simp add: session_changes_ok split: option.split)
  next
    case (step_cleanup clock)
    with that(1) show ?thesis
      by (auto simp: file_manager_ok_def cleanup_sessions_def distinct_filter_keys dest: map_of_filterD)
  next
    case (step_cancel now i)
    with that(1) show ?thesis
      by (simp add: cancel_transfer_def) (intro on_session_ok; simp add: session_changes_ok)
  qed (simp add: start_transfer_ok)
qed (simp add: file_manager_ok_def file_manager_new_def)

section \<open>Properties\<close>

text \<open>C19: In every reachable file manager a session lies under its own transfer identifier, has one flag per
  chunk, and is completed only when every chunk was received; so indexing the flags never panics.\<close>

theorem file_transfer_invariant:
  assumes "reachable (\<lambda>mgr. mgr = file_manager_new) (file_step sha256) mgr"
  shows "distinct (keys_of mgr) \<and> (\<forall>i s. map_of mgr i = Some s \<longrightarrow> fs_transfer_id s = i \<and>
      length (fs_chunks_received s) = unat (fs_total_chunks s) \<and>
      (fs_status s = TsCompleted \<longrightarrow> missing_chunks s = [])) \<and>
    snd (process_chunk sha256 now c mgr) \<noteq> Inl Panic"
proof -
  have ok: "file_manager_ok mgr" by (rule file_transfer.invar_reachable [OF assms])
  have "missing_chunks s = []" if "list_all (\<lambda>r. r) (fs_chunks_received s)" for s
    using that by (auto simp: missing_chunks_def filter_empty_conv in_set_enumerate_eq list_all_length)
  moreover have "snd (process_chunk sha256 now c mgr) \<noteq> Inl Panic"
    using ok receive_chunk_ok(2) [of "fc_transfer_id c" _ sha256 now c]
    by (auto simp: process_chunk_def on_session_def file_manager_ok_def invalid_packet_def
        split: option.split prod.split) (metis snd_conv)
  ultimately show ?thesis using ok by (auto simp: file_manager_ok_def session_ok_def)
qed

text \<open>C20: The progress of a transfer does not depend on the order, on repetitions or on chunks that are
  refused: after any chunks have arrived, the missing ones are those no accepted chunk had the index
  of, in increasing order, and the transfer is completed exactly when there are none (an offer
  without chunks is never completed).\<close>

theorem transfer_progress:
  "let s = from_offer now0 offer p q; s' = receive_chunks sha256 now cs s
   in missing_chunks s' = map word_of_nat
        (filter (\<lambda>j. \<not> arrived sha256 s cs j) [0..<unat (offer_total_chunks offer)]) \<and>
      (fs_status s' = TsCompleted \<longleftrightarrow> offer_total_chunks offer \<noteq> 0 \<and> missing_chunks s' = [])"
proof -
  let ?s = "from_offer now0 offer p q" let ?s' = "receive_chunks sha256 now cs ?s"
  let ?n = "unat (offer_total_chunks offer)"
  note spec = receive_chunks_spec [OF from_offer_ok [of offer now0 p q], of sha256 now cs]
  have s: "fs_chunks_received ?s = replicate ?n False" "fs_total_chunks ?s = offer_total_chunks offer"
    "fs_status ?s = Offered" by (simp_all add: from_offer_def)
  with spec have len: "length (fs_chunks_received ?s') = ?n"
    and nth: "\<And>j. j < ?n \<Longrightarrow> fs_chunks_received ?s' ! j \<longleftrightarrow> arrived sha256 ?s cs j"
    by (auto simp: session_ok_def)
  have miss: "missing_chunks ?s' = map word_of_nat (filter (\<lambda>j. \<not> arrived sha256 ?s cs j) [0..<?n])"
    unfolding missing_chunks_def unset_indices len using nth
    by (intro arg_cong [where f = "map word_of_nat"] filter_cong) auto
  have "list_ex (takes_chunk sha256 ?s) cs \<longleftrightarrow> (\<exists>j<?n. arrived sha256 ?s cs j)"
    using s(2) by (auto simp: list_ex_iff arrived_def takes_chunk_def word_less_nat_alt)
  moreover have "list_all (\<lambda>r. r) (fs_chunks_received ?s') \<longleftrightarrow> (\<forall>j<?n. arrived sha256 ?s cs j)"
    using len nth by (simp add: list_all_length)
  ultimately have "fs_status ?s' = TsCompleted \<longleftrightarrow> ?n \<noteq> 0 \<and> (\<forall>j<?n. arrived sha256 ?s cs j)"
    using spec s(3) by auto
  with miss show ?thesis by (auto simp: Let_def filter_empty_conv unat_eq_zero)
qed

text \<open>The completion message of the protocol is always refused: once an offer was accepted, and whatever
  chunks arrived since, \<^verbatim>\<open>complete\<close> fails, because the last chunk has already set the status to completed
  and without it chunks are missing. (This holds at the receiver as well as at the sender, where no
  chunks arrive.)\<close>

theorem completion_always_refused:
  assumes "offer_total_chunks offer \<noteq> 0"
  shows "let s = receive_chunks sha256 now cs (session_accept now1 (from_offer now0 offer p q))
    in session_complete now2 h s =
         (s, Inl (invalid_packet (if fs_status s = TsCompleted then ''Transfer not in progress''
                                  else ''Not all chunks received'')))"
proof -
  let ?s = "session_accept now1 (from_offer now0 offer p q)"
  have "session_ok (fo_transfer_id offer) ?s" by (simp add: session_changes_ok)
  note spec = receive_chunks_spec [OF this, of sha256 now cs]
  have s: "fs_chunks_received ?s = replicate (unat (offer_total_chunks offer)) False"
    "fs_status ?s = InProgress" "fs_total_chunks ?s = offer_total_chunks offer"
    by (simp_all add: from_offer_def session_accept_def)
  let ?s' = "receive_chunks sha256 now cs ?s"
  have n: "0 < unat (offer_total_chunks offer)" using assms by (simp add: unat_gt_0)
  have "list_ex (takes_chunk sha256 ?s) cs" if "list_all (\<lambda>r. r) (fs_chunks_received ?s')"
  proof -
    have "0 < length (fs_chunks_received ?s')" using spec n s(3) by (simp add: session_ok_def)
    with that have "fs_chunks_received ?s' ! 0" by (simp add: list_all_length)
    with spec s(1) n have "arrived sha256 ?s cs 0" by auto
    then show ?thesis by (auto simp: arrived_def list_ex_iff)
  qed
  with spec s(2) show ?thesis by (auto simp: Let_def session_complete_def)
qed

text \<open>The number of chunks of a validated offer is exact: between 1 and 6400, the smallest number of
  chunks of 16384 bytes that holds the file.\<close>

theorem chunk_count_exact:
  assumes "file_offer_new now uuid m description = Inr offer"
  shows "0 < offer_total_chunks offer \<and> unat (offer_total_chunks offer) \<le> 6400 \<and>
    (unat (offer_total_chunks offer) - 1) * MAX_CHUNK_SIZE < unat (fm_size (fo_metadata offer)) \<and>
    unat (fm_size (fo_metadata offer)) \<le> unat (offer_total_chunks offer) * MAX_CHUNK_SIZE"
proof -
  let ?n = "unat (fm_size (fo_metadata offer))" let ?c = "div_ceil ?n MAX_CHUNK_SIZE"
  from assms have "fm_size m \<noteq> 0" "\<not> word_of_nat MAX_FILE_SIZE < fm_size m" "fo_metadata offer = m"
    by (auto simp: file_offer_new_def file_metadata_validate_def split: if_splits)
  then have n: "0 < ?n" "?n \<le> 104857600"
    by (simp_all add: unat_gt_0 MAX_FILE_SIZE_def not_less word_le_nat_alt)
  have c: "?n \<le> ?c * 16384" "(?c - 1) * 16384 < ?n"
    using div_ceil_bounds [of 16384 ?n] n(1) by (simp_all add: MAX_CHUNK_SIZE_def diff_mult_distrib)
  with n have "?c \<le> 6400" "0 < ?c" by auto
  then have "unat (offer_total_chunks offer) = ?c"
    by (simp add: offer_total_chunks_def unat_of_nat)
  with c \<open>?c \<le> 6400\<close> \<open>0 < ?c\<close> show ?thesis by (simp add: MAX_CHUNK_SIZE_def word_less_nat_alt)
qed

text \<open>An offer that was not validated, as \<^verbatim>\<open>receive_offer\<close> takes it from the network, may have a chunk count
  that is truncated to zero.\<close>

lemma unvalidated_count_truncated:
  "fm_size (fo_metadata offer) = 2 ^ 46 \<Longrightarrow> offer_total_chunks offer = 0"
  by (simp add: offer_total_chunks_def div_ceil_def MAX_CHUNK_SIZE_def)


section \<open>Witnesses\<close>

definition toy_file_offer :: file_offer where
  "toy_file_offer = \<lparr>fo_transfer_id = [1], fo_metadata = file_metadata_new toy_sha256 0 [102] 20000 None [1, 2],
     fo_description = None, fo_expires_at = 1800000\<rparr>"

lemma toy_file_offer_new: "file_offer_new 0 [1] (fo_metadata toy_file_offer) None = Inr toy_file_offer"
  by (simp add: file_offer_new_def toy_file_offer_def file_metadata_validate_def file_metadata_new_def
      MAX_FILE_SIZE_def timestamp_add_def TRANSFER_TIMEOUT_SECONDS_def)

lemma toy_file_chunks: "offer_total_chunks toy_file_offer = 2"
  by (simp add: offer_total_chunks_def toy_file_offer_def file_metadata_new_def div_ceil_def MAX_CHUNK_SIZE_def)

theorem chunk_count_exact_witness:
  "file_offer_new 0 [1] (fo_metadata toy_file_offer) None = Inr toy_file_offer \<and>
   unat (offer_total_chunks toy_file_offer) \<le> 6400"
  using chunk_count_exact [OF toy_file_offer_new] toy_file_offer_new by blast

definition toy_file_chunk :: "u32 \<Rightarrow> file_chunk" where
  "toy_file_chunk j = \<lparr>fc_transfer_id = [1], fc_chunk_index = j, fc_total_chunks = 2, fc_data = [1],
     fc_chunk_hash = toy_sha256 [1]\<rparr>"

theorem completion_always_refused_witness:
  "offer_total_chunks toy_file_offer \<noteq> 0 \<and>
   (\<exists>m. snd (session_complete 5 [] (receive_chunks toy_sha256 3 [toy_file_chunk 1, toy_file_chunk 0]
     (session_accept 2 (from_offer 1 toy_file_offer [7] [8])))) = Inl (invalid_packet m))"
proof -
  have n: "offer_total_chunks toy_file_offer \<noteq> 0" by (simp add: toy_file_chunks)
  with completion_always_refused [OF n, of toy_sha256 3 "[toy_file_chunk 1, toy_file_chunk 0]" 2 1 "[7]" "[8]" 5 "[]"]
  show ?thesis unfolding Let_def by (metis snd_conv)
qed

definition toy_file_manager :: file_manager where
  "toy_file_manager = fst (start_transfer 1 toy_file_offer [7] [8] file_manager_new)"

lemma toy_file_manager_reachable:
  "reachable (\<lambda>mgr. mgr = file_manager_new) (file_step toy_sha256) toy_file_manager"
  unfolding toy_file_manager_def by (rule reach_step [OF reach_start]) (auto intro: step_start)

theorem file_transfer_invariant_witness:
  "reachable (\<lambda>mgr. mgr = file_manager_new) (file_step toy_sha256) toy_file_manager \<and>
   snd (process_chunk toy_sha256 4 (toy_file_chunk 9) toy_file_manager) \<noteq> Inl Panic"
  using file_transfer_invariant [OF toy_file_manager_reachable] toy_file_manager_reachable by blast

end
