(* ===== verification/Group_Messaging.thy ===== *)
theory Group_Messaging
  imports App_Message Message_Store
begin

text \<open>
  The group messaging protocol (\<^verbatim>\<open>src/crates/bitchat-core/src/protocol/group_messaging.rs\<close>): groups with
  members and roles, the messages of the protocol, and the manager of the groups of a peer.

  A \<^verbatim>\<open>BTreeMap\<close> is an association list; where the code lists its keys or values, they are sorted. Group
  and message identifiers are their texts; those drawn from the \<^verbatim>\<open>uuid\<close> crate and the clock readings
  are arguments.
\<close>

section \<open>Groups\<close>

definition MAX_GROUP_SIZE :: nat where "MAX_GROUP_SIZE = 256"
definition MAX_GROUP_NAME_LENGTH :: nat where "MAX_GROUP_NAME_LENGTH = 128"
definition MAX_GROUP_DESCRIPTION_LENGTH :: nat where "MAX_GROUP_DESCRIPTION_LENGTH = 512"
definition MAX_MEMBER_NICKNAME_LENGTH :: nat where "MAX_MEMBER_NICKNAME_LENGTH = 64"

type_synonym group_id = rust_string

datatype group_role = RoleOwner | RoleAdmin | RoleMember

definition can_invite :: "group_role \<Rightarrow> bool" where
  "can_invite r = (r = RoleOwner \<or> r = RoleAdmin)"

definition can_kick :: "group_role \<Rightarrow> bool" where
  "can_kick r = (r = RoleOwner \<or> r = RoleAdmin)"

definition can_modify_group :: "group_role \<Rightarrow> bool" where
  "can_modify_group r = (r = RoleOwner \<or> r = RoleAdmin)"

definition can_promote :: "group_role \<Rightarrow> bool" where
  "can_promote r = (r = RoleOwner)"

record group_member =
  gm_peer_id :: peer_id
  gm_nickname :: rust_string
  gm_role :: group_role
  gm_joined_at :: timestamp
  gm_fingerprint :: fingerprint

definition group_member_new ::
    "timestamp \<Rightarrow> peer_id \<Rightarrow> rust_string \<Rightarrow> fingerprint \<Rightarrow> group_role \<Rightarrow> group_member result" where
  "group_member_new now pid nickname fp role =
     (if nickname = [] then Inl (invalid_packet ''Member nickname cannot be empty'')
      else if MAX_MEMBER_NICKNAME_LENGTH < length nickname
           then Inl (invalid_packet ''Member nickname too long'')
      else Inr \<lparr>gm_peer_id = pid, gm_nickname = nickname, gm_role = role, gm_joined_at = now,
                gm_fingerprint = fp\<rparr>)"

record group_settings =
  admin_only_messages :: bool
  members_can_invite :: bool
  gs_read_receipts_enabled :: bool
  max_message_history :: u32

definition group_settings_default :: group_settings where
  "group_settings_default =
     \<lparr>admin_only_messages = False, members_can_invite = True, gs_read_receipts_enabled = True,
      max_message_history = 1000\<rparr>"

record group_metadata =
  g_group_id :: group_id
  g_name :: rust_string
  g_description :: "rust_string option"
  g_created_at :: timestamp
  g_creator :: peer_id
  g_members :: "(peer_id \<times> group_member) list"
  g_avatar_hash :: "rust_string option"
  g_settings :: group_settings

definition description_too_long :: "rust_string option \<Rightarrow> bool" where
  "description_too_long d = (case d of Some t \<Rightarrow> MAX_GROUP_DESCRIPTION_LENGTH < length t | None \<Rightarrow> False)"

definition group_metadata_new ::
    "timestamp \<Rightarrow> timestamp \<Rightarrow> group_id \<Rightarrow> rust_string \<Rightarrow> rust_string option \<Rightarrow> peer_id \<Rightarrow> rust_string
     \<Rightarrow> fingerprint \<Rightarrow> group_metadata result" where
  "group_metadata_new now0 now1 uuid name description creator nickname fp =
     (if name = [] then Inl (invalid_packet ''Group name cannot be empty'')
      else if MAX_GROUP_NAME_LENGTH < length name then Inl (invalid_packet ''Group name too long'')
      else if description_too_long description then Inl (invalid_packet ''Group description too long'')
      else case group_member_new now0 creator nickname fp RoleOwner of
             Inl e \<Rightarrow> Inl e
           | Inr member \<Rightarrow>
               Inr \<lparr>g_group_id = uuid, g_name = name, g_description = description, g_created_at = now1,
                    g_creator = creator, g_members = map_put creator member [], g_avatar_hash = None,
                    g_settings = group_settings_default\<rparr>)"

definition add_member :: "group_member \<Rightarrow> group_metadata \<Rightarrow> group_metadata \<times> unit result" where
  "add_member m g =
     (if MAX_GROUP_SIZE \<le> length (g_members g) then
        (g, Inl (invalid_packet ''Group is at maximum capacity''))
      else if has_key (g_members g) (gm_peer_id m) then
        (g, Inl (invalid_packet ''Member already exists in group''))
      else (g\<lparr>g_members := map_put (gm_peer_id m) m (g_members g)\<rparr>, Inr ()))"

definition remove_member :: "peer_id \<Rightarrow> group_metadata \<Rightarrow> group_metadata \<times> group_member result" where
  "remove_member pid g =
     (if pid = g_creator g then (g, Inl (invalid_packet ''Cannot remove group creator''))
      else case map_of (g_members g) pid of
             Some m \<Rightarrow> (g\<lparr>g_members := map_del pid (g_members g)\<rparr>, Inr m)
           | None \<Rightarrow> (g, Inl (invalid_packet ''Member not found in group'')))"

definition get_member :: "group_metadata \<Rightarrow> peer_id \<Rightarrow> group_member option" where
  "get_member g pid = map_of (g_members g) pid"

definition is_member :: "group_metadata \<Rightarrow> peer_id \<Rightarrow> bool" where
  "is_member g pid = has_key (g_members g) pid"

definition member_ids :: "group_metadata \<Rightarrow> peer_id list" where
  "member_ids g = sort (keys_of (g_members g))"

definition member_count :: "group_metadata \<Rightarrow> nat" where
  "member_count g = length (g_members g)"

definition update_name :: "rust_string option \<Rightarrow> group_metadata \<Rightarrow> group_metadata \<times> unit result" where
  "update_name name g =
     (case name of
        None \<Rightarrow> (g, Inr ())
      | Some n \<Rightarrow>
          if n = [] then (g, Inl (invalid_packet ''Group name cannot be empty''))
          else if MAX_GROUP_NAME_LENGTH < length n then (g, Inl (invalid_packet ''Group name too long''))
          else (g\<lparr>g_name := n\<rparr>, Inr ()))"

definition group_update ::
    "rust_string option \<Rightarrow> rust_string option option \<Rightarrow> group_metadata \<Rightarrow> group_metadata \<times> unit result" where
  "group_update name description g =
     (case update_name name g of
        (g1, Inl e) \<Rightarrow> (g1, Inl e)
      | (g1, Inr _) \<Rightarrow>
          (case description of
             None \<Rightarrow> (g1, Inr ())
           | Some d \<Rightarrow>
               if description_too_long d then (g1, Inl (invalid_packet ''Group description too long''))
               else (g1\<lparr>g_description := d\<rparr>, Inr ())))"

section \<open>Messages\<close>

record group_create =
  gc_metadata :: group_metadata
  gc_invitation_message :: "rust_string option"

record group_invite =
  gi_group_id :: group_id
  gi_group_metadata :: group_metadata
  gi_inviter :: peer_id
  gi_message :: "rust_string option"
  gi_expires_at :: timestamp

definition group_invite_new ::
    "timestamp \<Rightarrow> group_metadata \<Rightarrow> peer_id \<Rightarrow> rust_string option \<Rightarrow> group_invite" where
  "group_invite_new now g inviter message =
     \<lparr>gi_group_id = g_group_id g, gi_group_metadata = g, gi_inviter = inviter, gi_message = message,
      gi_expires_at = timestamp_add now (24 * 60 * 60 * 1000)\<rparr>"

definition invite_is_expired :: "timestamp \<Rightarrow> group_invite \<Rightarrow> bool" where
  "invite_is_expired now i = (gi_expires_at i < now)"

record group_join =
  gj_group_id :: group_id
  gj_member :: group_member
  gj_message :: "rust_string option"

record group_leave =
  gl_group_id :: group_id
  gl_peer_id :: peer_id
  gl_reason :: "rust_string option"

record group_message =
  gx_group_id :: group_id
  gx_message_id :: rust_string
  gx_sender :: peer_id
  gx_content :: rust_string
  gx_timestamp :: timestamp
  gx_reply_to :: "rust_string option"
  gx_mentions :: "peer_id list option"

definition group_message_new ::
    "timestamp \<Rightarrow> rust_string \<Rightarrow> group_id \<Rightarrow> peer_id \<Rightarrow> rust_string \<Rightarrow> group_message" where
  "group_message_new now uuid gid sender content =
     \<lparr>gx_group_id = gid, gx_message_id = uuid, gx_sender = sender, gx_content = content,
      gx_timestamp = now, gx_reply_to = None, gx_mentions = None\<rparr>"

definition group_message_reply ::
    "timestamp \<Rightarrow> rust_string \<Rightarrow> group_id \<Rightarrow> peer_id \<Rightarrow> rust_string \<Rightarrow> rust_string \<Rightarrow> group_message" where
  "group_message_reply now uuid gid sender content reply_to =
     \<lparr>gx_group_id = gid, gx_message_id = uuid, gx_sender = sender, gx_content = content,
      gx_timestamp = now, gx_reply_to = Some reply_to, gx_mentions = None\<rparr>"

definition with_mentions :: "peer_id list \<Rightarrow> group_message \<Rightarrow> group_message" where
  "with_mentions ms m = m\<lparr>gx_mentions := Some ms\<rparr>"

record group_update_message =
  gu_group_id :: group_id
  gu_updater :: peer_id
  gu_name :: "rust_string option"
  gu_description :: "rust_string option option"
  gu_settings :: "group_settings option"
  gu_timestamp :: timestamp

definition group_update_new :: "timestamp \<Rightarrow> group_id \<Rightarrow> peer_id \<Rightarrow> group_update_message" where
  "group_update_new now gid updater =
     \<lparr>gu_group_id = gid, gu_updater = updater, gu_name = None, gu_description = None,
      gu_settings = None, gu_timestamp = now\<rparr>"

definition with_name :: "rust_string \<Rightarrow> group_update_message \<Rightarrow> group_update_message" where
  "with_name n u = u\<lparr>gu_name := Some n\<rparr>"

definition with_description :: "rust_string option \<Rightarrow> group_update_message \<Rightarrow> group_update_message" where
  "with_description d u = u\<lparr>gu_description := Some d\<rparr>"

definition with_settings :: "group_settings \<Rightarrow> group_update_message \<Rightarrow> group_update_message" where
  "with_settings s u = u\<lparr>gu_settings := Some s\<rparr>"

record group_kick =
  gk_group_id :: group_id
  gk_kicker :: peer_id
  gk_kicked_member :: peer_id
  gk_reason :: "rust_string option"
  gk_timestamp :: timestamp

datatype group_messaging_message =
    GmCreate group_create
  | GmInvite group_invite
  | GmJoin group_join
  | GmLeave group_leave
  | GmMessage group_message
  | GmUpdate group_update_message
  | GmKick group_kick

fun message_group_id :: "group_messaging_message \<Rightarrow> group_id" where
  "message_group_id (GmCreate m) = g_group_id (gc_metadata m)"
| "message_group_id (GmInvite m) = gi_group_id m"
| "message_group_id (GmJoin m) = gj_group_id m"
| "message_group_id (GmLeave m) = gl_group_id m"
| "message_group_id (GmMessage m) = gx_group_id m"
| "message_group_id (GmUpdate m) = gu_group_id m"
| "message_group_id (GmKick m) = gk_group_id m"

fun group_payload_type :: "group_messaging_message \<Rightarrow> noise_payload_type" where
  "group_payload_type (GmCreate m) = GroupCreate"
| "group_payload_type (GmInvite m) = GroupInvite"
| "group_payload_type (GmJoin m) = GroupJoin"
| "group_payload_type (GmLeave m) = GroupLeave"
| "group_payload_type (GmMessage m) = GroupMessage"
| "group_payload_type (GmUpdate m) = GroupUpdate"
| "group_payload_type (GmKick m) = GroupKick"

section \<open>The manager\<close>

record group_manager =
  gmg_groups :: "(group_id \<times> group_metadata) list"
  gmg_local_peer_id :: peer_id

definition group_manager_new :: "peer_id \<Rightarrow> group_manager" where
  "group_manager_new pid = \<lparr>gmg_groups = [], gmg_local_peer_id = pid\<rparr>"

definition create_group ::
    "timestamp \<Rightarrow> timestamp \<Rightarrow> group_id \<Rightarrow> rust_string \<Rightarrow> rust_string option \<Rightarrow> rust_string \<Rightarrow> fingerprint
     \<Rightarrow> group_manager \<Rightarrow> group_manager \<times> group_create result" where
  "create_group now0 now1 uuid name description nickname fp mgr =
     (case group_metadata_new now0 now1 uuid name description (gmg_local_peer_id mgr) nickname fp of
        Inl e \<Rightarrow> (mgr, Inl e)
      | Inr g \<Rightarrow>
          (mgr\<lparr>gmg_groups := map_put (g_group_id g) g (gmg_groups mgr)\<rparr>,
           Inr \<lparr>gc_metadata = g, gc_invitation_message = None\<rparr>))"

definition process_invite :: "timestamp \<Rightarrow> group_invite \<Rightarrow> unit result" where
  "process_invite now i =
     (if invite_is_expired now i then Inl (invalid_packet ''Group invitation has expired'') else Inr ())"

definition join_group ::
    "timestamp \<Rightarrow> group_metadata \<Rightarrow> rust_string \<Rightarrow> fingerprint \<Rightarrow> group_manager
     \<Rightarrow> group_manager \<times> group_join result" where
  "join_group now g nickname fp mgr =
     (if has_key (gmg_groups mgr) (g_group_id g) then
        (mgr, Inl (invalid_packet ''Already a member of this group''))
      else case group_member_new now (gmg_local_peer_id mgr) nickname fp RoleMember of
             Inl e \<Rightarrow> (mgr, Inl e)
           | Inr m \<Rightarrow>
               (mgr\<lparr>gmg_groups := map_put (g_group_id g) g (gmg_groups mgr)\<rparr>,
                Inr \<lparr>gj_group_id = g_group_id g, gj_member = m, gj_message = None\<rparr>))"

definition leave_group ::
    "group_id \<Rightarrow> rust_string option \<Rightarrow> group_manager \<Rightarrow> group_manager \<times> group_leave result" where
  "leave_group gid reason mgr =
     (if \<not> has_key (gmg_groups mgr) gid then (mgr, Inl (invalid_packet ''Not a member of this group''))
      else (mgr\<lparr>gmg_groups := map_del gid (gmg_groups mgr)\<rparr>,
            Inr \<lparr>gl_group_id = gid, gl_peer_id = gmg_local_peer_id mgr, gl_reason = reason\<rparr>))"

definition group_send_message ::
    "timestamp \<Rightarrow> rust_string \<Rightarrow> group_id \<Rightarrow> rust_string \<Rightarrow> group_manager \<Rightarrow> group_message result" where
  "group_send_message now uuid gid content mgr =
     (if \<not> has_key (gmg_groups mgr) gid then Inl (invalid_packet ''Not a member of this group'')
      else Inr (group_message_new now uuid gid (gmg_local_peer_id mgr) content))"

text \<open>\<^verbatim>\<open>get_mut\<close> and the operation on the group; a group that is not known is no error.\<close>

definition on_group ::
    "group_id \<Rightarrow> (group_metadata \<Rightarrow> group_metadata \<times> 'a result) \<Rightarrow> group_manager
     \<Rightarrow> group_manager \<times> unit result" where
  "on_group gid f mgr =
     (case map_of (gmg_groups mgr) gid of
        None \<Rightarrow> (mgr, Inr ())
      | Some g \<Rightarrow>
          (case f g of (g', r) \<Rightarrow>
             (mgr\<lparr>gmg_groups := map_put gid g' (gmg_groups mgr)\<rparr>,
              case r of Inl e \<Rightarrow> Inl e | Inr _ \<Rightarrow> Inr ())))"

definition apply_update :: "group_update_message \<Rightarrow> group_metadata \<Rightarrow> group_metadata \<times> unit result" where
  "apply_update u g =
     (case group_update (gu_name u) (gu_description u) g of
        (g1, Inl e) \<Rightarrow> (g1, Inl e)
      | (g1, Inr _) \<Rightarrow>
          (case gu_settings u of
             Some s \<Rightarrow> (g1\<lparr>g_settings := s\<rparr>, Inr ())
           | None \<Rightarrow> (g1, Inr ())))"

fun process_group_message ::
    "group_messaging_message \<Rightarrow> group_manager \<Rightarrow> group_manager \<times> unit result" where
  "process_group_message (GmCreate m) mgr =
     (mgr\<lparr>gmg_groups := map_put (message_group_id (GmCreate m)) (gc_metadata m) (gmg_groups mgr)\<rparr>, Inr ())"
| "process_group_message (GmJoin m) mgr = on_group (gj_group_id m) (add_member (gj_member m)) mgr"
| "process_group_message (GmLeave m) mgr = on_group (gl_group_id m) (remove_member (gl_peer_id m)) mgr"
| "process_group_message (GmUpdate m) mgr = on_group (gu_group_id m) (apply_update m) mgr"
| "process_group_message (GmKick m) mgr =
     on_group (gk_group_id m) (remove_member (gk_kicked_member m)) mgr"
| "process_group_message (GmInvite m) mgr = (mgr, Inr ())"
| "process_group_message (GmMessage m) mgr = (mgr, Inr ())"

definition get_group :: "group_manager \<Rightarrow> group_id \<Rightarrow> group_metadata option" where
  "get_group mgr gid = map_of (gmg_groups mgr) gid"

definition get_all_groups :: "group_manager \<Rightarrow> group_metadata list" where
  "get_all_groups mgr = map snd (sort_key fst (gmg_groups mgr))"

definition is_member_of :: "group_manager \<Rightarrow> group_id \<Rightarrow> bool" where
  "is_member_of mgr gid = has_key (gmg_groups mgr) gid"

definition get_admin_groups :: "group_manager \<Rightarrow> group_metadata list" where
  "get_admin_groups mgr =
     filter (\<lambda>g. case get_member g (gmg_local_peer_id mgr) of Some m \<Rightarrow> can_kick (gm_role m) | None \<Rightarrow> False)
       (get_all_groups mgr)"


section \<open>Well-formed groups\<close>

definition group_ok :: "group_metadata \<Rightarrow> bool" where
  "group_ok g \<longleftrightarrow> distinct (keys_of (g_members g)) \<and> length (g_members g) \<le> MAX_GROUP_SIZE \<and>
     (\<forall>p m. map_of (g_members g) p = Some m \<longrightarrow> gm_peer_id m = p) \<and>
     (\<exists>m. map_of (g_members g) (g_creator g) = Some m \<and> gm_role m = RoleOwner) \<and>
     g_name g \<noteq> [] \<and> length (g_name g) \<le> MAX_GROUP_NAME_LENGTH \<and> \<not> description_too_long (g_description g)"

definition group_manager_ok :: "group_manager \<Rightarrow> bool" where
  "group_manager_ok mgr \<longleftrightarrow> distinct (keys_of (gmg_groups mgr)) \<and>
     (\<forall>i g. map_of (gmg_groups mgr) i = Some g \<longrightarrow> g_group_id g = i \<and> group_ok g)"

lemma group_metadata_new_ok:
  "group_metadata_new now0 now1 uuid name d creator nickname fp = Inr g \<Longrightarrow>
   group_ok g \<and> g_group_id g = uuid \<and> g_creator g = creator"
  by (auto simp: group_metadata_new_def group_member_new_def group_ok_def MAX_GROUP_SIZE_def
      split: if_splits sum.splits)

lemma add_member_ok: "group_ok g \<Longrightarrow> group_ok (fst (add_member m g))"
  by (auto simp: add_member_def group_ok_def length_put has_key_def)

lemma remove_member_ok: "group_ok g \<Longrightarrow> group_ok (fst (remove_member pid g))"
  by (auto simp: remove_member_def group_ok_def length_del has_key_def split: option.split)

lemma update_name_ok: "group_ok g \<Longrightarrow> group_ok (fst (update_name name g))"
  by (auto simp: update_name_def group_ok_def split: option.split)

lemma group_update_ok:
  assumes "group_ok g"
  shows "group_ok (fst (group_update name d g))"
proof -
  obtain g1 r where u: "update_name name g = (g1, r)" by force
  with update_name_ok [OF assms, of name] have "group_ok g1" by simp
  then show ?thesis
    by (cases r) (auto simp: group_update_def u group_ok_def split: option.split)
qed

lemma apply_update_ok:
  assumes "group_ok g"
  shows "group_ok (fst (apply_update u g))"
proof -
  obtain g1 r where g1: "group_update (gu_name u) (gu_description u) g = (g1, r)" by force
  with group_update_ok [OF assms, of "gu_name u" "gu_description u"] have "group_ok g1" by simp
  then show ?thesis
    by (cases r) (auto simp: apply_update_def g1 group_ok_def split: option.split)
qed

lemma members_keep_identity:
  "g_group_id (fst (add_member m g)) = g_group_id g" "g_creator (fst (add_member m g)) = g_creator g"
  "g_group_id (fst (remove_member pid g)) = g_group_id g"
  "g_creator (fst (remove_member pid g)) = g_creator g"
  "g_group_id (fst (apply_update u g)) = g_group_id g" "g_creator (fst (apply_update u g)) = g_creator g"
  by (auto simp: add_member_def remove_member_def apply_update_def group_update_def update_name_def
      split: option.split sum.split prod.split)

lemma groups_put:
  "group_manager_ok mgr \<Longrightarrow> group_ok g \<Longrightarrow>
   group_manager_ok (mgr\<lparr>gmg_groups := map_put (g_group_id g) g (gmg_groups mgr)\<rparr>)"
  by (simp add: group_manager_ok_def)

lemma on_group_ok:
  assumes "group_manager_ok mgr" and "\<And>g. group_ok g \<Longrightarrow> group_ok (fst (f g)) \<and> g_group_id (fst (f g)) = g_group_id g"
  shows "group_manager_ok (fst (on_group gid f mgr))"
proof (cases "map_of (gmg_groups mgr) gid")
  case None
  with assms(1) show ?thesis by (simp add: on_group_def)
next
  case (Some g)
  obtain g' r where f: "f g = (g', r)" by force
  from Some assms(1) have "group_ok g" "g_group_id g = gid" by (auto simp: group_manager_ok_def)
  with assms(2) [of g] f have "group_ok g' \<and> g_group_id g' = gid" by simp
  with assms(1) Some f show ?thesis by (simp add: on_group_def group_manager_ok_def)
qed

text \<open>The runs in which the metadata that arrive from other peers are well-formed.\<close>

inductive group_step :: "group_manager \<Rightarrow> group_manager \<Rightarrow> bool" where
  step_create: "group_step mgr (fst (create_group now0 now1 uuid name d nickname fp mgr))"
| step_join: "group_ok g \<Longrightarrow> group_step mgr (fst (join_group now g nickname fp mgr))"
| step_leave: "group_step mgr (fst (leave_group gid reason mgr))"
| step_message: "(\<And>c. m = GmCreate c \<Longrightarrow> group_ok (gc_metadata c)) \<Longrightarrow>
    group_step mgr (fst (process_group_message m mgr))"

interpretation groups: invariant_system "\<lambda>mgr. \<exists>pid. mgr = group_manager_new pid" group_step group_manager_ok
proof
  show "group_manager_ok t" if "group_manager_ok s" "group_step s t" for s t
    using that(2,1)
  proof cases
    case (step_create now0 now1 uuid name d nickname fp)
    with that(1) group_metadata_new_ok [of now0 now1 uuid name d "gmg_local_peer_id s" nickname fp]
    show ?thesis by (auto simp: create_group_def group_manager_ok_def split: sum.split)
  next
    case (step_join g now nickname fp)
    with that(1) show ?thesis by (auto simp: join_group_def group_manager_ok_def split: sum.split)
  next
    case (step_leave gid reason)
    with that(1) show ?thesis by (auto simp: leave_group_def group_manager_ok_def)
  next
    case (step_message m)
    with that(1) show ?thesis
      by (cases m) (simp_all add: groups_put on_group_ok add_member_ok remove_member_ok apply_update_ok
          members_keep_identity)
  qed
qed (auto simp: group_manager_ok_def group_manager_new_def)


section \<open>Properties\<close>

text \<open>C21: As long as the group metadata that arrive from other peers are well-formed, every group of a manager
  stays well-formed: at most 256 members, no two under the same identifier and each under its own, a name that is not empty
  and a name and a description within their limits, and the creator is a member and its owner, whatever
  joins, leaves, kicks and updates are processed.\<close>

theorem group_invariant:
  assumes "reachable (\<lambda>mgr. \<exists>pid. mgr = group_manager_new pid) group_step mgr"
    and "get_group mgr gid = Some g"
  shows "g_group_id g = gid \<and> member_count g \<le> MAX_GROUP_SIZE \<and> is_member g (g_creator g) \<and>
    map_option gm_role (get_member g (g_creator g)) = Some RoleOwner \<and>
    distinct (member_ids g) \<and> sorted (member_ids g) \<and>
    list_all (\<lambda>(pid, m). gm_peer_id m = pid) (g_members g) \<and>
    g_name g \<noteq> [] \<and> length (g_name g) \<le> MAX_GROUP_NAME_LENGTH \<and>
    (case g_description g of None \<Rightarrow> True | Some d \<Rightarrow> length d \<le> MAX_GROUP_DESCRIPTION_LENGTH)"
proof -
  have "group_manager_ok mgr" by (rule groups.invar_reachable [OF assms(1)])
  with assms(2) have "g_group_id g = gid" "group_ok g" by (auto simp: group_manager_ok_def get_group_def)
  moreover from \<open>group_ok g\<close> have "list_all (\<lambda>(pid, m). gm_peer_id m = pid) (g_members g)"
    by (auto simp: group_ok_def list_all_iff)
  moreover from \<open>group_ok g\<close>
  have "case g_description g of None \<Rightarrow> True | Some d \<Rightarrow> length d \<le> MAX_GROUP_DESCRIPTION_LENGTH"
    by (auto simp: group_ok_def description_too_long_def split: option.split)
  ultimately show ?thesis
    by (auto simp: group_ok_def member_count_def is_member_def has_key_def
        get_member_def member_ids_def)
qed

definition toy_group_manager :: group_manager where
  "toy_group_manager = fst (create_group 1 2 [9] [65] None [66] (replicate 32 0) (group_manager_new [1]))"

lemma toy_group_manager_reachable:
  "reachable (\<lambda>mgr. \<exists>pid. mgr = group_manager_new pid) group_step toy_group_manager"
  unfolding toy_group_manager_def by (rule reach_step [OF reach_start]) (auto intro: step_create)

definition toy_group :: group_metadata where
  "toy_group = \<lparr>g_group_id = [9], g_name = [65], g_description = None, g_created_at = 2, g_creator = [1],
     g_members = [([1], \<lparr>gm_peer_id = [1], gm_nickname = [66], gm_role = RoleOwner, gm_joined_at = 1,
       gm_fingerprint = replicate 32 0\<rparr>)],
     g_avatar_hash = None, g_settings = group_settings_default\<rparr>"

lemma toy_get_group: "get_group toy_group_manager [9] = Some toy_group"
  by (simp add: toy_group_manager_def create_group_def group_metadata_new_def group_member_new_def
      group_manager_new_def get_group_def toy_group_def MAX_GROUP_NAME_LENGTH_def
      MAX_MEMBER_NICKNAME_LENGTH_def description_too_long_def)

theorem group_invariant_witness:
  "reachable (\<lambda>mgr. \<exists>pid. mgr = group_manager_new pid) group_step toy_group_manager \<and>
   is_member toy_group (g_creator toy_group)"
  using group_invariant [OF toy_group_manager_reachable toy_get_group] toy_group_manager_reachable by blast

text \<open>Roles are not enforced on incoming messages. Whoever sends it, a kick removes any member but the
  creator, and a join with the role of an owner makes its sender an owner.\<close>

theorem group_roles_not_enforced:
  assumes "get_group mgr gid = Some g" and "is_member g victim" and "victim \<noteq> g_creator g"
    and "\<not> is_member g (gm_peer_id m)" and "member_count g < MAX_GROUP_SIZE" and "gm_role m = RoleOwner"
  shows "(\<exists>g'. get_group (fst (process_group_message (GmKick \<lparr>gk_group_id = gid, gk_kicker = anyone,
        gk_kicked_member = victim, gk_reason = reason, gk_timestamp = ts\<rparr>) mgr)) gid = Some g' \<and>
        \<not> is_member g' victim) \<and>
    (\<exists>g'. get_group (fst (process_group_message (GmJoin \<lparr>gj_group_id = gid, gj_member = m,
        gj_message = msg\<rparr>) mgr)) gid = Some g' \<and>
        map_option gm_role (get_member g' (gm_peer_id m)) = Some RoleOwner)"
  using assms
  by (auto simp: get_group_def on_group_def remove_member_def add_member_def is_member_def has_key_def
      get_member_def member_count_def)

definition toy_member :: "peer_id \<Rightarrow> group_role \<Rightarrow> group_member" where
  "toy_member p r = \<lparr>gm_peer_id = p, gm_nickname = [66], gm_role = r, gm_joined_at = 3,
     gm_fingerprint = replicate 32 0\<rparr>"

definition toy_two :: group_manager where
  "toy_two = \<lparr>gmg_groups = [([9], toy_group\<lparr>g_members := [([1], toy_member [1] RoleOwner),
     ([2], toy_member [2] RoleMember)]\<rparr>)], gmg_local_peer_id = [1]\<rparr>"

theorem group_roles_not_enforced_witness:
  "\<exists>g'. get_group (fst (process_group_message (GmKick \<lparr>gk_group_id = [9], gk_kicker = [7],
     gk_kicked_member = [2], gk_reason = None, gk_timestamp = 0\<rparr>) toy_two)) [9] = Some g' \<and>
     \<not> is_member g' [2]"
proof -
  let ?g = "toy_group\<lparr>g_members := [([1], toy_member [1] RoleOwner), ([2], toy_member [2] RoleMember)]\<rparr>"
  have "get_group toy_two [9] = Some ?g" by (simp add: get_group_def toy_two_def)
  from group_roles_not_enforced [OF this, of "[2]" "toy_member [3] RoleOwner"] show ?thesis
    by (simp add: is_member_def has_key_def member_count_def MAX_GROUP_SIZE_def toy_group_def toy_member_def)
qed

text \<open>A join followed by a leave of the same peer restores the group, when there was room and the peer
  was not a member.\<close>

theorem join_then_leave:
  assumes "get_group mgr gid = Some g" and "\<not> is_member g (gm_peer_id m)" and "gm_peer_id m \<noteq> g_creator g"
    and "member_count g < MAX_GROUP_SIZE"
  shows "\<exists>mgr'. process_group_message (GmJoin \<lparr>gj_group_id = gid, gj_member = m, gj_message = msg\<rparr>) mgr =
      (mgr', Inr ()) \<and>
    snd (process_group_message (GmLeave \<lparr>gl_group_id = gid, gl_peer_id = gm_peer_id m, gl_reason = r\<rparr>) mgr') =
      Inr () \<and>
    get_group (fst (process_group_message (GmLeave \<lparr>gl_group_id = gid, gl_peer_id = gm_peer_id m, gl_reason = r\<rparr>) mgr'))
      gid = Some g"
proof -
  have "map_del p (map_put p m ms) = ms" if "map_of ms p = None" for p and ms :: "(peer_id \<times> group_member) list"
    using that by (induction ms) (auto simp: AList.delete_eq filter_id_conv split: if_splits)
  with assms show ?thesis
    by (auto simp: get_group_def on_group_def remove_member_def add_member_def is_member_def has_key_def
        member_count_def)
qed

theorem join_then_leave_witness:
  "\<exists>mgr'. process_group_message (GmJoin \<lparr>gj_group_id = [9], gj_member = toy_member [2] RoleMember,
     gj_message = None\<rparr>) toy_group_manager = (mgr', Inr ()) \<and>
   get_group (fst (process_group_message (GmLeave \<lparr>gl_group_id = [9], gl_peer_id = [2], gl_reason = None\<rparr>) mgr'))
     [9] = Some toy_group"
  using join_then_leave [OF toy_get_group, of "toy_member [2] RoleMember" None None]
  by (auto simp: is_member_def has_key_def member_count_def MAX_GROUP_SIZE_def toy_group_def toy_member_def)

text \<open>An update whose name is valid and whose description is too long is refused, but the new name has
  already been taken.\<close>

theorem update_partially_applied:
  assumes "n \<noteq> []" and "length n \<le> MAX_GROUP_NAME_LENGTH" and "MAX_GROUP_DESCRIPTION_LENGTH < length d"
  shows "group_update (Some n) (Some (Some d)) g =
    (g\<lparr>g_name := n\<rparr>, Inl (invalid_packet ''Group description too long''))"
  using assms by (simp add: group_update_def update_name_def description_too_long_def)


theorem update_partially_applied_witness:
  "group_update (Some [66]) (Some (Some (replicate 513 0))) toy_group =
   (toy_group\<lparr>g_name := [66]\<rparr>, Inl (invalid_packet ''Group description too long''))"
  by (rule update_partially_applied)
    (simp_all add: MAX_GROUP_NAME_LENGTH_def MAX_GROUP_DESCRIPTION_LENGTH_def)

end
