(* ===== verification/Session_Sync.thy ===== *)
theory Session_Sync
  imports App_Message Message_Store
begin

text \<open>
  Synchronisation of the devices of one identity
  (\<^verbatim>\<open>src/crates/bitchat-core/src/protocol/session_sync.rs\<close>): known devices, session states and
  references to messages, and the request and response that exchange them.

  A \<^verbatim>\<open>BTreeMap\<close> is an association list; where the code iterates over it, the entries are sorted by key.
  Identifiers are their texts, the clock readings are arguments (a predicate applied to every device or
  session reads the clock each time: \<open>now k\<close> is the reading for the entry of \<open>k\<close>).
\<close>

section \<open>Devices, sessions and references\<close>

definition MAX_DEVICES_PER_IDENTITY :: nat where "MAX_DEVICES_PER_IDENTITY = 10"
definition MAX_SESSION_SYNC_AGE :: u64 where "MAX_SESSION_SYNC_AGE = 24 * 60 * 60 * 1000"
definition MAX_MESSAGE_REFS :: nat where "MAX_MESSAGE_REFS = 1000"

type_synonym device_id = rust_string

datatype device_type = Mobile | Desktop | WebBrowser | Cli | UnknownDevice

record device_capabilities =
  has_storage :: bool
  has_persistence :: bool
  supports_files :: bool
  supports_location :: bool
  battery_powered :: bool

definition device_capabilities_default :: device_capabilities where
  "device_capabilities_default =
     \<lparr>has_storage = True, has_persistence = True, supports_files = False, supports_location = False,
      battery_powered = False\<rparr>"

record device_info =
  di_device_id :: device_id
  di_name :: rust_string
  di_device_type :: device_type
  di_last_seen :: timestamp
  di_capabilities :: device_capabilities
  di_fingerprint :: fingerprint

definition device_info_new ::
    "timestamp \<Rightarrow> device_id \<Rightarrow> rust_string \<Rightarrow> device_type \<Rightarrow> fingerprint \<Rightarrow> device_info" where
  "device_info_new now i name ty fp =
     \<lparr>di_device_id = i, di_name = name, di_device_type = ty, di_last_seen = now,
      di_capabilities = device_capabilities_default, di_fingerprint = fp\<rparr>"

definition update_last_seen :: "timestamp \<Rightarrow> device_info \<Rightarrow> device_info" where
  "update_last_seen now d = d\<lparr>di_last_seen := now\<rparr>"

definition is_online :: "timestamp \<Rightarrow> device_info \<Rightarrow> bool" where
  "is_online now d = (timestamp_sub now (di_last_seen d) < 5 * 60 * 1000)"

datatype session_status = SsHandshaking | SsActive | SsIdle | SsTerminated

record session_sync_state =
  ss_peer_id :: peer_id
  ss_status :: session_status
  ss_last_message :: "timestamp option"
  ss_unread_count :: u32
  ss_session_fingerprint :: "fingerprint option"
  ss_last_sync :: timestamp

definition session_sync_state_new :: "timestamp \<Rightarrow> peer_id \<Rightarrow> session_status \<Rightarrow> session_sync_state" where
  "session_sync_state_new now pid status =
     \<lparr>ss_peer_id = pid, ss_status = status, ss_last_message = None, ss_unread_count = 0,
      ss_session_fingerprint = None, ss_last_sync = now\<rparr>"

definition mark_synced :: "timestamp \<Rightarrow> session_sync_state \<Rightarrow> session_sync_state" where
  "mark_synced now s = s\<lparr>ss_last_sync := now\<rparr>"

definition session_needs_sync :: "timestamp \<Rightarrow> session_sync_state \<Rightarrow> bool" where
  "session_needs_sync now s = (30 * 1000 < timestamp_sub now (ss_last_sync s))"

record message_ref =
  mr_message_id :: rust_string
  mr_sender :: peer_id
  mr_recipient :: "peer_id option"
  mr_timestamp :: timestamp
  mr_content_hash :: rust_string
  mr_read :: bool

definition message_ref_new ::
    "rust_string \<Rightarrow> peer_id \<Rightarrow> peer_id option \<Rightarrow> timestamp \<Rightarrow> rust_string \<Rightarrow> message_ref" where
  "message_ref_new i sender recipient ts h =
     \<lparr>mr_message_id = i, mr_sender = sender, mr_recipient = recipient, mr_timestamp = ts,
      mr_content_hash = h, mr_read = False\<rparr>"

definition mark_read :: "message_ref \<Rightarrow> message_ref" where
  "mark_read m = m\<lparr>mr_read := True\<rparr>"

section \<open>Messages\<close>

record device_announcement =
  da_device_info :: device_info
  da_identity_fingerprint :: fingerprint
  da_identity_proof :: bytes
  da_timestamp :: timestamp

definition announcement_is_valid :: "timestamp \<Rightarrow> device_announcement \<Rightarrow> bool" where
  "announcement_is_valid now a = (timestamp_sub now (da_timestamp a) < MAX_SESSION_SYNC_AGE)"

record sync_request =
  rq_device_id :: device_id
  rq_known_sessions :: "session_sync_state list"
  rq_message_refs :: "message_ref list"
  rq_timestamp :: timestamp

record sync_response =
  rs_device_id :: device_id
  rs_session_updates :: "session_sync_state list"
  rs_missing_messages :: "message_ref list"
  rs_new_messages :: "message_ref list"
  rs_timestamp :: timestamp

definition sync_response_new :: "timestamp \<Rightarrow> device_id \<Rightarrow> sync_response" where
  "sync_response_new now i =
     \<lparr>rs_device_id = i, rs_session_updates = [], rs_missing_messages = [], rs_new_messages = [],
      rs_timestamp = now\<rparr>"

definition with_session_update :: "session_sync_state \<Rightarrow> sync_response \<Rightarrow> sync_response" where
  "with_session_update s r = r\<lparr>rs_session_updates := rs_session_updates r @ [s]\<rparr>"

definition with_missing_message :: "message_ref \<Rightarrow> sync_response \<Rightarrow> sync_response" where
  "with_missing_message m r = r\<lparr>rs_missing_messages := rs_missing_messages r @ [m]\<rparr>"

definition with_new_message :: "message_ref \<Rightarrow> sync_response \<Rightarrow> sync_response" where
  "with_new_message m r = r\<lparr>rs_new_messages := rs_new_messages r @ [m]\<rparr>"

datatype device_status = DsOnline | DsIdle | DsGoingOffline

record device_heartbeat =
  hb_device_id :: device_id
  hb_status :: device_status
  hb_timestamp :: timestamp

datatype session_sync_message =
    SyAnnouncement device_announcement
  | SySyncRequest sync_request
  | SySyncResponse sync_response
  | SyHeartbeat device_heartbeat

fun sync_device_id :: "session_sync_message \<Rightarrow> device_id" where
  "sync_device_id (SyAnnouncement m) = di_device_id (da_device_info m)"
| "sync_device_id (SySyncRequest m) = rq_device_id m"
| "sync_device_id (SySyncResponse m) = rs_device_id m"
| "sync_device_id (SyHeartbeat m) = hb_device_id m"

fun sync_payload_type :: "session_sync_message \<Rightarrow> noise_payload_type" where
  "sync_payload_type (SyAnnouncement m) = DeviceAnnouncement"
| "sync_payload_type (SySyncRequest m) = SessionSyncRequest"
| "sync_payload_type (SySyncResponse m) = SessionSyncResponse"
| "sync_payload_type (SyHeartbeat m) = DeviceHeartbeat"

section \<open>The manager\<close>

record device_manager =
  dm_local_device :: device_info
  dm_known_devices :: "(device_id \<times> device_info) list"
  dm_session_states :: "(peer_id \<times> session_sync_state) list"
  dm_message_refs :: "(rust_string \<times> message_ref) list"
  dm_device_sync_times :: "(device_id \<times> timestamp) list"

definition device_manager_new :: "device_info \<Rightarrow> device_manager" where
  "device_manager_new d =
     \<lparr>dm_local_device = d, dm_known_devices = map_put (di_device_id d) d [], dm_session_states = [],
      dm_message_refs = [], dm_device_sync_times = []\<rparr>"

definition add_device :: "device_info \<Rightarrow> device_manager \<Rightarrow> device_manager \<times> unit result" where
  "add_device d mgr =
     (if MAX_DEVICES_PER_IDENTITY \<le> length (dm_known_devices mgr) \<and>
         \<not> has_key (dm_known_devices mgr) (di_device_id d)
      then (mgr, Inl (invalid_packet ''Maximum number of devices reached''))
      else (mgr\<lparr>dm_known_devices := map_put (di_device_id d) d (dm_known_devices mgr)\<rparr>, Inr ()))"

definition remove_device :: "device_id \<Rightarrow> device_manager \<Rightarrow> device_manager \<times> device_info option" where
  "remove_device i mgr =
     (mgr\<lparr>dm_device_sync_times := map_del i (dm_device_sync_times mgr),
         dm_known_devices := map_del i (dm_known_devices mgr)\<rparr>, map_of (dm_known_devices mgr) i)"

definition get_devices :: "device_manager \<Rightarrow> device_info list" where
  "get_devices mgr = btree_values (dm_known_devices mgr)"

definition get_online_devices :: "(device_id \<Rightarrow> timestamp) \<Rightarrow> device_manager \<Rightarrow> device_info list" where
  "get_online_devices now mgr =
     filter (\<lambda>d. is_online (now (di_device_id d)) d) (btree_values (dm_known_devices mgr))"

definition update_session :: "session_sync_state \<Rightarrow> device_manager \<Rightarrow> device_manager" where
  "update_session s mgr =
     mgr\<lparr>dm_session_states := map_put (ss_peer_id s) s (dm_session_states mgr)\<rparr>"

definition get_sync_session :: "device_manager \<Rightarrow> peer_id \<Rightarrow> session_sync_state option" where
  "get_sync_session mgr pid = map_of (dm_session_states mgr) pid"

text \<open>\<^verbatim>\<open>min_by_key\<close>: the first of the smallest entries in the order of iteration.\<close>

definition oldest_ref :: "(rust_string \<times> message_ref) list \<Rightarrow> rust_string option" where
  "oldest_ref refs =
     (case btree_entries refs of
        [] \<Rightarrow> None
      | e # es \<Rightarrow> Some (fst (fold (\<lambda>x best. if mr_timestamp (snd x) < mr_timestamp (snd best) then x else best)
          es e)))"

definition add_message_ref :: "message_ref \<Rightarrow> device_manager \<Rightarrow> device_manager" where
  "add_message_ref m mgr =
     (let mgr1 = (if MAX_MESSAGE_REFS \<le> length (dm_message_refs mgr) then
                    (case oldest_ref (dm_message_refs mgr) of
                       Some i \<Rightarrow> mgr\<lparr>dm_message_refs := map_del i (dm_message_refs mgr)\<rparr>
                     | None \<Rightarrow> mgr)
                  else mgr)
      in mgr1\<lparr>dm_message_refs := map_put (mr_message_id m) m (dm_message_refs mgr1)\<rparr>)"

definition create_sync_request :: "timestamp \<Rightarrow> device_manager \<Rightarrow> sync_request" where
  "create_sync_request now mgr =
     \<lparr>rq_device_id = di_device_id (dm_local_device mgr),
      rq_known_sessions = btree_values (dm_session_states mgr),
      rq_message_refs = btree_values (dm_message_refs mgr), rq_timestamp = now\<rparr>"

definition session_update_for ::
    "device_manager \<Rightarrow> session_sync_state \<Rightarrow> sync_response \<Rightarrow> sync_response" where
  "session_update_for mgr remote r =
     (case map_of (dm_session_states mgr) (ss_peer_id remote) of
        Some local \<Rightarrow> if ss_last_sync remote < ss_last_sync local then with_session_update local r else r
      | None \<Rightarrow> r)"

definition process_sync_request ::
    "timestamp \<Rightarrow> timestamp \<Rightarrow> sync_request \<Rightarrow> device_manager \<Rightarrow> device_manager \<times> sync_response" where
  "process_sync_request now0 now1 req mgr =
     (let r0 = sync_response_new now0 (di_device_id (dm_local_device mgr));
          r1 = fold (session_update_for mgr) (rq_known_sessions req) r0;
          r2 = fold (\<lambda>m r. if \<not> list_ex (\<lambda>x. mr_message_id x = mr_message_id m) (rq_message_refs req)
                            then with_new_message m r else r) (btree_values (dm_message_refs mgr)) r1;
          r3 = fold (\<lambda>m r. if \<not> has_key (dm_message_refs mgr) (mr_message_id m)
                            then with_missing_message m r else r) (rq_message_refs req) r2
      in (mgr\<lparr>dm_device_sync_times := map_put (rq_device_id req) now1 (dm_device_sync_times mgr)\<rparr>, r3))"

definition process_sync_response :: "timestamp \<Rightarrow> sync_response \<Rightarrow> device_manager \<Rightarrow> device_manager" where
  "process_sync_response now r mgr =
     (let mgr1 = fold update_session (rs_session_updates r) mgr;
          mgr2 = fold add_message_ref (rs_new_messages r) mgr1
      in mgr2\<lparr>dm_device_sync_times := map_put (rs_device_id r) now (dm_device_sync_times mgr2)\<rparr>)"

definition cleanup_old_data :: "timestamp \<Rightarrow> device_manager \<Rightarrow> device_manager" where
  "cleanup_old_data now mgr =
     (let offline = map fst (filter (\<lambda>(i, d). i \<noteq> di_device_id (dm_local_device mgr) \<and>
                      MAX_SESSION_SYNC_AGE < timestamp_sub now (di_last_seen d))
                      (btree_entries (dm_known_devices mgr)));
          mgr1 = fold (\<lambda>i g. fst (remove_device i g)) offline mgr;
          old = map fst (filter (\<lambda>(i, m). MAX_SESSION_SYNC_AGE < timestamp_sub now (mr_timestamp m))
                  (btree_entries (dm_message_refs mgr1)))
      in mgr1\<lparr>dm_message_refs := fold map_del old (dm_message_refs mgr1)\<rparr>)"

definition manager_needs_sync :: "(peer_id \<Rightarrow> timestamp) \<Rightarrow> device_manager \<Rightarrow> bool" where
  "manager_needs_sync now mgr =
     list_ex (\<lambda>s. session_needs_sync (now (ss_peer_id s)) s) (btree_values (dm_session_states mgr))"

definition devices_needing_sync ::
    "timestamp \<Rightarrow> (device_id \<Rightarrow> timestamp) \<Rightarrow> device_manager \<Rightarrow> device_info list" where
  "devices_needing_sync now clock mgr =
     filter (\<lambda>d. di_device_id d \<noteq> di_device_id (dm_local_device mgr) \<and>
         is_online (clock (di_device_id d)) d \<and>
         (case map_of (dm_device_sync_times mgr) (di_device_id d) of
            None \<Rightarrow> True
          | Some last_sync \<Rightarrow> 60 * 1000 < timestamp_sub now last_sync))
       (btree_values (dm_known_devices mgr))"


section \<open>Lemmas\<close>

text \<open>A table whose entries lie under their own keys.\<close>

definition keyed :: "('v \<Rightarrow> 'k) \<Rightarrow> ('k \<times> 'v) list \<Rightarrow> bool" where
  "keyed key m \<longleftrightarrow> distinct (keys_of m) \<and> (\<forall>(k, v)\<in>set m. key v = k)"

lemma keyed_Nil [simp]: "keyed key []"
  by (simp add: keyed_def)

lemma keyed_iff: "keyed key m \<longleftrightarrow> distinct (keys_of m) \<and> (\<forall>k v. map_of m k = Some v \<longrightarrow> key v = k)"
  unfolding keyed_def by (auto dest: map_of_SomeD map_of_is_SomeI)

lemma keyed_put [simp]: "keyed key m \<Longrightarrow> key v = k \<Longrightarrow> keyed key (map_put k v m)"
  by (auto simp: keyed_iff)

lemma keyed_del [simp]: "keyed key m \<Longrightarrow> keyed key (map_del k m)"
  by (auto simp: keyed_iff)

lemma keyed_fold_del [simp]: "keyed key m \<Longrightarrow> keyed key (fold map_del ks m)"
  by (induction ks arbitrary: m) auto

lemma set_btree_values: "set (btree_values m) = snd ` set m"
  by (simp add: btree_values_def btree_entries_def)

lemma keyed_map: "keyed key m \<Longrightarrow> map key (map snd m) = keys_of m"
  by (induction m) (auto simp: keyed_def)

lemma keyed_values:
  assumes "keyed key m"
  shows "map (\<lambda>v. (key v, v)) (btree_values m) = btree_entries m" and "distinct (map key (btree_values m))"
proof -
  show "map (\<lambda>v. (key v, v)) (btree_values m) = btree_entries m"
    using assms unfolding keyed_def btree_values_def btree_entries_def by (auto intro!: map_idI)
  have "map key (btree_values m) = map fst (btree_entries m)"
    using assms unfolding keyed_def btree_values_def btree_entries_def by auto
  moreover have "distinct (map fst (btree_entries m))"
    using assms unfolding btree_entries_def keyed_def
    by (metis distinct_map distinct_sort set_sort)
  ultimately show "distinct (map key (btree_values m))" by simp
qed

lemma map_of_btree_entries: "distinct (keys_of m) \<Longrightarrow> map_of (btree_entries m) = map_of m"
  unfolding btree_entries_def by (metis distinct_map distinct_sort map_of_eqI set_sort map_of_inject_set)


lemma fold_choice:
  assumes "\<And>x y. f x y = x \<or> f x y = y"
  shows "fold f es e = e \<or> fold f es e \<in> set es"
proof (induction es arbitrary: e)
  case (Cons x es)
  from Cons [of "f x e"] assms [of x e] show ?case by auto
qed simp

lemma oldest_ref_key:
  assumes "refs \<noteq> []"
  obtains i where "oldest_ref refs = Some i" "has_key refs i"
proof -
  have "btree_entries refs \<noteq> []" using assms by (metis btree_entries_def length_0_conv length_sort)
  then obtain e es where b: "btree_entries refs = e # es" by (cases "btree_entries refs") simp_all
  define best where
    "best = fold (\<lambda>x best. if mr_timestamp (snd x) < mr_timestamp (snd best) then x else best) es e"
  have "best = e \<or> best \<in> set es" unfolding best_def by (rule fold_choice) simp
  moreover have "set refs = insert e (set es)" using b by (metis btree_entries_def list.simps(15) set_sort)
  ultimately have "has_key refs (fst best)" by (auto simp: has_key_iff)
  moreover have "oldest_ref refs = Some (fst best)" by (simp add: oldest_ref_def b best_def)
  ultimately show ?thesis using that by blast
qed

lemma add_message_ref_small:
  "length (dm_message_refs g) < MAX_MESSAGE_REFS \<Longrightarrow>
   add_message_ref m g = g\<lparr>dm_message_refs := map_put (mr_message_id m) m (dm_message_refs g)\<rparr>"
  by (simp add: add_message_ref_def)

lemma add_message_ref_bounded:
  assumes "keyed mr_message_id (dm_message_refs g)" and "length (dm_message_refs g) \<le> MAX_MESSAGE_REFS"
  shows "keyed mr_message_id (dm_message_refs (add_message_ref m g)) \<and>
    length (dm_message_refs (add_message_ref m g)) \<le> MAX_MESSAGE_REFS"
proof (cases "length (dm_message_refs g) < MAX_MESSAGE_REFS")
  case True
  with assms show ?thesis by (simp add: add_message_ref_small length_put)
next
  case False
  with assms have len: "length (dm_message_refs g) = MAX_MESSAGE_REFS" by simp
  then have "dm_message_refs g \<noteq> []" by (auto simp: MAX_MESSAGE_REFS_def)
  then obtain i where i: "oldest_ref (dm_message_refs g) = Some i" "has_key (dm_message_refs g) i"
    by (rule oldest_ref_key)
  with assms(1) len have "length (map_del i (dm_message_refs g)) = MAX_MESSAGE_REFS - 1"
    by (simp add: length_del keyed_def)
  with i assms len show ?thesis
    by (simp add: add_message_ref_def length_put MAX_MESSAGE_REFS_def)
qed

lemma add_message_ref_rest [simp]:
  "dm_local_device (add_message_ref m g) = dm_local_device g"
  "dm_known_devices (add_message_ref m g) = dm_known_devices g"
  "dm_session_states (add_message_ref m g) = dm_session_states g"
  by (simp_all add: add_message_ref_def Let_def split: option.split)

lemma add_message_refs_rest [simp]:
  "dm_local_device (fold add_message_ref ms g) = dm_local_device g"
  "dm_known_devices (fold add_message_ref ms g) = dm_known_devices g"
  "dm_session_states (fold add_message_ref ms g) = dm_session_states g"
  by (induction ms arbitrary: g) simp_all

lemma add_message_refs_bounded:
  "keyed mr_message_id (dm_message_refs g) \<Longrightarrow> length (dm_message_refs g) \<le> MAX_MESSAGE_REFS \<Longrightarrow>
   keyed mr_message_id (dm_message_refs (fold add_message_ref ms g)) \<and>
   length (dm_message_refs (fold add_message_ref ms g)) \<le> MAX_MESSAGE_REFS"
  by (induction ms arbitrary: g) (simp_all add: add_message_ref_bounded)

lemma add_message_refs_map:
  "length (dm_message_refs g) + length ms \<le> MAX_MESSAGE_REFS \<Longrightarrow> distinct (map mr_message_id ms) \<Longrightarrow>
   map_of (dm_message_refs (fold add_message_ref ms g)) =
     map_of (dm_message_refs g) ++ map_of (map (\<lambda>m. (mr_message_id m, m)) ms)"
proof (induction ms arbitrary: g)
  case (Cons m ms)
  let ?g = "g\<lparr>dm_message_refs := map_put (mr_message_id m) m (dm_message_refs g)\<rparr>"
  have "map_of (map (\<lambda>m. (mr_message_id m, m)) ms) (mr_message_id m) = None"
    using Cons.prems(2) by (auto simp: map_of_eq_None_iff)
  moreover have "length (dm_message_refs ?g) + length ms \<le> MAX_MESSAGE_REFS"
    using Cons.prems(1) by (simp add: length_put)
  ultimately show ?case
    using Cons by (simp add: add_message_ref_small map_add_upd_left fun_upd_def map_add_def dom_def fun_eq_iff
        split: option.split)
qed simp

text \<open>The session updates change the sessions only.\<close>

lemma update_sessions:
  "dm_message_refs (fold update_session ss g) = dm_message_refs g"
  "dm_known_devices (fold update_session ss g) = dm_known_devices g"
  "dm_local_device (fold update_session ss g) = dm_local_device g"
  "keyed ss_peer_id (dm_session_states g) \<Longrightarrow> keyed ss_peer_id (dm_session_states (fold update_session ss g))"
  by (induction ss arbitrary: g) (simp_all add: update_session_def)

section \<open>Reachable managers\<close>

definition device_manager_ok :: "device_manager \<Rightarrow> bool" where
  "device_manager_ok mgr \<longleftrightarrow> keyed di_device_id (dm_known_devices mgr) \<and>
     keyed ss_peer_id (dm_session_states mgr) \<and> keyed mr_message_id (dm_message_refs mgr) \<and>
     length (dm_known_devices mgr) \<le> MAX_DEVICES_PER_IDENTITY \<and>
     length (dm_message_refs mgr) \<le> MAX_MESSAGE_REFS"

inductive device_step :: "device_manager \<Rightarrow> device_manager \<Rightarrow> bool" where
  "device_step mgr (fst (add_device d mgr))"
| "device_step mgr (fst (remove_device i mgr))"
| "device_step mgr (update_session s mgr)"
| "device_step mgr (add_message_ref m mgr)"
| "device_step mgr (fst (process_sync_request now0 now1 req mgr))"
| "device_step mgr (process_sync_response now r mgr)"
| "device_step mgr (cleanup_old_data now mgr)"

lemma length_del_le: "distinct (keys_of m) \<Longrightarrow> length (map_del k m) \<le> length m"
  by (simp add: length_del)

lemma length_fold_del_le: "distinct (keys_of m) \<Longrightarrow> length (fold map_del ks m) \<le> length m"
proof (induction ks arbitrary: m)
  case (Cons k ks)
  have "length (fold map_del ks (map_del k m)) \<le> length (map_del k m)"
    using Cons.IH [of "map_del k m"] Cons.prems by simp
  also have "\<dots> \<le> length m" by (rule length_del_le [OF Cons.prems])
  finally show ?case by simp
qed simp

lemma remove_device_ok: "device_manager_ok mgr \<Longrightarrow> device_manager_ok (fst (remove_device i mgr))"
  unfolding device_manager_ok_def remove_device_def using length_del_le [of "dm_known_devices mgr" i]
  by (auto simp: keyed_def [of _ "dm_known_devices mgr"])

interpretation devices: invariant_system "\<lambda>mgr. \<exists>d. mgr = device_manager_new d" device_step device_manager_ok
proof
  show "device_manager_ok s" if "\<exists>d. s = device_manager_new d" for s
    using that by (auto simp: device_manager_new_def device_manager_ok_def keyed_def MAX_DEVICES_PER_IDENTITY_def)
  have fold: "device_manager_ok (fold (\<lambda>i g. fst (remove_device i g)) is g)" if "device_manager_ok g" for "is" g
    using that by (induction "is" arbitrary: g) (simp_all add: remove_device_ok)
  show "device_manager_ok t" if "device_manager_ok s" "device_step s t" for s t
    using that(2,1)
  proof cases
    case (1 d)
    with that(1) show ?thesis
      by (auto simp: add_device_def device_manager_ok_def length_put not_le)
  next
    case (2 i)
    with that(1) show ?thesis by (simp add: remove_device_ok)
  next
    case (3 s)
    with that(1) show ?thesis by (simp add: update_session_def device_manager_ok_def)
  next
    case (4 m)
    with that(1) add_message_ref_bounded [of s m] show ?thesis by (simp add: device_manager_ok_def)
  next
    case (5 now0 now1 req)
    with that(1) show ?thesis by (simp add: process_sync_request_def device_manager_ok_def Let_def)
  next
    case (6 now r)
    let ?g = "fold update_session (rs_session_updates r) s"
    from 6 that(1) add_message_refs_bounded [of ?g "rs_new_messages r"] show ?thesis
      by (simp add: process_sync_response_def device_manager_ok_def update_sessions Let_def)
  next
    case (7 now)
    define g where "g = fold (\<lambda>i g. fst (remove_device i g)) (map fst (filter (\<lambda>(i, d).
        i \<noteq> di_device_id (dm_local_device s) \<and> MAX_SESSION_SYNC_AGE < timestamp_sub now (di_last_seen d))
          (btree_entries (dm_known_devices s)))) s"
    have ok: "device_manager_ok g" unfolding g_def by (rule fold [OF that(1)])
    then have "length (fold map_del ks (dm_message_refs g)) \<le> MAX_MESSAGE_REFS" for ks
      using length_fold_del_le [of "dm_message_refs g" ks] by (simp add: device_manager_ok_def keyed_def)
    with ok 7 show ?thesis
      by (simp add: cleanup_old_data_def device_manager_ok_def Let_def flip: g_def)
  qed
qed


section \<open>One exchange\<close>

lemma fold_new_messages:
  "rs_new_messages (fold (\<lambda>m r. if P m then with_new_message m r else r) ms r) = rs_new_messages r @ filter P ms"
  by (induction ms arbitrary: r) (auto simp: with_new_message_def)

lemma fold_missing_messages:
  "rs_new_messages (fold (\<lambda>m r. if P m then with_missing_message m r else r) ms r) = rs_new_messages r"
  "rs_missing_messages (fold (\<lambda>m r. if P m then with_missing_message m r else r) ms r) =
     rs_missing_messages r @ filter P ms"
  by (induction ms arbitrary: r) (auto simp: with_missing_message_def)

lemma fold_new_keeps_missing:
  "rs_missing_messages (fold (\<lambda>m r. if P m then with_new_message m r else r) ms r) = rs_missing_messages r"
  by (induction ms arbitrary: r) (auto simp: with_new_message_def)

lemma fold_session_updates:
  "rs_new_messages (fold (session_update_for mgr) ss r) = rs_new_messages r"
  "rs_missing_messages (fold (session_update_for mgr) ss r) = rs_missing_messages r"
  by (induction ss arbitrary: r)
    (auto simp: session_update_for_def with_session_update_def split: option.split)

lemma response_messages:
  "rs_new_messages (snd (process_sync_request now0 now1 req mgr)) =
     filter (\<lambda>m. \<not> list_ex (\<lambda>x. mr_message_id x = mr_message_id m) (rq_message_refs req))
       (btree_values (dm_message_refs mgr))"
  "rs_missing_messages (snd (process_sync_request now0 now1 req mgr)) =
     filter (\<lambda>m. \<not> has_key (dm_message_refs mgr) (mr_message_id m)) (rq_message_refs req)"
  by (simp_all add: process_sync_request_def Let_def fold_new_messages fold_missing_messages
      fold_new_keeps_missing fold_session_updates sync_response_new_def)

lemma requested_ids:
  assumes "keyed mr_message_id (dm_message_refs mgr)"
  shows "list_ex (\<lambda>x. mr_message_id x = i) (rq_message_refs (create_sync_request now mgr)) \<longleftrightarrow>
    has_key (dm_message_refs mgr) i"
proof -
  have "mr_message_id ` snd ` set (dm_message_refs mgr) = fst ` set (dm_message_refs mgr)"
    using assms by (force simp: keyed_def image_iff)
  moreover have "list_ex (\<lambda>x. mr_message_id x = i) (rq_message_refs (create_sync_request now mgr)) \<longleftrightarrow>
      i \<in> mr_message_id ` snd ` set (dm_message_refs mgr)"
    by (auto simp: create_sync_request_def list_ex_iff set_btree_values)
  ultimately show ?thesis by (simp add: has_key_iff)
qed

lemma new_messages_map:
  assumes "keyed mr_message_id refs"
  shows "map_of (map (\<lambda>m. (mr_message_id m, m)) (filter (\<lambda>m. P (mr_message_id m)) (btree_values refs))) i =
    (if P i then map_of refs i else None)"
proof -
  have "map (\<lambda>m. (mr_message_id m, m)) (filter (\<lambda>m. P (mr_message_id m)) (btree_values refs)) =
      filter (\<lambda>(k, v). P k) (map (\<lambda>m. (mr_message_id m, m)) (btree_values refs))"
    by (simp add: filter_map comp_def)
  also have "\<dots> = filter (\<lambda>(k, v). P k) (btree_entries refs)"
    by (simp only: keyed_values(1) [OF assms])
  finally have *: "map (\<lambda>m. (mr_message_id m, m)) (filter (\<lambda>m. P (mr_message_id m)) (btree_values refs)) =
      filter (\<lambda>(k, v). P k) (btree_entries refs)" .
  have d: "distinct (keys_of refs)" using assms by (simp add: keyed_def)
  then have "distinct (keys_of (btree_entries refs))"
    unfolding btree_entries_def by (metis distinct_map distinct_sort set_sort)
  then show ?thesis
    unfolding * by (simp add: map_of_filter_distinct map_of_btree_entries [OF d] split: option.split)
qed

section \<open>Properties\<close>

text \<open>In every reachable manager at most ten devices and a thousand message references are kept, and
  devices, sessions and references lie under their own identifiers.\<close>

theorem device_manager_invariant:
  assumes "reachable (\<lambda>mgr. \<exists>d. mgr = device_manager_new d) device_step mgr"
  shows "length (get_devices mgr) \<le> 10 \<and> length (dm_message_refs mgr) \<le> 1000 \<and>
    keyed di_device_id (dm_known_devices mgr) \<and> keyed ss_peer_id (dm_session_states mgr) \<and>
    keyed mr_message_id (dm_message_refs mgr)"
  using devices.invar_reachable [OF assms]
  by (simp add: device_manager_ok_def get_devices_def btree_values_def btree_entries_def
      MAX_DEVICES_PER_IDENTITY_def MAX_MESSAGE_REFS_def)

text \<open>C22: One exchange synchronises the references of the device that asks, when they fit: afterwards it has
  its own references and those of the device that answers, its own taking precedence, and a second
  exchange brings nothing new.\<close>

theorem sync_converges:
  assumes "reachable (\<lambda>mgr. \<exists>d. mgr = device_manager_new d) device_step a"
    and "reachable (\<lambda>mgr. \<exists>d. mgr = device_manager_new d) device_step b"
    and "process_sync_request t1 t2 (create_sync_request t0 a) b = (b', response)"
    and "length (dm_message_refs a) + length (rs_new_messages response) \<le> MAX_MESSAGE_REFS"
    and "a' = process_sync_response t3 response a"
  shows "map_of (dm_message_refs a') = map_of (dm_message_refs b) ++ map_of (dm_message_refs a) \<and>
    rs_new_messages (snd (process_sync_request t5 t6 (create_sync_request t4 a') b')) = []"
proof -
  have a: "keyed mr_message_id (dm_message_refs a)" and b: "keyed mr_message_id (dm_message_refs b)"
    using devices.invar_reachable assms(1,2) by (auto simp: device_manager_ok_def)
  let ?P = "\<lambda>i. \<not> has_key (dm_message_refs a) i"
  have new: "rs_new_messages response = filter (\<lambda>m. ?P (mr_message_id m)) (btree_values (dm_message_refs b))"
    using response_messages(1) [of t1 t2 "create_sync_request t0 a" b] assms(3) by (simp add: requested_ids [OF a])
  then have "distinct (map mr_message_id (rs_new_messages response))"
    using keyed_values(2) [OF b] by (simp add: distinct_map_filter)
  with assms(4) have "map_of (dm_message_refs a') =
      map_of (dm_message_refs a) ++ map_of (map (\<lambda>m. (mr_message_id m, m)) (rs_new_messages response))"
    by (simp add: assms(5) process_sync_response_def Let_def add_message_refs_map update_sessions)
  then have "map_of (dm_message_refs a') i = (map_of (dm_message_refs b) ++ map_of (dm_message_refs a)) i" for i
    unfolding new by (simp add: map_add_def new_messages_map [OF b, of ?P])
      (simp add: has_key_def split: option.split)
  then have union: "map_of (dm_message_refs a') = map_of (dm_message_refs b) ++ map_of (dm_message_refs a)" ..
  have "reachable (\<lambda>mgr. \<exists>d. mgr = device_manager_new d) device_step a'"
    unfolding assms(5) by (rule reach_step [OF assms(1)]) (rule device_step.intros)
  then have a': "keyed mr_message_id (dm_message_refs a')"
    using devices.invar_reachable by (auto simp: device_manager_ok_def)
  have "dm_message_refs b' = dm_message_refs b"
    using assms(3) by (auto simp: process_sync_request_def Let_def)
  moreover have "has_key (dm_message_refs a') (mr_message_id m)" if "m \<in> set (btree_values (dm_message_refs b))" for m
  proof -
    from that b have "map_of (dm_message_refs b) (mr_message_id m) = Some m"
      by (auto simp: set_btree_values keyed_def)
    then show ?thesis by (simp add: has_key_def union map_add_def split: option.split)
  qed
  ultimately show ?thesis
    using union by (auto simp: response_messages(1) requested_ids [OF a'] filter_empty_conv)
qed

section \<open>Witnesses\<close>

definition toy_device :: "u8 \<Rightarrow> device_manager" where
  "toy_device i = add_message_ref (message_ref_new [i] [1] None 5 [])
     (device_manager_new (device_info_new 0 [i] [] Cli []))"

lemma toy_device_reachable: "reachable (\<lambda>mgr. \<exists>d. mgr = device_manager_new d) device_step (toy_device i)"
  unfolding toy_device_def by (rule reach_step [OF reach_start]) (auto intro: device_step.intros)

theorem device_manager_invariant_witness:
  "reachable (\<lambda>mgr. \<exists>d. mgr = device_manager_new d) device_step (toy_device 3) \<and>
   length (get_devices (toy_device 3)) \<le> 10"
  using device_manager_invariant [OF toy_device_reachable [of 3]] toy_device_reachable [of 3] by blast

theorem sync_converges_witness:
  "map_of (dm_message_refs (process_sync_response 9
     (snd (process_sync_request 7 8 (create_sync_request 6 (toy_device 1)) (toy_device 2))) (toy_device 1))) =
   map_of (dm_message_refs (toy_device 2)) ++ map_of (dm_message_refs (toy_device 1))"
proof -
  obtain b r where p: "process_sync_request 7 8 (create_sync_request 6 (toy_device 1)) (toy_device 2) = (b, r)"
    by force
  have len: "length (dm_message_refs (toy_device i)) = 1" for i
    by (simp add: toy_device_def add_message_ref_def device_manager_new_def MAX_MESSAGE_REFS_def)
  have "length (rs_new_messages r) \<le> length (btree_values (dm_message_refs (toy_device 2)))"
    using response_messages(1) [of 7 8 "create_sync_request 6 (toy_device 1)" "toy_device 2"] p
    by (simp add: length_filter_le)
  then have "length (dm_message_refs (toy_device 1)) + length (rs_new_messages r) \<le> MAX_MESSAGE_REFS"
    using len [of 2] by (simp add: len btree_values_def btree_entries_def MAX_MESSAGE_REFS_def)
  from sync_converges [OF toy_device_reachable toy_device_reachable p this refl] show ?thesis by (simp add: p)
qed

end
