(* ===== verification/Capabilities.thy ===== *)
theory Capabilities
  imports App_Message Message_Store
begin

text \<open>
  Capability announcement and version negotiation
  (\<^verbatim>\<open>src/crates/bitchat-core/src/protocol/capabilities.rs\<close>).

  Names and versions are HOL strings. The implementation info that names the operating system is an
  argument, and so are the clock readings. A \<^verbatim>\<open>BTreeSet\<close> is a set, a \<^verbatim>\<open>HashMap\<close> an association list.
\<close>

section \<open>Versions and capabilities\<close>

definition MAX_CAPABILITIES :: nat where "MAX_CAPABILITIES = 64"
definition CAPABILITY_TIMEOUT :: u64 where "CAPABILITY_TIMEOUT = 30 * 1000"

record protocol_version =
  pv_major :: u8
  pv_minor :: u8
  pv_patch :: u8

definition version_new :: "u8 \<Rightarrow> u8 \<Rightarrow> u8 \<Rightarrow> protocol_version" where
  "version_new a b c = \<lparr>pv_major = a, pv_minor = b, pv_patch = c\<rparr>"

definition version_current :: protocol_version where
  "version_current = version_new 1 0 0"

definition is_compatible_with :: "protocol_version \<Rightarrow> protocol_version \<Rightarrow> bool" where
  "is_compatible_with v w = (pv_major v = pv_major w)"

definition is_newer_than :: "protocol_version \<Rightarrow> protocol_version \<Rightarrow> bool" where
  "is_newer_than v w =
     (if pv_major v \<noteq> pv_major w then pv_major w < pv_major v
      else if pv_minor v \<noteq> pv_minor w then pv_minor w < pv_minor v
      else pv_patch w < pv_patch v)"

type_synonym capability_id = string

definition capability_id_new :: "string \<Rightarrow> capability_id result" where
  "capability_id_new i =
     (if i = [] \<or> 64 < length i then Inl (invalid_packet ''Invalid capability ID length'') else Inr i)"

definition core_messaging :: capability_id where "core_messaging = ''core.messaging.v1''"
definition file_transfer_cap :: capability_id where "file_transfer_cap = ''file_transfer.v1''"
definition group_messaging_cap :: capability_id where "group_messaging_cap = ''group_messaging.v1''"
definition multi_device_sync :: capability_id where "multi_device_sync = ''multi_device_sync.v1''"
definition location_channels_cap :: capability_id where "location_channels_cap = ''location_channels.v1''"
definition fragmentation_cap :: capability_id where "fragmentation_cap = ''fragmentation.v1''"
definition mesh_sync :: capability_id where "mesh_sync = ''mesh_sync.v1''"
definition noise_protocol :: capability_id where "noise_protocol = ''noise_protocol.v1''"
definition ble_transport :: capability_id where "ble_transport = ''transport.ble.v1''"
definition nostr_transport :: capability_id where "nostr_transport = ''transport.nostr.v1''"

record capability =
  cap_id :: capability_id
  cap_version :: string
  cap_parameters :: "string set"

definition capability_new :: "capability_id \<Rightarrow> string \<Rightarrow> capability" where
  "capability_new i v = \<lparr>cap_id = i, cap_version = v, cap_parameters = {}\<rparr>"

definition with_parameter :: "string \<Rightarrow> capability \<Rightarrow> capability" where
  "with_parameter p c = c\<lparr>cap_parameters := insert p (cap_parameters c)\<rparr>"

definition has_parameter :: "capability \<Rightarrow> string \<Rightarrow> bool" where
  "has_parameter c p = (p \<in> cap_parameters c)"

record implementation_info =
  ii_name :: string
  ii_version :: string
  ii_platform :: "string option"

section \<open>Messages\<close>

record version_hello =
  vh_peer_id :: peer_id
  vh_supported_versions :: "protocol_version list"
  vh_capabilities :: "capability list"
  vh_implementation :: implementation_info
  vh_timestamp :: timestamp

definition version_hello_new ::
    "timestamp \<Rightarrow> peer_id \<Rightarrow> protocol_version list \<Rightarrow> capability list \<Rightarrow> implementation_info
     \<Rightarrow> version_hello result" where
  "version_hello_new now pid versions caps impl =
     (if MAX_CAPABILITIES < length caps then Inl (invalid_packet ''Too many capabilities'')
      else Inr \<lparr>vh_peer_id = pid, vh_supported_versions = versions, vh_capabilities = caps,
                vh_implementation = impl, vh_timestamp = now\<rparr>)"

definition standard_capabilities :: "capability list" where
  "standard_capabilities = map (\<lambda>i. capability_new i ''1.0'')
     [core_messaging, noise_protocol, fragmentation_cap, mesh_sync, location_channels_cap, file_transfer_cap,
      group_messaging_cap, multi_device_sync, ble_transport, nostr_transport]"

definition version_hello_standard ::
    "timestamp \<Rightarrow> implementation_info \<Rightarrow> peer_id \<Rightarrow> version_hello result" where
  "version_hello_standard now impl pid =
     version_hello_new now pid [version_current] standard_capabilities impl"

definition get_capability :: "version_hello \<Rightarrow> capability_id \<Rightarrow> capability option" where
  "get_capability h i = find (\<lambda>c. cap_id c = i) (vh_capabilities h)"

definition hello_supports_capability :: "version_hello \<Rightarrow> capability_id \<Rightarrow> bool" where
  "hello_supports_capability h i = (get_capability h i \<noteq> None)"

record version_ack =
  va_peer_id :: peer_id
  va_negotiated_version :: protocol_version
  va_mutual_capabilities :: "capability list"
  va_implementation :: implementation_info
  va_timestamp :: timestamp

definition ack_supports_capability :: "version_ack \<Rightarrow> capability_id \<Rightarrow> bool" where
  "ack_supports_capability a i = list_ex (\<lambda>c. cap_id c = i) (va_mutual_capabilities a)"

datatype rejection_reason =
    IncompatibleVersion | IncompatibleCapabilities | TooManyCapabilities | InvalidCapabilities
  | RejTimeout | RejUnknown

record capability_rejection =
  cr_peer_id :: peer_id
  cr_reason :: rejection_reason
  cr_description :: "string option"
  cr_timestamp :: timestamp

datatype negotiation_status = NegUnknown | NegPending | NegNegotiated | NegLegacy

datatype capability_message =
    CmHello version_hello
  | CmAck version_ack
  | CmRejection capability_rejection

fun capability_peer_id :: "capability_message \<Rightarrow> peer_id" where
  "capability_peer_id (CmHello m) = vh_peer_id m"
| "capability_peer_id (CmAck m) = va_peer_id m"
| "capability_peer_id (CmRejection m) = cr_peer_id m"

fun capability_payload_type :: "capability_message \<Rightarrow> noise_payload_type" where
  "capability_payload_type (CmHello m) = NoiseVersionHello"
| "capability_payload_type (CmAck m) = NoiseVersionAck"
| "capability_payload_type (CmRejection m) = CapabilityRejection"

section \<open>The manager\<close>

record capability_manager =
  km_local_peer_id :: peer_id
  km_local_capabilities :: "capability list"
  km_implementation :: implementation_info
  km_peer_capabilities :: "(peer_id \<times> capability list) list"
  km_peer_versions :: "(peer_id \<times> protocol_version) list"
  km_legacy_peers :: "peer_id set"
  km_hello_timeouts :: "(peer_id \<times> timestamp) list"

definition capability_manager_new ::
    "timestamp \<Rightarrow> implementation_info \<Rightarrow> peer_id \<Rightarrow> capability_manager result" where
  "capability_manager_new now impl pid =
     (case version_hello_standard now impl pid of
        Inl e \<Rightarrow> Inl e
      | Inr hello \<Rightarrow> Inr \<lparr>km_local_peer_id = pid, km_local_capabilities = vh_capabilities hello,
          km_implementation = vh_implementation hello, km_peer_capabilities = [], km_peer_versions = [],
          km_legacy_peers = {}, km_hello_timeouts = []\<rparr>)"

definition create_hello :: "timestamp \<Rightarrow> capability_manager \<Rightarrow> version_hello result" where
  "create_hello now mgr =
     version_hello_new now (km_local_peer_id mgr) [version_current] (km_local_capabilities mgr)
       (km_implementation mgr)"

fun negotiate_version :: "protocol_version list \<Rightarrow> protocol_version result" where
  "negotiate_version [] = Inl (invalid_packet ''No compatible protocol version'')"
| "negotiate_version (v # vs) =
     (if is_compatible_with version_current v then Inr v else negotiate_version vs)"

fun find_mutual_capabilities :: "capability list \<Rightarrow> capability list \<Rightarrow> capability list" where
  "find_mutual_capabilities ours [] = []"
| "find_mutual_capabilities ours (c # cs) =
     (case find (\<lambda>o'. cap_id o' = cap_id c) ours of
        Some our_cap \<Rightarrow>
          (capability_new (cap_id c) (cap_version c))
            \<lparr>cap_parameters := cap_parameters our_cap \<inter> cap_parameters c\<rparr> # find_mutual_capabilities ours cs
      | None \<Rightarrow> find_mutual_capabilities ours cs)"

definition store_negotiated ::
    "peer_id \<Rightarrow> capability list \<Rightarrow> protocol_version \<Rightarrow> capability_manager \<Rightarrow> capability_manager" where
  "store_negotiated pid caps v mgr =
     mgr\<lparr>km_peer_capabilities := map_put pid caps (km_peer_capabilities mgr),
         km_peer_versions := map_put pid v (km_peer_versions mgr)\<rparr>"

definition process_hello ::
    "timestamp \<Rightarrow> version_hello \<Rightarrow> capability_manager \<Rightarrow> capability_manager \<times> version_ack result" where
  "process_hello now hello mgr =
     (case negotiate_version (vh_supported_versions hello) of
        Inl e \<Rightarrow> (mgr, Inl e)
      | Inr v \<Rightarrow>
          let mutual = find_mutual_capabilities (km_local_capabilities mgr) (vh_capabilities hello)
          in (store_negotiated (vh_peer_id hello) mutual v mgr,
              Inr \<lparr>va_peer_id = km_local_peer_id mgr, va_negotiated_version = v,
                   va_mutual_capabilities = mutual, va_implementation = km_implementation mgr,
                   va_timestamp = now\<rparr>))"

definition process_ack :: "version_ack \<Rightarrow> capability_manager \<Rightarrow> capability_manager" where
  "process_ack ack mgr =
     store_negotiated (va_peer_id ack) (va_mutual_capabilities ack) (va_negotiated_version ack) mgr"

definition peer_supports_capability :: "capability_manager \<Rightarrow> peer_id \<Rightarrow> capability_id \<Rightarrow> bool" where
  "peer_supports_capability mgr pid i =
     (case map_of (km_peer_capabilities mgr) pid of
        Some caps \<Rightarrow> list_ex (\<lambda>c. cap_id c = i) caps
      | None \<Rightarrow> False)"

definition peer_protocol_version :: "capability_manager \<Rightarrow> peer_id \<Rightarrow> protocol_version option" where
  "peer_protocol_version mgr pid = map_of (km_peer_versions mgr) pid"

definition should_use_feature :: "capability_manager \<Rightarrow> peer_id \<Rightarrow> capability_id \<Rightarrow> bool" where
  "should_use_feature mgr pid feature = peer_supports_capability mgr pid feature"

definition capability_remove_peer :: "peer_id \<Rightarrow> capability_manager \<Rightarrow> capability_manager" where
  "capability_remove_peer pid mgr =
     mgr\<lparr>km_peer_capabilities := map_del pid (km_peer_capabilities mgr),
         km_peer_versions := map_del pid (km_peer_versions mgr),
         km_legacy_peers := km_legacy_peers mgr - {pid},
         km_hello_timeouts := map_del pid (km_hello_timeouts mgr)\<rparr>"

definition track_hello_sent :: "timestamp \<Rightarrow> peer_id \<Rightarrow> capability_manager \<Rightarrow> capability_manager" where
  "track_hello_sent now pid mgr =
     mgr\<lparr>km_hello_timeouts := map_put pid (timestamp_add now CAPABILITY_TIMEOUT) (km_hello_timeouts mgr)\<rparr>"

definition core_capabilities :: "capability list" where
  "core_capabilities = map (\<lambda>i. capability_new i ''1.0'')
     [core_messaging, noise_protocol, fragmentation_cap, location_channels_cap, mesh_sync, ble_transport,
      nostr_transport]"

definition mark_as_legacy_peer :: "peer_id \<Rightarrow> capability_manager \<Rightarrow> capability_manager" where
  "mark_as_legacy_peer pid mgr =
     store_negotiated pid core_capabilities version_current
       (mgr\<lparr>km_legacy_peers := insert pid (km_legacy_peers mgr)\<rparr>)"

definition expire_hello :: "peer_id \<Rightarrow> capability_manager \<Rightarrow> capability_manager" where
  "expire_hello pid mgr =
     (let mgr1 = mark_as_legacy_peer pid mgr
      in mgr1\<lparr>km_hello_timeouts := map_del pid (km_hello_timeouts mgr1)\<rparr>)"

definition check_hello_timeouts ::
    "timestamp \<Rightarrow> capability_manager \<Rightarrow> capability_manager \<times> peer_id list" where
  "check_hello_timeouts now mgr =
     (let expired = map fst (filter (\<lambda>(p, timeout). timeout < now) (km_hello_timeouts mgr))
      in (fold expire_hello expired mgr, expired))"

definition is_legacy_peer :: "capability_manager \<Rightarrow> peer_id \<Rightarrow> bool" where
  "is_legacy_peer mgr pid = (pid \<in> km_legacy_peers mgr)"

definition get_negotiation_status :: "capability_manager \<Rightarrow> peer_id \<Rightarrow> negotiation_status" where
  "get_negotiation_status mgr pid =
     (if is_legacy_peer mgr pid then NegLegacy
      else if has_key (km_peer_capabilities mgr) pid then NegNegotiated
      else if has_key (km_hello_timeouts mgr) pid then NegPending
      else NegUnknown)"

section \<open>Lemmas\<close>

lemma mutual_sound:
  "m \<in> set (find_mutual_capabilities ours theirs) \<Longrightarrow>
   \<exists>a\<in>set ours. \<exists>b\<in>set theirs. cap_id m = cap_id a \<and> cap_id m = cap_id b \<and> cap_version m = cap_version b \<and>
     cap_parameters m = cap_parameters a \<inter> cap_parameters b"
proof (induction ours theirs rule: find_mutual_capabilities.induct)
  case (2 ours c cs)
  show ?case
  proof (cases "find (\<lambda>o'. cap_id o' = cap_id c) ours")
    case None
    with 2 show ?thesis by fastforce
  next
    case (Some a)
    then have a: "a \<in> set ours" "cap_id a = cap_id c" by (auto simp: find_Some_iff)
    show ?thesis
    proof (cases "m \<in> set (find_mutual_capabilities ours cs)")
      case True
      with 2 Some show ?thesis by fastforce
    next
      case False
      with 2(3) Some have "m = (capability_new (cap_id c) (cap_version c))
          \<lparr>cap_parameters := cap_parameters a \<inter> cap_parameters c\<rparr>" by simp
      with a show ?thesis by (intro bexI [of _ a] bexI [of _ c]) (auto simp: capability_new_def)
    qed
  qed
qed simp

lemma mutual_ids:
  "cap_id ` set (find_mutual_capabilities ours theirs) = cap_id ` set ours \<inter> cap_id ` set theirs"
proof (induction theirs)
  case (Cons c cs)
  have "find (\<lambda>o'. cap_id o' = cap_id c) ours = None \<longleftrightarrow> cap_id c \<notin> cap_id ` set ours"
    unfolding find_None_iff image_iff by metis
  with Cons show ?case by (auto simp: capability_new_def split: option.split)
qed simp

lemma negotiate_version_ok:
  "negotiate_version vs = Inr v \<Longrightarrow> v \<in> set vs \<and> is_compatible_with version_current v"
  by (induction vs) (auto split: if_splits)

lemma negotiate_version_fails:
  "(\<exists>e. negotiate_version vs = Inl e) \<longleftrightarrow> \<not> list_ex (is_compatible_with version_current) vs"
  by (induction vs) auto

definition capability_manager_ok :: "capability_manager \<Rightarrow> bool" where
  "capability_manager_ok mgr \<longleftrightarrow>
     dom (map_of (km_peer_capabilities mgr)) = dom (map_of (km_peer_versions mgr)) \<and>
     km_legacy_peers mgr \<subseteq> dom (map_of (km_peer_capabilities mgr)) \<and>
     distinct (keys_of (km_hello_timeouts mgr)) \<and> km_local_capabilities mgr = standard_capabilities"

lemma store_negotiated_ok:
  "capability_manager_ok mgr \<Longrightarrow> capability_manager_ok (store_negotiated pid caps v mgr)"
  by (auto simp: capability_manager_ok_def store_negotiated_def)

lemma expire_hello_ok: "capability_manager_ok mgr \<Longrightarrow> capability_manager_ok (expire_hello pid mgr)"
  by (auto simp: capability_manager_ok_def expire_hello_def mark_as_legacy_peer_def store_negotiated_def Let_def)

inductive capability_step :: "capability_manager \<Rightarrow> capability_manager \<Rightarrow> bool" where
  "capability_step mgr (fst (process_hello now hello mgr))"
| "capability_step mgr (process_ack ack mgr)"
| "capability_step mgr (capability_remove_peer pid mgr)"
| "capability_step mgr (track_hello_sent now pid mgr)"
| "capability_step mgr (fst (check_hello_timeouts now mgr))"
| "capability_step mgr (mark_as_legacy_peer pid mgr)"

definition capability_start :: "capability_manager \<Rightarrow> bool" where
  "capability_start mgr \<longleftrightarrow> (\<exists>now impl pid. capability_manager_new now impl pid = Inr mgr)"

interpretation capabilities: invariant_system capability_start capability_step capability_manager_ok
proof
  show "capability_manager_ok s" if "capability_start s" for s
    using that by (auto simp: capability_start_def capability_manager_new_def version_hello_standard_def
        version_hello_new_def capability_manager_ok_def split: sum.splits if_splits)
  have fold: "capability_manager_ok (fold expire_hello ps mgr)" if "capability_manager_ok mgr" for ps mgr
    using that by (induction ps arbitrary: mgr) (simp_all add: expire_hello_ok)
  show "capability_manager_ok t" if "capability_manager_ok s" "capability_step s t" for s t
    using that(2,1)
  proof cases
    case (1 now hello)
    with that(1) show ?thesis by (simp add: process_hello_def store_negotiated_ok Let_def split: sum.split)
  next
    case (2 ack)
    with that(1) show ?thesis by (simp add: process_ack_def store_negotiated_ok)
  next
    case (3 pid)
    with that(1) show ?thesis by (auto simp: capability_remove_peer_def capability_manager_ok_def)
  next
    case (4 now pid)
    with that(1) show ?thesis by (auto simp: track_hello_sent_def capability_manager_ok_def)
  next
    case (5 now)
    with that(1) fold show ?thesis by (simp add: check_hello_timeouts_def Let_def)
  next
    case (6 pid)
    with that(1) show ?thesis
      by (auto simp: mark_as_legacy_peer_def store_negotiated_def capability_manager_ok_def)
  qed
qed


lemma legacy_after_expiry:
  "p \<in> set ps \<Longrightarrow> is_legacy_peer (fold expire_hello ps mgr) p \<and>
     map_of (km_peer_capabilities (fold expire_hello ps mgr)) p = Some core_capabilities"
proof (induction ps rule: rev_induct)
  case (snoc q ps)
  then show ?case
    by (auto simp: expire_hello_def mark_as_legacy_peer_def store_negotiated_def is_legacy_peer_def Let_def)
qed simp

section \<open>Properties\<close>

text \<open>C23: The answer to a hello is a sound and complete negotiation: the version is one the peer offered and
  has our major version, the capabilities are exactly those both sides have, with the parameters both
  have, and the manager remembers what it answered. The answer is refused exactly when no offered
  version is compatible.\<close>

theorem negotiation_correct:
  assumes "process_hello now hello mgr = (mgr', r)"
  shows "(case r of
      Inl e \<Rightarrow> mgr' = mgr \<and> \<not> list_ex (is_compatible_with version_current) (vh_supported_versions hello)
    | Inr ack \<Rightarrow>
        va_negotiated_version ack \<in> set (vh_supported_versions hello) \<and>
        is_compatible_with version_current (va_negotiated_version ack) \<and>
        cap_id ` set (va_mutual_capabilities ack) =
          cap_id ` set (km_local_capabilities mgr) \<inter> cap_id ` set (vh_capabilities hello) \<and>
        (\<forall>m\<in>set (va_mutual_capabilities ack). \<exists>a\<in>set (km_local_capabilities mgr).
           \<exists>b\<in>set (vh_capabilities hello). cap_id a = cap_id m \<and> cap_id b = cap_id m \<and>
             cap_parameters m = cap_parameters a \<inter> cap_parameters b) \<and>
        map_of (km_peer_capabilities mgr') (vh_peer_id hello) = Some (va_mutual_capabilities ack) \<and>
        peer_protocol_version mgr' (vh_peer_id hello) = Some (va_negotiated_version ack))"
proof (cases "negotiate_version (vh_supported_versions hello)")
  case (Inl e)
  with assms negotiate_version_fails [of "vh_supported_versions hello"] show ?thesis
    by (auto simp: process_hello_def)
next
  case (Inr v)
  with assms negotiate_version_ok [OF Inr] mutual_ids show ?thesis
    by (auto simp: process_hello_def store_negotiated_def peer_protocol_version_def Let_def
        dest!: mutual_sound) (metis+)
qed

text \<open>A peer that answers a hello is treated as a legacy peer nevertheless: no answer stops the timer, so
  when it expires the negotiated capabilities are replaced by the core ones; file transfer, for
  example, is lost.\<close>

theorem answered_peer_becomes_legacy:
  assumes "mgr' = fst (check_hello_timeouts now (process_ack ack (track_hello_sent t0 (va_peer_id ack) mgr)))"
    and "timestamp_add t0 CAPABILITY_TIMEOUT < now"
  shows "get_negotiation_status mgr' (va_peer_id ack) = NegLegacy \<and>
    (peer_supports_capability mgr' (va_peer_id ack) i \<longleftrightarrow> i \<in> cap_id ` set core_capabilities) \<and>
    \<not> peer_supports_capability mgr' (va_peer_id ack) file_transfer_cap"
proof -
  let ?p = "va_peer_id ack" and ?m = "process_ack ack (track_hello_sent t0 (va_peer_id ack) mgr)"
  have "map_of (km_hello_timeouts ?m) ?p = Some (timestamp_add t0 CAPABILITY_TIMEOUT)"
    by (simp add: process_ack_def store_negotiated_def track_hello_sent_def)
  then have "(?p, timestamp_add t0 CAPABILITY_TIMEOUT) \<in> set (km_hello_timeouts ?m)" by (rule map_of_SomeD)
  with assms(2) have "?p \<in> set (map fst (filter (\<lambda>(p, timeout). timeout < now) (km_hello_timeouts ?m)))"
    by force
  from legacy_after_expiry [OF this, of ?m] assms(1)
  have l: "is_legacy_peer mgr' ?p" "map_of (km_peer_capabilities mgr') ?p = Some core_capabilities"
    by (simp_all add: check_hello_timeouts_def Let_def)
  moreover have "file_transfer_cap \<notin> cap_id ` set core_capabilities"
    by (simp add: core_capabilities_def capability_new_def file_transfer_cap_def core_messaging_def
        noise_protocol_def fragmentation_cap_def location_channels_cap_def mesh_sync_def ble_transport_def
        nostr_transport_def)
  ultimately show ?thesis
    by (auto simp: get_negotiation_status_def peer_supports_capability_def list_ex_iff image_iff)
qed

text \<open>In every reachable manager a peer has negotiated capabilities exactly when it has a negotiated
  version, every legacy peer has both, and the status of a peer is unknown exactly when nothing is
  recorded about it.\<close>

theorem capability_manager_invariant:
  assumes "reachable capability_start capability_step mgr"
  shows "(peer_protocol_version mgr pid = None \<longleftrightarrow> \<not> has_key (km_peer_capabilities mgr) pid) \<and>
    (get_negotiation_status mgr pid = NegUnknown \<longleftrightarrow>
       pid \<notin> km_legacy_peers mgr \<and> peer_protocol_version mgr pid = None \<and>
       \<not> has_key (km_hello_timeouts mgr) pid) \<and>
    (get_negotiation_status mgr pid \<in> {NegLegacy, NegNegotiated} \<longleftrightarrow> peer_protocol_version mgr pid \<noteq> None)"
proof -
  have "capability_manager_ok mgr" by (rule capabilities.invar_reachable [OF assms])
  then have dom: "map_of (km_peer_versions mgr) pid = None \<longleftrightarrow> map_of (km_peer_capabilities mgr) pid = None"
    and leg: "pid \<in> km_legacy_peers mgr \<Longrightarrow> map_of (km_peer_capabilities mgr) pid \<noteq> None"
    unfolding capability_manager_ok_def by (metis domIff, metis domIff subsetD)
  then show ?thesis
    by (auto simp: peer_protocol_version_def get_negotiation_status_def is_legacy_peer_def has_key_def)
qed

section \<open>Witnesses\<close>

definition toy_impl :: implementation_info where
  "toy_impl = \<lparr>ii_name = ''a'', ii_version = ''1'', ii_platform = None\<rparr>"

definition toy_capability_manager :: capability_manager where
  "toy_capability_manager = \<lparr>km_local_peer_id = [1], km_local_capabilities = standard_capabilities,
     km_implementation = toy_impl, km_peer_capabilities = [], km_peer_versions = [],
     km_legacy_peers = {}, km_hello_timeouts = []\<rparr>"

lemma toy_capability_reachable: "reachable capability_start capability_step toy_capability_manager"
proof (rule reach_start)
  have "capability_manager_new 0 toy_impl [1] = Inr toy_capability_manager"
    by (simp add: capability_manager_new_def version_hello_standard_def version_hello_new_def
        toy_capability_manager_def standard_capabilities_def MAX_CAPABILITIES_def)
  then show "capability_start toy_capability_manager" unfolding capability_start_def by blast
qed

theorem capability_manager_invariant_witness:
  "reachable capability_start capability_step toy_capability_manager \<and>
   (peer_protocol_version toy_capability_manager [2] = None \<longleftrightarrow>
     \<not> has_key (km_peer_capabilities toy_capability_manager) [2])"
  using capability_manager_invariant [OF toy_capability_reachable, of "[2]"] toy_capability_reachable by blast

definition toy_version_ack :: version_ack where
  "toy_version_ack = \<lparr>va_peer_id = [2], va_negotiated_version = version_current,
     va_mutual_capabilities = standard_capabilities, va_implementation = toy_impl, va_timestamp = 0\<rparr>"

theorem answered_peer_becomes_legacy_witness:
  "get_negotiation_status (fst (check_hello_timeouts 30001
     (process_ack toy_version_ack (track_hello_sent 0 [2] toy_capability_manager)))) [2] = NegLegacy"
  using answered_peer_becomes_legacy [of _ 30001 toy_version_ack 0 toy_capability_manager, OF refl]
  by (simp add: timestamp_add_def CAPABILITY_TIMEOUT_def toy_version_ack_def)

definition toy_hello :: version_hello where
  "toy_hello = \<lparr>vh_peer_id = [2], vh_supported_versions = [version_new 2 0 0, version_new 1 3 0],
     vh_capabilities = [capability_new mesh_sync ''2.0''], vh_implementation = toy_impl, vh_timestamp = 0\<rparr>"

theorem negotiation_correct_witness:
  "\<exists>ack. snd (process_hello 5 toy_hello toy_capability_manager) = Inr ack \<and>
     va_negotiated_version ack \<in> set (vh_supported_versions toy_hello)"
proof -
  obtain mgr' r where p: "process_hello 5 toy_hello toy_capability_manager = (mgr', r)" by force
  have "list_ex (is_compatible_with version_current) (vh_supported_versions toy_hello)"
    by (simp add: toy_hello_def is_compatible_with_def version_current_def version_new_def)
  with negotiation_correct [OF p] p show ?thesis by (cases r) auto
qed

end
