(* ===== verification/Failover.thy ===== *)
theory Failover
  imports Connection
begin

text \<open>
  The basic transport failover (\<^verbatim>\<open>src/crates/bitchat-core/src/transport/failover.rs\<close>): health of the
  transports, reachability of the peers and the choice of the transport of a message.

  The clock readings are arguments. \<^verbatim>\<open>TransportType\<close> of the source is the same enumeration as the one of
  the channels.
\<close>

section \<open>Health of a transport\<close>

datatype basic_routing_strategy = PreferPrimary | LoadBalance | BroadcastAll

record failover_status =
  ft_transport_type :: transport_type
  ft_is_available :: bool
  ft_last_success :: "timestamp option"
  ft_consecutive_failures :: u32
  ft_last_failure :: "timestamp option"
  ft_avg_latency_ms :: "u64 option"

definition failover_status_new :: "transport_type \<Rightarrow> failover_status" where
  "failover_status_new ty =
     \<lparr>ft_transport_type = ty, ft_is_available = False, ft_last_success = None, ft_consecutive_failures = 0,
      ft_last_failure = None, ft_avg_latency_ms = None\<rparr>"

definition record_success :: "timestamp \<Rightarrow> u64 option \<Rightarrow> failover_status \<Rightarrow> failover_status" where
  "record_success now latency s =
     s\<lparr>ft_is_available := True, ft_last_success := Some now, ft_consecutive_failures := 0,
       ft_avg_latency_ms := latency\<rparr>"

text \<open>\<^verbatim>\<open>saturating_add(1)\<close>.\<close>

definition sat_inc :: "u32 \<Rightarrow> u32" where
  "sat_inc n = (if n = - 1 then n else n + 1)"

definition record_failure :: "timestamp \<Rightarrow> failover_status \<Rightarrow> failover_status" where
  "record_failure now s =
     (let s1 = s\<lparr>ft_last_failure := Some now,
                 ft_consecutive_failures := sat_inc (ft_consecutive_failures s)\<rparr>
      in if 3 \<le> ft_consecutive_failures s1 then s1\<lparr>ft_is_available := False\<rparr> else s1)"

definition status_is_healthy :: "failover_status \<Rightarrow> bool" where
  "status_is_healthy s = (ft_is_available s \<and> ft_consecutive_failures s < 3)"

record failover_config =
  fc_primary_transport :: transport_type
  fc_fallback_transport :: transport_type
  fc_routing_strategy :: basic_routing_strategy
  fc_health_check_interval :: duration
  fc_max_consecutive_failures :: u32
  fc_operation_timeout :: duration

definition failover_config_default :: failover_config where
  "failover_config_default =
     \<lparr>fc_primary_transport = Ble, fc_fallback_transport = Nostr, fc_routing_strategy = PreferPrimary,
      fc_health_check_interval = from_secs 30, fc_max_consecutive_failures = 3,
      fc_operation_timeout = from_secs 10\<rparr>"

section \<open>Reachability of a peer\<close>

record peer_reachability =
  pr_peer_id :: peer_id
  pr_ble_reachable :: bool
  pr_nostr_available :: bool
  pr_last_ble_seen :: "timestamp option"
  pr_last_nostr_seen :: "timestamp option"

definition peer_reachability_new :: "peer_id \<Rightarrow> peer_reachability" where
  "peer_reachability_new pid =
     \<lparr>pr_peer_id = pid, pr_ble_reachable = False, pr_nostr_available = False, pr_last_ble_seen = None,
      pr_last_nostr_seen = None\<rparr>"

definition update_ble_reachability :: "timestamp \<Rightarrow> bool \<Rightarrow> peer_reachability \<Rightarrow> peer_reachability" where
  "update_ble_reachability now is_reachable r =
     (let r1 = r\<lparr>pr_ble_reachable := is_reachable\<rparr>
      in if is_reachable then r1\<lparr>pr_last_ble_seen := Some now\<rparr> else r1)"

definition update_nostr_availability :: "timestamp \<Rightarrow> bool \<Rightarrow> peer_reachability \<Rightarrow> peer_reachability" where
  "update_nostr_availability now available r =
     (let r1 = r\<lparr>pr_nostr_available := available\<rparr>
      in if available then r1\<lparr>pr_last_nostr_seen := Some now\<rparr> else r1)"

definition preferred_transport :: "failover_config \<Rightarrow> peer_reachability \<Rightarrow> transport_type option" where
  "preferred_transport cfg r =
     (case fc_routing_strategy cfg of
        PreferPrimary \<Rightarrow>
          if pr_ble_reachable r \<and> fc_primary_transport cfg = Ble then Some Ble
          else if pr_nostr_available r then Some Nostr else None
      | LoadBalance \<Rightarrow>
          (case (pr_ble_reachable r, pr_nostr_available r) of
             (True, True) \<Rightarrow>
               (case (pr_last_ble_seen r, pr_last_nostr_seen r) of
                  (Some ble_time, Some nostr_time) \<Rightarrow> if nostr_time < ble_time then Some Ble else Some Nostr
                | _ \<Rightarrow> Some (fc_primary_transport cfg))
           | (True, False) \<Rightarrow> Some Ble
           | (False, True) \<Rightarrow> Some Nostr
           | (False, False) \<Rightarrow> None)
      | BroadcastAll \<Rightarrow>
          if pr_ble_reachable r then Some Ble else if pr_nostr_available r then Some Nostr else None)"

section \<open>The manager\<close>

datatype message_context =
    CtxPrivate peer_id
  | PublicMesh
  | PublicLocation
  | CtxReadReceipt peer_id
  | CtxDeliveryAck peer_id
  | FavoriteNotification peer_id

datatype transport_selection =
    UseTransport transport_type
  | UseAll "transport_type list"
  | Queue
  | CannotSend string

record transport_manager =
  tm_config :: failover_config
  tm_transport_status :: "(transport_type \<times> failover_status) list"
  tm_peer_reachability :: "(peer_id \<times> peer_reachability) list"
  tm_last_health_check :: "timestamp option"

definition transport_manager_new :: "failover_config \<Rightarrow> transport_manager" where
  "transport_manager_new cfg =
     \<lparr>tm_config = cfg,
      tm_transport_status = map_put Nostr (failover_status_new Nostr) (map_put Ble (failover_status_new Ble) []),
      tm_peer_reachability = [], tm_last_health_check = None\<rparr>"

definition update_transport_status ::
    "timestamp \<Rightarrow> transport_type \<Rightarrow> bool \<Rightarrow> u64 option \<Rightarrow> transport_manager \<Rightarrow> transport_manager" where
  "update_transport_status now ty available latency mgr =
     (case map_of (tm_transport_status mgr) ty of
        None \<Rightarrow> mgr
      | Some s \<Rightarrow> mgr\<lparr>tm_transport_status := map_put ty
          (if available then record_success now latency s else record_failure now s)
          (tm_transport_status mgr)\<rparr>)"

definition update_peer_reachability ::
    "timestamp \<Rightarrow> timestamp \<Rightarrow> peer_id \<Rightarrow> bool \<Rightarrow> bool \<Rightarrow> transport_manager \<Rightarrow> transport_manager" where
  "update_peer_reachability now0 now1 pid ble nostr mgr =
     (let r = (case map_of (tm_peer_reachability mgr) pid of
                 Some r \<Rightarrow> r
               | None \<Rightarrow> peer_reachability_new pid)
      in mgr\<lparr>tm_peer_reachability := map_put pid
           (update_nostr_availability now1 nostr (update_ble_reachability now0 ble r))
           (tm_peer_reachability mgr)\<rparr>)"

definition is_transport_healthy :: "transport_manager \<Rightarrow> transport_type \<Rightarrow> bool" where
  "is_transport_healthy mgr ty =
     (case map_of (tm_transport_status mgr) ty of Some s \<Rightarrow> status_is_healthy s | None \<Rightarrow> False)"

definition use_or_queue :: "transport_manager \<Rightarrow> transport_type \<Rightarrow> transport_selection" where
  "use_or_queue mgr ty = (if is_transport_healthy mgr ty then UseTransport ty else Queue)"

fun other_transport :: "transport_type \<Rightarrow> transport_type" where
  "other_transport Ble = Nostr"
| "other_transport Nostr = Ble"

definition select_transport_for_peer :: "transport_manager \<Rightarrow> peer_id \<Rightarrow> transport_selection" where
  "select_transport_for_peer mgr pid =
     (let reachability = map_of (tm_peer_reachability mgr) pid
      in case fc_routing_strategy (tm_config mgr) of
           PreferPrimary \<Rightarrow>
             (case reachability of
                Some reach \<Rightarrow>
                  if pr_ble_reachable reach \<and> is_transport_healthy mgr Ble then UseTransport Ble
                  else if pr_nostr_available reach \<and> is_transport_healthy mgr Nostr then UseTransport Nostr
                  else Queue
              | None \<Rightarrow> use_or_queue mgr (fc_primary_transport (tm_config mgr)))
         | LoadBalance \<Rightarrow>
             (case reachability of
                Some reach \<Rightarrow>
                  (case preferred_transport (tm_config mgr) reach of
                     Some ty \<Rightarrow>
                       if is_transport_healthy mgr ty then UseTransport ty
                       else use_or_queue mgr (other_transport ty)
                   | None \<Rightarrow> CannotSend ''Peer not reachable via any transport'')
              | None \<Rightarrow> Queue)
         | BroadcastAll \<Rightarrow>
             (let available = (case reachability of
                     Some reach \<Rightarrow>
                       (if pr_ble_reachable reach \<and> is_transport_healthy mgr Ble then [Ble] else []) @
                       (if pr_nostr_available reach \<and> is_transport_healthy mgr Nostr then [Nostr] else [])
                   | None \<Rightarrow> [])
              in if available = [] then Queue else UseAll available))"

fun select_transport :: "transport_manager \<Rightarrow> message_context \<Rightarrow> transport_selection" where
  "select_transport mgr (CtxPrivate recipient) = select_transport_for_peer mgr recipient"
| "select_transport mgr (CtxReadReceipt recipient) = select_transport_for_peer mgr recipient"
| "select_transport mgr (CtxDeliveryAck recipient) = select_transport_for_peer mgr recipient"
| "select_transport mgr (FavoriteNotification recipient) = select_transport_for_peer mgr recipient"
| "select_transport mgr PublicMesh = use_or_queue mgr Ble"
| "select_transport mgr PublicLocation = use_or_queue mgr Nostr"

definition get_available_transports :: "transport_manager \<Rightarrow> transport_type list" where
  "get_available_transports mgr =
     map fst (filter (\<lambda>(ty, s). status_is_healthy s) (tm_transport_status mgr))"

definition health_check :: "timestamp \<Rightarrow> transport_manager \<Rightarrow> transport_manager \<times> bool" where
  "health_check now mgr =
     (mgr\<lparr>tm_last_health_check := Some now\<rparr>,
      list_ex status_is_healthy (map snd (tm_transport_status mgr)))"

definition update_config :: "failover_config \<Rightarrow> transport_manager \<Rightarrow> transport_manager" where
  "update_config cfg mgr = mgr\<lparr>tm_config := cfg\<rparr>"

section \<open>Lemmas\<close>

text \<open>The reports on one transport, oldest first; a report is a success or a failure at some time.\<close>

definition apply_report :: "timestamp \<times> bool \<times> u64 option \<Rightarrow> failover_status \<Rightarrow> failover_status" where
  "apply_report r s =
     (case r of (now, ok, latency) \<Rightarrow> if ok then record_success now latency s else record_failure now s)"

definition failures_at_end :: "(timestamp \<times> bool \<times> u64 option) list \<Rightarrow> nat" where
  "failures_at_end rs = length (takeWhile (\<lambda>(now, ok, latency). \<not> ok) (rev rs))"

definition any_success :: "(timestamp \<times> bool \<times> u64 option) list \<Rightarrow> bool" where
  "any_success rs = list_ex (\<lambda>(now, ok, latency). ok) rs"

lemma apply_report_simps:
  "apply_report (now, True, latency) s = record_success now latency s"
  "apply_report (now, False, latency) s = record_failure now s"
  by (simp_all add: apply_report_def)

lemma unat_sat_inc: "unat (sat_inc n) = min (2 ^ 32 - 1) (unat n + 1)"
proof -
  have top: "unat (- 1 :: u32) = 2 ^ 32 - 1" by (simp add: unsigned_minus_1_eq_mask mask_eq_exp_minus_1)
  show ?thesis
  proof (cases "n = - 1")
    case True
    then show ?thesis using top by (simp add: sat_inc_def)
  next
    case False
    then have "unat n \<noteq> 2 ^ 32 - 1" using top by (metis word_unat_eq_iff)
    moreover have "unat n < 2 ^ 32" using unsigned_less [of n] by simp
    ultimately show ?thesis using False by (simp add: sat_inc_def unat_word_ariths)
  qed
qed

lemma status_after_reports:
  "unat (ft_consecutive_failures (fold apply_report rs (failover_status_new ty))) =
     min (2 ^ 32 - 1) (failures_at_end rs) \<and>
   (ft_is_available (fold apply_report rs (failover_status_new ty)) \<longleftrightarrow>
     any_success rs \<and> failures_at_end rs < 3)"
proof (induction rs rule: rev_induct)
  case Nil
  then show ?case by (simp add: failover_status_new_def failures_at_end_def any_success_def)
next
  case (snoc r rs)
  obtain now ok latency where r: "r = (now, ok, latency)" by (cases r)
  show ?case
  proof (cases ok)
    case True
    with r show ?thesis by (simp add: apply_report_simps record_success_def failures_at_end_def any_success_def)
  next
    case False
    let ?s = "fold apply_report rs (failover_status_new ty)"
    have ends: "failures_at_end (rs @ [(now, False, latency)]) = Suc (failures_at_end rs)"
      "any_success (rs @ [(now, False, latency)]) = any_success rs"
      by (simp_all add: failures_at_end_def any_success_def)
    have u: "unat (sat_inc (ft_consecutive_failures ?s)) = min (2 ^ 32 - 1) (Suc (failures_at_end rs))"
      using snoc by (simp add: unat_sat_inc)
    then have "3 \<le> sat_inc (ft_consecutive_failures ?s) \<longleftrightarrow> 2 \<le> failures_at_end rs"
      by (simp add: word_le_nat_alt)
    with u False r snoc show ?thesis
      by (auto simp: ends apply_report_simps record_failure_def Let_def)
  qed
qed

section \<open>Properties\<close>

definition manager_report :: "transport_type \<times> timestamp \<times> bool \<times> u64 option \<Rightarrow> transport_manager \<Rightarrow> transport_manager" where
  "manager_report r mgr = (case r of (ty, now, ok, latency) \<Rightarrow> update_transport_status now ty ok latency mgr)"

definition reports_on :: "transport_type \<Rightarrow> (transport_type \<times> timestamp \<times> bool \<times> u64 option) list \<Rightarrow>
    (timestamp \<times> bool \<times> u64 option) list" where
  "reports_on ty rs = map snd (filter (\<lambda>r. fst r = ty) rs)"

lemma manager_status_after_reports:
  "map_of (tm_transport_status (fold manager_report rs (transport_manager_new cfg))) ty =
     Some (fold apply_report (reports_on ty rs) (failover_status_new ty))"
proof (induction rs arbitrary: ty rule: rev_induct)
  case Nil
  show ?case by (cases ty) (simp_all add: transport_manager_new_def reports_on_def)
next
  case (snoc r rs)
  obtain ty' now ok latency where r: "r = (ty', now, ok, latency)" by (cases r)
  show ?case
    using snoc.IH [of ty] snoc.IH [of ty']
    by (auto simp: r manager_report_def update_transport_status_def reports_on_def
        apply_report_simps apply_report_def)
qed

text \<open>After any sequence of reports, a transport is healthy exactly when a success was ever reported for it
  and fewer than three failures were reported since its last success; the configured
  \<^verbatim>\<open>max_consecutive_failures\<close> and the reports on the other transport play no role.\<close>

theorem transport_healthy_iff:
  "is_transport_healthy (fold manager_report rs (transport_manager_new cfg)) ty \<longleftrightarrow>
   any_success (reports_on ty rs) \<and> failures_at_end (reports_on ty rs) < 3"
  using status_after_reports [of "reports_on ty rs" ty]
  by (auto simp: is_transport_healthy_def manager_status_after_reports status_is_healthy_def word_less_nat_alt)

definition reaches :: "transport_type \<Rightarrow> peer_reachability \<Rightarrow> bool" where
  "reaches ty r = (case ty of Ble \<Rightarrow> pr_ble_reachable r | Nostr \<Rightarrow> pr_nostr_available r)"

definition selected :: "transport_selection \<Rightarrow> transport_type list" where
  "selected sel = (case sel of UseTransport ty \<Rightarrow> [ty] | UseAll tys \<Rightarrow> tys | _ \<Rightarrow> [])"

text \<open>Every transport selected for a message is healthy; and for a peer whose reachability is known, under
  the strategies other than load balancing, the peer can be reached over it, and a message is queued
  only when no transport is both healthy and able to reach the peer.\<close>

theorem selection_correct:
  "list_all (is_transport_healthy mgr) (selected (select_transport mgr ctx)) \<and>
   (case map_of (tm_peer_reachability mgr) pid of
      None \<Rightarrow> True
    | Some reach \<Rightarrow> fc_routing_strategy (tm_config mgr) = LoadBalance \<or>
        list_all (\<lambda>ty. reaches ty reach) (selected (select_transport_for_peer mgr pid)) \<and>
        (select_transport_for_peer mgr pid = Queue \<longleftrightarrow>
           \<not> list_ex (\<lambda>ty. is_transport_healthy mgr ty \<and> reaches ty reach) [Ble, Nostr]))"
proof -
  have "list_all (is_transport_healthy mgr) (selected (use_or_queue mgr ty))" for ty
    by (simp add: use_or_queue_def selected_def)
  moreover have "list_all (is_transport_healthy mgr) (selected (select_transport_for_peer mgr p))" for p
    by (auto simp: select_transport_for_peer_def selected_def use_or_queue_def Let_def
        split: basic_routing_strategy.split option.split)
  ultimately have "list_all (is_transport_healthy mgr) (selected (select_transport mgr ctx))"
    by (cases ctx) simp_all
  then show ?thesis
    by (auto simp: select_transport_for_peer_def selected_def reaches_def Let_def
        split: basic_routing_strategy.split option.split)
qed

text \<open>Load balancing falls back to a transport that cannot reach the peer: when the only transport of the
  peer is not healthy and the other one is, the message is sent over the other one.\<close>

theorem load_balance_unreachable:
  assumes "fc_routing_strategy (tm_config mgr) = LoadBalance"
    and "map_of (tm_peer_reachability mgr) pid = Some reach"
    and "reaches ty reach" and "\<not> reaches (other_transport ty) reach"
    and "\<not> is_transport_healthy mgr ty" and "is_transport_healthy mgr (other_transport ty)"
  shows "select_transport mgr (CtxPrivate pid) = UseTransport (other_transport ty)"
  using assms by (cases ty) (simp_all add: select_transport_for_peer_def preferred_transport_def reaches_def
      use_or_queue_def)

definition toy_transport_manager :: transport_manager where
  "toy_transport_manager = update_peer_reachability 1 2 [1] True False
     (update_transport_status 3 Nostr True None
       (transport_manager_new (failover_config_default\<lparr>fc_routing_strategy := LoadBalance\<rparr>)))"

theorem load_balance_unreachable_witness:
  "select_transport toy_transport_manager (CtxPrivate [1]) = UseTransport Nostr"
proof -
  let ?r = "update_nostr_availability 2 False (update_ble_reachability 1 True (peer_reachability_new [1]))"
  have "map_of (tm_peer_reachability toy_transport_manager) [1] = Some ?r"
    by (simp add: toy_transport_manager_def update_peer_reachability_def update_transport_status_def
        transport_manager_new_def)
  from load_balance_unreachable [OF _ this, of Ble] show ?thesis
    by (simp add: toy_transport_manager_def update_peer_reachability_def update_transport_status_def
        transport_manager_new_def is_transport_healthy_def status_is_healthy_def record_success_def
        failover_status_new_def reaches_def update_nostr_availability_def update_ble_reachability_def)
qed

end
