(* ===== verification/Advanced_Failover.thy ===== *)
theory Advanced_Failover
  imports Complex_Main Failover Channel_Messages
begin

text \<open>
  The advanced transport failover (\<^verbatim>\<open>src/crates/bitchat-core/src/transport/advanced_failover.rs\<close>), with its
  health records, routing rules, scores and message queue, and the coordinator that joins it to the channels
  (\<^verbatim>\<open>src/crates/bitchat-core/src/transport/integration.rs\<close>).

  Rates and scores, which the code computes as \<^verbatim>\<open>f64\<close>, are rational numbers. The clock readings are
  arguments, one for every reading whose value can differ. A \<^verbatim>\<open>BTreeMap\<close> is an association list that
  is iterated in the order of its keys. The numbers that the code formats into the reason of a recommendation are left out.
\<close>

section \<open>Health of a transport\<close>

record transport_health =
  th_latency_ms :: "u64 option"
  th_success_rate :: rat
  th_last_success :: "timestamp option"
  th_last_failure :: "timestamp option"
  th_consecutive_failures :: u32
  th_connection_quality :: rat
  th_recent_operations :: "(timestamp \<times> bool \<times> u64 option) list"
  th_utilization :: rat

definition transport_health_new :: transport_health where
  "transport_health_new =
     \<lparr>th_latency_ms = None, th_success_rate = 1, th_last_success = None, th_last_failure = None,
      th_consecutive_failures = 0, th_connection_quality = 1, th_recent_operations = [], th_utilization = 0\<rparr>"

definition operation_ok :: "timestamp \<times> bool \<times> u64 option \<Rightarrow> bool" where
  "operation_ok op = fst (snd op)"

definition recent_operations :: "timestamp \<Rightarrow> (timestamp \<times> bool \<times> u64 option) list \<Rightarrow> (timestamp \<times> bool \<times> u64 option) list" where
  "recent_operations now ops =
     (let kept = filter (\<lambda>op. timestamp_sub_duration now (from_secs 3600) < fst op) ops
      in drop (length kept - 100) kept)"

definition update_metrics :: "timestamp \<Rightarrow> transport_health \<Rightarrow> transport_health" where
  "update_metrics now h =
     (let ops = recent_operations now (th_recent_operations h);
          rate = (if ops = [] then th_success_rate h
                  else of_nat (length (filter operation_ok ops)) / of_nat (length ops))
      in h\<lparr>th_recent_operations := ops, th_success_rate := rate,
           th_connection_quality :=
             rate * (1 - min (of_nat (unat (th_consecutive_failures h)) * (1 / 10)) (9 / 10))\<rparr>)"

text \<open>The two clock readings: of the operation and of the metrics.\<close>

definition health_record_success :: "timestamp \<times> timestamp \<Rightarrow> u64 option \<Rightarrow> transport_health \<Rightarrow> transport_health" where
  "health_record_success now latency h =
     update_metrics (snd now)
       (h\<lparr>th_last_success := Some (fst now), th_consecutive_failures := 0,
          th_recent_operations := th_recent_operations h @ [(fst now, True, latency)],
          th_latency_ms :=
            (case latency of
               Some l \<Rightarrow> Some (case th_latency_ms h of Some current \<Rightarrow> (current + l) div 2 | None \<Rightarrow> l)
             | None \<Rightarrow> th_latency_ms h)\<rparr>)"

definition health_record_failure :: "timestamp \<times> timestamp \<Rightarrow> transport_health \<Rightarrow> transport_health" where
  "health_record_failure now h =
     update_metrics (snd now)
       (h\<lparr>th_last_failure := Some (fst now), th_consecutive_failures := sat_inc (th_consecutive_failures h),
          th_recent_operations := th_recent_operations h @ [(fst now, False, None)]\<rparr>)"

definition health_is_healthy :: "transport_health \<Rightarrow> bool" where
  "health_is_healthy h \<longleftrightarrow> th_consecutive_failures h < 3 \<and> 1 / 2 < th_success_rate h"

definition latency_factor :: "u64 \<Rightarrow> rat" where
  "latency_factor l = (if l < 100 then 1 else if l < 500 then 8 / 10 else if l < 1000 then 6 / 10 else 4 / 10)"

definition get_transport_score :: "transport_health \<Rightarrow> rat" where
  "get_transport_score h =
     (let score = th_connection_quality h;
          score = (case th_latency_ms h of Some l \<Rightarrow> score * latency_factor l | None \<Rightarrow> score);
          score = score * (1 - th_utilization h * (1 / 2))
      in max 0 (min 1 score))"

section \<open>Routing rules\<close>

record routing_rule =
  rr_peer_id :: "peer_id option"
  rr_message_context :: "message_context option"
  rr_preferred_transport :: transport_type
  rr_fallback_transports :: "transport_type list"
  rr_priority :: u32
  rr_enabled :: bool

text \<open>Equality of the discriminants: the recipient is ignored.\<close>

fun same_context :: "message_context \<Rightarrow> message_context \<Rightarrow> bool" where
  "same_context (CtxPrivate _) (CtxPrivate _) = True"
| "same_context PublicMesh PublicMesh = True"
| "same_context PublicLocation PublicLocation = True"
| "same_context (CtxReadReceipt _) (CtxReadReceipt _) = True"
| "same_context (CtxDeliveryAck _) (CtxDeliveryAck _) = True"
| "same_context (FavoriteNotification _) (FavoriteNotification _) = True"
| "same_context _ _ = False"

definition rule_matches :: "peer_id option \<Rightarrow> message_context \<Rightarrow> routing_rule \<Rightarrow> bool" where
  "rule_matches peer ctx rule =
     (if \<not> rr_enabled rule then False
      else if rr_peer_id rule \<noteq> None \<and> peer \<noteq> rr_peer_id rule then False
      else case rr_message_context rule of Some c \<Rightarrow> same_context c ctx | None \<Rightarrow> True)"

record routing_table =
  rt_rules :: "routing_rule list"
  rt_default_strategy :: basic_routing_strategy

definition routing_table_new :: routing_table where
  "routing_table_new = \<lparr>rt_rules = [], rt_default_strategy = PreferPrimary\<rparr>"

definition compare_priority :: "routing_rule \<Rightarrow> routing_rule \<Rightarrow> rust_ordering" where
  "compare_priority a b =
     (if rr_priority b < rr_priority a then OrdLess
      else if rr_priority b = rr_priority a then OrdEqual else OrdGreater)"

definition add_rule :: "routing_rule \<Rightarrow> routing_table \<Rightarrow> routing_table" where
  "add_rule rule t = t\<lparr>rt_rules := sort_by compare_priority (rt_rules t @ [rule])\<rparr>"

definition find_rule :: "peer_id option \<Rightarrow> message_context \<Rightarrow> routing_table \<Rightarrow> routing_rule option" where
  "find_rule peer ctx t = find (rule_matches peer ctx) (rt_rules t)"

section \<open>The health monitor\<close>

record health_monitor_config =
  hm_health_check_interval :: duration
  hm_health_check_timeout :: duration
  hm_max_recent_operations :: nat
  hm_min_success_rate :: rat
  hm_max_consecutive_failures :: u32

definition health_monitor_config_default :: health_monitor_config where
  "health_monitor_config_default =
     \<lparr>hm_health_check_interval = from_secs 30, hm_health_check_timeout = from_secs 5,
      hm_max_recent_operations = 100, hm_min_success_rate = 1 / 2, hm_max_consecutive_failures = 3\<rparr>"

record health_monitor =
  hm_transport_health :: "(transport_type \<times> transport_health) list"
  hm_config :: health_monitor_config
  hm_last_health_check :: "timestamp option"
  hm_pending_checks :: "(transport_type \<times> timestamp) list"

definition health_monitor_new :: "health_monitor_config \<Rightarrow> health_monitor" where
  "health_monitor_new cfg =
     \<lparr>hm_transport_health = [], hm_config = cfg, hm_last_health_check = None, hm_pending_checks = []\<rparr>"

definition record_operation ::
    "timestamp \<times> timestamp \<Rightarrow> transport_type \<Rightarrow> bool \<Rightarrow> u64 option \<Rightarrow> health_monitor \<Rightarrow> health_monitor" where
  "record_operation now ty success latency m =
     (let h = (case map_of (hm_transport_health m) ty of Some h \<Rightarrow> h | None \<Rightarrow> transport_health_new)
      in m\<lparr>hm_transport_health := map_put ty
           (if success then health_record_success now latency h else health_record_failure now h)
           (hm_transport_health m)\<rparr>)"

definition get_health :: "health_monitor \<Rightarrow> transport_type \<Rightarrow> transport_health option" where
  "get_health m ty = map_of (hm_transport_health m) ty"

definition monitor_needs_check :: "timestamp \<Rightarrow> health_monitor \<Rightarrow> bool" where
  "monitor_needs_check now m =
     (case hm_last_health_check m of
        Some t \<Rightarrow> hm_health_check_interval (hm_config m) < duration_since now t
      | None \<Rightarrow> True)"

definition trigger_check :: "timestamp \<Rightarrow> transport_type \<Rightarrow> health_monitor \<times> transport_type list \<Rightarrow> health_monitor \<times> transport_type list" where
  "trigger_check now ty = (\<lambda>(m, found).
     if has_key (hm_pending_checks m) ty then (m, found)
     else (m\<lparr>hm_pending_checks := map_put ty now (hm_pending_checks m)\<rparr>, found @ [ty]))"

definition monitor_trigger_check :: "timestamp \<Rightarrow> health_monitor \<Rightarrow> health_monitor \<times> transport_type list" where
  "monitor_trigger_check now m =
     trigger_check now Nostr (trigger_check now Ble (m\<lparr>hm_last_health_check := Some now\<rparr>, []))"

definition monitor_complete_check ::
    "timestamp \<times> timestamp \<Rightarrow> transport_type \<Rightarrow> bool \<Rightarrow> u64 option \<Rightarrow> health_monitor \<Rightarrow> health_monitor" where
  "monitor_complete_check now ty success latency m =
     record_operation now ty success latency (m\<lparr>hm_pending_checks := map_del ty (hm_pending_checks m)\<rparr>)"

section \<open>The manager\<close>

record advanced_config =
  ac_enable_performance_routing :: bool
  ac_enable_health_monitoring :: bool
  ac_enable_message_queuing :: bool
  ac_max_queue_size :: nat
  ac_queue_retention_time :: duration
  ac_health_monitor :: health_monitor_config

definition advanced_config_default :: advanced_config where
  "advanced_config_default =
     \<lparr>ac_enable_performance_routing = True, ac_enable_health_monitoring = True, ac_enable_message_queuing = True,
      ac_max_queue_size = 1000, ac_queue_retention_time = from_secs 3600,
      ac_health_monitor = health_monitor_config_default\<rparr>"

record queued_message =
  qm_context :: message_context
  qm_peer_id :: "peer_id option"
  qm_payload :: bytes
  qm_retry_count :: u32
  qm_queued_at :: timestamp
  qm_last_retry :: "timestamp option"

record advanced_manager =
  am_basic :: transport_manager
  am_monitor :: health_monitor
  am_routing :: routing_table
  am_queue :: "(timestamp \<times> queued_message) list"
  am_config :: advanced_config

definition advanced_manager_new :: "advanced_config \<Rightarrow> advanced_manager" where
  "advanced_manager_new cfg =
     \<lparr>am_basic = transport_manager_new failover_config_default,
      am_monitor = health_monitor_new (ac_health_monitor cfg), am_routing = routing_table_new, am_queue = [],
      am_config = cfg\<rparr>"

fun context_peer :: "message_context \<Rightarrow> peer_id option" where
  "context_peer (CtxPrivate recipient) = Some recipient"
| "context_peer (CtxReadReceipt recipient) = Some recipient"
| "context_peer (CtxDeliveryAck recipient) = Some recipient"
| "context_peer (FavoriteNotification recipient) = Some recipient"
| "context_peer _ = None"

definition rule_usable :: "advanced_manager \<Rightarrow> transport_type \<Rightarrow> bool" where
  "rule_usable m ty \<longleftrightarrow>
     (case get_health (am_monitor m) ty of
        Some h \<Rightarrow> health_is_healthy h \<and> is_transport_healthy (am_basic m) ty
      | None \<Rightarrow> False)"

definition apply_routing_rule :: "advanced_manager \<Rightarrow> routing_rule \<Rightarrow> transport_selection" where
  "apply_routing_rule m rule =
     (if rule_usable m (rr_preferred_transport rule) then UseTransport (rr_preferred_transport rule)
      else case find (rule_usable m) (rr_fallback_transports rule) of
             Some ty \<Rightarrow> UseTransport ty
           | None \<Rightarrow> Queue)"

definition score_of :: "advanced_manager \<Rightarrow> transport_type \<Rightarrow> rat" where
  "score_of m ty = (case get_health (am_monitor m) ty of Some h \<Rightarrow> get_transport_score h | None \<Rightarrow> 1 / 2)"

definition compare_scores :: "transport_type \<times> rat \<Rightarrow> transport_type \<times> rat \<Rightarrow> rust_ordering" where
  "compare_scores a b = (if snd b < snd a then OrdLess else if snd b = snd a then OrdEqual else OrdGreater)"

definition transport_scores :: "advanced_manager \<Rightarrow> (transport_type \<times> rat) list" where
  "transport_scores m =
     sort_by compare_scores
       (map (\<lambda>ty. (ty, score_of m ty)) (filter (is_transport_healthy (am_basic m)) [Ble, Nostr]))"

definition select_by_performance :: "advanced_manager \<Rightarrow> message_context \<Rightarrow> transport_selection" where
  "select_by_performance m ctx =
     (let scores = transport_scores m
      in case ctx of
           PublicMesh \<Rightarrow> if Ble \<in> set (map fst scores) then UseTransport Ble else Queue
         | PublicLocation \<Rightarrow> if Nostr \<in> set (map fst scores) then UseTransport Nostr else Queue
         | _ \<Rightarrow> (case scores of (best, _) # _ \<Rightarrow> UseTransport best | [] \<Rightarrow> Queue))"

definition select_transport_advanced :: "advanced_manager \<Rightarrow> message_context \<Rightarrow> transport_selection" where
  "select_transport_advanced m ctx =
     (case find_rule (context_peer ctx) ctx (am_routing m) of
        Some rule \<Rightarrow> apply_routing_rule m rule
      | None \<Rightarrow>
          if ac_enable_performance_routing (am_config m) then select_by_performance m ctx
          else select_transport (am_basic m) ctx)"

subsection \<open>The message queue\<close>

text \<open>The clock is read once for the message and once for its key.\<close>

definition adv_queue_message ::
    "timestamp \<times> timestamp \<Rightarrow> message_context \<Rightarrow> peer_id option \<Rightarrow> bytes \<Rightarrow> advanced_manager \<Rightarrow> advanced_manager \<times> bool" where
  "adv_queue_message now ctx peer bs m =
     (if \<not> ac_enable_message_queuing (am_config m) then (m, False)
      else
        (let queue = (if ac_max_queue_size (am_config m) \<le> length (am_queue m)
                      then (case btree_entries (am_queue m) of
                              (oldest, _) # _ \<Rightarrow> map_del oldest (am_queue m)
                            | [] \<Rightarrow> am_queue m)
                      else am_queue m);
             message = \<lparr>qm_context = ctx, qm_peer_id = peer, qm_payload = bs, qm_retry_count = 0,
                        qm_queued_at = fst now, qm_last_retry = None\<rparr>
         in (m\<lparr>am_queue := map_put (snd now) message queue\<rparr>, True)))"

definition queue_expired :: "timestamp \<Rightarrow> advanced_manager \<Rightarrow> timestamp \<Rightarrow> bool" where
  "queue_expired now m key \<longleftrightarrow> ac_queue_retention_time (am_config m) < duration_since now key"

definition sendable :: "advanced_manager \<Rightarrow> message_context \<Rightarrow> bool" where
  "sendable m ctx = (case select_transport_advanced m ctx of UseTransport _ \<Rightarrow> True | _ \<Rightarrow> False)"

definition adv_process_queue ::
    "timestamp \<Rightarrow> advanced_manager \<Rightarrow> advanced_manager \<times> (message_context \<times> peer_id option \<times> bytes) list" where
  "adv_process_queue now m =
     (let entries = btree_entries (am_queue m);
          expired = filter (queue_expired now m \<circ> fst) entries;
          ready = filter (\<lambda>(key, q). sendable m (qm_context q)) (filter (Not \<circ> queue_expired now m \<circ> fst) entries)
      in (m\<lparr>am_queue := fold map_del (map fst expired @ map fst ready) (am_queue m)\<rparr>,
          map (\<lambda>(key, q). (qm_context q, qm_peer_id q, qm_payload q)) ready))"

definition adv_add_routing_rule :: "routing_rule \<Rightarrow> advanced_manager \<Rightarrow> advanced_manager" where
  "adv_add_routing_rule rule m = m\<lparr>am_routing := add_rule rule (am_routing m)\<rparr>"

text \<open>The third clock reading is the one of the basic manager.\<close>

definition record_transport_operation ::
    "timestamp \<times> timestamp \<times> timestamp \<Rightarrow> transport_type \<Rightarrow> bool \<Rightarrow> u64 option \<Rightarrow> advanced_manager \<Rightarrow> advanced_manager" where
  "record_transport_operation now ty success latency m =
     (case now of (a, b, c) \<Rightarrow>
        m\<lparr>am_monitor := record_operation (a, b) ty success latency (am_monitor m),
          am_basic := update_transport_status c ty success latency (am_basic m)\<rparr>)"

definition adv_needs_health_check :: "timestamp \<Rightarrow> advanced_manager \<Rightarrow> bool" where
  "adv_needs_health_check now m \<longleftrightarrow> ac_enable_health_monitoring (am_config m) \<and> monitor_needs_check now (am_monitor m)"

definition adv_trigger_health_check :: "timestamp \<Rightarrow> advanced_manager \<Rightarrow> advanced_manager \<times> transport_type list" where
  "adv_trigger_health_check now m =
     (if \<not> ac_enable_health_monitoring (am_config m) then (m, [])
      else (case monitor_trigger_check now (am_monitor m) of (h, found) \<Rightarrow> (m\<lparr>am_monitor := h\<rparr>, found)))"

definition adv_complete_health_check ::
    "timestamp \<times> timestamp \<Rightarrow> transport_type \<Rightarrow> bool \<Rightarrow> u64 option \<Rightarrow> advanced_manager \<Rightarrow> advanced_manager" where
  "adv_complete_health_check now ty success latency m =
     m\<lparr>am_monitor := monitor_complete_check now ty success latency (am_monitor m)\<rparr>"

definition adv_queue_stats :: "timestamp \<Rightarrow> advanced_manager \<Rightarrow> nat \<times> nat" where
  "adv_queue_stats now m =
     (length (am_queue m), length (filter (queue_expired now m \<circ> fst) (am_queue m)))"

section \<open>The coordinator\<close>

record integration_config =
  ig_enable_advanced_failover :: bool
  ig_enable_status_integration :: bool
  ig_health_check_interval :: duration
  ig_enable_auto_switching :: bool

definition integration_config_default :: integration_config where
  "integration_config_default =
     \<lparr>ig_enable_advanced_failover = True, ig_enable_status_integration = True,
      ig_health_check_interval = from_secs 30, ig_enable_auto_switching = True\<rparr>"

record failover_coordinator =
  fo_manager :: advanced_manager
  fo_config :: integration_config
  fo_last_status_sync :: "timestamp option"
  fo_last_health_check :: "timestamp option"
  fo_cached_status :: "(transport_type \<times> transport_status) list"

definition coordinator_new :: "integration_config \<Rightarrow> failover_coordinator" where
  "coordinator_new cfg =
     \<lparr>fo_manager = advanced_manager_new (advanced_config_default
        \<lparr>ac_enable_performance_routing := ig_enable_advanced_failover cfg,
         ac_enable_health_monitoring := ig_enable_advanced_failover cfg, ac_enable_message_queuing := True\<rparr>),
      fo_config = cfg, fo_last_status_sync = None, fo_last_health_check = None, fo_cached_status = []\<rparr>"

definition process_transport_status ::
    "timestamp \<times> timestamp \<times> timestamp \<times> timestamp \<Rightarrow> transport_type \<Rightarrow> transport_status
     \<Rightarrow> failover_coordinator \<Rightarrow> failover_coordinator" where
  "process_transport_status now ty status c =
     (case now of (a, b, t, synced) \<Rightarrow>
        c\<lparr>fo_cached_status := map_put ty status (fo_cached_status c),
          fo_manager := record_transport_operation (a, b, t) ty (status = TsActive) None (fo_manager c),
          fo_last_status_sync := Some synced\<rparr>)"

datatype routing_decision =
    DecideTransport transport_type string
  | DecideMultiple "transport_type list" string
  | DecideQueue string
  | DecideCannotSend string

definition route_message :: "failover_coordinator \<Rightarrow> message_context \<Rightarrow> routing_decision" where
  "route_message c ctx =
     (case select_transport_advanced (fo_manager c) ctx of
        UseTransport ty \<Rightarrow> DecideTransport ty ''Selected by failover logic''
      | UseAll tys \<Rightarrow> DecideMultiple tys ''Broadcast strategy''
      | Queue \<Rightarrow> DecideQueue ''No healthy transports available''
      | CannotSend reason \<Rightarrow> DecideCannotSend reason)"

definition co_queue_message ::
    "timestamp \<times> timestamp \<Rightarrow> message_context \<Rightarrow> peer_id option \<Rightarrow> bytes \<Rightarrow> failover_coordinator
     \<Rightarrow> failover_coordinator \<times> bool" where
  "co_queue_message now ctx peer bs c =
     (case adv_queue_message now ctx peer bs (fo_manager c) of (m, r) \<Rightarrow> (c\<lparr>fo_manager := m\<rparr>, r))"

record queued_ready =
  qr_context :: message_context
  qr_peer_id :: "peer_id option"
  qr_payload :: bytes
  qr_recommended :: routing_decision

definition co_process_queue :: "timestamp \<Rightarrow> failover_coordinator \<Rightarrow> failover_coordinator \<times> queued_ready list" where
  "co_process_queue now c =
     (case adv_process_queue now (fo_manager c) of (m, ready) \<Rightarrow>
        (let c = c\<lparr>fo_manager := m\<rparr>
         in (c, map (\<lambda>(ctx, peer, bs).
              \<lparr>qr_context = ctx, qr_peer_id = peer, qr_payload = bs,
               qr_recommended = route_message c ctx\<rparr>) ready)))"

definition check_health_monitoring :: "timestamp \<times> timestamp \<Rightarrow> failover_coordinator \<Rightarrow> failover_coordinator \<times> effect list" where
  "check_health_monitoring now c =
     (if \<not> ig_enable_advanced_failover (fo_config c) then (c, [])
      else if \<not> (case fo_last_health_check c of
                 Some t \<Rightarrow> ig_health_check_interval (fo_config c) < duration_since (fst now) t
               | None \<Rightarrow> True) then (c, [])
      else (case adv_trigger_health_check (snd now) (fo_manager c) of (m, found) \<Rightarrow>
        (c\<lparr>fo_last_health_check := Some (fst now), fo_manager := m\<rparr>,
         map (\<lambda>ty. RequestTransportHealthCheck ty (from_secs 5)) found)))"

definition process_health_check_result ::
    "timestamp \<times> timestamp \<Rightarrow> transport_type \<Rightarrow> bool \<Rightarrow> u64 option \<Rightarrow> failover_coordinator \<Rightarrow> failover_coordinator" where
  "process_health_check_result now ty success latency c =
     c\<lparr>fo_manager := adv_complete_health_check now ty success latency (fo_manager c)\<rparr>"

definition co_update_peer_reachability :: "peer_id \<Rightarrow> bool \<Rightarrow> bool \<Rightarrow> failover_coordinator \<Rightarrow> failover_coordinator" where
  "co_update_peer_reachability pid ble nostr c = c"

definition co_add_routing_rule :: "routing_rule \<Rightarrow> failover_coordinator \<Rightarrow> failover_coordinator" where
  "co_add_routing_rule rule c = c\<lparr>fo_manager := adv_add_routing_rule rule (fo_manager c)\<rparr>"

record switching_recommendation =
  sr_from_transport :: transport_type
  sr_to_transport :: transport_type
  sr_confidence :: u32

definition check_auto_switching :: "failover_coordinator \<Rightarrow> switching_recommendation list" where
  "check_auto_switching c =
     (let scores = transport_scores (fo_manager c)
      in if \<not> ig_enable_auto_switching (fo_config c) \<or> length scores < 2 then []
         else (let best = snd (hd scores); worst = snd (last scores)
               in if 3 / 10 < best - worst
                  then [\<lparr>sr_from_transport = fst (last scores), sr_to_transport = fst (hd scores),
                         sr_confidence = word_of_int \<lfloor>(best - worst) * 100\<rfloor>\<rparr>]
                  else []))"

section \<open>Rules and scores\<close>

lemma sort_compare_priority: "sort_by compare_priority rs = sort_key (\<lambda>r. - uint (rr_priority r)) rs"
  by (rule sort_by_sort_key) (auto simp: compare_priority_def word_less_def word_uint_eq_iff)

lemma sort_compare_scores: "sort_by compare_scores xs = sort_key (\<lambda>x. - snd x) xs"
  by (rule sort_by_sort_key) (auto simp: compare_scores_def)

definition routing_table_of :: "routing_rule list \<Rightarrow> routing_table" where
  "routing_table_of rules = fold add_rule rules routing_table_new"

lemma rules_of_table:
  "set (rt_rules (routing_table_of rules)) = set rules \<and>
   sorted (map (\<lambda>r. - uint (rr_priority r)) (rt_rules (routing_table_of rules)))"
  unfolding routing_table_of_def
  by (induction rules rule: rev_induct) (auto simp: routing_table_new_def add_rule_def sort_compare_priority)

lemma find_sorted_first:
  "sorted (map f xs) \<Longrightarrow> find P xs = Some x \<Longrightarrow> x \<in> set xs \<and> P x \<and> (\<forall>y\<in>set xs. P y \<longrightarrow> f x \<le> f y)"
  by (induction xs) (auto split: if_splits)

text \<open>The rule applied to a message is an enabled matching rule of the highest priority; no rule is applied only when none matches.\<close>

theorem routing_rule_priority:
  "case find_rule peer ctx (routing_table_of rules) of
     Some r \<Rightarrow> r \<in> set rules \<and> rule_matches peer ctx r \<and>
       (\<forall>q\<in>set rules. rule_matches peer ctx q \<longrightarrow> rr_priority q \<le> rr_priority r)
   | None \<Rightarrow> \<forall>q\<in>set rules. \<not> rule_matches peer ctx q"
proof (cases "find_rule peer ctx (routing_table_of rules)")
  case None
  then have "\<not> (\<exists>x\<in>set (rt_rules (routing_table_of rules)). rule_matches peer ctx x)"
    by (auto simp: find_rule_def find_None_iff)
  with None show ?thesis using rules_of_table [of rules] by simp
next
  case (Some r)
  then show ?thesis
    using find_sorted_first [OF rules_of_table [THEN conjunct2], of "rule_matches peer ctx" rules r]
      rules_of_table [of rules]
    by (auto simp: find_rule_def word_le_def)
qed

definition health_ok :: "transport_health \<Rightarrow> bool" where
  "health_ok h \<longleftrightarrow> 0 \<le> th_success_rate h \<and> th_success_rate h \<le> 1 \<and> 0 \<le> th_connection_quality h \<and>
     th_connection_quality h \<le> th_success_rate h \<and> length (th_recent_operations h) \<le> 100 \<and> th_utilization h = 0"

lemma health_ok_new: "health_ok transport_health_new"
  by (simp add: health_ok_def transport_health_new_def)

lemma ratio_bounds:
  "0 \<le> (of_nat (length (filter P xs)) :: rat) / of_nat (length xs)"
  "(of_nat (length (filter P xs)) :: rat) / of_nat (length xs) \<le> 1"
  using length_filter_le [of P xs] by (cases xs; simp add: divide_le_eq_1)+

lemma health_ok_update:
  assumes "0 \<le> th_success_rate h" "th_success_rate h \<le> 1" "th_utilization h = 0"
  shows "health_ok (update_metrics now h)"
proof -
  define d where "d = min (of_nat (unat (th_consecutive_failures h)) * (1 / 10)) (9 / 10 :: rat)"
  have "0 \<le> (of_nat n :: rat) * (1 / 10)" for n :: nat by simp
  then have d: "0 \<le> d" "d \<le> 9 / 10" unfolding d_def by (simp_all only: min_def split: if_split) simp_all
  define rate where "rate = th_success_rate (update_metrics now h)"
  have rate: "0 \<le> rate" "rate \<le> 1"
    using assms ratio_bounds unfolding rate_def update_metrics_def Let_def by auto
  have quality: "th_connection_quality (update_metrics now h) = rate * (1 - d)"
    by (simp add: rate_def update_metrics_def d_def Let_def)
  have "0 \<le> rate * (1 - d)" using rate d by simp
  moreover have "rate * (1 - d) \<le> rate" using rate d by (simp add: mult_left_le)
  moreover have "length (th_recent_operations (update_metrics now h)) \<le> 100"
    by (simp add: update_metrics_def recent_operations_def Let_def)
  ultimately show ?thesis
    using rate quality assms(3) by (simp add: health_ok_def flip: rate_def) (simp add: update_metrics_def Let_def)
qed

lemma health_ok_record:
  "health_ok h \<Longrightarrow> health_ok (health_record_success now latency h)"
  "health_ok h \<Longrightarrow> health_ok (health_record_failure now h)"
  by (simp_all add: health_record_success_def health_record_failure_def health_ok_update health_ok_def [of h])

lemma score_bounds: "0 \<le> get_transport_score h" "get_transport_score h \<le> 1"
  by (simp_all add: get_transport_score_def Let_def)

section \<open>Selection\<close>

lemma transport_scores_set: "set (transport_scores m) = {(ty, score_of m ty) |ty. is_transport_healthy (am_basic m) ty}"
proof -
  have "{Ble, Nostr} = (UNIV :: transport_type set)" using transport_type.exhaust by blast
  then have "set (filter P [Ble, Nostr]) = Collect P" for P
    unfolding set_filter list.set by (simp only: UNIV_I simp_thms)
  then have "set (transport_scores m) = (\<lambda>ty. (ty, score_of m ty)) ` Collect (is_transport_healthy (am_basic m))"
    unfolding transport_scores_def sort_compare_scores by (simp only: set_sort set_map)
  then show ?thesis by auto
qed

lemma select_transport_healthy: "select_transport mgr ctx = UseTransport ty \<Longrightarrow> is_transport_healthy mgr ty"
  by (cases ctx)
     (auto simp: use_or_queue_def select_transport_for_peer_def Let_def
       split: basic_routing_strategy.splits option.splits if_splits)

lemma find_satisfies: "find P xs = Some x \<Longrightarrow> P x"
  by (induction xs) (auto split: if_splits)

lemma rule_usable_healthy: "rule_usable m ty \<Longrightarrow> is_transport_healthy (am_basic m) ty"
  by (simp add: rule_usable_def split: option.splits)

lemma apply_rule_healthy: "apply_routing_rule m rule = UseTransport ty \<Longrightarrow> is_transport_healthy (am_basic m) ty"
  using find_satisfies [of "rule_usable m" "rr_fallback_transports rule"] rule_usable_healthy [of m]
  by (auto simp: apply_routing_rule_def split: if_splits option.splits)

lemma performance_best:
  assumes "select_by_performance m ctx = UseTransport ty"
  shows "is_transport_healthy (am_basic m) ty \<and>
     (context_peer ctx \<noteq> None \<longrightarrow>
        (\<forall>other. is_transport_healthy (am_basic m) other \<longrightarrow> score_of m other \<le> score_of m ty))"
proof -
  have "sorted (map (\<lambda>x. - snd x) (transport_scores m))"
    by (simp add: transport_scores_def sort_compare_scores)
  then have first: "snd y \<le> snd x" if "transport_scores m = x # xs" "y \<in> set (transport_scores m)" for x xs y
    using that by auto
  show ?thesis
  proof (cases "context_peer ctx")
    case None
    then show ?thesis
      using assms transport_scores_set [of m]
      by (cases ctx) (auto simp: select_by_performance_def Let_def split: if_splits)
  next
    case (Some pid)
    with assms obtain best xs where best: "transport_scores m = (ty, best) # xs"
      by (cases ctx) (auto simp: select_by_performance_def Let_def split: list.splits)
    then have "best = score_of m ty" "is_transport_healthy (am_basic m) ty"
      using transport_scores_set [of m] by auto
    then show ?thesis using first [OF best] transport_scores_set [of m] by fastforce
  qed
qed

lemma advanced_healthy: "select_transport_advanced m ctx = UseTransport ty \<Longrightarrow> is_transport_healthy (am_basic m) ty"
  using apply_rule_healthy [of m _ ty] performance_best [of m ctx ty] select_transport_healthy [of "am_basic m" ctx ty]
  by (auto simp: select_transport_advanced_def split: option.splits if_splits)

text \<open>The advanced failover only selects transports the basic manager considers healthy; without a rule for
  the message and with performance routing a message for a peer goes over the healthy transport with the best score.\<close>

theorem advanced_selection:
  assumes "select_transport_advanced m ctx = UseTransport ty"
  shows "is_transport_healthy (am_basic m) ty \<and>
     (find_rule (context_peer ctx) ctx (am_routing m) = None \<and>
      ac_enable_performance_routing (am_config m) \<and> context_peer ctx \<noteq> None \<longrightarrow>
        (\<forall>other. is_transport_healthy (am_basic m) other \<longrightarrow> score_of m other \<le> score_of m ty))"
  using assms apply_rule_healthy [of m _ ty] performance_best [of m ctx ty] select_transport_healthy [of "am_basic m" ctx ty]
  by (auto simp: select_transport_advanced_def split: option.splits if_splits)

text \<open>A health check repairs nothing: its result reaches the health records only, so a transport the basic
  manager has given up is selected again only after a status report.\<close>

theorem health_check_repairs_nothing:
  assumes "\<not> is_transport_healthy (am_basic m) ty"
  shows "select_transport_advanced (adv_complete_health_check now ty' success latency m) ctx \<noteq> UseTransport ty"
  using assms advanced_healthy [of "adv_complete_health_check now ty' success latency m" ctx ty]
  by (auto simp: adv_complete_health_check_def)

text \<open>A check that is not answered blocks all later checks of its transport.\<close>

theorem lost_check_blocks:
  assumes "has_key (hm_pending_checks (am_monitor m)) ty"
  shows "ty \<notin> set (snd (adv_trigger_health_check now m))"
  using assms
  by (cases ty) (auto simp: adv_trigger_health_check_def monitor_trigger_check_def trigger_check_def has_key_iff domIff
      simp flip: dom_map_of_conv_image_fst)

section \<open>The message queue\<close>

definition queue_ok :: "advanced_manager \<Rightarrow> bool" where
  "queue_ok m \<longleftrightarrow> distinct (keys_of (am_queue m)) \<and> length (am_queue m) \<le> max 1 (ac_max_queue_size (am_config m))"

definition handled :: "timestamp \<Rightarrow> advanced_manager \<Rightarrow> timestamp \<times> queued_message \<Rightarrow> bool" where
  "handled now m = (\<lambda>(key, q). \<not> queue_expired now m key \<and> sendable m (qm_context q))"

text \<open>C24: Processing the queue loses and repeats nothing: it hands out, in the order of their keys, exactly the
  messages that have not expired and have a transport, and keeps exactly those that have neither expired nor a transport.\<close>

theorem advanced_queue_processing:
  assumes "distinct (keys_of (am_queue m))" and "adv_process_queue now m = (m', out)"
  shows "out = map (\<lambda>(key, q). (qm_context q, qm_peer_id q, qm_payload q))
        (filter (handled now m) (btree_entries (am_queue m))) \<and>
     map_of (am_queue m') = (\<lambda>key. case map_of (am_queue m) key of
        None \<Rightarrow> None
      | Some q \<Rightarrow> if queue_expired now m key \<or> handled now m (key, q) then None else Some q)"
proof -
  let ?es = "btree_entries (am_queue m)"
  let ?expired = "filter (queue_expired now m \<circ> fst) ?es" and ?ready = "filter (handled now m) ?es"
  have ready: "filter (\<lambda>(key, q). sendable m (qm_context q)) (filter (Not \<circ> queue_expired now m \<circ> fst) ?es) = ?ready"
    by (simp add: filter_filter handled_def case_prod_unfold conj_commute)
  have out: "out = map (\<lambda>(key, q). (qm_context q, qm_peer_id q, qm_payload q)) ?ready"
    and queue: "am_queue m' = fold map_del (map fst ?expired @ map fst ?ready) (am_queue m)"
    using assms(2) unfolding adv_process_queue_def Let_def ready by auto
  have entry: "(key, q) \<in> set ?es \<longleftrightarrow> map_of (am_queue m) key = Some q" for key q
    using assms(1) by (simp add: btree_entries_def)
  have "map_of (am_queue m') key = (case map_of (am_queue m) key of
        None \<Rightarrow> None
      | Some q \<Rightarrow> if queue_expired now m key \<or> handled now m (key, q) then None else Some q)" for key
  proof -
    have "key \<in> set (map fst ?expired @ map fst ?ready) \<longleftrightarrow>
        (\<exists>q. map_of (am_queue m) key = Some q \<and> (queue_expired now m key \<or> handled now m (key, q)))"
      using entry by (auto simp: image_iff)
    then show ?thesis unfolding queue map_of_fold_del by (auto split: option.split)
  qed
  with out show ?thesis by blast
qed

lemma queue_ok_new: "queue_ok (advanced_manager_new cfg)"
  by (simp add: queue_ok_def advanced_manager_new_def)

lemma set_btree_entries: "set (btree_entries m) = set m"
  by (simp add: btree_entries_def)

lemma btree_entries_head: "btree_entries m = (k, v) # xs \<Longrightarrow> has_key m k"
  using set_btree_entries [of m] by (force simp: has_key_iff)

lemma btree_entries_Nil: "btree_entries m = [] \<longleftrightarrow> m = []"
  using set_btree_entries [of m] by force

lemma queue_ok_queue:
  assumes "queue_ok m"
  shows "queue_ok (fst (adv_queue_message now ctx peer bs m))"
  using assms btree_entries_head [of "am_queue m"] btree_entries_Nil [of "am_queue m"]
  by (auto simp: queue_ok_def adv_queue_message_def Let_def length_put length_del split: list.splits)

lemma fold_del_length: "length (fold map_del ks m) \<le> length m"
proof (induction ks arbitrary: m)
  case (Cons k ks)
  have "length (map_del k m) \<le> length m" by (simp add: AList.delete_eq)
  with Cons.IH [of "map_del k m"] show ?case by simp
qed simp

lemma queue_ok_process: "queue_ok m \<Longrightarrow> queue_ok (fst (adv_process_queue now m))"
  by (auto simp: queue_ok_def adv_process_queue_def Let_def distinct_fold_del
      intro!: order_trans [OF fold_del_length])

text \<open>The keys are milliseconds: a message queued in the same millisecond as another one replaces it, and both
  callers are told that theirs was queued.\<close>

theorem same_millisecond_loses:
  assumes "ac_enable_message_queuing (am_config m)" and "length (am_queue m) + 1 < ac_max_queue_size (am_config m)"
    and "adv_queue_message (a, t) ctx peer bs m = (m1, ok1)" and "adv_queue_message (b, t) ctx' peer' bs' m1 = (m2, ok2)"
  shows "ok1 \<and> ok2 \<and> length (am_queue m2) = length (am_queue m1) \<and>
     map_of (am_queue m2) = (map_of (am_queue m))(t \<mapsto>
       \<lparr>qm_context = ctx', qm_peer_id = peer', qm_payload = bs', qm_retry_count = 0, qm_queued_at = b, qm_last_retry = None\<rparr>)"
proof -
  have m1: "ok1" "m1 = m\<lparr>am_queue := map_put t
      \<lparr>qm_context = ctx, qm_peer_id = peer, qm_payload = bs, qm_retry_count = 0, qm_queued_at = a, qm_last_retry = None\<rparr>
      (am_queue m)\<rparr>"
    using assms(1-3) by (auto simp: adv_queue_message_def)
  have "length (am_queue m1) < ac_max_queue_size (am_config m)" using assms(2) by (simp add: m1(2) length_put)
  then show ?thesis
    using assms(1,4) m1 by (auto simp: adv_queue_message_def length_put has_key_iff; force)
qed

section \<open>An example\<close>

definition example_failover :: advanced_manager where
  "example_failover =
     record_transport_operation (5000, 5000, 5000) Nostr True (Some 700)
       (record_transport_operation (4000, 4000, 4000) Ble True (Some 50)
          (fst (adv_queue_message (3000, 3000) (CtxPrivate [2]) (Some [2]) [65]
             (advanced_manager_new advanced_config_default))))"

theorem advanced_queue_processing_witness:
  "\<exists>m'. adv_process_queue 6000 example_failover = (m', [(CtxPrivate [2], Some [2], [65])]) \<and> map_of (am_queue m') = Map.empty"
proof -
  have queue: "am_queue example_failover = [(3000, \<lparr>qm_context = CtxPrivate [2], qm_peer_id = Some [2], qm_payload = [65],
      qm_retry_count = 0, qm_queued_at = 3000, qm_last_retry = None\<rparr>)]"
    by (simp add: example_failover_def record_transport_operation_def adv_queue_message_def advanced_manager_new_def
        advanced_config_default_def)
  have "is_transport_healthy (am_basic example_failover) Ble"
    by (simp add: example_failover_def record_transport_operation_def adv_queue_message_def advanced_manager_new_def
        advanced_config_default_def transport_manager_new_def update_transport_status_def record_success_def
        is_transport_healthy_def status_is_healthy_def Let_def)
  then have "transport_scores example_failover \<noteq> []" using transport_scores_set [of example_failover] by force
  then have "sendable example_failover (CtxPrivate [2])"
    by (auto simp: sendable_def select_transport_advanced_def find_rule_def select_by_performance_def Let_def
        example_failover_def record_transport_operation_def adv_queue_message_def advanced_manager_new_def
        routing_table_new_def advanced_config_default_def split: list.split)
  moreover have "\<not> queue_expired 6000 example_failover 3000"
    by (simp add: queue_expired_def duration_since_def sat_sub_def from_secs_def example_failover_def
        record_transport_operation_def adv_queue_message_def advanced_manager_new_def advanced_config_default_def)
  moreover obtain m' out where "adv_process_queue 6000 example_failover = (m', out)" by fastforce
  moreover note advanced_queue_processing [OF _ this]
  ultimately show ?thesis by (auto simp: queue btree_entries_def handled_def fun_eq_iff)
qed

theorem advanced_selection_witness:
  "select_transport_advanced example_failover PublicMesh = UseTransport Ble \<and>
   is_transport_healthy (am_basic example_failover) Ble"
proof -
  have "is_transport_healthy (am_basic example_failover) Ble"
    by (simp add: example_failover_def record_transport_operation_def adv_queue_message_def advanced_manager_new_def
        advanced_config_default_def transport_manager_new_def update_transport_status_def record_success_def
        is_transport_healthy_def status_is_healthy_def Let_def)
  then have "Ble \<in> fst ` set (transport_scores example_failover)" using transport_scores_set [of example_failover] by force
  then have "select_transport_advanced example_failover PublicMesh = UseTransport Ble"
    by (auto simp: select_transport_advanced_def find_rule_def select_by_performance_def Let_def
        example_failover_def record_transport_operation_def adv_queue_message_def advanced_manager_new_def
        routing_table_new_def advanced_config_default_def)
  then show ?thesis using advanced_selection [of example_failover PublicMesh Ble] by simp
qed

end
