(* ===== verification/Runtime_Tasks.thy ===== *)
theory Runtime_Tasks
  imports Channel_Messages Rate_Limiter Delivery Message_Store Noise_Session
begin

text \<open>
  The decomposed runtime (\<^verbatim>\<open>src/crates/bitchat-runtime/src/tasks.rs\<close>,
  \<^verbatim>\<open>src/crates/bitchat-runtime/src/supervisor.rs\<close>): the ingress, session and storage tasks, the supervisor
  and the channels between them.

  The tasks run concurrently; the model interleaves their iterations. One iteration of a task is a
  function on the state of the task and the channels; the system chooses the task that runs next.
  The third-party functions (SHA-256, the hexadecimal form of an identifier) are arguments; the clock
  readings and the random identifiers are part of the choice. Log output is left out.
\<close>

section \<open>Messages between the tasks\<close>

datatype internal_command =
    ProcessEncryptedMessage peer_id bytes transport_type
  | StoreMessage message_id rust_string peer_id "peer_id option"
  | EstablishSession peer_id transport_type
  | RotateSessionKeys peer_id
  | UpdateDeliveryStatus message_id delivery_status
  | IcShutdown

datatype task_health_status = ThHealthy | ThDegraded | ThFailed

datatype task_id =
    CoreLogic
  | SessionManager
  | DeliveryManager
  | TransportTask transport_type
  | UI
  | TestOrchestrator

datatype internal_event =
    SessionEstablished peer_id transport_type
  | SessionFailed peer_id string
  | MessageDecrypted message_id rust_string peer_id "peer_id option"
  | MessageStored message_id timestamp
  | DeliveryConfirmed message_id peer_id
  | TaskHealth task_id task_health_status string

text \<open>An unbounded channel: \<open>ch_open\<close> is false once its receiver is gone, and sending then fails.\<close>

record 'a channel =
  ch_queue :: "'a list"
  ch_open :: bool

definition channel_new :: "'a channel" where
  "channel_new = \<lparr>ch_queue = [], ch_open = True\<rparr>"

definition channel_send :: "'a \<Rightarrow> 'a channel \<Rightarrow> 'a channel \<times> bool" where
  "channel_send x c = (if ch_open c then (c\<lparr>ch_queue := ch_queue c @ [x]\<rparr>, True) else (c, False))"

definition channel_close :: "'a channel \<Rightarrow> 'a channel" where
  "channel_close c = \<lparr>ch_queue = [], ch_open = False\<rparr>"

text \<open>The channels the tasks share. The effects are broadcast: the list holds what was sent. The queue of the
  user interface is bounded.\<close>

record task_bus =
  bus_session :: "internal_command channel"
  bus_storage :: "internal_command channel"
  bus_events :: "internal_event channel"
  bus_effects :: "effect list"
  bus_effects_open :: bool
  bus_app :: "app_event channel"
  bus_app_capacity :: nat

definition try_send_app :: "app_event \<Rightarrow> task_bus \<Rightarrow> task_bus" where
  "try_send_app e b =
     (if length (ch_queue (bus_app b)) < bus_app_capacity b
      then b\<lparr>bus_app := fst (channel_send e (bus_app b))\<rparr> else b)"

definition send_session :: "internal_command \<Rightarrow> task_bus \<Rightarrow> task_bus \<times> unit result" where
  "send_session c b =
     (case channel_send c (bus_session b) of (ch, ok) \<Rightarrow>
        (b\<lparr>bus_session := ch\<rparr>,
         if ok then Inr () else Inl (Err (Channel ''Failed to send session command''))))"

definition send_storage :: "internal_command \<Rightarrow> task_bus \<Rightarrow> task_bus \<times> unit result" where
  "send_storage c b =
     (case channel_send c (bus_storage b) of (ch, ok) \<Rightarrow>
        (b\<lparr>bus_storage := ch\<rparr>,
         if ok then Inr () else Inl (Err (Channel ''Failed to send storage command''))))"

definition send_internal_event :: "internal_event \<Rightarrow> task_bus \<Rightarrow> task_bus" where
  "send_internal_event e b = b\<lparr>bus_events := fst (channel_send e (bus_events b))\<rparr>"

definition broadcast_effect :: "effect \<Rightarrow> task_bus \<Rightarrow> task_bus" where
  "broadcast_effect e b = (if bus_effects_open b then b\<lparr>bus_effects := bus_effects b @ [e]\<rparr> else b)"

section \<open>Texts the identifiers are computed from\<close>

text \<open>The decimal form of a number and the derived \<^verbatim>\<open>Debug\<close> form of an identifier,
  \<^verbatim>\<open>PeerId([1, 2, 3, 4, 5, 6, 7, 8])\<close>, as bytes.\<close>

fun decimal :: "nat \<Rightarrow> bytes" where
  "decimal n = (if n < 10 then [word_of_nat (48 + n)] else decimal (n div 10) @ [word_of_nat (48 + n mod 10)])"

declare decimal.simps [simp del]

fun comma_separated :: "bytes list \<Rightarrow> bytes" where
  "comma_separated [] = []"
| "comma_separated [x] = x"
| "comma_separated (x # xs) = x @ [0x2C, 0x20] @ comma_separated xs"

definition peer_id_debug :: "peer_id \<Rightarrow> bytes" where
  "peer_id_debug pid =
     [0x50, 0x65, 0x65, 0x72, 0x49, 0x64, 0x28, 0x5B] @ comma_separated (map (decimal \<circ> unat) pid) @ [0x5D, 0x29]"

definition colon :: bytes where
  "colon = [0x3A]"

record task_env =
  te_sha256 :: "bytes \<Rightarrow> bytes"
  te_hex :: "bytes \<Rightarrow> bytes"

definition outgoing_id :: "task_env \<Rightarrow> peer_id \<Rightarrow> u64 \<Rightarrow> message_id" where
  "outgoing_id env pid seq = te_sha256 env (peer_id_debug pid @ colon @ decimal (unat seq))"

definition incoming_id :: "task_env \<Rightarrow> peer_id \<Rightarrow> rust_string \<Rightarrow> message_id" where
  "incoming_id env from content = te_sha256 env (te_hex env from @ colon @ content)"

section \<open>The ingress task\<close>

record ingress_task =
  ig_peer_id :: peer_id
  ig_rate_limiter :: rate_limiter
  ig_message_sequence :: u64
  ig_running :: bool

definition ingress_new :: "peer_id \<Rightarrow> rate_limit_config \<Rightarrow> ingress_task" where
  "ingress_new pid cfg =
     \<lparr>ig_peer_id = pid, ig_rate_limiter = rate_limiter_new cfg, ig_message_sequence = 0, ig_running = True\<rparr>"

definition zero_peer :: peer_id where
  "zero_peer = replicate 8 0"

text \<open>The handlers return the error with the state it leaves behind; the loop logs it and goes on.\<close>

definition ingress_command ::
    "task_env \<Rightarrow> (nat \<Rightarrow> instant) \<Rightarrow> timestamp \<Rightarrow> command \<Rightarrow> ingress_task \<times> task_bus
     \<Rightarrow> (ingress_task \<times> task_bus) \<times> unit result" where
  "ingress_command env instants now c st =
     (case st of (ig, b) \<Rightarrow>
      case check_message_allowed instants (ig_rate_limiter ig) zero_peer of (rl, allowed) \<Rightarrow>
      let ig1 = ig\<lparr>ig_rate_limiter := rl\<rparr>
      in case allowed of
           Inl e \<Rightarrow> ((ig1, b), Inl (Err (RateLimited ''Command rate limit exceeded'')))
         | Inr _ \<Rightarrow>
           (case c of
              SendMessage recipient content \<Rightarrow>
                (let ig2 = ig1\<lparr>ig_message_sequence := ig_message_sequence ig1 + 1\<rparr>
                 in case send_session (EstablishSession recipient Ble) b of
                      (b1, Inl e) \<Rightarrow> ((ig2, b1), Inl e)
                    | (b1, Inr _) \<Rightarrow>
                      (case send_storage (StoreMessage
                              (outgoing_id env (ig_peer_id ig2) (ig_message_sequence ig2)) content
                              (ig_peer_id ig2) (Some recipient)) b1 of
                         (b2, Inl e) \<Rightarrow> ((ig2, b2), Inl e)
                       | (b2, Inr _) \<Rightarrow> ((ig2, try_send_app (AppMessageSent recipient content now) b2), Inr ())))
            | ConnectToPeer pid \<Rightarrow>
                (case send_session (EstablishSession pid Ble) b of (b1, r) \<Rightarrow> ((ig1, b1), r))
            | CmdShutdown \<Rightarrow>
                ((ig1\<lparr>ig_running := False\<rparr>, fst (send_storage IcShutdown (fst (send_session IcShutdown b)))), Inr ())
            | _ \<Rightarrow> ((ig1, b), Inr ())))"

definition ingress_event ::
    "task_env \<Rightarrow> timestamp \<Rightarrow> transport_event \<Rightarrow> ingress_task \<times> task_bus
     \<Rightarrow> (ingress_task \<times> task_bus) \<times> unit result" where
  "ingress_event env now e st =
     (case st of (ig, b) \<Rightarrow>
      case e of
        EvMessageReceived from content tr mid recipient ts seq \<Rightarrow>
          if content = [] then ((ig, b), Inl (invalid_packet ''Empty message content''))
          else
            (let generated_id = (case mid of Some i \<Rightarrow> i | None \<Rightarrow> incoming_id env from content)
             in case send_storage (StoreMessage generated_id content from (Some (ig_peer_id ig))) b of
                  (b1, Inl er) \<Rightarrow> ((ig, b1), Inl er)
                | (b1, Inr _) \<Rightarrow> ((ig, try_send_app (AppMessageReceived from content now) b1), Inr ()))
      | EvPeerDiscovered pid tr signal \<Rightarrow>
          ((ig, try_send_app (PeerStatusChanged pid CsDiscovering (Some tr)) b), Inr ())
      | EvConnectionEstablished pid tr \<Rightarrow>
          ((ig, try_send_app (PeerStatusChanged pid CsConnected (Some tr)) b), Inr ())
      | EvConnectionLost pid tr reason \<Rightarrow>
          ((ig, try_send_app (PeerStatusChanged pid CsDisconnected (Some tr)) b), Inr ())
      | _ \<Rightarrow> ((ig, b), Inr ()))"

section \<open>The session task\<close>

record ('h, 't) session_task =
  se_peer_id :: peer_id
  se_session_manager :: "('h, 't) session_manager"
  se_connections :: "(peer_id \<times> connection_state) list"
  se_running :: bool

definition session_task_new :: "noise_key_pair \<Rightarrow> peer_id \<Rightarrow> ('h, 't) session_task" where
  "session_task_new local_key pid =
     \<lparr>se_peer_id = pid, se_session_manager = session_manager_new local_key default_session_timeouts,
      se_connections = [], se_running = True\<rparr>"

text \<open>The bytes of \<^verbatim>\<open>Invalid UTF-8\<close>.\<close>

definition invalid_utf8_text :: rust_string where
  "invalid_utf8_text = [0x49, 0x6E, 0x76, 0x61, 0x6C, 0x69, 0x64, 0x20, 0x55, 0x54, 0x46, 0x2D, 0x38]"

definition session_command ::
    "task_env \<Rightarrow> internal_command \<Rightarrow> ('h, 't) session_task \<times> task_bus \<Rightarrow> ('h, 't) session_task \<times> task_bus" where
  "session_command env c st =
     (case st of (se, b) \<Rightarrow>
      case c of
        EstablishSession pid tr \<Rightarrow>
          (se\<lparr>se_connections := (if has_key (se_connections se) pid then se_connections se
                                else map_put pid (new_disconnected pid) (se_connections se))\<rparr>,
           broadcast_effect (EffInitiateConnection pid tr) (send_internal_event (SessionEstablished pid tr) b))
      | RotateSessionKeys pid \<Rightarrow> (se, b)
      | ProcessEncryptedMessage pid ciphertext tr \<Rightarrow>
          (let decrypted = (if utf8_valid ciphertext then ciphertext else invalid_utf8_text)
           in (se, send_internal_event
                 (MessageDecrypted (incoming_id env pid decrypted) decrypted pid (Some (se_peer_id se))) b))
      | IcShutdown \<Rightarrow> (se\<lparr>se_running := False\<rparr>, b)
      | _ \<Rightarrow> (se, b))"

section \<open>The storage task\<close>

record ('u, 'f) storage_task =
  so_message_store :: message_store
  so_delivery_tracker :: "('u, 'f) delivery_tracker"
  so_running :: bool

definition storage_task_new :: "'f delivery_config \<Rightarrow> ('u, 'f) storage_task" where
  "storage_task_new dcfg =
     \<lparr>so_message_store = store_with_config message_store_config_default,
      so_delivery_tracker = tracker_with_config dcfg, so_running = True\<rparr>"

definition storage_command ::
    "'u \<Rightarrow> timestamp \<Rightarrow> timestamp \<Rightarrow> internal_command \<Rightarrow> ('u, 'f) storage_task \<times> task_bus
     \<Rightarrow> ('u, 'f) storage_task \<times> task_bus" where
  "storage_command uuid now0 now1 c st =
     (case st of (so, b) \<Rightarrow>
      case c of
        StoreMessage mid content sender recipient \<Rightarrow>
          (if sender = zero_peer then
             (case recipient of
                Some r \<Rightarrow> so\<lparr>so_delivery_tracker := track_message now0 uuid r content (so_delivery_tracker so)\<rparr>
              | None \<Rightarrow> so)
           else so,
           send_internal_event (MessageStored mid now1) b)
      | IcShutdown \<Rightarrow> (so\<lparr>so_running := False\<rparr>, b)
      | _ \<Rightarrow> (so, b))"

section \<open>The supervisor\<close>

record task_health_info =
  th_status :: task_health_status
  th_last_update :: instant
  th_restart_count :: u32
  th_last_error :: "string option"

definition health_info_new :: "instant \<Rightarrow> task_health_info" where
  "health_info_new now = \<lparr>th_status = ThHealthy, th_last_update = now, th_restart_count = 0, th_last_error = None\<rparr>"

record supervisor =
  sv_ingress_handle :: bool
  sv_session_handle :: bool
  sv_storage_handle :: bool
  sv_task_health :: "(task_id \<times> task_health_info) list"
  sv_monitoring_interval :: nat
  sv_last_health_check :: instant
  sv_peer_id :: peer_id
  sv_restart_failed_tasks :: bool
  sv_max_restart_attempts :: u32
  sv_running :: bool
  sv_shutdown_requested :: bool

definition supervisor_new :: "instant \<Rightarrow> peer_id \<Rightarrow> nat \<Rightarrow> bool \<Rightarrow> u32 \<Rightarrow> supervisor" where
  "supervisor_new now pid every restart attempts =
     \<lparr>sv_ingress_handle = False, sv_session_handle = False, sv_storage_handle = False, sv_task_health = [],
      sv_monitoring_interval = every, sv_last_health_check = now, sv_peer_id = pid,
      sv_restart_failed_tasks = restart, sv_max_restart_attempts = attempts, sv_running = False,
      sv_shutdown_requested = False\<rparr>"

definition update_task_health ::
    "instant \<Rightarrow> instant \<Rightarrow> task_id \<Rightarrow> task_health_status \<Rightarrow> string option \<Rightarrow> supervisor \<Rightarrow> supervisor" where
  "update_task_health now0 now1 tid status message sv =
     (let info = (case map_of (sv_task_health sv) tid of Some i \<Rightarrow> i | None \<Rightarrow> health_info_new now0);
          info1 = info\<lparr>th_status := status, th_last_update := now1\<rparr>;
          info2 = (case message of Some m \<Rightarrow> info1\<lparr>th_last_error := Some m\<rparr> | None \<Rightarrow> info1)
      in sv\<lparr>sv_task_health := map_put tid info2 (sv_task_health sv)\<rparr>)"

fun handle_internal_event :: "instant \<Rightarrow> instant \<Rightarrow> internal_event \<Rightarrow> supervisor \<Rightarrow> supervisor" where
  "handle_internal_event now0 now1 (TaskHealth tid status message) sv =
     update_task_health now0 now1 tid status (Some message) sv"
| "handle_internal_event now0 now1 e sv = sv"

definition stale_threshold :: nat where
  "stale_threshold = secs 60"

definition check_info :: "instant \<Rightarrow> task_health_info \<Rightarrow> task_health_info" where
  "check_info now i =
     (if stale_threshold < now - th_last_update i then i\<lparr>th_status := ThDegraded, th_last_update := now\<rparr> else i)"

definition perform_health_check :: "instant \<Rightarrow> supervisor \<Rightarrow> supervisor" where
  "perform_health_check now sv =
     sv\<lparr>sv_task_health := map (\<lambda>(t, i). (t, check_info now i)) (sv_task_health sv), sv_last_health_check := now\<rparr>"

definition get_health_summary :: "supervisor \<Rightarrow> (task_id \<times> task_health_status) list" where
  "get_health_summary sv = map (\<lambda>(t, i). (t, th_status i)) (sv_task_health sv)"

definition supervisor_is_healthy :: "supervisor \<Rightarrow> bool" where
  "supervisor_is_healthy sv = list_all (\<lambda>i. th_status i = ThHealthy) (map snd (sv_task_health sv))"

section \<open>The system\<close>

text \<open>\<open>sy_ingress_ended\<close>: the loop of the ingress task was left.\<close>

record ('h, 't, 'u, 'f) task_system =
  sy_ingress :: ingress_task
  sy_ingress_ended :: bool
  sy_session :: "('h, 't) session_task"
  sy_storage :: "('u, 'f) storage_task"
  sy_supervisor :: supervisor
  sy_bus :: task_bus

text \<open>\<^verbatim>\<open>SupervisorTask::start\<close>: the health records are made at three readings of the clock.\<close>

definition supervisor_start ::
    "(nat \<Rightarrow> instant) \<Rightarrow> noise_key_pair \<Rightarrow> 'f delivery_config \<Rightarrow> rate_limit_config \<Rightarrow> nat \<Rightarrow> supervisor
     \<Rightarrow> ('h, 't, 'u, 'f) task_system" where
  "supervisor_start now local_key dcfg rcfg app_capacity sv =
     \<lparr>sy_ingress = ingress_new (sv_peer_id sv) rcfg, sy_ingress_ended = False,
      sy_session = session_task_new local_key (sv_peer_id sv), sy_storage = storage_task_new dcfg,
      sy_supervisor = sv\<lparr>sv_task_health :=
          map_put DeliveryManager (health_info_new (now 2))
            (map_put SessionManager (health_info_new (now 1))
              (map_put CoreLogic (health_info_new (now 0)) (sv_task_health sv))),
        sv_ingress_handle := True, sv_session_handle := True, sv_storage_handle := True, sv_running := True\<rparr>,
      sy_bus = \<lparr>bus_session = channel_new, bus_storage = channel_new, bus_events = channel_new,
        bus_effects = [], bus_effects_open = True, bus_app = channel_new, bus_app_capacity = app_capacity\<rparr>\<rparr>"

datatype 'u sys_label =
    LCommand "nat \<Rightarrow> instant" timestamp command
  | LEvent timestamp transport_event
  | LIngressClosed
  | LSession
  | LStorage 'u timestamp timestamp
  | LSupervise instant instant
  | LTick instant
  | LShutdown
  | LAbort
  | LUserInterface

definition ingress_alive :: "('h, 't, 'u, 'f) task_system \<Rightarrow> bool" where
  "ingress_alive s = (sv_ingress_handle (sy_supervisor s) \<and> \<not> sy_ingress_ended s)"

definition after_ingress ::
    "('h, 't, 'u, 'f) task_system \<Rightarrow> (ingress_task \<times> task_bus) \<times> unit result \<Rightarrow> ('h, 't, 'u, 'f) task_system" where
  "after_ingress s p =
     (case p of ((ig, b), r) \<Rightarrow> s\<lparr>sy_ingress := ig, sy_bus := b, sy_ingress_ended := \<not> ig_running ig\<rparr>)"

definition supervising :: "('h, 't, 'u, 'f) task_system \<Rightarrow> bool" where
  "supervising s = (sv_running (sy_supervisor s) \<and> \<not> sv_shutdown_requested (sy_supervisor s))"

text \<open>One iteration of the session or storage loop: the first command of the channel is taken; when the loop
  ends, the receiver goes with the task.\<close>

definition session_iteration ::
    "task_env \<Rightarrow> ('h, 't, 'u, 'f) task_system \<Rightarrow> ('h, 't, 'u, 'f) task_system option" where
  "session_iteration env s =
     (case ch_queue (bus_session (sy_bus s)) of
        c # cs \<Rightarrow>
          if sv_session_handle (sy_supervisor s) \<and> se_running (sy_session s) then
            (case session_command env c (sy_session s,
                    (sy_bus s)\<lparr>bus_session := (bus_session (sy_bus s))\<lparr>ch_queue := cs\<rparr>\<rparr>) of (se, b) \<Rightarrow>
               Some (s\<lparr>sy_session := se,
                 sy_bus := if se_running se then b else b\<lparr>bus_session := channel_close (bus_session b)\<rparr>\<rparr>))
          else None
      | [] \<Rightarrow> None)"

definition storage_iteration ::
    "'u \<Rightarrow> timestamp \<Rightarrow> timestamp \<Rightarrow> ('h, 't, 'u, 'f) task_system \<Rightarrow> ('h, 't, 'u, 'f) task_system option" where
  "storage_iteration uuid now0 now1 s =
     (case ch_queue (bus_storage (sy_bus s)) of
        c # cs \<Rightarrow>
          if sv_storage_handle (sy_supervisor s) \<and> so_running (sy_storage s) then
            (case storage_command uuid now0 now1 c (sy_storage s,
                    (sy_bus s)\<lparr>bus_storage := (bus_storage (sy_bus s))\<lparr>ch_queue := cs\<rparr>\<rparr>) of (so, b) \<Rightarrow>
               Some (s\<lparr>sy_storage := so,
                 sy_bus := if so_running so then b else b\<lparr>bus_storage := channel_close (bus_storage b)\<rparr>\<rparr>))
          else None
      | [] \<Rightarrow> None)"

text \<open>\<^verbatim>\<open>SupervisorTask::shutdown\<close> up to the wait for the tasks, and after it.\<close>

definition supervisor_shutdown :: "('h, 't, 'u, 'f) task_system \<Rightarrow> ('h, 't, 'u, 'f) task_system" where
  "supervisor_shutdown s =
     s\<lparr>sy_supervisor := (sy_supervisor s)\<lparr>sv_shutdown_requested := True\<rparr>,
       sy_bus := fst (send_storage IcShutdown (fst (send_session IcShutdown (sy_bus s))))\<rparr>"

definition supervisor_abort :: "('h, 't, 'u, 'f) task_system \<Rightarrow> ('h, 't, 'u, 'f) task_system" where
  "supervisor_abort s =
     s\<lparr>sy_supervisor := (sy_supervisor s)\<lparr>sv_ingress_handle := False, sv_session_handle := False,
         sv_storage_handle := False, sv_running := False\<rparr>,
       sy_bus := (sy_bus s)\<lparr>bus_session := channel_close (bus_session (sy_bus s)),
         bus_storage := channel_close (bus_storage (sy_bus s))\<rparr>\<rparr>"

text \<open>The result is \<open>None\<close> when the step is not possible.\<close>

fun sys_step ::
    "task_env \<Rightarrow> 'u sys_label \<Rightarrow> ('h, 't, 'u, 'f) task_system \<Rightarrow> ('h, 't, 'u, 'f) task_system option" where
  "sys_step env (LCommand instants now c) s =
     (if ingress_alive s then Some (after_ingress s (ingress_command env instants now c (sy_ingress s, sy_bus s)))
      else None)"
| "sys_step env (LEvent now e) s =
     (if ingress_alive s then Some (after_ingress s (ingress_event env now e (sy_ingress s, sy_bus s)))
      else None)"
| "sys_step env LIngressClosed s = (if ingress_alive s then Some (s\<lparr>sy_ingress_ended := True\<rparr>) else None)"
| "sys_step env LSession s = session_iteration env s"
| "sys_step env (LStorage uuid now0 now1) s = storage_iteration uuid now0 now1 s"
| "sys_step env (LSupervise now0 now1) s =
     (case ch_queue (bus_events (sy_bus s)) of
        e # es \<Rightarrow>
          if supervising s then
            Some (s\<lparr>sy_supervisor := handle_internal_event now0 now1 e (sy_supervisor s),
              sy_bus := (sy_bus s)\<lparr>bus_events := (bus_events (sy_bus s))\<lparr>ch_queue := es\<rparr>\<rparr>\<rparr>)
          else None
      | [] \<Rightarrow> None)"
| "sys_step env (LTick now) s =
     (if supervising s then Some (s\<lparr>sy_supervisor := perform_health_check now (sy_supervisor s)\<rparr>) else None)"
| "sys_step env LShutdown s = (if supervising s then Some (supervisor_shutdown s) else None)"
| "sys_step env LAbort s =
     (if sv_running (sy_supervisor s) \<and> sv_shutdown_requested (sy_supervisor s) then Some (supervisor_abort s)
      else None)"
| "sys_step env LUserInterface s =
     Some (s\<lparr>sy_bus := (sy_bus s)\<lparr>bus_app := (bus_app (sy_bus s))\<lparr>ch_queue := tl (ch_queue (bus_app (sy_bus s)))\<rparr>\<rparr>\<rparr>)"

text \<open>Runs of the system, with the choices made.\<close>

inductive sys_run ::
    "task_env \<Rightarrow> ('h, 't, 'u, 'f) task_system \<Rightarrow> 'u sys_label list \<Rightarrow> ('h, 't, 'u, 'f) task_system \<Rightarrow> bool"
  for env :: task_env where
  run_start: "sys_run env s [] s"
| run_step: "sys_run env s ls s1 \<Longrightarrow> sys_step env l s1 = Some s2 \<Longrightarrow> sys_run env s (ls @ [l]) s2"

section \<open>Runs and invariants\<close>

inductive_cases sys_run_snocE: "sys_run env s (ls @ [l]) s2"

lemma sys_run_invariant:
  assumes "sys_run env s ls s'" and "P s" and "list_all L ls"
    and "\<And>l s1 s2. L l \<Longrightarrow> P s1 \<Longrightarrow> sys_step env l s1 = Some s2 \<Longrightarrow> P s2"
  shows "P s'"
  using assms by (induction rule: sys_run.induct) auto

lemma sys_run_invariant_all:
  assumes "sys_run env s ls s'" and "P s"
    and "\<And>l s1 s2. P s1 \<Longrightarrow> sys_step env l s1 = Some s2 \<Longrightarrow> P s2"
  shows "P s'"
  using assms sys_run_invariant [of env s ls s' P "\<lambda>l. True"] by (simp add: list_all_iff)

lemmas bus_defs = send_session_def send_storage_def send_internal_event_def broadcast_effect_def
  try_send_app_def channel_send_def channel_close_def

lemmas handler_splits = command.splits transport_event.splits internal_command.splits sum.splits prod.splits
  if_splits option.splits list.splits

subsection \<open>A concrete system\<close>

definition toy_supervisor :: supervisor where
  "toy_supervisor = supervisor_new 0 [1, 2, 3, 4, 5, 6, 7, 8] 1000 True 3"

definition toy_tasks :: "(unit, unit, nat, unit) task_system" where
  "toy_tasks = supervisor_start (\<lambda>_. 0) \<lparr>nk_private_key = [], nk_public_key = []\<rparr>
     \<lparr>max_retries = 3, initial_retry_delay = 1, max_retry_delay = 10, backoff_multiplier = (),
      confirmation_timeout = 100\<rparr> rate_limit_default 100 toy_supervisor"

definition toy_task_env :: task_env where
  "toy_task_env = \<lparr>te_sha256 = rev, te_hex = rev\<rparr>"

text \<open>The system after the given choices, when they are all possible.\<close>

definition toy_after :: "nat sys_label list \<Rightarrow> (unit, unit, nat, unit) task_system" where
  "toy_after ls = foldl (\<lambda>s l. case sys_step toy_task_env l s of Some s' \<Rightarrow> s' | None \<Rightarrow> s) toy_tasks ls"

lemma toy_after_Nil: "toy_after [] = toy_tasks"
  by (simp add: toy_after_def)

fun toy_possible :: "nat sys_label list \<Rightarrow> nat sys_label list \<Rightarrow> bool" where
  "toy_possible ks [] = True"
| "toy_possible ks (l # ls) = (sys_step toy_task_env l (toy_after ks) \<noteq> None \<and> toy_possible (ks @ [l]) ls)"

lemma sys_run_Cons: "sys_step env l s = Some s1 \<Longrightarrow> sys_run env s1 ls s2 \<Longrightarrow> sys_run env s (l # ls) s2"
  by (rotate_tac, induction rule: sys_run.induct) (metis run_start run_step append_Nil append_Cons)+

lemma toy_run: "toy_possible ks ls \<Longrightarrow> sys_run toy_task_env (toy_after ks) ls (toy_after (ks @ ls))"
proof (induction ks ls rule: toy_possible.induct)
  case (2 ks l ls)
  then have "sys_step toy_task_env l (toy_after ks) = Some (toy_after (ks @ [l]))"
    by (auto simp: toy_after_def)
  with 2 show ?case using sys_run_Cons by fastforce
qed (simp add: run_start)

lemma toy_run_all: "toy_possible [] ls \<Longrightarrow> sys_run toy_task_env toy_tasks ls (toy_after ls)"
  using toy_run [of "[]" ls] by (simp add: toy_after_Nil)

lemma toy_tasks_simps:
  "sv_task_health toy_supervisor = []" "sv_peer_id toy_supervisor = [1, 2, 3, 4, 5, 6, 7, 8]"
  by (simp_all add: toy_supervisor_def supervisor_new_def)

lemmas toy_defs = toy_after_def toy_tasks_def supervisor_start_def toy_supervisor_def supervisor_new_def
  ingress_new_def session_task_new_def storage_task_new_def channel_new_def rate_limiter_new_def
  ingress_alive_def supervising_def after_ingress_def session_iteration_def storage_iteration_def

lemmas toy_limiter = ingress_command_def check_message_allowed_def add_event_def event_window_new_def
  cleanup_old_events_def limiter_cleanup_old_peers_def active_peers_def entry_or_new_def peer_limits_new_def
  update_access_time_def rate_limit_default_def secs_def Let_def

subsection \<open>Health\<close>

fun quiet_event :: "internal_event \<Rightarrow> bool" where
  "quiet_event (TaskHealth tid status message) = False"
| "quiet_event e = True"

definition health_inv :: "(task_health_info \<Rightarrow> bool) \<Rightarrow> ('h, 't, 'u, 'f) task_system \<Rightarrow> bool" where
  "health_inv ok s \<longleftrightarrow> list_all quiet_event (ch_queue (bus_events (sy_bus s))) \<and>
     list_all (ok \<circ> snd) (sv_task_health (sy_supervisor s)) \<and> sv_task_health (sy_supervisor s) \<noteq> []"

lemma ingress_command_events:
  "bus_events (snd (fst (ingress_command env instants now c (ig, b)))) = bus_events b"
  by (auto simp: ingress_command_def bus_defs Let_def split: command.split sum.split prod.split)

lemma ingress_event_events:
  "bus_events (snd (fst (ingress_event env now e (ig, b)))) = bus_events b"
  by (auto simp: ingress_event_def bus_defs Let_def split: transport_event.split sum.split prod.split)

lemma session_command_events:
  "list_all quiet_event (ch_queue (bus_events b)) \<Longrightarrow>
   list_all quiet_event (ch_queue (bus_events (snd (session_command env c (se, b)))))"
  by (auto simp: session_command_def bus_defs Let_def split: internal_command.split)

lemma storage_command_events:
  "list_all quiet_event (ch_queue (bus_events b)) \<Longrightarrow>
   list_all quiet_event (ch_queue (bus_events (snd (storage_command uuid now0 now1 c (so, b)))))"
  by (auto simp: storage_command_def bus_defs Let_def split: internal_command.split)

lemma quiet_event_handled: "quiet_event e \<Longrightarrow> handle_internal_event now0 now1 e sv = sv"
  by (cases e) simp_all

lemma session_iterationE:
  assumes "session_iteration env s = Some s'"
  obtains c cs se b where "ch_queue (bus_session (sy_bus s)) = c # cs"
    and "sv_session_handle (sy_supervisor s)" and "se_running (sy_session s)"
    and "session_command env c (sy_session s,
           (sy_bus s)\<lparr>bus_session := (bus_session (sy_bus s))\<lparr>ch_queue := cs\<rparr>\<rparr>) = (se, b)"
    and "s' = s\<lparr>sy_session := se,
           sy_bus := if se_running se then b else b\<lparr>bus_session := channel_close (bus_session b)\<rparr>\<rparr>"
  using assms by (auto simp: session_iteration_def split: list.splits prod.splits if_split_asm)

lemma storage_iterationE:
  assumes "storage_iteration uuid now0 now1 s = Some s'"
  obtains c cs so b where "ch_queue (bus_storage (sy_bus s)) = c # cs"
    and "sv_storage_handle (sy_supervisor s)" and "so_running (sy_storage s)"
    and "storage_command uuid now0 now1 c (sy_storage s,
           (sy_bus s)\<lparr>bus_storage := (bus_storage (sy_bus s))\<lparr>ch_queue := cs\<rparr>\<rparr>) = (so, b)"
    and "s' = s\<lparr>sy_storage := so,
           sy_bus := if so_running so then b else b\<lparr>bus_storage := channel_close (bus_storage b)\<rparr>\<rparr>"
  using assms by (auto simp: storage_iteration_def split: list.splits prod.splits if_split_asm)

lemma health_inv_step:
  assumes ok: "\<And>now i. ok i \<Longrightarrow> ok (check_info now i)" and inv: "health_inv ok s"
    and step: "sys_step env l s = Some s'"
  shows "health_inv ok s'"
proof (cases l)
  case (LCommand instants now c)
  with step inv ingress_command_events [of env instants now c "sy_ingress s" "sy_bus s"] show ?thesis
    by (auto simp: health_inv_def after_ingress_def split: if_splits prod.splits)
next
  case (LEvent now e)
  with step inv ingress_event_events [of env now e "sy_ingress s" "sy_bus s"] show ?thesis
    by (auto simp: health_inv_def after_ingress_def split: if_splits prod.splits)
next
  case LSession
  with step have "session_iteration env s = Some s'" by simp
  then show ?thesis
  proof (cases rule: session_iterationE)
    case (1 c cs se b)
    with inv session_command_events [of "(sy_bus s)\<lparr>bus_session := (bus_session (sy_bus s))\<lparr>ch_queue := cs\<rparr>\<rparr>"
        env c "sy_session s"] show ?thesis by (simp add: health_inv_def)
  qed
next
  case (LStorage uuid now0 now1)
  with step have "storage_iteration uuid now0 now1 s = Some s'" by simp
  then show ?thesis
  proof (cases rule: storage_iterationE)
    case (1 c cs so b)
    with inv storage_command_events [of "(sy_bus s)\<lparr>bus_storage := (bus_storage (sy_bus s))\<lparr>ch_queue := cs\<rparr>\<rparr>"
        uuid now0 now1 c "sy_storage s"] show ?thesis by (simp add: health_inv_def)
  qed
next
  case (LTick now)
  with step inv ok show ?thesis
    by (fastforce simp: health_inv_def perform_health_check_def list_all_iff split: if_splits)
qed (use step inv in \<open>auto simp: health_inv_def quiet_event_handled supervisor_shutdown_def
      supervisor_abort_def bus_defs split: if_splits list.splits\<close>)

lemma health_inv_run:
  assumes "sys_run env s ls s'" and "health_inv ok s" and "\<And>now i. ok i \<Longrightarrow> ok (check_info now i)"
  shows "health_inv ok s'"
  by (rule sys_run_invariant_all [OF assms(1), of "health_inv ok"], rule assms(2), rule health_inv_step [of ok])
    (use assms(3) in auto)

lemma health_inv_tick:
  assumes "health_inv (\<lambda>i. th_status i = ThDegraded \<or> th_last_update i \<le> T) s" and "T + stale_threshold < now"
    and "sys_step env (LTick now) s = Some s'"
  shows "health_inv (\<lambda>i. th_status i = ThDegraded) s'"
  using assms
  by (fastforce simp: health_inv_def perform_health_check_def check_info_def list_all_iff split: if_splits)

text \<open>No task of the runtime reports its health: after the first health check more than sixty seconds after
  the start every task counts as degraded, whatever the tasks do, and the supervisor is never healthy
  again.\<close>

theorem health_always_decays:
  assumes "sv_task_health sv = []" and "now 0 \<le> T" and "now 1 \<le> T" and "now 2 \<le> T"
    and "sys_run env (supervisor_start now key dcfg rcfg capacity sv) ls1 s1"
    and "T + stale_threshold < check" and "sys_step env (LTick check) s1 = Some s2"
    and "sys_run env s2 ls2 s3"
  shows "list_all (\<lambda>(t, status). status = ThDegraded) (get_health_summary (sy_supervisor s3)) \<and>
     \<not> supervisor_is_healthy (sy_supervisor s3)"
proof -
  let ?old = "\<lambda>i. th_status i = ThDegraded \<or> th_last_update i \<le> T"
  have "health_inv ?old (supervisor_start now key dcfg rcfg capacity sv)"
    using assms(1-4) by (simp add: health_inv_def supervisor_start_def channel_new_def health_info_new_def)
  then have "health_inv ?old s1"
    by (rule health_inv_run [OF assms(5)]) (auto simp: check_info_def)
  then have "health_inv (\<lambda>i. th_status i = ThDegraded) s2" by (rule health_inv_tick [OF _ assms(6,7)])
  then have "health_inv (\<lambda>i. th_status i = ThDegraded) s3"
    by (rule health_inv_run [OF assms(8)]) (auto simp: check_info_def)
  then show ?thesis
    by (cases "sv_task_health (sy_supervisor s3)")
      (auto simp: health_inv_def get_health_summary_def supervisor_is_healthy_def list_all_iff)
qed


theorem health_always_decays_witness:
  "\<not> supervisor_is_healthy (perform_health_check (secs 61) (sy_supervisor toy_tasks))"
proof -
  let ?s = "toy_tasks\<lparr>sy_supervisor := perform_health_check (secs 61) (sy_supervisor toy_tasks)\<rparr>"
  have tick: "sys_step toy_task_env (LTick (secs 61)) toy_tasks = Some ?s"
    by (simp add: supervising_def toy_tasks_def supervisor_start_def toy_supervisor_def supervisor_new_def)
  have "(0::nat) + stale_threshold < secs 61" by (simp add: stale_threshold_def secs_def)
  from health_always_decays [OF toy_tasks_simps(1) _ _ _
      run_start [of toy_task_env toy_tasks, unfolded toy_tasks_def] this
      tick [unfolded toy_tasks_def] run_start]
  have "\<not> supervisor_is_healthy (sy_supervisor ?s)" by (simp add: toy_tasks_def)
  then show ?thesis by simp
qed

subsection \<open>Shutdown\<close>

definition session_alive :: "('h, 't, 'u, 'f) task_system \<Rightarrow> bool" where
  "session_alive s = (sv_session_handle (sy_supervisor s) \<and> se_running (sy_session s))"

definition storage_alive :: "('h, 't, 'u, 'f) task_system \<Rightarrow> bool" where
  "storage_alive s = (sv_storage_handle (sy_supervisor s) \<and> so_running (sy_storage s))"

text \<open>A worker that is alive can be reached, and when the ingress task has stopped, it will be told to.\<close>

definition worker_ok :: "bool \<Rightarrow> bool \<Rightarrow> internal_command channel \<Rightarrow> bool" where
  "worker_ok alive going ch \<longleftrightarrow> (alive \<longrightarrow> ch_open ch \<and> (going \<or> IcShutdown \<in> set (ch_queue ch)))"

definition stop_inv :: "('h, 't, 'u, 'f) task_system \<Rightarrow> bool" where
  "stop_inv s \<longleftrightarrow>
     worker_ok (session_alive s) (ig_running (sy_ingress s)) (bus_session (sy_bus s)) \<and>
     worker_ok (storage_alive s) (ig_running (sy_ingress s)) (bus_storage (sy_bus s))"

lemma worker_ok_send: "worker_ok alive going ch \<Longrightarrow> worker_ok alive going (fst (channel_send c ch))"
  by (auto simp: worker_ok_def channel_send_def)

lemma ingress_command_stops:
  assumes "ingress_command env instants now c (ig, b) = ((ig', b'), r)"
    and "worker_ok al1 (ig_running ig) (bus_session b)" and "worker_ok al2 (ig_running ig) (bus_storage b)"
  shows "worker_ok al1 (ig_running ig') (bus_session b')" and "worker_ok al2 (ig_running ig') (bus_storage b')"
  using assms
  by (auto simp: ingress_command_def worker_ok_def bus_defs Let_def
      split: command.splits sum.splits prod.splits if_splits)

lemma ingress_event_stops:
  assumes "ingress_event env now e (ig, b) = ((ig', b'), r)"
    and "worker_ok al1 (ig_running ig) (bus_session b)" and "worker_ok al2 (ig_running ig) (bus_storage b)"
  shows "worker_ok al1 (ig_running ig') (bus_session b')" and "worker_ok al2 (ig_running ig') (bus_storage b')"
  using assms
  by (auto simp: ingress_event_def worker_ok_def bus_defs Let_def
      split: transport_event.splits sum.splits prod.splits if_splits)

lemma ingress_event_state: "fst (fst (ingress_event env now e (ig, b))) = ig"
  by (simp add: ingress_event_def Let_def split: transport_event.split sum.split prod.split)

lemma session_command_queues:
  assumes "session_command env c (se, b) = (se', b')"
  shows "bus_session b' = bus_session b" "bus_storage b' = bus_storage b" "se_running se' = (se_running se \<and> c \<noteq> IcShutdown)"
  using assms by (auto simp: session_command_def bus_defs Let_def split: internal_command.splits)

lemma storage_command_queues:
  assumes "storage_command uuid now0 now1 c (so, b) = (so', b')"
  shows "bus_session b' = bus_session b" "bus_storage b' = bus_storage b" "so_running so' = (so_running so \<and> c \<noteq> IcShutdown)"
  using assms by (auto simp: storage_command_def bus_defs Let_def split: internal_command.splits option.splits if_splits)

lemma handle_internal_event_handles:
  "sv_session_handle (handle_internal_event now0 now1 e sv) = sv_session_handle sv"
  "sv_storage_handle (handle_internal_event now0 now1 e sv) = sv_storage_handle sv"
  by (cases e; simp add: update_task_health_def Let_def)+

lemma stop_inv_step:
  assumes inv: "stop_inv s" and step: "sys_step env l s = Some s'"
  shows "stop_inv s'"
proof (cases l)
  case (LCommand instants now c)
  obtain ig b r where out: "ingress_command env instants now c (sy_ingress s, sy_bus s) = ((ig, b), r)"
    by (metis surj_pair)
  from LCommand step out inv ingress_command_stops [OF out] show ?thesis
    by (auto simp: stop_inv_def after_ingress_def session_alive_def storage_alive_def split: if_splits)
next
  case (LEvent now e)
  obtain ig b r where out: "ingress_event env now e (sy_ingress s, sy_bus s) = ((ig, b), r)"
    by (metis surj_pair)
  from LEvent step out inv ingress_event_stops [OF out] show ?thesis
    by (auto simp: stop_inv_def after_ingress_def session_alive_def storage_alive_def split: if_splits)
next
  case LSession
  with step have "session_iteration env s = Some s'" by simp
  then show ?thesis
  proof (cases rule: session_iterationE)
    case (1 c cs se b)
    with inv session_command_queues [OF 1(4)] show ?thesis
      by (auto simp: stop_inv_def worker_ok_def session_alive_def storage_alive_def)
  qed
next
  case (LStorage uuid now0 now1)
  with step have "storage_iteration uuid now0 now1 s = Some s'" by simp
  then show ?thesis
  proof (cases rule: storage_iterationE)
    case (1 c cs so b)
    with inv storage_command_queues [OF 1(4)] show ?thesis
      by (auto simp: stop_inv_def worker_ok_def session_alive_def storage_alive_def)
  qed
next
  case LShutdown
  with step inv show ?thesis
    by (auto simp: stop_inv_def session_alive_def storage_alive_def supervisor_shutdown_def send_session_def
        send_storage_def case_prod_beta worker_ok_send split: if_splits)
next
  case LAbort
  with step inv show ?thesis
    by (auto simp: stop_inv_def worker_ok_def session_alive_def storage_alive_def supervisor_abort_def split: if_splits)
qed (use step inv in \<open>auto simp: stop_inv_def session_alive_def storage_alive_def handle_internal_event_handles
      perform_health_check_def split: if_splits list.splits\<close>)

lemma stop_inv_start: "stop_inv (supervisor_start now key dcfg rcfg capacity sv)"
  by (simp add: stop_inv_def worker_ok_def supervisor_start_def ingress_new_def channel_new_def)

lemma stop_inv_run: "sys_run env s ls s' \<Longrightarrow> stop_inv s \<Longrightarrow> stop_inv s'"
  by (erule sys_run_invariant_all [of _ _ _ _ stop_inv]) (use stop_inv_step in blast)+

fun worker_label :: "'u sys_label \<Rightarrow> bool" where
  "worker_label LSession = True"
| "worker_label (LStorage uuid now0 now1) = True"
| "worker_label l = False"

definition pending :: "('h, 't, 'u, 'f) task_system \<Rightarrow> nat" where
  "pending s = length (ch_queue (bus_session (sy_bus s))) + length (ch_queue (bus_storage (sy_bus s)))"

lemma worker_step_decreases:
  assumes "worker_label l" and "sys_step env l s = Some s'"
  shows "pending s' < pending s" and "sy_ingress s' = sy_ingress s"
proof -
  have "pending s' < pending s \<and> sy_ingress s' = sy_ingress s"
  proof (cases l)
    case LSession
    with assms have "session_iteration env s = Some s'" by simp
    then show ?thesis
    proof (cases rule: session_iterationE)
      case (1 c cs se b)
      with session_command_queues [OF 1(4)] show ?thesis by (simp add: pending_def channel_close_def)
    qed
  next
    case (LStorage uuid now0 now1)
    with assms have "storage_iteration uuid now0 now1 s = Some s'" by simp
    then show ?thesis
    proof (cases rule: storage_iterationE)
      case (1 c cs so b)
      with storage_command_queues [OF 1(4)] show ?thesis by (simp add: pending_def channel_close_def)
    qed
  qed (use assms in auto)
  then show "pending s' < pending s" "sy_ingress s' = sy_ingress s" by simp_all
qed

lemma worker_run_bounded:
  "sys_run env s ws s' \<Longrightarrow> list_all worker_label ws \<Longrightarrow>
   length ws + pending s' \<le> pending s \<and> sy_ingress s' = sy_ingress s"
proof (induction rule: sys_run.induct)
  case (run_step s ls s1 l s2)
  then show ?case using worker_step_decreases [of l env s1 s2] by simp
qed simp

text \<open>C27: Once the ingress task has accepted a shutdown command, the session and the storage task stop after a
  bounded number of iterations: they can make at most as many as commands are queued, in whatever
  order they run, and when neither can make another one, both have stopped.\<close>

theorem shutdown_completes:
  assumes "sys_run env (supervisor_start now key dcfg rcfg capacity sv) ls s" and "\<not> ig_running (sy_ingress s)"
    and "sys_run env s ws s'" and "list_all worker_label ws"
  shows "length ws \<le> pending s \<and>
    (session_iteration env s' = None \<and> storage_iteration uuid now0 now1 s' = None \<longrightarrow>
       \<not> session_alive s' \<and> \<not> storage_alive s')"
proof -
  have "stop_inv s" by (rule stop_inv_run [OF assms(1) stop_inv_start])
  then have inv: "stop_inv s'" by (rule stop_inv_run [OF assms(3)])
  have w: "length ws + pending s' \<le> pending s" "sy_ingress s' = sy_ingress s"
    using worker_run_bounded [OF assms(3,4)] by simp_all
  have "\<not> session_alive s'" if "session_iteration env s' = None"
    using that inv assms(2) w(2)
    by (auto simp: session_iteration_def stop_inv_def worker_ok_def session_alive_def split: list.splits prod.splits)
  moreover have "\<not> storage_alive s'" if "storage_iteration uuid now0 now1 s' = None"
    using that inv assms(2) w(2)
    by (auto simp: storage_iteration_def stop_inv_def worker_ok_def storage_alive_def split: list.splits prod.splits)
  ultimately show ?thesis using w(1) by auto
qed

definition toy_stop :: "nat sys_label list" where
  "toy_stop = [LCommand (\<lambda>_. 0) 0 CmdShutdown]"

theorem shutdown_completes_witness:
  "\<not> session_alive (toy_after (toy_stop @ [LSession, LStorage 0 0 0])) \<and>
   \<not> storage_alive (toy_after (toy_stop @ [LSession, LStorage 0 0 0]))"
proof -
  let ?s = "toy_after toy_stop" and ?s' = "toy_after (toy_stop @ [LSession, LStorage 0 0 0])"
  have r1: "sys_run toy_task_env toy_tasks toy_stop ?s"
    by (rule toy_run_all) (simp add: toy_stop_def toy_defs)
  have off: "\<not> ig_running (sy_ingress ?s)" by (simp add: toy_stop_def toy_defs toy_limiter bus_defs)
  have r2: "sys_run toy_task_env ?s [LSession, LStorage 0 0 0] ?s'"
    by (rule toy_run) (simp add: toy_stop_def toy_defs toy_limiter bus_defs session_command_def storage_command_def)
  have "session_iteration toy_task_env ?s' = None \<and> storage_iteration 0 0 0 ?s' = None"
    by (simp add: toy_stop_def toy_defs toy_limiter bus_defs session_command_def storage_command_def)
  with shutdown_completes [OF r1 [unfolded toy_tasks_def] off r2, of 0 0 0] show ?thesis by simp
qed

subsection \<open>What is stored\<close>

fun from_zero :: "internal_command \<Rightarrow> bool" where
  "from_zero (StoreMessage mid content sender recipient) = (sender = zero_peer)"
| "from_zero c = False"

fun claims_zero :: "'u sys_label \<Rightarrow> bool" where
  "claims_zero (LEvent now (EvMessageReceived from content tr mid recipient ts seq)) = (from = zero_peer)"
| "claims_zero l = False"

definition storage_inv :: "('u, 'f) storage_task \<Rightarrow> ('h, 't, 'u, 'f) task_system \<Rightarrow> bool" where
  "storage_inv so s \<longleftrightarrow> ig_peer_id (sy_ingress s) \<noteq> zero_peer \<and>
     \<not> list_ex from_zero (ch_queue (bus_storage (sy_bus s))) \<and>
     so_message_store (sy_storage s) = so_message_store so \<and>
     so_delivery_tracker (sy_storage s) = so_delivery_tracker so"

lemma ingress_command_senders:
  assumes "ingress_command env instants now c (ig, b) = ((ig', b'), r)" and "ig_peer_id ig \<noteq> zero_peer"
    and "\<not> list_ex from_zero (ch_queue (bus_storage b))"
  shows "ig_peer_id ig' = ig_peer_id ig" and "\<not> list_ex from_zero (ch_queue (bus_storage b'))"
  using assms
  by (auto simp: ingress_command_def bus_defs Let_def split: command.splits sum.splits prod.splits if_splits)

lemma ingress_event_senders:
  assumes "ingress_event env now e (ig, b) = ((ig', b'), r)" and "\<not> claims_zero (LEvent now e)"
    and "\<not> list_ex from_zero (ch_queue (bus_storage b))"
  shows "\<not> list_ex from_zero (ch_queue (bus_storage b'))"
  using assms
  by (auto simp: ingress_event_def bus_defs Let_def split: transport_event.splits sum.splits prod.splits if_splits)

lemma storage_inv_step:
  assumes inv: "storage_inv so s" and step: "sys_step env l s = Some s'" and l: "\<not> claims_zero l"
  shows "storage_inv so s'"
proof (cases l)
  case (LCommand instants now c)
  obtain ig b r where out: "ingress_command env instants now c (sy_ingress s, sy_bus s) = ((ig, b), r)"
    by (metis surj_pair)
  from LCommand step out inv ingress_command_senders [OF out] show ?thesis
    by (auto simp: storage_inv_def after_ingress_def split: if_splits)
next
  case (LEvent now e)
  obtain ig b r where out: "ingress_event env now e (sy_ingress s, sy_bus s) = ((ig, b), r)"
    by (metis surj_pair)
  from LEvent step out l inv ingress_event_senders [OF out] ingress_event_state [of env now e "sy_ingress s" "sy_bus s"] show ?thesis
    by (auto simp: storage_inv_def after_ingress_def split: if_splits)
next
  case LSession
  with step have "session_iteration env s = Some s'" by simp
  then show ?thesis
  proof (cases rule: session_iterationE)
    case (1 c cs se b)
    with inv session_command_queues [OF 1(4)] show ?thesis by (auto simp: storage_inv_def)
  qed
next
  case (LStorage uuid now0 now1)
  with step have "storage_iteration uuid now0 now1 s = Some s'" by simp
  then show ?thesis
  proof (cases rule: storage_iterationE)
    case (1 c cs so' b)
    with inv storage_command_queues [OF 1(4)] show ?thesis
      by (cases c) (auto simp: storage_inv_def storage_command_def channel_close_def bus_defs)
  qed
qed (use step inv in \<open>auto simp: storage_inv_def supervisor_shutdown_def supervisor_abort_def bus_defs
      split: if_splits list.splits\<close>)

text \<open>The storage task stores nothing: in every run the message store of a started system stays empty and,
  unless the own identifier or the claimed sender of a received message is all zeros, no message is
  tracked for delivery, although every accepted message is reported as stored.\<close>

theorem storage_stores_nothing:
  assumes "sys_run env (supervisor_start now key dcfg rcfg capacity sv) ls s" and "sv_peer_id sv \<noteq> zero_peer"
    and "\<not> list_ex claims_zero ls"
  shows "so_message_store (sy_storage s) = store_with_config message_store_config_default \<and>
    dt_messages (so_delivery_tracker (sy_storage s)) = []"
proof -
  have "storage_inv (storage_task_new dcfg) s"
  proof (rule sys_run_invariant [OF assms(1), of "storage_inv (storage_task_new dcfg)" "\<lambda>l. \<not> claims_zero l"])
    show "list_all (\<lambda>l. \<not> claims_zero l) ls" using assms(3) by (auto simp: list_all_iff list_ex_iff)
    show "storage_inv (storage_task_new dcfg) (supervisor_start now key dcfg rcfg capacity sv)"
      using assms(2) by (simp add: storage_inv_def supervisor_start_def ingress_new_def channel_new_def)
  qed (rule storage_inv_step)
  then show ?thesis by (simp add: storage_inv_def storage_task_new_def tracker_with_config_def)
qed

definition toy_send :: "nat sys_label list" where
  "toy_send = [LCommand (\<lambda>_. 0) 0 (SendMessage [9] [65]), LStorage 0 0 0]"

theorem storage_stores_nothing_witness:
  "so_message_store (sy_storage (toy_after toy_send)) = store_with_config message_store_config_default \<and>
   dt_messages (so_delivery_tracker (sy_storage (toy_after toy_send))) = []"
proof -
  have "sys_run toy_task_env toy_tasks toy_send (toy_after toy_send)"
    by (rule toy_run_all) (simp add: toy_send_def toy_defs toy_limiter bus_defs storage_command_def)
  from storage_stores_nothing [OF this [unfolded toy_tasks_def]] show ?thesis
    by (simp add: toy_tasks_simps zero_peer_def toy_send_def numeral_eq_Suc)
qed
end
