(* ===== verification/Monitoring.thy ===== *)
theory Monitoring
  imports Complex_Main Runtime_Tasks
begin

text \<open>
  Monitoring of the tasks: the records of the communication log
  (\<^verbatim>\<open>src/crates/bitchat-core/src/task_logging.rs\<close>), the monitoring system
  (\<^verbatim>\<open>src/crates/bitchat-core/src/monitoring.rs\<close>) and the statistics of a channel
  (\<^verbatim>\<open>src/crates/bitchat-core/src/channel/utils.rs\<close>).

  Rates, averages and shares, which the code computes as \<^verbatim>\<open>f32\<close> and \<^verbatim>\<open>f64\<close>, are rational numbers.
  The clock readings are arguments. Hash maps are association lists in their iteration order. The
  locks are left out: every operation holds its lock from its first to its last access. Texts that are
  only printed (message summaries, descriptions of warnings, log lines) are left out.
\<close>

section \<open>The communication log\<close>

datatype task_log_level = LlTrace | LlDebug | LlInfo | LlWarn | LlError

datatype comm_direction = DirSend | DirReceive | DirDrop

datatype logged_type = LtCommand string | LtEvent string | LtEffect string | LtAppEvent string

fun command_log_type :: "command \<Rightarrow> logged_type" where
  "command_log_type (SendMessage _ _) = LtCommand ''SendMessage''"
| "command_log_type (ConnectToPeer _) = LtCommand ''ConnectToPeer''"
| "command_log_type CmdStartDiscovery = LtCommand ''StartDiscovery''"
| "command_log_type CmdStopDiscovery = LtCommand ''StopDiscovery''"
| "command_log_type (DisconnectFromPeer _) = LtCommand ''DisconnectFromPeer''"
| "command_log_type CmdShutdown = LtCommand ''Shutdown''"
| "command_log_type (CmdPauseTransport _) = LtCommand ''PauseTransport''"
| "command_log_type (CmdResumeTransport _) = LtCommand ''ResumeTransport''"
| "command_log_type GetSystemStatus = LtCommand ''GetSystemStatus''"
| "command_log_type (QueryMessageStatus _) = LtCommand ''QueryMessageStatus''"
| "command_log_type (QueryPeerSession _) = LtCommand ''QueryPeerSession''"
| "command_log_type (QueryDeliveryStatus _) = LtCommand ''QueryDeliveryStatus''"
| "command_log_type QueryInternalState = LtCommand ''QueryInternalState''"

fun event_log_type :: "transport_event \<Rightarrow> logged_type" where
  "event_log_type (EvPeerDiscovered _ _ _) = LtEvent ''PeerDiscovered''"
| "event_log_type (EvMessageReceived _ _ _ _ _ _ _) = LtEvent ''MessageReceived''"
| "event_log_type (EvBitchatPacketReceived _ _ _) = LtEvent ''BitchatPacketReceived''"
| "event_log_type (EvConnectionEstablished _ _) = LtEvent ''ConnectionEstablished''"
| "event_log_type (EvConnectionLost _ _ _) = LtEvent ''ConnectionLost''"
| "event_log_type (EvTransportError _ _) = LtEvent ''TransportError''"
| "event_log_type (EvHealthCheckCompleted _ _ _ _) = LtEvent ''TransportHealthCheckCompleted''"
| "event_log_type (EvMetricsUpdated _ _ _) = LtEvent ''TransportMetricsUpdated''"
| "event_log_type (EvFailoverOccurred _ _ _ _) = LtEvent ''TransportFailoverOccurred''"

fun effect_log_type :: "effect \<Rightarrow> logged_type" where
  "effect_log_type (SendPacket _ _ _) = LtEffect ''SendPacket''"
| "effect_log_type (SendBitchatPacket _ _ _) = LtEffect ''SendBitchatPacket''"
| "effect_log_type (BroadcastBitchatPacket _ _) = LtEffect ''BroadcastBitchatPacket''"
| "effect_log_type (EffInitiateConnection _ _) = LtEffect ''InitiateConnection''"
| "effect_log_type (StartListening _) = LtEffect ''StartListening''"
| "effect_log_type (StopListening _) = LtEffect ''StopListening''"
| "effect_log_type (WriteToStorage _ _) = LtEffect ''WriteToStorage''"
| "effect_log_type (ScheduleRetry _ _) = LtEffect ''ScheduleRetry''"
| "effect_log_type (EffStartTransportDiscovery _) = LtEffect ''StartTransportDiscovery''"
| "effect_log_type (EffStopTransportDiscovery _) = LtEffect ''StopTransportDiscovery''"
| "effect_log_type (EffPauseTransport _) = LtEffect ''PauseTransport''"
| "effect_log_type (EffResumeTransport _) = LtEffect ''ResumeTransport''"
| "effect_log_type (RequestTransportHealthCheck _ _) = LtEffect ''RequestTransportHealthCheck''"
| "effect_log_type (UpdateTransportMetrics _ _) = LtEffect ''UpdateTransportMetrics''"
| "effect_log_type (SwitchPrimaryTransport _ _ _) = LtEffect ''SwitchPrimaryTransport''"

fun app_event_log_type :: "app_event \<Rightarrow> logged_type" where
  "app_event_log_type (AppMessageReceived _ _ _) = LtAppEvent ''MessageReceived''"
| "app_event_log_type (AppMessageSent _ _ _) = LtAppEvent ''MessageSent''"
| "app_event_log_type (PeerStatusChanged _ _ _) = LtAppEvent ''PeerStatusChanged''"
| "app_event_log_type (DiscoveryStateChanged _ _) = LtAppEvent ''DiscoveryStateChanged''"
| "app_event_log_type (ConversationUpdated _ _ _) = LtAppEvent ''ConversationUpdated''"
| "app_event_log_type (SystemBusy _) = LtAppEvent ''SystemBusy''"
| "app_event_log_type (SystemError _) = LtAppEvent ''SystemError''"
| "app_event_log_type (SystemStatusReport _ _ _ _ _ _) = LtAppEvent ''SystemStatusReport''"
| "app_event_log_type (MessageStatusReport _ _ _ _ _ _) = LtAppEvent ''MessageStatusReport''"
| "app_event_log_type (PeerSessionReport _ _ _ _ _ _ _) = LtAppEvent ''PeerSessionReport''"
| "app_event_log_type (DeliveryStatusReport _ _ _ _) = LtAppEvent ''DeliveryStatusReport''"
| "app_event_log_type (InternalStateReport _ _ _ _ _ _ _) = LtAppEvent ''InternalStateReport''"

record comm_event =
  ce_timestamp :: u64
  ce_level :: task_log_level
  ce_from_task :: task_id
  ce_to_task :: task_id
  ce_direction :: comm_direction
  ce_message_type :: logged_type
  ce_channel_utilization :: "rat option"

record console_logger =
  cl_min_level :: task_log_level
  cl_include_timestamps :: bool

definition console_logger_new :: "task_log_level \<Rightarrow> console_logger" where
  "console_logger_new l = \<lparr>cl_min_level = l, cl_include_timestamps = True\<rparr>"

definition with_timestamps :: "bool \<Rightarrow> console_logger \<Rightarrow> console_logger" where
  "with_timestamps b l = l\<lparr>cl_include_timestamps := b\<rparr>"

fun position :: "'a \<Rightarrow> 'a list \<Rightarrow> nat option" where
  "position x [] = None"
| "position x (y # ys) = (if y = x then Some 0 else map_option Suc (position x ys))"

definition should_log :: "console_logger \<Rightarrow> task_log_level \<Rightarrow> bool" where
  "should_log l level =
     (let level_order = [LlTrace, LlDebug, LlInfo, LlWarn, LlError];
          min_index = (case position (cl_min_level l) level_order of Some i \<Rightarrow> i | None \<Rightarrow> 0);
          current_index = (case position level level_order of Some i \<Rightarrow> i | None \<Rightarrow> 0)
      in min_index \<le> current_index)"

text \<open>Whether the four operations of the logger print.\<close>

datatype log_operation = LogSend | LogReceive | LogDrop | LogTaskEvent task_log_level

fun logger_prints :: "console_logger \<Rightarrow> log_operation \<Rightarrow> bool" where
  "logger_prints l LogSend = should_log l LlDebug"
| "logger_prints l LogReceive = should_log l LlDebug"
| "logger_prints l LogDrop = should_log l LlWarn"
| "logger_prints l (LogTaskEvent level) = should_log l level"

section \<open>Utilisation of a channel\<close>

record task_monitoring_config =
  mc_max_comm_events :: nat
  mc_max_performance_samples :: nat
  mc_metrics_interval :: duration
  mc_track_channel_utilization :: bool
  mc_enable_health_monitoring :: bool
  mc_log_level :: task_log_level

definition task_monitoring_config_default :: task_monitoring_config where
  "task_monitoring_config_default =
     \<lparr>mc_max_comm_events = 1000, mc_max_performance_samples = 500, mc_metrics_interval = from_secs 1,
      mc_track_channel_utilization = True, mc_enable_health_monitoring = True, mc_log_level = LlInfo\<rparr>"

record channel_utilization =
  cu_channel_name :: rust_string
  cu_buffer_usage :: rat
  cu_send_rate :: rat
  cu_receive_rate :: rat
  cu_backpressure_events :: u64
  cu_avg_latency_ms :: rat
  cu_peak_usage :: rat
  cu_timestamp :: u64

definition channel_utilization_new :: "u64 \<Rightarrow> rust_string \<Rightarrow> channel_utilization" where
  "channel_utilization_new now name =
     \<lparr>cu_channel_name = name, cu_buffer_usage = 0, cu_send_rate = 0, cu_receive_rate = 0, cu_backpressure_events = 0,
      cu_avg_latency_ms = 0, cu_peak_usage = 0, cu_timestamp = now\<rparr>"

definition utilization_update ::
    "u64 \<Rightarrow> rat \<Rightarrow> u64 \<Rightarrow> u64 \<Rightarrow> u64 \<Rightarrow> rat \<Rightarrow> channel_utilization \<Rightarrow> channel_utilization" where
  "utilization_update now usage sent received backpressure latency u =
     (let elapsed = of_nat (unat (now - cu_timestamp u)) / 1000;
          u = (if 0 < elapsed
               then u\<lparr>cu_send_rate := of_nat (unat sent) / elapsed, cu_receive_rate := of_nat (unat received) / elapsed\<rparr>
               else u)
      in u\<lparr>cu_buffer_usage := usage, cu_backpressure_events := backpressure, cu_avg_latency_ms := latency,
           cu_peak_usage := max (cu_peak_usage u) usage, cu_timestamp := now\<rparr>)"

section \<open>Health of a task\<close>

datatype monitored_health = MhHealthy | MhWarning | MhCritical | MhUnresponsive

record task_metrics =
  tk_task_id :: task_id
  tk_health :: monitored_health
  tk_last_heartbeat :: u64
  tk_cpu_time_ms :: u64
  tk_memory_usage_bytes :: u64
  tk_messages_processed :: u64
  tk_error_count :: u64
  tk_avg_response_time_ms :: rat
  tk_uptime_seconds :: u64

definition task_metrics_new :: "u64 \<Rightarrow> task_id \<Rightarrow> task_metrics" where
  "task_metrics_new now tid =
     \<lparr>tk_task_id = tid, tk_health = MhHealthy, tk_last_heartbeat = now, tk_cpu_time_ms = 0,
      tk_memory_usage_bytes = 0, tk_messages_processed = 0, tk_error_count = 0, tk_avg_response_time_ms = 0,
      tk_uptime_seconds = 0\<rparr>"

definition calculate_health_status :: "u64 \<Rightarrow> task_metrics \<Rightarrow> monitored_health" where
  "calculate_health_status current_time k =
     (if 30000 < current_time - tk_last_heartbeat k then MhUnresponsive
      else
        (let error_rate =
               (if 0 < tk_messages_processed k
                then of_nat (unat (tk_error_count k)) / of_nat (unat (tk_messages_processed k)) else (0 :: rat))
         in if 1 / 10 < error_rate \<or> 5000 < tk_avg_response_time_ms k then MhCritical
            else if 5 / 100 < error_rate \<or> 1000 < tk_avg_response_time_ms k then MhWarning
            else MhHealthy))"

definition task_metrics_update :: "u64 \<Rightarrow> u64 \<Rightarrow> u64 \<Rightarrow> rat \<Rightarrow> task_metrics \<Rightarrow> task_metrics" where
  "task_metrics_update now messages errors response_time k =
     (let k = k\<lparr>tk_messages_processed := tk_messages_processed k + messages,
                tk_error_count := tk_error_count k + errors,
                tk_avg_response_time_ms := (tk_avg_response_time_ms k + response_time) / 2,
                tk_uptime_seconds := tk_uptime_seconds k + (now - tk_last_heartbeat k) div 1000,
                tk_last_heartbeat := now\<rparr>
      in k\<lparr>tk_health := calculate_health_status now k\<rparr>)"

section \<open>The monitoring system\<close>

record performance_metrics =
  pm_timestamp :: u64
  pm_throughput :: rat
  pm_avg_latency_ms :: rat
  pm_peak_latency_ms :: rat
  pm_memory_usage_mb :: rat
  pm_active_peers :: u32
  pm_active_transports :: u32
  pm_total_channel_utilization :: rat

definition performance_metrics_new :: "u64 \<Rightarrow> performance_metrics" where
  "performance_metrics_new now =
     \<lparr>pm_timestamp = now, pm_throughput = 0, pm_avg_latency_ms = 0, pm_peak_latency_ms = 0, pm_memory_usage_mb = 0,
      pm_active_peers = 0, pm_active_transports = 0, pm_total_channel_utilization = 0\<rparr>"

record enhanced_comm_event =
  ee_base_event :: comm_event
  ee_processing_latency_ms :: rat
  ee_queue_depth :: nat
  ee_dropped :: bool
  ee_retry_count :: u32

record monitoring_system =
  mo_config :: task_monitoring_config
  mo_comm_events :: "enhanced_comm_event list"
  mo_channel_utilization :: "(rust_string \<times> channel_utilization) list"
  mo_task_health :: "(task_id \<times> task_metrics) list"
  mo_performance_history :: "performance_metrics list"
  mo_start_time :: instant

definition monitoring_system_new :: "instant \<Rightarrow> task_monitoring_config \<Rightarrow> monitoring_system" where
  "monitoring_system_new now cfg =
     \<lparr>mo_config = cfg, mo_comm_events = [], mo_channel_utilization = [], mo_task_health = [],
      mo_performance_history = [], mo_start_time = now\<rparr>"

text \<open>The loop that makes room in a history. It may run forever, which is the value \<open>None\<close>; the front
  of an empty history is nothing.\<close>

partial_function (option) trim_history :: "nat \<Rightarrow> 'a list \<Rightarrow> 'a list option" where
  "trim_history limit xs = (if limit \<le> length xs then trim_history limit (tl xs) else Some xs)"

definition record_comm_event :: "enhanced_comm_event \<Rightarrow> monitoring_system \<Rightarrow> monitoring_system option" where
  "record_comm_event e m =
     map_option (\<lambda>es. m\<lparr>mo_comm_events := es @ [e]\<rparr>)
       (trim_history (mc_max_comm_events (mo_config m)) (mo_comm_events m))"

text \<open>The clock is read for a new entry and for the update.\<close>

definition update_channel_utilization ::
    "u64 \<times> u64 \<Rightarrow> rust_string \<Rightarrow> rat \<Rightarrow> u64 \<Rightarrow> u64 \<Rightarrow> u64 \<Rightarrow> rat \<Rightarrow> monitoring_system \<Rightarrow> monitoring_system" where
  "update_channel_utilization now name usage sent received backpressure latency m =
     (if \<not> mc_track_channel_utilization (mo_config m) then m
      else
        (let u = (case map_of (mo_channel_utilization m) name of
                    Some u \<Rightarrow> u | None \<Rightarrow> channel_utilization_new (fst now) name)
         in m\<lparr>mo_channel_utilization := map_put name
              (utilization_update (snd now) usage sent received backpressure latency u) (mo_channel_utilization m)\<rparr>))"

definition monitor_task_health :: "u64 \<times> u64 \<Rightarrow> task_id \<Rightarrow> u64 \<Rightarrow> u64 \<Rightarrow> rat \<Rightarrow> monitoring_system \<Rightarrow> monitoring_system" where
  "monitor_task_health now tid messages errors response_time m =
     (if \<not> mc_enable_health_monitoring (mo_config m) then m
      else
        (let k = (case map_of (mo_task_health m) tid of Some k \<Rightarrow> k | None \<Rightarrow> task_metrics_new (fst now) tid)
         in m\<lparr>mo_task_health := map_put tid (task_metrics_update (snd now) messages errors response_time k)
              (mo_task_health m)\<rparr>))"

definition record_performance_metrics :: "performance_metrics \<Rightarrow> monitoring_system \<Rightarrow> monitoring_system option" where
  "record_performance_metrics p m =
     map_option (\<lambda>ps. m\<lparr>mo_performance_history := ps @ [p]\<rparr>)
       (trim_history (mc_max_performance_samples (mo_config m)) (mo_performance_history m))"

definition get_recent_performance_metrics :: "nat \<Rightarrow> monitoring_system \<Rightarrow> performance_metrics list" where
  "get_recent_performance_metrics n m = take n (rev (mo_performance_history m))"

definition get_recent_comm_events :: "nat \<Rightarrow> monitoring_system \<Rightarrow> enhanced_comm_event list" where
  "get_recent_comm_events n m = take n (rev (mo_comm_events m))"

definition calculate_overall_health :: "monitoring_system \<Rightarrow> monitored_health" where
  "calculate_overall_health m =
     (let hs = map (tk_health \<circ> snd) (mo_task_health m);
          number = (\<lambda>h. length (filter (\<lambda>g. g = h) hs))
      in if hs = [] then MhWarning
         else if 0 < number MhUnresponsive \<or> 0 < number MhCritical then MhCritical
         else if 0 < number MhWarning then MhWarning
         else MhHealthy)"

record monitoring_report =
  mr_timestamp :: u64
  mr_uptime_seconds :: nat
  mr_channel_utilization :: "(rust_string \<times> channel_utilization) list"
  mr_task_health :: "(task_id \<times> task_metrics) list"
  mr_recent_performance :: "performance_metrics list"
  mr_overall_health :: monitored_health

definition generate_report :: "u64 \<Rightarrow> instant \<Rightarrow> monitoring_system \<Rightarrow> monitoring_report" where
  "generate_report now clock m =
     \<lparr>mr_timestamp = now, mr_uptime_seconds = (clock - mo_start_time m) div 1000000000,
      mr_channel_utilization = mo_channel_utilization m, mr_task_health = mo_task_health m,
      mr_recent_performance = get_recent_performance_metrics 10 m,
      mr_overall_health = calculate_overall_health m\<rparr>"

datatype deadlock_warning_type =
    HighChannelUtilization | MultipleUnresponsiveTasks | CircularWaitDetected | ResourceStarvation

record deadlock_warning =
  dw_type :: deadlock_warning_type
  dw_channel_name :: "rust_string option"
  dw_task_id :: "task_id option"

definition detect_potential_deadlocks :: "monitoring_system \<Rightarrow> deadlock_warning list" where
  "detect_potential_deadlocks m =
     concat (map (\<lambda>(name, u).
       if 9 / 10 < cu_buffer_usage u \<and> 10 < cu_backpressure_events u
       then map (\<lambda>(tid, k). \<lparr>dw_type = HighChannelUtilization, dw_channel_name = Some name, dw_task_id = Some tid\<rparr>)
              (filter (\<lambda>(tid, k). 5000 < tk_avg_response_time_ms k) (mo_task_health m))
       else []) (mo_channel_utilization m)) @
     (if 2 \<le> length (filter (\<lambda>(tid, k). tk_health k = MhUnresponsive) (mo_task_health m))
      then [\<lparr>dw_type = MultipleUnresponsiveTasks, dw_channel_name = None, dw_task_id = None\<rparr>]
      else [])"

definition record_heartbeat :: "u64 \<times> u64 \<Rightarrow> task_id \<Rightarrow> monitoring_system \<Rightarrow> monitoring_system" where
  "record_heartbeat now tid = monitor_task_health now tid 0 0 0"

definition record_message_processed :: "u64 \<times> u64 \<Rightarrow> task_id \<Rightarrow> rat \<Rightarrow> monitoring_system \<Rightarrow> monitoring_system" where
  "record_message_processed now tid time = monitor_task_health now tid 1 0 time"

definition record_error :: "u64 \<times> u64 \<Rightarrow> task_id \<Rightarrow> monitoring_system \<Rightarrow> monitoring_system" where
  "record_error now tid = monitor_task_health now tid 0 1 0"

section \<open>Statistics of a channel\<close>

datatype channel_error = ChannelFull | ChannelClosed | ReceiverDropped

record channel_stats =
  cs_channel_type :: string
  cs_buffer_size :: nat
  cs_messages_sent :: u64
  cs_messages_dropped :: u64
  cs_current_utilization :: u32

definition channel_stats_new :: "string \<Rightarrow> nat \<Rightarrow> channel_stats" where
  "channel_stats_new ty n =
     \<lparr>cs_channel_type = ty, cs_buffer_size = n, cs_messages_sent = 0, cs_messages_dropped = 0,
      cs_current_utilization = 0\<rparr>"

definition record_send_success :: "channel_stats \<Rightarrow> channel_stats" where
  "record_send_success s = s\<lparr>cs_messages_sent := cs_messages_sent s + 1\<rparr>"

definition record_send_dropped :: "channel_stats \<Rightarrow> channel_stats" where
  "record_send_dropped s = s\<lparr>cs_messages_dropped := cs_messages_dropped s + 1\<rparr>"

definition update_utilization :: "nat \<Rightarrow> channel_stats \<Rightarrow> channel_stats" where
  "update_utilization used s =
     s\<lparr>cs_current_utilization :=
         (if cs_buffer_size s = 0 then 0 else word_of_nat (used * 10000 div cs_buffer_size s))\<rparr>"

definition drop_rate :: "channel_stats \<Rightarrow> rat" where
  "drop_rate s =
     (let total = cs_messages_sent s + cs_messages_dropped s
      in if total = 0 then 0 else of_nat (unat (cs_messages_dropped s)) / of_nat (unat total))"

definition current_utilization :: "channel_stats \<Rightarrow> rat" where
  "current_utilization s = of_nat (unat (cs_current_utilization s)) / 10000"

section \<open>Histories\<close>

lemma trim_history_result:
  assumes "trim_history n xs = Some ys"
  shows "0 < n \<and> ys = drop (length xs + 1 - n) xs"
proof (rule trim_history.raw_induct [OF _ assms])
  fix loop :: "nat \<Rightarrow> 'a list \<Rightarrow> 'a list option" and n xs ys
  assume IH: "\<And>n xs ys. loop n xs = Some ys \<Longrightarrow> 0 < n \<and> ys = drop (length xs + 1 - n) xs"
    and eq: "(if n \<le> length xs then loop n (tl xs) else Some xs) = Some ys"
  show "0 < n \<and> ys = drop (length xs + 1 - n) xs"
  proof (cases "n \<le> length xs")
    case True
    with eq IH [of n "tl xs" ys] have "0 < n" "ys = drop (length (tl xs) + 1 - n) (tl xs)" by auto
    with True show ?thesis by (cases xs) (auto simp: Suc_diff_le)
  qed (use eq in auto)
qed

lemma trim_history_total: "0 < n \<Longrightarrow> \<exists>ys. trim_history n xs = Some ys"
proof (induction "length xs" arbitrary: xs rule: less_induct)
  case less
  show ?case
  proof (cases "n \<le> length xs")
    case True
    with less(2) have "length (tl xs) < length xs" by (cases xs) auto
    with less(1) [OF this less(2)] True show ?thesis by (subst trim_history.simps) simp
  qed (subst trim_history.simps, simp)
qed

lemma trim_history_eq:
  "trim_history n xs = (if n = 0 then None else Some (drop (length xs + 1 - n) xs))"
  using trim_history_result [of n xs] trim_history_total [of n xs] by (cases "trim_history n xs") auto

fun record_comm_events :: "enhanced_comm_event list \<Rightarrow> monitoring_system \<Rightarrow> monitoring_system option" where
  "record_comm_events [] m = Some m"
| "record_comm_events (e # es) m = Option.bind (record_comm_event e m) (record_comm_events es)"

lemma drop_snoc_window: "n \<le> length xs \<Longrightarrow> drop n xs @ ys = drop n (xs @ ys)"
  by simp

lemma record_comm_event_eq:
  "record_comm_event e m =
     (if mc_max_comm_events (mo_config m) = 0 then None
      else Some (m\<lparr>mo_comm_events :=
        drop (length (mo_comm_events m) + 1 - mc_max_comm_events (mo_config m)) (mo_comm_events m @ [e])\<rparr>))"
  by (auto simp: record_comm_event_def trim_history_eq)

lemma record_comm_events_eq:
  assumes "0 < mc_max_comm_events (mo_config m)" and "length (mo_comm_events m) \<le> mc_max_comm_events (mo_config m)"
  shows "record_comm_events es m = Some (m\<lparr>mo_comm_events :=
     drop (length (mo_comm_events m @ es) - mc_max_comm_events (mo_config m)) (mo_comm_events m @ es)\<rparr>)"
  using assms
proof (induction es arbitrary: m)
  case (Cons e es)
  let ?n = "mc_max_comm_events (mo_config m)" and ?xs = "mo_comm_events m"
  let ?ys = "drop (length ?xs + 1 - ?n) (?xs @ [e])"
  have "length ?ys \<le> ?n" by simp
  with Cons.IH [of "m\<lparr>mo_comm_events := ?ys\<rparr>"] Cons.prems(1)
  have "record_comm_events (e # es) m =
      Some (m\<lparr>mo_comm_events := drop (length (?ys @ es) - ?n) (?ys @ es)\<rparr>)"
    by (simp add: record_comm_event_eq)
  moreover have "?ys @ es = drop (length ?xs + 1 - ?n) (?xs @ e # es)"
    using Cons.prems by (subst drop_append) auto
  moreover have "length (?ys @ es) - ?n + (length ?xs + 1 - ?n) = length (?xs @ e # es) - ?n"
    using Cons.prems by simp
  ultimately show ?case by (simp only: drop_drop)
qed simp

text \<open>C25: The log of the communication is a window: after any events it holds the last \<open>max_comm_events\<close> of
  them, oldest first. With a limit of zero the first event is never recorded and its sender hangs.\<close>

theorem comm_history_window:
  "record_comm_events es (monitoring_system_new now cfg) =
     (if mc_max_comm_events cfg = 0 \<and> es \<noteq> [] then None
      else Some ((monitoring_system_new now cfg)\<lparr>mo_comm_events := drop (length es - mc_max_comm_events cfg) es\<rparr>))"
proof (cases "mc_max_comm_events cfg = 0")
  case True
  then show ?thesis
    by (cases es) (simp_all add: record_comm_event_eq monitoring_system_new_def)
next
  case False
  then show ?thesis
    using record_comm_events_eq [of "monitoring_system_new now cfg" es] by (simp add: monitoring_system_new_def)
qed

section \<open>No task is ever found unresponsive\<close>

datatype monitor_op =
    MoTask "u64 \<times> u64" task_id u64 u64 rat
  | MoChannel "u64 \<times> u64" rust_string rat u64 u64 u64 rat
  | MoComm enhanced_comm_event
  | MoPerformance performance_metrics

fun monitor_apply :: "monitor_op \<Rightarrow> monitoring_system \<Rightarrow> monitoring_system option" where
  "monitor_apply (MoTask now tid messages errors time) m = Some (monitor_task_health now tid messages errors time m)"
| "monitor_apply (MoChannel now name usage sent received backpressure latency) m =
     Some (update_channel_utilization now name usage sent received backpressure latency m)"
| "monitor_apply (MoComm e) m = record_comm_event e m"
| "monitor_apply (MoPerformance p) m = record_performance_metrics p m"

fun monitor_run :: "monitor_op list \<Rightarrow> monitoring_system \<Rightarrow> monitoring_system option" where
  "monitor_run [] m = Some m"
| "monitor_run (x # xs) m = Option.bind (monitor_apply x m) (monitor_run xs)"

definition monitoring_inv :: "monitoring_system \<Rightarrow> bool" where
  "monitoring_inv m \<longleftrightarrow>
     0 < mc_max_comm_events (mo_config m) \<and> 0 < mc_max_performance_samples (mo_config m) \<and>
     length (mo_comm_events m) \<le> mc_max_comm_events (mo_config m) \<and>
     length (mo_performance_history m) \<le> mc_max_performance_samples (mo_config m) \<and>
     (\<forall>k\<in>snd ` set (mo_task_health m). tk_health k \<noteq> MhUnresponsive)"

lemma update_responsive: "tk_health (task_metrics_update now messages errors time k) \<noteq> MhUnresponsive"
  by (simp add: task_metrics_update_def calculate_health_status_def Let_def)

lemma set_map_put: "snd ` set (map_put k v m) \<subseteq> insert v (snd ` set m)"
  by (induction m) auto

lemma monitor_apply_inv:
  assumes "monitoring_inv m"
  shows "\<exists>m'. monitor_apply x m = Some m' \<and> monitoring_inv m' \<and> mo_config m' = mo_config m"
proof (cases x)
  case (MoTask now tid messages errors time)
  then show ?thesis
    using assms set_map_put [of tid _ "mo_task_health m"] update_responsive
    by (fastforce simp: monitor_task_health_def monitoring_inv_def Let_def)
qed (use assms in \<open>auto simp: update_channel_utilization_def record_comm_event_def record_performance_metrics_def
  trim_history_eq monitoring_inv_def Let_def\<close>)

text \<open>With positive limits every sequence of reports is recorded: the histories stay within their limits, and
  no task is ever found unresponsive, however long it has been silent, so the warning about
  unresponsive tasks is never given.\<close>

theorem monitoring_never_unresponsive:
  assumes "0 < mc_max_comm_events cfg" and "0 < mc_max_performance_samples cfg"
  shows "\<exists>m. monitor_run ops (monitoring_system_new now cfg) = Some m \<and>
     length (mo_comm_events m) \<le> mc_max_comm_events cfg \<and>
     length (mo_performance_history m) \<le> mc_max_performance_samples cfg \<and>
     MhUnresponsive \<notin> (tk_health \<circ> snd) ` set (mo_task_health m) \<and>
     MultipleUnresponsiveTasks \<notin> dw_type ` set (detect_potential_deadlocks m)"
proof -
  have run: "\<exists>m'. monitor_run ops m = Some m' \<and> monitoring_inv m' \<and> mo_config m' = mo_config m"
    if "monitoring_inv m" for m
    using that
  proof (induction ops arbitrary: m)
    case (Cons x ops)
    then show ?case using monitor_apply_inv [OF Cons.prems, of x] by fastforce
  qed simp
  have "monitoring_inv (monitoring_system_new now cfg)"
    using assms by (simp add: monitoring_inv_def monitoring_system_new_def)
  then obtain m where m: "monitor_run ops (monitoring_system_new now cfg) = Some m" "monitoring_inv m" "mo_config m = cfg"
    using run [OF \<open>monitoring_inv (monitoring_system_new now cfg)\<close>] by (auto simp: monitoring_system_new_def)
  then have "filter (\<lambda>(tid, k). tk_health k = MhUnresponsive) (mo_task_health m) = []"
    by (auto simp: monitoring_inv_def filter_empty_conv)
  then have "MultipleUnresponsiveTasks \<notin> dw_type ` set (detect_potential_deadlocks m)"
    by (auto simp: detect_potential_deadlocks_def split: if_splits)
  then show ?thesis using m by (auto simp: monitoring_inv_def)
qed

theorem monitoring_never_unresponsive_witness:
  "\<exists>m. monitor_run [MoTask (0, 0) UI 1 0 0, MoTask (0, 900000000) CoreLogic 1 0 0]
       (monitoring_system_new 0 task_monitoring_config_default) = Some m \<and>
     MhUnresponsive \<notin> (tk_health \<circ> snd) ` set (mo_task_health m)"
  using monitoring_never_unresponsive [of task_monitoring_config_default
      "[MoTask (0, 0) UI 1 0 0, MoTask (0, 900000000) CoreLogic 1 0 0]" 0]
  by (auto simp: task_monitoring_config_default_def)

end
