(* ===== verification/Nostr_Embedding.thy ===== *)
theory Nostr_Embedding
  imports Wire App_Message
begin

text \<open>
  Packets inside Nostr events: the embedding of packets in text
  (\<^verbatim>\<open>src/crates/bitchat-nostr/src/embedding.rs\<close>), the content of NIP-17 messages
  (\<^verbatim>\<open>src/crates/bitchat-nostr/src/nip17.rs\<close>), the wrapper for custom events
  (\<^verbatim>\<open>src/crates/bitchat-nostr/src/message.rs\<close>) and the configuration of the transport
  (\<^verbatim>\<open>src/crates/bitchat-nostr/src/config.rs\<close>), in the configuration for platforms other than WASM.

  Base64, bincode, SHA-256 and the key type of \<^verbatim>\<open>nostr_sdk\<close> are third-party code and arguments of
  the model; random lengths and bytes and the clock readings are arguments too. \<open>ne_show\<close> is the text an
  error is displayed with.
\<close>

section \<open>Errors\<close>

datatype nostr_error =
    RelayConnectionFailed string string
  | EventSendFailed string
  | SerializationFailed string
  | KeyOperationFailed string
  | DeserializationFailed string
  | InvalidRelayUrl string
  | ClientNotInitialized
  | NostrMessageTooLarge nat nat
  | NostrEncryptionFailed string
  | ReceiveChannelClosed
  | UnknownPeer peer_id
  | ConfigurationError string
  | NostrConnectionFailed string

text \<open>As for the core, a panic is not an error.\<close>

datatype nostr_fault = NostrErr nostr_error | NostrPanic

record embedding_env =
  ne_b64_encode :: "bytes \<Rightarrow> rust_string"
  ne_b64_decode :: "rust_string \<Rightarrow> string + bytes"
  ne_show :: "fault \<Rightarrow> string"

text \<open>The documented contract of the base64 engine.\<close>

definition base64_inverse :: "embedding_env \<Rightarrow> bool" where
  "base64_inverse env \<longleftrightarrow> (\<forall>b. ne_b64_decode env (ne_b64_encode env b) = Inr b)"

definition wrap_error :: "embedding_env \<Rightarrow> string \<Rightarrow> 'a result \<Rightarrow> 'a result" where
  "wrap_error env before r =
     (case r of
        Inr x \<Rightarrow> Inr x
      | Inl Panic \<Rightarrow> Inl Panic
      | Inl e \<Rightarrow> Inl (invalid_packet (before @ ne_show env e)))"

definition wrap_nostr :: "embedding_env \<Rightarrow> string \<Rightarrow> 'a result \<Rightarrow> nostr_fault + 'a" where
  "wrap_nostr env before r =
     (case r of
        Inr x \<Rightarrow> Inr x
      | Inl Panic \<Rightarrow> Inl NostrPanic
      | Inl e \<Rightarrow> Inl (NostrErr (DeserializationFailed (before @ ne_show env e))))"

section \<open>Configuration\<close>

datatype embedding_strategy = EmbedPrivateMessage | PublicGeohash | CustomKind u16

definition embedding_strategy_default :: embedding_strategy where
  "embedding_strategy_default = EmbedPrivateMessage"

record embedding_config =
  default_strategy :: embedding_strategy
  enable_padding :: bool
  max_padding_bytes :: nat
  enable_timing_jitter :: bool
  max_timing_jitter_ms :: u64

definition embedding_config_default :: embedding_config where
  "embedding_config_default =
     \<lparr>default_strategy = EmbedPrivateMessage, enable_padding = False, max_padding_bytes = 128,
      enable_timing_jitter = False, max_timing_jitter_ms = 1000\<rparr>"

definition privacy_focused :: embedding_config where
  "privacy_focused =
     \<lparr>default_strategy = EmbedPrivateMessage, enable_padding = True, max_padding_bytes = 256,
      enable_timing_jitter = True, max_timing_jitter_ms = 2000\<rparr>"

definition performance_focused :: embedding_config where
  "performance_focused =
     \<lparr>default_strategy = EmbedPrivateMessage, enable_padding = False, max_padding_bytes = 0,
      enable_timing_jitter = False, max_timing_jitter_ms = 0\<rparr>"

text \<open>\<open>pad\<close> holds the random padding bytes; their number is the random padding length, at most
  \<open>max_padding_bytes\<close>.\<close>

definition apply_padding :: "embedding_config \<Rightarrow> bytes \<Rightarrow> bytes \<Rightarrow> bytes" where
  "apply_padding cfg pad data =
     (if \<not> enable_padding cfg \<or> max_padding_bytes cfg = 0 then data
      else if length pad = 0 then data
      else data @ [word_of_nat (length pad)] @ pad)"

text \<open>The search for the length byte, from the end.\<close>

fun find_padding :: "bytes \<Rightarrow> nat list \<Rightarrow> nat option" where
  "find_padding bs [] = None"
| "find_padding bs (k # ks) =
     (if length bs < k + 1 then find_padding bs ks
      else if unat (bs ! (length bs - k - 1)) = k then Some (length bs - k - 1)
      else find_padding bs ks)"

definition remove_padding :: "embedding_config \<Rightarrow> bytes \<Rightarrow> nostr_fault + bytes" where
  "remove_padding cfg bs =
     (if \<not> enable_padding cfg \<or> bs = [] then Inr bs
      else if length bs < 2 then Inr bs
      else case find_padding bs [1..<Suc (min (max_padding_bytes cfg) (length bs - 1))] of
             Some pos \<Rightarrow> Inr (take pos bs)
           | None \<Rightarrow> Inr bs)"

definition get_timing_jitter :: "embedding_config \<Rightarrow> u64 \<Rightarrow> u64" where
  "get_timing_jitter cfg jitter =
     (if \<not> enable_timing_jitter cfg \<or> max_timing_jitter_ms cfg = 0 then 0 else jitter)"

definition embedding_validate :: "embedding_config \<Rightarrow> string + unit" where
  "embedding_validate cfg =
     (if 2048 < max_padding_bytes cfg then Inl ''max_padding_bytes exceeds reasonable limit (2048)''
      else if 60000 < max_timing_jitter_ms cfg then Inl ''max_timing_jitter_ms exceeds reasonable limit (60s)''
      else Inr ())"

section \<open>Embedding\<close>

text \<open>The bytes of \<^verbatim>\<open>bitchat1:\<close>.\<close>

definition BITCHAT_EMBEDDING_PREFIX :: rust_string where
  "BITCHAT_EMBEDDING_PREFIX = [0x62, 0x69, 0x74, 0x63, 0x68, 0x61, 0x74, 0x31, 0x3A]"

definition is_bitchat_content :: "rust_string \<Rightarrow> bool" where
  "is_bitchat_content content = (take (length BITCHAT_EMBEDDING_PREFIX) content = BITCHAT_EMBEDDING_PREFIX)"

definition encode_packet_to_nostr :: "embedding_env \<Rightarrow> bitchat_packet \<Rightarrow> rust_string result" where
  "encode_packet_to_nostr env p =
     rbind (wrap_error env ''Failed to encode packet: '' (wire_encode p)) (\<lambda>b.
       Inr (BITCHAT_EMBEDDING_PREFIX @ ne_b64_encode env b))"

definition encode_pm_for_nostr_with_config ::
    "embedding_env \<Rightarrow> timestamp \<Rightarrow> bytes \<Rightarrow> peer_id \<Rightarrow> peer_id \<Rightarrow> noise_payload \<Rightarrow> embedding_config
     \<Rightarrow> rust_string result" where
  "encode_pm_for_nostr_with_config env now pad sender recipient np cfg =
     rbind (packet_new NoiseEncrypted sender (Some recipient) now
              (apply_padding cfg pad (noise_payload_to_binary np)) PF_NONE) (encode_packet_to_nostr env)"

definition encode_pm_for_nostr ::
    "embedding_env \<Rightarrow> timestamp \<Rightarrow> bytes \<Rightarrow> peer_id \<Rightarrow> peer_id \<Rightarrow> noise_payload \<Rightarrow> rust_string result" where
  "encode_pm_for_nostr env now pad sender recipient np =
     encode_pm_for_nostr_with_config env now pad sender recipient np embedding_config_default"

definition encode_pm_for_nostr_no_recipient_with_config ::
    "embedding_env \<Rightarrow> timestamp \<Rightarrow> bytes \<Rightarrow> peer_id \<Rightarrow> noise_payload \<Rightarrow> embedding_config
     \<Rightarrow> rust_string result" where
  "encode_pm_for_nostr_no_recipient_with_config env now pad sender np cfg =
     rbind (packet_new NoiseEncrypted sender None now
              (apply_padding cfg pad (noise_payload_to_binary np)) PF_NONE) (encode_packet_to_nostr env)"

definition encode_pm_for_nostr_no_recipient ::
    "embedding_env \<Rightarrow> timestamp \<Rightarrow> bytes \<Rightarrow> peer_id \<Rightarrow> noise_payload \<Rightarrow> rust_string result" where
  "encode_pm_for_nostr_no_recipient env now pad sender np =
     encode_pm_for_nostr_no_recipient_with_config env now pad sender np embedding_config_default"

fun is_ack_type :: "noise_payload_type \<Rightarrow> bool" where
  "is_ack_type Delivered = True"
| "is_ack_type ReadReceipt = True"
| "is_ack_type t = False"

definition encode_ack_for_nostr ::
    "embedding_env \<Rightarrow> timestamp \<Rightarrow> peer_id \<Rightarrow> peer_id \<Rightarrow> noise_payload \<Rightarrow> rust_string result" where
  "encode_ack_for_nostr env now sender recipient np =
     (if \<not> is_ack_type (payload_type np)
      then Inl (invalid_packet ''Payload must be a delivery acknowledgment or read receipt'')
      else rbind (packet_new NoiseEncrypted sender (Some recipient) now (noise_payload_to_binary np) PF_NONE)
             (encode_packet_to_nostr env))"

definition encode_ack_for_nostr_no_recipient ::
    "embedding_env \<Rightarrow> timestamp \<Rightarrow> peer_id \<Rightarrow> noise_payload \<Rightarrow> rust_string result" where
  "encode_ack_for_nostr_no_recipient env now sender np =
     (if \<not> is_ack_type (payload_type np)
      then Inl (invalid_packet ''Payload must be a delivery acknowledgment or read receipt'')
      else rbind (packet_new NoiseEncrypted sender None now (noise_payload_to_binary np) PF_NONE)
             (encode_packet_to_nostr env))"

definition decode_from_nostr ::
    "embedding_env \<Rightarrow> rust_string \<Rightarrow> nostr_fault + bitchat_packet option" where
  "decode_from_nostr env content =
     (if \<not> is_bitchat_content content then Inr None
      else case ne_b64_decode env (drop (length BITCHAT_EMBEDDING_PREFIX) content) of
             Inl e \<Rightarrow> Inl (NostrErr (DeserializationFailed (''Invalid base64url: '' @ e)))
           | Inr b \<Rightarrow>
             (case wrap_nostr env ''Invalid wire format: '' (wire_decode b) of
                Inl e \<Rightarrow> Inl e
              | Inr p \<Rightarrow> Inr (Some p)))"

definition extract_noise_payload_with_config ::
    "embedding_env \<Rightarrow> bool \<Rightarrow> bitchat_packet \<Rightarrow> embedding_config \<Rightarrow> nostr_fault + noise_payload" where
  "extract_noise_payload_with_config env experimental p cfg =
     (if payload p = [] then Inl (NostrErr (DeserializationFailed ''Empty packet payload''))
      else case remove_padding cfg (payload p) of
             Inl e \<Rightarrow> Inl e
           | Inr bs \<Rightarrow> wrap_nostr env ''Failed to deserialize NoisePayload: ''
                        (noise_payload_from_binary experimental bs))"

definition extract_noise_payload ::
    "embedding_env \<Rightarrow> bool \<Rightarrow> bitchat_packet \<Rightarrow> nostr_fault + noise_payload" where
  "extract_noise_payload env experimental p =
     extract_noise_payload_with_config env experimental p embedding_config_default"

fun recommended_strategy :: "noise_payload_type \<Rightarrow> bool \<Rightarrow> embedding_strategy" where
  "recommended_strategy PrivateMessage True = PublicGeohash"
| "recommended_strategy t is_geohash = EmbedPrivateMessage"

section \<open>NIP-17 content\<close>

text \<open>Here the environment holds the base64 engine with padding.\<close>

record nip17_content =
  n17_content :: rust_string
  n17_expiration :: "int option"

definition from_bitchat_packet :: "embedding_env \<Rightarrow> bitchat_packet \<Rightarrow> nip17_content result" where
  "from_bitchat_packet env p =
     rbind (wrap_error env ''Failed to encode packet: '' (wire_encode p)) (\<lambda>b.
       Inr \<lparr>n17_content = BITCHAT_EMBEDDING_PREFIX @ ne_b64_encode env b, n17_expiration = None\<rparr>)"

definition to_bitchat_packet :: "embedding_env \<Rightarrow> nip17_content \<Rightarrow> nostr_fault + bitchat_packet option" where
  "to_bitchat_packet env c =
     (if \<not> is_bitchat_content (n17_content c) then Inr None
      else case ne_b64_decode env (drop (length BITCHAT_EMBEDDING_PREFIX) (n17_content c)) of
             Inl e \<Rightarrow> Inl (NostrErr (DeserializationFailed (''Invalid base64: '' @ e)))
           | Inr b \<Rightarrow>
             (case wrap_nostr env ''Invalid wire format: '' (wire_decode b) of
                Inl e \<Rightarrow> Inl e
              | Inr p \<Rightarrow> Inr (Some p)))"

text \<open>The bytes of \<^verbatim>\<open>bitchat_nostr_pubkey:\<close> and \<^verbatim>\<open>bitchat_peer_id:\<close>.\<close>

definition pubkey_context :: bytes where
  "pubkey_context = map of_char ''bitchat_nostr_pubkey:''"

definition peer_id_context :: bytes where
  "peer_id_context = map of_char ''bitchat_peer_id:''"

definition peer_id_to_pubkey ::
    "(bytes \<Rightarrow> bytes) \<Rightarrow> (bytes \<Rightarrow> string + 'k) \<Rightarrow> peer_id \<Rightarrow> nostr_fault + 'k" where
  "peer_id_to_pubkey sha256 from_slice pid =
     (case from_slice (sha256 (pubkey_context @ pid)) of
        Inr k \<Rightarrow> Inr k
      | Inl e \<Rightarrow> Inl (NostrErr (KeyOperationFailed (''Invalid public key: '' @ e))))"

definition pubkey_to_peer_id :: "(bytes \<Rightarrow> bytes) \<Rightarrow> ('k \<Rightarrow> bytes) \<Rightarrow> 'k \<Rightarrow> nostr_fault + peer_id" where
  "pubkey_to_peer_id sha256 to_bytes k = Inr (take 8 (sha256 (peer_id_context @ to_bytes k)))"

section \<open>Messages in custom events\<close>

record bitchat_nostr_message =
  sender_peer_id :: peer_id
  recipient_peer_id :: "peer_id option"
  nm_data :: rust_string
  nm_timestamp :: u64

definition nostr_message_new ::
    "embedding_env \<Rightarrow> u64 \<Rightarrow> peer_id \<Rightarrow> peer_id option \<Rightarrow> bytes \<Rightarrow> bitchat_nostr_message" where
  "nostr_message_new env now sender recipient data =
     \<lparr>sender_peer_id = sender, recipient_peer_id = recipient, nm_data = ne_b64_encode env data, nm_timestamp = now\<rparr>"

definition to_data :: "embedding_env \<Rightarrow> bitchat_nostr_message \<Rightarrow> nostr_fault + bytes" where
  "to_data env m =
     (case ne_b64_decode env (nm_data m) of
        Inr b \<Rightarrow> Inr b
      | Inl e \<Rightarrow> Inl (NostrErr (DeserializationFailed e)))"

definition to_nostr_content ::
    "embedding_env \<Rightarrow> (bitchat_nostr_message \<Rightarrow> string + bytes) \<Rightarrow> bitchat_nostr_message
     \<Rightarrow> nostr_fault + rust_string" where
  "to_nostr_content env serialize m =
     (case serialize m of
        Inr b \<Rightarrow> Inr (ne_b64_encode env b)
      | Inl e \<Rightarrow> Inl (NostrErr (SerializationFailed e)))"

definition from_nostr_content ::
    "embedding_env \<Rightarrow> (bytes \<Rightarrow> string + bitchat_nostr_message) \<Rightarrow> rust_string
     \<Rightarrow> nostr_fault + bitchat_nostr_message" where
  "from_nostr_content env deserialize content =
     (case ne_b64_decode env content of
        Inl e \<Rightarrow> Inl (NostrErr (DeserializationFailed e))
      | Inr b \<Rightarrow>
        (case deserialize b of
           Inr m \<Rightarrow> Inr m
         | Inl e \<Rightarrow> Inl (NostrErr (SerializationFailed e))))"

definition is_for_peer :: "peer_id \<Rightarrow> bitchat_nostr_message \<Rightarrow> bool" where
  "is_for_peer pid m = (case recipient_peer_id m of Some r \<Rightarrow> r = pid | None \<Rightarrow> True)"

definition nostr_is_broadcast :: "bitchat_nostr_message \<Rightarrow> bool" where
  "nostr_is_broadcast m = (recipient_peer_id m = None)"

section \<open>Configuration of the transport\<close>

record nostr_relay_config =
  nr_url :: string
  nr_connection_timeout :: duration
  nr_read_only :: bool

definition nostr_relay_config_new :: "string \<Rightarrow> nostr_relay_config" where
  "nostr_relay_config_new url = \<lparr>nr_url = url, nr_connection_timeout = from_secs 10, nr_read_only = False\<rparr>"

record 'k nostr_config =
  nc_relays :: "nostr_relay_config list"
  nc_connection_timeout :: duration
  nc_message_timeout :: duration
  nc_max_data_size :: nat
  nc_auto_reconnect :: bool
  nc_reconnect_interval :: duration
  nc_private_key :: "'k option"

definition nostr_config_default :: "'k \<Rightarrow> 'k nostr_config" where
  "nostr_config_default generated =
     \<lparr>nc_relays = map nostr_relay_config_new
        [''wss://relay.damus.io'', ''wss://nos.lol'', ''wss://relay.nostr.band''],
      nc_connection_timeout = from_secs 10, nc_message_timeout = from_secs 30, nc_max_data_size = 64000,
      nc_auto_reconnect = True, nc_reconnect_interval = from_secs 5, nc_private_key = Some generated\<rparr>"

definition default_with_relay :: "'k \<Rightarrow> string \<Rightarrow> 'k nostr_config" where
  "default_with_relay generated url =
     \<lparr>nc_relays = [nostr_relay_config_new url], nc_connection_timeout = from_secs 5,
      nc_message_timeout = from_secs 10, nc_max_data_size = 64000, nc_auto_reconnect = True,
      nc_reconnect_interval = from_secs 2, nc_private_key = Some generated\<rparr>"

definition local_development :: "'k \<Rightarrow> 'k nostr_config" where
  "local_development generated = default_with_relay generated ''ws://localhost:7777''"

definition with_private_key :: "'k \<Rightarrow> 'k \<Rightarrow> 'k nostr_config" where
  "with_private_key generated keys = (nostr_config_default generated)\<lparr>nc_private_key := Some keys\<rparr>"

definition get_or_generate_keys :: "'k \<Rightarrow> 'k nostr_config \<Rightarrow> 'k nostr_config \<times> 'k" where
  "get_or_generate_keys generated cfg =
     (case nc_private_key cfg of
        Some k \<Rightarrow> (cfg, k)
      | None \<Rightarrow> (cfg\<lparr>nc_private_key := Some generated\<rparr>, generated))"

definition nostr_add_relay :: "string \<Rightarrow> 'k nostr_config \<Rightarrow> 'k nostr_config" where
  "nostr_add_relay url cfg = cfg\<lparr>nc_relays := nc_relays cfg @ [nostr_relay_config_new url]\<rparr>"

section \<open>Lemmas\<close>

lemma is_bitchat_content_prefix: "is_bitchat_content (BITCHAT_EMBEDDING_PREFIX @ s)"
  by (simp add: is_bitchat_content_def)

lemma embedded_packet_decodes:
  assumes "base64_inverse env" and "packet_wf p" and "version (header p) = PROTOCOL_VERSION_1"
    and "wire_encode p = Inr b"
  shows "encode_packet_to_nostr env p = Inr (BITCHAT_EMBEDDING_PREFIX @ ne_b64_encode env b)"
    and "decode_from_nostr env (BITCHAT_EMBEDDING_PREFIX @ ne_b64_encode env b) = Inr (Some p)"
proof -
  have "wire_decode b = Inr p" using assms(2-4) by (intro wire_v1.dec_enc) (simp_all add: valid_v1_def)
  then show "decode_from_nostr env (BITCHAT_EMBEDDING_PREFIX @ ne_b64_encode env b) = Inr (Some p)"
    using assms(1) by (simp add: decode_from_nostr_def is_bitchat_content_prefix base64_inverse_def wrap_nostr_def)
  show "encode_packet_to_nostr env p = Inr (BITCHAT_EMBEDDING_PREFIX @ ne_b64_encode env b)"
    using assms(4) by (simp add: encode_packet_to_nostr_def wrap_error_def)
qed

lemma new_packet_wire:
  assumes "packet_new mt sender rid now pl PF_NONE = Inr p" and "length sender = 8"
    and "\<And>r. rid = Some r \<Longrightarrow> length r = 8"
  shows "packet_wf p" and "version (header p) = PROTOCOL_VERSION_1" and "payload p = pl" and "sender_id p = sender"
    and "recipient_id p = rid" and "is_ok (wire_encode p) \<longleftrightarrow> length pl \<le> 255"
proof -
  from assms(1) have p: "p = \<lparr>header = header_new mt TTL_DEFAULT now
        (if rid \<noteq> None then flags_with_recipient PF_NONE else PF_NONE) (word_of_nat (length pl)),
      sender_id = sender, recipient_id = rid, route = None, payload = pl, signature = None\<rparr>"
    by (simp add: packet_new_def Let_def)
  show "packet_wf p" "version (header p) = PROTOCOL_VERSION_1" "payload p = pl" "sender_id p = sender"
    "recipient_id p = rid"
    using assms(2,3) by (simp_all add: p packet_wf_def header_new_def CURRENT_PROTOCOL_VERSION_def)
  have "length pl = unat (word_of_nat (length pl) :: u32) \<and> unat (word_of_nat (length pl) :: u32) \<le> 255 \<longleftrightarrow>
      length pl \<le> 255"
    by (auto simp: unat_of_nat)
  then have valid: "packet_validate p = Inr () \<longleftrightarrow> length pl \<le> 255"
    by (auto simp: packet_validate_ok p header_validate_ok header_new_def CURRENT_PROTOCOL_VERSION_def
        PROTOCOL_VERSION_1_def PROTOCOL_VERSION_2_def packet_flag_defs packet_flag_consts)
  have "is_ok (wire_encode p)" if ok: "packet_validate p = Inr ()"
  proof -
    from ok valid have "is_ok (header_to_bytes (header p))"
      by (subst header_to_bytes_v1) (simp_all add: p header_new_def CURRENT_PROTOCOL_VERSION_def unat_of_nat)
    with ok show ?thesis
      by (auto simp: wire_encode_def is_ok_iff rbind_eq_Inr p encode_recipient_def encode_route_def
          encode_signature_def header_new_def packet_flag_defs packet_flag_consts split: option.split)
  qed
  moreover have "packet_validate p = Inr ()" if "is_ok (wire_encode p)"
    using that by (auto simp: wire_encode_def is_ok_iff rbind_eq_Inr)
  ultimately show "is_ok (wire_encode p) \<longleftrightarrow> length pl \<le> 255" using valid by blast
qed

lemma wire_encode_no_panic: "wire_encode p \<noteq> Inl Panic"
  by (auto simp: wire_encode_def rbind_eq_Inl packet_validate_def header_validate_def header_to_bytes_def
      encode_recipient_def encode_route_def encode_signature_def Let_def split: if_splits option.splits)

lemma find_padding_None: "find_padding bs ks = None \<longleftrightarrow> (\<forall>k\<in>set ks. k < length bs \<longrightarrow> unat (bs ! (length bs - k - 1)) \<noteq> k)"
  by (induction ks) auto

lemma find_padding_append:
  "find_padding bs (ks @ ls) = (case find_padding bs ks of None \<Rightarrow> find_padding bs ls | Some p \<Rightarrow> Some p)"
  by (induction ks) auto

lemma find_padding_Some:
  "find_padding bs ks = Some pos \<Longrightarrow> \<exists>k\<in>set ks. k < length bs \<and> pos = length bs - k - 1 \<and> unat (bs ! pos) = k"
  by (induction ks) (auto split: if_splits)

lemma find_padding_padded:
  fixes data pad :: bytes
  defines "bs \<equiv> data @ [word_of_nat (length pad)] @ pad"
  assumes "pad \<noteq> []" and "length pad \<le> m" and "m < length bs"
  shows "find_padding bs [1..<Suc m] = Some (length data) \<longleftrightarrow>
    length pad < 256 \<and> (\<forall>k\<in>{1..<length pad}. unat (pad ! (length pad - k - 1)) \<noteq> k)"
proof -
  let ?n = "length pad"
  have len: "length bs = length data + 1 + ?n" by (simp add: bs_def)
  have split: "[1..<Suc m] = [1..<?n] @ ?n # [Suc ?n..<Suc m]"
    using assms(2,3) upt_add_eq_append [of 1 ?n "Suc m - ?n"] upt_conv_Cons [of ?n "Suc m"] by (cases pad) simp_all
  have at: "bs ! (length bs - k - 1) = pad ! (?n - k - 1)" if "k < ?n" for k
  proof -
    have "length bs - k - 1 = length (data @ [word_of_nat ?n]) + (?n - k - 1)" using that by (simp add: bs_def)
    then show ?thesis unfolding bs_def by (metis append_assoc nth_append_length_plus)
  qed
  have mid: "unat (bs ! (length bs - ?n - 1)) = ?n \<longleftrightarrow> ?n < 256"
    by (simp add: bs_def nth_append unat_of_nat) (metis mod_less mod_less_divisor zero_less_numeral)
  show ?thesis
  proof (cases "find_padding bs [1..<?n]")
    case None
    then have "\<forall>k\<in>{1..<?n}. unat (pad ! (?n - k - 1)) \<noteq> k"
      using at len by (auto simp: find_padding_None)
    moreover have "find_padding bs [Suc ?n..<Suc m] \<noteq> Some (length data)"
      using len by (auto dest!: find_padding_Some)
    ultimately show ?thesis unfolding split find_padding_append using None mid len
      by (auto simp del: upt_Suc)
  next
    case (Some pos)
    then obtain k where "k \<in> {1..<?n}" "pos = length bs - k - 1" "unat (bs ! pos) = k"
      by (auto dest: find_padding_Some)
    with len at Some show ?thesis unfolding split find_padding_append by (auto simp del: upt_Suc)
  qed
qed

section \<open>Properties\<close>

text \<open>A Noise payload sent over Nostr arrives: when the payload has at most 254 bytes of data the encoding
  succeeds, decodes to a packet with the same sender and recipient, and the payload extracted from
  it is the one sent; longer payloads are refused with an error.\<close>

theorem nostr_pm_roundtrip:
  assumes "base64_inverse env" and "length sender = 8" and "length recipient = 8"
    and "experimental \<or> core_payload_type (payload_type np)"
  shows "case encode_pm_for_nostr env now pad sender recipient np of
      Inr content \<Rightarrow> length (np_data np) \<le> 254 \<and>
        (\<exists>p. decode_from_nostr env content = Inr (Some p) \<and> sender_id p = sender \<and>
           recipient_id p = Some recipient \<and> extract_noise_payload env experimental p = Inr np)
    | Inl e \<Rightarrow> 254 < length (np_data np) \<and> e \<noteq> Panic"
proof -
  let ?data = "noise_payload_to_binary np"
  obtain p where p: "packet_new NoiseEncrypted sender (Some recipient) now ?data PF_NONE = Inr p"
    by (simp add: packet_new_def Let_def)
  note w = new_packet_wire [OF p assms(2)]
  have len: "length ?data = Suc (length (np_data np))" by (simp add: noise_payload_to_binary_def)
  have enc: "encode_pm_for_nostr env now pad sender recipient np = encode_packet_to_nostr env p"
    by (simp add: encode_pm_for_nostr_def encode_pm_for_nostr_with_config_def apply_padding_def
        embedding_config_default_def p)
  have extracted: "extract_noise_payload env experimental p = Inr np"
    using assms(3,4) w(3) by (simp add: extract_noise_payload_def extract_noise_payload_with_config_def
        remove_padding_def embedding_config_default_def noise_payload.dec_enc wrap_nostr_def
        len [THEN arg_cong, of "\<lambda>n. 0 < n", simplified])
  show ?thesis
  proof (cases "wire_encode p")
    case (Inr b)
    then have "length (np_data np) \<le> 254" using w(6) assms(3) len by (simp add: is_ok_iff)
    with Inr w assms(3) extracted embedded_packet_decodes [OF assms(1) w(1,2) Inr] show ?thesis
      by (auto simp: enc)
  next
    case (Inl e)
    then have "254 < length (np_data np)" using w(6) assms(3) len by (auto simp: is_ok_iff)
    with Inl show ?thesis
      using wire_encode_no_panic [of p]
      by (cases e) (auto simp: enc encode_packet_to_nostr_def wrap_error_def)
  qed
qed

definition toy_embedding :: embedding_env where
  "toy_embedding = \<lparr>ne_b64_encode = rev, ne_b64_decode = (\<lambda>s. Inr (rev s)), ne_show = (\<lambda>e. ''error'')\<rparr>"

lemma toy_base64: "base64_inverse toy_embedding"
  by (simp add: base64_inverse_def toy_embedding_def)

theorem nostr_pm_roundtrip_witness:
  "case encode_pm_for_nostr toy_embedding 0 [] (replicate 8 1) (replicate 8 2) \<lparr>payload_type = PrivateMessage, np_data = [65]\<rparr> of
     Inr content \<Rightarrow> \<exists>p. decode_from_nostr toy_embedding content = Inr (Some p) \<and>
       extract_noise_payload toy_embedding False p = Inr \<lparr>payload_type = PrivateMessage, np_data = [65]\<rparr>
   | Inl e \<Rightarrow> False"
  using nostr_pm_roundtrip [OF toy_base64, of "replicate 8 1" "replicate 8 2" False
      "\<lparr>payload_type = PrivateMessage, np_data = [65]\<rparr>" 0 "[]"]
  by (auto simp: core_payload_type_def split: sum.splits)

text \<open>The padding of the privacy settings is reversible only by chance: padded data is recovered exactly
  when the padding has fewer than 256 bytes and none of its bytes equals its distance from the end,
  and data sent without padding survives only when none of its bytes within reach does.\<close>

theorem nostr_padding_recovered_iff:
  assumes "enable_padding cfg" and "length pad \<le> max_padding_bytes cfg" and "data \<noteq> []"
  shows "remove_padding cfg (apply_padding cfg pad data) = Inr data \<longleftrightarrow>
    (if pad = []
     then \<forall>k\<in>{1..min (max_padding_bytes cfg) (length data - 1)}. unat (data ! (length data - k - 1)) \<noteq> k
     else length pad < 256 \<and> (\<forall>k\<in>{1..<length pad}. unat (pad ! (length pad - k - 1)) \<noteq> k))"
proof (cases "pad = []")
  case True
  have "take pos data \<noteq> data" if "find_padding data ks = Some pos" for ks pos
    using find_padding_Some [OF that] assms(3) by (auto dest!: arg_cong [of _ _ length])
  with True assms(1,3) have "remove_padding cfg data = Inr data \<longleftrightarrow> length data < 2 \<or>
      find_padding data [1..<Suc (min (max_padding_bytes cfg) (length data - 1))] = None"
    by (auto simp: remove_padding_def simp del: upt_Suc split: option.split)
  moreover have "k < length data" if "k \<le> length data - 1" for k
    using that assms(3) by (cases data) auto
  ultimately show ?thesis
    using True assms(3) by (auto simp: apply_padding_def find_padding_None atLeastLessThanSuc_atLeastAtMost simp del: upt_Suc)
next
  case False
  let ?bs = "data @ [word_of_nat (length pad)] @ pad" and ?m = "min (max_padding_bytes cfg) (length data + length pad)"
  have "take pos ?bs = data \<longleftrightarrow> pos = length data" if "find_padding ?bs ks = Some pos" for ks pos
    using find_padding_Some [OF that] by (auto dest!: arg_cong [of _ _ length])
  moreover have "?bs \<noteq> data" by (simp add: append_self_conv)
  ultimately have "remove_padding cfg ?bs = Inr data \<longleftrightarrow> find_padding ?bs [1..<Suc ?m] = Some (length data)"
    using assms(1) False by (auto simp: remove_padding_def Suc_le_eq simp del: upt_Suc split: option.split)
  with find_padding_padded [OF False, of ?m data] assms False show ?thesis
    by (auto simp: apply_padding_def simp del: upt_Suc)
qed

theorem nostr_padding_recovered_iff_witness:
  "remove_padding privacy_focused (apply_padding privacy_focused [1, 0] [1, 65]) \<noteq> Inr [1, 65]"
  using nostr_padding_recovered_iff [of privacy_focused "[1, 0]" "[1, 65]"]
  by (simp add: privacy_focused_def)

text \<open>Content from a relay can crash the client: an event whose embedded bytes are a 15 byte packet of
  version 2 with a known message type makes the decoder panic.\<close>

theorem nostr_content_panics:
  assumes "base64_inverse env" and "length bs = 15" and "bs ! 0 = PROTOCOL_VERSION_2"
    and "is_ok (message_type_from_u8 (bs ! 1))"
  shows "decode_from_nostr env (BITCHAT_EMBEDDING_PREFIX @ ne_b64_encode env bs) = Inl NostrPanic"
proof -
  have "header_from_bytes bs = Inl Panic" using assms(2-4) by (simp add: header_from_bytes_panics_iff)
  moreover have "bs \<noteq> []" using assms(2) by auto
  ultimately show ?thesis
    using assms(1) by (simp add: decode_from_nostr_def is_bitchat_content_prefix base64_inverse_def wrap_nostr_def
        wire_decode_def)
qed

theorem nostr_content_panics_witness:
  "decode_from_nostr toy_embedding (BITCHAT_EMBEDDING_PREFIX @ replicate 13 0 @ [2, 2]) = Inl NostrPanic"
  using nostr_content_panics [OF toy_base64, of "[2, 2] @ replicate 13 0"]
  by (simp add: toy_embedding_def PROTOCOL_VERSION_2_def message_type_from_u8_def)

end
