(* ===== verification/Nostr_Relays.thy ===== *)
theory Nostr_Relays
  imports Complex_Main Nostr_Embedding Message_Store "HOL-Library.Multiset"
begin

text \<open>
  The relay manager of the Nostr transport (\<^verbatim>\<open>src/crates/bitchat-nostr/src/relay_manager.rs\<close>): what is
  known of every relay, the directory of relays by region with its CSV form, the selection strategies
  and the simulated connections.

  URLs and geohashes are Rust strings. Rates and scores, which the code computes as \<^verbatim>\<open>f64\<close>, are rational
  numbers: quotients of 32-bit counters and literals. Parsing of a coordinate, the clock, the random
  outcome of a connection test and the default hasher are arguments. Hash maps are association lists in
  their iteration order.
\<close>

section \<open>Relays\<close>

datatype relay_health = RhHealthy | RhDegraded | RhUnhealthy | RhUnknown

record relay_capabilities =
  rc_supports_nip04 :: bool
  rc_supports_nip17 :: bool
  rc_supports_custom_kinds :: bool
  rc_max_event_size :: "nat option"
  rc_rate_limit_per_minute :: "u32 option"
  rc_requires_payment :: bool

definition relay_capabilities_default :: relay_capabilities where
  "relay_capabilities_default =
     \<lparr>rc_supports_nip04 = True, rc_supports_nip17 = False, rc_supports_custom_kinds = True,
      rc_max_event_size = Some 65535, rc_rate_limit_per_minute = None, rc_requires_payment = False\<rparr>"

record relay_stats =
  rs_connection_attempts :: u32
  rs_successful_connections :: u32
  rs_events_sent :: u32
  rs_events_failed :: u32
  rs_average_latency_ms :: "u64 option"
  rs_last_latency_ms :: "u64 option"
  rs_bytes_sent :: u64
  rs_bytes_received :: u64

definition relay_stats_default :: relay_stats where
  "relay_stats_default =
     \<lparr>rs_connection_attempts = 0, rs_successful_connections = 0, rs_events_sent = 0, rs_events_failed = 0,
      rs_average_latency_ms = None, rs_last_latency_ms = None, rs_bytes_sent = 0, rs_bytes_received = 0\<rparr>"

definition connection_success_rate :: "relay_stats \<Rightarrow> rat" where
  "connection_success_rate s =
     (if rs_connection_attempts s = 0 then 0
      else of_nat (unat (rs_successful_connections s)) / of_nat (unat (rs_connection_attempts s)))"

definition relay_event_success_rate :: "relay_stats \<Rightarrow> rat" where
  "relay_event_success_rate s =
     (let total = rs_events_sent s + rs_events_failed s
      in if total = 0 then 0 else of_nat (unat (rs_events_sent s)) / of_nat (unat total))"

record relay_info =
  ri_url :: rust_string
  ri_health :: relay_health
  ri_capabilities :: relay_capabilities
  ri_privacy_score :: rat
  ri_location :: "(rat \<times> rat) option"
  ri_stats :: relay_stats
  ri_last_connection_attempt :: "timestamp option"
  ri_last_success :: "timestamp option"
  ri_consecutive_failures :: u32
  ri_is_connected :: bool

definition fresh_relay :: "rust_string \<Rightarrow> rat \<Rightarrow> (rat \<times> rat) option \<Rightarrow> relay_info" where
  "fresh_relay url privacy location =
     \<lparr>ri_url = url, ri_health = RhUnknown, ri_capabilities = relay_capabilities_default,
      ri_privacy_score = privacy, ri_location = location, ri_stats = relay_stats_default,
      ri_last_connection_attempt = None, ri_last_success = None, ri_consecutive_failures = 0,
      ri_is_connected = False\<rparr>"

section \<open>The directory of relays by region\<close>

record geo_directory =
  gd_geo_relays :: "(rust_string \<times> relay_info list) list"
  gd_default_relays :: "relay_info list"

definition default_relay_urls :: "rust_string list" where
  "default_relay_urls =
     map (map of_char) [''wss://relay.damus.io'', ''wss://nostr-relay.wlvs.space'', ''wss://nostr.fmt.wiz.biz'',
       ''wss://relay.nostr.band'', ''wss://nos.lol'']"

definition get_default_relays :: "relay_info list" where
  "get_default_relays = map (\<lambda>url. fresh_relay url (7 / 10) None) default_relay_urls"

definition geo_directory_new :: geo_directory where
  "geo_directory_new = \<lparr>gd_geo_relays = [], gd_default_relays = get_default_relays\<rparr>"

text \<open>A slice of a string panics when it does not end at a character boundary.\<close>

definition char_boundary :: "rust_string \<Rightarrow> nat \<Rightarrow> bool" where
  "char_boundary s n \<longleftrightarrow> n = length s \<or> (n < length s \<and> \<not> utf8_cont (s ! n))"

fun closest_in :: "geo_directory \<Rightarrow> rust_string \<Rightarrow> nat \<Rightarrow> nat \<Rightarrow> nostr_fault + relay_info list option" where
  "closest_in d geohash cnt 0 = Inr None"
| "closest_in d geohash cnt (Suc n) =
     (if \<not> char_boundary geohash (Suc n) then Inl NostrPanic
      else case map_of (gd_geo_relays d) (take (Suc n) geohash) of
          None \<Rightarrow> closest_in d geohash cnt n
        | Some relays \<Rightarrow>
            if cnt \<le> length relays then Inr (Some (take cnt relays)) else closest_in d geohash cnt n)"

definition closest_relays :: "geo_directory \<Rightarrow> rust_string \<Rightarrow> nat \<Rightarrow> nostr_fault + relay_info list" where
  "closest_relays d geohash cnt =
     rbind (closest_in d geohash cnt (length geohash)) (\<lambda>found.
       Inr (case found of Some relays \<Rightarrow> relays | None \<Rightarrow> take cnt (gd_default_relays d)))"

definition add_geo_relay :: "rust_string \<Rightarrow> relay_info \<Rightarrow> geo_directory \<Rightarrow> geo_directory" where
  "add_geo_relay region relay d =
     d\<lparr>gd_geo_relays :=
         map_put region ((case map_of (gd_geo_relays d) region of None \<Rightarrow> [] | Some rs \<Rightarrow> rs) @ [relay])
           (gd_geo_relays d)\<rparr>"

subsection \<open>The CSV form\<close>

text \<open>\<open>split_on c\<close> is \<^verbatim>\<open>split\<close> at an ASCII character, \<open>str_lines\<close> is \<^verbatim>\<open>lines\<close>: an empty last piece is no line
  and a carriage return before the line feed is dropped.\<close>

fun split_on :: "u8 \<Rightarrow> bytes \<Rightarrow> bytes list" where
  "split_on c [] = [[]]"
| "split_on c (b # bs) =
     (if b = c then [] # split_on c bs
      else case split_on c bs of p # ps \<Rightarrow> (b # p) # ps | [] \<Rightarrow> [[b]])"

definition drop_cr :: "bytes \<Rightarrow> bytes" where
  "drop_cr l = (if l \<noteq> [] \<and> last l = 0x0D then butlast l else l)"

definition str_lines :: "rust_string \<Rightarrow> rust_string list" where
  "str_lines s =
     (let ps = split_on 0x0A s
      in map drop_cr (butlast ps) @ (if last ps = [] then [] else [last ps]))"

definition utf8_length :: "nat \<Rightarrow> nat" where
  "utf8_length c = (if c < 0x80 then 1 else if c < 0x800 then 2 else if c < 0x10000 then 3 else 4)"

definition trim :: "rust_string \<Rightarrow> rust_string" where
  "trim s =
     (let cs = chars_of s;
          lead = sum_list (map utf8_length (takeWhile is_whitespace cs));
          trail = sum_list (map utf8_length (takeWhile is_whitespace (rev cs)))
      in if lead = length s then [] else take (length s - trail - lead) (drop lead s))"

definition load_line ::
    "(rust_string \<Rightarrow> rat option) \<Rightarrow> rust_string \<Rightarrow> geo_directory \<times> nat \<Rightarrow> nostr_fault + (geo_directory \<times> nat)" where
  "load_line parse_f64 line = (\<lambda>(d, loaded).
     (case map trim (split_on 0x2C line) of
        url # lat # lon # region # _ \<Rightarrow>
          (case parse_f64 lat of
             None \<Rightarrow> Inl (NostrErr (ConfigurationError ''Invalid latitude''))
           | Some la \<Rightarrow>
               (case parse_f64 lon of
                  None \<Rightarrow> Inl (NostrErr (ConfigurationError ''Invalid longitude''))
                | Some lo \<Rightarrow> Inr (add_geo_relay region (fresh_relay url (8 / 10) (Some (la, lo))) d, Suc loaded)))
      | _ \<Rightarrow> Inr (d, loaded)))"

text \<open>A line in error ends the loading; what was loaded before stays.\<close>

fun load_lines ::
    "(rust_string \<Rightarrow> rat option) \<Rightarrow> rust_string list \<Rightarrow> geo_directory \<times> nat \<Rightarrow> geo_directory \<times> (nostr_fault + nat)" where
  "load_lines parse_f64 [] (d, loaded) = (d, Inr loaded)"
| "load_lines parse_f64 (l # ls) (d, loaded) =
     (case load_line parse_f64 l (d, loaded) of
        Inl e \<Rightarrow> (d, Inl e)
      | Inr s \<Rightarrow> load_lines parse_f64 ls s)"

definition load_from_csv ::
    "(rust_string \<Rightarrow> rat option) \<Rightarrow> rust_string \<Rightarrow> geo_directory \<Rightarrow> geo_directory \<times> (nostr_fault + nat)" where
  "load_from_csv parse_f64 csv d = load_lines parse_f64 (drop 1 (str_lines csv)) (d, 0)"

section \<open>The manager\<close>

datatype relay_strategy = RsGeographic | RsHealthBased | RsPrivacyFocused | RsRoundRobin | RsBroadcastAll

record relay_manager =
  rm_relays :: "(rust_string \<times> relay_info) list"
  rm_geo_directory :: geo_directory
  rm_strategy :: relay_strategy
  rm_round_robin_counter :: nat
  rm_max_concurrent_connections :: nat
  rm_connection_timeout :: duration
  rm_initial_backoff :: duration
  rm_max_backoff :: duration
  rm_backoff_multiplier :: rat
  rm_max_reconnect_attempts :: nat

definition relay_manager_new :: relay_manager where
  "relay_manager_new =
     \<lparr>rm_relays = [], rm_geo_directory = geo_directory_new, rm_strategy = RsGeographic,
      rm_round_robin_counter = 0, rm_max_concurrent_connections = 10, rm_connection_timeout = from_secs 30,
      rm_initial_backoff = from_secs 1, rm_max_backoff = from_secs 300, rm_backoff_multiplier = 2,
      rm_max_reconnect_attempts = 10\<rparr>"

definition rm_add_relay :: "relay_info \<Rightarrow> relay_manager \<Rightarrow> relay_manager" where
  "rm_add_relay relay m = m\<lparr>rm_relays := map_put (ri_url relay) relay (rm_relays m)\<rparr>"

definition rm_remove_relay :: "rust_string \<Rightarrow> relay_manager \<Rightarrow> relay_manager \<times> relay_info option" where
  "rm_remove_relay url m = (m\<lparr>rm_relays := map_del url (rm_relays m)\<rparr>, map_of (rm_relays m) url)"

definition rm_set_strategy :: "relay_strategy \<Rightarrow> relay_manager \<Rightarrow> relay_manager" where
  "rm_set_strategy st m = m\<lparr>rm_strategy := st\<rparr>"

definition rm_load_default_relays :: "relay_manager \<Rightarrow> relay_manager" where
  "rm_load_default_relays m = fold rm_add_relay get_default_relays m"

definition rm_update :: "rust_string \<Rightarrow> (relay_info \<Rightarrow> relay_info) \<Rightarrow> relay_manager \<Rightarrow> relay_manager" where
  "rm_update url f m =
     (case map_of (rm_relays m) url of
        None \<Rightarrow> m
      | Some relay \<Rightarrow> m\<lparr>rm_relays := map_put url (f relay) (rm_relays m)\<rparr>)"

subsection \<open>Connections\<close>

definition count_attempt :: "relay_info \<Rightarrow> relay_info" where
  "count_attempt r = r\<lparr>ri_stats := (ri_stats r)\<lparr>rs_connection_attempts := rs_connection_attempts (ri_stats r) + 1\<rparr>\<rparr>"

definition count_success :: "relay_info \<Rightarrow> relay_info" where
  "count_success r =
     r\<lparr>ri_stats := (ri_stats r)\<lparr>rs_successful_connections := rs_successful_connections (ri_stats r) + 1\<rparr>,
       ri_health := RhHealthy\<rparr>"

definition mark_unhealthy :: "relay_info \<Rightarrow> relay_info" where
  "mark_unhealthy r = r\<lparr>ri_health := RhUnhealthy\<rparr>"

definition nostr_connection_failed :: "nostr_fault" where
  "nostr_connection_failed = NostrErr (NostrConnectionFailed ''Failed to connect'')"

text \<open>The connection is simulated: \<open>lucky\<close> is the random outcome for a relay of unknown health. The
  texts of the errors, which are only printed, are left out.\<close>

definition connect_to_relay :: "bool \<Rightarrow> rust_string \<Rightarrow> relay_manager \<Rightarrow> relay_manager \<times> (nostr_fault + unit)" where
  "connect_to_relay lucky url m =
     (let m = rm_update url count_attempt m
      in case map_of (rm_relays m) url of
           None \<Rightarrow> (m, Inl nostr_connection_failed)
         | Some relay \<Rightarrow>
             (case ri_health relay of
                RhHealthy \<Rightarrow> (rm_update url count_success m, Inr ())
              | RhUnknown \<Rightarrow>
                  if lucky then (rm_update url count_success m, Inr ())
                  else (rm_update url mark_unhealthy m, Inl nostr_connection_failed)
              | _ \<Rightarrow> (m, Inl nostr_connection_failed)))"

definition note_connected :: "timestamp \<Rightarrow> relay_info \<Rightarrow> relay_info" where
  "note_connected now r =
     r\<lparr>ri_is_connected := True, ri_consecutive_failures := 0, ri_last_success := Some now\<rparr>"

definition note_failed :: "timestamp \<Rightarrow> relay_info \<Rightarrow> relay_info" where
  "note_failed now r =
     r\<lparr>ri_consecutive_failures := ri_consecutive_failures r + 1, ri_last_connection_attempt := Some now\<rparr>"

definition needs_connection :: "relay_manager \<Rightarrow> rust_string \<Rightarrow> bool" where
  "needs_connection m url = (case map_of (rm_relays m) url of None \<Rightarrow> False | Some r \<Rightarrow> \<not> ri_is_connected r)"

text \<open>\<open>env\<close> gives the clock and the random outcome for the \<open>i\<close>-th target.\<close>

fun ensure_from ::
    "(nat \<Rightarrow> timestamp \<times> bool) \<Rightarrow> nat \<Rightarrow> rust_string list \<Rightarrow> relay_manager \<times> nat \<Rightarrow> relay_manager \<times> nat" where
  "ensure_from env i [] (m, n) = (m, n)"
| "ensure_from env i (url # urls) (m, n) =
     ensure_from env (Suc i) urls
       (if needs_connection m url then
          (case connect_to_relay (snd (env i)) url m of
             (m', Inr _) \<Rightarrow> (rm_update url (note_connected (fst (env i))) m', Suc n)
           | (m', Inl _) \<Rightarrow> (rm_update url (note_failed (fst (env i))) m', n))
        else (m, n))"

definition ensure_connections :: "(nat \<Rightarrow> timestamp \<times> bool) \<Rightarrow> rust_string list \<Rightarrow> relay_manager \<Rightarrow> relay_manager \<times> nat" where
  "ensure_connections env targets m = ensure_from env 0 targets (m, 0)"

definition note_latency :: "u64 \<Rightarrow> relay_info \<Rightarrow> relay_info" where
  "note_latency latency r =
     r\<lparr>ri_stats := (ri_stats r)\<lparr>rs_last_latency_ms := Some latency,
         rs_average_latency_ms :=
           (case rs_average_latency_ms (ri_stats r) of
              Some avg \<Rightarrow> Some ((avg + latency) div 2)
            | None \<Rightarrow> Some latency)\<rparr>,
       ri_health := (if 5000 < latency then RhDegraded else ri_health r)\<rparr>"

definition update_relay_health :: "timestamp \<Rightarrow> rust_string \<Rightarrow> bool \<Rightarrow> u64 option \<Rightarrow> relay_manager \<Rightarrow> relay_manager" where
  "update_relay_health now url success latency m =
     rm_update url (\<lambda>r.
       if success then
         (let r = r\<lparr>ri_consecutive_failures := 0, ri_last_success := Some now, ri_health := RhHealthy\<rparr>
          in case latency of None \<Rightarrow> r | Some l \<Rightarrow> note_latency l r)
       else
         (let failures = ri_consecutive_failures r + 1
          in r\<lparr>ri_consecutive_failures := failures,
               ri_health := (if 3 \<le> failures then RhUnhealthy else ri_health r)\<rparr>)) m"

subsection \<open>Selection\<close>

definition compare_rat :: "rat \<Rightarrow> rat \<Rightarrow> rust_ordering" where
  "compare_rat a b = (if a < b then OrdLess else if a = b then OrdEqual else OrdGreater)"

definition compare_health :: "relay_info \<Rightarrow> relay_info \<Rightarrow> rust_ordering" where
  "compare_health a b =
     (case (ri_health a, ri_health b) of
        (RhHealthy, RhHealthy) \<Rightarrow>
          compare_rat (connection_success_rate (ri_stats b)) (connection_success_rate (ri_stats a))
      | (RhHealthy, _) \<Rightarrow> OrdLess
      | (_, RhHealthy) \<Rightarrow> OrdGreater
      | _ \<Rightarrow> OrdEqual)"

definition compare_privacy :: "relay_info \<Rightarrow> relay_info \<Rightarrow> rust_ordering" where
  "compare_privacy a b = compare_rat (ri_privacy_score b) (ri_privacy_score a)"

definition select_healthy_relays :: "nat \<Rightarrow> relay_manager \<Rightarrow> rust_string list" where
  "select_healthy_relays cnt m = map ri_url (take cnt (sort_by compare_health (map snd (rm_relays m))))"

definition select_privacy_relays :: "nat \<Rightarrow> relay_manager \<Rightarrow> rust_string list" where
  "select_privacy_relays cnt m = map ri_url (take cnt (sort_by compare_privacy (map snd (rm_relays m))))"

text \<open>\<open>hash i\<close> is the value of the default hasher for the number \<open>i\<close>.\<close>

definition select_round_robin :: "(nat \<Rightarrow> u64) \<Rightarrow> nat \<Rightarrow> relay_manager \<Rightarrow> rust_string list" where
  "select_round_robin hash cnt m =
     (let urls = map fst (rm_relays m)
      in map (\<lambda>i. urls ! (unat (hash i) mod length urls)) [0..<min cnt (length urls)])"

definition select_relays ::
    "(nat \<Rightarrow> u64) \<Rightarrow> rust_string option \<Rightarrow> nat \<Rightarrow> relay_manager \<Rightarrow> nostr_fault + rust_string list" where
  "select_relays hash geohash cnt m =
     (case rm_strategy m of
        RsGeographic \<Rightarrow>
          (case geohash of
             Some g \<Rightarrow> rbind (closest_relays (rm_geo_directory m) g cnt) (\<lambda>rs. Inr (map ri_url rs))
           | None \<Rightarrow> Inr (select_healthy_relays cnt m))
      | RsHealthBased \<Rightarrow> Inr (select_healthy_relays cnt m)
      | RsPrivacyFocused \<Rightarrow> Inr (select_privacy_relays cnt m)
      | RsRoundRobin \<Rightarrow> Inr (select_round_robin hash cnt m)
      | RsBroadcastAll \<Rightarrow> Inr (map fst (rm_relays m)))"

subsection \<open>Statistics\<close>

record relay_manager_stats =
  ms_total_relays :: nat
  ms_healthy_relays :: nat
  ms_degraded_relays :: nat
  ms_unhealthy_relays :: nat
  ms_unknown_relays :: nat
  ms_connected_relays :: nat
  ms_total_events_sent :: u32
  ms_total_events_failed :: u32

definition relay_manager_stats_default :: relay_manager_stats where
  "relay_manager_stats_default =
     \<lparr>ms_total_relays = 0, ms_healthy_relays = 0, ms_degraded_relays = 0, ms_unhealthy_relays = 0,
      ms_unknown_relays = 0, ms_connected_relays = 0, ms_total_events_sent = 0, ms_total_events_failed = 0\<rparr>"

definition count_relay :: "relay_info \<Rightarrow> relay_manager_stats \<Rightarrow> relay_manager_stats" where
  "count_relay r s =
     (let s = s\<lparr>ms_total_relays := Suc (ms_total_relays s)\<rparr>;
          s = (case ri_health r of
                 RhHealthy \<Rightarrow> s\<lparr>ms_healthy_relays := Suc (ms_healthy_relays s)\<rparr>
               | RhDegraded \<Rightarrow> s\<lparr>ms_degraded_relays := Suc (ms_degraded_relays s)\<rparr>
               | RhUnhealthy \<Rightarrow> s\<lparr>ms_unhealthy_relays := Suc (ms_unhealthy_relays s)\<rparr>
               | RhUnknown \<Rightarrow> s\<lparr>ms_unknown_relays := Suc (ms_unknown_relays s)\<rparr>);
          s = (if ri_is_connected r then s\<lparr>ms_connected_relays := Suc (ms_connected_relays s)\<rparr> else s)
      in s\<lparr>ms_total_events_sent := ms_total_events_sent s + rs_events_sent (ri_stats r),
           ms_total_events_failed := ms_total_events_failed s + rs_events_failed (ri_stats r)\<rparr>)"

definition relay_get_stats :: "relay_manager \<Rightarrow> relay_manager_stats" where
  "relay_get_stats m = fold count_relay (map snd (rm_relays m)) relay_manager_stats_default"

definition health_percentage :: "relay_manager_stats \<Rightarrow> rat" where
  "health_percentage s =
     (if ms_total_relays s = 0 then 0 else of_nat (ms_healthy_relays s) / of_nat (ms_total_relays s))"

definition manager_event_success_rate :: "relay_manager_stats \<Rightarrow> rat" where
  "manager_event_success_rate s =
     (let total = ms_total_events_sent s + ms_total_events_failed s
      in if total = 0 then 0 else of_nat (unat (ms_total_events_sent s)) / of_nat (unat total))"


section \<open>Selection is the stable sort by rank\<close>

definition health_rank :: "relay_info \<Rightarrow> rat" where
  "health_rank r = (if ri_health r = RhHealthy then - connection_success_rate (ri_stats r) else 1)"

definition privacy_rank :: "relay_info \<Rightarrow> rat" where
  "privacy_rank r = - ri_privacy_score r"

lemma success_rate_nonneg: "0 \<le> connection_success_rate s"
proof -
  have "0 \<le> (of_nat a :: rat) / of_nat b" for a b :: nat by simp
  then show ?thesis unfolding connection_success_rate_def by (simp only: split: if_split) blast
qed

lemma compare_health_rank: "compare_health a b = OrdGreater \<longleftrightarrow> health_rank b < health_rank a"
  using success_rate_nonneg [of "ri_stats a"] success_rate_nonneg [of "ri_stats b"]
  by (auto simp: compare_health_def health_rank_def compare_rat_def split: relay_health.split)

lemma compare_privacy_rank: "compare_privacy a b = OrdGreater \<longleftrightarrow> privacy_rank b < privacy_rank a"
  by (auto simp: compare_privacy_def privacy_rank_def compare_rat_def)

lemma sort_compare_health: "sort_by compare_health rs = sort_key health_rank rs"
  by (rule sort_by_sort_key) (rule compare_health_rank)

lemma sort_compare_privacy: "sort_by compare_privacy rs = sort_key privacy_rank rs"
  by (rule sort_by_sort_key) (rule compare_privacy_rank)

lemma sorted_take_drop:
  "sorted xs \<Longrightarrow> x \<in> set (take n xs) \<Longrightarrow> y \<in> set (drop n xs) \<Longrightarrow> x \<le> y"
  by (metis append_take_drop_id sorted_append)

lemma sorted_key_take_drop:
  "x \<in> set (take n (sort_key f xs)) \<Longrightarrow> y \<in> set (drop n (sort_key f xs)) \<Longrightarrow> f x \<le> f y"
  by (rule sorted_take_drop [of "map f (sort_key f xs)" "f x" n "f y"])
     (auto simp: take_map drop_map)

text \<open>The relays chosen by health are the first of a stable arrangement of all registered relays: no
  relay left out ranks before a chosen one, so a healthy relay is left out only in favour of healthy
  relays with at least its success rate, and as many are chosen as were asked for and exist.\<close>

theorem healthy_selection:
  "\<exists>chosen rest. mset (chosen @ rest) = mset (map snd (rm_relays m)) \<and>
     select_healthy_relays cnt m = map ri_url chosen \<and>
     length chosen = min cnt (length (rm_relays m)) \<and>
     (\<forall>a\<in>set chosen. \<forall>b\<in>set rest. ri_health b = RhHealthy \<longrightarrow>
        ri_health a = RhHealthy \<and> connection_success_rate (ri_stats b) \<le> connection_success_rate (ri_stats a))"
proof -
  let ?s = "sort_key health_rank (map snd (rm_relays m))"
  have "mset (take cnt ?s @ drop cnt ?s) = mset (map snd (rm_relays m))"
    unfolding append_take_drop_id by simp
  moreover have "ri_health b = RhHealthy \<longrightarrow>
      ri_health a = RhHealthy \<and> connection_success_rate (ri_stats b) \<le> connection_success_rate (ri_stats a)"
    if "a \<in> set (take cnt ?s)" "b \<in> set (drop cnt ?s)" for a b
    using sorted_key_take_drop [OF that] success_rate_nonneg [of "ri_stats b"]
    by (auto simp: health_rank_def split: if_splits)
  ultimately show ?thesis
    unfolding select_healthy_relays_def sort_compare_health
    by (intro exI [of _ "take cnt ?s"] exI [of _ "drop cnt ?s"]) auto
qed

section \<open>The directory gives the closest region that has enough relays\<close>

definition enough_relays :: "geo_directory \<Rightarrow> nat \<Rightarrow> rust_string \<Rightarrow> relay_info list \<Rightarrow> bool" where
  "enough_relays d cnt region relays \<longleftrightarrow>
     map_of (gd_geo_relays d) region = Some relays \<and> cnt \<le> length relays"

lemma ascii_not_cont: "b \<le> 0x7F \<Longrightarrow> \<not> utf8_cont b"
  by (simp add: utf8_cont_def word_le_nat_alt)

lemma ascii_boundary: "list_all (\<lambda>b. b \<le> 0x7F) s \<Longrightarrow> n \<le> length s \<Longrightarrow> char_boundary s n"
  by (auto simp: char_boundary_def list_all_length le_less ascii_not_cont)

lemma closest_in_spec:
  assumes "list_all (\<lambda>b. b \<le> 0x7F) g" "n \<le> length g"
  shows "\<exists>found. closest_in d g cnt n = Inr found \<and>
     (case found of
        None \<Rightarrow> \<forall>j\<in>{1..n}. \<forall>R. \<not> enough_relays d cnt (take j g) R
      | Some rs \<Rightarrow> \<exists>k\<in>{1..n}. \<exists>R. enough_relays d cnt (take k g) R \<and> rs = take cnt R \<and>
          (\<forall>j\<in>{k<..n}. \<forall>R. \<not> enough_relays d cnt (take j g) R))"
  using assms(2)
proof (induction n)
  case (Suc n)
  show ?case
  proof (cases "\<exists>R. enough_relays d cnt (take (Suc n) g) R")
    case True
    then obtain R where R: "enough_relays d cnt (take (Suc n) g) R" by blast
    then have "closest_in d g cnt (Suc n) = Inr (Some (take cnt R))"
      using ascii_boundary [OF assms(1) Suc.prems] by (simp add: enough_relays_def)
    then show ?thesis using R by (intro exI [of _ "Some (take cnt R)"]) force
  next
    case False
    then have "closest_in d g cnt (Suc n) = closest_in d g cnt n"
      using ascii_boundary [OF assms(1) Suc.prems] by (simp add: enough_relays_def split: option.split)
    moreover obtain found where found: "closest_in d g cnt n = Inr found"
      "case found of
        None \<Rightarrow> \<forall>j\<in>{1..n}. \<forall>R. \<not> enough_relays d cnt (take j g) R
      | Some rs \<Rightarrow> \<exists>k\<in>{1..n}. \<exists>R. enough_relays d cnt (take k g) R \<and> rs = take cnt R \<and>
          (\<forall>j\<in>{k<..n}. \<forall>R. \<not> enough_relays d cnt (take j g) R)"
      using Suc by auto
    moreover have "case found of
        None \<Rightarrow> \<forall>j\<in>{1..Suc n}. \<forall>R. \<not> enough_relays d cnt (take j g) R
      | Some rs \<Rightarrow> \<exists>k\<in>{1..Suc n}. \<exists>R. enough_relays d cnt (take k g) R \<and> rs = take cnt R \<and>
          (\<forall>j\<in>{k<..Suc n}. \<forall>R. \<not> enough_relays d cnt (take j g) R)"
    proof (cases found)
      case None
      then have "\<forall>j\<in>insert (Suc n) {1..n}. \<forall>R. \<not> enough_relays d cnt (take j g) R"
        using found(2) False by simp
      moreover have "{1..Suc n} = insert (Suc n) {1..n}" by auto
      ultimately show ?thesis using None by simp
    next
      case (Some rs)
      with found(2) obtain k R where k: "k \<in> {1..n}" "enough_relays d cnt (take k g) R" "rs = take cnt R"
        and "\<forall>j\<in>{k<..n}. \<forall>R. \<not> enough_relays d cnt (take j g) R" by auto
      then have "\<forall>j\<in>insert (Suc n) {k<..n}. \<forall>R. \<not> enough_relays d cnt (take j g) R"
        using False by simp
      moreover have "{k<..Suc n} = insert (Suc n) {k<..n}" "k \<in> {1..Suc n}" using k(1) by auto
      ultimately show ?thesis using Some k(2,3) by (simp only: option.case) blast
    qed
    ultimately show ?thesis by simp
  qed
qed simp

text \<open>For an ASCII geohash the directory answers with the first \<open>cnt\<close> relays of the longest prefix
  that has at least \<open>cnt\<close> relays registered, and with the default relays when no prefix has.\<close>

theorem closest_relays_correct:
  assumes "list_all (\<lambda>b. b \<le> 0x7F) g"
  shows "\<exists>relays. closest_relays d g cnt = Inr (take cnt relays) \<and>
     ((\<exists>k\<in>{1..length g}. enough_relays d cnt (take k g) relays \<and>
         (\<forall>j\<in>{k<..length g}. \<forall>R. \<not> enough_relays d cnt (take j g) R)) \<or>
      ((\<forall>j\<in>{1..length g}. \<forall>R. \<not> enough_relays d cnt (take j g) R) \<and> relays = gd_default_relays d))"
proof -
  obtain found where found: "closest_in d g cnt (length g) = Inr found"
    "case found of
        None \<Rightarrow> \<forall>j\<in>{1..length g}. \<forall>R. \<not> enough_relays d cnt (take j g) R
      | Some rs \<Rightarrow> \<exists>k\<in>{1..length g}. \<exists>R. enough_relays d cnt (take k g) R \<and> rs = take cnt R \<and>
          (\<forall>j\<in>{k<..length g}. \<forall>R. \<not> enough_relays d cnt (take j g) R)"
    using closest_in_spec [OF assms le_refl] by blast
  show ?thesis
  proof (cases found)
    case None
    then show ?thesis using found by (auto simp: closest_relays_def)
  next
    case (Some rs)
    with found(2) obtain k R where "k \<in> {1..length g}" "enough_relays d cnt (take k g) R" "rs = take cnt R"
      "\<forall>j\<in>{k<..length g}. \<forall>R. \<not> enough_relays d cnt (take j g) R" by auto
    then show ?thesis using found(1) Some by (intro exI [of _ R]) (auto simp: closest_relays_def)
  qed
qed

text \<open>A region with too few relays is passed over for a farther one.\<close>

lemma closest_relays_witness:
  "closest_relays
     (add_geo_relay [0x39] (fresh_relay [1] 0 None) (add_geo_relay [0x39] (fresh_relay [2] 0 None)
        (add_geo_relay [0x39, 0x71] (fresh_relay [3] 0 None) geo_directory_new))) [0x39, 0x71, 0x38] 2 =
   Inr [fresh_relay [2] 0 None, fresh_relay [1] 0 None]"
proof -
  let ?d = "add_geo_relay [0x39] (fresh_relay [1] 0 None) (add_geo_relay [0x39] (fresh_relay [2] 0 None)
     (add_geo_relay [0x39, 0x71] (fresh_relay [3] 0 None) geo_directory_new))"
  have d: "map_of (gd_geo_relays ?d) =
     [[0x39, 0x71] \<mapsto> [fresh_relay [3] 0 None], [0x39] \<mapsto> [fresh_relay [2] 0 None, fresh_relay [1] 0 None]]"
    by (simp add: add_geo_relay_def geo_directory_new_def fun_upd_twist)
  obtain relays where "closest_relays ?d [0x39, 0x71, 0x38] 2 = Inr (take 2 relays)"
    "(\<exists>k\<in>{1..length [0x39, 0x71, 0x38 :: u8]}. enough_relays ?d 2 (take k [0x39, 0x71, 0x38]) relays) \<or>
     (\<forall>j\<in>{1..length [0x39, 0x71, 0x38 :: u8]}. \<forall>R. \<not> enough_relays ?d 2 (take j [0x39, 0x71, 0x38]) R)"
    using closest_relays_correct [of "[0x39, 0x71, 0x38]" ?d 2] by (auto simp: word_le_nat_alt)
  moreover have "enough_relays ?d 2 (take k [0x39, 0x71, 0x38]) R \<longleftrightarrow>
      k = 1 \<and> R = [fresh_relay [2] 0 None, fresh_relay [1] 0 None]" if "k \<in> {1..3}" for k R
  proof -
    have "k = 1 \<or> k = 2 \<or> k = 3" using that by auto
    then show ?thesis unfolding enough_relays_def d by auto
  qed
  ultimately show ?thesis by force
qed


section \<open>Connections\<close>

lemma map_of_rm_update:
  "map_of (rm_relays (rm_update url f m)) u =
     (if u = url then map_option f (map_of (rm_relays m) u) else map_of (rm_relays m) u)"
  by (auto simp: rm_update_def split: option.split)

definition connectable :: "relay_info \<Rightarrow> bool" where
  "connectable r \<longleftrightarrow> ri_health r = RhHealthy \<or> ri_health r = RhUnknown"

definition connect_round ::
    "(nat \<Rightarrow> timestamp \<times> bool) \<Rightarrow> nat \<Rightarrow> rust_string \<Rightarrow> relay_manager \<Rightarrow> relay_manager \<times> nat" where
  "connect_round env i url m =
     (if needs_connection m url then
        (case connect_to_relay (snd (env i)) url m of
           (m', Inr _) \<Rightarrow> (rm_update url (note_connected (fst (env i))) m', 1)
         | (m', Inl _) \<Rightarrow> (rm_update url (note_failed (fst (env i))) m', 0))
      else (m, 0))"

lemma ensure_from_Cons:
  "ensure_from env i (url # urls) (m, n) =
     ensure_from env (Suc i) urls (fst (connect_round env i url m), n + snd (connect_round env i url m))"
  by (simp add: connect_round_def split: prod.split sum.split)

definition connected_urls :: "relay_manager \<Rightarrow> rust_string set" where
  "connected_urls m = {u. \<exists>r. map_of (rm_relays m) u = Some r \<and> ri_is_connected r}"

definition connectable_urls :: "relay_manager \<Rightarrow> rust_string set" where
  "connectable_urls m = {u. \<exists>r. map_of (rm_relays m) u = Some r \<and> connectable r}"

lemma finite_connected: "finite (connected_urls m)"
proof -
  have "connected_urls m \<subseteq> dom (map_of (rm_relays m))" by (auto simp: connected_urls_def)
  then show ?thesis using finite_dom_map_of finite_subset by blast
qed

lemmas connect_defs = connect_round_def connect_to_relay_def needs_connection_def count_attempt_def
  count_success_def mark_unhealthy_def note_connected_def note_failed_def connectable_def

lemma connect_round_other: "u \<noteq> url \<Longrightarrow> map_of (rm_relays (fst (connect_round env i url m))) u = map_of (rm_relays m) u"
  by (simp add: connect_defs map_of_rm_update Let_def split: option.split relay_health.split)

definition connects :: "bool \<Rightarrow> relay_info \<Rightarrow> bool" where
  "connects lucky r \<longleftrightarrow> ri_health r = RhHealthy \<or> (ri_health r = RhUnknown \<and> lucky)"

lemma connect_to_relay_result:
  assumes "map_of (rm_relays m) url = Some r"
  shows "(\<exists>x. snd (connect_to_relay lucky url m) = Inr x) \<longleftrightarrow> connects lucky r"
  using assms
  by (cases "ri_health r"; cases lucky)
     (simp_all add: connect_to_relay_def map_of_rm_update Let_def count_attempt_def connects_def
        nostr_connection_failed_def)

lemma connect_to_relay_health:
  assumes "map_of (rm_relays m) url = Some r"
  shows "\<exists>q. map_of (rm_relays (fst (connect_to_relay lucky url m))) url = Some q \<and>
     ri_is_connected q = ri_is_connected r \<and> (connectable q \<longrightarrow> connectable r)"
  using assms
  by (cases "ri_health r"; cases lucky)
     (simp_all add: connect_to_relay_def map_of_rm_update Let_def count_attempt_def count_success_def
        mark_unhealthy_def connectable_def)

lemma connect_round_self:
  assumes "map_of (rm_relays m) url = Some r"
  shows "\<exists>q. map_of (rm_relays (fst (connect_round env i url m))) url = Some q \<and>
     (connectable q \<longrightarrow> connectable r) \<and>
     (ri_is_connected q \<longleftrightarrow> ri_is_connected r \<or> connects (snd (env i)) r) \<and>
     snd (connect_round env i url m) = (if ri_is_connected q \<and> \<not> ri_is_connected r then 1 else 0)"
proof (cases "ri_is_connected r")
  case False
  obtain q where q: "map_of (rm_relays (fst (connect_to_relay (snd (env i)) url m))) url = Some q"
    "ri_is_connected q = ri_is_connected r" "connectable q \<longrightarrow> connectable r"
    using connect_to_relay_health [OF assms] by blast
  obtain m' res where m': "connect_to_relay (snd (env i)) url m = (m', res)" by fastforce
  have out: "(\<exists>x. res = Inr x) \<longleftrightarrow> connects (snd (env i)) r"
    using connect_to_relay_result [OF assms, of "snd (env i)"] m' by simp
  show ?thesis
    using False q m' out assms
    by (cases res) (simp_all add: connect_round_def needs_connection_def map_of_rm_update note_connected_def
      note_failed_def connectable_def)
qed (use assms in \<open>simp add: connect_round_def needs_connection_def\<close>)

lemma connect_round_none:
  "map_of (rm_relays m) url = None \<Longrightarrow> connect_round env i url m = (m, 0)"
  by (simp add: connect_round_def needs_connection_def)

definition healthy_urls :: "relay_manager \<Rightarrow> rust_string set" where
  "healthy_urls m = {u. \<exists>r. map_of (rm_relays m) u = Some r \<and> ri_health r = RhHealthy}"

lemma connect_round_cases:
  obtains "fst (connect_round env i url m) = m" "snd (connect_round env i url m) = 0" "map_of (rm_relays m) url = None"
  | r q where "map_of (rm_relays m) url = Some r"
      "map_of (rm_relays (fst (connect_round env i url m))) = (map_of (rm_relays m))(url \<mapsto> q)"
      "connectable q \<longrightarrow> connectable r"
      "ri_is_connected q \<longleftrightarrow> ri_is_connected r \<or> connects (snd (env i)) r"
      "snd (connect_round env i url m) = (if ri_is_connected q \<and> \<not> ri_is_connected r then 1 else 0)"
proof (cases "map_of (rm_relays m) url")
  case None
  with that(1) show thesis using connect_round_none [of m url env i] by simp
next
  case (Some r)
  obtain q where q: "map_of (rm_relays (fst (connect_round env i url m))) url = Some q"
    "connectable q \<longrightarrow> connectable r"
    "ri_is_connected q \<longleftrightarrow> ri_is_connected r \<or> connects (snd (env i)) r"
    "snd (connect_round env i url m) = (if ri_is_connected q \<and> \<not> ri_is_connected r then 1 else 0)"
    using connect_round_self [OF Some] by blast
  have "map_of (rm_relays (fst (connect_round env i url m))) = (map_of (rm_relays m))(url \<mapsto> q)"
    by (rule ext) (simp add: q(1) connect_round_other)
  with that(2) Some q(2-4) show thesis by blast
qed

lemma connect_round_dom:
  "dom (map_of (rm_relays (fst (connect_round env i url m)))) = dom (map_of (rm_relays m))"
  by (rule connect_round_cases [of env i url m]) (simp_all add: insert_absorb domI)

lemma connect_round_connected:
  "connected_urls (fst (connect_round env i url m)) =
     connected_urls m \<union> (if snd (connect_round env i url m) = 0 then {} else {url})"
  by (rule connect_round_cases [of env i url m]) (simp, auto simp: connected_urls_def)

lemma connect_round_new:
  "snd (connect_round env i url m) \<noteq> 0 \<Longrightarrow>
     snd (connect_round env i url m) = 1 \<and> url \<in> connectable_urls m - connected_urls m"
  by (rule connect_round_cases [of env i url m])
     (simp, auto simp: connected_urls_def connectable_urls_def connectable_def connects_def split: if_splits)

lemma connect_round_connectable: "connectable_urls (fst (connect_round env i url m)) \<subseteq> connectable_urls m"
  by (rule connect_round_cases [of env i url m]) (simp, auto simp: connectable_urls_def)

lemma connect_round_healthy:
  "url \<in> healthy_urls m \<Longrightarrow> url \<in> connected_urls (fst (connect_round env i url m))"
  by (rule connect_round_cases [of env i url m])
     (simp_all add: healthy_urls_def connected_urls_def connects_def)

lemma connect_round_others_healthy: "healthy_urls m - {url} \<subseteq> healthy_urls (fst (connect_round env i url m))"
  by (auto simp: healthy_urls_def connect_round_other)

lemmas connect_round_sets = connect_round_dom connect_round_connected connect_round_new
  connect_round_connectable connect_round_healthy connect_round_others_healthy

lemma ensure_from_sets:
  "ensure_from env i urls (m, n) = (m', n') \<Longrightarrow>
     dom (map_of (rm_relays m')) = dom (map_of (rm_relays m)) \<and>
     connected_urls m \<subseteq> connected_urls m' \<and>
     connected_urls m' - connected_urls m \<subseteq> set urls \<inter> connectable_urls m \<and>
     set urls \<inter> healthy_urls m \<subseteq> connected_urls m' \<and>
     n' = n + card (connected_urls m' - connected_urls m)"
proof (induction urls arbitrary: i m n)
  case (Cons url urls)
  let ?m = "fst (connect_round env i url m)" and ?k = "snd (connect_round env i url m)"
  note sets = connect_round_sets [where env = env and i = i and url = url and m = m]
  have IH: "dom (map_of (rm_relays m')) = dom (map_of (rm_relays ?m))"
    "connected_urls ?m \<subseteq> connected_urls m'"
    "connected_urls m' - connected_urls ?m \<subseteq> set urls \<inter> connectable_urls ?m"
    "set urls \<inter> healthy_urls ?m \<subseteq> connected_urls m'"
    "n' = n + ?k + card (connected_urls m' - connected_urls ?m)"
    using Cons.IH [OF Cons.prems [unfolded ensure_from_Cons]] by blast+
  obtain X where X: "connected_urls ?m = connected_urls m \<union> X" "X \<subseteq> {url} \<inter> connectable_urls m"
    "X \<inter> connected_urls m = {}" "?k = card X"
  proof (cases "?k = 0")
    case True
    then show thesis using that [of "{}"] sets(2) by simp
  next
    case False
    then show thesis using that [of "{url}"] sets(2) sets(3) [OF False] by simp
  qed
  have "connected_urls m' - connected_urls m = (connected_urls m' - connected_urls ?m) \<union> X"
    using X(1,3) IH(2) by blast
  moreover have "card ((connected_urls m' - connected_urls ?m) \<union> X) = card (connected_urls m' - connected_urls ?m) + card X"
    using X(1,2) finite_connected finite_subset [of X "{url}"] by (intro card_Un_disjoint) auto
  ultimately have "n' = n + card (connected_urls m' - connected_urls m)"
    using IH(5) X(4) by simp
  moreover have "connected_urls m' - connected_urls m \<subseteq> set (url # urls) \<inter> connectable_urls m"
    using IH(3) X(1,2) sets(4) by auto
  moreover have "set (url # urls) \<inter> healthy_urls m \<subseteq> connected_urls m'"
  proof
    show "u \<in> connected_urls m'" if "u \<in> set (url # urls) \<inter> healthy_urls m" for u
      using that IH(2,4) sets(5,6) by (cases "u = url") auto
  qed
  moreover have "connected_urls m \<subseteq> connected_urls m'" using IH(2) X(1) by blast
  ultimately show ?case using IH(1) sets(1) by simp
qed simp

text \<open>C38: Asking for connections connects relays only: no relay is added, removed or disconnected, what is
  newly connected was asked for, registered and of healthy or unknown health, every healthy relay asked
  for is connected afterwards, and the result counts exactly the new connections.\<close>

theorem relay_connections:
  assumes "ensure_connections env targets m = (m', n)"
  shows "dom (map_of (rm_relays m')) = dom (map_of (rm_relays m)) \<and>
     connected_urls m \<subseteq> connected_urls m' \<and>
     connected_urls m' - connected_urls m \<subseteq> set targets \<inter> connectable_urls m \<and>
     set targets \<inter> healthy_urls m \<subseteq> connected_urls m' \<and>
     n = card (connected_urls m' - connected_urls m)"
  using ensure_from_sets [of env 0 targets m 0 m' n] assms by (simp add: ensure_connections_def)

text \<open>Of the default relays, asked for in their order, those with a favourable test are connected.\<close>

text \<open>The default relays asked for twice: the first round connects those with a favourable test, the second
  round none.\<close>

lemma relay_connections_witness:
  "\<exists>m' n. ensure_connections (\<lambda>i. (0, even i)) default_relay_urls (rm_load_default_relays relay_manager_new) = (m', n) \<and>
     dom (map_of (rm_relays m')) = set default_relay_urls \<and> n = card (connected_urls m')"
proof -
  let ?m = "rm_load_default_relays relay_manager_new"
  have loaded: "map_of (rm_relays ?m) = map_of (map (\<lambda>u. (u, fresh_relay u (7 / 10) None)) default_relay_urls)"
    by (simp add: rm_load_default_relays_def get_default_relays_def relay_manager_new_def rm_add_relay_def
        default_relay_urls_def fresh_relay_def fun_eq_iff)
  have "connected_urls ?m = {}"
    unfolding connected_urls_def loaded by (auto simp: map_of_map_restrict fresh_relay_def restrict_map_def split: if_splits)
  moreover have "dom (map_of (rm_relays ?m)) = set default_relay_urls"
    unfolding loaded by (simp add: dom_map_of_conv_image_fst image_image)
  moreover obtain m' n where "ensure_connections (\<lambda>i. (0, even i)) default_relay_urls ?m = (m', n)" by fastforce
  ultimately show ?thesis using relay_connections by fastforce
qed

subsection \<open>What the strategies miss\<close>

text \<open>Relays of the directory that are not registered with the manager are never connected.\<close>

lemma ensure_unregistered:
  "set targets \<inter> dom (map_of (rm_relays m)) = {} \<Longrightarrow> ensure_from env i targets (m, n) = (m, n)"
  by (induction targets arbitrary: i) (simp_all add: needs_connection_def domIff)

theorem geographic_relays_not_connected:
  assumes "rm_strategy m = RsGeographic" "select_relays hash (Some g) cnt m = Inr targets"
    and "set targets \<inter> dom (map_of (rm_relays m)) = {}"
  shows "ensure_connections env targets m = (m, 0)"
  using ensure_unregistered [OF assms(3)] by (simp add: ensure_connections_def)

text \<open>A relay whose test failed once stays unconnected until something else reports a success.\<close>

theorem failed_relay_not_retried:
  assumes "map_of (rm_relays m) url = Some r" "ri_health r = RhUnhealthy" "\<not> ri_is_connected r"
    and "ensure_connections env targets m = (m', n)"
  shows "url \<notin> connected_urls m'"
proof -
  have "url \<notin> connectable_urls m" "url \<notin> connected_urls m"
    using assms(1-3) by (simp_all add: connectable_urls_def connectable_def connected_urls_def)
  then show ?thesis
    using ensure_from_sets [of env 0 targets m 0 m' n] assms(4) unfolding ensure_connections_def by blast
qed

text \<open>The choice in turn is a function of the registered relays: it never advances, and it can name one
  relay twice while another is left out.\<close>

lemma round_robin_static:
  "rm_relays m = rm_relays m' \<Longrightarrow> select_round_robin hash cnt m = select_round_robin hash cnt m'"
  by (simp add: select_round_robin_def)

lemma round_robin_repeats:
  assumes "length (rm_relays m) = 2" "even (unat (hash 0))" "even (unat (hash 1))"
  shows "select_round_robin hash 2 m = replicate 2 (fst (hd (rm_relays m)))"
  using assms by (cases "rm_relays m") (simp_all add: select_round_robin_def even_iff_mod_2_eq_zero numeral_2_eq_2)

section \<open>Statistics\<close>

lemma count_fold:
  "ms_total_relays (fold count_relay rs s) = ms_total_relays s + length rs"
  "ms_healthy_relays (fold count_relay rs s) = ms_healthy_relays s + length (filter (\<lambda>r. ri_health r = RhHealthy) rs)"
  "ms_degraded_relays (fold count_relay rs s) = ms_degraded_relays s + length (filter (\<lambda>r. ri_health r = RhDegraded) rs)"
  "ms_unhealthy_relays (fold count_relay rs s) = ms_unhealthy_relays s + length (filter (\<lambda>r. ri_health r = RhUnhealthy) rs)"
  "ms_unknown_relays (fold count_relay rs s) = ms_unknown_relays s + length (filter (\<lambda>r. ri_health r = RhUnknown) rs)"
  "ms_connected_relays (fold count_relay rs s) = ms_connected_relays s + length (filter ri_is_connected rs)"
  by (induction rs arbitrary: s) (simp_all add: count_relay_def Let_def split: relay_health.split)

text \<open>The statistics count every registered relay once by its health.\<close>

theorem relay_stats_partition:
  "ms_total_relays (relay_get_stats m) = length (rm_relays m) \<and>
   ms_total_relays (relay_get_stats m) =
     ms_healthy_relays (relay_get_stats m) + ms_degraded_relays (relay_get_stats m) +
     ms_unhealthy_relays (relay_get_stats m) + ms_unknown_relays (relay_get_stats m) \<and>
   0 \<le> health_percentage (relay_get_stats m) \<and> health_percentage (relay_get_stats m) \<le> 1"
proof -
  have split: "length rs = length (filter (\<lambda>r. ri_health r = RhHealthy) rs) +
      length (filter (\<lambda>r. ri_health r = RhDegraded) rs) + length (filter (\<lambda>r. ri_health r = RhUnhealthy) rs) +
      length (filter (\<lambda>r. ri_health r = RhUnknown) rs)" for rs
    by (induction rs) (auto, metis relay_health.exhaust)
  show ?thesis
    using split [of "map snd (rm_relays m)"]
    by (simp add: relay_get_stats_def count_fold relay_manager_stats_default_def health_percentage_def
        divide_le_eq_1 flip: of_nat_add)
qed

end
