(* ===== verification/Ble_Transport.thy ===== *)
theory Ble_Transport
  imports Wire Announce Channel_Messages
begin

text \<open>
  The Bluetooth transport: signed advertisements (\<^verbatim>\<open>src/crates/bitchat-ble/src/protocol.rs\<close>), the state of
  a peer (\<^verbatim>\<open>peer.rs\<close>), connections (\<^verbatim>\<open>connection.rs\<close>), discovery (\<^verbatim>\<open>discovery.rs\<close>), advertising on Linux,
  macOS and other platforms (\<^verbatim>\<open>advertising/\<close>) and the transport task with its mesh routing
  (\<^verbatim>\<open>transport.rs\<close>).

  The radio belongs to \<^verbatim>\<open>btleplug\<close> and is the record \<open>radio\<close> of what its calls answer; an operation
  takes it as an argument, so it may answer differently every time; \<open>advertiser_platform\<close> is the same
  for BlueZ and Core Bluetooth. What an operation writes to the radio, what it asks it to advertise or
  to scan, and what it sends to the core is part of its result. Serialisation by \<^verbatim>\<open>bincode\<close>, \<^verbatim>\<open>hex::encode\<close>,
  the clock and the cryptographic primitives are arguments too. The map of the peers is an
  association list in its iteration order. Locks are left out: every operation runs to its end
  before the next one of the task.
\<close>

section \<open>Signed advertisements\<close>

record peer_announcement =
  an_peer_id :: peer_id
  an_timestamp :: u64
  an_signature :: bytes
  an_public_key :: bytes

record announcement_codec =
  an_serialize :: "peer_announcement \<Rightarrow> bytes result"
  an_deserialize :: "bytes \<Rightarrow> peer_announcement result"

definition announcement_challenge :: "peer_id \<Rightarrow> u64 \<Rightarrow> rust_string \<Rightarrow> bytes" where
  "announcement_challenge pid ts device_name = pid @ u64_to_be ts @ device_name"

definition announcement_new ::
    "('sk, 'vk) ed25519 \<Rightarrow> u64 \<Rightarrow> peer_id \<Rightarrow> ('sk, 'vk) identity_key_pair \<Rightarrow> rust_string
     \<Rightarrow> peer_announcement" where
  "announcement_new ed now pid identity device_name =
     \<lparr>an_peer_id = pid, an_timestamp = now,
      an_signature = identity_sign ed identity (announcement_challenge pid now device_name),
      an_public_key = public_key_bytes ed identity\<rparr>"

definition announcement_verify ::
    "(bytes \<Rightarrow> bytes) \<Rightarrow> ('sk, 'vk) ed25519 \<Rightarrow> u64 \<Rightarrow> rust_string \<Rightarrow> u64 \<Rightarrow> peer_announcement \<Rightarrow> bool result" where
  "announcement_verify sha256 ed now device_name max_age_seconds a =
     (if sat_sub now (an_timestamp a) > max_age_seconds then Inr False
      else if length (an_public_key a) \<noteq> 32 then Inr False
      else if fingerprint_to_peer_id (generate_fingerprint sha256 (an_public_key a)) \<noteq> an_peer_id a
        then Inr False
      else if length (an_signature a) \<noteq> 64 then Inr False
      else case identity_verify ed (an_public_key a)
             (announcement_challenge (an_peer_id a) (an_timestamp a) device_name) (an_signature a) of
             Inr _ \<Rightarrow> Inr True
           | Inl _ \<Rightarrow> Inr False)"

definition generate_device_name :: "(bytes \<Rightarrow> rust_string) \<Rightarrow> peer_id \<Rightarrow> rust_string \<Rightarrow> rust_string" where
  "generate_device_name hex_encode pid name_start = name_start @ [0x2D] @ hex_encode pid"

definition extract_and_verify_peer_id ::
    "announcement_codec \<Rightarrow> (bytes \<Rightarrow> rust_string) \<Rightarrow> (bytes \<Rightarrow> bytes) \<Rightarrow> ('sk, 'vk) ed25519 \<Rightarrow> u64
     \<Rightarrow> rust_string \<Rightarrow> bytes \<Rightarrow> rust_string \<Rightarrow> u64 \<Rightarrow> peer_id option result" where
  "extract_and_verify_peer_id codec hex_encode sha256 ed now device_name advertising_data
     device_name_prefix max_age_seconds =
     (case an_deserialize codec advertising_data of
        Inl _ \<Rightarrow> Inl (invalid_packet ''Invalid or missing secure advertising data'')
      | Inr announcement \<Rightarrow>
          rbind (announcement_verify sha256 ed now device_name max_age_seconds announcement) (\<lambda>ok.
            if \<not> ok then Inr None
            else if device_name = generate_device_name hex_encode (an_peer_id announcement) device_name_prefix
              then Inr (Some (an_peer_id announcement))
            else Inr None))"

definition generate_advertising_data ::
    "announcement_codec \<Rightarrow> ('sk, 'vk) ed25519 \<Rightarrow> u64 \<Rightarrow> peer_id \<Rightarrow> ('sk, 'vk) identity_key_pair
     \<Rightarrow> rust_string \<Rightarrow> bytes result" where
  "generate_advertising_data codec ed now pid identity device_name =
     an_serialize codec (announcement_new ed now pid identity device_name)"

section \<open>Peers\<close>

datatype ble_connection_state = BleDisconnected | BleConnecting | BleConnected | BleFailed

text \<open>\<open>'p\<close> is the peripheral; \<^verbatim>\<open>Instant\<close>s are milliseconds on a monotone clock.\<close>

record 'p ble_peer =
  bp_peer_id :: peer_id
  bp_peripheral :: 'p
  bp_device_name :: rust_string
  bp_state :: ble_connection_state
  bp_last_attempt :: "nat option"
  bp_retry_count :: u32

definition ble_peer_new :: "peer_id \<Rightarrow> 'p \<Rightarrow> rust_string \<Rightarrow> 'p ble_peer" where
  "ble_peer_new pid peripheral device_name =
     \<lparr>bp_peer_id = pid, bp_peripheral = peripheral, bp_device_name = device_name,
      bp_state = BleDisconnected, bp_last_attempt = None, bp_retry_count = 0\<rparr>"

definition ble_is_connected :: "'p ble_peer \<Rightarrow> bool" where
  "ble_is_connected p = (bp_state p = BleConnected)"

definition ble_is_connecting :: "'p ble_peer \<Rightarrow> bool" where
  "ble_is_connecting p = (bp_state p = BleConnecting)"

definition ble_can_retry :: "nat \<Rightarrow> 'p ble_peer \<Rightarrow> bool" where
  "ble_can_retry now p \<longleftrightarrow>
     bp_retry_count p < 3 \<and>
     (case bp_last_attempt p of
        None \<Rightarrow> True
      | Some t \<Rightarrow> now - t > from_secs (unat (bp_retry_count p) * 5))"

definition start_connection_attempt :: "nat \<Rightarrow> 'p ble_peer \<Rightarrow> 'p ble_peer" where
  "start_connection_attempt now p =
     p\<lparr>bp_state := BleConnecting, bp_last_attempt := Some now, bp_retry_count := bp_retry_count p + 1\<rparr>"

definition mark_connected :: "'p ble_peer \<Rightarrow> 'p ble_peer" where
  "mark_connected p = p\<lparr>bp_state := BleConnected, bp_retry_count := 0\<rparr>"

definition ble_mark_failed :: "'p ble_peer \<Rightarrow> 'p ble_peer" where
  "ble_mark_failed p = p\<lparr>bp_state := BleFailed\<rparr>"

definition mark_disconnected :: "'p ble_peer \<Rightarrow> 'p ble_peer" where
  "mark_disconnected p = p\<lparr>bp_state := BleDisconnected\<rparr>"

definition update_from_announce :: "discovered_peer \<Rightarrow> 'p ble_peer \<Rightarrow> unit result" where
  "update_from_announce d p =
     (if bp_peer_id p \<noteq> dp_peer_id d then Inl (invalid_packet ''Peer ID mismatch in announce update'')
      else Inr ())"

definition from_discovered_peer :: "discovered_peer \<Rightarrow> 'p ble_peer result" where
  "from_discovered_peer d =
     Inl (invalid_packet ''Cannot create BlePeer from DiscoveredPeer without BLE peripheral'')"

section \<open>Connections\<close>

record ble_config =
  bc_scan_timeout :: duration
  bc_connection_timeout :: duration
  bc_max_packet_size :: nat
  bc_device_name_prefix :: rust_string
  bc_auto_reconnect :: bool

definition ble_config_default :: ble_config where
  "ble_config_default =
     \<lparr>bc_scan_timeout = from_secs 10, bc_connection_timeout = from_secs 5, bc_max_packet_size = 500,
      bc_device_name_prefix = map of_char ''BitChat'', bc_auto_reconnect = True\<rparr>"

text \<open>The characteristics of the service, by their UUID.\<close>

definition TX_CHARACTERISTIC :: "128 word" where
  "TX_CHARACTERISTIC = 0x6E400002B5A3F393E0A9E50E24DCCA9E"

definition RX_CHARACTERISTIC :: "128 word" where
  "RX_CHARACTERISTIC = 0x6E400003B5A3F393E0A9E50E24DCCA9E"

datatype connect_outcome = ConnectOk | ConnectError string | ConnectTimeout

text \<open>Errors of the radio are the texts they are displayed with. \<open>rd_write\<close> answers the \<open>n\<close>-th write of
  an operation.\<close>

record 'p radio =
  rd_connect :: "'p \<Rightarrow> connect_outcome"
  rd_discover_services :: "'p \<Rightarrow> string option"
  rd_characteristics :: "'p \<Rightarrow> 128 word list"
  rd_subscribe :: "'p \<Rightarrow> string option"
  rd_notifications :: "'p \<Rightarrow> string option"
  rd_write :: "'p \<Rightarrow> nat \<Rightarrow> bytes \<Rightarrow> string option"

type_synonym 'p peers = "(peer_id \<times> 'p ble_peer) list"

definition peer_not_found :: "(peer_id \<Rightarrow> string) \<Rightarrow> peer_id \<Rightarrow> fault" where
  "peer_not_found show_id pid = Err (Transport (PeerNotFound (show_id pid)))"

definition connection_failed :: "(peer_id \<Rightarrow> string) \<Rightarrow> peer_id \<Rightarrow> string \<Rightarrow> fault" where
  "connection_failed show_id pid reason = Err (Transport (ConnectionFailed (show_id pid) reason))"

definition invalid_configuration :: "string \<Rightarrow> fault" where
  "invalid_configuration reason = Err (Transport (InvalidConfiguration reason))"

definition start_receiving_from_peer :: "'p radio \<Rightarrow> 'p \<Rightarrow> unit result" where
  "start_receiving_from_peer rd peripheral =
     (if RX_CHARACTERISTIC \<notin> set (rd_characteristics rd peripheral)
      then Inl (invalid_configuration ''RX characteristic not found'')
      else case rd_subscribe rd peripheral of
        Some e \<Rightarrow> Inl (invalid_configuration (''Failed to subscribe to notifications: '' @ e))
      | None \<Rightarrow>
          (case rd_notifications rd peripheral of
             Some e \<Rightarrow> Inl (invalid_configuration (''Failed to get notifications stream: '' @ e))
           | None \<Rightarrow> Inr ()))"

text \<open>What the notification handler of a peer puts into the packet channel.\<close>

definition notification_packets :: "peer_id \<Rightarrow> (128 word \<times> bytes) list \<Rightarrow> (peer_id \<times> bytes) list" where
  "notification_packets pid ns =
     map (\<lambda>(_, v). (pid, v)) (filter (\<lambda>(u, v). u = RX_CHARACTERISTIC \<and> v \<noteq> []) ns)"

definition ble_connect_to_peer ::
    "(peer_id \<Rightarrow> string) \<Rightarrow> ble_config \<Rightarrow> 'p radio \<Rightarrow> nat \<Rightarrow> peer_id \<Rightarrow> 'p peers \<Rightarrow> 'p peers \<times> unit result" where
  "ble_connect_to_peer show_id cfg rd now pid peers =
     (case map_of peers pid of
        None \<Rightarrow> (peers, Inl (peer_not_found show_id pid))
      | Some p \<Rightarrow>
          if ble_is_connected p then (peers, Inr ())
          else if ble_is_connecting p then (peers, Inl (connection_failed show_id pid ''Connection in progress''))
          else if \<not> ble_can_retry now p
            then (peers, Inl (connection_failed show_id pid ''Too many failed connection attempts''))
          else
            let p' = start_connection_attempt now p in
            case rd_connect rd (bp_peripheral p) of
              ConnectOk \<Rightarrow>
                (case rd_discover_services rd (bp_peripheral p) of
                   Some e \<Rightarrow> (map_put pid (ble_mark_failed (mark_connected p')) peers,
                              Inl (connection_failed show_id pid (''Failed to discover services: '' @ e)))
                 | None \<Rightarrow> (map_put pid (mark_connected p') peers,
                            start_receiving_from_peer rd (bp_peripheral p)))
            | ConnectError e \<Rightarrow> (map_put pid (ble_mark_failed p') peers,
                                 Inl (connection_failed show_id pid (''Connection failed: '' @ e)))
            | ConnectTimeout \<Rightarrow> (map_put pid (ble_mark_failed p') peers,
                                 Inl (Err (Transport (Timeout (word_of_nat (bc_connection_timeout cfg)))))))"

definition BLE_MTU :: nat where "BLE_MTU = 244"

fun chunks_of :: "nat \<Rightarrow> 'a list \<Rightarrow> 'a list list" where
  "chunks_of n xs = (if xs = [] \<or> n = 0 then [] else take n xs # chunks_of n (drop n xs))"

declare chunks_of.simps [simp del]

fun write_chunks :: "('p \<Rightarrow> nat \<Rightarrow> bytes \<Rightarrow> string option) \<Rightarrow> 'p \<Rightarrow> nat \<Rightarrow> bytes list \<Rightarrow> bytes list \<times> unit result" where
  "write_chunks write peripheral i [] = ([], Inr ())"
| "write_chunks write peripheral i (c # cs) =
     (case write peripheral i c of
        Some e \<Rightarrow> ([], Inl (invalid_configuration (''Failed to write to characteristic: '' @ e)))
      | None \<Rightarrow> (let (ws, r) = write_chunks write peripheral (Suc i) cs in (c # ws, r)))"

definition send_to_peer ::
    "(peer_id \<Rightarrow> string) \<Rightarrow> 'p radio \<Rightarrow> peer_id \<Rightarrow> bytes \<Rightarrow> 'p peers \<Rightarrow> ('p \<times> bytes) list \<times> unit result" where
  "send_to_peer show_id rd pid bs peers =
     (case map_of peers pid of
        None \<Rightarrow> ([], Inl (peer_not_found show_id pid))
      | Some p \<Rightarrow>
          if \<not> ble_is_connected p then ([], Inl (connection_failed show_id pid ''Peer not connected''))
          else if TX_CHARACTERISTIC \<notin> set (rd_characteristics rd (bp_peripheral p))
            then ([], Inl (invalid_configuration ''TX characteristic not found''))
          else
            let (ws, r) = write_chunks (rd_write rd) (bp_peripheral p) 0 (chunks_of BLE_MTU bs)
            in (map (Pair (bp_peripheral p)) ws, r))"

definition ble_disconnect_peer :: "peer_id \<Rightarrow> 'p peers \<Rightarrow> 'p peers" where
  "ble_disconnect_peer pid peers =
     (case map_of peers pid of
        None \<Rightarrow> peers
      | Some p \<Rightarrow> if ble_is_connected p then map_put pid (mark_disconnected p) peers else peers)"

definition ble_disconnect_all_peers :: "'p peers \<Rightarrow> 'p peers" where
  "ble_disconnect_all_peers = map (\<lambda>(k, p). (k, if ble_is_connected p then mark_disconnected p else p))"

definition ble_connected_peers :: "'p peers \<Rightarrow> peer_id list" where
  "ble_connected_peers peers = map fst (filter (\<lambda>(_, p). ble_is_connected p) peers)"

section \<open>Discovery and advertising\<close>

text \<open>What \<^verbatim>\<open>btleplug\<close> reports of a peripheral, and what a device advertises: \<open>pr_manufacturer_data\<close> by
  company identifier. The flags and the service identifier are the same for every device.\<close>

record ble_properties =
  pr_local_name :: "rust_string option"
  pr_manufacturer_data :: "(u16 \<times> bytes) list"

text \<open>What is asked of the adapter: to publish the GATT service and to drop it, to start, drop or stop
  advertising, and to scan. On Linux the handle of the published service is a local variable and is dropped
  when the function returns.\<close>

datatype radio_call =
    GattServe | GattDrop
  | AdvStart ble_properties | AdvDrop ble_properties | AdvStopAll
  | ScanStart | ScanStop

text \<open>The answers of the platform, errors as the texts they are displayed with, and what the data of an
  advertisement are made with: \<open>ap_class\<close> and \<open>ap_object\<close> say whether the Objective-C runtime finds a class and
  makes an object of it.\<close>

record advertiser_platform =
  ap_session :: "string option"
  ap_adapter :: "string option"
  ap_powered :: bool
  ap_power_on :: "string option"
  ap_serve :: "string option"
  ap_advertise :: "string option"
  ap_class :: "string \<Rightarrow> bool"
  ap_object :: "string \<Rightarrow> bool"
  ap_codec :: announcement_codec
  ap_hex_encode :: "bytes \<Rightarrow> rust_string"
  ap_unix_secs :: u64

definition device_advertisement ::
    "advertiser_platform \<Rightarrow> ('sk, 'vk) ed25519 \<Rightarrow> peer_id \<Rightarrow> ('sk, 'vk) identity_key_pair \<Rightarrow> ble_config
     \<Rightarrow> ble_properties result" where
  "device_advertisement pf ed pid identity cfg =
     (let device_name = generate_device_name (ap_hex_encode pf) pid (bc_device_name_prefix cfg)
      in rbind (generate_advertising_data (ap_codec pf) ed (ap_unix_secs pf) pid identity device_name) (\<lambda>md.
           Inr \<lparr>pr_local_name = Some device_name, pr_manufacturer_data = [(0xFFFF, md)]\<rparr>))"

definition transport_unavailable :: "string \<Rightarrow> fault" where
  "transport_unavailable name = Err (Transport (TransportUnavailable name))"

subsection \<open>Linux\<close>

text \<open>\<open>la_session\<close>: session and adapter, which are set together. \<open>la_handle\<close> is the running advertisement.\<close>

record linux_advertiser =
  la_session :: bool
  la_handle :: "ble_properties option"
  la_is_advertising :: bool

definition linux_advertiser_new :: linux_advertiser where
  "linux_advertiser_new = \<lparr>la_session = False, la_handle = None, la_is_advertising = False\<rparr>"

definition linux_initialize :: "advertiser_platform \<Rightarrow> linux_advertiser \<Rightarrow> linux_advertiser \<times> unit result" where
  "linux_initialize pf a =
     (if la_session a then (a, Inr ())
      else case ap_session pf of
        Some e \<Rightarrow> (a, Inl (transport_unavailable (''BlueZ session: '' @ e)))
      | None \<Rightarrow>
          (case ap_adapter pf of
             Some e \<Rightarrow> (a, Inl (transport_unavailable (''BLE adapter: '' @ e)))
           | None \<Rightarrow>
               (case if ap_powered pf then None else ap_power_on pf of
                  Some e \<Rightarrow> (a, Inl (invalid_configuration (''Failed to power on adapter: '' @ e)))
                | None \<Rightarrow> (a\<lparr>la_session := True\<rparr>, Inr ()))))"

definition linux_start_advertising ::
    "advertiser_platform \<Rightarrow> ble_properties result \<Rightarrow> linux_advertiser
     \<Rightarrow> linux_advertiser \<times> radio_call list \<times> unit result" where
  "linux_start_advertising pf advertisement a =
     (case linux_initialize pf a of
        (a, Inl e) \<Rightarrow> (a, [], Inl e)
      | (a, Inr _) \<Rightarrow>
          (case ap_serve pf of
             Some e \<Rightarrow> (a, [], Inl (invalid_configuration (''Failed to register GATT service: '' @ e)))
           | None \<Rightarrow>
               (case advertisement of
                  Inl e \<Rightarrow> (a, [GattServe, GattDrop], Inl e)
                | Inr adv \<Rightarrow>
                    (case ap_advertise pf of
                       Some e \<Rightarrow> (a, [GattServe, GattDrop],
                         Inl (invalid_configuration (''Failed to start advertising: '' @ e)))
                     | None \<Rightarrow> (a\<lparr>la_handle := Some adv, la_is_advertising := True\<rparr>,
                         [GattServe, AdvStart adv] @
                         (case la_handle a of None \<Rightarrow> [] | Some old \<Rightarrow> [AdvDrop old]) @ [GattDrop], Inr ())))))"

definition linux_stop_advertising :: "linux_advertiser \<Rightarrow> linux_advertiser \<times> radio_call list \<times> unit result" where
  "linux_stop_advertising a =
     (case la_handle a of
        Some adv \<Rightarrow> (a\<lparr>la_handle := None, la_is_advertising := False\<rparr>, [AdvDrop adv], Inr ())
      | None \<Rightarrow> (a, [], Inr ()))"

subsection \<open>macOS\<close>

record macos_advertiser =
  ma_manager :: bool
  ma_service :: bool
  ma_is_advertising :: bool

definition macos_advertiser_new :: macos_advertiser where
  "macos_advertiser_new = \<lparr>ma_manager = False, ma_service = False, ma_is_advertising = False\<rparr>"

fun need_classes :: "advertiser_platform \<Rightarrow> string list \<Rightarrow> unit result" where
  "need_classes pf [] = Inr ()"
| "need_classes pf (c # cs) =
     (if ap_class pf c then need_classes pf cs else Inl (transport_unavailable (c @ '' class not available'')))"

definition initialize_peripheral_manager ::
    "advertiser_platform \<Rightarrow> macos_advertiser \<Rightarrow> macos_advertiser \<times> unit result" where
  "initialize_peripheral_manager pf a =
     (if ma_manager a then (a, Inr ())
      else if \<not> ap_class pf ''CBPeripheralManager''
        then (a, Inl (transport_unavailable ''Core Bluetooth framework missing''))
      else if \<not> ap_object pf ''CBPeripheralManager''
        then (a, Inl (invalid_configuration ''Failed to create CBPeripheralManager instance''))
      else (a\<lparr>ma_manager := True\<rparr>, Inr ()))"

definition create_bitchat_service ::
    "advertiser_platform \<Rightarrow> macos_advertiser \<Rightarrow> macos_advertiser \<times> unit result" where
  "create_bitchat_service pf a =
     (case need_classes pf [''CBUUID'', ''CBMutableService''] of
        Inl e \<Rightarrow> (a, Inl e)
      | Inr _ \<Rightarrow>
          if \<not> ap_object pf ''CBMutableService''
          then (a, Inl (invalid_configuration ''Failed to create CBMutableService''))
          else case need_classes pf [''CBMutableCharacteristic'', ''NSArray''] of
            Inl e \<Rightarrow> (a, Inl e)
          | Inr _ \<Rightarrow> (a\<lparr>ma_service := True\<rparr>, Inr ()))"

text \<open>Manager and service exist once the first two steps have succeeded.\<close>

definition macos_start_advertising ::
    "advertiser_platform \<Rightarrow> ble_properties result \<Rightarrow> macos_advertiser
     \<Rightarrow> macos_advertiser \<times> radio_call list \<times> unit result" where
  "macos_start_advertising pf advertisement a =
     (case initialize_peripheral_manager pf a of
        (a, Inl e) \<Rightarrow> (a, [], Inl e)
      | (a, Inr _) \<Rightarrow>
          (case create_bitchat_service pf a of
             (a, Inl e) \<Rightarrow> (a, [], Inl e)
           | (a, Inr _) \<Rightarrow>
               (case advertisement of
                  Inl e \<Rightarrow> (a, [], Inl e)
                | Inr adv \<Rightarrow>
                    (case need_classes pf
                        [''NSString'', ''NSDictionary'', ''NSArray'', ''CBUUID'', ''NSData'', ''NSNumber''] of
                       Inl e \<Rightarrow> (a, [GattServe], Inl e)
                     | Inr _ \<Rightarrow> (a\<lparr>ma_is_advertising := True\<rparr>, [GattServe, AdvStart adv], Inr ())))))"

definition macos_stop_advertising :: "macos_advertiser \<Rightarrow> macos_advertiser \<times> radio_call list \<times> unit result" where
  "macos_stop_advertising a =
     (if ma_manager a then (a\<lparr>ma_is_advertising := False\<rparr>, [AdvStopAll], Inr ()) else (a, [], Inr ()))"

subsection \<open>The advertising manager\<close>

text \<open>The platform is fixed when the crate is compiled.\<close>

datatype target_os = TargetLinux | TargetMacOS | OtherTarget

datatype platform_advertiser = LinuxPlatform linux_advertiser | MacOSPlatform macos_advertiser | FallbackPlatform

fun platform_advertiser_new :: "target_os \<Rightarrow> platform_advertiser" where
  "platform_advertiser_new TargetLinux = LinuxPlatform linux_advertiser_new"
| "platform_advertiser_new TargetMacOS = MacOSPlatform macos_advertiser_new"
| "platform_advertiser_new OtherTarget = FallbackPlatform"

fun platform_start ::
    "advertiser_platform \<Rightarrow> ble_properties result \<Rightarrow> platform_advertiser
     \<Rightarrow> platform_advertiser \<times> radio_call list \<times> unit result" where
  "platform_start pf adv (LinuxPlatform a) = map_prod LinuxPlatform id (linux_start_advertising pf adv a)"
| "platform_start pf adv (MacOSPlatform a) = map_prod MacOSPlatform id (macos_start_advertising pf adv a)"
| "platform_start pf adv FallbackPlatform = (FallbackPlatform, [], Inr ())"

fun platform_stop :: "platform_advertiser \<Rightarrow> platform_advertiser \<times> radio_call list \<times> unit result" where
  "platform_stop (LinuxPlatform a) = map_prod LinuxPlatform id (linux_stop_advertising a)"
| "platform_stop (MacOSPlatform a) = map_prod MacOSPlatform id (macos_stop_advertising a)"
| "platform_stop FallbackPlatform = (FallbackPlatform, [], Inr ())"

fun platform_is_advertising :: "platform_advertiser \<Rightarrow> bool" where
  "platform_is_advertising (LinuxPlatform a) = la_is_advertising a"
| "platform_is_advertising (MacOSPlatform a) = ma_is_advertising a"
| "platform_is_advertising FallbackPlatform = False"

definition platform_update ::
    "advertiser_platform \<Rightarrow> ble_properties result \<Rightarrow> platform_advertiser
     \<Rightarrow> platform_advertiser \<times> radio_call list \<times> unit result" where
  "platform_update pf adv a =
     (if \<not> platform_is_advertising a then (a, [], Inr ())
      else case platform_stop a of
        (a, calls, Inl e) \<Rightarrow> (a, calls, Inl e)
      | (a, calls, Inr _) \<Rightarrow> (let (a, calls', r) = platform_start pf adv a in (a, calls @ calls', r)))"

record advertising_manager =
  am_advertiser :: platform_advertiser
  am_current_peer_id :: "peer_id option"
  am_rotation_interval :: "duration option"

definition advertising_manager_new :: "target_os \<Rightarrow> advertising_manager" where
  "advertising_manager_new target =
     \<lparr>am_advertiser = platform_advertiser_new target, am_current_peer_id = None, am_rotation_interval = None\<rparr>"

definition advertising_start ::
    "advertiser_platform \<Rightarrow> ('sk, 'vk) ed25519 \<Rightarrow> peer_id \<Rightarrow> ('sk, 'vk) identity_key_pair \<Rightarrow> ble_config
     \<Rightarrow> advertising_manager \<Rightarrow> advertising_manager \<times> radio_call list \<times> unit result" where
  "advertising_start pf ed pid identity cfg m =
     (case platform_start pf (device_advertisement pf ed pid identity cfg) (am_advertiser m) of
        (a, calls, Inl e) \<Rightarrow> (m\<lparr>am_advertiser := a\<rparr>, calls, Inl e)
      | (a, calls, Inr _) \<Rightarrow> (m\<lparr>am_advertiser := a, am_current_peer_id := Some pid\<rparr>, calls, Inr ()))"

definition advertising_stop :: "advertising_manager \<Rightarrow> advertising_manager \<times> radio_call list \<times> unit result" where
  "advertising_stop m =
     (case platform_stop (am_advertiser m) of
        (a, calls, Inl e) \<Rightarrow> (m\<lparr>am_advertiser := a\<rparr>, calls, Inl e)
      | (a, calls, Inr _) \<Rightarrow> (m\<lparr>am_advertiser := a, am_current_peer_id := None\<rparr>, calls, Inr ()))"

definition enable_rotation :: "duration \<Rightarrow> advertising_manager \<Rightarrow> advertising_manager" where
  "enable_rotation interval m = m\<lparr>am_rotation_interval := Some interval\<rparr>"

definition advertising_rotate ::
    "advertiser_platform \<Rightarrow> ('sk, 'vk) ed25519 \<Rightarrow> ('sk, 'vk) identity_key_pair \<Rightarrow> ble_config
     \<Rightarrow> advertising_manager \<Rightarrow> advertising_manager \<times> radio_call list \<times> unit result" where
  "advertising_rotate pf ed identity cfg m =
     (case am_current_peer_id m of
        None \<Rightarrow> (m, [], Inr ())
      | Some pid \<Rightarrow>
          (let (a, calls, r) = platform_update pf (device_advertisement pf ed pid identity cfg) (am_advertiser m)
           in (m\<lparr>am_advertiser := a\<rparr>, calls, r)))"

datatype 'p central_event =
    DeviceDiscovered 'p "ble_properties option"
  | DeviceDisconnected 'p
  | OtherCentralEvent

definition disconnect_peripheral :: "'p \<Rightarrow> 'p peers \<Rightarrow> 'p peers" where
  "disconnect_peripheral peripheral peers =
     (case find (\<lambda>(_, p). bp_peripheral p = peripheral) peers of
        None \<Rightarrow> peers
      | Some (k, p) \<Rightarrow> map_put k (mark_disconnected p) peers)"

text \<open>\<open>verify name data prefix max_age\<close> is \<open>extract_and_verify_peer_id\<close> at the current time. The event
  carries the properties, \<open>None\<close> where the adapter does not find the peripheral or its properties.\<close>

definition process_discovery_event ::
    "(rust_string \<Rightarrow> bytes \<Rightarrow> rust_string \<Rightarrow> u64 \<Rightarrow> peer_id option result) \<Rightarrow> ble_config \<Rightarrow> bool
     \<Rightarrow> 'p central_event \<Rightarrow> 'p peers \<times> peer_id list \<Rightarrow> 'p peers \<times> peer_id list" where
  "process_discovery_event verify cfg adapter ev = (\<lambda>(peers, cached).
     (case ev of
        DeviceDiscovered peripheral props \<Rightarrow>
          (case (adapter, props) of
             (True, Some properties) \<Rightarrow>
               (case pr_local_name properties of
                  None \<Rightarrow> (peers, cached)
                | Some name \<Rightarrow>
                    if take (length (bc_device_name_prefix cfg)) name \<noteq> bc_device_name_prefix cfg
                    then (peers, cached)
                    else case map_of (pr_manufacturer_data properties) 0xFFFF of
                        None \<Rightarrow> (peers, cached)
                      | Some md \<Rightarrow>
                          if md = [] then (peers, cached)
                          else case verify name md (bc_device_name_prefix cfg) 60 of
                              Inr (Some pid) \<Rightarrow>
                                if has_key peers pid then (peers, cached)
                                else (map_put pid (ble_peer_new pid peripheral name) peers, cached @ [pid])
                            | _ \<Rightarrow> (peers, cached))
           | _ \<Rightarrow> (peers, cached))
      | DeviceDisconnected peripheral \<Rightarrow> (disconnect_peripheral peripheral peers, cached)
      | OtherCentralEvent \<Rightarrow> (peers, cached)))"

section \<open>The transport task\<close>

text \<open>The task owns the discovery manager, of which the adapter (initialised or not) and the advertising
  manager are kept. \<open>bt_attached\<close> says whether the channels of the runtime are attached.\<close>

record ('p, 'sk, 'vk) ble_task =
  bt_attached :: bool
  bt_running :: bool
  bt_config :: ble_config
  bt_adapter :: bool
  bt_advertising :: advertising_manager
  bt_peers :: "'p peers"
  bt_local_peer_id :: peer_id
  bt_identity :: "('sk, 'vk) identity_key_pair"
  bt_cached_peers :: "peer_id list"

definition ble_task_new :: "target_os \<Rightarrow> ('sk, 'vk) identity_key_pair \<Rightarrow> ('p, 'sk, 'vk) ble_task" where
  "ble_task_new target identity =
     \<lparr>bt_attached = False, bt_running = False, bt_config = ble_config_default, bt_adapter = False,
      bt_advertising = advertising_manager_new target, bt_peers = [], bt_local_peer_id = [1, 2, 3, 4, 5, 6, 7, 8],
      bt_identity = identity, bt_cached_peers = []\<rparr>"

definition ble_attach_channels :: "('p, 'sk, 'vk) ble_task \<Rightarrow> ('p, 'sk, 'vk) ble_task \<times> unit result" where
  "ble_attach_channels t =
     (if bt_attached t then (t, Inl (invalid_configuration ''BLE transport channels already attached''))
      else (t\<lparr>bt_attached := True\<rparr>, Inr ()))"

text \<open>What surrounds an operation of the task: the radio, the platform of the advertiser, the answer of
  the adapter to a scan, the state of the event channel, the clocks and the cryptography.\<close>

record ('p, 'sk, 'vk) ble_env =
  be_show :: "peer_id \<Rightarrow> string"
  be_display :: "bitchat_error \<Rightarrow> string"
  be_radio :: "'p radio"
  be_advertiser :: advertiser_platform
  be_scan :: "string option"
  be_events_open :: bool
  be_sha256 :: "bytes \<Rightarrow> bytes"
  be_ed25519 :: "('sk, 'vk) ed25519"
  be_now :: timestamp
  be_instant :: nat

datatype 'p ble_output = BleWrite 'p bytes | BleEvent transport_event | BleRadio radio_call

definition send_event ::
    "('p, 'sk, 'vk) ble_env \<Rightarrow> ('p, 'sk, 'vk) ble_task \<Rightarrow> transport_event \<Rightarrow> 'p ble_output list \<times> unit result" where
  "send_event env t ev =
     (if \<not> bt_attached t then ([], Inl (invalid_configuration ''BLE transport missing event sender''))
      else if \<not> be_events_open env
        then ([], Inl (invalid_configuration ''Failed to send event - channel closed''))
      else ([BleEvent ev], Inr ()))"

definition ble_send_packet_to_peer ::
    "('p, 'sk, 'vk) ble_env \<Rightarrow> ('p, 'sk, 'vk) ble_task \<Rightarrow> peer_id \<Rightarrow> bytes \<Rightarrow> 'p ble_output list \<times> unit result" where
  "ble_send_packet_to_peer env t pid bs =
     (case map_of (bt_peers t) pid of
        None \<Rightarrow> ([], Inl (peer_not_found (be_show env) pid))
      | Some p \<Rightarrow>
          if \<not> ble_is_connected p
            then ([], Inl (connection_failed (be_show env) pid ''Peer not connected''))
          else if bc_max_packet_size (bt_config t) < length bs
            then ([], Inl (invalid_configuration ''Packet too large for BLE''))
          else map_prod (map (\<lambda>(q, c). BleWrite q c)) id
                 (send_to_peer (be_show env) (be_radio env) pid bs (bt_peers t)))"

text \<open>Encoding for the transport wraps the error of the wire format in a text; a panic stays one.\<close>

definition ble_encode :: "('p, 'sk, 'vk) ble_env \<Rightarrow> bitchat_packet \<Rightarrow> bytes result" where
  "ble_encode env packet =
     (case wire_encode packet of
        Inl (Err e) \<Rightarrow> Inl (invalid_configuration (''Failed to encode BitChat packet: '' @ be_display env e))
      | r \<Rightarrow> r)"

definition ble_send_bitchat_packet_to_peer ::
    "('p, 'sk, 'vk) ble_env \<Rightarrow> ('p, 'sk, 'vk) ble_task \<Rightarrow> peer_id \<Rightarrow> bitchat_packet
     \<Rightarrow> 'p ble_output list \<times> unit result" where
  "ble_send_bitchat_packet_to_peer env t pid packet =
     (case ble_encode env packet of
        Inl e \<Rightarrow> ([], Inl e)
      | Inr bs \<Rightarrow> ble_send_packet_to_peer env t pid bs)"

definition broadcast_bitchat_packet ::
    "('p, 'sk, 'vk) ble_env \<Rightarrow> ('p, 'sk, 'vk) ble_task \<Rightarrow> bitchat_packet \<Rightarrow> 'p ble_output list \<times> unit result" where
  "broadcast_bitchat_packet env t packet =
     (case ble_encode env packet of
        Inl e \<Rightarrow> ([], Inl e)
      | Inr bs \<Rightarrow>
          if bc_max_packet_size (bt_config t) < length bs
          then ([], Inl (invalid_configuration ''Packet too large for BLE''))
          else (concat (map (\<lambda>pid. map (\<lambda>(q, c). BleWrite q c)
                  (fst (send_to_peer (be_show env) (be_radio env) pid bs (bt_peers t))))
                  (ble_connected_peers (bt_peers t))), Inr ()))"

definition initiate_connection ::
    "('p, 'sk, 'vk) ble_env \<Rightarrow> ('p, 'sk, 'vk) ble_task \<Rightarrow> peer_id \<Rightarrow> 'p ble_output list \<times> unit result" where
  "initiate_connection env t pid =
     (if has_key (bt_peers t) pid then send_event env t (EvConnectionEstablished pid Ble)
      else ([], Inl (peer_not_found (be_show env) pid)))"

definition ble_start_scanning ::
    "('p, 'sk, 'vk) ble_env \<Rightarrow> ('p, 'sk, 'vk) ble_task \<Rightarrow> 'p ble_output list \<times> unit result" where
  "ble_start_scanning env t =
     (if \<not> bt_adapter t then ([], Inl (transport_unavailable ''BLE adapter not initialized''))
      else case be_scan env of
          None \<Rightarrow> ([BleRadio ScanStart], Inr ())
        | Some e \<Rightarrow> ([], Inl (invalid_configuration (''Failed to start BLE scan: '' @ e))))"

definition ble_stop_scanning ::
    "('p, 'sk, 'vk) ble_env \<Rightarrow> ('p, 'sk, 'vk) ble_task \<Rightarrow> 'p ble_output list \<times> unit result" where
  "ble_stop_scanning env t =
     (if bt_adapter t
      then case be_scan env of
          None \<Rightarrow> ([BleRadio ScanStop], Inr ())
        | Some e \<Rightarrow> ([], Inl (invalid_configuration (''Failed to stop BLE scan: '' @ e)))
      else ([], Inr ()))"

definition ble_start_advertising ::
    "('p, 'sk, 'vk) ble_env \<Rightarrow> ('p, 'sk, 'vk) ble_task
     \<Rightarrow> ('p, 'sk, 'vk) ble_task \<times> 'p ble_output list \<times> unit result" where
  "ble_start_advertising env t =
     (let (m, calls, r) = advertising_start (be_advertiser env) (be_ed25519 env) (bt_local_peer_id t) (bt_identity t)
            (bt_config t) (bt_advertising t)
      in (t\<lparr>bt_advertising := m\<rparr>, map BleRadio calls, r))"

definition ble_stop_advertising ::
    "('p, 'sk, 'vk) ble_task \<Rightarrow> ('p, 'sk, 'vk) ble_task \<times> 'p ble_output list \<times> unit result" where
  "ble_stop_advertising t =
     (let (m, calls, r) = advertising_stop (bt_advertising t)
      in (t\<lparr>bt_advertising := m\<rparr>, map BleRadio calls, r))"

definition process_effect ::
    "('p, 'sk, 'vk) ble_env \<Rightarrow> effect \<Rightarrow> ('p, 'sk, 'vk) ble_task
     \<Rightarrow> ('p, 'sk, 'vk) ble_task \<times> 'p ble_output list \<times> unit result" where
  "process_effect env eff t =
     (case eff of
        SendPacket pid bs Ble \<Rightarrow> (t, ble_send_packet_to_peer env t pid bs)
      | SendBitchatPacket pid packet Ble \<Rightarrow> (t, ble_send_bitchat_packet_to_peer env t pid packet)
      | BroadcastBitchatPacket packet Ble \<Rightarrow> (t, broadcast_bitchat_packet env t packet)
      | EffInitiateConnection pid Ble \<Rightarrow> (t, initiate_connection env t pid)
      | StartListening Ble \<Rightarrow> ble_start_advertising env t
      | StopListening Ble \<Rightarrow> ble_stop_advertising t
      | EffStartTransportDiscovery Ble \<Rightarrow> (t, ble_start_scanning env t)
      | EffStopTransportDiscovery Ble \<Rightarrow> (t, ble_stop_scanning env t)
      | _ \<Rightarrow> (t, [], Inr ()))"

section \<open>Mesh routing\<close>

definition handle_announce_packet ::
    "('p, 'sk, 'vk) ble_env \<Rightarrow> peer_id \<Rightarrow> bitchat_packet \<Rightarrow> ('p, 'sk, 'vk) ble_task
     \<Rightarrow> ('p, 'sk, 'vk) ble_task \<times> 'p ble_output list \<times> unit result" where
  "handle_announce_packet env pid packet t =
     (if message_type (header packet) \<noteq> Announce
      then (t, [], Inl (invalid_packet ''Expected announce packet''))
      else case from_announce_packet (be_sha256 env) (be_ed25519 env) packet (be_now env) of
        Inl e \<Rightarrow> (t, [], Inl e)
      | Inr d \<Rightarrow>
          if dp_peer_id d \<noteq> pid
          then (t, [], Inl (invalid_packet ''Announce packet sender ID mismatch''))
          else
            let discovered = (if bt_attached t \<and> be_events_open env
                              then [BleEvent (EvPeerDiscovered pid Ble None)] else [])
            in case map_of (bt_peers t) pid of
                 Some p \<Rightarrow>
                   (case update_from_announce d p of
                      Inl e \<Rightarrow> (t, [], Inl e)
                    | Inr _ \<Rightarrow> (t, discovered, Inr ()))
               | None \<Rightarrow>
                   (case from_discovered_peer d of
                      Inl e \<Rightarrow> (t, [], Inl e)
                    | Inr p \<Rightarrow> (t\<lparr>bt_peers := map_put pid p (bt_peers t)\<rparr>, discovered, Inr ())))"

text \<open>The peers a packet is forwarded to, and the packet that is forwarded.\<close>

definition forward_targets :: "('p, 'sk, 'vk) ble_task \<Rightarrow> peer_id \<Rightarrow> peer_id list" where
  "forward_targets t from_peer =
     map fst (filter (\<lambda>(k, p). k \<noteq> from_peer \<and> ble_is_connected p) (bt_peers t))"

definition forwarded_packet :: "ttl \<Rightarrow> bitchat_packet \<Rightarrow> bitchat_packet" where
  "forwarded_packet new_ttl packet =
     packet\<lparr>header := (header packet)\<lparr>h_ttl := new_ttl,
              payload_length := word_of_nat (length (payload packet))\<rparr>\<rparr>"

text \<open>An error of one send is logged and the loop goes on; a panic ends the task.\<close>

fun ble_send_all ::
    "(peer_id \<Rightarrow> 'p ble_output list \<times> unit result) \<Rightarrow> peer_id list \<Rightarrow> 'p ble_output list \<times> unit result" where
  "ble_send_all send [] = ([], Inr ())"
| "ble_send_all send (pid # pids) =
     (case send pid of
        (out, Inl Panic) \<Rightarrow> (out, Inl Panic)
      | (out, _) \<Rightarrow> (let (out', r) = ble_send_all send pids in (out @ out', r)))"

definition forward_packet ::
    "('p, 'sk, 'vk) ble_env \<Rightarrow> ('p, 'sk, 'vk) ble_task \<Rightarrow> bitchat_packet \<Rightarrow> peer_id
     \<Rightarrow> 'p ble_output list \<times> unit result" where
  "forward_packet env t packet from_peer =
     (case ttl_decrement (h_ttl (header packet)) of
        None \<Rightarrow> ([], Inr ())
      | Some new_ttl \<Rightarrow>
          ble_send_all (\<lambda>pid. ble_send_bitchat_packet_to_peer env t pid (forwarded_packet new_ttl packet))
            (forward_targets t from_peer))"

definition is_for_us :: "('p, 'sk, 'vk) ble_task \<Rightarrow> bitchat_packet \<Rightarrow> bool" where
  "is_for_us t packet \<longleftrightarrow> is_broadcast packet \<or> recipient_id packet = Some (bt_local_peer_id t)"

definition handle_incoming_packet ::
    "('p, 'sk, 'vk) ble_env \<Rightarrow> peer_id \<Rightarrow> bytes \<Rightarrow> ('p, 'sk, 'vk) ble_task
     \<Rightarrow> ('p, 'sk, 'vk) ble_task \<times> 'p ble_output list \<times> unit result" where
  "handle_incoming_packet env from_peer bs t =
     (case wire_decode bs of
        Inl Panic \<Rightarrow> (t, [], Inl Panic)
      | Inl (Err e) \<Rightarrow> (t, [], Inr ())
      | Inr packet \<Rightarrow>
          let (t, out1, r1) = (if message_type (header packet) = Announce
                               then handle_announce_packet env from_peer packet t else (t, [], Inr ()))
          in if r1 = Inl Panic then (t, out1, Inl Panic)
             else if is_for_us t packet then
               (let (out2, r) = send_event env t (EvBitchatPacketReceived (sender_id packet) packet Ble)
                in (t, out1 @ out2, r))
             else if 0 < h_ttl (header packet) then
               (let (out2, r) = forward_packet env t packet from_peer in (t, out1 @ out2, r))
             else (t, out1, Inr ()))"

definition stale_threshold_ms :: duration where "stale_threshold_ms = from_secs 300"

definition stale_ble_peers :: "nat \<Rightarrow> 'p peers \<Rightarrow> peer_id list" where
  "stale_ble_peers now peers =
     map fst (filter (\<lambda>(_, p). case bp_last_attempt p of
                          None \<Rightarrow> False | Some at \<Rightarrow> now - at > stale_threshold_ms) peers)"

definition perform_maintenance :: "nat \<Rightarrow> ('p, 'sk, 'vk) ble_task \<Rightarrow> ('p, 'sk, 'vk) ble_task" where
  "perform_maintenance now t =
     (let stale = stale_ble_peers now (bt_peers t)
      in t\<lparr>bt_peers := fold map_del stale (bt_peers t),
           bt_cached_peers := filter (\<lambda>p. p \<notin> set stale) (bt_cached_peers t)\<rparr>)"

definition ble_send_announce_to_peer ::
    "('p, 'sk, 'vk) ble_env \<Rightarrow> ('p, 'sk, 'vk) ble_task \<Rightarrow> peer_id \<Rightarrow> rust_string \<Rightarrow> 'p ble_output list \<times> unit result" where
  "ble_send_announce_to_peer env t pid nickname =
     (case create_announce (be_sha256 env) (be_ed25519 env) (bt_local_peer_id t) nickname (replicate 32 0)
             (bt_identity t) None (be_now env) of
        Inl e \<Rightarrow> ([], Inl e)
      | Inr packet \<Rightarrow> ble_send_bitchat_packet_to_peer env t pid packet)"

definition ble_broadcast_announce ::
    "('p, 'sk, 'vk) ble_env \<Rightarrow> ('p, 'sk, 'vk) ble_task \<Rightarrow> rust_string \<Rightarrow> 'p ble_output list \<times> unit result" where
  "ble_broadcast_announce env t nickname =
     (case create_announce (be_sha256 env) (be_ed25519 env) (bt_local_peer_id t) nickname (replicate 32 0)
             (bt_identity t) None (be_now env) of
        Inl e \<Rightarrow> ([], Inl e)
      | Inr packet \<Rightarrow> broadcast_bitchat_packet env t packet)"

section \<open>The loop of the task\<close>

text \<open>One iteration: an effect of the core, a packet from a connection, or one of the two timers. An
  error is logged, a panic ends the task (\<open>None\<close>). The discovery scan does nothing yet.\<close>

datatype ble_input = BiEffect effect | BiPacket peer_id bytes | BiScan | BiMaintenance

fun ble_iteration ::
    "('p, 'sk, 'vk) ble_env \<Rightarrow> ble_input \<Rightarrow> ('p, 'sk, 'vk) ble_task
     \<Rightarrow> ('p, 'sk, 'vk) ble_task \<times> 'p ble_output list \<times> unit result" where
  "ble_iteration env (BiEffect eff) t = process_effect env eff t"
| "ble_iteration env (BiPacket from_peer bs) t = handle_incoming_packet env from_peer bs t"
| "ble_iteration env BiScan t = (t, [], Inr ())"
| "ble_iteration env BiMaintenance t = (perform_maintenance (be_instant env) t, [], Inr ())"

fun ble_run ::
    "(('p, 'sk, 'vk) ble_env \<times> ble_input) list \<Rightarrow> ('p, 'sk, 'vk) ble_task
     \<Rightarrow> ('p, 'sk, 'vk) ble_task option \<times> 'p ble_output list" where
  "ble_run [] t = (Some t, [])"
| "ble_run ((env, i) # is) t =
     (case ble_iteration env i t of
        (t', out, Inl Panic) \<Rightarrow> (None, out)
      | (t', out, _) \<Rightarrow> (let (t'', out') = ble_run is t' in (t'', out @ out')))"

text \<open>The start of the loop: the channels must be attached, and the loop sets \<open>bt_running\<close>.\<close>

definition ble_start :: "('p, 'sk, 'vk) ble_task \<Rightarrow> ('p, 'sk, 'vk) ble_task result" where
  "ble_start t =
     (if \<not> bt_attached t
      then Inl (invalid_configuration ''BLE transport started without transport channels'')
      else if bt_running t then Inl (invalid_configuration ''BLE transport started twice'')
      else Inr (t\<lparr>bt_running := True\<rparr>))"

section \<open>Lemmas\<close>

lemma sat_sub_gt_iff: "b < sat_sub x y \<longleftrightarrow> \<not> unat x - unat y \<le> unat b"
  by (simp add: word_less_nat_alt unat_sat_sub not_le)

lemma an_peer_id_new [simp]: "an_peer_id (announcement_new ed ts pid kp name) = pid"
  by (simp add: announcement_new_def)

lemma announcement_verify_new:
  assumes "ed25519_correct ed" and "key_pair_ok ed kp"
  shows "announcement_verify sha256 ed now name max_age (announcement_new ed ts pid kp name) =
    Inr (\<not> max_age < sat_sub now ts \<and>
      pid = fingerprint_to_peer_id (sha256 (public_key_bytes ed kp)))"
  by (simp add: announcement_verify_def announcement_new_def generate_fingerprint_def
      identity_verify_sign [OF assms] identity_sizes [OF assms(1)])

subsection \<open>The map of the peers\<close>

text \<open>A well-formed entry: the peer is stored under its identifier, has the device name of that
  identifier, and was not given more than three connection attempts.\<close>

definition ble_peer_ok :: "(bytes \<Rightarrow> rust_string) \<Rightarrow> ble_config \<Rightarrow> peer_id \<Rightarrow> 'p ble_peer \<Rightarrow> bool" where
  "ble_peer_ok hex_encode cfg pid p \<longleftrightarrow>
     bp_peer_id p = pid \<and>
     bp_device_name p = generate_device_name hex_encode pid (bc_device_name_prefix cfg) \<and>
     bp_retry_count p \<le> 3 \<and> \<not> ble_is_connecting p \<and>
     (bp_state p = BleConnected \<longrightarrow> bp_retry_count p = 0)"

definition ble_peers_ok ::
    "(bytes \<Rightarrow> rust_string) \<Rightarrow> ble_config \<Rightarrow> 'p peers \<times> peer_id list \<Rightarrow> bool" where
  "ble_peers_ok hex_encode cfg = (\<lambda>(peers, cached).
     distinct (keys_of peers) \<and> set cached = dom (map_of peers) \<and>
     (\<forall>pid p. map_of peers pid = Some p \<longrightarrow> ble_peer_ok hex_encode cfg pid p))"

text \<open>The operations on the map, as the transport library offers them.\<close>

inductive ble_peers_step ::
    "(peer_id \<Rightarrow> string) \<Rightarrow> announcement_codec \<Rightarrow> (bytes \<Rightarrow> rust_string) \<Rightarrow> (bytes \<Rightarrow> bytes) \<Rightarrow> ('sk, 'vk) ed25519
     \<Rightarrow> ble_config \<Rightarrow> 'p peers \<times> peer_id list \<Rightarrow> 'p peers \<times> peer_id list \<Rightarrow> bool"
  for show_id codec hex_encode sha256 ed cfg where
  discovery: "ble_peers_step show_id codec hex_encode sha256 ed cfg s
     (process_discovery_event (extract_and_verify_peer_id codec hex_encode sha256 ed now) cfg adapter ev s)"
| connect: "ble_peers_step show_id codec hex_encode sha256 ed cfg (peers, cached)
     (fst (ble_connect_to_peer show_id cfg rd at pid peers), cached)"
| disconnect: "ble_peers_step show_id codec hex_encode sha256 ed cfg (peers, cached)
     (ble_disconnect_peer pid peers, cached)"
| disconnect_all: "ble_peers_step show_id codec hex_encode sha256 ed cfg (peers, cached)
     (ble_disconnect_all_peers peers, cached)"
| maintenance: "ble_peers_step show_id codec hex_encode sha256 ed cfg
     (bt_peers (t :: ('p, 'sk, 'vk) ble_task), bt_cached_peers t)
     (bt_peers (perform_maintenance at t), bt_cached_peers (perform_maintenance at t))"

lemma extract_sound:
  assumes "extract_and_verify_peer_id codec hex_encode sha256 ed now name md pre age = Inr (Some pid)"
  shows "\<exists>a. an_deserialize codec md = Inr a \<and> an_peer_id a = pid \<and>
    pid = fingerprint_to_peer_id (sha256 (an_public_key a)) \<and>
    identity_verify ed (an_public_key a) (announcement_challenge pid (an_timestamp a) name)
      (an_signature a) = Inr () \<and>
    \<not> age < sat_sub now (an_timestamp a) \<and>
    name = generate_device_name hex_encode pid pre"
proof -
  from assms obtain a where a: "an_deserialize codec md = Inr a"
    and ok: "announcement_verify sha256 ed now name age a = Inr True" and pid: "an_peer_id a = pid"
    and name: "name = generate_device_name hex_encode pid pre"
    by (auto simp: extract_and_verify_peer_id_def rbind_eq_Inr split: sum.splits if_splits)
  show ?thesis
    using ok a pid name
    by (intro exI [of _ a]) (auto simp: announcement_verify_def generate_fingerprint_def split: if_splits sum.splits)
qed

lemma ble_peer_ok_marks [simp]:
  assumes "ble_peer_ok hex_encode cfg pid p"
  shows "ble_peer_ok hex_encode cfg pid (mark_disconnected p)"
  using assms by (simp add: ble_peer_ok_def mark_disconnected_def ble_is_connecting_def)

lemma ble_peer_ok_attempt:
  assumes "ble_peer_ok hex_encode cfg pid p" and "ble_can_retry at p"
  shows "ble_peer_ok hex_encode cfg pid (ble_mark_failed (start_connection_attempt at p))"
    and "ble_peer_ok hex_encode cfg pid (mark_connected (start_connection_attempt at p))"
    and "ble_peer_ok hex_encode cfg pid (ble_mark_failed (mark_connected (start_connection_attempt at p)))"
proof -
  have "bp_retry_count p < 3" using assms(2) by (simp add: ble_can_retry_def)
  then have "bp_retry_count p + 1 \<le> 3" by (simp add: inc_le)
  then show "ble_peer_ok hex_encode cfg pid (ble_mark_failed (start_connection_attempt at p))"
    "ble_peer_ok hex_encode cfg pid (mark_connected (start_connection_attempt at p))"
    "ble_peer_ok hex_encode cfg pid (ble_mark_failed (mark_connected (start_connection_attempt at p)))"
    using assms(1)
    by (simp_all add: ble_peer_ok_def ble_mark_failed_def mark_connected_def start_connection_attempt_def
        ble_is_connecting_def)
qed

lemma ble_peers_ok_put:
  assumes "ble_peers_ok hex_encode cfg (peers, cached)" and "map_of peers pid = Some p"
    and "ble_peer_ok hex_encode cfg pid q"
  shows "ble_peers_ok hex_encode cfg (map_put pid q peers, cached)"
  using assms by (auto simp: ble_peers_ok_def)

lemma has_key_dom: "has_key m k \<longleftrightarrow> k \<in> dom (map_of m)"
  by (simp add: has_key_iff dom_map_of_conv_image_fst)

lemma ble_peers_ok_new:
  assumes "ble_peers_ok hex_encode cfg (peers, cached)"
    and "extract_and_verify_peer_id codec hex_encode sha256 ed now name md (bc_device_name_prefix cfg) 60 = Inr (Some pid)"
  shows "ble_peers_ok hex_encode cfg (map_put pid (ble_peer_new pid q name) peers, cached @ [pid])"
  using assms(1) extract_sound [OF assms(2)]
  by (auto simp: ble_peers_ok_def ble_peer_ok_def ble_peer_new_def ble_is_connecting_def)

lemma ble_peers_ok_connect:
  assumes "ble_peers_ok hex_encode cfg (peers, cached)"
  shows "ble_peers_ok hex_encode cfg (fst (ble_connect_to_peer show_id cfg rd at pid peers), cached)"
proof (cases "map_of peers pid")
  case None
  with assms show ?thesis by (simp add: ble_connect_to_peer_def)
next
  case (Some p)
  then have "ble_peer_ok hex_encode cfg pid p" using assms by (simp add: ble_peers_ok_def)
  with Some assms show ?thesis
    by (auto simp: ble_connect_to_peer_def Let_def intro!: ble_peers_ok_put ble_peer_ok_attempt
        split: connect_outcome.split option.split)
qed

lemma ble_peers_ok_discovery:
  assumes "ble_peers_ok hex_encode cfg s"
  shows "ble_peers_ok hex_encode cfg
    (process_discovery_event (extract_and_verify_peer_id codec hex_encode sha256 ed now) cfg adapter ev s)"
proof -
  obtain peers cached where s: "s = (peers, cached)" by fastforce
  have find: "\<exists>p. map_of peers k = Some p \<and> p = q" if "find P peers = Some (k, q)" for P k q
    using that assms by (auto simp: s ble_peers_ok_def find_Some_iff intro!: map_of_is_SomeI)
  show ?thesis
  proof (cases ev)
    case (DeviceDisconnected q)
    then show ?thesis
      using assms
      by (auto simp: process_discovery_event_def s disconnect_peripheral_def split: option.split dest!: find
          intro!: ble_peers_ok_put) (auto simp: ble_peers_ok_def)
  next
    case (DeviceDiscovered q props)
    then show ?thesis
      using assms
      by (auto simp: process_discovery_event_def s split: option.split sum.split bool.split
          intro: ble_peers_ok_new)
  qed (use assms in \<open>simp add: process_discovery_event_def s\<close>)
qed

lemma map_of_disconnect_all:
  "map_of (ble_disconnect_all_peers peers) k =
     map_option (\<lambda>p. if ble_is_connected p then mark_disconnected p else p) (map_of peers k)"
  by (induction peers) (auto simp: ble_disconnect_all_peers_def)

lemma keys_disconnect_all: "keys_of (ble_disconnect_all_peers peers) = keys_of peers"
  by (auto simp: ble_disconnect_all_peers_def)

lemma ble_peers_ok_step:
  assumes "ble_peers_step show_id codec hex_encode sha256 ed cfg s s'" and "ble_peers_ok hex_encode cfg s"
  shows "ble_peers_ok hex_encode cfg s'"
  using assms
proof cases
  case (discovery now adapter ev)
  then show ?thesis using assms(2) by (simp add: ble_peers_ok_discovery)
next
  case (connect peers cached rd at pid)
  then show ?thesis using assms(2) by (simp add: ble_peers_ok_connect)
next
  case (disconnect peers cached pid)
  then show ?thesis
    using assms(2)
    by (auto simp: ble_disconnect_peer_def split: option.split intro!: ble_peers_ok_put)
      (auto simp: ble_peers_ok_def)
next
  case (disconnect_all peers cached)
  then show ?thesis
    using assms(2) by (auto simp: ble_peers_ok_def map_of_disconnect_all keys_disconnect_all)
next
  case (maintenance t at)
  then show ?thesis
    using assms(2)
    by (auto simp: ble_peers_ok_def perform_maintenance_def Let_def map_of_fold_del
        distinct_fold_del split: if_splits)
qed

interpretation ble_peers: invariant_system "\<lambda>s. s = ([], [])"
    "ble_peers_step show_id codec hex_encode sha256 ed cfg" "ble_peers_ok hex_encode cfg"
    for show_id codec hex_encode sha256 ed cfg
  by unfold_locales (simp add: ble_peers_ok_def, rule ble_peers_ok_step)

subsection \<open>A task without peers\<close>

text \<open>What a task does that never discovers anything: it reports received packets, and it advertises itself
  under its fixed identifier.\<close>

definition fixed_peer_id :: peer_id where "fixed_peer_id = [1, 2, 3, 4, 5, 6, 7, 8]"

fun own_radio_call :: "('sk, 'vk) identity_key_pair \<Rightarrow> ('p, 'sk, 'vk) ble_env list \<Rightarrow> radio_call \<Rightarrow> bool" where
  "own_radio_call kp envs (AdvStart adv) =
     list_ex (\<lambda>env. device_advertisement (be_advertiser env) (be_ed25519 env) fixed_peer_id kp ble_config_default =
       Inr adv) envs"
| "own_radio_call kp envs ScanStart = False"
| "own_radio_call kp envs ScanStop = False"
| "own_radio_call kp envs c = True"

fun quiet_output :: "('sk, 'vk) identity_key_pair \<Rightarrow> ('p, 'sk, 'vk) ble_env list \<Rightarrow> 'p ble_output \<Rightarrow> bool" where
  "quiet_output kp envs (BleWrite p bs) = False"
| "quiet_output kp envs (BleEvent e) = (case e of EvBitchatPacketReceived _ _ Ble \<Rightarrow> True | _ \<Rightarrow> False)"
| "quiet_output kp envs (BleRadio c) = own_radio_call kp envs c"

fun starts_advertising :: "'p ble_output \<Rightarrow> bool" where
  "starts_advertising (BleRadio (AdvStart adv)) = True"
| "starts_advertising out = False"

definition undiscovering :: "('sk, 'vk) identity_key_pair \<Rightarrow> ('p, 'sk, 'vk) ble_task \<Rightarrow> bool" where
  "undiscovering kp t \<longleftrightarrow> bt_peers t = [] \<and> \<not> bt_adapter t \<and> bt_local_peer_id t = fixed_peer_id \<and>
     bt_identity t = kp \<and> bt_config t = ble_config_default"

lemma quiet_output_more: "quiet_output kp envs x \<Longrightarrow> set envs \<subseteq> set envs' \<Longrightarrow> quiet_output kp envs' x"
proof (cases x)
  case (BleRadio c)
  then show "quiet_output kp envs x \<Longrightarrow> set envs \<subseteq> set envs' \<Longrightarrow> ?thesis"
    by (cases c) (auto simp: list_ex_iff)
qed auto

lemma send_event_received [simp]:
  "list_all (quiet_output kp envs) (fst (send_event env t (EvBitchatPacketReceived a b Ble)))"
  "filter starts_advertising (fst (send_event env t ev)) = []"
  by (simp_all add: send_event_def)

lemma no_peers_sends [simp]:
  assumes "bt_peers t = []"
  shows "fst (ble_send_packet_to_peer env t pid bs) = []"
    and "fst (ble_send_bitchat_packet_to_peer env t pid packet) = []"
    and "fst (broadcast_bitchat_packet env t packet) = []"
    and "fst (initiate_connection env t pid) = []"
    and "fst (forward_packet env t packet from_peer) = []"
  using assms
  by (simp_all add: ble_send_packet_to_peer_def ble_send_bitchat_packet_to_peer_def has_key_def
      broadcast_bitchat_packet_def initiate_connection_def ble_connected_peers_def forward_packet_def
      forward_targets_def split: sum.split option.split)

lemma handle_announce_same [simp]: "fst (handle_announce_packet env pid packet t) = t"
  by (simp add: handle_announce_packet_def Let_def from_discovered_peer_def split: sum.split option.split)

lemma handle_announce_no_peers [simp]:
  "bt_peers t = [] \<Longrightarrow> fst (snd (handle_announce_packet env pid packet t)) = []"
  by (simp add: handle_announce_packet_def Let_def from_discovered_peer_def split: sum.split)

lemma handle_incoming_same: "fst (handle_incoming_packet env from_peer bs t) = t"
  by (simp add: handle_incoming_packet_def Let_def split_beta split: sum.split fault.split)

lemma handle_incoming_no_peers:
  assumes "bt_peers t = []"
  shows "list_all (quiet_output kp envs) (fst (snd (handle_incoming_packet env from_peer bs t)))"
    and "filter starts_advertising (fst (snd (handle_incoming_packet env from_peer bs t))) = []"
proof -
  have "list_all (quiet_output kp envs) (fst (snd (handle_incoming_packet env from_peer bs t))) \<and>
    filter starts_advertising (fst (snd (handle_incoming_packet env from_peer bs t))) = []"
  proof (cases "wire_decode bs")
    case (Inl e)
    then show ?thesis by (cases e) (simp_all add: handle_incoming_packet_def)
  next
    case (Inr p)
    then show ?thesis
      using assms by (simp add: handle_incoming_packet_def Let_def split_beta)
  qed
  then show "list_all (quiet_output kp envs) (fst (snd (handle_incoming_packet env from_peer bs t)))"
    "filter starts_advertising (fst (snd (handle_incoming_packet env from_peer bs t))) = []" by simp_all
qed

text \<open>What the platforms are asked to advertise is the advertisement they are given, at most once.\<close>

lemma linux_start_calls:
  "linux_start_advertising pf adv a = (a', calls, r) \<Longrightarrow>
   AdvStart x \<in> set calls \<longrightarrow> adv = Inr x" "linux_start_advertising pf adv a = (a', calls, r) \<Longrightarrow>
   length (filter starts_advertising (map BleRadio calls)) \<le> 1 \<and> ScanStart \<notin> set calls \<and> ScanStop \<notin> set calls"
  by (auto simp: linux_start_advertising_def linux_initialize_def split: if_splits option.splits sum.splits)

lemma macos_start_calls:
  "macos_start_advertising pf adv a = (a', calls, r) \<Longrightarrow>
   AdvStart x \<in> set calls \<longrightarrow> adv = Inr x" "macos_start_advertising pf adv a = (a', calls, r) \<Longrightarrow>
   length (filter starts_advertising (map BleRadio calls)) \<le> 1 \<and> ScanStart \<notin> set calls \<and> ScanStop \<notin> set calls"
  by (auto simp: macos_start_advertising_def split: sum.splits prod.splits)

lemma platform_start_calls:
  assumes "platform_start pf adv a = (a', calls, r)"
  shows "AdvStart x \<in> set calls \<Longrightarrow> adv = Inr x"
    and "length (filter starts_advertising (map BleRadio calls)) \<le> 1"
    and "ScanStart \<notin> set calls" and "ScanStop \<notin> set calls"
  using assms linux_start_calls macos_start_calls by (cases a; fastforce simp: map_prod_def split: prod.splits)+

lemma platform_stop_calls:
  assumes "platform_stop a = (a', calls, r)"
  shows "set calls \<subseteq> insert AdvStopAll (range AdvDrop)"
  using assms
  by (cases a) (auto simp: map_prod_def linux_stop_advertising_def macos_stop_advertising_def
      split: prod.splits option.splits if_splits)

lemma advertising_quiet:
  assumes "undiscovering kp t"
  shows "undiscovering kp (fst (ble_start_advertising env t))" and "undiscovering kp (fst (ble_stop_advertising t))"
    and "list_all (quiet_output kp [env]) (fst (snd (ble_start_advertising env t)))"
    and "list_all (quiet_output kp [env]) (fst (snd (ble_stop_advertising t)))"
    and "length (filter starts_advertising (fst (snd (ble_start_advertising env t)))) \<le> 1"
    and "filter starts_advertising (fst (snd (ble_stop_advertising t))) = []"
proof -
  let ?adv = "device_advertisement (be_advertiser env) (be_ed25519 env) fixed_peer_id kp ble_config_default"
  obtain a calls r where start: "platform_start (be_advertiser env) ?adv (am_advertiser (bt_advertising t)) = (a, calls, r)"
    by (metis prod_cases3)
  obtain a' calls' r' where stop: "platform_stop (am_advertiser (bt_advertising t)) = (a', calls', r')"
    by (metis prod_cases3)
  have t: "bt_local_peer_id t = fixed_peer_id" "bt_identity t = kp" "bt_config t = ble_config_default"
    using assms by (simp_all add: undiscovering_def)
  have out: "fst (snd (ble_start_advertising env t)) = map BleRadio calls"
    "fst (snd (ble_stop_advertising t)) = map BleRadio calls'"
    by (simp_all add: ble_start_advertising_def advertising_start_def t start ble_stop_advertising_def
        advertising_stop_def stop split: sum.split)
  show "undiscovering kp (fst (ble_start_advertising env t))" "undiscovering kp (fst (ble_stop_advertising t))"
    using assms by (simp_all add: undiscovering_def ble_start_advertising_def ble_stop_advertising_def split_beta)
  have "own_radio_call kp [env] c" if "c \<in> set calls" for c
    using platform_start_calls [OF start] that by (cases c) auto
  then show "list_all (quiet_output kp [env]) (fst (snd (ble_start_advertising env t)))"
    by (auto simp: out list_all_iff)
  show "list_all (quiet_output kp [env]) (fst (snd (ble_stop_advertising t)))"
    "filter starts_advertising (fst (snd (ble_stop_advertising t))) = []"
    using platform_stop_calls [OF stop] by (auto simp: out list_all_iff filter_empty_conv)
  show "length (filter starts_advertising (fst (snd (ble_start_advertising env t)))) \<le> 1"
    using platform_start_calls(2) [OF start] by (simp add: out)
qed

lemma process_effect_quiet:
  assumes "undiscovering kp t"
  shows "undiscovering kp (fst (process_effect env eff t))"
    and "list_all (quiet_output kp [env]) (fst (snd (process_effect env eff t)))"
    and "length (filter starts_advertising (fst (snd (process_effect env eff t)))) \<le> of_bool (eff = StartListening Ble)"
proof -
  have t: "bt_peers t = []" "\<not> bt_adapter t" using assms by (simp_all add: undiscovering_def)
  note a = advertising_quiet [OF assms]
  show "undiscovering kp (fst (process_effect env eff t))"
    using assms a(1,2) by (simp add: process_effect_def split: effect.split transport_type.split)
  show "list_all (quiet_output kp [env]) (fst (snd (process_effect env eff t)))"
    using t a(3,4) by (simp add: process_effect_def ble_start_scanning_def ble_stop_scanning_def
        split: effect.split transport_type.split)
  show "length (filter starts_advertising (fst (snd (process_effect env eff t)))) \<le> of_bool (eff = StartListening Ble)"
    using t a(5,6) by (simp add: process_effect_def ble_start_scanning_def ble_stop_scanning_def
        split: effect.split transport_type.split)
qed

lemma ble_iteration_quiet:
  assumes "undiscovering kp t"
  shows "undiscovering kp (fst (ble_iteration env i t))"
    and "list_all (quiet_output kp [env]) (fst (snd (ble_iteration env i t)))"
    and "length (filter starts_advertising (fst (snd (ble_iteration env i t)))) \<le>
      of_bool (i = BiEffect (StartListening Ble))"
proof -
  have t: "bt_peers t = []" using assms by (simp add: undiscovering_def)
  show "undiscovering kp (fst (ble_iteration env i t))"
    using assms process_effect_quiet(1) [OF assms]
    by (cases i) (simp_all add: handle_incoming_same undiscovering_def perform_maintenance_def Let_def
        stale_ble_peers_def)
  show "list_all (quiet_output kp [env]) (fst (snd (ble_iteration env i t)))"
    using process_effect_quiet(2) [OF assms] handle_incoming_no_peers(1) [OF t] by (cases i) simp_all
  show "length (filter starts_advertising (fst (snd (ble_iteration env i t)))) \<le>
      of_bool (i = BiEffect (StartListening Ble))"
    using process_effect_quiet(3) [OF assms] handle_incoming_no_peers(2) [OF t] by (cases i) simp_all
qed

lemma ble_run_quiet:
  assumes "undiscovering kp t"
  shows "pred_option (undiscovering kp) (fst (ble_run is t)) \<and>
    list_all (quiet_output kp (map fst is)) (snd (ble_run is t)) \<and>
    length (filter starts_advertising (snd (ble_run is t))) \<le>
      length (filter (\<lambda>(env, i). i = BiEffect (StartListening Ble)) is)"
  using assms
proof (induction "is" arbitrary: t)
  case (Cons x "is")
  obtain env i where x: "x = (env, i)" by fastforce
  obtain t' out r where it: "ble_iteration env i t = (t', out, r)" by (metis prod_cases3)
  have step: "undiscovering kp t'" "list_all (quiet_output kp [env]) out"
    "length (filter starts_advertising out) \<le> of_bool (i = BiEffect (StartListening Ble))"
    using ble_iteration_quiet [OF Cons.prems, of env i] by (simp_all add: it)
  have more: "list_all (quiet_output kp (map fst (x # is))) xs"
    if "list_all (quiet_output kp envs) xs" "set envs \<subseteq> insert env (set (map fst is))" for xs envs
    using that quiet_output_more [of kp envs _ "map fst (x # is)"] by (auto simp: list_all_iff x)
  from Cons.IH [OF step(1)] more [OF step(2)] more [of "map fst is" "snd (ble_run is t')"] step(3)
  show ?case
    by (auto simp: x it split_beta split: sum.split fault.split if_splits)
qed simp

lemma announcement_accepted:
  assumes "ed25519_correct ed" and "key_pair_ok ed kp"
    and "\<forall>a. rbind (an_serialize codec a) (an_deserialize codec) = Inr a"
  shows "rbind (generate_advertising_data codec ed ts pid kp (generate_device_name hex_encode pid pre))
      (\<lambda>md. extract_and_verify_peer_id codec hex_encode sha256 ed now (generate_device_name hex_encode pid pre)
        md pre max_age) =
    Inr (if unat now - unat ts \<le> unat max_age \<and>
            pid = fingerprint_to_peer_id (sha256 (public_key_bytes ed kp)) then Some pid else None)"
proof -
  let ?a = "announcement_new ed ts pid kp (generate_device_name hex_encode pid pre)"
  obtain md where md: "an_serialize codec ?a = Inr md" "an_deserialize codec md = Inr ?a"
    using assms(3) by (metis rbind_eq_Inr)
  show ?thesis
    by (simp add: generate_advertising_data_def md extract_and_verify_peer_id_def
        announcement_verify_new [OF assms(1,2)] sat_sub_gt_iff)
qed

section \<open>Properties\<close>

text \<open>A toy codec for announcements, for the witnesses.\<close>

definition toy_announcement_codec :: announcement_codec where
  "toy_announcement_codec =
     \<lparr>an_serialize = (\<lambda>a. Inr (toy_field (an_peer_id a) @ toy_field (u64_to_be (an_timestamp a))
          @ toy_field (an_signature a) @ toy_field (an_public_key a) @ [0])),
      an_deserialize = (\<lambda>bs.
        let (pid, r1) = toy_parse bs; (ts, r2) = toy_parse r1; (sig, r3) = toy_parse r2
        in Inr \<lparr>an_peer_id = pid, an_timestamp = u64_from_be ts, an_signature = sig,
                an_public_key = fst (toy_parse r3)\<rparr>)\<rparr>"

lemma toy_codec_correct: "rbind (an_serialize toy_announcement_codec a) (an_deserialize toy_announcement_codec) = Inr a"
  by (simp add: toy_announcement_codec_def toy_parse_field)

text \<open>A device is accepted by its advertisement exactly when the advertised identifier is the
  fingerprint of its signing key and the advertisement is not older than the limit; an advertisement
  from the future is never too old.\<close>

theorem announcement_accepted_iff:
  assumes "ed25519_correct ed" and "key_pair_ok ed kp"
    and "\<forall>a. rbind (an_serialize codec a) (an_deserialize codec) = Inr a"
  shows "rbind (generate_advertising_data codec ed ts pid kp (generate_device_name hex_encode pid pre))
      (\<lambda>md. extract_and_verify_peer_id codec hex_encode sha256 ed now (generate_device_name hex_encode pid pre)
        md pre max_age) =
    Inr (if unat now - unat ts \<le> unat max_age \<and>
            pid = fingerprint_to_peer_id (sha256 (public_key_bytes ed kp)) then Some pid else None)"
  by (rule announcement_accepted [OF assms])

theorem announcement_accepted_iff_witness:
  "rbind (generate_advertising_data toy_announcement_codec toy_ed25519 100
        (fingerprint_to_peer_id (toy_sha256 (public_key_bytes toy_ed25519 example_key))) example_key
        (generate_device_name id (fingerprint_to_peer_id (toy_sha256 (public_key_bytes toy_ed25519 example_key))) [66]))
      (\<lambda>md. extract_and_verify_peer_id toy_announcement_codec id toy_sha256 toy_ed25519 130
        (generate_device_name id (fingerprint_to_peer_id (toy_sha256 (public_key_bytes toy_ed25519 example_key))) [66])
        md [66] 60) =
    Inr (Some (fingerprint_to_peer_id (toy_sha256 (public_key_bytes toy_ed25519 example_key))))"
  by (subst announcement_accepted_iff [OF toy_ed25519_correct example_key_ok])
    (simp_all add: toy_codec_correct)

text \<open>The task itself advertises the fixed identifier 1, 2, ..., 8 with the key it generates: unless the
  hash of that key starts with these bytes, every receiver refuses the advertisement.\<close>

theorem default_identity_refused:
  assumes "ed25519_correct ed" and "key_pair_ok ed kp"
    and "\<forall>a. rbind (an_serialize codec a) (an_deserialize codec) = Inr a"
    and "fingerprint_to_peer_id (sha256 (public_key_bytes ed kp)) \<noteq> [1, 2, 3, 4, 5, 6, 7, 8]"
  shows "let pid = bt_local_peer_id (ble_task_new target kp); name = generate_device_name hex_encode pid pre
    in rbind (generate_advertising_data codec ed ts pid kp name)
         (\<lambda>md. extract_and_verify_peer_id codec hex_encode sha256 ed now name md pre max_age) = Inr None"
proof -
  show ?thesis
    using announcement_accepted [OF assms(1-3)] assms(4) by (auto simp: ble_task_new_def Let_def)
qed

text \<open>On Linux the GATT service does not outlive the call that publishes it: its handle is dropped when the
  function returns, while the connectable advertisement of the service goes on.\<close>

theorem linux_service_dropped:
  "linux_start_advertising (pf\<lparr>ap_session := None, ap_adapter := None, ap_powered := True, ap_serve := None,
       ap_advertise := None\<rparr>) (Inr adv) linux_advertiser_new =
     (\<lparr>la_session = True, la_handle = Some adv, la_is_advertising = True\<rparr>,
      [GattServe, AdvStart adv, GattDrop], Inr ())"
  by (simp add: linux_start_advertising_def linux_initialize_def linux_advertiser_new_def)

text \<open>C31: Whatever is discovered, connected, disconnected and cleaned up, in any order: every peer is
  stored under its own identifier, which its device name repeats, the cached list has exactly the
  stored peers, no peer was given more than three attempts since its last success, none is left
  connecting, and a connected one starts counting from zero.\<close>

theorem ble_peers_invariant:
  assumes "(ble_peers_step show_id codec hex_encode sha256 ed cfg)\<^sup>*\<^sup>* ([], []) (peers, cached)"
  shows "ble_peers_ok hex_encode cfg (peers, cached)"
  by (rule ble_peers.invar_steps [OF assms]) (simp add: ble_peers_ok_def)

definition example_device_name :: rust_string where
  "example_device_name =
     generate_device_name id (fingerprint_to_peer_id (toy_sha256 (public_key_bytes toy_ed25519 example_key)))
       (bc_device_name_prefix ble_config_default)"

definition example_discovery :: "nat central_event" where
  "example_discovery = DeviceDiscovered 1 (Some
     \<lparr>pr_local_name = Some example_device_name,
      pr_manufacturer_data = [(0xFFFF, case generate_advertising_data toy_announcement_codec toy_ed25519 100
         (fingerprint_to_peer_id (toy_sha256 (public_key_bytes toy_ed25519 example_key))) example_key
         example_device_name of Inl _ \<Rightarrow> [] | Inr md \<Rightarrow> md)]\<rparr>)"

definition example_peers :: "nat peers \<times> peer_id list" where
  "example_peers = process_discovery_event
     (extract_and_verify_peer_id toy_announcement_codec id toy_sha256 toy_ed25519 130) ble_config_default True
     example_discovery ([], [])"

lemma example_peers_cached:
  "snd example_peers = [fingerprint_to_peer_id (toy_sha256 (public_key_bytes toy_ed25519 example_key))]"
proof -
  let ?pid = "fingerprint_to_peer_id (toy_sha256 (public_key_bytes toy_ed25519 example_key))"
  obtain md where md: "generate_advertising_data toy_announcement_codec toy_ed25519 100 ?pid example_key
      example_device_name = Inr md" "md \<noteq> []"
    by (simp add: generate_advertising_data_def toy_announcement_codec_def)
  have "extract_and_verify_peer_id toy_announcement_codec id toy_sha256 toy_ed25519 130 example_device_name md
      (bc_device_name_prefix ble_config_default) 60 = Inr (Some ?pid)"
    using announcement_accepted [OF toy_ed25519_correct example_key_ok, of toy_announcement_codec 100 ?pid id
        "bc_device_name_prefix ble_config_default" toy_sha256 130 60] md
    by (simp add: toy_codec_correct example_device_name_def)
  moreover have "take (length (bc_device_name_prefix ble_config_default)) example_device_name =
      bc_device_name_prefix ble_config_default"
    by (simp add: example_device_name_def generate_device_name_def)
  ultimately show ?thesis
    by (simp add: example_peers_def process_discovery_event_def example_discovery_def md has_key_def)
qed

theorem ble_peers_invariant_witness:
  "ble_peers_ok id ble_config_default (fst example_peers, snd example_peers) \<and> length (snd example_peers) = 1"
proof -
  have "ble_peers_step (\<lambda>_. []) toy_announcement_codec id toy_sha256 toy_ed25519 ble_config_default
      ([], []) (fst example_peers, snd example_peers)"
    using ble_peers_step.discovery [of "\<lambda>_. []" toy_announcement_codec id toy_sha256 toy_ed25519
        ble_config_default "([], [])" 130 True example_discovery]
    by (simp add: example_peers_def)
  then have "(ble_peers_step (\<lambda>_. []) toy_announcement_codec id toy_sha256 toy_ed25519 ble_config_default)\<^sup>*\<^sup>*
      ([], []) (fst example_peers, snd example_peers)" by (rule r_into_rtranclp)
  from ble_peers_invariant [OF this] show ?thesis by (simp add: example_peers_cached)
qed

text \<open>C30: Once started, on any platform and whatever effects and packets reach it, the transport task
  never gets a peer and never writes to one, never scans, and never reports a connection or a peer:
  nothing in its loop feeds the discovery, opens a connection or initialises the adapter. Received packets
  are all it reports. All it transmits is the advertisement of itself, signed with its own key under the
  fixed identifier every task has, at most one for each \<^verbatim>\<open>StartListening\<close>.\<close>

theorem ble_task_only_advertises:
  "case ble_start (fst (ble_attach_channels (ble_task_new target kp))) of
     Inl e \<Rightarrow> False
   | Inr t \<Rightarrow> pred_option (\<lambda>t'. bt_peers t' = [] \<and> \<not> bt_adapter t') (fst (ble_run is t)) \<and>
       list_all (quiet_output kp (map fst is)) (snd (ble_run is t)) \<and>
       length (filter starts_advertising (snd (ble_run is t))) \<le>
         length (filter (\<lambda>(env, i). i = BiEffect (StartListening Ble)) is)"
proof -
  let ?t = "ble_task_new target kp\<lparr>bt_attached := True, bt_running := True\<rparr>"
  have "undiscovering kp ?t" by (simp add: undiscovering_def ble_task_new_def fixed_peer_id_def)
  from ble_run_quiet [OF this, of "is"] show ?thesis
    by (simp add: ble_start_def ble_attach_channels_def ble_task_new_def pred_option_def undiscovering_def)
qed

end
