(* ===== verification/Nostr_Transport.thy ===== *)
theory Nostr_Transport
  imports Nostr_Embedding Ble_Transport "HOL-Library.Countable"
begin

text \<open>
  The Nostr transport: gift wrapping of private messages
  (\<^verbatim>\<open>src/crates/bitchat-nostr/src/nip17.rs\<close>) and the transport task with the listener it spawns
  (\<^verbatim>\<open>src/crates/bitchat-nostr/src/transport.rs\<close>), for platforms other than WASM.

  The client, the keys, the encryption of NIP-04 and the JSON forms belong to \<^verbatim>\<open>nostr_sdk\<close> and
  \<^verbatim>\<open>serde_json\<close>; they are the record \<open>nostr_sdk\<close>, an argument of every operation that uses them. A kind of
  events is its number. The identifier and the signature of an event, which the client makes and
  checks, are left out. Random keys, vectors and offsets and the reading of the clock in seconds and in
  milliseconds are the record \<open>wrap_random\<close>.
\<close>

section \<open>Events and the library\<close>

datatype 'pk nostr_tag =
    TagPublicKey 'pk
  | TagExpiration int
  | TagHashtag string
  | TagOther "rust_string list"

record 'pk nostr_event =
  ev_pubkey :: 'pk
  ev_kind :: u16
  ev_content :: rust_string
  ev_tags :: "'pk nostr_tag list"
  ev_created_at :: int

definition BITCHAT_KIND :: u16 where "BITCHAT_KIND = 30420"
definition KIND_ENCRYPTED_DM :: u16 where "KIND_ENCRYPTED_DM = 4"
definition KIND_GIFT_WRAP :: u16 where "KIND_GIFT_WRAP = 1059"

text \<open>\<open>sdk_no_secret\<close> and \<open>sdk_sign\<close> give the error of a key pair that has no secret key or cannot
  sign; \<open>sdk_encrypt\<close> takes the initialisation vector first.\<close>

record ('k, 'pk) nostr_sdk =
  sdk_public :: "'k \<Rightarrow> 'pk"
  sdk_no_secret :: "'k \<Rightarrow> string option"
  sdk_sign :: "'k \<Rightarrow> string option"
  sdk_from_slice :: "bytes \<Rightarrow> string + 'pk"
  sdk_encrypt :: "bytes \<Rightarrow> 'k \<Rightarrow> 'pk \<Rightarrow> rust_string \<Rightarrow> string + rust_string"
  sdk_decrypt :: "'k \<Rightarrow> 'pk \<Rightarrow> rust_string \<Rightarrow> string + rust_string"
  sdk_content_json :: "nip17_content \<Rightarrow> string + rust_string"
  sdk_parse_content :: "rust_string \<Rightarrow> string + nip17_content"
  sdk_event_json :: "'pk nostr_event \<Rightarrow> rust_string"
  sdk_parse_event :: "rust_string \<Rightarrow> string + 'pk nostr_event"
  sdk_sha256 :: "bytes \<Rightarrow> bytes"
  sdk_serialize :: "bitchat_nostr_message \<Rightarrow> string + bytes"
  sdk_deserialize :: "bytes \<Rightarrow> string + bitchat_nostr_message"
  sdk_standard :: embedding_env
  sdk_url_safe :: embedding_env
  sdk_show :: "nostr_error \<Rightarrow> string"
  sdk_url_ok :: "string \<Rightarrow> bool"
  sdk_add_relay :: "string \<Rightarrow> string option"
  sdk_send :: "'pk nostr_event \<Rightarrow> string option"

text \<open>\<^verbatim>\<open>From<NostrTransportError> for BitchatError\<close>.\<close>

definition nostr_into_core :: "('k, 'pk) nostr_sdk \<Rightarrow> nostr_fault + 'a \<Rightarrow> 'a result" where
  "nostr_into_core sdk r =
     (case r of
        Inr x \<Rightarrow> Inr x
      | Inl NostrPanic \<Rightarrow> Inl Panic
      | Inl (NostrErr e) \<Rightarrow> Inl (Err (Transport (ReceiveFailed (sdk_show sdk e)))))"

definition or_fail :: "string option \<Rightarrow> (string \<Rightarrow> nostr_error) \<Rightarrow> nostr_fault + unit" where
  "or_fail e f = (case e of None \<Rightarrow> Inr () | Some t \<Rightarrow> Inl (NostrErr (f t)))"

definition or_error :: "string + 'a \<Rightarrow> (string \<Rightarrow> nostr_error) \<Rightarrow> nostr_fault + 'a" where
  "or_error r f = (case r of Inr x \<Rightarrow> Inr x | Inl t \<Rightarrow> Inl (NostrErr (f t)))"

section \<open>Gift wrapping\<close>

definition MIN_EXPIRATION_SECONDS :: int where "MIN_EXPIRATION_SECONDS = 30 * 60"
definition MAX_EXPIRATION_SECONDS :: int where "MAX_EXPIRATION_SECONDS = 60 * 60"

record 'k wrap_random =
  wr_ephemeral :: 'k
  wr_recipient :: 'k
  wr_inner_iv :: bytes
  wr_outer_iv :: bytes
  wr_now :: int
  wr_expiration_offset :: int
  wr_past_offset :: int
  wr_millis :: u64

definition wrap_random_ok :: "'k wrap_random \<Rightarrow> bool" where
  "wrap_random_ok rnd \<longleftrightarrow> wr_expiration_offset rnd \<in> {MIN_EXPIRATION_SECONDS..MAX_EXPIRATION_SECONDS} \<and>
     wr_past_offset rnd \<in> {0..<86400}"

record 'k gift_wrapper =
  gw_sender_keys :: 'k
  gw_ephemeral_keys :: "'k option"

definition gift_wrapper_new :: "'k \<Rightarrow> 'k gift_wrapper" where
  "gift_wrapper_new keys = \<lparr>gw_sender_keys = keys, gw_ephemeral_keys = None\<rparr>"

definition generate_ephemeral_keys :: "'k \<Rightarrow> 'k gift_wrapper \<Rightarrow> 'k gift_wrapper" where
  "generate_ephemeral_keys fresh w = w\<lparr>gw_ephemeral_keys := Some fresh\<rparr>"

definition random_expiration :: "'k wrap_random \<Rightarrow> int" where
  "random_expiration rnd = wr_now rnd + wr_expiration_offset rnd"

definition random_past_timestamp :: "'k wrap_random \<Rightarrow> int" where
  "random_past_timestamp rnd = wr_now rnd - wr_past_offset rnd"

definition sign_event ::
    "('k, 'pk) nostr_sdk \<Rightarrow> 'k \<Rightarrow> (string \<Rightarrow> nostr_error) \<Rightarrow> u16 \<Rightarrow> rust_string \<Rightarrow> 'pk nostr_tag list \<Rightarrow> int
     \<Rightarrow> nostr_fault + 'pk nostr_event" where
  "sign_event sdk keys fail kind content tags created =
     rbind (or_fail (sdk_sign sdk keys) fail) (\<lambda>_.
       Inr \<lparr>ev_pubkey = sdk_public sdk keys, ev_kind = kind, ev_content = content, ev_tags = tags,
            ev_created_at = created\<rparr>)"

definition inner_dm_event ::
    "('k, 'pk) nostr_sdk \<Rightarrow> 'k wrap_random \<Rightarrow> 'k \<Rightarrow> rust_string \<Rightarrow> 'pk \<Rightarrow> nostr_fault + 'pk nostr_event" where
  "inner_dm_event sdk rnd keys json recipient =
     rbind (sign_event sdk keys (\<lambda>e. NostrEncryptionFailed (''Failed to create inner event: '' @ e))
              KIND_ENCRYPTED_DM [] [TagPublicKey recipient] (wr_now rnd)) (\<lambda>_.
     rbind (or_fail (sdk_no_secret sdk keys) KeyOperationFailed) (\<lambda>_.
     rbind (or_error (sdk_encrypt sdk (wr_inner_iv rnd) keys recipient json)
              (\<lambda>e. NostrEncryptionFailed (''NIP-04 encryption failed: '' @ e))) (\<lambda>encrypted.
     sign_event sdk keys (\<lambda>e. NostrEncryptionFailed (''Failed to create inner DM event: '' @ e))
       KIND_ENCRYPTED_DM encrypted [TagPublicKey recipient] (wr_now rnd))))"

definition outer_gift_event ::
    "('k, 'pk) nostr_sdk \<Rightarrow> 'k wrap_random \<Rightarrow> 'pk nostr_event \<Rightarrow> nostr_fault + 'pk nostr_event" where
  "outer_gift_event sdk rnd inner =
     (let to = sdk_public sdk (wr_recipient rnd)
      in rbind (or_fail (sdk_no_secret sdk (wr_ephemeral rnd)) KeyOperationFailed) (\<lambda>_.
         rbind (or_error (sdk_encrypt sdk (wr_outer_iv rnd) (wr_ephemeral rnd) to (sdk_event_json sdk inner))
                  (\<lambda>e. NostrEncryptionFailed (''Gift-wrap encryption failed: '' @ e))) (\<lambda>wrapped.
         sign_event sdk (wr_ephemeral rnd)
           (\<lambda>e. NostrEncryptionFailed (''Failed to create gift-wrapped event: '' @ e)) KIND_GIFT_WRAP wrapped
           [TagPublicKey to, TagExpiration (random_expiration rnd)] (random_past_timestamp rnd))))"

definition create_gift_wrapped_message ::
    "('k, 'pk) nostr_sdk \<Rightarrow> 'k wrap_random \<Rightarrow> nip17_content \<Rightarrow> 'pk \<Rightarrow> 'k gift_wrapper
     \<Rightarrow> 'k gift_wrapper \<times> (nostr_fault + 'pk nostr_event)" where
  "create_gift_wrapped_message sdk rnd content recipient w =
     (generate_ephemeral_keys (wr_ephemeral rnd) w,
      rbind (or_error (sdk_content_json sdk content)
               (\<lambda>e. DeserializationFailed (''JSON serialization failed: '' @ e))) (\<lambda>json.
      rbind (inner_dm_event sdk rnd (gw_sender_keys w) json recipient) (outer_gift_event sdk rnd)))"

definition has_pubkey_tag :: "'pk nostr_event \<Rightarrow> bool" where
  "has_pubkey_tag e \<longleftrightarrow> list_ex (\<lambda>t. case t of TagPublicKey _ \<Rightarrow> True | _ \<Rightarrow> False) (ev_tags e)"

text \<open>The layers of encryption are opened with the key of the receiver and the author of the event.\<close>

definition unwrap_gift_wrapped_message ::
    "('k, 'pk) nostr_sdk \<Rightarrow> 'k \<Rightarrow> 'pk nostr_event \<Rightarrow> nostr_fault + nip17_content option" where
  "unwrap_gift_wrapped_message sdk keys outer =
     (if ev_kind outer \<noteq> KIND_GIFT_WRAP then Inr None
      else if \<not> has_pubkey_tag outer
        then Inl (NostrErr (NostrEncryptionFailed ''No recipient pubkey in gift wrap''))
      else
        rbind (or_fail (sdk_no_secret sdk keys) KeyOperationFailed) (\<lambda>_.
        rbind (or_error (sdk_decrypt sdk keys (ev_pubkey outer) (ev_content outer))
                 (\<lambda>e. NostrEncryptionFailed (''Failed to decrypt gift wrap: '' @ e))) (\<lambda>opened.
        rbind (or_error (sdk_parse_event sdk opened)
                 (\<lambda>e. DeserializationFailed (''Invalid inner event JSON: '' @ e))) (\<lambda>inner.
        if ev_kind inner \<noteq> KIND_ENCRYPTED_DM
          then Inl (NostrErr (NostrEncryptionFailed ''Inner event is not a direct message''))
        else
          rbind (or_error (sdk_decrypt sdk keys (ev_pubkey inner) (ev_content inner))
                   (\<lambda>e. NostrEncryptionFailed (''Failed to decrypt inner message: '' @ e))) (\<lambda>json.
          rbind (or_error (sdk_parse_content sdk json)
                   (\<lambda>e. DeserializationFailed (''JSON deserialization failed: '' @ e))) (\<lambda>content.
          Inr (Some content)))))))"

definition decrypt_nip04_message ::
    "('k, 'pk) nostr_sdk \<Rightarrow> 'k \<Rightarrow> 'pk \<Rightarrow> rust_string \<Rightarrow> nostr_fault + nip17_content" where
  "decrypt_nip04_message sdk keys sender encrypted =
     rbind (or_fail (sdk_no_secret sdk keys) KeyOperationFailed) (\<lambda>_.
     rbind (or_error (sdk_decrypt sdk keys sender encrypted)
              (\<lambda>e. NostrEncryptionFailed (''NIP-04 decryption failed: '' @ e))) (\<lambda>json.
     or_error (sdk_parse_content sdk json)
       (\<lambda>e. DeserializationFailed (''JSON deserialization failed: '' @ e))))"

section \<open>The transport task\<close>

record 'k nostr_task =
  nt_attached :: bool
  nt_receiver_taken :: bool
  nt_config :: "'k nostr_config"
  nt_keys :: 'k
  nt_local_peer_id :: "peer_id option"
  nt_client :: "string list option"
  nt_gift_wrapper :: "'k gift_wrapper option"
  nt_gift_unwrapper :: "'k option"
  nt_strategy :: embedding_strategy
  nt_embedding :: embedding_config

definition nostr_task_new :: "'k \<Rightarrow> 'k nostr_config \<Rightarrow> 'k nostr_task" where
  "nostr_task_new generated cfg =
     \<lparr>nt_attached = False, nt_receiver_taken = False, nt_config = cfg,
      nt_keys = (case nc_private_key cfg of Some k \<Rightarrow> k | None \<Rightarrow> generated), nt_local_peer_id = None,
      nt_client = None, nt_gift_wrapper = None, nt_gift_unwrapper = None,
      nt_strategy = embedding_strategy_default, nt_embedding = embedding_config_default\<rparr>"

definition nostr_set_local_peer_id :: "peer_id \<Rightarrow> 'k nostr_task \<Rightarrow> 'k nostr_task" where
  "nostr_set_local_peer_id pid t = t\<lparr>nt_local_peer_id := Some pid\<rparr>"

definition set_embedding_config :: "embedding_config \<Rightarrow> 'k nostr_task \<Rightarrow> 'k nostr_task" where
  "set_embedding_config cfg t = t\<lparr>nt_embedding := cfg\<rparr>"

definition nostr_attach_channels :: "'k nostr_task \<Rightarrow> 'k nostr_task \<times> unit result" where
  "nostr_attach_channels t =
     (if nt_attached t then (t, Inl (invalid_configuration ''Nostr transport channels already attached''))
      else (t\<lparr>nt_attached := True\<rparr>, Inr ()))"

text \<open>The client with the relays it accepted. A relay it refuses is only logged; a URL that does not
  parse ends the start.\<close>

definition initialize_client :: "('k, 'pk) nostr_sdk \<Rightarrow> 'k nostr_task \<Rightarrow> 'k nostr_task \<times> unit result" where
  "initialize_client sdk t =
     (let urls = map nr_url (nc_relays (nt_config t))
      in case find (\<lambda>u. \<not> sdk_url_ok sdk u) urls of
           Some u \<Rightarrow> (t, nostr_into_core sdk (Inl (NostrErr (InvalidRelayUrl u))))
         | None \<Rightarrow>
             (t\<lparr>nt_gift_wrapper := Some (gift_wrapper_new (nt_keys t)), nt_gift_unwrapper := Some (nt_keys t),
                nt_client := Some (filter (\<lambda>u. sdk_add_relay sdk u = None) urls)\<rparr>, Inr ()))"

subsection \<open>The listener\<close>

record 'pk nostr_filter =
  nf_kind :: u16
  nf_pubkey :: "'pk option"
  nf_since :: int

definition subscription_filters :: "('k, 'pk) nostr_sdk \<Rightarrow> int \<Rightarrow> 'k nostr_task \<Rightarrow> 'pk nostr_filter list" where
  "subscription_filters sdk now t =
     [\<lparr>nf_kind = BITCHAT_KIND, nf_pubkey = None, nf_since = now\<rparr>,
      \<lparr>nf_kind = KIND_ENCRYPTED_DM, nf_pubkey = Some (sdk_public sdk (nt_keys t)), nf_since = now\<rparr>,
      \<lparr>nf_kind = KIND_GIFT_WRAP, nf_pubkey = None, nf_since = now\<rparr>]"

record ('k, 'pk) nostr_listener =
  nl_local_peer_id :: "peer_id option"
  nl_local_pubkey :: 'pk
  nl_unwrapper :: "'k option"

definition start_listening :: "('k, 'pk) nostr_sdk \<Rightarrow> 'k nostr_task \<Rightarrow> ('k, 'pk) nostr_listener result" where
  "start_listening sdk t =
     (if nt_client t = None then nostr_into_core sdk (Inl (NostrErr ClientNotInitialized))
      else if \<not> nt_attached t then Inl (invalid_configuration ''Nostr transport missing event sender'')
      else Inr \<lparr>nl_local_peer_id = nt_local_peer_id t, nl_local_pubkey = sdk_public sdk (nt_keys t),
                nl_unwrapper = nt_gift_unwrapper t\<rparr>)"

text \<open>\<open>room i\<close>: the event channel has room for the \<open>i\<close>-th event of the operation.\<close>

definition forward_event :: "bool \<Rightarrow> transport_event \<Rightarrow> transport_event list" where
  "forward_event ok ev = (if ok then [ev] else [])"

definition packet_is_for :: "peer_id option \<Rightarrow> bitchat_packet \<Rightarrow> bool" where
  "packet_is_for local p \<longleftrightarrow>
     (case local of
        Some pid \<Rightarrow> is_broadcast p \<or> recipient_id p = Some pid
      | None \<Rightarrow> is_broadcast p)"

definition report_packet :: "(nat \<Rightarrow> bool) \<Rightarrow> peer_id option \<Rightarrow> bitchat_packet \<Rightarrow> transport_event list" where
  "report_packet room local p =
     (if \<not> packet_is_for local p then []
      else forward_event (room 0) (EvPeerDiscovered (sender_id p) Nostr None) @
           forward_event (room 1) (EvBitchatPacketReceived (sender_id p) p Nostr))"

definition process_gift_wrap ::
    "('k, 'pk) nostr_sdk \<Rightarrow> (nat \<Rightarrow> bool) \<Rightarrow> peer_id option \<Rightarrow> 'k option \<Rightarrow> 'pk nostr_event
     \<Rightarrow> transport_event list \<times> (nostr_fault + unit)" where
  "process_gift_wrap sdk room local unwrapper e =
     (case unwrapper of
        None \<Rightarrow> ([], Inr ())
      | Some keys \<Rightarrow>
          (case unwrap_gift_wrapped_message sdk keys e of
             Inr (Some content) \<Rightarrow>
               (case to_bitchat_packet (sdk_standard sdk) content of
                  Inr (Some p) \<Rightarrow> (report_packet room local p, Inr ())
                | Inl NostrPanic \<Rightarrow> ([], Inl NostrPanic)
                | _ \<Rightarrow> ([], Inr ()))
           | Inl NostrPanic \<Rightarrow> ([], Inl NostrPanic)
           | _ \<Rightarrow> ([], Inr ())))"

definition process_embedded ::
    "('k, 'pk) nostr_sdk \<Rightarrow> (nat \<Rightarrow> bool) \<Rightarrow> peer_id option \<Rightarrow> rust_string
     \<Rightarrow> transport_event list \<times> (nostr_fault + unit)" where
  "process_embedded sdk room local content =
     (case decode_from_nostr (sdk_url_safe sdk) content of
        Inr (Some p) \<Rightarrow> (report_packet room local p, Inr ())
      | Inl NostrPanic \<Rightarrow> ([], Inl NostrPanic)
      | _ \<Rightarrow> ([], Inr ()))"

definition message_is_for :: "peer_id option \<Rightarrow> bitchat_nostr_message \<Rightarrow> bool" where
  "message_is_for local m \<longleftrightarrow>
     (case local of
        Some pid \<Rightarrow> is_for_peer pid m \<or> nostr_is_broadcast m
      | None \<Rightarrow> nostr_is_broadcast m)"

definition process_legacy ::
    "('k, 'pk) nostr_sdk \<Rightarrow> (nat \<Rightarrow> bool) \<Rightarrow> peer_id option \<Rightarrow> rust_string
     \<Rightarrow> transport_event list \<times> (nostr_fault + unit)" where
  "process_legacy sdk room local content =
     (case from_nostr_content (sdk_standard sdk) (sdk_deserialize sdk) content of
        Inl e \<Rightarrow> ([], Inl e)
      | Inr m \<Rightarrow>
          if \<not> message_is_for local m then ([], Inr ())
          else
            (let found = forward_event (room 0) (EvPeerDiscovered (sender_peer_id m) Nostr None)
             in case to_data (sdk_standard sdk) m of
                  Inl e \<Rightarrow> (found, Inl e)
                | Inr data \<Rightarrow>
                    (found @ forward_event (room 1)
                       (EvMessageReceived (sender_peer_id m) (utf8_lossy data) Nostr None (recipient_peer_id m)
                          (Some (nm_timestamp m)) None), Inr ())))"

definition process_nostr_event ::
    "('k, 'pk) nostr_sdk \<Rightarrow> (nat \<Rightarrow> bool) \<Rightarrow> 'pk nostr_event \<Rightarrow> peer_id option \<Rightarrow> 'k option
     \<Rightarrow> transport_event list \<times> (nostr_fault + unit)" where
  "process_nostr_event sdk room e local unwrapper =
     (if ev_kind e \<noteq> BITCHAT_KIND \<and> ev_kind e \<noteq> KIND_ENCRYPTED_DM \<and> ev_kind e \<noteq> KIND_GIFT_WRAP
      then ([], Inr ())
      else if ev_kind e = KIND_GIFT_WRAP then process_gift_wrap sdk room local unwrapper e
      else if is_bitchat_content (ev_content e) then process_embedded sdk room local (ev_content e)
      else process_legacy sdk room local (ev_content e))"

text \<open>The spawned loop. It ends with the shutdown of the pool and with a panic; the events after that
  are lost.\<close>

datatype 'pk nostr_notification = NnEvent "'pk nostr_event" | NnShutdown | NnOther

fun listen ::
    "('k, 'pk) nostr_sdk \<Rightarrow> ('k, 'pk) nostr_listener \<Rightarrow> ('pk nostr_notification \<times> (nat \<Rightarrow> bool)) list
     \<Rightarrow> transport_event list" where
  "listen sdk l [] = []"
| "listen sdk l ((NnEvent e, room) # ns) =
     (if ev_pubkey e = nl_local_pubkey l then listen sdk l ns
      else
        (case process_nostr_event sdk room e (nl_local_peer_id l) (nl_unwrapper l) of
           (out, Inl NostrPanic) \<Rightarrow> out
         | (out, _) \<Rightarrow> out @ listen sdk l ns))"
| "listen sdk l ((NnShutdown, room) # ns) = []"
| "listen sdk l ((NnOther, room) # ns) = listen sdk l ns"

subsection \<open>Sending\<close>

definition client_send :: "('k, 'pk) nostr_sdk \<Rightarrow> 'pk nostr_event \<Rightarrow> 'pk nostr_event list \<times> unit result" where
  "client_send sdk e =
     ([e], nostr_into_core sdk (or_fail (sdk_send sdk e) EventSendFailed))"

definition sign_and_send ::
    "('k, 'pk) nostr_sdk \<Rightarrow> 'k \<Rightarrow> int \<Rightarrow> u16 \<Rightarrow> rust_string \<Rightarrow> 'pk nostr_tag list
     \<Rightarrow> 'pk nostr_event list \<times> unit result" where
  "sign_and_send sdk keys now kind content tags =
     (case sign_event sdk keys DeserializationFailed kind content tags now of
        Inl e \<Rightarrow> ([], nostr_into_core sdk (Inl e))
      | Inr ev \<Rightarrow> client_send sdk ev)"

definition nostr_ready :: "('k, 'pk) nostr_sdk \<Rightarrow> 'k nostr_task \<Rightarrow> peer_id result" where
  "nostr_ready sdk t =
     (case (nt_client t, nt_local_peer_id t) of
        (Some _, Some pid) \<Rightarrow> Inr pid
      | _ \<Rightarrow> nostr_into_core sdk (Inl (NostrErr ClientNotInitialized)))"

definition check_size :: "('k, 'pk) nostr_sdk \<Rightarrow> 'k nostr_task \<Rightarrow> bytes \<Rightarrow> unit result" where
  "check_size sdk t data =
     (if nc_max_data_size (nt_config t) < length data
      then nostr_into_core sdk (Inl (NostrErr (NostrMessageTooLarge (length data) (nc_max_data_size (nt_config t)))))
      else Inr ())"

definition send_data_to_peer ::
    "('k, 'pk) nostr_sdk \<Rightarrow> 'k wrap_random \<Rightarrow> peer_id \<Rightarrow> bytes \<Rightarrow> 'k nostr_task \<Rightarrow> 'pk nostr_event list \<times> unit result" where
  "send_data_to_peer sdk rnd pid data t =
     (case rbind (nostr_ready sdk t) (\<lambda>local.
           rbind (check_size sdk t data) (\<lambda>_.
           nostr_into_core sdk (to_nostr_content (sdk_standard sdk) (sdk_serialize sdk)
             (nostr_message_new (sdk_standard sdk) (wr_millis rnd) local (Some pid) data)))) of
        Inl e \<Rightarrow> ([], Inl e)
      | Inr content \<Rightarrow>
          sign_and_send sdk (nt_keys t) (wr_now rnd) BITCHAT_KIND content [TagHashtag ''bitchat''])"

definition embed_packet :: "('k, 'pk) nostr_sdk \<Rightarrow> bitchat_packet \<Rightarrow> bytes result" where
  "embed_packet sdk p =
     (case wire_encode p of
        Inr b \<Rightarrow> Inr b
      | Inl Panic \<Rightarrow> Inl Panic
      | Inl e \<Rightarrow> Inl (invalid_configuration (''Failed to encode BitChat packet: '' @ ne_show (sdk_url_safe sdk) e)))"

definition embedded_content :: "('k, 'pk) nostr_sdk \<Rightarrow> bytes \<Rightarrow> rust_string" where
  "embedded_content sdk b = BITCHAT_EMBEDDING_PREFIX @ ne_b64_encode (sdk_url_safe sdk) b"

definition reworded :: "('k, 'pk) nostr_sdk \<Rightarrow> (string \<Rightarrow> nostr_error) \<Rightarrow> nostr_fault + 'a \<Rightarrow> nostr_fault + 'a" where
  "reworded sdk f r = (case r of Inl (NostrErr e) \<Rightarrow> Inl (NostrErr (f (sdk_show sdk e))) | _ \<Rightarrow> r)"

definition send_gift_wrapped ::
    "('k, 'pk) nostr_sdk \<Rightarrow> 'k wrap_random \<Rightarrow> peer_id \<Rightarrow> rust_string \<Rightarrow> 'k nostr_task
     \<Rightarrow> 'pk nostr_event list \<times> unit result" where
  "send_gift_wrapped sdk rnd pid content t =
     (case nt_gift_wrapper t of
        None \<Rightarrow> ([], nostr_into_core sdk (Inl (NostrErr (NostrEncryptionFailed ''NIP-17 gift wrapper not available''))))
      | Some w \<Rightarrow>
          (case rbind (reworded sdk KeyOperationFailed
                         (peer_id_to_pubkey (sdk_sha256 sdk) (sdk_from_slice sdk) pid)) (\<lambda>recipient.
                 reworded sdk NostrEncryptionFailed
                   (snd (create_gift_wrapped_message sdk rnd
                           \<lparr>n17_content = content, n17_expiration = None\<rparr> recipient w))) of
             Inl e \<Rightarrow> ([], nostr_into_core sdk (Inl e))
           | Inr ev \<Rightarrow> client_send sdk ev))"

definition nostr_send_packet_to_peer ::
    "('k, 'pk) nostr_sdk \<Rightarrow> 'k wrap_random \<Rightarrow> peer_id \<Rightarrow> bitchat_packet \<Rightarrow> 'k nostr_task
     \<Rightarrow> 'pk nostr_event list \<times> unit result" where
  "nostr_send_packet_to_peer sdk rnd pid p t =
     (case rbind (nostr_ready sdk t) (\<lambda>_. embed_packet sdk p) of
        Inl e \<Rightarrow> ([], Inl e)
      | Inr b \<Rightarrow>
          (let content = embedded_content sdk b
           in case nt_strategy t of
                EmbedPrivateMessage \<Rightarrow> send_gift_wrapped sdk rnd pid content t
              | PublicGeohash \<Rightarrow>
                  sign_and_send sdk (nt_keys t) (wr_now rnd) BITCHAT_KIND content [TagHashtag ''bitchat'']
              | CustomKind kind \<Rightarrow> sign_and_send sdk (nt_keys t) (wr_now rnd) kind content []))"

definition nostr_broadcast_packet ::
    "('k, 'pk) nostr_sdk \<Rightarrow> 'k wrap_random \<Rightarrow> bitchat_packet \<Rightarrow> 'k nostr_task \<Rightarrow> 'pk nostr_event list \<times> unit result" where
  "nostr_broadcast_packet sdk rnd p t =
     (if nt_client t = None then ([], nostr_into_core sdk (Inl (NostrErr ClientNotInitialized)))
      else
        (case rbind (embed_packet sdk p) (\<lambda>b. rbind (check_size sdk t b) (\<lambda>_. Inr b)) of
           Inl e \<Rightarrow> ([], Inl e)
         | Inr b \<Rightarrow>
             sign_and_send sdk (nt_keys t) (wr_now rnd) BITCHAT_KIND (embedded_content sdk b) [TagHashtag ''bitchat'']))"

subsection \<open>The loop\<close>

definition nostr_handle_effect ::
    "('k, 'pk) nostr_sdk \<Rightarrow> 'k wrap_random \<Rightarrow> effect \<Rightarrow> 'k nostr_task \<Rightarrow> 'pk nostr_event list \<times> unit result" where
  "nostr_handle_effect sdk rnd eff t =
     (case eff of
        SendPacket pid data Nostr \<Rightarrow> send_data_to_peer sdk rnd pid data t
      | SendBitchatPacket pid p Nostr \<Rightarrow> nostr_send_packet_to_peer sdk rnd pid p t
      | BroadcastBitchatPacket p Nostr \<Rightarrow> nostr_broadcast_packet sdk rnd p t
      | _ \<Rightarrow> ([], Inr ()))"

text \<open>The channels are taken before the loop; errors of effects are logged, a panic ends the task. The
  reconnection timer does nothing.\<close>

definition nostr_start :: "('k, 'pk) nostr_sdk \<Rightarrow> 'k nostr_task \<Rightarrow> ('k nostr_task \<times> ('k, 'pk) nostr_listener) result" where
  "nostr_start sdk t =
     (case initialize_client sdk t of
        (_, Inl e) \<Rightarrow> Inl e
      | (t, Inr _) \<Rightarrow>
          rbind (start_listening sdk t) (\<lambda>l.
            if nt_receiver_taken t then Inl (invalid_configuration ''Nostr transport already running'')
            else Inr (t\<lparr>nt_receiver_taken := True\<rparr>, l)))"

datatype nostr_input = NiEffect effect | NiReconnect

fun nostr_run ::
    "('k, 'pk) nostr_sdk \<Rightarrow> 'k nostr_task \<Rightarrow> (nostr_input \<times> 'k wrap_random) list
     \<Rightarrow> 'pk nostr_event list \<times> unit result list" where
  "nostr_run sdk t [] = ([], [])"
| "nostr_run sdk t ((NiReconnect, rnd) # is) = nostr_run sdk t is"
| "nostr_run sdk t ((NiEffect eff, rnd) # is) =
     (case nostr_handle_effect sdk rnd eff t of
        (out, Inl Panic) \<Rightarrow> (out, [Inl Panic])
      | (out, r) \<Rightarrow> (let (out', rs) = nostr_run sdk t is in (out @ out', r # rs)))"


section \<open>Gift wrapping\<close>

text \<open>The contract of NIP-04 and of the JSON forms: what is encrypted for a key opens with it and the key of
  the author, and what is written is read back.\<close>

definition nip04_inverse :: "('k, 'pk) nostr_sdk \<Rightarrow> bool" where
  "nip04_inverse sdk \<longleftrightarrow>
     (\<forall>iv s r text c. sdk_encrypt sdk iv s (sdk_public sdk r) text = Inr c \<longrightarrow>
        sdk_decrypt sdk r (sdk_public sdk s) c = Inr text)"

definition json_inverse :: "('k, 'pk) nostr_sdk \<Rightarrow> bool" where
  "json_inverse sdk \<longleftrightarrow>
     (\<forall>c j. sdk_content_json sdk c = Inr j \<longrightarrow> sdk_parse_content sdk j = Inr c) \<and>
     (\<forall>e. sdk_parse_event sdk (sdk_event_json sdk e) = Inr e)"

lemma or_fail_eq [simp]: "or_fail e f = Inr u \<longleftrightarrow> e = None"
  by (cases e) (simp_all add: or_fail_def)

lemma or_fail_None [simp]: "or_fail None f = Inr ()"
  by (simp add: or_fail_def)

lemma or_error_eq [simp]: "or_error r f = Inr x \<longleftrightarrow> r = Inr x"
  by (cases r) (simp_all add: or_error_def)

lemma or_error_Inr [simp]: "or_error (Inr x) f = Inr x"
  by (simp add: or_error_def)

lemma sign_event_eq:
  "sign_event sdk keys fail kind content tags created = Inr e \<longleftrightarrow>
     sdk_sign sdk keys = None \<and>
     e = \<lparr>ev_pubkey = sdk_public sdk keys, ev_kind = kind, ev_content = content, ev_tags = tags, ev_created_at = created\<rparr>"
  by (auto simp: sign_event_def rbind_eq_Inr)

text \<open>A gift-wrapped message opens for a receiver that has both the key it is meant for and the key of the
  outer layer: the receiver reads exactly the content. The event is dated in the past day, expires
  within 30 to 60 minutes and is signed by the one-time key.\<close>

theorem gift_wrap_opens:
  assumes "nip04_inverse sdk" and "json_inverse sdk" and "sdk_no_secret sdk receiver = None"
    and "sdk_public sdk (wr_recipient rnd) = sdk_public sdk receiver" and "wrap_random_ok rnd"
    and "create_gift_wrapped_message sdk rnd content (sdk_public sdk receiver) w = (w', Inr e)"
  shows "unwrap_gift_wrapped_message sdk receiver e = Inr (Some content) \<and>
     ev_pubkey e = sdk_public sdk (wr_ephemeral rnd) \<and>
     wr_now rnd - 86400 < ev_created_at e \<and> ev_created_at e \<le> wr_now rnd \<and>
     (\<exists>t. TagExpiration t \<in> set (ev_tags e) \<and> wr_now rnd + 1800 \<le> t \<and> t \<le> wr_now rnd + 3600)"
proof -
  from assms(6) obtain json inner where json: "sdk_content_json sdk content = Inr json"
    and inner: "inner_dm_event sdk rnd (gw_sender_keys w) json (sdk_public sdk receiver) = Inr inner"
    and outer: "outer_gift_event sdk rnd inner = Inr e"
    by (auto simp: create_gift_wrapped_message_def rbind_eq_Inr)
  from inner obtain c where c: "sdk_encrypt sdk (wr_inner_iv rnd) (gw_sender_keys w) (sdk_public sdk receiver) json = Inr c"
    and i: "ev_pubkey inner = sdk_public sdk (gw_sender_keys w)" "ev_kind inner = KIND_ENCRYPTED_DM" "ev_content inner = c"
    by (auto simp: inner_dm_event_def rbind_eq_Inr sign_event_eq)
  from outer obtain d where d: "sdk_encrypt sdk (wr_outer_iv rnd) (wr_ephemeral rnd) (sdk_public sdk receiver)
        (sdk_event_json sdk inner) = Inr d"
    and e: "e = \<lparr>ev_pubkey = sdk_public sdk (wr_ephemeral rnd), ev_kind = KIND_GIFT_WRAP, ev_content = d,
        ev_tags = [TagPublicKey (sdk_public sdk receiver), TagExpiration (random_expiration rnd)],
        ev_created_at = random_past_timestamp rnd\<rparr>"
    by (auto simp: outer_gift_event_def rbind_eq_Inr sign_event_eq assms(4) Let_def)
  note opened = assms(1) [unfolded nip04_inverse_def, rule_format]
  have "sdk_decrypt sdk receiver (ev_pubkey e) (ev_content e) = Inr (sdk_event_json sdk inner)"
    and "sdk_decrypt sdk receiver (ev_pubkey inner) (ev_content inner) = Inr json"
    using opened [OF c] opened [OF d] i by (simp_all add: e)
  then have "unwrap_gift_wrapped_message sdk receiver e = Inr (Some content)"
    using assms(2,3) json i(2)
    by (simp add: unwrap_gift_wrapped_message_def e has_pubkey_tag_def json_inverse_def)
  then show ?thesis
    using assms(5)
    by (auto simp: e random_expiration_def random_past_timestamp_def wrap_random_ok_def MIN_EXPIRATION_SECONDS_def
        MAX_EXPIRATION_SECONDS_def)
qed

text \<open>A library that satisfies the contracts: ciphertexts name both ends, events are numbered.\<close>

instance nostr_tag :: (countable) countable by countable_datatype

definition toy_sdk :: "(u8, u8) nostr_sdk" where
  "toy_sdk =
     \<lparr>sdk_public = id, sdk_no_secret = (\<lambda>k. None), sdk_sign = (\<lambda>k. None),
      sdk_from_slice = (\<lambda>b. if b = [] then Inl ''empty'' else Inr (hd b)),
      sdk_encrypt = (\<lambda>iv s r text. Inr (r # s # text)),
      sdk_decrypt = (\<lambda>r s c. if 2 \<le> length c \<and> c ! 0 = r \<and> c ! 1 = s then Inr (drop 2 c) else Inl ''bad key''),
      sdk_content_json = (\<lambda>c. if n17_expiration c = None then Inr (n17_content c) else Inl ''unsupported''),
      sdk_parse_content = (\<lambda>j. Inr \<lparr>n17_content = j, n17_expiration = None\<rparr>),
      sdk_event_json = (\<lambda>e. replicate (to_nat (ev_pubkey e, ev_kind e, ev_content e, ev_tags e, ev_created_at e)) 0),
      sdk_parse_event = (\<lambda>j. case from_nat (length j) of
         (pk, kind, content, tags, created) \<Rightarrow>
           Inr \<lparr>ev_pubkey = pk, ev_kind = kind, ev_content = content, ev_tags = tags, ev_created_at = created\<rparr>),
      sdk_sha256 = id, sdk_serialize = (\<lambda>m. Inr (nm_data m)),
      sdk_deserialize = (\<lambda>b. Inl ''no message''),
      sdk_standard = toy_embedding, sdk_url_safe = toy_embedding, sdk_show = (\<lambda>e. ''error''),
      sdk_url_ok = (\<lambda>u. True), sdk_add_relay = (\<lambda>u. None), sdk_send = (\<lambda>e. None)\<rparr>"

lemma toy_sdk_nip04: "nip04_inverse toy_sdk"
  by (simp add: nip04_inverse_def toy_sdk_def)

lemma toy_sdk_json: "json_inverse toy_sdk"
  by (simp add: json_inverse_def toy_sdk_def)

definition toy_random :: "u8 wrap_random" where
  "toy_random =
     \<lparr>wr_ephemeral = 5, wr_recipient = 7, wr_inner_iv = [], wr_outer_iv = [], wr_now = 1000000,
      wr_expiration_offset = 2000, wr_past_offset = 100, wr_millis = 0\<rparr>"

theorem gift_wrap_opens_witness:
  "\<exists>w e. create_gift_wrapped_message toy_sdk toy_random \<lparr>n17_content = [1], n17_expiration = None\<rparr> 7
       (gift_wrapper_new 3) = (w, Inr e) \<and>
     unwrap_gift_wrapped_message toy_sdk 7 e = Inr (Some \<lparr>n17_content = [1], n17_expiration = None\<rparr>)"
proof -
  let ?c = "\<lparr>n17_content = [1], n17_expiration = None\<rparr> :: nip17_content"
  obtain w e where e: "create_gift_wrapped_message toy_sdk toy_random ?c (sdk_public toy_sdk 7) (gift_wrapper_new 3) = (w, Inr e)"
    by (simp add: create_gift_wrapped_message_def inner_dm_event_def outer_gift_event_def sign_event_def
        toy_sdk_def or_error_def or_fail_def Let_def)
  have "wrap_random_ok toy_random" "sdk_no_secret toy_sdk 7 = None"
    "sdk_public toy_sdk (wr_recipient toy_random) = sdk_public toy_sdk 7"
    by (simp_all add: wrap_random_ok_def toy_random_def MIN_EXPIRATION_SECONDS_def MAX_EXPIRATION_SECONDS_def toy_sdk_def)
  then show ?thesis
    using gift_wrap_opens [OF toy_sdk_nip04 toy_sdk_json _ _ _ e] e by (auto simp: toy_sdk_def)
qed

text \<open>The two base64 alphabets: an engine that pads reads only texts of whole groups of four characters, and
  without padding three bytes give four characters. Then the wrapped packets that \<open>send_gift_wrapped\<close>
  makes with one engine are refused by the listener, which uses the other, unless their length is a multiple of three.\<close>

definition strict_padding :: "embedding_env \<Rightarrow> bool" where
  "strict_padding env \<longleftrightarrow> (\<forall>s. length s mod 4 \<noteq> 0 \<longrightarrow> (\<exists>e. ne_b64_decode env s = Inl e))"

definition unpadded_length :: "embedding_env \<Rightarrow> bool" where
  "unpadded_length env \<longleftrightarrow> (\<forall>b. length (ne_b64_encode env b) = (4 * length b + 2) div 3)"

theorem private_packet_undecodable:
  assumes "strict_padding (sdk_standard sdk)" and "unpadded_length (sdk_url_safe sdk)" and "length b mod 3 \<noteq> 0"
  shows "\<exists>e. to_bitchat_packet (sdk_standard sdk)
      \<lparr>n17_content = embedded_content sdk b, n17_expiration = x\<rparr> = Inl (NostrErr e)"
proof -
  have "((4 * length b + 2) div 3) mod 4 \<noteq> 0" using assms(3) by presburger
  then obtain e where "ne_b64_decode (sdk_standard sdk) (ne_b64_encode (sdk_url_safe sdk) b) = Inl e"
    using assms(1,2) unfolding strict_padding_def unpadded_length_def by metis
  then show ?thesis
    by (simp add: to_bitchat_packet_def embedded_content_def is_bitchat_content_prefix)
qed

section \<open>The task without the identifier of its peer\<close>

text \<open>What a task without an identifier may send: the embedding of a packet it was asked to broadcast.\<close>

definition broadcast_event :: "('k, 'pk) nostr_sdk \<Rightarrow> 'k nostr_task \<Rightarrow> bitchat_packet \<Rightarrow> 'pk nostr_event \<Rightarrow> bool" where
  "broadcast_event sdk t p e \<longleftrightarrow>
     ev_pubkey e = sdk_public sdk (nt_keys t) \<and> ev_kind e = BITCHAT_KIND \<and>
     (\<exists>b. wire_encode p = Inr b \<and> length b \<le> nc_max_data_size (nt_config t) \<and> ev_content e = embedded_content sdk b)"

lemma nostr_into_core_Inr [simp]: "nostr_into_core sdk (Inr x) = Inr x"
  by (simp add: nostr_into_core_def)

lemma nostr_into_core_Err [simp]: "nostr_into_core sdk (Inl (NostrErr e)) = Inl (Err (Transport (ReceiveFailed (sdk_show sdk e))))"
  by (simp add: nostr_into_core_def)

lemma sign_and_send_events:
  "e \<in> set (fst (sign_and_send sdk keys now kind content tags)) \<Longrightarrow>
     ev_pubkey e = sdk_public sdk keys \<and> ev_kind e = kind \<and> ev_content e = content"
  by (auto simp: sign_and_send_def client_send_def sign_event_def split: sum.splits option.splits)
     (auto simp: or_fail_def split: option.splits)

lemma embed_packet_ok: "embed_packet sdk p = Inr b \<longleftrightarrow> wire_encode p = Inr b"
  by (auto simp: embed_packet_def split: sum.splits fault.splits)

lemma check_size_ok: "check_size sdk t b = Inr u \<longleftrightarrow> length b \<le> nc_max_data_size (nt_config t)"
  by (simp add: check_size_def)

lemma broadcast_events:
  assumes "e \<in> set (fst (nostr_broadcast_packet sdk rnd p t))"
  shows "broadcast_event sdk t p e"
proof -
  from assms obtain b where b: "rbind (embed_packet sdk p) (\<lambda>b. rbind (check_size sdk t b) (\<lambda>_. Inr b)) = Inr b"
    and "e \<in> set (fst (sign_and_send sdk (nt_keys t) (wr_now rnd) BITCHAT_KIND (embedded_content sdk b) [TagHashtag ''bitchat'']))"
    by (auto simp: nostr_broadcast_packet_def split: if_splits sum.splits)
  with sign_and_send_events [OF this(2)] show ?thesis
    by (auto simp: broadcast_event_def rbind_eq_Inr embed_packet_ok check_size_ok)
qed

lemma not_ready:
  "nt_local_peer_id t = None \<Longrightarrow> nostr_ready sdk t = Inl (Err (Transport (ReceiveFailed (sdk_show sdk ClientNotInitialized))))"
  by (simp add: nostr_ready_def split: option.split)

lemma handle_effect_events:
  assumes "nt_local_peer_id t = None" and "e \<in> set (fst (nostr_handle_effect sdk rnd eff t))"
  shows "\<exists>p. eff = BroadcastBitchatPacket p Nostr \<and> broadcast_event sdk t p e"
  using assms broadcast_events [of e sdk rnd _ t]
  by (auto simp: nostr_handle_effect_def send_data_to_peer_def nostr_send_packet_to_peer_def not_ready
      split: effect.splits transport_type.splits)

lemma nostr_run_events:
  assumes "nt_local_peer_id t = None"
  shows "e \<in> set (fst (nostr_run sdk t inputs)) \<Longrightarrow>
     \<exists>p rnd. (NiEffect (BroadcastBitchatPacket p Nostr), rnd) \<in> set inputs \<and> broadcast_event sdk t p e"
proof (induction inputs)
  case (Cons x inputs)
  obtain i rnd where x: "x = (i, rnd)" by fastforce
  show ?case
  proof (cases i)
    case (NiEffect eff)
    obtain out r where out: "nostr_handle_effect sdk rnd eff t = (out, r)" by fastforce
    have "e \<in> set out \<or> e \<in> set (fst (nostr_run sdk t inputs))"
      using Cons.prems by (auto simp: x NiEffect out split: sum.splits fault.splits prod.splits)
    then show ?thesis
      using Cons.IH handle_effect_events [OF assms, of e sdk rnd eff] by (auto simp: x NiEffect out)
  qed (use Cons in \<open>auto simp: x\<close>)
qed simp

definition public_report :: "transport_event \<Rightarrow> bool" where
  "public_report ev =
     (case ev of
        EvPeerDiscovered _ tr _ \<Rightarrow> tr = Nostr
      | EvBitchatPacketReceived s p tr \<Rightarrow> is_broadcast p \<and> s = sender_id p \<and> tr = Nostr
      | EvMessageReceived _ _ tr _ r _ _ \<Rightarrow> r = None \<and> tr = Nostr
      | _ \<Rightarrow> False)"

lemma report_packet_public: "ev \<in> set (report_packet room None p) \<Longrightarrow> public_report ev"
  by (auto simp: report_packet_def packet_is_for_def forward_event_def public_report_def split: if_splits)

lemma process_legacy_public: "ev \<in> set (fst (process_legacy sdk room None content)) \<Longrightarrow> public_report ev"
  by (auto simp: process_legacy_def message_is_for_def forward_event_def public_report_def nostr_is_broadcast_def
      Let_def split: if_splits sum.splits)

lemma process_event_public:
  "ev \<in> set (fst (process_nostr_event sdk room e None unwrapper)) \<Longrightarrow> public_report ev"
  using report_packet_public [of ev room] process_legacy_public [of ev sdk room "ev_content e"]
  by (auto simp: process_nostr_event_def process_gift_wrap_def process_embedded_def
      split: if_splits sum.splits option.splits nostr_fault.splits)

lemma listen_public:
  assumes "nl_local_peer_id l = None"
  shows "ev \<in> set (listen sdk l ns) \<Longrightarrow> public_report ev"
proof (induction ns)
  case (Cons n ns)
  obtain x room where n: "n = (x, room)" by fastforce
  show ?case
  proof (cases x)
    case (NnEvent e)
    obtain out r where out: "process_nostr_event sdk room e None (nl_unwrapper l) = (out, r)" by fastforce
    have "ev \<in> set out \<or> ev \<in> set (listen sdk l ns)"
      using Cons.prems assms by (auto simp: n NnEvent out split: if_splits sum.splits nostr_fault.splits)
    then show ?thesis using Cons.IH process_event_public [of ev sdk room e "nl_unwrapper l"] by (auto simp: out)
  qed (use Cons in \<open>auto simp: n\<close>)
qed simp

lemma nostr_start_fields:
  assumes "nostr_start sdk t = Inr (t', l)"
  shows "nt_local_peer_id t' = nt_local_peer_id t \<and> nl_local_peer_id l = nt_local_peer_id t \<and>
     nl_local_pubkey l = sdk_public sdk (nt_keys t) \<and> nl_unwrapper l = Some (nt_keys t) \<and> nt_client t' \<noteq> None \<and>
     nt_config t' = nt_config t \<and> nt_keys t' = nt_keys t"
  using assms
  by (auto simp: nostr_start_def initialize_client_def start_listening_def Let_def rbind_eq_Inr
      split: option.splits if_splits prod.splits sum.splits)

text \<open>The Nostr transport of a running program, where nothing tells the task its peer identifier, sends
  nothing but the embeddings of packets the core asked to broadcast, within the size limit, and reports
  only broadcast packets and messages to the core, whatever the relays send.\<close>

theorem nostr_task_public_only:
  assumes "nostr_start sdk (fst (nostr_attach_channels (nostr_task_new generated cfg))) = Inr (t, l)"
  shows "set (fst (nostr_run sdk t inputs)) \<subseteq>
      {e. \<exists>p rnd. (NiEffect (BroadcastBitchatPacket p Nostr), rnd) \<in> set inputs \<and> broadcast_event sdk t p e} \<and>
    set (listen sdk l ns) \<subseteq> Collect public_report"
proof -
  have "nt_local_peer_id t = None" "nl_local_peer_id l = None"
    using nostr_start_fields [OF assms] by (simp_all add: nostr_attach_channels_def nostr_task_new_def)
  then show ?thesis using nostr_run_events [of t _ sdk inputs] listen_public [of l _ sdk ns] by blast
qed

text \<open>C39: A broadcast packet crosses Nostr: one event is published, and every other client that receives it
  reports the discovery of the sender and then exactly the packet to its core.\<close>

theorem nostr_broadcast_delivered:
  assumes "base64_inverse (sdk_url_safe sdk)" and "nt_client t \<noteq> None" and "sdk_sign sdk (nt_keys t) = None"
    and "\<And>e. sdk_send sdk e = None" and "packet_wf p" and "version (header p) = PROTOCOL_VERSION_1"
    and "wire_encode p = Inr b" and "length b \<le> nc_max_data_size (nt_config t)" and "is_broadcast p"
    and "nl_local_pubkey l \<noteq> sdk_public sdk (nt_keys t)" and "room 0" and "room 1"
  shows "\<exists>e. nostr_handle_effect sdk rnd (BroadcastBitchatPacket p Nostr) t = ([e], Inr ()) \<and>
     listen sdk l ((NnEvent e, room) # ns) =
       EvPeerDiscovered (sender_id p) Nostr None # EvBitchatPacketReceived (sender_id p) p Nostr # listen sdk l ns"
proof -
  let ?e = "\<lparr>ev_pubkey = sdk_public sdk (nt_keys t), ev_kind = BITCHAT_KIND, ev_content = embedded_content sdk b,
      ev_tags = [TagHashtag ''bitchat''], ev_created_at = wr_now rnd\<rparr>"
  have "rbind (embed_packet sdk p) (\<lambda>b. rbind (check_size sdk t b) (\<lambda>_. Inr b)) = Inr b"
    using assms(7,8) by (simp add: embed_packet_def check_size_def)
  then have "nostr_handle_effect sdk rnd (BroadcastBitchatPacket p Nostr) t = ([?e], Inr ())"
    using assms(2-4)
    by (simp add: nostr_handle_effect_def nostr_broadcast_packet_def sign_and_send_def sign_event_def client_send_def)
  moreover have "decode_from_nostr (sdk_url_safe sdk) (embedded_content sdk b) = Inr (Some p)"
    using embedded_packet_decodes [OF assms(1,5,6,7)] by (simp add: embedded_content_def)
  then have "process_nostr_event sdk room ?e (nl_local_peer_id l) (nl_unwrapper l) =
      ([EvPeerDiscovered (sender_id p) Nostr None, EvBitchatPacketReceived (sender_id p) p Nostr], Inr ())"
    using assms(9,11,12)
    by (simp add: process_nostr_event_def process_embedded_def embedded_content_def is_bitchat_content_prefix
        report_packet_def packet_is_for_def forward_event_def BITCHAT_KIND_def KIND_GIFT_WRAP_def split: option.split)
  then have "listen sdk l ((NnEvent ?e, room) # ns) =
      EvPeerDiscovered (sender_id p) Nostr None # EvBitchatPacketReceived (sender_id p) p Nostr # listen sdk l ns"
    using assms(10) by simp
  ultimately show ?thesis by blast
qed

text \<open>One event stops the reception for good: after an event of another client whose content embeds 15
  bytes of a version 2 packet, whatever the relays send is lost.\<close>

theorem nostr_listener_killed:
  assumes "base64_inverse (sdk_url_safe sdk)" and "length bs = 15" and "bs ! 0 = PROTOCOL_VERSION_2"
    and "is_ok (message_type_from_u8 (bs ! 1))" and "ev_kind e = BITCHAT_KIND"
    and "ev_content e = embedded_content sdk bs" and "ev_pubkey e \<noteq> nl_local_pubkey l"
  shows "listen sdk l (before @ (NnEvent e, room) # after) = listen sdk l before"
proof -
  have "process_nostr_event sdk room e (nl_local_peer_id l) (nl_unwrapper l) = ([], Inl NostrPanic)"
    using nostr_content_panics [OF assms(1-4)] assms(5,6)
    by (simp add: process_nostr_event_def process_embedded_def embedded_content_def is_bitchat_content_prefix
        BITCHAT_KIND_def KIND_GIFT_WRAP_def)
  then show ?thesis
  proof (induction before)
    case (Cons n before)
    obtain x r where "n = (x, r)" by fastforce
    with Cons show ?case by (cases x) (auto split: prod.split sum.split nostr_fault.split)
  qed (use assms(7) in simp)
qed

definition toy_nostr_task :: "u8 \<Rightarrow> u8 nostr_task" where
  "toy_nostr_task k =
     (fst (nostr_attach_channels (nostr_task_new k (with_private_key 0 k))))"

lemma toy_nostr_start:
  "nostr_start toy_sdk (toy_nostr_task k) =
     Inr ((toy_nostr_task k)\<lparr>nt_gift_wrapper := Some (gift_wrapper_new k), nt_gift_unwrapper := Some k,
            nt_client := Some [''wss://relay.damus.io'', ''wss://nos.lol'', ''wss://relay.nostr.band''],
            nt_receiver_taken := True\<rparr>,
          \<lparr>nl_local_peer_id = None, nl_local_pubkey = k, nl_unwrapper = Some k\<rparr>)"
  by (simp add: nostr_start_def initialize_client_def start_listening_def toy_nostr_task_def nostr_attach_channels_def
      nostr_task_new_def with_private_key_def nostr_config_default_def nostr_relay_config_new_def toy_sdk_def)

theorem nostr_task_public_only_witness:
  "\<exists>t l. nostr_start toy_sdk (toy_nostr_task 3) = Inr (t, l) \<and>
     fst (nostr_run toy_sdk t [(NiEffect (SendPacket (replicate 8 2) [65] Nostr), toy_random)]) = []"
proof -
  obtain t l where start: "nostr_start toy_sdk (toy_nostr_task 3) = Inr (t, l)" using toy_nostr_start by blast
  have "set (fst (nostr_run toy_sdk t [(NiEffect (SendPacket (replicate 8 2) [65] Nostr), toy_random)])) \<subseteq> {}"
    using nostr_task_public_only [OF start [unfolded toy_nostr_task_def],
      of "[(NiEffect (SendPacket (replicate 8 2) [65] Nostr), toy_random)]" "[]"] by simp
  then show ?thesis using start by auto
qed

theorem nostr_broadcast_delivered_witness:
  "\<exists>t l e. nostr_start toy_sdk (toy_nostr_task 3) = Inr (t, l) \<and>
     nostr_handle_effect toy_sdk toy_random (BroadcastBitchatPacket example_packet Nostr) t = ([e], Inr ()) \<and>
     listen toy_sdk \<lparr>nl_local_peer_id = None, nl_local_pubkey = 4, nl_unwrapper = Some 4\<rparr> [(NnEvent e, \<lambda>_. True)] =
       [EvPeerDiscovered (sender_id example_packet) Nostr None,
        EvBitchatPacketReceived (sender_id example_packet) example_packet Nostr]"
proof -
  obtain t l where t: "nostr_start toy_sdk (toy_nostr_task 3) = Inr (t, l)" using toy_nostr_start by blast
  note f = nostr_start_fields [OF t]
  obtain b where b: "wire_encode example_packet = Inr b" "length b \<le> 64000"
    using example_packet_encodes by (simp add: u64_to_be_def)
  have "nc_max_data_size (nt_config t) = 64000" "nt_keys t = 3"
    using f by (simp_all add: toy_nostr_task_def nostr_attach_channels_def nostr_task_new_def with_private_key_def
        nostr_config_default_def)
  moreover have "is_broadcast example_packet"
    by (simp add: is_broadcast_def example_packet_def packet_new_simple_def)
  ultimately show ?thesis
    using nostr_broadcast_delivered [OF _ _ _ _ example_packet_wf b(1), of toy_sdk t
        "\<lparr>nl_local_peer_id = None, nl_local_pubkey = 4, nl_unwrapper = Some 4\<rparr>" "\<lambda>_. True" toy_random "[]"] t f b(2)
    by (auto simp: toy_sdk_def toy_base64)
qed

theorem nostr_listener_killed_witness:
  "listen toy_sdk \<lparr>nl_local_peer_id = None, nl_local_pubkey = 4, nl_unwrapper = None\<rparr>
     ((NnEvent \<lparr>ev_pubkey = 3, ev_kind = BITCHAT_KIND, ev_content = embedded_content toy_sdk ([2, 2] @ replicate 13 0),
          ev_tags = [], ev_created_at = 0\<rparr>, \<lambda>_. True) # [(NnOther, \<lambda>_. True)]) = []"
  using nostr_listener_killed [of toy_sdk "[2, 2] @ replicate 13 0" "\<lparr>ev_pubkey = 3, ev_kind = BITCHAT_KIND,
      ev_content = embedded_content toy_sdk ([2, 2] @ replicate 13 0), ev_tags = [], ev_created_at = 0\<rparr>"
      "\<lparr>nl_local_peer_id = None, nl_local_pubkey = 4, nl_unwrapper = None\<rparr>" "[]" "\<lambda>_. True" "[(NnOther, \<lambda>_. True)]"]
  by (simp add: toy_sdk_def toy_base64 PROTOCOL_VERSION_2_def message_type_from_u8_def)

end
