(* ===== verification/Identity.thy ===== *)
theory Identity
  imports Crypto
begin

text \<open>
  Identities of peers (\<^verbatim>\<open>src/crates/bitchat-core/src/identity/\<close>): the ephemeral, cryptographic and social
  layer, the cache of identities, the storage interface and the manager that keeps the encrypted cache
  in the storage.

  The storage the manager works on is a trait object in the source: here a record of its operations,
  with the in-memory storage, the only one the source has, as its instance; the laws a client relies on
  are the locale \<open>storage_laws\<close>. That a storage keeps its data when the manager and with it the storage
  object are gone is a property of the platform's storage (\<open>persistent\<close>) that the in-memory one does not
  have.
  AES-GCM, bincode and SHA-256 are third-party code and arguments of the model; random bytes and the
  clock readings are arguments too.
\<close>

section \<open>Layers of an identity\<close>

datatype handshake_state = HsNone | HsInProgress | HsCompleted fingerprint | HsFailed string

fun handshake_fingerprint :: "handshake_state \<Rightarrow> fingerprint option" where
  "handshake_fingerprint (HsCompleted f) = Some f"
| "handshake_fingerprint s = None"

fun handshake_is_complete :: "handshake_state \<Rightarrow> bool" where
  "handshake_is_complete (HsCompleted f) = True"
| "handshake_is_complete s = False"

datatype trust_level = TlUnknown | TlKnown | TlTrusted | TlVerified

fun trust_rank :: "trust_level \<Rightarrow> nat" where
  "trust_rank TlUnknown = 0"
| "trust_rank TlKnown = 1"
| "trust_rank TlTrusted = 2"
| "trust_rank TlVerified = 3"

instantiation trust_level :: linorder
begin

definition less_eq_trust_level :: "trust_level \<Rightarrow> trust_level \<Rightarrow> bool" where
  "less_eq_trust_level a b = (trust_rank a \<le> trust_rank b)"

definition less_trust_level :: "trust_level \<Rightarrow> trust_level \<Rightarrow> bool" where
  "less_trust_level a b = (trust_rank a < trust_rank b)"

instance
proof
  fix a b :: trust_level
  show "a \<le> b \<Longrightarrow> b \<le> a \<Longrightarrow> a = b"
    by (cases a; cases b) (simp_all add: less_eq_trust_level_def)
qed (auto simp: less_eq_trust_level_def less_trust_level_def)

end

record ephemeral_identity =
  ep_peer_id :: peer_id
  ep_handshake_state :: handshake_state
  ep_session_start :: timestamp
  ep_last_activity :: timestamp

definition ephemeral_new :: "timestamp \<Rightarrow> peer_id \<Rightarrow> ephemeral_identity" where
  "ephemeral_new now pid =
     \<lparr>ep_peer_id = pid, ep_handshake_state = HsNone, ep_session_start = now, ep_last_activity = now\<rparr>"

definition set_handshake_state :: "timestamp \<Rightarrow> handshake_state \<Rightarrow> ephemeral_identity \<Rightarrow> ephemeral_identity" where
  "set_handshake_state now st e = e\<lparr>ep_handshake_state := st, ep_last_activity := now\<rparr>"

definition update_ephemeral_activity :: "timestamp \<Rightarrow> ephemeral_identity \<Rightarrow> ephemeral_identity" where
  "update_ephemeral_activity now e = e\<lparr>ep_last_activity := now\<rparr>"

record cryptographic_identity =
  ci_fingerprint :: fingerprint
  ci_public_key :: bytes
  ci_signing_public_key :: "bytes option"
  ci_first_seen :: timestamp
  ci_last_handshake :: timestamp
  ci_handshake_count :: u32

definition cryptographic_identity_new ::
    "(bytes \<Rightarrow> bytes) \<Rightarrow> timestamp \<Rightarrow> bytes \<Rightarrow> bytes option \<Rightarrow> cryptographic_identity" where
  "cryptographic_identity_new sha256 now pk spk =
     \<lparr>ci_fingerprint = generate_fingerprint sha256 pk, ci_public_key = pk, ci_signing_public_key = spk,
      ci_first_seen = now, ci_last_handshake = now, ci_handshake_count = 0\<rparr>"

definition update_handshake_time :: "timestamp \<Rightarrow> cryptographic_identity \<Rightarrow> cryptographic_identity" where
  "update_handshake_time now c =
     c\<lparr>ci_last_handshake := now,
       ci_handshake_count := (if ci_handshake_count c = - 1 then - 1 else ci_handshake_count c + 1)\<rparr>"

record social_identity =
  si_fingerprint :: fingerprint
  claimed_nickname :: "rust_string option"
  local_petname :: "rust_string option"
  trust_level :: trust_level
  is_favorite :: bool
  is_blocked :: bool
  last_interaction :: timestamp
  si_notes :: "rust_string option"

definition social_identity_new :: "timestamp \<Rightarrow> fingerprint \<Rightarrow> social_identity" where
  "social_identity_new now f =
     \<lparr>si_fingerprint = f, claimed_nickname = None, local_petname = None, trust_level = TlUnknown,
      is_favorite = False, is_blocked = False, last_interaction = now, si_notes = None\<rparr>"

definition display_name :: "social_identity \<Rightarrow> rust_string option" where
  "display_name s = (case local_petname s of Some p \<Rightarrow> Some p | None \<Rightarrow> claimed_nickname s)"

definition social_set_claimed_nickname :: "timestamp \<Rightarrow> rust_string option \<Rightarrow> social_identity \<Rightarrow> social_identity" where
  "social_set_claimed_nickname now n s = s\<lparr>claimed_nickname := n, last_interaction := now\<rparr>"

definition social_set_petname :: "timestamp \<Rightarrow> rust_string option \<Rightarrow> social_identity \<Rightarrow> social_identity" where
  "social_set_petname now n s = s\<lparr>local_petname := n, last_interaction := now\<rparr>"

definition social_set_trust_level :: "timestamp \<Rightarrow> trust_level \<Rightarrow> social_identity \<Rightarrow> social_identity" where
  "social_set_trust_level now l s = s\<lparr>trust_level := l, last_interaction := now\<rparr>"

definition social_set_favorite :: "timestamp \<Rightarrow> bool \<Rightarrow> social_identity \<Rightarrow> social_identity" where
  "social_set_favorite now b s = s\<lparr>is_favorite := b, last_interaction := now\<rparr>"

definition social_set_blocked :: "timestamp \<Rightarrow> bool \<Rightarrow> social_identity \<Rightarrow> social_identity" where
  "social_set_blocked now b s = s\<lparr>is_blocked := b, last_interaction := now\<rparr>"

section \<open>The cache\<close>

record identity_cache =
  ic_cryptographic :: "(fingerprint \<times> cryptographic_identity) list"
  ic_social :: "(fingerprint \<times> social_identity) list"
  ic_verified :: "fingerprint list"

definition identity_cache_new :: identity_cache where
  "identity_cache_new = \<lparr>ic_cryptographic = [], ic_social = [], ic_verified = []\<rparr>"

definition cache_upsert_cryptographic :: "cryptographic_identity \<Rightarrow> identity_cache \<Rightarrow> identity_cache" where
  "cache_upsert_cryptographic c ic =
     ic\<lparr>ic_cryptographic := map_put (ci_fingerprint c) c (ic_cryptographic ic)\<rparr>"

definition cache_get_cryptographic :: "identity_cache \<Rightarrow> fingerprint \<Rightarrow> cryptographic_identity option" where
  "cache_get_cryptographic ic f = map_of (ic_cryptographic ic) f"

definition cache_upsert_social :: "social_identity \<Rightarrow> identity_cache \<Rightarrow> identity_cache" where
  "cache_upsert_social s ic = ic\<lparr>ic_social := map_put (si_fingerprint s) s (ic_social ic)\<rparr>"

definition cache_get_social :: "identity_cache \<Rightarrow> fingerprint \<Rightarrow> social_identity option" where
  "cache_get_social ic f = map_of (ic_social ic) f"

definition cache_set_verified :: "fingerprint \<Rightarrow> bool \<Rightarrow> identity_cache \<Rightarrow> identity_cache" where
  "cache_set_verified f verified ic =
     (if verified then
        (if f \<in> set (ic_verified ic) then ic else ic\<lparr>ic_verified := ic_verified ic @ [f]\<rparr>)
      else ic\<lparr>ic_verified := filter (\<lambda>g. g \<noteq> f) (ic_verified ic)\<rparr>)"

definition cache_is_verified :: "identity_cache \<Rightarrow> fingerprint \<Rightarrow> bool" where
  "cache_is_verified ic f = (f \<in> set (ic_verified ic))"

text \<open>The first entry in the order of the tree.\<close>

definition find_by_nickname :: "rust_string \<Rightarrow> identity_cache \<Rightarrow> fingerprint option" where
  "find_by_nickname nickname ic =
     map_option fst (find (\<lambda>(f, s). display_name s = Some nickname) (btree_entries (ic_social ic)))"

definition cache_cleanup_old :: "timestamp \<Rightarrow> u64 \<Rightarrow> identity_cache \<Rightarrow> identity_cache" where
  "cache_cleanup_old now max_age ic =
     (let cutoff = sat_sub now max_age;
          crypto = filter (\<lambda>(f, c). cutoff \<le> ci_last_handshake c \<or> f \<in> set (ic_verified ic)) (ic_cryptographic ic)
      in \<lparr>ic_cryptographic = crypto,
          ic_social = filter (\<lambda>(f, s). has_key crypto f) (ic_social ic),
          ic_verified = filter (has_key crypto) (ic_verified ic)\<rparr>)"

definition cache_remove_identity :: "fingerprint \<Rightarrow> identity_cache \<Rightarrow> identity_cache" where
  "cache_remove_identity f ic =
     \<lparr>ic_cryptographic = map_del f (ic_cryptographic ic), ic_social = map_del f (ic_social ic),
      ic_verified = filter (\<lambda>g. g \<noteq> f) (ic_verified ic)\<rparr>"

record identity_cache_stats =
  total_cryptographic_identities :: nat
  total_social_identities :: nat
  total_verified :: nat
  total_favorites :: nat
  total_blocked :: nat

definition cache_stats :: "identity_cache \<Rightarrow> identity_cache_stats" where
  "cache_stats ic =
     \<lparr>total_cryptographic_identities = length (ic_cryptographic ic),
      total_social_identities = length (ic_social ic), total_verified = length (ic_verified ic),
      total_favorites = length (filter is_favorite (map snd (ic_social ic))),
      total_blocked = length (filter is_blocked (map snd (ic_social ic)))\<rparr>"

section \<open>Storage\<close>

definition storage_error :: "string \<Rightarrow> fault" where
  "storage_error message = Err (InvalidPacket (Generic (''Storage error: '' @ message)))"

definition encryption_error :: fault where
  "encryption_error = Err (Crypto EncryptionFailed)"

definition decryption_error :: fault where
  "decryption_error = Err (Crypto DecryptionFailed)"

definition invalid_peer_id :: "string \<Rightarrow> fault" where
  "invalid_peer_id message = Err (InvalidPacket (Generic (''Invalid peer ID: '' @ message)))"

record 's secure_storage =
  sto_store :: "string \<Rightarrow> bytes \<Rightarrow> 's \<Rightarrow> 's \<times> unit result"
  sto_retrieve :: "'s \<Rightarrow> string \<Rightarrow> bytes option result"
  sto_delete :: "string \<Rightarrow> 's \<Rightarrow> 's \<times> unit result"
  sto_list_keys :: "'s \<Rightarrow> string list result"
  sto_clear_all :: "'s \<Rightarrow> 's \<times> unit result"
  sto_is_available :: "'s \<Rightarrow> bool"

record memory_storage =
  mem_data :: "(string \<times> bytes) list"
  mem_available :: bool

definition memory_storage_new :: memory_storage where
  "memory_storage_new = \<lparr>mem_data = [], mem_available = True\<rparr>"

definition memory_store :: "string \<Rightarrow> bytes \<Rightarrow> memory_storage \<Rightarrow> memory_storage \<times> unit result" where
  "memory_store k d s =
     (if \<not> mem_available s then (s, Inl (storage_error ''Storage not available''))
      else (s\<lparr>mem_data := map_put k d (mem_data s)\<rparr>, Inr ()))"

definition memory_retrieve :: "memory_storage \<Rightarrow> string \<Rightarrow> bytes option result" where
  "memory_retrieve s k =
     (if \<not> mem_available s then Inl (storage_error ''Storage not available'') else Inr (map_of (mem_data s) k))"

definition memory_delete :: "string \<Rightarrow> memory_storage \<Rightarrow> memory_storage \<times> unit result" where
  "memory_delete k s =
     (if \<not> mem_available s then (s, Inl (storage_error ''Storage not available''))
      else (s\<lparr>mem_data := map_del k (mem_data s)\<rparr>, Inr ()))"

definition memory_list_keys :: "memory_storage \<Rightarrow> string list result" where
  "memory_list_keys s =
     (if \<not> mem_available s then Inl (storage_error ''Storage not available'')
      else Inr (sort_key (map (of_char :: char \<Rightarrow> u8)) (keys_of (mem_data s))))"

definition memory_clear_all :: "memory_storage \<Rightarrow> memory_storage \<times> unit result" where
  "memory_clear_all s =
     (if \<not> mem_available s then (s, Inl (storage_error ''Storage not available''))
      else (s\<lparr>mem_data := []\<rparr>, Inr ()))"

definition memory_ops :: "memory_storage secure_storage" where
  "memory_ops =
     \<lparr>sto_store = memory_store, sto_retrieve = memory_retrieve, sto_delete = memory_delete,
      sto_list_keys = memory_list_keys, sto_clear_all = memory_clear_all, sto_is_available = mem_available\<rparr>"

section \<open>The manager\<close>

definition CACHE_SAVE_INTERVAL_MS :: u64 where
  "CACHE_SAVE_INTERVAL_MS = 2000"

definition MAX_EPHEMERAL_AGE_MS :: u64 where
  "MAX_EPHEMERAL_AGE_MS = 3600000"

definition KEY_NAME :: string where
  "KEY_NAME = ''identity_cache_encryption_key''"

definition CACHE_NAME :: string where
  "CACHE_NAME = ''identity_cache''"

text \<open>The third-party functions: \<open>ie_aes_encrypt\<close> gives the ciphertext and the tag.\<close>

record 's identity_env =
  ie_storage :: "'s secure_storage"
  ie_sha256 :: "bytes \<Rightarrow> bytes"
  ie_serialize :: "identity_cache \<Rightarrow> bytes option"
  ie_deserialize :: "bytes \<Rightarrow> identity_cache option"
  ie_aes_encrypt :: "bytes \<Rightarrow> bytes \<Rightarrow> bytes \<Rightarrow> (bytes \<times> bytes) option"
  ie_aes_decrypt :: "bytes \<Rightarrow> bytes \<Rightarrow> bytes \<Rightarrow> bytes \<Rightarrow> bytes option"

record 's identity_manager =
  im_ephemeral :: "(peer_id \<times> ephemeral_identity) list"
  im_cache :: identity_cache
  im_storage :: 's
  im_encryption_key :: "bytes option"
  im_last_cache_save :: timestamp
  im_cache_dirty :: bool

text \<open>The clock readings of one operation in order, and the nonce it uses when it saves.\<close>

record identity_clock =
  id_now :: "nat \<Rightarrow> timestamp"
  id_nonce :: bytes

definition encrypt_data :: "'s identity_env \<Rightarrow> bytes \<Rightarrow> bytes \<Rightarrow> bytes \<Rightarrow> bytes result" where
  "encrypt_data env nonce data key =
     (case ie_aes_encrypt env key nonce data of
        None \<Rightarrow> Inl encryption_error
      | Some (ciphertext, tag) \<Rightarrow> Inr (nonce @ tag @ ciphertext))"

definition decrypt_data :: "'s identity_env \<Rightarrow> bytes \<Rightarrow> bytes \<Rightarrow> bytes result" where
  "decrypt_data env encrypted key =
     (if length encrypted < 28 then Inl decryption_error
      else case ie_aes_decrypt env key (take 12 encrypted) (take 16 (drop 12 encrypted)) (drop 28 encrypted) of
             None \<Rightarrow> Inl decryption_error
           | Some plain \<Rightarrow> Inr plain)"

definition save_cache_now ::
    "'s identity_env \<Rightarrow> timestamp \<Rightarrow> bytes \<Rightarrow> 's identity_manager \<Rightarrow> 's identity_manager \<times> unit result" where
  "save_cache_now env now nonce mgr =
     (case im_encryption_key mgr of
        None \<Rightarrow> (mgr, Inr ())
      | Some key \<Rightarrow>
        (case ie_serialize env (im_cache mgr) of
           None \<Rightarrow> (mgr, Inl (serialization_error_with_message ''Failed to serialize identity cache''))
         | Some serialized \<Rightarrow>
           (case encrypt_data env nonce serialized key of
              Inl e \<Rightarrow> (mgr, Inl e)
            | Inr encrypted \<Rightarrow>
              (case sto_store (ie_storage env) CACHE_NAME encrypted (im_storage mgr) of
                 (st, Inl e) \<Rightarrow> (mgr\<lparr>im_storage := st\<rparr>, Inl e)
               | (st, Inr _) \<Rightarrow>
                 (mgr\<lparr>im_storage := st, im_cache_dirty := False, im_last_cache_save := now\<rparr>, Inr ())))))"

definition mark_cache_dirty :: "'s identity_manager \<Rightarrow> 's identity_manager" where
  "mark_cache_dirty mgr = mgr\<lparr>im_cache_dirty := True\<rparr>"

definition save_cache_if_needed ::
    "'s identity_env \<Rightarrow> timestamp \<Rightarrow> timestamp \<Rightarrow> bytes \<Rightarrow> 's identity_manager
     \<Rightarrow> 's identity_manager \<times> unit result" where
  "save_cache_if_needed env now0 now1 nonce mgr =
     (if \<not> im_cache_dirty mgr then (mgr, Inr ())
      else if sat_sub now0 (im_last_cache_save mgr) < CACHE_SAVE_INTERVAL_MS then (mgr, Inr ())
      else save_cache_now env now1 nonce mgr)"

text \<open>The last two steps of most operations.\<close>

definition dirty_and_save ::
    "'s identity_env \<Rightarrow> identity_clock \<Rightarrow> 's identity_manager \<Rightarrow> 's identity_manager \<times> unit result" where
  "dirty_and_save env ck mgr =
     save_cache_if_needed env (id_now ck 0) (id_now ck 1) (id_nonce ck) (mark_cache_dirty mgr)"

definition ensure_encryption_key ::
    "'s identity_env \<Rightarrow> bytes \<Rightarrow> 's identity_manager \<Rightarrow> 's identity_manager \<times> unit result" where
  "ensure_encryption_key env fresh mgr =
     (case sto_retrieve (ie_storage env) (im_storage mgr) KEY_NAME of
        Inl e \<Rightarrow> (mgr, Inl e)
      | Inr found \<Rightarrow>
        (case found of
           Some key \<Rightarrow>
             if length key = 32 then (mgr\<lparr>im_encryption_key := Some key\<rparr>, Inr ())
             else (case sto_store (ie_storage env) KEY_NAME fresh (im_storage mgr) of
                     (st, Inl e) \<Rightarrow> (mgr\<lparr>im_storage := st\<rparr>, Inl e)
                   | (st, Inr _) \<Rightarrow> (mgr\<lparr>im_storage := st, im_encryption_key := Some fresh\<rparr>, Inr ()))
         | None \<Rightarrow>
             (case sto_store (ie_storage env) KEY_NAME fresh (im_storage mgr) of
                (st, Inl e) \<Rightarrow> (mgr\<lparr>im_storage := st\<rparr>, Inl e)
              | (st, Inr _) \<Rightarrow> (mgr\<lparr>im_storage := st, im_encryption_key := Some fresh\<rparr>, Inr ()))))"

definition load_cache :: "'s identity_env \<Rightarrow> 's identity_manager \<Rightarrow> 's identity_manager \<times> unit result" where
  "load_cache env mgr =
     (case sto_retrieve (ie_storage env) (im_storage mgr) CACHE_NAME of
        Inl e \<Rightarrow> (mgr, Inl e)
      | Inr found \<Rightarrow>
        (mgr\<lparr>im_cache :=
           (case (found, im_encryption_key mgr) of
              (Some encrypted, Some key) \<Rightarrow>
                (case decrypt_data env encrypted key of
                   Inr plain \<Rightarrow>
                     (case ie_deserialize env plain of Some c \<Rightarrow> c | None \<Rightarrow> identity_cache_new)
                 | Inl e \<Rightarrow> identity_cache_new)
            | _ \<Rightarrow> identity_cache_new)\<rparr>, Inr ()))"

text \<open>\<open>fresh\<close> are the 32 random bytes of a new key.\<close>

definition with_storage ::
    "'s identity_env \<Rightarrow> timestamp \<Rightarrow> bytes \<Rightarrow> 's \<Rightarrow> 's identity_manager result" where
  "with_storage env now fresh storage =
     (case ensure_encryption_key env fresh
             \<lparr>im_ephemeral = [], im_cache = identity_cache_new, im_storage = storage, im_encryption_key = None,
              im_last_cache_save = now, im_cache_dirty = False\<rparr> of
        (mgr, Inl e) \<Rightarrow> Inl e
      | (mgr, Inr _) \<Rightarrow>
        (case load_cache env mgr of
           (mgr1, Inl e) \<Rightarrow> Inl e
         | (mgr1, Inr _) \<Rightarrow> Inr mgr1))"

definition register_ephemeral_identity ::
    "timestamp \<Rightarrow> peer_id \<Rightarrow> 's identity_manager \<Rightarrow> 's identity_manager" where
  "register_ephemeral_identity now pid mgr =
     mgr\<lparr>im_ephemeral := map_put pid (ephemeral_new now pid) (im_ephemeral mgr)\<rparr>"

definition update_last_handshake ::
    "'s identity_env \<Rightarrow> identity_clock \<Rightarrow> fingerprint \<Rightarrow> 's identity_manager
     \<Rightarrow> 's identity_manager \<times> unit result" where
  "update_last_handshake env ck f mgr =
     (case map_of (ic_cryptographic (im_cache mgr)) f of
        Some c \<Rightarrow> dirty_and_save env ck (mgr\<lparr>im_cache := (im_cache mgr)\<lparr>ic_cryptographic :=
            map_put f (update_handshake_time (id_now ck 2) c) (ic_cryptographic (im_cache mgr))\<rparr>\<rparr>)
      | None \<Rightarrow> (mgr, Inr ()))"

definition update_handshake_state ::
    "'s identity_env \<Rightarrow> identity_clock \<Rightarrow> peer_id \<Rightarrow> handshake_state \<Rightarrow> 's identity_manager
     \<Rightarrow> 's identity_manager \<times> unit result" where
  "update_handshake_state env ck pid st mgr =
     (case map_of (im_ephemeral mgr) pid of
        None \<Rightarrow> (mgr, Inl (invalid_peer_id ''Ephemeral identity not found''))
      | Some e \<Rightarrow>
        (let mgr1 = mgr\<lparr>im_ephemeral := map_put pid (set_handshake_state (id_now ck 3) st e) (im_ephemeral mgr)\<rparr>
         in case handshake_fingerprint st of
              Some f \<Rightarrow> update_last_handshake env ck f mgr1
            | None \<Rightarrow> (mgr1, Inr ())))"

definition cleanup_ephemeral_sessions :: "timestamp \<Rightarrow> 's identity_manager \<Rightarrow> 's identity_manager" where
  "cleanup_ephemeral_sessions now mgr =
     mgr\<lparr>im_ephemeral :=
       filter (\<lambda>(p, e). sat_sub now MAX_EPHEMERAL_AGE_MS \<le> ep_session_start e) (im_ephemeral mgr)\<rparr>"

definition upsert_cryptographic_identity ::
    "'s identity_env \<Rightarrow> identity_clock \<Rightarrow> cryptographic_identity \<Rightarrow> 's identity_manager
     \<Rightarrow> 's identity_manager \<times> unit result" where
  "upsert_cryptographic_identity env ck c mgr =
     dirty_and_save env ck (mgr\<lparr>im_cache := cache_upsert_cryptographic c (im_cache mgr)\<rparr>)"

definition create_cryptographic_identity ::
    "'s identity_env \<Rightarrow> identity_clock \<Rightarrow> bytes \<Rightarrow> bytes option \<Rightarrow> 's identity_manager
     \<Rightarrow> 's identity_manager \<times> fingerprint result" where
  "create_cryptographic_identity env ck pk spk mgr =
     (let c = cryptographic_identity_new (ie_sha256 env) (id_now ck 2) pk spk
      in case upsert_cryptographic_identity env ck c mgr of
           (mgr1, Inl e) \<Rightarrow> (mgr1, Inl e)
         | (mgr1, Inr _) \<Rightarrow> (mgr1, Inr (ci_fingerprint c)))"

text \<open>The reference the source returns is the entry of the fingerprint in the new state.\<close>

definition get_or_create_social_identity ::
    "timestamp \<Rightarrow> fingerprint \<Rightarrow> 's identity_manager \<Rightarrow> 's identity_manager" where
  "get_or_create_social_identity now f mgr =
     (if has_key (ic_social (im_cache mgr)) f then mgr
      else mark_cache_dirty (mgr\<lparr>im_cache := cache_upsert_social (social_identity_new now f) (im_cache mgr)\<rparr>))"

definition update_social_identity ::
    "'s identity_env \<Rightarrow> identity_clock \<Rightarrow> fingerprint \<Rightarrow> (social_identity \<Rightarrow> social_identity)
     \<Rightarrow> 's identity_manager \<Rightarrow> 's identity_manager \<times> unit result" where
  "update_social_identity env ck f update mgr =
     (let mgr1 = get_or_create_social_identity (id_now ck 2) f mgr
      in case map_of (ic_social (im_cache mgr1)) f of
           Some s \<Rightarrow> dirty_and_save env ck (mgr1\<lparr>im_cache := (im_cache mgr1)\<lparr>ic_social :=
               map_put f (update s) (ic_social (im_cache mgr1))\<rparr>\<rparr>)
         | None \<Rightarrow> (mgr1, Inl Panic))"

definition manager_set_nickname ::
    "'s identity_env \<Rightarrow> identity_clock \<Rightarrow> fingerprint \<Rightarrow> rust_string option \<Rightarrow> 's identity_manager
     \<Rightarrow> 's identity_manager \<times> unit result" where
  "manager_set_nickname env ck f n mgr =
     update_social_identity env ck f (social_set_claimed_nickname (id_now ck 3) n) mgr"

definition manager_set_petname ::
    "'s identity_env \<Rightarrow> identity_clock \<Rightarrow> fingerprint \<Rightarrow> rust_string option \<Rightarrow> 's identity_manager
     \<Rightarrow> 's identity_manager \<times> unit result" where
  "manager_set_petname env ck f n mgr = update_social_identity env ck f (social_set_petname (id_now ck 3) n) mgr"

definition manager_set_trust_level ::
    "'s identity_env \<Rightarrow> identity_clock \<Rightarrow> fingerprint \<Rightarrow> trust_level \<Rightarrow> 's identity_manager
     \<Rightarrow> 's identity_manager \<times> unit result" where
  "manager_set_trust_level env ck f l mgr =
     update_social_identity env ck f (social_set_trust_level (id_now ck 3) l) mgr"

definition manager_set_verified ::
    "'s identity_env \<Rightarrow> identity_clock \<Rightarrow> fingerprint \<Rightarrow> bool \<Rightarrow> 's identity_manager
     \<Rightarrow> 's identity_manager \<times> unit result" where
  "manager_set_verified env ck f v mgr =
     dirty_and_save env ck (mgr\<lparr>im_cache := cache_set_verified f v (im_cache mgr)\<rparr>)"

definition manager_set_favorite ::
    "'s identity_env \<Rightarrow> identity_clock \<Rightarrow> fingerprint \<Rightarrow> bool \<Rightarrow> 's identity_manager
     \<Rightarrow> 's identity_manager \<times> unit result" where
  "manager_set_favorite env ck f b mgr = update_social_identity env ck f (social_set_favorite (id_now ck 3) b) mgr"

definition manager_set_blocked ::
    "'s identity_env \<Rightarrow> identity_clock \<Rightarrow> fingerprint \<Rightarrow> bool \<Rightarrow> 's identity_manager
     \<Rightarrow> 's identity_manager \<times> unit result" where
  "manager_set_blocked env ck f b mgr = update_social_identity env ck f (social_set_blocked (id_now ck 3) b) mgr"

definition get_display_name :: "'s identity_manager \<Rightarrow> fingerprint \<Rightarrow> rust_string option" where
  "get_display_name mgr f =
     (case cache_get_social (im_cache mgr) f of Some s \<Rightarrow> display_name s | None \<Rightarrow> None)"

definition get_all_social_identities :: "'s identity_manager \<Rightarrow> social_identity list" where
  "get_all_social_identities mgr = btree_values (ic_social (im_cache mgr))"

definition get_all_cryptographic_identities :: "'s identity_manager \<Rightarrow> cryptographic_identity list" where
  "get_all_cryptographic_identities mgr = btree_values (ic_cryptographic (im_cache mgr))"

definition manager_cleanup_old_identities ::
    "'s identity_env \<Rightarrow> identity_clock \<Rightarrow> u64 \<Rightarrow> 's identity_manager \<Rightarrow> 's identity_manager \<times> unit result" where
  "manager_cleanup_old_identities env ck max_age mgr =
     dirty_and_save env ck (cleanup_ephemeral_sessions (id_now ck 3)
       (mgr\<lparr>im_cache := cache_cleanup_old (id_now ck 2) max_age (im_cache mgr)\<rparr>))"

definition manager_remove_identity ::
    "'s identity_env \<Rightarrow> identity_clock \<Rightarrow> fingerprint \<Rightarrow> 's identity_manager \<Rightarrow> 's identity_manager \<times> unit result" where
  "manager_remove_identity env ck f mgr =
     dirty_and_save env ck (mgr\<lparr>im_cache := cache_remove_identity f (im_cache mgr)\<rparr>)"

definition panic_clear_all_data :: "'s identity_env \<Rightarrow> 's identity_manager \<Rightarrow> 's identity_manager \<times> unit result" where
  "panic_clear_all_data env mgr =
     (case sto_clear_all (ie_storage env) (im_storage mgr) of
        (st, r) \<Rightarrow>
          (mgr\<lparr>im_ephemeral := [], im_cache := identity_cache_new, im_encryption_key := None,
               im_cache_dirty := False, im_storage := st\<rparr>, r))"

text \<open>\<^verbatim>\<open>Drop\<close> saves the cache. The storage is owned by the manager and is dropped after it: the result is
  its last state, with the last of the writes the platform behind it has received. For the in-memory
  storage nothing of it is left.\<close>

definition manager_drop :: "'s identity_env \<Rightarrow> identity_clock \<Rightarrow> 's identity_manager \<Rightarrow> 's" where
  "manager_drop env ck mgr = im_storage (fst (save_cache_now env (id_now ck 0) (id_nonce ck) mgr))"

text \<open>Every platform is given the in-memory storage, so a manager made by \<^verbatim>\<open>new\<close> starts on an empty one.\<close>

definition create_default_storage :: memory_storage where
  "create_default_storage = memory_storage_new"

definition manager_new ::
    "memory_storage identity_env \<Rightarrow> timestamp \<Rightarrow> bytes \<Rightarrow> memory_storage identity_manager result" where
  "manager_new env now fresh = with_storage env now fresh create_default_storage"

section \<open>Runs of the manager\<close>

datatype identity_op =
    OpRegister timestamp peer_id
  | OpHandshake identity_clock peer_id handshake_state
  | OpCleanupEphemeral timestamp
  | OpUpsert identity_clock cryptographic_identity
  | OpCreate identity_clock bytes "bytes option"
  | OpNickname identity_clock fingerprint "rust_string option"
  | OpPetname identity_clock fingerprint "rust_string option"
  | OpTrust identity_clock fingerprint trust_level
  | OpVerified identity_clock fingerprint bool
  | OpFavorite identity_clock fingerprint bool
  | OpBlocked identity_clock fingerprint bool
  | OpCleanup identity_clock u64
  | OpRemove identity_clock fingerprint

fun identity_step :: "'s identity_env \<Rightarrow> identity_op \<Rightarrow> 's identity_manager \<Rightarrow> 's identity_manager" where
  "identity_step env (OpRegister now pid) mgr = register_ephemeral_identity now pid mgr"
| "identity_step env (OpHandshake ck pid st) mgr = fst (update_handshake_state env ck pid st mgr)"
| "identity_step env (OpCleanupEphemeral now) mgr = cleanup_ephemeral_sessions now mgr"
| "identity_step env (OpUpsert ck c) mgr = fst (upsert_cryptographic_identity env ck c mgr)"
| "identity_step env (OpCreate ck pk spk) mgr = fst (create_cryptographic_identity env ck pk spk mgr)"
| "identity_step env (OpNickname ck f n) mgr = fst (manager_set_nickname env ck f n mgr)"
| "identity_step env (OpPetname ck f n) mgr = fst (manager_set_petname env ck f n mgr)"
| "identity_step env (OpTrust ck f l) mgr = fst (manager_set_trust_level env ck f l mgr)"
| "identity_step env (OpVerified ck f v) mgr = fst (manager_set_verified env ck f v mgr)"
| "identity_step env (OpFavorite ck f b) mgr = fst (manager_set_favorite env ck f b mgr)"
| "identity_step env (OpBlocked ck f b) mgr = fst (manager_set_blocked env ck f b mgr)"
| "identity_step env (OpCleanup ck age) mgr = fst (manager_cleanup_old_identities env ck age mgr)"
| "identity_step env (OpRemove ck f) mgr = fst (manager_remove_identity env ck f mgr)"

definition identity_run :: "'s identity_env \<Rightarrow> identity_op list \<Rightarrow> 's identity_manager \<Rightarrow> 's identity_manager" where
  "identity_run env ops mgr = fold (identity_step env) ops mgr"

text \<open>The life of a manager: its operations, and the panic mode at any time between them.\<close>

datatype identity_event = Operate identity_op | PanicClear

fun identity_event_step :: "'s identity_env \<Rightarrow> identity_event \<Rightarrow> 's identity_manager \<Rightarrow> 's identity_manager" where
  "identity_event_step env (Operate op) mgr = identity_step env op mgr"
| "identity_event_step env PanicClear mgr = fst (panic_clear_all_data env mgr)"

definition identity_life :: "'s identity_env \<Rightarrow> identity_event list \<Rightarrow> 's identity_manager \<Rightarrow> 's identity_manager" where
  "identity_life env es mgr = fold (identity_event_step env) es mgr"

lemma identity_run_invariant:
  assumes "P mgr" and "\<And>op m. P m \<Longrightarrow> P (identity_step env op m)"
  shows "P (identity_run env ops mgr)"
  using assms(1) unfolding identity_run_def by (induction ops arbitrary: mgr) (simp_all add: assms(2))

lemmas manager_ops = register_ephemeral_identity_def update_handshake_state_def update_last_handshake_def
  cleanup_ephemeral_sessions_def upsert_cryptographic_identity_def create_cryptographic_identity_def
  manager_set_nickname_def manager_set_petname_def manager_set_trust_level_def manager_set_verified_def
  manager_set_favorite_def manager_set_blocked_def manager_cleanup_old_identities_def
  manager_remove_identity_def update_social_identity_def get_or_create_social_identity_def mark_cache_dirty_def

subsection \<open>What an operation does to the storage\<close>

text \<open>The storage changes only by a write of the cache, and the key never.\<close>

definition storage_after :: "'s identity_env \<Rightarrow> 's identity_manager \<Rightarrow> 's identity_manager \<Rightarrow> bool" where
  "storage_after env m m' \<longleftrightarrow> im_encryption_key m' = im_encryption_key m \<and>
     (im_storage m' = im_storage m \<or>
      im_encryption_key m \<noteq> None \<and> (\<exists>d. im_storage m' = fst (sto_store (ie_storage env) CACHE_NAME d (im_storage m))))"

lemma storage_after_refl:
  "im_storage m' = im_storage m \<Longrightarrow> im_encryption_key m' = im_encryption_key m \<Longrightarrow> storage_after env m m'"
  by (simp add: storage_after_def)

lemma save_cache_now_storage: "storage_after env m (fst (save_cache_now env now nonce m))"
  by (auto simp: save_cache_now_def storage_after_def split: option.split sum.split prod.split) (metis fst_conv)+

lemma save_cache_now_cache [simp]: "im_cache (fst (save_cache_now env now nonce m)) = im_cache m"
  by (simp add: save_cache_now_def split: option.split sum.split prod.split)

lemma dirty_and_save_storage:
  assumes "im_storage m' = im_storage m" and "im_encryption_key m' = im_encryption_key m"
  shows "storage_after env m (fst (dirty_and_save env ck m'))"
  using assms save_cache_now_storage [of env "m'\<lparr>im_cache_dirty := True\<rparr>" "id_now ck 1" "id_nonce ck"]
  by (simp add: dirty_and_save_def save_cache_if_needed_def mark_cache_dirty_def storage_after_def)

lemma dirty_and_save_cache [simp]: "im_cache (fst (dirty_and_save env ck m)) = im_cache m"
  by (simp add: dirty_and_save_def save_cache_if_needed_def mark_cache_dirty_def)

lemma identity_step_storage: "storage_after env m (identity_step env op m)"
  by (cases op)
    (auto simp: manager_ops Let_def case_prod_beta intro!: storage_after_refl dirty_and_save_storage
      split: option.split sum.split if_split)

subsection \<open>Without a key nothing is written\<close>

lemma unsaved_run:
  fixes mgr :: "'s identity_manager"
  assumes "im_encryption_key mgr = None"
  shows "manager_drop env ck (identity_run env ops mgr) = im_storage mgr"
proof -
  have "im_encryption_key (identity_run env ops mgr) = None \<and> im_storage (identity_run env ops mgr) = im_storage mgr"
  proof (rule identity_run_invariant [of "\<lambda>m. im_encryption_key m = None \<and> im_storage m = im_storage mgr"])
    fix op and m :: "'s identity_manager"
    assume "im_encryption_key m = None \<and> im_storage m = im_storage mgr"
    with identity_step_storage [of env m op]
    show "im_encryption_key (identity_step env op m) = None \<and> im_storage (identity_step env op m) = im_storage mgr"
      by (simp add: storage_after_def)
  qed (simp add: assms)
  then show ?thesis by (simp add: manager_drop_def save_cache_now_def)
qed

subsection \<open>What the manager relies on\<close>

locale storage_laws =
  fixes ops :: "'s secure_storage"
  assumes store_retrieve: "sto_store ops k d s = (s', Inr ()) \<Longrightarrow>
      sto_retrieve ops s' j = (if j = k then Inr (Some d) else sto_retrieve ops s j)"
    and store_available: "sto_is_available ops s \<Longrightarrow>
      snd (sto_store ops k d s) = Inr () \<and> sto_is_available ops (fst (sto_store ops k d s))"
    and retrieve_available: "sto_is_available ops s \<Longrightarrow> is_ok (sto_retrieve ops s k)"
    and clear_retrieve: "sto_clear_all ops s = (s', Inr ()) \<Longrightarrow> sto_retrieve ops s' k = Inr None"
    and clear_available: "sto_is_available ops s \<Longrightarrow>
      snd (sto_clear_all ops s) = Inr () \<and> sto_is_available ops (fst (sto_clear_all ops s))"
begin

lemma store_available_retrieve:
  "sto_is_available ops s \<Longrightarrow>
   sto_retrieve ops (fst (sto_store ops k d s)) j = (if j = k then Inr (Some d) else sto_retrieve ops s j)"
  using store_available [of s k d] store_retrieve [of k d s "fst (sto_store ops k d s)" j]
  by (cases "sto_store ops k d s") auto

text \<open>The key of the manager is the one in the storage, which is available.\<close>

definition key_stored :: "'s identity_manager \<Rightarrow> bool" where
  "key_stored m \<longleftrightarrow> sto_is_available ops (im_storage m) \<and>
     (\<exists>key. im_encryption_key m = Some key \<and> length key = 32 \<and> sto_retrieve ops (im_storage m) KEY_NAME = Inr (Some key))"

lemma key_stored_after:
  assumes "key_stored m" and "storage_after env m m'" and "ie_storage env = ops"
  shows "key_stored m'"
  using assms store_available store_available_retrieve [of _ CACHE_NAME _ KEY_NAME]
  by (auto simp: key_stored_def storage_after_def KEY_NAME_def CACHE_NAME_def)

lemma key_stored_run:
  assumes "key_stored m" and "ie_storage env = ops"
  shows "key_stored (identity_run env os m)"
  by (rule identity_run_invariant [of key_stored, OF assms(1)])
    (rule key_stored_after [OF _ identity_step_storage assms(2)])

lemma key_stored_start:
  assumes "with_storage env now fresh st = Inr m" and "ie_storage env = ops" and "length fresh = 32"
    and "sto_is_available ops st"
  shows "key_stored m"
  using assms store_available [OF assms(4), of KEY_NAME fresh] store_available_retrieve [OF assms(4), of KEY_NAME fresh KEY_NAME]
  by (auto simp: key_stored_def with_storage_def ensure_encryption_key_def load_cache_def
      split: sum.splits option.splits prod.splits if_splits)

text \<open>After the panic mode: no key, and nothing in the storage.\<close>

definition wiped :: "'s identity_manager \<Rightarrow> bool" where
  "wiped m \<longleftrightarrow> sto_is_available ops (im_storage m) \<and> im_encryption_key m = None \<and>
     (\<forall>k. sto_retrieve ops (im_storage m) k = Inr None)"

lemma wiped_after: "wiped m \<Longrightarrow> storage_after env m m' \<Longrightarrow> wiped m'"
  by (simp add: wiped_def storage_after_def)

lemma panic_wipes:
  assumes "sto_is_available ops (im_storage m)" and "ie_storage env = ops"
  shows "wiped (fst (panic_clear_all_data env m))"
proof -
  obtain st where "sto_clear_all ops (im_storage m) = (st, Inr ())" "sto_is_available ops st"
    using clear_available [OF assms(1)] by (cases "sto_clear_all ops (im_storage m)") auto
  with assms(2) clear_retrieve show ?thesis by (simp add: panic_clear_all_data_def wiped_def)
qed

lemma life_step:
  assumes "ie_storage env = ops"
  shows "key_stored m \<Longrightarrow> key_stored (identity_step env op m)"
    and "wiped m \<Longrightarrow> wiped (identity_event_step env e m)"
    and "key_stored m \<Longrightarrow> wiped (identity_event_step env PanicClear m)"
proof -
  show "key_stored m \<Longrightarrow> key_stored (identity_step env op m)"
    by (rule key_stored_after [OF _ identity_step_storage assms])
  show "wiped m \<Longrightarrow> wiped (identity_event_step env e m)"
    using panic_wipes [OF _ assms] wiped_after [OF _ identity_step_storage]
    by (cases e) (simp_all add: wiped_def [of m])
  show "key_stored m \<Longrightarrow> wiped (identity_event_step env PanicClear m)"
    by (auto intro: panic_wipes [OF _ assms] simp: key_stored_def)
qed

lemma wiped_life: "wiped m \<Longrightarrow> ie_storage env = ops \<Longrightarrow> wiped (identity_life env es m)"
  unfolding identity_life_def by (induction es arbitrary: m) (simp_all add: life_step)

lemma key_stored_life:
  "key_stored m \<Longrightarrow> ie_storage env = ops \<Longrightarrow>
   if PanicClear \<in> set es then wiped (identity_life env es m) else key_stored (identity_life env es m)"
proof (induction es arbitrary: m)
  case (Cons e es)
  show ?case
  proof (cases e)
    case PanicClear
    with Cons.prems wiped_life [OF life_step(3) [OF Cons.prems(2,1)] Cons.prems(2), of es] show ?thesis
      by (simp add: identity_life_def)
  next
    case (Operate op)
    with Cons.IH [OF life_step(1) [OF Cons.prems(2,1), of op] Cons.prems(2)] show ?thesis
      by (simp add: identity_life_def split: if_splits)
  qed
qed (simp add: identity_life_def)

lemma cleared_forever:
  assumes "panic_clear_all_data env m = (m', Inr ())" and "ie_storage env = ops"
  shows "sto_retrieve ops (manager_drop env ck (identity_run env os m')) k = Inr None"
proof -
  have "im_encryption_key m' = None \<and> sto_retrieve ops (im_storage m') k = Inr None"
    using assms clear_retrieve by (auto simp: panic_clear_all_data_def split: prod.splits)
  then show ?thesis by (simp add: unsaved_run)
qed

end

text \<open>The documented behaviour of the third-party functions: bincode reads what it wrote, AES-GCM decrypts
  what it encrypted, accepts every key of 32 and nonce of 12 bytes and gives tags of 16 bytes.\<close>

definition cache_codec_inverse :: "'s identity_env \<Rightarrow> identity_cache \<Rightarrow> bool" where
  "cache_codec_inverse env c \<longleftrightarrow> (\<exists>b. ie_serialize env c = Some b \<and> ie_deserialize env b = Some c)"

definition aes_inverse :: "'s identity_env \<Rightarrow> bool" where
  "aes_inverse env \<longleftrightarrow> (\<forall>key nonce d. length key = 32 \<longrightarrow> length nonce = 12 \<longrightarrow>
     (\<exists>c t. ie_aes_encrypt env key nonce d = Some (c, t) \<and> length t = 16 \<and>
        ie_aes_decrypt env key nonce t c = Some d))"

text \<open>What a platform's storage must do for a restart: the storage that is opened after the one in use was
  dropped is available and has its data.\<close>

definition persistent :: "'s secure_storage \<Rightarrow> ('s \<Rightarrow> 's) \<Rightarrow> bool" where
  "persistent ops reopen \<longleftrightarrow> (\<forall>s k. sto_is_available ops s \<longrightarrow>
     sto_is_available ops (reopen s) \<and> sto_retrieve ops (reopen s) k = sto_retrieve ops s k)"

lemma decrypt_encrypt:
  assumes "aes_inverse env" and "length key = 32" and "length nonce = 12"
  shows "\<exists>e. encrypt_data env nonce d key = Inr e \<and> decrypt_data env e key = Inr d"
proof -
  obtain c t where "ie_aes_encrypt env key nonce d = Some (c, t)" "length t = 16"
    "ie_aes_decrypt env key nonce t c = Some d"
    using assms unfolding aes_inverse_def by blast
  with assms(3) show ?thesis by (simp add: encrypt_data_def decrypt_data_def)
qed

context storage_laws
begin

lemma reopened_cache:
  assumes "cache_codec_inverse env (im_cache m)" and "aes_inverse env" and "ie_storage env = ops" and "key_stored m"
    and "length (id_nonce ck) = 12" and "persistent ops reopen"
  shows "\<exists>m'. with_storage env now fresh (reopen (manager_drop env ck m)) = Inr m' \<and> im_cache m' = im_cache m"
proof -
  obtain key where key: "im_encryption_key m = Some key" "length key = 32" "sto_is_available ops (im_storage m)"
    "sto_retrieve ops (im_storage m) KEY_NAME = Inr (Some key)"
    using assms(4) by (auto simp: key_stored_def)
  obtain b where b: "ie_serialize env (im_cache m) = Some b" "ie_deserialize env b = Some (im_cache m)"
    using assms(1) unfolding cache_codec_inverse_def by blast
  obtain e where e: "encrypt_data env (id_nonce ck) b key = Inr e" "decrypt_data env e key = Inr b"
    using decrypt_encrypt [OF assms(2) key(2) assms(5)] by blast
  let ?st = "fst (sto_store ops CACHE_NAME e (im_storage m))"
  have st: "manager_drop env ck m = ?st" "sto_is_available ops ?st"
    using b e key assms(3) store_available by (simp_all add: manager_drop_def save_cache_now_def split: prod.split sum.split)
  moreover have "sto_retrieve ops ?st KEY_NAME = Inr (Some key)" "sto_retrieve ops ?st CACHE_NAME = Inr (Some e)"
    using store_available_retrieve [OF key(3), of CACHE_NAME e] key(4) by (simp_all add: KEY_NAME_def CACHE_NAME_def)
  moreover have "sto_retrieve ops (reopen ?st) k = sto_retrieve ops ?st k" for k
    using assms(6) st(2) by (simp add: persistent_def)
  ultimately show ?thesis
    using key(2) e(2) b(2) assms(3) by (simp add: with_storage_def ensure_encryption_key_def load_cache_def)
qed

lemma reopened_wiped:
  assumes "wiped m" and "ie_storage env = ops" and "persistent ops reopen"
  shows "\<exists>m'. with_storage env now fresh (reopen (manager_drop env ck m)) = Inr m' \<and> im_cache m' = identity_cache_new"
proof -
  let ?st = "reopen (im_storage m)"
  have st: "sto_is_available ops ?st" "sto_retrieve ops ?st k = Inr None" for k
    using assms(1,3) by (simp_all add: wiped_def persistent_def)
  obtain st' where "sto_store ops KEY_NAME fresh ?st = (st', Inr ())"
    using store_available [OF st(1), of KEY_NAME fresh] by (cases "sto_store ops KEY_NAME fresh ?st") auto
  moreover have "sto_retrieve ops st' CACHE_NAME = Inr None"
    using store_retrieve [OF calculation, of CACHE_NAME] st(2) by (simp add: KEY_NAME_def CACHE_NAME_def)
  moreover have "manager_drop env ck m = im_storage m"
    using assms(1) by (simp add: manager_drop_def save_cache_now_def wiped_def)
  ultimately show ?thesis
    using st(2) assms(2) by (simp add: with_storage_def ensure_encryption_key_def load_cache_def)
qed

end

interpretation memory: storage_laws memory_ops
  by unfold_locales (auto simp: memory_ops_def memory_store_def memory_retrieve_def memory_clear_all_def
      split: if_splits)

subsection \<open>The cache\<close>

definition cache_ok :: "identity_cache \<Rightarrow> bool" where
  "cache_ok ic \<longleftrightarrow> distinct (keys_of (ic_cryptographic ic)) \<and> distinct (keys_of (ic_social ic)) \<and>
     distinct (ic_verified ic) \<and>
     list_all (\<lambda>(f, c). ci_fingerprint c = f) (ic_cryptographic ic) \<and>
     list_all (\<lambda>(f, s). si_fingerprint s = f) (ic_social ic)"

lemma list_all_put:
  "list_all P m \<Longrightarrow> P (k, v) \<Longrightarrow> list_all P (map_put k v m)"
  by (induction m) auto

lemma list_all_del: "list_all P m \<Longrightarrow> list_all P (map_del k m)"
  by (auto simp: list_all_iff AList.delete_eq)

lemma social_of_map: "cache_ok ic \<Longrightarrow> map_of (ic_social ic) f = Some s \<Longrightarrow> si_fingerprint s = f"
  by (auto simp: cache_ok_def list_all_iff dest: map_of_SomeD)

lemma crypto_of_map: "cache_ok ic \<Longrightarrow> map_of (ic_cryptographic ic) f = Some c \<Longrightarrow> ci_fingerprint c = f"
  by (auto simp: cache_ok_def list_all_iff dest: map_of_SomeD)

lemma cache_ok_filter:
  "cache_ok ic \<Longrightarrow> cache_ok \<lparr>ic_cryptographic = filter P (ic_cryptographic ic), ic_social = filter Q (ic_social ic),
     ic_verified = filter R (ic_verified ic)\<rparr>"
  by (auto simp: cache_ok_def list_all_iff distinct_map_filter)

lemma cache_ok_new: "cache_ok identity_cache_new"
  by (simp add: cache_ok_def identity_cache_new_def)

lemma cache_ok_social:
  "cache_ok ic \<Longrightarrow> si_fingerprint s = f \<Longrightarrow> cache_ok (ic\<lparr>ic_social := map_put f s (ic_social ic)\<rparr>)"
  by (simp add: cache_ok_def list_all_put)

lemma cache_ok_crypto:
  "cache_ok ic \<Longrightarrow> ci_fingerprint c = f \<Longrightarrow> cache_ok (ic\<lparr>ic_cryptographic := map_put f c (ic_cryptographic ic)\<rparr>)"
  by (simp add: cache_ok_def list_all_put)

lemma cache_ok_cleanup: "cache_ok ic \<Longrightarrow> cache_ok (cache_cleanup_old now age ic)"
  by (simp add: cache_cleanup_old_def Let_def cache_ok_filter)

lemma cache_ok_remove: "cache_ok ic \<Longrightarrow> cache_ok (cache_remove_identity f ic)"
  by (simp add: cache_remove_identity_def cache_ok_def list_all_del)

lemma cache_ok_verified: "cache_ok ic \<Longrightarrow> cache_ok (cache_set_verified f v ic)"
  by (simp add: cache_set_verified_def cache_ok_def)

lemma cache_ok_update_social:
  assumes "cache_ok (im_cache m)" and "\<And>s. si_fingerprint (update s) = si_fingerprint s"
  shows "cache_ok (im_cache (fst (update_social_identity env ck f update m)))"
proof -
  let ?m = "get_or_create_social_identity (id_now ck 2) f m"
  have ok: "cache_ok (im_cache ?m)" using assms(1)
    by (auto simp: get_or_create_social_identity_def cache_upsert_social_def mark_cache_dirty_def
        social_identity_new_def intro!: cache_ok_social)
  show ?thesis
  proof (cases "map_of (ic_social (im_cache ?m)) f")
    case (Some s)
    with ok assms(2) show ?thesis
      by (simp add: update_social_identity_def Let_def cache_ok_social social_of_map)
  qed (use ok in \<open>simp add: update_social_identity_def Let_def\<close>)
qed

lemma cache_ok_step: "cache_ok (im_cache m) \<Longrightarrow> cache_ok (im_cache (identity_step env op m))"
proof (cases op)
  case (OpHandshake ck pid st)
  then show "cache_ok (im_cache m) \<Longrightarrow> ?thesis"
    by (auto simp: update_handshake_state_def update_last_handshake_def update_handshake_time_def Let_def
        crypto_of_map intro!: cache_ok_crypto split: option.split)
qed (auto simp: register_ephemeral_identity_def cleanup_ephemeral_sessions_def upsert_cryptographic_identity_def
    create_cryptographic_identity_def manager_set_nickname_def manager_set_petname_def manager_set_trust_level_def
    manager_set_verified_def manager_set_favorite_def manager_set_blocked_def manager_cleanup_old_identities_def
    manager_remove_identity_def social_set_claimed_nickname_def social_set_petname_def social_set_trust_level_def
    social_set_favorite_def social_set_blocked_def Let_def case_prod_beta cache_upsert_cryptographic_def
    intro!: cache_ok_update_social cache_ok_cleanup cache_ok_remove cache_ok_verified cache_ok_crypto
    split: sum.split)

section \<open>Properties\<close>

text \<open>C28: What the manager knows about identities survives a restart, if its storage does: for every
  storage that keeps the laws of the interface and still has its data when it is opened again after
  the manager was dropped, and whatever operations were run and however often the panic mode was used,
  the next manager opens without an error. It has exactly the same cache if the panic mode was never
  used, and an empty one otherwise, also when identities were added after it. (bincode and AES-GCM are
  assumed to behave as documented.)\<close>

theorem identity_cache_persists:
  assumes "storage_laws (ie_storage env)" and "persistent (ie_storage env) reopen"
    and "aes_inverse env" and "cache_codec_inverse env (im_cache (identity_life env es mgr))"
    and "sto_is_available (ie_storage env) st" and "length fresh = 32" and "with_storage env now fresh st = Inr mgr"
    and "length (id_nonce ck) = 12"
  shows "\<exists>mgr'. with_storage env now' fresh' (reopen (manager_drop env ck (identity_life env es mgr))) = Inr mgr' \<and>
     im_cache mgr' =
       (if PanicClear \<in> set es then identity_cache_new else im_cache (identity_life env es mgr))"
proof -
  note laws = assms(1)
  have "storage_laws.key_stored (ie_storage env) mgr"
    by (rule storage_laws.key_stored_start [OF laws assms(7) refl assms(6,5)])
  then have "if PanicClear \<in> set es then storage_laws.wiped (ie_storage env) (identity_life env es mgr)
      else storage_laws.key_stored (ie_storage env) (identity_life env es mgr)"
    by (rule storage_laws.key_stored_life [OF laws _ refl])
  then show ?thesis
    using storage_laws.reopened_wiped [OF laws _ refl assms(2)]
      storage_laws.reopened_cache [OF laws assms(4,3) refl _ assms(8,2)]
    by (auto split: if_splits)
qed

text \<open>A storage on a disk: the manager's storage object is dropped, the entries stay.\<close>

definition toy_disk :: "(string \<times> bytes) list secure_storage" where
  "toy_disk =
     \<lparr>sto_store = (\<lambda>k d s. (map_put k d s, Inr ())), sto_retrieve = (\<lambda>s k. Inr (map_of s k)),
      sto_delete = (\<lambda>k s. (map_del k s, Inr ())), sto_list_keys = (\<lambda>s. Inr (keys_of s)),
      sto_clear_all = (\<lambda>s. ([], Inr ())), sto_is_available = (\<lambda>s. True)\<rparr>"

interpretation disk: storage_laws toy_disk
  by unfold_locales (auto simp: toy_disk_def)

definition toy_disk_env :: "(string \<times> bytes) list identity_env" where
  "toy_disk_env =
     \<lparr>ie_storage = toy_disk, ie_sha256 = rev,
      ie_serialize = (\<lambda>c. Some (case ic_verified c of [] \<Rightarrow> [] | f # fs \<Rightarrow> f)),
      ie_deserialize = (\<lambda>b. Some \<lparr>ic_cryptographic = [], ic_social = [],
        ic_verified = (if b = [] then [] else [b])\<rparr>),
      ie_aes_encrypt = (\<lambda>key nonce d. Some (rev d, replicate 16 0)),
      ie_aes_decrypt = (\<lambda>key nonce t c. Some (rev c))\<rparr>"

definition toy_disk_manager :: "(string \<times> bytes) list identity_manager" where
  "toy_disk_manager =
     \<lparr>im_ephemeral = [], im_cache = identity_cache_new, im_storage = [(KEY_NAME, replicate 32 7)],
      im_encryption_key = Some (replicate 32 7), im_last_cache_save = 0, im_cache_dirty = False\<rparr>"

lemma toy_disk_opened: "with_storage toy_disk_env 0 (replicate 32 7) [] = Inr toy_disk_manager"
  by (simp add: with_storage_def ensure_encryption_key_def load_cache_def toy_disk_env_def toy_disk_def
      KEY_NAME_def CACHE_NAME_def toy_disk_manager_def)

lemma toy_disk_laws:
  "storage_laws (ie_storage toy_disk_env)" "persistent (ie_storage toy_disk_env) (\<lambda>s. s)"
  "sto_is_available (ie_storage toy_disk_env) s"
  using disk.storage_laws_axioms by (simp_all add: toy_disk_env_def persistent_def toy_disk_def)

text \<open>A concrete manager: the codec keeps one verified fingerprint.\<close>

definition toy_identity_env :: "memory_storage identity_env" where
  "toy_identity_env =
     \<lparr>ie_storage = memory_ops, ie_sha256 = rev,
      ie_serialize = (\<lambda>c. Some (case ic_verified c of [] \<Rightarrow> [] | f # fs \<Rightarrow> f)),
      ie_deserialize = (\<lambda>b. Some \<lparr>ic_cryptographic = [], ic_social = [], ic_verified = [b]\<rparr>),
      ie_aes_encrypt = (\<lambda>key nonce d. Some (rev d, replicate 16 0)),
      ie_aes_decrypt = (\<lambda>key nonce t c. Some (rev c))\<rparr>"

definition toy_identity_clock :: identity_clock where
  "toy_identity_clock = \<lparr>id_now = (\<lambda>_. 5000), id_nonce = replicate 12 0\<rparr>"

definition toy_identity_manager :: "memory_storage identity_manager" where
  "toy_identity_manager =
     \<lparr>im_ephemeral = [], im_cache = identity_cache_new,
      im_storage = \<lparr>mem_data = [(KEY_NAME, replicate 32 7)], mem_available = True\<rparr>,
      im_encryption_key = Some (replicate 32 7), im_last_cache_save = 0, im_cache_dirty = False\<rparr>"

lemma toy_aes: "aes_inverse toy_identity_env"
  by (simp add: aes_inverse_def toy_identity_env_def)

lemma toy_storage: "ie_storage toy_identity_env = memory_ops"
  by (simp add: toy_identity_env_def)

lemma toy_opened: "with_storage toy_identity_env 0 (replicate 32 7) memory_storage_new = Inr toy_identity_manager"
  by (simp add: with_storage_def ensure_encryption_key_def load_cache_def toy_identity_env_def memory_ops_def
      memory_retrieve_def memory_store_def memory_storage_new_def KEY_NAME_def CACHE_NAME_def
      toy_identity_manager_def)

theorem identity_cache_persists_witness:
  "(\<exists>mgr'. with_storage toy_disk_env 6000 []
      (manager_drop toy_disk_env toy_identity_clock
        (identity_life toy_disk_env [Operate (OpVerified toy_identity_clock [1, 2] True)] toy_disk_manager)) =
      Inr mgr' \<and> im_cache mgr' = \<lparr>ic_cryptographic = [], ic_social = [], ic_verified = [[1, 2]]\<rparr>) \<and>
   (\<exists>mgr'. with_storage toy_disk_env 6000 []
      (manager_drop toy_disk_env toy_identity_clock
        (identity_life toy_disk_env [PanicClear, Operate (OpVerified toy_identity_clock [1, 2] True)]
          toy_disk_manager)) = Inr mgr' \<and> im_cache mgr' = identity_cache_new)"
  using identity_cache_persists [OF toy_disk_laws(1,2) _ _ toy_disk_laws(3) _ toy_disk_opened,
      of "[Operate (OpVerified toy_identity_clock [1, 2] True)]" toy_identity_clock 6000 "[]"]
    identity_cache_persists [OF toy_disk_laws(1,2) _ _ toy_disk_laws(3) _ toy_disk_opened,
      of "[PanicClear, Operate (OpVerified toy_identity_clock [1, 2] True)]" toy_identity_clock 6000 "[]"]
  by (simp add: aes_inverse_def cache_codec_inverse_def toy_disk_env_def toy_identity_clock_def toy_disk_def
      identity_life_def manager_set_verified_def cache_set_verified_def toy_disk_manager_def
      identity_cache_new_def panic_clear_all_data_def)

text \<open>The only storage of the source is the in-memory one, which every platform is given and which is gone
  with its manager. So with what \<^verbatim>\<open>new\<close> builds nothing survives: a manager made by it always starts
  with an empty cache and nothing but its fresh key in the storage.\<close>

theorem default_storage_forgets:
  "\<exists>mgr. manager_new (env\<lparr>ie_storage := memory_ops\<rparr>) now fresh = Inr mgr \<and> im_cache mgr = identity_cache_new \<and>
     mem_data (im_storage mgr) = [(KEY_NAME, fresh)]"
  by (simp add: manager_new_def create_default_storage_def with_storage_def ensure_encryption_key_def load_cache_def
      memory_ops_def memory_retrieve_def memory_store_def memory_storage_new_def KEY_NAME_def CACHE_NAME_def)

text \<open>The panic mode is final: once it has cleared the in-memory storage, nothing is ever written there
  again, by whatever operations and by the drop of the manager, so the storage stays empty.\<close>

theorem panic_clear_is_final:
  assumes "ie_storage env = memory_ops" and "panic_clear_all_data env mgr = (mgr', Inr ())"
  shows "memory_retrieve (manager_drop env ck (identity_run env os mgr')) k = Inr None"
  using memory.cleared_forever [OF assms(2,1)] by (simp add: memory_ops_def)

theorem panic_clear_is_final_witness:
  "memory_retrieve (manager_drop toy_identity_env toy_identity_clock
     (identity_run toy_identity_env [OpVerified toy_identity_clock [1, 2] True]
       (fst (panic_clear_all_data toy_identity_env toy_identity_manager)))) CACHE_NAME = Inr None"
  by (rule panic_clear_is_final [OF toy_storage, of toy_identity_manager])
    (simp add: panic_clear_all_data_def toy_identity_env_def memory_ops_def memory_clear_all_def
      toy_identity_manager_def)

text \<open>The tables of identities stay consistent: from an empty storage on, every identity is stored under
  its own fingerprint, at most once, and no fingerprint is listed as verified twice.\<close>

theorem identity_cache_invariant:
  assumes "ie_storage env = memory_ops" and "with_storage env now fresh memory_storage_new = Inr mgr"
  shows "cache_ok (im_cache (identity_run env os mgr))"
proof (rule identity_run_invariant [of "\<lambda>m. cache_ok (im_cache m)"])
  show "cache_ok (im_cache mgr)"
    using assms cache_ok_new
    by (auto simp: with_storage_def ensure_encryption_key_def load_cache_def memory_ops_def memory_retrieve_def
        memory_store_def memory_storage_new_def KEY_NAME_def CACHE_NAME_def)
qed (rule cache_ok_step)

theorem identity_cache_invariant_witness:
  "cache_ok (im_cache (identity_run toy_identity_env
     [OpVerified toy_identity_clock [1, 2] True, OpBlocked toy_identity_clock [1, 2] True] toy_identity_manager))"
  by (rule identity_cache_invariant [OF toy_storage toy_opened])

text \<open>The clean-up forgets what the user decided about a peer: a social identity, with its block and its
  petname, is kept exactly when the peer has a cryptographic identity that is verified or had a
  handshake recently; everything that is kept is unchanged.\<close>

theorem cleanup_forgets_social:
  assumes "cache_ok ic"
  shows "cache_get_social (cache_cleanup_old now age ic) f =
    (case cache_get_cryptographic ic f of
       Some c \<Rightarrow> if sat_sub now age \<le> ci_last_handshake c \<or> cache_is_verified ic f then cache_get_social ic f else None
     | None \<Rightarrow> None)"
  using assms
  by (auto simp: cache_cleanup_old_def cache_get_social_def cache_get_cryptographic_def cache_is_verified_def
      cache_ok_def Let_def has_key_def map_of_filter_distinct split: option.split)

definition toy_blocked_cache :: identity_cache where
  "toy_blocked_cache = cache_upsert_social ((social_identity_new 0 [1])\<lparr>is_blocked := True\<rparr>) identity_cache_new"

theorem cleanup_forgets_social_witness:
  "map_option is_blocked (cache_get_social toy_blocked_cache [1]) = Some True \<and>
   cache_get_social (cache_cleanup_old 5000 1000 toy_blocked_cache) [1] = None"
  using cleanup_forgets_social [of toy_blocked_cache 5000 1000 "[1]"]
  by (simp add: toy_blocked_cache_def cache_ok_def cache_upsert_social_def identity_cache_new_def
      social_identity_new_def cache_get_cryptographic_def cache_get_social_def)

end
