(* ===== verification/Geohash.thy ===== *)
theory Geohash
  imports Complex_Main Crypto
begin

text \<open>
  Location channels (\<^verbatim>\<open>src/crates/bitchat-core/src/geohash.rs\<close>): precision levels, channels and their
  parents, the identity derived for a channel, and the manager of the active channel.

  A 64-bit float is \<open>Some\<close> of its rational value, or \<open>None\<close> when it is infinite or not a number. The encoder
  of the \<^verbatim>\<open>geohash\<close> crate is an argument (of longitude, latitude and length), Ed25519 and SHA-256 are the
  arguments of the theory of keys. A geohash is ASCII in every channel the code makes, so the slices
  of \<open>parent\<close> never split a character.
\<close>

section \<open>Precision\<close>

datatype geohash_precision = Region | State | City | District | Neighborhood | Block | Building

fun precision_level :: "geohash_precision \<Rightarrow> nat" where
  "precision_level Region = 2"
| "precision_level State = 3"
| "precision_level City = 4"
| "precision_level District = 5"
| "precision_level Neighborhood = 6"
| "precision_level Block = 7"
| "precision_level Building = 8"

definition all_precisions :: "geohash_precision list" where
  "all_precisions = [Region, State, City, District, Neighborhood, Block, Building]"

fun coverage_radius_meters :: "geohash_precision \<Rightarrow> nat" where
  "coverage_radius_meters Region = 2500000"
| "coverage_radius_meters State = 630000"
| "coverage_radius_meters City = 156000"
| "coverage_radius_meters District = 39000"
| "coverage_radius_meters Neighborhood = 4900"
| "coverage_radius_meters Block = 1200"
| "coverage_radius_meters Building = 153"

section \<open>Locations\<close>

datatype geohash_error =
    InvalidLatitude "rat option"
  | InvalidLongitude "rat option"
  | InvalidGeohashLength nat nat
  | InvalidGeohashCharacter u8
  | KeyGenerationFailed

record geo_location =
  latitude :: rat
  longitude :: rat

definition geo_location_new :: "rat option \<Rightarrow> rat option \<Rightarrow> geohash_error + geo_location" where
  "geo_location_new lat lon =
     (case lat of
        None \<Rightarrow> Inl (InvalidLatitude lat)
      | Some y \<Rightarrow>
        if \<not> (- 90 \<le> y \<and> y \<le> 90) then Inl (InvalidLatitude lat)
        else (case lon of
                None \<Rightarrow> Inl (InvalidLongitude lon)
              | Some x \<Rightarrow>
                if \<not> (- 180 \<le> x \<and> x \<le> 180) then Inl (InvalidLongitude lon)
                else Inr \<lparr>latitude = y, longitude = x\<rparr>))"

type_synonym geohash_encoder = "rat \<Rightarrow> rat \<Rightarrow> nat \<Rightarrow> rust_string option"

definition to_geohash :: "geohash_encoder \<Rightarrow> geo_location \<Rightarrow> geohash_precision \<Rightarrow> rust_string" where
  "to_geohash encode loc p =
     (case encode (longitude loc) (latitude loc) (precision_level p) of
        Some g \<Rightarrow> g
      | None \<Rightarrow> replicate (precision_level p) 0x73)"

definition to_all_geohashes :: "geohash_encoder \<Rightarrow> geo_location \<Rightarrow> (geohash_precision \<times> rust_string) list" where
  "to_all_geohashes encode loc = map (\<lambda>p. (p, to_geohash encode loc p)) all_precisions"

section \<open>Channels\<close>

record geohash_channel =
  gc_geohash :: rust_string
  gc_precision :: geohash_precision

definition valid_geohash_chars :: bytes where
  "valid_geohash_chars = map of_char ''0123456789bcdefghjkmnpqrstuvwxyz''"

definition geohash_channel_new :: "rust_string \<Rightarrow> geohash_precision \<Rightarrow> geohash_error + geohash_channel" where
  "geohash_channel_new g p =
     (if length g \<noteq> precision_level p then Inl (InvalidGeohashLength (precision_level p) (length g))
      else case find (\<lambda>b. b \<notin> set valid_geohash_chars) g of
             Some b \<Rightarrow> Inl (InvalidGeohashCharacter b)
           | None \<Rightarrow> Inr \<lparr>gc_geohash = g, gc_precision = p\<rparr>)"

definition from_location :: "geohash_encoder \<Rightarrow> geo_location \<Rightarrow> geohash_precision \<Rightarrow> geohash_channel" where
  "from_location encode loc p = \<lparr>gc_geohash = to_geohash encode loc p, gc_precision = p\<rparr>"

fun parent_precision :: "geohash_precision \<Rightarrow> geohash_precision option" where
  "parent_precision Region = None"
| "parent_precision State = Some Region"
| "parent_precision City = Some State"
| "parent_precision District = Some City"
| "parent_precision Neighborhood = Some District"
| "parent_precision Block = Some Neighborhood"
| "parent_precision Building = Some Block"

definition channel_parent :: "geohash_channel \<Rightarrow> geohash_channel option" where
  "channel_parent ch =
     (if length (gc_geohash ch) \<le> 2 then None
      else case parent_precision (gc_precision ch) of
             Some p \<Rightarrow> Some \<lparr>gc_geohash = take (length (gc_geohash ch) - 1) (gc_geohash ch), gc_precision = p\<rparr>
           | None \<Rightarrow> None)"

lemma parent_precision_level: "parent_precision p = Some q \<Longrightarrow> precision_level p = Suc (precision_level q)"
  by (cases p) auto

function all_parents :: "geohash_channel \<Rightarrow> geohash_channel list" where
  "all_parents ch = (case channel_parent ch of None \<Rightarrow> [] | Some p \<Rightarrow> p # all_parents p)"
  by pat_completeness auto

termination
  by (relation "measure (\<lambda>ch. precision_level (gc_precision ch))")
    (auto simp: channel_parent_def dest: parent_precision_level split: if_splits option.splits)

declare all_parents.simps [simp del]

definition geohash_context :: bytes where
  "geohash_context = map of_char ''bitchat-geohash-channel-v1''"

text \<open>The bytes hashed to the seed of the key of a channel.\<close>

definition channel_seed_input :: "bytes \<Rightarrow> geohash_channel \<Rightarrow> bytes" where
  "channel_seed_input public_key ch =
     geohash_context @ public_key @ gc_geohash ch @ [word_of_nat (precision_level (gc_precision ch))]"

record 'sk channel_identity =
  ch_channel :: geohash_channel
  ch_peer_id :: peer_id
  ch_fingerprint :: fingerprint
  ch_signing_key :: 'sk

definition derive_channel_identity ::
    "('sk, 'vk) ed25519 \<Rightarrow> (bytes \<Rightarrow> bytes) \<Rightarrow> geohash_channel \<Rightarrow> ('sk, 'vk) identity_key_pair
     \<Rightarrow> geohash_error + 'sk channel_identity" where
  "derive_channel_identity ed sha256 ch base =
     (let keypair = sk_from_bytes ed (sha256 (channel_seed_input (public_key_bytes ed base) ch));
          fingerprint = sha256 (vk_to_bytes ed (sk_verifying_key ed keypair))
      in Inr \<lparr>ch_channel = ch, ch_peer_id = fingerprint_to_peer_id fingerprint, ch_fingerprint = fingerprint,
              ch_signing_key = keypair\<rparr>)"

definition channel_id :: "geohash_channel \<Rightarrow> rust_string" where
  "channel_id ch = map of_char ''bitchat-geo-'' @ [word_of_nat (48 + precision_level (gc_precision ch))]
     @ map of_char ''-'' @ gc_geohash ch"

section \<open>The manager\<close>

record ('sk, 'vk) location_manager =
  lm_base_identity :: "('sk, 'vk) identity_key_pair"
  lm_active_channel :: "geohash_channel option"
  lm_identities :: "(geohash_channel \<times> 'sk channel_identity) list"

definition location_manager_new :: "('sk, 'vk) identity_key_pair \<Rightarrow> ('sk, 'vk) location_manager" where
  "location_manager_new base = \<lparr>lm_base_identity = base, lm_active_channel = None, lm_identities = []\<rparr>"

text \<open>The last step looks up the entry just made sure of, with \<^verbatim>\<open>unwrap\<close>.\<close>

datatype geohash_fault = GeoErr geohash_error | GeoPanic

definition get_channel_identity ::
    "('sk, 'vk) ed25519 \<Rightarrow> (bytes \<Rightarrow> bytes) \<Rightarrow> geohash_channel \<Rightarrow> ('sk, 'vk) location_manager
     \<Rightarrow> ('sk, 'vk) location_manager \<times> (geohash_fault + 'sk channel_identity)" where
  "get_channel_identity ed sha256 ch m =
     (case (if has_key (lm_identities m) ch then Inr m
            else case derive_channel_identity ed sha256 ch (lm_base_identity m) of
                   Inl e \<Rightarrow> Inl e
                 | Inr i \<Rightarrow> Inr (m\<lparr>lm_identities := map_put ch i (lm_identities m)\<rparr>)) of
        Inl e \<Rightarrow> (m, Inl (GeoErr e))
      | Inr m1 \<Rightarrow>
        (m1, case map_of (lm_identities m1) ch of Some i \<Rightarrow> Inr i | None \<Rightarrow> Inl GeoPanic))"

definition set_channel ::
    "('sk, 'vk) ed25519 \<Rightarrow> (bytes \<Rightarrow> bytes) \<Rightarrow> geohash_channel \<Rightarrow> ('sk, 'vk) location_manager
     \<Rightarrow> ('sk, 'vk) location_manager \<times> (geohash_fault + 'sk channel_identity)" where
  "set_channel ed sha256 ch m =
     (case (if has_key (lm_identities m) ch then Inr m
            else case derive_channel_identity ed sha256 ch (lm_base_identity m) of
                   Inl e \<Rightarrow> Inl e
                 | Inr i \<Rightarrow> Inr (m\<lparr>lm_identities := map_put ch i (lm_identities m)\<rparr>)) of
        Inl e \<Rightarrow> (m, Inl (GeoErr e))
      | Inr m1 \<Rightarrow>
        (m1\<lparr>lm_active_channel := Some ch\<rparr>,
         case map_of (lm_identities m1) ch of Some i \<Rightarrow> Inr i | None \<Rightarrow> Inl GeoPanic))"

definition set_location ::
    "geohash_encoder \<Rightarrow> ('sk, 'vk) ed25519 \<Rightarrow> (bytes \<Rightarrow> bytes) \<Rightarrow> geo_location \<Rightarrow> geohash_precision
     \<Rightarrow> ('sk, 'vk) location_manager \<Rightarrow> ('sk, 'vk) location_manager \<times> (geohash_fault + 'sk channel_identity)" where
  "set_location encode ed sha256 loc p m = set_channel ed sha256 (from_location encode loc p) m"

definition active_identity :: "('sk, 'vk) location_manager \<Rightarrow> 'sk channel_identity option" where
  "active_identity m =
     (case lm_active_channel m of Some ch \<Rightarrow> map_of (lm_identities m) ch | None \<Rightarrow> None)"

definition location_channels :: "geohash_encoder \<Rightarrow> geo_location \<Rightarrow> geohash_channel list" where
  "location_channels encode loc =
     map (\<lambda>(p, g). \<lparr>gc_geohash = g, gc_precision = p\<rparr>) (to_all_geohashes encode loc)"

definition clear_location :: "('sk, 'vk) location_manager \<Rightarrow> ('sk, 'vk) location_manager" where
  "clear_location m = m\<lparr>lm_active_channel := None\<rparr>"

section \<open>Lemmas\<close>

definition channel_ok :: "geohash_channel \<Rightarrow> bool" where
  "channel_ok ch \<longleftrightarrow> length (gc_geohash ch) = precision_level (gc_precision ch) \<and>
     set (gc_geohash ch) \<subseteq> set valid_geohash_chars"

lemma geohash_channel_new_ok: "geohash_channel_new g p = Inr ch \<longleftrightarrow> ch = \<lparr>gc_geohash = g, gc_precision = p\<rparr> \<and> channel_ok ch"
proof (cases "find (\<lambda>b. b \<notin> set valid_geohash_chars) g")
  case None
  then have "set g \<subseteq> set valid_geohash_chars" by (auto simp: find_None_iff)
  with None show ?thesis by (auto simp: geohash_channel_new_def channel_ok_def)
next
  case (Some b)
  then have "b \<in> set g \<and> b \<notin> set valid_geohash_chars" by (auto simp: find_Some_iff)
  with Some show ?thesis by (auto simp: geohash_channel_new_def channel_ok_def)
qed

lemma precision_level_bounds: "2 \<le> precision_level p" "precision_level p \<le> 8"
  by (cases p; simp)+

definition truncated :: "rust_string \<Rightarrow> geohash_precision \<Rightarrow> geohash_channel" where
  "truncated g p = \<lparr>gc_geohash = take (precision_level p) g, gc_precision = p\<rparr>"

lemma channel_parent_truncated:
  assumes "precision_level p \<le> length g"
  shows "channel_parent (truncated g p) = map_option (truncated g) (parent_precision p)"
  using assms by (cases p) (simp_all add: channel_parent_def truncated_def)

lemma all_parents_truncated:
  assumes "8 \<le> length g"
  shows "all_parents (truncated g p) =
    rev (map (truncated g) (filter (\<lambda>q. precision_level q < precision_level p) all_precisions))"
proof -
  have step: "all_parents (truncated g p) =
      (case parent_precision p of None \<Rightarrow> [] | Some q \<Rightarrow> truncated g q # all_parents (truncated g q))" for p
    using channel_parent_truncated [of p g] precision_level_bounds(2) [of p] assms
    by (subst all_parents.simps) (auto split: option.split)
  show ?thesis by (cases p) (simp_all add: step all_precisions_def)
qed

lemma channel_ok_truncated: "channel_ok ch \<Longrightarrow> ch = truncated (gc_geohash ch @ replicate 8 0x73) (gc_precision ch)"
  by (simp add: truncated_def channel_ok_def)

section \<open>Properties\<close>

text \<open>The channels above a valid channel are exactly its truncations to every coarser precision, finest
  first, and each of them is a valid channel.\<close>

theorem all_parents_correct:
  assumes "geohash_channel_new g p = Inr ch"
  shows "all_parents ch =
      rev (map (\<lambda>q. \<lparr>gc_geohash = take (precision_level q) g, gc_precision = q\<rparr>)
        (filter (\<lambda>q. precision_level q < precision_level p) all_precisions)) \<and>
    list_all (\<lambda>c. geohash_channel_new (gc_geohash c) (gc_precision c) = Inr c) (all_parents ch)"
proof -
  from assms have ch: "ch = \<lparr>gc_geohash = g, gc_precision = p\<rparr>" "channel_ok ch"
    by (auto simp: geohash_channel_new_ok)
  let ?g = "g @ replicate 8 0x73"
  have len: "length g = precision_level p" using ch by (simp add: channel_ok_def)
  have t: "ch = truncated ?g p" using channel_ok_truncated [OF ch(2)] ch(1) by simp
  have "truncated ?g q = \<lparr>gc_geohash = take (precision_level q) g, gc_precision = q\<rparr>"
    if "precision_level q < precision_level p" for q
    using that len by (simp add: truncated_def)
  then have map_eq: "map (truncated ?g) (filter (\<lambda>q. precision_level q < precision_level p) all_precisions) =
      map (\<lambda>q. \<lparr>gc_geohash = take (precision_level q) g, gc_precision = q\<rparr>)
        (filter (\<lambda>q. precision_level q < precision_level p) all_precisions)"
    by simp
  have eq: "all_parents ch = rev (map (\<lambda>q. \<lparr>gc_geohash = take (precision_level q) g, gc_precision = q\<rparr>)
      (filter (\<lambda>q. precision_level q < precision_level p) all_precisions))"
    unfolding t using all_parents_truncated [of ?g p] map_eq by simp
  moreover have "geohash_channel_new (gc_geohash c) (gc_precision c) = Inr c" if "c \<in> set (all_parents ch)" for c
    using that ch len unfolding eq
    by (auto simp: geohash_channel_new_ok channel_ok_def dest!: in_set_takeD)
  ultimately show ?thesis by (simp add: list_all_iff)
qed

theorem all_parents_correct_witness:
  "all_parents \<lparr>gc_geohash = map of_char ''9q8y'', gc_precision = City\<rparr> =
     [\<lparr>gc_geohash = map of_char ''9q8'', gc_precision = State\<rparr>, \<lparr>gc_geohash = map of_char ''9q'', gc_precision = Region\<rparr>]"
  using all_parents_correct [of "map of_char ''9q8y''" City]
  by (simp add: geohash_channel_new_def valid_geohash_chars_def all_precisions_def)

text \<open>The documented behaviour of the encoder: a longer geohash of a place extends a shorter one.\<close>

definition encoder_extends :: "geohash_encoder \<Rightarrow> geo_location \<Rightarrow> bool" where
  "encoder_extends encode loc \<longleftrightarrow> (\<exists>full. length full = 8 \<and>
     (\<forall>n. 2 \<le> n \<longrightarrow> n \<le> 8 \<longrightarrow> encode (longitude loc) (latitude loc) n = Some (take n full)))"

text \<open>The channels a location listens to are its most precise channel and all channels above it: a message
  to any of them reaches the peers in that area.\<close>

theorem location_channels_are_parents:
  assumes "encoder_extends encode loc"
  shows "location_channels encode loc =
    rev (from_location encode loc Building # all_parents (from_location encode loc Building))"
proof -
  from assms obtain full where full: "length full = 8"
    "\<And>n. 2 \<le> n \<Longrightarrow> n \<le> 8 \<Longrightarrow> encode (longitude loc) (latitude loc) n = Some (take n full)"
    by (auto simp: encoder_extends_def)
  then have g: "to_geohash encode loc p = take (precision_level p) full" for p
    using precision_level_bounds [of p] by (simp add: to_geohash_def)
  then have b: "from_location encode loc Building = truncated full Building"
    by (simp add: from_location_def truncated_def full(1))
  show ?thesis
    unfolding b using all_parents_truncated [of full Building] full(1)
    by (simp add: location_channels_def to_all_geohashes_def all_precisions_def g truncated_def)
qed

theorem location_channels_are_parents_witness:
  "location_channels (\<lambda>x y n. Some (take n [57, 113, 56, 121, 121, 107, 56, 121])) \<lparr>latitude = 37, longitude = - 122\<rparr> =
     rev (from_location (\<lambda>x y n. Some (take n [57, 113, 56, 121, 121, 107, 56, 121])) \<lparr>latitude = 37, longitude = - 122\<rparr> Building #
       all_parents (from_location (\<lambda>x y n. Some (take n [57, 113, 56, 121, 121, 107, 56, 121])) \<lparr>latitude = 37, longitude = - 122\<rparr> Building))"
  by (rule location_channels_are_parents)
    (auto simp: encoder_extends_def intro!: exI [of _ "[57, 113, 56, 121, 121, 107, 56, 121]"])

text \<open>The operations of the manager.\<close>

datatype location_op = SetChannel geohash_channel | GetIdentity geohash_channel | ClearLocation

fun location_step ::
    "('sk, 'vk) ed25519 \<Rightarrow> (bytes \<Rightarrow> bytes) \<Rightarrow> location_op \<Rightarrow> ('sk, 'vk) location_manager \<Rightarrow> ('sk, 'vk) location_manager" where
  "location_step ed sha256 (SetChannel ch) m = fst (set_channel ed sha256 ch m)"
| "location_step ed sha256 (GetIdentity ch) m = fst (get_channel_identity ed sha256 ch m)"
| "location_step ed sha256 ClearLocation m = clear_location m"

definition identities_ok :: "('sk, 'vk) ed25519 \<Rightarrow> (bytes \<Rightarrow> bytes) \<Rightarrow> ('sk, 'vk) identity_key_pair \<Rightarrow> ('sk, 'vk) location_manager \<Rightarrow> bool" where
  "identities_ok ed sha256 base m \<longleftrightarrow> lm_base_identity m = base \<and>
     (\<forall>ch i. map_of (lm_identities m) ch = Some i \<longrightarrow> derive_channel_identity ed sha256 ch base = Inr i) \<and>
     (\<forall>ch. lm_active_channel m = Some ch \<longrightarrow> has_key (lm_identities m) ch)"

lemma derive_ok: "\<exists>i. derive_channel_identity ed sha256 ch base = Inr i"
  by (simp add: derive_channel_identity_def Let_def)

lemma identities_ok_step: "identities_ok ed sha256 base m \<Longrightarrow> identities_ok ed sha256 base (location_step ed sha256 op m)"
  using derive_ok [of ed sha256 _ base]
  by (cases op)
    (auto simp: identities_ok_def set_channel_def get_channel_identity_def clear_location_def has_key_def
      split: sum.splits option.splits if_splits)

lemma identities_ok_run:
  "identities_ok ed sha256 base m \<Longrightarrow> identities_ok ed sha256 base (fold (location_step ed sha256) ops m)"
  by (induction ops arbitrary: m) (simp_all add: identities_ok_step)

text \<open>C29: The location manager never panics and never confuses channels: after any operations, setting or
  asking for a channel answers with the identity derived for exactly that channel, and the active
  identity is the one of the active channel.\<close>

theorem location_identities_correct:
  "let m = fold (location_step ed sha256) ops (location_manager_new base);
       i = derive_channel_identity ed sha256 ch base
   in Inr (the (active_identity (fst (set_channel ed sha256 ch m)))) = i \<and>
      snd (set_channel ed sha256 ch m) = map_sum GeoErr id i \<and>
      snd (get_channel_identity ed sha256 ch m) = map_sum GeoErr id i \<and>
      active_identity (fst (get_channel_identity ed sha256 ch m)) = active_identity m"
proof -
  let ?m = "fold (location_step ed sha256) ops (location_manager_new base)"
  have "identities_ok ed sha256 base ?m"
    by (rule identities_ok_run) (simp add: identities_ok_def location_manager_new_def)
  moreover obtain i where "derive_channel_identity ed sha256 ch base = Inr i" using derive_ok by blast
  ultimately show ?thesis
    by (auto simp: identities_ok_def set_channel_def get_channel_identity_def active_identity_def has_key_def
        Let_def split: option.split)
qed

text \<open>The key of a location channel is not secret: it is computed from the public key of the user and the name
  of the channel alone, so that everyone who knows the public key has the signing key and links the
  channel identities of the user.\<close>

theorem channel_key_is_public:
  assumes "public_key_bytes ed base = public_key_bytes ed other"
  shows "derive_channel_identity ed sha256 ch base = derive_channel_identity ed sha256 ch other"
  using assms by (simp add: derive_channel_identity_def)

theorem channel_key_is_public_witness:
  "derive_channel_identity toy_ed25519 toy_sha256 \<lparr>gc_geohash = [57, 113], gc_precision = Region\<rparr>
     \<lparr>signing_key = 5, verifying_key = 7\<rparr> =
   derive_channel_identity toy_ed25519 toy_sha256 \<lparr>gc_geohash = [57, 113], gc_precision = Region\<rparr>
     \<lparr>signing_key = 6, verifying_key = 7\<rparr>"
  by (rule channel_key_is_public) (simp add: public_key_bytes_def)

text \<open>Different channels are never hashed to the same input: for public keys of one length, the bytes hashed
  for two channels are equal only when the keys and the channels are.\<close>

theorem channel_seed_injective:
  assumes "length pk = length pk'"
  shows "channel_seed_input pk ch = channel_seed_input pk' ch' \<longleftrightarrow> pk = pk' \<and> ch = ch'"
proof
  assume "channel_seed_input pk ch = channel_seed_input pk' ch'"
  then have e: "pk = pk'" "gc_geohash ch = gc_geohash ch'"
    "(word_of_nat (precision_level (gc_precision ch)) :: u8) = word_of_nat (precision_level (gc_precision ch'))"
    using assms by (auto simp: channel_seed_input_def)
  from e(3) have "gc_precision ch = gc_precision ch'"
    by (cases "gc_precision ch"; cases "gc_precision ch'") simp_all
  with e(1,2) show "pk = pk' \<and> ch = ch'" by simp
qed simp

theorem channel_seed_injective_witness:
  "channel_seed_input [1] \<lparr>gc_geohash = [57, 113], gc_precision = Region\<rparr> \<noteq>
   channel_seed_input [1] \<lparr>gc_geohash = [57, 113, 56], gc_precision = State\<rparr>"
  by (subst channel_seed_injective) simp_all

end
