(* ===== verification/Ble_Mesh.thy ===== *)
theory Ble_Mesh
  imports Ble_Transport "HOL-Library.Multiset_Order"
begin

text \<open>
  The mesh that Bluetooth transports form (\<^verbatim>\<open>handle_incoming_packet\<close> and \<^verbatim>\<open>forward_packet\<close> of
  \<^verbatim>\<open>src/crates/bitchat-ble/src/transport.rs\<close>, the writes of \<^verbatim>\<open>src/crates/bitchat-ble/src/connection.rs\<close>).

  Devices are addressed by the identifier their neighbours store them under, and that address is also
  their peripheral. The state of the mesh is the task of every running device, the multiset of the
  chunks in flight (sender, receiver, bytes) and the events reported to the cores. A step hands one
  chunk to the task of its receiver, whose writes become chunks in flight, or loses a chunk. The
  surroundings of a task (radio, clocks, event channel) may differ in every step; a device whose task
  panics is gone.

  The tasks are the code's; the link is not. That a chunk written to the TX characteristic of a peer reaches
  that peer's task is an assumption about the software at the other end: the code's own GATT server logs
  what is written to it and drops it (\<^verbatim>\<open>src/crates/bitchat-ble/src/advertising/linux.rs\<close>, lines 84 to 92), and its
  task reads only what arrives as notifications of the RX characteristic. So the mesh is what a network
  of such tasks could at most do, with all peripherals handing over what they get, and what is shown of
  it is a bound: flooding ends even then. Nothing is claimed about packets being delivered.
\<close>

section \<open>The mesh\<close>

fun ble_writes :: "'p ble_output list \<Rightarrow> ('p \<times> bytes) list" where
  "ble_writes [] = []"
| "ble_writes (BleWrite p c # out) = (p, c) # ble_writes out"
| "ble_writes (BleEvent e # out) = ble_writes out"
| "ble_writes (BleRadio c # out) = ble_writes out"

fun ble_events :: "'p ble_output list \<Rightarrow> transport_event list" where
  "ble_events [] = []"
| "ble_events (BleWrite p c # out) = ble_events out"
| "ble_events (BleEvent e # out) = e # ble_events out"
| "ble_events (BleRadio c # out) = ble_events out"

type_synonym chunk_in_flight = "peer_id \<times> peer_id \<times> bytes"

record ('sk, 'vk) mesh =
  ms_nodes :: "peer_id \<Rightarrow> (peer_id, 'sk, 'vk) ble_task option"
  ms_flight :: "chunk_in_flight multiset"
  ms_log :: "(peer_id \<times> transport_event) list"

text \<open>A chunk in flight is handed to the task it was written to, as the peripherals are assumed to do.\<close>

definition mesh_deliver ::
    "(peer_id, 'sk, 'vk) ble_env \<Rightarrow> chunk_in_flight \<Rightarrow> ('sk, 'vk) mesh \<Rightarrow> ('sk, 'vk) mesh" where
  "mesh_deliver env = (\<lambda>(from_peer, to, bs) m.
     (case ms_nodes m to of
        None \<Rightarrow> m\<lparr>ms_flight := ms_flight m - {#(from_peer, to, bs)#}\<rparr>
      | Some t \<Rightarrow>
          let (t', out, r) = handle_incoming_packet env from_peer bs t
          in \<lparr>ms_nodes = (ms_nodes m)(to := if r = Inl Panic then None else Some t'),
              ms_flight = ms_flight m - {#(from_peer, to, bs)#}
                + mset (map (\<lambda>(q, c). (to, q, c)) (ble_writes out)),
              ms_log = ms_log m @ map (Pair to) (ble_events out)\<rparr>))"

inductive mesh_step :: "('sk, 'vk) mesh \<Rightarrow> ('sk, 'vk) mesh \<Rightarrow> bool" where
  deliver: "c \<in># ms_flight m \<Longrightarrow> mesh_step m (mesh_deliver env c m)"
| lose: "c \<in># ms_flight m \<Longrightarrow> mesh_step m (m\<lparr>ms_flight := ms_flight m - {#c#}\<rparr>)"

section \<open>Lemmas\<close>

subsection \<open>What the task writes\<close>

lemma ble_writes_append [simp]: "ble_writes (xs @ ys) = ble_writes xs @ ble_writes ys"
  by (induction xs rule: ble_writes.induct) simp_all

lemma ble_events_append [simp]: "ble_events (xs @ ys) = ble_events xs @ ble_events ys"
  by (induction xs rule: ble_events.induct) simp_all

lemma ble_writes_map [simp]: "ble_writes (map (\<lambda>(q, c). BleWrite q c) ws) = ws"
  "ble_events (map (\<lambda>(q, c). BleWrite q c) ws) = []"
  by (induction ws) auto

lemma chunks_of_simps [simp]:
  "chunks_of n [] = []"
  "xs \<noteq> [] \<Longrightarrow> 0 < n \<Longrightarrow> length xs \<le> n \<Longrightarrow> chunks_of n xs = [xs]"
  by (simp_all add: chunks_of.simps)

lemma write_chunks_prefix: "fst (write_chunks write q i cs) = take (length (fst (write_chunks write q i cs))) cs"
  by (induction cs arbitrary: i) (auto simp: split_beta Let_def split: option.split)


lemma set_write_chunks: "set (fst (write_chunks write q i cs)) \<subseteq> set cs"
  by (metis set_take_subset write_chunks_prefix)

lemma set_send_to_peer:
  "(q, c) \<in> set (fst (send_to_peer show_id rd pid bs peers)) \<Longrightarrow> c \<in> set (chunks_of BLE_MTU bs)"
  by (auto simp: send_to_peer_def split_beta Let_def dest!: subsetD [OF set_write_chunks]
      split: option.splits if_splits)

lemma set_chunks_of: "0 < n \<Longrightarrow> c \<in> set (chunks_of n xs) \<Longrightarrow> length c \<le> n"
  by (induction n xs rule: chunks_of.induct) (subst (asm) (2) chunks_of.simps, auto split: if_splits)

lemma ble_writes_send:
  assumes "(q, c) \<in> set (ble_writes (fst (ble_send_bitchat_packet_to_peer env t pid p)))"
  shows "\<exists>es. wire_encode p = Inr es \<and> c \<in> set (chunks_of BLE_MTU es)"
  using assms
  by (auto simp: ble_send_bitchat_packet_to_peer_def ble_send_packet_to_peer_def ble_encode_def
      dest!: set_send_to_peer split: sum.splits fault.splits option.splits if_splits)

lemma ble_writes_send_all:
  "(q, c) \<in> set (ble_writes (fst (ble_send_all send pids))) \<Longrightarrow>
     \<exists>pid \<in> set pids. (q, c) \<in> set (ble_writes (fst (send pid)))"
  by (induction pids) (auto simp: split_beta Let_def split: prod.splits sum.splits fault.splits)

lemma ble_writes_announce [simp]: "ble_writes (fst (snd (handle_announce_packet env pid p t))) = []"
  by (simp add: handle_announce_packet_def Let_def split: sum.split option.split)

lemma ble_writes_event [simp]: "ble_writes (fst (send_event env t e)) = []"
  by (simp add: send_event_def)

text \<open>Every chunk a task writes for a received packet is part of that packet with a smaller TTL.\<close>

lemma handle_incoming_writes:
  assumes "(q, c) \<in> set (ble_writes (fst (snd (handle_incoming_packet env from_peer bs t))))"
  shows "\<exists>p new_ttl es. wire_decode bs = Inr p \<and> ttl_decrement (h_ttl (header p)) = Some new_ttl \<and>
    wire_encode (forwarded_packet new_ttl p) = Inr es \<and> c \<in> set (chunks_of BLE_MTU es)"
proof -
  obtain p where p: "wire_decode bs = Inr p"
    and w: "(q, c) \<in> set (ble_writes (fst (forward_packet env t p from_peer)))"
    using assms
    by (auto simp: handle_incoming_packet_def Let_def split_beta split: sum.splits fault.splits if_splits)
  then obtain new_ttl where "ttl_decrement (h_ttl (header p)) = Some new_ttl"
    by (auto simp: forward_packet_def split: option.splits)
  with p w show ?thesis
    by (auto simp: forward_packet_def dest!: ble_writes_send_all ble_writes_send)
qed

subsection \<open>The time to live of a chunk\<close>

lemma header_from_bytes_ttl:
  "header_from_bytes bs = Inr h \<Longrightarrow> h_ttl h = bs ! 2 \<and> 13 \<le> length bs"
  by (auto simp: header_from_bytes_def rbind_eq_Inr index_at_def Let_def HEADER_SIZE_V1_def
        HEADER_SIZE_V2_def split: if_splits)

lemma header_from_bytes_versions:
  "header_from_bytes bs = Inr h \<Longrightarrow> version h = PROTOCOL_VERSION_1 \<or> version h = PROTOCOL_VERSION_2"
  by (auto simp: header_from_bytes_def rbind_eq_Inr Let_def split: if_splits)

lemma wire_decode_header:
  "wire_decode bs = Inr p \<Longrightarrow> header_from_bytes bs = Inr (header p)"
  by (auto simp: wire_decode_def decode_body_def rbind_eq_Inr split: if_splits)

lemma wire_decode_ttl: "wire_decode bs = Inr p \<Longrightarrow> h_ttl (header p) = bs ! 2 \<and> 13 \<le> length bs"
  by (rule header_from_bytes_ttl [OF wire_decode_header])

lemma header_to_bytes_ttl: "header_to_bytes h = Inr hb \<Longrightarrow> hb ! 2 = h_ttl h \<and> 13 \<le> length hb"
  by (auto simp: header_to_bytes_def rbind_eq_Inr Let_def split: if_splits)

lemma wire_encode_ttl: "wire_encode p = Inr es \<Longrightarrow> es ! 2 = h_ttl (header p) \<and> 13 \<le> length es"
  by (erule wire_encode_InrD) (auto simp: nth_append dest!: header_to_bytes_ttl)

text \<open>What a decoded packet says about the length of its input.\<close>

lemma parse_array_length: "parse_array e n bs offset = Inr (x, offset') \<Longrightarrow> length x = n \<and> offset' = offset + n"
  by (auto simp: parse_array_def slice_def split: if_splits)

lemma parse_recipient_length:
  "parse_recipient fl bs offset = Inr (r, offset') \<Longrightarrow>
     offset' = offset + (if has_recipient fl then length (the r) else 0) \<and> has_recipient fl = (r \<noteq> None)"
  by (auto simp: parse_recipient_def rbind_eq_Inr dest!: parse_array_length split: if_splits)

lemma parse_route_length:
  "parse_route fl bs offset = Inr (r, offset') \<Longrightarrow>
     offset' = offset + (if has_route fl then 2 + length (the r) else 0) \<and> has_route fl = (r \<noteq> None)"
  by (auto simp: parse_route_def rbind_eq_Inr dest!: parse_array_length split: if_splits)

lemma parse_signature_length:
  "parse_signature fl bs offset = Inr (r, offset') \<Longrightarrow>
     offset' = offset + (if has_signature fl then length (the r) else 0) \<and> has_signature fl = (r \<noteq> None)"
  by (auto simp: parse_signature_def rbind_eq_Inr dest!: parse_array_length split: if_splits)

definition optional_size :: "bitchat_packet \<Rightarrow> nat" where
  "optional_size p =
     (if has_recipient (h_flags (header p)) then length (the (recipient_id p)) else 0) +
     (if has_route (h_flags (header p)) then 2 + length (the (route p)) else 0) +
     (if has_signature (h_flags (header p)) then length (the (signature p)) else 0)"

lemma wire_decode_length:
  assumes "wire_decode bs = Inr p"
  shows "length bs = header_size (header p) + length (sender_id p) + optional_size p + length (payload p)"
proof -
  from assms obtain h off where "decode_body h bs (header_size h) = Inr (p, off)" and "off = length bs"
    by (auto simp: wire_decode_def rbind_eq_Inr split: if_splits)
  then show ?thesis
    by (auto simp: decode_body_def rbind_eq_Inr optional_size_def dest!: parse_array_length
        parse_recipient_length parse_route_length parse_signature_length)
qed

lemma wire_encode_length:
  assumes "wire_encode p = Inr es"
  shows "length es = (if version (header p) = PROTOCOL_VERSION_1 then 13 else 16) +
    length (sender_id p) + optional_size p + length (payload p)"
  using assms
  by (elim wire_encode_InrD)
    (auto simp: optional_size_def encode_recipient_def encode_route_def encode_signature_def
      dest!: header_to_bytes_InrD split: if_splits option.splits)

lemma forwarded_length:
  assumes "wire_decode bs = Inr p" and "wire_encode (forwarded_packet t p) = Inr es"
  shows "length es \<le> length bs + 1"
proof -
  have "version (header p) = PROTOCOL_VERSION_1 \<or> version (header p) = PROTOCOL_VERSION_2"
    by (rule header_from_bytes_versions [OF wire_decode_header [OF assms(1)]])
  then show ?thesis
    using wire_decode_length [OF assms(1)] wire_encode_length [OF assms(2)]
    by (auto simp: header_size_def packet_consts optional_size_def forwarded_packet_def split: if_splits)
qed

lemma chunks_of_244:
  assumes "c \<in> set (chunks_of BLE_MTU es)" and "length es \<le> 245"
  shows "(\<exists>n\<ge>13. c = take n es) \<or> length c \<le> 1"
proof (cases "length es \<le> 244")
  case True
  then show ?thesis
    using assms(1) by (cases "es = []") (auto simp: BLE_MTU_def intro!: exI [of _ "length es + 13"])
next
  case False
  then have "chunks_of BLE_MTU es = [take 244 es, drop 244 es]"
    using assms(2) by (subst chunks_of.simps) (auto simp: BLE_MTU_def)
  with assms show ?thesis by (auto intro!: exI [of _ 244])
qed

definition chunk_measure :: "chunk_in_flight \<Rightarrow> nat" where
  "chunk_measure = (\<lambda>(_, _, bs). case wire_decode bs of Inl _ \<Rightarrow> 0 | Inr p \<Rightarrow> unat (h_ttl (header p)))"

definition links_ok :: "('sk, 'vk) mesh \<Rightarrow> bool" where
  "links_ok m = (\<forall>c \<in># ms_flight m. length (snd (snd c)) \<le> BLE_MTU)"

lemma handle_incoming_decreases:
  assumes "(q, c) \<in> set (ble_writes (fst (snd (handle_incoming_packet env from_peer bs t))))"
    and "length bs \<le> BLE_MTU"
  shows "chunk_measure (to, q, c) < chunk_measure (from_peer, to, bs) \<and> length c \<le> BLE_MTU"
proof -
  from handle_incoming_writes [OF assms(1)] obtain p new_ttl es where p: "wire_decode bs = Inr p"
    and ttl: "ttl_decrement (h_ttl (header p)) = Some new_ttl"
    and es: "wire_encode (forwarded_packet new_ttl p) = Inr es" and c: "c \<in> set (chunks_of BLE_MTU es)"
    by blast
  have ttl_es: "es ! 2 = new_ttl" "13 \<le> length es"
    using wire_encode_ttl [OF es] by (simp_all add: forwarded_packet_def)
  have less: "unat new_ttl < unat (h_ttl (header p))" using unat_ttl_decrement [OF ttl] by simp
  have "length es \<le> 245" using forwarded_length [OF p es] assms(2) by (simp add: BLE_MTU_def)
  from chunks_of_244 [OF c this] have "unat (h_ttl (header r)) = unat new_ttl" if "wire_decode c = Inr r" for r
    using wire_decode_ttl [OF that] ttl_es by auto
  with less p have "chunk_measure (to, q, c) < chunk_measure (from_peer, to, bs)"
    by (auto simp: chunk_measure_def split: sum.split)
  then show ?thesis using set_chunks_of [OF _ c] by (simp add: BLE_MTU_def)
qed

lemma multiset_replace_less:
  fixes f :: "'a \<Rightarrow> 'b::linorder"
  assumes "x \<in># M" and "\<And>y. y \<in># N \<Longrightarrow> f y < f x"
  shows "image_mset f (M - {#x#} + N) < image_mset f M"
proof -
  obtain M' where M: "M = add_mset x M'" using assms(1) by (metis insert_DiffM)
  have "image_mset f N < {#f x#}" using assms(2) by auto
  then have "image_mset f M' + image_mset f N < image_mset f M' + {#f x#}" by (rule add_strict_left_mono)
  then show ?thesis by (simp add: M)
qed

lemma mesh_deliver_flight:
  assumes "c \<in># ms_flight m" and "links_ok m"
  shows "\<exists>N. ms_flight (mesh_deliver env c m) = ms_flight m - {#c#} + N \<and>
    (\<forall>d \<in># N. chunk_measure d < chunk_measure c \<and> length (snd (snd d)) \<le> BLE_MTU)"
proof -
  obtain from_peer to bs where c: "c = (from_peer, to, bs)" by (metis prod_cases3)
  show ?thesis
  proof (cases "ms_nodes m to")
    case None
    then show ?thesis by (intro exI [of _ "{#}"]) (simp add: mesh_deliver_def c)
  next
    case (Some t)
    have "length bs \<le> BLE_MTU" using assms by (auto simp: links_ok_def c)
    then show ?thesis
      using handle_incoming_decreases [of _ _ env from_peer bs t to]
      by (intro exI [of _ "mset (map (\<lambda>(q, d). (to, q, d))
            (ble_writes (fst (snd (handle_incoming_packet env from_peer bs t)))))"])
        (auto simp: mesh_deliver_def c Some split_beta Let_def)
  qed
qed

lemma mesh_step_decreases:
  assumes "mesh_step m m'" and "links_ok m"
  shows "links_ok m' \<and> image_mset chunk_measure (ms_flight m') < image_mset chunk_measure (ms_flight m)"
  using assms(1)
proof cases
  case (deliver c env)
  from mesh_deliver_flight [OF deliver(2) assms(2)] obtain N where
    N: "ms_flight m' = ms_flight m - {#c#} + N"
      "\<And>d. d \<in># N \<Longrightarrow> chunk_measure d < chunk_measure c \<and> length (snd (snd d)) \<le> BLE_MTU"
    unfolding deliver(1) by blast
  have "links_ok m'" using assms(2) N by (auto simp: links_ok_def dest: in_diffD)
  then show ?thesis using multiset_replace_less [OF deliver(2), of N chunk_measure] N by auto
next
  case (lose c)
  then have "links_ok m'" using assms(2) by (auto simp: links_ok_def dest: in_diffD)
  then show ?thesis using multiset_replace_less [OF lose(2), of "{#}" chunk_measure] lose by auto
qed

subsection \<open>Forwarding\<close>

definition radio_works :: "('p, 'sk, 'vk) ble_env \<Rightarrow> bool" where
  "radio_works env \<longleftrightarrow>
     (\<forall>q. TX_CHARACTERISTIC \<in> set (rd_characteristics (be_radio env) q)) \<and>
     (\<forall>q i c. rd_write (be_radio env) q i c = None)"




lemma header_validate_ttl [simp]: "header_validate (h\<lparr>h_ttl := t\<rparr>) = header_validate h"
  by (simp add: header_validate_def max_payload_size_def)


lemma encode_parts_with_ttl [simp]:
  "encode_recipient (with_ttl t p) = encode_recipient p" "encode_route (with_ttl t p) = encode_route p"
  "encode_signature (with_ttl t p) = encode_signature p"
  by (simp_all add: encode_recipient_def encode_route_def encode_signature_def with_ttl_def)









lemma with_ttl_simps [simp]:
  "with_ttl a (with_ttl b p) = with_ttl a p" "with_ttl (h_ttl (header p)) p = p"
  "h_ttl (header (with_ttl a p)) = a" "version (header (with_ttl a p)) = version (header p)"
  "message_type (header (with_ttl a p)) = message_type (header p)" "sender_id (with_ttl a p) = sender_id p"
  "recipient_id (with_ttl a p) = recipient_id p" "signature (with_ttl a p) = signature p"
  by (simp_all add: with_ttl_def)


lemma chunks_of_longer: "BLE_MTU < length es \<Longrightarrow> c \<in> set (chunks_of BLE_MTU es) \<Longrightarrow> c \<noteq> es"
  using set_chunks_of [of BLE_MTU c es] by (auto simp: BLE_MTU_def)

subsection \<open>An example mesh\<close>

text \<open>Three devices in a line; a private packet from the first to the third is on its way to the second.\<close>

definition dev :: "u8 \<Rightarrow> peer_id" where
  "dev n = replicate 8 n"

definition example_private :: bitchat_packet where
  "example_private = with_recipient (dev 3) example_packet"

definition example_private_bytes :: bytes where
  "example_private_bytes =
     [1, 2, 7] @ u64_to_be 1234567890000 @ [1, 2] @ [1, 2, 3, 4, 5, 6, 7, 8] @ dev 3 @ [72, 105]"

definition example_task :: "u8 \<Rightarrow> u8 list \<Rightarrow> (peer_id, u8, u8) ble_task" where
  "example_task n ks = (ble_task_new TargetLinux example_key)\<lparr>bt_attached := True, bt_local_peer_id := dev n,
     bt_peers := map (\<lambda>k. (dev k, mark_connected (ble_peer_new (dev k) (dev k) []))) ks\<rparr>"

definition example_radio :: "peer_id radio" where
  "example_radio = \<lparr>rd_connect = (\<lambda>_. ConnectOk), rd_discover_services = (\<lambda>_. None),
     rd_characteristics = (\<lambda>_. [TX_CHARACTERISTIC, RX_CHARACTERISTIC]), rd_subscribe = (\<lambda>_. None),
     rd_notifications = (\<lambda>_. None), rd_write = (\<lambda>_ _ _. None)\<rparr>"

definition example_platform :: advertiser_platform where
  "example_platform = \<lparr>ap_session = None, ap_adapter = None, ap_powered = True, ap_power_on = None, ap_serve = None,
     ap_advertise = None, ap_class = (\<lambda>_. True), ap_object = (\<lambda>_. True), ap_codec = toy_announcement_codec,
     ap_hex_encode = id, ap_unix_secs = 100\<rparr>"

definition example_env :: "(peer_id, u8, u8) ble_env" where
  "example_env = \<lparr>be_show = (\<lambda>_. []), be_display = (\<lambda>_. []), be_radio = example_radio, be_advertiser = example_platform,
     be_scan = None, be_events_open = True, be_sha256 = toy_sha256, be_ed25519 = toy_ed25519, be_now = 0,
     be_instant = 0\<rparr>"

definition example_mesh :: "(u8, u8) mesh" where
  "example_mesh = \<lparr>ms_nodes = map_of [(dev 2, example_task 2 [1, 3]), (dev 3, example_task 3 [2])],
     ms_flight = {#(dev 1, dev 2, example_private_bytes)#}, ms_log = []\<rparr>"

lemma dev_inject [simp]: "dev a = dev b \<longleftrightarrow> a = b"
  by (simp add: dev_def)


lemma example_private_simps [simp]:
  "packet_wf example_private" "version (header example_private) = PROTOCOL_VERSION_1"
  "message_type (header example_private) = Message" "h_ttl (header example_private) = 7"
  "recipient_id example_private = Some (dev 3)" "sender_id example_private = [1, 2, 3, 4, 5, 6, 7, 8]"
  by (simp_all add: example_private_def example_packet_def packet_new_simple_def packet_wf_def header_new_def
      with_recipient_def CURRENT_PROTOCOL_VERSION_def TTL_DEFAULT_def dev_def)


lemma example_private_length [simp]: "length example_private_bytes = 31"
  by (simp add: example_private_bytes_def dev_def)

lemma example_env_works [simp]: "radio_works example_env" "be_events_open example_env"
  by (simp_all add: radio_works_def example_env_def example_radio_def)

lemma example_task_simps [simp]:
  "bt_local_peer_id (example_task n ks) = dev n" "bt_attached (example_task n ks)"
  "distinct (keys_of (bt_peers (example_task n ks))) = distinct ks"
  "bc_max_packet_size (bt_config (example_task n ks)) = 500"
  "map_of (bt_peers (example_task n ks)) (dev k) =
     (if k \<in> set ks then Some (mark_connected (ble_peer_new (dev k) (dev k) [])) else None)"
  by (simp_all add: example_task_def ble_task_new_def ble_config_default_def comp_def distinct_map inj_on_def)
    (induction ks; simp)

lemma dev_not_broadcast [simp]: "dev 3 \<noteq> BROADCAST"
  by (simp add: dev_def BROADCAST_def)


section \<open>Properties\<close>

text \<open>C34: Flooding ends: from any state of the mesh whose chunks fit the link, in any topology, with any loss
  and any order of delivery and although no task remembers what it forwarded, there is no infinite
  sequence of steps. The time-to-live values in flight decrease in the multiset order, also where a
  forwarded packet grows over the size of a chunk and is split.\<close>

theorem flooding_terminates:
  assumes "links_ok (f 0)"
  shows "\<exists>i. \<not> mesh_step (f i) (f (Suc i))"
proof (rule ccontr)
  assume "\<not> ?thesis"
  then have step: "mesh_step (f i) (f (Suc i))" for i by blast
  have ok: "links_ok (f i)" for i by (induction i) (use assms step mesh_step_decreases in blast)+
  have "image_mset chunk_measure (ms_flight (f (Suc i))) < image_mset chunk_measure (ms_flight (f i))" for i
    using mesh_step_decreases [OF step ok] by blast
  then show False
    using wf_no_infinite_down_chainE [OF wf_less_multiset, of "\<lambda>i. image_mset chunk_measure (ms_flight (f i))"]
    by blast
qed


theorem flooding_terminates_witness:
  "\<exists>i. \<not> mesh_step ((mesh_deliver example_env (dev 1, dev 2, example_private_bytes) ^^ i) example_mesh)
    ((mesh_deliver example_env (dev 1, dev 2, example_private_bytes) ^^ Suc i) example_mesh)"
  by (rule flooding_terminates) (simp add: links_ok_def example_mesh_def BLE_MTU_def)



text \<open>A broadcast is handed to the core and goes no further: nothing is written to any neighbour.\<close>

theorem broadcast_not_relayed:
  assumes "wire_decode bs = Inr p" and "is_broadcast p"
  shows "ble_writes (fst (snd (handle_incoming_packet env from_peer bs t))) = []"
  using assms by (simp add: handle_incoming_packet_def is_for_us_def Let_def split_beta)

text \<open>The receiver decodes every chunk by itself: of a version 1 packet over 244 bytes, which the transport
  accepts up to 500 bytes, no chunk decodes to the packet.\<close>

theorem large_packet_lost:
  assumes "wire_encode p = Inr es" and "packet_wf p" and "version (header p) = PROTOCOL_VERSION_1"
    and "BLE_MTU < length es" and "c \<in> set (chunks_of BLE_MTU es)"
  shows "wire_decode c \<noteq> Inr p"
proof
  assume "wire_decode c = Inr p"
  from wire_decode_canonical_lemma(2) [OF this assms(3)] assms(1) have "c = es" by simp
  with chunks_of_longer [OF assms(4,5)] show False by simp
qed

end
