(* ===== verification/Verification.thy ===== *)
theory Verification
  imports Crypto
begin

text \<open>
  Verification of peers by QR codes (\<^verbatim>\<open>src/crates/bitchat-core/src/verification.rs\<close>): the signed contents of
  a code, its URI, the challenge and its response, and the service with its pending challenges.

  \<^verbatim>\<open>bincode\<close> and \<^verbatim>\<open>base64\<close> are the record \<open>qr_codec\<close> (an error is the text it is displayed with), the
  clock and the random nonces are arguments. The hash map of the challenges is an association list.
  Rendering of the code as an image is left to the library the code calls.
\<close>

section \<open>QR codes\<close>

record verification_config =
  vc_challenge_timeout :: duration
  vc_max_pending_challenges :: nat
  vc_qr_dimensions :: "u32 \<times> u32"
  vc_include_nickname :: bool

definition verification_config_default :: verification_config where
  "verification_config_default =
     \<lparr>vc_challenge_timeout = from_secs 300, vc_max_pending_challenges = 10,
      vc_qr_dimensions = (256, 256), vc_include_nickname = True\<rparr>"

record verification_qr =
  qr_version :: u8
  qr_noise_public_key :: bytes
  qr_signing_public_key :: bytes
  qr_nickname :: "rust_string option"
  qr_timestamp :: timestamp
  qr_nonce :: bytes
  qr_signature :: bytes

text \<open>\<open>qc_tuple\<close> is \<^verbatim>\<open>bincode\<close> on the tuple of all fields but the signature.\<close>

record qr_codec =
  qc_tuple :: "u8 \<times> bytes \<times> bytes \<times> rust_string option \<times> timestamp \<times> bytes \<Rightarrow> string + bytes"
  qc_serialize :: "verification_qr \<Rightarrow> string + bytes"
  qc_deserialize :: "bytes \<Rightarrow> string + verification_qr"
  qc_base64 :: "bytes \<Rightarrow> rust_string"
  qc_unbase64 :: "rust_string \<Rightarrow> string + bytes"

fun map_err :: "(string \<Rightarrow> fault) \<Rightarrow> string + 'a \<Rightarrow> 'a result" where
  "map_err f (Inl e) = Inl (f e)"
| "map_err f (Inr x) = Inr x"

definition signable_data :: "qr_codec \<Rightarrow> verification_qr \<Rightarrow> bytes result" where
  "signable_data qc q =
     map_err (\<lambda>e. invalid_packet (''Failed to serialize QR data: '' @ e))
       (qc_tuple qc (qr_version q, qr_noise_public_key q, qr_signing_public_key q, qr_nickname q,
          qr_timestamp q, qr_nonce q))"

definition verification_qr_new ::
    "('sk, 'vk) ed25519 \<Rightarrow> qr_codec \<Rightarrow> timestamp \<Rightarrow> bytes \<Rightarrow> ('sk, 'vk) identity_key_pair \<Rightarrow> rust_string option
     \<Rightarrow> bytes \<Rightarrow> verification_qr result" where
  "verification_qr_new ed qc now noise_key kp nickname nonce =
     (let q = \<lparr>qr_version = 1, qr_noise_public_key = noise_key, qr_signing_public_key = public_key_bytes ed kp,
               qr_nickname = nickname, qr_timestamp = now, qr_nonce = nonce, qr_signature = []\<rparr>
      in rbind (signable_data qc q) (\<lambda>d. Inr (q\<lparr>qr_signature := identity_sign ed kp d\<rparr>)))"

definition verify_self_signature :: "('sk, 'vk) ed25519 \<Rightarrow> qr_codec \<Rightarrow> verification_qr \<Rightarrow> bool result" where
  "verify_self_signature ed qc q =
     (if length (qr_signature q) \<noteq> 64 then Inr False
      else rbind (signable_data qc q) (\<lambda>d.
        Inr (is_ok (identity_verify ed (qr_signing_public_key q) d (qr_signature q)))))"

definition uri_start :: rust_string where
  "uri_start = map of_char ''bitchat://verify?data=''"

definition to_uri :: "qr_codec \<Rightarrow> verification_qr \<Rightarrow> rust_string result" where
  "to_uri qc q =
     rbind (map_err (\<lambda>e. invalid_packet (''Failed to serialize QR: '' @ e)) (qc_serialize qc q)) (\<lambda>bs.
       Inr (uri_start @ qc_base64 qc bs))"

definition from_uri :: "('sk, 'vk) ed25519 \<Rightarrow> qr_codec \<Rightarrow> rust_string \<Rightarrow> verification_qr result" where
  "from_uri ed qc uri =
     (if take (length uri_start) uri \<noteq> uri_start
      then Inl (invalid_packet ''Invalid verification URI format'')
      else
        rbind (map_err (\<lambda>e. invalid_packet (''Invalid base64: '' @ e)) (qc_unbase64 qc (drop 22 uri))) (\<lambda>bs.
        rbind (map_err (\<lambda>e. invalid_packet (''Failed to deserialize QR: '' @ e)) (qc_deserialize qc bs)) (\<lambda>q.
        rbind (verify_self_signature ed qc q) (\<lambda>ok.
          if \<not> ok then Inl (invalid_packet ''Invalid QR self-signature'') else Inr q))))"

definition qr_is_expired :: "timestamp \<Rightarrow> duration \<Rightarrow> verification_qr \<Rightarrow> bool" where
  "qr_is_expired now timeout q =
     (let elapsed = (if qr_timestamp q \<le> now then unat (now - qr_timestamp q) else 0) in timeout < elapsed)"

definition qr_peer_id :: "verification_qr \<Rightarrow> peer_id" where
  "qr_peer_id q = peer_id_from_noise_key (qr_noise_public_key q)"

section \<open>Challenges and responses\<close>

record pending_challenge =
  pc_nonce_a :: bytes
  pc_nonce_b :: bytes
  pc_expires_at :: timestamp
  pc_peer_qr :: verification_qr

definition challenge_data :: "pending_challenge \<Rightarrow> bytes" where
  "challenge_data c = pc_nonce_a c @ pc_nonce_b c"

definition challenge_is_expired :: "timestamp \<Rightarrow> pending_challenge \<Rightarrow> bool" where
  "challenge_is_expired now c = (pc_expires_at c < now)"

record verification_response =
  vr_nonce_a :: bytes
  vr_nonce_b :: bytes
  vr_signature :: bytes
  vr_responder_qr :: verification_qr

definition verification_response_new ::
    "('sk, 'vk) ed25519 \<Rightarrow> pending_challenge \<Rightarrow> ('sk, 'vk) identity_key_pair \<Rightarrow> verification_qr
     \<Rightarrow> verification_response result" where
  "verification_response_new ed c kp q =
     Inr \<lparr>vr_nonce_a = pc_nonce_a c, vr_nonce_b = pc_nonce_b c,
          vr_signature = identity_sign ed kp (challenge_data c), vr_responder_qr = q\<rparr>"

definition response_verify ::
    "('sk, 'vk) ed25519 \<Rightarrow> pending_challenge \<Rightarrow> verification_response \<Rightarrow> bool result" where
  "response_verify ed c r =
     (if vr_nonce_a r \<noteq> pc_nonce_a c \<or> vr_nonce_b r \<noteq> pc_nonce_b c then Inr False
      else if length (vr_signature r) \<noteq> 64 then Inr False
      else Inr (is_ok (identity_verify ed (qr_signing_public_key (vr_responder_qr r)) (challenge_data c)
             (vr_signature r))))"

datatype verification_result =
    VrSuccess peer_id "rust_string option" timestamp
  | VrFailed peer_id string
  | VrExpired peer_id
  | VrInvalidSignature peer_id

section \<open>The service\<close>

record ('sk, 'vk) verification_service =
  vs_config :: verification_config
  vs_pending :: "(peer_id \<times> pending_challenge) list"
  vs_signing_keypair :: "('sk, 'vk) identity_key_pair"
  vs_noise_public_key :: bytes
  vs_nickname :: "rust_string option"

definition verification_service_new ::
    "verification_config \<Rightarrow> ('sk, 'vk) identity_key_pair \<Rightarrow> bytes \<Rightarrow> rust_string option
     \<Rightarrow> ('sk, 'vk) verification_service" where
  "verification_service_new cfg kp noise_key nickname =
     \<lparr>vs_config = cfg, vs_pending = [], vs_signing_keypair = kp, vs_noise_public_key = noise_key,
      vs_nickname = nickname\<rparr>"

definition generate_verification_qr ::
    "('sk, 'vk) ed25519 \<Rightarrow> qr_codec \<Rightarrow> timestamp \<Rightarrow> bytes \<Rightarrow> ('sk, 'vk) verification_service
     \<Rightarrow> verification_qr result" where
  "generate_verification_qr ed qc now nonce s =
     verification_qr_new ed qc now (vs_noise_public_key s) (vs_signing_keypair s) (vs_nickname s) nonce"

definition cleanup_expired_challenges ::
    "timestamp \<Rightarrow> ('sk, 'vk) verification_service \<Rightarrow> ('sk, 'vk) verification_service" where
  "cleanup_expired_challenges now s =
     s\<lparr>vs_pending := filter (\<lambda>(_, c). \<not> challenge_is_expired now c) (vs_pending s)\<rparr>"

definition challenge_for :: "duration \<Rightarrow> timestamp \<Rightarrow> bytes \<Rightarrow> verification_qr \<Rightarrow> pending_challenge" where
  "challenge_for timeout now nonce q =
     \<lparr>pc_nonce_a = qr_nonce q, pc_nonce_b = nonce, pc_expires_at = now + word_of_nat timeout, pc_peer_qr = q\<rparr>"

definition process_scanned_qr ::
    "('sk, 'vk) ed25519 \<Rightarrow> qr_codec \<Rightarrow> timestamp \<Rightarrow> bytes \<Rightarrow> rust_string \<Rightarrow> ('sk, 'vk) verification_service
     \<Rightarrow> ('sk, 'vk) verification_service \<times> pending_challenge result" where
  "process_scanned_qr ed qc now nonce uri s =
     (case from_uri ed qc uri of
        Inl e \<Rightarrow> (s, Inl e)
      | Inr q \<Rightarrow>
          if qr_is_expired now (vc_challenge_timeout (vs_config s)) q
          then (s, Inl (invalid_packet ''QR code has expired''))
          else
            let s = cleanup_expired_challenges now s
            in if vc_max_pending_challenges (vs_config s) \<le> length (vs_pending s)
               then (s, Inl (invalid_packet ''Too many pending challenges''))
               else
                 let c = challenge_for (vc_challenge_timeout (vs_config s)) now nonce q
                 in (s\<lparr>vs_pending := map_put (qr_peer_id q) c (vs_pending s)\<rparr>, Inr c))"

definition create_challenge_response ::
    "('sk, 'vk) ed25519 \<Rightarrow> qr_codec \<Rightarrow> timestamp \<Rightarrow> bytes \<Rightarrow> pending_challenge \<Rightarrow> ('sk, 'vk) verification_service
     \<Rightarrow> verification_response result" where
  "create_challenge_response ed qc now nonce c s =
     rbind (generate_verification_qr ed qc now nonce s) (\<lambda>q.
       verification_response_new ed c (vs_signing_keypair s) q)"

text \<open>\<open>show_fault\<close> is \<^verbatim>\<open>{:?}\<close> of an error.\<close>

definition process_verification_response ::
    "(fault \<Rightarrow> string) \<Rightarrow> ('sk, 'vk) ed25519 \<Rightarrow> timestamp \<Rightarrow> verification_response \<Rightarrow> ('sk, 'vk) verification_service
     \<Rightarrow> ('sk, 'vk) verification_service \<times> verification_result result" where
  "process_verification_response show_fault ed now r s =
     (let pid = qr_peer_id (vr_responder_qr r)
      in case map_of (vs_pending s) pid of
           None \<Rightarrow> (s, Inl (invalid_packet ''No pending challenge for peer''))
         | Some c \<Rightarrow>
             let s = s\<lparr>vs_pending := map_del pid (vs_pending s)\<rparr>
             in if challenge_is_expired now c then (s, Inr (VrExpired pid))
                else (s, case response_verify ed c r of
                       Inr True \<Rightarrow> Inr (VrSuccess pid (qr_nickname (vr_responder_qr r)) now)
                     | Inr False \<Rightarrow> Inr (VrInvalidSignature pid)
                     | Inl e \<Rightarrow> Inr (VrFailed pid (''Verification error: '' @ show_fault e))))"

definition verification_update_config ::
    "verification_config \<Rightarrow> ('sk, 'vk) verification_service \<Rightarrow> ('sk, 'vk) verification_service" where
  "verification_update_config cfg s = s\<lparr>vs_config := cfg\<rparr>"

section \<open>Lemmas\<close>

text \<open>What the code relies on in the libraries: a value that is serialised is read back, and so is an
  encoded text.\<close>

definition qr_codec_ok :: "qr_codec \<Rightarrow> bool" where
  "qr_codec_ok qc \<longleftrightarrow>
     (\<forall>t. is_ok (qc_tuple qc t)) \<and> (\<forall>q. is_ok (qc_serialize qc q)) \<and>
     (\<forall>q bs. qc_serialize qc q = Inr bs \<longrightarrow> qc_deserialize qc bs = Inr q) \<and>
     (\<forall>bs. qc_unbase64 qc (qc_base64 qc bs) = Inr bs)"

lemma map_err_Inr [simp]: "map_err f r = Inr x \<longleftrightarrow> r = Inr x"
  by (cases r) auto

lemma length_uri_start [simp]: "length uri_start = 22"
  by (simp add: uri_start_def)

lemma qr_new_verifies:
  assumes "ed25519_correct ed" and "key_pair_ok ed kp" and "qr_codec_ok qc"
  obtains q where "verification_qr_new ed qc now noise_key kp nickname nonce = Inr q"
    and "verify_self_signature ed qc q = Inr True" and "qr_noise_public_key q = noise_key"
    and "qr_signing_public_key q = public_key_bytes ed kp" and "qr_timestamp q = now"
    and "qr_nickname q = nickname" and "qr_nonce q = nonce"
proof -
  obtain d where d: "qc_tuple qc (1, noise_key, public_key_bytes ed kp, nickname, now, nonce) = Inr d"
    using assms(3) unfolding qr_codec_ok_def is_ok_iff by meson
  let ?q = "\<lparr>qr_version = 1, qr_noise_public_key = noise_key, qr_signing_public_key = public_key_bytes ed kp,
    qr_nickname = nickname, qr_timestamp = now, qr_nonce = nonce, qr_signature = identity_sign ed kp d\<rparr>"
  show thesis
    by (rule that [of ?q])
      (simp_all add: verification_qr_new_def signable_data_def d verify_self_signature_def is_ok_iff
        identity_verify_sign [OF assms(1,2)] identity_sizes [OF assms(1)])
qed

lemma from_to_uri:
  assumes "qr_codec_ok qc" and "verify_self_signature ed qc q = Inr True"
  shows "rbind (to_uri qc q) (from_uri ed qc) = Inr q"
proof -
  obtain bs where bs: "qc_serialize qc q = Inr bs" using assms(1) unfolding qr_codec_ok_def is_ok_iff by meson
  then have "qc_deserialize qc bs = Inr q" using assms(1) by (auto simp: qr_codec_ok_def)
  moreover have "qc_unbase64 qc (qc_base64 qc bs) = Inr bs" using assms(1) by (simp add: qr_codec_ok_def)
  ultimately show ?thesis by (simp add: to_uri_def bs from_uri_def assms(2))
qed

lemma from_uri_sound:
  "from_uri ed qc uri = Inr q \<Longrightarrow> verify_self_signature ed qc q = Inr True"
  by (auto simp: from_uri_def rbind_eq_Inr split: if_splits)

subsection \<open>The pending challenges\<close>

text \<open>Every pending challenge is stored under the identifier in its code, whose self-signature was
  verified, and answers the nonce of that code; there are at most as many as configured.\<close>

definition verification_ok ::
    "('sk, 'vk) ed25519 \<Rightarrow> qr_codec \<Rightarrow> nat \<Rightarrow> (peer_id \<times> pending_challenge) list \<Rightarrow> bool" where
  "verification_ok ed qc n m \<longleftrightarrow>
     distinct (keys_of m) \<and> length m \<le> n \<and>
     (\<forall>pid c. map_of m pid = Some c \<longrightarrow>
        pid = qr_peer_id (pc_peer_qr c) \<and> pc_nonce_a c = qr_nonce (pc_peer_qr c) \<and>
        verify_self_signature ed qc (pc_peer_qr c) = Inr True)"

datatype verification_op =
    VoScan timestamp bytes rust_string
  | VoRespond timestamp verification_response
  | VoCleanup timestamp

fun verification_step ::
    "(fault \<Rightarrow> string) \<Rightarrow> ('sk, 'vk) ed25519 \<Rightarrow> qr_codec \<Rightarrow> verification_op
     \<Rightarrow> ('sk, 'vk) verification_service \<Rightarrow> ('sk, 'vk) verification_service" where
  "verification_step show_fault ed qc (VoScan now nonce uri) s = fst (process_scanned_qr ed qc now nonce uri s)"
| "verification_step show_fault ed qc (VoRespond now r) s = fst (process_verification_response show_fault ed now r s)"
| "verification_step show_fault ed qc (VoCleanup now) s = cleanup_expired_challenges now s"

lemma verification_ok_filter:
  assumes "verification_ok ed qc n m"
  shows "verification_ok ed qc n (filter P m)"
  using assms unfolding verification_ok_def
  by (meson distinct_filter_keys length_filter_le map_of_filterD order.trans)

lemma verification_ok_del: "verification_ok ed qc n m \<Longrightarrow> verification_ok ed qc n (map_del pid m)"
  using length_del [of m pid] by (auto simp: verification_ok_def)

lemma verification_ok_put:
  assumes "verification_ok ed qc n m" and "length m < n" and "verify_self_signature ed qc q = Inr True"
  shows "verification_ok ed qc n (map_put (qr_peer_id q) (challenge_for timeout now nonce q) m)"
  using assms by (auto simp: verification_ok_def challenge_for_def length_put)

lemma verification_ok_step:
  assumes "verification_ok ed qc (vc_max_pending_challenges (vs_config s)) (vs_pending s)"
  shows "verification_ok ed qc (vc_max_pending_challenges (vs_config s))
      (vs_pending (verification_step show_fault ed qc op s)) \<and>
    vs_config (verification_step show_fault ed qc op s) = vs_config s"
proof (cases op)
  case (VoScan now nonce uri)
  show ?thesis
  proof (cases "from_uri ed qc uri")
    case (Inr q)
    then show ?thesis
      using verification_ok_filter [OF assms]
      by (auto simp: VoScan process_scanned_qr_def Let_def cleanup_expired_challenges_def assms
          intro!: verification_ok_put from_uri_sound)
  qed (simp add: VoScan process_scanned_qr_def assms)
next
  case (VoRespond now r)
  then show ?thesis
    using assms verification_ok_del [OF assms]
    by (simp add: process_verification_response_def Let_def split: option.split)
next
  case (VoCleanup now)
  then show ?thesis using verification_ok_filter [OF assms] by (simp add: cleanup_expired_challenges_def)
qed

lemma verification_ok_run:
  assumes "verification_ok ed qc (vc_max_pending_challenges (vs_config s)) (vs_pending s)"
  shows "verification_ok ed qc (vc_max_pending_challenges (vs_config s))
    (vs_pending (fold (verification_step show_fault ed qc) ops s))"
  using assms
proof (induction ops arbitrary: s)
  case (Cons op ops)
  from Cons.IH [of "verification_step show_fault ed qc op s"] verification_ok_step [OF Cons.prems]
  show ?case by simp
qed simp

text \<open>The response an outsider makes for a challenge to somebody else: any signing key, the Noise key of
  the peer, and no signature on the code.\<close>

definition forged_response ::
    "('sk, 'vk) ed25519 \<Rightarrow> ('sk, 'vk) identity_key_pair \<Rightarrow> rust_string option \<Rightarrow> pending_challenge \<Rightarrow> verification_response" where
  "forged_response ed kp nickname c =
     \<lparr>vr_nonce_a = pc_nonce_a c, vr_nonce_b = pc_nonce_b c,
      vr_signature = identity_sign ed kp (challenge_data c),
      vr_responder_qr =
        \<lparr>qr_version = 1, qr_noise_public_key = qr_noise_public_key (pc_peer_qr c),
         qr_signing_public_key = public_key_bytes ed kp, qr_nickname = nickname, qr_timestamp = 0,
         qr_nonce = [], qr_signature = []\<rparr>\<rparr>"

lemma response_verify_signed:
  assumes "ed25519_correct ed" and "key_pair_ok ed kp"
    and "vr_nonce_a r = pc_nonce_a c" and "vr_nonce_b r = pc_nonce_b c"
    and "vr_signature r = identity_sign ed kp (challenge_data c)"
    and "qr_signing_public_key (vr_responder_qr r) = public_key_bytes ed kp"
  shows "response_verify ed c r = Inr True"
  by (simp add: response_verify_def assms(3-6) identity_verify_sign [OF assms(1,2)] identity_sizes [OF assms(1)])

lemma process_response_success:
  assumes "response_verify ed c r = Inr True" and "\<not> challenge_is_expired now c"
    and "map_of (vs_pending s) (qr_peer_id (vr_responder_qr r)) = Some c"
  shows "process_verification_response show_fault ed now r s =
    (s\<lparr>vs_pending := map_del (qr_peer_id (vr_responder_qr r)) (vs_pending s)\<rparr>,
     Inr (VrSuccess (qr_peer_id (vr_responder_qr r)) (qr_nickname (vr_responder_qr r)) now))"
  using assms by (simp add: process_verification_response_def Let_def)

section \<open>Properties\<close>

text \<open>C36: The exchange of QR codes works: when one device scans the code another one generated and gets the
  other's response before the challenge expires, it reports the other's identifier and nickname as
  verified.\<close>

theorem verification_succeeds:
  assumes "ed25519_correct ed" and "key_pair_ok ed (vs_signing_keypair sb)" and "qr_codec_ok qc"
    and "generate_verification_qr ed qc t0 nonce0 sb = Inr q" and "to_uri qc q = Inr uri"
    and "process_scanned_qr ed qc t1 nonce1 uri sa = (sa', Inr c)"
    and "create_challenge_response ed qc t2 nonce2 c sb = Inr r" and "t3 \<le> pc_expires_at c"
  shows "snd (process_verification_response show_fault ed t3 r sa') =
    Inr (VrSuccess (peer_id_from_noise_key (vs_noise_public_key sb)) (vs_nickname sb) t3)"
proof -
  from qr_new_verifies [OF assms(1-3)] assms(4) have q: "verify_self_signature ed qc q = Inr True"
    "qr_noise_public_key q = vs_noise_public_key sb"
    unfolding generate_verification_qr_def by (metis sum.inject(2))+
  have "from_uri ed qc uri = Inr q" using from_to_uri [OF assms(3) q(1)] assms(5) by simp
  with assms(6) have pending: "map_of (vs_pending sa') (qr_peer_id q) = Some c"
    by (auto simp: process_scanned_qr_def Let_def split: if_splits)
  from assms(7) obtain q' where q': "generate_verification_qr ed qc t2 nonce2 sb = Inr q'"
    and r: "verification_response_new ed c (vs_signing_keypair sb) q' = Inr r"
    by (auto simp: create_challenge_response_def rbind_eq_Inr)
  from qr_new_verifies [OF assms(1-3)] q' have k': "qr_noise_public_key q' = vs_noise_public_key sb"
    "qr_signing_public_key q' = public_key_bytes ed (vs_signing_keypair sb)" "qr_nickname q' = vs_nickname sb"
    unfolding generate_verification_qr_def by (metis sum.inject(2))+
  have r': "vr_responder_qr r = q'" using r by (auto simp: verification_response_new_def)
  have "response_verify ed c r = Inr True"
    by (rule response_verify_signed [OF assms(1,2)]) (use r k' in \<open>auto simp: verification_response_new_def\<close>)
  moreover have "\<not> challenge_is_expired t3 c" using assms(8) by (simp add: challenge_is_expired_def)
  moreover have "qr_peer_id q' = qr_peer_id q" by (simp add: qr_peer_id_def k' q)
  ultimately show ?thesis
    using process_response_success [of ed c r t3 sa' show_fault] pending by (simp add: r' k' qr_peer_id_def q)
qed

text \<open>A toy codec for the codes, for the witnesses.\<close>

definition toy_qr_codec :: qr_codec where
  "toy_qr_codec =
     \<lparr>qc_tuple = (\<lambda>(v, noise, sign, nick, ts, nonce). Inr (v # nonce)),
      qc_serialize = (\<lambda>q. Inr (toy_field [qr_version q] @ toy_field (qr_noise_public_key q)
        @ toy_field (qr_signing_public_key q) @ toy_field (case qr_nickname q of None \<Rightarrow> [] | Some n \<Rightarrow> 1 # n)
        @ toy_field (u64_to_be (qr_timestamp q)) @ toy_field (qr_nonce q) @ toy_field (qr_signature q) @ [0])),
      qc_deserialize = (\<lambda>bs.
        let (v, r1) = toy_parse bs; (noise, r2) = toy_parse r1; (sign, r3) = toy_parse r2;
            (nick, r4) = toy_parse r3; (ts, r5) = toy_parse r4; (nonce, r6) = toy_parse r5
        in Inr \<lparr>qr_version = hd v, qr_noise_public_key = noise, qr_signing_public_key = sign,
                qr_nickname = (if nick = [] then None else Some (tl nick)), qr_timestamp = u64_from_be ts,
                qr_nonce = nonce, qr_signature = fst (toy_parse r6)\<rparr>),
      qc_base64 = id, qc_unbase64 = Inr\<rparr>"

lemma toy_qr_codec_ok: "qr_codec_ok toy_qr_codec"
  by (auto simp: qr_codec_ok_def toy_qr_codec_def toy_parse_field split: option.split)

definition toy_verifier :: "u8 \<Rightarrow> (u8, u8) verification_service" where
  "toy_verifier k = verification_service_new verification_config_default
     \<lparr>signing_key = k, verifying_key = k\<rparr> (replicate 32 k) None"

lemma toy_key_ok: "key_pair_ok toy_ed25519 \<lparr>signing_key = k, verifying_key = k\<rparr>"
  by (simp add: key_pair_ok_def toy_ed25519_def)

theorem verification_succeeds_witness:
  "\<exists>q uri sa' c r.
     generate_verification_qr toy_ed25519 toy_qr_codec 1000 [7] (toy_verifier 5) = Inr q \<and>
     to_uri toy_qr_codec q = Inr uri \<and>
     process_scanned_qr toy_ed25519 toy_qr_codec 2000 [8] uri (toy_verifier 6) = (sa', Inr c) \<and>
     create_challenge_response toy_ed25519 toy_qr_codec 3000 [9] c (toy_verifier 5) = Inr r \<and>
     snd (process_verification_response (\<lambda>_. []) toy_ed25519 4000 r sa') = Inr (VrSuccess (replicate 8 5) None 4000)"
proof -
  let ?kp = "\<lparr>signing_key = 5, verifying_key = 5\<rparr> :: (u8, u8) identity_key_pair"
  let ?new = "\<lambda>now. verification_qr_new toy_ed25519 toy_qr_codec now (replicate 32 5) ?kp None"
  have gen: "generate_verification_qr toy_ed25519 toy_qr_codec now nonce (toy_verifier 5) = ?new now nonce"
    for now nonce by (simp add: generate_verification_qr_def toy_verifier_def verification_service_new_def)
  obtain q where q: "?new 1000 [7] = Inr q" "verify_self_signature toy_ed25519 toy_qr_codec q = Inr True"
    "qr_timestamp q = 1000"
    using qr_new_verifies [OF toy_ed25519_correct toy_key_ok toy_qr_codec_ok] by metis
  obtain uri where uri: "to_uri toy_qr_codec q = Inr uri" by (simp add: to_uri_def toy_qr_codec_def)
  then have "from_uri toy_ed25519 toy_qr_codec uri = Inr q"
    using from_to_uri [OF toy_qr_codec_ok q(2)] by simp
  then obtain sa' c where c: "process_scanned_qr toy_ed25519 toy_qr_codec 2000 [8] uri (toy_verifier 6) = (sa', Inr c)"
    "pc_expires_at c = 302000"
    by (simp add: process_scanned_qr_def qr_is_expired_def q(3) toy_verifier_def verification_service_new_def
        cleanup_expired_challenges_def verification_config_default_def challenge_for_def from_secs_def Let_def)
  obtain q' where "?new 3000 [9] = Inr q'"
    using qr_new_verifies [OF toy_ed25519_correct toy_key_ok toy_qr_codec_ok] by metis
  then obtain r where r: "create_challenge_response toy_ed25519 toy_qr_codec 3000 [9] c (toy_verifier 5) = Inr r"
    by (simp add: create_challenge_response_def gen verification_response_new_def)
  have kp: "key_pair_ok toy_ed25519 (vs_signing_keypair (toy_verifier 5))"
    by (simp add: toy_verifier_def verification_service_new_def toy_key_ok)
  have g: "generate_verification_qr toy_ed25519 toy_qr_codec 1000 [7] (toy_verifier 5) = Inr q"
    by (simp add: gen q)
  show ?thesis
    using verification_succeeds [OF toy_ed25519_correct kp toy_qr_codec_ok g uri c(1) r, of 4000 "\<lambda>_. []"] g uri c r
    by (auto simp: toy_verifier_def verification_service_new_def peer_id_from_noise_key_def)
qed

text \<open>C35: The verification can be forged: the response is checked against the signing key it brings along and
  not against the scanned one. For every pending challenge that has not expired, whoever knows its two
  nonces is reported as the verified peer, with any key pair and any nickname.\<close>

theorem verification_forgeable:
  assumes "ed25519_correct ed" and "key_pair_ok ed kp"
    and "map_of (vs_pending s) pid = Some c" and "pid = qr_peer_id (pc_peer_qr c)" and "now \<le> pc_expires_at c"
  shows "snd (process_verification_response show_fault ed now (forged_response ed kp nickname c) s) =
    Inr (VrSuccess pid nickname now)"
proof -
  have "response_verify ed c (forged_response ed kp nickname c) = Inr True"
    by (rule response_verify_signed [OF assms(1,2)]) (simp_all add: forged_response_def)
  moreover have "qr_peer_id (vr_responder_qr (forged_response ed kp nickname c)) = pid"
    by (simp add: forged_response_def qr_peer_id_def assms(4))
  ultimately show ?thesis
    using process_response_success [of ed c "forged_response ed kp nickname c" now s show_fault] assms(3,5)
    by (simp add: challenge_is_expired_def) (simp add: forged_response_def)
qed

definition example_challenge :: pending_challenge where
  "example_challenge = challenge_for 1000 2000 [8]
     \<lparr>qr_version = 1, qr_noise_public_key = replicate 32 5, qr_signing_public_key = replicate 32 5,
      qr_nickname = None, qr_timestamp = 1000, qr_nonce = [7], qr_signature = []\<rparr>"

theorem verification_forgeable_witness:
  "snd (process_verification_response (\<lambda>_. []) toy_ed25519 2500
      (forged_response toy_ed25519 \<lparr>signing_key = 66, verifying_key = 66\<rparr> (Some [77]) example_challenge)
      ((toy_verifier 6)\<lparr>vs_pending := [(replicate 8 5, example_challenge)]\<rparr>)) =
    Inr (VrSuccess (replicate 8 5) (Some [77]) 2500)"
  by (rule verification_forgeable [OF toy_ed25519_correct toy_key_ok])
    (simp_all add: example_challenge_def challenge_for_def qr_peer_id_def peer_id_from_noise_key_def)

text \<open>In every reachable service at most the configured number of challenges is pending, each under the
  identifier of the scanned code, whose own signature was verified, and for the nonce of that code.\<close>

theorem verification_invariant:
  "verification_ok ed qc (vc_max_pending_challenges cfg)
     (vs_pending (fold (verification_step show_fault ed qc) ops (verification_service_new cfg kp noise_key nickname)))"
  using verification_ok_run [of ed qc "verification_service_new cfg kp noise_key nickname" show_fault ops]
  by (simp add: verification_service_new_def verification_ok_def)

end
