(* ===== verification/Configuration.thy ===== *)
theory Configuration
  imports Complex_Main Connection Rate_Limiter Delivery Message_Store
begin

text \<open>
  The configuration of the program (\<^verbatim>\<open>src/crates/bitchat-core/src/config.rs\<close>): the settings of every part
  with their presets, the validator, the master configuration and its builder, with the features
  \<^verbatim>\<open>std\<close> and \<^verbatim>\<open>monitoring\<close>.

  Floating-point settings are the rational numbers the source writes; the code only stores them and
  compares them with literals. Durations are milliseconds. The settings of the rate limiter, the
  delivery tracker and the message store are the records of their own theories. \<^verbatim>\<open>Arc\<close>-wrapped copies
  are the values themselves.
\<close>

section \<open>Channels and sessions\<close>

record channel_config =
  cc_command_buffer_size :: nat
  cc_event_buffer_size :: nat
  cc_effect_buffer_size :: nat
  cc_app_event_buffer_size :: nat

definition channel_config_default :: channel_config where
  "channel_config_default =
     \<lparr>cc_command_buffer_size = 32, cc_event_buffer_size = 128, cc_effect_buffer_size = 64,
     cc_app_event_buffer_size = 64\<rparr>"

definition channel_config_browser_optimized :: channel_config where
  "channel_config_browser_optimized =
     \<lparr>cc_command_buffer_size = 20, cc_event_buffer_size = 50, cc_effect_buffer_size = 50,
     cc_app_event_buffer_size = 100\<rparr>"

definition channel_config_high_memory :: channel_config where
  "channel_config_high_memory =
     \<lparr>cc_command_buffer_size = 100, cc_event_buffer_size = 256, cc_effect_buffer_size = 128,
     cc_app_event_buffer_size = 200\<rparr>"

definition channel_config_low_memory :: channel_config where
  "channel_config_low_memory =
     \<lparr>cc_command_buffer_size = 10, cc_event_buffer_size = 25, cc_effect_buffer_size = 25,
     cc_app_event_buffer_size = 50\<rparr>"

definition channel_config_testing :: channel_config where
  "channel_config_testing =
     \<lparr>cc_command_buffer_size = 100, cc_event_buffer_size = 100, cc_effect_buffer_size = 100,
     cc_app_event_buffer_size = 100\<rparr>"

record session_config =
  sc_handshake_timeout :: duration
  sc_idle_timeout :: duration
  sc_key_rotation_interval :: duration
  sc_max_concurrent_sessions :: nat

definition session_config_default :: session_config where
  "session_config_default =
     \<lparr>sc_handshake_timeout = from_secs 30, sc_idle_timeout = from_secs 300,
     sc_key_rotation_interval = from_secs 3600, sc_max_concurrent_sessions = 100\<rparr>"

definition session_config_low_latency :: session_config where
  "session_config_low_latency =
     \<lparr>sc_handshake_timeout = from_secs 10, sc_idle_timeout = from_secs 120,
     sc_key_rotation_interval = from_secs 1800, sc_max_concurrent_sessions = 50\<rparr>"

definition session_config_high_security :: session_config where
  "session_config_high_security =
     \<lparr>sc_handshake_timeout = from_secs 60, sc_idle_timeout = from_secs 600,
     sc_key_rotation_interval = from_secs 300, sc_max_concurrent_sessions = 20\<rparr>"

definition session_config_testing :: session_config where
  "session_config_testing =
     \<lparr>sc_handshake_timeout = 100, sc_idle_timeout = from_secs 10,
     sc_key_rotation_interval = from_secs 60, sc_max_concurrent_sessions = 10\<rparr>"

section \<open>Delivery\<close>

definition delivery_default :: "rat delivery_config" where
  "delivery_default =
     \<lparr>max_retries = 5, initial_retry_delay = 500, max_retry_delay = from_secs 30,
      backoff_multiplier = 2, confirmation_timeout = from_secs 60\<rparr>"

definition delivery_aggressive :: "rat delivery_config" where
  "delivery_aggressive =
     \<lparr>max_retries = 10, initial_retry_delay = 100, max_retry_delay = from_secs 10,
      backoff_multiplier = 3 / 2, confirmation_timeout = from_secs 30\<rparr>"

definition delivery_conservative :: "rat delivery_config" where
  "delivery_conservative =
     \<lparr>max_retries = 3, initial_retry_delay = from_secs 2, max_retry_delay = from_secs 60,
      backoff_multiplier = 3, confirmation_timeout = from_secs 120\<rparr>"

definition delivery_testing :: "rat delivery_config" where
  "delivery_testing =
     \<lparr>max_retries = 2, initial_retry_delay = 10, max_retry_delay = 100,
      backoff_multiplier = 2, confirmation_timeout = 500\<rparr>"

section \<open>Monitoring and tests\<close>

datatype log_level = LlTrace | LlDebug | LlInfo | LlWarn | LlError

record monitoring_config =
  mc_max_comm_events :: nat
  mc_max_performance_samples :: nat
  mc_metrics_interval :: duration
  mc_track_channel_utilization :: bool
  mc_enable_health_monitoring :: bool
  mc_log_level :: log_level

definition monitoring_default :: monitoring_config where
  "monitoring_default =
     \<lparr>mc_max_comm_events = 1000, mc_max_performance_samples = 500, mc_metrics_interval = from_secs 1,
      mc_track_channel_utilization = True, mc_enable_health_monitoring = True, mc_log_level = LlInfo\<rparr>"

definition monitoring_minimal :: monitoring_config where
  "monitoring_minimal =
     \<lparr>mc_max_comm_events = 100, mc_max_performance_samples = 50, mc_metrics_interval = from_secs 10,
      mc_track_channel_utilization = False, mc_enable_health_monitoring = False, mc_log_level = LlWarn\<rparr>"

definition monitoring_detailed :: monitoring_config where
  "monitoring_detailed =
     \<lparr>mc_max_comm_events = 5000, mc_max_performance_samples = 2000, mc_metrics_interval = 500,
      mc_track_channel_utilization = True, mc_enable_health_monitoring = True, mc_log_level = LlDebug\<rparr>"

definition monitoring_testing :: monitoring_config where
  "monitoring_testing =
     \<lparr>mc_max_comm_events = 50, mc_max_performance_samples = 25, mc_metrics_interval = 100,
      mc_track_channel_utilization = True, mc_enable_health_monitoring = True, mc_log_level = LlDebug\<rparr>"

record test_config =
  tc_peer_id :: peer_id
  tc_enable_logging :: bool
  tc_active_transports :: "transport_type list"
  tc_test_duration :: "u64 option"

definition test_config_default :: test_config where
  "test_config_default =
     \<lparr>tc_peer_id = replicate 8 0, tc_enable_logging = False, tc_active_transports = [Ble, Nostr],
      tc_test_duration = None\<rparr>"

text \<open>The identifier of a test is the low 64 bits of the clock in nanoseconds.\<close>

definition test_config_new :: "nat \<Rightarrow> test_config" where
  "test_config_new nanos =
     test_config_default\<lparr>tc_peer_id := map (\<lambda>s. word_of_nat (nanos div 2 ^ s)) [56, 48, 40, 32, 24, 16, 8, 0]\<rparr>"

definition with_logging :: "test_config \<Rightarrow> test_config" where
  "with_logging c = c\<lparr>tc_enable_logging := True\<rparr>"

definition with_peer_id :: "peer_id \<Rightarrow> test_config \<Rightarrow> test_config" where
  "with_peer_id pid c = c\<lparr>tc_peer_id := pid\<rparr>"

definition with_transports :: "transport_type list \<Rightarrow> test_config \<Rightarrow> test_config" where
  "with_transports ts c = c\<lparr>tc_active_transports := ts\<rparr>"

definition with_duration :: "u64 \<Rightarrow> test_config \<Rightarrow> test_config" where
  "with_duration s c = c\<lparr>tc_test_duration := Some s\<rparr>"

section \<open>Transports, limits, timing and user interface\<close>

record ble_transport_config =
  ble_max_packet_size :: nat
  ble_connection_timeout :: duration
  ble_scan_timeout :: duration
  ble_device_name_prefix :: string
  ble_fragment_size :: nat
  ble_max_in_flight_assemblies :: nat
  ble_fragment_lifetime_secs :: rat
  ble_expected_write_per_fragment_ms :: u64
  ble_expected_write_max_ms :: u64
  ble_fragment_spacing_ms :: u64
  ble_fragment_spacing_directed_ms :: u64
  ble_duty_on_duration :: duration
  ble_duty_off_duration :: duration
  ble_duty_on_duration_dense :: duration
  ble_duty_off_duration_dense :: duration
  ble_recent_traffic_force_scan_secs :: rat
  ble_max_central_links :: nat
  ble_connect_rate_limit_interval :: duration
  ble_maintenance_interval :: duration
  ble_maintenance_leeway_secs :: u64
  ble_isolation_relax_threshold_secs :: u64
  ble_recent_timeout_window_secs :: u64
  ble_peer_inactivity_timeout_secs :: rat
  ble_announce_min_interval :: duration
  ble_initial_announce_delay_secs :: rat
  ble_connect_timeout_secs :: rat
  ble_restart_scan_delay_secs :: rat
  ble_post_subscribe_announce_delay_secs :: rat
  ble_post_announce_delay_secs :: rat
  ble_force_announce_min_interval_secs :: rat
  ble_dynamic_rssi_threshold :: int
  ble_connection_candidates_max :: nat
  ble_pending_write_buffer_cap :: nat
  ble_pending_notifications_cap :: nat
  ble_rssi_isolated_base :: int
  ble_rssi_isolated_relaxed :: int
  ble_rssi_connected_threshold :: int
  ble_rssi_high_timeout_threshold :: int
  ble_high_degree_threshold :: nat
  ble_reachability_retention_verified_secs :: rat
  ble_reachability_retention_unverified_secs :: rat
  ble_ingress_record_lifetime_secs :: rat
  ble_connect_timeout_backoff_window_secs :: rat
  ble_directed_spool_window_secs :: rat
  ble_disconnect_notify_debounce_secs :: rat
  ble_reconnect_log_debounce_secs :: rat
  ble_weak_link_cooldown_secs :: rat
  ble_weak_link_rssi_cutoff :: int
  ble_recent_packet_window_secs :: rat
  ble_recent_packet_window_max_count :: nat
  ble_announce_interval_secs :: rat
  ble_connected_announce_base_secs_dense :: rat
  ble_connected_announce_base_secs_sparse :: rat
  ble_connected_announce_jitter_dense :: rat
  ble_connected_announce_jitter_sparse :: rat

definition ble_canonical :: ble_transport_config where
  "ble_canonical =
     \<lparr>ble_max_packet_size = 512, ble_connection_timeout = from_secs 8, ble_scan_timeout = from_secs 10,
     ble_device_name_prefix = ''BitChat'', ble_fragment_size = 469,
     ble_max_in_flight_assemblies = 128, ble_fragment_lifetime_secs = 30,
     ble_expected_write_per_fragment_ms = 8, ble_expected_write_max_ms = 2000,
     ble_fragment_spacing_ms = 5, ble_fragment_spacing_directed_ms = 4,
     ble_duty_on_duration = from_secs 5, ble_duty_off_duration = from_secs 10,
     ble_duty_on_duration_dense = from_secs 3, ble_duty_off_duration_dense = from_secs 15,
     ble_recent_traffic_force_scan_secs = 10, ble_max_central_links = 6,
     ble_connect_rate_limit_interval = 500, ble_maintenance_interval = from_secs 5,
     ble_maintenance_leeway_secs = 1, ble_isolation_relax_threshold_secs = 60,
     ble_recent_timeout_window_secs = 60, ble_peer_inactivity_timeout_secs = 8,
     ble_announce_min_interval = from_secs 1, ble_initial_announce_delay_secs = 6 / 10,
     ble_connect_timeout_secs = 8, ble_restart_scan_delay_secs = 1 / 10,
     ble_post_subscribe_announce_delay_secs = 5 / 100, ble_post_announce_delay_secs = 4 / 10,
     ble_force_announce_min_interval_secs = 15 / 100, ble_dynamic_rssi_threshold = - 90,
     ble_connection_candidates_max = 100, ble_pending_write_buffer_cap = 1000000,
     ble_pending_notifications_cap = 20, ble_rssi_isolated_base = - 90,
     ble_rssi_isolated_relaxed = - 92, ble_rssi_connected_threshold = - 85,
     ble_rssi_high_timeout_threshold = - 80, ble_high_degree_threshold = 6,
     ble_reachability_retention_verified_secs = 21, ble_reachability_retention_unverified_secs = 21,
     ble_ingress_record_lifetime_secs = 3, ble_connect_timeout_backoff_window_secs = 120,
     ble_directed_spool_window_secs = 15, ble_disconnect_notify_debounce_secs = 9 / 10,
     ble_reconnect_log_debounce_secs = 2, ble_weak_link_cooldown_secs = 30,
     ble_weak_link_rssi_cutoff = - 90, ble_recent_packet_window_secs = 30,
     ble_recent_packet_window_max_count = 100, ble_announce_interval_secs = 4,
     ble_connected_announce_base_secs_dense = 30, ble_connected_announce_base_secs_sparse = 15,
     ble_connected_announce_jitter_dense = 8, ble_connected_announce_jitter_sparse = 4\<rparr>"

definition ble_battery_optimized :: ble_transport_config where
  "ble_battery_optimized = ble_canonical\<lparr>
       ble_duty_on_duration := from_secs 3, ble_duty_off_duration := from_secs 15,
       ble_maintenance_interval := from_secs 10, ble_announce_interval_secs := 8\<rparr>"

definition ble_development :: ble_transport_config where
  "ble_development = ble_canonical\<lparr>
       ble_duty_on_duration := from_secs 2, ble_duty_off_duration := from_secs 5,
       ble_maintenance_interval := from_secs 2, ble_announce_interval_secs := 2\<rparr>"

definition ble_testing :: ble_transport_config where
  "ble_testing = ble_canonical\<lparr>
       ble_duty_on_duration := 500, ble_duty_off_duration := 1000, ble_maintenance_interval := 500,
       ble_connection_timeout := 1000, ble_scan_timeout := 2000, ble_announce_interval_secs := 1\<rparr>"

record nostr_transport_config =
  nostr_relays :: "string list"
  nostr_connection_timeout_secs :: u64
  nostr_max_message_size :: nat
  nostr_verify_tls :: bool
  nostr_read_ack_interval :: duration
  nostr_geohash_initial_lookback_secs :: u64
  nostr_geohash_initial_limit :: nat
  nostr_geo_relay_count :: nat
  nostr_geohash_sample_lookback_secs :: u64
  nostr_geohash_sample_limit :: nat
  nostr_relay_initial_backoff_secs :: rat
  nostr_relay_max_backoff_secs :: rat
  nostr_relay_backoff_multiplier :: rat
  nostr_relay_max_reconnect_attempts :: nat

definition nostr_canonical :: nostr_transport_config where
  "nostr_canonical =
     \<lparr>nostr_relays = [''wss: ''], nostr_connection_timeout_secs = 10, nostr_max_message_size = 65536,
     nostr_verify_tls = True, nostr_read_ack_interval = 350,
     nostr_geohash_initial_lookback_secs = 3600, nostr_geohash_initial_limit = 200,
     nostr_geo_relay_count = 5, nostr_geohash_sample_lookback_secs = 300,
     nostr_geohash_sample_limit = 100, nostr_relay_initial_backoff_secs = 1,
     nostr_relay_max_backoff_secs = 300, nostr_relay_backoff_multiplier = 2,
     nostr_relay_max_reconnect_attempts = 10\<rparr>"

definition nostr_testing :: nostr_transport_config where
  "nostr_testing = nostr_canonical\<lparr>
       nostr_connection_timeout_secs := 1, nostr_read_ack_interval := 50,
       nostr_relay_initial_backoff_secs := 1 / 10, nostr_relay_max_backoff_secs := 5,
       nostr_relay_max_reconnect_attempts := 3\<rparr>"

definition nostr_development :: nostr_transport_config where
  "nostr_development = nostr_canonical\<lparr>
       nostr_connection_timeout_secs := 5, nostr_relay_initial_backoff_secs := 5 / 10,
       nostr_relay_max_backoff_secs := 30\<rparr>"

record limits_config =
  lim_private_chat_cap :: nat
  lim_mesh_timeline_cap :: nat
  lim_geo_timeline_cap :: nat
  lim_content_lru_cap :: nat
  lim_max_nickname_length :: nat
  lim_max_message_length :: nat
  lim_message_ttl_default :: u8
  lim_processed_nostr_events_cap :: nat

definition limits_canonical :: limits_config where
  "limits_canonical =
     \<lparr>lim_private_chat_cap = 1337, lim_mesh_timeline_cap = 1337, lim_geo_timeline_cap = 1337,
     lim_content_lru_cap = 2000, lim_max_nickname_length = 50, lim_max_message_length = 60000,
     lim_message_ttl_default = 7, lim_processed_nostr_events_cap = 2000\<rparr>"

definition limits_low_memory :: limits_config where
  "limits_low_memory =
     \<lparr>lim_private_chat_cap = 500, lim_mesh_timeline_cap = 500, lim_geo_timeline_cap = 500,
     lim_content_lru_cap = 1000, lim_max_nickname_length = 30, lim_max_message_length = 10000,
     lim_message_ttl_default = 5, lim_processed_nostr_events_cap = 500\<rparr>"

definition limits_testing :: limits_config where
  "limits_testing =
     \<lparr>lim_private_chat_cap = 100, lim_mesh_timeline_cap = 100, lim_geo_timeline_cap = 100,
     lim_content_lru_cap = 200, lim_max_nickname_length = 20, lim_max_message_length = 1000,
     lim_message_ttl_default = 3, lim_processed_nostr_events_cap = 100\<rparr>"

record timing_config =
  tim_network_reset_grace_secs :: u64
  tim_base_public_flush_interval :: duration
  tim_channel_inactivity_threshold_secs :: u64
  tim_late_insert_threshold_secs :: rat
  tim_late_insert_threshold_geo_secs :: rat

definition timing_canonical :: timing_config where
  "timing_canonical =
     \<lparr>tim_network_reset_grace_secs = 600, tim_base_public_flush_interval = 80,
     tim_channel_inactivity_threshold_secs = 540, tim_late_insert_threshold_secs = 15,
     tim_late_insert_threshold_geo_secs = 0\<rparr>"

definition timing_testing :: timing_config where
  "timing_testing =
     \<lparr>tim_network_reset_grace_secs = 10, tim_base_public_flush_interval = 10,
     tim_channel_inactivity_threshold_secs = 30, tim_late_insert_threshold_secs = 1,
     tim_late_insert_threshold_geo_secs = 0\<rparr>"

record ui_config =
  ui_sender_rate_bucket_capacity :: rat
  ui_sender_rate_bucket_refill_per_sec :: rat
  ui_content_rate_bucket_capacity :: rat
  ui_content_rate_bucket_refill_per_sec :: rat
  ui_scroll_throttle_secs :: rat
  ui_geo_notify_cooldown_secs :: rat
  ui_geo_notify_snippet_max_len :: nat
  ui_long_message_length_threshold :: nat
  ui_very_long_token_threshold :: nat
  ui_long_message_line_limit :: nat
  ui_content_key_prefix_length :: nat
  ui_fingerprint_sample_count :: nat
  ui_animation_short_secs :: rat
  ui_animation_medium_secs :: rat
  ui_animation_sidebar_secs :: rat
  ui_back_swipe_translation_large :: rat
  ui_back_swipe_translation_small :: rat
  ui_back_swipe_velocity_threshold :: rat

definition ui_canonical :: ui_config where
  "ui_canonical =
     \<lparr>ui_sender_rate_bucket_capacity = 5, ui_sender_rate_bucket_refill_per_sec = 1,
     ui_content_rate_bucket_capacity = 3, ui_content_rate_bucket_refill_per_sec = 5 / 10,
     ui_scroll_throttle_secs = 5 / 10, ui_geo_notify_cooldown_secs = 60,
     ui_geo_notify_snippet_max_len = 80, ui_long_message_length_threshold = 2000,
     ui_very_long_token_threshold = 512, ui_long_message_line_limit = 30,
     ui_content_key_prefix_length = 256, ui_fingerprint_sample_count = 3,
     ui_animation_short_secs = 15 / 100, ui_animation_medium_secs = 2 / 10,
     ui_animation_sidebar_secs = 25 / 100, ui_back_swipe_translation_large = 50,
     ui_back_swipe_translation_small = 30, ui_back_swipe_velocity_threshold = 300\<rparr>"

definition ui_testing :: ui_config where
  "ui_testing = ui_canonical\<lparr>
       ui_scroll_throttle_secs := 1 / 10, ui_geo_notify_cooldown_secs := 1,
       ui_animation_short_secs := 1 / 100, ui_animation_medium_secs := 2 / 100,
       ui_animation_sidebar_secs := 3 / 100\<rparr>"

section \<open>Presets\<close>

datatype config_preset = PrCanonical | PrDevelopment | PrProduction | PrBatteryOptimized | PrTesting

fun apply_to_ble_config :: "config_preset \<Rightarrow> ble_transport_config \<Rightarrow> ble_transport_config" where
  "apply_to_ble_config PrCanonical c = ble_canonical"
| "apply_to_ble_config PrDevelopment c = ble_development"
| "apply_to_ble_config PrProduction c = ble_canonical"
| "apply_to_ble_config PrBatteryOptimized c = ble_battery_optimized"
| "apply_to_ble_config PrTesting c = ble_testing"

fun apply_to_nostr_config :: "config_preset \<Rightarrow> nostr_transport_config \<Rightarrow> nostr_transport_config" where
  "apply_to_nostr_config PrCanonical c = nostr_canonical"
| "apply_to_nostr_config PrProduction c = nostr_canonical"
| "apply_to_nostr_config PrDevelopment c = nostr_development"
| "apply_to_nostr_config PrBatteryOptimized c = nostr_canonical"
| "apply_to_nostr_config PrTesting c = nostr_testing"

fun apply_to_limits_config :: "config_preset \<Rightarrow> limits_config \<Rightarrow> limits_config" where
  "apply_to_limits_config PrBatteryOptimized c = limits_low_memory"
| "apply_to_limits_config PrTesting c = limits_testing"
| "apply_to_limits_config _ c = limits_canonical"

fun apply_to_timing_config :: "config_preset \<Rightarrow> timing_config \<Rightarrow> timing_config" where
  "apply_to_timing_config PrTesting c = timing_testing"
| "apply_to_timing_config _ c = timing_canonical"

fun apply_to_ui_config :: "config_preset \<Rightarrow> ui_config \<Rightarrow> ui_config" where
  "apply_to_ui_config PrTesting c = ui_testing"
| "apply_to_ui_config _ c = ui_canonical"

section \<open>Validation\<close>

text \<open>A validator returns the text of its first complaint.\<close>

definition validate_ble_config :: "ble_transport_config \<Rightarrow> string + unit" where
  "validate_ble_config c =
     (if ble_fragment_size c < 100 \<or> 1024 < ble_fragment_size c
      then Inl ''BLE fragment size must be between 100-1024 bytes''
      else if 10 < ble_max_central_links c then Inl ''BLE max central links should not exceed 10''
      else if 20 < ble_high_degree_threshold c then Inl ''BLE high degree threshold should not exceed 20''
      else if - 50 < ble_dynamic_rssi_threshold c \<or> ble_dynamic_rssi_threshold c < - 120
      then Inl ''BLE RSSI threshold should be between -120 and -50 dBm''
      else Inr ())"

definition validate_nostr_config :: "nostr_transport_config \<Rightarrow> string + unit" where
  "validate_nostr_config c =
     (if 20 < nostr_geo_relay_count c then Inl ''Nostr geo relay count should not exceed 20''
      else if 50 < nostr_relay_max_reconnect_attempts c
      then Inl ''Nostr max reconnect attempts should not exceed 50''
      else if nostr_relay_backoff_multiplier c < 11 / 10 \<or> 5 < nostr_relay_backoff_multiplier c
      then Inl ''Nostr backoff multiplier should be between 1.1 and 5.0''
      else Inr ())"

definition validate_limits_config :: "limits_config \<Rightarrow> string + unit" where
  "validate_limits_config c =
     (if 15 < lim_message_ttl_default c then Inl ''Message TTL should not exceed 15 hops''
      else if 100000 < lim_max_message_length c then Inl ''Max message length should not exceed 100KB''
      else if 200 < lim_max_nickname_length c
      then Inl ''Max nickname length should not exceed 200 characters''
      else Inr ())"

definition validate_canonical_ranges ::
    "ble_transport_config \<Rightarrow> nostr_transport_config \<Rightarrow> limits_config \<Rightarrow> string + unit" where
  "validate_canonical_ranges b n l =
     rbind (validate_ble_config b) (\<lambda>_. rbind (validate_nostr_config n) (\<lambda>_. validate_limits_config l))"

section \<open>The master configuration\<close>

record bitchat_config =
  cfg_channels :: channel_config
  cfg_delivery :: "rat delivery_config"
  cfg_message_store :: message_store_config
  cfg_session :: session_config
  cfg_monitoring :: monitoring_config
  cfg_rate_limiting :: rate_limit_config
  cfg_test :: "test_config option"
  cfg_ble :: ble_transport_config
  cfg_nostr :: nostr_transport_config
  cfg_limits :: limits_config
  cfg_timing :: timing_config
  cfg_ui :: ui_config

definition config_canonical :: bitchat_config where
  "config_canonical =
     \<lparr>cfg_channels = channel_config_default,
      cfg_delivery = delivery_default,
      cfg_message_store = message_store_config_default,
      cfg_session = session_config_default,
      cfg_monitoring = monitoring_default,
      cfg_rate_limiting = rate_limit_default,
      cfg_test = None,
      cfg_ble = ble_canonical,
      cfg_nostr = nostr_canonical,
      cfg_limits = limits_canonical,
      cfg_timing = timing_canonical,
      cfg_ui = ui_canonical\<rparr>"

definition config_browser_optimized :: bitchat_config where
  "config_browser_optimized =
     \<lparr>cfg_channels = channel_config_browser_optimized,
      cfg_delivery = delivery_conservative,
      cfg_message_store = message_store_config_low_memory,
      cfg_session = session_config_low_latency,
      cfg_monitoring = monitoring_minimal,
      cfg_rate_limiting = rate_limit_default,
      cfg_test = None,
      cfg_ble = ble_canonical,
      cfg_nostr = nostr_canonical,
      cfg_limits = limits_low_memory,
      cfg_timing = timing_canonical,
      cfg_ui = ui_canonical\<rparr>"

definition config_server_optimized :: bitchat_config where
  "config_server_optimized =
     \<lparr>cfg_channels = channel_config_high_memory,
      cfg_delivery = delivery_aggressive,
      cfg_message_store = message_store_config_high_capacity,
      cfg_session = session_config_default,
      cfg_monitoring = monitoring_detailed,
      cfg_rate_limiting = rate_limit_permissive,
      cfg_test = None,
      cfg_ble = ble_canonical,
      cfg_nostr = nostr_canonical,
      cfg_limits = limits_canonical,
      cfg_timing = timing_canonical,
      cfg_ui = ui_canonical\<rparr>"

definition config_mobile_optimized :: bitchat_config where
  "config_mobile_optimized =
     \<lparr>cfg_channels = channel_config_low_memory,
      cfg_delivery = delivery_conservative,
      cfg_message_store = message_store_config_low_memory,
      cfg_session = session_config_low_latency,
      cfg_monitoring = monitoring_minimal,
      cfg_rate_limiting = rate_limit_strict,
      cfg_test = None,
      cfg_ble = ble_battery_optimized,
      cfg_nostr = nostr_canonical,
      cfg_limits = limits_low_memory,
      cfg_timing = timing_canonical,
      cfg_ui = ui_canonical\<rparr>"

definition config_testing :: "nat \<Rightarrow> bitchat_config" where
  "config_testing nanos =
     \<lparr>cfg_channels = channel_config_testing,
      cfg_delivery = delivery_testing,
      cfg_message_store = message_store_config_testing,
      cfg_session = session_config_testing,
      cfg_monitoring = monitoring_testing,
      cfg_rate_limiting = rate_limit_permissive,
      cfg_test = Some (test_config_new nanos),
      cfg_ble = ble_testing,
      cfg_nostr = nostr_testing,
      cfg_limits = limits_testing,
      cfg_timing = timing_testing,
      cfg_ui = ui_testing\<rparr>"

definition config_high_security :: bitchat_config where
  "config_high_security =
     \<lparr>cfg_channels = channel_config_default,
      cfg_delivery = delivery_conservative,
      cfg_message_store = message_store_config_default,
      cfg_session = session_config_high_security,
      cfg_monitoring = monitoring_detailed,
      cfg_rate_limiting = rate_limit_strict,
      cfg_test = None,
      cfg_ble = ble_canonical,
      cfg_nostr = nostr_canonical,
      cfg_limits = limits_canonical,
      cfg_timing = timing_canonical,
      cfg_ui = ui_canonical\<rparr>"

definition with_channels :: "channel_config \<Rightarrow> bitchat_config \<Rightarrow> bitchat_config" where
  "with_channels x c = c\<lparr>cfg_channels := x\<rparr>"

definition with_delivery :: "rat delivery_config \<Rightarrow> bitchat_config \<Rightarrow> bitchat_config" where
  "with_delivery x c = c\<lparr>cfg_delivery := x\<rparr>"

definition with_session :: "session_config \<Rightarrow> bitchat_config \<Rightarrow> bitchat_config" where
  "with_session x c = c\<lparr>cfg_session := x\<rparr>"

definition with_monitoring :: "monitoring_config \<Rightarrow> bitchat_config \<Rightarrow> bitchat_config" where
  "with_monitoring x c = c\<lparr>cfg_monitoring := x\<rparr>"

definition with_rate_limiting :: "rate_limit_config \<Rightarrow> bitchat_config \<Rightarrow> bitchat_config" where
  "with_rate_limiting x c = c\<lparr>cfg_rate_limiting := x\<rparr>"

definition with_test :: "test_config \<Rightarrow> bitchat_config \<Rightarrow> bitchat_config" where
  "with_test x c = c\<lparr>cfg_test := Some x\<rparr>"

definition with_ble :: "ble_transport_config \<Rightarrow> bitchat_config \<Rightarrow> bitchat_config" where
  "with_ble x c = c\<lparr>cfg_ble := x\<rparr>"

definition with_nostr :: "nostr_transport_config \<Rightarrow> bitchat_config \<Rightarrow> bitchat_config" where
  "with_nostr x c = c\<lparr>cfg_nostr := x\<rparr>"

definition with_limits :: "limits_config \<Rightarrow> bitchat_config \<Rightarrow> bitchat_config" where
  "with_limits x c = c\<lparr>cfg_limits := x\<rparr>"

definition with_timing :: "timing_config \<Rightarrow> bitchat_config \<Rightarrow> bitchat_config" where
  "with_timing x c = c\<lparr>cfg_timing := x\<rparr>"

definition with_ui :: "ui_config \<Rightarrow> bitchat_config \<Rightarrow> bitchat_config" where
  "with_ui x c = c\<lparr>cfg_ui := x\<rparr>"

definition with_preset :: "config_preset \<Rightarrow> bitchat_config \<Rightarrow> bitchat_config" where
  "with_preset p c =
     c\<lparr>cfg_ble := apply_to_ble_config p (cfg_ble c), cfg_nostr := apply_to_nostr_config p (cfg_nostr c),
       cfg_limits := apply_to_limits_config p (cfg_limits c),
       cfg_timing := apply_to_timing_config p (cfg_timing c), cfg_ui := apply_to_ui_config p (cfg_ui c)\<rparr>"

definition from_preset :: "config_preset \<Rightarrow> bitchat_config" where
  "from_preset p = with_preset p config_canonical"

definition config_validate :: "bitchat_config \<Rightarrow> string + unit" where
  "config_validate c =
     (if cc_command_buffer_size (cfg_channels c) = 0 then Inl ''Command buffer size cannot be zero''
      else if cc_event_buffer_size (cfg_channels c) = 0 then Inl ''Event buffer size cannot be zero''
      else if cc_effect_buffer_size (cfg_channels c) = 0 then Inl ''Effect buffer size cannot be zero''
      else if cc_app_event_buffer_size (cfg_channels c) = 0 then Inl ''App event buffer size cannot be zero''
      else if max_retries (cfg_delivery c) = 0 then Inl ''Max retries cannot be zero''
      else if backoff_multiplier (cfg_delivery c) \<le> 1 then Inl ''Backoff multiplier must be greater than 1.0''
      else if max_retry_delay (cfg_delivery c) < initial_retry_delay (cfg_delivery c)
      then Inl ''Initial retry delay cannot be greater than max retry delay''
      else if sc_max_concurrent_sessions (cfg_session c) = 0
      then Inl ''Max concurrent sessions cannot be zero''
      else if sc_idle_timeout (cfg_session c) < sc_handshake_timeout (cfg_session c)
      then Inl ''Handshake timeout should not exceed idle timeout''
      else if mc_max_comm_events (cfg_monitoring c) = 0 then Inl ''Max communication events cannot be zero''
      else if mc_max_performance_samples (cfg_monitoring c) = 0
      then Inl ''Max performance samples cannot be zero''
      else validate_canonical_ranges (cfg_ble c) (cfg_nostr c) (cfg_limits c))"

section \<open>Deployment presets\<close>

definition presets_development :: "nat \<Rightarrow> bitchat_config" where
  "presets_development nanos =
     with_test (with_logging (test_config_new nanos))
       (with_rate_limiting rate_limit_permissive
         (with_monitoring monitoring_detailed (from_preset PrDevelopment)))"

definition presets_production :: bitchat_config where
  "presets_production = from_preset PrProduction"

definition presets_embedded :: bitchat_config where
  "presets_embedded =
     \<lparr>cfg_channels = channel_config_low_memory,
      cfg_delivery = delivery_conservative,
      cfg_message_store = message_store_config_low_memory,
      cfg_session = session_config_low_latency,
      cfg_monitoring = monitoring_minimal,
      cfg_rate_limiting = rate_limit_strict,
      cfg_test = None,
      cfg_ble = ble_battery_optimized,
      cfg_nostr = nostr_canonical,
      cfg_limits = limits_low_memory,
      cfg_timing = timing_canonical,
      cfg_ui = ui_canonical\<rparr>"

section \<open>The builder\<close>

record config_builder =
  cb_channels :: "channel_config option"
  cb_delivery :: "rat delivery_config option"
  cb_message_store :: "message_store_config option"
  cb_session :: "session_config option"
  cb_monitoring :: "monitoring_config option"
  cb_rate_limiting :: "rate_limit_config option"
  cb_test :: "test_config option"
  cb_ble :: "ble_transport_config option"
  cb_nostr :: "nostr_transport_config option"
  cb_limits :: "limits_config option"
  cb_timing :: "timing_config option"
  cb_ui :: "ui_config option"

definition config_builder_new :: config_builder where
  "config_builder_new =
     \<lparr>cb_channels = None,
      cb_delivery = None,
      cb_message_store = None,
      cb_session = None,
      cb_monitoring = None,
      cb_rate_limiting = None,
      cb_test = None,
      cb_ble = None,
      cb_nostr = None,
      cb_limits = None,
      cb_timing = None,
      cb_ui = None\<rparr>"

definition builder_channels :: "channel_config \<Rightarrow> config_builder \<Rightarrow> config_builder" where
  "builder_channels x b = b\<lparr>cb_channels := Some x\<rparr>"

definition builder_delivery :: "rat delivery_config \<Rightarrow> config_builder \<Rightarrow> config_builder" where
  "builder_delivery x b = b\<lparr>cb_delivery := Some x\<rparr>"

definition builder_message_store :: "message_store_config \<Rightarrow> config_builder \<Rightarrow> config_builder" where
  "builder_message_store x b = b\<lparr>cb_message_store := Some x\<rparr>"

definition builder_session :: "session_config \<Rightarrow> config_builder \<Rightarrow> config_builder" where
  "builder_session x b = b\<lparr>cb_session := Some x\<rparr>"

definition builder_monitoring :: "monitoring_config \<Rightarrow> config_builder \<Rightarrow> config_builder" where
  "builder_monitoring x b = b\<lparr>cb_monitoring := Some x\<rparr>"

definition builder_rate_limiting :: "rate_limit_config \<Rightarrow> config_builder \<Rightarrow> config_builder" where
  "builder_rate_limiting x b = b\<lparr>cb_rate_limiting := Some x\<rparr>"

definition builder_test :: "test_config \<Rightarrow> config_builder \<Rightarrow> config_builder" where
  "builder_test x b = b\<lparr>cb_test := Some x\<rparr>"

definition builder_ble :: "ble_transport_config \<Rightarrow> config_builder \<Rightarrow> config_builder" where
  "builder_ble x b = b\<lparr>cb_ble := Some x\<rparr>"

definition builder_nostr :: "nostr_transport_config \<Rightarrow> config_builder \<Rightarrow> config_builder" where
  "builder_nostr x b = b\<lparr>cb_nostr := Some x\<rparr>"

definition builder_limits :: "limits_config \<Rightarrow> config_builder \<Rightarrow> config_builder" where
  "builder_limits x b = b\<lparr>cb_limits := Some x\<rparr>"

definition builder_timing :: "timing_config \<Rightarrow> config_builder \<Rightarrow> config_builder" where
  "builder_timing x b = b\<lparr>cb_timing := Some x\<rparr>"

definition builder_ui :: "ui_config \<Rightarrow> config_builder \<Rightarrow> config_builder" where
  "builder_ui x b = b\<lparr>cb_ui := Some x\<rparr>"

definition builder_canonical :: "config_builder \<Rightarrow> config_builder" where
  "builder_canonical b =
     \<lparr>cb_channels = Some channel_config_default,
      cb_delivery = Some delivery_default,
      cb_message_store = Some message_store_config_default,
      cb_session = Some session_config_default,
      cb_monitoring = Some monitoring_default,
      cb_rate_limiting = Some rate_limit_default,
      cb_test = None,
      cb_ble = Some ble_canonical,
      cb_nostr = Some nostr_canonical,
      cb_limits = Some limits_canonical,
      cb_timing = Some timing_canonical,
      cb_ui = Some ui_canonical\<rparr>"

definition builder_browser_optimized :: "config_builder \<Rightarrow> config_builder" where
  "builder_browser_optimized b =
     \<lparr>cb_channels = Some channel_config_browser_optimized,
      cb_delivery = Some delivery_conservative,
      cb_message_store = Some message_store_config_low_memory,
      cb_session = Some session_config_low_latency,
      cb_monitoring = Some monitoring_minimal,
      cb_rate_limiting = Some rate_limit_default,
      cb_test = None,
      cb_ble = Some ble_canonical,
      cb_nostr = Some nostr_canonical,
      cb_limits = Some limits_low_memory,
      cb_timing = Some timing_canonical,
      cb_ui = Some ui_canonical\<rparr>"

definition builder_server_optimized :: "config_builder \<Rightarrow> config_builder" where
  "builder_server_optimized b =
     \<lparr>cb_channels = Some channel_config_high_memory,
      cb_delivery = Some delivery_aggressive,
      cb_message_store = Some message_store_config_high_capacity,
      cb_session = Some session_config_default,
      cb_monitoring = Some monitoring_detailed,
      cb_rate_limiting = Some rate_limit_permissive,
      cb_test = None,
      cb_ble = Some ble_canonical,
      cb_nostr = Some nostr_canonical,
      cb_limits = Some limits_canonical,
      cb_timing = Some timing_canonical,
      cb_ui = Some ui_canonical\<rparr>"

definition builder_mobile_optimized :: "config_builder \<Rightarrow> config_builder" where
  "builder_mobile_optimized b =
     \<lparr>cb_channels = Some channel_config_low_memory,
      cb_delivery = Some delivery_conservative,
      cb_message_store = Some message_store_config_low_memory,
      cb_session = Some session_config_low_latency,
      cb_monitoring = Some monitoring_minimal,
      cb_rate_limiting = Some rate_limit_strict,
      cb_test = None,
      cb_ble = Some ble_battery_optimized,
      cb_nostr = Some nostr_canonical,
      cb_limits = Some limits_low_memory,
      cb_timing = Some timing_canonical,
      cb_ui = Some ui_canonical\<rparr>"

definition builder_testing :: "nat \<Rightarrow> config_builder \<Rightarrow> config_builder" where
  "builder_testing nanos b =
     \<lparr>cb_channels = Some channel_config_testing,
      cb_delivery = Some delivery_testing,
      cb_message_store = Some message_store_config_testing,
      cb_session = Some session_config_testing,
      cb_monitoring = Some monitoring_testing,
      cb_rate_limiting = Some rate_limit_permissive,
      cb_test = Some (test_config_new nanos),
      cb_ble = Some ble_testing,
      cb_nostr = Some nostr_testing,
      cb_limits = Some limits_testing,
      cb_timing = Some timing_testing,
      cb_ui = Some ui_testing\<rparr>"

definition builder_high_security :: "config_builder \<Rightarrow> config_builder" where
  "builder_high_security b =
     \<lparr>cb_channels = Some channel_config_default,
      cb_delivery = Some delivery_conservative,
      cb_message_store = Some message_store_config_default,
      cb_session = Some session_config_high_security,
      cb_monitoring = Some monitoring_detailed,
      cb_rate_limiting = Some rate_limit_strict,
      cb_test = None,
      cb_ble = Some ble_canonical,
      cb_nostr = Some nostr_canonical,
      cb_limits = Some limits_canonical,
      cb_timing = Some timing_canonical,
      cb_ui = Some ui_canonical\<rparr>"

abbreviation unwrap_or :: "'a \<Rightarrow> 'a option \<Rightarrow> 'a" where
  "unwrap_or x r \<equiv> case_option x (\<lambda>y. y) r"

text \<open>The error of the builder is the complaint of the validator.\<close>

definition config_build :: "config_builder \<Rightarrow> string + bitchat_config" where
  "config_build b =
     (let c = \<lparr>cfg_channels = unwrap_or channel_config_default (cb_channels b),
          cfg_delivery = unwrap_or delivery_default (cb_delivery b),
          cfg_message_store = unwrap_or message_store_config_default (cb_message_store b),
          cfg_session = unwrap_or session_config_default (cb_session b),
          cfg_monitoring = unwrap_or monitoring_default (cb_monitoring b),
          cfg_rate_limiting = unwrap_or rate_limit_default (cb_rate_limiting b),
          cfg_test = cb_test b,
          cfg_ble = unwrap_or ble_canonical (cb_ble b),
          cfg_nostr = unwrap_or nostr_canonical (cb_nostr b),
          cfg_limits = unwrap_or limits_canonical (cb_limits b),
          cfg_timing = unwrap_or timing_canonical (cb_timing b),
          cfg_ui = unwrap_or ui_canonical (cb_ui b)\<rparr>
      in rbind (config_validate c) (\<lambda>_. Inr c))"

definition config_build_unchecked :: "config_builder \<Rightarrow> bitchat_config" where
  "config_build_unchecked b =
     \<lparr>cfg_channels = unwrap_or channel_config_default (cb_channels b),
      cfg_delivery = unwrap_or delivery_default (cb_delivery b),
      cfg_message_store = unwrap_or message_store_config_default (cb_message_store b),
      cfg_session = unwrap_or session_config_default (cb_session b),
      cfg_monitoring = unwrap_or monitoring_default (cb_monitoring b),
      cfg_rate_limiting = unwrap_or rate_limit_default (cb_rate_limiting b),
      cfg_test = cb_test b,
      cfg_ble = unwrap_or ble_canonical (cb_ble b),
      cfg_nostr = unwrap_or nostr_canonical (cb_nostr b),
      cfg_limits = unwrap_or limits_canonical (cb_limits b),
      cfg_timing = unwrap_or timing_canonical (cb_timing b),
      cfg_ui = unwrap_or ui_canonical (cb_ui b)\<rparr>"

section \<open>Lemmas\<close>

text \<open>The ranges the validator enforces.\<close>

definition config_in_range :: "bitchat_config \<Rightarrow> bool" where
  "config_in_range c \<longleftrightarrow>
     0 < cc_command_buffer_size (cfg_channels c) \<and> 0 < cc_event_buffer_size (cfg_channels c) \<and>
     0 < cc_effect_buffer_size (cfg_channels c) \<and> 0 < cc_app_event_buffer_size (cfg_channels c) \<and>
     max_retries (cfg_delivery c) \<noteq> 0 \<and> 1 < backoff_multiplier (cfg_delivery c) \<and>
     initial_retry_delay (cfg_delivery c) \<le> max_retry_delay (cfg_delivery c) \<and>
     0 < sc_max_concurrent_sessions (cfg_session c) \<and>
     sc_handshake_timeout (cfg_session c) \<le> sc_idle_timeout (cfg_session c) \<and>
     0 < mc_max_comm_events (cfg_monitoring c) \<and> 0 < mc_max_performance_samples (cfg_monitoring c) \<and>
     ble_fragment_size (cfg_ble c) \<in> {100..1024} \<and> ble_max_central_links (cfg_ble c) \<le> 10 \<and>
     ble_high_degree_threshold (cfg_ble c) \<le> 20 \<and> ble_dynamic_rssi_threshold (cfg_ble c) \<in> {- 120..- 50} \<and>
     nostr_geo_relay_count (cfg_nostr c) \<le> 20 \<and> nostr_relay_max_reconnect_attempts (cfg_nostr c) \<le> 50 \<and>
     nostr_relay_backoff_multiplier (cfg_nostr c) \<in> {11 / 10..5} \<and>
     lim_message_ttl_default (cfg_limits c) \<le> 15 \<and> lim_max_message_length (cfg_limits c) \<le> 100000 \<and>
     lim_max_nickname_length (cfg_limits c) \<le> 200"

lemma validate_ble_ok:
  "validate_ble_config b = Inr () \<longleftrightarrow>
     ble_fragment_size b \<in> {100..1024} \<and> ble_max_central_links b \<le> 10 \<and>
     ble_high_degree_threshold b \<le> 20 \<and> ble_dynamic_rssi_threshold b \<in> {- 120..- 50}"
  by (simp add: validate_ble_config_def not_less)

lemma validate_nostr_ok:
  "validate_nostr_config n = Inr () \<longleftrightarrow>
     nostr_geo_relay_count n \<le> 20 \<and> nostr_relay_max_reconnect_attempts n \<le> 50 \<and>
     nostr_relay_backoff_multiplier n \<in> {11 / 10..5}"
  by (simp add: validate_nostr_config_def not_less)

lemma validate_limits_ok:
  "validate_limits_config l = Inr () \<longleftrightarrow>
     lim_message_ttl_default l \<le> 15 \<and> lim_max_message_length l \<le> 100000 \<and> lim_max_nickname_length l \<le> 200"
  by (auto simp: validate_limits_config_def not_less)

lemma rbind_unit_ok: "rbind r (\<lambda>_. s) = Inr x \<longleftrightarrow> r = Inr () \<and> s = Inr x" for r :: "'e + unit"
  by (cases r) auto

lemma config_validate_iff: "config_validate c = Inr () \<longleftrightarrow> config_in_range c"
  by (simp add: config_validate_def config_in_range_def validate_canonical_ranges_def rbind_unit_ok
      validate_ble_ok validate_nostr_ok validate_limits_ok not_less not_le)

lemmas config_component_defs = channel_config_default_def channel_config_browser_optimized_def
  channel_config_high_memory_def channel_config_low_memory_def channel_config_testing_def
  delivery_default_def delivery_aggressive_def delivery_conservative_def delivery_testing_def
  session_config_default_def session_config_low_latency_def session_config_high_security_def
  session_config_testing_def monitoring_default_def monitoring_minimal_def monitoring_detailed_def
  monitoring_testing_def from_secs_def

lemmas config_transport_defs = ble_canonical_def ble_battery_optimized_def ble_development_def ble_testing_def
  nostr_canonical_def nostr_development_def nostr_testing_def limits_canonical_def limits_low_memory_def
  limits_testing_def

lemmas config_preset_defs = config_canonical_def config_browser_optimized_def config_server_optimized_def
  config_mobile_optimized_def config_testing_def config_high_security_def presets_embedded_def

lemma config_ranges:
  "validate_ble_config ble_canonical = Inr ()" "validate_ble_config ble_battery_optimized = Inr ()"
  "validate_ble_config ble_development = Inr ()" "validate_ble_config ble_testing = Inr ()"
  "validate_nostr_config nostr_canonical = Inr ()" "validate_nostr_config nostr_development = Inr ()"
  "validate_nostr_config nostr_testing = Inr ()" "validate_limits_config limits_canonical = Inr ()"
  "validate_limits_config limits_low_memory = Inr ()" "validate_limits_config limits_testing = Inr ()"
  by (simp_all add: validate_ble_ok validate_nostr_ok validate_limits_ok config_transport_defs)

lemma presets_in_range:
  "config_in_range config_canonical" "config_in_range config_browser_optimized"
  "config_in_range config_server_optimized" "config_in_range config_mobile_optimized"
  "config_in_range (config_testing nanos)" "config_in_range config_high_security"
  "config_in_range presets_embedded"
  unfolding config_validate_iff [symmetric]
  by (simp_all add: config_validate_def validate_canonical_ranges_def config_preset_defs config_ranges
      config_component_defs)

lemma apply_preset_ranges:
  "validate_ble_config (apply_to_ble_config p b) = Inr ()"
  "validate_nostr_config (apply_to_nostr_config p n) = Inr ()"
  "validate_limits_config (apply_to_limits_config p l) = Inr ()"
  by (cases p; simp add: config_ranges)+

lemma with_preset_in_range:
  assumes "config_in_range c"
  shows "config_in_range (with_preset p c)"
  using assms apply_preset_ranges [of p]
  unfolding validate_ble_ok validate_nostr_ok validate_limits_ok
  by (simp add: config_in_range_def with_preset_def)

lemma builder_preset_unchecked:
  "config_build_unchecked (builder_canonical b) = config_canonical"
  "config_build_unchecked (builder_browser_optimized b) = config_browser_optimized"
  "config_build_unchecked (builder_server_optimized b) = config_server_optimized"
  "config_build_unchecked (builder_mobile_optimized b) = config_mobile_optimized"
  "config_build_unchecked (builder_high_security b) = config_high_security"
  "config_build_unchecked (builder_testing nanos b) = config_testing nanos"
  by (simp_all add: config_build_unchecked_def builder_canonical_def builder_browser_optimized_def
      builder_server_optimized_def builder_mobile_optimized_def builder_high_security_def builder_testing_def
      config_preset_defs)

lemma config_build_eq:
  "config_build b = rbind (config_validate (config_build_unchecked b)) (\<lambda>_. Inr (config_build_unchecked b))"
  by (simp only: config_build_def config_build_unchecked_def Let_def)

lemma config_build_valid:
  "config_in_range (config_build_unchecked b) \<Longrightarrow> config_build b = Inr (config_build_unchecked b)"
  by (simp add: config_build_eq config_validate_iff [symmetric])

section \<open>Properties\<close>

text \<open>The two ways to a preset agree: whatever was set in the builder before, its preset methods build
  exactly the configuration that the constructor of the same name returns, and the preset of a fresh
  builder is the canonical one. In particular all of them pass the validation.\<close>

theorem builder_presets_agree:
  "config_build (builder_canonical b) = Inr config_canonical \<and>
   config_build (builder_browser_optimized b) = Inr config_browser_optimized \<and>
   config_build (builder_server_optimized b) = Inr config_server_optimized \<and>
   config_build (builder_mobile_optimized b) = Inr config_mobile_optimized \<and>
   config_build (builder_high_security b) = Inr config_high_security \<and>
   config_build (builder_testing nanos b) = Inr (config_testing nanos) \<and>
   config_build config_builder_new = Inr config_canonical"
proof -
  have new: "config_build_unchecked config_builder_new = config_canonical"
    by (simp add: config_build_unchecked_def config_builder_new_def config_canonical_def)
  show ?thesis by (simp add: config_build_valid builder_preset_unchecked presets_in_range new)
qed

text \<open>The validator accepts exactly the configurations within the documented ranges; the canonical
  configuration is one of them, and applying any sequence of presets to a valid configuration leaves a
  valid one, in which only the last preset is left.\<close>

theorem config_validation_correct:
  "(config_validate c = Inr ()) = config_in_range c \<and>
   config_validate (fold with_preset (ps @ [p]) config_canonical) = Inr () \<and>
   fold with_preset (ps @ [p]) c = with_preset p c"
proof -
  have last: "fold with_preset (ps @ [p]) c = with_preset p c" for c
  proof (induction ps arbitrary: c)
    case (Cons q ps)
    have "with_preset p (with_preset q c) = with_preset p c" by (cases p; simp add: with_preset_def)
    with Cons show ?case by simp
  qed simp
  show ?thesis unfolding last by (simp add: config_validate_iff with_preset_in_range presets_in_range)
qed

text \<open>The validator does not look at the limits of the rate limiter and of the message store: a
  configuration that refuses every message passes.\<close>

theorem validation_ignores_limits:
  "config_validate (c\<lparr>cfg_rate_limiting := r, cfg_message_store := m\<rparr>) = config_validate c"
  by (simp add: config_validate_def)

end
