(* ===== verification/Runtime_Wiring.thy ===== *)
theory Runtime_Wiring
  imports Monitoring Runtime_Tasks Configuration
begin

text \<open>
  The two ways an application starts the program: \<^verbatim>\<open>BitchatRuntime\<close>
  (\<^verbatim>\<open>src/crates/bitchat-runtime/src/runtime.rs\<close>) and \<^verbatim>\<open>RuntimeBuilder\<close> with its \<^verbatim>\<open>RuntimeHandle\<close>
  (\<^verbatim>\<open>src/crates/bitchat-runtime/src/builder.rs\<close>).

  The executor is the list of the tasks that were spawned on it, with a flag that tells whether the task still
  runs; the handle of a task is its position. Dropping a handle detaches the task, which goes on. A running
  transport may spawn tasks of its own and keeps no handle of them (the listener of
  \<^verbatim>\<open>src/crates/bitchat-nostr/src/transport.rs\<close>, line 332, the notification handler of
  \<^verbatim>\<open>src/crates/bitchat-ble/src/connection.rs\<close>, line 150): these are the tasks of kind \<open>KDetached\<close>, which a step
  \<open>WSpawns\<close> of the life of a runtime adds at any time, and which no abort of their transport reaches. A channel
  is the capacity it was made with. What is not under \<^verbatim>\<open>src\<close> or random is the record \<open>wiring_env\<close>: which
  capacities the channels of the asynchronous runtime accept (\<^verbatim>\<open>tokio\<close> panics on the others, zero among
  them), and whether the tasks could be constructed (they draw a key pair). A transport task is its type and
  the answer of its \<^verbatim>\<open>attach_channels\<close>. Log output is not represented.
\<close>

section \<open>Tasks and handles\<close>

datatype task_kind = KCore | KTransport transport_type | KIngress | KSession | KStorage | KSupervisor
  | KDetached transport_type

record spawned =
  sp_kind :: task_kind
  sp_live :: bool

type_synonym executor = "spawned list"
type_synonym join_handle = nat

definition spawn :: "task_kind \<Rightarrow> executor \<Rightarrow> executor \<times> join_handle" where
  "spawn k ex = (ex @ [\<lparr>sp_kind = k, sp_live = True\<rparr>], length ex)"

definition abort_task :: "join_handle \<Rightarrow> executor \<Rightarrow> executor" where
  "abort_task h ex = (if h < length ex then ex[h := (ex ! h)\<lparr>sp_live := False\<rparr>] else ex)"

definition is_finished :: "join_handle \<Rightarrow> executor \<Rightarrow> bool" where
  "is_finished h ex = (\<not> (h < length ex \<and> sp_live (ex ! h)))"

text \<open>A transport task that spawns a task while it runs.\<close>

definition spawn_detached :: "join_handle \<Rightarrow> executor \<Rightarrow> executor" where
  "spawn_detached h ex =
     (if is_finished h ex then ex
      else case sp_kind (ex ! h) of KTransport ty \<Rightarrow> fst (spawn (KDetached ty) ex) | _ \<Rightarrow> ex)"

record transport_task =
  tt_type :: transport_type
  tt_attach :: "unit result"

record wiring_env =
  we_mpsc_accepts :: "nat \<Rightarrow> bool"
  we_broadcast_accepts :: "nat \<Rightarrow> bool"
  we_core_new :: "unit result"
  we_session_new :: "unit result"
  we_storage_new :: "unit result"

text \<open>The four channels are made one after the other; each of them may panic.\<close>

definition create_channels :: "wiring_env \<Rightarrow> channel_config \<Rightarrow> unit result" where
  "create_channels env c =
     (if we_mpsc_accepts env (cc_command_buffer_size c) \<and> we_mpsc_accepts env (cc_event_buffer_size c)
        \<and> we_broadcast_accepts env (cc_effect_buffer_size c) \<and> we_mpsc_accepts env (cc_app_event_buffer_size c)
      then Inr () else Inl Panic)"

section \<open>The runtime\<close>

datatype logger_wrapper = Console console_logger | NoOp

record bitchat_runtime =
  rt_config :: bitchat_config
  rt_peer_id :: peer_id
  rt_logger :: logger_wrapper
  rt_pending_transports :: "transport_task list"
  rt_transport_handles :: "(transport_type \<times> join_handle) list"
  rt_core_logic_handle :: "join_handle option"
  rt_command_sender :: "nat option"
  rt_app_event_receiver :: "nat option"
  rt_running :: bool

definition runtime_new :: "peer_id \<Rightarrow> bitchat_config \<Rightarrow> bitchat_runtime" where
  "runtime_new pid c =
     \<lparr>rt_config = c, rt_peer_id = pid,
      rt_logger = (case cfg_test c of
          Some t \<Rightarrow> if tc_enable_logging t then Console (console_logger_new Monitoring.LlDebug) else NoOp
        | None \<Rightarrow> NoOp),
      rt_pending_transports = [], rt_transport_handles = [], rt_core_logic_handle = None,
      rt_command_sender = None, rt_app_event_receiver = None, rt_running = False\<rparr>"

definition for_cli :: "peer_id \<Rightarrow> bool \<Rightarrow> bitchat_runtime" where
  "for_cli pid verbose =
     \<lparr>rt_config = config_canonical
        \<lparr>cfg_channels := channel_config_default\<lparr>cc_command_buffer_size := 50, cc_app_event_buffer_size := 200\<rparr>,
         cfg_monitoring := if verbose then Configuration.monitoring_detailed else Configuration.monitoring_minimal\<rparr>,
      rt_peer_id = pid,
      rt_logger = Console (with_timestamps False
        (console_logger_new (if verbose then Monitoring.LlDebug else Monitoring.LlInfo))),
      rt_pending_transports = [], rt_transport_handles = [], rt_core_logic_handle = None,
      rt_command_sender = None, rt_app_event_receiver = None, rt_running = False\<rparr>"

definition for_testing :: "nat \<Rightarrow> peer_id \<Rightarrow> bitchat_runtime" where
  "for_testing nanos pid = runtime_new pid (config_testing nanos)"

abbreviation bad_setup :: "string \<Rightarrow> fault" where
  "bad_setup s \<equiv> Err (Transport (InvalidConfiguration s))"

definition rt_add_transport :: "transport_task \<Rightarrow> bitchat_runtime \<Rightarrow> bitchat_runtime \<times> unit result" where
  "rt_add_transport t rt =
     (if rt_running rt then (rt, Inl (bad_setup ''Cannot add transports to a running runtime''))
      else if tt_type t \<in> set (map tt_type (rt_pending_transports rt))
      then (rt, Inl (bad_setup ''Transport type is already registered''))
      else (rt\<lparr>rt_pending_transports := rt_pending_transports rt @ [t]\<rparr>, Inr ()))"

definition start_transport_task :: "transport_task \<Rightarrow> executor \<Rightarrow> executor \<times> join_handle result" where
  "start_transport_task t ex =
     (case tt_attach t of
        Inl f \<Rightarrow> (ex, Inl f)
      | Inr _ \<Rightarrow> (case spawn (KTransport (tt_type t)) ex of (ex, h) \<Rightarrow> (ex, Inr h)))"

fun start_transports ::
    "transport_task list \<Rightarrow> bitchat_runtime \<times> executor \<Rightarrow> (bitchat_runtime \<times> executor) \<times> unit result" where
  "start_transports [] s = (s, Inr ())"
| "start_transports (t # ts) (rt, ex) =
     (case start_transport_task t ex of
        (ex, Inl f) \<Rightarrow> ((rt, ex), Inl f)
      | (ex, Inr h) \<Rightarrow>
          start_transports ts (rt\<lparr>rt_transport_handles := map_put (tt_type t) h (rt_transport_handles rt)\<rparr>, ex))"

definition runtime_start ::
    "wiring_env \<Rightarrow> bitchat_runtime \<times> executor \<Rightarrow> (bitchat_runtime \<times> executor) \<times> unit result" where
  "runtime_start env s =
     (case s of (rt, ex) \<Rightarrow>
        if rt_running rt then (s, Inl (bad_setup ''Runtime already running''))
        else if rt_pending_transports rt = []
        then (s, Inl (bad_setup ''No transport tasks registered. Use add_transport() to register at least one transport.''))
        else case config_validate (rt_config rt) of
          Inl e \<Rightarrow> (s, Inl (Err (Errors.Configuration e)))
        | Inr _ \<Rightarrow>
            (case create_channels env (cfg_channels (rt_config rt)) of
               Inl f \<Rightarrow> (s, Inl f)
             | Inr _ \<Rightarrow>
                 let rt = rt\<lparr>rt_command_sender := Some (cc_command_buffer_size (cfg_channels (rt_config rt))),
                       rt_app_event_receiver := Some (cc_app_event_buffer_size (cfg_channels (rt_config rt)))\<rparr>
                 in case we_core_new env of
                      Inl f \<Rightarrow> ((rt, ex), Inl f)
                    | Inr _ \<Rightarrow>
                        (case spawn KCore ex of (ex, h) \<Rightarrow>
                           case start_transports (rt_pending_transports rt)
                               (rt\<lparr>rt_core_logic_handle := Some h, rt_pending_transports := []\<rparr>, ex) of
                             (s, Inl f) \<Rightarrow> (s, Inl f)
                           | ((rt, ex), Inr _) \<Rightarrow> ((rt\<lparr>rt_running := True\<rparr>, ex), Inr ()))))"

definition abort_all :: "join_handle list \<Rightarrow> executor \<Rightarrow> executor" where
  "abort_all hs ex = fold abort_task hs ex"

definition core_handles :: "bitchat_runtime \<Rightarrow> join_handle list" where
  "core_handles rt = (case rt_core_logic_handle rt of Some h \<Rightarrow> [h] | None \<Rightarrow> [])"

definition runtime_stop :: "bitchat_runtime \<times> executor \<Rightarrow> bitchat_runtime \<times> executor" where
  "runtime_stop s =
     (case s of (rt, ex) \<Rightarrow>
        if \<not> rt_running rt then s
        else (rt\<lparr>rt_running := False, rt_transport_handles := [], rt_core_logic_handle := None,
                rt_command_sender := None, rt_app_event_receiver := None\<rparr>,
              abort_all (core_handles rt) (abort_all (map snd (rt_transport_handles rt)) ex)))"

definition rt_take_app_event_receiver :: "bitchat_runtime \<Rightarrow> bitchat_runtime \<times> nat option" where
  "rt_take_app_event_receiver rt = (rt\<lparr>rt_app_event_receiver := None\<rparr>, rt_app_event_receiver rt)"

definition transport_types :: "bitchat_runtime \<Rightarrow> transport_type list" where
  "transport_types rt =
     (if rt_running rt then keys_of (rt_transport_handles rt) else map tt_type (rt_pending_transports rt))"

definition has_transport :: "transport_type \<Rightarrow> bitchat_runtime \<Rightarrow> bool" where
  "has_transport ty rt =
     (if rt_running rt then has_key (rt_transport_handles rt) ty
      else list_ex (\<lambda>t. tt_type t = ty) (rt_pending_transports rt))"

text \<open>Dropping the runtime.\<close>

definition runtime_drop :: "bitchat_runtime \<times> executor \<Rightarrow> executor" where
  "runtime_drop s =
     (case s of (rt, ex) \<Rightarrow>
        if rt_running rt then abort_all (core_handles rt) (abort_all (map snd (rt_transport_handles rt)) ex)
        else ex)"

section \<open>The builder\<close>

record monitoring_settings =
  ms_health_check_interval :: nat
  ms_restart_failed_tasks :: bool
  ms_max_restart_attempts :: u32
  ms_channel_buffer_size :: nat

definition monitoring_settings_default :: monitoring_settings where
  "monitoring_settings_default =
     \<lparr>ms_health_check_interval = secs 30, ms_restart_failed_tasks = True, ms_max_restart_attempts = 3,
      ms_channel_buffer_size = 1000\<rparr>"

text \<open>A transport builder is registered and never read: it stands for itself.\<close>

record 'b runtime_builder =
  rb_peer_id :: peer_id
  rb_config :: bitchat_config
  rb_transports :: "transport_task list"
  rb_transport_builders :: "(rust_string \<times> 'b) list"
  rb_enable_logging :: bool
  rb_monitoring_config :: monitoring_settings

definition runtime_builder_new :: "peer_id \<Rightarrow> 'b runtime_builder" where
  "runtime_builder_new pid =
     \<lparr>rb_peer_id = pid, rb_config = config_canonical, rb_transports = [], rb_transport_builders = [],
      rb_enable_logging = False, rb_monitoring_config = monitoring_settings_default\<rparr>"

definition with_config :: "bitchat_config \<Rightarrow> 'b runtime_builder \<Rightarrow> 'b runtime_builder" where
  "with_config c b = b\<lparr>rb_config := c\<rparr>"

definition rb_add_transport :: "transport_task \<Rightarrow> 'b runtime_builder \<Rightarrow> 'b runtime_builder" where
  "rb_add_transport t b = b\<lparr>rb_transports := rb_transports b @ [t]\<rparr>"

definition register_transport_builder :: "rust_string \<Rightarrow> 'b \<Rightarrow> 'b runtime_builder \<Rightarrow> 'b runtime_builder" where
  "register_transport_builder n tb b = b\<lparr>rb_transport_builders := map_put n tb (rb_transport_builders b)\<rparr>"

definition with_console_logging :: "task_log_level \<Rightarrow> 'b runtime_builder \<Rightarrow> 'b runtime_builder" where
  "with_console_logging l b = b\<lparr>rb_enable_logging := True\<rparr>"

definition with_no_logging :: "'b runtime_builder \<Rightarrow> 'b runtime_builder" where
  "with_no_logging b = b\<lparr>rb_enable_logging := False\<rparr>"

definition rb_with_monitoring :: "monitoring_settings \<Rightarrow> 'b runtime_builder \<Rightarrow> 'b runtime_builder" where
  "rb_with_monitoring m b = b\<lparr>rb_monitoring_config := m\<rparr>"

definition monitoring_interval :: "nat \<Rightarrow> 'b runtime_builder \<Rightarrow> 'b runtime_builder" where
  "monitoring_interval d b =
     b\<lparr>rb_monitoring_config := (rb_monitoring_config b)\<lparr>ms_health_check_interval := d\<rparr>\<rparr>"

definition restart_failed_tasks :: "bool \<Rightarrow> 'b runtime_builder \<Rightarrow> 'b runtime_builder" where
  "restart_failed_tasks e b =
     b\<lparr>rb_monitoring_config := (rb_monitoring_config b)\<lparr>ms_restart_failed_tasks := e\<rparr>\<rparr>"

definition channel_buffer_size :: "nat \<Rightarrow> 'b runtime_builder \<Rightarrow> 'b runtime_builder" where
  "channel_buffer_size n b =
     b\<lparr>rb_monitoring_config := (rb_monitoring_config b)\<lparr>ms_channel_buffer_size := n\<rparr>\<rparr>"

text \<open>\<open>rh_command_open\<close>: the task that receives the commands still listens.\<close>

record runtime_handle =
  rh_peer_id :: peer_id
  rh_command_sender :: nat
  rh_app_event_receiver :: "nat option"
  rh_supervisor_handle :: "join_handle option"
  rh_transport_handles :: "join_handle list"
  rh_running :: bool

text \<open>
  \<^verbatim>\<open>SupervisorTask::start\<close> with its two constructions that may fail; the tasks already spawned go on then.
\<close>

definition spawn_workers :: "wiring_env \<Rightarrow> executor \<Rightarrow> executor \<times> unit result" where
  "spawn_workers env ex =
     (case spawn KIngress ex of (ex, _) \<Rightarrow>
        case we_session_new env of
          Inl f \<Rightarrow> (ex, Inl f)
        | Inr _ \<Rightarrow>
            (case spawn KSession ex of (ex, _) \<Rightarrow>
               case we_storage_new env of
                 Inl f \<Rightarrow> (ex, Inl f)
               | Inr _ \<Rightarrow> (case spawn KStorage ex of (ex, _) \<Rightarrow> (ex, Inr ()))))"

fun attach_all :: "transport_task list \<Rightarrow> join_handle list \<Rightarrow> executor \<Rightarrow> executor \<times> join_handle list result" where
  "attach_all [] hs ex = (ex, Inr hs)"
| "attach_all (t # ts) hs ex =
     (case tt_attach t of
        Inl f \<Rightarrow> (ex, Inl f)
      | Inr _ \<Rightarrow> (case spawn (KTransport (tt_type t)) ex of (ex, h) \<Rightarrow> attach_all ts (hs @ [h]) ex))"

definition build_and_start :: "wiring_env \<Rightarrow> 'b runtime_builder \<Rightarrow> executor \<Rightarrow> executor \<times> runtime_handle result" where
  "build_and_start env b ex =
     (case create_channels env (cfg_channels (rb_config b)) of
        Inl f \<Rightarrow> (ex, Inl f)
      | Inr _ \<Rightarrow>
          (case spawn_workers env ex of
             (ex, Inl f) \<Rightarrow> (ex, Inl f)
           | (ex, Inr _) \<Rightarrow>
               (case attach_all (rb_transports b) [] ex of
                  (ex, Inl f) \<Rightarrow> (ex, Inl f)
                | (ex, Inr hs) \<Rightarrow>
                    (case spawn KSupervisor ex of (ex, h) \<Rightarrow>
                       (ex, Inr \<lparr>rh_peer_id = rb_peer_id b,
                          rh_command_sender = cc_command_buffer_size (cfg_channels (rb_config b)),
                          rh_app_event_receiver = Some (cc_app_event_buffer_size (cfg_channels (rb_config b))),
                          rh_supervisor_handle = Some h, rh_transport_handles = hs, rh_running = True\<rparr>)))))"

definition rh_take_app_event_receiver :: "runtime_handle \<Rightarrow> runtime_handle \<times> nat option" where
  "rh_take_app_event_receiver r = (r\<lparr>rh_app_event_receiver := None\<rparr>, rh_app_event_receiver r)"

text \<open>\<open>listening\<close>: the ingress task still has the receiver of the command channel.\<close>

definition rh_send_command :: "bool \<Rightarrow> runtime_handle \<Rightarrow> unit result" where
  "rh_send_command listening r =
     (if listening then Inr () else Inl (Err (Channel ''Failed to send command to runtime'')))"

definition rh_is_running :: "executor \<Rightarrow> runtime_handle \<Rightarrow> bool" where
  "rh_is_running ex r =
     (rh_running r \<and> (case rh_supervisor_handle r of Some h \<Rightarrow> \<not> is_finished h ex | None \<Rightarrow> False))"

text \<open>\<open>outcome\<close>: what the supervisor returns, \<open>None\<close> when it never does; a panic of it is an error.\<close>

definition rh_wait :: "unit result option \<Rightarrow> runtime_handle \<Rightarrow> runtime_handle \<times> unit result option" where
  "rh_wait outcome r =
     (case rh_supervisor_handle r of
        Some _ \<Rightarrow> (r\<lparr>rh_supervisor_handle := None\<rparr>,
           map_option (\<lambda>res. if res = Inl Panic then Inl (Err (Channel ''Supervisor task panicked'')) else res) outcome)
      | None \<Rightarrow> (r, Some (Inr ())))"

text \<open>
  The wait for the supervisor, at most ten seconds: \<open>meanwhile\<close> are the tasks that end by themselves in
  this time. The handle of the supervisor is gone afterwards, whether or not it has ended.
\<close>

definition rh_shutdown :: "join_handle list \<Rightarrow> executor \<times> runtime_handle \<Rightarrow> executor \<times> runtime_handle" where
  "rh_shutdown meanwhile s =
     (case s of (ex, r) \<Rightarrow>
        (abort_all (rh_transport_handles r)
           (case rh_supervisor_handle r of Some _ \<Rightarrow> abort_all meanwhile ex | None \<Rightarrow> ex),
         r\<lparr>rh_supervisor_handle := None, rh_running := False\<rparr>))"

definition create_test_runtime :: "wiring_env \<Rightarrow> peer_id \<Rightarrow> executor \<Rightarrow> executor \<times> runtime_handle result" where
  "create_test_runtime env pid =
     build_and_start env
       (channel_buffer_size 100 (restart_failed_tasks False (monitoring_interval 100000000000000
         (with_no_logging (runtime_builder_new pid :: unit runtime_builder)))))"

definition create_cli_runtime ::
    "wiring_env \<Rightarrow> peer_id \<Rightarrow> bitchat_config \<Rightarrow> executor \<Rightarrow> executor \<times> runtime_handle result" where
  "create_cli_runtime env pid c =
     build_and_start env
       (with_console_logging Monitoring.LlInfo (with_config c (runtime_builder_new pid :: unit runtime_builder)))"

definition create_browser_runtime :: "wiring_env \<Rightarrow> peer_id \<Rightarrow> executor \<Rightarrow> executor \<times> runtime_handle result" where
  "create_browser_runtime env pid =
     build_and_start env
       (channel_buffer_size 500 (restart_failed_tasks True (monitoring_interval (secs 60)
         (with_no_logging (with_config config_browser_optimized (runtime_builder_new pid :: unit runtime_builder))))))"

section \<open>Live tasks\<close>

definition live :: "executor \<Rightarrow> join_handle set" where
  "live ex = set (filter (\<lambda>h. sp_live (ex ! h)) [0..<length ex])"

lemma live_nil [simp]: "live [] = {}"
  by (simp add: live_def)

lemma live_iff: "h \<in> live ex \<longleftrightarrow> h < length ex \<and> sp_live (ex ! h)"
  by (auto simp: live_def)

lemma is_finished_iff: "is_finished h ex \<longleftrightarrow> h \<notin> live ex"
  by (simp add: is_finished_def live_iff)

lemma live_append: "live (ex @ new) = live ex \<union> (\<lambda>i. length ex + i) ` live new"
proof (rule set_eqI)
  fix h
  have "h \<in> (\<lambda>i. length ex + i) ` live new \<longleftrightarrow> length ex \<le> h \<and> h - length ex \<in> live new"
    by (auto intro!: image_eqI [of _ _ "h - length ex"])
  then show "h \<in> live (ex @ new) \<longleftrightarrow> h \<in> live ex \<union> (\<lambda>i. length ex + i) ` live new"
    by (auto simp: live_iff nth_append)
qed

lemma live_new [simp]: "live (map (\<lambda>k. \<lparr>sp_kind = k, sp_live = True\<rparr>) ks) = {0..<length ks}"
  by (auto simp: live_iff)

lemma live_new_one [simp]: "live [\<lparr>sp_kind = k, sp_live = True\<rparr>] = {0}"
  using live_new [of "[k]"] by simp

lemma length_abort [simp]: "length (abort_task h ex) = length ex"
  by (simp add: abort_task_def)

lemma kind_abort [simp]: "i < length ex \<Longrightarrow> sp_kind (abort_task h ex ! i) = sp_kind (ex ! i)"
  by (simp add: abort_task_def nth_list_update)

lemma live_abort: "live (abort_task h ex) = live ex - {h}"
  by (auto simp: live_iff abort_task_def nth_list_update split: if_splits)

lemma abort_all_simps [simp]: "abort_all [] ex = ex" "abort_all (h # hs) ex = abort_all hs (abort_task h ex)"
  by (simp_all add: abort_all_def)

lemma live_abort_all: "live (abort_all hs ex) = live ex - set hs"
  by (induction hs arbitrary: ex) (auto simp: live_abort)

lemma length_abort_all [simp]: "length (abort_all hs ex) = length ex"
  by (induction hs arbitrary: ex) auto

abbreviation running_task :: "task_kind \<Rightarrow> spawned" where
  "running_task k \<equiv> \<lparr>sp_kind = k, sp_live = True\<rparr>"

lemma live_spawned: "live (ex @ map running_task ks) = live ex \<union> {length ex..<length ex + length ks}"
  by (simp add: live_append add.commute)

lemma kinds_running [simp]: "map (sp_kind \<circ> running_task) ks = ks"
  by (simp add: comp_def)

section \<open>Starting the transports\<close>

definition attaches :: "transport_task \<Rightarrow> bool" where
  "attaches t = is_ok (tt_attach t)"

lemma update_new: "k \<notin> set (keys_of m) \<Longrightarrow> map_put k v m = m @ [(k, v)]"
  by (induction m) auto

text \<open>A prefix of transports that attach.\<close>

lemma start_transports_append:
  assumes "list_all attaches ts" and "distinct (map tt_type ts)"
    and "set (map tt_type ts) \<inter> set (keys_of (rt_transport_handles rt)) = {}"
  shows "start_transports (ts @ us) (rt, ex) =
     start_transports us
       (rt\<lparr>rt_transport_handles := rt_transport_handles rt @ zip (map tt_type ts) [length ex..<length ex + length ts]\<rparr>,
        ex @ map (\<lambda>t. running_task (KTransport (tt_type t))) ts)"
  using assms
proof (induction ts arbitrary: rt ex)
  case (Cons t ts)
  then obtain u where att: "tt_attach t = Inr u" by (auto simp: attaches_def is_ok_iff)
  have "[length ex..<length ex + length (t # ts)] = length ex # [Suc (length ex)..<Suc (length ex) + length ts]"
    by (simp add: upt_conv_Cons del: upt_Suc)
  with Cons att show ?case by (simp add: start_transport_task_def spawn_def update_new del: upt_Suc)
qed simp

lemmas start_transports_ok = start_transports_append [where us = "[]", simplified]

lemma start_transports_fails:
  assumes "list_all attaches ts" and "distinct (map tt_type ts)"
    and "set (map tt_type ts) \<inter> set (keys_of (rt_transport_handles rt)) = {}" and "tt_attach t = Inl f"
  shows "start_transports (ts @ t # us) (rt, ex) =
     ((rt\<lparr>rt_transport_handles := rt_transport_handles rt @ zip (map tt_type ts) [length ex..<length ex + length ts]\<rparr>,
       ex @ map (\<lambda>t. running_task (KTransport (tt_type t))) ts), Inl f)"
  using start_transports_append [OF assms(1-3)] assms(4) by (simp add: start_transport_task_def)

text \<open>The checks before anything is spawned.\<close>

definition startable :: "wiring_env \<Rightarrow> bitchat_runtime \<Rightarrow> bool" where
  "startable env rt \<longleftrightarrow> \<not> rt_running rt \<and> rt_pending_transports rt \<noteq> [] \<and> is_ok (config_validate (rt_config rt))
     \<and> is_ok (create_channels env (cfg_channels (rt_config rt))) \<and> is_ok (we_core_new env)"

definition opened :: "bitchat_runtime \<Rightarrow> join_handle \<Rightarrow> bitchat_runtime" where
  "opened rt h = rt\<lparr>rt_command_sender := Some (cc_command_buffer_size (cfg_channels (rt_config rt))),
     rt_app_event_receiver := Some (cc_app_event_buffer_size (cfg_channels (rt_config rt))),
     rt_core_logic_handle := Some h, rt_pending_transports := []\<rparr>"

lemma start_startable:
  assumes "startable env rt"
  shows "runtime_start env (rt, ex) =
     (case start_transports (rt_pending_transports rt) (opened rt (length ex), ex @ [running_task KCore]) of
        (s, Inl f) \<Rightarrow> (s, Inl f)
      | ((rt', ex'), Inr _) \<Rightarrow> ((rt'\<lparr>rt_running := True\<rparr>, ex'), Inr ()))"
  using assms by (auto simp: startable_def runtime_start_def opened_def spawn_def is_ok_iff Let_def)

lemma start_without_transports:
  assumes "\<not> rt_running rt" and "rt_pending_transports rt = []"
  shows "runtime_start env (rt, ex) = ((rt, ex),
     Inl (bad_setup ''No transport tasks registered. Use add_transport() to register at least one transport.''))"
  using assms by (simp add: runtime_start_def)

lemma start_not_startable:
  assumes "\<not> startable env rt" and "runtime_start env (rt, ex) = ((rt', ex'), r)"
  shows "ex' = ex \<and> \<not> is_ok r \<and> (\<exists>c a. rt' = rt\<lparr>rt_command_sender := c, rt_app_event_receiver := a\<rparr>)"
proof -
  have same: "\<exists>c a. rt = rt\<lparr>rt_command_sender := c, rt_app_event_receiver := a\<rparr>"
    by (rule exI [of _ "rt_command_sender rt"], rule exI [of _ "rt_app_event_receiver rt"]) simp
  with assms show ?thesis
    by (auto simp: startable_def runtime_start_def is_ok_iff Let_def split: if_splits sum.splits)
qed

text \<open>A start that succeeds.\<close>

definition started :: "bitchat_runtime \<Rightarrow> executor \<Rightarrow> bitchat_runtime" where
  "started rt ex = (opened rt (length ex))
     \<lparr>rt_transport_handles := zip (map tt_type (rt_pending_transports rt))
        [Suc (length ex)..<Suc (length ex) + length (rt_pending_transports rt)],
      rt_running := True\<rparr>"

definition started_tasks :: "bitchat_runtime \<Rightarrow> executor" where
  "started_tasks rt = map running_task (KCore # map (KTransport \<circ> tt_type) (rt_pending_transports rt))"

definition idle :: "bitchat_runtime \<Rightarrow> bool" where
  "idle rt \<longleftrightarrow> \<not> rt_running rt \<and> rt_transport_handles rt = [] \<and> rt_core_logic_handle rt = None
     \<and> distinct (map tt_type (rt_pending_transports rt))"

lemma runtime_start_ok:
  assumes "startable env rt" and "idle rt" and "list_all attaches (rt_pending_transports rt)"
  shows "runtime_start env (rt, ex) = ((started rt ex, ex @ started_tasks rt), Inr ())"
  using assms
  by (simp add: start_startable start_transports_ok idle_def opened_def started_def started_tasks_def comp_def
      del: upt_Suc)

lemma live_started: "live (ex @ started_tasks rt) =
    live ex \<union> {length ex..<Suc (length ex) + length (rt_pending_transports rt)}"
  unfolding started_tasks_def live_spawned by simp

section \<open>The life of a runtime\<close>

text \<open>What an application does with its runtime; a task may also end by itself, and a transport may spawn one.\<close>

datatype wiring_op =
  WAdd transport_task | WStart wiring_env | WStop | WTake | WEnds join_handle | WSpawns join_handle

fun wiring_step :: "wiring_op \<Rightarrow> bitchat_runtime \<times> executor \<Rightarrow> bitchat_runtime \<times> executor" where
  "wiring_step (WAdd t) (rt, ex) = (fst (rt_add_transport t rt), ex)"
| "wiring_step (WStart env) (rt, ex) = fst (runtime_start env (rt, ex))"
| "wiring_step WStop (rt, ex) = runtime_stop (rt, ex)"
| "wiring_step WTake (rt, ex) = (fst (rt_take_app_event_receiver rt), ex)"
| "wiring_step (WEnds h) (rt, ex) = (rt, abort_task h ex)"
| "wiring_step (WSpawns h) (rt, ex) = (rt, spawn_detached h ex)"

fun attaching :: "wiring_op \<Rightarrow> bool" where
  "attaching (WAdd t) = attaches t"
| "attaching op = True"

definition handles_ok :: "(transport_type \<times> join_handle) list \<Rightarrow> executor \<Rightarrow> bool" where
  "handles_ok hs ex = list_all (\<lambda>(ty, h). h < length ex \<and> sp_kind (ex ! h) = KTransport ty) hs"

text \<open>The running tasks that the transports have spawned themselves.\<close>

fun is_detached :: "task_kind \<Rightarrow> bool" where
  "is_detached (KDetached ty) = True"
| "is_detached k = False"

definition detached :: "executor \<Rightarrow> join_handle set" where
  "detached ex = set (filter (\<lambda>h. sp_live (ex ! h) \<and> is_detached (sp_kind (ex ! h))) [0..<length ex])"

lemma detached_iff: "h \<in> detached ex \<longleftrightarrow> h \<in> live ex \<and> is_detached (sp_kind (ex ! h))"
  by (auto simp: detached_def live_iff)

lemma detached_nil [simp]: "detached [] = {}"
  by (simp add: detached_def)

lemma detached_live: "detached ex \<subseteq> live ex"
  by (auto simp: detached_iff)

lemma detached_abort: "detached (abort_task h ex) = detached ex - {h}"
  by (auto simp: detached_iff live_abort live_iff)

lemma detached_append:
  "\<not> list_ex is_detached ks \<Longrightarrow> detached (ex @ map running_task ks) = detached ex"
  by (auto simp: detached_iff live_iff nth_append list_ex_iff split: if_splits)

lemma spawn_detached_eq:
  "spawn_detached h ex = ex \<or> (\<exists>ty. spawn_detached h ex = ex @ [running_task (KDetached ty)])"
  by (simp add: spawn_detached_def spawn_def split: task_kind.split)

lemma live_detached_more:
  "live (ex @ [running_task (KDetached ty)]) = insert (length ex) (live ex)"
  "detached (ex @ [running_task (KDetached ty)]) = insert (length ex) (detached ex)"
  by (auto simp: detached_iff live_iff nth_append less_Suc_eq)

text \<open>Every task that runs and is not detached has its handle in the runtime.\<close>

definition wiring_inv :: "bitchat_runtime \<times> executor \<Rightarrow> bool" where
  "wiring_inv s \<longleftrightarrow> (case s of (rt, ex) \<Rightarrow>
     list_all attaches (rt_pending_transports rt) \<and> handles_ok (rt_transport_handles rt) ex \<and>
     list_all (\<lambda>h. h < length ex \<and> sp_kind (ex ! h) = KCore) (core_handles rt) \<and>
     (if rt_running rt
      then rt_pending_transports rt = [] \<and>
        live ex \<subseteq> detached ex \<union> set (core_handles rt) \<union> snd ` set (rt_transport_handles rt)
      else idle rt \<and> live ex = detached ex))"

lemma handles_ok_abort: "handles_ok hs (abort_task h ex) = handles_ok hs ex"
  by (auto simp: handles_ok_def list_all_iff)

lemma handles_ok_nil [simp]: "handles_ok [] ex"
  by (simp add: handles_ok_def)

lemma handles_ok_append: "handles_ok hs ex \<Longrightarrow> handles_ok hs (ex @ new)"
  by (auto simp: handles_ok_def list_all_iff nth_append)

lemma handles_ok_started:
  "handles_ok (rt_transport_handles (started rt ex)) (ex @ started_tasks rt)"
  by (auto simp: handles_ok_def started_def started_tasks_def list_all_iff set_zip nth_append nth_Cons'
      simp del: upt_Suc)

lemma handles_not_detached:
  assumes "wiring_inv (rt, ex)"
  shows "detached ex \<inter> (set (core_handles rt) \<union> snd ` set (rt_transport_handles rt)) = {}"
  using assms by (auto simp: wiring_inv_def handles_ok_def list_all_iff detached_iff)

lemma all_aborted:
  assumes "wiring_inv (rt, ex)" and "rt_running rt"
  shows "live (abort_all (core_handles rt) (abort_all (map snd (rt_transport_handles rt)) ex)) = detached ex"
  using assms handles_not_detached [OF assms(1)] detached_live [of ex]
  by (auto simp: wiring_inv_def live_abort_all)

lemma runtime_stop_live:
  "wiring_inv (rt, ex) \<Longrightarrow> live (snd (runtime_stop (rt, ex))) = detached ex"
  using all_aborted [of rt ex] by (auto simp: wiring_inv_def runtime_stop_def split: if_splits)

lemma runtime_drop_live:
  "wiring_inv (rt, ex) \<Longrightarrow> live (runtime_drop (rt, ex)) = detached ex"
  using all_aborted [of rt ex] by (auto simp: wiring_inv_def runtime_drop_def split: if_splits)

lemma detached_abort_all: "detached (abort_all hs ex) = detached ex - set hs"
  by (induction hs arbitrary: ex) (auto simp: detached_abort)

lemma wiring_inv_start:
  assumes inv: "wiring_inv (rt, ex)"
  shows "wiring_inv (fst (runtime_start env (rt, ex)))"
proof (cases "startable env rt")
  case True
  with inv have idle: "idle rt" and none: "live ex = detached ex" and att: "list_all attaches (rt_pending_transports rt)"
    by (auto simp: wiring_inv_def startable_def)
  have "set (core_handles (started rt ex)) \<union> snd ` set (rt_transport_handles (started rt ex)) =
      {length ex..<Suc (length ex) + length (rt_pending_transports rt)}"
    by (auto simp: core_handles_def started_def opened_def simp flip: set_map simp del: upt_Suc)
  moreover have "detached (ex @ started_tasks rt) = detached ex"
    unfolding started_tasks_def by (rule detached_append) (simp add: list_ex_iff)
  moreover have "list_all (\<lambda>h. h < length (ex @ started_tasks rt) \<and> sp_kind ((ex @ started_tasks rt) ! h) = KCore)
      (core_handles (started rt ex))"
    by (simp add: core_handles_def started_def opened_def started_tasks_def)
  ultimately show ?thesis
    using handles_ok_started [of rt ex] none
    by (simp add: runtime_start_ok [OF True idle att] wiring_inv_def live_started Un_assoc)
      (simp add: started_def opened_def)
next
  case False
  obtain rt' ex' r where st: "runtime_start env (rt, ex) = ((rt', ex'), r)" by (metis surj_pair)
  from start_not_startable [OF False this] inv st show ?thesis
    by (auto simp: wiring_inv_def idle_def core_handles_def)
qed

lemma wiring_inv_step:
  assumes "wiring_inv s" and "attaching op"
  shows "wiring_inv (wiring_step op s)"
proof -
  obtain rt ex where s: "s = (rt, ex)" by (cases s)
  show ?thesis
  proof (cases op)
    case (WAdd t)
    with assms s show ?thesis
      by (auto simp: wiring_inv_def rt_add_transport_def idle_def core_handles_def)
  next
    case (WStart env)
    with assms s wiring_inv_start show ?thesis by simp
  next
    case WStop
    with assms s runtime_stop_live [of rt ex] handles_not_detached [of rt ex] show ?thesis
      by (auto simp: wiring_inv_def runtime_stop_def idle_def core_handles_def detached_abort_all split: if_splits)
  next
    case WTake
    with assms s show ?thesis
      by (auto simp: wiring_inv_def rt_take_app_event_receiver_def idle_def core_handles_def)
  next
    case (WEnds h)
    with assms s show ?thesis
      by (auto simp: wiring_inv_def live_abort detached_abort handles_ok_abort list_all_iff)
  next
    case (WSpawns h)
    from spawn_detached_eq [of h ex] show ?thesis
    proof
      assume "\<exists>ty. spawn_detached h ex = ex @ [running_task (KDetached ty)]"
      with WSpawns assms s show ?thesis
        by (auto simp: wiring_inv_def live_detached_more list_all_iff nth_append intro: handles_ok_append)
    qed (use WSpawns assms s in simp)
  qed
qed

lemma wiring_inv_run: "list_all attaching ops \<Longrightarrow> wiring_inv s \<Longrightarrow> wiring_inv (fold wiring_step ops s)"
  by (induction ops arbitrary: s) (auto simp: wiring_inv_step)

lemma wiring_inv_new [simp]: "wiring_inv (runtime_new pid c, [])"
  by (simp add: wiring_inv_def runtime_new_def idle_def core_handles_def)

definition toy_transport :: "transport_type \<Rightarrow> transport_task" where
  "toy_transport ty = \<lparr>tt_type = ty, tt_attach = Inr ()\<rparr>"

definition broken_transport :: "transport_type \<Rightarrow> transport_task" where
  "broken_transport ty = \<lparr>tt_type = ty, tt_attach = Inl (Err (Channel ''gone''))\<rparr>"

definition toy_wiring :: wiring_env where
  "toy_wiring = \<lparr>we_mpsc_accepts = (\<lambda>n. 0 < n), we_broadcast_accepts = (\<lambda>n. 0 < n), we_core_new = Inr (),
     we_session_new = Inr (), we_storage_new = Inr ()\<rparr>"

text \<open>C40: Whatever an application does with a runtime whose transports accept their channels, whatever tasks end
  by themselves and whatever tasks the transports spawn meanwhile: stopping or dropping the runtime ends the
  core and every transport task it has ever started, and of all tasks that still run exactly those are left
  that a transport has spawned itself, whose handle nobody has; a runtime that is not running has no others
  either.\<close>

theorem runtime_leaves_only_detached:
  assumes "list_all attaching ops" and "fold wiring_step ops (runtime_new pid c, []) = (rt, ex)"
  shows "live (snd (runtime_stop (rt, ex))) = detached ex \<and> live (runtime_drop (rt, ex)) = detached ex \<and>
    (\<not> rt_running rt \<longrightarrow> live ex = detached ex)"
proof -
  have "wiring_inv (rt, ex)" using wiring_inv_run [OF assms(1) wiring_inv_new [of pid c]] assms(2) by simp
  then show ?thesis by (simp add: runtime_stop_live runtime_drop_live) (simp add: wiring_inv_def)
qed

lemma configs_valid:
  "config_validate config_canonical = Inr ()" "config_validate (config_testing nanos) = Inr ()"
  "config_validate (rt_config (for_cli pid verbose)) = Inr ()"
  using presets_in_range(1)
  by (simp_all add: config_validate_iff presets_in_range for_cli_def)
    (simp add: config_in_range_def config_canonical_def config_component_defs config_transport_defs)

text \<open>A start brings up the core logic and one task for every registered transport, in the order of their
  registration, and leaves the runtime such that it can neither be extended nor started a second time; once it
  was stopped it has to be given new transports before it can be started again.\<close>

theorem runtime_start_correct:
  assumes "idle rt" and "startable env rt" and "list_all attaches (rt_pending_transports rt)"
    and "runtime_start env (rt, ex) = ((rt', ex'), r)"
  shows "r = Inr () \<and> rt_running rt' \<and> transport_types rt' = map tt_type (rt_pending_transports rt)
    \<and> map sp_kind (drop (length ex) ex') = KCore # map (KTransport \<circ> tt_type) (rt_pending_transports rt)
    \<and> live ex' = live ex \<union> {length ex..<length ex'}
    \<and> (\<forall>t. \<not> is_ok (snd (rt_add_transport t rt')))
    \<and> runtime_start env (rt', ex') = ((rt', ex'), Inl (bad_setup ''Runtime already running''))
    \<and> \<not> is_ok (snd (runtime_start env (runtime_stop (rt', ex'))))"
proof -
  have eqs: "rt' = started rt ex" "ex' = ex @ started_tasks rt" "r = Inr ()"
    using runtime_start_ok [OF assms(2,1,3), of ex] assms(4) by auto
  have run: "rt_running (started rt ex)" by (simp add: started_def)
  have "rt_pending_transports (fst (runtime_stop (started rt ex, ex'))) = []"
    by (simp add: runtime_stop_def started_def opened_def)
  moreover have "length (ex @ started_tasks rt) = Suc (length ex) + length (rt_pending_transports rt)"
    by (simp add: started_tasks_def)
  ultimately show ?thesis
    unfolding eqs using run
    by (auto simp: rt_add_transport_def runtime_start_def transport_types_def live_started runtime_stop_def)
      (simp_all add: started_def opened_def started_tasks_def del: upt_Suc)
qed

definition toy_runtime :: "transport_task list \<Rightarrow> bitchat_runtime" where
  "toy_runtime ts = (runtime_new (replicate 8 1) (config_testing 7))\<lparr>rt_pending_transports := ts\<rparr>"

lemma toy_runtime_startable:
  "ts \<noteq> [] \<Longrightarrow> startable toy_wiring (toy_runtime ts)"
  "idle (toy_runtime ts) = distinct (map tt_type ts)" "rt_pending_transports (toy_runtime ts) = ts"
proof -
  have "cfg_channels (config_testing 7) = channel_config_testing" by (simp add: config_testing_def)
  then show "ts \<noteq> [] \<Longrightarrow> startable toy_wiring (toy_runtime ts)"
    by (simp add: startable_def toy_runtime_def runtime_new_def configs_valid create_channels_def toy_wiring_def
        channel_config_testing_def)
qed (simp_all add: idle_def toy_runtime_def runtime_new_def)

text \<open>The listener of the Nostr transport, spawned by the task at position 1, outlives the runtime.\<close>

theorem runtime_leaves_only_detached_witness:
  "live (snd (runtime_stop (fold wiring_step
     [WAdd (toy_transport Nostr), WStart toy_wiring, WSpawns 1] (runtime_new (replicate 8 1) (config_testing 7), [])))) =
   {2}"
proof -
  let ?ops = "[WAdd (toy_transport Nostr), WStart toy_wiring, WSpawns 1]"
  let ?rt = "toy_runtime [toy_transport Nostr]"
  have att: "list_all attaching ?ops" by (simp add: attaches_def toy_transport_def)
  have add: "fst (rt_add_transport (toy_transport Nostr) (runtime_new (replicate 8 1) (config_testing 7))) = ?rt"
    by (simp add: rt_add_transport_def toy_runtime_def runtime_new_def)
  have start: "runtime_start toy_wiring (?rt, []) = ((started ?rt [], started_tasks ?rt), Inr ())"
    using runtime_start_ok [of toy_wiring ?rt "[]"]
    by (simp add: toy_runtime_startable attaches_def toy_transport_def)
  let ?ex = "[running_task KCore, running_task (KTransport Nostr), running_task (KDetached Nostr)]"
  have "spawn_detached 1 (started_tasks ?rt) = ?ex"
    by (simp add: started_tasks_def toy_runtime_startable toy_transport_def spawn_detached_def is_finished_def spawn_def)
  then have s: "fold wiring_step ?ops (runtime_new (replicate 8 1) (config_testing 7), []) = (started ?rt [], ?ex)"
    using add start by simp
  have "detached ?ex = {2}" by (auto simp: detached_iff live_iff less_Suc_eq numeral_2_eq_2)
  with runtime_leaves_only_detached [OF att s] s show ?thesis by simp
qed

theorem runtime_start_correct_witness:
  "rt_running (fst (fst (runtime_start toy_wiring (toy_runtime [toy_transport Ble, toy_transport Nostr], []))))"
proof -
  let ?rt = "toy_runtime [toy_transport Ble, toy_transport Nostr]"
  obtain rt' ex' r where st: "runtime_start toy_wiring (?rt, []) = ((rt', ex'), r)" by (metis surj_pair)
  have "rt_running rt'"
    using runtime_start_correct [OF _ _ _ st]
    by (simp add: toy_runtime_startable attaches_def toy_transport_def)
  with st show ?thesis by simp
qed

text \<open>When a transport refuses its channels the start reports the error, but the core logic and the transports
  before it run already: the runtime does not count as running, so that neither a second start, nor a stop, nor
  dropping it ends them, and it lists no transport.\<close>

theorem failed_start_leaks:
  assumes "idle rt" and "startable env rt" and "rt_pending_transports rt = ts @ t # us"
    and "list_all attaches ts" and "tt_attach t = Inl f"
    and "runtime_start env (rt, ex) = ((rt', ex'), r)"
  shows "r = Inl f \<and> \<not> rt_running rt' \<and> transport_types rt' = []
    \<and> live ex' = live ex \<union> {length ex..<Suc (length ex) + length ts}
    \<and> runtime_stop (rt', ex') = (rt', ex') \<and> runtime_drop (rt', ex') = ex'
    \<and> (\<exists>s. runtime_start env (rt', ex') = ((rt', ex'), Inl (bad_setup s)))"
proof -
  let ?rt = "(opened rt (length ex))\<lparr>rt_transport_handles :=
      zip (map tt_type ts) [Suc (length ex)..<Suc (length ex) + length ts]\<rparr>"
  have st: "runtime_start env (rt, ex) =
      ((?rt, (ex @ [running_task KCore]) @ map (\<lambda>t. running_task (KTransport (tt_type t))) ts), Inl f)"
    using assms(1-5) by (simp add: start_startable idle_def start_transports_fails opened_def del: upt_Suc)
  have idle: "\<not> rt_running ?rt" "rt_pending_transports ?rt = []"
    using assms(1) by (simp_all add: opened_def idle_def)
  from st assms(6) have eqs: "rt' = ?rt" "r = Inl f"
    "ex' = ex @ map running_task (KCore # map (\<lambda>t. KTransport (tt_type t)) ts)" by (auto simp: comp_def)
  have "live ex' = live ex \<union> {length ex..<Suc (length ex) + length ts}"
    unfolding eqs live_spawned by simp
  with start_without_transports [OF idle] idle show ?thesis
    unfolding eqs(1,2) by (simp add: transport_types_def runtime_stop_def runtime_drop_def del: upt_Suc)
qed

theorem failed_start_leaks_witness:
  "live (snd (fst (runtime_start toy_wiring (toy_runtime [toy_transport Ble, broken_transport Nostr], [])))) = {0, 1}"
proof -
  let ?rt = "toy_runtime [toy_transport Ble, broken_transport Nostr]"
  obtain rt' ex' r where st: "runtime_start toy_wiring (?rt, []) = ((rt', ex'), r)" by (metis surj_pair)
  have "distinct (map tt_type [toy_transport Ble, broken_transport Nostr])"
    by (simp add: toy_transport_def broken_transport_def)
  then have idle: "idle ?rt" and can: "startable toy_wiring ?rt"
    and pending: "rt_pending_transports ?rt = [toy_transport Ble] @ broken_transport Nostr # []"
    by (simp_all add: toy_runtime_startable)
  have att: "list_all attaches [toy_transport Ble]" "tt_attach (broken_transport Nostr) = Inl (Err (Channel ''gone''))"
    by (simp_all add: attaches_def toy_transport_def broken_transport_def)
  have "live ex' = {0..<2}"
    using failed_start_leaks [OF idle can pending att st] by (simp add: numeral_2_eq_2)
  moreover have "{0..<2} = {0, 1 :: nat}" by auto
  ultimately show ?thesis using st by simp
qed

section \<open>The builder\<close>

text \<open>Three settings of the builder are stored and never read.\<close>

lemma build_and_start_cong:
  assumes "rb_peer_id b = rb_peer_id b'" and "rb_config b = rb_config b'" and "rb_transports b = rb_transports b'"
  shows "build_and_start env b ex = build_and_start env b' ex"
  by (simp only: build_and_start_def assms)

lemma builder_settings_ignored:
  "build_and_start env (channel_buffer_size n b) ex = build_and_start env b ex"
  "build_and_start env (with_console_logging l b) ex = build_and_start env b ex"
  "build_and_start env (register_transport_builder name tb b) ex = build_and_start env b ex"
  by (auto intro!: build_and_start_cong
      simp: channel_buffer_size_def with_console_logging_def register_transport_builder_def)

lemma attach_all_ok:
  "list_all attaches ts \<Longrightarrow> attach_all ts hs ex =
     (ex @ map running_task (map (KTransport \<circ> tt_type) ts), Inr (hs @ [length ex..<length ex + length ts]))"
proof (induction ts arbitrary: hs ex)
  case (Cons t ts)
  then obtain u where att: "tt_attach t = Inr u" by (auto simp: attaches_def is_ok_iff)
  have "[length ex..<length ex + length (t # ts)] = length ex # [Suc (length ex)..<Suc (length ex) + length ts]"
    by (simp add: upt_conv_Cons del: upt_Suc)
  with Cons att show ?case by (simp add: spawn_def del: upt_Suc)
qed simp

lemma spawn_workers_ok:
  "is_ok (we_session_new env) \<Longrightarrow> is_ok (we_storage_new env) \<Longrightarrow>
   spawn_workers env ex = (ex @ map running_task [KIngress, KSession, KStorage], Inr ())"
  by (auto simp: spawn_workers_def spawn_def is_ok_iff)

text \<open>The runtime checks its configuration before it creates the channels; the builder does not, and panics in
  the channels for a capacity of zero.\<close>

theorem builder_does_not_validate:
  assumes "\<not> we_mpsc_accepts env 0" and "\<not> we_broadcast_accepts env 0" and "\<not> rt_running rt"
    and "rt_pending_transports rt \<noteq> []" and "rb_config b = rt_config rt"
    and "0 \<in> {cc_command_buffer_size (cfg_channels (rt_config rt)), cc_event_buffer_size (cfg_channels (rt_config rt)),
        cc_effect_buffer_size (cfg_channels (rt_config rt)), cc_app_event_buffer_size (cfg_channels (rt_config rt))}"
  shows "(\<exists>e. runtime_start env (rt, ex) = ((rt, ex), Inl (Err (Errors.Configuration e)))) \<and>
    build_and_start env b ex = (ex, Inl Panic)"
  using assms by (auto simp: runtime_start_def build_and_start_def create_channels_def config_validate_def)

theorem builder_does_not_validate_witness:
  "build_and_start toy_wiring
     (with_config (config_canonical\<lparr>cfg_channels := channel_config_default\<lparr>cc_event_buffer_size := 0\<rparr>\<rparr>)
       (runtime_builder_new [] :: unit runtime_builder)) [] = ([], Inl Panic)"
proof -
  let ?c = "config_canonical\<lparr>cfg_channels := channel_config_default\<lparr>cc_event_buffer_size := 0\<rparr>\<rparr>"
  have "rt_config (toy_runtime [toy_transport Ble]\<lparr>rt_config := ?c\<rparr>) = ?c" by simp
  then show ?thesis
    using builder_does_not_validate [of toy_wiring "toy_runtime [toy_transport Ble]\<lparr>rt_config := ?c\<rparr>"
        "with_config ?c (runtime_builder_new [] :: unit runtime_builder)" "[]"]
    by (simp add: toy_runtime_startable toy_wiring_def toy_runtime_def runtime_new_def with_config_def)
qed

text \<open>The tasks the builder brings up: the three workers, the transports in their order, the supervisor.\<close>

definition built_tasks :: "'b runtime_builder \<Rightarrow> task_kind list" where
  "built_tasks b = [KIngress, KSession, KStorage] @ map (KTransport \<circ> tt_type) (rb_transports b) @ [KSupervisor]"

definition buildable :: "wiring_env \<Rightarrow> 'b runtime_builder \<Rightarrow> bool" where
  "buildable env b \<longleftrightarrow> is_ok (create_channels env (cfg_channels (rb_config b))) \<and> is_ok (we_session_new env)
     \<and> is_ok (we_storage_new env) \<and> list_all attaches (rb_transports b)"

definition built_handle :: "'b runtime_builder \<Rightarrow> executor \<Rightarrow> runtime_handle" where
  "built_handle b ex =
     \<lparr>rh_peer_id = rb_peer_id b, rh_command_sender = cc_command_buffer_size (cfg_channels (rb_config b)),
      rh_app_event_receiver = Some (cc_app_event_buffer_size (cfg_channels (rb_config b))),
      rh_supervisor_handle = Some (length ex + 3 + length (rb_transports b)),
      rh_transport_handles = [length ex + 3..<length ex + 3 + length (rb_transports b)], rh_running = True\<rparr>"

lemma build_ok:
  assumes "buildable env b"
  shows "build_and_start env b ex = (ex @ map running_task (built_tasks b), Inr (built_handle b ex))"
  using assms
  by (auto simp: buildable_def build_and_start_def spawn_workers_ok attach_all_ok built_tasks_def built_handle_def
      spawn_def is_ok_iff eval_nat_numeral simp del: upt_Suc split: sum.split prod.split)

text \<open>The runtime the builder returns counts as running until it is shut down, and the shutdown ends all its
  transports. The supervisor and its workers are left to themselves: those that have not ended by
  themselves in the time allowed go on, and nobody has a handle of them any more.\<close>

theorem builder_shutdown:
  assumes "buildable env b" and "build_and_start env b ex = (ex1, r)"
    and "set meanwhile \<inter> set (rh_transport_handles (projr r)) = {}"
  shows "\<exists>h. r = Inr h \<and> map sp_kind (drop (length ex) ex1) = built_tasks b \<and> rh_is_running ex1 h \<and>
     (case rh_shutdown meanwhile (ex1, h) of (ex2, h') \<Rightarrow>
        \<not> rh_is_running ex2 h' \<and> live ex2 = live ex1 - set meanwhile - set (rh_transport_handles h) \<and>
        (\<forall>s. rh_supervisor_handle h = Some s \<longrightarrow> s \<notin> set meanwhile \<longrightarrow>
           s \<in> live ex2 \<and> sp_kind (ex1 ! s) = KSupervisor))"
proof -
  have eqs: "ex1 = ex @ map running_task (built_tasks b)" "r = Inr (built_handle b ex)"
    using build_ok [OF assms(1), of ex] assms(2) by auto
  have len: "length (built_tasks b) = 4 + length (rb_transports b)" by (simp add: built_tasks_def)
  have sup: "ex1 ! (length ex + 3 + length (rb_transports b)) = running_task KSupervisor"
    by (simp add: eqs nth_append built_tasks_def)
  have "length ex + 3 + length (rb_transports b) < length ex1" by (simp add: eqs len)
  with sup have "length ex + 3 + length (rb_transports b) \<in> live ex1" by (simp add: live_iff)
  with sup show ?thesis
    unfolding eqs(2) by (auto simp: built_handle_def rh_is_running_def is_finished_iff rh_shutdown_def
        live_abort_all simp del: upt_Suc) (simp_all add: eqs)
qed

theorem builder_shutdown_witness:
  "case build_and_start toy_wiring (rb_add_transport (toy_transport Ble) (runtime_builder_new [] :: unit runtime_builder)) []
   of (ex1, r) \<Rightarrow> rh_is_running ex1 (projr r) \<and> \<not> rh_is_running (fst (rh_shutdown [] (ex1, projr r)))
     (snd (rh_shutdown [] (ex1, projr r)))"
proof -
  let ?b = "rb_add_transport (toy_transport Ble) (runtime_builder_new [] :: unit runtime_builder)"
  obtain ex1 r where st: "build_and_start toy_wiring ?b [] = (ex1, r)" by (metis surj_pair)
  have "buildable toy_wiring ?b"
    by (simp add: buildable_def rb_add_transport_def runtime_builder_new_def toy_wiring_def toy_transport_def
        attaches_def create_channels_def config_canonical_def channel_config_default_def)
  from builder_shutdown [OF this st, of "[]"] st show ?thesis
    by (cases "rh_shutdown [] (ex1, projr r)") auto
qed

text \<open>The loop of the supervisor ends only after a call of \<^verbatim>\<open>SupervisorTask::shutdown\<close>, which neither the runtime
  nor its handle makes: in a run without one the supervisor goes on, also after the shutdown command of
  the application.\<close>

fun unsupervised :: "'u sys_label \<Rightarrow> bool" where
  "unsupervised LShutdown = True"
| "unsupervised l = False"

lemma supervisor_kept:
  "sv_running (handle_internal_event now0 now1 e sv) = sv_running sv"
  "sv_shutdown_requested (handle_internal_event now0 now1 e sv) = sv_shutdown_requested sv"
  by (cases e; simp add: update_task_health_def Let_def split: option.splits)+

theorem supervisor_never_ends:
  assumes "sys_run env s ls s'" and "supervising s" and "list_all (Not \<circ> unsupervised) ls"
  shows "supervising s' \<and> (\<forall>now. sys_step env (LTick now) s' \<noteq> None)"
proof -
  have "supervising s'"
  proof (rule sys_run_invariant [OF assms(1), of supervising "Not \<circ> unsupervised"])
    fix l s1 s2
    assume "(Not \<circ> unsupervised) l" and "supervising s1" and "sys_step env l s1 = Some s2"
    then show "supervising s2"
      by (cases l) (auto simp: supervising_def after_ingress_def perform_health_check_def supervisor_kept
          split: if_splits prod.splits list.splits elim!: session_iterationE storage_iterationE)
  qed (use assms in auto)
  then show ?thesis by simp
qed

theorem supervisor_never_ends_witness:
  "\<exists>s'. sys_step toy_task_env (LTick (secs 61)) toy_tasks = Some s' \<and> supervising s'"
proof -
  let ?s = "toy_tasks\<lparr>sy_supervisor := perform_health_check (secs 61) (sy_supervisor toy_tasks)\<rparr>"
  have sup: "supervising toy_tasks"
    by (simp add: supervising_def toy_tasks_def supervisor_start_def toy_supervisor_def supervisor_new_def)
  then have tick: "sys_step toy_task_env (LTick (secs 61)) toy_tasks = Some ?s" by simp
  have "sys_run toy_task_env toy_tasks ([] @ [LTick (secs 61)]) ?s" by (rule run_step [OF run_start tick])
  from supervisor_never_ends [OF this sup] tick show ?thesis by simp
qed
end
