(* ===== verification/Terminal_Interface.thy ===== *)
theory Terminal_Interface
  imports Channel_Messages
begin

text \<open>
  The terminal interface of the command line client
  (\<^verbatim>\<open>src/crates/bitchat-cli/src/terminal_interface.rs\<close>): the state it shows, the events of the core logic
  it processes, its maintenance and the commands it sends.

  The mutex around the state is a flag that tells whether it is poisoned: a panic while it is held does that.
  \<open>checked\<close> tells whether the program was built with overflow checks (a debug build); without them the
  arithmetic wraps around. The channel of commands is the list of the commands sent and not yet taken, its
  capacity and whether the receiver is there. Log output is not represented.
\<close>

section \<open>State\<close>

record peer_ui =
  pu_peer_id :: peer_id
  pu_status :: connection_status
  pu_transport :: "transport_type option"
  pu_last_seen :: "u64 option"
  pu_message_count :: u32

datatype message_direction = Incoming | Outgoing

record ui_message =
  um_from :: peer_id
  um_to :: "peer_id option"
  um_content :: rust_string
  um_timestamp :: u64
  um_direction :: message_direction

datatype ui_status = UsStarting | UsReady | UsBusy string | UsError string | UsShuttingDown

record ui_state =
  ui_discovery_active :: bool
  ui_peers :: "(peer_id \<times> peer_ui) list"
  ui_recent_messages :: "ui_message list"
  ui_system_status :: ui_status
  ui_busy_operations :: "string list"

definition ui_state_default :: ui_state where
  "ui_state_default = \<lparr>ui_discovery_active = False, ui_peers = [], ui_recent_messages = [],
     ui_system_status = UsStarting, ui_busy_operations = []\<rparr>"

record terminal =
  tm_state :: ui_state
  tm_poisoned :: bool
  tm_commands :: "command list"
  tm_capacity :: nat
  tm_commands_open :: bool
  tm_running :: bool
  tm_our_peer_id :: peer_id

definition terminal_new :: "peer_id \<Rightarrow> nat \<Rightarrow> terminal" where
  "terminal_new pid capacity =
     \<lparr>tm_state = ui_state_default\<lparr>ui_system_status := UsStarting\<rparr>, tm_poisoned = False, tm_commands = [],
      tm_capacity = capacity, tm_commands_open = True, tm_running = False, tm_our_peer_id = pid\<rparr>"

definition poisoned_error :: fault where
  "poisoned_error = Err (Transport (InvalidConfiguration ''UI state lock poisoned''))"

section \<open>Events of the core logic\<close>

definition increment :: "bool \<Rightarrow> u32 \<Rightarrow> u32 result" where
  "increment checked n = (if checked \<and> n = -1 then Inl Panic else Inr (n + 1))"

definition MAX_RECENT :: nat where "MAX_RECENT = 100"

definition push_message :: "ui_message \<Rightarrow> ui_state \<Rightarrow> ui_state" where
  "push_message m s = s\<lparr>ui_recent_messages := ui_recent_messages s @ [m]\<rparr>"

definition trim_recent :: "ui_state \<Rightarrow> ui_state" where
  "trim_recent s =
     (if MAX_RECENT < length (ui_recent_messages s) then s\<lparr>ui_recent_messages := tl (ui_recent_messages s)\<rparr> else s)"

text \<open>The counter of the peer between the two: it exists only for a known peer.\<close>

definition count_shown :: "bool \<Rightarrow> peer_id \<Rightarrow> u64 option \<Rightarrow> ui_state \<Rightarrow> ui_state \<times> unit result" where
  "count_shown checked pid seen s =
     (case map_of (ui_peers s) pid of
        None \<Rightarrow> (s, Inr ())
      | Some p \<Rightarrow>
          (case increment checked (pu_message_count p) of
             Inl f \<Rightarrow> (s, Inl f)
           | Inr n \<Rightarrow> (s\<lparr>ui_peers := map_put pid (p\<lparr>pu_message_count := n,
                 pu_last_seen := (case seen of Some t \<Rightarrow> Some t | None \<Rightarrow> pu_last_seen p)\<rparr>) (ui_peers s)\<rparr>, Inr ())))"

definition show_message :: "bool \<Rightarrow> ui_message \<Rightarrow> peer_id \<Rightarrow> u64 option \<Rightarrow> ui_state \<Rightarrow> ui_state \<times> unit result" where
  "show_message checked m pid seen s =
     (case count_shown checked pid seen (push_message m s) of
        (s, Inl f) \<Rightarrow> (s, Inl f)
      | (s, Inr _) \<Rightarrow> (trim_recent s, Inr ()))"

fun contains_text :: "string \<Rightarrow> string \<Rightarrow> bool" where
  "contains_text t [] = (t = [])"
| "contains_text t (c # cs) = (take (length t) (c # cs) = t \<or> contains_text t cs)"

definition peer_ui_new :: "peer_id \<Rightarrow> peer_ui" where
  "peer_ui_new pid = \<lparr>pu_peer_id = pid, pu_status = CsDisconnected, pu_transport = None, pu_last_seen = None,
     pu_message_count = 0\<rparr>"

fun ui_event :: "bool \<Rightarrow> peer_id \<Rightarrow> u64 \<Rightarrow> app_event \<Rightarrow> ui_state \<Rightarrow> ui_state \<times> unit result" where
  "ui_event checked us now (AppMessageReceived from_peer content timestamp) s =
     show_message checked
       \<lparr>um_from = from_peer, um_to = Some us, um_content = content, um_timestamp = timestamp, um_direction = Incoming\<rparr>
       from_peer (Some timestamp) s"
| "ui_event checked us now (AppMessageSent to_peer content timestamp) s =
     show_message checked
       \<lparr>um_from = us, um_to = Some to_peer, um_content = content, um_timestamp = timestamp, um_direction = Outgoing\<rparr>
       to_peer None s"
| "ui_event checked us now (PeerStatusChanged pid status transport) s =
     (let p = (case map_of (ui_peers s) pid of Some p \<Rightarrow> p | None \<Rightarrow> peer_ui_new pid)
      in (s\<lparr>ui_peers := map_put pid
             (p\<lparr>pu_status := status, pu_transport := transport, pu_last_seen := Some now\<rparr>) (ui_peers s)\<rparr>, Inr ()))"
| "ui_event checked us now (DiscoveryStateChanged active transport) s =
     (s\<lparr>ui_discovery_active := active,
        ui_busy_operations :=
          (if active then ui_busy_operations s @ [''Discovery active'']
           else filter (\<lambda>op. \<not> contains_text ''Discovery'' op) (ui_busy_operations s))\<rparr>, Inr ())"
| "ui_event checked us now (ConversationUpdated pid n last_time) s =
     (s\<lparr>ui_peers := (case map_of (ui_peers s) pid of
          Some p \<Rightarrow> map_put pid (p\<lparr>pu_message_count := word_of_nat n\<rparr>) (ui_peers s)
        | None \<Rightarrow> ui_peers s)\<rparr>, Inr ())"
| "ui_event checked us now (SystemBusy reason) s =
     (s\<lparr>ui_system_status := UsBusy reason,
        ui_busy_operations := (if reason \<in> set (ui_busy_operations s) then ui_busy_operations s
                               else ui_busy_operations s @ [reason])\<rparr>, Inr ())"
| "ui_event checked us now (SystemError e) s = (s\<lparr>ui_system_status := UsError e\<rparr>, Inr ())"
| "ui_event checked us now (SystemStatusReport _ _ _ _ _ _) s = (s, Inr ())"
| "ui_event checked us now (MessageStatusReport _ _ _ _ _ _) s = (s, Inr ())"
| "ui_event checked us now (PeerSessionReport _ _ _ _ _ _ _) s = (s, Inr ())"
| "ui_event checked us now (DeliveryStatusReport _ _ _ _) s = (s, Inr ())"
| "ui_event checked us now (InternalStateReport _ _ _ _ _ _ _) s = (s, Inr ())"

text \<open>A panic inside leaves the mutex poisoned.\<close>

definition under_lock :: "(ui_state \<Rightarrow> ui_state \<times> unit result) \<Rightarrow> terminal \<Rightarrow> terminal \<times> unit result" where
  "under_lock f t =
     (case f (tm_state t) of (s, r) \<Rightarrow> (t\<lparr>tm_state := s, tm_poisoned := (r = Inl Panic)\<rparr>, r))"

definition process_app_event :: "bool \<Rightarrow> u64 \<Rightarrow> app_event \<Rightarrow> terminal \<Rightarrow> terminal \<times> unit result" where
  "process_app_event checked now e t =
     (if tm_poisoned t then (t, Inl poisoned_error)
      else under_lock (ui_event checked (tm_our_peer_id t) now e) t)"

section \<open>Maintenance\<close>

definition STALE_MS :: u64 where "STALE_MS = 300 * 1000"

definition stale_ui_peer :: "u64 \<Rightarrow> peer_ui \<Rightarrow> bool" where
  "stale_ui_peer now p =
     (case pu_last_seen p of
        Some t \<Rightarrow> STALE_MS < now - t \<and> pu_status p = CsDisconnected
      | None \<Rightarrow> False)"

definition seen_in_future :: "u64 \<Rightarrow> peer_ui \<Rightarrow> bool" where
  "seen_in_future now p = (case pu_last_seen p of Some t \<Rightarrow> now < t | None \<Rightarrow> False)"

definition refresh_busy :: "ui_state \<Rightarrow> ui_state" where
  "refresh_busy s =
     (let s = s\<lparr>ui_busy_operations :=
            filter (\<lambda>op. \<not> contains_text ''Discovery'' op \<or> ui_discovery_active s) (ui_busy_operations s)\<rparr>
      in if ui_busy_operations s = [] then
           (case ui_system_status s of UsBusy _ \<Rightarrow> s\<lparr>ui_system_status := UsReady\<rparr> | _ \<Rightarrow> s)
         else s)"

definition ui_maintenance :: "bool \<Rightarrow> u64 \<Rightarrow> ui_state \<Rightarrow> ui_state \<times> unit result" where
  "ui_maintenance checked now s =
     (let s = refresh_busy s
      in if checked \<and> list_ex (\<lambda>(k, p). seen_in_future now p) (ui_peers s) then (s, Inl Panic)
         else (s\<lparr>ui_peers := filter (\<lambda>(k, p). \<not> stale_ui_peer now p) (ui_peers s)\<rparr>, Inr ()))"

lemma refresh_busy_fields [simp]:
  "ui_peers (refresh_busy s) = ui_peers s" "ui_recent_messages (refresh_busy s) = ui_recent_messages s"
  "ui_discovery_active (refresh_busy s) = ui_discovery_active s"
  by (simp_all add: refresh_busy_def Let_def split: ui_status.split)

definition perform_ui_maintenance :: "bool \<Rightarrow> u64 \<Rightarrow> terminal \<Rightarrow> terminal \<times> unit result" where
  "perform_ui_maintenance checked now t =
     (if tm_poisoned t then (t, Inr ()) else under_lock (ui_maintenance checked now) t)"

section \<open>The task\<close>

datatype ui_input = UiEvent u64 app_event | UiClosed | UiTimer u64

definition set_status :: "ui_status \<Rightarrow> terminal \<Rightarrow> terminal" where
  "set_status st t = t\<lparr>tm_state := (tm_state t)\<lparr>ui_system_status := st\<rparr>\<rparr>"

text \<open>
  The end of the loop locks the state once more, and \<open>unwrap\<close> panics when it is poisoned. The list of
  inputs may end before the loop does.
\<close>

definition terminal_end :: "terminal \<Rightarrow> terminal \<times> unit result option" where
  "terminal_end t = (if tm_poisoned t then (t, Some (Inl Panic)) else (set_status UsShuttingDown t, Some (Inr ())))"

fun terminal_loop :: "bool \<Rightarrow> ui_input list \<Rightarrow> terminal \<Rightarrow> terminal \<times> unit result option" where
  "terminal_loop checked [] t = (if tm_running t then (t, None) else terminal_end t)"
| "terminal_loop checked (i # is) t =
     (if \<not> tm_running t then terminal_end t
      else case i of
        UiEvent now e \<Rightarrow>
          (case process_app_event checked now e t of
             (t, Inl Panic) \<Rightarrow> (t, Some (Inl Panic))
           | (t, _) \<Rightarrow> terminal_loop checked is t)
      | UiClosed \<Rightarrow> terminal_end t
      | UiTimer now \<Rightarrow>
          (case perform_ui_maintenance checked now t of
             (t, Inl Panic) \<Rightarrow> (t, Some (Inl Panic))
           | (t, _) \<Rightarrow> terminal_loop checked is t))"

definition terminal_run :: "bool \<Rightarrow> ui_input list \<Rightarrow> terminal \<Rightarrow> terminal \<times> unit result option" where
  "terminal_run checked is t =
     (let t = t\<lparr>tm_running := True\<rparr>
      in if tm_poisoned t then (t, Some (Inl Panic)) else terminal_loop checked is (set_status UsReady t))"

definition terminal_stop :: "terminal \<Rightarrow> terminal" where
  "terminal_stop t = t\<lparr>tm_running := False\<rparr>"

definition core_overloaded :: string where "core_overloaded = ''Core Logic overloaded''"

definition note_overload :: "ui_state \<Rightarrow> ui_state" where
  "note_overload s = s\<lparr>ui_system_status := UsBusy core_overloaded,
     ui_busy_operations := (if core_overloaded \<in> set (ui_busy_operations s) then ui_busy_operations s
                            else ui_busy_operations s @ [core_overloaded])\<rparr>"

definition terminal_send :: "command \<Rightarrow> terminal \<Rightarrow> terminal \<times> unit result" where
  "terminal_send c t =
     (if \<not> tm_commands_open t then (t, Inl (Err (Transport (Shutdown ''Command channel closed''))))
      else if length (tm_commands t) < tm_capacity t then (t\<lparr>tm_commands := tm_commands t @ [c]\<rparr>, Inr ())
      else if tm_poisoned t then (t, Inl poisoned_error)
      else (t\<lparr>tm_state := note_overload (tm_state t)\<rparr>, Inl (Err (Transport (SendBufferFull 0)))))"

definition get_state_snapshot :: "terminal \<Rightarrow> ui_state option" where
  "get_state_snapshot t = (if tm_poisoned t then None else Some (tm_state t))"

definition ui_handle_send_message :: "peer_id \<Rightarrow> rust_string \<Rightarrow> terminal \<Rightarrow> terminal \<times> unit result" where
  "ui_handle_send_message recipient content = terminal_send (SendMessage recipient content)"

definition ui_handle_connect_to_peer :: "peer_id \<Rightarrow> terminal \<Rightarrow> terminal \<times> unit result" where
  "ui_handle_connect_to_peer pid = terminal_send (ConnectToPeer pid)"

definition ui_handle_start_discovery :: "terminal \<Rightarrow> terminal \<times> unit result" where
  "ui_handle_start_discovery = terminal_send CmdStartDiscovery"

definition ui_handle_stop_discovery :: "terminal \<Rightarrow> terminal \<times> unit result" where
  "ui_handle_stop_discovery = terminal_send CmdStopDiscovery"

definition ui_handle_disconnect_from_peer :: "peer_id \<Rightarrow> terminal \<Rightarrow> terminal \<times> unit result" where
  "ui_handle_disconnect_from_peer pid = terminal_send (DisconnectFromPeer pid)"

definition ui_handle_shutdown :: "terminal \<Rightarrow> terminal \<times> unit result" where
  "ui_handle_shutdown = terminal_send CmdShutdown"

section \<open>Runs of the task\<close>

text \<open>The events and timers a running task has processed without a panic.\<close>

fun ui_apply :: "bool \<Rightarrow> peer_id \<Rightarrow> ui_input \<Rightarrow> ui_state \<Rightarrow> ui_state \<times> unit result" where
  "ui_apply checked us (UiEvent now e) s = ui_event checked us now e s"
| "ui_apply checked us (UiTimer now) s = ui_maintenance checked now s"
| "ui_apply checked us UiClosed s = (s, Inr ())"

fun ui_run :: "bool \<Rightarrow> peer_id \<Rightarrow> ui_input list \<Rightarrow> ui_state \<Rightarrow> ui_state \<times> unit result" where
  "ui_run checked us [] s = (s, Inr ())"
| "ui_run checked us (i # is) s =
     (case ui_apply checked us i s of
        (s, Inl f) \<Rightarrow> (s, Inl f)
      | (s, Inr _) \<Rightarrow> ui_run checked us is s)"

lemma ui_run_ConsE:
  assumes "ui_run checked us (i # is) s = (s', Inr ())"
  obtains s1 where "ui_apply checked us i s = (s1, Inr ())" and "ui_run checked us is s1 = (s', Inr ())"
  using assms by (auto split: prod.splits sum.splits)

lemma ui_run_invariant:
  assumes "ui_run checked us is s = (s', Inr ())" and "P s"
    and "\<And>i s s1. i \<in> set is \<Longrightarrow> P s \<Longrightarrow> ui_apply checked us i s = (s1, Inr ()) \<Longrightarrow> P s1"
  shows "P s'"
  using assms
proof (induction "is" arbitrary: s)
  case (Cons i "is")
  from Cons.prems(1) show ?case
  proof (cases rule: ui_run_ConsE)
    case (1 s1)
    with Cons.prems have "P s1" by auto
    from Cons.IH [OF 1(2) this] Cons.prems(3) show ?thesis by auto
  qed
qed simp

lemma ui_event_result:
  "ui_event checked us now e s = (s1, r) \<Longrightarrow> r = Inr () \<or> r = Inl Panic"
  by (cases e) (auto simp: show_message_def count_shown_def increment_def Let_def split: option.splits if_splits)

lemma ui_maintenance_result:
  "ui_maintenance checked now s = (s1, r) \<Longrightarrow> r = Inr () \<or> r = Inl Panic"
  by (auto simp: ui_maintenance_def Let_def split: if_splits)

text \<open>A task whose loop goes on has run its inputs.\<close>

lemma terminal_loop_open:
  assumes "terminal_loop checked is t0 = (t, None)" and "tm_running t0" and "\<not> tm_poisoned t0"
  shows "ui_run checked (tm_our_peer_id t0) is (tm_state t0) = (tm_state t, Inr ())"
  using assms
proof (induction "is" arbitrary: t0)
  case (Cons i "is")
  show ?case
  proof (cases i)
    case (UiEvent now e)
    obtain s1 r where st: "ui_event checked (tm_our_peer_id t0) now e (tm_state t0) = (s1, r)" by (metis surj_pair)
    with UiEvent Cons.prems ui_event_result [OF st] Cons.IH [of "t0\<lparr>tm_state := s1, tm_poisoned := False\<rparr>"]
    show ?thesis by (auto simp: process_app_event_def under_lock_def)
  next
    case (UiTimer now)
    obtain s1 r where st: "ui_maintenance checked now (tm_state t0) = (s1, r)" by (metis surj_pair)
    with UiTimer Cons.prems ui_maintenance_result [OF st] Cons.IH [of "t0\<lparr>tm_state := s1, tm_poisoned := False\<rparr>"]
    show ?thesis by (auto simp: perform_ui_maintenance_def under_lock_def)
  qed (use Cons.prems in \<open>auto simp: terminal_end_def\<close>)
qed auto

lemma terminal_run_open:
  assumes "terminal_run checked is (terminal_new us capacity) = (t, None)"
  shows "ui_run checked us is (ui_state_default\<lparr>ui_system_status := UsReady\<rparr>) = (tm_state t, Inr ())"
proof -
  have "terminal_loop checked is (set_status UsReady ((terminal_new us capacity)\<lparr>tm_running := True\<rparr>)) = (t, None)"
    using assms by (simp add: terminal_run_def terminal_new_def)
  from terminal_loop_open [OF this] show ?thesis
    by (simp add: terminal_new_def set_status_def ui_state_default_def)
qed

section \<open>The messages shown\<close>

fun shown_message :: "peer_id \<Rightarrow> ui_input \<Rightarrow> ui_message list" where
  "shown_message us (UiEvent now (AppMessageReceived from_peer content timestamp)) =
     [\<lparr>um_from = from_peer, um_to = Some us, um_content = content, um_timestamp = timestamp, um_direction = Incoming\<rparr>]"
| "shown_message us (UiEvent now (AppMessageSent to_peer content timestamp)) =
     [\<lparr>um_from = us, um_to = Some to_peer, um_content = content, um_timestamp = timestamp, um_direction = Outgoing\<rparr>]"
| "shown_message us i = []"

definition last_n :: "nat \<Rightarrow> 'a list \<Rightarrow> 'a list" where
  "last_n n xs = drop (length xs - n) xs"

lemma last_n_append: "last_n n (last_n n xs @ ys) = last_n n (xs @ ys)"
proof (cases "length xs \<le> n")
  case False
  then have "length (last_n n xs @ ys) - n = length ys" by (simp add: last_n_def)
  with False show ?thesis by (simp add: last_n_def add.commute)
qed (simp add: last_n_def)

lemma last_n_snoc:
  "0 < n \<Longrightarrow> length xs \<le> n \<Longrightarrow> last_n n (xs @ [x]) = (if n < Suc (length xs) then tl (xs @ [x]) else xs @ [x])"
  by (cases xs) (auto simp: last_n_def Suc_diff_le drop_Suc)

lemma length_last_n: "length (last_n n xs) \<le> n"
  by (simp add: last_n_def)

lemma count_shown_recent:
  "ui_recent_messages (fst (count_shown checked pid seen s)) = ui_recent_messages s"
  by (auto simp: count_shown_def split: option.splits sum.splits)

lemma show_message_recent:
  assumes "show_message checked m pid seen s = (s', Inr ())" and "length (ui_recent_messages s) \<le> MAX_RECENT"
  shows "ui_recent_messages s' = last_n MAX_RECENT (ui_recent_messages s @ [m])"
  using assms count_shown_recent [of checked pid seen "push_message m s"] last_n_snoc [OF _ assms(2), of m]
  by (auto simp: show_message_def push_message_def trim_recent_def MAX_RECENT_def split: prod.splits sum.splits)

lemma ui_maintenance_fields:
  "ui_recent_messages (fst (ui_maintenance checked now s)) = ui_recent_messages s"
  "ui_discovery_active (fst (ui_maintenance checked now s)) = ui_discovery_active s"
  by (simp_all add: ui_maintenance_def Let_def)

lemma ui_apply_recent:
  assumes "ui_apply checked us i s = (s', Inr ())" and "length (ui_recent_messages s) \<le> MAX_RECENT"
  shows "ui_recent_messages s' = last_n MAX_RECENT (ui_recent_messages s @ shown_message us i)"
proof (cases i)
  case (UiEvent now e)
  have keep: "ui_recent_messages s = last_n MAX_RECENT (ui_recent_messages s)" using assms(2) by (simp add: last_n_def)
  from UiEvent assms keep show ?thesis
    by (cases e) (auto simp: Let_def dest: show_message_recent)
next
  case (UiTimer now)
  with assms ui_maintenance_fields(1) [of checked now s] show ?thesis by (simp add: last_n_def)
qed (use assms in \<open>simp add: last_n_def\<close>)

text \<open>Whatever the task processed, the messages it shows are the last hundred of those that were received
  or sent, in their order.\<close>

theorem recent_messages_window:
  assumes "terminal_run checked is (terminal_new us capacity) = (t, None)"
  shows "ui_recent_messages (tm_state t) = last_n MAX_RECENT (concat (map (shown_message us) is))"
proof -
  have run: "ui_recent_messages s' = last_n MAX_RECENT (ui_recent_messages s @ concat (map (shown_message us) is))"
    if "ui_run checked us is s = (s', Inr ())" and "length (ui_recent_messages s) \<le> MAX_RECENT" for "is" s s'
    using that
  proof (induction "is" arbitrary: s)
    case (Cons i "is")
    from Cons.prems(1) show ?case
    proof (cases rule: ui_run_ConsE)
      case (1 s1)
      from ui_apply_recent [OF 1(1) Cons.prems(2)]
      have s1: "ui_recent_messages s1 = last_n MAX_RECENT (ui_recent_messages s @ shown_message us i)" .
      then have "length (ui_recent_messages s1) \<le> MAX_RECENT" by (simp add: length_last_n)
      from Cons.IH [OF 1(2) this] s1 show ?thesis by (simp add: last_n_append)
    qed
  qed (simp add: last_n_def)
  from terminal_run_open [OF assms] have "ui_run checked us is (ui_state_default\<lparr>ui_system_status := UsReady\<rparr>) = (tm_state t, Inr ())" .
  from run [OF this] show ?thesis by (simp add: ui_state_default_def)
qed

theorem recent_messages_window_witness:
  "ui_recent_messages (tm_state (fst (terminal_run True
     [UiEvent 5 (AppMessageReceived [1] [104, 105] 4), UiTimer 6] (terminal_new [2] 1)))) =
   [\<lparr>um_from = [1], um_to = Some [2], um_content = [104, 105], um_timestamp = 4, um_direction = Incoming\<rparr>]"
proof -
  let ?is = "[UiEvent 5 (AppMessageReceived [1] [104, 105] 4), UiTimer 6]"
  obtain t where run: "terminal_run True ?is (terminal_new [2] 1) = (t, None)"
    by (simp add: terminal_run_def terminal_new_def set_status_def ui_state_default_def process_app_event_def
        under_lock_def show_message_def count_shown_def push_message_def trim_recent_def MAX_RECENT_def
        perform_ui_maintenance_def ui_maintenance_def Let_def)
  from recent_messages_window [OF run] show ?thesis
    unfolding run by (simp add: last_n_def MAX_RECENT_def)
qed

section \<open>The busy indicator\<close>

definition stuck_busy :: "string \<Rightarrow> ui_state \<Rightarrow> bool" where
  "stuck_busy op s \<longleftrightarrow> op \<in> set (ui_busy_operations s) \<and> \<not> contains_text ''Discovery'' op
     \<and> ui_system_status s \<noteq> UsReady"

lemma count_shown_busy:
  "ui_busy_operations (fst (count_shown checked pid seen s)) = ui_busy_operations s"
  "ui_system_status (fst (count_shown checked pid seen s)) = ui_system_status s"
  by (auto simp: count_shown_def split: option.splits sum.splits)

lemma show_message_busy:
  "ui_busy_operations (fst (show_message checked m pid seen s)) = ui_busy_operations s"
  "ui_system_status (fst (show_message checked m pid seen s)) = ui_system_status s"
  using count_shown_busy [of checked pid seen "push_message m s"]
  by (auto simp: show_message_def push_message_def trim_recent_def split: prod.splits sum.splits)

lemma stuck_busy_apply:
  assumes "stuck_busy op s"
  shows "stuck_busy op (fst (ui_apply checked us i s))"
proof (cases i)
  case (UiEvent now e)
  with assms show ?thesis by (cases e) (auto simp: stuck_busy_def show_message_busy Let_def)
next
  case (UiTimer now)
  with assms show ?thesis
    by (auto simp: stuck_busy_def ui_maintenance_def refresh_busy_def Let_def filter_empty_conv)
qed (use assms in simp)

text \<open>The interface never takes back an operation whose name does not contain the word Discovery: after the core
  logic has reported once that it is busy for another reason, or a command met a full channel, the client is
  never shown as ready again while its task runs.\<close>

theorem busy_for_good:
  assumes "\<not> contains_text ''Discovery'' reason"
    and "ui_run checked us is (fst (ui_event checked us now (SystemBusy reason) s)) = (s', Inr ())"
  shows "reason \<in> set (ui_busy_operations s') \<and> ui_system_status s' \<noteq> UsReady"
proof -
  have "stuck_busy reason (fst (ui_event checked us now (SystemBusy reason) s))"
    using assms(1) by (simp add: stuck_busy_def)
  then have "stuck_busy reason s'"
    by (rule ui_run_invariant [OF assms(2)]) (metis stuck_busy_apply fst_conv)
  then show ?thesis by (simp add: stuck_busy_def)
qed

lemma core_overloaded_stuck:
  "stuck_busy core_overloaded (note_overload s)"
  by (simp add: stuck_busy_def note_overload_def core_overloaded_def)

theorem busy_for_good_witness:
  "ui_system_status (fst (ui_run False [] [UiTimer 5]
     (fst (ui_event False [] 4 (SystemBusy ''Sync'') ui_state_default)))) \<noteq> UsReady"
proof -
  have none: "\<not> contains_text ''Discovery'' ''Sync''" by simp
  obtain s' where run: "ui_run False [] [UiTimer 5] (fst (ui_event False [] 4 (SystemBusy ''Sync'') ui_state_default)) =
      (s', Inr ())"
    by (simp add: ui_state_default_def ui_maintenance_def Let_def)
  from busy_for_good [OF none run] show ?thesis unfolding run by simp
qed

section \<open>Timestamps from the future\<close>

text \<open>The time a message claims to have been sent is taken for the time its sender was last seen. One message
  of a known peer with a time ahead of the clock makes the next maintenance panic in a build with overflow
  checks, which ends the task and poisons its state; in a build without them the peer, when disconnected,
  counts as not seen for five minutes and is dropped at once.\<close>

theorem future_timestamp:
  assumes "map_of (ui_peers s) pid = Some p" and "pu_message_count p \<noteq> -1" and "now < timestamp"
    and "timestamp - now \<le> 2 ^ 63" and "distinct (keys_of (ui_peers s))"
    and "ui_event checked us t0 (AppMessageReceived pid content timestamp) s = (s1, r)"
  shows "r = Inr () \<and>
    (checked \<longrightarrow> snd (ui_maintenance checked now s1) = Inl Panic) \<and>
    (\<not> checked \<longrightarrow> pu_status p = CsDisconnected \<longrightarrow>
       map_of (ui_peers (fst (ui_maintenance checked now s1))) pid = None)"
proof -
  define q where "q = p\<lparr>pu_message_count := pu_message_count p + 1, pu_last_seen := Some timestamp\<rparr>"
  have count: "count_shown checked pid (Some timestamp) (push_message m s) =
      ((push_message m s)\<lparr>ui_peers := map_put pid q (ui_peers s)\<rparr>, Inr ())" for m
    using assms(1,2) by (simp add: count_shown_def push_message_def increment_def q_def)
  then have s1: "ui_peers s1 = map_put pid q (ui_peers s)" and r: "r = Inr ()"
    using assms(6) by (auto simp: show_message_def trim_recent_def)
  have in_peers: "(pid, q) \<in> set (ui_peers s1)" unfolding s1 by (rule map_of_SomeD) simp
  have "seen_in_future now q" using assms(3) by (simp add: seen_in_future_def q_def)
  with in_peers have "list_ex (\<lambda>(k, p). seen_in_future now p) (ui_peers s1)" by (force simp: list_ex_iff)
  then have checked: "checked \<longrightarrow> snd (ui_maintenance checked now s1) = Inl Panic"
    by (simp add: ui_maintenance_def Let_def)
  have "pid \<notin> fst ` set (filter (\<lambda>(k, p). \<not> stale_ui_peer now p) (ui_peers s1))" if "stale_ui_peer now q"
  proof
    assume "pid \<in> fst ` set (filter (\<lambda>(k, p). \<not> stale_ui_peer now p) (ui_peers s1))"
    then obtain p' where p': "(pid, p') \<in> set (ui_peers s1)" "\<not> stale_ui_peer now p'" by auto
    have "distinct (keys_of (ui_peers s1))" using assms(5) by (simp add: s1)
    from eq_key_imp_eq_value [OF this in_peers p'(1)] have "p' = q" by simp
    with p'(2) that show False by simp
  qed
  moreover have "STALE_MS < now - timestamp"
  proof -
    have "unat now < unat timestamp" "unat (timestamp - now) \<le> 2 ^ 63"
      using assms(3,4) by (simp_all add: word_less_nat_alt word_le_nat_alt)
    then have "2 ^ 63 \<le> unat (now - timestamp)"
      using unsigned_less [of timestamp] by (simp add: unat_sub_if' split: if_splits)
    then show ?thesis by (simp add: STALE_MS_def word_less_nat_alt)
  qed
  ultimately have "pu_status p = CsDisconnected \<longrightarrow>
      map_of (ui_peers (fst (ui_maintenance False now s1))) pid = None"
    by (simp add: ui_maintenance_def Let_def map_of_eq_None_iff stale_ui_peer_def q_def)
  with r checked show ?thesis by auto
qed

definition toy_ui :: ui_state where
  "toy_ui = ui_state_default\<lparr>ui_peers := [([1], peer_ui_new [1])]\<rparr>"

theorem future_timestamp_witness:
  "snd (ui_maintenance True 1000 (fst (ui_event True [2] 500 (AppMessageReceived [1] [104] 1001) toy_ui))) = Inl Panic"
proof -
  obtain s1 r where st: "ui_event True [2] 500 (AppMessageReceived [1] [104] 1001) toy_ui = (s1, r)" by (metis surj_pair)
  have "map_of (ui_peers toy_ui) [1] = Some (peer_ui_new [1])" by (simp add: toy_ui_def)
  from future_timestamp [OF this _ _ _ _ st, of 1000] have "snd (ui_maintenance True 1000 s1) = Inl Panic"
    by (simp add: toy_ui_def peer_ui_new_def)
  with st show ?thesis by simp
qed

end
