(* ===== verification/Cli_App.thy ===== *)
theory Cli_App
  imports Terminal_Interface Runtime_Wiring Ble_Transport Nostr_Relays File_Transfer
begin

text \<open>
  The command line client (\<^verbatim>\<open>src/crates/bitchat-cli/src/config.rs\<close>,
  \<^verbatim>\<open>src/crates/bitchat-cli/src/app_orchestrator.rs\<close> and \<^verbatim>\<open>src/crates/bitchat-cli/src/main.rs\<close>): its configuration,
  the orchestrator that starts the core logic and the transports, the commands of the user and the automation
  mode with its JSON events.

  Texts are byte lists in UTF-8. What the client takes from outside is the record \<open>cli_env\<close>: \<^verbatim>\<open>hex::decode\<close>, the hash
  of the standard library (whose algorithm is not specified), the clock, the text of an error, and the
  environment and the identity with which the tasks are started. Loading the configuration from files,
  environment variables and arguments is the work of third-party crates and is not modelled, nor is what is
  printed for a human reader.
\<close>

section \<open>Configuration\<close>

record cli_config =
  cli_verbose :: bool
  cli_prompt :: rust_string
  cli_max_recent_messages :: nat
  cli_auto_start_discovery :: bool
  cli_colored_output :: bool
  cli_status_update_interval_ms :: u64
  cli_history_size :: nat

definition cli_config_default :: cli_config where
  "cli_config_default =
     \<lparr>cli_verbose = False, cli_prompt = text_of ''bitchat> '', cli_max_recent_messages = 5,
      cli_auto_start_discovery = True, cli_colored_output = True, cli_status_update_interval_ms = 1000,
      cli_history_size = 100\<rparr>"

record identity_config =
  id_peer_id :: "rust_string option"
  id_name :: "rust_string option"
  id_persist_identity :: bool
  id_identity_file :: "rust_string option"

definition identity_config_default :: identity_config where
  "identity_config_default =
     \<lparr>id_peer_id = None, id_name = None, id_persist_identity = True, id_identity_file = None\<rparr>"

record runtime_config =
  rc_enabled_transports :: "rust_string list"
  rc_startup_timeout_secs :: u64
  rc_shutdown_timeout_secs :: u64
  rc_exit_on_error :: bool
  rc_heartbeat_interval_secs :: u64

definition runtime_config_default :: runtime_config where
  "runtime_config_default =
     \<lparr>rc_enabled_transports = [text_of ''ble'', text_of ''nostr''], rc_startup_timeout_secs = 30,
      rc_shutdown_timeout_secs = 10, rc_exit_on_error = False, rc_heartbeat_interval_secs = 30\<rparr>"

record 'k cli_app_config =
  ca_core :: bitchat_config
  ca_ble :: ble_config
  ca_nostr :: "'k nostr_config"
  ca_cli :: cli_config
  ca_identity :: identity_config
  ca_runtime :: runtime_config

definition cli_app_config_default :: "'k \<Rightarrow> 'k cli_app_config" where
  "cli_app_config_default generated =
     \<lparr>ca_core = config_canonical, ca_ble = ble_config_default, ca_nostr = nostr_config_default generated,
      ca_cli = cli_config_default, ca_identity = identity_config_default, ca_runtime = runtime_config_default\<rparr>"

definition cli_example_config :: "'k \<Rightarrow> 'k cli_app_config" where
  "cli_example_config generated = (cli_app_config_default generated)
     \<lparr>ca_cli := \<lparr>cli_verbose = False, cli_prompt = text_of ''bitchat> '', cli_max_recent_messages = 5,
        cli_auto_start_discovery = True, cli_colored_output = True, cli_status_update_interval_ms = 1000,
        cli_history_size = 100\<rparr>,
      ca_identity := \<lparr>id_peer_id = Some (text_of ''0102030405060708''), id_name = Some (text_of ''my-node''),
        id_persist_identity = True, id_identity_file = None\<rparr>,
      ca_runtime := \<lparr>rc_enabled_transports = [text_of ''ble'', text_of ''nostr''], rc_startup_timeout_secs = 30,
        rc_shutdown_timeout_secs = 10, rc_exit_on_error = False, rc_heartbeat_interval_secs = 30\<rparr>\<rparr>"

datatype config_error =
    CeLoading string
  | CeValidation string
  | CeEnvironment string
  | CeFileSystem string
  | CeSerialization string

record ('sk, 'vk) cli_env =
  ce_hex_decode :: "rust_string \<Rightarrow> bytes option"
  ce_hash :: "rust_string \<Rightarrow> u64"
  ce_nanos :: nat
  ce_show_fault :: "fault \<Rightarrow> rust_string"
  ce_wiring :: wiring_env
  ce_identity :: "('sk, 'vk) identity_key_pair"
  ce_target :: target_os

definition config_parse_peer_id :: "('sk, 'vk) cli_env \<Rightarrow> rust_string \<Rightarrow> config_error + peer_id" where
  "config_parse_peer_id env s =
     (case ce_hex_decode env s of
        None \<Rightarrow> Inl (CeValidation ''Invalid peer ID hex format'')
      | Some bs \<Rightarrow>
          if length bs \<noteq> 8 then Inl (CeValidation ''Peer ID must be exactly 8 bytes (16 hex chars)'') else Inr bs)"

definition cli_validate :: "('sk, 'vk) cli_env \<Rightarrow> 'k cli_app_config \<Rightarrow> config_error + unit" where
  "cli_validate env c =
     (case (case id_peer_id (ca_identity c) of
              Some s \<Rightarrow> (case config_parse_peer_id env s of Inl e \<Rightarrow> Some e | Inr _ \<Rightarrow> None)
            | None \<Rightarrow> None) of
        Some e \<Rightarrow> Inl e
      | None \<Rightarrow>
          if \<not> list_all (\<lambda>t. t = text_of ''ble'' \<or> t = text_of ''nostr'') (rc_enabled_transports (ca_runtime c))
          then Inl (CeValidation ''Unknown transport'')
          else if rc_startup_timeout_secs (ca_runtime c) = 0
          then Inl (CeValidation ''Startup timeout must be greater than 0'')
          else if bc_max_packet_size (ca_ble c) = 0
          then Inl (CeValidation ''BLE max packet size must be greater than 0'')
          else if nc_relays (ca_nostr c) = []
          then Inl (CeValidation ''At least one Nostr relay must be configured'')
          else Inr ())"

text \<open>The eight bytes of a number, the most significant one first.\<close>

definition be_bytes :: "nat \<Rightarrow> peer_id" where
  "be_bytes n = map (\<lambda>s. word_of_nat (n div 2 ^ s)) [56, 48, 40, 32, 24, 16, 8, 0]"

definition generate_peer_id_from_name :: "('sk, 'vk) cli_env \<Rightarrow> rust_string \<Rightarrow> peer_id" where
  "generate_peer_id_from_name env name = be_bytes (unat (ce_hash env name))"

definition generate_random_peer_id :: "('sk, 'vk) cli_env \<Rightarrow> peer_id" where
  "generate_random_peer_id env = be_bytes (ce_nanos env)"

definition get_peer_id :: "('sk, 'vk) cli_env \<Rightarrow> 'k cli_app_config \<Rightarrow> config_error + peer_id" where
  "get_peer_id env c =
     (case id_peer_id (ca_identity c) of
        Some s \<Rightarrow> config_parse_peer_id env s
      | None \<Rightarrow>
          (case id_name (ca_identity c) of
             Some name \<Rightarrow> Inr (generate_peer_id_from_name env name)
           | None \<Rightarrow> Inr (generate_random_peer_id env)))"

definition transport_of_name :: "rust_string \<Rightarrow> transport_type option" where
  "transport_of_name t = (if t = text_of ''ble'' then Some Ble else if t = text_of ''nostr'' then Some Nostr else None)"

definition get_enabled_transports :: "'k cli_app_config \<Rightarrow> transport_type list" where
  "get_enabled_transports c = List.map_filter transport_of_name (rc_enabled_transports (ca_runtime c))"

section \<open>The orchestrator\<close>

record transport_config =
  tp_enabled_transports :: "transport_type list"
  tp_ble_enabled :: bool
  tp_nostr_enabled :: bool

definition transport_config_default :: transport_config where
  "transport_config_default = \<lparr>tp_enabled_transports = [Ble], tp_ble_enabled = True, tp_nostr_enabled = False\<rparr>"

definition all_transports :: transport_config where
  "all_transports = \<lparr>tp_enabled_transports = [Ble, Nostr], tp_ble_enabled = True, tp_nostr_enabled = True\<rparr>"

definition ble_only :: transport_config where
  "ble_only = \<lparr>tp_enabled_transports = [Ble], tp_ble_enabled = True, tp_nostr_enabled = False\<rparr>"

definition nostr_only :: transport_config where
  "nostr_only = \<lparr>tp_enabled_transports = [Nostr], tp_ble_enabled = False, tp_nostr_enabled = True\<rparr>"

record orchestrator =
  or_peer_id :: peer_id
  or_config :: test_config
  or_transport_config :: transport_config
  or_verbose :: bool
  or_core_logic_handle :: "join_handle option"
  or_transport_handles :: "(transport_type \<times> join_handle) list"
  or_paused_transports :: "(transport_type \<times> bool) list"
  or_terminal_interface :: "terminal option"
  or_running :: bool

definition from_config_with_transports :: "test_config \<Rightarrow> bool \<Rightarrow> transport_config \<Rightarrow> orchestrator" where
  "from_config_with_transports c verbose tc =
     \<lparr>or_peer_id = tc_peer_id c, or_config = c, or_transport_config = tc, or_verbose = verbose,
      or_core_logic_handle = None, or_transport_handles = [], or_paused_transports = [],
      or_terminal_interface = None, or_running = False\<rparr>"

definition from_config :: "test_config \<Rightarrow> bool \<Rightarrow> orchestrator" where
  "from_config c verbose = from_config_with_transports c verbose transport_config_default"

definition orchestrator_with_transports :: "nat \<Rightarrow> peer_id \<Rightarrow> bool \<Rightarrow> transport_config \<Rightarrow> orchestrator" where
  "orchestrator_with_transports nanos pid verbose tc =
     (let c = with_peer_id pid (test_config_new nanos); c = (if verbose then with_logging c else c)
      in \<lparr>or_peer_id = pid, or_config = c, or_transport_config = tc, or_verbose = verbose,
          or_core_logic_handle = None, or_transport_handles = [], or_paused_transports = [],
          or_terminal_interface = None, or_running = False\<rparr>)"

definition orchestrator_new :: "nat \<Rightarrow> peer_id \<Rightarrow> bool \<Rightarrow> orchestrator" where
  "orchestrator_new nanos pid verbose = orchestrator_with_transports nanos pid verbose transport_config_default"

definition cli_channels :: channel_config where
  "cli_channels = \<lparr>cc_command_buffer_size = 50, cc_event_buffer_size = 100, cc_effect_buffer_size = 100,
     cc_app_event_buffer_size = 200\<rparr>"

definition ble_transport_of :: "target_os \<Rightarrow> ('sk, 'vk) identity_key_pair \<Rightarrow> transport_task" where
  "ble_transport_of target identity = \<lparr>tt_type = Ble,
     tt_attach = snd (ble_attach_channels (ble_task_new target identity :: (unit, 'sk, 'vk) ble_task))\<rparr>"

text \<open>The enabled transports in their order: the Nostr transport is never started.\<close>

fun start_each ::
    "('sk, 'vk) cli_env \<Rightarrow> transport_type list \<Rightarrow> orchestrator \<times> executor \<Rightarrow> (orchestrator \<times> executor) \<times> unit result" where
  "start_each env [] s = (s, Inr ())"
| "start_each env (ty # ts) (o1, ex) =
     (if ty = Ble \<and> tp_ble_enabled (or_transport_config o1) then
        (case start_transport_task (ble_transport_of (ce_target env) (ce_identity env)) ex of
           (ex, Inl f) \<Rightarrow> ((o1, ex), Inl f)
         | (ex, Inr h) \<Rightarrow>
             start_each env ts
               (o1\<lparr>or_transport_handles := map_put Ble h (or_transport_handles o1),
                  or_paused_transports := map_put Ble False (or_paused_transports o1)\<rparr>, ex))
      else start_each env ts (o1, ex))"

definition start_configured_transports ::
    "('sk, 'vk) cli_env \<Rightarrow> orchestrator \<times> executor \<Rightarrow> (orchestrator \<times> executor) \<times> unit result" where
  "start_configured_transports env s =
     (let tys = tp_enabled_transports (or_transport_config (fst s))
      in if tys = [] then (s, Inl (bad_setup ''No transports enabled in configuration''))
         else case start_each env tys s of
           (s, Inl f) \<Rightarrow> (s, Inl f)
         | (s, Inr _) \<Rightarrow>
             if or_transport_handles (fst s) = [] then (s, Inl (bad_setup ''No supported transports could be started''))
             else (s, Inr ()))"

definition orchestrator_start ::
    "('sk, 'vk) cli_env \<Rightarrow> orchestrator \<times> executor \<Rightarrow> (orchestrator \<times> executor) \<times> unit result" where
  "orchestrator_start env s =
     (case s of (o1, ex) \<Rightarrow>
        if or_running o1 then (s, Inl (bad_setup ''CLI application already running''))
        else case create_channels (ce_wiring env) cli_channels of
          Inl f \<Rightarrow> (s, Inl f)
        | Inr _ \<Rightarrow>
            (case we_core_new (ce_wiring env) of
               Inl f \<Rightarrow> (s, Inl f)
             | Inr _ \<Rightarrow>
                 (case spawn KCore ex of (ex, h) \<Rightarrow>
                    case start_configured_transports env (o1\<lparr>or_core_logic_handle := Some h\<rparr>, ex) of
                      (s, Inl f) \<Rightarrow> (s, Inl f)
                    | ((o1, ex), Inr _) \<Rightarrow>
                        ((o1\<lparr>or_terminal_interface :=
                             Some (terminal_new (or_peer_id o1) (cc_command_buffer_size cli_channels)),
                           or_running := True\<rparr>, ex), Inr ()))))"

definition orchestrator_stop :: "orchestrator \<times> executor \<Rightarrow> orchestrator \<times> executor" where
  "orchestrator_stop s =
     (case s of (o1, ex) \<Rightarrow>
        if \<not> or_running o1 then s
        else (o1\<lparr>or_running := False, or_terminal_interface := None, or_transport_handles := [],
                or_paused_transports := [], or_core_logic_handle := None\<rparr>,
              abort_all (case or_core_logic_handle o1 of Some h \<Rightarrow> [h] | None \<Rightarrow> [])
                (abort_all (map snd (or_transport_handles o1)) ex)))"

definition pause_transport ::
    "transport_type \<Rightarrow> orchestrator \<times> executor \<Rightarrow> (orchestrator \<times> executor) \<times> unit result" where
  "pause_transport ty s =
     (case s of (o1, ex) \<Rightarrow>
        if \<not> or_running o1 then (s, Inl (bad_setup ''Application not running''))
        else case map_of (or_paused_transports o1) ty of
          None \<Rightarrow> (s, Inr ())
        | Some True \<Rightarrow> (s, Inr ())
        | Some False \<Rightarrow>
            (case map_of (or_transport_handles o1) ty of
               None \<Rightarrow> (s, Inr ())
             | Some h \<Rightarrow>
                 ((o1\<lparr>or_transport_handles := map_del ty (or_transport_handles o1),
                     or_paused_transports := map_put ty True (or_paused_transports o1)\<rparr>, abort_task h ex), Inr ())))"

definition resume_transport :: "transport_type \<Rightarrow> orchestrator \<Rightarrow> orchestrator \<times> unit result" where
  "resume_transport ty o1 =
     (if \<not> or_running o1 then (o1, Inl (bad_setup ''Application not running''))
      else case map_of (or_paused_transports o1) ty of
        None \<Rightarrow> (o1, Inr ())
      | Some False \<Rightarrow> (o1, Inr ())
      | Some True \<Rightarrow>
          if (ty = Ble \<and> tp_ble_enabled (or_transport_config o1)) \<or> (ty = Nostr \<and> tp_nostr_enabled (or_transport_config o1))
          then (o1\<lparr>or_paused_transports := map_put ty False (or_paused_transports o1)\<rparr>, Inr ())
          else (o1, Inl (bad_setup ''Transport not supported for resume'')))"

definition is_transport_paused :: "transport_type \<Rightarrow> orchestrator \<Rightarrow> bool" where
  "is_transport_paused ty o1 = (case map_of (or_paused_transports o1) ty of Some b \<Rightarrow> b | None \<Rightarrow> False)"

definition available_transports :: "orchestrator \<Rightarrow> transport_type list" where
  "available_transports o1 = tp_enabled_transports (or_transport_config o1)"

section \<open>The application\<close>

datatype application_error = AeConfiguration config_error | AeRuntime fault

record 'k cli_app =
  ap_orchestrator :: orchestrator
  ap_config :: "'k cli_app_config"
  ap_running :: bool

definition cli_app_new ::
    "('sk, 'vk) cli_env \<Rightarrow> 'k cli_app_config \<Rightarrow> executor \<Rightarrow> executor \<times> (application_error + 'k cli_app)" where
  "cli_app_new env c ex =
     (case get_peer_id env c of
        Inl e \<Rightarrow> (ex, Inl (AeConfiguration e))
      | Inr pid \<Rightarrow>
          let tc = \<lparr>tp_enabled_transports = get_enabled_transports c,
                tp_ble_enabled = text_of ''ble'' \<in> set (rc_enabled_transports (ca_runtime c)),
                tp_nostr_enabled = text_of ''nostr'' \<in> set (rc_enabled_transports (ca_runtime c))\<rparr>;
              test = \<lparr>tc_peer_id = pid, tc_enable_logging = cli_verbose (ca_cli c),
                tc_active_transports = get_enabled_transports c, tc_test_duration = None\<rparr>
          in case orchestrator_start env (from_config_with_transports test (cli_verbose (ca_cli c)) tc, ex) of
               ((o1, ex), Inl f) \<Rightarrow> (ex, Inl (AeRuntime f))
             | ((o1, ex), Inr _) \<Rightarrow> (ex, Inr \<lparr>ap_orchestrator = o1, ap_config = c, ap_running = False\<rparr>))"

definition cli_app_stop :: "'k cli_app \<times> executor \<Rightarrow> 'k cli_app \<times> executor" where
  "cli_app_stop s =
     (case s of (app, ex) \<Rightarrow>
        if \<not> ap_running app then s
        else (case orchestrator_stop (ap_orchestrator app, ex) of (o1, ex) \<Rightarrow>
          (app\<lparr>ap_orchestrator := o1, ap_running := False\<rparr>, ex)))"

definition on_terminal ::
    "(terminal \<Rightarrow> terminal \<times> unit result) \<Rightarrow> 'k cli_app \<Rightarrow> 'k cli_app \<times> unit result" where
  "on_terminal f app =
     (case or_terminal_interface (ap_orchestrator app) of
        None \<Rightarrow> (app, Inl (bad_setup ''Terminal interface not available''))
      | Some t \<Rightarrow> (case f t of (t, r) \<Rightarrow>
          (app\<lparr>ap_orchestrator := (ap_orchestrator app)\<lparr>or_terminal_interface := Some t\<rparr>\<rparr>, r)))"

definition send_broadcast_message :: "rust_string \<Rightarrow> 'k cli_app \<Rightarrow> 'k cli_app \<times> unit result" where
  "send_broadcast_message message app =
     on_terminal (ui_handle_send_message (or_peer_id (ap_orchestrator app)) message) app"

definition app_parse_peer_id :: "('sk, 'vk) cli_env \<Rightarrow> rust_string \<Rightarrow> peer_id result" where
  "app_parse_peer_id env s =
     (case ce_hex_decode env s of
        None \<Rightarrow> Inl (bad_setup ''Invalid peer ID format'')
      | Some bs \<Rightarrow> if length bs \<noteq> 8 then Inl (bad_setup ''Invalid peer ID length'') else Inr bs)"

definition send_private_message ::
    "('sk, 'vk) cli_env \<Rightarrow> rust_string \<Rightarrow> rust_string \<Rightarrow> 'k cli_app \<Rightarrow> 'k cli_app \<times> unit result" where
  "send_private_message env pid message app =
     (case app_parse_peer_id env pid of
        Inl f \<Rightarrow> (app, Inl f)
      | Inr recipient \<Rightarrow> on_terminal (ui_handle_send_message recipient message) app)"

definition connect_to_peer :: "('sk, 'vk) cli_env \<Rightarrow> rust_string \<Rightarrow> 'k cli_app \<Rightarrow> 'k cli_app \<times> unit result" where
  "connect_to_peer env pid app =
     (case app_parse_peer_id env pid of
        Inl f \<Rightarrow> (app, Inl f)
      | Inr peer \<Rightarrow> on_terminal (ui_handle_connect_to_peer peer) app)"

definition app_start_discovery :: "'k cli_app \<Rightarrow> 'k cli_app \<times> unit result" where
  "app_start_discovery = on_terminal ui_handle_start_discovery"

definition app_stop_discovery :: "'k cli_app \<Rightarrow> 'k cli_app \<times> unit result" where
  "app_stop_discovery = on_terminal ui_handle_stop_discovery"

text \<open>
  \<^verbatim>\<open>split_whitespace\<close>: the maximal pieces without white space; the second argument holds the bytes of
  the characters in the first one.
\<close>

fun split_words :: "nat list \<Rightarrow> bytes \<Rightarrow> bytes \<Rightarrow> rust_string list" where
  "split_words [] bs w = (if w = [] then [] else [w])"
| "split_words (c # cs) bs w =
     (if is_whitespace c
      then (if w = [] then [] else [w]) @ split_words cs (drop (utf8_length c) bs) []
      else split_words cs (drop (utf8_length c) bs) (w @ take (utf8_length c) bs))"

definition split_whitespace :: "rust_string \<Rightarrow> rust_string list" where
  "split_whitespace s = split_words (chars_of s) s []"

fun join_words :: "rust_string list \<Rightarrow> rust_string" where
  "join_words [] = []"
| "join_words [w] = w"
| "join_words (w # ws) = w @ text_of '' '' @ join_words ws"

definition handle_user_command ::
    "('sk, 'vk) cli_env \<Rightarrow> rust_string \<Rightarrow> 'k cli_app \<Rightarrow> 'k cli_app \<times> unit result" where
  "handle_user_command env line app =
     (case split_whitespace line of
        [] \<Rightarrow> (app, Inr ())
      | c # args \<Rightarrow>
          if c = text_of ''quit'' \<or> c = text_of ''exit'' then (app\<lparr>ap_running := False\<rparr>, Inr ())
          else if c = text_of ''send'' then
            (if args = [] then (app, Inr ()) else send_broadcast_message (join_words args) app)
          else if c = text_of ''private'' then
            (case args of
               pid # w # ws \<Rightarrow> send_private_message env pid (join_words (w # ws)) app
             | _ \<Rightarrow> (app, Inr ()))
          else if c = text_of ''connect'' then
            (case args of pid # _ \<Rightarrow> connect_to_peer env pid app | [] \<Rightarrow> (app, Inr ()))
          else if c = text_of ''discover'' then app_start_discovery app
          else if c = text_of ''stop-discovery'' then app_stop_discovery app
          else (app, Inr ()))"

text \<open>
  The loop over the lines the user types, without their white space at the ends; it ends with the input, with
  an error of the input (\<open>None\<close>) or when the application stops running. An error of a command is printed.
\<close>

fun interactive_loop ::
    "('sk, 'vk) cli_env \<Rightarrow> rust_string option list \<Rightarrow> 'k cli_app \<Rightarrow> 'k cli_app \<times> unit result" where
  "interactive_loop env [] app = (app, Inr ())"
| "interactive_loop env (None # ls) app = (app, Inl (bad_setup ''Failed to read input''))"
| "interactive_loop env (Some l # ls) app =
     (case handle_user_command env (trim l) app of (app, _) \<Rightarrow>
        if ap_running app then interactive_loop env ls app else (app, Inr ()))"

definition cli_app_run ::
    "('sk, 'vk) cli_env \<Rightarrow> rust_string option list \<Rightarrow> 'k cli_app \<Rightarrow> 'k cli_app \<times> unit result" where
  "cli_app_run env lines app =
     (if ap_running app then (app, Inl (bad_setup ''CLI application already running''))
      else interactive_loop env lines (app\<lparr>ap_running := True\<rparr>))"

text \<open>The end of \<^verbatim>\<open>main\<close>: run the application, then stop it.\<close>

definition run_and_stop ::
    "('sk, 'vk) cli_env \<Rightarrow> rust_string option list \<Rightarrow> 'k cli_app \<times> executor \<Rightarrow> ('k cli_app \<times> executor) \<times> unit result" where
  "run_and_stop env lines s =
     (case s of (app, ex) \<Rightarrow> case cli_app_run env lines app of (app, r) \<Rightarrow> (cli_app_stop (app, ex), r))"

section \<open>Automation\<close>

datatype json = JStr rust_string | JNum nat | JBool bool | JList "json list" | JObj "(string \<times> json) list"

abbreviation jstr :: "string \<Rightarrow> json" where
  "jstr s \<equiv> JStr (text_of s)"

definition json_event :: "string \<Rightarrow> (string \<times> json) list \<Rightarrow> nat \<Rightarrow> json" where
  "json_event ty data timestamp =
     JObj [(''type'', jstr ty), (''data'', JObj (data @ [(''timestamp'', JNum timestamp)]))]"

text \<open>The reports that do not look at the program.\<close>

definition mock_report :: "rust_string \<Rightarrow> nat \<Rightarrow> json option" where
  "mock_report c now =
     (if c = text_of ''status'' then Some (json_event ''SystemStatusReport''
        [(''peer_count'', JNum 0), (''active_connections'', JNum 0), (''message_count'', JNum 0),
         (''uptime_seconds'', JNum 0),
         (''transport_status'', JList [JObj [(''transport'', jstr ''nostr''), (''status'', jstr ''active'')]])] now)
      else if c = text_of ''sessions'' then Some (json_event ''SessionList''
        [(''active_sessions'', JNum 0), (''sessions'', JList [])] now)
      else if c = text_of ''session-stats'' then Some (json_event ''SessionStats''
        [(''total_sessions_created'', JNum 0), (''active_sessions'', JNum 0), (''completed_sessions'', JNum 0),
         (''failed_sessions'', JNum 0), (''average_session_duration_ms'', JNum 0)] now)
      else if c = text_of ''cleanup-sessions'' then Some (json_event ''SessionCleanup''
        [(''cleaned_sessions'', JNum 0), (''remaining_sessions'', JNum 0)] now)
      else if c = text_of ''validate-crypto-signatures'' then Some (json_event ''CryptographicValidation''
        [(''ed25519_signatures'', jstr ''valid''), (''noise_protocol'', jstr ''secure''),
         (''key_exchange'', jstr ''completed''), (''encryption_status'', jstr ''active'')] now)
      else if c = text_of ''test-session-security'' then Some (json_event ''SessionSecurity''
        [(''session_isolation'', jstr ''enforced''), (''key_rotation'', jstr ''automatic''),
         (''forward_secrecy'', jstr ''enabled''), (''replay_protection'', jstr ''active'')] now)
      else if c = text_of ''start-rekey'' then Some (json_event ''SessionRekeyStarted''
        [(''session_id'', jstr ''mock_session_123''), (''rekey_reason'', jstr ''message_threshold''),
         (''message_count'', JNum 900000100), (''threshold'', JNum 1000000000),
         (''effective_threshold'', JNum 900000000)] now)
      else if c = text_of ''force-rekey'' then Some (json_event ''SessionRekeyForced''
        [(''session_id'', jstr ''mock_session_123''), (''rekey_reason'', jstr ''manual''),
         (''new_session_id'', jstr ''mock_session_124'')] now)
      else if c = text_of ''check-rekey-status'' then Some (json_event ''RekeyStatusReport''
        [(''sessions_needing_rekey'', JNum 0), (''active_rekeys'', JNum 0), (''completed_rekeys'', JNum 1),
         (''failed_rekeys'', JNum 0), (''rekey_threshold'', JNum 1000000000), (''rekey_interval_secs'', JNum 86400),
         (''rekey_trigger_at_90_percent'', JBool True), (''effective_rekey_threshold'', JNum 900000000)] now)
      else None)"

definition compatibility_report :: "rust_string \<Rightarrow> nat \<Rightarrow> json option" where
  "compatibility_report c now =
     (if c = text_of ''protocol-version'' then Some (json_event ''ProtocolVersion''
        [(''version'', jstr ''1.0.0''), (''protocol_name'', jstr ''BitChat''),
         (''noise_pattern'', jstr ''Noise_XX_25519_ChaChaPoly_SHA256''), (''wire_format'', jstr ''binary''),
         (''compatibility_level'', jstr ''stable'')] now)
      else if take 20 c = text_of ''test-message-format '' then Some (json_event ''MessageFormatTest''
        [(''format'', JStr (drop 20 c)), (''supported'', JBool True), (''encoding'', jstr ''utf8''),
         (''max_size'', JNum 65535), (''validation'', jstr ''passed'')] now)
      else if c = text_of ''test-transport-compatibility'' then Some (json_event ''TransportCompatibilityTest''
        [(''supported_transports'', JList [jstr ''ble'', jstr ''nostr'']), (''active_transport'', jstr ''nostr''),
         (''fallback_available'', JBool True), (''mtu_negotiation'', jstr ''supported''),
         (''compression'', jstr ''none''), (''compatibility_status'', jstr ''full'')] now)
      else if c = text_of ''test-error-handling'' then Some (json_event ''ErrorHandlingTest''
        [(''error_codes_supported'', JBool True), (''graceful_degradation'', jstr ''enabled''),
         (''recovery_mechanisms'', JList [jstr ''retry'', jstr ''fallback'', jstr ''reset'']),
         (''error_reporting'', jstr ''json_structured''), (''backwards_compatibility'', JBool True)] now)
      else if c = text_of ''compatibility-report'' then Some (json_event ''CompatibilityReport''
        [(''overall_compatibility'', jstr ''excellent''), (''protocol_compliance'', jstr ''full''),
         (''interoperability_score'', JNum 95),
         (''tested_features'', JList [jstr ''protocol_version'', jstr ''cryptographic_primitives'',
            jstr ''message_formats'', jstr ''transport_layers'', jstr ''session_management'', jstr ''error_handling'']),
         (''compatibility_issues'', JList []),
         (''recommendations'', JList [jstr ''none - full compatibility achieved''])] now)
      else None)"

text \<open>\<^verbatim>\<open>parse::<u64>\<close>: an optional plus and decimal digits, in range.\<close>

fun digits_value :: "nat \<Rightarrow> bytes \<Rightarrow> nat option" where
  "digits_value acc [] = Some acc"
| "digits_value acc (b # bs) =
     (if 48 \<le> b \<and> b \<le> 57 then digits_value (acc * 10 + unat (b - 48)) bs else None)"

definition parse_u64 :: "rust_string \<Rightarrow> u64 option" where
  "parse_u64 s =
     (let ds = (case s of b # bs \<Rightarrow> if b = 43 then bs else s | [] \<Rightarrow> s)
      in if ds = [] then None
         else case digits_value 0 ds of
           Some n \<Rightarrow> if n < 2 ^ 64 then Some (word_of_nat n) else None
         | None \<Rightarrow> None)"

definition configure_reply :: "rust_string \<Rightarrow> rust_string \<Rightarrow> nat \<Rightarrow> json" where
  "configure_reply setting val now =
     (let (event_type, success) =
        (if setting = text_of ''rekey-threshold'' then
           (if parse_u64 val \<noteq> None then (''RekeyThresholdSet'', True) else (''ConfigurationError'', False))
         else if setting = text_of ''rekey-interval'' then
           (if parse_u64 val \<noteq> None then (''RekeyIntervalSet'', True) else (''ConfigurationError'', False))
         else if setting = text_of ''session-state'' then
           (if val \<in> {text_of ''rekeying'', text_of ''established'', text_of ''handshaking'', text_of ''failed''}
            then (''SessionStateChanged'', True) else (''ConfigurationError'', False))
         else (''ConfigurationChanged'', True))
      in json_event event_type [(''setting'', JStr setting), (''value'', JStr val), (''success'', JBool success)] now)"

definition ascii_lower :: "rust_string \<Rightarrow> rust_string" where
  "ascii_lower s = map (\<lambda>b. if 65 \<le> b \<and> b \<le> 90 then b + 32 else b) s"

text \<open>The answer to a pause or resume command, with the text of the error when it failed.\<close>

definition transport_reply :: "('sk, 'vk) cli_env \<Rightarrow> rust_string \<Rightarrow> string \<Rightarrow> unit result \<Rightarrow> nat \<Rightarrow> json" where
  "transport_reply env name done_status r now =
     (case r of
        Inr _ \<Rightarrow> json_event ''TransportStatusChanged'' [(''transport'', JStr name), (''status'', jstr done_status)] now
      | Inl f \<Rightarrow> json_event ''TransportStatusChanged''
          [(''transport'', JStr name), (''status'', jstr ''error''), (''error'', JStr (ce_show_fault env f))] now)"

definition unknown_transport_reply :: "rust_string \<Rightarrow> nat \<Rightarrow> json" where
  "unknown_transport_reply name now = json_event ''TransportStatusChanged''
     [(''transport'', JStr name), (''status'', jstr ''error''),
      (''error'', JStr (text_of ''Unknown transport type: '' @ name))] now"

definition handle_automation_command ::
    "('sk, 'vk) cli_env \<Rightarrow> nat \<Rightarrow> rust_string \<Rightarrow> 'k cli_app \<times> executor
     \<Rightarrow> ('k cli_app \<times> executor) \<times> json list \<times> unit result" where
  "handle_automation_command env now line s =
     (case s of (app, ex) \<Rightarrow>
      case split_whitespace line of
        [] \<Rightarrow> (s, [], Inr ())
      | c # args \<Rightarrow>
          if c = text_of ''discover'' then
            (case app_start_discovery app of
               (app, Inl f) \<Rightarrow> ((app, ex), [], Inl f)
             | (app, Inr _) \<Rightarrow> ((app, ex), [json_event ''DiscoveryStateChanged''
                 [(''active'', JBool True), (''transport'', jstr ''nostr'')] now], Inr ()))
          else if c = text_of ''send'' then
            (if args = [] then (s, [], Inr ())
             else case send_broadcast_message (join_words args) app of
                (app, Inl f) \<Rightarrow> ((app, ex), [], Inl f)
              | (app, Inr _) \<Rightarrow> ((app, ex), [json_event ''MessageSent''
                  [(''content'', JStr (join_words args)), (''to'', jstr ''broadcast'')] (now div 1000)], Inr ()))
          else if c = text_of ''pause-transport'' then
            (case args of
               [] \<Rightarrow> (s, [], Inr ())
             | name # _ \<Rightarrow>
                 (case transport_of_name (ascii_lower name) of
                    None \<Rightarrow> (s, [unknown_transport_reply name now], Inr ())
                  | Some ty \<Rightarrow>
                      (case pause_transport ty (ap_orchestrator app, ex) of ((o1, ex), r) \<Rightarrow>
                         ((app\<lparr>ap_orchestrator := o1\<rparr>, ex), [transport_reply env name ''paused'' r now], Inr ()))))
          else if c = text_of ''resume-transport'' then
            (case args of
               [] \<Rightarrow> (s, [], Inr ())
             | name # _ \<Rightarrow>
                 (case transport_of_name (ascii_lower name) of
                    None \<Rightarrow> (s, [unknown_transport_reply name now], Inr ())
                  | Some ty \<Rightarrow>
                      (case resume_transport ty (ap_orchestrator app) of (o1, r) \<Rightarrow>
                         ((app\<lparr>ap_orchestrator := o1\<rparr>, ex), [transport_reply env name ''active'' r now], Inr ()))))
          else if c = text_of ''configure'' then
            (case args of
               setting # val # _ \<Rightarrow> (s, [configure_reply setting val now], Inr ())
             | _ \<Rightarrow> (s, [], Inr ()))
          else if c = text_of ''quit'' \<or> c = text_of ''exit'' then
            ((app\<lparr>ap_running := False\<rparr>, ex), [json_event ''Shutdown'' [] now], Inr ())
          else case mock_report c now of
            Some j \<Rightarrow> (s, [j], Inr ())
          | None \<Rightarrow> (s, (case compatibility_report c now of Some j \<Rightarrow> [j] | None \<Rightarrow> []), Inr ()))"

definition error_event :: "rust_string \<Rightarrow> nat \<Rightarrow> json" where
  "error_event message now = json_event ''error'' [(''message'', JStr message)] now"

text \<open>The loop of the automation mode, each line with the time it is read; \<open>None\<close> is an error of the input.\<close>

fun automation_loop ::
    "('sk, 'vk) cli_env \<Rightarrow> (nat \<times> rust_string option) list \<Rightarrow> 'k cli_app \<times> executor
     \<Rightarrow> ('k cli_app \<times> executor) \<times> json list" where
  "automation_loop env [] s = (s, [])"
| "automation_loop env ((now, None) # ls) s =
     (s, [error_event (text_of ''Failed to read input'') now])"
| "automation_loop env ((now, Some l) # ls) s =
     (case handle_automation_command env now (trim l) s of (s, out, r) \<Rightarrow>
        let out = out @ (case r of Inl f \<Rightarrow> [error_event (ce_show_fault env f) now] | Inr _ \<Rightarrow> [])
        in if ap_running (fst s)
           then (case automation_loop env ls s of (s, later) \<Rightarrow> (s, out @ later))
           else (s, out))"

definition run_automation_mode ::
    "('sk, 'vk) cli_env \<Rightarrow> 'k cli_app_config \<Rightarrow> (nat \<times> rust_string option) list \<Rightarrow> executor
     \<Rightarrow> (application_error + 'k cli_app) \<times> executor \<times> json list" where
  "run_automation_mode env c ls ex =
     (case cli_app_new env c ex of
        (ex, Inl e) \<Rightarrow> (Inl e, ex, [])
      | (ex, Inr app) \<Rightarrow>
          (case automation_loop env ls (app\<lparr>ap_running := True\<rparr>, ex) of (s, out) \<Rightarrow>
             (case cli_app_stop s of (app, ex) \<Rightarrow> (Inr app, ex, out))))"

text \<open>The configuration of the interactive mode: with a name and a relay of the command line.\<close>

definition interactive_config :: "rust_string option \<Rightarrow> string option \<Rightarrow> 'k cli_app_config \<Rightarrow> 'k cli_app_config" where
  "interactive_config name relay c =
     (let c = (case name of
                 Some n \<Rightarrow> c\<lparr>ca_identity := (ca_identity c)\<lparr>id_name := Some n\<rparr>\<rparr>
               | None \<Rightarrow> c)
      in case relay of
           Some url \<Rightarrow> c\<lparr>
             ca_runtime := (ca_runtime c)
               \<lparr>rc_enabled_transports := rc_enabled_transports (ca_runtime c) @ [text_of ''nostr'']\<rparr>,
             ca_nostr := (ca_nostr c)\<lparr>nc_relays := nc_relays (ca_nostr c) @ [nostr_relay_config_new url]\<rparr>\<rparr>
         | None \<Rightarrow> c)"

section \<open>Identities\<close>

lemma length_be_bytes [simp]: "length (be_bytes n) = 8"
  by (simp add: be_bytes_def)

text \<open>A validated configuration always has a peer identifier, of eight bytes, and the client reads the same
  texts as identifiers as the configuration does.\<close>

theorem validated_identity:
  assumes "cli_validate env c = Inr ()"
  shows "\<exists>pid. get_peer_id env c = Inr pid \<and> peer_id_wf pid \<and>
    (\<forall>s. id_peer_id (ca_identity c) = Some s \<longrightarrow> app_parse_peer_id env s = Inr pid)"
  using assms
  by (auto simp: cli_validate_def get_peer_id_def config_parse_peer_id_def app_parse_peer_id_def peer_id_wf_def
      generate_peer_id_from_name_def generate_random_peer_id_def split: option.splits sum.splits if_splits)

section \<open>The tasks of the orchestrator\<close>

lemma ble_transport_attaches [simp]: "attaches (ble_transport_of target identity)" "tt_type (ble_transport_of target identity) = Ble"
  by (simp_all add: attaches_def ble_transport_of_def ble_attach_channels_def ble_task_new_def)

lemma start_ble_transport:
  "start_transport_task (ble_transport_of target identity) ex = (ex @ [running_task (KTransport Ble)], Inr (length ex))"
proof -
  obtain u where "tt_attach (ble_transport_of target identity) = Inr u"
    using ble_transport_attaches(1) [of target identity] by (auto simp: attaches_def is_ok_iff)
  then show ?thesis by (simp add: start_transport_task_def spawn_def)
qed

text \<open>The settings with which the client can start: the Bluetooth transport, once.\<close>

definition ble_configured :: "transport_config \<Rightarrow> bool" where
  "ble_configured tc \<longleftrightarrow> Ble \<in> set (tp_enabled_transports tc) \<and> tp_ble_enabled tc \<and> distinct (tp_enabled_transports tc)"

lemma start_each_skips:
  assumes "Ble \<notin> set ts \<or> \<not> tp_ble_enabled (or_transport_config o1)"
  shows "start_each env ts (o1, ex) = ((o1, ex), Inr ())"
  using assms by (induction ts) auto

definition with_ble_task :: "orchestrator \<Rightarrow> join_handle \<Rightarrow> orchestrator" where
  "with_ble_task o1 h = o1\<lparr>or_transport_handles := map_put Ble h (or_transport_handles o1),
     or_paused_transports := map_put Ble False (or_paused_transports o1)\<rparr>"

lemma start_each_ble:
  assumes "Ble \<in> set ts" and "distinct ts" and "tp_ble_enabled (or_transport_config o1)"
  shows "start_each env ts (o1, ex) =
     ((with_ble_task o1 (length ex), ex @ [running_task (KTransport Ble)]), Inr ())"
  using assms
proof (induction ts)
  case (Cons ty ts)
  then show ?case
    by (cases ty) (auto simp: start_ble_transport start_each_skips with_ble_task_def)
qed simp

definition orchestrator_inv :: "orchestrator \<times> executor \<Rightarrow> bool" where
  "orchestrator_inv s \<longleftrightarrow> (case s of (o1, ex) \<Rightarrow> distinct (keys_of (or_transport_handles o1)) \<and>
     (if or_running o1
     then live ex \<subseteq> set (case or_core_logic_handle o1 of Some h \<Rightarrow> [h] | None \<Rightarrow> []) \<union> snd ` set (or_transport_handles o1)
     else live ex = {} \<and> or_transport_handles o1 = []))"

lemma orchestrator_start_ok:
  assumes "ble_configured (or_transport_config o1)" and "\<not> or_running o1" and "or_transport_handles o1 = []"
    and "is_ok (create_channels (ce_wiring env) cli_channels)" and "is_ok (we_core_new (ce_wiring env))"
  shows "orchestrator_start env (o1, ex) =
     (((with_ble_task (o1\<lparr>or_core_logic_handle := Some (length ex)\<rparr>) (Suc (length ex)))
         \<lparr>or_terminal_interface := Some (terminal_new (or_peer_id o1) 50), or_running := True\<rparr>,
       ex @ map running_task [KCore, KTransport Ble]), Inr ())"
  using assms
  by (auto simp: orchestrator_start_def spawn_def is_ok_iff start_configured_transports_def start_each_ble
      ble_configured_def with_ble_task_def cli_channels_def Let_def)

lemma orchestrator_start_fails:
  assumes "\<not> is_ok (create_channels (ce_wiring env) cli_channels) \<or> \<not> is_ok (we_core_new (ce_wiring env)) \<or> or_running o1"
  shows "fst (orchestrator_start env (o1, ex)) = (o1, ex)"
  using assms by (auto simp: orchestrator_start_def is_ok_iff split: sum.splits)

datatype ('sk, 'vk) orchestrator_op = OoStart "('sk, 'vk) cli_env" | OoStop | OoPause transport_type | OoResume transport_type

fun orchestrator_step :: "('sk, 'vk) orchestrator_op \<Rightarrow> orchestrator \<times> executor \<Rightarrow> orchestrator \<times> executor" where
  "orchestrator_step (OoStart env) s = fst (orchestrator_start env s)"
| "orchestrator_step OoStop s = orchestrator_stop s"
| "orchestrator_step (OoPause ty) s = fst (pause_transport ty s)"
| "orchestrator_step (OoResume ty) s = (fst (resume_transport ty (fst s)), snd s)"

lemma orchestrator_stop_live: "orchestrator_inv s \<Longrightarrow> live (snd (orchestrator_stop s)) = {}"
  by (cases s) (auto simp: orchestrator_inv_def orchestrator_stop_def live_abort_all split: if_splits)

lemma map_del_handles:
  assumes "distinct (keys_of hs)" and "map_of hs ty = Some h"
  shows "snd ` set hs - {h} \<subseteq> snd ` set (map_del ty hs)"
proof
  fix x
  assume "x \<in> snd ` set hs - {h}"
  then obtain k where "(k, x) \<in> set hs" and "x \<noteq> h" by auto
  then have "map_of hs k = Some x" using assms(1) by simp
  with assms(2) \<open>x \<noteq> h\<close> have "map_of (map_del ty hs) k = Some x" by (auto simp: delete_conv')
  then have "(k, x) \<in> set (map_del ty hs)" by (rule map_of_SomeD)
  then show "x \<in> snd ` set (map_del ty hs)" by (rule image_eqI [rotated]) simp
qed

lemma orchestrator_inv_pause:
  assumes "orchestrator_inv (o1, ex)"
  shows "orchestrator_inv (fst (pause_transport ty (o1, ex)))"
proof (cases "or_running o1 \<and> map_of (or_paused_transports o1) ty = Some False \<and> map_of (or_transport_handles o1) ty \<noteq> None")
  case True
  then obtain h where h: "map_of (or_transport_handles o1) ty = Some h" by auto
  let ?core = "set (case or_core_logic_handle o1 of Some h \<Rightarrow> [h] | None \<Rightarrow> [])"
  from assms True have keys: "distinct (keys_of (or_transport_handles o1))"
    and live: "live ex \<subseteq> ?core \<union> snd ` set (or_transport_handles o1)" by (simp_all add: orchestrator_inv_def)
  from map_del_handles [OF keys h] live
  have "live (abort_task h ex) \<subseteq> ?core \<union> snd ` set (map_del ty (or_transport_handles o1))"
    unfolding live_abort by blast
  with True h keys show ?thesis
    by (simp add: orchestrator_inv_def pause_transport_def distinct_delete)
next
  case False
  then have "fst (pause_transport ty (o1, ex)) = (o1, ex)"
    by (auto simp: pause_transport_def split: option.splits bool.splits)
  with assms show ?thesis by simp
qed

lemma pause_config: "or_transport_config (fst (fst (pause_transport ty s))) = or_transport_config (fst s)"
  by (cases s) (auto simp: pause_transport_def split: option.splits bool.splits)

lemma resume_fields:
  "or_transport_config (fst (resume_transport ty o1)) = or_transport_config o1"
  "or_running (fst (resume_transport ty o1)) = or_running o1"
  "or_transport_handles (fst (resume_transport ty o1)) = or_transport_handles o1"
  "or_core_logic_handle (fst (resume_transport ty o1)) = or_core_logic_handle o1"
  by (auto simp: resume_transport_def split: option.splits bool.splits)

lemma orchestrator_inv_start:
  assumes "orchestrator_inv (o1, ex)" and "ble_configured (or_transport_config o1)"
  shows "orchestrator_inv (fst (orchestrator_start env (o1, ex))) \<and>
    or_transport_config (fst (fst (orchestrator_start env (o1, ex)))) = or_transport_config o1"
proof (cases "or_running o1 \<or> \<not> is_ok (create_channels (ce_wiring env) cli_channels) \<or> \<not> is_ok (we_core_new (ce_wiring env))")
  case True
  then have "fst (orchestrator_start env (o1, ex)) = (o1, ex)" by (auto intro!: orchestrator_start_fails)
  with assms(1) show ?thesis by simp
next
  case False
  then have stopped: "\<not> or_running o1" and none: "or_transport_handles o1 = []" "live ex = {}"
    using assms(1) by (auto simp: orchestrator_inv_def)
  have "live (ex @ map running_task [KCore, KTransport Ble]) = {length ex, Suc (length ex)}"
    unfolding live_spawned none by auto
  with False assms(2) stopped none show ?thesis
    by (simp add: orchestrator_start_ok orchestrator_inv_def with_ble_task_def)
qed

lemma orchestrator_inv_step:
  assumes "orchestrator_inv s" and "ble_configured (or_transport_config (fst s))"
  shows "orchestrator_inv (orchestrator_step op s) \<and>
    or_transport_config (fst (orchestrator_step op s)) = or_transport_config (fst s)"
proof -
  obtain o1 ex where s: "s = (o1, ex)" by (cases s)
  show ?thesis
  proof (cases op)
    case (OoStart env)
    with assms s orchestrator_inv_start show ?thesis by simp
  next
    case OoStop
    with assms(1) s orchestrator_stop_live [OF assms(1)] show ?thesis
      by (auto simp: orchestrator_inv_def orchestrator_stop_def split: if_splits)
  next
    case (OoPause ty)
    with assms(1) s orchestrator_inv_pause pause_config [of ty s] show ?thesis by simp
  next
    case (OoResume ty)
    with assms(1) s show ?thesis
      by (cases "or_core_logic_handle o1") (auto simp: orchestrator_inv_def resume_fields split: if_splits)
  qed
qed

lemma orchestrator_inv_run:
  assumes "orchestrator_inv s" and "ble_configured (or_transport_config (fst s))"
  shows "orchestrator_inv (fold orchestrator_step ops s)"
  using assms by (induction ops arbitrary: s) (auto simp: orchestrator_inv_step)

text \<open>Whatever is started, stopped, paused and resumed: with the Bluetooth transport configured, stopping the
  client leaves none of the tasks the orchestrator has spawned running. (The Bluetooth task spawns a task of
  its own only when it connects to a peer, which it never does.)\<close>

theorem client_leaves_no_task:
  assumes "ble_configured tc"
  shows "live (snd (orchestrator_stop (fold orchestrator_step ops (from_config_with_transports c verbose tc, [])))) = {}"
  using assms
  by (intro orchestrator_stop_live orchestrator_inv_run)
    (simp_all add: orchestrator_inv_def from_config_with_transports_def)

theorem client_leaves_no_task_witness:
  "live (snd (orchestrator_stop (fold orchestrator_step ([OoPause Ble, OoResume Ble] :: (unit, unit) orchestrator_op list)
     (from_config_with_transports test_config_default True transport_config_default, [])))) = {}"
  by (rule client_leaves_no_task) (simp add: ble_configured_def transport_config_default_def)

section \<open>What the client does not do\<close>

text \<open>Resuming a paused transport succeeds and reports it as active, but starts nothing: no task of it runs, and
  pausing it again succeeds without any effect.\<close>

theorem resume_does_not_restart:
  assumes "or_running o1" and "map_of (or_paused_transports o1) Ble = Some False"
    and "map_of (or_transport_handles o1) Ble = Some h" and "distinct (keys_of (or_transport_handles o1))"
    and "tp_ble_enabled (or_transport_config o1)"
    and "pause_transport Ble (o1, ex) = ((o2, ex2), r2)" and "resume_transport Ble o2 = (o3, r3)"
  shows "r2 = Inr () \<and> r3 = Inr () \<and> \<not> is_transport_paused Ble o3 \<and> live ex2 = live ex - {h} \<and>
    map_of (or_transport_handles o3) Ble = None \<and> pause_transport Ble (o3, ex2) = ((o3, ex2), Inr ())"
proof -
  have o2: "o2 = o1\<lparr>or_transport_handles := map_del Ble (or_transport_handles o1),
      or_paused_transports := map_put Ble True (or_paused_transports o1)\<rparr>" and "ex2 = abort_task h ex" "r2 = Inr ()"
    using assms(1-3,6) by (auto simp: pause_transport_def)
  moreover have "o3 = o2\<lparr>or_paused_transports := map_put Ble False (or_paused_transports o2)\<rparr>" "r3 = Inr ()"
    using assms(1,5,7) o2 by (auto simp: resume_transport_def)
  ultimately show ?thesis
    using assms(1) by (simp add: is_transport_paused_def pause_transport_def live_abort delete_conv')
qed

lemma start_without_ble:
  assumes "Ble \<notin> set (tp_enabled_transports (or_transport_config o1))" and "\<not> or_running o1"
    and "or_transport_handles o1 = []" and "is_ok (create_channels (ce_wiring env) cli_channels)"
    and "is_ok (we_core_new (ce_wiring env))"
  shows "\<exists>o2 f. orchestrator_start env (o1, ex) = ((o2, ex @ [running_task KCore]), Inl f)"
  using assms by (auto simp: orchestrator_start_def spawn_def start_configured_transports_def start_each_skips
      is_ok_iff Let_def)

text \<open>A configuration that enables only Nostr passes the validation, but the client does not start with it: the
  orchestrator starts no Nostr transport. The core logic it has spawned before goes on.\<close>

theorem nostr_only_cannot_start:
  assumes "cli_validate env c = Inr ()" and "text_of ''ble'' \<notin> set (rc_enabled_transports (ca_runtime c))"
    and "is_ok (create_channels (ce_wiring env) cli_channels)" and "is_ok (we_core_new (ce_wiring env))"
  shows "\<exists>f. cli_app_new env c ex = (ex @ [running_task KCore], Inl (AeRuntime f))"
proof -
  obtain pid where pid: "get_peer_id env c = Inr pid" using validated_identity [OF assms(1)] by auto
  have no_ble: "Ble \<notin> set (get_enabled_transports c)"
    using assms(2) by (auto simp: get_enabled_transports_def List.map_filter_def transport_of_name_def split: if_splits)
  define o1 where "o1 = from_config_with_transports
      \<lparr>tc_peer_id = pid, tc_enable_logging = cli_verbose (ca_cli c),
        tc_active_transports = get_enabled_transports c, tc_test_duration = None\<rparr> (cli_verbose (ca_cli c))
      \<lparr>tp_enabled_transports = get_enabled_transports c,
        tp_ble_enabled = text_of ''ble'' \<in> set (rc_enabled_transports (ca_runtime c)),
        tp_nostr_enabled = text_of ''nostr'' \<in> set (rc_enabled_transports (ca_runtime c))\<rparr>"
  have "Ble \<notin> set (tp_enabled_transports (or_transport_config o1))" "\<not> or_running o1" "or_transport_handles o1 = []"
    using no_ble by (simp_all add: o1_def from_config_with_transports_def)
  from start_without_ble [OF this assms(3,4), of ex] obtain o2 f
    where "orchestrator_start env (o1, ex) = ((o2, ex @ [running_task KCore]), Inl f)" by blast
  then show ?thesis by (simp add: cli_app_new_def pid Let_def o1_def)
qed

lemma text_of_ascii:
  "split_whitespace (trim (text_of ''quit'')) = [text_of ''quit'']"
proof -
  have "text_of ''quit'' = [113, 117, 105, 116]" by (simp add: text_of_def)
  moreover have "chars_of [113, 117, 105, 116] = [113, 117, 105, 116]"
    by (simp add: chars_of_def utf8_decode_ascii)
  ultimately show ?thesis
    by (simp add: trim_def split_whitespace_def is_whitespace_def utf8_length_def)
qed

text \<open>When the user quits, the application has stopped running before it is told to stop, which then does nothing:
  the transports and the core logic are left as they are. The end of the input, in contrast, stops them.\<close>

theorem quit_skips_stop:
  assumes "\<not> ap_running app"
  shows "fst (run_and_stop env (Some (text_of ''quit'') # ls) (app, ex)) = (app, ex) \<and>
    snd (fst (run_and_stop env [] (app, ex))) = snd (orchestrator_stop (ap_orchestrator app, ex))"
proof -
  have "handle_user_command env (trim (text_of ''quit'')) (app\<lparr>ap_running := True\<rparr>) = (app, Inr ())"
    using assms by (simp add: handle_user_command_def text_of_ascii)
  with assms show ?thesis
    by (simp add: run_and_stop_def cli_app_run_def cli_app_stop_def split: prod.split)
qed

text \<open>The reports of the automation mode about sessions, security and status are fixed texts.\<close>

lemma mock_reports_blind:
  assumes "split_whitespace line = c # args" and "mock_report c now = Some j"
  shows "handle_automation_command env now line s = (s, [j], Inr ())"
proof -
  have "c \<noteq> text_of ''discover'' \<and> c \<noteq> text_of ''send'' \<and> c \<noteq> text_of ''pause-transport'' \<and>
      c \<noteq> text_of ''resume-transport'' \<and> c \<noteq> text_of ''configure'' \<and> c \<noteq> text_of ''quit'' \<and> c \<noteq> text_of ''exit''"
    using assms(2) by (auto simp: mock_report_def text_of_def)
  with assms show ?thesis by (simp add: handle_automation_command_def split: prod.split)
qed

section \<open>What the client shows\<close>

definition blank_terminal :: "terminal \<Rightarrow> bool" where
  "blank_terminal t \<longleftrightarrow> ui_peers (tm_state t) = [] \<and> ui_recent_messages (tm_state t) = []
     \<and> ui_system_status (tm_state t) \<noteq> UsReady \<and> \<not> ui_discovery_active (tm_state t)"

definition blank_app :: "'k cli_app \<Rightarrow> bool" where
  "blank_app app \<longleftrightarrow> (\<forall>t. or_terminal_interface (ap_orchestrator app) = Some t \<longrightarrow> blank_terminal t)"

lemma terminal_send_blank: "blank_terminal t \<Longrightarrow> blank_terminal (fst (terminal_send c t))"
  by (auto simp: terminal_send_def blank_terminal_def note_overload_def)

lemmas ui_handles = ui_handle_send_message_def ui_handle_connect_to_peer_def ui_handle_start_discovery_def
  ui_handle_stop_discovery_def

lemma on_terminal_blank: "blank_app app \<Longrightarrow> blank_app (fst (on_terminal (terminal_send c) app))"
  by (auto simp: on_terminal_def blank_app_def split: option.splits prod.splits) (metis terminal_send_blank fst_conv)

lemma handle_user_command_blank:
  assumes "blank_app app"
  shows "blank_app (fst (handle_user_command env line app))"
proof -
  have "blank_app (app\<lparr>ap_running := False\<rparr>)" using assms by (simp add: blank_app_def)
  with assms on_terminal_blank [OF assms] show ?thesis
    by (auto simp: handle_user_command_def send_broadcast_message_def send_private_message_def connect_to_peer_def
        app_start_discovery_def app_stop_discovery_def ui_handles split: list.split sum.split)
qed

lemma interactive_loop_blank: "blank_app app \<Longrightarrow> blank_app (fst (interactive_loop env ls app))"
proof (induction env ls app rule: interactive_loop.induct)
  case (3 env l ls app)
  have "blank_app (fst (handle_user_command env (trim l) app))" using 3(2) by (rule handle_user_command_blank)
  with 3(1) show ?case by (auto split: prod.split)
qed auto

text \<open>C37: The client creates its terminal interface and never runs it: nothing that reaches the client is shown.
  Whatever the user types, no peer and no message ever appears, discovery counts as off and the system is never
  shown as ready.\<close>

theorem client_shows_nothing:
  assumes "cli_app_new env c ex = (ex', Inr app)" and "cli_app_run env lines app = (app', r)"
    and "or_terminal_interface (ap_orchestrator app') = Some t"
  shows "ui_peers (tm_state t) = [] \<and> ui_recent_messages (tm_state t) = [] \<and>
    ui_system_status (tm_state t) \<noteq> UsReady \<and> \<not> ui_discovery_active (tm_state t)"
proof -
  have "blank_app app"
    using assms(1)
    by (auto simp: cli_app_new_def orchestrator_start_def blank_app_def blank_terminal_def terminal_new_def
        ui_state_default_def Let_def split: sum.splits prod.splits if_splits)
  then have "blank_app (app\<lparr>ap_running := True\<rparr>)" by (simp add: blank_app_def)
  from interactive_loop_blank [OF this, of env lines] \<open>blank_app app\<close> have "blank_app app'"
    using assms(2) by (auto simp: cli_app_run_def split: if_splits)
  with assms(3) show ?thesis by (simp add: blank_app_def blank_terminal_def)
qed

section \<open>A concrete client\<close>

definition toy_cli :: "(unit, unit) cli_env" where
  "toy_cli = \<lparr>ce_hex_decode = (\<lambda>s. if length s = 16 then Some (replicate 8 1) else None), ce_hash = (\<lambda>s. 7),
     ce_nanos = 9, ce_show_fault = (\<lambda>f. []), ce_wiring = toy_wiring,
     ce_identity = \<lparr>signing_key = (), verifying_key = ()\<rparr>,
     ce_target = TargetLinux\<rparr>"

definition toy_cli_config :: "string list \<Rightarrow> unit cli_app_config" where
  "toy_cli_config ts = (cli_app_config_default ())
     \<lparr>ca_runtime := runtime_config_default\<lparr>rc_enabled_transports := map text_of ts\<rparr>\<rparr>"

lemma toy_cli_ready: "is_ok (create_channels (ce_wiring toy_cli) cli_channels)" "is_ok (we_core_new (ce_wiring toy_cli))"
  by (simp_all add: toy_cli_def toy_wiring_def create_channels_def cli_channels_def)

lemma toy_cli_config_valid:
  "set ts \<subseteq> {''ble'', ''nostr''} \<Longrightarrow> cli_validate toy_cli (toy_cli_config ts) = Inr ()"
  by (auto simp: cli_validate_def toy_cli_config_def cli_app_config_default_def identity_config_default_def
      runtime_config_default_def ble_config_default_def nostr_config_default_def list_all_iff)

theorem validated_identity_witness:
  "\<exists>pid. get_peer_id toy_cli (toy_cli_config [''ble'']) = Inr pid \<and> peer_id_wf pid"
  using validated_identity [of toy_cli "toy_cli_config [''ble'']"] toy_cli_config_valid [of "[''ble'']"] by auto

theorem nostr_only_cannot_start_witness:
  "\<exists>f. cli_app_new toy_cli (toy_cli_config [''nostr'']) [] = ([running_task KCore], Inl (AeRuntime f))"
proof -
  have "text_of ''ble'' \<notin> set (rc_enabled_transports (ca_runtime (toy_cli_config [''nostr''])))"
    by (simp add: toy_cli_config_def cli_app_config_default_def runtime_config_default_def text_of_def)
  from nostr_only_cannot_start [OF toy_cli_config_valid this toy_cli_ready, of "[]"] show ?thesis by simp
qed

definition toy_orchestrator :: orchestrator where
  "toy_orchestrator = (from_config_with_transports test_config_default False ble_only)
     \<lparr>or_running := True, or_transport_handles := [(Ble, 0)], or_paused_transports := [(Ble, False)]\<rparr>"

theorem resume_does_not_restart_witness:
  "case pause_transport Ble (toy_orchestrator, [running_task (KTransport Ble)]) of ((o2, ex2), r2) \<Rightarrow>
     live ex2 = {} \<and> \<not> is_transport_paused Ble (fst (resume_transport Ble o2))"
proof -
  let ?ex = "[running_task (KTransport Ble)]"
  obtain o2 ex2 r2 where p: "pause_transport Ble (toy_orchestrator, ?ex) = ((o2, ex2), r2)" by (metis surj_pair)
  obtain o3 r3 where r: "resume_transport Ble o2 = (o3, r3)" by (metis surj_pair)
  have "live ex2 = live ?ex - {0} \<and> \<not> is_transport_paused Ble o3"
    using resume_does_not_restart [OF _ _ _ _ _ p r, of 0]
    by (simp add: toy_orchestrator_def from_config_with_transports_def ble_only_def)
  with p r show ?thesis by simp
qed

theorem quit_skips_stop_witness:
  "snd (fst (run_and_stop toy_cli [Some (text_of ''quit'')]
     (\<lparr>ap_orchestrator = toy_orchestrator, ap_config = toy_cli_config [''ble''], ap_running = False\<rparr>,
      [running_task (KTransport Ble)]))) = [running_task (KTransport Ble)]"
  using quit_skips_stop [of "\<lparr>ap_orchestrator = toy_orchestrator, ap_config = toy_cli_config [''ble''],
      ap_running = False\<rparr>" toy_cli "[]" "[running_task (KTransport Ble)]"] by simp

lemma toy_client_starts:
  "\<exists>app. cli_app_new toy_cli (toy_cli_config [''ble'']) [] = ([running_task KCore, running_task (KTransport Ble)], Inr app) \<and>
     or_terminal_interface (ap_orchestrator app) \<noteq> None \<and> \<not> ap_running app"
proof -
  let ?c = "toy_cli_config [''ble'']"
  obtain pid where pid: "get_peer_id toy_cli ?c = Inr pid" using validated_identity_witness by auto
  have "get_enabled_transports ?c = [Ble]" and "text_of ''ble'' \<in> set (rc_enabled_transports (ca_runtime ?c))"
    by (simp_all add: get_enabled_transports_def toy_cli_config_def cli_app_config_default_def
        runtime_config_default_def transport_of_name_def)
  then show ?thesis
    by (simp add: cli_app_new_def pid Let_def orchestrator_start_ok [OF _ _ _ toy_cli_ready] ble_configured_def
        from_config_with_transports_def)
qed

theorem client_shows_nothing_witness:
  "\<exists>app t. snd (cli_app_new toy_cli (toy_cli_config [''ble'']) []) = Inr app \<and>
     or_terminal_interface (ap_orchestrator (fst (cli_app_run toy_cli [] app))) = Some t \<and>
     ui_recent_messages (tm_state t) = []"
proof -
  obtain app t where new: "cli_app_new toy_cli (toy_cli_config [''ble'']) [] =
      ([running_task KCore, running_task (KTransport Ble)], Inr app)"
    and t: "or_terminal_interface (ap_orchestrator app) = Some t" and "\<not> ap_running app"
    using toy_client_starts by auto
  then have run: "cli_app_run toy_cli [] app = (app\<lparr>ap_running := True\<rparr>, Inr ())" by (simp add: cli_app_run_def)
  with t new client_shows_nothing [OF new run, of t] show ?thesis by auto
qed

end
