(* ===== verification/Web_App.thy ===== *)
theory Web_App
  imports Configuration Runtime_Tasks
begin

text \<open>
  The browser client (\<^verbatim>\<open>src/crates/bitchat-web/src/app.rs\<close>): the conversion of identifiers and of application
  events for JavaScript, and \<^verbatim>\<open>BitchatWebApp\<close> with its operations.

  Texts are byte lists in UTF-8. What belongs to other crates is the record \<open>web_env\<close>: \<^verbatim>\<open>hex::decode\<close> with the text
  of its error, \<^verbatim>\<open>hex::encode\<close>, and \<^verbatim>\<open>serde_wasm_bindgen::to_value\<close>, which may fail. A JavaScript value is a
  \<open>js_value\<close>, the members of an object in the order in which the code writes them. A bounded channel is its capacity,
  the values in it and whether each of its ends is still there; an end is dropped when the variable that holds it goes
  out of scope. A task given to the browser (\<^verbatim>\<open>spawn_local\<close>) runs after the function that spawned it has returned.
  The average of a delivery report, a \<^verbatim>\<open>f64\<close> that \<open>app_event\<close> leaves out, is an argument. Log output is not
  represented.
\<close>

section \<open>Values for JavaScript\<close>

datatype js_value =
    JsNull
  | JsBool bool
  | JsNum nat
  | JsText rust_string
  | JsArray "js_value list"
  | JsObject "(string \<times> js_value) list"

record web_env =
  we_hex_decode :: "rust_string \<Rightarrow> rust_string + bytes"
  we_hex_encode :: "bytes \<Rightarrow> rust_string"
  we_to_value :: "js_value \<Rightarrow> rust_string + js_value"

definition js_opt :: "('a \<Rightarrow> js_value) \<Rightarrow> 'a option \<Rightarrow> js_value" where
  "js_opt f x = (case x of None \<Rightarrow> JsNull | Some y \<Rightarrow> f y)"

definition js_u64 :: "u64 \<Rightarrow> js_value" where
  "js_u64 x = JsNum (unat x)"

definition js_id :: "web_env \<Rightarrow> peer_id \<Rightarrow> js_value" where
  "js_id env pid = JsText (we_hex_encode env pid)"

text \<open>The derived \<^verbatim>\<open>Debug\<close> forms.\<close>

definition transport_debug :: "transport_type \<Rightarrow> string" where
  "transport_debug t = (case t of Ble \<Rightarrow> ''Ble'' | Nostr \<Rightarrow> ''Nostr'')"

definition transport_option_debug :: "transport_type option \<Rightarrow> string" where
  "transport_option_debug t =
     (case t of None \<Rightarrow> ''None'' | Some tr \<Rightarrow> ''Some('' @ transport_debug tr @ '')'')"

definition connection_status_debug :: "connection_status \<Rightarrow> string" where
  "connection_status_debug s =
     (case s of CsDisconnected \<Rightarrow> ''Disconnected'' | CsDiscovering \<Rightarrow> ''Discovering'' | CsConnecting \<Rightarrow> ''Connecting''
      | CsConnected \<Rightarrow> ''Connected'' | CsError \<Rightarrow> ''Error'')"

definition transport_status_debug :: "transport_status \<Rightarrow> string" where
  "transport_status_debug s =
     (case s of TsActive \<Rightarrow> ''Active'' | TsPaused \<Rightarrow> ''Paused'' | TsDisabled \<Rightarrow> ''Disabled''
      | TsUnavailable \<Rightarrow> ''Unavailable'')"

definition delivery_status_debug :: "message_delivery_status \<Rightarrow> string" where
  "delivery_status_debug s =
     (case s of MdsPending \<Rightarrow> ''Pending'' | MdsDelivered \<Rightarrow> ''Delivered'' | MdsFailed \<Rightarrow> ''Failed''
      | MdsRetrying \<Rightarrow> ''Retrying'' | MdsTimedOut \<Rightarrow> ''TimedOut'')"

definition peer_session_debug :: "peer_session_state \<Rightarrow> string" where
  "peer_session_debug s =
     (case s of PssNone \<Rightarrow> ''None'' | PssEstablishing \<Rightarrow> ''Establishing'' | PssEstablished \<Rightarrow> ''Established''
      | PssFailed \<Rightarrow> ''Failed'' | PssRekeying \<Rightarrow> ''Rekeying'')"

definition encryption_debug :: "encryption_status \<Rightarrow> string" where
  "encryption_debug s =
     (case s of EncNone \<Rightarrow> ''None'' | EncNoiseProtocol \<Rightarrow> ''NoiseProtocol'' | EncFailed \<Rightarrow> ''Failed''
      | EncNegotiating \<Rightarrow> ''Negotiating'')"

definition message_id_debug :: "message_id \<Rightarrow> rust_string" where
  "message_id_debug m =
     text_of ''MessageId(['' @ comma_separated (map (decimal \<circ> unat) m) @ text_of ''])''"

section \<open>Identifiers\<close>

definition js_peer_id_from :: "web_env \<Rightarrow> peer_id \<Rightarrow> rust_string" where
  "js_peer_id_from env pid = we_hex_encode env pid"

definition js_peer_id_try :: "web_env \<Rightarrow> rust_string \<Rightarrow> rust_string + peer_id" where
  "js_peer_id_try env s =
     (case we_hex_decode env s of
        Inl e \<Rightarrow> Inl (text_of ''Invalid hex: '' @ e)
      | Inr bs \<Rightarrow>
          if 8 \<le> length bs then Inr (peer_id_from_bytes bs) else Inl (text_of ''PeerId must be at least 8 bytes''))"

text \<open>The parsing of an identifier that the operations repeat, each with its own error texts.\<close>

definition parse_id :: "web_env \<Rightarrow> string \<Rightarrow> string \<Rightarrow> rust_string \<Rightarrow> js_value + peer_id" where
  "parse_id env invalid short s =
     (case we_hex_decode env s of
        Inl e \<Rightarrow> Inl (JsText (text_of invalid @ e))
      | Inr bs \<Rightarrow> if 8 \<le> length bs then Inr (peer_id_from_bytes bs) else Inl (JsText (text_of short)))"

definition validate_peer_id :: "web_env \<Rightarrow> rust_string \<Rightarrow> bool" where
  "validate_peer_id env s =
     (case we_hex_decode env s of Inl e \<Rightarrow> False | Inr bs \<Rightarrow> 8 \<le> length bs)"

text \<open>\<open>None\<close> is the panic when the browser gives no random bytes.\<close>

definition generate_peer_id :: "web_env \<Rightarrow> bytes option \<Rightarrow> rust_string option" where
  "generate_peer_id env random = map_option (we_hex_encode env) random"

section \<open>Application events\<close>

record js_app_event =
  je_event_type :: string
  je_data :: js_value

definition js_message :: "rust_string \<Rightarrow> rust_string \<Rightarrow> rust_string \<Rightarrow> u64 \<Rightarrow> js_value" where
  "js_message from to content timestamp =
     JsObject [(''from'', JsText from), (''to'', JsText to), (''content'', JsText content),
       (''timestamp'', js_u64 timestamp)]"

definition event_type :: "app_event \<Rightarrow> string" where
  "event_type e =
     (case e of
        PeerStatusChanged _ _ _ \<Rightarrow> ''peer_status_changed''
      | AppMessageReceived _ _ _ \<Rightarrow> ''message_received''
      | AppMessageSent _ _ _ \<Rightarrow> ''message_sent''
      | SystemBusy _ \<Rightarrow> ''system_busy''
      | SystemError _ \<Rightarrow> ''system_error''
      | DiscoveryStateChanged _ _ \<Rightarrow> ''discovery_state_changed''
      | ConversationUpdated _ _ _ \<Rightarrow> ''conversation_updated''
      | SystemStatusReport _ _ _ _ _ _ \<Rightarrow> ''system_status_report''
      | MessageStatusReport _ _ _ _ _ _ \<Rightarrow> ''message_status_report''
      | PeerSessionReport _ _ _ _ _ _ _ \<Rightarrow> ''peer_session_report''
      | DeliveryStatusReport _ _ _ _ \<Rightarrow> ''delivery_status_report''
      | InternalStateReport _ _ _ _ _ _ _ \<Rightarrow> ''internal_state_report'')"

fun event_data :: "web_env \<Rightarrow> js_value \<Rightarrow> app_event \<Rightarrow> js_value" where
  "event_data env avg (PeerStatusChanged pid status transport) =
     JsObject [(''peer_id'', js_id env pid), (''status'', JsText (text_of (connection_status_debug status))),
       (''transport'', JsText (text_of (transport_option_debug transport)))]"
| "event_data env avg (AppMessageReceived from content timestamp) =
     js_message (we_hex_encode env from) [] content timestamp"
| "event_data env avg (AppMessageSent to content timestamp) =
     js_message [] (we_hex_encode env to) content timestamp"
| "event_data env avg (SystemBusy reason) = JsObject [(''reason'', JsText (text_of reason))]"
| "event_data env avg (SystemError error) = JsObject [(''error'', JsText (text_of error))]"
| "event_data env avg (DiscoveryStateChanged active transport) =
     JsObject [(''active'', JsBool active),
       (''transport'', js_opt (\<lambda>t. JsText (text_of (transport_debug t))) transport)]"
| "event_data env avg (ConversationUpdated pid count last_message_time) =
     JsObject [(''peer_id'', js_id env pid), (''message_count'', JsNum count),
       (''last_message_time'', js_u64 last_message_time)]"
| "event_data env avg (SystemStatusReport peer_count active_connections messages uptime_seconds
       transport_status memory_usage_bytes) =
     JsObject [(''peer_count'', JsNum peer_count), (''active_connections'', JsNum active_connections),
       (''message_count'', js_u64 messages), (''uptime_seconds'', js_u64 uptime_seconds),
       (''transport_status'', JsArray (map (\<lambda>(t, s).
          JsObject [(''transport'', JsText (text_of (transport_debug t))),
            (''status'', JsText (text_of (transport_status_debug s)))]) transport_status)),
       (''memory_usage_bytes'', js_opt JsNum memory_usage_bytes)]"
| "event_data env avg (MessageStatusReport mid status sent_at delivered_at retry_count last_error) =
     JsObject [(''message_id'', JsText (message_id_debug mid)),
       (''status'', JsText (text_of (delivery_status_debug status))),
       (''sent_at'', js_opt js_u64 sent_at), (''delivered_at'', js_opt js_u64 delivered_at),
       (''retry_count'', JsNum (unat retry_count)), (''last_error'', js_opt (\<lambda>e. JsText (text_of e)) last_error)]"
| "event_data env avg (PeerSessionReport pid session_state established_at last_activity messages_sent
       messages_received encryption_status) =
     JsObject [(''peer_id'', js_id env pid), (''session_state'', JsText (text_of (peer_session_debug session_state))),
       (''established_at'', js_opt js_u64 established_at), (''last_activity'', js_opt js_u64 last_activity),
       (''messages_sent'', js_u64 messages_sent), (''messages_received'', js_u64 messages_received),
       (''encryption_status'', JsText (text_of (encryption_debug encryption_status)))]"
| "event_data env avg (DeliveryStatusReport pid pending_messages delivered_messages failed_messages) =
     JsObject [(''peer_id'', js_id env pid),
       (''pending_messages'', JsArray (map (JsText \<circ> message_id_debug) pending_messages)),
       (''delivered_messages'', js_u64 delivered_messages), (''failed_messages'', js_u64 failed_messages),
       (''avg_delivery_time_ms'', avg)]"
| "event_data env avg (InternalStateReport pid active_sessions message_store_size pending_deliveries
       connection_states memory_usage_estimate uptime_ms) =
     JsObject [(''peer_id'', js_id env pid), (''active_sessions'', JsNum active_sessions),
       (''message_store_size'', JsNum message_store_size), (''pending_deliveries'', JsNum pending_deliveries),
       (''connection_states'', JsArray (map (\<lambda>(p, s).
          JsObject [(''peer_id'', js_id env p), (''status'', JsText (text_of (connection_status_debug s)))])
          connection_states)),
       (''memory_usage_estimate'', js_opt JsNum memory_usage_estimate), (''uptime_ms'', js_u64 uptime_ms)]"

definition js_app_event_from :: "web_env \<Rightarrow> js_value \<Rightarrow> app_event \<Rightarrow> js_app_event" where
  "js_app_event_from env avg e =
     \<lparr>je_event_type = event_type e,
      je_data = (case we_to_value env (event_data env avg e) of Inl _ \<Rightarrow> JsNull | Inr v \<Rightarrow> v)\<rparr>"

section \<open>Channels\<close>

record 'a web_channel =
  wc_capacity :: nat
  wc_queue :: "'a list"
  wc_receiver :: bool
  wc_sender :: bool

text \<open>A bounded channel of capacity zero is a panic, \<open>None\<close>.\<close>

definition web_channel_new :: "nat \<Rightarrow> 'a web_channel option" where
  "web_channel_new capacity =
     (if capacity = 0 then None
      else Some \<lparr>wc_capacity = capacity, wc_queue = [], wc_receiver = True, wc_sender = True\<rparr>)"

definition create_command_channel :: "channel_config \<Rightarrow> command web_channel option" where
  "create_command_channel c = web_channel_new (cc_command_buffer_size c)"

definition create_app_event_channel :: "channel_config \<Rightarrow> app_event web_channel option" where
  "create_app_event_channel c = web_channel_new (cc_app_event_buffer_size c)"

definition drop_receiver :: "'a web_channel \<Rightarrow> 'a web_channel" where
  "drop_receiver ch = ch\<lparr>wc_queue := [], wc_receiver := False\<rparr>"

definition drop_sender :: "'a web_channel \<Rightarrow> 'a web_channel" where
  "drop_sender ch = ch\<lparr>wc_sender := False\<rparr>"

text \<open>\<open>None\<close> stands for the error of \<^verbatim>\<open>try_send\<close> on a closed or full channel, which the callers do not tell apart.\<close>

definition web_try_send :: "'a \<Rightarrow> 'a web_channel \<Rightarrow> 'a web_channel option" where
  "web_try_send x ch =
     (if wc_receiver ch \<and> length (wc_queue ch) < wc_capacity ch
      then Some (ch\<lparr>wc_queue := wc_queue ch @ [x]\<rparr>) else None)"

section \<open>The application\<close>

record 'cb web_app =
  wa_peer_id :: peer_id
  wa_command_sender :: "command web_channel option"
  wa_ui_callback :: "'cb option"
  wa_event_task_handle :: "unit option"

definition web_app_new :: "web_env \<Rightarrow> rust_string \<Rightarrow> 'cb \<Rightarrow> js_value + 'cb web_app" where
  "web_app_new env s ui_callback =
     (case parse_id env ''Invalid hex peer ID: '' ''PeerId must be at least 8 bytes'' s of
        Inl e \<Rightarrow> Inl e
      | Inr pid \<Rightarrow>
          Inr \<lparr>wa_peer_id = pid, wa_command_sender = None, wa_ui_callback = Some ui_callback,
            wa_event_task_handle = None\<rparr>)"

definition web_config :: channel_config where
  "web_config =
     \<lparr>cc_command_buffer_size = 20, cc_event_buffer_size = 50, cc_effect_buffer_size = 50,
      cc_app_event_buffer_size = 100\<rparr>"

text \<open>The task that forwards events owns a clone of the callback and the receiver.\<close>

record 'cb event_task =
  et_callback :: 'cb
  et_events :: "app_event web_channel"

text \<open>When the function returns, the receiver of the commands and the sender of the application events, which no one
  else holds, are dropped; without a callback the receiver of the events is dropped, too. \<open>None\<close> is a panic.\<close>

definition web_start :: "'cb web_app \<Rightarrow> ('cb web_app \<times> 'cb event_task option) option" where
  "web_start a =
     (case create_command_channel web_config of
        None \<Rightarrow> None
      | Some commands \<Rightarrow>
          (case create_app_event_channel web_config of
             None \<Rightarrow> None
           | Some events \<Rightarrow>
               Some (a\<lparr>wa_command_sender := Some (drop_receiver commands)\<rparr>,
                 (case wa_ui_callback a of
                    None \<Rightarrow> None
                  | Some callback \<Rightarrow> Some \<lparr>et_callback = callback, et_events = drop_sender events\<rparr>))))"

text \<open>The loop of the task, until it waits for an event or ends: the calls of the callback, the channel and whether the
  loop has ended. What the callback returns is ignored.\<close>

definition event_object :: "web_env \<Rightarrow> js_value \<Rightarrow> app_event \<Rightarrow> js_value" where
  "event_object env avg e =
     (let js = js_app_event_from env avg e
      in JsObject [(''type'', JsText (text_of (je_event_type js))), (''data'', je_data js)])"

fun forward_events ::
    "web_env \<Rightarrow> (app_event \<Rightarrow> js_value) \<Rightarrow> 'cb \<Rightarrow> app_event list \<Rightarrow> ('cb \<times> js_value) list" where
  "forward_events env avg callback [] = []"
| "forward_events env avg callback (e # es) =
     (callback, event_object env (avg e) e) # forward_events env avg callback es"

definition run_event_task ::
    "web_env \<Rightarrow> (app_event \<Rightarrow> js_value) \<Rightarrow> 'cb event_task \<Rightarrow> ('cb \<times> js_value) list \<times> 'cb event_task \<times> bool" where
  "run_event_task env avg t =
     (forward_events env avg (et_callback t) (wc_queue (et_events t)),
      t\<lparr>et_events := (et_events t)\<lparr>wc_queue := []\<rparr>\<rparr>, \<not> wc_sender (et_events t))"

definition web_stop :: "'cb web_app \<Rightarrow> 'cb web_app" where
  "web_stop a = a\<lparr>wa_command_sender := None, wa_event_task_handle := None\<rparr>"

text \<open>The second half of every command: \<^verbatim>\<open>try_send\<close> on the sender, if there is one.\<close>

definition submit :: "command \<Rightarrow> 'cb web_app \<Rightarrow> 'cb web_app \<times> (js_value + unit)" where
  "submit c a =
     (case wa_command_sender a of
        None \<Rightarrow> (a, Inl (JsText (text_of ''Application not started'')))
      | Some ch \<Rightarrow>
          (case web_try_send c ch of
             None \<Rightarrow> (a, Inl (JsText (text_of ''Failed to send command'')))
           | Some ch2 \<Rightarrow> (a\<lparr>wa_command_sender := Some ch2\<rparr>, Inr ())))"

definition web_send_message ::
    "web_env \<Rightarrow> rust_string \<Rightarrow> rust_string \<Rightarrow> 'cb web_app \<Rightarrow> 'cb web_app \<times> (js_value + unit)" where
  "web_send_message env recipient content a =
     (case parse_id env ''Invalid hex recipient peer ID: '' ''Recipient PeerId must be at least 8 bytes'' recipient of
        Inl e \<Rightarrow> (a, Inl e)
      | Inr pid \<Rightarrow> submit (SendMessage pid content) a)"

definition web_start_discovery :: "'cb web_app \<Rightarrow> 'cb web_app \<times> (js_value + unit)" where
  "web_start_discovery a = submit CmdStartDiscovery a"

definition web_stop_discovery :: "'cb web_app \<Rightarrow> 'cb web_app \<times> (js_value + unit)" where
  "web_stop_discovery a = submit CmdStopDiscovery a"

definition web_connect_to_peer :: "web_env \<Rightarrow> rust_string \<Rightarrow> 'cb web_app \<Rightarrow> 'cb web_app \<times> (js_value + unit)" where
  "web_connect_to_peer env s a =
     (case parse_id env ''Invalid hex peer ID: '' ''PeerId must be at least 8 bytes'' s of
        Inl e \<Rightarrow> (a, Inl e)
      | Inr pid \<Rightarrow> submit (ConnectToPeer pid) a)"

definition web_disconnect_from_peer ::
    "web_env \<Rightarrow> rust_string \<Rightarrow> 'cb web_app \<Rightarrow> 'cb web_app \<times> (js_value + unit)" where
  "web_disconnect_from_peer env s a =
     (case parse_id env ''Invalid hex peer ID: '' ''PeerId must be at least 8 bytes'' s of
        Inl e \<Rightarrow> (a, Inl e)
      | Inr pid \<Rightarrow> submit (DisconnectFromPeer pid) a)"

definition web_is_running :: "'cb web_app \<Rightarrow> bool" where
  "web_is_running a \<longleftrightarrow> wa_command_sender a \<noteq> None"

definition web_peer_id :: "web_env \<Rightarrow> 'cb web_app \<Rightarrow> rust_string" where
  "web_peer_id env a = we_hex_encode env (wa_peer_id a)"

definition js_app_status :: "bool \<Rightarrow> rust_string \<Rightarrow> rust_string list \<Rightarrow> js_value" where
  "js_app_status running pid connected_peers =
     JsObject [(''running'', JsBool running), (''peer_id'', JsText pid),
       (''connected_peers'', JsArray (map JsText connected_peers))]"

definition web_get_status :: "web_env \<Rightarrow> 'cb web_app \<Rightarrow> js_value + js_value" where
  "web_get_status env a =
     (case we_to_value env (js_app_status (web_is_running a) (web_peer_id env a) []) of
        Inl e \<Rightarrow> Inl (JsText (text_of ''Failed to serialize status: '' @ e))
      | Inr v \<Rightarrow> Inr v)"

section \<open>A page that uses the application\<close>

text \<open>The calls a page can make and the browser running the tasks that were spawned: the application, the tasks that
  have not ended and the calls of the callback so far.\<close>

datatype web_op =
    OpStart
  | OpStop
  | OpSendMessage rust_string rust_string
  | OpStartDiscovery
  | OpStopDiscovery
  | OpConnect rust_string
  | OpDisconnect rust_string
  | OpRunTasks

record 'cb web_page =
  wp_app :: "'cb web_app"
  wp_tasks :: "'cb event_task list"
  wp_calls :: "('cb \<times> js_value) list"

definition command_op :: "web_op \<Rightarrow> bool" where
  "command_op op \<longleftrightarrow> op \<notin> {OpStart, OpStop, OpRunTasks}"

definition run_tasks :: "web_env \<Rightarrow> (app_event \<Rightarrow> js_value) \<Rightarrow> 'cb web_page \<Rightarrow> 'cb web_page" where
  "run_tasks env avg w =
     (let rs = map (run_event_task env avg) (wp_tasks w)
      in w\<lparr>wp_tasks := map (\<lambda>(calls, t, ended). t) (filter (\<lambda>(calls, t, ended). \<not> ended) rs),
           wp_calls := wp_calls w @ concat (map fst rs)\<rparr>)"

definition on_app ::
    "('cb web_app \<Rightarrow> 'cb web_app \<times> (js_value + unit)) \<Rightarrow> 'cb web_page \<Rightarrow> 'cb web_page \<times> (js_value + unit)" where
  "on_app f w = (let (a, r) = f (wp_app w) in (w\<lparr>wp_app := a\<rparr>, r))"

fun page_op ::
    "web_env \<Rightarrow> (app_event \<Rightarrow> js_value) \<Rightarrow> web_op \<Rightarrow> 'cb web_page \<Rightarrow> ('cb web_page \<times> (js_value + unit)) option" where
  "page_op env avg OpStart w =
     (case web_start (wp_app w) of
        None \<Rightarrow> None
      | Some (a, t) \<Rightarrow> Some (w\<lparr>wp_app := a, wp_tasks := wp_tasks w @ (case t of None \<Rightarrow> [] | Some t \<Rightarrow> [t])\<rparr>, Inr ()))"
| "page_op env avg OpStop w = Some (w\<lparr>wp_app := web_stop (wp_app w)\<rparr>, Inr ())"
| "page_op env avg (OpSendMessage s c) w = Some (on_app (web_send_message env s c) w)"
| "page_op env avg OpStartDiscovery w = Some (on_app web_start_discovery w)"
| "page_op env avg OpStopDiscovery w = Some (on_app web_stop_discovery w)"
| "page_op env avg (OpConnect s) w = Some (on_app (web_connect_to_peer env s) w)"
| "page_op env avg (OpDisconnect s) w = Some (on_app (web_disconnect_from_peer env s) w)"
| "page_op env avg OpRunTasks w = Some (run_tasks env avg w, Inr ())"

definition page_open :: "web_env \<Rightarrow> 'cb web_page \<Rightarrow> bool" where
  "page_open env w \<longleftrightarrow>
     (\<exists>s cb a. web_app_new env s cb = Inr a \<and> w = \<lparr>wp_app = a, wp_tasks = [], wp_calls = []\<rparr>)"

definition page_step :: "web_env \<Rightarrow> (app_event \<Rightarrow> js_value) \<Rightarrow> 'cb web_page \<Rightarrow> 'cb web_page \<Rightarrow> bool" where
  "page_step env avg w v \<longleftrightarrow> (\<exists>op r. page_op env avg op w = Some (v, r))"

section \<open>Identifiers: lemmas\<close>

lemma peer_id_from_long: "8 \<le> length bs \<Longrightarrow> peer_id_from_bytes bs = take 8 bs"
  by (simp add: peer_id_from_bytes_def pad_array_def)

lemma parse_id_eq_Inr:
  "parse_id env i s x = Inr pid \<longleftrightarrow> (\<exists>bs. we_hex_decode env x = Inr bs \<and> 8 \<le> length bs \<and> pid = take 8 bs)"
  by (auto simp: parse_id_def peer_id_from_long split: sum.splits)

lemma js_peer_id_try_eq_Inr:
  "js_peer_id_try env x = Inr pid \<longleftrightarrow> (\<exists>bs. we_hex_decode env x = Inr bs \<and> 8 \<le> length bs \<and> pid = take 8 bs)"
  by (auto simp: js_peer_id_try_def peer_id_from_long split: sum.splits)

lemma web_app_new_eq_Inr:
  "web_app_new env s cb = Inr a \<longleftrightarrow>
     (\<exists>bs. we_hex_decode env s = Inr bs \<and> 8 \<le> length bs \<and>
        a = \<lparr>wa_peer_id = take 8 bs, wa_command_sender = None, wa_ui_callback = Some cb, wa_event_task_handle = None\<rparr>)"
  by (auto simp: web_app_new_def parse_id_def peer_id_from_long split: sum.splits if_splits)

lemma validate_peer_id_iff: "validate_peer_id env s \<longleftrightarrow> (\<exists>bs. we_hex_decode env s = Inr bs \<and> 8 \<le> length bs)"
  by (auto simp: validate_peer_id_def split: sum.splits)

lemma js_u64_inject [simp]: "js_u64 x = js_u64 y \<longleftrightarrow> x = y"
  by (simp add: js_u64_def word_unat_eq_iff)

section \<open>The page: lemmas\<close>

lemma web_config_is_browser_preset: "web_config = channel_config_browser_optimized"
  by (simp add: web_config_def channel_config_browser_optimized_def)

text \<open>Starting never panics: it leaves a sender whose receiver is gone, and a task whose sender is gone.\<close>

lemma web_start_eq:
  "web_start a =
     Some (a\<lparr>wa_command_sender := Some \<lparr>wc_capacity = 20, wc_queue = [], wc_receiver = False, wc_sender = True\<rparr>\<rparr>,
       map_option (\<lambda>cb. \<lparr>et_callback = cb,
         et_events = \<lparr>wc_capacity = 100, wc_queue = [], wc_receiver = True, wc_sender = False\<rparr>\<rparr>) (wa_ui_callback a))"
  by (simp add: web_start_def create_command_channel_def create_app_event_channel_def web_channel_new_def
      web_config_def drop_receiver_def drop_sender_def split: option.splits)

definition app_cut_off :: "'cb web_app \<Rightarrow> bool" where
  "app_cut_off a \<longleftrightarrow> (\<forall>ch. wa_command_sender a = Some ch \<longrightarrow> \<not> wc_receiver ch)"

definition task_idle :: "'cb event_task \<Rightarrow> bool" where
  "task_idle t \<longleftrightarrow> wc_queue (et_events t) = [] \<and> \<not> wc_sender (et_events t)"

definition page_cut_off :: "'cb web_page \<Rightarrow> bool" where
  "page_cut_off w \<longleftrightarrow> app_cut_off (wp_app w) \<and> list_all task_idle (wp_tasks w) \<and> wp_calls w = []"

lemma submit_cut_off:
  assumes "app_cut_off a"
  shows "submit c a =
    (a, Inl (JsText (text_of (if web_is_running a then ''Failed to send command'' else ''Application not started''))))"
  using assms by (auto simp: submit_def app_cut_off_def web_try_send_def web_is_running_def split: option.splits)

lemmas web_command_defs = web_send_message_def web_start_discovery_def web_stop_discovery_def
  web_connect_to_peer_def web_disconnect_from_peer_def

text \<open>A cut-off application answers every command with an error and stays as it is.\<close>

lemma command_op_cut_off:
  assumes "page_cut_off w" and "command_op op"
  shows "\<exists>e. page_op env avg op w = Some (w, Inl e)"
proof -
  have "app_cut_off (wp_app w)" using assms(1) by (simp add: page_cut_off_def)
  then show ?thesis using assms(2)
    by (cases op) (auto simp: command_op_def on_app_def web_command_defs submit_cut_off split: sum.splits)
qed

lemma run_idle_task: "task_idle t \<Longrightarrow> run_event_task env avg t = ([], t\<lparr>et_events := (et_events t)\<lparr>wc_queue := []\<rparr>\<rparr>, True)"
  by (simp add: run_event_task_def task_idle_def)

lemma run_tasks_cut_off:
  assumes "list_all task_idle (wp_tasks w)"
  shows "run_tasks env avg w = w\<lparr>wp_tasks := []\<rparr>"
proof -
  have "filter (\<lambda>(calls, t, ended). \<not> ended) (map (run_event_task env avg) (wp_tasks w)) = []"
    using assms by (auto simp: filter_empty_conv list_all_iff run_idle_task)
  moreover have "concat (map fst (map (run_event_task env avg) (wp_tasks w))) = []"
    using assms by (auto simp: list_all_iff run_idle_task)
  ultimately show ?thesis by (simp add: run_tasks_def Let_def del: map_map concat_eq_Nil_conv)
qed

lemma page_cut_off_open: "page_open env w \<Longrightarrow> page_cut_off w"
  by (auto simp: page_open_def page_cut_off_def app_cut_off_def web_app_new_eq_Inr)

lemma page_cut_off_op:
  assumes "page_cut_off w" and "page_op env avg op w = Some (v, r)"
  shows "page_cut_off v"
proof (cases "command_op op")
  case True
  then show ?thesis using command_op_cut_off [OF assms(1), of op env avg] assms by auto
next
  case False
  then consider "op = OpStart" | "op = OpStop" | "op = OpRunTasks" by (auto simp: command_op_def)
  then show ?thesis
  proof cases
    case 1
    with assms show ?thesis
      by (auto simp: web_start_eq page_cut_off_def app_cut_off_def task_idle_def split: option.splits)
  next
    case 2
    with assms show ?thesis by (auto simp: web_stop_def page_cut_off_def app_cut_off_def)
  next
    case 3
    with assms show ?thesis by (auto simp: run_tasks_cut_off page_cut_off_def)
  qed
qed

interpretation web_page: invariant_system "page_open env" "page_step env avg" page_cut_off for env avg
  by unfold_locales (auto simp: page_step_def intro: page_cut_off_open page_cut_off_op)

lemma forward_events_eq: "forward_events env avg cb es = map (\<lambda>e. (cb, event_object env (avg e) e)) es"
  by (induction es) auto

section \<open>Properties\<close>

text \<open>An identifier is accepted by \<^verbatim>\<open>validate_peer_id\<close> exactly if the constructor and the conversion of
  \<^verbatim>\<open>JsPeerId\<close> accept it; the peer is then its first eight bytes, so longer texts with a common beginning are one peer.\<close>

theorem web_ids_accepted:
  shows "validate_peer_id env s \<longleftrightarrow> (\<exists>a. web_app_new env s cb = Inr a)"
    and "validate_peer_id env s \<longleftrightarrow> (\<exists>pid. js_peer_id_try env s = Inr pid)"
    and "web_app_new env s cb = Inr a \<Longrightarrow> js_peer_id_try env s = Inr (wa_peer_id a) \<and> peer_id_wf (wa_peer_id a)"
    and "we_hex_decode env s = Inr bs \<Longrightarrow> 8 \<le> length bs \<Longrightarrow> js_peer_id_try env s = Inr (take 8 bs)"
  by (auto simp: validate_peer_id_iff web_app_new_eq_Inr js_peer_id_try_eq_Inr peer_id_wf_def)

text \<open>With a decoder that inverts the encoder, every peer survives the way to JavaScript and back, and what
  \<^verbatim>\<open>generate_peer_id\<close> returns is valid and names the peer made of the random bytes.\<close>

theorem web_id_round_trip:
  assumes "\<And>bs. we_hex_decode env (we_hex_encode env bs) = Inr bs" and "peer_id_wf pid"
  shows "js_peer_id_try env (js_peer_id_from env pid) = Inr pid"
    and "generate_peer_id env (Some pid) = Some s \<Longrightarrow> validate_peer_id env s \<and> js_peer_id_try env s = Inr pid"
    and "web_app_new env (js_peer_id_from env pid) cb = Inr a \<Longrightarrow> web_peer_id env a = js_peer_id_from env pid"
  using assms by (auto simp: js_peer_id_try_eq_Inr js_peer_id_from_def peer_id_wf_def generate_peer_id_def
      validate_peer_id_iff web_app_new_eq_Inr web_peer_id_def)

text \<open>On a channel whose receiver is there a command is queued as the last one if there is room; in every other case the
  application is unchanged and the answer is an error.\<close>

theorem submit_correct:
  shows "wa_command_sender a = Some ch \<Longrightarrow> wc_receiver ch \<Longrightarrow> length (wc_queue ch) < wc_capacity ch \<Longrightarrow>
      submit c a = (a\<lparr>wa_command_sender := Some (ch\<lparr>wc_queue := wc_queue ch @ [c]\<rparr>)\<rparr>, Inr ())"
    and "submit c a = (b, Inl e) \<Longrightarrow> b = a"
    and "submit c a = (b, Inr u) \<Longrightarrow> \<exists>ch. wa_command_sender a = Some ch \<and> wc_receiver ch"
  by (auto simp: submit_def web_try_send_def split: option.splits if_splits)

text \<open>However a page uses the application, no command ever reaches anyone and the callback is never called: in every
  reachable state each command is answered with an error, the callback has not been called, and the tasks that forward
  events end without calling it. \<^verbatim>\<open>start\<close> drops the other ends of both channels.\<close>

theorem web_commands_fail:
  assumes "reachable (page_open env) (page_step env avg) w"
  shows "wp_calls w = []"
    and "command_op op \<Longrightarrow> \<exists>e. page_op env avg op w = Some (w, Inl e)"
    and "page_op env avg OpRunTasks w = Some (w\<lparr>wp_tasks := []\<rparr>, Inr ())"
proof -
  have "page_cut_off w" using assms by (rule web_page.invar_reachable)
  then show "wp_calls w = []" and "command_op op \<Longrightarrow> \<exists>e. page_op env avg op w = Some (w, Inl e)"
    and "page_op env avg OpRunTasks w = Some (w\<lparr>wp_tasks := []\<rparr>, Inr ())"
    by (auto simp: page_cut_off_def run_tasks_cut_off intro: command_op_cut_off)
qed

text \<open>Meanwhile the application reports that it is running: \<^verbatim>\<open>start\<close> always succeeds and makes it so, only
  \<^verbatim>\<open>stop\<close> ends it.\<close>

theorem web_reports_running:
  shows "\<exists>v. page_op env avg OpStart w = Some (v, Inr ()) \<and> web_is_running (wp_app v)"
    and "\<exists>v. page_op env avg OpStop w = Some (v, Inr ()) \<and> \<not> web_is_running (wp_app v)"
    and "page_op env avg op w = Some (v, r) \<Longrightarrow> op \<noteq> OpStart \<Longrightarrow> op \<noteq> OpStop \<Longrightarrow>
      web_is_running (wp_app v) = web_is_running (wp_app w)"
  by (cases op; auto simp: web_start_eq web_is_running_def web_stop_def on_app_def web_command_defs submit_def
      run_tasks_def Let_def split: sum.splits option.splits prod.splits)+

text \<open>The task forwards every event in its channel, in order and once each, and ends exactly if no sender is left.\<close>

theorem events_forwarded:
  "run_event_task env avg t =
     (map (\<lambda>e. (et_callback t, JsObject [(''type'', JsText (text_of (event_type e))),
         (''data'', je_data (js_app_event_from env (avg e) e))])) (wc_queue (et_events t)),
      t\<lparr>et_events := (et_events t)\<lparr>wc_queue := []\<rparr>\<rparr>, \<not> wc_sender (et_events t))"
  by (simp add: run_event_task_def forward_events_eq event_object_def js_app_event_from_def Let_def)

text \<open>If the values for JavaScript can be built, different messages give different objects.\<close>

theorem message_events_lossless:
  assumes "inj (we_hex_encode env)" and "\<And>v. we_to_value env v = Inr v"
    and "event_type e \<in> {''message_received'', ''message_sent''}"
    and "js_app_event_from env avg e = js_app_event_from env avg2 e2"
  shows "e = e2"
  using assms(3,4)
  by (cases e; cases e2) (auto simp: event_type_def js_app_event_from_def assms(2) js_message_def
      dest: injD [OF assms(1)])

section \<open>Witnesses\<close>

text \<open>An environment in which texts are their own bytes and every value can be handed over.\<close>

definition plain_web :: web_env where
  "plain_web = \<lparr>we_hex_decode = Inr, we_hex_encode = (\<lambda>bs. bs), we_to_value = Inr\<rparr>"

definition page0 :: "nat web_page" where
  "page0 = \<lparr>wp_app = \<lparr>wa_peer_id = replicate 8 1, wa_command_sender = None, wa_ui_callback = Some 7,
     wa_event_task_handle = None\<rparr>, wp_tasks = [], wp_calls = []\<rparr>"

lemma page0_reachable: "reachable (page_open plain_web) (page_step plain_web avg) page0"
proof (rule reachable.intros(1))
  have "web_app_new plain_web (replicate 8 1) 7 = Inr (wp_app page0)"
    by (simp add: web_app_new_eq_Inr plain_web_def page0_def)
  then show "page_open plain_web page0" by (auto simp: page_open_def page0_def)
qed

theorem web_commands_fail_witness:
  "\<exists>v e. page_op plain_web (\<lambda>_. JsNull) OpStart page0 = Some (v, Inr ()) \<and>
     page_op plain_web (\<lambda>_. JsNull) OpStartDiscovery v = Some (v, Inl e) \<and> wp_calls v = []"
proof -
  obtain v where v: "page_op plain_web (\<lambda>_. JsNull) OpStart page0 = Some (v, Inr ())"
    using web_reports_running(1) [of plain_web "\<lambda>_. JsNull" page0] by blast
  then have "page_step plain_web (\<lambda>_. JsNull) page0 v" unfolding page_step_def by blast
  then have "reachable (page_open plain_web) (page_step plain_web (\<lambda>_. JsNull)) v"
    by (rule reachable.intros(2) [OF page0_reachable])
  note facts = web_commands_fail [OF this]
  show ?thesis using v facts(1) facts(2) [of OpStartDiscovery] by (auto simp: command_op_def)
qed

theorem web_id_round_trip_witness:
  "js_peer_id_try plain_web (js_peer_id_from plain_web [1, 2, 3, 4, 5, 6, 7, 8]) = Inr [1, 2, 3, 4, 5, 6, 7, 8]"
  by (rule web_id_round_trip) (simp_all add: plain_web_def peer_id_wf_def)

theorem message_events_lossless_witness:
  "js_app_event_from plain_web JsNull (AppMessageSent [1] [] 5) \<noteq> js_app_event_from plain_web JsNull (AppMessageSent [1] [] 6)"
  using message_events_lossless [of plain_web "AppMessageSent [1] [] 5" JsNull JsNull "AppMessageSent [1] [] 6"]
  by (auto simp: plain_web_def inj_def event_type_def)

end
