(* ===== verification/Network_Analysis.thy ===== *)
theory Network_Analysis
  imports Complex_Main Wire "HOL-Library.Multiset"
begin

text \<open>
  The analysis of the packets in the simulator (\<^verbatim>\<open>src/simulator/virtual/src/network_analysis.rs\<close>): the check of
  captured packets, the capture buffer, the metrics with their latency statistics and the reports.

  A time is a number of milliseconds; counters are natural numbers, which stay far below their 64 bits;
  latencies are words, whose sum may overflow: it panics in a build with overflow checks (\<open>checked\<close>) and
  wraps around in one without. Ratios, which the code holds as \<^verbatim>\<open>f64\<close>, are rational numbers; the jitter is a
  floating-point square root and is left out, as are the rates per second, which nothing computes. A text that
  reports an issue is the constructor of \<open>issue\<close> with its arguments.
\<close>

section \<open>Data\<close>

datatype issue =
    IssTooLarge nat nat
  | IssTooSmall
  | IssTooShort
  | IssVersionDeprecated
  | IssUnsupportedVersion u8
  | IssPayloadSize
  | IssHeader string
  | IssMissingField string

datatype compliance_status =
    Compliant
  | CompWarning "issue list"
  | NonCompliant "issue list"
  | CompUnknown string

datatype analysis_flag =
    Retransmission | OutOfOrder | DuplicatePacket | Fragmented | SecurityRelevant | PeerDiscovery
  | HandshakePacket | LargePayload | Malformed

record captured_packet =
  cp_capture_id :: nat
  cp_source :: peer_id
  cp_destination :: "peer_id option"
  cp_packet_type :: message_type
  cp_data :: bytes
  cp_size :: nat
  cp_captured_at :: nat
  cp_latency_ms :: "u64 option"
  cp_delivered :: bool
  cp_compliance_status :: compliance_status
  cp_analysis_flags :: "analysis_flag list"

record network_metrics =
  nm_window_start :: nat
  nm_window_end :: nat
  nm_total_packets :: nat
  nm_successful_deliveries :: nat
  nm_failed_deliveries :: nat
  nm_duplicate_packets :: nat
  nm_out_of_order_packets :: nat
  nm_min_latency_ms :: "u64 option"
  nm_max_latency_ms :: "u64 option"
  nm_avg_latency_ms :: "u64 option"
  nm_latency_p50_ms :: "u64 option"
  nm_latency_p95_ms :: "u64 option"
  nm_latency_p99_ms :: "u64 option"
  nm_bytes_transmitted :: nat
  nm_bytes_received :: nat
  nm_announce_packets :: nat
  nm_message_packets :: nat
  nm_handshake_packets :: nat
  nm_error_packets :: nat
  nm_active_peers :: nat
  nm_peer_connections :: nat
  nm_peer_discoveries :: nat
  nm_peer_timeouts :: nat
  nm_packet_loss_rate :: rat
  nm_delivery_ratio :: rat
  nm_protocol_compliance_rate :: rat

definition network_metrics_default :: "nat \<Rightarrow> network_metrics" where
  "network_metrics_default now =
     \<lparr>nm_window_start = now, nm_window_end = now, nm_total_packets = 0, nm_successful_deliveries = 0,
      nm_failed_deliveries = 0, nm_duplicate_packets = 0, nm_out_of_order_packets = 0,
      nm_min_latency_ms = None, nm_max_latency_ms = None, nm_avg_latency_ms = None, nm_latency_p50_ms = None,
      nm_latency_p95_ms = None, nm_latency_p99_ms = None, nm_bytes_transmitted = 0, nm_bytes_received = 0,
      nm_announce_packets = 0, nm_message_packets = 0, nm_handshake_packets = 0, nm_error_packets = 0,
      nm_active_peers = 0, nm_peer_connections = 0, nm_peer_discoveries = 0, nm_peer_timeouts = 0,
      nm_packet_loss_rate = 0, nm_delivery_ratio = 1, nm_protocol_compliance_rate = 1\<rparr>"

section \<open>The protocol checker\<close>

record protocol_checker =
  pk_supported_versions :: "u8 list"
  pk_max_packet_size :: nat
  pk_required_fields :: "(message_type \<times> string list) list"

definition protocol_checker_default :: protocol_checker where
  "protocol_checker_default =
     \<lparr>pk_supported_versions = [1], pk_max_packet_size = 64 * 1024,
      pk_required_fields =
        [(Message, [''sender_id'', ''payload'', ''timestamp'']),
         (Announce, [''sender_id'', ''payload'', ''signature'']),
         (NoiseHandshake, [''sender_id'', ''payload''])]\<rparr>"

record packet_header_info =
  ph_version :: u8
  ph_message_type :: u8
  ph_flags :: u8
  ph_payload_size :: nat

definition u32_from_le :: "bytes \<Rightarrow> nat" where
  "u32_from_le bs = nat_of_be (rev bs)"

definition parse_packet_header :: "bytes \<Rightarrow> string + packet_header_info" where
  "parse_packet_header data =
     (if length data < 8 then Inl ''Insufficient data for header''
      else Inr \<lparr>ph_version = data ! 0, ph_message_type = data ! 1, ph_flags = data ! 2,
        ph_payload_size = u32_from_le [data ! 4, data ! 5, data ! 6, data ! 7]\<rparr>)"

text \<open>\<open>Inr\<close> the warnings, or \<open>Inl\<close> the errors.\<close>

definition validate_packet_structure :: "protocol_checker \<Rightarrow> bytes \<Rightarrow> issue list + issue list" where
  "validate_packet_structure ck data =
     (if length data < 8 then Inl [IssTooShort]
      else
        (let (warnings, errors) =
           (case parse_packet_header data of
              Inr h \<Rightarrow>
                (if ph_version h = 0 then [IssVersionDeprecated] else [],
                 (if ph_version h \<notin> set (pk_supported_versions ck) then [IssUnsupportedVersion (ph_version h)] else [])
                 @ (if length data - 8 < ph_payload_size h then [IssPayloadSize] else []))
            | Inl e \<Rightarrow> ([], [IssHeader e]))
         in if errors = [] then Inr warnings else Inl errors))"

definition packet_has_field :: "bytes \<Rightarrow> string \<Rightarrow> bool" where
  "packet_has_field data field = True"

definition check_compliance :: "protocol_checker \<Rightarrow> captured_packet \<Rightarrow> compliance_status" where
  "check_compliance ck p =
     (let violations = (if pk_max_packet_size ck < cp_size p then [IssTooLarge (cp_size p) (pk_max_packet_size ck)] else [])
            @ (if cp_size p < 8 then [IssTooSmall] else []);
          (warnings, violations) =
            (case validate_packet_structure ck (cp_data p) of
               Inr ws \<Rightarrow> (ws, violations)
             | Inl es \<Rightarrow> ([], violations @ es));
          violations = violations @
            (case map_of (pk_required_fields ck) (cp_packet_type p) of
               Some required \<Rightarrow> map IssMissingField (filter (\<lambda>f. \<not> packet_has_field (cp_data p) f) required)
             | None \<Rightarrow> [])
      in if violations \<noteq> [] then NonCompliant violations
         else if warnings \<noteq> [] then CompWarning warnings
         else Compliant)"

section \<open>The analyzer\<close>

record analyzer_config =
  az_enable_capture :: bool
  az_enable_compliance_checking :: bool
  az_enable_metrics :: bool
  az_metrics_window_seconds :: u64
  az_max_latency_samples :: nat
  az_enable_detailed_logging :: bool
  az_export_results :: bool
  az_export_path :: "rust_string option"

definition analyzer_config_default :: analyzer_config where
  "analyzer_config_default =
     \<lparr>az_enable_capture = True, az_enable_compliance_checking = True, az_enable_metrics = True,
      az_metrics_window_seconds = 30, az_max_latency_samples = 1000, az_enable_detailed_logging = False,
      az_export_results = False, az_export_path = None\<rparr>"

datatype analysis_task_type =
    RealTimeAnalysis | HistoricalAnalysis | ComplianceAudit | PerformanceBenchmark | BehaviorProfiling

record analysis_task =
  at_id :: string
  at_task_type :: analysis_task_type
  at_started_at :: nat
  at_progress :: rat

text \<open>The identifier of an analyzer is its second of creation.\<close>

record network_analyzer =
  na_id :: nat
  na_captured_packets :: "captured_packet list"
  na_max_capture_buffer :: nat
  na_protocol_checker :: protocol_checker
  na_current_metrics :: network_metrics
  na_metrics_history :: "network_metrics list"
  na_config :: analyzer_config
  na_next_capture_id :: nat
  na_latency_samples :: "u64 list"
  na_analysis_tasks :: "analysis_task list"

definition analyzer_new :: "nat \<Rightarrow> analyzer_config \<Rightarrow> network_analyzer" where
  "analyzer_new now cfg =
     \<lparr>na_id = now div 1000, na_captured_packets = [], na_max_capture_buffer = 10000,
      na_protocol_checker = protocol_checker_default, na_current_metrics = network_metrics_default now,
      na_metrics_history = [], na_config = cfg, na_next_capture_id = 1, na_latency_samples = [],
      na_analysis_tasks = []\<rparr>"

definition start_packet_capture :: "nat \<Rightarrow> network_analyzer \<Rightarrow> network_analyzer" where
  "start_packet_capture now a = a\<lparr>na_analysis_tasks := na_analysis_tasks a @
     [\<lparr>at_id = ''packet_capture'', at_task_type = RealTimeAnalysis, at_started_at = now, at_progress = 0\<rparr>]\<rparr>"

definition start_metrics_collection :: "nat \<Rightarrow> network_analyzer \<Rightarrow> network_analyzer" where
  "start_metrics_collection now a = a\<lparr>na_analysis_tasks := na_analysis_tasks a @
     [\<lparr>at_id = ''metrics_collection'', at_task_type = PerformanceBenchmark, at_started_at = now, at_progress = 0\<rparr>]\<rparr>"

definition analyzer_start :: "nat \<Rightarrow> nat \<Rightarrow> network_analyzer \<Rightarrow> network_analyzer" where
  "analyzer_start now0 now1 a =
     (let a = (if az_enable_capture (na_config a) then start_packet_capture now0 a else a)
      in if az_enable_metrics (na_config a) then start_metrics_collection now1 a else a)"

definition analyze_packet_flags :: "network_analyzer \<Rightarrow> captured_packet \<Rightarrow> analysis_flag list" where
  "analyze_packet_flags a p =
     (if 1024 < cp_size p then [LargePayload] else [])
     @ (case cp_packet_type p of
          Announce \<Rightarrow> [PeerDiscovery]
        | NoiseHandshake \<Rightarrow> [HandshakePacket, SecurityRelevant]
        | _ \<Rightarrow> [])
     @ (case cp_compliance_status p of NonCompliant _ \<Rightarrow> [Malformed] | _ \<Rightarrow> [])
     @ (if list_ex (\<lambda>q. cp_source q = cp_source p \<and> cp_destination q = cp_destination p \<and> cp_data q = cp_data p
               \<and> cp_capture_id q \<noteq> cp_capture_id p) (na_captured_packets a)
        then [DuplicatePacket] else [])"

definition push_bounded :: "nat \<Rightarrow> 'a \<Rightarrow> 'a list \<Rightarrow> 'a list" where
  "push_bounded limit x xs = (if limit < length (xs @ [x]) then tl (xs @ [x]) else xs @ [x])"

text \<open>The sum of the samples; the partial sums overflow exactly when the sum does.\<close>

definition sum_u64 :: "bool \<Rightarrow> u64 list \<Rightarrow> u64 result" where
  "sum_u64 checked xs =
     (let n = sum_list (map unat xs) in if checked \<and> 2 ^ 64 \<le> n then Inl Panic else Inr (word_of_nat n))"

definition sample_at :: "u64 list \<Rightarrow> nat \<Rightarrow> u64 result" where
  "sample_at xs i = (if i < length xs then Inr (xs ! i) else Inl Panic)"

definition calculate_latency_stats :: "bool \<Rightarrow> u64 list \<Rightarrow> network_metrics \<Rightarrow> network_metrics result" where
  "calculate_latency_stats checked samples m =
     (if samples = [] then Inr m
      else
        (let s = sort samples; len = length s
         in rbind (sample_at s 0) (\<lambda>mn. rbind (sum_u64 checked s) (\<lambda>total.
            rbind (sample_at s (len div 2)) (\<lambda>p50. rbind (sample_at s (len * 95 div 100)) (\<lambda>p95.
            rbind (sample_at s (len * 99 div 100)) (\<lambda>p99.
              Inr (m\<lparr>nm_min_latency_ms := Some mn, nm_max_latency_ms := Some (last s),
                nm_avg_latency_ms := Some (total div word_of_nat len), nm_latency_p50_ms := Some p50,
                nm_latency_p95_ms := Some p95, nm_latency_p99_ms := Some p99\<rparr>))))))))"

definition count_status :: "(compliance_status \<Rightarrow> bool) \<Rightarrow> captured_packet list \<Rightarrow> nat" where
  "count_status f ps = length (filter (f \<circ> cp_compliance_status) ps)"

fun is_warning :: "compliance_status \<Rightarrow> bool" where
  "is_warning (CompWarning ws) = True"
| "is_warning s = False"

fun is_non_compliant :: "compliance_status \<Rightarrow> bool" where
  "is_non_compliant (NonCompliant vs) = True"
| "is_non_compliant s = False"

text \<open>The counters of one packet.\<close>

definition count_packet :: "captured_packet \<Rightarrow> network_metrics \<Rightarrow> network_metrics" where
  "count_packet p m =
     (let m = m\<lparr>nm_total_packets := nm_total_packets m + 1\<rparr>;
          m = (if cp_delivered p then m\<lparr>nm_successful_deliveries := nm_successful_deliveries m + 1\<rparr>
               else m\<lparr>nm_failed_deliveries := nm_failed_deliveries m + 1\<rparr>);
          m = (case cp_packet_type p of
                 Announce \<Rightarrow> m\<lparr>nm_announce_packets := nm_announce_packets m + 1\<rparr>
               | Message \<Rightarrow> m\<lparr>nm_message_packets := nm_message_packets m + 1\<rparr>
               | NoiseHandshake \<Rightarrow> m\<lparr>nm_handshake_packets := nm_handshake_packets m + 1\<rparr>
               | _ \<Rightarrow> m);
          m = m\<lparr>nm_bytes_transmitted := nm_bytes_transmitted m + cp_size p\<rparr>
      in if cp_delivered p then m\<lparr>nm_bytes_received := nm_bytes_received m + cp_size p\<rparr> else m)"

text \<open>The ratios, over the packets captured before this one.\<close>

definition update_ratios :: "captured_packet list \<Rightarrow> network_metrics \<Rightarrow> network_metrics" where
  "update_ratios captured m =
     (let m = (if 0 < length captured then m\<lparr>nm_protocol_compliance_rate :=
                 of_nat (count_status (\<lambda>s. s = Compliant) captured) / of_nat (length captured)\<rparr> else m);
          m = (if 0 < nm_total_packets m then m\<lparr>nm_delivery_ratio :=
                 of_nat (nm_successful_deliveries m) / of_nat (nm_total_packets m)\<rparr> else m)
      in m\<lparr>nm_packet_loss_rate := 1 - nm_delivery_ratio m\<rparr>)"

definition update_network_metrics :: "bool \<Rightarrow> captured_packet \<Rightarrow> network_analyzer \<Rightarrow> network_analyzer \<times> unit result" where
  "update_network_metrics checked p a =
     (let a = a\<lparr>na_current_metrics := count_packet p (na_current_metrics a)\<rparr>
      in case (case cp_latency_ms p of
                 None \<Rightarrow> (a, Inr ())
               | Some l \<Rightarrow>
                   (let a = a\<lparr>na_latency_samples :=
                          push_bounded (az_max_latency_samples (na_config a)) l (na_latency_samples a)\<rparr>
                    in case calculate_latency_stats checked (na_latency_samples a) (na_current_metrics a) of
                         Inl f \<Rightarrow> (a, Inl f)
                       | Inr m \<Rightarrow> (a\<lparr>na_current_metrics := m\<rparr>, Inr ()))) of
           (a, Inl f) \<Rightarrow> (a, Inl f)
         | (a, Inr _) \<Rightarrow>
             (a\<lparr>na_current_metrics := update_ratios (na_captured_packets a) (na_current_metrics a)\<rparr>, Inr ()))"

text \<open>The packet as it is captured, before the analysis.\<close>

record packet_input =
  pi_source :: peer_id
  pi_destination :: "peer_id option"
  pi_packet_type :: message_type
  pi_data :: bytes
  pi_latency_ms :: "u64 option"
  pi_delivered :: bool

definition pending_packet :: "nat \<Rightarrow> nat \<Rightarrow> packet_input \<Rightarrow> captured_packet" where
  "pending_packet now i x =
     \<lparr>cp_capture_id = i, cp_source = pi_source x, cp_destination = pi_destination x,
      cp_packet_type = pi_packet_type x, cp_data = pi_data x, cp_size = length (pi_data x), cp_captured_at = now,
      cp_latency_ms = pi_latency_ms x, cp_delivered = pi_delivered x,
      cp_compliance_status = CompUnknown ''Analysis pending'', cp_analysis_flags = []\<rparr>"

text \<open>The error of a disabled capture is the \<open>Inr\<close> of \<open>Inl\<close> its text; \<open>Inl\<close> is a panic.\<close>

definition analyzed :: "network_analyzer \<Rightarrow> nat \<Rightarrow> packet_input \<Rightarrow> captured_packet" where
  "analyzed a now x =
     (let p = pending_packet now (na_next_capture_id a) x;
          p = (if az_enable_compliance_checking (na_config a)
               then p\<lparr>cp_compliance_status := check_compliance (na_protocol_checker a) p\<rparr> else p)
      in p\<lparr>cp_analysis_flags := analyze_packet_flags a p\<rparr>)"

definition capture_packet ::
    "bool \<Rightarrow> nat \<Rightarrow> packet_input \<Rightarrow> network_analyzer \<Rightarrow> network_analyzer \<times> (string + nat) result" where
  "capture_packet checked now x a =
     (if \<not> az_enable_capture (na_config a) then (a, Inr (Inl ''Packet capture is disabled''))
      else
        (let i = na_next_capture_id a; p = analyzed a now x; a = a\<lparr>na_next_capture_id := i + 1\<rparr>
         in case update_network_metrics checked p a of
              (a, Inl f) \<Rightarrow> (a, Inl f)
            | (a, Inr _) \<Rightarrow>
                (a\<lparr>na_captured_packets := push_bounded (na_max_capture_buffer a) p (na_captured_packets a)\<rparr>,
                 Inr (Inr i))))"

section \<open>Reports\<close>

record capture_summary =
  sm_total_packets :: nat
  sm_compliant_packets :: nat
  sm_warning_packets :: nat
  sm_non_compliant_packets :: nat
  sm_analyzer_id :: nat
  sm_window_start :: nat
  sm_window_end :: nat

definition get_capture_summary :: "nat \<Rightarrow> network_analyzer \<Rightarrow> capture_summary" where
  "get_capture_summary now a =
     \<lparr>sm_total_packets = length (na_captured_packets a),
      sm_compliant_packets = count_status (\<lambda>s. s = Compliant) (na_captured_packets a),
      sm_warning_packets = count_status is_warning (na_captured_packets a),
      sm_non_compliant_packets = count_status is_non_compliant (na_captured_packets a),
      sm_analyzer_id = na_id a, sm_window_start = nm_window_start (na_current_metrics a), sm_window_end = now\<rparr>"

record compliance_summary =
  cs_compliance_rate :: rat
  cs_common_violations :: "(issue \<times> nat) list"
  cs_common_warnings :: "(issue \<times> nat) list"
  cs_total_violations :: nat
  cs_total_warnings :: nat

definition tally :: "issue \<Rightarrow> (issue \<times> nat) list \<Rightarrow> (issue \<times> nat) list" where
  "tally i m = map_put i ((case map_of m i of Some n \<Rightarrow> n | None \<Rightarrow> 0) + 1) m"

fun violations_of :: "compliance_status \<Rightarrow> issue list" where
  "violations_of (NonCompliant vs) = vs"
| "violations_of s = []"

fun warnings_of :: "compliance_status \<Rightarrow> issue list" where
  "warnings_of (CompWarning ws) = ws"
| "warnings_of s = []"

definition generate_compliance_summary :: "network_analyzer \<Rightarrow> compliance_summary" where
  "generate_compliance_summary a =
     (let violations = fold tally (concat (map (violations_of \<circ> cp_compliance_status) (na_captured_packets a))) [];
          warnings = fold tally (concat (map (warnings_of \<circ> cp_compliance_status) (na_captured_packets a))) []
      in \<lparr>cs_compliance_rate = nm_protocol_compliance_rate (na_current_metrics a),
          cs_common_violations = violations, cs_common_warnings = warnings,
          cs_total_violations = sum_list (map snd violations), cs_total_warnings = sum_list (map snd warnings)\<rparr>)"

record performance_summary =
  pf_average_latency_ms :: u64
  pf_packet_loss_rate :: rat
  pf_delivery_ratio :: rat

definition generate_performance_summary :: "network_analyzer \<Rightarrow> performance_summary" where
  "generate_performance_summary a =
     \<lparr>pf_average_latency_ms = (case nm_avg_latency_ms (na_current_metrics a) of Some l \<Rightarrow> l | None \<Rightarrow> 0),
      pf_packet_loss_rate = nm_packet_loss_rate (na_current_metrics a),
      pf_delivery_ratio = nm_delivery_ratio (na_current_metrics a)\<rparr>"

definition generate_recommendations :: "network_analyzer \<Rightarrow> string list" where
  "generate_recommendations a =
     (let m = na_current_metrics a; ps = na_captured_packets a
      in (if 5 / 100 < nm_packet_loss_rate m
          then [''High packet loss detected. Consider investigating network reliability.''] else [])
         @ (case nm_avg_latency_ms m of
              Some l \<Rightarrow> if 500 < l then [''High latency detected. Network performance may need optimization.''] else []
            | None \<Rightarrow> [])
         @ (if nm_protocol_compliance_rate m < 95 / 100
            then [''Low protocol compliance rate. Review packet structure validation.''] else [])
         @ (if 3 / 10 < of_nat (length (filter (\<lambda>p. SecurityRelevant \<in> set (cp_analysis_flags p)) ps))
                 / (of_nat (length ps) :: rat)
            then [''High volume of security-relevant packets. Monitor for potential security events.''] else []))"

record analysis_report =
  ar_analyzer_id :: nat
  ar_generated_at :: nat
  ar_metrics :: network_metrics
  ar_capture_summary :: capture_summary
  ar_compliance_summary :: compliance_summary
  ar_performance_summary :: performance_summary
  ar_recommendations :: "string list"

definition generate_analysis_report :: "nat \<Rightarrow> nat \<Rightarrow> network_analyzer \<Rightarrow> analysis_report" where
  "generate_analysis_report now0 now1 a =
     \<lparr>ar_analyzer_id = na_id a, ar_generated_at = now0, ar_metrics = na_current_metrics a,
      ar_capture_summary = get_capture_summary now1 a, ar_compliance_summary = generate_compliance_summary a,
      ar_performance_summary = generate_performance_summary a, ar_recommendations = generate_recommendations a\<rparr>"

section \<open>Latency statistics\<close>

lemma sample_at_sort:
  assumes "i < length xs"
  shows "sample_at (sort xs) i = Inr (sort xs ! i)" and "sort xs ! i \<in> set xs"
proof -
  show "sample_at (sort xs) i = Inr (sort xs ! i)" using assms by (simp add: sample_at_def)
  from assms have "sort xs ! i \<in> set (sort xs)" by (intro nth_mem) simp
  then show "sort xs ! i \<in> set xs" by simp
qed

lemma sum_u64_sort: "sum_u64 checked (sort xs) = sum_u64 checked xs"
proof -
  have "mset (map unat (sort xs)) = mset (map unat xs)" by simp
  then have "sum_list (map unat (sort xs)) = sum_list (map unat xs)" by (metis sum_mset_sum_list)
  then show ?thesis by (simp add: sum_u64_def)
qed

text \<open>The statistics never index out of range: with samples whose sum does not overflow the percentiles are
  samples, in their order between the smallest and the greatest one.\<close>

theorem latency_stats_correct:
  assumes "samples \<noteq> []" and "sum_list (map unat samples) < 2 ^ 64"
    and "calculate_latency_stats checked samples m = r"
  shows "\<exists>m' p50 p95 p99. r = Inr m' \<and>
    nm_min_latency_ms m' = Some (Min (set samples)) \<and> nm_max_latency_ms m' = Some (Max (set samples)) \<and>
    nm_latency_p50_ms m' = Some p50 \<and> nm_latency_p95_ms m' = Some p95 \<and> nm_latency_p99_ms m' = Some p99 \<and>
    {p50, p95, p99} \<subseteq> set samples \<and> Min (set samples) \<le> p50 \<and> p50 \<le> p95 \<and> p95 \<le> p99 \<and> p99 \<le> Max (set samples)"
proof -
  let ?s = "sort samples" and ?n = "length samples"
  have pos: "0 < ?n" using assms(1) by simp
  then have i: "?n div 2 < ?n" "?n * 95 div 100 < ?n" "?n * 99 div 100 < ?n"
    by (auto intro!: less_mult_imp_div_less)
  have order: "?n div 2 \<le> ?n * 95 div 100" "?n * 95 div 100 \<le> ?n * 99 div 100" by linarith+
  have mono: "?s ! j \<le> ?s ! k" if "j \<le> k" "k < ?n" for j k
    using that by (intro sorted_nth_mono) simp_all
  have bounds: "Min (set samples) \<le> ?s ! k \<and> ?s ! k \<le> Max (set samples)" if "k < ?n" for k
    using sample_at_sort(2) [OF that] by simp
  have first: "?s ! 0 = Min (set samples)"
  proof (rule antisym)
    have "Min (set samples) \<in> set ?s" using assms(1) by simp
    then obtain k where "k < ?n" "?s ! k = Min (set samples)" by (metis in_set_conv_nth length_sort)
    with mono [of 0 k] show "?s ! 0 \<le> Min (set samples)" by simp
  qed (use bounds [OF pos] in simp)
  have last: "last ?s = Max (set samples)"
  proof (rule antisym)
    have "Max (set samples) \<in> set ?s" using assms(1) by simp
    then obtain k where k: "k < ?n" "?s ! k = Max (set samples)" by (metis in_set_conv_nth length_sort)
    have "?s \<noteq> []" using assms(1) by (metis set_empty set_sort)
    then have "last ?s = ?s ! (?n - 1)" by (simp add: last_conv_nth)
    with mono [of k "?n - 1"] k show "Max (set samples) \<le> last ?s" by simp
    show "last ?s \<le> Max (set samples)" using assms(1) \<open>last ?s = ?s ! (?n - 1)\<close> bounds [of "?n - 1"] pos by simp
  qed
  have "sum_u64 checked samples = Inr (word_of_nat (sum_list (map unat samples)))"
    using assms(2) by (simp add: sum_u64_def Let_def)
  then show ?thesis
    using assms(1,3) sample_at_sort(1) [OF pos] sample_at_sort(1) [OF i(1)] sample_at_sort(1) [OF i(2)]
      sample_at_sort(1) [OF i(3)] sample_at_sort(2) [OF i(1)] sample_at_sort(2) [OF i(2)] sample_at_sort(2) [OF i(3)]
      mono [OF order(1) i(2)] mono [OF order(2) i(3)] bounds [OF i(1)] bounds [OF i(3)]
    by (auto simp: calculate_latency_stats_def Let_def sum_u64_sort first last)
qed

section \<open>The protocol checker\<close>

text \<open>The only warning is about version 0, which is not supported either: with the default settings no packet
  ever gets a warning.\<close>

theorem checker_never_warns:
  "check_compliance protocol_checker_default p \<noteq> CompWarning ws"
  by (auto simp: check_compliance_def validate_packet_structure_def parse_packet_header_def
      protocol_checker_default_def Let_def split: sum.splits if_splits)

lemma byte_of_mod: "(word_of_nat (k mod 256) :: u8) = word_of_nat k"
  by (simp add: word_of_nat_eq_iff take_bit_eq_mod)

lemma nat_to_be_nth: "i < n \<Longrightarrow> nat_to_be n k ! i = word_of_nat (k div 256 ^ (n - 1 - i))"
proof (induction n arbitrary: k)
  case (Suc n)
  show ?case
  proof (cases "i = n")
    case True
    then show ?thesis by (simp add: nth_append byte_of_mod)
  next
    case False
    with Suc.prems have "i < n" by simp
    then have "n - i = Suc (n - 1 - i)" by simp
    with Suc.IH [OF \<open>i < n\<close>, of "k div 256"] \<open>i < n\<close> show ?thesis
      by (simp add: nth_append div_mult2_eq)
  qed
qed simp

lemma u64_to_be_nth:
  "length (u64_to_be t) = 8" "u64_to_be t ! 3 = word_of_nat (unat t div 2 ^ 32)"
  by (simp_all add: u64_to_be_def nat_to_be_nth)

lemma header_bytes:
  assumes "header_to_bytes h = Inr b"
  shows "\<exists>rest. b = [version h, message_type_as_u8 (message_type h), h_ttl h] @ u64_to_be (h_timestamp h) @ rest"
  using assms by (auto simp: header_to_bytes_def rbind_eq_Inr Let_def split: if_splits)

text \<open>The checker reads a size of the payload from the bytes 4 to 7, where the wire format has a part of the
  timestamp. Every encoded packet whose time is one of these years (2024 to 2039: the fourth byte of its
  milliseconds is at least 2) is reported as violating the protocol.\<close>

theorem wire_packets_non_compliant:
  assumes "wire_encode p = Inr bs" and "2 \<le> unat (h_timestamp (header p)) div 2 ^ 32 mod 256"
    and "cp_data c = bs" and "cp_size c = length bs"
  shows "is_non_compliant (check_compliance protocol_checker_default c)"
proof -
  let ?t = "u64_to_be (h_timestamp (header p))"
  from assms(1) obtain hb rest' where "header_to_bytes (header p) = Inr hb" and "bs = hb @ rest'"
    by (auto elim!: wire_encode_InrD)
  with header_bytes obtain rest where
    bs: "bs = [version (header p), message_type_as_u8 (message_type (header p)), h_ttl (header p)] @ ?t @ rest"
    by fastforce
  then have long: "11 \<le> length bs" by (simp add: u64_to_be_nth)
  have "bs ! 6 = word_of_nat (unat (h_timestamp (header p)) div 2 ^ 32)"
    using u64_to_be_nth [of "h_timestamp (header p)"] by (simp add: bs nth_append)
  then have "2 \<le> unat (bs ! 6)" using assms(2) by (simp add: unat_of_nat)
  then have field: "2 * 65536 \<le> u32_from_le [bs ! 4, bs ! 5, bs ! 6, bs ! 7]"
    by (simp add: u32_from_le_def nat_of_be_def)
  show ?thesis
  proof (cases "64 * 1024 < length bs")
    case True
    with assms(3,4) show ?thesis
      by (simp add: check_compliance_def protocol_checker_default_def Let_def split: sum.split prod.split)
  next
    case False
    with field long have "length bs - 8 < u32_from_le [bs ! 4, bs ! 5, bs ! 6, bs ! 7]" by simp
    with long have "\<exists>es. validate_packet_structure protocol_checker_default bs = Inl es \<and> es \<noteq> []"
      by (auto simp: validate_packet_structure_def parse_packet_header_def)
    with assms(3,4) show ?thesis by (auto simp: check_compliance_def Let_def)
  qed
qed

section \<open>The analyzer\<close>

text \<open>What the captures of one analyzer preserve: the packets are the last ones with consecutive identifiers,
  every packet is counted once, as delivered or not, and the ratios are those of the counters.\<close>

definition analyzer_inv :: "network_analyzer \<Rightarrow> bool" where
  "analyzer_inv a \<longleftrightarrow> (let m = na_current_metrics a; n = length (na_captured_packets a) in
     0 < na_max_capture_buffer a \<and>
     n = min (nm_total_packets m) (na_max_capture_buffer a) \<and>
     na_next_capture_id a = Suc (nm_total_packets m) \<and>
     map cp_capture_id (na_captured_packets a) = [Suc (nm_total_packets m) - n..<Suc (nm_total_packets m)] \<and>
     nm_successful_deliveries m + nm_failed_deliveries m = nm_total_packets m \<and>
     nm_bytes_received m \<le> nm_bytes_transmitted m \<and>
     (0 < nm_total_packets m \<longrightarrow>
        nm_delivery_ratio m = of_nat (nm_successful_deliveries m) / of_nat (nm_total_packets m)) \<and>
     nm_packet_loss_rate m = 1 - nm_delivery_ratio m)"

lemma count_packet_fields:
  "nm_total_packets (count_packet p m) = Suc (nm_total_packets m)"
  "nm_successful_deliveries (count_packet p m) = nm_successful_deliveries m + (if cp_delivered p then 1 else 0)"
  "nm_failed_deliveries (count_packet p m) = nm_failed_deliveries m + (if cp_delivered p then 0 else 1)"
  "nm_bytes_transmitted (count_packet p m) = nm_bytes_transmitted m + cp_size p"
  "nm_bytes_received (count_packet p m) = nm_bytes_received m + (if cp_delivered p then cp_size p else 0)"
  by (simp_all add: count_packet_def Let_def split: message_type.split)

lemma latency_stats_fields:
  assumes "calculate_latency_stats checked xs m = Inr m'"
  shows "nm_total_packets m' = nm_total_packets m \<and> nm_successful_deliveries m' = nm_successful_deliveries m \<and>
    nm_failed_deliveries m' = nm_failed_deliveries m \<and> nm_bytes_transmitted m' = nm_bytes_transmitted m \<and>
    nm_bytes_received m' = nm_bytes_received m"
  using assms by (auto simp: calculate_latency_stats_def Let_def rbind_eq_Inr split: if_splits)

lemma update_ratios_fields:
  "nm_total_packets (update_ratios ps m) = nm_total_packets m"
  "nm_successful_deliveries (update_ratios ps m) = nm_successful_deliveries m"
  "nm_failed_deliveries (update_ratios ps m) = nm_failed_deliveries m"
  "nm_bytes_transmitted (update_ratios ps m) = nm_bytes_transmitted m"
  "nm_bytes_received (update_ratios ps m) = nm_bytes_received m"
  "0 < nm_total_packets m \<Longrightarrow> nm_delivery_ratio (update_ratios ps m) =
     of_nat (nm_successful_deliveries m) / of_nat (nm_total_packets m)"
  "nm_packet_loss_rate (update_ratios ps m) = 1 - nm_delivery_ratio (update_ratios ps m)"
  by (simp_all add: update_ratios_def Let_def)

lemma update_network_metrics_ok:
  assumes "update_network_metrics checked p a = (a', Inr ())"
  shows "\<exists>m. a' = a\<lparr>na_latency_samples := na_latency_samples a',
      na_current_metrics := update_ratios (na_captured_packets a) m\<rparr> \<and>
    nm_total_packets m = Suc (nm_total_packets (na_current_metrics a)) \<and>
    nm_successful_deliveries m = nm_successful_deliveries (na_current_metrics a) + (if cp_delivered p then 1 else 0) \<and>
    nm_failed_deliveries m = nm_failed_deliveries (na_current_metrics a) + (if cp_delivered p then 0 else 1) \<and>
    nm_bytes_transmitted m = nm_bytes_transmitted (na_current_metrics a) + cp_size p \<and>
    nm_bytes_received m = nm_bytes_received (na_current_metrics a) + (if cp_delivered p then cp_size p else 0)"
proof (cases "cp_latency_ms p")
  case None
  with assms show ?thesis
    by (intro exI [of _ "count_packet p (na_current_metrics a)"])
      (auto simp: update_network_metrics_def Let_def count_packet_fields)
next
  case (Some l)
  let ?ls = "push_bounded (az_max_latency_samples (na_config a)) l (na_latency_samples a)"
  from Some assms obtain m where m: "calculate_latency_stats checked ?ls (count_packet p (na_current_metrics a)) = Inr m"
    and a': "a' = a\<lparr>na_latency_samples := ?ls, na_current_metrics := update_ratios (na_captured_packets a) m\<rparr>"
    by (auto simp: update_network_metrics_def Let_def split: sum.splits)
  from latency_stats_fields [OF m] a' show ?thesis
    by (intro exI [of _ m]) (simp add: count_packet_fields)
qed

lemma push_bounded_ids:
  assumes "0 < k" and "length xs = min t k" and "map f xs = [Suc t - length xs..<Suc t]" and "f x = Suc t"
  shows "length (push_bounded k x xs) = min (Suc t) k"
    and "map f (push_bounded k x xs) = [Suc (Suc t) - length (push_bounded k x xs)..<Suc (Suc t)]"
proof -
  have ids: "map f (xs @ [x]) = [Suc t - length xs..<Suc (Suc t)]"
    using assms(2-4) by simp
  show "length (push_bounded k x xs) = min (Suc t) k"
    using assms(1,2) by (auto simp: push_bounded_def)
  have "[Suc (t - k)..<Suc (Suc t)] = Suc (t - k) # [Suc (Suc (t - k))..<Suc (Suc t)]"
    by (rule upt_conv_Cons) simp
  then show "map f (push_bounded k x xs) = [Suc (Suc t) - length (push_bounded k x xs)..<Suc (Suc t)]"
    using assms(1,2) ids by (auto simp: push_bounded_def map_tl Suc_diff_le min_def split: if_splits)
qed

lemma analyzer_inv_capture:
  assumes "analyzer_inv a" and "capture_packet checked now x a = (a', Inr (Inr i))"
  shows "analyzer_inv a' \<and> i = nm_total_packets (na_current_metrics a')"
proof -
  let ?p = "analyzed a now x" and ?a = "a\<lparr>na_next_capture_id := na_next_capture_id a + 1\<rparr>"
  have id: "cp_capture_id ?p = na_next_capture_id a" by (simp add: analyzed_def pending_packet_def Let_def)
  from assms(2) obtain b where b: "update_network_metrics checked ?p ?a = (b, Inr ())"
    and a': "a' = b\<lparr>na_captured_packets := push_bounded (na_max_capture_buffer b) ?p (na_captured_packets b)\<rparr>"
    and i: "i = na_next_capture_id a"
    by (auto simp: capture_packet_def Let_def split: if_splits prod.splits sum.splits)
  from update_network_metrics_ok [OF b] obtain m where
    m: "b = ?a\<lparr>na_latency_samples := na_latency_samples b,
      na_current_metrics := update_ratios (na_captured_packets ?a) m\<rparr>"
    "nm_total_packets m = Suc (nm_total_packets (na_current_metrics a))"
    "nm_successful_deliveries m = nm_successful_deliveries (na_current_metrics a) + (if cp_delivered ?p then 1 else 0)"
    "nm_failed_deliveries m = nm_failed_deliveries (na_current_metrics a) + (if cp_delivered ?p then 0 else 1)"
    "nm_bytes_transmitted m = nm_bytes_transmitted (na_current_metrics a) + cp_size ?p"
    "nm_bytes_received m = nm_bytes_received (na_current_metrics a) + (if cp_delivered ?p then cp_size ?p else 0)"
    by auto
  have fields: "na_captured_packets b = na_captured_packets a" "na_max_capture_buffer b = na_max_capture_buffer a"
    "na_next_capture_id b = Suc (na_next_capture_id a)"
    "na_current_metrics b = update_ratios (na_captured_packets a) m"
    by (subst m(1); simp)+
  from assms(1) have inv: "0 < na_max_capture_buffer a"
    "length (na_captured_packets a) = min (nm_total_packets (na_current_metrics a)) (na_max_capture_buffer a)"
    "map cp_capture_id (na_captured_packets a) =
       [Suc (nm_total_packets (na_current_metrics a)) - length (na_captured_packets a)..<
        Suc (nm_total_packets (na_current_metrics a))]"
    "na_next_capture_id a = Suc (nm_total_packets (na_current_metrics a))"
    by (auto simp: analyzer_inv_def Let_def)
  from inv(4) id have "cp_capture_id ?p = Suc (nm_total_packets (na_current_metrics a))" by simp
  note ids = push_bounded_ids [OF inv(1-3) this]
  show ?thesis
    using assms(1) inv(4) m(2-) ids
    by (simp add: analyzer_inv_def Let_def a' fields i update_ratios_fields del: upt_Suc)
qed

section \<open>Sequences of captures\<close>

text \<open>Captures in order, as long as none of them panics; with the identifier of each.\<close>

fun capture_all ::
    "bool \<Rightarrow> (nat \<times> packet_input) list \<Rightarrow> network_analyzer \<Rightarrow> (network_analyzer \<times> nat list) option" where
  "capture_all checked [] a = Some (a, [])"
| "capture_all checked ((now, x) # xs) a =
     (case capture_packet checked now x a of
        (a, Inr (Inr i)) \<Rightarrow>
          (case capture_all checked xs a of Some (a, is) \<Rightarrow> Some (a, i # is) | None \<Rightarrow> None)
      | _ \<Rightarrow> None)"

lemma capture_all_inv:
  "capture_all checked xs a = Some (a', js) \<Longrightarrow> analyzer_inv a \<Longrightarrow>
   analyzer_inv a' \<and> js = [Suc (nm_total_packets (na_current_metrics a))..<
     Suc (nm_total_packets (na_current_metrics a) + length xs)] \<and>
   nm_total_packets (na_current_metrics a') = nm_total_packets (na_current_metrics a) + length xs"
proof (induction xs arbitrary: a js)
  case (Cons y xs)
  obtain now x where y: "y = (now, x)" by (cases y)
  from Cons.prems(1) obtain b i ks where b: "capture_packet checked now x a = (b, Inr (Inr i))"
    and rest: "capture_all checked xs b = Some (a', ks)" and js: "js = i # ks"
    by (auto simp: y split: prod.splits sum.splits option.splits)
  from analyzer_inv_capture [OF Cons.prems(2) b] have inv: "analyzer_inv b"
    and i: "i = nm_total_packets (na_current_metrics b)" by auto
  from Cons.prems(2) b inv have n: "nm_total_packets (na_current_metrics b) = Suc (nm_total_packets (na_current_metrics a))"
    using i by (auto simp: capture_packet_def analyzer_inv_def Let_def split: if_splits prod.splits sum.splits)
  from Cons.IH [OF rest inv] show ?case
    by (simp add: n i js upt_conv_Cons del: upt_Suc)
qed simp

lemma analyzer_inv_new: "analyzer_inv (analyzer_new now cfg)"
  by (simp add: analyzer_inv_def analyzer_new_def network_metrics_default_def Let_def)

text \<open>An analyzer numbers its captures from 1 on, keeps the last ten thousand of them, counts every one as either
  delivered or failed, and reports the ratio of these counters.\<close>

theorem captures_accounted:
  assumes "capture_all checked xs (analyzer_new now cfg) = Some (a, js)"
  shows "js = [1..<Suc (length xs)] \<and> analyzer_inv a \<and> nm_total_packets (na_current_metrics a) = length xs"
  using capture_all_inv [OF assms analyzer_inv_new]
  by (simp add: analyzer_new_def network_metrics_default_def)

section \<open>Witnesses\<close>

lemma latency_stats_correct_witness:
  "\<exists>m' p50 p95 p99. calculate_latency_stats True [30, 10, 20] (network_metrics_default 0) = Inr m' \<and>
    nm_min_latency_ms m' = Some (Min {30, 10, 20}) \<and> nm_latency_p50_ms m' = Some p50 \<and>
    nm_latency_p95_ms m' = Some p95 \<and> nm_latency_p99_ms m' = Some p99 \<and> p50 \<le> p95 \<and> p95 \<le> p99"
  using latency_stats_correct [of "[30, 10, 20]" True "network_metrics_default 0", OF _ _ refl] by auto

definition example_captured :: "bytes \<Rightarrow> captured_packet" where
  "example_captured bs = pending_packet 0 1
     \<lparr>pi_source = BROADCAST, pi_destination = None, pi_packet_type = Message, pi_data = bs,
      pi_latency_ms = None, pi_delivered = True\<rparr>"

lemma wire_packets_non_compliant_witness:
  "\<exists>bs. wire_encode example_packet = Inr bs \<and>
    is_non_compliant (check_compliance protocol_checker_default (example_captured bs))"
proof -
  obtain bs where bs: "wire_encode example_packet = Inr bs" using example_packet_encodes by blast
  have "is_non_compliant (check_compliance protocol_checker_default (example_captured bs))"
    by (rule wire_packets_non_compliant [OF bs])
      (simp_all add: example_captured_def pending_packet_def example_packet_def packet_new_simple_def header_new_def)
  with bs show ?thesis by blast
qed

end
