(* ===== verification/Transport_Harness.thy ===== *)
theory Transport_Harness
  imports Channel_Messages Wire
begin

text \<open>
  The transport utilities of the simulator: the normalisation of raw messages
  (\<^verbatim>\<open>src/simulator/virtual/harness/src/messages.rs\<close>), the message processor and the managers of reconnections and
  heartbeats (\<^verbatim>\<open>src/simulator/virtual/harness/src/transport.rs\<close>).

  SHA-256 and the decoding of hexadecimal text belong to third-party crates and are arguments. A duration is a number of
  milliseconds; the multiplication of a delay, which the code computes as \<^verbatim>\<open>f32\<close>, is the argument \<open>scale\<close>. The
  trait \<^verbatim>\<open>TransportLifecycle\<close> has no implementation here.
\<close>

section \<open>Raw and canonical messages\<close>

record transport_metadata =
  tm_message_id :: "string option"
  tm_timestamp :: "u64 option"
  tm_sequence :: "u64 option"
  tm_signal_strength :: "8 word option"
  tm_retry_count :: "u32 option"
  tm_transport_hash :: "bytes option"

definition transport_metadata_default :: transport_metadata where
  "transport_metadata_default =
     \<lparr>tm_message_id = None, tm_timestamp = None, tm_sequence = None, tm_signal_strength = None,
      tm_retry_count = None, tm_transport_hash = None\<rparr>"

record raw_inbound =
  ri_sender :: "peer_id option"
  ri_content :: bytes
  ri_transport :: transport_type
  ri_metadata :: transport_metadata

record raw_outbound =
  ro_recipient :: peer_id
  ro_content :: bytes
  ro_transport :: transport_type
  ro_metadata :: transport_metadata

record inbound_message =
  im_event :: transport_event
  im_canonical_hash :: bytes

record outbound_message =
  om_effect :: effect
  om_canonical_hash :: bytes

fun transport_code :: "transport_type \<Rightarrow> u8" where
  "transport_code Ble = 0"
| "transport_code Nostr = 1"

definition hashed_bytes :: "bytes \<Rightarrow> peer_id \<Rightarrow> transport_type \<Rightarrow> bytes" where
  "hashed_bytes content pid tr = content @ pid @ [transport_code tr]"

definition canonical_hash :: "(bytes \<Rightarrow> bytes) \<Rightarrow> bytes \<Rightarrow> peer_id \<Rightarrow> transport_type \<Rightarrow> bytes" where
  "canonical_hash sha256 content pid tr = sha256 (hashed_bytes content pid tr)"

definition message_id_from_hex :: "(string \<Rightarrow> bytes option) \<Rightarrow> string \<Rightarrow> message_id option" where
  "message_id_from_hex hex_decode s =
     (case hex_decode s of Some bs \<Rightarrow> if length bs \<noteq> 32 then None else Some bs | None \<Rightarrow> None)"

definition inbound_from_transport ::
    "(bytes \<Rightarrow> bytes) \<Rightarrow> (string \<Rightarrow> bytes option) \<Rightarrow> raw_inbound \<Rightarrow> inbound_message result" where
  "inbound_from_transport sha256 hex_decode raw =
     (case ri_sender raw of
        None \<Rightarrow> Inl (Err (InvalidPacket InvalidSenderId))
      | Some sender \<Rightarrow>
          (let h = canonical_hash sha256 (ri_content raw) sender (ri_transport raw); meta = ri_metadata raw
           in if \<not> utf8_valid (ri_content raw) then Inl (invalid_packet ''Invalid UTF-8 in message content'')
              else Inr
                \<lparr>im_event = EvMessageReceived sender (ri_content raw) (ri_transport raw)
                   (Option.bind (tm_message_id meta) (message_id_from_hex hex_decode)) None (tm_timestamp meta)
                   (tm_sequence meta),
                 im_canonical_hash = h\<rparr>))"

definition outbound_to_transport :: "(bytes \<Rightarrow> bytes) \<Rightarrow> effect \<Rightarrow> outbound_message result" where
  "outbound_to_transport sha256 eff =
     (case eff of
        SendPacket pid data tr \<Rightarrow> Inr \<lparr>om_effect = eff, om_canonical_hash = canonical_hash sha256 data pid tr\<rparr>
      | _ \<Rightarrow> Inl (invalid_packet ''Effect type not convertible to transport message''))"

definition extract_raw :: "outbound_message \<Rightarrow> raw_outbound result" where
  "extract_raw om =
     (case om_effect om of
        SendPacket pid data tr \<Rightarrow>
          Inr \<lparr>ro_recipient = pid, ro_content = data, ro_transport = tr, ro_metadata = transport_metadata_default\<rparr>
      | _ \<Rightarrow> Inl (invalid_packet ''Effect not convertible to raw outbound message''))"

definition raw_inbound_validate :: "raw_inbound \<Rightarrow> unit result" where
  "raw_inbound_validate raw =
     (if ri_sender raw = None then Inl (Err (InvalidPacket InvalidSenderId))
      else if ri_content raw = [] then Inl (invalid_packet ''Empty content in raw inbound message'')
      else Inr ())"

section \<open>The message processor\<close>

text \<open>The channel of events to the core: its capacity, what waits in it and whether its receiver exists.\<close>

record event_channel =
  ec_capacity :: nat
  ec_queue :: "transport_event list"
  ec_open :: bool

definition event_try_send :: "transport_event \<Rightarrow> event_channel \<Rightarrow> (event_channel \<times> unit) option" where
  "event_try_send ev ch =
     (if ec_open ch \<and> length (ec_queue ch) < ec_capacity ch
      then Some (ch\<lparr>ec_queue := ec_queue ch @ [ev]\<rparr>, ()) else None)"

record transport_handle =
  hd_effect_receiver :: "effect list option"

definition take_effect_receiver :: "transport_handle \<Rightarrow> transport_handle \<times> effect list option" where
  "take_effect_receiver h = (h\<lparr>hd_effect_receiver := None\<rparr>, hd_effect_receiver h)"

datatype transport_state =
    TrInitialized | TrPreparing | TrRunning | TrStopping | TrStopped | TrFailed

record message_processor =
  mp_transport_type :: transport_type

definition process_inbound ::
    "(bytes \<Rightarrow> bytes) \<Rightarrow> (string \<Rightarrow> bytes option) \<Rightarrow> raw_inbound \<Rightarrow> event_channel \<Rightarrow> event_channel \<times> unit result" where
  "process_inbound sha256 hex_decode raw ch =
     (case raw_inbound_validate raw of
        Inl e \<Rightarrow> (ch, Inl e)
      | Inr _ \<Rightarrow>
          (case inbound_from_transport sha256 hex_decode raw of
             Inl e \<Rightarrow> (ch, Inl e)
           | Inr inbound \<Rightarrow>
               (case event_try_send (im_event inbound) ch of
                  None \<Rightarrow> (ch, Inl (Err (Transport (SendBufferFull 0))))
                | Some (ch, _) \<Rightarrow> (ch, Inr ()))))"

definition prepare_outbound :: "(bytes \<Rightarrow> bytes) \<Rightarrow> effect \<Rightarrow> raw_outbound result" where
  "prepare_outbound sha256 eff = rbind (outbound_to_transport sha256 eff) extract_raw"

section \<open>Reconnection\<close>

record 'f reconnect_config =
  rc_initial_delay :: duration
  rc_max_delay :: duration
  rc_backoff_multiplier :: 'f
  rc_max_attempts :: "u32 option"

definition reconnect_config_default :: "'f \<Rightarrow> 'f reconnect_config" where
  "reconnect_config_default two =
     \<lparr>rc_initial_delay = 100, rc_max_delay = 30000, rc_backoff_multiplier = two, rc_max_attempts = None\<rparr>"

record 'f reconnect_manager =
  rm_config :: "'f reconnect_config"
  rm_current_delay :: duration
  rm_attempt_count :: u32

definition reconnect_new :: "'f reconnect_config \<Rightarrow> 'f reconnect_manager" where
  "reconnect_new cfg = \<lparr>rm_config = cfg, rm_current_delay = rc_initial_delay cfg, rm_attempt_count = 0\<rparr>"

definition next_delay ::
    "(duration \<Rightarrow> 'f \<Rightarrow> u64) \<Rightarrow> bool \<Rightarrow> 'f reconnect_manager \<Rightarrow> ('f reconnect_manager \<times> duration option) result" where
  "next_delay scale checked m =
     (if (case rc_max_attempts (rm_config m) of Some k \<Rightarrow> k \<le> rm_attempt_count m | None \<Rightarrow> False)
      then Inr (m, None)
      else if checked \<and> rm_attempt_count m = - 1 then Inl Panic
      else
        (let cfg = rm_config m;
             next = unat (min (scale (rm_current_delay m) (rc_backoff_multiplier cfg)) (word_of_nat (rc_max_delay cfg)))
         in Inr (m\<lparr>rm_attempt_count := rm_attempt_count m + 1, rm_current_delay := next\<rparr>, Some (rm_current_delay m))))"

definition reconnect_reset :: "'f reconnect_manager \<Rightarrow> 'f reconnect_manager" where
  "reconnect_reset m = m\<lparr>rm_current_delay := rc_initial_delay (rm_config m), rm_attempt_count := 0\<rparr>"

section \<open>Heartbeats\<close>

record heartbeat_config =
  hb_interval :: duration
  hb_timeout :: duration
  hb_max_missed :: u32

definition heartbeat_config_default :: heartbeat_config where
  "heartbeat_config_default = \<lparr>hb_interval = from_secs 30, hb_timeout = from_secs 5, hb_max_missed = 3\<rparr>"

record heartbeat_manager =
  hm_config :: heartbeat_config
  hm_missed_count :: u32
  hm_last_heartbeat :: "u64 option"

definition heartbeat_new :: "heartbeat_config \<Rightarrow> heartbeat_manager" where
  "heartbeat_new cfg = \<lparr>hm_config = cfg, hm_missed_count = 0, hm_last_heartbeat = None\<rparr>"

definition heartbeat_record :: "u64 \<Rightarrow> heartbeat_manager \<Rightarrow> heartbeat_manager" where
  "heartbeat_record t m = m\<lparr>hm_last_heartbeat := Some t, hm_missed_count := 0\<rparr>"

definition record_missed :: "bool \<Rightarrow> heartbeat_manager \<Rightarrow> heartbeat_manager result" where
  "record_missed checked m =
     (if checked \<and> hm_missed_count m = - 1 then Inl Panic
      else Inr (m\<lparr>hm_missed_count := hm_missed_count m + 1\<rparr>))"

definition is_connection_dead :: "heartbeat_manager \<Rightarrow> bool" where
  "is_connection_dead m = (hb_max_missed (hm_config m) \<le> hm_missed_count m)"

section \<open>The builder\<close>

record 'f transport_builder =
  tb_transport_type :: transport_type
  tb_reconnect_config :: "'f reconnect_config option"
  tb_heartbeat_config :: "heartbeat_config option"

definition transport_builder_new :: "transport_type \<Rightarrow> 'f transport_builder" where
  "transport_builder_new tr = \<lparr>tb_transport_type = tr, tb_reconnect_config = None, tb_heartbeat_config = None\<rparr>"

definition with_reconnect :: "'f reconnect_config \<Rightarrow> 'f transport_builder \<Rightarrow> 'f transport_builder" where
  "with_reconnect cfg b = b\<lparr>tb_reconnect_config := Some cfg\<rparr>"

definition with_heartbeat :: "heartbeat_config \<Rightarrow> 'f transport_builder \<Rightarrow> 'f transport_builder" where
  "with_heartbeat cfg b = b\<lparr>tb_heartbeat_config := Some cfg\<rparr>"

definition build_message_processor :: "'f transport_builder \<Rightarrow> message_processor" where
  "build_message_processor b = \<lparr>mp_transport_type = tb_transport_type b\<rparr>"

definition build_reconnect_manager :: "'f transport_builder \<Rightarrow> 'f reconnect_manager option" where
  "build_reconnect_manager b = map_option reconnect_new (tb_reconnect_config b)"

definition build_heartbeat_manager :: "'f transport_builder \<Rightarrow> heartbeat_manager option" where
  "build_heartbeat_manager b = map_option heartbeat_new (tb_heartbeat_config b)"

section \<open>Normalisation\<close>

text \<open>A raw message reaches the core exactly when it has a sender, its content is a non-empty text and the channel
  has room; then its event carries exactly the content. Otherwise the channel stays as it is.\<close>

theorem process_inbound_correct:
  assumes "process_inbound sha256 hex_decode raw ch = (ch', r)"
  shows "is_ok r \<longleftrightarrow> ri_sender raw \<noteq> None \<and> ri_content raw \<noteq> [] \<and> utf8_valid (ri_content raw) \<and> ec_open ch \<and>
      length (ec_queue ch) < ec_capacity ch"
    and "is_ok r \<Longrightarrow> \<exists>sender mid. ri_sender raw = Some sender \<and>
      ch' = ch\<lparr>ec_queue := ec_queue ch @ [EvMessageReceived sender (ri_content raw) (ri_transport raw) mid None
        (tm_timestamp (ri_metadata raw)) (tm_sequence (ri_metadata raw))]\<rparr>"
    and "\<not> is_ok r \<Longrightarrow> ch' = ch"
  using assms
  by (auto simp: process_inbound_def raw_inbound_validate_def inbound_from_transport_def event_try_send_def Let_def
      is_ok_iff split: if_splits option.splits sum.splits)

text \<open>What a transport sends it can receive again, as the same text from the same peer over the same transport.\<close>

theorem harness_round_trip:
  assumes "prepare_outbound sha256 (SendPacket pid data tr) = r" and "data \<noteq> []" and "utf8_valid data"
    and "ec_open ch" and "length (ec_queue ch) < ec_capacity ch"
  shows "\<exists>out. r = Inr out \<and> ro_recipient out = pid \<and>
    process_inbound sha256 hex_decode
      \<lparr>ri_sender = Some me, ri_content = ro_content out, ri_transport = ro_transport out, ri_metadata = ro_metadata out\<rparr> ch =
    (ch\<lparr>ec_queue := ec_queue ch @ [EvMessageReceived me data tr None None None None]\<rparr>, Inr ())"
proof -
  let ?out = "\<lparr>ro_recipient = pid, ro_content = data, ro_transport = tr, ro_metadata = transport_metadata_default\<rparr>"
  have "r = Inr ?out"
    using assms(1) by (simp add: prepare_outbound_def outbound_to_transport_def extract_raw_def)
  moreover have "process_inbound sha256 hex_decode
      \<lparr>ri_sender = Some me, ri_content = data, ri_transport = tr, ri_metadata = transport_metadata_default\<rparr> ch =
    (ch\<lparr>ec_queue := ec_queue ch @ [EvMessageReceived me data tr None None None None]\<rparr>, Inr ())"
    using assms(2-) by (simp add: process_inbound_def raw_inbound_validate_def inbound_from_transport_def
        event_try_send_def transport_metadata_default_def)
  ultimately show ?thesis by (intro exI [of _ ?out]) simp
qed

lemma utf8_invalid_FB: "utf8_decode (xs @ 0xFB # ys) = None" if "list_all (\<lambda>b. b \<le> 0x7F) xs" for xs ys
  using that by (induction xs) auto

text \<open>The messages are texts, packets are not: an encoded packet is refused.\<close>

theorem packet_refused:
  assumes "wire_encode example_packet = Inr bs"
  shows "process_inbound sha256 hex_decode
      \<lparr>ri_sender = Some pid, ri_content = bs, ri_transport = tr, ri_metadata = meta\<rparr> ch =
    (ch, Inl (invalid_packet ''Invalid UTF-8 in message content''))"
proof -
  have eight: "8 = Suc (Suc (Suc (Suc (Suc (Suc (Suc (Suc 0)))))))" by simp
  have "u64_to_be 1234567890000 = [0, 0, 1, 31, 113] @ 0xFB # [4, 80]"
    unfolding u64_to_be_def eight nat_to_be.simps by simp
  with assms have "bs = [1, 2, 7, 0, 0, 1, 31, 113] @ 0xFB # [4, 80, 0, 2, 1, 2, 3, 4, 5, 6, 7, 8, 72, 105]"
    by (simp add: example_packet_encodes)
  then have "\<not> utf8_valid bs" and "bs \<noteq> []" by (simp_all add: utf8_valid_def utf8_invalid_FB)
  then show ?thesis by (simp add: process_inbound_def raw_inbound_validate_def inbound_from_transport_def)
qed

section \<open>The canonical hash\<close>

text \<open>What is hashed determines the content, the peer and the transport.\<close>

theorem hashed_bytes_injective:
  assumes "length p = 8" and "length q = 8"
  shows "hashed_bytes c p t = hashed_bytes d q u \<longleftrightarrow> c = d \<and> p = q \<and> t = u"
  using assms by (cases t; cases u) (auto simp: hashed_bytes_def)

text \<open>The hash of an inbound message, meant for deduplication across transports, cannot serve for it: one
  message received over both transports has one hash only if SHA-256 has a collision.\<close>

theorem hash_differs_across_transports:
  assumes "canonical_hash sha256 content pid Ble = canonical_hash sha256 content pid Nostr"
  shows "\<exists>x y. x \<noteq> y \<and> sha256 x = sha256 y"
proof -
  have "hashed_bytes content pid Ble \<noteq> hashed_bytes content pid Nostr" by (simp add: hashed_bytes_def)
  with assms show ?thesis unfolding canonical_hash_def by blast
qed

section \<open>Delays\<close>

fun reconnect_delays ::
    "(duration \<Rightarrow> 'f \<Rightarrow> u64) \<Rightarrow> bool \<Rightarrow> nat \<Rightarrow> 'f reconnect_manager \<Rightarrow> ('f reconnect_manager \<times> duration option list) result" where
  "reconnect_delays scale checked 0 m = Inr (m, [])"
| "reconnect_delays scale checked (Suc n) m =
     rbind (next_delay scale checked m) (\<lambda>(m, d). rbind (reconnect_delays scale checked n m) (\<lambda>(m, ds). Inr (m, d # ds)))"

text \<open>The delay after a delay, and the first ones.\<close>

definition backoff_step :: "(duration \<Rightarrow> 'f \<Rightarrow> u64) \<Rightarrow> 'f reconnect_config \<Rightarrow> duration \<Rightarrow> duration" where
  "backoff_step scale cfg d = min (unat (scale d (rc_backoff_multiplier cfg))) (rc_max_delay cfg)"

fun backoffs :: "(duration \<Rightarrow> duration) \<Rightarrow> nat \<Rightarrow> duration \<Rightarrow> duration list" where
  "backoffs f 0 d = []"
| "backoffs f (Suc n) d = d # backoffs f n (f d)"

lemma unat_min: "unat (min x y) = min (unat x) (unat y)"
  by (simp add: min_def word_le_nat_alt)

lemma unat_max_delay: "rc_max_delay cfg < 2 ^ 64 \<Longrightarrow> unat (word_of_nat (rc_max_delay cfg) :: u64) = rc_max_delay cfg"
  by (simp add: unat_of_nat)

lemma exhausted:
  assumes "rc_max_attempts (rm_config m) = Some k" and "k \<le> rm_attempt_count m"
  shows "reconnect_delays scale checked n m = Inr (m, replicate n None)"
  using assms by (induction n) (simp_all add: next_delay_def)

lemma reconnect_delays_from:
  "rc_max_attempts (rm_config m) = Some k \<Longrightarrow> rc_max_delay (rm_config m) < 2 ^ 64 \<Longrightarrow> rm_attempt_count m \<le> k \<Longrightarrow>
   \<exists>m'. reconnect_delays scale checked n m = Inr (m',
     map Some (backoffs (backoff_step scale (rm_config m)) (min n (unat k - unat (rm_attempt_count m))) (rm_current_delay m))
     @ replicate (n - (unat k - unat (rm_attempt_count m))) None)"
proof (induction n arbitrary: m)
  case (Suc n)
  show ?case
  proof (cases "rm_attempt_count m = k")
    case True
    with exhausted [of m k scale checked "Suc n"] Suc.prems show ?thesis by simp
  next
    case False
    with Suc.prems(3) have less: "rm_attempt_count m < k" by simp
    then have nat: "unat (rm_attempt_count m) < unat k" by (simp add: word_less_nat_alt)
    have room: "rm_attempt_count m \<noteq> - 1" using less by (metis not_less word_order.extremum)
    let ?m = "m\<lparr>rm_attempt_count := rm_attempt_count m + 1,
      rm_current_delay := backoff_step scale (rm_config m) (rm_current_delay m)\<rparr>"
    have step: "next_delay scale checked m = Inr (?m, Some (rm_current_delay m))"
      using less room Suc.prems(1,2) by (simp add: next_delay_def backoff_step_def unat_min unat_max_delay Let_def)
    have count: "unat (rm_attempt_count m + 1) = Suc (unat (rm_attempt_count m))"
      using nat unat_u32_bound [of k] by (subst unat_add_lem [THEN iffD1]) auto
    then have "rm_attempt_count ?m \<le> k" using nat by (simp add: word_le_nat_alt)
    from Suc.IH [of ?m] Suc.prems(1,2) this obtain m' where
      "reconnect_delays scale checked n ?m = Inr (m',
        map Some (backoffs (backoff_step scale (rm_config m)) (min n (unat k - Suc (unat (rm_attempt_count m))))
          (backoff_step scale (rm_config m) (rm_current_delay m)))
        @ replicate (n - (unat k - Suc (unat (rm_attempt_count m)))) None)"
      by (auto simp: count)
    moreover from nat have "unat k - unat (rm_attempt_count m) = Suc (unat k - Suc (unat (rm_attempt_count m)))" by simp
    ultimately show ?thesis by (simp add: step)
  qed
qed simp

lemma backoffs_below:
  fixes f :: "nat \<Rightarrow> nat"
  assumes "\<And>x. f x \<le> limit"
  shows "d \<le> limit \<Longrightarrow> list_all (\<lambda>x. x \<le> limit) (backoffs f n d)"
  by (induction n arbitrary: d) (simp_all add: assms)

lemma backoffs_bounded:
  "\<forall>x \<in> set (tl (backoffs (backoff_step scale cfg) n d)). x \<le> rc_max_delay cfg"
proof (cases n)
  case (Suc k)
  have "backoff_step scale cfg d \<le> rc_max_delay cfg" by (simp add: backoff_step_def)
  then have "list_all (\<lambda>x. x \<le> rc_max_delay cfg) (backoffs (backoff_step scale cfg) k (backoff_step scale cfg d))"
    by (intro backoffs_below) (simp_all add: backoff_step_def)
  with Suc show ?thesis by (simp add: list_all_iff)
qed simp

text \<open>A manager with a limit of attempts gives exactly that many delays, each the scaled one before it, cut to the
  maximum; the first one is the initial delay, cut or not. It never panics.\<close>

theorem reconnect_attempts:
  assumes "rc_max_attempts cfg = Some k" and "rc_max_delay cfg < 2 ^ 64"
  shows "\<exists>m ds. reconnect_delays scale checked n (reconnect_new cfg) =
      Inr (m, map Some ds @ replicate (n - unat k) None) \<and>
    ds = backoffs (backoff_step scale cfg) (min n (unat k)) (rc_initial_delay cfg) \<and>
    (\<forall>d \<in> set (tl ds). d \<le> rc_max_delay cfg)"
proof -
  from reconnect_delays_from [of "reconnect_new cfg" k scale checked n] assms obtain m where
    "reconnect_delays scale checked n (reconnect_new cfg) = Inr (m,
      map Some (backoffs (backoff_step scale cfg) (min n (unat k)) (rc_initial_delay cfg)) @ replicate (n - unat k) None)"
    by (auto simp: reconnect_new_def)
  with backoffs_bounded show ?thesis by blast
qed

section \<open>Missed heartbeats\<close>

datatype beat = Beat u64 | Missed

fun heartbeats :: "bool \<Rightarrow> beat list \<Rightarrow> heartbeat_manager \<Rightarrow> heartbeat_manager result" where
  "heartbeats checked [] m = Inr m"
| "heartbeats checked (Beat t # bs) m = heartbeats checked bs (heartbeat_record t m)"
| "heartbeats checked (Missed # bs) m = rbind (record_missed checked m) (heartbeats checked bs)"

lemma heartbeats_append:
  "heartbeats checked (xs @ ys) m = rbind (heartbeats checked xs m) (heartbeats checked ys)"
proof (induction checked xs m rule: heartbeats.induct)
  case (3 checked bs m)
  then show ?case by (cases "record_missed checked m") simp_all
qed simp_all

lemma heartbeats_count:
  "length bs < 2 ^ 32 \<Longrightarrow> \<exists>m. heartbeats checked bs (heartbeat_new cfg) = Inr m \<and> hm_config m = cfg \<and>
     unat (hm_missed_count m) = length (takeWhile ((=) Missed) (rev bs))"
proof (induction bs rule: rev_induct)
  case (snoc b bs)
  then obtain m where m: "heartbeats checked bs (heartbeat_new cfg) = Inr m" "hm_config m = cfg"
    "unat (hm_missed_count m) = length (takeWhile ((=) Missed) (rev bs))"
    by auto
  show ?case
  proof (cases b)
    case (Beat t)
    with m show ?thesis by (simp add: heartbeats_append heartbeat_record_def)
  next
    case Missed
    have "length (takeWhile ((=) Missed) (rev bs)) \<le> length (rev bs)" by (rule length_takeWhile_le)
    with snoc.prems m(3) have small: "unat (hm_missed_count m) + 1 < 2 ^ 32" by simp
    then have count: "unat (hm_missed_count m + 1) = Suc (unat (hm_missed_count m))"
      by (subst unat_add_lem [THEN iffD1]) auto
    have "hm_missed_count m \<noteq> - 1"
    proof
      assume "hm_missed_count m = - 1"
      with count show False by simp
    qed
    with Missed m count show ?thesis by (simp add: heartbeats_append record_missed_def)
  qed
qed (simp add: heartbeat_new_def)

text \<open>A connection counts as dead exactly when at least the maximum number of heartbeats in a row were missed at the
  end.\<close>

theorem connection_dead_iff:
  assumes "length bs < 2 ^ 32"
  shows "\<exists>m. heartbeats checked bs (heartbeat_new cfg) = Inr m \<and>
    (is_connection_dead m \<longleftrightarrow> unat (hb_max_missed cfg) \<le> length (takeWhile ((=) Missed) (rev bs)))"
  using heartbeats_count [OF assms, of checked cfg] by (auto simp: is_connection_dead_def word_le_nat_alt)

section \<open>Witnesses\<close>

definition toy_reconnect :: "unit reconnect_config" where
  "toy_reconnect = \<lparr>rc_initial_delay = 100, rc_max_delay = 300, rc_backoff_multiplier = (), rc_max_attempts = Some 3\<rparr>"

lemma reconnect_attempts_witness:
  "\<exists>m. reconnect_delays (\<lambda>d _. word_of_nat (2 * d)) True 4 (reconnect_new toy_reconnect) =
     Inr (m, [Some 100, Some 200, Some 300, None])"
proof -
  have three: "backoffs f 3 d = [d, f d, f (f d)]" for f and d :: nat by (simp add: numeral_3_eq_3)
  show ?thesis
    using reconnect_attempts [of toy_reconnect 3 "\<lambda>d _. word_of_nat (2 * d)" True 4]
    by (simp add: toy_reconnect_def three backoff_step_def unat_of_nat)
qed

lemma harness_round_trip_witness:
  "\<exists>out. prepare_outbound id (SendPacket BROADCAST [72, 105] Ble) = Inr out \<and>
    snd (process_inbound id (\<lambda>_. None) \<lparr>ri_sender = Some BROADCAST, ri_content = ro_content out,
      ri_transport = ro_transport out, ri_metadata = ro_metadata out\<rparr> \<lparr>ec_capacity = 1, ec_queue = [], ec_open = True\<rparr>) = Inr ()"
  using harness_round_trip [OF refl, of "[72, 105]" "\<lparr>ec_capacity = 1, ec_queue = [], ec_open = True\<rparr>" id BROADCAST Ble
      "\<lambda>_. None" BROADCAST]
  by (auto simp: utf8_valid_ascii)

end
