(* ===== verification/Mock_Transport.thy ===== *)
theory Mock_Transport
  imports Complex_Main Core_Types "HOL-Library.Sublist"
begin

text \<open>
  The mock transport and the test harness of the simulator
  (\<^verbatim>\<open>src/simulator/virtual/harness/src/mock_transport.rs\<close> and \<^verbatim>\<open>test_harness.rs\<close>).

  An instant is a number of nanoseconds. Random numbers (the crate \<^verbatim>\<open>fastrand\<close>) and clock readings are what the
  environment \<open>mock_env\<close> answers from its state. Rates and the jitter factor are rational numbers; counters and
  latencies stay far below their 64 bits and are natural numbers. A panic is the value \<open>None\<close>. The
  operations of one transport are taken one after the other; the throttling of a sender, which only delays it, and log output
  are left out, and so is the control channel, which is never created.
\<close>

section \<open>The configuration\<close>

record mock_config =
  mc_latency_range :: "nat \<times> nat"
  mc_packet_loss_rate :: rat
  mc_max_in_flight :: nat
  mc_simulate_disconnects :: bool
  mc_disconnect_rate :: rat
  mc_preserve_order :: bool
  mc_throughput_limit :: "nat option"
  mc_jitter_factor :: rat
  mc_duplication_rate :: rat
  mc_corruption_rate :: rat
  mc_burst_loss_rate :: rat
  mc_burst_loss_duration :: nat
  mc_bandwidth_limit :: "nat option"
  mc_max_reorder_distance :: nat

definition mock_config_default :: mock_config where
  "mock_config_default =
     \<lparr>mc_latency_range = (10, 50), mc_packet_loss_rate = 0, mc_max_in_flight = 1000,
      mc_simulate_disconnects = False, mc_disconnect_rate = 0, mc_preserve_order = True,
      mc_throughput_limit = None, mc_jitter_factor = 1 / 10, mc_duplication_rate = 0, mc_corruption_rate = 0,
      mc_burst_loss_rate = 0, mc_burst_loss_duration = 1000, mc_bandwidth_limit = None,
      mc_max_reorder_distance = 0\<rparr>"

definition mock_ideal :: mock_config where
  "mock_ideal =
     \<lparr>mc_latency_range = (1, 2), mc_packet_loss_rate = 0, mc_max_in_flight = 10000,
      mc_simulate_disconnects = False, mc_disconnect_rate = 0, mc_preserve_order = True,
      mc_throughput_limit = None, mc_jitter_factor = 0, mc_duplication_rate = 0, mc_corruption_rate = 0,
      mc_burst_loss_rate = 0, mc_burst_loss_duration = 0, mc_bandwidth_limit = None,
      mc_max_reorder_distance = 0\<rparr>"

definition mock_lossy :: mock_config where
  "mock_lossy =
     \<lparr>mc_latency_range = (50, 200), mc_packet_loss_rate = 1 / 10, mc_max_in_flight = 100,
      mc_simulate_disconnects = True, mc_disconnect_rate = 1 / 100, mc_preserve_order = False,
      mc_throughput_limit = Some 100, mc_jitter_factor = 3 / 10, mc_duplication_rate = 2 / 100,
      mc_corruption_rate = 1 / 1000, mc_burst_loss_rate = 5 / 100, mc_burst_loss_duration = 2000,
      mc_bandwidth_limit = Some 1000000, mc_max_reorder_distance = 5\<rparr>"

definition mock_high_latency :: mock_config where
  "mock_high_latency =
     \<lparr>mc_latency_range = (500, 1000), mc_packet_loss_rate = 5 / 100, mc_max_in_flight = 50,
      mc_simulate_disconnects = False, mc_disconnect_rate = 0, mc_preserve_order = True,
      mc_throughput_limit = Some 10, mc_jitter_factor = 5 / 10, mc_duplication_rate = 0, mc_corruption_rate = 0,
      mc_burst_loss_rate = 0, mc_burst_loss_duration = 0, mc_bandwidth_limit = Some 100000,
      mc_max_reorder_distance = 0\<rparr>"

definition mock_mobile :: mock_config where
  "mock_mobile =
     \<lparr>mc_latency_range = (100, 300), mc_packet_loss_rate = 5 / 100, mc_max_in_flight = 200,
      mc_simulate_disconnects = True, mc_disconnect_rate = 5 / 1000, mc_preserve_order = False,
      mc_throughput_limit = Some 50, mc_jitter_factor = 4 / 10, mc_duplication_rate = 1 / 100,
      mc_corruption_rate = 2 / 1000, mc_burst_loss_rate = 1 / 10, mc_burst_loss_duration = 5000,
      mc_bandwidth_limit = Some 500000, mc_max_reorder_distance = 10\<rparr>"

definition mock_adversarial :: mock_config where
  "mock_adversarial =
     \<lparr>mc_latency_range = (10, 2000), mc_packet_loss_rate = 2 / 10, mc_max_in_flight = 50,
      mc_simulate_disconnects = True, mc_disconnect_rate = 2 / 100, mc_preserve_order = False,
      mc_throughput_limit = Some 20, mc_jitter_factor = 8 / 10, mc_duplication_rate = 1 / 10,
      mc_corruption_rate = 5 / 100, mc_burst_loss_rate = 2 / 10, mc_burst_loss_duration = 10000,
      mc_bandwidth_limit = Some 50000, mc_max_reorder_distance = 20\<rparr>"

section \<open>The transport\<close>

type_synonym mock_instant = nat

definition mock_millis :: "nat \<Rightarrow> nat" where
  "mock_millis ms = ms * 1000000"

definition whole_millis :: "nat \<Rightarrow> nat" where
  "whole_millis ns = ns div 1000000"

text \<open>What the environment answers: a random number, one of an inclusive range, a random byte, the clock,
  and the whole seconds that have passed since the clock was read a moment ago.\<close>

record 'r mock_env =
  me_f64 :: "'r \<Rightarrow> rat \<times> 'r"
  me_range :: "nat \<Rightarrow> nat \<Rightarrow> 'r \<Rightarrow> nat \<times> 'r"
  me_u8 :: "'r \<Rightarrow> u8 \<times> 'r"
  me_now :: "'r \<Rightarrow> mock_instant \<times> 'r"
  me_elapsed :: "'r \<Rightarrow> nat \<times> 'r"

record pending_message =
  pm_recipient :: peer_id
  pm_sender :: peer_id
  pm_content :: bytes
  pm_send_time :: mock_instant
  pm_delivery_time :: mock_instant
  pm_sequence :: nat
  pm_is_duplicate :: bool
  pm_is_corrupted :: bool
  pm_original_size :: nat

record burst_state =
  bu_in_burst :: bool
  bu_burst_start :: "mock_instant option"
  bu_next_check :: mock_instant

record bandwidth_tracker =
  bt_bytes_this_second :: nat
  bt_current_second :: nat
  bt_total_bytes :: nat

record mock_peer =
  mp_peer_id :: peer_id
  mp_connected_at :: mock_instant
  mp_last_seen :: mock_instant
  mp_message_count :: nat

record mock_stats =
  ms_sent :: nat
  ms_received :: nat
  ms_dropped :: nat
  ms_established :: nat
  ms_lost :: nat
  ms_total_latency :: nat
  ms_max_latency :: nat

definition mock_stats_default :: mock_stats where
  "mock_stats_default =
     \<lparr>ms_sent = 0, ms_received = 0, ms_dropped = 0, ms_established = 0, ms_lost = 0, ms_total_latency = 0,
      ms_max_latency = 0\<rparr>"

record 'r mock_transport =
  mt_peer_id :: peer_id
  mt_config :: mock_config
  mt_queue :: "pending_message list"
  mt_peers :: "(peer_id \<times> mock_peer) list"
  mt_stats :: mock_stats
  mt_burst :: burst_state
  mt_bandwidth :: bandwidth_tracker
  mt_reorder :: "pending_message list"
  mt_running :: bool
  mt_waiting :: bool
  mt_env :: 'r

definition mock_transport_new :: "'r mock_env \<Rightarrow> peer_id \<Rightarrow> mock_config \<Rightarrow> 'r \<Rightarrow> 'r mock_transport" where
  "mock_transport_new en pid cfg r0 =
     (let (now, r) = me_now en r0; (sec, r) = me_elapsed en r
      in \<lparr>mt_peer_id = pid, mt_config = cfg, mt_queue = [], mt_peers = [], mt_stats = mock_stats_default,
          mt_burst = \<lparr>bu_in_burst = False, bu_burst_start = None, bu_next_check = now\<rparr>,
          mt_bandwidth = \<lparr>bt_bytes_this_second = 0, bt_current_second = sec, bt_total_bytes = 0\<rparr>,
          mt_reorder = [], mt_running = False, mt_waiting = False, mt_env = r\<rparr>)"

definition mock_add_peer :: "'r mock_env \<Rightarrow> peer_id \<Rightarrow> 'r mock_transport \<Rightarrow> 'r mock_transport" where
  "mock_add_peer en pid t =
     (let (now, r) = me_now en (mt_env t)
      in t\<lparr>mt_peers := map_put pid \<lparr>mp_peer_id = pid, mp_connected_at = now, mp_last_seen = now,
             mp_message_count = 0\<rparr> (mt_peers t),
           mt_stats := (mt_stats t)\<lparr>ms_established := ms_established (mt_stats t) + 1\<rparr>, mt_env := r\<rparr>)"

definition mock_remove_peer :: "peer_id \<Rightarrow> 'r mock_transport \<Rightarrow> 'r mock_transport" where
  "mock_remove_peer pid t =
     (if has_key (mt_peers t) pid
      then t\<lparr>mt_peers := map_del pid (mt_peers t),
             mt_stats := (mt_stats t)\<lparr>ms_lost := ms_lost (mt_stats t) + 1\<rparr>\<rparr>
      else t)"

definition count_lost :: "'r mock_transport \<Rightarrow> 'r mock_transport" where
  "count_lost t = t\<lparr>mt_stats := (mt_stats t)\<lparr>ms_dropped := ms_dropped (mt_stats t) + 1\<rparr>\<rparr>"

definition count_delivered :: "mock_instant \<Rightarrow> pending_message \<Rightarrow> 'r mock_transport \<Rightarrow> 'r mock_transport" where
  "count_delivered now m t =
     (let latency = whole_millis (now - pm_send_time m); st = mt_stats t
      in t\<lparr>mt_stats := st\<lparr>ms_received := ms_received st + 1, ms_total_latency := ms_total_latency st + latency,
           ms_max_latency := (if ms_max_latency st < latency then latency else ms_max_latency st)\<rparr>\<rparr>)"

subsection \<open>Drawing\<close>

definition draw_f64 :: "'r mock_env \<Rightarrow> 'r mock_transport \<Rightarrow> rat \<times> 'r mock_transport" where
  "draw_f64 en t = (case me_f64 en (mt_env t) of (x, r) \<Rightarrow> (x, t\<lparr>mt_env := r\<rparr>))"

definition draw_range :: "'r mock_env \<Rightarrow> nat \<Rightarrow> nat \<Rightarrow> 'r mock_transport \<Rightarrow> (nat \<times> 'r mock_transport) option" where
  "draw_range en a b t =
     (if b < a then None else case me_range en a b (mt_env t) of (x, r) \<Rightarrow> Some (x, t\<lparr>mt_env := r\<rparr>))"

definition draw_u8 :: "'r mock_env \<Rightarrow> 'r mock_transport \<Rightarrow> u8 \<times> 'r mock_transport" where
  "draw_u8 en t = (case me_u8 en (mt_env t) of (x, r) \<Rightarrow> (x, t\<lparr>mt_env := r\<rparr>))"

definition draw_now :: "'r mock_env \<Rightarrow> 'r mock_transport \<Rightarrow> mock_instant \<times> 'r mock_transport" where
  "draw_now en t = (case me_now en (mt_env t) of (x, r) \<Rightarrow> (x, t\<lparr>mt_env := r\<rparr>))"

subsection \<open>Conditions of the network\<close>

definition maybe_start_burst :: "'r mock_env \<Rightarrow> mock_instant \<Rightarrow> 'r mock_transport \<Rightarrow> 'r mock_transport" where
  "maybe_start_burst en now t =
     (if \<not> bu_in_burst (mt_burst t) \<and> bu_next_check (mt_burst t) \<le> now
      then (let (x, t) = draw_f64 en t; b = mt_burst t;
                b = (if x < mc_burst_loss_rate (mt_config t)
                     then b\<lparr>bu_in_burst := True, bu_burst_start := Some now\<rparr> else b)
            in t\<lparr>mt_burst := b\<lparr>bu_next_check := now + mock_millis (mc_burst_loss_duration (mt_config t) * 2)\<rparr>\<rparr>)
      else t)"

definition maybe_end_burst :: "mock_instant \<Rightarrow> 'r mock_transport \<Rightarrow> 'r mock_transport" where
  "maybe_end_burst now t =
     (case (bu_in_burst (mt_burst t), bu_burst_start (mt_burst t)) of
        (True, Some start) \<Rightarrow>
          if mc_burst_loss_duration (mt_config t) \<le> whole_millis (now - start)
          then t\<lparr>mt_burst := (mt_burst t)\<lparr>bu_in_burst := False, bu_burst_start := None\<rparr>\<rparr>
          else t
      | _ \<Rightarrow> t)"

definition should_drop_packet :: "'r mock_env \<Rightarrow> 'r mock_transport \<Rightarrow> bool \<times> 'r mock_transport" where
  "should_drop_packet en t =
     (let (now, t) = draw_now en t; t = maybe_end_burst now (maybe_start_burst en now t)
      in if bu_in_burst (mt_burst t) then (True, t)
         else (let (x, t) = draw_f64 en t in (x < mc_packet_loss_rate (mt_config t), t)))"

definition calculate_latency :: "'r mock_env \<Rightarrow> 'r mock_transport \<Rightarrow> (nat \<times> 'r mock_transport) option" where
  "calculate_latency en t =
     (case mc_latency_range (mt_config t) of (lo, hi) \<Rightarrow>
        case draw_range en lo hi t of
          None \<Rightarrow> None
        | Some (base, t) \<Rightarrow>
            if 0 < mc_jitter_factor (mt_config t) then
              (let amount = nat \<lfloor>of_nat base * mc_jitter_factor (mt_config t)\<rfloor>
               in case draw_range en 0 (amount * 2) t of
                    None \<Rightarrow> None
                  | Some (jitter, t) \<Rightarrow> Some (base + jitter - amount, t))
            else Some (base, t))"

fun corrupt_bytes :: "'r mock_env \<Rightarrow> nat \<Rightarrow> bytes \<Rightarrow> 'r mock_transport \<Rightarrow> (bytes \<times> 'r mock_transport) option" where
  "corrupt_bytes en 0 bs t = Some (bs, t)"
| "corrupt_bytes en (Suc n) bs t =
     (case draw_range en 0 (length bs - 1) t of
        None \<Rightarrow> None
      | Some (i, t) \<Rightarrow> (let (b, t) = draw_u8 en t in corrupt_bytes en n (bs[i := b]) t))"

definition corrupt_payload :: "'r mock_env \<Rightarrow> bytes \<Rightarrow> 'r mock_transport \<Rightarrow> (bytes \<times> 'r mock_transport) option" where
  "corrupt_payload en bs t =
     (if bs = [] then Some (bs, t)
      else case draw_range en 1 (min 3 (length bs)) t of
             None \<Rightarrow> None
           | Some (n, t) \<Rightarrow> corrupt_bytes en n bs t)"

definition check_bandwidth_limit :: "'r mock_env \<Rightarrow> nat \<Rightarrow> 'r mock_transport \<Rightarrow> bool \<times> 'r mock_transport" where
  "check_bandwidth_limit en sz t =
     (case mc_bandwidth_limit (mt_config t) of
        None \<Rightarrow> (True, t)
      | Some limit \<Rightarrow>
          (let (sec, r) = me_elapsed en (mt_env t); t = t\<lparr>mt_env := r\<rparr>; k = mt_bandwidth t;
               k = (if sec \<noteq> bt_current_second k
                    then k\<lparr>bt_current_second := sec, bt_bytes_this_second := 0\<rparr> else k)
           in if limit < bt_bytes_this_second k + sz then (False, t\<lparr>mt_bandwidth := k\<rparr>)
              else (True, t\<lparr>mt_bandwidth := k\<lparr>bt_bytes_this_second := bt_bytes_this_second k + sz,
                bt_total_bytes := bt_total_bytes k + sz\<rparr>\<rparr>)))"

definition should_disconnect :: "'r mock_env \<Rightarrow> 'r mock_transport \<Rightarrow> bool \<times> 'r mock_transport" where
  "should_disconnect en t =
     (if mc_simulate_disconnects (mt_config t)
      then (let (x, t) = draw_f64 en t in (x < mc_disconnect_rate (mt_config t), t)) else (False, t))"

subsection \<open>Sending\<close>

text \<open>The reorder buffer gives messages to the queue while it is too long, and then as long as a random number is
  below 0.3.\<close>

fun release ::
    "'r mock_env \<Rightarrow> nat \<Rightarrow> pending_message list \<Rightarrow> 'r mock_transport \<Rightarrow> 'r mock_transport" where
  "release en d [] t = t\<lparr>mt_reorder := []\<rparr>"
| "release en d (m # ms) t =
     (if d < length (m # ms) then release en d ms (t\<lparr>mt_queue := mt_queue t @ [m]\<rparr>)
      else (let (x, t) = draw_f64 en t
            in if x < 3 / 10 then release en d ms (t\<lparr>mt_queue := mt_queue t @ [m]\<rparr>)
               else t\<lparr>mt_reorder := m # ms\<rparr>))"

definition insert_random :: "'r mock_env \<Rightarrow> pending_message \<Rightarrow> 'r mock_transport \<Rightarrow> 'r mock_transport option" where
  "insert_random en m t =
     (case draw_range en 0 (length (mt_queue t)) t of
        None \<Rightarrow> None
      | Some (i, t) \<Rightarrow> Some (t\<lparr>mt_queue := take i (mt_queue t) @ m # drop i (mt_queue t)\<rparr>))"

definition queue_message :: "'r mock_env \<Rightarrow> pending_message \<Rightarrow> 'r mock_transport \<Rightarrow> 'r mock_transport option" where
  "queue_message en m t =
     (let cfg = mt_config t
      in if 0 < mc_max_reorder_distance cfg \<and> \<not> mc_preserve_order cfg
         then Some (release en (mc_max_reorder_distance cfg) (mt_reorder t @ [m]) t)
         else if mc_preserve_order cfg then Some (t\<lparr>mt_queue := mt_queue t @ [m]\<rparr>)
         else insert_random en m t)"

definition duplicate_message :: "'r mock_env \<Rightarrow> pending_message \<Rightarrow> 'r mock_transport \<Rightarrow> 'r mock_transport option" where
  "duplicate_message en m t =
     (let (x, t) = draw_f64 en t
      in if x < mc_duplication_rate (mt_config t)
         then (case draw_range en 10 100 t of
                 None \<Rightarrow> None
               | Some (extra, t) \<Rightarrow>
                   (let copy = m\<lparr>pm_is_duplicate := True, pm_delivery_time := pm_delivery_time m + mock_millis extra\<rparr>
                    in if mc_preserve_order (mt_config t) then Some (t\<lparr>mt_queue := mt_queue t @ [copy]\<rparr>)
                       else insert_random en copy t))
         else Some t)"

definition enforce_capacity :: "'r mock_transport \<Rightarrow> 'r mock_transport" where
  "enforce_capacity t =
     (if mc_max_in_flight (mt_config t) < length (mt_queue t)
      then count_lost (t\<lparr>mt_queue := tl (mt_queue t)\<rparr>) else t)"

text \<open>Throttling computes the remainder by the limit: a limit of zero panics. The text of the error for an unknown
  peer goes on with the identifier.\<close>

definition throttle_panics :: "'r mock_transport \<Rightarrow> bool" where
  "throttle_panics t \<longleftrightarrow> mc_throughput_limit (mt_config t) = Some 0"

definition mock_send_message ::
    "'r mock_env \<Rightarrow> peer_id \<Rightarrow> bytes \<Rightarrow> 'r mock_transport \<Rightarrow> ('r mock_transport \<times> unit result) option" where
  "mock_send_message en recipient content t =
     (if \<not> has_key (mt_peers t) recipient then Some (t, Inl (Err (Channel ''Peer not found'')))
      else
        (case check_bandwidth_limit en (length content) t of
           (False, t) \<Rightarrow> Some (count_lost t, Inr ())
         | (True, t) \<Rightarrow>
             if throttle_panics t then None
             else
               (case calculate_latency en t of
                  None \<Rightarrow> None
                | Some (latency, t) \<Rightarrow>
                    (let (now, t) = draw_now en t; sequence = ms_sent (mt_stats t);
                         t = t\<lparr>mt_stats := (mt_stats t)\<lparr>ms_sent := ms_sent (mt_stats t) + 1\<rparr>\<rparr>;
                         (x, t) = draw_f64 en t; corrupted = (x < mc_corruption_rate (mt_config t))
                     in case (if corrupted then corrupt_payload en content t else Some (content, t)) of
                          None \<Rightarrow> None
                        | Some (sent, t) \<Rightarrow>
                            (let m = \<lparr>pm_recipient = recipient, pm_sender = mt_peer_id t, pm_content = sent,
                                      pm_send_time = now, pm_delivery_time = now + mock_millis latency,
                                      pm_sequence = sequence, pm_is_duplicate = False, pm_is_corrupted = corrupted,
                                      pm_original_size = length content\<rparr>
                             in case queue_message en m t of
                                  None \<Rightarrow> None
                                | Some t \<Rightarrow>
                                    (case duplicate_message en m t of
                                       None \<Rightarrow> None
                                     | Some t \<Rightarrow> Some (enforce_capacity t, Inr ())))))))"

subsection \<open>Delivering\<close>

fun deliver_queued ::
    "'r mock_env \<Rightarrow> mock_instant \<Rightarrow> pending_message list \<Rightarrow> 'r mock_transport \<Rightarrow> 'r mock_transport" where
  "deliver_queued en now [] t = t\<lparr>mt_queue := []\<rparr>"
| "deliver_queued en now (m # ms) t =
     (if pm_delivery_time m \<le> now then
        (if \<not> has_key (mt_peers t) (pm_recipient m) then deliver_queued en now ms (count_lost t)
         else (case should_drop_packet en t of
                 (True, t) \<Rightarrow> deliver_queued en now ms (count_lost t)
               | (False, t) \<Rightarrow> deliver_queued en now ms (count_delivered now m t)))
      else t\<lparr>mt_queue := m # ms\<rparr>)"

definition process_message_queue :: "'r mock_env \<Rightarrow> 'r mock_transport \<Rightarrow> 'r mock_transport" where
  "process_message_queue en t = (let (now, t) = draw_now en t in deliver_queued en now (mt_queue t) t)"

text \<open>The loop of \<open>start\<close>: as long as the transport runs, it waits for the next tick of its interval and processes the
  queue. A stop while it waits is noticed after that.\<close>

definition mock_start :: "'r mock_transport \<Rightarrow> 'r mock_transport" where
  "mock_start t = t\<lparr>mt_running := True, mt_waiting := True\<rparr>"

definition mock_tick :: "'r mock_env \<Rightarrow> 'r mock_transport \<Rightarrow> 'r mock_transport" where
  "mock_tick en t =
     (if mt_waiting t then (let t = process_message_queue en t in t\<lparr>mt_waiting := mt_running t\<rparr>) else t)"

definition mock_stop :: "'r mock_transport \<Rightarrow> 'r mock_transport" where
  "mock_stop t = t\<lparr>mt_running := False\<rparr>"

definition average_latency_ms :: "'r mock_transport \<Rightarrow> rat" where
  "average_latency_ms t =
     (if 0 < ms_received (mt_stats t)
      then of_nat (ms_total_latency (mt_stats t)) / of_nat (ms_received (mt_stats t)) else 0)"

section \<open>Runs\<close>

datatype mock_op = MoSend peer_id bytes | MoTick | MoAdd peer_id | MoRemove peer_id | MoStart | MoStop

fun mock_apply :: "'r mock_env \<Rightarrow> mock_op \<Rightarrow> 'r mock_transport \<Rightarrow> 'r mock_transport option" where
  "mock_apply en (MoSend pid bs) t = map_option fst (mock_send_message en pid bs t)"
| "mock_apply en MoTick t = Some (mock_tick en t)"
| "mock_apply en (MoAdd pid) t = Some (mock_add_peer en pid t)"
| "mock_apply en (MoRemove pid) t = Some (mock_remove_peer pid t)"
| "mock_apply en MoStart t = Some (mock_start t)"
| "mock_apply en MoStop t = Some (mock_stop t)"

fun mock_run :: "'r mock_env \<Rightarrow> mock_op list \<Rightarrow> 'r mock_transport \<Rightarrow> 'r mock_transport option" where
  "mock_run en [] t = Some t"
| "mock_run en (x # xs) t = Option.bind (mock_apply en x t) (mock_run en xs)"

section \<open>What the operations change\<close>

text \<open>Drawing and testing conditions changes only the environment, the burst and the bandwidth.\<close>

definition same_net :: "'r mock_transport \<Rightarrow> 'r mock_transport \<Rightarrow> bool" where
  "same_net t u \<longleftrightarrow> u = t\<lparr>mt_env := mt_env u, mt_burst := mt_burst u, mt_bandwidth := mt_bandwidth u\<rparr>"

lemma same_netI:
  "u = t\<lparr>mt_env := r\<rparr> \<Longrightarrow> same_net t u"
  "u = t\<lparr>mt_burst := b\<rparr> \<Longrightarrow> same_net t u"
  "u = t\<lparr>mt_bandwidth := k\<rparr> \<Longrightarrow> same_net t u"
  by (simp_all add: same_net_def)

lemma same_net_refl [simp]: "same_net t t"
  by (simp add: same_net_def)

lemma same_net_trans: "same_net t u \<Longrightarrow> same_net u v \<Longrightarrow> same_net t v"
  unfolding same_net_def by (cases t; cases u; cases v) simp

lemma same_net_fields:
  assumes "same_net t u"
  shows "mt_config u = mt_config t" "mt_queue u = mt_queue t" "mt_peers u = mt_peers t" "mt_stats u = mt_stats t"
    "mt_reorder u = mt_reorder t" "mt_waiting u = mt_waiting t" "mt_peer_id u = mt_peer_id t"
  using assms unfolding same_net_def by (cases t; cases u; simp)+

lemma draw_net:
  "draw_f64 en t = (x, u) \<Longrightarrow> same_net t u \<and> mt_bandwidth u = mt_bandwidth t \<and> x = fst (me_f64 en (mt_env t))"
  "draw_u8 en t = (b, u) \<Longrightarrow> same_net t u \<and> mt_bandwidth u = mt_bandwidth t"
  "draw_now en t = (now, u) \<Longrightarrow> same_net t u \<and> mt_bandwidth u = mt_bandwidth t"
  "draw_range en lo hi t = Some (i, u) \<Longrightarrow> same_net t u \<and> mt_bandwidth u = mt_bandwidth t"
  by (auto simp: draw_f64_def draw_u8_def draw_now_def draw_range_def same_net_def split: prod.splits if_splits)

lemma calculate_latency_net:
  assumes "calculate_latency en t = Some (l, u)"
  shows "same_net t u \<and> mt_bandwidth u = mt_bandwidth t"
  using assms
  by (auto simp: calculate_latency_def Let_def split: prod.splits option.splits if_splits
      dest!: draw_net(4) intro: same_net_trans)

lemma corrupt_bytes_net:
  "corrupt_bytes en n bs t = Some (bs', u) \<Longrightarrow> same_net t u \<and> mt_bandwidth u = mt_bandwidth t \<and> length bs' = length bs"
proof (induction n arbitrary: bs t)
  case (Suc n)
  from Suc.prems obtain i v b w where "draw_range en 0 (length bs - 1) t = Some (i, v)" and "draw_u8 en v = (b, w)"
    and "corrupt_bytes en n (bs[i := b]) w = Some (bs', u)"
    by (auto split: option.splits prod.splits)
  with Suc.IH [of "bs[i := b]" w] draw_net(2) [of en v b w] draw_net(4) [of en 0 "length bs - 1" t i v]
  show ?case by (auto intro: same_net_trans)
qed simp

lemma corrupt_payload_net:
  assumes "corrupt_payload en bs t = Some (bs', u)"
  shows "same_net t u \<and> mt_bandwidth u = mt_bandwidth t \<and> length bs' = length bs"
  using assms
  by (auto simp: corrupt_payload_def split: option.splits prod.splits if_splits
      dest!: draw_net(4) corrupt_bytes_net intro: same_net_trans)

lemma check_bandwidth_net:
  assumes "check_bandwidth_limit en sz t = (ok, u)"
  shows "same_net t u" and "mc_bandwidth_limit (mt_config t) = None \<Longrightarrow> ok"
  using assms by (auto simp: check_bandwidth_limit_def Let_def same_net_def split: option.splits prod.splits if_splits)

lemma burst_net:
  "same_net t (maybe_start_burst en now t) \<and> mt_bandwidth (maybe_start_burst en now t) = mt_bandwidth t"
  "same_net t (maybe_end_burst now t) \<and> mt_bandwidth (maybe_end_burst now t) = mt_bandwidth t"
  by (auto simp: maybe_start_burst_def maybe_end_burst_def Let_def split: prod.split option.split bool.split
      dest!: draw_net(1) intro: same_net_trans same_netI)

lemma should_drop_net:
  assumes "should_drop_packet en t = (d, u)"
  shows "same_net t u \<and> mt_bandwidth u = mt_bandwidth t"
proof -
  obtain now t1 where 1: "draw_now en t = (now, t1)" by (cases "draw_now en t")
  let ?b = "maybe_end_burst now (maybe_start_burst en now t1)"
  have "same_net t1 ?b \<and> mt_bandwidth ?b = mt_bandwidth t1"
    using burst_net(1) [of t1 en now] burst_net(2) [of "maybe_start_burst en now t1" now]
    by (auto intro: same_net_trans)
  moreover from assms have "?b = u \<or> (\<exists>x. draw_f64 en ?b = (x, u))"
    by (auto simp: should_drop_packet_def 1 Let_def split: if_splits prod.splits)
  ultimately show ?thesis using draw_net(3) [OF 1] by (auto dest!: draw_net(1) intro: same_net_trans)
qed

section \<open>Accounting\<close>

definition in_flight :: "'r mock_transport \<Rightarrow> nat" where
  "in_flight t = length (mt_queue t) + length (mt_reorder t)"

definition accounted :: "'r mock_transport \<Rightarrow> nat" where
  "accounted t = ms_received (mt_stats t) + ms_dropped (mt_stats t) + in_flight t"

lemma count_lost_fields [simp]:
  "mt_config (count_lost t) = mt_config t" "mt_queue (count_lost t) = mt_queue t"
  "mt_peers (count_lost t) = mt_peers t" "mt_reorder (count_lost t) = mt_reorder t"
  "ms_sent (mt_stats (count_lost t)) = ms_sent (mt_stats t)"
  "ms_received (mt_stats (count_lost t)) = ms_received (mt_stats t)"
  "ms_dropped (mt_stats (count_lost t)) = Suc (ms_dropped (mt_stats t))"
  "ms_total_latency (mt_stats (count_lost t)) = ms_total_latency (mt_stats t)"
  "ms_max_latency (mt_stats (count_lost t)) = ms_max_latency (mt_stats t)"
  "mt_bandwidth (count_lost t) = mt_bandwidth t" "mt_waiting (count_lost t) = mt_waiting t"
  by (simp_all add: count_lost_def)

lemma release_fields:
  "let u = release en d ms t in
     mt_config u = mt_config t \<and> mt_peers u = mt_peers t \<and> mt_stats u = mt_stats t \<and>
     mt_bandwidth u = mt_bandwidth t \<and> mt_waiting u = mt_waiting t \<and>
     length (mt_queue u) + length (mt_reorder u) = length (mt_queue t) + length ms"
proof (induction en d ms t rule: release.induct)
  case (2 en d m ms t)
  obtain x v where v: "draw_f64 en t = (x, v)" by (cases "draw_f64 en t")
  from draw_net(1) [OF v] have "same_net t v" and k: "mt_bandwidth v = mt_bandwidth t" by auto
  with 2 v show ?case by (auto simp: Let_def same_net_fields)
qed simp

definition queued :: "nat \<Rightarrow> 'r mock_transport \<Rightarrow> 'r mock_transport \<Rightarrow> bool" where
  "queued n t u \<longleftrightarrow> mt_config u = mt_config t \<and> mt_peers u = mt_peers t \<and> mt_stats u = mt_stats t \<and>
     mt_bandwidth u = mt_bandwidth t \<and> mt_waiting u = mt_waiting t \<and> in_flight u = in_flight t + n"

lemma insert_random_queued:
  assumes "insert_random en m t = Some u"
  shows "queued 1 t u"
proof -
  from assms obtain i v where v: "draw_range en 0 (length (mt_queue t)) t = Some (i, v)"
    and u: "u = v\<lparr>mt_queue := take i (mt_queue v) @ m # drop i (mt_queue v)\<rparr>"
    by (auto simp: insert_random_def split: option.splits prod.splits)
  from draw_net(4) [OF v] have "same_net t v" "mt_bandwidth v = mt_bandwidth t" by auto
  then show ?thesis by (simp add: queued_def u in_flight_def same_net_fields)
qed

lemma release_queued:
  assumes "u = release en d (mt_reorder t @ [m]) t"
  shows "queued 1 t u"
  using release_fields [of en d "mt_reorder t @ [m]" t] unfolding assms [symmetric] Let_def queued_def in_flight_def
  by simp

lemma queue_message_queued:
  assumes "queue_message en m t = Some u"
  shows "queued 1 t u"
proof (cases "mc_preserve_order (mt_config t)")
  case True
  with assms have "u = t\<lparr>mt_queue := mt_queue t @ [m]\<rparr>" by (simp add: queue_message_def)
  then show ?thesis by (simp add: queued_def in_flight_def)
next
  case False
  with assms show ?thesis
    by (cases "0 < mc_max_reorder_distance (mt_config t)")
      (auto simp: queue_message_def simp del: One_nat_def intro: release_queued [OF refl] insert_random_queued)
qed

lemma queued_net: "same_net t v \<Longrightarrow> mt_bandwidth v = mt_bandwidth t \<Longrightarrow> queued n v u = queued n t u"
  using same_net_fields [of t v] by (simp add: queued_def in_flight_def)

lemma duplicate_message_queued:
  assumes "duplicate_message en m t = Some u"
  shows "queued 0 t u \<and> \<not> fst (me_f64 en (mt_env t)) < mc_duplication_rate (mt_config t)
    \<or> queued 1 t u \<and> fst (me_f64 en (mt_env t)) < mc_duplication_rate (mt_config t)"
proof -
  obtain x v where v: "draw_f64 en t = (x, v)" by (cases "draw_f64 en t")
  from draw_net(1) [OF v] have tv: "same_net t v" "mt_bandwidth v = mt_bandwidth t" and x: "x = fst (me_f64 en (mt_env t))"
    by auto
  note cfg = same_net_fields(1) [OF tv(1)]
  show ?thesis
  proof (cases "x < mc_duplication_rate (mt_config t)")
    case False
    with assms have "u = v" by (simp add: duplicate_message_def v cfg)
    then have "queued 0 v u" by (simp add: queued_def)
    with False x queued_net [OF tv] show ?thesis by simp
  next
    case True
    with assms obtain extra w where w: "draw_range en 10 100 v = Some (extra, w)"
      by (auto simp: duplicate_message_def v cfg split: option.splits)
    define m' where "m' = m\<lparr>pm_is_duplicate := True, pm_delivery_time := pm_delivery_time m + mock_millis extra\<rparr>"
    from assms True w have "u = w\<lparr>mt_queue := mt_queue w @ [m']\<rparr> \<or> insert_random en m' w = Some u"
      by (auto simp: duplicate_message_def v cfg m'_def Let_def split: if_splits)
    then have "queued 1 w u" by (elim disjE) (simp add: queued_def in_flight_def, rule insert_random_queued)
    moreover from draw_net(4) [OF w] have "same_net v w" "mt_bandwidth w = mt_bandwidth v" by auto
    ultimately show ?thesis using True x queued_net [OF tv] queued_net [of v w 1 u] by simp
  qed
qed

lemma enforce_capacity_fields:
  "mt_config (enforce_capacity t) = mt_config t" "mt_peers (enforce_capacity t) = mt_peers t"
  "mt_bandwidth (enforce_capacity t) = mt_bandwidth t"
  "ms_sent (mt_stats (enforce_capacity t)) = ms_sent (mt_stats t)"
  "ms_received (mt_stats (enforce_capacity t)) = ms_received (mt_stats t)"
  "ms_total_latency (mt_stats (enforce_capacity t)) = ms_total_latency (mt_stats t)"
  "ms_max_latency (mt_stats (enforce_capacity t)) = ms_max_latency (mt_stats t)"
  "ms_dropped (mt_stats (enforce_capacity t)) + in_flight (enforce_capacity t) =
     ms_dropped (mt_stats t) + in_flight t"
  "in_flight t \<le> Suc (in_flight (enforce_capacity t))"
  "in_flight t \<le> mc_max_in_flight (mt_config t) \<Longrightarrow> enforce_capacity t = t"
  by (auto simp: enforce_capacity_def in_flight_def)

text \<open>What a send does: it is refused, it is dropped for the bandwidth, or its message is queued, with a
  duplicate or without.\<close>

definition sent_state :: "'r mock_env \<Rightarrow> nat \<Rightarrow> 'r mock_transport \<Rightarrow> 'r mock_transport \<Rightarrow> bool" where
  "sent_state en n t u \<longleftrightarrow> mt_config u = mt_config t \<and> mt_peers u = mt_peers t \<and>
     ms_sent (mt_stats u) = Suc (ms_sent (mt_stats t)) \<and>
     ms_received (mt_stats u) = ms_received (mt_stats t) \<and>
     ms_total_latency (mt_stats u) = ms_total_latency (mt_stats t) \<and>
     ms_max_latency (mt_stats u) = ms_max_latency (mt_stats t) \<and>
     ms_dropped (mt_stats u) + in_flight u = ms_dropped (mt_stats t) + in_flight t + n \<and>
     in_flight t + n \<le> Suc (in_flight u) \<and>
     (in_flight t + n \<le> mc_max_in_flight (mt_config t) \<longrightarrow> ms_dropped (mt_stats u) = ms_dropped (mt_stats t)) \<and>
     (n = 1 \<and> (\<exists>r. \<not> fst (me_f64 en r) < mc_duplication_rate (mt_config t)) \<or>
      n = 2 \<and> (\<exists>r. fst (me_f64 en r) < mc_duplication_rate (mt_config t)))"

lemma mock_send_cases:
  assumes "mock_send_message en pid bs t = Some (u, r)"
  obtains (refused) "\<not> has_key (mt_peers t) pid" "u = t" "r = Inl (Err (Channel ''Peer not found''))"
  | (limited) v where "has_key (mt_peers t) pid" "check_bandwidth_limit en (length bs) t = (False, v)" "u = count_lost v"
      "r = Inr ()"
  | (sent) n v where "has_key (mt_peers t) pid" "check_bandwidth_limit en (length bs) t = (True, v)" "r = Inr ()"
      "mt_bandwidth u = mt_bandwidth v" "sent_state en n t u"
proof (cases "has_key (mt_peers t) pid")
  case False
  with assms show ?thesis by (intro refused) (auto simp: mock_send_message_def)
next
  case key: True
  obtain ok v where v: "check_bandwidth_limit en (length bs) t = (ok, v)" by (cases "check_bandwidth_limit en (length bs) t")
  show ?thesis
  proof (cases ok)
    case False
    with assms key v show ?thesis by (intro limited [OF key, of v]) (auto simp: mock_send_message_def)
  next
    case True
    have tv: "same_net t v" by (rule check_bandwidth_net(1) [OF v])
    from assms key v True obtain l w where w: "calculate_latency en v = Some (l, w)"
      by (auto simp: mock_send_message_def split: if_splits option.splits prod.splits)
    obtain now a where a: "draw_now en w = (now, a)" by (cases "draw_now en w")
    define b where "b = a\<lparr>mt_stats := (mt_stats a)\<lparr>ms_sent := ms_sent (mt_stats a) + 1\<rparr>\<rparr>"
    obtain x c where c: "draw_f64 en b = (x, c)" by (cases "draw_f64 en b")
    from assms key v True w a c obtain content d m e f where
      d: "(if x < mc_corruption_rate (mt_config c) then corrupt_payload en bs c else Some (bs, c)) = Some (content, d)"
      and e: "queue_message en m d = Some e" and f: "duplicate_message en m e = Some f"
      and u: "u = enforce_capacity f" and r: "r = Inr ()"
      by (auto simp: mock_send_message_def c [unfolded b_def, simplified] Let_def split: if_splits option.splits)
    have "same_net v a \<and> mt_bandwidth a = mt_bandwidth v"
      using calculate_latency_net [OF w] draw_net(3) [OF a] by (auto intro: same_net_trans)
    moreover have "same_net b d \<and> mt_bandwidth d = mt_bandwidth b"
      using draw_net(1) [OF c] d by (auto split: if_splits dest!: corrupt_payload_net intro: same_net_trans)
    ultimately have va: "same_net v a" and bd: "same_net b d" and k: "mt_bandwidth d = mt_bandwidth v"
      by (simp_all add: b_def)
    note fields = same_net_fields [OF tv] same_net_fields [OF va] same_net_fields [OF bd]
    have base: "mt_config d = mt_config t" "mt_peers d = mt_peers t" "in_flight d = in_flight t"
      "mt_stats d = (mt_stats t)\<lparr>ms_sent := ms_sent (mt_stats t) + 1\<rparr>" "mt_bandwidth d = mt_bandwidth v"
      unfolding in_flight_def fields k by (simp_all add: b_def fields)
    note q = queue_message_queued [OF e] and dup = duplicate_message_queued [OF f]
    define n where "n = in_flight f - in_flight t"
    have cfg: "mt_config e = mt_config t" using q base by (simp add: queued_def)
    have ef: "mt_config f = mt_config t" "mt_peers f = mt_peers t" "mt_bandwidth f = mt_bandwidth v"
      "mt_stats f = (mt_stats t)\<lparr>ms_sent := ms_sent (mt_stats t) + 1\<rparr>" "in_flight f = in_flight t + n"
      "n = 1 \<and> (\<exists>r. \<not> fst (me_f64 en r) < mc_duplication_rate (mt_config t)) \<or>
       n = 2 \<and> (\<exists>r. fst (me_f64 en r) < mc_duplication_rate (mt_config t))"
      using q dup base cfg by (auto simp: queued_def n_def)
    have "sent_state en n t u"
      using ef enforce_capacity_fields [of f] by (auto simp: sent_state_def u)
    moreover have "mt_bandwidth u = mt_bandwidth v" using ef by (simp add: u enforce_capacity_fields)
    ultimately show ?thesis using v True by (intro sent [OF key _ r]) simp_all
  qed
qed

definition latency_ok :: "'r mock_transport \<Rightarrow> bool" where
  "latency_ok t \<longleftrightarrow> ms_total_latency (mt_stats t) \<le> ms_received (mt_stats t) * ms_max_latency (mt_stats t)"

lemma count_delivered_fields [simp]:
  "mt_config (count_delivered now m t) = mt_config t" "mt_queue (count_delivered now m t) = mt_queue t"
  "mt_peers (count_delivered now m t) = mt_peers t" "mt_reorder (count_delivered now m t) = mt_reorder t"
  "ms_sent (mt_stats (count_delivered now m t)) = ms_sent (mt_stats t)"
  "ms_received (mt_stats (count_delivered now m t)) = Suc (ms_received (mt_stats t))"
  "ms_dropped (mt_stats (count_delivered now m t)) = ms_dropped (mt_stats t)"
  "mt_bandwidth (count_delivered now m t) = mt_bandwidth t"
  by (simp_all add: count_delivered_def Let_def)

lemma latency_ok_delivered: "latency_ok t \<Longrightarrow> latency_ok (count_delivered now m t)"
proof -
  assume *: "latency_ok t"
  let ?l = "whole_millis (now - pm_send_time m)" and ?r = "ms_received (mt_stats t)" and ?x = "ms_max_latency (mt_stats t)"
  have "?r * ?x \<le> ?r * max ?l ?x" by simp
  with * have "ms_total_latency (mt_stats t) + ?l \<le> ?r * max ?l ?x + max ?l ?x"
    unfolding latency_ok_def by linarith
  then show ?thesis by (simp add: latency_ok_def count_delivered_def Let_def max_def split: if_splits)
qed

definition delivering :: "'r mock_transport \<Rightarrow> nat \<Rightarrow> 'r mock_transport \<Rightarrow> bool" where
  "delivering t n u \<longleftrightarrow> mt_config u = mt_config t \<and> mt_peers u = mt_peers t \<and> mt_reorder u = mt_reorder t \<and>
     mt_bandwidth u = mt_bandwidth t \<and> ms_sent (mt_stats u) = ms_sent (mt_stats t) \<and>
     ms_received (mt_stats u) + ms_dropped (mt_stats u) + length (mt_queue u) =
       ms_received (mt_stats t) + ms_dropped (mt_stats t) + n \<and>
     (latency_ok t \<longrightarrow> latency_ok u)"

lemma delivering_queue [simp]: "delivering t (length ms) (t\<lparr>mt_queue := ms\<rparr>)"
  by (simp add: delivering_def latency_ok_def)

lemma deliver_queued_fields: "delivering t (length ms) (deliver_queued en now ms t)"
proof (induction en now ms t rule: deliver_queued.induct)
  case (1 en now t)
  show ?case by (simp add: delivering_def latency_ok_def)
next
  case (2 en now m ms t)
  obtain d v where v: "should_drop_packet en t = (d, v)" by (cases "should_drop_packet en t")
  from should_drop_net [OF v] have tv: "same_net t v" "mt_bandwidth v = mt_bandwidth t" by auto
  have lost: "delivering t (Suc (length ms)) u" if "delivering (count_lost w) (length ms) u"
    and "same_net t w" "mt_bandwidth w = mt_bandwidth t" for u w
    using that by (simp add: delivering_def latency_ok_def same_net_fields)
  have got: "delivering t (Suc (length ms)) u" if "delivering (count_delivered now m v) (length ms) u" for u
    using that tv latency_ok_delivered [of v now m] by (auto simp: delivering_def latency_ok_def same_net_fields)
  show ?case
    using 2 v tv lost [of t] lost [of v] got delivering_queue [of t "m # ms"]
    by (cases d) auto
qed

lemma tick_delivering: "delivering t (length (mt_queue t)) (mock_tick en t)"
proof -
  obtain now v where v: "draw_now en t = (now, v)" by (cases "draw_now en t")
  from draw_net(3) [OF v] have tv: "same_net t v" "mt_bandwidth v = mt_bandwidth t" by auto
  from deliver_queued_fields [of v "mt_queue v" en now] tv delivering_queue [of t "mt_queue t"]
  show ?thesis
    by (auto simp: mock_tick_def process_message_queue_def v delivering_def latency_ok_def same_net_fields Let_def)
qed

definition no_duplicates :: "'r mock_env \<Rightarrow> mock_config \<Rightarrow> bool" where
  "no_duplicates en cfg \<longleftrightarrow> mc_bandwidth_limit cfg = None \<and> (\<forall>r. \<not> fst (me_f64 en r) < mc_duplication_rate cfg)"

definition mock_inv :: "'r mock_env \<Rightarrow> mock_config \<Rightarrow> 'r mock_transport \<Rightarrow> bool" where
  "mock_inv en cfg t \<longleftrightarrow> mt_config t = cfg \<and> ms_sent (mt_stats t) \<le> accounted t \<and> latency_ok t \<and>
     (no_duplicates en cfg \<longrightarrow> ms_sent (mt_stats t) = accounted t)"

lemma mock_inv_lost:
  assumes "mock_inv en cfg t" and "check_bandwidth_limit en n t = (False, v)"
  shows "mock_inv en cfg (count_lost v)"
  using assms check_bandwidth_net [OF assms(2)]
  by (auto simp: mock_inv_def accounted_def in_flight_def latency_ok_def no_duplicates_def same_net_fields)

lemma mock_inv_sent:
  assumes "mock_inv en cfg t" and "sent_state en n t u"
  shows "mock_inv en cfg u"
  using assms by (auto simp: mock_inv_def sent_state_def accounted_def latency_ok_def no_duplicates_def)

lemma mock_inv_delivering:
  assumes "mock_inv en cfg t" and "delivering t (length (mt_queue t)) u"
  shows "mock_inv en cfg u"
  using assms by (auto simp: mock_inv_def delivering_def accounted_def in_flight_def)

lemma mock_inv_apply:
  assumes "mock_inv en cfg t" and "mock_apply en op t = Some u"
  shows "mock_inv en cfg u"
proof (cases op)
  case (MoSend pid bs)
  with assms(2) obtain r where "mock_send_message en pid bs t = Some (u, r)" by auto
  then show ?thesis
    by (cases rule: mock_send_cases) (use assms(1) in \<open>auto intro: mock_inv_lost mock_inv_sent\<close>)
next
  case MoTick
  with assms tick_delivering [of t en] show ?thesis by (auto intro: mock_inv_delivering)
qed (use assms in \<open>auto simp: mock_inv_def mock_add_peer_def mock_remove_peer_def mock_start_def mock_stop_def
      accounted_def in_flight_def latency_ok_def Let_def split: prod.splits\<close>)

lemma mock_inv_run: "mock_run en ops t = Some u \<Longrightarrow> mock_inv en cfg t \<Longrightarrow> mock_inv en cfg u"
  by (induction ops arbitrary: t) (auto simp: Option.bind_eq_Some_conv intro: mock_inv_apply)

lemma mock_inv_new: "mock_inv en cfg (mock_transport_new en pid cfg r)"
  by (auto simp: mock_inv_def mock_transport_new_def accounted_def in_flight_def latency_ok_def
      mock_stats_default_def Let_def split: prod.split)

text \<open>Every message sent is delivered, dropped or still on its way, and nothing else is when the network neither
  duplicates nor limits the bandwidth. The average latency is at most the greatest one.\<close>

theorem mock_conserves:
  assumes "mock_run en ops (mock_transport_new en pid cfg r) = Some t"
  shows "ms_sent (mt_stats t) \<le> ms_received (mt_stats t) + ms_dropped (mt_stats t) + in_flight t"
    and "no_duplicates en cfg \<Longrightarrow>
      ms_sent (mt_stats t) = ms_received (mt_stats t) + ms_dropped (mt_stats t) + in_flight t"
    and "average_latency_ms t \<le> of_nat (ms_max_latency (mt_stats t))"
proof -
  have inv: "mock_inv en cfg t" by (rule mock_inv_run [OF assms mock_inv_new])
  then show "ms_sent (mt_stats t) \<le> ms_received (mt_stats t) + ms_dropped (mt_stats t) + in_flight t"
    and "no_duplicates en cfg \<Longrightarrow>
      ms_sent (mt_stats t) = ms_received (mt_stats t) + ms_dropped (mt_stats t) + in_flight t"
    by (simp_all add: mock_inv_def accounted_def)
  let ?n = "ms_received (mt_stats t)" and ?m = "ms_max_latency (mt_stats t)"
  from inv have "ms_total_latency (mt_stats t) \<le> ?m * ?n" by (simp add: mock_inv_def latency_ok_def mult.commute)
  then have "(of_nat (ms_total_latency (mt_stats t)) :: rat) \<le> of_nat ?m * of_nat ?n"
    by (metis of_nat_le_iff of_nat_mult)
  then show "average_latency_ms t \<le> of_nat ?m" by (simp add: average_latency_ms_def divide_le_eq)
qed

text \<open>The limit of messages in flight is not one: with a network that duplicates every message, each send
  leaves at least one message more.\<close>

theorem capacity_not_enforced:
  assumes "\<And>r. fst (me_f64 en r) < mc_duplication_rate (mt_config t)" and "mc_bandwidth_limit (mt_config t) = None"
    and "mock_run en (map (MoSend pid) msgs) t = Some u" and "has_key (mt_peers t) pid"
  shows "in_flight t + length msgs \<le> in_flight u"
  using assms
proof (induction msgs arbitrary: t)
  case (Cons bs msgs)
  from Cons.prems(3) obtain v r where v: "mock_send_message en pid bs t = Some (v, r)"
    and rest: "mock_run en (map (MoSend pid) msgs) v = Some u"
    by (auto simp: Option.bind_eq_Some_conv)
  from v show ?case
  proof (cases rule: mock_send_cases)
    case (limited w)
    with check_bandwidth_net(2) Cons.prems(2) show ?thesis by blast
  next
    case (sent n w)
    with Cons.prems(1,2,4) Cons.IH [OF _ _ rest] show ?thesis by (auto simp: sent_state_def)
  qed (use Cons.prems(4) in simp)
qed simp

section \<open>The bandwidth\<close>

definition bandwidth_inv :: "nat \<Rightarrow> 'r mock_transport \<Rightarrow> bool" where
  "bandwidth_inv limit t \<longleftrightarrow> mc_bandwidth_limit (mt_config t) = Some limit \<and> bt_current_second (mt_bandwidth t) = 0 \<and>
     bt_bytes_this_second (mt_bandwidth t) = bt_total_bytes (mt_bandwidth t) \<and>
     bt_total_bytes (mt_bandwidth t) \<le> limit"

lemma check_bandwidth_inv:
  assumes "bandwidth_inv limit t" and "\<And>r. fst (me_elapsed en r) = 0" and "check_bandwidth_limit en n t = (ok, v)"
  shows "bandwidth_inv limit v \<and> ok = (bt_total_bytes (mt_bandwidth t) + n \<le> limit)"
proof -
  obtain r where "me_elapsed en (mt_env t) = (0, r)" using assms(2) [of "mt_env t"] by (cases "me_elapsed en (mt_env t)") simp
  with assms(1,3) show ?thesis by (auto simp: check_bandwidth_limit_def bandwidth_inv_def Let_def split: if_splits)
qed

lemma bandwidth_inv_apply:
  assumes inv: "bandwidth_inv limit t" and zero: "\<And>r. fst (me_elapsed en r) = 0" and "mock_apply en op t = Some u"
  shows "bandwidth_inv limit u"
proof (cases op)
  case (MoSend pid bs)
  with assms(3) obtain r where "mock_send_message en pid bs t = Some (u, r)" by auto
  then show ?thesis
  proof (cases rule: mock_send_cases)
    case refused
    with inv show ?thesis by simp
  next
    case (limited v)
    with check_bandwidth_inv [OF inv zero, of "length bs" False v] show ?thesis by (simp add: bandwidth_inv_def)
  next
    case (sent n v)
    with check_bandwidth_inv [OF inv zero, of "length bs" True v] inv show ?thesis
      by (simp add: bandwidth_inv_def sent_state_def)
  qed
next
  case MoTick
  with assms(3) inv tick_delivering [of t en] show ?thesis by (auto simp: bandwidth_inv_def delivering_def)
qed (use assms in \<open>auto simp: bandwidth_inv_def mock_add_peer_def mock_remove_peer_def mock_start_def mock_stop_def
      Let_def split: prod.splits\<close>)

lemma bandwidth_inv_run:
  "mock_run en ops t = Some u \<Longrightarrow> (\<And>r. fst (me_elapsed en r) = 0) \<Longrightarrow> bandwidth_inv limit t \<Longrightarrow> bandwidth_inv limit u"
  by (induction ops arbitrary: t) (auto simp: Option.bind_eq_Some_conv intro: bandwidth_inv_apply)

text \<open>The seconds are taken from an instant read in the same expression and so are zero: the bytes of the second
  are never reset, and the limit of bytes per second is one for the lifetime of the transport. A message beyond
  it is dropped.\<close>

theorem bandwidth_never_recovers:
  assumes "mock_run en ops (mock_transport_new en pid cfg r) = Some t" and "\<And>r. fst (me_elapsed en r) = 0"
    and "mc_bandwidth_limit cfg = Some limit"
  shows "bt_total_bytes (mt_bandwidth t) \<le> limit"
    and "has_key (mt_peers t) to \<Longrightarrow> limit < bt_total_bytes (mt_bandwidth t) + length bs \<Longrightarrow>
      mock_send_message en to bs t = Some (u, res) \<Longrightarrow>
      mt_queue u = mt_queue t \<and> mt_reorder u = mt_reorder t \<and> ms_dropped (mt_stats u) = Suc (ms_dropped (mt_stats t))"
proof -
  have "bandwidth_inv limit (mock_transport_new en pid cfg r)"
    using assms(2,3) by (simp add: bandwidth_inv_def mock_transport_new_def Let_def split: prod.split) (metis fst_conv)
  with assms have inv: "bandwidth_inv limit t" by (blast intro: bandwidth_inv_run)
  then show "bt_total_bytes (mt_bandwidth t) \<le> limit" by (simp add: bandwidth_inv_def)
  assume "has_key (mt_peers t) to" and over: "limit < bt_total_bytes (mt_bandwidth t) + length bs"
    and "mock_send_message en to bs t = Some (u, res)"
  from this(3,1) show "mt_queue u = mt_queue t \<and> mt_reorder u = mt_reorder t \<and>
      ms_dropped (mt_stats u) = Suc (ms_dropped (mt_stats t))"
  proof (cases rule: mock_send_cases)
    case (limited v)
    with same_net_fields [OF check_bandwidth_net(1) [OF limited(2)]] show ?thesis by simp
  next
    case (sent n v)
    with check_bandwidth_inv [OF inv assms(2), of "length bs" True v] over show ?thesis by simp
  qed simp
qed

section \<open>The ideal network\<close>

definition ideal_state :: "'r mock_transport \<Rightarrow> bool" where
  "ideal_state t \<longleftrightarrow> mt_config t = mock_ideal \<and> mt_reorder t = [] \<and> \<not> bu_in_burst (mt_burst t) \<and>
     list_all (\<lambda>m. has_key (mt_peers t) (pm_recipient m)) (mt_queue t)"

lemma ideal_drop:
  assumes "mt_config t = mock_ideal" and "\<not> bu_in_burst (mt_burst t)" and "\<And>r. 0 \<le> fst (me_f64 en r)"
    and "should_drop_packet en t = (d, u)"
  shows "\<not> d \<and> \<not> bu_in_burst (mt_burst u)"
proof -
  have pos: "\<not> x < 0" if "me_f64 en r = (x, r')" for r r' x
    using assms(3) [of r] that by simp
  obtain now v where v: "draw_now en t = (now, v)" by (cases "draw_now en t")
  have vt: "mt_config v = mock_ideal" "\<not> bu_in_burst (mt_burst v)"
    using v assms(1,2) by (auto simp: draw_now_def split: prod.splits)
  let ?w = "maybe_start_burst en now v"
  have "\<not> bu_in_burst (mt_burst ?w) \<and> mt_config ?w = mock_ideal"
    using vt by (auto simp: maybe_start_burst_def Let_def draw_f64_def mock_ideal_def split: prod.splits
      dest!: pos)
  then have w: "maybe_end_burst now ?w = ?w" "\<not> bu_in_burst (mt_burst ?w)" "mt_config ?w = mock_ideal"
    by (simp_all add: maybe_end_burst_def)
  with assms(4) show ?thesis
    by (auto simp: should_drop_packet_def v Let_def mock_ideal_def draw_f64_def split: prod.splits
        dest!: pos)
qed

definition env_ok :: "'r mock_env \<Rightarrow> bool" where
  "env_ok en \<longleftrightarrow> (\<forall>r. 0 \<le> fst (me_f64 en r))"

lemma ideal_send:
  assumes "ideal_state t" and "has_key (mt_peers t) pid" and "length (mt_queue t) < 10000" and "env_ok en"
  shows "\<exists>u m. mock_send_message en pid bs t = Some (u, Inr ()) \<and> ideal_state u \<and> mt_queue u = mt_queue t @ [m] \<and>
    mt_peers u = mt_peers t \<and> mt_waiting u = mt_waiting t \<and> pm_content m = bs \<and> pm_recipient m = pid \<and>
    ms_received (mt_stats u) = ms_received (mt_stats t) \<and> ms_dropped (mt_stats u) = ms_dropped (mt_stats t)"
proof -
  obtain l r1 where 1: "me_range en (Suc 0) 2 (mt_env t) = (l, r1)" by (cases "me_range en (Suc 0) 2 (mt_env t)")
  obtain now r2 where 2: "me_now en r1 = (now, r2)" by (cases "me_now en r1")
  obtain x r3 where 3: "me_f64 en r2 = (x, r3)" by (cases "me_f64 en r2")
  obtain y r4 where 4: "me_f64 en r3 = (y, r4)" by (cases "me_f64 en r3")
  have "\<not> x < 0" "\<not> y < 0" using assms(4) 3 4 unfolding env_ok_def by (metis fst_conv not_le)+
  moreover have cfg: "mt_config t = mock_ideal" using assms(1) by (simp add: ideal_state_def)
  ultimately show ?thesis
    using assms(1-3)
    by (simp add: mock_send_message_def check_bandwidth_limit_def throttle_panics_def calculate_latency_def cfg
        mock_ideal_def [THEN arg_cong, of mc_bandwidth_limit] mock_ideal_def [THEN arg_cong, of mc_throughput_limit]
        mock_ideal_def [THEN arg_cong, of mc_latency_range] mock_ideal_def [THEN arg_cong, of mc_jitter_factor]
        mock_ideal_def [THEN arg_cong, of mc_corruption_rate] mock_ideal_def [THEN arg_cong, of mc_duplication_rate]
        mock_ideal_def [THEN arg_cong, of mc_preserve_order] mock_ideal_def [THEN arg_cong, of mc_max_in_flight]
        draw_range_def draw_now_def draw_f64_def queue_message_def duplicate_message_def enforce_capacity_def
        1 2 3 4 ideal_state_def Let_def)
qed

lemma deliver_all:
  "mt_config t = mock_ideal \<Longrightarrow> \<not> bu_in_burst (mt_burst t) \<Longrightarrow> env_ok en \<Longrightarrow>
   list_all (\<lambda>m. has_key (mt_peers t) (pm_recipient m) \<and> pm_delivery_time m \<le> now) ms \<Longrightarrow>
   (let u = deliver_queued en now ms t in mt_queue u = [] \<and>
      ms_received (mt_stats u) = ms_received (mt_stats t) + length ms \<and> ms_dropped (mt_stats u) = ms_dropped (mt_stats t))"
proof (induction ms arbitrary: t)
  case (Cons m ms)
  obtain d v where v: "should_drop_packet en t = (d, v)" by (cases "should_drop_packet en t")
  from ideal_drop [OF Cons.prems(1,2) _ v] Cons.prems(3) have "\<not> d" "\<not> bu_in_burst (mt_burst v)"
    by (simp_all add: env_ok_def)
  moreover note tv = same_net_fields [OF conjunct1 [OF should_drop_net [OF v]]]
  moreover have "mt_burst (count_delivered now m v) = mt_burst v" by (simp add: count_delivered_def Let_def)
  ultimately show ?case using Cons.IH [of "count_delivered now m v"] Cons.prems v by (simp add: Let_def)
qed simp

lemma ideal_sends:
  "ideal_state t \<Longrightarrow> env_ok en \<Longrightarrow> list_all (\<lambda>(pid, bs). has_key (mt_peers t) pid) msgs \<Longrightarrow>
   length (mt_queue t) + length msgs \<le> 10000 \<Longrightarrow>
   \<exists>u. mock_run en (map (\<lambda>(pid, bs). MoSend pid bs) msgs) t = Some u \<and> ideal_state u \<and>
     mt_waiting u = mt_waiting t \<and> length (mt_queue u) = length (mt_queue t) + length msgs \<and>
     map pm_content (mt_queue u) = map pm_content (mt_queue t) @ map snd msgs \<and>
     ms_received (mt_stats u) = ms_received (mt_stats t) \<and> ms_dropped (mt_stats u) = ms_dropped (mt_stats t)"
proof (induction msgs arbitrary: t)
  case (Cons x msgs)
  obtain pid bs where x: "x = (pid, bs)" by (cases x)
  from ideal_send [of t pid en bs] Cons.prems x obtain u m where
    u: "mock_send_message en pid bs t = Some (u, Inr ())" "ideal_state u" "mt_queue u = mt_queue t @ [m]"
      "mt_peers u = mt_peers t" "mt_waiting u = mt_waiting t" "pm_content m = bs"
      "ms_received (mt_stats u) = ms_received (mt_stats t)" "ms_dropped (mt_stats u) = ms_dropped (mt_stats t)"
    by auto
  from Cons.IH [of u] Cons.prems u x show ?case by auto
qed simp

text \<open>The ideal network delivers: up to ten thousand messages to connected peers are queued unchanged and in order, and
  the first tick after their delivery times counts all of them as received and none as dropped.\<close>

theorem ideal_network_delivers:
  assumes "ideal_state t" and "mt_queue t = []" and "mt_waiting t" and "env_ok en"
    and "list_all (\<lambda>(pid, bs). has_key (mt_peers t) pid) msgs" and "length msgs \<le> 10000"
  shows "\<exists>u. mock_run en (map (\<lambda>(pid, bs). MoSend pid bs) msgs) t = Some u \<and>
    map pm_content (mt_queue u) = map snd msgs \<and>
    (list_all (\<lambda>m. pm_delivery_time m \<le> fst (me_now en (mt_env u))) (mt_queue u) \<longrightarrow>
       mt_queue (mock_tick en u) = [] \<and>
       ms_received (mt_stats (mock_tick en u)) = ms_received (mt_stats t) + length msgs \<and>
       ms_dropped (mt_stats (mock_tick en u)) = ms_dropped (mt_stats t))"
proof -
  from ideal_sends [OF assms(1,4,5)] assms(2,6) obtain u where
    u: "mock_run en (map (\<lambda>(pid, bs). MoSend pid bs) msgs) t = Some u" "ideal_state u" "mt_waiting u = mt_waiting t"
      "length (mt_queue u) = length msgs" "map pm_content (mt_queue u) = map snd msgs"
      "ms_received (mt_stats u) = ms_received (mt_stats t)" "ms_dropped (mt_stats u) = ms_dropped (mt_stats t)"
    by auto
  obtain now v where v: "draw_now en u = (now, v)" by (cases "draw_now en u")
  note uv = same_net_fields [OF conjunct1 [OF draw_net(3) [OF v]]]
  from v have now: "fst (me_now en (mt_env u)) = now" and "mt_burst v = mt_burst u"
    by (auto simp: draw_now_def split: prod.splits)
  with u(2) deliver_all [of v en now "mt_queue v"] assms(4) uv
  have "list_all (\<lambda>m. pm_delivery_time m \<le> now) (mt_queue u) \<Longrightarrow>
    (let w = deliver_queued en now (mt_queue v) v in mt_queue w = [] \<and>
      ms_received (mt_stats w) = ms_received (mt_stats u) + length (mt_queue u) \<and>
      ms_dropped (mt_stats w) = ms_dropped (mt_stats u))"
    by (simp add: ideal_state_def list_all_iff)
  with u assms(3) now v show ?thesis
    by (auto simp: mock_tick_def process_message_queue_def Let_def)
qed

section \<open>The test harness\<close>

record packet_metadata =
  pd_signal_strength :: "32 word option"
  pd_sequence :: "u64 option"
  pd_is_retry :: bool
  pd_transport_id :: "rust_string option"

definition packet_metadata_default :: packet_metadata where
  "packet_metadata_default =
     \<lparr>pd_signal_strength = None, pd_sequence = None, pd_is_retry = False, pd_transport_id = None\<rparr>"

record test_packet =
  tp_from :: peer_id
  tp_to :: peer_id
  tp_payload :: bytes
  tp_timestamp :: mock_instant
  tp_metadata :: packet_metadata

definition test_packet_new :: "mock_instant \<Rightarrow> peer_id \<Rightarrow> peer_id \<Rightarrow> bytes \<Rightarrow> test_packet" where
  "test_packet_new now from_peer to_peer bs =
     \<lparr>tp_from = from_peer, tp_to = to_peer, tp_payload = bs, tp_timestamp = now,
      tp_metadata = packet_metadata_default\<rparr>"

definition test_packet_with_metadata ::
    "mock_instant \<Rightarrow> peer_id \<Rightarrow> peer_id \<Rightarrow> bytes \<Rightarrow> packet_metadata \<Rightarrow> test_packet" where
  "test_packet_with_metadata now from_peer to_peer bs meta =
     \<lparr>tp_from = from_peer, tp_to = to_peer, tp_payload = bs, tp_timestamp = now, tp_metadata = meta\<rparr>"

definition test_packet_age :: "mock_instant \<Rightarrow> test_packet \<Rightarrow> nat" where
  "test_packet_age now p = now - tp_timestamp p"

definition test_packet_matches :: "peer_id option \<Rightarrow> peer_id option \<Rightarrow> bytes option \<Rightarrow> test_packet \<Rightarrow> bool" where
  "test_packet_matches from_peer to_peer start p =
     (if (case from_peer of Some f \<Rightarrow> tp_from p \<noteq> f | None \<Rightarrow> False) then False
      else if (case to_peer of Some q \<Rightarrow> tp_to p \<noteq> q | None \<Rightarrow> False) then False
      else if (case start of Some bs \<Rightarrow> take (length bs) (tp_payload p) \<noteq> bs | None \<Rightarrow> False) then False
      else True)"

subsection \<open>The handle of the network\<close>

record 'r test_network =
  tn_outgoing :: "test_packet list"
  tn_incoming :: "test_packet list"
  tn_transport :: "'r mock_transport"

definition new_from_transport :: "'r mock_transport \<Rightarrow> 'r test_network" where
  "new_from_transport t = \<lparr>tn_outgoing = [], tn_incoming = [], tn_transport = t\<rparr>"

definition tn_add_peer :: "'r mock_env \<Rightarrow> peer_id \<Rightarrow> 'r test_network \<Rightarrow> 'r test_network" where
  "tn_add_peer en pid h = h\<lparr>tn_transport := mock_add_peer en pid (tn_transport h)\<rparr>"

definition tn_remove_peer :: "peer_id \<Rightarrow> 'r test_network \<Rightarrow> 'r test_network" where
  "tn_remove_peer pid h = h\<lparr>tn_transport := mock_remove_peer pid (tn_transport h)\<rparr>"

definition inject_incoming :: "test_packet \<Rightarrow> 'r test_network \<Rightarrow> 'r test_network" where
  "inject_incoming p h = h\<lparr>tn_incoming := tn_incoming h @ [p]\<rparr>"

definition drain_outgoing :: "'r test_network \<Rightarrow> 'r test_network \<times> test_packet list" where
  "drain_outgoing h = (h\<lparr>tn_outgoing := []\<rparr>, tn_outgoing h)"

definition has_outgoing :: "'r test_network \<Rightarrow> bool" where
  "has_outgoing h = (tn_outgoing h \<noteq> [])"

definition simulate_partition :: "'r test_network \<Rightarrow> 'r test_network" where
  "simulate_partition h =
     h\<lparr>tn_transport := fold mock_remove_peer (keys_of (mt_peers (tn_transport h))) (tn_transport h)\<rparr>"

definition simulate_healing :: "'r mock_env \<Rightarrow> peer_id list \<Rightarrow> 'r test_network \<Rightarrow> 'r test_network" where
  "simulate_healing en pids h = h\<lparr>tn_transport := fold (mock_add_peer en) pids (tn_transport h)\<rparr>"

datatype network_op =
    TnAdd peer_id
  | TnRemove peer_id
  | TnInject test_packet
  | TnDrain
  | TnPartition
  | TnHeal "peer_id list"

fun network_apply :: "'r mock_env \<Rightarrow> network_op \<Rightarrow> 'r test_network \<Rightarrow> 'r test_network" where
  "network_apply en (TnAdd pid) h = tn_add_peer en pid h"
| "network_apply en (TnRemove pid) h = tn_remove_peer pid h"
| "network_apply en (TnInject p) h = inject_incoming p h"
| "network_apply en TnDrain h = fst (drain_outgoing h)"
| "network_apply en TnPartition h = simulate_partition h"
| "network_apply en (TnHeal pids) h = simulate_healing en pids h"

text \<open>The outgoing packets are polled until the time is over; between two polls others use the handle.\<close>

fun expect_outgoing_timeout ::
    "'r mock_env \<Rightarrow> network_op list list \<Rightarrow> 'r test_network \<Rightarrow> 'r test_network \<times> test_packet option" where
  "expect_outgoing_timeout en [] h = (h, None)"
| "expect_outgoing_timeout en (ops # polls) h =
     (case tn_outgoing h of
        p # ps \<Rightarrow> (h\<lparr>tn_outgoing := ps\<rparr>, Some p)
      | [] \<Rightarrow> expect_outgoing_timeout en polls (fold (network_apply en) ops h))"

text \<open>\<open>expect_outgoing\<close> panics (\<open>None\<close>) when nothing came in time.\<close>

definition expect_outgoing ::
    "'r mock_env \<Rightarrow> network_op list list \<Rightarrow> 'r test_network \<Rightarrow> ('r test_network \<times> test_packet) option" where
  "expect_outgoing en polls h =
     (case expect_outgoing_timeout en polls h of (h, Some p) \<Rightarrow> Some (h, p) | (h, None) \<Rightarrow> None)"

subsection \<open>The runtime of the harness\<close>

record test_harness =
  th_commands :: "string list"
  th_events :: "string list"
  th_running :: bool
  th_peer_id :: peer_id

definition harness_with_config ::
    "'r mock_env \<Rightarrow> mock_config \<Rightarrow> 'r \<Rightarrow> test_harness \<times> 'r test_network" where
  "harness_with_config en cfg r =
     (let pid = [1, 2, 3, 4, 5, 6, 7, 8]
      in (\<lparr>th_commands = [], th_events = [], th_running = True, th_peer_id = pid\<rparr>,
          new_from_transport (mock_transport_new en pid cfg r)))"

definition starts_with :: "string \<Rightarrow> string \<Rightarrow> bool" where
  "starts_with s start = (take (length start) s = start)"

definition command_reply :: "string \<Rightarrow> string" where
  "command_reply cmd =
     (if starts_with cmd ''/send'' then ''MessageSent: '' @ cmd
      else if starts_with cmd ''/connect'' then ''ConnectionAttempt: '' @ cmd
      else if starts_with cmd ''/start_discovery'' then ''DiscoveryStarted''
      else if starts_with cmd ''/stop_discovery'' then ''DiscoveryStopped''
      else ''CommandProcessed: '' @ cmd)"

text \<open>One iteration: the next command, when there is one, or a second without a command. The sender of commands
  lives as long as the harness.\<close>

datatype harness_input = HarnessCommand | HarnessTimeout

fun harness_iteration :: "harness_input \<Rightarrow> test_harness \<Rightarrow> test_harness" where
  "harness_iteration HarnessCommand h =
     (if \<not> th_running h then h
      else case th_commands h of
             [] \<Rightarrow> h
           | c # cs \<Rightarrow>
               if c = ''Shutdown'' then h\<lparr>th_commands := cs, th_running := False\<rparr>
               else h\<lparr>th_commands := cs, th_events := th_events h @ [command_reply c]\<rparr>)"
| "harness_iteration HarnessTimeout h =
     (if th_running h then h\<lparr>th_events := th_events h @ [''Heartbeat'']\<rparr> else h)"

definition harness_send_command :: "string \<Rightarrow> test_harness \<Rightarrow> test_harness \<times> unit result" where
  "harness_send_command cmd h =
     (if th_running h then (h\<lparr>th_commands := th_commands h @ [cmd]\<rparr>, Inr ())
      else (h, Inl (Err (Channel (''Failed to send command: '' @ ''channel closed'')))))"

definition harness_shutdown :: "harness_input list \<Rightarrow> test_harness \<Rightarrow> test_harness" where
  "harness_shutdown inputs h = fold harness_iteration inputs (fst (harness_send_command ''Shutdown'' h))"

text \<open>\<open>add_peer_and_wait\<close> after the peer was added: the events received, or a timeout of five seconds; the result is
  \<open>None\<close> as long as it waits.\<close>

fun wait_for_peer :: "string \<Rightarrow> string option list \<Rightarrow> unit result option" where
  "wait_for_peer shown [] = None"
| "wait_for_peer shown (Some event # events) =
     (if sublist ''PeerDiscovered'' event \<and> sublist shown event then Some (Inr ()) else wait_for_peer shown events)"
| "wait_for_peer shown (None # events) = Some (Inl (Err (Channel ''Timeout waiting for peer discovery'')))"

subsection \<open>Properties of the harness\<close>

lemma network_no_outgoing:
  "tn_outgoing h = [] \<Longrightarrow> tn_outgoing (fold (network_apply en) ops h) = []"
proof (induction ops arbitrary: h)
  case (Cons op ops)
  then show ?case
    by (cases op) (simp_all add: tn_add_peer_def tn_remove_peer_def inject_incoming_def drain_outgoing_def
        simulate_partition_def simulate_healing_def)
qed simp

text \<open>No operation of the harness gives the network an outgoing packet: whatever a test does with its handle, there is
  none, and expecting one panics after its five seconds.\<close>

theorem harness_sees_no_packet:
  assumes "harness_with_config en cfg r = (h, net)"
  shows "\<not> has_outgoing (fold (network_apply en) ops net)"
    and "expect_outgoing en polls (fold (network_apply en) ops net) = None"
proof -
  have none: "tn_outgoing (fold (network_apply en) ops net) = []" for ops
    using assms by (intro network_no_outgoing) (auto simp: harness_with_config_def new_from_transport_def Let_def)
  then show "\<not> has_outgoing (fold (network_apply en) ops net)" by (simp add: has_outgoing_def)
  have "snd (expect_outgoing_timeout en polls g) = None" if "tn_outgoing g = []" for g
    using that
  proof (induction polls arbitrary: g)
    case (Cons x polls)
    from Cons.IH [OF network_no_outgoing [OF Cons.prems]] Cons.prems show ?case by simp
  qed simp
  with none show "expect_outgoing en polls (fold (network_apply en) ops net) = None"
    by (simp add: expect_outgoing_def split: prod.split option.split) (metis option.distinct(1) snd_conv)
qed

text \<open>While nobody sends commands the runtime sends heartbeats and nothing else, one each second: no wait for the
  discovery of a peer ever ends, with success or with its timeout.\<close>

theorem waiting_for_peer_hangs:
  assumes "harness_with_config en cfg r = (h, net)"
  shows "wait_for_peer shown (map Some (th_events (fold harness_iteration inputs h))) = None"
proof -
  have "th_events (fold harness_iteration inputs g) \<in> {replicate n ''Heartbeat'' | n. True}"
    if "th_events g \<in> {replicate n ''Heartbeat'' | n. True}" and "th_commands g = []" for g
    using that
  proof (induction inputs arbitrary: g)
    case (Cons i inputs)
    show ?case
    proof (cases i)
      case HarnessTimeout
      from Cons.prems(1) obtain n where "th_events g = replicate n ''Heartbeat''" by auto
      then have "th_events g @ [''Heartbeat''] = replicate (Suc n) ''Heartbeat''" by (simp add: replicate_append_same)
      then have "th_events g @ [''Heartbeat''] \<in> {replicate n ''Heartbeat'' | n. True}" by blast
      with Cons HarnessTimeout show ?thesis by simp
    qed (use Cons in simp)
  qed simp
  moreover have "th_events h = replicate 0 ''Heartbeat''" "th_commands h = []"
    using assms by (auto simp: harness_with_config_def Let_def)
  ultimately obtain n where n: "th_events (fold harness_iteration inputs h) = replicate n ''Heartbeat''" by blast
  have "wait_for_peer shown (map Some (replicate n ''Heartbeat'')) = None"
    by (induction n) (simp_all add: sublist_code)
  with n show ?thesis by simp
qed

lemma command_reply_not_heartbeat: "command_reply c \<noteq> ''Heartbeat''"
  by (simp add: command_reply_def)

lemma harness_commands:
  "th_running h \<Longrightarrow> th_commands h = cs @ [''Shutdown''] \<Longrightarrow> ''Shutdown'' \<notin> set cs \<Longrightarrow>
   length cs < length (filter ((=) HarnessCommand) inputs) \<Longrightarrow>
   (let u = fold harness_iteration inputs h in \<not> th_running u \<and> th_commands u = [] \<and>
      filter ((\<noteq>) ''Heartbeat'') (th_events u) = filter ((\<noteq>) ''Heartbeat'') (th_events h) @ map command_reply cs)"
proof (induction inputs arbitrary: h cs)
  case (Cons i inputs)
  have stopped: "fold harness_iteration inputs g = g" if "\<not> th_running g" for g
    using that
  proof (induction inputs)
    case (Cons j inputs)
    then show ?case by (cases j) auto
  qed simp
  show ?case
  proof (cases i)
    case HarnessTimeout
    with Cons.prems Cons.IH [of "harness_iteration i h" cs] show ?thesis by simp
  next
    case HarnessCommand
    show ?thesis
    proof (cases cs)
      case Nil
      with Cons.prems HarnessCommand stopped show ?thesis by (simp add: Let_def)
    next
      case (Cons c cs')
      with Cons.prems Cons.IH [of "harness_iteration i h" cs'] HarnessCommand command_reply_not_heartbeat [of c]
      show ?thesis by (auto simp: Let_def)
    qed
  qed
qed simp

text \<open>Shutting the harness down answers the commands sent before, in order, and ends the runtime, whenever its
  heartbeats come.\<close>

theorem harness_shutdown_correct:
  assumes "th_running h" and "''Shutdown'' \<notin> set (th_commands h)"
    and "length (th_commands h) < length (filter ((=) HarnessCommand) inputs)"
  shows "\<not> th_running (harness_shutdown inputs h)"
    and "filter ((\<noteq>) ''Heartbeat'') (th_events (harness_shutdown inputs h)) =
      filter ((\<noteq>) ''Heartbeat'') (th_events h) @ map command_reply (th_commands h)"
  using assms harness_commands [of "fst (harness_send_command ''Shutdown'' h)" "th_commands h" inputs]
  by (simp_all add: harness_shutdown_def harness_send_command_def Let_def)

section \<open>Witnesses\<close>

text \<open>An environment whose state is a clock in milliseconds; random numbers are zero or the least of their
  range.\<close>

definition toy_mock_env :: "nat mock_env" where
  "toy_mock_env =
     \<lparr>me_f64 = \<lambda>r. (1 / 2, r), me_range = \<lambda>a b r. (a, r), me_u8 = \<lambda>r. (0, r),
      me_now = \<lambda>r. (r * 1000000, r + 10), me_elapsed = \<lambda>r. (0, r)\<rparr>"

definition toy_mock :: "mock_config \<Rightarrow> nat mock_transport" where
  "toy_mock cfg = mock_start (mock_add_peer toy_mock_env BROADCAST (mock_transport_new toy_mock_env [1] cfg 0))"

lemmas toy_mock_simps = toy_mock_def toy_mock_env_def mock_start_def mock_add_peer_def mock_transport_new_def
  has_key_def Let_def

lemma toy_mock_ideal: "ideal_state (toy_mock mock_ideal)" "mt_queue (toy_mock mock_ideal) = []"
  "mt_waiting (toy_mock mock_ideal)" "env_ok toy_mock_env" "has_key (mt_peers (toy_mock cfg)) BROADCAST"
  by (simp_all add: toy_mock_simps ideal_state_def env_ok_def)

lemma ideal_network_delivers_witness:
  "\<exists>u. mock_run toy_mock_env [MoSend BROADCAST [1], MoSend BROADCAST [2]] (toy_mock mock_ideal) = Some u \<and>
    map pm_content (mt_queue u) = [[1], [2]]"
  using ideal_network_delivers [OF toy_mock_ideal(1-4), of "[(BROADCAST, [1]), (BROADCAST, [2])]"]
  by (auto simp: toy_mock_ideal(5))

lemma mock_conserves_witness:
  "\<exists>t. mock_run toy_mock_env [MoAdd BROADCAST, MoSend BROADCAST [1]] (mock_transport_new toy_mock_env [1] mock_ideal 0)
     = Some t \<and> ms_sent (mt_stats t) \<le> ms_received (mt_stats t) + ms_dropped (mt_stats t) + in_flight t"
proof -
  obtain t where t: "mock_run toy_mock_env [MoAdd BROADCAST, MoSend BROADCAST [1]]
      (mock_transport_new toy_mock_env [1] mock_ideal 0) = Some t"
    by (simp add: mock_send_message_def toy_mock_simps mock_ideal_def check_bandwidth_limit_def throttle_panics_def
        calculate_latency_def draw_range_def draw_now_def draw_f64_def queue_message_def duplicate_message_def)
  with mock_conserves(1) [OF t] show ?thesis by blast
qed

text \<open>A network that duplicates every message, and one that has three bytes per second.\<close>

definition doubling :: mock_config where
  "doubling = mock_ideal\<lparr>mc_duplication_rate := 1, mc_max_in_flight := 1\<rparr>"

lemma capacity_not_enforced_witness:
  "\<exists>u. mock_run toy_mock_env (map (MoSend BROADCAST) [[1], [2], [3]]) (toy_mock doubling) = Some u \<and>
    mc_max_in_flight (mt_config (toy_mock doubling)) = 1 \<and> 3 \<le> in_flight u"
proof -
  obtain u where u: "mock_run toy_mock_env (map (MoSend BROADCAST) [[1], [2], [3]]) (toy_mock doubling) = Some u"
    by (simp add: mock_send_message_def toy_mock_simps doubling_def mock_ideal_def check_bandwidth_limit_def
        throttle_panics_def calculate_latency_def draw_range_def draw_now_def draw_f64_def queue_message_def
        duplicate_message_def enforce_capacity_def count_lost_def)
  have "in_flight (toy_mock doubling) + length [[1], [2], [3 :: u8]] \<le> in_flight u"
    by (rule capacity_not_enforced [OF _ _ u toy_mock_ideal(5)])
      (simp_all add: toy_mock_simps doubling_def mock_ideal_def)
  with u show ?thesis by (auto simp: toy_mock_simps doubling_def)
qed

definition narrow :: mock_config where
  "narrow = mock_ideal\<lparr>mc_bandwidth_limit := Some 3\<rparr>"

lemma bandwidth_never_recovers_witness:
  "\<exists>t u. mock_run toy_mock_env [MoAdd BROADCAST, MoSend BROADCAST [1, 2]] (mock_transport_new toy_mock_env [1] narrow 0)
     = Some t \<and> mock_send_message toy_mock_env BROADCAST [3, 4] t = Some (u, Inr ()) \<and>
     ms_dropped (mt_stats u) = Suc (ms_dropped (mt_stats t))"
proof -
  define t0 where "t0 = mock_transport_new toy_mock_env [1] narrow 0"
  obtain t u where t: "mock_run toy_mock_env [MoAdd BROADCAST, MoSend BROADCAST [1, 2]] t0 = Some t"
    and u: "mock_send_message toy_mock_env BROADCAST [3, 4] t = Some (u, Inr ())"
    and k: "has_key (mt_peers t) BROADCAST" "bt_total_bytes (mt_bandwidth t) = 2"
    by (simp add: t0_def mock_send_message_def toy_mock_simps narrow_def mock_ideal_def check_bandwidth_limit_def
        throttle_panics_def calculate_latency_def draw_range_def draw_now_def draw_f64_def queue_message_def
        duplicate_message_def enforce_capacity_def count_lost_def mock_stats_default_def)
  have "ms_dropped (mt_stats u) = Suc (ms_dropped (mt_stats t))"
    using bandwidth_never_recovers(2) [OF t [unfolded t0_def] _ _ k(1) _ u, of 3] k(2)
    by (simp add: toy_mock_env_def narrow_def)
  with t u show ?thesis by (auto simp: t0_def)
qed

end
