(* ===== verification/Simulator.thy ===== *)
theory Simulator
  imports Complex_Main Core_Types "HOL-Library.Multiset"
begin

text \<open>
  The simulated network of the tests: the packet router with its network conditions
  (\<^verbatim>\<open>src/simulator/virtual/src/network_router.rs\<close>) and the virtual clock
  (\<^verbatim>\<open>src/simulator/virtual/src/clock.rs\<close>).

  An instant is a number of nanoseconds. The source of randomness
  (\<^verbatim>\<open>src/simulator/virtual/src/random.rs\<close>) belongs to the \<^verbatim>\<open>rand\<close> crate and is the record
  \<open>random_source\<close> of functions on its state; chances, which the code holds as \<^verbatim>\<open>f32\<close>, are rational numbers.
  A panic (an empty range to draw from) is the value \<open>None\<close>. The channels to the peers are unbounded;
  \<open>gone\<close> says which peers have dropped their end. Log output is left out.
\<close>

section \<open>Network conditions\<close>

record 'r random_source =
  rn_f32 :: "'r \<Rightarrow> rat \<times> 'r"
  rn_u32 :: "'r \<Rightarrow> u32 \<times> 'r"
  rn_range_u32 :: "u32 \<Rightarrow> u32 \<Rightarrow> 'r \<Rightarrow> u32 \<times> 'r"

text \<open>The documented contract of the crate.\<close>

definition random_source_ok :: "'r random_source \<Rightarrow> bool" where
  "random_source_ok src \<longleftrightarrow>
     (\<forall>r. 0 \<le> fst (rn_f32 src r) \<and> fst (rn_f32 src r) < 1) \<and>
     (\<forall>a b r. a < b \<longrightarrow> a \<le> fst (rn_range_u32 src a b r) \<and> fst (rn_range_u32 src a b r) < b)"

datatype network_profile =
    NpPerfect
  | NpSlowWifi u32 u32
  | NpUnreliable3G rat rat u32 u32
  | NpSatellite u32 u32 bool
  | NpMeshNetwork u32 u8 rat
  | NpCustom u32 u32 rat rat rat rat

fun base_latency_ms :: "network_profile \<Rightarrow> u32" where
  "base_latency_ms NpPerfect = 0"
| "base_latency_ms (NpSlowWifi latency _) = latency"
| "base_latency_ms (NpUnreliable3G _ _ latency _) = latency"
| "base_latency_ms (NpSatellite latency _ _) = latency"
| "base_latency_ms (NpMeshNetwork hop_latency max_hops _) = hop_latency * ucast max_hops"
| "base_latency_ms (NpCustom lowest _ _ _ _ _) = lowest"

definition home_wifi :: network_profile where "home_wifi = NpSlowWifi 5 2"
definition coffee_wifi :: network_profile where "coffee_wifi = NpSlowWifi 20 10"
definition mobile_4g :: network_profile where "mobile_4g = NpUnreliable3G (1 / 1000) (1 / 100) 50 20"
definition poor_mobile :: network_profile where "poor_mobile = NpUnreliable3G (5 / 100) (1 / 10) 200 100"
definition satellite :: network_profile where "satellite = NpSatellite 600 50 True"
definition mesh_network :: network_profile where "mesh_network = NpMeshNetwork 10 5 (1 / 1000)"

datatype network_topology =
    FullyConnected
  | Linear
  | Star peer_id
  | CustomTopology "(peer_id \<times> peer_id list) list"

record router_config =
  ro_profile :: network_profile
  ro_enable_packet_logging :: bool
  ro_max_queue_size :: nat
  ro_topology :: network_topology

definition router_config_default :: router_config where
  "router_config_default =
     \<lparr>ro_profile = NpPerfect, ro_enable_packet_logging = False, ro_max_queue_size = 1000, ro_topology = FullyConnected\<rparr>"

section \<open>The router\<close>

type_synonym sim_instant = nat

definition millis :: "u32 \<Rightarrow> nat" where
  "millis ms = unat ms * 1000000"

record network_packet =
  nk_from :: peer_id
  nk_to :: peer_id
  nk_data :: bytes
  nk_sent_at :: sim_instant
  nk_deliver_at :: sim_instant
  nk_sequence :: u64
  nk_hop_count :: u8

record network_stats =
  ns_packets_routed :: u64
  ns_packets_dropped :: u64
  ns_packets_reordered :: u64
  ns_packets_duplicated :: u64
  ns_total_latency_ms :: u64
  ns_peak_queue_size :: nat

definition network_stats_default :: network_stats where
  "network_stats_default =
     \<lparr>ns_packets_routed = 0, ns_packets_dropped = 0, ns_packets_reordered = 0, ns_packets_duplicated = 0,
      ns_total_latency_ms = 0, ns_peak_queue_size = 0\<rparr>"

record 'r network_router =
  nr_config :: router_config
  nr_next_sequence :: u64
  nr_pending :: "network_packet list"
  nr_peers :: "peer_id list"
  nr_stats :: network_stats
  nr_rng :: 'r

definition network_router_new :: "router_config \<Rightarrow> 'r \<Rightarrow> 'r network_router" where
  "network_router_new cfg rng =
     \<lparr>nr_config = cfg, nr_next_sequence = 1, nr_pending = [], nr_peers = [], nr_stats = network_stats_default,
      nr_rng = rng\<rparr>"

text \<open>The handle that \<open>add_peer\<close> returns: whether the other end of its outgoing channel exists. The code
  creates that channel and drops the receiving end at once.\<close>

record network_handle =
  mh_outgoing_open :: bool
  mh_peer_id :: peer_id

definition add_peer :: "peer_id \<Rightarrow> 'r network_router \<Rightarrow> 'r network_router \<times> network_handle" where
  "add_peer pid rt = (rt\<lparr>nr_peers := List.insert pid (nr_peers rt)\<rparr>, \<lparr>mh_outgoing_open = False, mh_peer_id = pid\<rparr>)"

definition handle_send_packet ::
    "sim_instant \<times> sim_instant \<Rightarrow> peer_id \<Rightarrow> bytes \<Rightarrow> network_handle \<Rightarrow> string + network_packet" where
  "handle_send_packet now to data h =
     (if \<not> mh_outgoing_open h then Inl ''Network router disconnected''
      else Inr \<lparr>nk_from = mh_peer_id h, nk_to = to, nk_data = data, nk_sent_at = fst now, nk_deliver_at = snd now,
                nk_sequence = 0, nk_hop_count = 0\<rparr>)"

definition router_remove_peer :: "peer_id \<Rightarrow> 'r network_router \<Rightarrow> 'r network_router" where
  "router_remove_peer pid rt =
     rt\<lparr>nr_peers := removeAll pid (nr_peers rt),
        nr_pending := filter (\<lambda>p. nk_to p \<noteq> pid \<and> nk_from p \<noteq> pid) (nr_pending rt)\<rparr>"

subsection \<open>Drawing and counting\<close>

definition with_f32 :: "'r random_source \<Rightarrow> (rat \<Rightarrow> 'r network_router \<Rightarrow> 'b option) \<Rightarrow> 'r network_router \<Rightarrow> 'b option" where
  "with_f32 src k rt = (case rn_f32 src (nr_rng rt) of (x, r) \<Rightarrow> k x (rt\<lparr>nr_rng := r\<rparr>))"

definition with_u32 :: "'r random_source \<Rightarrow> (u32 \<Rightarrow> 'r network_router \<Rightarrow> 'b option) \<Rightarrow> 'r network_router \<Rightarrow> 'b option" where
  "with_u32 src k rt = (case rn_u32 src (nr_rng rt) of (x, r) \<Rightarrow> k x (rt\<lparr>nr_rng := r\<rparr>))"

definition with_range ::
    "'r random_source \<Rightarrow> u32 \<Rightarrow> u32 \<Rightarrow> (u32 \<Rightarrow> 'r network_router \<Rightarrow> 'b option) \<Rightarrow> 'r network_router \<Rightarrow> 'b option" where
  "with_range src a b k rt =
     (if a < b then (case rn_range_u32 src a b (nr_rng rt) of (x, r) \<Rightarrow> k x (rt\<lparr>nr_rng := r\<rparr>)) else None)"

definition count_dropped :: "'r network_router \<Rightarrow> 'r network_router" where
  "count_dropped rt = rt\<lparr>nr_stats := (nr_stats rt)\<lparr>ns_packets_dropped := ns_packets_dropped (nr_stats rt) + 1\<rparr>\<rparr>"

definition count_reordered :: "'r network_router \<Rightarrow> 'r network_router" where
  "count_reordered rt = rt\<lparr>nr_stats := (nr_stats rt)\<lparr>ns_packets_reordered := ns_packets_reordered (nr_stats rt) + 1\<rparr>\<rparr>"

definition delayed :: "sim_instant \<Rightarrow> u32 \<Rightarrow> network_packet \<Rightarrow> network_packet" where
  "delayed now ms p = p\<lparr>nk_deliver_at := now + millis ms\<rparr>"

definition later :: "u32 \<Rightarrow> network_packet \<Rightarrow> network_packet" where
  "later ms p = p\<lparr>nk_deliver_at := nk_deliver_at p + millis ms\<rparr>"

definition maybe_reorder ::
    "'r random_source \<Rightarrow> rat \<Rightarrow> network_packet \<Rightarrow> 'r network_router \<Rightarrow> ('r network_router \<times> network_packet option) option" where
  "maybe_reorder src chance p =
     with_f32 src (\<lambda>x. if x < chance
       then with_range src 10 100 (\<lambda>extra rt. Some (count_reordered rt, Some (later extra p)))
       else (\<lambda>rt. Some (rt, Some p)))"

definition maybe_corrupt ::
    "'r random_source \<Rightarrow> rat \<Rightarrow> network_packet \<Rightarrow> (network_packet \<Rightarrow> 'r network_router \<Rightarrow> 'b option)
     \<Rightarrow> 'r network_router \<Rightarrow> 'b option" where
  "maybe_corrupt src chance p k =
     with_f32 src (\<lambda>x. if x < chance \<and> nk_data p \<noteq> []
       then with_range src 0 (word_of_nat (length (nk_data p))) (\<lambda>i.
            with_u32 src (\<lambda>v. k (p\<lparr>nk_data := (nk_data p)[unat i := ucast (v mod 256)]\<rparr>)))
       else k p)"

text \<open>The copy keeps the time the packet came with.\<close>

definition push_duplicate :: "network_packet \<Rightarrow> 'r network_router \<Rightarrow> 'r network_router" where
  "push_duplicate p rt =
     rt\<lparr>nr_pending := nr_pending rt @ [p\<lparr>nk_sequence := nr_next_sequence rt\<rparr>],
        nr_next_sequence := nr_next_sequence rt + 1,
        nr_stats := (nr_stats rt)\<lparr>ns_packets_duplicated := ns_packets_duplicated (nr_stats rt) + 1\<rparr>\<rparr>"

definition maybe_duplicate ::
    "'r random_source \<Rightarrow> rat \<Rightarrow> network_packet \<Rightarrow> ('r network_router \<Rightarrow> 'b option) \<Rightarrow> 'r network_router \<Rightarrow> 'b option" where
  "maybe_duplicate src chance p k =
     with_f32 src (\<lambda>x rt. k (if x < chance then push_duplicate p rt else rt))"

text \<open>The packet after the conditions of the profile, or none when it is dropped.\<close>

fun network_conditions ::
    "'r random_source \<Rightarrow> sim_instant \<Rightarrow> network_profile \<Rightarrow> network_packet \<Rightarrow> 'r network_router
     \<Rightarrow> ('r network_router \<times> network_packet option) option" where
  "network_conditions src now NpPerfect p = (\<lambda>rt. Some (rt, Some (p\<lparr>nk_deliver_at := now\<rparr>)))"
| "network_conditions src now (NpSlowWifi latency jitter) p =
     with_range src 0 (jitter + 1) (\<lambda>j rt. Some (rt, Some (delayed now (latency + j) p)))"
| "network_conditions src now (NpUnreliable3G loss reordering latency jitter) p =
     with_f32 src (\<lambda>x. if x < loss then (\<lambda>rt. Some (count_dropped rt, None))
       else with_range src 0 (jitter + 1) (\<lambda>j. maybe_reorder src reordering (delayed now (latency + j) p)))"
| "network_conditions src now (NpSatellite latency jitter outages) p =
     (let send = with_range src 0 (jitter + 1) (\<lambda>j rt. Some (rt, Some (delayed now (latency + j) p)))
      in if outages
         then with_f32 src (\<lambda>x. if x < 1 / 100 then (\<lambda>rt. Some (count_dropped rt, None)) else send)
         else send)"
| "network_conditions src now (NpMeshNetwork hop_latency max_hops split_chance) p =
     (let p = p\<lparr>nk_hop_count := nk_hop_count p + 1\<rparr>
      in if max_hops < nk_hop_count p then (\<lambda>rt. Some (count_dropped rt, None))
         else with_f32 src (\<lambda>x rt. if x < split_chance then Some (count_dropped rt, None)
           else Some (rt, Some (delayed now (hop_latency * ucast (nk_hop_count p)) p))))"
| "network_conditions src now (NpCustom lowest highest loss reordering duplication corruption) p =
     with_f32 src (\<lambda>x. if x < loss then (\<lambda>rt. Some (count_dropped rt, None))
       else maybe_corrupt src corruption p (\<lambda>p.
            maybe_duplicate src duplication p
              (with_range src lowest (highest + 1) (\<lambda>l. maybe_reorder src reordering (delayed now l p)))))"

subsection \<open>The steps of the loop\<close>

definition enqueue_packet :: "network_packet \<Rightarrow> 'r network_router \<Rightarrow> 'r network_router" where
  "enqueue_packet p rt =
     rt\<lparr>nr_pending := nr_pending rt @ [p],
        nr_stats := (nr_stats rt)\<lparr>ns_packets_routed := ns_packets_routed (nr_stats rt) + 1,
          ns_peak_queue_size := max (ns_peak_queue_size (nr_stats rt)) (Suc (length (nr_pending rt)))\<rparr>\<rparr>"

definition process_outgoing_packet ::
    "'r random_source \<Rightarrow> sim_instant \<Rightarrow> network_packet \<Rightarrow> 'r network_router \<Rightarrow> 'r network_router option" where
  "process_outgoing_packet src now p rt =
     (if nk_to p \<notin> set (nr_peers rt) then Some (count_dropped rt)
      else case network_conditions src now (ro_profile (nr_config rt)) p rt of
             None \<Rightarrow> None
           | Some (rt, None) \<Rightarrow> Some rt
           | Some (rt, Some p) \<Rightarrow> Some (enqueue_packet p rt))"

definition receive_outgoing ::
    "'r random_source \<Rightarrow> sim_instant \<Rightarrow> network_packet \<Rightarrow> 'r network_router \<Rightarrow> 'r network_router option" where
  "receive_outgoing src now p rt =
     process_outgoing_packet src now (p\<lparr>nk_sequence := nr_next_sequence rt\<rparr>)
       (rt\<lparr>nr_next_sequence := nr_next_sequence rt + 1\<rparr>)"

definition count_latency :: "sim_instant \<Rightarrow> network_packet \<Rightarrow> 'r network_router \<Rightarrow> 'r network_router" where
  "count_latency now p rt =
     rt\<lparr>nr_stats := (nr_stats rt)\<lparr>ns_total_latency_ms :=
         ns_total_latency_ms (nr_stats rt) + word_of_nat ((now - nk_sent_at p) div 1000000)\<rparr>\<rparr>"

fun deliver_each ::
    "(peer_id \<Rightarrow> bool) \<Rightarrow> sim_instant \<Rightarrow> network_packet list \<Rightarrow> 'r network_router \<Rightarrow> 'r network_router \<times> network_packet list" where
  "deliver_each gone now [] rt = (rt, [])"
| "deliver_each gone now (p # ps) rt =
     (if nk_deliver_at p \<le> now \<and> nk_to p \<in> set (nr_peers rt) then
        (if gone (nk_to p)
         then deliver_each gone now ps (rt\<lparr>nr_peers := removeAll (nk_to p) (nr_peers rt)\<rparr>)
         else (case deliver_each gone now ps (count_latency now p rt) of (rt', out) \<Rightarrow> (rt', p # out)))
      else deliver_each gone now ps rt)"

definition deliver_ready_packets ::
    "(peer_id \<Rightarrow> bool) \<Rightarrow> sim_instant \<Rightarrow> 'r network_router \<Rightarrow> 'r network_router \<times> network_packet list" where
  "deliver_ready_packets gone now rt =
     (case deliver_each gone now (nr_pending rt) rt of (rt', out) \<Rightarrow>
        (rt'\<lparr>nr_pending := filter (\<lambda>p. now < nk_deliver_at p) (nr_pending rt)\<rparr>, out))"

definition average_latency :: "'r network_router \<Rightarrow> u64" where
  "average_latency rt =
     (if 0 < ns_packets_routed (nr_stats rt)
      then ns_total_latency_ms (nr_stats rt) div ns_packets_routed (nr_stats rt) else 0)"

definition set_profile :: "network_profile \<Rightarrow> 'r network_router \<Rightarrow> 'r network_router" where
  "set_profile profile rt = rt\<lparr>nr_config := (nr_config rt)\<lparr>ro_profile := profile\<rparr>\<rparr>"

definition partition_peers :: "peer_id \<Rightarrow> peer_id \<Rightarrow> 'r network_router \<Rightarrow> 'r network_router" where
  "partition_peers a b rt =
     rt\<lparr>nr_pending := filter (\<lambda>p. \<not> ((nk_from p = a \<and> nk_to p = b) \<or> (nk_from p = b \<and> nk_to p = a))) (nr_pending rt)\<rparr>"

definition heal_partition :: "peer_id \<Rightarrow> peer_id \<Rightarrow> 'r network_router \<Rightarrow> 'r network_router" where
  "heal_partition a b rt = rt"

datatype router_input = RoPacket sim_instant network_packet | RoTick sim_instant | RoStatistics

fun router_run ::
    "'r random_source \<Rightarrow> (peer_id \<Rightarrow> bool) \<Rightarrow> router_input list \<Rightarrow> 'r network_router
     \<Rightarrow> ('r network_router \<times> network_packet list) option" where
  "router_run src gone [] rt = Some (rt, [])"
| "router_run src gone (RoPacket now p # is) rt =
     (case receive_outgoing src now p rt of None \<Rightarrow> None | Some rt \<Rightarrow> router_run src gone is rt)"
| "router_run src gone (RoTick now # is) rt =
     (case deliver_ready_packets gone now rt of (rt, out) \<Rightarrow>
        map_option (\<lambda>(rt, out'). (rt, out @ out')) (router_run src gone is rt))"
| "router_run src gone (RoStatistics # is) rt = router_run src gone is rt"

section \<open>The virtual clock\<close>

text \<open>A waiter is the time it waits for and the end of its channel, here a number.\<close>

record virtual_clock =
  vc_current_time :: nat
  vc_waiters :: "(nat \<times> nat) list"

definition virtual_clock_new :: virtual_clock where
  "virtual_clock_new = \<lparr>vc_current_time = 0, vc_waiters = []\<rparr>"

definition swap_remove :: "nat \<Rightarrow> 'a list \<Rightarrow> 'a list" where
  "swap_remove i xs = butlast (xs[i := last xs])"

lemma length_swap_remove [simp]: "length (swap_remove i xs) = length xs - 1"
  by (simp add: swap_remove_def)

function wake_from :: "nat \<Rightarrow> nat \<Rightarrow> (nat \<times> nat) list \<Rightarrow> (nat \<times> nat) list \<times> (nat \<times> nat) list" where
  "wake_from current i waiters =
     (if i < length waiters then
        (if fst (waiters ! i) \<le> current
         then (case wake_from current i (swap_remove i waiters) of (rest, woken) \<Rightarrow> (rest, waiters ! i # woken))
         else wake_from current (Suc i) waiters)
      else (waiters, []))"
  by auto

termination
  by (relation "measure (\<lambda>(current, i, waiters). length waiters - i + length waiters)") auto

declare wake_from.simps [simp del]

definition set_time :: "nat \<Rightarrow> virtual_clock \<Rightarrow> virtual_clock \<times> (nat \<times> nat) list" where
  "set_time time c =
     (case wake_from time 0 (vc_waiters c) of (rest, woken) \<Rightarrow>
        (c\<lparr>vc_current_time := time, vc_waiters := rest\<rparr>, woken))"

definition advance :: "nat \<Rightarrow> virtual_clock \<Rightarrow> virtual_clock \<times> (nat \<times> nat) list" where
  "advance d c = set_time (vc_current_time c + d) c"

definition clock_sleep :: "nat \<Rightarrow> nat \<Rightarrow> virtual_clock \<Rightarrow> virtual_clock" where
  "clock_sleep d waiter c = c\<lparr>vc_waiters := vc_waiters c @ [(vc_current_time c + d, waiter)]\<rparr>"

record virtual_interval =
  vi_period :: nat
  vi_next_tick :: nat

definition interval_new :: "nat \<Rightarrow> virtual_clock \<Rightarrow> virtual_interval" where
  "interval_new period c = \<lparr>vi_period = period, vi_next_tick = vc_current_time c + period\<rparr>"

text \<open>A tick returns at once when its time has passed, and waits otherwise.\<close>

definition interval_tick :: "nat \<Rightarrow> virtual_interval \<Rightarrow> virtual_clock \<Rightarrow> virtual_interval \<times> virtual_clock \<times> bool" where
  "interval_tick waiter v c =
     (let wake = vi_next_tick v; v = v\<lparr>vi_next_tick := vi_next_tick v + vi_period v\<rparr>
      in if wake \<le> vc_current_time c then (v, c, True)
         else (v, c\<lparr>vc_waiters := vc_waiters c @ [(wake, waiter)]\<rparr>, False))"

section \<open>The virtual clock wakes exactly the waiters whose time has come\<close>

lemma mset_swap_remove:
  assumes "i < length xs"
  shows "add_mset (xs ! i) (mset (swap_remove i xs)) = mset xs"
proof -
  obtain ys y where xs: "xs = ys @ [y]" using assms by (cases xs rule: rev_cases) auto
  show ?thesis
  proof (cases "i = length ys")
    case False
    with assms xs have i: "i < length ys" by simp
    then have "swap_remove i xs = ys[i := y]" by (simp add: xs swap_remove_def list_update_append)
    then show ?thesis using i by (simp add: xs mset_update nth_append)
  qed (simp add: xs swap_remove_def)
qed

lemma take_swap_remove: "i < length xs \<Longrightarrow> take i (swap_remove i xs) = take i xs"
  by (simp add: swap_remove_def take_butlast)

lemma wake_from_spec:
  assumes "wake_from current i waiters = (rest, woken)" and "\<forall>w\<in>set (take i waiters). current < fst w"
  shows "mset waiters = mset rest + mset woken \<and> (\<forall>w\<in>set rest. current < fst w) \<and> (\<forall>w\<in>set woken. fst w \<le> current)"
  using assms
proof (induction current i waiters arbitrary: rest woken rule: wake_from.induct)
  case (1 current i waiters)
  show ?case
  proof (cases "i < length waiters")
    case inside: True
    show ?thesis
    proof (cases "fst (waiters ! i) \<le> current")
      case True
      obtain rest' woken' where r: "wake_from current i (swap_remove i waiters) = (rest', woken')" by fastforce
      with 1(1) [OF inside True r] 1(4) inside
      have "mset (swap_remove i waiters) = mset rest' + mset woken'" "\<forall>w\<in>set rest'. current < fst w"
        "\<forall>w\<in>set woken'. fst w \<le> current" by (simp_all add: take_swap_remove)
      moreover have "rest = rest'" "woken = waiters ! i # woken'" using 1(3) inside True r by (auto simp: wake_from.simps [of current i waiters])
      ultimately show ?thesis using mset_swap_remove [OF inside] True by auto
    next
      case False
      with 1(2) [OF inside False] 1(3,4) inside show ?thesis
        by (simp add: wake_from.simps [of current i waiters] take_Suc_conv_app_nth)
    qed
  qed (use 1(3,4) in \<open>auto simp: wake_from.simps [of current i waiters]\<close>)
qed

text \<open>Whatever the order of the waiters, setting the time of the virtual clock wakes exactly those whose time
  has come and keeps exactly the others.\<close>

theorem virtual_clock_wakes:
  assumes "set_time t c = (c', woken)"
  shows "mset woken = filter_mset (\<lambda>w. fst w \<le> t) (mset (vc_waiters c)) \<and>
     mset (vc_waiters c') = filter_mset (\<lambda>w. t < fst w) (mset (vc_waiters c)) \<and> vc_current_time c' = t"
proof -
  obtain rest where rest: "wake_from t 0 (vc_waiters c) = (rest, woken)" "c' = c\<lparr>vc_current_time := t, vc_waiters := rest\<rparr>"
    using assms by (auto simp: set_time_def split: prod.splits)
  note spec = wake_from_spec [OF rest(1)]
  have late: "filter_mset (\<lambda>w. fst w \<le> t) (mset rest) = {#}" "filter_mset (\<lambda>w. t < fst w) (mset rest) = mset rest"
    using spec by (auto simp: filter_empty_conv not_le not_less filter_id_conv simp flip: mset_filter intro!: arg_cong [of _ _ mset])
  have due: "filter_mset (\<lambda>w. fst w \<le> t) (mset woken) = mset woken" "filter_mset (\<lambda>w. t < fst w) (mset woken) = {#}"
    using spec by (auto simp: filter_empty_conv not_le not_less filter_id_conv simp flip: mset_filter intro!: arg_cong [of _ _ mset])
  show ?thesis using spec late due rest(2) by simp
qed

theorem virtual_clock_wakes_witness:
  "mset (snd (set_time 5 \<lparr>vc_current_time = 0, vc_waiters = [(3, 1), (9, 2), (5, 3)]\<rparr>)) = {#(3, 1), (5, 3)#}"
proof -
  obtain c' woken where "set_time 5 \<lparr>vc_current_time = 0, vc_waiters = [(3, 1), (9, 2), (5, 3)]\<rparr> = (c', woken)" by fastforce
  then show ?thesis using virtual_clock_wakes [of 5 _ c' woken] by fastforce
qed

section \<open>The router loses and invents nothing unrecorded\<close>

lemma with_f32_Some: "with_f32 src k rt = Some y \<Longrightarrow> \<exists>x r. k x (rt\<lparr>nr_rng := r\<rparr>) = Some y"
  by (auto simp: with_f32_def split: prod.splits)

lemma with_u32_Some: "with_u32 src k rt = Some y \<Longrightarrow> \<exists>x r. k x (rt\<lparr>nr_rng := r\<rparr>) = Some y"
  by (auto simp: with_u32_def split: prod.splits)

lemma with_range_Some:
  "with_range src a b k rt = Some y \<Longrightarrow>
     \<exists>x r. k x (rt\<lparr>nr_rng := r\<rparr>) = Some y \<and> (random_source_ok src \<longrightarrow> a \<le> x \<and> x < b)"
  by (auto simp: with_range_def random_source_ok_def split: prod.splits if_splits) (metis fst_conv)+

lemma with_f32_None: "with_f32 src k rt = None \<Longrightarrow> \<exists>x r. k x (rt\<lparr>nr_rng := r\<rparr>) = None"
  by (auto simp: with_f32_def split: prod.splits)

text \<open>What the conditions may change: the source of randomness, the counters, and copies of the packet.\<close>

definition conditioned ::
    "network_packet \<Rightarrow> 'r network_router \<Rightarrow> 'r network_router \<times> network_packet option \<Rightarrow> bool" where
  "conditioned p rt res \<longleftrightarrow>
     nr_peers (fst res) = nr_peers rt \<and> nr_config (fst res) = nr_config rt \<and>
     ns_packets_routed (nr_stats (fst res)) = ns_packets_routed (nr_stats rt) \<and>
     (\<exists>copies. nr_pending (fst res) = nr_pending rt @ copies \<and>
        ns_packets_duplicated (nr_stats (fst res)) = ns_packets_duplicated (nr_stats rt) + word_of_nat (length copies) \<and>
        (\<forall>c\<in>set copies. nk_to c = nk_to p)) \<and>
     (\<forall>q. snd res = Some q \<longrightarrow> nk_to q = nk_to p)"

lemma conditioned_simps [simp]:
  "conditioned p (rt\<lparr>nr_rng := r\<rparr>) res = conditioned p rt res"
  "conditioned p rt (count_dropped rt, None)"
  "conditioned p rt (rt, Some q) = (nk_to q = nk_to p)"
  "conditioned p rt (count_reordered rt, Some q) = (nk_to q = nk_to p)"
  by (auto simp: conditioned_def count_dropped_def count_reordered_def)

lemma conditioned_rng: "conditioned p rt (rt\<lparr>nr_rng := r\<rparr>, po) = conditioned p rt (rt, po)"
  "conditioned p rt (count_dropped (rt\<lparr>nr_rng := r\<rparr>), po) = conditioned p rt (count_dropped rt, po)"
  "conditioned p rt (count_reordered (rt\<lparr>nr_rng := r\<rparr>), po) = conditioned p rt (count_reordered rt, po)"
  by (auto simp: conditioned_def count_dropped_def count_reordered_def)

lemma nk_to_delayed [simp]: "nk_to (delayed now ms p) = nk_to p" "nk_to (later ms p) = nk_to p"
  by (simp_all add: delayed_def later_def)

lemma maybe_reorder_conditioned:
  "maybe_reorder src chance q rt = Some res \<Longrightarrow> nk_to q = nk_to p \<Longrightarrow> conditioned p rt res"
  by (auto simp: maybe_reorder_def conditioned_rng dest!: with_f32_Some with_range_Some split: if_splits)

lemma duplicate_conditioned:
  "conditioned p (push_duplicate q rt) res \<Longrightarrow> nk_to q = nk_to p \<Longrightarrow> conditioned p rt res"
  by (fastforce simp: conditioned_def push_duplicate_def algebra_simps)

lemma custom_conditioned:
  assumes "with_range src a b (\<lambda>l. maybe_reorder src reordering (delayed now l q)) rt = Some res" "nk_to q = nk_to p"
  shows "conditioned p rt res"
  using assms by (auto dest!: with_range_Some maybe_reorder_conditioned [where p = p])

lemma maybe_duplicate_conditioned:
  assumes "maybe_duplicate src chance q k rt = Some res" "nk_to q = nk_to p"
    and "\<And>rt. k rt = Some res \<Longrightarrow> conditioned p rt res"
  shows "conditioned p rt res"
proof -
  from with_f32_Some [OF assms(1) [unfolded maybe_duplicate_def]] obtain x r
    where k: "k (if x < chance then push_duplicate q (rt\<lparr>nr_rng := r\<rparr>) else rt\<lparr>nr_rng := r\<rparr>) = Some res" by blast
  have "conditioned p (rt\<lparr>nr_rng := r\<rparr>) res"
  proof (cases "x < chance")
    case True
    with assms(3) [OF k] have "conditioned p (push_duplicate q (rt\<lparr>nr_rng := r\<rparr>)) res" by (simp only: if_True)
    then show ?thesis by (rule duplicate_conditioned [OF _ assms(2)])
  qed (use assms(3) [OF k] in simp)
  then show ?thesis by simp
qed

lemma maybe_corrupt_conditioned:
  assumes "maybe_corrupt src chance q k rt = Some res" "nk_to q = nk_to p"
    and "\<And>q rt. nk_to q = nk_to p \<Longrightarrow> k q rt = Some res \<Longrightarrow> conditioned p rt res"
  shows "conditioned p rt res"
proof -
  from assms(1) obtain q' r where "k q' (rt\<lparr>nr_rng := r\<rparr>) = Some res" "nk_to q' = nk_to q"
    by (force simp: maybe_corrupt_def dest!: with_f32_Some with_range_Some with_u32_Some split: if_splits)
  with assms(2,3) show ?thesis by (metis conditioned_simps(1))
qed

lemma network_conditions_conditioned:
  assumes "network_conditions src now profile p rt = Some res"
  shows "conditioned p rt res"
proof (cases profile)
  case (NpCustom lowest highest loss reordering duplication corruption)
  let ?send = "\<lambda>p. maybe_duplicate src duplication p
      (with_range src lowest (highest + 1) (\<lambda>l. maybe_reorder src reordering (delayed now l p)))"
  from with_f32_Some [OF assms [unfolded NpCustom network_conditions.simps]] obtain x r where
    res: "(if x < loss then (\<lambda>rt. Some (count_dropped rt, None)) else maybe_corrupt src corruption p ?send)
      (rt\<lparr>nr_rng := r\<rparr>) = Some res" by blast
  show ?thesis
  proof (cases "x < loss")
    case True
    with res show ?thesis by (auto simp: conditioned_rng)
  next
    case False
    with res have "maybe_corrupt src corruption p ?send (rt\<lparr>nr_rng := r\<rparr>) = Some res" by simp
    then have "conditioned p (rt\<lparr>nr_rng := r\<rparr>) res"
      by (rule maybe_corrupt_conditioned) (auto intro: maybe_duplicate_conditioned custom_conditioned)
    then show ?thesis by simp
  qed
qed (use assms in \<open>auto simp: Let_def conditioned_rng
    dest!: with_f32_Some with_range_Some maybe_reorder_conditioned [where p = p] split: if_splits\<close>)

lemma receive_outgoing_counts:
  assumes "receive_outgoing src now p rt = Some rt'"
  shows "nr_peers rt' = nr_peers rt \<and> nr_config rt' = nr_config rt \<and>
    (\<exists>new. nr_pending rt' = nr_pending rt @ new \<and> (\<forall>q\<in>set new. nk_to q \<in> set (nr_peers rt)) \<and>
       ns_packets_routed (nr_stats rt') + ns_packets_duplicated (nr_stats rt') =
         ns_packets_routed (nr_stats rt) + ns_packets_duplicated (nr_stats rt) + word_of_nat (length new))"
proof -
  let ?rt = "rt\<lparr>nr_next_sequence := nr_next_sequence rt + 1\<rparr>" and ?p = "p\<lparr>nk_sequence := nr_next_sequence rt\<rparr>"
  show ?thesis
  proof (cases "nk_to p \<in> set (nr_peers rt)")
    case False
    with assms show ?thesis by (auto simp: receive_outgoing_def process_outgoing_packet_def count_dropped_def)
  next
    case True
    with assms obtain rt1 po where c: "network_conditions src now (ro_profile (nr_config rt)) ?p ?rt = Some (rt1, po)"
      and rt': "rt' = (case po of None \<Rightarrow> rt1 | Some q \<Rightarrow> enqueue_packet q rt1)"
      by (auto simp: receive_outgoing_def process_outgoing_packet_def split: option.splits prod.splits)
    from network_conditions_conditioned [OF c] obtain copies where
      "nr_peers rt1 = nr_peers rt" "nr_config rt1 = nr_config rt"
      "ns_packets_routed (nr_stats rt1) = ns_packets_routed (nr_stats rt)" "nr_pending rt1 = nr_pending rt @ copies"
      "ns_packets_duplicated (nr_stats rt1) = ns_packets_duplicated (nr_stats rt) + word_of_nat (length copies)"
      "\<forall>q\<in>set copies. nk_to q = nk_to p" "\<forall>q. po = Some q \<longrightarrow> nk_to q = nk_to p"
      by (auto simp: conditioned_def)
    with True show ?thesis
      by (cases po) (auto simp: rt' enqueue_packet_def algebra_simps)
  qed
qed

lemma deliver_each_open:
  assumes "\<forall>p\<in>set ps. nk_to p \<in> set (nr_peers rt)"
  shows "snd (deliver_each (\<lambda>_. False) now ps rt) = filter (\<lambda>p. nk_deliver_at p \<le> now) ps \<and>
    nr_peers (fst (deliver_each (\<lambda>_. False) now ps rt)) = nr_peers rt \<and>
    nr_config (fst (deliver_each (\<lambda>_. False) now ps rt)) = nr_config rt \<and>
    ns_packets_routed (nr_stats (fst (deliver_each (\<lambda>_. False) now ps rt))) = ns_packets_routed (nr_stats rt) \<and>
    ns_packets_duplicated (nr_stats (fst (deliver_each (\<lambda>_. False) now ps rt))) = ns_packets_duplicated (nr_stats rt)"
  using assms
proof (induction ps arbitrary: rt)
  case (Cons p ps)
  then have "\<forall>q\<in>set ps. nk_to q \<in> set (nr_peers (count_latency now p rt))" by (simp add: count_latency_def)
  from Cons.IH [OF this] Cons.IH [of rt] Cons.prems show ?case
    by (auto simp: count_latency_def split: prod.splits)
qed simp

definition router_ok :: "'r network_router \<Rightarrow> nat \<Rightarrow> bool" where
  "router_ok rt delivered \<longleftrightarrow> (\<forall>p\<in>set (nr_pending rt). nk_to p \<in> set (nr_peers rt)) \<and>
     ns_packets_routed (nr_stats rt) + ns_packets_duplicated (nr_stats rt) =
       word_of_nat (delivered + length (nr_pending rt))"

lemma router_run_ok:
  "router_run src (\<lambda>_. False) inputs rt = Some (rt', out) \<Longrightarrow> router_ok rt n \<Longrightarrow>
     router_ok rt' (n + length out) \<and> nr_peers rt' = nr_peers rt \<and> (\<forall>p\<in>set out. nk_to p \<in> set (nr_peers rt))"
proof (induction inputs arbitrary: rt n out)
  case (Cons i inputs)
  show ?case
  proof (cases i)
    case (RoPacket now p)
    with Cons.prems obtain rt1 where r: "receive_outgoing src now p rt = Some rt1"
      "router_run src (\<lambda>_. False) inputs rt1 = Some (rt', out)" by (auto split: option.splits)
    have "router_ok rt1 n" "nr_peers rt1 = nr_peers rt"
      using receive_outgoing_counts [OF r(1)] Cons.prems(2) by (auto simp: router_ok_def algebra_simps)
    with Cons.IH [OF r(2)] show ?thesis by auto
  next
    case (RoTick now)
    obtain rt1 o1 where d: "deliver_ready_packets (\<lambda>_. False) now rt = (rt1, o1)" by fastforce
    with Cons.prems RoTick obtain o2 where r: "router_run src (\<lambda>_. False) inputs rt1 = Some (rt', o2)" "out = o1 @ o2"
      by auto
    have pend: "\<forall>p\<in>set (nr_pending rt). nk_to p \<in> set (nr_peers rt)" using Cons.prems(2) by (simp add: router_ok_def)
    note ready = deliver_each_open [OF pend, of now]
    have o1: "o1 = filter (\<lambda>p. nk_deliver_at p \<le> now) (nr_pending rt)" "nr_peers rt1 = nr_peers rt"
      "nr_pending rt1 = filter (\<lambda>p. now < nk_deliver_at p) (nr_pending rt)"
      "ns_packets_routed (nr_stats rt1) + ns_packets_duplicated (nr_stats rt1) =
        ns_packets_routed (nr_stats rt) + ns_packets_duplicated (nr_stats rt)"
      using ready d by (auto simp: deliver_ready_packets_def split: prod.splits)
    have "length (nr_pending rt) = length o1 + length (nr_pending rt1)"
      unfolding o1 using sum_length_filter_compl [of "\<lambda>p. nk_deliver_at p \<le> now" "nr_pending rt"] by (simp add: not_le)
    then have ok: "router_ok rt1 (n + length o1)"
      using Cons.prems(2) o1 pend by (auto simp: router_ok_def algebra_simps)
    show ?thesis using Cons.IH [OF r(1) ok] o1 pend r(2) by (auto simp: add.assoc)
  next
    case RoStatistics
    with Cons show ?thesis by simp
  qed
qed simp

definition router_with_peers :: "router_config \<Rightarrow> 'r \<Rightarrow> peer_id list \<Rightarrow> 'r network_router" where
  "router_with_peers cfg rng pids = fold (\<lambda>pid rt. fst (add_peer pid rt)) pids (network_router_new cfg rng)"

lemma router_with_peers_simps [simp]:
  "nr_pending (router_with_peers cfg rng pids) = []" "nr_stats (router_with_peers cfg rng pids) = network_stats_default"
  "nr_config (router_with_peers cfg rng pids) = cfg" "set (nr_peers (router_with_peers cfg rng pids)) = set pids"
  unfolding router_with_peers_def
  by (induction pids rule: rev_induct) (auto simp: network_router_new_def add_peer_def)

text \<open>C26: Under every network profile, with every randomness, the simulated network accounts for its packets:
  while the peers keep their channels, what was routed or duplicated is what was delivered or is
  still pending, and packets are delivered to known peers only.\<close>

theorem router_conserves:
  assumes "router_run src (\<lambda>_. False) inputs (router_with_peers cfg rng pids) = Some (rt, out)"
  shows "ns_packets_routed (nr_stats rt) + ns_packets_duplicated (nr_stats rt) =
       word_of_nat (length out + length (nr_pending rt)) \<and>
     nk_to ` set out \<subseteq> set pids \<and> nk_to ` set (nr_pending rt) \<subseteq> set pids"
proof -
  have "router_ok (router_with_peers cfg rng pids) 0"
    by (simp add: router_ok_def network_stats_default_def)
  from router_run_ok [OF assms this] show ?thesis by (auto simp: router_ok_def)
qed

text \<open>A source that always draws the least value.\<close>

definition least_source :: "unit random_source" where
  "least_source = \<lparr>rn_f32 = (\<lambda>r. (0, r)), rn_u32 = (\<lambda>r. (0, r)), rn_range_u32 = (\<lambda>a b r. (a, r))\<rparr>"

definition example_network_packet :: network_packet where
  "example_network_packet =
     \<lparr>nk_from = [1], nk_to = [2], nk_data = [65], nk_sent_at = 0, nk_deliver_at = 0, nk_sequence = 0, nk_hop_count = 0\<rparr>"

section \<open>Without conditions the network is reliable and ordered\<close>

definition packet_content :: "network_packet \<Rightarrow> peer_id \<times> peer_id \<times> bytes" where
  "packet_content p = (nk_from p, nk_to p, nk_data p)"

lemma perfect_run:
  assumes "ro_profile (nr_config rt) = NpPerfect" and "\<forall>(t, p)\<in>set sends. t \<le> now \<and> nk_to p \<in> set (nr_peers rt)"
    and "\<forall>p\<in>set (nr_pending rt). nk_deliver_at p \<le> now \<and> nk_to p \<in> set (nr_peers rt)"
  shows "\<exists>rt' out. router_run src (\<lambda>_. False) (map (\<lambda>(t, p). RoPacket t p) sends @ [RoTick now]) rt = Some (rt', out) \<and>
     map packet_content out = map packet_content (nr_pending rt @ map snd sends) \<and> nr_pending rt' = []"
  using assms
proof (induction sends arbitrary: rt)
  case Nil
  then have "snd (deliver_each (\<lambda>_. False) now (nr_pending rt) rt) = nr_pending rt"
    using deliver_each_open [of "nr_pending rt" rt now] by simp
  then show ?case
    using Nil by (auto simp: deliver_ready_packets_def filter_empty_conv split: prod.splits)
next
  case (Cons x sends)
  obtain t p where x: "x = (t, p)" by fastforce
  obtain rt1 where r: "receive_outgoing src t p rt = Some rt1"
    and rt1: "nr_config rt1 = nr_config rt" "nr_peers rt1 = nr_peers rt"
      "nr_pending rt1 = nr_pending rt @ [p\<lparr>nk_sequence := nr_next_sequence rt, nk_deliver_at := t\<rparr>]"
    using Cons.prems by (auto simp: x receive_outgoing_def process_outgoing_packet_def enqueue_packet_def)
  have content: "packet_content (p\<lparr>nk_sequence := n, nk_deliver_at := t\<rparr>) = packet_content p" for n
    by (simp add: packet_content_def)
  have "\<exists>rt' out. router_run src (\<lambda>_. False) (map (\<lambda>(t, p). RoPacket t p) sends @ [RoTick now]) rt1 = Some (rt', out) \<and>
     map packet_content out = map packet_content (nr_pending rt1 @ map snd sends) \<and> nr_pending rt' = []"
    using Cons.prems by (intro Cons.IH) (auto simp: rt1 x)
  then show ?case using r by (auto simp: x rt1 content)
qed

theorem router_conserves_witness:
  "\<exists>rt out. router_run least_source (\<lambda>_. False) [RoPacket 3 example_network_packet, RoTick 7]
       (router_with_peers router_config_default () [[2]]) = Some (rt, out) \<and>
     ns_packets_routed (nr_stats rt) + ns_packets_duplicated (nr_stats rt) = word_of_nat (length out + length (nr_pending rt))"
proof -
  have "\<exists>rt out. router_run least_source (\<lambda>_. False) [RoPacket 3 example_network_packet, RoTick 7]
       (router_with_peers router_config_default () [[2]]) = Some (rt, out)"
    using perfect_run [of "router_with_peers router_config_default () [[2]]" "[(3, example_network_packet)]" 7 least_source]
    by (fastforce simp: router_config_default_def example_network_packet_def simp del: router_run.simps)
  then obtain rt out where "router_run least_source (\<lambda>_. False) [RoPacket 3 example_network_packet, RoTick 7]
       (router_with_peers router_config_default () [[2]]) = Some (rt, out)" by blast
  with router_conserves [OF this] show ?thesis by blast
qed

text \<open>A perfect network is a reliable channel: packets sent to known peers before a tick have all been
  delivered after it, once each, unchanged and in the order they were sent.\<close>

theorem perfect_network_reliable:
  assumes "\<forall>(t, p)\<in>set sends. t \<le> now \<and> nk_to p \<in> set pids"
  shows "\<exists>rt out. router_run src (\<lambda>_. False) (map (\<lambda>(t, p). RoPacket t p) sends @ [RoTick now])
       (router_with_peers router_config_default rng pids) = Some (rt, out) \<and>
     map packet_content out = map (packet_content \<circ> snd) sends \<and> nr_pending rt = []"
  using perfect_run [of "router_with_peers router_config_default rng pids" sends now src] assms
  by (simp add: router_config_default_def)

theorem perfect_network_reliable_witness:
  "\<exists>rt out. router_run least_source (\<lambda>_. False) [RoPacket 3 example_network_packet, RoTick 7]
       (router_with_peers router_config_default () [[2]]) = Some (rt, out) \<and>
     map packet_content out = [([1], [2], [65])]"
  using perfect_network_reliable [of "[(3, example_network_packet)]" 7 "[[2]]" least_source "()"]
  by (fastforce simp: example_network_packet_def packet_content_def simp del: router_run.simps)

text \<open>Latency of the wireless profiles: a packet becomes due after the latency and at most the jitter later.\<close>

theorem wifi_latency:
  assumes "random_source_ok src" and "ro_profile (nr_config rt) = NpSlowWifi latency jitter"
    and "unat latency + unat jitter < 2 ^ 32" and "jitter \<noteq> - 1" and "nk_to p \<in> set (nr_peers rt)"
  shows "\<exists>rt' q. receive_outgoing src now p rt = Some rt' \<and> nr_pending rt' = nr_pending rt @ [q] \<and>
     packet_content q = packet_content p \<and> now + millis latency \<le> nk_deliver_at q \<and>
     nk_deliver_at q \<le> now + millis latency + millis jitter"
proof -
  have "1 + jitter \<noteq> 0" using assms(4) by (simp add: add.commute eq_neg_iff_add_eq_0)
  then have top: "unat (jitter + 1) = Suc (unat jitter)" by (simp add: unatSuc add.commute)
  then have "0 < jitter + 1" by (simp add: word_less_nat_alt)
  moreover obtain j r where j: "rn_range_u32 src 0 (jitter + 1) (nr_rng rt) = (j, r)" by fastforce
  ultimately have "j < jitter + 1" using assms(1) unfolding random_source_ok_def by (metis fst_conv)
  then have "unat j \<le> unat jitter" using top by (simp add: word_less_nat_alt)
  moreover from this have "unat (latency + j) = unat latency + unat j" using assms(3) by (simp add: unat_plus_if')
  ultimately show ?thesis
    using assms(2,5) j \<open>0 < jitter + 1\<close>
    by (auto simp: receive_outgoing_def process_outgoing_packet_def with_range_def enqueue_packet_def delayed_def
        packet_content_def millis_def)
qed

section \<open>What the router does not do\<close>

text \<open>The handle of a peer cannot send: its channel has lost the other end.\<close>

theorem handle_cannot_send:
  "handle_send_packet now to data (snd (add_peer pid rt)) = Inl ''Network router disconnected''"
  by (simp add: handle_send_packet_def add_peer_def)

text \<open>A partition does not last: on a perfect network a packet between the two peers that is sent after it
  is pending as before.\<close>

theorem partition_does_not_last:
  assumes "ro_profile (nr_config rt) = NpPerfect" and "nk_to p = b" and "nk_from p = a" and "b \<in> set (nr_peers rt)"
  shows "\<exists>rt' q. receive_outgoing src now p (partition_peers a b rt) = Some rt' \<and>
     q \<in> set (nr_pending rt') \<and> packet_content q = (a, b, nk_data p)"
  using assms
  by (auto simp: receive_outgoing_def process_outgoing_packet_def partition_peers_def enqueue_packet_def packet_content_def)

end
