(* ===== verification/Scenario_Executor.thy ===== *)
theory Scenario_Executor
  imports Complex_Main Simulator
begin

text \<open>
  The execution of test scenarios in the simulator: actions, checks and reports
  (\<^verbatim>\<open>src/simulator/shared/src/types.rs\<close>, \<^verbatim>\<open>src/simulator/shared/src/scenario_executor.rs\<close>) and the executor that simulates
  them (\<^verbatim>\<open>src/simulator/virtual/src/simulation_executor.rs\<close>).

  Names and texts are HOL strings; the text by which an action or a check is reported is the action or the check
  itself. Seconds, which the code holds as \<^verbatim>\<open>f64\<close>, are rational numbers; a duration is a number of nanoseconds. The
  order in which the map of peers is iterated is the argument \<open>arrange\<close>, random numbers are what \<open>f32\<close> draws
  from the state of the generator. A panic is the value \<open>None\<close>. Wall-clock timings of the report and log output
  are left out.
\<close>

section \<open>Actions and checks\<close>

record network_condition =
  co_latency_ms :: u64
  co_packet_loss :: rat
  co_bandwidth_bps :: "u64 option"
  co_jitter_ms :: "u64 option"

definition network_condition_default :: network_condition where
  "network_condition_default =
     \<lparr>co_latency_ms = 0, co_packet_loss = 0, co_bandwidth_bps = None, co_jitter_ms = None\<rparr>"

datatype validation_check =
    VcMessageDelivered string string string u64
  | VcPeerConnected string string u64
  | VcPeerDisconnected string u64
  | VcStateReached string string u64
  | VcMessageCount string nat u64
  | VcPeerCount string nat u64
  | VcCustom string string u64

definition default_timeout :: u64 where
  "default_timeout = 30"

fun check_timeout :: "validation_check \<Rightarrow> u64" where
  "check_timeout (VcMessageDelivered sender to content t) = t"
| "check_timeout (VcPeerConnected p q t) = t"
| "check_timeout (VcPeerDisconnected p t) = t"
| "check_timeout (VcStateReached p s t) = t"
| "check_timeout (VcMessageCount p n t) = t"
| "check_timeout (VcPeerCount p n t) = t"
| "check_timeout (VcCustom name params t) = t"

datatype test_action =
    ActSendMessage string string string "rat option"
  | ActSendBroadcast string string "rat option"
  | ActConnectPeer string string "rat option"
  | ActConnectPeers string string "rat option"
  | ActDisconnectPeer string "rat option"
  | ActDisconnectPeers string string "rat option"
  | ActStartDiscovery string "rat option"
  | ActStopDiscovery string "rat option"
  | ActLogCheckpoint string "rat option"
  | ActPauseScenario rat
  | ActValidateState validation_check
  | ActWaitForEvent string rat
  | ActWaitFor rat
  | ActSetNetworkCondition network_condition
  | ActPartitionNetwork "string list" "rat option"
  | ActHealNetwork "rat option"

text \<open>\<^verbatim>\<open>Duration::from_secs_f64\<close> panics on negative seconds.\<close>

definition from_secs_f64 :: "rat \<Rightarrow> nat option" where
  "from_secs_f64 s = (if s < 0 then None else Some (nat \<lfloor>s * 1000000000 + 1 / 2\<rfloor>))"

fun scheduled_seconds :: "test_action \<Rightarrow> rat option" where
  "scheduled_seconds (ActSendMessage sender to content s) = s"
| "scheduled_seconds (ActSendBroadcast sender content s) = s"
| "scheduled_seconds (ActConnectPeer p q s) = s"
| "scheduled_seconds (ActConnectPeers p q s) = s"
| "scheduled_seconds (ActDisconnectPeer p s) = s"
| "scheduled_seconds (ActDisconnectPeers p q s) = s"
| "scheduled_seconds (ActStartDiscovery p s) = s"
| "scheduled_seconds (ActStopDiscovery p s) = s"
| "scheduled_seconds (ActLogCheckpoint msg s) = s"
| "scheduled_seconds (ActPartitionNetwork ps s) = s"
| "scheduled_seconds (ActHealNetwork s) = s"
| "scheduled_seconds a = None"

definition action_at_time :: "test_action \<Rightarrow> nat option option" where
  "action_at_time a =
     (case scheduled_seconds a of None \<Rightarrow> Some None | Some s \<Rightarrow> map_option Some (from_secs_f64 s))"

record scenario_peer =
  hp_name :: string
  hp_platform :: "string option"
  hp_start_delay_seconds :: rat

record scenario_step =
  hs_name :: string
  hs_at_time_seconds :: rat
  hs_action :: test_action

record scenario =
  hc_name :: string
  hc_description :: string
  hc_version :: string
  hc_peers :: "scenario_peer list"
  hc_sequence :: "scenario_step list"
  hc_final_checks :: "validation_check list"

section \<open>Reports\<close>

datatype test_result =
    TestPassed
  | TestFailed "string list"
  | TestSkipped string
  | TestAborted string

datatype action_result_type = ArSuccess | ArFailed | ArSkipped | ArTimeout

datatype executor_state =
    ExUninitialized | ExReady | ExExecuting | ExCompleted | ExError string

datatype executor_error =
    XeConfiguration string
  | XeSetup string
  | XeActionFailed test_action string
  | XeValidation string
  | XeTimeout u64 string
  | XeResource string
  | XeCleanup string
  | XeNotReady executor_state
  | XeInternal string
  | XeExternalDependency string

record action_result =
  ar_action_name :: string
  ar_action_type :: test_action
  ar_result :: action_result_type
  ar_error_message :: "executor_error option"

definition action_success :: "string \<Rightarrow> test_action \<Rightarrow> action_result" where
  "action_success name a =
     \<lparr>ar_action_name = name, ar_action_type = a, ar_result = ArSuccess, ar_error_message = None\<rparr>"

definition action_failed :: "string \<Rightarrow> test_action \<Rightarrow> executor_error \<Rightarrow> action_result" where
  "action_failed name a e =
     \<lparr>ar_action_name = name, ar_action_type = a, ar_result = ArFailed, ar_error_message = Some e\<rparr>"

record validation_result =
  vr_validation_type :: string
  vr_passed :: bool
  vr_details :: string
  vr_expected :: "string option"
  vr_actual :: "string option"

definition validation_passed :: "string \<Rightarrow> string \<Rightarrow> validation_result" where
  "validation_passed t d =
     \<lparr>vr_validation_type = t, vr_passed = True, vr_details = d, vr_expected = None, vr_actual = None\<rparr>"

definition validation_failed :: "string \<Rightarrow> string \<Rightarrow> string \<Rightarrow> string \<Rightarrow> validation_result" where
  "validation_failed t d expected actual =
     \<lparr>vr_validation_type = t, vr_passed = False, vr_details = d, vr_expected = Some expected,
      vr_actual = Some actual\<rparr>"

record scenario_metrics =
  xm_messages_sent :: nat
  xm_messages_received :: nat
  xm_avg_latency_ms :: "rat option"
  xm_packet_loss_rate :: "rat option"
  xm_packets_sent :: nat
  xm_packets_received :: nat
  xm_connections_established :: nat

definition scenario_metrics_default :: scenario_metrics where
  "scenario_metrics_default =
     \<lparr>xm_messages_sent = 0, xm_messages_received = 0, xm_avg_latency_ms = None, xm_packet_loss_rate = None,
      xm_packets_sent = 0, xm_packets_received = 0, xm_connections_established = 0\<rparr>"

text \<open>The data of the simulation: the peers, the steps of time and the snapshots.\<close>

record executor_data =
  xd_peer_count :: nat
  xd_time_steps :: nat
  xd_state_snapshots :: "string list"

record test_report =
  rp_scenario_name :: string
  rp_scenario_version :: string
  rp_result :: test_result
  rp_action_results :: "action_result list"
  rp_validation_results :: "validation_result list"
  rp_metrics :: scenario_metrics
  rp_error_details :: "string option"
  rp_executor_data :: executor_data

definition test_report_new :: "string \<Rightarrow> string \<Rightarrow> test_report" where
  "test_report_new name version =
     \<lparr>rp_scenario_name = name, rp_scenario_version = version, rp_result = TestPassed, rp_action_results = [],
      rp_validation_results = [], rp_metrics = scenario_metrics_default, rp_error_details = None,
      rp_executor_data = \<lparr>xd_peer_count = 0, xd_time_steps = 0, xd_state_snapshots = []\<rparr>\<rparr>"

definition add_action_result :: "action_result \<Rightarrow> test_report \<Rightarrow> test_report" where
  "add_action_result r rep = rep\<lparr>rp_action_results := rp_action_results rep @ [r]\<rparr>"

definition add_validation_result :: "validation_result \<Rightarrow> test_report \<Rightarrow> test_report" where
  "add_validation_result r rep =
     (let rep = (if \<not> vr_passed r
                 then rep\<lparr>rp_result := (case rp_result rep of
                        TestPassed \<Rightarrow> TestFailed [vr_details r]
                      | TestFailed reasons \<Rightarrow> TestFailed (reasons @ [vr_details r])
                      | res \<Rightarrow> res)\<rparr>
                 else rep)
      in rep\<lparr>rp_validation_results := rp_validation_results rep @ [r]\<rparr>)"

definition report_is_success :: "test_report \<Rightarrow> bool" where
  "report_is_success rep = (rp_result rep = TestPassed)"

section \<open>The executor\<close>

record sim_message =
  sx_from :: string
  sx_to :: string
  sx_content :: string
  sx_timestamp :: nat
  sx_delivered :: bool

datatype sim_session = SsDisconnected | SsHandshaking | SsEstablished | SsFailed

record sim_peer =
  sp_name :: string
  sp_messages_sent :: "sim_message list"
  sp_messages_received :: "sim_message list"
  sp_connected_peers :: "string list"
  sp_is_running :: bool
  sp_start_time :: nat
  sp_session_state :: sim_session

record sim_network =
  sn_partitions :: "(string \<times> string) list"
  sn_packet_loss_rate :: rat
  sn_base_latency_ms :: u32
  sn_is_healthy :: bool

definition sim_network_default :: sim_network where
  "sim_network_default =
     \<lparr>sn_partitions = [], sn_packet_loss_rate = 0, sn_base_latency_ms = 10, sn_is_healthy = True\<rparr>"

record 'r sim_executor =
  se_state :: executor_state
  se_clock :: virtual_clock
  se_peers :: "(string \<times> sim_peer) list"
  se_network :: sim_network
  se_metrics :: scenario_metrics
  se_time_steps :: nat
  se_snapshots :: "string list"
  se_rng :: 'r

definition sim_executor_new :: "'r \<Rightarrow> 'r sim_executor" where
  "sim_executor_new r =
     \<lparr>se_state = ExUninitialized, se_clock = virtual_clock_new, se_peers = [], se_network = sim_network_default,
      se_metrics = scenario_metrics_default, se_time_steps = 0, se_snapshots = [], se_rng = r\<rparr>"

definition advance_time :: "nat \<Rightarrow> 'r sim_executor \<Rightarrow> 'r sim_executor" where
  "advance_time d x = x\<lparr>se_clock := fst (advance d (se_clock x)), se_time_steps := se_time_steps x + 1\<rparr>"

definition sim_current_time :: "'r sim_executor \<Rightarrow> nat" where
  "sim_current_time x = 0"

definition can_communicate :: "string \<Rightarrow> string \<Rightarrow> 'r sim_executor \<Rightarrow> bool" where
  "can_communicate p q x =
     (if \<not> sn_is_healthy (se_network x) then False
      else \<not> list_ex (\<lambda>(p1, p2). p1 = p \<and> p2 = q \<or> p1 = q \<and> p2 = p) (sn_partitions (se_network x)))"

definition in_millis :: "nat \<Rightarrow> nat" where
  "in_millis ms = ms * 1000000"

definition simulate_network_effects :: "('r \<Rightarrow> rat \<times> 'r) \<Rightarrow> 'r sim_executor \<Rightarrow> 'r sim_executor \<times> bool" where
  "simulate_network_effects f32 x =
     (let rate = sn_packet_loss_rate (se_network x);
          (x, drop_it) = (if 0 < rate then (case f32 (se_rng x) of (y, r) \<Rightarrow> (x\<lparr>se_rng := r\<rparr>, y < rate)) else (x, False))
      in if drop_it then (x, False)
         else (advance_time (in_millis (unat (sn_base_latency_ms (se_network x)))) x, True))"

definition quoted :: "string \<Rightarrow> string" where
  "quoted s = CHR 0x27 # s @ [CHR 0x27]"

fun decimal_text :: "nat \<Rightarrow> string" where
  "decimal_text n = (if n < 10 then [char_of (48 + n)] else decimal_text (n div 10) @ [char_of (48 + n mod 10)])"

declare decimal_text.simps [simp del]

definition received_total :: "'r sim_executor \<Rightarrow> nat" where
  "received_total x = sum_list (map (length \<circ> sp_messages_received \<circ> snd) (se_peers x))"

text \<open>The current time, which a snapshot prints, is always zero.\<close>

definition take_state_snapshot :: "string \<Rightarrow> 'r sim_executor \<Rightarrow> 'r sim_executor" where
  "take_state_snapshot description x =
     x\<lparr>se_snapshots := se_snapshots x @
        [description @ '': '' @ decimal_text (length (se_peers x)) @ '' peers, '' @ decimal_text (received_total x)
         @ '' messages total, virtual time: 0ns'']\<rparr>"

definition set_peer :: "string \<Rightarrow> sim_peer \<Rightarrow> 'r sim_executor \<Rightarrow> 'r sim_executor" where
  "set_peer name p x = x\<lparr>se_peers := map_put name p (se_peers x)\<rparr>"

subsection \<open>Sending\<close>

definition count_sent :: "'r sim_executor \<Rightarrow> 'r sim_executor" where
  "count_sent x = x\<lparr>se_metrics := (se_metrics x)\<lparr>xm_messages_sent := xm_messages_sent (se_metrics x) + 1\<rparr>\<rparr>"

definition count_received :: "'r sim_executor \<Rightarrow> 'r sim_executor" where
  "count_received x =
     x\<lparr>se_metrics := (se_metrics x)\<lparr>xm_messages_received := xm_messages_received (se_metrics x) + 1\<rparr>\<rparr>"

definition record_sent :: "sim_message \<Rightarrow> 'r sim_executor \<Rightarrow> 'r sim_executor" where
  "record_sent m x =
     (case map_of (se_peers x) (sx_from m) of
        Some p \<Rightarrow> count_sent (set_peer (sx_from m) (p\<lparr>sp_messages_sent := sp_messages_sent p @ [m]\<rparr>) x)
      | None \<Rightarrow> x)"

definition record_received :: "sim_message \<Rightarrow> 'r sim_executor \<Rightarrow> 'r sim_executor" where
  "record_received m x =
     (case map_of (se_peers x) (sx_to m) of
        Some p \<Rightarrow>
          if sp_is_running p
          then count_received (set_peer (sx_to m)
                 (p\<lparr>sp_messages_received := sp_messages_received p @ [m\<lparr>sx_delivered := True\<rparr>]\<rparr>) x)
          else x
      | None \<Rightarrow> x)"

text \<open>The sender of an action: an error when it does not exist or does not run.\<close>

definition check_sender :: "test_action \<Rightarrow> string \<Rightarrow> 'r sim_executor \<Rightarrow> executor_error option" where
  "check_sender a sender x =
     (case map_of (se_peers x) sender of
        None \<Rightarrow> Some (XeActionFailed a (''Sender peer '' @ quoted sender @ '' not found''))
      | Some p \<Rightarrow>
          if \<not> sp_is_running p then Some (XeActionFailed a (''Sender peer '' @ quoted sender @ '' is not running'')) else None)"

definition execute_send ::
    "('r \<Rightarrow> rat \<times> 'r) \<Rightarrow> test_action \<Rightarrow> string \<Rightarrow> string \<Rightarrow> string \<Rightarrow> 'r sim_executor
     \<Rightarrow> 'r sim_executor \<times> (executor_error + unit)" where
  "execute_send f32 a sender to content x =
     (case check_sender a sender x of
        Some e \<Rightarrow> (x, Inl e)
      | None \<Rightarrow>
          if \<not> can_communicate sender to x then (x, Inr ())
          else
            (let m = \<lparr>sx_from = sender, sx_to = to, sx_content = content, sx_timestamp = sim_current_time x,
                      sx_delivered = False\<rparr>
             in case simulate_network_effects f32 (record_sent m x) of
                  (x, False) \<Rightarrow> (x, Inr ())
                | (x, True) \<Rightarrow> (record_received m x, Inr ())))"

fun send_to_each ::
    "('r \<Rightarrow> rat \<times> 'r) \<Rightarrow> string \<Rightarrow> string \<Rightarrow> string list \<Rightarrow> 'r sim_executor
     \<Rightarrow> 'r sim_executor \<times> (executor_error + unit)" where
  "send_to_each f32 sender content [] x = (x, Inr ())"
| "send_to_each f32 sender content (to # tos) x =
     (case execute_send f32 (ActSendMessage sender to content None) sender to content x of
        (x, Inl e) \<Rightarrow> (x, Inl e)
      | (x, Inr _) \<Rightarrow> send_to_each f32 sender content tos x)"

definition other_running :: "string \<Rightarrow> 'r sim_executor \<Rightarrow> string list" where
  "other_running name x = map fst (filter (\<lambda>(n, p). n \<noteq> name \<and> sp_is_running p) (se_peers x))"

definition execute_broadcast ::
    "(string list \<Rightarrow> string list) \<Rightarrow> ('r \<Rightarrow> rat \<times> 'r) \<Rightarrow> test_action \<Rightarrow> string \<Rightarrow> string \<Rightarrow> 'r sim_executor
     \<Rightarrow> 'r sim_executor \<times> (executor_error + unit)" where
  "execute_broadcast arrange f32 a sender content x =
     (case check_sender a sender x of
        Some e \<Rightarrow> (x, Inl e)
      | None \<Rightarrow> send_to_each f32 sender content (arrange (other_running sender x)) x)"

subsection \<open>Connections\<close>

definition link_peer :: "string \<Rightarrow> string \<Rightarrow> 'r sim_executor \<Rightarrow> 'r sim_executor" where
  "link_peer p q x =
     (case map_of (se_peers x) p of
        Some s \<Rightarrow>
          if q \<notin> set (sp_connected_peers s)
          then set_peer p (s\<lparr>sp_connected_peers := sp_connected_peers s @ [q], sp_session_state := SsEstablished\<rparr>) x
          else x
      | None \<Rightarrow> x)"

definition unlink_peer :: "string \<Rightarrow> string \<Rightarrow> 'r sim_executor \<Rightarrow> 'r sim_executor" where
  "unlink_peer p q x =
     (case map_of (se_peers x) p of
        Some s \<Rightarrow>
          (let s = s\<lparr>sp_connected_peers := filter (\<lambda>n. n \<noteq> q) (sp_connected_peers s)\<rparr>;
               s = (if sp_connected_peers s = [] then s\<lparr>sp_session_state := SsDisconnected\<rparr> else s)
           in set_peer p s x)
      | None \<Rightarrow> x)"

subsection \<open>Checks\<close>

definition no_such_peer :: "string \<Rightarrow> string \<Rightarrow> validation_result" where
  "no_such_peer t p = validation_failed t (''Peer '' @ quoted p @ '' not found'') ''Peer exists'' ''Peer not found''"

fun validate_check :: "'r sim_executor \<Rightarrow> validation_check \<Rightarrow> validation_result" where
  "validate_check x (VcMessageDelivered sender to content _) =
     (case map_of (se_peers x) to of
        None \<Rightarrow> no_such_peer ''MessageDelivered'' to
      | Some p \<Rightarrow>
          if list_ex (\<lambda>m. sx_from m = sender \<and> sx_content m = content \<and> sx_delivered m) (sp_messages_received p)
          then validation_passed ''MessageDelivered''
                 (''Message '' @ quoted content @ '' from '' @ sender @ '' delivered to '' @ to)
          else validation_failed ''MessageDelivered''
                 (''Message '' @ quoted content @ '' from '' @ sender @ '' not found in '' @ to @ CHR 0x27 # ''s received messages'')
                 ''Message delivered'' ''Message not found'')"
| "validate_check x (VcPeerConnected p q _) =
     (case map_of (se_peers x) p of
        None \<Rightarrow> no_such_peer ''PeerConnected'' p
      | Some s \<Rightarrow>
          if q \<in> set (sp_connected_peers s) then validation_passed ''PeerConnected'' (p @ '' is connected to '' @ q)
          else validation_failed ''PeerConnected'' (p @ '' is not connected to '' @ q) ''Connected'' ''Not connected'')"
| "validate_check x (VcPeerCount p expected _) =
     (case map_of (se_peers x) p of
        None \<Rightarrow> no_such_peer ''PeerCount'' p
      | Some s \<Rightarrow>
          (let n = length (sp_connected_peers s)
           in if n = expected
              then validation_passed ''PeerCount'' (p @ '' has '' @ decimal_text n @ '' connected peers'')
              else validation_failed ''PeerCount''
                     (p @ '' has '' @ decimal_text n @ '' connected peers, expected '' @ decimal_text expected)
                     (decimal_text expected @ '' peers'') (decimal_text n @ '' peers'')))"
| "validate_check x (VcMessageCount p expected _) =
     (case map_of (se_peers x) p of
        None \<Rightarrow> no_such_peer ''MessageCount'' p
      | Some s \<Rightarrow>
          (let n = length (sp_messages_received s)
           in if n = expected
              then validation_passed ''MessageCount'' (p @ '' has '' @ decimal_text n @ '' messages'')
              else validation_failed ''MessageCount''
                     (p @ '' has '' @ decimal_text n @ '' messages, expected '' @ decimal_text expected)
                     (decimal_text expected @ '' messages'') (decimal_text n @ '' messages'')))"
| "validate_check x (VcPeerDisconnected p _) =
     validation_passed ''PeerDisconnected'' (''Peer '' @ p @ '' disconnection validation (simulated)'')"
| "validate_check x (VcStateReached p st _) =
     validation_passed ''StateReached'' (''Peer '' @ p @ '' state '' @ st @ '' validation (simulated)'')"
| "validate_check x (VcCustom name _ _) =
     validation_passed ''Custom'' (''Custom validation '' @ quoted name @ '' (simulated)'')"

definition validate_checks :: "'r sim_executor \<Rightarrow> validation_check list \<Rightarrow> validation_result list" where
  "validate_checks x checks = map (validate_check x) checks"

subsection \<open>Actions\<close>

fun execute_action ::
    "(string list \<Rightarrow> string list) \<Rightarrow> ('r \<Rightarrow> rat \<times> 'r) \<Rightarrow> test_action \<Rightarrow> 'r sim_executor
     \<Rightarrow> ('r sim_executor \<times> (executor_error + unit)) option" where
  "execute_action arrange f32 (ActSendMessage sender to content s) x =
     Some (execute_send f32 (ActSendMessage sender to content s) sender to content x)"
| "execute_action arrange f32 (ActSendBroadcast sender content s) x =
     Some (execute_broadcast arrange f32 (ActSendBroadcast sender content s) sender content x)"
| "execute_action arrange f32 (ActConnectPeers p q s) x =
     Some (advance_time (in_millis 100) (link_peer q p (link_peer p q x)), Inr ())"
| "execute_action arrange f32 (ActDisconnectPeers p q s) x =
     Some (unlink_peer q p (unlink_peer p q x), Inr ())"
| "execute_action arrange f32 (ActStartDiscovery p s) x = Some (advance_time (in_millis 50) x, Inr ())"
| "execute_action arrange f32 (ActStopDiscovery p s) x = Some (x, Inr ())"
| "execute_action arrange f32 (ActSetNetworkCondition c) x = Some (x, Inr ())"
| "execute_action arrange f32 (ActPartitionNetwork ps s) x = Some (x, Inr ())"
| "execute_action arrange f32 (ActHealNetwork s) x = Some (x, Inr ())"
| "execute_action arrange f32 (ActWaitForEvent ev s) x = Some (advance_time (in_millis 100) x, Inr ())"
| "execute_action arrange f32 (ActValidateState c) x =
     (let results = validate_checks x [c] in Some (x, Inr ()))"
| "execute_action arrange f32 (ActLogCheckpoint msg s) x = Some (take_state_snapshot msg x, Inr ())"
| "execute_action arrange f32 (ActPauseScenario s) x =
     (case from_secs_f64 s of None \<Rightarrow> None | Some d \<Rightarrow> Some (advance_time d x, Inr ()))"
| "execute_action arrange f32 (ActConnectPeer p q s) x = Some (advance_time (in_millis 100) x, Inr ())"
| "execute_action arrange f32 (ActDisconnectPeer p s) x = Some (advance_time (in_millis 50) x, Inr ())"
| "execute_action arrange f32 (ActWaitFor s) x =
     (case from_secs_f64 s of None \<Rightarrow> None | Some d \<Rightarrow> Some (advance_time d x, Inr ()))"

subsection \<open>Scenarios\<close>

fun init_peers :: "scenario_peer list \<Rightarrow> 'r sim_executor \<Rightarrow> 'r sim_executor option" where
  "init_peers [] x = Some x"
| "init_peers (c # cs) x =
     (case from_secs_f64 (hp_start_delay_seconds c) of
        None \<Rightarrow> None
      | Some d \<Rightarrow> init_peers cs (set_peer (hp_name c)
          \<lparr>sp_name = hp_name c, sp_messages_sent = [], sp_messages_received = [], sp_connected_peers = [],
           sp_is_running = True, sp_start_time = d, sp_session_state = SsDisconnected\<rparr> x))"

text \<open>It returns no error: the branch of \<open>execute_scenario\<close> for one is not taken.\<close>

definition executor_setup :: "scenario \<Rightarrow> 'r sim_executor \<Rightarrow> 'r sim_executor option" where
  "executor_setup sc x =
     map_option (\<lambda>x. x\<lparr>se_network := (se_network x)\<lparr>sn_packet_loss_rate := 0, sn_base_latency_ms := 10\<rparr>\<rparr>)
       (init_peers (hc_peers sc) (x\<lparr>se_state := ExReady, se_peers := [], se_network := sim_network_default,
          se_metrics := scenario_metrics_default, se_time_steps := 0, se_snapshots := []\<rparr>))"

definition execute_step ::
    "(string list \<Rightarrow> string list) \<Rightarrow> ('r \<Rightarrow> rat \<times> 'r) \<Rightarrow> scenario_step \<Rightarrow> 'r sim_executor \<times> test_report
     \<Rightarrow> ('r sim_executor \<times> test_report) option" where
  "execute_step arrange f32 st = (\<lambda>(x, rep).
     case from_secs_f64 (hs_at_time_seconds st) of
       None \<Rightarrow> None
     | Some target \<Rightarrow>
         (let x = (if sim_current_time x < target then advance_time (target - sim_current_time x) x else x)
          in case execute_action arrange f32 (hs_action st) x of
               None \<Rightarrow> None
             | Some (x, Inr _) \<Rightarrow> Some (x, add_action_result (action_success (hs_name st) (hs_action st)) rep)
             | Some (x, Inl e) \<Rightarrow> Some (x, add_action_result (action_failed (hs_name st) (hs_action st) e) rep)))"

fun execute_steps ::
    "(string list \<Rightarrow> string list) \<Rightarrow> ('r \<Rightarrow> rat \<times> 'r) \<Rightarrow> scenario_step list \<Rightarrow> 'r sim_executor \<times> test_report
     \<Rightarrow> ('r sim_executor \<times> test_report) option" where
  "execute_steps arrange f32 [] s = Some s"
| "execute_steps arrange f32 (st # sts) s = Option.bind (execute_step arrange f32 st s) (execute_steps arrange f32 sts)"

definition update_performance_metrics :: "'r sim_executor \<Rightarrow> 'r sim_executor" where
  "update_performance_metrics x =
     (let m = se_metrics x;
          m = (if 0 < xm_messages_sent m
               then m\<lparr>xm_packet_loss_rate := Some (1 - of_nat (xm_messages_received m) / of_nat (xm_messages_sent m))\<rparr>
               else m)
      in x\<lparr>se_metrics := m\<lparr>xm_avg_latency_ms := Some (of_nat (unat (sn_base_latency_ms (se_network x)))),
           xm_packets_sent := xm_messages_sent m, xm_packets_received := xm_messages_received m,
           xm_connections_established := sum_list (map (length \<circ> sp_connected_peers \<circ> snd) (se_peers x))\<rparr>\<rparr>)"

definition execute_scenario ::
    "(string list \<Rightarrow> string list) \<Rightarrow> ('r \<Rightarrow> rat \<times> 'r) \<Rightarrow> scenario \<Rightarrow> 'r sim_executor
     \<Rightarrow> ('r sim_executor \<times> test_report) option" where
  "execute_scenario arrange f32 sc x =
     (case executor_setup sc x of
        None \<Rightarrow> None
      | Some x \<Rightarrow>
          (case execute_steps arrange f32 (hc_sequence sc)
                  (take_state_snapshot ''After setup'' x, test_report_new (hc_name sc) (hc_version sc)) of
             None \<Rightarrow> None
           | Some (x, rep) \<Rightarrow>
               (let x = take_state_snapshot ''After action sequence'' x;
                    rep = fold (\<lambda>c rep. fold add_validation_result (validate_checks x [c]) rep) (hc_final_checks sc) rep;
                    x = update_performance_metrics x;
                    rep = rep\<lparr>rp_metrics := se_metrics x, rp_executor_data :=
                      \<lparr>xd_peer_count = length (se_peers x), xd_time_steps = se_time_steps x,
                       xd_state_snapshots = se_snapshots x\<rparr>\<rparr>
                in Some (x\<lparr>se_state := ExCompleted\<rparr>, rep))))"

definition executor_is_ready :: "'r sim_executor \<Rightarrow> bool" where
  "executor_is_ready x = (se_state x = ExReady)"

section \<open>The invariant\<close>

definition sent_total :: "'r sim_executor \<Rightarrow> nat" where
  "sent_total x = sum_list (map (length \<circ> sp_messages_sent \<circ> snd) (se_peers x))"

definition sim_peer_ok :: "sim_peer \<Rightarrow> bool" where
  "sim_peer_ok p \<longleftrightarrow> sp_is_running p \<and>
     sp_session_state p = (if sp_connected_peers p = [] then SsDisconnected else SsEstablished) \<and>
     list_all sx_delivered (sp_messages_received p)"

definition peers_all :: "(sim_peer \<Rightarrow> bool) \<Rightarrow> (string \<times> sim_peer) list \<Rightarrow> bool" where
  "peers_all P m \<longleftrightarrow> distinct (keys_of m) \<and> (\<forall>n p. map_of m n = Some p \<longrightarrow> P p)"

lemma peers_all_put: "peers_all P m \<Longrightarrow> P q \<Longrightarrow> peers_all P (map_put n q m)"
  unfolding peers_all_def by (metis distinct_put map_of_put map_upd_Some_unfold)

lemma peers_all_get: "peers_all P m \<Longrightarrow> map_of m n = Some p \<Longrightarrow> P p"
  by (simp add: peers_all_def)

definition sim_inv :: "'r sim_executor \<Rightarrow> bool" where
  "sim_inv x \<longleftrightarrow> se_network x = sim_network_default \<and> peers_all sim_peer_ok (se_peers x) \<and>
     xm_messages_sent (se_metrics x) = sent_total x \<and> xm_messages_received (se_metrics x) = received_total x \<and>
     received_total x \<le> sent_total x"

lemma sum_put:
  fixes f :: "'v \<Rightarrow> nat"
  assumes "map_of m k = Some p"
  shows "sum_list (map (f \<circ> snd) (map_put k q m)) + f p = sum_list (map (f \<circ> snd) m) + f q"
  using assms by (induction m) (auto split: if_splits)

lemma set_peer_simps [simp]:
  "se_network (set_peer n p x) = se_network x" "se_metrics (set_peer n p x) = se_metrics x"
  "se_peers (set_peer n p x) = map_put n p (se_peers x)" "se_clock (set_peer n p x) = se_clock x"
  "se_network (count_sent x) = se_network x" "se_peers (count_sent x) = se_peers x"
  "se_network (count_received x) = se_network x" "se_peers (count_received x) = se_peers x"
  "se_network (advance_time d x) = se_network x" "se_peers (advance_time d x) = se_peers x"
  "se_metrics (advance_time d x) = se_metrics x"
  by (simp_all add: set_peer_def count_sent_def count_received_def advance_time_def)

lemma sim_inv_cong:
  assumes "sim_inv x" and "se_network y = se_network x" and "se_peers y = se_peers x" and "se_metrics y = se_metrics x"
  shows "sim_inv y"
  using assms by (simp add: sim_inv_def sent_total_def received_total_def)

lemma sim_inv_set_peer:
  assumes "sim_inv x" and "map_of (se_peers x) n = Some p" and "sim_peer_ok q"
    and "sp_messages_sent q = sp_messages_sent p" and "sp_messages_received q = sp_messages_received p"
  shows "sim_inv (set_peer n q x)"
  using assms sum_put [OF assms(2), of "length \<circ> sp_messages_sent" q] sum_put [OF assms(2), of "length \<circ> sp_messages_received" q]
  by (auto simp: sim_inv_def sent_total_def received_total_def comp_assoc peers_all_put)

lemma sim_inv_record_sent:
  assumes "sim_inv x"
  shows "sim_inv (record_sent m x)"
    and "map_of (se_peers x) (sx_from m) \<noteq> None \<Longrightarrow> sent_total (record_sent m x) = Suc (sent_total x)"
    and "received_total (record_sent m x) = received_total x"
proof -
  have "sim_inv (record_sent m x) \<and>
    (map_of (se_peers x) (sx_from m) \<noteq> None \<longrightarrow> sent_total (record_sent m x) = Suc (sent_total x)) \<and>
    received_total (record_sent m x) = received_total x"
  proof (cases "map_of (se_peers x) (sx_from m)")
    case None
    with assms show ?thesis by (simp add: record_sent_def)
  next
    case (Some p)
    let ?q = "p\<lparr>sp_messages_sent := sp_messages_sent p @ [m]\<rparr>"
    from assms Some have "sim_peer_ok ?q" by (auto simp: sim_inv_def sim_peer_ok_def dest: peers_all_get)
    with assms Some sum_put [OF Some, of "length \<circ> sp_messages_sent" ?q] sum_put [OF Some, of "length \<circ> sp_messages_received" ?q]
    show ?thesis
      by (auto simp: record_sent_def sim_inv_def sent_total_def received_total_def comp_assoc peers_all_put count_sent_def)
  qed
  then show "sim_inv (record_sent m x)"
    and "map_of (se_peers x) (sx_from m) \<noteq> None \<Longrightarrow> sent_total (record_sent m x) = Suc (sent_total x)"
    and "received_total (record_sent m x) = received_total x" by auto
qed

lemma sim_inv_record_received:
  assumes "sim_inv x" and "received_total x < sent_total x"
  shows "sim_inv (record_received m x)"
proof (cases "map_of (se_peers x) (sx_to m)")
  case None
  with assms show ?thesis by (simp add: record_received_def)
next
  case (Some p)
  let ?q = "p\<lparr>sp_messages_received := sp_messages_received p @ [m\<lparr>sx_delivered := True\<rparr>]\<rparr>"
  from assms Some have "sim_peer_ok ?q" by (auto simp: sim_inv_def sim_peer_ok_def dest: peers_all_get)
  with assms Some sum_put [OF Some, of "length \<circ> sp_messages_sent" ?q] sum_put [OF Some, of "length \<circ> sp_messages_received" ?q]
  show ?thesis
    by (auto simp: record_received_def sim_inv_def sent_total_def received_total_def comp_assoc peers_all_put
        count_received_def)
qed

lemma network_effects_default:
  assumes "se_network x = sim_network_default"
  shows "simulate_network_effects f32 x = (advance_time (in_millis 10) x, True)"
  using assms by (simp add: simulate_network_effects_def sim_network_default_def)

lemma send_network: "se_network (record_sent m x) = se_network x"
  by (simp add: record_sent_def split: option.split)

lemma sim_inv_send:
  assumes "sim_inv x"
  shows "sim_inv (fst (execute_send f32 a sender to content x))"
proof (cases "check_sender a sender x")
  case None
  let ?m = "\<lparr>sx_from = sender, sx_to = to, sx_content = content, sx_timestamp = sim_current_time x, sx_delivered = False\<rparr>"
  let ?y = "record_sent ?m x"
  have net: "se_network ?y = sim_network_default" using assms by (simp add: send_network sim_inv_def)
  from None have "map_of (se_peers x) sender \<noteq> None" by (auto simp: check_sender_def split: option.splits)
  with sim_inv_record_sent [OF assms, of ?m] have "received_total ?y < sent_total ?y" "sim_inv ?y"
    using assms by (auto simp: sim_inv_def)
  then have "sim_inv (record_received ?m (advance_time (in_millis 10) ?y))"
    by (intro sim_inv_record_received) (auto intro: sim_inv_cong simp: sent_total_def received_total_def)
  with None assms net show ?thesis by (auto simp: execute_send_def network_effects_default Let_def)
qed (use assms in \<open>simp add: execute_send_def\<close>)

lemma sim_inv_send_to_each: "sim_inv x \<Longrightarrow> sim_inv (fst (send_to_each f32 sender content tos x))"
proof (induction tos arbitrary: x)
  case (Cons to tos)
  obtain y r where y: "execute_send f32 (ActSendMessage sender to content None) sender to content x = (y, r)"
    by (cases "execute_send f32 (ActSendMessage sender to content None) sender to content x")
  with sim_inv_send [OF Cons.prems, of f32 "ActSendMessage sender to content None" sender to content] have "sim_inv y" by simp
  with Cons.IH y show ?case by (simp split: sum.split)
qed simp

lemma sim_inv_mark:
  assumes "sim_inv x"
  shows "sim_inv (link_peer p q x)" and "sim_inv (unlink_peer p q x)"
proof -
  have ok: "sim_peer_ok s" if "map_of (se_peers x) p = Some s" for s
    using assms that by (auto simp: sim_inv_def dest: peers_all_get)
  show "sim_inv (link_peer p q x)"
    using assms ok by (auto simp: link_peer_def sim_peer_ok_def split: option.split intro!: sim_inv_set_peer)
  show "sim_inv (unlink_peer p q x)"
    using assms ok
    by (auto simp: unlink_peer_def Let_def sim_peer_ok_def split: option.split if_splits intro!: sim_inv_set_peer)
qed

lemma sim_inv_advance: "sim_inv x \<Longrightarrow> sim_inv (advance_time d x)"
  by (rule sim_inv_cong) simp_all

lemma sim_inv_action:
  assumes "sim_inv x" and "execute_action arrange f32 a x = Some (y, r)"
  shows "sim_inv y"
proof (cases a)
  case (ActSendMessage sender to content s)
  with assms(2) have "y = fst (execute_send f32 a sender to content x)" by simp
  with sim_inv_send [OF assms(1)] show ?thesis by simp
next
  case (ActSendBroadcast sender content s)
  with assms(2) have "y = fst (execute_broadcast arrange f32 a sender content x)" by simp
  with sim_inv_send_to_each [OF assms(1)] assms(1) show ?thesis by (simp add: execute_broadcast_def split: option.split)
next
  case (ActLogCheckpoint msg s)
  with assms show ?thesis by (auto simp: take_state_snapshot_def intro: sim_inv_cong)
qed (use assms in \<open>auto split: option.splits intro: sim_inv_advance sim_inv_mark\<close>)

definition fresh_peer :: "sim_peer \<Rightarrow> bool" where
  "fresh_peer p \<longleftrightarrow> sim_peer_ok p \<and> sp_messages_sent p = [] \<and> sp_messages_received p = []"

lemma init_peers_fresh:
  "init_peers cs x = Some y \<Longrightarrow> peers_all fresh_peer (se_peers x) \<Longrightarrow>
   peers_all fresh_peer (se_peers y) \<and> se_network y = se_network x \<and> se_metrics y = se_metrics x"
proof (induction cs arbitrary: x)
  case (Cons c cs)
  from Cons.prems(1) obtain d where
    "init_peers cs (set_peer (hp_name c)
      \<lparr>sp_name = hp_name c, sp_messages_sent = [], sp_messages_received = [], sp_connected_peers = [],
       sp_is_running = True, sp_start_time = d, sp_session_state = SsDisconnected\<rparr> x) = Some y"
    by (auto split: option.splits)
  from Cons.IH [OF this] Cons.prems(2) show ?case
    by (simp add: peers_all_put fresh_peer_def sim_peer_ok_def)
qed simp

lemma fresh_totals:
  assumes "peers_all fresh_peer (se_peers x)"
  shows "sent_total x = 0" and "received_total x = 0"
proof -
  have "fresh_peer (snd e)" if "e \<in> set (se_peers x)" for e
    using assms that by (cases e) (simp add: peers_all_def)
  then show "sent_total x = 0" "received_total x = 0"
    by (simp_all add: sent_total_def received_total_def fresh_peer_def)
qed

lemma sim_inv_setup:
  assumes "executor_setup sc x = Some y"
  shows "sim_inv y"
proof -
  let ?x = "x\<lparr>se_state := ExReady, se_peers := [], se_network := sim_network_default,
          se_metrics := scenario_metrics_default, se_time_steps := 0, se_snapshots := []\<rparr>"
  from assms obtain v where v: "init_peers (hc_peers sc) ?x = Some v"
    and y: "y = v\<lparr>se_network := (se_network v)\<lparr>sn_packet_loss_rate := 0, sn_base_latency_ms := 10\<rparr>\<rparr>"
    by (auto simp: executor_setup_def)
  have "peers_all fresh_peer (se_peers ?x)" by (simp add: peers_all_def)
  from init_peers_fresh [OF v this] have fresh: "peers_all fresh_peer (se_peers y)" and "se_network v = sim_network_default"
    and "se_metrics y = scenario_metrics_default"
    by (simp_all add: y)
  with fresh_totals [OF fresh] show ?thesis
    by (auto simp: sim_inv_def y sim_network_default_def scenario_metrics_default_def peers_all_def fresh_peer_def)
qed

section \<open>Interpretation\<close>

text \<open>The states an executor can reach after setting up a scenario, by any actions.\<close>

definition executor_start :: "'r sim_executor \<Rightarrow> bool" where
  "executor_start y \<longleftrightarrow> (\<exists>sc x. executor_setup sc x = Some y)"

definition executor_step ::
    "(string list \<Rightarrow> string list) \<Rightarrow> ('r \<Rightarrow> rat \<times> 'r) \<Rightarrow> 'r sim_executor \<Rightarrow> 'r sim_executor \<Rightarrow> bool" where
  "executor_step arrange f32 x y \<longleftrightarrow> (\<exists>a r. execute_action arrange f32 a x = Some (y, r))"

interpretation executor: invariant_system executor_start "executor_step arrange f32" sim_inv
  by unfold_locales (auto simp: executor_start_def executor_step_def intro: sim_inv_setup sim_inv_action)

section \<open>Properties\<close>

text \<open>Whatever partitions and network conditions a scenario has set up, a message between two of its peers is
  delivered at once: in every reachable state sending succeeds, appends exactly that message to those the recipient
  has received, and takes ten milliseconds.\<close>

theorem every_message_delivered:
  assumes "reachable executor_start (executor_step arrange f32) x" and "map_of (se_peers x) sender = Some p"
    and "map_of (se_peers x) to = Some q"
    and "execute_action arrange f32 (ActSendMessage sender to content s) x = Some (y, r)"
  shows "r = Inr () \<and> vc_current_time (se_clock y) = vc_current_time (se_clock x) + in_millis 10 \<and>
    (\<exists>q'. map_of (se_peers y) to = Some q' \<and> sp_messages_received q' = sp_messages_received q @
      [\<lparr>sx_from = sender, sx_to = to, sx_content = content, sx_timestamp = 0, sx_delivered = True\<rparr>])"
proof -
  from executor.invar_reachable [OF assms(1)] have inv: "sim_inv x" .
  let ?m = "\<lparr>sx_from = sender, sx_to = to, sx_content = content, sx_timestamp = 0, sx_delivered = False\<rparr>"
  have run: "sp_is_running p" "sp_is_running q" and net: "se_network x = sim_network_default"
    using inv assms(2,3) by (auto simp: sim_inv_def sim_peer_ok_def dest: peers_all_get)
  let ?u = "record_sent ?m x"
  have u: "map_of (se_peers ?u) to = Some (if sender = to then p\<lparr>sp_messages_sent := sp_messages_sent p @ [?m]\<rparr> else q)"
    and clock: "se_clock ?u = se_clock x"
    using assms(2,3) by (auto simp: record_sent_def count_sent_def)
  have unet: "se_network ?u = sim_network_default" using net by (simp add: send_network)
  have "execute_send f32 a sender to content x = (record_received ?m (advance_time (in_millis 10) ?u), Inr ())" for a
    using run net network_effects_default [OF unet, of f32] assms(2)
    by (simp add: execute_send_def check_sender_def can_communicate_def sim_network_default_def sim_current_time_def
        Let_def)
  with assms(4) have y: "y = record_received ?m (advance_time (in_millis 10) ?u)" and r: "r = Inr ()" by simp_all
  show ?thesis
    using u clock run assms(2,3)
    by (auto simp: y r record_received_def advance_time_def advance_def set_time_def count_received_def set_peer_def
        split: prod.splits)
qed

text \<open>Every reachable state is consistent: names are unique, a session is established exactly when the peer has a
  connection, the counters of messages are the lengths of the lists, and no more messages were received than
  sent.\<close>

theorem executor_invariant:
  assumes "reachable executor_start (executor_step arrange f32) x"
  shows "distinct (keys_of (se_peers x)) \<and>
    (\<forall>n p. map_of (se_peers x) n = Some p \<longrightarrow> (sp_session_state p = SsEstablished \<longleftrightarrow> sp_connected_peers p \<noteq> [])) \<and>
    xm_messages_sent (se_metrics x) = sent_total x \<and> xm_messages_received (se_metrics x) = received_total x \<and>
    received_total x \<le> sent_total x"
  using executor.invar_reachable [OF assms]
  by (auto simp: sim_inv_def peers_all_def sim_peer_ok_def)

subsection \<open>The verdict\<close>

lemma step_report:
  assumes "execute_step arrange f32 st (x, rep) = Some (y, rep')"
  shows "rp_result rep' = rp_result rep"
  using assms by (auto simp: execute_step_def add_action_result_def Let_def split: option.splits sum.splits)

lemma steps_report: "execute_steps arrange f32 sts (x, rep) = Some (y, rep') \<Longrightarrow> rp_result rep' = rp_result rep"
proof (induction sts arbitrary: x rep)
  case (Cons st sts)
  then obtain u v where "execute_step arrange f32 st (x, rep) = Some (u, v)"
    and "execute_steps arrange f32 sts (u, v) = Some (y, rep')"
    by (auto simp: Option.bind_eq_Some_conv)
  with Cons.IH step_report show ?case by metis
qed simp

definition add_failures :: "string list \<Rightarrow> test_result \<Rightarrow> test_result" where
  "add_failures ds r = (if ds = [] then r else case r of
     TestPassed \<Rightarrow> TestFailed ds | TestFailed reasons \<Rightarrow> TestFailed (reasons @ ds) | _ \<Rightarrow> r)"

lemma validation_results_failures:
  "rp_result (fold add_validation_result vs rep) =
   add_failures (map vr_details (filter (\<lambda>v. \<not> vr_passed v) vs)) (rp_result rep)"
  by (induction vs arbitrary: rep) (auto simp: add_failures_def add_validation_result_def Let_def split: test_result.splits)

lemma fold_checks:
  "fold (\<lambda>c rep. fold add_validation_result (validate_checks x [c]) rep) cs rep =
   fold add_validation_result (map (validate_check x) cs) rep"
  by (induction cs arbitrary: rep) (simp_all add: validate_checks_def)

lemma validate_check_cong: "se_peers x = se_peers y \<Longrightarrow> validate_check x c = validate_check y c"
  by (cases c) simp_all

text \<open>The verdict of a scenario rests on its final checks alone: it passes exactly when all of them pass in the
  final state, whatever happened to its steps.\<close>

theorem verdict_is_final_checks:
  assumes "execute_scenario arrange f32 sc x = Some (y, rep)"
  shows "report_is_success rep \<longleftrightarrow> (\<forall>c \<in> set (hc_final_checks sc). vr_passed (validate_check y c))"
    and "rp_result rep = add_failures
      (map vr_details (filter (\<lambda>v. \<not> vr_passed v) (map (validate_check y) (hc_final_checks sc)))) TestPassed"
proof -
  from assms obtain u v w where
    v: "execute_steps arrange f32 (hc_sequence sc)
      (take_state_snapshot ''After setup'' u, test_report_new (hc_name sc) (hc_version sc)) = Some (v, w)"
    and rep: "rp_result rep = rp_result (fold add_validation_result
      (map (validate_check (take_state_snapshot ''After action sequence'' v)) (hc_final_checks sc)) w)"
    and peers: "se_peers y = se_peers (take_state_snapshot ''After action sequence'' v)"
    by (auto simp: execute_scenario_def fold_checks update_performance_metrics_def Let_def split: option.splits)
  from steps_report [OF v] have w: "rp_result w = TestPassed" by (simp add: test_report_new_def)
  have check: "validate_check (take_state_snapshot ''After action sequence'' v) = validate_check y"
    using validate_check_cong [OF peers] by auto
  from rep show *: "rp_result rep = add_failures
      (map vr_details (filter (\<lambda>v. \<not> vr_passed v) (map (validate_check y) (hc_final_checks sc)))) TestPassed"
    by (simp add: validation_results_failures w check)
  show "report_is_success rep \<longleftrightarrow> (\<forall>c \<in> set (hc_final_checks sc). vr_passed (validate_check y c))"
    by (auto simp: report_is_success_def * add_failures_def filter_empty_conv)
qed

text \<open>Checkpoints take no time, but a scenario of checkpoints does not end at the time of its last one: the executor
  takes the current time for zero and adds the times of all steps.\<close>

theorem step_times_add_up:
  assumes "execute_steps arrange f32 (map (\<lambda>(n, t). \<lparr>hs_name = n, hs_at_time_seconds = of_nat t, hs_action = ActLogCheckpoint n None\<rparr>) ts)
      (x, rep) = Some (y, rep')"
  shows "vc_current_time (se_clock y) = vc_current_time (se_clock x) + sum_list (map snd ts) * 1000000000"
  using assms
proof (induction ts arbitrary: x rep)
  case (Cons nt ts)
  obtain n t where nt: "nt = (n, t)" by (cases nt)
  have secs: "from_secs_f64 (of_nat t) = Some (t * 1000000000)"
  proof -
    have "\<lfloor>rat_of_nat t * 1000000000 + 1 / 2\<rfloor> = int (t * 1000000000)" by linarith
    then show ?thesis by (simp add: from_secs_f64_def nat_mult_distrib)
  qed
  from Cons.prems obtain u v where
    step: "execute_step arrange f32 \<lparr>hs_name = n, hs_at_time_seconds = of_nat t, hs_action = ActLogCheckpoint n None\<rparr> (x, rep)
      = Some (u, v)"
    and rest: "execute_steps arrange f32 (map (\<lambda>(n, t). \<lparr>hs_name = n, hs_at_time_seconds = of_nat t,
      hs_action = ActLogCheckpoint n None\<rparr>) ts) (u, v) = Some (y, rep')"
    by (auto simp: nt Option.bind_eq_Some_conv)
  from step have "vc_current_time (se_clock u) = vc_current_time (se_clock x) + t * 1000000000"
    by (auto simp: execute_step_def secs sim_current_time_def take_state_snapshot_def advance_time_def advance_def
        set_time_def Let_def split: if_splits prod.splits)
  with Cons.IH [OF rest] show ?case by (simp add: nt algebra_simps)
qed simp

section \<open>Witnesses\<close>

definition toy_peer :: "string \<Rightarrow> scenario_peer" where
  "toy_peer n = \<lparr>hp_name = n, hp_platform = None, hp_start_delay_seconds = 0\<rparr>"

text \<open>A scenario with one step, the message of a sender that does not exist, and no checks.\<close>

definition toy_scenario :: "scenario_step list \<Rightarrow> validation_check list \<Rightarrow> scenario" where
  "toy_scenario steps checks =
     \<lparr>hc_name = ''toy'', hc_description = [], hc_version = ''1'', hc_peers = [toy_peer ''a'', toy_peer ''b''],
      hc_sequence = steps, hc_final_checks = checks\<rparr>"

definition failing_step :: scenario_step where
  "failing_step = \<lparr>hs_name = ''send'', hs_at_time_seconds = 0, hs_action = ActSendMessage ''c'' ''a'' ''hi'' None\<rparr>"

lemma toy_setup:
  "\<exists>y. executor_setup (toy_scenario steps checks) (sim_executor_new ()) = Some y \<and>
    keys_of (se_peers y) = [''a'', ''b'']"
  by (simp add: executor_setup_def toy_scenario_def toy_peer_def sim_executor_new_def from_secs_f64_def set_peer_def)

lemma verdict_is_final_checks_witness:
  "\<exists>y rep. execute_scenario id (\<lambda>r. (0, r)) (toy_scenario [failing_step] []) (sim_executor_new ()) = Some (y, rep) \<and>
    map ar_result (rp_action_results rep) = [ArFailed] \<and> report_is_success rep"
proof -
  obtain y rep where run: "execute_scenario id (\<lambda>r. (0, r)) (toy_scenario [failing_step] []) (sim_executor_new ()) = Some (y, rep)"
    and failed: "map ar_result (rp_action_results rep) = [ArFailed]"
    by (simp add: execute_scenario_def executor_setup_def toy_scenario_def toy_peer_def failing_step_def
        sim_executor_new_def from_secs_f64_def set_peer_def take_state_snapshot_def execute_step_def
        sim_current_time_def execute_send_def check_sender_def add_action_result_def action_failed_def
        test_report_new_def Let_def)
  from verdict_is_final_checks(1) [OF run] have "report_is_success rep" by (simp add: toy_scenario_def)
  with run failed show ?thesis by (intro exI [of _ y] exI [of _ rep] conjI)
qed

text \<open>A partition that isolates the sender does not keep its message back.\<close>

lemma every_message_delivered_witness:
  "\<exists>x y q. executor_setup (toy_scenario [] []) (sim_executor_new ()) = Some x \<and>
    execute_action id (\<lambda>r. (0, r)) (ActPartitionNetwork [''a''] None) x = Some (x, Inr ()) \<and>
    execute_action id (\<lambda>r. (0, r)) (ActSendMessage ''a'' ''b'' ''hi'' None) x = Some (y, Inr ()) \<and>
    map_of (se_peers y) ''b'' = Some q \<and> map sx_content (sp_messages_received q) = [''hi'']"
proof -
  obtain x where x: "executor_setup (toy_scenario [] []) (sim_executor_new ()) = Some x"
    and peers: "keys_of (se_peers x) = [''a'', ''b'']" using toy_setup [of "[]" "[]"] by (elim exE conjE)
  have reach: "reachable executor_start (executor_step id (\<lambda>r. (0, r))) x"
    by (rule reach_start) (unfold executor_start_def, intro exI, rule x)
  from peers obtain p q where "map_of (se_peers x) ''a'' = Some p" and q: "map_of (se_peers x) ''b'' = Some q"
    by (metis list.set_intros(1) list.set_intros(2) map_of_eq_None_iff not_None_eq set_map)
  obtain y r where y: "execute_action id (\<lambda>r. (0, r)) (ActSendMessage ''a'' ''b'' ''hi'' None) x = Some (y, r)"
    by (metis execute_action.simps(1) surj_pair)
  have "sp_messages_received q = []"
    using x q by (auto simp: executor_setup_def toy_scenario_def toy_peer_def sim_executor_new_def from_secs_f64_def set_peer_def)
  with every_message_delivered [OF reach \<open>map_of (se_peers x) ''a'' = Some p\<close> q y] x y show ?thesis
    by (intro exI [of _ x] exI [of _ y]) auto
qed

lemma step_times_add_up_witness:
  "\<exists>y rep. execute_steps id (\<lambda>r. (0, r)) (map (\<lambda>(n, t). \<lparr>hs_name = n, hs_at_time_seconds = of_nat t,
      hs_action = ActLogCheckpoint n None\<rparr>) [(''a'', 1), (''b'', 2)]) (sim_executor_new (), test_report_new [] [])
    = Some (y, rep) \<and> vc_current_time (se_clock y) = 3 * 1000000000"
proof -
  let ?steps = "map (\<lambda>(n, t). \<lparr>hs_name = n, hs_at_time_seconds = rat_of_nat t, hs_action = ActLogCheckpoint n None\<rparr>)
    [(''a'', 1), (''b'', 2)]"
  obtain y rep where run: "execute_steps id (\<lambda>r. (0, r)) ?steps (sim_executor_new (), test_report_new [] []) = Some (y, rep)"
    by (simp add: execute_step_def from_secs_f64_def sim_current_time_def Let_def)
  from step_times_add_up [OF run] show ?thesis
    using run by (auto simp: sim_executor_new_def virtual_clock_new_def)
qed

end
