(* ===== verification/Scenario_Config.thy ===== *)
theory Scenario_Config
  imports Complex_Main Scenario_Executor
begin

text \<open>
  The configuration of a scenario of the virtual simulator (\<^verbatim>\<open>src/simulator/virtual/src/scenario_config.rs\<close>): its data, the
  profiles and topologies it stands for, its validation, the identifiers of its peers and its duration.

  Names and texts are HOL strings; seconds and rates, which the code holds as floating-point numbers, are rational
  numbers. Hexadecimal decoding belongs to a third-party crate and is an argument, as is the order in which a map
  is iterated where it matters. Reading and writing files in TOML is left out.
\<close>

section \<open>Data\<close>

record scenario_metadata =
  zm_name :: string
  zm_description :: string
  zm_version :: string
  zm_tags :: "string list"
  zm_duration_seconds :: "u32 option"
  zm_author :: "string option"

datatype profile_config =
    PcPerfect
  | PcSlowWifi u32 u32
  | PcUnreliable3G rat rat u32 u32
  | PcSatellite u32 u32 bool
  | PcMeshNetwork u32 u8 rat
  | PcCustom u32 u32 rat rat rat rat

fun profile_of_config :: "profile_config \<Rightarrow> network_profile" where
  "profile_of_config PcPerfect = NpPerfect"
| "profile_of_config (PcSlowWifi latency jitter) = NpSlowWifi latency jitter"
| "profile_of_config (PcUnreliable3G loss reordering latency jitter) = NpUnreliable3G loss reordering latency jitter"
| "profile_of_config (PcSatellite latency jitter outages) = NpSatellite latency jitter outages"
| "profile_of_config (PcMeshNetwork hop_latency max_hops partition_chance) =
     NpMeshNetwork hop_latency max_hops partition_chance"
| "profile_of_config (PcCustom lowest highest loss reordering duplication corruption) =
     NpCustom lowest highest loss reordering duplication corruption"

datatype topology_config =
    TcFullyConnected
  | TcLinear
  | TcStar string
  | TcCustom "(string \<times> string list) list"

definition topology_config_default :: topology_config where
  "topology_config_default = TcFullyConnected"

definition custom_adjacency ::
    "(string \<rightharpoonup> peer_id) \<Rightarrow> (string \<times> string list) list \<Rightarrow> (peer_id \<times> peer_id list) list" where
  "custom_adjacency peer_map adjacency =
     fold (\<lambda>(name, neighbors) m. case peer_map name of
         Some pid \<Rightarrow> map_put pid (List.map_filter peer_map neighbors) m
       | None \<Rightarrow> m) adjacency []"

fun to_network_topology :: "(string \<rightharpoonup> peer_id) \<Rightarrow> topology_config \<Rightarrow> network_topology" where
  "to_network_topology peer_map TcFullyConnected = FullyConnected"
| "to_network_topology peer_map TcLinear = Linear"
| "to_network_topology peer_map (TcStar center) =
     (case peer_map center of Some pid \<Rightarrow> Star pid | None \<Rightarrow> FullyConnected)"
| "to_network_topology peer_map (TcCustom adjacency) = CustomTopology (custom_adjacency peer_map adjacency)"

datatype network_change_type =
    NcChangeProfile profile_config
  | NcPartitionPeers string string
  | NcHealPartition string string
  | NcDisconnectPeer string
  | NcReconnectPeer string

record network_change =
  ng_at_time_seconds :: rat
  ng_change :: network_change_type

record network_logging =
  nl_enable_packet_logging :: bool
  nl_enable_stats_logging :: bool
  nl_stats_interval_seconds :: u32

definition network_logging_default :: network_logging where
  "network_logging_default =
     \<lparr>nl_enable_packet_logging = False, nl_enable_stats_logging = True, nl_stats_interval_seconds = 10\<rparr>"

record scenario_network =
  zn_profile :: profile_config
  zn_topology :: topology_config
  zn_changes :: "network_change list"
  zn_logging :: network_logging

record auto_message_pattern =
  am_target :: string
  am_content :: string
  am_interval_seconds :: rat
  am_count :: "u32 option"
  am_start_at_seconds :: rat
  am_stop_at_seconds :: "rat option"

datatype trigger_condition =
    TgMessageReceived "string option" "string option"
  | TgPeerConnected string
  | TgPeerDisconnected string
  | TgTimeElapsed rat

datatype response_action =
    RaSendMessage string string
  | RaConnectToPeer string
  | RaDisconnectFromPeer string
  | RaStartDiscovery
  | RaStopDiscovery
  | RaLogMessage string

record response_behavior =
  rb_trigger :: trigger_condition
  rb_action :: response_action
  rb_delay_seconds :: rat

record retry_behavior =
  ry_enabled :: bool
  ry_max_attempts :: u32
  ry_initial_delay_seconds :: rat
  ry_backoff_multiplier :: rat
  ry_max_delay_seconds :: rat

definition retry_behavior_default :: retry_behavior where
  "retry_behavior_default =
     \<lparr>ry_enabled = True, ry_max_attempts = 3, ry_initial_delay_seconds = 1, ry_backoff_multiplier = 2,
      ry_max_delay_seconds = 60\<rparr>"

record connection_behavior =
  cb_preferred_transports :: "string list"
  cb_auto_connect :: bool
  cb_max_connections :: "u32 option"
  cb_retry_behavior :: retry_behavior

definition connection_behavior_default :: connection_behavior where
  "connection_behavior_default =
     \<lparr>cb_preferred_transports = [''mock''], cb_auto_connect = True, cb_max_connections = None,
      cb_retry_behavior = retry_behavior_default\<rparr>"

record peer_behavior =
  pb_auto_discovery :: bool
  pb_auto_messaging :: "auto_message_pattern list"
  pb_responses :: "response_behavior list"
  pb_connection_behavior :: connection_behavior

definition peer_behavior_default :: peer_behavior where
  "peer_behavior_default =
     \<lparr>pb_auto_discovery = True, pb_auto_messaging = [], pb_responses = [],
      pb_connection_behavior = connection_behavior_default\<rparr>"

record config_peer =
  zp_name :: string
  zp_peer_id :: "string option"
  zp_behavior :: peer_behavior
  zp_start_delay_seconds :: rat
  zp_stop_at_seconds :: "rat option"

datatype config_check =
    CkMessageDelivered string string string
  | CkPeerConnected string string
  | CkPeerCount string u32
  | CkSessionEstablished string string
  | CkMessageCount string "u32 option" "u32 option"
  | CkNetworkStats "rat option" "rat option" "u32 option"

datatype config_action =
    CaSendMessage string string string
  | CaSendBroadcast string string
  | CaConnectPeers string string
  | CaDisconnectPeers string string
  | CaStartDiscovery string
  | CaStopDiscovery string
  | CaChangeNetworkProfile profile_config
  | CaPartitionNetwork string string
  | CaHealPartition string string
  | CaWaitForEvent string rat
  | CaValidateState config_check
  | CaLogCheckpoint string
  | CaPauseScenario rat

record config_step =
  zs_name :: string
  zs_at_time_seconds :: rat
  zs_action :: config_action

record continuous_validation =
  cv_check :: config_check
  cv_interval_seconds :: rat
  cv_start_at_seconds :: rat
  cv_stop_at_seconds :: "rat option"

record validation_timeouts =
  vt_message_delivery_seconds :: rat
  vt_connection_establishment_seconds :: rat
  vt_peer_discovery_seconds :: rat

definition validation_timeouts_default :: validation_timeouts where
  "validation_timeouts_default =
     \<lparr>vt_message_delivery_seconds = 30, vt_connection_establishment_seconds = 15, vt_peer_discovery_seconds = 10\<rparr>"

record validation_config =
  vg_final_checks :: "config_check list"
  vg_continuous_checks :: "continuous_validation list"
  vg_timeouts :: validation_timeouts

definition validation_config_default :: validation_config where
  "validation_config_default =
     \<lparr>vg_final_checks = [], vg_continuous_checks = [], vg_timeouts = validation_timeouts_default\<rparr>"

record memory_limits =
  ml_max_per_peer_mb :: "u32 option"
  ml_max_total_mb :: "u32 option"
  ml_leak_detection_mb_per_minute :: "rat option"

definition memory_limits_default :: memory_limits where
  "memory_limits_default =
     \<lparr>ml_max_per_peer_mb = None, ml_max_total_mb = None, ml_leak_detection_mb_per_minute = None\<rparr>"

record cpu_limits =
  cu_max_per_peer_percent :: "rat option"
  cu_max_total_percent :: "rat option"

definition cpu_limits_default :: cpu_limits where
  "cpu_limits_default = \<lparr>cu_max_per_peer_percent = None, cu_max_total_percent = None\<rparr>"

record performance_config =
  pz_expected_throughput :: "rat option"
  pz_max_latency_ms :: "u32 option"
  pz_max_packet_loss :: "rat option"
  pz_memory_limits :: memory_limits
  pz_cpu_limits :: cpu_limits

definition performance_config_default :: performance_config where
  "performance_config_default =
     \<lparr>pz_expected_throughput = None, pz_max_latency_ms = None, pz_max_packet_loss = None,
      pz_memory_limits = memory_limits_default, pz_cpu_limits = cpu_limits_default\<rparr>"

record scenario_config =
  zc_metadata :: scenario_metadata
  zc_network :: scenario_network
  zc_peers :: "config_peer list"
  zc_sequence :: "config_step list"
  zc_validation :: validation_config
  zc_performance :: performance_config

section \<open>Validation\<close>

datatype scenario_error =
    ZeDuplicatePeer string
  | ZeUnknownPeer string string
  | ZeOutOfOrder string rat rat

fun collect_names :: "config_peer list \<Rightarrow> string set \<Rightarrow> scenario_error + string set" where
  "collect_names [] names = Inr names"
| "collect_names (p # ps) names =
     (if zp_name p \<in> names then Inl (ZeDuplicatePeer (zp_name p)) else collect_names ps (insert (zp_name p) names))"

text \<open>The peers an action refers to, as far as they are checked.\<close>

fun checked_peers :: "config_action \<Rightarrow> string list" where
  "checked_peers (CaSendMessage sender to content) = [sender, to]"
| "checked_peers (CaConnectPeers p q) = [p, q]"
| "checked_peers (CaDisconnectPeers p q) = [p, q]"
| "checked_peers (CaSendBroadcast sender content) = [sender]"
| "checked_peers (CaStartDiscovery p) = [p]"
| "checked_peers (CaStopDiscovery p) = [p]"
| "checked_peers a = []"

fun check_references :: "string set \<Rightarrow> config_step list \<Rightarrow> scenario_error + unit" where
  "check_references names [] = Inr ()"
| "check_references names (st # sts) =
     (case filter (\<lambda>p. p \<notin> names) (checked_peers (zs_action st)) of
        p # _ \<Rightarrow> Inl (ZeUnknownPeer p (zs_name st))
      | [] \<Rightarrow> check_references names sts)"

fun check_order :: "rat \<Rightarrow> config_step list \<Rightarrow> scenario_error + unit" where
  "check_order last_time [] = Inr ()"
| "check_order last_time (st # sts) =
     (if zs_at_time_seconds st < last_time then Inl (ZeOutOfOrder (zs_name st) (zs_at_time_seconds st) last_time)
      else check_order (zs_at_time_seconds st) sts)"

definition scenario_validate :: "scenario_config \<Rightarrow> scenario_error + unit" where
  "scenario_validate cfg =
     rbind (collect_names (zc_peers cfg) {}) (\<lambda>names.
       rbind (check_references names (zc_sequence cfg)) (\<lambda>_. check_order 0 (zc_sequence cfg)))"

section \<open>Identifiers and duration\<close>

definition config_peer_names :: "scenario_config \<Rightarrow> string list" where
  "config_peer_names cfg = map zp_name (zc_peers cfg)"

definition generated_id :: "nat \<Rightarrow> peer_id" where
  "generated_id i = [word_of_nat (i + 1), 0, 0, 0, 0, 0, 0, 0]"

definition configured_id :: "(string \<Rightarrow> bytes option) \<Rightarrow> nat \<Rightarrow> config_peer \<Rightarrow> peer_id" where
  "configured_id hex_decode i p =
     (case zp_peer_id p of
        Some s \<Rightarrow>
          (case hex_decode s of Some bs \<Rightarrow> if length bs = 8 then bs else generated_id i | None \<Rightarrow> generated_id i)
      | None \<Rightarrow> generated_id i)"

definition create_peer_mapping :: "(string \<Rightarrow> bytes option) \<Rightarrow> scenario_config \<Rightarrow> (string \<times> peer_id) list" where
  "create_peer_mapping hex_decode cfg =
     fold (\<lambda>(i, p) m. map_put (zp_name p) (configured_id hex_decode i p) m) (enumerate 0 (zc_peers cfg)) []"

definition scenario_end_seconds :: "scenario_config \<Rightarrow> rat" where
  "scenario_end_seconds cfg =
     (let t = fold max (map zs_at_time_seconds (zc_sequence cfg)) 0;
          t = fold max (List.map_filter zp_stop_at_seconds (zc_peers cfg)) t;
          t = fold max (map ng_at_time_seconds (zn_changes (zc_network cfg))) t
      in case zm_duration_seconds (zc_metadata cfg) of Some d \<Rightarrow> max t (of_nat (unat d)) | None \<Rightarrow> t)"

text \<open>\<open>None\<close> is a panic.\<close>

definition get_scenario_duration :: "scenario_config \<Rightarrow> nat option" where
  "get_scenario_duration cfg = from_secs_f64 (scenario_end_seconds cfg + 5)"

section \<open>Properties\<close>

lemma collect_names_ok:
  "collect_names ps names = Inr ns \<longleftrightarrow>
   distinct (map zp_name ps) \<and> set (map zp_name ps) \<inter> names = {} \<and> ns = names \<union> set (map zp_name ps)"
  by (induction ps arbitrary: names) auto

lemma check_references_ok:
  "check_references names sts = Inr () \<longleftrightarrow> (\<forall>st \<in> set sts. set (checked_peers (zs_action st)) \<subseteq> names)"
proof (induction sts)
  case (Cons st sts)
  show ?case
  proof (cases "filter (\<lambda>p. p \<notin> names) (checked_peers (zs_action st))")
    case Nil
    then have "set (checked_peers (zs_action st)) \<subseteq> names" by (auto simp: filter_empty_conv)
    with Cons.IH Nil show ?thesis by simp
  next
    case (Cons p ps)
    then have "p \<in> set (filter (\<lambda>p. p \<notin> names) (checked_peers (zs_action st)))" by simp
    then have "\<not> set (checked_peers (zs_action st)) \<subseteq> names" by auto
    with Cons show ?thesis by simp
  qed
qed simp

lemma check_order_ok:
  "check_order t sts = Inr () \<longleftrightarrow> sorted (t # map zs_at_time_seconds sts)"
proof (induction sts arbitrary: t)
  case (Cons st sts)
  from Cons.IH [of "zs_at_time_seconds st"] show ?case by (auto simp: not_less intro: order_trans)
qed simp

text \<open>Validation accepts exactly the scenarios whose peers have different names, whose steps refer to these
  peers, and whose steps stand in the order of their times, none of them negative.\<close>

theorem scenario_validate_correct:
  "scenario_validate cfg = Inr () \<longleftrightarrow> distinct (config_peer_names cfg) \<and>
   (\<forall>st \<in> set (zc_sequence cfg). set (checked_peers (zs_action st)) \<subseteq> set (config_peer_names cfg)) \<and>
   sorted (map zs_at_time_seconds (zc_sequence cfg)) \<and> (\<forall>st \<in> set (zc_sequence cfg). 0 \<le> zs_at_time_seconds st)"
proof -
  have "scenario_validate cfg = Inr () \<longleftrightarrow>
    (\<exists>names. collect_names (zc_peers cfg) {} = Inr names \<and> check_references names (zc_sequence cfg) = Inr () \<and>
      check_order 0 (zc_sequence cfg) = Inr ())"
    by (auto simp: scenario_validate_def rbind_eq_Inr)
  then show ?thesis by (auto simp: collect_names_ok check_references_ok check_order_ok config_peer_names_def)
qed

text \<open>Partitions are among the actions whose peers are not checked.\<close>

lemma partition_peers_unchecked:
  assumes "scenario_validate cfg = Inr ()"
    and "sorted (map zs_at_time_seconds (zc_sequence cfg) @ [t])" and "0 \<le> t"
  shows "scenario_validate (cfg\<lparr>zc_sequence := zc_sequence cfg @
    [\<lparr>zs_name = n, zs_at_time_seconds = t, zs_action = CaPartitionNetwork p q\<rparr>]\<rparr>) = Inr ()"
  using assms by (auto simp: scenario_validate_correct config_peer_names_def)

lemma mapping_from:
  "distinct (map zp_name ps) \<Longrightarrow> j < length ps \<Longrightarrow>
   map_of (fold (\<lambda>(i, p) m. map_put (zp_name p) (f i p) m) (enumerate k ps) m) (zp_name (ps ! j)) =
   Some (f (k + j) (ps ! j))"
proof (induction ps arbitrary: j k m)
  case (Cons p ps)
  show ?case
  proof (cases j)
    case 0
    have "map_of (fold (\<lambda>(i, p) m. map_put (zp_name p) (f i p) m) (enumerate k ps) m) n = map_of m n"
      if "n \<notin> zp_name ` set ps" for n k m
      using that by (induction ps arbitrary: k m) auto
    with Cons.prems(1) 0 show ?thesis by simp
  next
    case (Suc i)
    with Cons.IH [of i "Suc k"] Cons.prems show ?thesis by simp
  qed
qed simp

lemma generated_id_inj: "i < 256 \<Longrightarrow> j < 256 \<Longrightarrow> generated_id i = generated_id j \<Longrightarrow> i = j"
  by (simp add: generated_id_def word_of_nat_eq_iff take_bit_eq_mod)

lemma generated_id_repeats: "generated_id (i + 256) = generated_id i"
  by (simp add: generated_id_def word_of_nat_eq_iff take_bit_eq_mod)

text \<open>Up to 256 peers without identifiers of their own get different ones; the one after them gets the identifier of the
  first.\<close>

theorem peer_mapping_injective:
  assumes "distinct (config_peer_names cfg)" and "\<forall>p \<in> set (zc_peers cfg). zp_peer_id p = None"
    and "i < length (zc_peers cfg)" and "j < length (zc_peers cfg)"
    and "map_of (create_peer_mapping hex_decode cfg) (zp_name (zc_peers cfg ! i)) =
      map_of (create_peer_mapping hex_decode cfg) (zp_name (zc_peers cfg ! j))"
  shows "length (zc_peers cfg) \<le> 256 \<Longrightarrow> i = j" and "i mod 256 = j mod 256"
proof -
  have m: "map_of (create_peer_mapping hex_decode cfg) (zp_name (zc_peers cfg ! k)) = Some (generated_id k)"
    if "k < length (zc_peers cfg)" for k
    using mapping_from [of "zc_peers cfg" k "configured_id hex_decode" 0 "[]"] assms(1,2) that
    by (simp add: create_peer_mapping_def config_peer_names_def configured_id_def)
  from assms(5) m [OF assms(3)] m [OF assms(4)] have same: "generated_id i = generated_id j" by simp
  with assms(3,4) show "length (zc_peers cfg) \<le> 256 \<Longrightarrow> i = j" by (auto intro: generated_id_inj)
  from same show "i mod 256 = j mod 256"
    by (simp add: generated_id_def word_of_nat_eq_iff take_bit_eq_mod)
qed

lemma fold_max_ge: "t \<le> fold max xs t \<and> (\<forall>x \<in> set xs. x \<le> fold max xs (t :: rat))"
proof (induction xs arbitrary: t)
  case (Cons x xs)
  from Cons.IH [of "max x t"] show ?case by auto
qed simp

text \<open>The duration of a scenario never panics, and leaves at least five seconds after every step.\<close>

theorem scenario_duration_covers:
  "\<exists>d. get_scenario_duration cfg = Some d" and
  "st \<in> set (zc_sequence cfg) \<Longrightarrow> zs_at_time_seconds st \<le> scenario_end_seconds cfg"
proof -
  let ?t1 = "fold max (map zs_at_time_seconds (zc_sequence cfg)) 0"
  let ?t2 = "fold max (List.map_filter zp_stop_at_seconds (zc_peers cfg)) ?t1"
  let ?t3 = "fold max (map ng_at_time_seconds (zn_changes (zc_network cfg))) ?t2"
  have "?t1 \<le> ?t2" "?t2 \<le> ?t3" using fold_max_ge by blast+
  moreover have "?t3 \<le> scenario_end_seconds cfg"
    by (simp add: scenario_end_seconds_def Let_def split: option.split)
  ultimately have le: "?t1 \<le> scenario_end_seconds cfg" by simp
  have "0 \<le> ?t1" using fold_max_ge by blast
  with le show "\<exists>d. get_scenario_duration cfg = Some d" by (simp add: get_scenario_duration_def from_secs_f64_def)
  assume "st \<in> set (zc_sequence cfg)"
  then have "zs_at_time_seconds st \<le> ?t1" using fold_max_ge [of 0 "map zs_at_time_seconds (zc_sequence cfg)"] by simp
  with le show "zs_at_time_seconds st \<le> scenario_end_seconds cfg" by simp
qed

end
