(* ===== verification/Client_Bridge.thy ===== *)
theory Client_Bridge
  imports Nostr_Relays File_Transfer
begin

text \<open>
  The bridge through which the simulator starts and drives clients of several kinds
  (\<^verbatim>\<open>src/simulator/shared/src/client_bridge.rs\<close>).

  Clients are processes outside the program. What the bridge asks of the operating system is recorded as a list of
  calls: starting the command line client, killing a process, running \<^verbatim>\<open>xcrun\<close> with arguments. The record \<open>bridge_env\<close>
  answers a call, knowing all calls made so far. A process is known by its number among the calls that started one. What a
  command line client does by itself - writing a line, reading a command, closing its input - is an \<open>outside\<close> step.
  Texts that processes write are bytes; times and log output are not represented. The JSON parser and the order in which
  the hash map of the clients is emptied are arguments.
\<close>

section \<open>Kinds of clients\<close>

datatype client_type = ClientCli | ClientIos | ClientAndroid | ClientWeb | ClientKotlin

definition client_type_name :: "client_type \<Rightarrow> string" where
  "client_type_name t =
     (case t of ClientCli \<Rightarrow> ''CLI'' | ClientIos \<Rightarrow> ''iOS'' | ClientAndroid \<Rightarrow> ''Android'' | ClientWeb \<Rightarrow> ''Web''
      | ClientKotlin \<Rightarrow> ''Kotlin'')"

definition supports_stdin_commands :: "client_type \<Rightarrow> bool" where
  "supports_stdin_commands t =
     (case t of ClientCli \<Rightarrow> True | ClientWeb \<Rightarrow> True | ClientKotlin \<Rightarrow> True | ClientIos \<Rightarrow> False | ClientAndroid \<Rightarrow> False)"

definition requires_emulator :: "client_type \<Rightarrow> bool" where
  "requires_emulator t \<longleftrightarrow> t = ClientIos \<or> t = ClientAndroid"

definition supports_scenario_runner :: "client_type \<Rightarrow> bool" where
  "supports_scenario_runner t \<longleftrightarrow> t = ClientCli \<or> t = ClientWeb \<or> t = ClientKotlin"

datatype testing_framework = ScenarioRunner | EmulatorRig

datatype testing_strategy =
    SingleFramework testing_framework
  | CrossFramework testing_framework testing_framework

record client_pair =
  cp_client1 :: client_type
  cp_client2 :: client_type

definition client_framework :: "client_type \<Rightarrow> testing_framework" where
  "client_framework t =
     (case t of ClientCli \<Rightarrow> ScenarioRunner | ClientWeb \<Rightarrow> ScenarioRunner | ClientKotlin \<Rightarrow> ScenarioRunner
      | ClientIos \<Rightarrow> EmulatorRig | ClientAndroid \<Rightarrow> EmulatorRig)"

definition client_testing_strategy :: "client_pair \<Rightarrow> testing_strategy" where
  "client_testing_strategy p =
     (let framework1 = client_framework (cp_client1 p); framework2 = client_framework (cp_client2 p)
      in if framework1 = framework2 then SingleFramework framework1 else CrossFramework framework1 framework2)"

section \<open>The operating system\<close>

datatype host_call =
    SpawnCli string string
  | KillCli nat
  | Xcrun "rust_string list"

record xcrun_output =
  xo_success :: bool
  xo_stdout :: bytes

record 'j bridge_env =
  be_spawns :: "host_call list \<Rightarrow> bool"
  be_xcrun :: "host_call list \<Rightarrow> xcrun_output option"
  be_parse_json :: "bytes \<Rightarrow> 'j option"

definition spawned_count :: "host_call list \<Rightarrow> nat" where
  "spawned_count calls = length (filter (\<lambda>c. case c of SpawnCli _ _ \<Rightarrow> True | _ \<Rightarrow> False) calls)"

definition xcrun :: "'j bridge_env \<Rightarrow> rust_string list \<Rightarrow> host_call list \<Rightarrow> host_call list \<times> xcrun_output option" where
  "xcrun env args calls = (let calls2 = calls @ [Xcrun args] in (calls2, be_xcrun env calls2))"

section \<open>The command line client\<close>

text \<open>The channel to its input holds the commands not yet written and whether the task that writes them still runs.\<close>

record 'j cli_client =
  cli_name :: string
  cli_relay :: string
  cli_stdin :: "(rust_string list \<times> bool) option"
  cli_events :: "'j list option"
  cli_process :: "nat option"

record 'j client_response =
  re_client_name :: string
  re_client_type :: client_type
  re_command :: string
  re_success :: bool
  re_data :: "'j option"
  re_error :: "string option"

definition cli_client_new :: "string \<Rightarrow> string \<Rightarrow> 'j cli_client" where
  "cli_client_new name relay =
     \<lparr>cli_name = name, cli_relay = relay, cli_stdin = None, cli_events = None, cli_process = None\<rparr>"

text \<open>A process that is replaced is dropped and thereby killed.\<close>

definition drop_process :: "nat option \<Rightarrow> host_call list \<Rightarrow> host_call list" where
  "drop_process p calls = (case p of None \<Rightarrow> calls | Some n \<Rightarrow> calls @ [KillCli n])"

definition cli_start ::
    "'j bridge_env \<Rightarrow> host_call list \<Rightarrow> 'j cli_client \<Rightarrow> host_call list \<times> 'j cli_client \<times> (string + unit)" where
  "cli_start env calls c =
     (let calls2 = calls @ [SpawnCli (cli_name c) (cli_relay c)]
      in if be_spawns env calls2
         then (drop_process (cli_process c) calls2,
               c\<lparr>cli_stdin := Some ([], True), cli_events := Some [], cli_process := Some (spawned_count calls)\<rparr>, Inr ())
         else (calls2, c, Inl ''Failed to start CLI client''))"

definition cli_send_command :: "rust_string \<Rightarrow> 'j cli_client \<Rightarrow> 'j cli_client \<times> (string + unit)" where
  "cli_send_command command c =
     (case cli_stdin c of
        None \<Rightarrow> (c, Inl ''Client not started'')
      | Some (queued, writing) \<Rightarrow>
          if writing then (c\<lparr>cli_stdin := Some (queued @ [command], True)\<rparr>, Inr ())
          else (c, Inl ''Failed to send command: channel closed''))"

text \<open>\<open>arriving\<close> are the events that come in during the wait; if an event is there and the time is over, either may be
  selected.\<close>

definition cli_wait ::
    "'j list \<Rightarrow> bool \<Rightarrow> 'j cli_client \<Rightarrow> 'j cli_client \<times> (string + 'j client_response)" where
  "cli_wait arriving timer_wins c =
     (case cli_events c of
        None \<Rightarrow> (c, Inl ''Client not started'')
      | Some queued \<Rightarrow>
          (case queued @ arriving of
             [] \<Rightarrow> (c, Inl ''Timeout waiting for response'')
           | event # rest \<Rightarrow>
               if timer_wins then (c\<lparr>cli_events := Some (event # rest)\<rparr>, Inl ''Timeout waiting for response'')
               else (c\<lparr>cli_events := Some rest\<rparr>,
                     Inr \<lparr>re_client_name = cli_name c, re_client_type = ClientCli, re_command = [], re_success = True,
                       re_data = Some event, re_error = None\<rparr>)))"

definition cli_is_alive :: "'j cli_client \<Rightarrow> bool" where
  "cli_is_alive c \<longleftrightarrow> cli_process c \<noteq> None"

definition cli_stop :: "host_call list \<Rightarrow> 'j cli_client \<Rightarrow> host_call list \<times> 'j cli_client" where
  "cli_stop calls c = (drop_process (cli_process c) calls, c\<lparr>cli_process := None\<rparr>)"

text \<open>What the process does: it writes a line, takes the next command, or is gone when a command is to be written.\<close>

datatype outside = WritesLine bytes | TakesCommand | InputGone

definition cli_outside :: "'j bridge_env \<Rightarrow> outside \<Rightarrow> 'j cli_client \<Rightarrow> 'j cli_client" where
  "cli_outside env s c =
     (case s of
        WritesLine line \<Rightarrow>
          (case (cli_events c, if take 1 line = text_of ''{'' \<or> take 1 line = text_of ''['' then be_parse_json env line
                               else None) of
             (Some events, Some json) \<Rightarrow> c\<lparr>cli_events := Some (events @ [json])\<rparr>
           | _ \<Rightarrow> c)
      | TakesCommand \<Rightarrow>
          (case cli_stdin c of Some (command # queued, True) \<Rightarrow> c\<lparr>cli_stdin := Some (queued, True)\<rparr> | _ \<Rightarrow> c)
      | InputGone \<Rightarrow>
          (case cli_stdin c of Some (command # queued, True) \<Rightarrow> c\<lparr>cli_stdin := Some ([], False)\<rparr> | _ \<Rightarrow> c))"

section \<open>The iOS client\<close>

record ios_client =
  ios_name :: string
  ios_relay :: string
  ios_simulator :: "rust_string option"
  ios_bundle :: rust_string

definition ios_client_new :: "string \<Rightarrow> string \<Rightarrow> ios_client" where
  "ios_client_new name relay =
     \<lparr>ios_name = name, ios_relay = relay, ios_simulator = None, ios_bundle = text_of ''chat.bitchat''\<rparr>"

text \<open>An \<^verbatim>\<open>xcrun\<close> whose result is only checked for having run.\<close>

fun xcrun_all :: "'j bridge_env \<Rightarrow> rust_string list list \<Rightarrow> host_call list \<Rightarrow> host_call list \<times> bool" where
  "xcrun_all env [] calls = (calls, True)"
| "xcrun_all env (args # argss) calls =
     (case xcrun env args calls of
        (calls2, None) \<Rightarrow> (calls2, False)
      | (calls2, Some _) \<Rightarrow> xcrun_all env argss calls2)"

definition simctl :: "string list \<Rightarrow> rust_string list" where
  "simctl args = map text_of (''simctl'' # args)"

definition create_args :: "ios_client \<Rightarrow> rust_string list" where
  "create_args c = simctl [''create'', ''BitChat-'' @ ios_name c, ''iPhone 15 Pro'']"

definition launch_args :: "ios_client \<Rightarrow> rust_string \<Rightarrow> rust_string list list" where
  "launch_args c simulator_id =
     [simctl [''boot''] @ [simulator_id],
      simctl [''install''] @ [simulator_id, text_of ''../../device/vendored/bitchat-ios/build/BitChat.app''],
      simctl [''launch''] @ [simulator_id, ios_bundle c]]"

definition ios_start ::
    "'j bridge_env \<Rightarrow> host_call list \<Rightarrow> ios_client \<Rightarrow> host_call list \<times> ios_client \<times> (string + unit)" where
  "ios_start env calls c =
     (case xcrun env (create_args c) calls of
        (calls1, None) \<Rightarrow> (calls1, c, Inl ''xcrun'')
      | (calls1, Some out) \<Rightarrow>
          if \<not> xo_success out then (calls1, c, Inl ''Failed to create iOS simulator'')
          else if \<not> utf8_valid (xo_stdout out) then (calls1, c, Inl ''invalid utf-8 sequence'')
          else
            (case xcrun_all env (launch_args c (trim (xo_stdout out))) calls1 of
               (calls2, False) \<Rightarrow> (calls2, c, Inl ''xcrun'')
             | (calls2, True) \<Rightarrow> (calls2, c\<lparr>ios_simulator := Some (trim (xo_stdout out))\<rparr>, Inr ())))"

definition ios_send_command :: "rust_string \<Rightarrow> ios_client \<Rightarrow> ios_client \<times> (string + unit)" where
  "ios_send_command command c = (c, Inr ())"

definition ios_wait :: "ios_client \<Rightarrow> string + 'j client_response" where
  "ios_wait c =
     Inr \<lparr>re_client_name = ios_name c, re_client_type = ClientIos, re_command = [], re_success = True, re_data = None,
       re_error = None\<rparr>"

definition ios_is_alive :: "'j bridge_env \<Rightarrow> host_call list \<Rightarrow> ios_client \<Rightarrow> host_call list \<times> bool" where
  "ios_is_alive env calls c =
     (case ios_simulator c of
        None \<Rightarrow> (calls, False)
      | Some simulator_id \<Rightarrow>
          (case xcrun env (simctl [''spawn''] @ [simulator_id] @ map text_of [''launchctl'', ''list'']) calls of
             (calls2, None) \<Rightarrow> (calls2, False)
           | (calls2, Some out) \<Rightarrow> (calls2, sublist (ios_bundle c) (xo_stdout out))))"

definition shut_simulator :: "rust_string \<Rightarrow> rust_string \<Rightarrow> host_call list" where
  "shut_simulator bundle simulator_id =
     [Xcrun (simctl [''terminate''] @ [simulator_id, bundle]), Xcrun (simctl [''shutdown''] @ [simulator_id]),
      Xcrun (simctl [''delete''] @ [simulator_id])]"

definition ios_stop :: "host_call list \<Rightarrow> ios_client \<Rightarrow> host_call list \<times> ios_client" where
  "ios_stop calls c =
     (case ios_simulator c of
        None \<Rightarrow> (calls, c)
      | Some simulator_id \<Rightarrow> (calls @ shut_simulator (ios_bundle c) simulator_id, c\<lparr>ios_simulator := None\<rparr>))"

section \<open>The bridge\<close>

text \<open>A client behind the trait: dropping one kills its process, and nothing else.\<close>

datatype 'j client = CliClient "'j cli_client" | IosClient ios_client

definition drop_client :: "'j client option \<Rightarrow> host_call list \<Rightarrow> host_call list" where
  "drop_client c calls = (case c of Some (CliClient a) \<Rightarrow> drop_process (cli_process a) calls | _ \<Rightarrow> calls)"

definition client_stop :: "'j client \<Rightarrow> host_call list \<Rightarrow> host_call list" where
  "client_stop c calls =
     (case c of CliClient a \<Rightarrow> fst (cli_stop calls a) | IosClient a \<Rightarrow> fst (ios_stop calls a))"

record 'j bridge =
  br_relay :: string
  br_clients :: "(string \<times> 'j client) list"
  br_calls :: "host_call list"

definition bridge_new :: "string \<Rightarrow> 'j bridge" where
  "bridge_new relay = \<lparr>br_relay = relay, br_clients = [], br_calls = []\<rparr>"

definition add_client :: "string \<Rightarrow> 'j client \<Rightarrow> 'j bridge \<Rightarrow> 'j bridge" where
  "add_client name c b =
     b\<lparr>br_clients := map_put name c (br_clients b),
       br_calls := drop_client (map_of (br_clients b) name) (br_calls b)\<rparr>"

definition start_client :: "'j bridge_env \<Rightarrow> client_type \<Rightarrow> string \<Rightarrow> 'j bridge \<Rightarrow> 'j bridge \<times> (string + unit)" where
  "start_client env t name b =
     (case t of
        ClientCli \<Rightarrow>
          (case cli_start env (br_calls b) (cli_client_new name (br_relay b)) of
             (calls, c, Inl e) \<Rightarrow> (b\<lparr>br_calls := calls\<rparr>, Inl e)
           | (calls, c, Inr _) \<Rightarrow> (add_client name (CliClient c) (b\<lparr>br_calls := calls\<rparr>), Inr ()))
      | ClientIos \<Rightarrow>
          (case ios_start env (br_calls b) (ios_client_new name (br_relay b)) of
             (calls, c, Inl e) \<Rightarrow> (b\<lparr>br_calls := calls\<rparr>, Inl e)
           | (calls, c, Inr _) \<Rightarrow> (add_client name (IosClient c) (b\<lparr>br_calls := calls\<rparr>), Inr ()))
      | ClientAndroid \<Rightarrow> (b, Inl ''Android client adapter not yet implemented'')
      | ClientWeb \<Rightarrow> (b, Inl ''Web client adapter not yet implemented'')
      | ClientKotlin \<Rightarrow> (b, Inl ''Kotlin client adapter not yet implemented''))"

definition not_found :: "string \<Rightarrow> string" where
  "not_found name = ''Client '' @ [CHR 0x27] @ name @ [CHR 0x27] @ '' not found''"

definition bridge_send_command :: "string \<Rightarrow> rust_string \<Rightarrow> 'j bridge \<Rightarrow> 'j bridge \<times> (string + unit)" where
  "bridge_send_command name command b =
     (case map_of (br_clients b) name of
        None \<Rightarrow> (b, Inl (not_found name))
      | Some (CliClient c) \<Rightarrow>
          (case cli_send_command command c of
             (c2, r) \<Rightarrow> (b\<lparr>br_clients := map_put name (CliClient c2) (br_clients b)\<rparr>, r))
      | Some (IosClient c) \<Rightarrow>
          (case ios_send_command command c of
             (c2, r) \<Rightarrow> (b\<lparr>br_clients := map_put name (IosClient c2) (br_clients b)\<rparr>, r)))"

definition bridge_wait ::
    "'j list \<Rightarrow> bool \<Rightarrow> string \<Rightarrow> 'j bridge \<Rightarrow> 'j bridge \<times> (string + 'j client_response)" where
  "bridge_wait arriving timer_wins name b =
     (case map_of (br_clients b) name of
        None \<Rightarrow> (b, Inl (not_found name))
      | Some (CliClient c) \<Rightarrow>
          (case cli_wait arriving timer_wins c of
             (c2, r) \<Rightarrow> (b\<lparr>br_clients := map_put name (CliClient c2) (br_clients b)\<rparr>, r))
      | Some (IosClient c) \<Rightarrow> (b, ios_wait c))"

definition is_client_alive :: "'j bridge_env \<Rightarrow> string \<Rightarrow> 'j bridge \<Rightarrow> 'j bridge \<times> bool" where
  "is_client_alive env name b =
     (case map_of (br_clients b) name of
        None \<Rightarrow> (b, False)
      | Some (CliClient c) \<Rightarrow> (b, cli_is_alive c)
      | Some (IosClient c) \<Rightarrow> (case ios_is_alive env (br_calls b) c of (calls, r) \<Rightarrow> (b\<lparr>br_calls := calls\<rparr>, r)))"

definition stop_client :: "string \<Rightarrow> 'j bridge \<Rightarrow> 'j bridge" where
  "stop_client name b =
     (case map_of (br_clients b) name of
        None \<Rightarrow> b
      | Some c \<Rightarrow> b\<lparr>br_clients := map_del name (br_clients b), br_calls := client_stop c (br_calls b)\<rparr>)"

definition stop_all ::
    "((string \<times> 'j client) list \<Rightarrow> (string \<times> 'j client) list) \<Rightarrow> 'j bridge \<Rightarrow> 'j bridge" where
  "stop_all order b =
     b\<lparr>br_clients := [], br_calls := fold (\<lambda>(name, c). client_stop c) (order (br_clients b)) (br_calls b)\<rparr>"

text \<open>What the processes do while the bridge waits.\<close>

definition bridge_outside :: "'j bridge_env \<Rightarrow> string \<times> outside \<Rightarrow> 'j bridge \<Rightarrow> 'j bridge" where
  "bridge_outside env = (\<lambda>(name, s) b.
     case map_of (br_clients b) name of
       Some (CliClient c) \<Rightarrow> b\<lparr>br_clients := map_put name (CliClient (cli_outside env s c)) (br_clients b)\<rparr>
     | _ \<Rightarrow> b)"

definition send_status :: "client_type \<Rightarrow> string \<Rightarrow> 'j bridge \<Rightarrow> 'j bridge \<times> (string + unit)" where
  "send_status t name b =
     (if supports_stdin_commands t then bridge_send_command name (text_of ''status'') b else (b, Inr ()))"

definition run_cross_client_test ::
    "'j bridge_env \<Rightarrow> (string \<times> outside) list \<Rightarrow> (string \<times> outside) list \<Rightarrow> client_type \<Rightarrow> client_type \<Rightarrow> 'j bridge
     \<Rightarrow> 'j bridge \<times> (string + unit)" where
  "run_cross_client_test env before during t1 t2 b =
     (case start_client env t1 ''client1'' b of
        (b1, Inl e) \<Rightarrow> (b1, Inl e)
      | (b1, Inr _) \<Rightarrow>
     (case start_client env t2 ''client2'' b1 of
        (b2, Inl e) \<Rightarrow> (b2, Inl e)
      | (b2, Inr _) \<Rightarrow>
     (case send_status t1 ''client1'' (fold (bridge_outside env) before b2) of
        (b3, Inl e) \<Rightarrow> (b3, Inl e)
      | (b3, Inr _) \<Rightarrow>
     (case send_status t2 ''client2'' b3 of
        (b4, Inl e) \<Rightarrow> (b4, Inl e)
      | (b4, Inr _) \<Rightarrow>
          (let (b5, alive1) = is_client_alive env ''client1'' (fold (bridge_outside env) during b4);
               (b6, alive2) = is_client_alive env ''client2'' b5
           in (b6, if \<not> alive1 \<or> \<not> alive2 then Inl ''One or more clients died during test'' else Inr ()))))))"

section \<open>A bridge in use\<close>

definition is_permutation_of :: "('a list \<Rightarrow> 'a list) \<Rightarrow> bool" where
  "is_permutation_of order \<longleftrightarrow> (\<forall>xs. set (order xs) = set xs)"

inductive bridge_step :: "'j bridge_env \<Rightarrow> 'j bridge \<Rightarrow> 'j bridge \<Rightarrow> bool" for env where
  starts: "bridge_step env b (fst (start_client env t name b))"
| sends: "bridge_step env b (fst (bridge_send_command name command b))"
| waits: "bridge_step env b (fst (bridge_wait arriving timer_wins name b))"
| asks: "bridge_step env b (fst (is_client_alive env name b))"
| stops: "bridge_step env b (stop_client name b)"
| stops_all: "is_permutation_of order \<Longrightarrow> bridge_step env b (stop_all order b)"
| lives: "bridge_step env b (bridge_outside env s b)"

text \<open>The processes that were started, and those a client of the bridge stands for.\<close>

definition spawned_by :: "'j bridge_env \<Rightarrow> host_call list \<Rightarrow> host_call \<Rightarrow> nat set" where
  "spawned_by env calls c =
     (case c of SpawnCli _ _ \<Rightarrow> if be_spawns env (calls @ [c]) then {spawned_count calls} else {} | _ \<Rightarrow> {})"

fun spawned_processes_after :: "'j bridge_env \<Rightarrow> host_call list \<Rightarrow> host_call list \<Rightarrow> nat set" where
  "spawned_processes_after env calls [] = {}"
| "spawned_processes_after env calls (c # cs) = spawned_by env calls c \<union> spawned_processes_after env (calls @ [c]) cs"

definition spawned_processes :: "'j bridge_env \<Rightarrow> host_call list \<Rightarrow> nat set" where
  "spawned_processes env calls = spawned_processes_after env [] calls"

definition client_process :: "'j client \<Rightarrow> nat option" where
  "client_process c = (case c of CliClient a \<Rightarrow> cli_process a | IosClient _ \<Rightarrow> None)"

definition held :: "(string \<times> 'j client) list \<Rightarrow> nat set" where
  "held clients = {n. \<exists>name c. map_of clients name = Some c \<and> client_process c = Some n}"

definition processes_accounted :: "'j bridge_env \<Rightarrow> 'j bridge \<Rightarrow> bool" where
  "processes_accounted env b \<longleftrightarrow> distinct (keys_of (br_clients b)) \<and>
     (\<forall>n \<in> spawned_processes env (br_calls b). KillCli n \<in> set (br_calls b) \<or> n \<in> held (br_clients b))"

section \<open>Lemmas\<close>

lemma spawned_processes_Nil [simp]: "spawned_processes env [] = {}"
  by (simp add: spawned_processes_def)

lemma spawned_processes_snoc: "spawned_processes env (calls @ [c]) = spawned_processes env calls \<union> spawned_by env calls c"
proof -
  have "spawned_processes_after env pre (calls @ [c]) = spawned_processes_after env pre calls \<union> spawned_by env (pre @ calls) c" for pre
    by (induction calls arbitrary: pre) (simp_all add: Un_assoc)
  from this [of "[]"] show ?thesis by (simp add: spawned_processes_def)
qed

lemma spawned_processes_other: "\<forall>c \<in> set cs. \<forall>name relay. c \<noteq> SpawnCli name relay \<Longrightarrow> spawned_processes env (calls @ cs) = spawned_processes env calls"
proof (induction cs rule: rev_induct)
  case (snoc c cs)
  then show ?case using spawned_processes_snoc [of env "calls @ cs" c] by (auto simp: spawned_by_def split: host_call.splits)
qed simp

lemma drop_process_eq: "drop_process p calls = calls @ (case p of None \<Rightarrow> [] | Some n \<Rightarrow> [KillCli n])"
  by (simp add: drop_process_def split: option.split)

text \<open>The calls that stopping a client makes.\<close>

definition stop_calls :: "'j client \<Rightarrow> host_call list" where
  "stop_calls c =
     (case c of
        CliClient a \<Rightarrow> (case cli_process a of None \<Rightarrow> [] | Some n \<Rightarrow> [KillCli n])
      | IosClient a \<Rightarrow> (case ios_simulator a of None \<Rightarrow> [] | Some i \<Rightarrow> shut_simulator (ios_bundle a) i))"

lemma client_stop_eq: "client_stop c calls = calls @ stop_calls c"
  by (cases c) (auto simp: client_stop_def cli_stop_def ios_stop_def drop_process_eq stop_calls_def split: option.split)

lemma stop_all_calls:
  "br_calls (stop_all order b) = br_calls b @ concat (map (stop_calls \<circ> snd) (order (br_clients b)))"
proof -
  have "fold (\<lambda>(name, c). client_stop c) xs calls = calls @ concat (map (stop_calls \<circ> snd) xs)" for xs calls
    by (induction xs arbitrary: calls) (auto simp: client_stop_eq)
  then show ?thesis by (simp add: stop_all_def)
qed

lemma stop_calls_no_spawn [simp]: "SpawnCli name relay \<notin> set (stop_calls c)"
  by (cases c) (auto simp: stop_calls_def shut_simulator_def split: option.split)

lemma xcrun_all_calls: "\<exists>cs. fst (xcrun_all env argss calls) = calls @ map Xcrun cs \<and> set cs \<subseteq> set argss"
proof (induction argss arbitrary: calls)
  case (Cons args argss)
  show ?case
  proof (cases "be_xcrun env (calls @ [Xcrun args])")
    case None
    then show ?thesis by (intro exI [of _ "[args]"]) (simp add: xcrun_def Let_def)
  next
    case (Some out)
    from Cons.IH [of "calls @ [Xcrun args]"] obtain cs where
      "fst (xcrun_all env argss (calls @ [Xcrun args])) = calls @ [Xcrun args] @ map Xcrun cs" "set cs \<subseteq> set argss"
      by auto
    with Some show ?thesis by (intro exI [of _ "args # cs"]) (auto simp: xcrun_def Let_def)
  qed
qed simp

declare xcrun_all.simps [simp del]

text \<open>The calls that ask \<^verbatim>\<open>simctl\<close> to end something.\<close>

definition ends_client :: "host_call \<Rightarrow> bool" where
  "ends_client c =
     (case c of
        SpawnCli _ _ \<Rightarrow> False
      | KillCli _ \<Rightarrow> True
      | Xcrun args \<Rightarrow> args ! 1 \<in> {text_of ''terminate'', text_of ''shutdown'', text_of ''delete''})"

lemma start_words:
  "w \<in> {''create'', ''boot'', ''install'', ''launch'', ''spawn''} \<Longrightarrow> \<not> ends_client (Xcrun (simctl (w # ws) @ is))"
  by (auto simp: ends_client_def simctl_def text_of_def)

lemma create_keeps: "\<not> ends_client (Xcrun (create_args c))"
  using start_words [of "''create''" _ "[]"] by (simp add: create_args_def)

lemma launch_keeps: "a \<in> set (launch_args c i) \<Longrightarrow> \<not> ends_client (Xcrun a)"
  using start_words [of "''boot''" "[]"] start_words [of "''install''" "[]"] start_words [of "''launch''" "[]"]
  by (auto simp: launch_args_def)

lemma ios_start_created:
  assumes "be_xcrun env (calls @ [Xcrun (create_args c)]) = Some out" and "xo_success out" and "utf8_valid (xo_stdout out)"
  shows "ios_start env calls c =
    (case xcrun_all env (launch_args c (trim (xo_stdout out))) (calls @ [Xcrun (create_args c)]) of
       (calls2, ok) \<Rightarrow> if ok then (calls2, c\<lparr>ios_simulator := Some (trim (xo_stdout out))\<rparr>, Inr ())
                      else (calls2, c, Inl ''xcrun''))"
  using assms by (auto simp: ios_start_def xcrun_def Let_def split: prod.split bool.split)

lemma ios_start_calls:
  "\<exists>cs. fst (ios_start env calls c) = calls @ map Xcrun cs \<and> (\<forall>a \<in> set cs. \<not> ends_client (Xcrun a))"
proof (cases "\<exists>out. be_xcrun env (calls @ [Xcrun (create_args c)]) = Some out \<and> xo_success out \<and> utf8_valid (xo_stdout out)")
  case True
  then obtain out where out: "be_xcrun env (calls @ [Xcrun (create_args c)]) = Some out" "xo_success out"
    "utf8_valid (xo_stdout out)" by blast
  let ?rest = "launch_args c (trim (xo_stdout out))"
  from xcrun_all_calls [of env ?rest "calls @ [Xcrun (create_args c)]"] obtain cs where
    cs: "fst (xcrun_all env ?rest (calls @ [Xcrun (create_args c)])) = calls @ map Xcrun (create_args c # cs)"
      "set cs \<subseteq> set ?rest" by auto
  then have "\<forall>a \<in> set (create_args c # cs). \<not> ends_client (Xcrun a)" using launch_keeps create_keeps by auto
  moreover have "fst (ios_start env calls c) = calls @ map Xcrun (create_args c # cs)"
    unfolding cs(1) [symmetric] ios_start_created [OF out] by (simp split: prod.split)
  ultimately show ?thesis by blast
next
  case False
  then have "fst (ios_start env calls c) = calls @ map Xcrun [create_args c]"
    by (auto simp: ios_start_def xcrun_def Let_def split: option.split)
  with create_keeps show ?thesis by (intro exI [of _ "[create_args c]"]) simp
qed

lemma cli_start_calls:
  "cli_start env calls (cli_client_new name relay) =
     (let calls2 = calls @ [SpawnCli name relay]
      in if be_spawns env calls2
         then (calls2, \<lparr>cli_name = name, cli_relay = relay, cli_stdin = Some ([], True), cli_events = Some [],
                 cli_process = Some (spawned_count calls)\<rparr>, Inr ())
         else (calls2, cli_client_new name relay, Inl ''Failed to start CLI client''))"
  by (simp add: cli_start_def cli_client_new_def drop_process_def Let_def)

subsection \<open>No process is lost\<close>

lemma client_process_simps [simp]:
  "client_process (CliClient a) = cli_process a" "client_process (IosClient i) = None"
  by (simp_all add: client_process_def)

lemma held_put_new: "client_process c = Some n \<Longrightarrow> n \<in> held (map_put name c clients)"
  unfolding held_def by (auto intro!: exI [of _ name])

lemma held_put_old:
  assumes "n \<in> held clients" and "\<And>c. map_of clients name = Some c \<Longrightarrow> client_process c \<noteq> Some n"
  shows "n \<in> held (map_put name c2 clients)" and "n \<in> held (map_del name clients)"
proof -
  from assms(1) obtain k c where k: "map_of clients k = Some c" "client_process c = Some n" by (auto simp: held_def)
  with assms(2) have "k \<noteq> name" by auto
  with k show "n \<in> held (map_put name c2 clients)" and "n \<in> held (map_del name clients)"
    unfolding held_def by (auto intro!: exI [of _ k])
qed

lemma held_put_same:
  assumes "map_of clients name = Some c" and "client_process c2 = client_process c" and "n \<in> held clients"
  shows "n \<in> held (map_put name c2 clients)"
  using assms by (cases "client_process c = Some n") (auto intro: held_put_new held_put_old)

text \<open>Calls that start nothing keep an account, if each process that is no longer held is killed by one of them.\<close>

lemma processes_accounted_extend:
  assumes "processes_accounted env b" and "distinct (keys_of clients)"
    and "\<forall>c \<in> set cs. \<forall>name relay. c \<noteq> SpawnCli name relay"
    and "\<And>n. n \<in> held (br_clients b) \<Longrightarrow> n \<in> held clients \<or> KillCli n \<in> set cs"
  shows "processes_accounted env (b\<lparr>br_clients := clients, br_calls := br_calls b @ cs\<rparr>)"
  using assms by (auto simp: processes_accounted_def spawned_processes_other)

lemma processes_accounted_put:
  assumes "processes_accounted env b" and "map_of (br_clients b) name = Some c" and "client_process c2 = client_process c"
  shows "processes_accounted env (b\<lparr>br_clients := map_put name c2 (br_clients b)\<rparr>)"
  using assms(1) held_put_same [OF assms(2,3)] by (auto simp: processes_accounted_def)

lemma processes_accounted_add:
  assumes "distinct (keys_of (br_clients b))"
    and "\<forall>n \<in> spawned_processes env (br_calls b). KillCli n \<in> set (br_calls b) \<or> n \<in> held (br_clients b) \<or> client_process c = Some n"
  shows "processes_accounted env (add_client name c b)"
proof -
  define cs where "cs = (case map_of (br_clients b) name of None \<Rightarrow> [] | Some c \<Rightarrow>
    (case client_process c of None \<Rightarrow> [] | Some n \<Rightarrow> [KillCli n]))"
  have calls: "br_calls (add_client name c b) = br_calls b @ cs"
    by (simp add: add_client_def drop_client_def drop_process_eq cs_def split: option.split client.split)
  have "spawned_processes env (br_calls b @ cs) = spawned_processes env (br_calls b)"
    by (rule spawned_processes_other) (auto simp: cs_def split: option.splits)
  moreover have "n \<in> held (map_put name c (br_clients b)) \<or> KillCli n \<in> set cs" if "n \<in> held (br_clients b)" for n
  proof (cases "\<exists>c. map_of (br_clients b) name = Some c \<and> client_process c = Some n")
    case True
    then show ?thesis by (auto simp: cs_def)
  next
    case False
    with held_put_old(1) [OF that] show ?thesis by blast
  qed
  ultimately show ?thesis
    using assms held_put_new [of c _ name "br_clients b"] unfolding processes_accounted_def calls by (auto simp: add_client_def)
qed

lemma processes_accounted_start:
  assumes "processes_accounted env b"
  shows "processes_accounted env (fst (start_client env t name b))"
proof (cases t)
  case ClientCli
  let ?calls = "br_calls b @ [SpawnCli name (br_relay b)]"
  have eq: "spawned_processes env ?calls = spawned_processes env (br_calls b) \<union>
      (if be_spawns env ?calls then {spawned_count (br_calls b)} else {})"
    by (simp add: spawned_processes_snoc spawned_by_def)
  show ?thesis
  proof (cases "be_spawns env ?calls")
    case True
    have "processes_accounted env (add_client name (CliClient \<lparr>cli_name = name, cli_relay = br_relay b, cli_stdin = Some ([], True),
        cli_events = Some [], cli_process = Some (spawned_count (br_calls b))\<rparr>) (b\<lparr>br_calls := ?calls\<rparr>))"
      using assms eq True by (intro processes_accounted_add) (auto simp: processes_accounted_def)
    with ClientCli True show ?thesis by (simp add: start_client_def cli_start_calls Let_def)
  next
    case False
    with assms eq ClientCli show ?thesis
      by (auto simp: start_client_def cli_start_calls Let_def processes_accounted_def)
  qed
next
  case ClientIos
  obtain calls c r where r: "ios_start env (br_calls b) (ios_client_new name (br_relay b)) = (calls, c, r)"
    by (cases "ios_start env (br_calls b) (ios_client_new name (br_relay b))") auto
  from ios_start_calls [of env "br_calls b" "ios_client_new name (br_relay b)"] obtain cs where
    cs: "calls = br_calls b @ map Xcrun cs" unfolding r by auto
  have "spawned_processes env calls = spawned_processes env (br_calls b)" unfolding cs by (rule spawned_processes_other) auto
  with assms have acc: "distinct (keys_of (br_clients b))"
    "\<forall>n \<in> spawned_processes env calls. KillCli n \<in> set calls \<or> n \<in> held (br_clients b)"
    by (auto simp: processes_accounted_def cs)
  then have "processes_accounted env (add_client name (IosClient c) (b\<lparr>br_calls := calls\<rparr>))"
    by (intro processes_accounted_add) auto
  moreover have "processes_accounted env (b\<lparr>br_calls := calls\<rparr>)" using acc by (simp add: processes_accounted_def)
  ultimately show ?thesis using ClientIos by (simp add: start_client_def r split: sum.split)
qed (use assms in \<open>simp_all add: start_client_def\<close>)

lemma cli_outside_process [simp]: "cli_process (cli_outside env s c) = cli_process c"
  by (auto simp: cli_outside_def split: outside.splits option.splits list.splits prod.splits bool.splits)

lemma processes_accounted_send:
  assumes "processes_accounted env b"
  shows "processes_accounted env (fst (bridge_send_command name command b))"
proof (cases "map_of (br_clients b) name")
  case (Some c)
  show ?thesis
  proof (cases c)
    case (CliClient a)
    have "cli_process (fst (cli_send_command command a)) = cli_process a"
      by (simp add: cli_send_command_def split: option.split prod.split)
    with processes_accounted_put [OF assms Some, of "CliClient (fst (cli_send_command command a))"] show ?thesis
      using Some CliClient by (simp add: bridge_send_command_def case_prod_beta)
  next
    case (IosClient a)
    with processes_accounted_put [OF assms Some, of "IosClient a"] Some show ?thesis
      by (simp add: bridge_send_command_def ios_send_command_def)
  qed
qed (use assms in \<open>simp add: bridge_send_command_def\<close>)

lemma processes_accounted_wait:
  assumes "processes_accounted env b"
  shows "processes_accounted env (fst (bridge_wait arriving timer_wins name b))"
proof (cases "map_of (br_clients b) name")
  case (Some c)
  show ?thesis
  proof (cases c)
    case (CliClient a)
    have "cli_process (fst (cli_wait arriving timer_wins a)) = cli_process a"
      by (simp add: cli_wait_def split: option.split list.split)
    with processes_accounted_put [OF assms Some, of "CliClient (fst (cli_wait arriving timer_wins a))"] show ?thesis
      using Some CliClient by (simp add: bridge_wait_def case_prod_beta)
  qed (use Some assms in \<open>simp add: bridge_wait_def\<close>)
qed (use assms in \<open>simp add: bridge_wait_def\<close>)

lemma processes_accounted_alive:
  assumes "processes_accounted env b"
  shows "processes_accounted env (fst (is_client_alive env name b))"
proof -
  have "fst (is_client_alive env name b) = b \<or>
      (\<exists>args. fst (is_client_alive env name b) = b\<lparr>br_clients := br_clients b, br_calls := br_calls b @ [Xcrun args]\<rparr>)"
    by (auto simp: is_client_alive_def ios_is_alive_def xcrun_def Let_def split: option.split client.split)
  then show ?thesis
    using assms by (auto simp: processes_accounted_def spawned_processes_other)
qed

lemma processes_accounted_stop:
  assumes "processes_accounted env b"
  shows "processes_accounted env (stop_client name b)"
proof (cases "map_of (br_clients b) name")
  case (Some c)
  have "processes_accounted env (b\<lparr>br_clients := map_del name (br_clients b), br_calls := br_calls b @ stop_calls c\<rparr>)"
  proof (rule processes_accounted_extend [OF assms])
    show "distinct (keys_of (map_del name (br_clients b)))" using assms by (simp add: processes_accounted_def)
    show "\<forall>c' \<in> set (stop_calls c). \<forall>name relay. c' \<noteq> SpawnCli name relay" by (metis stop_calls_no_spawn)
    show "n \<in> held (map_del name (br_clients b)) \<or> KillCli n \<in> set (stop_calls c)" if "n \<in> held (br_clients b)" for n
    proof (cases "client_process c = Some n")
      case True
      then show ?thesis by (cases c) (auto simp: stop_calls_def)
    next
      case False
      with held_put_old(2) [OF that, of name] Some show ?thesis by auto
    qed
  qed
  with Some show ?thesis by (simp add: stop_client_def client_stop_eq)
qed (use assms in \<open>simp add: stop_client_def\<close>)

lemma processes_accounted_stop_all:
  assumes "processes_accounted env b" and "is_permutation_of order"
  shows "processes_accounted env (stop_all order b)"
proof -
  have "processes_accounted env (b\<lparr>br_clients := [], br_calls := br_calls b @ concat (map (stop_calls \<circ> snd) (order (br_clients b)))\<rparr>)"
  proof (rule processes_accounted_extend [OF assms(1)])
    show "\<forall>c' \<in> set (concat (map (stop_calls \<circ> snd) (order (br_clients b)))). \<forall>name relay. c' \<noteq> SpawnCli name relay"
      using stop_calls_no_spawn by auto
    show "n \<in> held [] \<or> KillCli n \<in> set (concat (map (stop_calls \<circ> snd) (order (br_clients b))))"
      if "n \<in> held (br_clients b)" for n
    proof -
      from that obtain name c where c: "(name, c) \<in> set (order (br_clients b))" "client_process c = Some n"
        using assms(2) by (auto simp: held_def is_permutation_of_def dest: map_of_SomeD)
      then have "KillCli n \<in> set (stop_calls c)" by (cases c) (auto simp: stop_calls_def)
      with c(1) show ?thesis by force
    qed
  qed simp
  moreover have "stop_all order b =
      b\<lparr>br_clients := [], br_calls := br_calls b @ concat (map (stop_calls \<circ> snd) (order (br_clients b)))\<rparr>"
    using stop_all_calls [of order b] by (simp add: stop_all_def)
  ultimately show ?thesis by simp
qed

lemma processes_accounted_outside:
  assumes "processes_accounted env b"
  shows "processes_accounted env (bridge_outside env s b)"
  using assms by (auto simp: bridge_outside_def intro!: processes_accounted_put split: option.split client.split prod.split)

lemmas processes_accounted_ops = processes_accounted_start processes_accounted_send processes_accounted_wait
  processes_accounted_alive processes_accounted_stop processes_accounted_stop_all processes_accounted_outside

lemma processes_accounted_step: "bridge_step env b b' \<Longrightarrow> processes_accounted env b \<Longrightarrow> processes_accounted env b'"
  by (induction rule: bridge_step.induct) (auto intro: processes_accounted_ops)

interpretation bridge: invariant_system "\<lambda>b. \<exists>relay. b = bridge_new relay" "bridge_step env" "processes_accounted env" for env
  by unfold_locales (auto simp: bridge_new_def processes_accounted_def [of _ "\<lparr>br_relay = _, br_clients = _, br_calls = _\<rparr>"] intro: processes_accounted_step)

subsection \<open>The test of two clients\<close>

definition keeps_clients :: "host_call list \<Rightarrow> host_call list \<Rightarrow> bool" where
  "keeps_clients calls calls2 \<longleftrightarrow> (\<exists>cs. calls2 = calls @ cs \<and> (\<forall>c \<in> set cs. \<not> ends_client c))"

lemma keeps_clients_refl [simp]: "keeps_clients calls calls"
  by (simp add: keeps_clients_def)

lemma keeps_clients_trans: "keeps_clients x y \<Longrightarrow> keeps_clients y z \<Longrightarrow> keeps_clients x z"
  by (fastforce simp: keeps_clients_def)

lemma start_client_other [simp]:
  "m \<noteq> name \<Longrightarrow> map_of (br_clients (fst (start_client env t name b))) m = map_of (br_clients b) m"
  by (auto simp: start_client_def add_client_def split: client_type.split prod.split sum.split)

lemma start_client_keeps:
  assumes "map_of (br_clients b) name = None"
  shows "keeps_clients (br_calls b) (br_calls (fst (start_client env t name b)))"
proof (cases t)
  case ClientCli
  with assms show ?thesis
    by (auto simp: start_client_def cli_start_calls Let_def add_client_def drop_client_def keeps_clients_def ends_client_def)
next
  case ClientIos
  obtain calls c r where r: "ios_start env (br_calls b) (ios_client_new name (br_relay b)) = (calls, c, r)"
    by (cases "ios_start env (br_calls b) (ios_client_new name (br_relay b))") auto
  from ios_start_calls [of env "br_calls b" "ios_client_new name (br_relay b)"]
  have "keeps_clients (br_calls b) calls" by (auto simp: r keeps_clients_def)
  with ClientIos assms show ?thesis
    by (simp add: start_client_def r add_client_def drop_client_def split: sum.split)
qed (simp_all add: start_client_def)

lemma outside_calls [simp]: "br_calls (bridge_outside env s b) = br_calls b"
  by (simp add: bridge_outside_def split: prod.split option.split client.split)

lemma fold_outside_calls [simp]: "br_calls (fold (bridge_outside env) ss b) = br_calls b"
  by (induction ss arbitrary: b) auto

lemma send_status_calls [simp]: "br_calls (fst (send_status t name b)) = br_calls b"
  by (auto simp: send_status_def bridge_send_command_def split: prod.split option.split client.split)

lemma alive_keeps: "keeps_clients (br_calls b) (br_calls (fst (is_client_alive env name b)))"
proof -
  have spawn: "\<not> ends_client (Xcrun (simctl [''spawn''] @ is))" for "is" using start_words by blast
  show ?thesis
    using spawn by (auto simp: is_client_alive_def ios_is_alive_def xcrun_def Let_def keeps_clients_def
        split: option.split client.split)
qed

text \<open>A command line client of the bridge that was started and whose input is open and empty.\<close>

definition cli_ready :: "string \<Rightarrow> 'j bridge \<Rightarrow> bool" where
  "cli_ready name b \<longleftrightarrow>
     (\<exists>c. map_of (br_clients b) name = Some (CliClient c) \<and> cli_process c \<noteq> None \<and> cli_stdin c = Some ([], True))"

definition cli_held :: "string \<Rightarrow> 'j bridge \<Rightarrow> bool" where
  "cli_held name b \<longleftrightarrow> (\<exists>c. map_of (br_clients b) name = Some (CliClient c) \<and> cli_process c \<noteq> None)"

lemma cli_ready_held: "cli_ready name b \<Longrightarrow> cli_held name b"
  by (auto simp: cli_ready_def cli_held_def)

lemma cli_outside_ready: "cli_stdin c = Some ([], True) \<Longrightarrow> cli_stdin (cli_outside env s c) = Some ([], True)"
  by (auto simp: cli_outside_def split: outside.split option.split)

lemma outside_keeps_once:
  "cli_ready name b \<Longrightarrow> cli_ready name (bridge_outside env s b)"
  "cli_held name b \<Longrightarrow> cli_held name (bridge_outside env s b)"
  by (auto simp: cli_ready_def cli_held_def bridge_outside_def cli_outside_ready
      split: prod.split option.split client.split)

lemma outside_keeps:
  "cli_ready name b \<Longrightarrow> cli_ready name (fold (bridge_outside env) ss b)"
  "cli_held name b \<Longrightarrow> cli_held name (fold (bridge_outside env) ss b)"
  by (induction ss arbitrary: b) (simp_all add: outside_keeps_once)

lemma start_cli_ready:
  assumes "be_spawns env (br_calls b @ [SpawnCli name (br_relay b)])"
  shows "snd (start_client env ClientCli name b) = Inr ()"
    and "cli_ready name (fst (start_client env ClientCli name b))"
  using assms by (simp_all add: start_client_def cli_start_calls Let_def add_client_def cli_ready_def)

lemma start_keeps_ready: "m \<noteq> name \<Longrightarrow> cli_ready m b \<Longrightarrow> cli_ready m (fst (start_client env t name b))"
  by (simp add: cli_ready_def)

lemma status_sent:
  assumes "cli_ready name b"
  shows "snd (send_status ClientCli name b) = Inr ()" and "cli_held name (fst (send_status ClientCli name b))"
    and "m \<noteq> name \<Longrightarrow> cli_ready m b \<Longrightarrow> cli_ready m (fst (send_status ClientCli name b))"
    and "m \<noteq> name \<Longrightarrow> cli_held m b \<Longrightarrow> cli_held m (fst (send_status ClientCli name b))"
  using assms by (auto simp: send_status_def supports_stdin_commands_def bridge_send_command_def cli_send_command_def
      cli_ready_def cli_held_def)

lemma held_alive: "cli_held name b \<Longrightarrow> is_client_alive env name b = (b, True)"
  by (auto simp: cli_held_def is_client_alive_def cli_is_alive_def)

section \<open>Properties\<close>

text \<open>The three classifications of clients agree, and a pair is tested within one framework exactly if both or none of its
  clients need an emulator.\<close>

theorem client_kinds_agree:
  shows "supports_scenario_runner t = supports_stdin_commands t" and "requires_emulator t = (\<not> supports_stdin_commands t)"
    and "(\<exists>f. client_testing_strategy p = SingleFramework f) \<longleftrightarrow>
      requires_emulator (cp_client1 p) = requires_emulator (cp_client2 p)"
proof -
  show "supports_scenario_runner t = supports_stdin_commands t" and "requires_emulator t = (\<not> supports_stdin_commands t)"
    by (cases t; simp add: supports_scenario_runner_def supports_stdin_commands_def requires_emulator_def)+
  show "(\<exists>f. client_testing_strategy p = SingleFramework f) \<longleftrightarrow>
      requires_emulator (cp_client1 p) = requires_emulator (cp_client2 p)"
    by (cases "cp_client1 p"; cases "cp_client2 p")
      (simp_all add: client_testing_strategy_def client_framework_def requires_emulator_def)
qed

text \<open>However a bridge is used, no command line client is lost: every process it started has been killed or belongs to a
  client it holds; and stopping all clients kills every process that is still there.\<close>

theorem bridge_loses_no_process:
  assumes "reachable (\<lambda>b. \<exists>relay. b = bridge_new relay) (bridge_step env) b"
  shows "n \<in> spawned_processes env (br_calls b) \<Longrightarrow> KillCli n \<in> set (br_calls b) \<or> n \<in> held (br_clients b)"
    and "is_permutation_of order \<Longrightarrow> n \<in> spawned_processes env (br_calls b) \<Longrightarrow> KillCli n \<in> set (br_calls (stop_all order b))"
proof -
  have acc: "processes_accounted env b" by (rule bridge.invar_reachable [OF assms])
  then show "n \<in> spawned_processes env (br_calls b) \<Longrightarrow> KillCli n \<in> set (br_calls b) \<or> n \<in> held (br_clients b)"
    by (auto simp: processes_accounted_def)
  assume order: "is_permutation_of order" and n: "n \<in> spawned_processes env (br_calls b)"
  have "processes_accounted env (stop_all order b)" by (rule processes_accounted_step [OF stops_all [OF order] acc])
  moreover have "n \<in> spawned_processes env (br_calls (stop_all order b))"
    using n by (simp add: stop_all_calls) (subst spawned_processes_other; auto)
  ultimately show "KillCli n \<in> set (br_calls (stop_all order b))"
    by (auto simp: processes_accounted_def stop_all_def held_def)
qed

text \<open>A simulator is lost: when it was created and booting it cannot be run, starting the client fails, the bridge does not
  hold it, and stopping all clients deletes nothing.\<close>

theorem simulator_lost:
  assumes "br_clients b = []" and "be_xcrun env (br_calls b @ [Xcrun (create_args (ios_client_new name (br_relay b)))]) = Some out"
    and "xo_success out" and "utf8_valid (xo_stdout out)"
    and "be_xcrun env (br_calls b @ [Xcrun (create_args (ios_client_new name (br_relay b))),
      Xcrun (simctl [''boot''] @ [trim (xo_stdout out)])]) = None"
  shows "\<exists>b2 e. start_client env ClientIos name b = (b2, Inl e) \<and> (\<forall>order. order [] = [] \<longrightarrow> stop_all order b2 = b2)"
proof -
  let ?c = "ios_client_new name (br_relay b)"
  have "xcrun_all env (launch_args ?c (trim (xo_stdout out))) (br_calls b @ [Xcrun (create_args ?c)]) =
      (br_calls b @ [Xcrun (create_args ?c), Xcrun (simctl [''boot''] @ [trim (xo_stdout out)])], False)"
    using assms(5) by (simp add: launch_args_def xcrun_all.simps xcrun_def Let_def)
  with ios_start_created [OF assms(2-4)] show ?thesis
    using assms(1) by (auto simp: start_client_def stop_all_def)
qed

text \<open>Two command line clients pass the test whenever they can be started, whatever they do afterwards: a client that
  has ended counts as alive.\<close>

theorem cross_test_ignores_death:
  assumes "be_spawns env (br_calls b @ [SpawnCli ''client1'' (br_relay b)])"
    and "be_spawns env (br_calls (fst (start_client env ClientCli ''client1'' b)) @
      [SpawnCli ''client2'' (br_relay (fst (start_client env ClientCli ''client1'' b)))])"
  shows "snd (run_cross_client_test env before during ClientCli ClientCli b) = Inr ()"
proof -
  define b1 where "b1 = fst (start_client env ClientCli ''client1'' b)"
  define b2 where "b2 = fst (start_client env ClientCli ''client2'' b1)"
  define w where "w = fold (bridge_outside env) before b2"
  define b3 where "b3 = fst (send_status ClientCli ''client1'' w)"
  define b4 where "b4 = fst (send_status ClientCli ''client2'' b3)"
  define v where "v = fold (bridge_outside env) during b4"
  have s1: "start_client env ClientCli ''client1'' b = (b1, Inr ())" "cli_ready ''client1'' b1"
    using start_cli_ready [OF assms(1)] by (auto simp: b1_def prod_eq_iff)
  have s2: "start_client env ClientCli ''client2'' b1 = (b2, Inr ())" "cli_ready ''client2'' b2"
    using start_cli_ready [OF assms(2) [folded b1_def]] by (auto simp: b2_def prod_eq_iff)
  have "cli_ready ''client1'' b2" using start_keeps_ready [OF _ s1(2)] by (simp add: b2_def)
  then have w: "cli_ready ''client1'' w" "cli_ready ''client2'' w"
    unfolding w_def using s2(2) by (auto intro: outside_keeps)
  have s3: "send_status ClientCli ''client1'' w = (b3, Inr ())" "cli_held ''client1'' b3" "cli_ready ''client2'' b3"
    using status_sent(1,2) [OF w(1)] status_sent(3) [OF w(1) _ w(2)] by (auto simp: b3_def prod_eq_iff)
  have s4: "send_status ClientCli ''client2'' b3 = (b4, Inr ())" "cli_held ''client1'' b4" "cli_held ''client2'' b4"
    using status_sent(1,2) [OF s3(3)] status_sent(4) [OF s3(3) _ s3(2)] by (auto simp: b4_def prod_eq_iff)
  have "cli_held ''client1'' v" "cli_held ''client2'' v"
    unfolding v_def using s4 by (auto intro: outside_keeps)
  then show ?thesis
    by (simp add: run_cross_client_test_def s1(1) s2(1) s3(1) s4(1) held_alive flip: w_def v_def)
qed

text \<open>The test ends none of the clients it has started, whatever its result: the calls it makes of a bridge without
  clients neither kill a process nor end a simulator.\<close>

theorem cross_test_ends_nothing:
  assumes "br_clients b = []" and "run_cross_client_test env before during t1 t2 b = (b2, r)"
  shows "\<exists>cs. br_calls b2 = br_calls b @ cs \<and> (\<forall>c \<in> set cs. \<not> ends_client c)"
proof -
  define c1 where "c1 = fst (start_client env t1 ''client1'' b)"
  define c2 where "c2 = fst (start_client env t2 ''client2'' c1)"
  have k1: "keeps_clients (br_calls b) (br_calls c1)"
    unfolding c1_def by (rule start_client_keeps) (simp add: assms(1))
  have "map_of (br_clients c1) ''client2'' = None" by (simp add: c1_def assms(1))
  then have k2: "keeps_clients (br_calls b) (br_calls c2)"
    unfolding c2_def by (intro keeps_clients_trans [OF k1] start_client_keeps)
  have k3: "br_calls x = br_calls c2 \<Longrightarrow> keeps_clients (br_calls b)
      (br_calls (fst (is_client_alive env n2 (fst (is_client_alive env n1 x)))))" for x n1 n2
    using k2 by (metis alive_keeps keeps_clients_trans)
  have "br_calls b2 = br_calls c1 \<or> br_calls b2 = br_calls c2 \<or>
      (\<exists>x. br_calls x = br_calls c2 \<and>
        br_calls b2 = br_calls (fst (is_client_alive env ''client2'' (fst (is_client_alive env ''client1'' x)))))"
  proof -
    obtain r1 where r1: "start_client env t1 ''client1'' b = (c1, r1)" unfolding c1_def by (metis prod.collapse)
    obtain r2 where r2: "start_client env t2 ''client2'' c1 = (c2, r2)" unfolding c2_def by (metis prod.collapse)
    obtain c3 r3 where r3: "send_status t1 ''client1'' (fold (bridge_outside env) before c2) = (c3, r3)" by fastforce
    obtain c4 r4 where r4: "send_status t2 ''client2'' c3 = (c4, r4)" by fastforce
    have same: "br_calls c3 = br_calls c2" "br_calls c4 = br_calls c2"
      using send_status_calls [of t1 "''client1''" "fold (bridge_outside env) before c2"]
        send_status_calls [of t2 "''client2''" c3] by (simp_all add: r3 r4)
    then have "br_calls (fold (bridge_outside env) during c4) = br_calls c2" by simp
    with same show ?thesis using assms(2)
      by (fastforce simp: run_cross_client_test_def r1 r2 r3 r4 case_prod_beta split: sum.splits)
  qed
  with k1 k2 k3 have "keeps_clients (br_calls b) (br_calls b2)" by metis
  then show ?thesis by (simp add: keeps_clients_def)
qed

section \<open>Witnesses\<close>

text \<open>Every process starts; creating a simulator works, booting it does not.\<close>

definition toy_host :: "unit bridge_env" where
  "toy_host =
     \<lparr>be_spawns = (\<lambda>calls. True),
      be_xcrun = (\<lambda>calls. if length calls = 1 then Some \<lparr>xo_success = True, xo_stdout = [65, 49]\<rparr> else None),
      be_parse_json = (\<lambda>line. Some ())\<rparr>"

theorem bridge_loses_no_process_witness:
  "KillCli 0 \<in> set (br_calls (stop_all id (fst (start_client toy_host ClientCli ''a'' (bridge_new ''r'')))))"
proof (rule bridge_loses_no_process(2))
  show "reachable (\<lambda>b. \<exists>relay. b = bridge_new relay) (bridge_step toy_host)
      (fst (start_client toy_host ClientCli ''a'' (bridge_new ''r'')))"
    by (rule reach_step [OF reach_start]) (auto intro: starts)
  show "is_permutation_of id" by (simp add: is_permutation_of_def)
  show "0 \<in> spawned_processes toy_host (br_calls (fst (start_client toy_host ClientCli ''a'' (bridge_new ''r''))))"
    by (simp add: start_client_def cli_start_calls Let_def toy_host_def add_client_def drop_client_def bridge_new_def
        spawned_processes_def spawned_by_def spawned_count_def)
qed

theorem simulator_lost_witness: "\<exists>b2 e. start_client toy_host ClientIos ''a'' (bridge_new ''r'') = (b2, Inl e)"
  using simulator_lost [of "bridge_new ''r''" toy_host "''a''" "\<lparr>xo_success = True, xo_stdout = [65, 49]\<rparr>"]
  by (auto simp: toy_host_def bridge_new_def utf8_valid_ascii)

theorem cross_test_ignores_death_witness:
  "snd (run_cross_client_test toy_host [] [(''client1'', InputGone)] ClientCli ClientCli (bridge_new ''r'')) = Inr ()"
  by (rule cross_test_ignores_death) (simp_all add: toy_host_def)

end
