(* ===== verification/Statistics.thy ===== *)
theory Statistics
  imports Complex_Main Delivery File_Transfer Deduplication Connection Announce
begin

text \<open>
  The figures the components compute from their state: rates, averages, the progress of a transfer, the sizing of
  a Bloom filter (\<^verbatim>\<open>protocol/delivery.rs\<close>, \<^verbatim>\<open>protocol/file_transfer.rs\<close>, \<^verbatim>\<open>protocol/deduplication.rs\<close> of the core,
  \<^verbatim>\<open>managers/delivery.rs\<close> and \<^verbatim>\<open>managers/connection.rs\<close> of the runtime).

  The code computes them in floating point; here quotients are rational and expressions with logarithms real numbers.
  Rounding is not represented, and a conversion to \<^verbatim>\<open>usize\<close> gives zero for what is negative or, like the quotient of two
  zeros, not a number. \<^verbatim>\<open>hex::encode\<close> is an argument.
\<close>

section \<open>Delivery\<close>

definition ratio :: "nat \<Rightarrow> nat \<Rightarrow> rat" where
  "ratio a b = (if b = 0 then 0 else of_nat a / of_nat b)"

definition stats_success_rate :: "delivery_stats \<Rightarrow> rat" where
  "stats_success_rate s =
     (let completed = ds_confirmed s + ds_failed s + ds_cancelled s
      in if completed = 0 then 0 else of_nat (unat (ds_confirmed s)) / of_nat (unat completed))"

definition stats_average_attempts :: "delivery_stats \<Rightarrow> rat" where
  "stats_average_attempts s =
     (if ds_total s = 0 then 0 else of_nat (unat (ds_total_attempts s)) / of_nat (unat (ds_total s)))"

definition read_rate :: "enhanced_stats \<Rightarrow> rat" where
  "read_rate s =
     (if es_delivered_count s = 0 then 0 else of_nat (es_read_count s) / of_nat (es_delivered_count s))"

definition delivery_confirmation_rate :: "enhanced_stats \<Rightarrow> rat" where
  "delivery_confirmation_rate s =
     (if ds_sent (es_basic s) = 0 then 0 else of_nat (es_delivered_count s) / of_nat (unat (ds_sent (es_basic s))))"

definition runtime_success_rate :: "delivery_statistics \<Rightarrow> rat" where
  "runtime_success_rate s =
     (if dst_total_messages s = 0 then 0
      else of_nat (unat (dst_confirmed s)) / of_nat (unat (dst_total_messages s)))"

definition runtime_failure_rate :: "delivery_statistics \<Rightarrow> rat" where
  "runtime_failure_rate s =
     (if dst_total_messages s = 0 then 0
      else of_nat (unat (dst_failed s)) / of_nat (unat (dst_total_messages s)))"

definition runtime_average_attempts :: "delivery_statistics \<Rightarrow> rat" where
  "runtime_average_attempts s =
     (if dst_total_messages s = 0 then 0
      else of_nat (unat (dst_total_attempts s)) / of_nat (unat (dst_total_messages s)))"

section \<open>File transfer and connections\<close>

definition session_progress :: "file_session \<Rightarrow> rat" where
  "session_progress s =
     (if fs_total_chunks s = 0 then 1
      else of_nat (length (filter (\<lambda>received. received) (fs_chunks_received s))) / of_nat (unat (fs_total_chunks s)))"

definition connected_percentage :: "state_distribution \<Rightarrow> rat" where
  "connected_percentage d =
     (if distribution_total d = 0 then 0 else of_nat (sd_connected d) / of_nat (distribution_total d) * 100)"

definition get_quality_scores :: "timestamp \<Rightarrow> connection_manager \<Rightarrow> (peer_id \<times> u8) list" where
  "get_quality_scores now cm = map (\<lambda>(pid, s). (pid, quality_score now s)) (cm_connections cm)"

definition discovered_fingerprint :: "(bytes \<Rightarrow> bytes) \<Rightarrow> (bytes \<Rightarrow> rust_string) \<Rightarrow> discovered_peer \<Rightarrow> rust_string" where
  "discovered_fingerprint sha256 hex_encode p = hex_encode (generate_fingerprint sha256 (dp_noise_public_key p))"

section \<open>Deduplication\<close>

definition duplicate_rate :: "deduplication_stats \<Rightarrow> rat" where
  "duplicate_rate s =
     (if packets_processed s = 0 then 0
      else of_nat (unat (duplicates_detected s)) / of_nat (unat (packets_processed s)))"

definition stats_false_positive_rate :: "deduplication_stats \<Rightarrow> rat" where
  "stats_false_positive_rate s =
     (if duplicates_detected s = 0 then 0
      else of_nat (unat (false_positives s)) / of_nat (unat (duplicates_detected s)))"

definition optimal_bit_size :: "nat \<Rightarrow> real \<Rightarrow> nat" where
  "optimal_bit_size n p = nat \<lceil>- (of_nat n * ln p) / (ln 2)\<^sup>2\<rceil>"

text \<open>\<^verbatim>\<open>f64::round\<close> of a number that is not negative.\<close>

definition optimal_hash_functions :: "nat \<Rightarrow> nat \<Rightarrow> nat" where
  "optimal_hash_functions bit_size n = nat \<lfloor>of_nat bit_size / of_nat n * ln (2 :: real) + 1 / 2\<rfloor>"

text \<open>The function that the model of the manager takes as an argument.\<close>

definition mesh_sizing :: "nat \<Rightarrow> real \<Rightarrow> nat \<times> nat" where
  "mesh_sizing n p = (let m = optimal_bit_size n p in (m, optimal_hash_functions m n))"

definition estimated_false_positive_rate :: "bloom_filter \<Rightarrow> nat \<Rightarrow> real" where
  "estimated_false_positive_rate f elements_added =
     (let m = of_nat (bf_bit_size f); k = of_nat (bf_hash_functions f); n = of_nat elements_added;
          exponent = - (k * n) / m
      in (1 - exp exponent) powr k)"

section \<open>Lemmas\<close>

lemma quotient_bounds: "a \<le> b \<Longrightarrow> 0 \<le> ratio a b \<and> ratio a b \<le> 1"
  by (simp add: ratio_def)

definition with_status :: "delivery_status \<Rightarrow> 'u tracked_message list \<Rightarrow> nat" where
  "with_status st ms = length (filter (\<lambda>m. tm_status m = st) ms)"

lemma with_status_simps [simp]:
  "with_status st [] = 0"
  "with_status st (m # ms) = (if tm_status m = st then 1 else 0) + with_status st ms"
  by (simp_all add: with_status_def)

lemma with_status_le: "with_status DsConfirmed ms + with_status DsFailed ms + with_status DsCancelled ms \<le> length ms"
  by (induction ms) auto

lemma with_status_finished:
  "length (filter finished ms) = with_status DsConfirmed ms + with_status DsFailed ms + with_status DsCancelled ms"
  by (induction ms) (auto simp: finished_def)

lemma fold_count_message:
  "ds_total (fold count_message ms s) = ds_total s + of_nat (length ms)"
  "ds_sent (fold count_message ms s) = ds_sent s + of_nat (with_status DsSent ms)"
  "ds_confirmed (fold count_message ms s) = ds_confirmed s + of_nat (with_status DsConfirmed ms)"
  "ds_failed (fold count_message ms s) = ds_failed s + of_nat (with_status DsFailed ms)"
  "ds_cancelled (fold count_message ms s) = ds_cancelled s + of_nat (with_status DsCancelled ms)"
  by (induction ms arbitrary: s) (auto simp: count_message_def Let_def split: delivery_status.splits)

lemma tracker_get_stats_eq:
  "ds_sent (tracker_get_stats t) = of_nat (with_status DsSent (map snd (dt_messages t)))"
  "ds_confirmed (tracker_get_stats t) = of_nat (with_status DsConfirmed (map snd (dt_messages t)))"
  "ds_failed (tracker_get_stats t) = of_nat (with_status DsFailed (map snd (dt_messages t)))"
  "ds_cancelled (tracker_get_stats t) = of_nat (with_status DsCancelled (map snd (dt_messages t)))"
  by (simp_all add: tracker_get_stats_def fold_count_message delivery_stats_default_def)

lemma fold_statistics_count:
  "dst_confirmed (fold statistics_count ms s) = dst_confirmed s + of_nat (with_status DsConfirmed ms)"
  "dst_failed (fold statistics_count ms s) = dst_failed s + of_nat (with_status DsFailed ms)"
  by (induction ms arbitrary: s) (auto simp: statistics_count_def Let_def split: delivery_status.splits)

lemma unat_small_u32: "n < 2 ^ 32 \<Longrightarrow> unat (of_nat n :: u32) = n"
  by (simp add: unat_of_nat)

lemma ratio_u32:
  assumes "a \<le> b" and "b < 2 ^ 32"
  shows "(if (of_nat b :: u32) = 0 then 0 else of_nat (unat (of_nat a :: u32)) / of_nat (unat (of_nat b :: u32))) =
    ratio a b"
proof -
  have "unat (of_nat b :: u32) = b" "unat (of_nat a :: u32) = a"
    using assms by (simp_all only: unat_small_u32 le_less_trans)
  moreover from this(1) have "(of_nat b :: u32) = 0 \<longleftrightarrow> b = 0" by (simp flip: unat_eq_zero)
  ultimately show ?thesis by (simp add: ratio_def del: of_nat_unat)
qed

lemma unat_small_u64: "n < 2 ^ 64 \<Longrightarrow> unat (of_nat n :: u64) = n"
  by (simp add: unat_of_nat)

definition in_connected_state :: "connection_state \<Rightarrow> bool" where
  "in_connected_state s = (case s of Connected _ \<Rightarrow> True | _ \<Rightarrow> False)"

lemma count_connections_total: "distribution_total (count_connections ss) = length ss"
  by (induction ss) (auto simp: distribution_total_def Let_def split: connection_state.splits)

lemma count_connections_connected:
  "sd_connected (count_connections ss) = length (filter in_connected_state ss)"
  by (induction ss) (auto simp: in_connected_state_def Let_def split: connection_state.splits)

text \<open>The statistics of the deduplication manager after an operation.\<close>

lemma rotate_stats [simp]:
  "packets_processed (dd_stats (rotate_if_needed sizing t0 t1 m)) = packets_processed (dd_stats m)"
  "duplicates_detected (dd_stats (rotate_if_needed sizing t0 t1 m)) = duplicates_detected (dd_stats m)"
  "false_positives (dd_stats (rotate_if_needed sizing t0 t1 m)) = false_positives (dd_stats m)"
  by (simp_all add: rotate_if_needed_def rotate_filters_def)

lemma maintain_stats:
  "packets_processed (dd_stats (maintain sizing t0 t1 t2 m)) = packets_processed (dd_stats m)"
  "duplicates_detected (dd_stats (maintain sizing t0 t1 t2 m)) = duplicates_detected (dd_stats m)"
  "false_positives (dd_stats (maintain sizing t0 t1 t2 m)) = false_positives (dd_stats m)"
  by (simp_all add: maintain_def drop_expired_secondary_def split: option.split)

lemma check_stats:
  assumes "check_and_add sha256 sizing t0 t1 m pid = Inr (d, m')"
  shows "packets_processed (dd_stats m') = packets_processed (dd_stats m) + 1"
    and "duplicates_detected (dd_stats m') = duplicates_detected (dd_stats m) + (if d then 1 else 0)"
    and "false_positives (dd_stats m') = false_positives (dd_stats m)"
proof -
  let ?m1 = "m\<lparr>dd_stats := (dd_stats m)\<lparr>packets_processed := packets_processed (dd_stats m) + 1\<rparr>\<rparr>"
  let ?m2 = "if d then ?m1\<lparr>dd_stats := (dd_stats ?m1)
    \<lparr>duplicates_detected := duplicates_detected (dd_stats ?m1) + 1\<rparr>\<rparr> else ?m1"
  from assms obtain f where "m' = rotate_if_needed sizing t0 t1 (?m2\<lparr>primary_filter := f\<rparr>)"
    unfolding check_and_add_def Let_def rbind_eq_Inr by fastforce
  then show "packets_processed (dd_stats m') = packets_processed (dd_stats m) + 1"
    and "duplicates_detected (dd_stats m') = duplicates_detected (dd_stats m) + (if d then 1 else 0)"
    and "false_positives (dd_stats m') = false_positives (dd_stats m)"
    by simp_all
qed

definition figures_ok :: "nat \<Rightarrow> deduplication_stats \<Rightarrow> bool" where
  "figures_ok n s \<longleftrightarrow> unat (packets_processed s) \<le> n \<and>
     unat (duplicates_detected s) \<le> unat (packets_processed s) \<and> false_positives s = 0"

lemma figures_ok_check:
  assumes "check_and_add sha256 sizing t0 t1 m pid = Inr (d, m')" and "figures_ok n (dd_stats m)"
    and "Suc n < 2 ^ 64"
  shows "figures_ok (Suc n) (dd_stats m')"
proof -
  note eqs = check_stats [OF assms(1)]
  have "unat (packets_processed (dd_stats m) + 1) = Suc (unat (packets_processed (dd_stats m)))"
    and "unat (duplicates_detected (dd_stats m) + 1) = Suc (unat (duplicates_detected (dd_stats m)))"
    using assms(2,3) by (auto intro!: unat_Suc simp: figures_ok_def)
  then show ?thesis using assms(2) by (auto simp: figures_ok_def eqs)
qed

lemma figures_ok_mono: "figures_ok n s \<Longrightarrow> n \<le> k \<Longrightarrow> figures_ok k s"
  by (simp add: figures_ok_def)

lemma figures_ok_run:
  "dedup_run sha256 sizing ops m = Inr (bs, m') \<Longrightarrow> figures_ok n (dd_stats m) \<Longrightarrow> n + length ops < 2 ^ 64 \<Longrightarrow>
   figures_ok (n + length ops) (dd_stats m')"
proof (induction ops arbitrary: m n bs)
  case (Cons op ops)
  obtain m1 bs1 where run: "dedup_run sha256 sizing ops m1 = Inr (bs1, m')" and ok: "figures_ok (Suc n) (dd_stats m1)"
  proof (cases op)
    case (Check pid t0 t1)
    with Cons.prems(1) obtain d m1 bs1 where "check_and_add sha256 sizing t0 t1 m pid = Inr (d, m1)"
      "dedup_run sha256 sizing ops m1 = Inr (bs1, m')" by (auto simp: rbind_eq_Inr)
    with figures_ok_check [OF this(1) Cons.prems(2)] Cons.prems(3) show ?thesis by (intro that) auto
  next
    case (Maintain t0 t1 t2)
    with Cons.prems show ?thesis by (intro that) (auto simp: figures_ok_def maintain_stats)
  next
    case (Rotate t)
    with Cons.prems show ?thesis by (intro that) (auto simp: figures_ok_def rotate_filters_def)
  next
    case (Clear t)
    with Cons.prems show ?thesis by (intro that) (auto simp: figures_ok_def dedup_clear_def stats_default_def)
  qed
  from Cons.IH [OF run ok] Cons.prems(3) show ?case by simp
qed simp

lemma ln2_bounds: "0 < ln (2 :: real)" "ln (2 :: real) < 1"
  by (simp_all add: ln_2_less_1)

section \<open>Properties\<close>

text \<open>The success rate of the delivery tracker is the share of the confirmed messages among the finished ones.\<close>

theorem delivery_success_rate:
  assumes "length (dt_messages t) < 2 ^ 32"
  shows "stats_success_rate (tracker_get_stats t) =
      ratio (with_status DsConfirmed (map snd (dt_messages t)))
        (length (filter finished (map snd (dt_messages t))))"
    and "0 \<le> stats_success_rate (tracker_get_stats t) \<and> stats_success_rate (tracker_get_stats t) \<le> 1"
proof -
  let ?ms = "map snd (dt_messages t)"
  let ?n = "with_status DsConfirmed ?ms + with_status DsFailed ?ms + with_status DsCancelled ?ms"
  have "?n \<le> length ?ms" by (rule with_status_le)
  then have small: "?n < 2 ^ 32" using assms by simp
  have "ds_confirmed (tracker_get_stats t) + ds_failed (tracker_get_stats t) + ds_cancelled (tracker_get_stats t) =
      of_nat ?n"
    by (simp add: tracker_get_stats_eq)
  then have "stats_success_rate (tracker_get_stats t) = ratio (with_status DsConfirmed ?ms) ?n"
    using ratio_u32 [OF _ small, of "with_status DsConfirmed ?ms"]
    by (simp only: stats_success_rate_def Let_def tracker_get_stats_eq)
  then show eq: "stats_success_rate (tracker_get_stats t) =
      ratio (with_status DsConfirmed ?ms) (length (filter finished ?ms))"
    by (simp only: with_status_finished)
  show "0 \<le> stats_success_rate (tracker_get_stats t) \<and> stats_success_rate (tracker_get_stats t) \<le> 1"
    unfolding eq with_status_finished by (rule quotient_bounds) simp
qed

text \<open>The statistics of the runtime tracker: the rates of success and of failure add up to at most one.\<close>

theorem runtime_rates:
  assumes "length (dt_messages t) < 2 ^ 64"
  shows "0 \<le> runtime_success_rate (get_statistics t)" and "0 \<le> runtime_failure_rate (get_statistics t)"
    and "runtime_success_rate (get_statistics t) + runtime_failure_rate (get_statistics t) \<le> 1"
proof -
  let ?ms = "map snd (dt_messages t)"
  have le: "with_status DsConfirmed ?ms + with_status DsFailed ?ms \<le> length (dt_messages t)"
    using with_status_le [of ?ms] by simp
  then have c: "with_status DsConfirmed ?ms < 2 ^ 64" "with_status DsFailed ?ms < 2 ^ 64"
    using assms by simp_all
  have "runtime_success_rate (get_statistics t) = ratio (with_status DsConfirmed ?ms) (length (dt_messages t))"
    "runtime_failure_rate (get_statistics t) = ratio (with_status DsFailed ?ms) (length (dt_messages t))"
    using c unat_small_u64 [OF assms]
    by (auto simp: runtime_success_rate_def runtime_failure_rate_def get_statistics_def fold_statistics_count
        ratio_def unat_small_u64)
  moreover have "ratio (with_status DsConfirmed ?ms) (length (dt_messages t)) +
      ratio (with_status DsFailed ?ms) (length (dt_messages t)) \<le> 1"
    using le by (auto simp: ratio_def add_divide_distrib [symmetric] simp flip: of_nat_add)
  ultimately show "0 \<le> runtime_success_rate (get_statistics t)" and "0 \<le> runtime_failure_rate (get_statistics t)"
    and "runtime_success_rate (get_statistics t) + runtime_failure_rate (get_statistics t) \<le> 1"
    by (simp_all add: ratio_def)
qed

text \<open>At most all delivered messages are read; but the rate of confirmations divides by the messages that still wait for
  one, and is zero once every message has been confirmed.\<close>

theorem receipt_rates:
  shows "0 \<le> read_rate (get_enhanced_stats e) \<and> read_rate (get_enhanced_stats e) \<le> 1"
    and "with_status DsSent (map snd (dt_messages (et_tracker e))) = 0 \<Longrightarrow>
      delivery_confirmation_rate (get_enhanced_stats e) = 0"
proof -
  have imp: "is_read s \<Longrightarrow> is_delivered s" for s by (cases s) auto
  have "length (filter is_read ss) \<le> length (filter is_delivered ss)" for ss
    by (induction ss) (auto dest: imp)
  from this [of "map snd (et_statuses e)"] show "0 \<le> read_rate (get_enhanced_stats e) \<and> read_rate (get_enhanced_stats e) \<le> 1"
    by (simp add: read_rate_def get_enhanced_stats_def del: filter_map)
  show "delivery_confirmation_rate (get_enhanced_stats e) = 0"
    if "with_status DsSent (map snd (dt_messages (et_tracker e))) = 0"
    using that by (simp add: delivery_confirmation_rate_def get_enhanced_stats_def tracker_get_stats_eq)
qed

text \<open>In every reachable file manager the progress of a session is between zero and one, and one exactly if no chunk is
  missing.\<close>

theorem session_progress_correct:
  assumes "reachable (\<lambda>mgr. mgr = file_manager_new) (file_step sha256) mgr" and "map_of mgr i = Some s"
  shows "0 \<le> session_progress s \<and> session_progress s \<le> 1"
    and "session_progress s = 1 \<longleftrightarrow> list_all (\<lambda>r. r) (fs_chunks_received s)"
proof -
  have "session_ok i s"
    using file_transfer.invar_reachable [OF assms(1)] assms(2) by (simp add: file_manager_ok_def)
  then have len: "length (fs_chunks_received s) = unat (fs_total_chunks s)" by (simp add: session_ok_def)
  then have zero: "fs_total_chunks s = 0 \<Longrightarrow> fs_chunks_received s = []" by simp
  have le: "length (filter (\<lambda>r. r) (fs_chunks_received s)) \<le> unat (fs_total_chunks s)"
    using len length_filter_le [of "\<lambda>r. r" "fs_chunks_received s"] by simp
  have all: "length (filter (\<lambda>r. r) xs) = length xs \<longleftrightarrow> list_all (\<lambda>r. r) xs" for xs
    by (metis (mono_tags, lifting) filter_True length_filter_less less_irrefl_nat list_all_iff)
  show "0 \<le> session_progress s \<and> session_progress s \<le> 1"
    using le by (auto simp: session_progress_def unat_gt_0 simp del: of_nat_unat)
  show "session_progress s = 1 \<longleftrightarrow> list_all (\<lambda>r. r) (fs_chunks_received s)"
    using all [of "fs_chunks_received s"] zero
    by (auto simp: session_progress_def len unat_eq_zero simp del: of_nat_unat)
qed

text \<open>The percentage of connected peers is between zero and a hundred, and a hundred exactly if there are peers and all
  are connected; the quality scores have one entry for each peer.\<close>

theorem connected_percentage_correct:
  fixes cm :: connection_manager
  defines "d \<equiv> get_state_counts cm"
  shows "0 \<le> connected_percentage d \<and> connected_percentage d \<le> 100"
    and "connected_percentage d = 100 \<longleftrightarrow>
      cm_connections cm \<noteq> [] \<and> (\<forall>(pid, s) \<in> set (cm_connections cm). in_connected_state s)"
    and "map_of (get_quality_scores now cm) pid = map_option (quality_score now) (map_of (cm_connections cm) pid)"
proof -
  let ?ss = "map snd (cm_connections cm)"
  have le: "length (filter in_connected_state ?ss) \<le> length ?ss" by (rule length_filter_le)
  have eq: "connected_percentage d =
      (if ?ss = [] then 0 else of_nat (length (filter in_connected_state ?ss)) / of_nat (length ?ss) * 100)"
    by (simp add: connected_percentage_def d_def get_state_counts_def count_connections_total count_connections_connected)
  show "0 \<le> connected_percentage d \<and> connected_percentage d \<le> 100"
    unfolding eq using le by (auto simp: divide_le_eq)
  have all: "length (filter in_connected_state xs) = length xs \<longleftrightarrow> (\<forall>x\<in>set xs. in_connected_state x)" for xs
    using filter_id_conv length_filter_less by (metis less_irrefl_nat)
  show "connected_percentage d = 100 \<longleftrightarrow>
      cm_connections cm \<noteq> [] \<and> (\<forall>(pid, s) \<in> set (cm_connections cm). in_connected_state s)"
    unfolding eq using all [of ?ss] by (auto simp: divide_eq_eq)
  show "map_of (get_quality_scores now cm) pid = map_option (quality_score now) (map_of (cm_connections cm) pid)"
    by (simp add: get_quality_scores_def map_of_map)
qed

text \<open>In every run that is not longer than its counters, the duplicate rate lies between zero and one; the rate of false
  positives is always zero, since no operation counts one.\<close>

theorem deduplication_rates:
  assumes "dedup_run sha256 sizing ops (dedup_new sizing now n r) = Inr (bs, m)" and "length ops < 2 ^ 64"
  shows "0 \<le> duplicate_rate (dd_stats m) \<and> duplicate_rate (dd_stats m) \<le> 1"
    and "stats_false_positive_rate (dd_stats m) = 0"
proof -
  have "figures_ok 0 (dd_stats (dedup_new sizing now n r))"
    by (simp add: figures_ok_def dedup_new_def stats_default_def)
  from figures_ok_run [OF assms(1) this] assms(2) have "figures_ok (length ops) (dd_stats m)" by simp
  then show "0 \<le> duplicate_rate (dd_stats m) \<and> duplicate_rate (dd_stats m) \<le> 1"
    and "stats_false_positive_rate (dd_stats m) = 0"
    by (auto simp: figures_ok_def duplicate_rate_def stats_false_positive_rate_def unat_gt_0 simp del: of_nat_unat)
qed

text \<open>With a rate of at most one half and at least one expected packet, the sizing the code computes has a bit and a hash
  function, as the correctness of the manager assumes. Without an expected packet it has neither.\<close>

theorem mesh_sizing_usable:
  shows "0 < n \<Longrightarrow> 0 < p \<Longrightarrow> p \<le> 1 / 2 \<Longrightarrow> 0 < fst (mesh_sizing n p) \<and> 0 < snd (mesh_sizing n p)"
    and "mesh_sizing 0 p = (0, 0)"
proof -
  show "mesh_sizing 0 p = (0, 0)"
    by (simp add: mesh_sizing_def optimal_bit_size_def optimal_hash_functions_def)
  assume n: "0 < n" and p: "0 < p" "p \<le> 1 / 2"
  define x where "x = - (of_nat n * ln p) / (ln 2)\<^sup>2"
  have "ln p \<le> ln (1 / 2)" using p by (subst ln_le_cancel_iff) auto
  then have lnp: "ln 2 \<le> - ln p" by (simp add: ln_div)
  have "of_nat n * ln 2 \<le> of_nat n * (- ln p)" using lnp by (intro mult_left_mono) auto
  then have x: "of_nat n / ln 2 \<le> x"
    using ln2_bounds by (simp add: x_def power2_eq_square field_simps)
  have "0 < of_nat n / ln (2 :: real)" using n ln2_bounds by simp
  then have pos: "0 < x" using x by linarith
  have m: "x \<le> of_nat (optimal_bit_size n p)"
    unfolding optimal_bit_size_def x_def [symmetric] by linarith
  then have "1 \<le> of_nat (optimal_bit_size n p) / of_nat n * ln (2 :: real)"
    using order_trans [OF x m] n ln2_bounds by (simp add: field_simps)
  then have "1 \<le> \<lfloor>of_nat (optimal_bit_size n p) / of_nat n * ln (2 :: real) + 1 / 2\<rfloor>" by linarith
  then show "0 < fst (mesh_sizing n p) \<and> 0 < snd (mesh_sizing n p)"
    using m pos by (simp add: mesh_sizing_def Let_def optimal_hash_functions_def)
qed

text \<open>A manager that expects no packets takes every packet for a duplicate, also the first one.\<close>

theorem no_expected_packets:
  "dedup_is_duplicate sha256 (dedup_new mesh_sizing now 0 p) pid = Inr True"
  by (simp add: dedup_is_duplicate_def dedup_new_def for_mesh_routing_def mesh_sizing_usable(2) bloom_new_def
      bloom_contains_def in_secondary_def)

text \<open>So the manager for the Bluetooth mesh, with a thousand packets and half a percent, runs without a panic and as the
  window of the current and the previous period does.\<close>

theorem ble_mesh_manager_correct:
  "\<exists>m. dedup_run sha256 mesh_sizing ops (dedup_new mesh_sizing now 1000 (1 / 200)) =
     Inr (fst (window_run sha256 (mesh_sizing 1000 (1 / 200)) ops \<lparr>w_recent = {}, w_since = now, w_old = None\<rparr>), m)"
proof -
  have "0 < fst (mesh_sizing 1000 (1 / 200))" using mesh_sizing_usable(1) [of 1000 "1 / 200"] by simp
  from run_rel [OF new_rel [of mesh_sizing 1000 "1 / 200", OF this]] show ?thesis by blast
qed

section \<open>Witnesses\<close>

theorem delivery_success_rate_witness: "stats_success_rate (tracker_get_stats toy_tracker) = 1"
proof -
  have "map tm_status (map snd (dt_messages toy_tracker)) = [DsPending, DsConfirmed]"
    by (simp add: toy_tracker_def tracker_with_config_def track_message_def confirm_delivery_def
        update_message_def tracked_new_def message_mark_confirmed_def)
  then show ?thesis
    by (subst delivery_success_rate(1)) (auto simp: ratio_def finished_def with_status_def)
qed

theorem deduplication_rates_witness:
  "\<exists>m. dedup_run toy_sha256 toy_sizing [Rotate 7] (dedup_new toy_sizing 5 9 ()) = Inr ([], m) \<and>
     stats_false_positive_rate (dd_stats m) = 0"
  using deduplication_rates(2) [of toy_sha256 toy_sizing "[Rotate 7]" 5 9 "()"] by simp

theorem session_progress_correct_witness:
  "\<exists>i s. map_of toy_file_manager i = Some s \<and> session_progress s \<le> 1"
  using session_progress_correct(1) [OF toy_file_manager_reachable]
  by (auto simp: toy_file_manager_def start_transfer_def file_manager_new_def has_key_def Let_def)

end
