(* ===== verification/Spec2Isabelle.thy ===== *)
theory Spec2Isabelle
  imports Wire Announce App_Message Fragmentation Noise_Session Connection Deduplication
    Rate_Limiter Delivery Message_Store Core_Task
    File_Transfer Group_Messaging Session_Sync Capabilities Advanced_Failover Monitoring
    Nostr_Embedding Nostr_Relays Nostr_Transport Identity Geohash Ble_Mesh Verification
    Runtime_Wiring Cli_App Web_App Network_Analysis Transport_Harness Mock_Transport Scenario_Config
    Client_Bridge Statistics
begin

text \<open>
  A verification library for \<^verbatim>\<open>bitchat-rs\<close>, a peer-to-peer chat program: packets travel over Bluetooth
  or over Nostr relays, a core task owns the state of the application, and clients exchange commands and events
  with it. The definitions translate the Rust sources function by function; the theorems state what each part
  guarantees, and, where the code does not do what it means to, what it does instead.

  \<^bold>\<open>The program and the theories.\<close> The names below are files under \<^verbatim>\<open>src/crates/\<close>; every theory opens with the files it
  models.

  \<^item> \<^bold>\<open>Foundations.\<close> \<open>Errors\<close> (\<^verbatim>\<open>bitchat-core/src/errors.rs\<close>) has the errors and the type \<open>'a result\<close>; a panic is
    the error \<open>Panic\<close>, so that indexing, slicing and checked arithmetic are branches of the model. \<open>Prelude\<close> has the
    error monad \<open>rbind\<close>, slicing, big-endian and UTF-8 encodings, association lists for hash and tree maps, the
    collections of simplification rules and the locales the parts share. \<open>Core_Types\<close> (\<^verbatim>\<open>types.rs\<close>) has peer
    identifiers, times and TTLs, \<open>Crypto\<close> (\<^verbatim>\<open>protocol/crypto.rs\<close>) the wrappers around Ed25519 and SHA-256,
    \<open>Parsing\<close> the combinators of the hand-written parsers with the predicates their proofs use.

  \<^item> \<^bold>\<open>The protocol\<close> (\<^verbatim>\<open>bitchat-core/src/protocol/\<close>). \<open>Packet\<close> and \<open>Wire\<close> are the packet format (\<^verbatim>\<open>packet.rs\<close>,
    \<^verbatim>\<open>wire.rs\<close>), \<open>Tlv\<close> and \<open>Announce\<close> the discovery of peers, \<open>App_Message\<close> the messages inside packets
    (\<^verbatim>\<open>message.rs\<close>), \<open>Fragmentation\<close> their cutting and reassembly, \<open>Noise_Session\<close> the encrypted sessions and
    their manager, \<open>Connection\<close> the state machine of a peer (\<^verbatim>\<open>connection_state.rs\<close> and, of the runtime,
    \<^verbatim>\<open>managers/connection.rs\<close>), \<open>Deduplication\<close> the rotating Bloom filters, \<open>Acknowledgments\<close> and \<open>Delivery\<close> the
    receipts and the retries, \<open>Message_Store\<close> the content-addressed store, \<open>File_Transfer\<close>, \<open>Group_Messaging\<close>,
    \<open>Session_Sync\<close> and \<open>Capabilities\<close> the protocols on top.

  \<^item> \<^bold>\<open>Around the protocol\<close> (\<^verbatim>\<open>bitchat-core/src/\<close>). \<open>Failover\<close> and \<open>Advanced_Failover\<close> choose transports
    (\<^verbatim>\<open>transport/\<close>), \<open>Identity\<close> stores identities, \<open>Geohash\<close> has the location channels, \<open>Verification\<close> the QR
    codes, \<open>Configuration\<close> the settings with their validation, \<open>Monitoring\<close> the log and the health of the tasks,
    \<open>Channel_Messages\<close> the messages between tasks (\<^verbatim>\<open>channel/communication.rs\<close>), \<open>Statistics\<close> the rates
    and averages that several of these parts compute.

  \<^item> \<^bold>\<open>The runtime\<close> (\<^verbatim>\<open>bitchat-runtime/src/\<close>). \<open>Rate_Limiter\<close> stands before the core; \<open>Core_Logic\<close> and \<open>Core_Task\<close>
    (\<^verbatim>\<open>logic/\<close>) compose the sessions, connections, deduplication, delivery and store into the core task, one
    definition per handler; \<open>Runtime_Tasks\<close> (\<^verbatim>\<open>tasks.rs\<close>, \<^verbatim>\<open>supervisor.rs\<close>) is the decomposition into ingress,
    session and storage tasks, \<open>Runtime_Wiring\<close> (\<^verbatim>\<open>runtime.rs\<close>, \<^verbatim>\<open>builder.rs\<close>) what starts and stops the tasks.

  \<^item> \<^bold>\<open>The transports.\<close> \<open>Ble_Transport\<close> (\<^verbatim>\<open>bitchat-ble\<close>), with the advertising on each platform, and \<open>Ble_Mesh\<close>,
    the network that such tasks would form if every peripheral handed what is written to it to its task;
    \<open>Nostr_Embedding\<close>, \<open>Nostr_Relays\<close> and \<open>Nostr_Transport\<close> (\<^verbatim>\<open>bitchat-nostr\<close>).

  \<^item> \<^bold>\<open>The clients and the simulator.\<close> \<open>Terminal_Interface\<close> and \<open>Cli_App\<close> (\<^verbatim>\<open>bitchat-cli\<close>), \<open>Web_App\<close>
    (\<^verbatim>\<open>bitchat-web\<close>); under \<^verbatim>\<open>src/simulator/\<close> \<open>Simulator\<close> (packet router and virtual clock), \<open>Network_Analysis\<close>, \<open>Scenario_Config\<close> and
    \<open>Scenario_Executor\<close> (scenarios, their execution and verdict), \<open>Transport_Harness\<close> and \<open>Mock_Transport\<close> (what
    tests are written against), \<open>Client_Bridge\<close> (the clients a test starts).

  \<^bold>\<open>How the parts interact.\<close> A client sends commands over a bounded channel to the core task, which answers with
  application events and emits effects for the transports; a transport reports what it receives as events of the core.
  Bounded channels are lists with a capacity: \<^verbatim>\<open>try_send\<close> on a full channel is an error value, as in the code. Tasks
  interleave as explicit sequences of steps (\<open>Runtime_Tasks\<close>, \<open>Ble_Mesh\<close>, \<open>Cli_App\<close>); what a step of the rest of the
  system may do is an argument of the run and quantified over in the theorems.

  \<^bold>\<open>State and operations.\<close> A struct is a \<open>record\<close> with the fields of the source (prefixed where the names clash), an
  enum a \<open>datatype\<close> with its constructors. A method that changes its receiver returns the new state, together with its
  result where it has one; on an error the state is the one the code leaves behind, partial updates included. Integers
  have their width (\<open>u8\<close> to \<open>u64\<close>) where the code computes with them; lengths and counters which cannot come near
  their width are natural numbers, and each theory says which. Arithmetic that panics in builds with overflow
  checks takes the flag \<open>checked\<close>. Floating-point settings and ratios are rational numbers. The order in which a hash
  map is iterated is an argument wherever the result depends on it.

  \<^bold>\<open>What is an argument.\<close> Code outside the repository is never defined here: Ed25519, SHA-256, snow, zlib, AES-GCM,
  bincode, JSON, base64, hex, the geohash encoder, nostr_sdk, the
  radio and the advertisers of the platforms, randomness and clock readings are arguments of
  the definitions that use them. What is relied on is stated as a hypothesis (a codec decodes what it encoded, a signature
  made with a key verifies under its public key, a clock does not run backwards), and for each such theorem there
  is a witness in which a concrete function satisfies the hypotheses.

  \<^bold>\<open>Interfaces.\<close> \<open>Prelude\<close> states four contracts as locales. \<open>byte_enum\<close> is an enumeration with a byte code; it is
  interpreted on the message types, payload types and TLV types. \<open>wire_codec\<close> is an encoder and a decoder that
  are inverse on valid values, and \<open>canonical_codec\<close> extends it by inputs that have only one decoding; they are interpreted on
  version 1 packets, announcements, messages, payloads, fragments and TLV lists. \<open>invariant_system\<close> is a state with initial
  states, steps and an invariant; it is interpreted on the reassembler, sessions, connections, delivery, the store, files,
  groups, devices, capabilities, Bluetooth peers,
  pages of the browser client, the executor of scenarios and the bridge to its clients, and gives their properties over all runs. \<open>window_limiter\<close> in
  \<open>Rate_Limiter\<close> is a system that counts events in a sliding window; it is interpreted on the four limits and on
  the core task. \<open>storage_laws\<close> in \<open>Identity\<close> is the storage interface of the code, interpreted on the in-memory storage;
  that a storage keeps its data over a restart is a further hypothesis (\<open>persistent\<close>), which the in-memory one does
  not meet.

  \<^bold>\<open>What the lemmas show.\<close>
  \<^item> Formats: round trips and canonicity for packets, headers, messages, TLV lists, announcements, receipts, fragments
    and embedded Nostr packets, the sizes at which encoders fail, and the inputs on which a parser panics.
  \<^item> Signatures: a signed packet verifies, also after a relay has lowered its TTL; discovered peers are
    authenticated; what the signed bytes do not separate.
  \<^item> Reassembly, store, sessions, connections, groups, devices, files, identities: an invariant that every operation keeps,
    the answer of every operation on every branch, the errors, and the bounds of what is held.
  \<^item> Deduplication refines the window of the current and the previous period; the log is the window of the last events; the
    limiters never admit more than their limit in a window.
  \<^item> The core task: an invariant over all runs, that what it reports is stored, that it is rate limited, that only
    a shutdown ends it, and that with the state machine as it is it never sends. Its shutdown and that of the decomposed tasks terminate.
  \<^item> Bluetooth: a started task transmits nothing but its own advertisement; a task that has peers forwards to exactly
    the other ones, and flooding terminates in every topology.
  \<^item> The wiring and the clients: which tasks run after which calls, those included that a transport spawns itself and
    that outlive the runtime; what a client can and cannot show.
  \<^item> The simulator: the virtual and the mock network account for every packet, what the verdict of a scenario rests on,
    what the analysis of packets reports.

  \<^bold>\<open>Loops, fuel and bounds.\<close> Recursion is structural or over a measure wherever the loop of the source ends.
  The loops that wait for input run over the list of the inputs they receive (\<open>core_run\<close>, \<open>ble_run\<close>,
  \<open>nostr_run\<close>, \<open>terminal_loop\<close>, \<open>interactive_loop\<close>), of any length, and the theorems quantify over all such lists; no
  theorem depends on a chosen amount of fuel. Where a loop of the code does not end (the log with a limit of zero), not
  ending is the value \<open>None\<close> and is proved to be. The numeric limits are those of the code, as constants
  with its names.

  \<^bold>\<open>Not modelled.\<close> The device simulator
  (\<^verbatim>\<open>src/simulator/device\<close>: it drives emulators through external processes), the
  scenario files of the virtual simulator (lists of cases with sleeps and log lines), the tests, examples
  and build files; loading configurations through figment and clap; printed texts and log output;
  initialising the Bluetooth adapter for scanning (nothing calls it); the asynchronous wrappers around channels; the WASM variants of
  code that also exists natively; floating-point percentages used only in printed statistics.
\<close>

end
